(* ===== verification/Prelude.thy ===== *)
theory Prelude
  imports Main "HOL-Library.Word"
begin

text \<open>
  The prelude of the development: exceptions as values, the parts of the JavaScript
  language and standard library that the sources use (\<open>String.prototype.toLowerCase\<close>,
  \<open>BigInt(value)\<close>, \<open>bigint.toString(10)\<close>, \<open>Array.map\<close> with an index, \<open>Set\<close> sizes), the
  generic lemmas the components share and the interfaces (locales) several of them
  implement.

  Strings are lists of code units U+0000 to U+00FF; the sources only compute with
  ASCII data (hexadecimal strings, decimal strings, labels).
\<close>

named_theorems result_simps \<open>inversion of sequenced computations that may throw\<close>
named_theorems literal_simps \<open>evaluation of string literals in concrete inputs\<close>

section \<open>Exceptions as values\<close>

text \<open>
  \<open>Error\<close> is an \<open>Error\<close> object thrown by the sources with its message; \<open>SyntaxError\<close> and
  \<open>RangeError\<close> are what \<open>BigInt\<close> throws; \<open>LibraryError\<close> is an exception of a library the
  sources call.
\<close>

datatype js_error = Error string | SyntaxError | RangeError | LibraryError

type_synonym 'a result = "js_error + 'a"

abbreviation throw :: "string \<Rightarrow> 'a result" where
  "throw msg \<equiv> Inl (Error msg)"

fun bnd :: "'e + 'a \<Rightarrow> ('a \<Rightarrow> 'e + 'b) \<Rightarrow> 'e + 'b" where
  "bnd (Inl e) f = Inl e"
| "bnd (Inr x) f = f x"

definition ensure :: "bool \<Rightarrow> string \<Rightarrow> unit result" where
  "ensure c msg = (if c then Inr () else throw msg)"

lemma bnd_eq_Inr [result_simps]: "bnd m f = Inr y \<longleftrightarrow> (\<exists>x. m = Inr x \<and> f x = Inr y)"
  by (cases m) auto

lemma bnd_eq_Inl [result_simps]:
  "bnd m f = Inl e \<longleftrightarrow> m = Inl e \<or> (\<exists>x. m = Inr x \<and> f x = Inl e)"
  by (cases m) auto

lemma bnd_Inr_right [simp]: "bnd m Inr = m"
  by (cases m) auto

lemma ensure_eq_Inr [result_simps]: "ensure c msg = Inr u \<longleftrightarrow> c"
  by (simp add: ensure_def)

lemma ensure_eq_Inl [result_simps]: "ensure c msg = Inl e \<longleftrightarrow> \<not> c \<and> e = Error msg"
  by (auto simp: ensure_def)

lemma ensure_simps [simp]: "ensure True msg = Inr ()" "ensure False msg = throw msg"
  by (simp_all add: ensure_def)

text \<open>\<open>try { ... } catch { ... }\<close>: the handler sees every exception.\<close>

fun catch :: "'a result \<Rightarrow> 'b \<Rightarrow> ('a \<Rightarrow> 'b) \<Rightarrow> 'b" where
  "catch (Inl e) h f = h"
| "catch (Inr x) h f = f x"

definition is_ok :: "'a result \<Rightarrow> bool" where
  "is_ok r \<longleftrightarrow> (case r of Inl _ \<Rightarrow> False | Inr _ \<Rightarrow> True)"

lemma is_ok_iff: "is_ok r \<longleftrightarrow> (\<exists>x. r = Inr x)"
  by (cases r) (auto simp: is_ok_def)

text \<open>\<open>values.map((value, index) => f(value, index))\<close> where \<open>f\<close> may throw.\<close>

fun map_index :: "(nat \<Rightarrow> 'a \<Rightarrow> 'b result) \<Rightarrow> nat \<Rightarrow> 'a list \<Rightarrow> 'b list result" where
  "map_index f i [] = Inr []"
| "map_index f i (x # xs) = bnd (f i x) (\<lambda>y. bnd (map_index f (Suc i) xs) (\<lambda>ys. Inr (y # ys)))"

lemma map_index_Inr:
  "map_index f i xs = Inr ys \<Longrightarrow>
     length ys = length xs \<and> (\<forall>k < length xs. f (i + k) (xs ! k) = Inr (ys ! k))"
proof (induction xs arbitrary: i ys)
  case Nil
  then show ?case by simp
next
  case (Cons x xs)
  then obtain y zs where ys: "ys = y # zs" and y: "f i x = Inr y"
    and zs: "map_index f (Suc i) xs = Inr zs"
    by (auto simp: result_simps)
  from Cons.IH [OF zs] y ys show ?case
    by (auto simp: nth_Cons split: nat.splits)
qed

lemma map_index_fixpoint:
  "(\<And>j x. x \<in> set xs \<Longrightarrow> f j (g x) = Inr x) \<Longrightarrow> map_index f i (map g xs) = Inr xs"
  by (induction xs arbitrary: i) auto

lemma map_index_set:
  "map_index f i xs = Inr ys \<Longrightarrow> y \<in> set ys \<Longrightarrow> \<exists>j. \<exists>x \<in> set xs. f j x = Inr y"
  by (induction xs arbitrary: i ys) (auto simp: result_simps, blast+)

section \<open>Strings\<close>

definition lower_char :: "char \<Rightarrow> char" where
  "lower_char c =
     (let n = (of_char c :: nat) in
      if (65 \<le> n \<and> n \<le> 90) \<or> (192 \<le> n \<and> n \<le> 222 \<and> n \<noteq> 215) then char_of (n + 32) else c)"

definition toLowerCase :: "string \<Rightarrow> string" where
  "toLowerCase s = map lower_char s"

lemma of_char_char_of_small: "n < 256 \<Longrightarrow> (of_char (char_of (n :: nat)) :: nat) = n"
  by simp

lemma lower_char_idem [simp]: "lower_char (lower_char c) = lower_char c"
  by (auto simp: lower_char_def Let_def of_char_char_of_small)

lemma toLowerCase_idem [simp]: "toLowerCase (toLowerCase s) = toLowerCase s"
  by (simp add: toLowerCase_def)

lemma toLowerCase_append [simp]: "toLowerCase (s @ t) = toLowerCase s @ toLowerCase t"
  by (simp add: toLowerCase_def)

lemma toLowerCase_simps [simp]:
  "toLowerCase [] = []" "toLowerCase (c # s) = lower_char c # toLowerCase s"
  by (simp_all add: toLowerCase_def)

lemma lower_char_0x [simp]: "lower_char (CHR ''0'') = CHR ''0''" "lower_char (CHR ''x'') = CHR ''x''"
  by (simp_all add: lower_char_def)

lemma length_toLowerCase [simp]: "length (toLowerCase s) = length s"
  by (simp add: toLowerCase_def)

lemma take_toLowerCase: "take n (toLowerCase s) = toLowerCase (take n s)"
  by (simp add: toLowerCase_def take_map)

lemma drop_toLowerCase: "drop n (toLowerCase s) = toLowerCase (drop n s)"
  by (simp add: toLowerCase_def drop_map)

text \<open>The characters \<open>0-9a-fA-F\<close>.\<close>

definition hex_digit :: "char \<Rightarrow> bool" where
  "hex_digit c =
     (let n = (of_char c :: nat) in
      (48 \<le> n \<and> n \<le> 57) \<or> (65 \<le> n \<and> n \<le> 70) \<or> (97 \<le> n \<and> n \<le> 102))"

lemma hex_digit_lower_char: "hex_digit c \<Longrightarrow> hex_digit (lower_char c)"
  by (auto simp: hex_digit_def lower_char_def Let_def of_char_char_of_small)

lemma list_all_hex_digit_lower: "list_all hex_digit s \<Longrightarrow> list_all hex_digit (toLowerCase s)"
  by (induction s) (auto simp: toLowerCase_def hex_digit_lower_char)

lemma of_char_lower_char:
  "(of_char (lower_char c) :: nat) =
     (if (65 \<le> (of_char c :: nat) \<and> (of_char c :: nat) \<le> 90) \<or>
         (192 \<le> (of_char c :: nat) \<and> (of_char c :: nat) \<le> 222 \<and> (of_char c :: nat) \<noteq> 215)
      then of_char c + 32 else of_char c)"
  by (simp add: lower_char_def Let_def of_char_char_of_small)

lemma lower_char_eq_zero_digit:
  assumes "lower_char c = CHR ''0''"
  shows "c = CHR ''0''"
proof -
  from assms have "(of_char (lower_char c) :: nat) = 48" by simp
  then have "(of_char c :: nat) = of_char (CHR ''0'')"
    by (auto simp: of_char_lower_char split: if_splits)
  then show ?thesis by (simp only: of_char_eq_iff)
qed

lemma toLowerCase_eq_zeros:
  "toLowerCase s = replicate n (CHR ''0'') \<Longrightarrow> s = replicate n (CHR ''0'')"
proof (induction s arbitrary: n)
  case Nil
  then show ?case by (simp add: toLowerCase_def)
next
  case (Cons c s)
  then obtain m where "n = Suc m" by (cases n) (auto simp: toLowerCase_def)
  with Cons show ?case by (auto simp: toLowerCase_def lower_char_eq_zero_digit)
qed

section \<open>Decimal rendering: \<open>bigint.toString(10)\<close>\<close>

definition digit_char :: "nat \<Rightarrow> char" where
  "digit_char d = char_of (48 + d)"

definition digit_value :: "char \<Rightarrow> nat" where
  "digit_value c = of_char c - 48"

definition decimal_digit :: "char \<Rightarrow> bool" where
  "decimal_digit c = (48 \<le> (of_char c :: nat) \<and> (of_char c :: nat) \<le> 57)"

fun show_nat :: "nat \<Rightarrow> string" where
  "show_nat n = (if n < 10 then [digit_char n] else show_nat (n div 10) @ [digit_char (n mod 10)])"

declare show_nat.simps [simp del]

definition show_int :: "int \<Rightarrow> string" where
  "show_int i = (if i < 0 then CHR ''-'' # show_nat (nat (- i)) else show_nat (nat i))"

definition read_digits :: "nat \<Rightarrow> string \<Rightarrow> nat" where
  "read_digits b s = foldl (\<lambda>acc c. b * acc + digit_value c) 0 s"

lemma digit_value_digit_char: "d < 10 \<Longrightarrow> digit_value (digit_char d) = d"
  by (simp add: digit_value_def digit_char_def)

lemma decimal_digit_digit_char: "d < 10 \<Longrightarrow> decimal_digit (digit_char d)"
  by (simp add: decimal_digit_def digit_char_def)

lemma read_digits_snoc: "read_digits b (s @ [c]) = b * read_digits b s + digit_value c"
  by (simp add: read_digits_def)

lemma read_show_nat [simp]: "read_digits 10 (show_nat n) = n"
proof (induction n rule: show_nat.induct)
  case (1 n)
  show ?case
  proof (cases "n < 10")
    case True
    then show ?thesis
      by (simp add: show_nat.simps [of n] read_digits_def digit_value_digit_char)
  next
    case False
    with "1.IH" show ?thesis
      by (simp add: show_nat.simps [of n] read_digits_snoc digit_value_digit_char)
  qed
qed

lemma show_nat_digits: "list_all decimal_digit (show_nat n)"
proof (induction n rule: show_nat.induct)
  case (1 n)
  then show ?case
    by (cases "n < 10") (simp_all add: show_nat.simps [of n] decimal_digit_digit_char)
qed

lemma show_nat_nonempty [simp]: "show_nat n \<noteq> []"
  by (subst show_nat.simps) simp

lemma show_nat_inject [simp]: "show_nat m = show_nat n \<longleftrightarrow> m = n"
  by (metis read_show_nat)

lemma show_nat_no_minus: "show_nat n \<noteq> CHR ''-'' # s"
proof
  assume "show_nat n = CHR ''-'' # s"
  with show_nat_digits [of n] show False by (simp add: decimal_digit_def)
qed

lemma show_int_inject [simp]: "show_int i = show_int j \<longleftrightarrow> i = j"
  using show_nat_no_minus show_nat_no_minus [symmetric]
  by (auto simp: show_int_def split: if_splits)

section \<open>\<open>BigInt(value)\<close>\<close>

text \<open>
  A \<open>BigNumberish\<close> is a bigint, a number or a string. A number is an integral double or not
  (a fraction, an infinity or NaN): nothing else about it matters to the sources.
\<close>

datatype js_number = IntegerNumber int | NonIntegerNumber

datatype bignumberish = BigIntV int | NumberV js_number | StringV string

definition js_space :: "char \<Rightarrow> bool" where
  "js_space c = ((of_char c :: nat) \<in> {9, 10, 11, 12, 13, 32, 160})"

definition trim :: "string \<Rightarrow> string" where
  "trim s = rev (dropWhile js_space (rev (dropWhile js_space s)))"

definition based_digit_value :: "char \<Rightarrow> nat" where
  "based_digit_value c =
     (let n = (of_char (lower_char c) :: nat) in if n \<le> 57 then n - 48 else n - 87)"

definition read_based :: "nat \<Rightarrow> string \<Rightarrow> int option" where
  "read_based b s =
     (if s \<noteq> [] \<and> list_all (\<lambda>c. hex_digit c \<and> based_digit_value c < b) s
      then Some (int (foldl (\<lambda>acc c. b * acc + based_digit_value c) 0 s)) else None)"

definition read_decimal :: "string \<Rightarrow> int option" where
  "read_decimal s =
     (if s \<noteq> [] \<and> list_all decimal_digit s then Some (int (read_digits 10 s)) else None)"

text \<open>StringToBigInt: \<open>None\<close> is a syntax error.\<close>

definition string_to_bigint :: "string \<Rightarrow> int option" where
  "string_to_bigint str =
     (let s = trim str in
      case s of
        [] \<Rightarrow> Some 0
      | [c] \<Rightarrow> read_decimal [c]
      | c # d # t \<Rightarrow>
          if c = CHR ''0'' \<and> d \<in> {CHR ''x'', CHR ''X''} then read_based 16 t
          else if c = CHR ''0'' \<and> d \<in> {CHR ''o'', CHR ''O''} then read_based 8 t
          else if c = CHR ''0'' \<and> d \<in> {CHR ''b'', CHR ''B''} then read_based 2 t
          else if c = CHR ''-'' then map_option uminus (read_decimal (d # t))
          else if c = CHR ''+'' then read_decimal (d # t)
          else read_decimal s)"

fun BigInt_of :: "bignumberish \<Rightarrow> int result" where
  "BigInt_of (BigIntV i) = Inr i"
| "BigInt_of (NumberV (IntegerNumber i)) = Inr i"
| "BigInt_of (NumberV NonIntegerNumber) = Inl RangeError"
| "BigInt_of (StringV s) = (case string_to_bigint s of None \<Rightarrow> Inl SyntaxError | Some i \<Rightarrow> Inr i)"

section \<open>Lists\<close>

lemma concat_same_length_inject:
  assumes "length xs = length ys"
    and "\<forall>x \<in> set xs. length x = n" and "\<forall>y \<in> set ys. length y = n"
    and "concat xs = concat ys"
  shows "xs = ys"
  using assms
proof (induction xs ys rule: list_induct2)
  case Nil
  then show ?case by simp
next
  case (Cons x xs y ys)
  then have "x = y \<and> concat xs = concat ys" by (simp add: append_eq_append_conv)
  with Cons show ?case by simp
qed

lemma find_table_iff:
  assumes "inj f" and "set xs = UNIV"
  shows "(case find (\<lambda>x. f x = n) xs of None \<Rightarrow> Inl e | Some x \<Rightarrow> Inr x) = Inr a \<longleftrightarrow> n = f a"
proof (cases "find (\<lambda>x. f x = n) xs")
  case None
  with assms(2) have "\<forall>x. f x \<noteq> n" by (auto simp: find_None_iff)
  with None show ?thesis by auto
next
  case (Some y)
  then have "f y = n" by (auto simp: find_Some_iff)
  with Some assms(1) show ?thesis by (auto dest: injD)
qed

lemma find_SomeD: "find P xs = Some x \<Longrightarrow> x \<in> set xs \<and> P x"
  by (auto simp: find_Some_iff)

section \<open>Interfaces\<close>

text \<open>
  A normaliser takes an input (of the wider type the API accepts) to a value of the narrower
  type, or throws. The values it returns are accepted again, unchanged, when they are passed
  back in as inputs: this is what every operation of the account core relies on, since it
  re-normalises the state it is given.
\<close>

locale normaliser =
  fixes laws :: "'e \<Rightarrow> bool"
    and norm :: "'e \<Rightarrow> 'i \<Rightarrow> 'o result"
    and embed :: "'o \<Rightarrow> 'i"
  assumes norm_stable: "laws e \<Longrightarrow> norm e i = Inr out \<Longrightarrow> norm e (embed out) = Inr out"
begin

definition canonical :: "'e \<Rightarrow> 'o \<Rightarrow> bool" where
  "canonical e out \<longleftrightarrow> norm e (embed out) = Inr out"

lemma canonical_result: "laws e \<Longrightarrow> norm e i = Inr out \<Longrightarrow> canonical e out"
  unfolding canonical_def by (rule norm_stable)

lemma canonical_fixed: "canonical e out \<Longrightarrow> norm e (embed out) = Inr out'  \<Longrightarrow> out' = out"
  unfolding canonical_def by simp

lemma canonical_iff_range: "laws e \<Longrightarrow> canonical e out \<longleftrightarrow> (\<exists>i. norm e i = Inr out)"
  unfolding canonical_def using norm_stable by blast

end

text \<open>
  A one-shot ledger: an operation that records a token and refuses one it has recorded. Over
  any sequence of successful uses every token occurs once, and none that was recorded before.
\<close>

locale one_shot_ledger =
  fixes valid :: "'s \<Rightarrow> bool"
    and recorded :: "'s \<Rightarrow> 't list"
    and use :: "'s \<Rightarrow> 'u \<Rightarrow> 's result"
    and token :: "'u \<Rightarrow> 't"
  assumes use_valid: "valid s \<Longrightarrow> use s u = Inr s' \<Longrightarrow> valid s'"
    and use_records: "valid s \<Longrightarrow> use s u = Inr s' \<Longrightarrow> recorded s' = recorded s @ [token u]"
    and use_fresh: "valid s \<Longrightarrow> use s u = Inr s' \<Longrightarrow> token u \<notin> set (recorded s)"
begin

fun use_all :: "'s \<Rightarrow> 'u list \<Rightarrow> 's result" where
  "use_all s [] = Inr s"
| "use_all s (u # us) = bnd (use s u) (\<lambda>s'. use_all s' us)"

lemma use_all_records:
  "valid s \<Longrightarrow> use_all s us = Inr s' \<Longrightarrow> recorded s' = recorded s @ map token us"
proof (induction us arbitrary: s)
  case Nil
  then show ?case by simp
next
  case (Cons u us)
  then obtain t where t: "use s u = Inr t" and rest: "use_all t us = Inr s'"
    by (auto simp: result_simps)
  from Cons.IH [OF use_valid [OF Cons.prems(1) t] rest] use_records [OF Cons.prems(1) t]
  show ?case by simp
qed

lemma use_all_distinct:
  "valid s \<Longrightarrow> use_all s us = Inr s' \<Longrightarrow>
     distinct (map token us) \<and> set (map token us) \<inter> set (recorded s) = {}"
proof (induction us arbitrary: s)
  case Nil
  then show ?case by simp
next
  case (Cons u us)
  then obtain t where t: "use s u = Inr t" and rest: "use_all t us = Inr s'"
    by (auto simp: result_simps)
  from Cons.IH [OF use_valid [OF Cons.prems(1) t] rest] use_records [OF Cons.prems(1) t]
    use_fresh [OF Cons.prems(1) t]
  show ?case by auto
qed

lemma recorded_token_refused:
  "valid s \<Longrightarrow> token u \<in> set (recorded s) \<Longrightarrow> \<exists>e. use s u = Inl e"
  using use_fresh by (cases "use s u") auto

end

text \<open>
  A transition system with an invariant that its steps keep; reachability and the lifting of
  the invariant to every reachable state.
\<close>

locale invariant_system =
  fixes step :: "'s \<Rightarrow> 's \<Rightarrow> bool"
    and inv :: "'s \<Rightarrow> bool"
  assumes step_inv: "inv s \<Longrightarrow> step s t \<Longrightarrow> inv t"
begin

lemma star_inv: "step\<^sup>*\<^sup>* s t \<Longrightarrow> inv s \<Longrightarrow> inv t"
  by (induction rule: rtranclp_induct) (auto intro: step_inv)

lemma star_preserves:
  assumes "step\<^sup>*\<^sup>* s t" and "inv s"
    and "\<And>x y. inv x \<Longrightarrow> step x y \<Longrightarrow> P x y"
    and "\<And>x. P x x" and "\<And>x y z. P x y \<Longrightarrow> P y z \<Longrightarrow> P x z"
  shows "P s t"
  using assms(1)
proof (induction rule: rtranclp_induct)
  case base
  show ?case by (rule assms(4))
next
  case (step y z)
  from step.hyps(1) assms(2) have "inv y" by (rule star_inv)
  from assms(3) [OF this step.hyps(2)] step.IH show ?case by (blast intro: assms(5))
qed

end

end
