(* ===== verification/Ethers.thy ===== *)
theory Ethers
  imports Prelude
begin

text \<open>
  The \<^emph>\<open>ethers\<close> library, which the sources call and do not contain, is a parameter: a record of
  the functions they use. What the sources rely on is stated as named laws
  (\<open>isHexString_law\<close>, \<open>getAddress_law\<close>, \<open>keccak256_law\<close>, \<open>concat_law\<close>, \<open>abi_law\<close>,
  \<open>utf8_law\<close>), each the documented behaviour of one function. Hash functions are never
  assumed injective: a statement about digests names the inputs that were hashed and says
  that two different ones of them have the same digest otherwise (\<open>keccak_collision\<close>). The last section gives a concrete instance that satisfies every law.
\<close>

section \<open>The functions the sources use\<close>

text \<open>\<open>BytesLike\<close>: a hexadecimal data string or a byte array.\<close>

datatype bytes_like = HexData string | ByteArray "8 word list"

datatype abi_value = AbiUint int | AbiHex string

text \<open>
  \<open>getAddress\<close> throws on anything that is not an address (\<open>None\<close>). \<open>AbiCoder.encode\<close>,
  \<open>concat\<close> and \<open>keccak256\<close> are only applied to values that have been checked against their
  types, where they do not throw.
\<close>

record ethers =
  getAddress :: "string \<Rightarrow> string option"
  isHexString :: "string \<Rightarrow> nat \<Rightarrow> bool"
  keccak256 :: "bytes_like \<Rightarrow> string"
  abiEncode :: "string list \<Rightarrow> abi_value list \<Rightarrow> string"
  hexConcat :: "string list \<Rightarrow> string"
  toUtf8Bytes :: "string \<Rightarrow> bytes_like"

section \<open>Constants shared by the sources\<close>

definition ZERO_BYTES32 :: string where
  "ZERO_BYTES32 = ''0x'' @ concat (replicate 32 ''00'')"

definition ZERO_ADDRESS :: string where
  "ZERO_ADDRESS = ''0x0000000000000000000000000000000000000000''"

lemma concat_replicate_pair: "concat (replicate n [c, c]) = replicate (2 * n) c"
  by (induction n) auto

lemma ZERO_BYTES32_alt: "ZERO_BYTES32 = ''0x'' @ replicate 64 (CHR ''0'')"
  by (simp add: ZERO_BYTES32_def concat_replicate_pair)

section \<open>The laws\<close>

definition hex_string :: "string \<Rightarrow> nat \<Rightarrow> bool" where
  "hex_string s n \<longleftrightarrow> take 2 s = ''0x'' \<and> length s = 2 + 2 * n \<and> list_all hex_digit (drop 2 s)"

definition isHexString_law :: "ethers \<Rightarrow> bool" where
  "isHexString_law E \<longleftrightarrow> (\<forall>s n. isHexString E s n = hex_string s n)"

text \<open>The checksummed address that \<open>getAddress\<close> returns is itself accepted and unchanged.\<close>

definition getAddress_law :: "ethers \<Rightarrow> bool" where
  "getAddress_law E \<longleftrightarrow> (\<forall>a b. getAddress E a = Some b \<longrightarrow> getAddress E b = Some b)"

definition keccak256_law :: "ethers \<Rightarrow> bool" where
  "keccak256_law E \<longleftrightarrow>
     (\<forall>x. hex_string (keccak256 E x) 32 \<and> toLowerCase (keccak256 E x) = keccak256 E x)"

definition concat_law :: "ethers \<Rightarrow> bool" where
  "concat_law E \<longleftrightarrow>
     (\<forall>xs. (\<forall>x \<in> set xs. \<exists>n. hex_string x n) \<longrightarrow>
        hexConcat E xs = toLowerCase (''0x'' @ concat (map (drop 2) xs)))"

text \<open>
  The values that fit an ABI type, for the static types the sources use, and the encoding of
  a tuple of static types: one 32-byte word per component, which determines the component.
\<close>

definition uint_fits :: "nat \<Rightarrow> int \<Rightarrow> bool" where
  "uint_fits bits n \<longleftrightarrow> 0 \<le> n \<and> n < 2 ^ bits"

fun abi_fits :: "ethers \<Rightarrow> string \<Rightarrow> abi_value \<Rightarrow> bool" where
  "abi_fits E t (AbiUint n) =
     ((t = ''uint8'' \<and> uint_fits 8 n) \<or> (t = ''uint48'' \<and> uint_fits 48 n) \<or>
      (t = ''uint64'' \<and> uint_fits 64 n) \<or> (t = ''uint192'' \<and> uint_fits 192 n) \<or>
      (t = ''uint256'' \<and> uint_fits 256 n))"
| "abi_fits E t (AbiHex s) =
     ((t = ''bytes32'' \<and> hex_string s 32 \<and> toLowerCase s = s) \<or>
      (t = ''address'' \<and> getAddress E s = Some s))"

definition abi_word_law :: "ethers \<Rightarrow> (string \<Rightarrow> abi_value \<Rightarrow> string) \<Rightarrow> bool" where
  "abi_word_law E w \<longleftrightarrow>
     (\<forall>ts vs. list_all2 (abi_fits E) ts vs \<longrightarrow>
        abiEncode E ts vs = ''0x'' @ concat (map2 w ts vs)) \<and>
     (\<forall>t v. abi_fits E t v \<longrightarrow> length (w t v) = 64 \<and> toLowerCase (w t v) = w t v) \<and>
     (\<forall>t v v'. abi_fits E t v \<longrightarrow> abi_fits E t v' \<longrightarrow> w t v = w t v' \<longrightarrow> v = v')"

definition abi_law :: "ethers \<Rightarrow> bool" where
  "abi_law E \<longleftrightarrow> (\<exists>w. abi_word_law E w)"

definition utf8_law :: "ethers \<Rightarrow> bool" where
  "utf8_law E \<longleftrightarrow>
     (\<forall>s. \<exists>bs. toUtf8Bytes E s = ByteArray bs) \<and> inj (toUtf8Bytes E)"

definition ethers_laws :: "ethers \<Rightarrow> bool" where
  "ethers_laws E \<longleftrightarrow>
     isHexString_law E \<and> getAddress_law E \<and> keccak256_law E \<and> concat_law E \<and> abi_law E \<and> utf8_law E"

text \<open>
  Two different members of a given set of hashed inputs with the same Keccak-256 digest. The
  set is always the finite set of inputs that the computations in question have hashed.
\<close>

definition keccak_collision :: "ethers \<Rightarrow> bytes_like set \<Rightarrow> bool" where
  "keccak_collision E S \<longleftrightarrow> (\<exists>a \<in> S. \<exists>b \<in> S. a \<noteq> b \<and> keccak256 E a = keccak256 E b)"

section \<open>Consequences of the laws\<close>

lemma laws_isHexString: "ethers_laws E \<Longrightarrow> isHexString E s n = hex_string s n"
  by (simp add: ethers_laws_def isHexString_law_def)

lemma laws_getAddress: "ethers_laws E \<Longrightarrow> getAddress E a = Some b \<Longrightarrow> getAddress E b = Some b"
  unfolding ethers_laws_def getAddress_law_def by blast

lemma laws_keccak256:
  "ethers_laws E \<Longrightarrow> hex_string (keccak256 E x) 32"
  "ethers_laws E \<Longrightarrow> toLowerCase (keccak256 E x) = keccak256 E x"
  by (simp_all add: ethers_laws_def keccak256_law_def)

lemma hex_string_lower: "hex_string s n \<Longrightarrow> hex_string (toLowerCase s) n"
  by (auto simp: hex_string_def take_toLowerCase drop_toLowerCase list_all_hex_digit_lower)

lemma hex_string_lower_zero:
  assumes "hex_string s 32" and "toLowerCase s = ZERO_BYTES32"
  shows "s = ZERO_BYTES32"
proof -
  from assms(1) have split: "s = ''0x'' @ drop 2 s"
    unfolding hex_string_def by (metis append_take_drop_id)
  from assms(2) have "toLowerCase (drop 2 s) = replicate 64 (CHR ''0'')"
    by (metis ZERO_BYTES32_alt append_eq_conv_conj drop_toLowerCase length_Cons list.size(3)
        numeral_2_eq_2)
  then have "drop 2 s = replicate 64 (CHR ''0'')" by (rule toLowerCase_eq_zeros)
  with split show ?thesis by (simp add: ZERO_BYTES32_alt)
qed

lemma hex_string_same_drop:
  assumes "hex_string s n" and "hex_string t m" and "drop 2 s = drop 2 t"
  shows "s = t"
  using assms unfolding hex_string_def by (metis append_take_drop_id)

text \<open>The ABI encoding of a tuple determines its components, and its first word the first one.\<close>

lemma abi_words:
  assumes "abi_word_law E w" and "list_all2 (abi_fits E) ts vs"
  shows "\<forall>x \<in> set (map2 w ts vs). length x = 64 \<and> toLowerCase x = x"
  using assms(2)
proof (induction rule: list_all2_induct)
  case Nil
  then show ?case by simp
next
  case (Cons t ts v vs)
  with assms(1) show ?case by (auto simp: abi_word_law_def)
qed

lemma abiEncode_words:
  assumes "abi_word_law E w" and "list_all2 (abi_fits E) ts vs"
  shows "abiEncode E ts vs = ''0x'' @ concat (map2 w ts vs)"
  using assms unfolding abi_word_law_def by blast

lemma concat_map2_inject:
  assumes w: "abi_word_law E w" and vs: "list_all2 (abi_fits E) ts vs"
    and us: "list_all2 (abi_fits E) ts us" and eq: "map2 w ts vs = map2 w ts us"
  shows "vs = us"
  using vs us eq
proof (induction ts vs arbitrary: us rule: list_all2_induct)
  case Nil
  then show ?case by simp
next
  case (Cons t ts v vs)
  then obtain u us' where us: "us = u # us'" and fit: "abi_fits E t u"
    and rest: "list_all2 (abi_fits E) ts us'"
    by (cases us) auto
  from Cons.prems(2) us have "w t v = w t u" and tail: "map2 w ts vs = map2 w ts us'" by auto
  with w Cons.hyps(1) fit have "v = u" unfolding abi_word_law_def by blast
  with us Cons.IH [OF rest tail] show ?case by simp
qed

lemma abiEncode_inject:
  assumes laws: "ethers_laws E" and vs: "list_all2 (abi_fits E) ts vs"
    and us: "list_all2 (abi_fits E) ts us" and eq: "abiEncode E ts vs = abiEncode E ts us"
  shows "vs = us"
proof -
  from laws obtain w where w: "abi_word_law E w" by (auto simp: ethers_laws_def abi_law_def)
  with vs us eq have "concat (map2 w ts vs) = concat (map2 w ts us)"
    unfolding abi_word_law_def by auto
  moreover have "length (map2 w ts vs) = length (map2 w ts us)"
    using vs us by (simp add: list_all2_lengthD [symmetric])
  ultimately have "map2 w ts vs = map2 w ts us"
    using abi_words [OF w vs] abi_words [OF w us]
    by (intro concat_same_length_inject [where n = 64]) auto
  with concat_map2_inject [OF w vs us] show ?thesis by blast
qed

lemma abiEncode_head:
  assumes laws: "ethers_laws E"
    and vs: "list_all2 (abi_fits E) (t # ts) (v # vs)"
    and us: "list_all2 (abi_fits E) (t # ts') (u # us)"
    and eq: "abiEncode E (t # ts) (v # vs) = abiEncode E (t # ts') (u # us)"
  shows "v = u"
proof -
  from laws obtain w where w: "abi_word_law E w" by (auto simp: ethers_laws_def abi_law_def)
  have "w t v @ concat (map2 w ts vs) = w t u @ concat (map2 w ts' us)"
    using eq by (simp add: abiEncode_words [OF w vs] abiEncode_words [OF w us])
  moreover have "length (w t v) = length (w t u)"
    using w vs us unfolding abi_word_law_def by (metis list_all2_Cons)
  ultimately have "w t v = w t u" by simp
  moreover have "abi_fits E t v" "abi_fits E t u" using vs us by auto
  ultimately show ?thesis using w unfolding abi_word_law_def by blast
qed

text \<open>Where no two hashed inputs collide, equal digests have equal inputs.\<close>

lemma keccak_eq_in:
  "\<not> keccak_collision E S \<Longrightarrow> a \<in> S \<Longrightarrow> b \<in> S \<Longrightarrow> keccak256 E a = keccak256 E b \<Longrightarrow> a = b"
  unfolding keccak_collision_def by blast

lemma keccak_abi_eq_in:
  assumes "\<not> keccak_collision E S"
    and "HexData (abiEncode E ts vs) \<in> S" and "HexData (abiEncode E ts' us) \<in> S"
    and "keccak256 E (HexData (abiEncode E ts vs)) = keccak256 E (HexData (abiEncode E ts' us))"
  shows "abiEncode E ts vs = abiEncode E ts' us"
  using keccak_eq_in [OF assms] by simp

lemma keccak_utf8_eq_in:
  assumes laws: "ethers_laws E" and "\<not> keccak_collision E S"
    and "toUtf8Bytes E s \<in> S" and "toUtf8Bytes E t \<in> S"
    and "keccak256 E (toUtf8Bytes E s) = keccak256 E (toUtf8Bytes E t)"
  shows "s = t"
  using keccak_eq_in [OF assms(2-5)] laws unfolding ethers_laws_def utf8_law_def by (metis injD)

text \<open>\<open>concat([a, b, c])\<close> of data strings of known lengths determines its parts.\<close>

lemma hexConcat_inject:
  assumes laws: "ethers_laws E"
    and xs: "list_all2 hex_string xs ns" and ys: "list_all2 hex_string ys ns"
    and lower: "\<forall>x \<in> set xs \<union> set ys. toLowerCase x = x"
    and eq: "hexConcat E xs = hexConcat E ys"
  shows "xs = ys"
proof -
  have ex: "\<forall>x \<in> set zs. \<exists>n. hex_string x n" if "list_all2 hex_string zs ns" for zs
    using that by (induction rule: list_all2_induct) auto
  have low: "toLowerCase (concat (map (drop 2) zs)) = concat (map (drop 2) zs)"
    if "\<forall>x \<in> set zs. toLowerCase x = x" for zs
    using that by (induction zs) (auto simp: toLowerCase_def drop_map [symmetric])
  from laws have "hexConcat E zs = ''0x'' @ concat (map (drop 2) zs)"
    if "list_all2 hex_string zs ns" "\<forall>x \<in> set zs. toLowerCase x = x" for zs
    using that ex [OF that(1)] low [OF that(2)]
    by (simp add: ethers_laws_def concat_law_def)
  with xs ys lower eq have cat: "concat (map (drop 2) xs) = concat (map (drop 2) ys)" by auto
  from xs ys cat show ?thesis
  proof (induction xs ns arbitrary: ys rule: list_all2_induct)
    case Nil
    then show ?case by simp
  next
    case (Cons x xs n ns)
    then obtain y ys' where y: "ys = y # ys'" "hex_string y n" "list_all2 hex_string ys' ns"
      by (cases ys) auto
    with Cons.hyps(1) Cons.prems(2) have "drop 2 x = drop 2 y"
      and "concat (map (drop 2) xs) = concat (map (drop 2) ys')"
      by (auto simp: hex_string_def append_eq_append_conv)
    with Cons.IH [OF y(3)] y Cons.hyps(1) show ?case by (metis hex_string_same_drop)
  qed
qed

section \<open>What the argument checks of the sources accept\<close>

text \<open>
  Every source file carries its own copies of the helpers \<open>uint\<close>, \<open>bytes32\<close> and \<open>address\<close>. Each
  copy is translated in the theory of its file and proved to accept exactly the relations below:
  the input and the normalised value it is accepted as.
\<close>

definition is_uint :: "bool \<Rightarrow> nat \<Rightarrow> bignumberish \<Rightarrow> int \<Rightarrow> bool" where
  "is_uint nonzero bits v n \<longleftrightarrow> BigInt_of v = Inr n \<and> uint_fits bits n \<and> (nonzero \<longrightarrow> n \<noteq> 0)"

definition is_bytes32 :: "ethers \<Rightarrow> bool \<Rightarrow> string \<Rightarrow> string \<Rightarrow> bool" where
  "is_bytes32 E allowZero v s \<longleftrightarrow>
     isHexString E v 32 \<and> s = toLowerCase v \<and> (\<not> allowZero \<longrightarrow> s \<noteq> ZERO_BYTES32)"

definition is_address :: "ethers \<Rightarrow> bool \<Rightarrow> string \<Rightarrow> string \<Rightarrow> bool" where
  "is_address E allowZero v a \<longleftrightarrow> getAddress E v = Some a \<and> (\<not> allowZero \<longrightarrow> a \<noteq> ZERO_ADDRESS)"

lemma is_uint_stable: "is_uint nz b v n \<Longrightarrow> is_uint nz b (BigIntV n) n"
  by (simp add: is_uint_def)

lemma is_uint_BigIntV [simp]: "is_uint nz b (BigIntV n) m \<longleftrightarrow> m = n \<and> uint_fits b n \<and> (nz \<longrightarrow> n \<noteq> 0)"
  by (auto simp: is_uint_def)

lemma is_bytes32_stable: "ethers_laws E \<Longrightarrow> is_bytes32 E az v s \<Longrightarrow> is_bytes32 E az s s"
  by (auto simp: is_bytes32_def laws_isHexString hex_string_lower)

lemma is_address_stable: "ethers_laws E \<Longrightarrow> is_address E az v a \<Longrightarrow> is_address E az a a"
  by (auto simp: is_address_def dest: laws_getAddress)

lemma is_uint_unique: "is_uint nz b v n \<Longrightarrow> is_uint nz' b' v m \<Longrightarrow> n = m"
  by (simp add: is_uint_def)

lemma is_bytes32_abi: "ethers_laws E \<Longrightarrow> is_bytes32 E az v s \<Longrightarrow> abi_fits E ''bytes32'' (AbiHex s)"
  by (auto simp: is_bytes32_def laws_isHexString hex_string_lower)

lemma is_address_abi: "ethers_laws E \<Longrightarrow> is_address E az v a \<Longrightarrow> abi_fits E ''address'' (AbiHex a)"
  by (auto simp: is_address_def dest: laws_getAddress)

lemma keccak_abi: "ethers_laws E \<Longrightarrow> abi_fits E ''bytes32'' (AbiHex (keccak256 E x))"
  by (simp add: laws_keccak256)

section \<open>A concrete instance\<close>

text \<open>
  An executable instance that satisfies every law, used to evaluate the model on concrete
  inputs: addresses in lower case without a checksum, 64 hexadecimal digits per ABI word, and
  a digest made of one digit, the sum of the input's code units modulo 15 (never zero).
\<close>

definition sample_digit :: "nat \<Rightarrow> char" where
  "sample_digit d = ''0123456789abcdef'' ! d"

fun sample_digits :: "nat \<Rightarrow> nat \<Rightarrow> string" where
  "sample_digits 0 n = []"
| "sample_digits (Suc k) n =
     (if n = 0 then replicate (Suc k) (CHR ''0'')
      else sample_digits k (n div 16) @ [sample_digit (n mod 16)])"

definition sample_weight :: "string \<Rightarrow> nat" where
  "sample_weight s = sum_list (map of_char s)"

definition h32 :: "char \<Rightarrow> string" where
  "h32 c = ''0x'' @ replicate 64 c"

definition a20 :: "char \<Rightarrow> string" where
  "a20 c = ''0x'' @ replicate 40 c"

definition sample_digest :: "nat \<Rightarrow> string" where
  "sample_digest n = h32 (sample_digit (n mod 15 + 1))"

fun sample_keccak256 :: "bytes_like \<Rightarrow> string" where
  "sample_keccak256 (HexData s) = sample_digest (sample_weight s)"
| "sample_keccak256 (ByteArray bs) = sample_digest (sum_list (map unat bs))"

fun sample_abi_word :: "string \<Rightarrow> abi_value \<Rightarrow> string" where
  "sample_abi_word t (AbiUint n) = sample_digits 64 (nat n)"
| "sample_abi_word t (AbiHex s) = (if t = ''bytes32'' then drop 2 s else replicate 24 (CHR ''0'') @ drop 2 s)"

definition sample_ethers :: ethers where
  "sample_ethers =
     \<lparr>getAddress = (\<lambda>s. if hex_string s 20 then Some (toLowerCase s) else None),
      isHexString = hex_string,
      keccak256 = sample_keccak256,
      abiEncode = (\<lambda>ts vs. ''0x'' @ concat (map2 sample_abi_word ts vs)),
      hexConcat = (\<lambda>xs. toLowerCase (''0x'' @ concat (map (drop 2) xs))),
      toUtf8Bytes = (\<lambda>s. ByteArray (map (\<lambda>c. of_nat (of_char c)) s))\<rparr>"

lemma sample_digit_lower: "d < 16 \<Longrightarrow> hex_digit (sample_digit d) \<and> lower_char (sample_digit d) = sample_digit d"
proof -
  have "\<forall>d < 16. hex_digit (sample_digit d) \<and> lower_char (sample_digit d) = sample_digit d"
    by code_simp
  then show "d < 16 \<Longrightarrow> ?thesis" by blast
qed

lemma sample_digit_inject: "d < 16 \<Longrightarrow> e < 16 \<Longrightarrow> sample_digit d = sample_digit e \<Longrightarrow> d = e"
proof -
  have "distinct ''0123456789abcdef''" by simp
  then show "d < 16 \<Longrightarrow> e < 16 \<Longrightarrow> sample_digit d = sample_digit e \<Longrightarrow> d = e"
    unfolding sample_digit_def by (subst (asm) nth_eq_iff_index_eq) auto
qed

lemma sample_digit_zero: "sample_digit 0 = CHR ''0''"
  by (simp add: sample_digit_def)

lemma length_sample_digits [simp]: "length (sample_digits k n) = k"
  by (induction k arbitrary: n) auto

lemma lower_sample_digits: "toLowerCase (sample_digits k n) = sample_digits k n"
  by (induction k arbitrary: n) (auto simp: sample_digit_lower toLowerCase_def)

lemma sample_digits_Suc:
  "sample_digits (Suc k) n = sample_digits k (n div 16) @ [sample_digit (n mod 16)]"
proof (cases "n = 0")
  case True
  have "sample_digits k 0 = replicate k (CHR ''0'')" by (cases k) auto
  with True show ?thesis by (simp add: sample_digit_zero replicate_append_same)
qed simp

lemma sample_digits_inject:
  "n < 16 ^ k \<Longrightarrow> m < 16 ^ k \<Longrightarrow> sample_digits k n = sample_digits k m \<Longrightarrow> n = m"
proof (induction k arbitrary: n m)
  case 0
  then show ?case by simp
next
  case (Suc k)
  then have "sample_digits k (n div 16) = sample_digits k (m div 16)"
    and last: "sample_digit (n mod 16) = sample_digit (m mod 16)"
    by (simp_all add: sample_digits_Suc del: sample_digits.simps)
  moreover have "n div 16 < 16 ^ k" "m div 16 < 16 ^ k"
    using Suc.prems by (simp_all add: less_mult_imp_div_less mult.commute)
  ultimately have "n div 16 = m div 16" using Suc.IH by blast
  moreover have "n mod 16 = m mod 16" using last by (intro sample_digit_inject) auto
  ultimately show ?case by (metis div_mult_mod_eq)
qed

lemma hex_string_h32 [simp]: "hex_string (h32 c) 32 \<longleftrightarrow> hex_digit c"
  by (simp add: h32_def hex_string_def list_all_iff)

lemma hex_string_a20 [simp]: "hex_string (a20 c) 20 \<longleftrightarrow> hex_digit c"
  by (simp add: a20_def hex_string_def list_all_iff)

lemma lower_h32 [simp]: "toLowerCase (h32 c) = h32 (lower_char c)"
  by (simp add: h32_def toLowerCase_def)

lemma lower_a20 [simp]: "toLowerCase (a20 c) = a20 (lower_char c)"
  by (simp add: a20_def toLowerCase_def)

lemma h32_inject [simp]: "h32 c = h32 d \<longleftrightarrow> c = d"
  by (simp add: h32_def)

lemma a20_inject [simp]: "a20 c = a20 d \<longleftrightarrow> c = d"
  by (simp add: a20_def)

lemma h32_zero [simp]: "h32 c = ZERO_BYTES32 \<longleftrightarrow> c = CHR ''0''"
  by (simp add: h32_def ZERO_BYTES32_alt)

lemma ZERO_ADDRESS_alt: "ZERO_ADDRESS = a20 (CHR ''0'')"
  by (simp add: ZERO_ADDRESS_def a20_def numeral_eq_Suc)

lemma a20_zero [simp]: "a20 c = ZERO_ADDRESS \<longleftrightarrow> c = CHR ''0''"
  by (simp add: ZERO_ADDRESS_alt)

lemma sample_digest_hex: "hex_string (sample_digest n) 32 \<and> toLowerCase (sample_digest n) = sample_digest n"
proof -
  have "n mod 15 + 1 < 16" by auto
  from sample_digit_lower [OF this] show ?thesis by (simp add: sample_digest_def)
qed

lemma sample_keccak256_hex:
  "hex_string (sample_keccak256 x) 32 \<and> toLowerCase (sample_keccak256 x) = sample_keccak256 x"
  by (cases x) (simp_all add: sample_digest_hex)

lemma sample_uint_fits: "abi_fits E t (AbiUint n) \<Longrightarrow> 0 \<le> n \<and> nat n < 16 ^ 64"
proof -
  assume "abi_fits E t (AbiUint n)"
  then have "0 \<le> n \<and> n < 2 ^ 256"
    by (auto simp: uint_fits_def elim: order.strict_trans2)
  then show ?thesis by (simp add: nat_less_iff)
qed

lemma sample_address_fits:
  "abi_fits sample_ethers t (AbiHex s) \<Longrightarrow>
     toLowerCase s = s \<and> hex_string s (if t = ''bytes32'' then 32 else 20) \<and> t \<in> {''bytes32'', ''address''}"
  by (auto simp: sample_ethers_def split: if_splits)

lemma sample_abi_word_length:
  "abi_fits sample_ethers t v \<Longrightarrow>
     length (sample_abi_word t v) = 64 \<and> toLowerCase (sample_abi_word t v) = sample_abi_word t v"
proof (cases v)
  case (AbiUint n)
  then show ?thesis by (simp add: lower_sample_digits)
next
  case (AbiHex s)
  moreover assume "abi_fits sample_ethers t v"
  ultimately have "toLowerCase s = s" "hex_string s (if t = ''bytes32'' then 32 else 20)"
    using sample_address_fits by blast+
  moreover from \<open>toLowerCase s = s\<close> have "toLowerCase (drop 2 s) = drop 2 s"
    by (metis drop_toLowerCase)
  moreover have "toLowerCase (replicate 24 (CHR ''0'')) = replicate 24 (CHR ''0'')"
    by (simp add: toLowerCase_def)
  ultimately show ?thesis using AbiHex by (auto simp: hex_string_def split: if_splits)
qed

lemma sample_abi_word_inject:
  assumes "abi_fits sample_ethers t v" and "abi_fits sample_ethers t u"
    and "sample_abi_word t v = sample_abi_word t u"
  shows "v = u"
proof (cases v)
  case v: (AbiUint n)
  then obtain m where u: "u = AbiUint m" using assms(1,2) by (cases u) auto
  from assms v u have "sample_digits 64 (nat n) = sample_digits 64 (nat m)" by simp
  moreover have bounds: "0 \<le> n \<and> nat n < 16 ^ 64" "0 \<le> m \<and> nat m < 16 ^ 64"
    using assms(1,2) v u sample_uint_fits by blast+
  ultimately have "nat n = nat m" using sample_digits_inject by blast
  with bounds v u show ?thesis by (metis eq_nat_nat_iff)
next
  case v: (AbiHex s)
  then obtain r where u: "u = AbiHex r" using assms(1,2) by (cases u) auto
  from assms v u have "drop 2 s = drop 2 r" by (auto split: if_splits)
  moreover have "hex_string s (if t = ''bytes32'' then 32 else 20)"
    "hex_string r (if t = ''bytes32'' then 32 else 20)"
    using assms(1,2) v u sample_address_fits by blast+
  ultimately show ?thesis using v u by (metis hex_string_same_drop)
qed

lemma unat_char_byte: "unat (of_nat (of_char c) :: 8 word) = of_char c"
  by (simp add: unat_of_nat del: of_nat_of_char)

lemma char_byte_inject: "(of_nat (of_char c) :: 8 word) = of_nat (of_char d) \<Longrightarrow> c = d"
  by (metis of_char_eq_iff unat_char_byte)

theorem sample_ethers_laws: "ethers_laws sample_ethers"
proof -
  have "abi_word_law sample_ethers sample_abi_word"
    unfolding abi_word_law_def using sample_abi_word_length sample_abi_word_inject
    by (auto simp: sample_ethers_def)
  moreover have "inj (toUtf8Bytes sample_ethers)"
    using char_byte_inject
    by (auto simp: sample_ethers_def inj_def intro: list.inj_map_strong)
  ultimately show ?thesis
    using sample_keccak256_hex
    by (auto simp: ethers_laws_def isHexString_law_def getAddress_law_def keccak256_law_def
        concat_law_def abi_law_def utf8_law_def hex_string_lower)
       (auto simp: sample_ethers_def hex_string_lower split: if_splits)
qed

text \<open>What the checks say of sample data, for the evaluation of the model on concrete inputs.\<close>

lemma sample_keccak_nonzero: "keccak256 sample_ethers x \<noteq> ZERO_BYTES32"
proof -
  have "sample_digest n \<noteq> ZERO_BYTES32" for n
  proof
    assume "sample_digest n = ZERO_BYTES32"
    then have "sample_digit (n mod 15 + 1) = sample_digit 0"
      by (simp add: sample_digest_def sample_digit_zero)
    then have "n mod 15 + 1 = 0" by (rule sample_digit_inject [rotated 2]) auto
    then show False by simp
  qed
  then show ?thesis by (cases x) (simp_all add: sample_ethers_def)
qed

lemma sample_is_bytes32 [literal_simps]:
  "is_bytes32 sample_ethers az (h32 c) s \<longleftrightarrow>
     hex_digit c \<and> s = h32 (lower_char c) \<and> (\<not> az \<longrightarrow> lower_char c \<noteq> CHR ''0'')"
  by (auto simp: is_bytes32_def sample_ethers_def)

lemma sample_keccak_is_bytes32 [literal_simps]:
  "is_bytes32 sample_ethers az (keccak256 sample_ethers x) s \<longleftrightarrow> s = keccak256 sample_ethers x"
  using sample_keccak_nonzero
  by (auto simp: is_bytes32_def laws_isHexString [OF sample_ethers_laws]
      laws_keccak256 [OF sample_ethers_laws])

lemma sample_is_address [literal_simps]:
  "is_address sample_ethers az (a20 c) a \<longleftrightarrow>
     hex_digit c \<and> a = a20 (lower_char c) \<and> (\<not> az \<longrightarrow> lower_char c \<noteq> CHR ''0'')"
  by (auto simp: is_address_def sample_ethers_def)

lemma hex_chars [literal_simps]:
  "hex_digit (CHR ''a'')" "hex_digit (CHR ''b'')" "hex_digit (CHR ''c'')" "hex_digit (CHR ''d'')"
  "hex_digit (CHR ''e'')" "hex_digit (CHR ''f'')" "hex_digit (CHR ''1'')" "hex_digit (CHR ''2'')"
  "hex_digit (CHR ''3'')" "hex_digit (CHR ''4'')" "hex_digit (CHR ''A'')" "hex_digit (CHR ''0'')"
  by (simp_all add: hex_digit_def)

lemma lower_hex_chars [literal_simps]:
  "lower_char (CHR ''a'') = CHR ''a''" "lower_char (CHR ''b'') = CHR ''b''"
  "lower_char (CHR ''c'') = CHR ''c''" "lower_char (CHR ''d'') = CHR ''d''"
  "lower_char (CHR ''e'') = CHR ''e''" "lower_char (CHR ''f'') = CHR ''f''"
  "lower_char (CHR ''1'') = CHR ''1''" "lower_char (CHR ''2'') = CHR ''2''"
  "lower_char (CHR ''3'') = CHR ''3''" "lower_char (CHR ''4'') = CHR ''4''"
  "lower_char (CHR ''A'') = CHR ''a''"
  by (simp_all add: lower_char_def char_of_def bit_0)

end
