(* ===== verification/Intent.thy ===== *)
theory Intent
  imports Ethers
begin

text \<open>
  The typed intents of the V2 account (\<^verbatim>\<open>v2Intent.ts\<close>): the intent header and its
  normalisation, the eleven action payloads and their encodings, the hashes that bind them, and
  the keyed nonce. Shown here: normalisation is stable on its own results, the keyed nonce
  round-trips, each action is bound to its nonce key, purposes, lifetime and epochs, and equal
  intent hashes mean equal intents up to a hash collision.
\<close>

section \<open>Constants\<close>

datatype action_type =
    CONFIRM | NATIVE_TRANSFER | ERC20_TRANSFER | ERC721_SAFE_TRANSFER | ERC1155_SAFE_TRANSFER
  | ENTRYPOINT_DEPOSIT_WITHDRAWAL | VALIDATOR_ROTATION | RECOVERY_REQUEST | RECOVERY_CANCEL
  | RECOVERY_CONFIG_ROTATION_REQUEST | RECOVERY_CONFIG_ROTATION_CANCEL

fun PHILCORE_V2_ACTION_TYPE :: "action_type \<Rightarrow> int" where
  "PHILCORE_V2_ACTION_TYPE CONFIRM = 1"
| "PHILCORE_V2_ACTION_TYPE NATIVE_TRANSFER = 2"
| "PHILCORE_V2_ACTION_TYPE ERC20_TRANSFER = 3"
| "PHILCORE_V2_ACTION_TYPE ERC721_SAFE_TRANSFER = 4"
| "PHILCORE_V2_ACTION_TYPE ERC1155_SAFE_TRANSFER = 5"
| "PHILCORE_V2_ACTION_TYPE ENTRYPOINT_DEPOSIT_WITHDRAWAL = 6"
| "PHILCORE_V2_ACTION_TYPE VALIDATOR_ROTATION = 7"
| "PHILCORE_V2_ACTION_TYPE RECOVERY_REQUEST = 8"
| "PHILCORE_V2_ACTION_TYPE RECOVERY_CANCEL = 9"
| "PHILCORE_V2_ACTION_TYPE RECOVERY_CONFIG_ROTATION_REQUEST = 10"
| "PHILCORE_V2_ACTION_TYPE RECOVERY_CONFIG_ROTATION_CANCEL = 11"

definition action_types :: "action_type list" where
  "action_types =
     [CONFIRM, NATIVE_TRANSFER, ERC20_TRANSFER, ERC721_SAFE_TRANSFER, ERC1155_SAFE_TRANSFER,
      ENTRYPOINT_DEPOSIT_WITHDRAWAL, VALIDATOR_ROTATION, RECOVERY_REQUEST, RECOVERY_CANCEL,
      RECOVERY_CONFIG_ROTATION_REQUEST, RECOVERY_CONFIG_ROTATION_CANCEL]"

definition PHILCORE_V2_INTENT_SPECIFICATION_VERSION :: int where
  "PHILCORE_V2_INTENT_SPECIFICATION_VERSION = 1"

definition PHILCORE_V2_EIP712_NAME :: string where
  "PHILCORE_V2_EIP712_NAME = ''PhilCore V2 Account''"

definition PHILCORE_V2_EIP712_VERSION :: string where
  "PHILCORE_V2_EIP712_VERSION = ''1''"

definition PHILCORE_V2_SECURITY_MODEL :: string where
  "PHILCORE_V2_SECURITY_MODEL = ''philcore-v2-typed-intent-local-proof-gated-v1''"

definition PHILCORE_V2_SECURITY_MODEL_ID :: "ethers \<Rightarrow> string" where
  "PHILCORE_V2_SECURITY_MODEL_ID E = keccak256 E (toUtf8Bytes E PHILCORE_V2_SECURITY_MODEL)"

definition PHILCORE_V2_ACCOUNT_VERSION :: string where
  "PHILCORE_V2_ACCOUNT_VERSION = ''philcore-v2-account-v1''"

definition PHILCORE_V2_ACCOUNT_VERSION_ID :: "ethers \<Rightarrow> string" where
  "PHILCORE_V2_ACCOUNT_VERSION_ID E = keccak256 E (toUtf8Bytes E PHILCORE_V2_ACCOUNT_VERSION)"

text \<open>\<open>PHILCORE_V2_NONCE_KEY\<close>.\<close>

datatype nonce_key = ORDINARY | MAINTENANCE | RECOVERY

fun PHILCORE_V2_NONCE_KEY :: "nonce_key \<Rightarrow> int" where
  "PHILCORE_V2_NONCE_KEY ORDINARY = 0"
| "PHILCORE_V2_NONCE_KEY MAINTENANCE = 1"
| "PHILCORE_V2_NONCE_KEY RECOVERY = 2"

datatype purpose =
    CONFIRM_ACTION | TRANSFER_ASSET | RELEASE_RESIDUAL | MIGRATE_ASSET | WITHDRAW_DEPOSIT
  | ROTATE_VALIDATOR | REQUEST_RECOVERY | CANCEL_RECOVERY | ROTATE_RECOVERY_CONFIG
  | CANCEL_RECOVERY_CONFIG_ROTATION

fun PHILCORE_V2_PURPOSE_LABEL :: "purpose \<Rightarrow> string" where
  "PHILCORE_V2_PURPOSE_LABEL CONFIRM_ACTION = ''PHILCORE_V2_PURPOSE_CONFIRM_ACTION''"
| "PHILCORE_V2_PURPOSE_LABEL TRANSFER_ASSET = ''PHILCORE_V2_PURPOSE_TRANSFER_ASSET''"
| "PHILCORE_V2_PURPOSE_LABEL RELEASE_RESIDUAL = ''PHILCORE_V2_PURPOSE_RELEASE_RESIDUAL''"
| "PHILCORE_V2_PURPOSE_LABEL MIGRATE_ASSET = ''PHILCORE_V2_PURPOSE_MIGRATE_ASSET''"
| "PHILCORE_V2_PURPOSE_LABEL WITHDRAW_DEPOSIT = ''PHILCORE_V2_PURPOSE_WITHDRAW_DEPOSIT''"
| "PHILCORE_V2_PURPOSE_LABEL ROTATE_VALIDATOR = ''PHILCORE_V2_PURPOSE_ROTATE_VALIDATOR''"
| "PHILCORE_V2_PURPOSE_LABEL REQUEST_RECOVERY = ''PHILCORE_V2_PURPOSE_REQUEST_RECOVERY''"
| "PHILCORE_V2_PURPOSE_LABEL CANCEL_RECOVERY = ''PHILCORE_V2_PURPOSE_CANCEL_RECOVERY''"
| "PHILCORE_V2_PURPOSE_LABEL ROTATE_RECOVERY_CONFIG = ''PHILCORE_V2_PURPOSE_ROTATE_RECOVERY_CONFIG''"
| "PHILCORE_V2_PURPOSE_LABEL CANCEL_RECOVERY_CONFIG_ROTATION =
     ''PHILCORE_V2_PURPOSE_CANCEL_RECOVERY_CONFIG_ROTATION''"

definition PHILCORE_V2_PURPOSE :: "ethers \<Rightarrow> purpose \<Rightarrow> string" where
  "PHILCORE_V2_PURPOSE E p = keccak256 E (toUtf8Bytes E (PHILCORE_V2_PURPOSE_LABEL p))"

text \<open>The keys of \<open>PHILCORE_V2_TYPE\<close>; the last eleven are the action types.\<close>

datatype type_key =
    EIP712_DOMAIN | INTENT_CORE_HEADER | APPLICATION_CONTEXT | FUND_LIFECYCLE
  | ACTION action_type

fun PHILCORE_V2_TYPE :: "type_key \<Rightarrow> string" where
  "PHILCORE_V2_TYPE EIP712_DOMAIN =
     ''EIP712Domain(string name,string version,uint256 chainId,address verifyingContract)''"
| "PHILCORE_V2_TYPE INTENT_CORE_HEADER =
     ''PhilCoreV2IntentCoreHeader(uint8 specificationVersion,bytes32 securityModelId,uint8 actionType,bytes32 actionId,bytes32 purpose,bytes32 ownerCommitment,uint256 chainId,address entryPoint,address account,uint192 nonceKey,uint64 nonceSequence,uint64 validatorEpoch,uint64 recoveryEpoch,bytes32 applicationContextHash,bytes32 fundLifecycleDigest,uint256 maxTotalFeeWei,uint48 validAfter,uint48 validUntil)''"
| "PHILCORE_V2_TYPE APPLICATION_CONTEXT =
     ''PhilCoreV2ApplicationContext(bytes32 applicationIdHash,bytes32 originHash,bytes32 sessionIdHash,bytes32 capabilityGrantIdHash,bytes32 policyDecisionIdHash)''"
| "PHILCORE_V2_TYPE FUND_LIFECYCLE =
     ''PhilCoreV2FundLifecycle(bytes32 lifecycleSchemaHash,address account,address asset,uint256 tokenId,uint256 maximumFundingOrHolding,uint256 maximumStranded,address residualRecipient,uint256 expectedPostOperationBalance,uint256 expectedFinalBalance,bytes32 releaseRouteHash,bytes32 simulationEvidenceHash)''"
| "PHILCORE_V2_TYPE (ACTION CONFIRM) =
     ''PhilCoreV2ConfirmIntent(bytes32 coreHeaderHash,address confirmationTarget,bytes32 confirmationDigest)''"
| "PHILCORE_V2_TYPE (ACTION NATIVE_TRANSFER) =
     ''PhilCoreV2NativeTransferIntent(bytes32 coreHeaderHash,address recipient,uint256 amountWei)''"
| "PHILCORE_V2_TYPE (ACTION ERC20_TRANSFER) =
     ''PhilCoreV2ERC20TransferIntent(bytes32 coreHeaderHash,address token,address recipient,uint256 amount)''"
| "PHILCORE_V2_TYPE (ACTION ERC721_SAFE_TRANSFER) =
     ''PhilCoreV2ERC721SafeTransferIntent(bytes32 coreHeaderHash,address token,address recipient,uint256 tokenId,bytes32 receiverDataHash)''"
| "PHILCORE_V2_TYPE (ACTION ERC1155_SAFE_TRANSFER) =
     ''PhilCoreV2ERC1155SafeTransferIntent(bytes32 coreHeaderHash,address token,address recipient,uint256 tokenId,uint256 amount,bytes32 receiverDataHash)''"
| "PHILCORE_V2_TYPE (ACTION ENTRYPOINT_DEPOSIT_WITHDRAWAL) =
     ''PhilCoreV2EntryPointDepositWithdrawalIntent(bytes32 coreHeaderHash,address recipient,uint256 amountWei)''"
| "PHILCORE_V2_TYPE (ACTION VALIDATOR_ROTATION) =
     ''PhilCoreV2ValidatorRotationIntent(bytes32 coreHeaderHash,address proposedValidator,bytes32 proposedValidatorKeyIdBinding,uint64 proposedValidatorEpoch)''"
| "PHILCORE_V2_TYPE (ACTION RECOVERY_REQUEST) =
     ''PhilCoreV2RecoveryRequestIntent(bytes32 coreHeaderHash,address proposedValidator,bytes32 proposedValidatorKeyIdBinding,uint64 proposedValidatorEpoch,bytes32 recoveryRequestSalt)''"
| "PHILCORE_V2_TYPE (ACTION RECOVERY_CANCEL) =
     ''PhilCoreV2RecoveryCancelIntent(bytes32 coreHeaderHash,bytes32 recoveryRequestId)''"
| "PHILCORE_V2_TYPE (ACTION RECOVERY_CONFIG_ROTATION_REQUEST) =
     ''PhilCoreV2RecoveryConfigRotationRequestIntent(bytes32 coreHeaderHash,bytes32 proposedRecoveryConfigHash,bytes32 proposedPrimaryDeviceCommitment,bytes32 proposedHardwareSecurityKeyCommitment,bytes32 proposedRecoveryFactorCommitment,uint64 proposedRecoveryEpoch)''"
| "PHILCORE_V2_TYPE (ACTION RECOVERY_CONFIG_ROTATION_CANCEL) =
     ''PhilCoreV2RecoveryConfigRotationCancelIntent(bytes32 coreHeaderHash,bytes32 recoveryConfigRotationRequestId)''"

definition PHILCORE_V2_TYPEHASH :: "ethers \<Rightarrow> type_key \<Rightarrow> string" where
  "PHILCORE_V2_TYPEHASH E k = keccak256 E (toUtf8Bytes E (PHILCORE_V2_TYPE k))"

fun ACTION_NONCE_KEYS :: "action_type \<Rightarrow> int" where
  "ACTION_NONCE_KEYS CONFIRM = PHILCORE_V2_NONCE_KEY ORDINARY"
| "ACTION_NONCE_KEYS NATIVE_TRANSFER = PHILCORE_V2_NONCE_KEY ORDINARY"
| "ACTION_NONCE_KEYS ERC20_TRANSFER = PHILCORE_V2_NONCE_KEY ORDINARY"
| "ACTION_NONCE_KEYS ERC721_SAFE_TRANSFER = PHILCORE_V2_NONCE_KEY ORDINARY"
| "ACTION_NONCE_KEYS ERC1155_SAFE_TRANSFER = PHILCORE_V2_NONCE_KEY ORDINARY"
| "ACTION_NONCE_KEYS ENTRYPOINT_DEPOSIT_WITHDRAWAL = PHILCORE_V2_NONCE_KEY ORDINARY"
| "ACTION_NONCE_KEYS VALIDATOR_ROTATION = PHILCORE_V2_NONCE_KEY MAINTENANCE"
| "ACTION_NONCE_KEYS RECOVERY_REQUEST = PHILCORE_V2_NONCE_KEY RECOVERY"
| "ACTION_NONCE_KEYS RECOVERY_CANCEL = PHILCORE_V2_NONCE_KEY RECOVERY"
| "ACTION_NONCE_KEYS RECOVERY_CONFIG_ROTATION_REQUEST = PHILCORE_V2_NONCE_KEY RECOVERY"
| "ACTION_NONCE_KEYS RECOVERY_CONFIG_ROTATION_CANCEL = PHILCORE_V2_NONCE_KEY RECOVERY"

fun action_purposes :: "action_type \<Rightarrow> purpose list" where
  "action_purposes CONFIRM = [CONFIRM_ACTION]"
| "action_purposes NATIVE_TRANSFER = [TRANSFER_ASSET, RELEASE_RESIDUAL, MIGRATE_ASSET]"
| "action_purposes ERC20_TRANSFER = [TRANSFER_ASSET, RELEASE_RESIDUAL, MIGRATE_ASSET]"
| "action_purposes ERC721_SAFE_TRANSFER = [TRANSFER_ASSET, RELEASE_RESIDUAL, MIGRATE_ASSET]"
| "action_purposes ERC1155_SAFE_TRANSFER = [TRANSFER_ASSET, RELEASE_RESIDUAL, MIGRATE_ASSET]"
| "action_purposes ENTRYPOINT_DEPOSIT_WITHDRAWAL =
     [WITHDRAW_DEPOSIT, RELEASE_RESIDUAL, MIGRATE_ASSET]"
| "action_purposes VALIDATOR_ROTATION = [ROTATE_VALIDATOR]"
| "action_purposes RECOVERY_REQUEST = [REQUEST_RECOVERY]"
| "action_purposes RECOVERY_CANCEL = [CANCEL_RECOVERY]"
| "action_purposes RECOVERY_CONFIG_ROTATION_REQUEST = [ROTATE_RECOVERY_CONFIG]"
| "action_purposes RECOVERY_CONFIG_ROTATION_CANCEL = [CANCEL_RECOVERY_CONFIG_ROTATION]"

definition ACTION_PURPOSES :: "ethers \<Rightarrow> action_type \<Rightarrow> string list" where
  "ACTION_PURPOSES E a = map (PHILCORE_V2_PURPOSE E) (action_purposes a)"

section \<open>Data\<close>

record PhilCoreV2IntentCoreHeaderInput =
  hi_specificationVersion :: bignumberish
  hi_securityModelId :: string
  hi_actionType :: bignumberish
  hi_actionId :: string
  hi_purpose :: string
  hi_ownerCommitment :: string
  hi_chainId :: bignumberish
  hi_entryPoint :: string
  hi_account :: string
  hi_nonceKey :: bignumberish
  hi_nonceSequence :: bignumberish
  hi_validatorEpoch :: bignumberish
  hi_recoveryEpoch :: bignumberish
  hi_applicationContextHash :: string
  hi_fundLifecycleDigest :: string
  hi_maxTotalFeeWei :: bignumberish
  hi_validAfter :: bignumberish
  hi_validUntil :: bignumberish

record PhilCoreV2IntentCoreHeader =
  h_specificationVersion :: int
  h_securityModelId :: string
  h_actionType :: action_type
  h_actionId :: string
  h_purpose :: string
  h_ownerCommitment :: string
  h_chainId :: int
  h_entryPoint :: string
  h_account :: string
  h_nonceKey :: int
  h_nonceSequence :: int
  h_validatorEpoch :: int
  h_recoveryEpoch :: int
  h_applicationContextHash :: string
  h_fundLifecycleDigest :: string
  h_maxTotalFeeWei :: int
  h_validAfter :: int
  h_validUntil :: int

record PhilCoreV2ApplicationContextInput =
  ac_applicationIdHash :: string
  ac_originHash :: string
  ac_sessionIdHash :: string
  ac_capabilityGrantIdHash :: string
  ac_policyDecisionIdHash :: string

record PhilCoreV2FundLifecycleInput =
  fl_lifecycleSchemaHash :: string
  fl_account :: string
  fl_asset :: string
  fl_tokenId :: bignumberish
  fl_maximumFundingOrHolding :: bignumberish
  fl_maximumStranded :: bignumberish
  fl_residualRecipient :: string
  fl_expectedPostOperationBalance :: bignumberish
  fl_expectedFinalBalance :: bignumberish
  fl_releaseRouteHash :: string
  fl_simulationEvidenceHash :: string

text \<open>\<open>PhilCoreV2ActionPayloadInput\<close>, one constructor per \<open>kind\<close>, its fields in order.\<close>

datatype PhilCoreV2ActionPayloadInput =
    Confirm (p_confirmationTarget: string) (p_confirmationDigest: string)
  | NativeTransfer (p_recipient: string) (p_amountWei: bignumberish)
  | ERC20Transfer (p_token: string) (p_recipient: string) (p_amount: bignumberish)
  | ERC721SafeTransfer (p_token: string) (p_recipient: string) (p_tokenId: bignumberish)
      (p_receiverDataHash: string)
  | ERC1155SafeTransfer (p_token: string) (p_recipient: string) (p_tokenId: bignumberish)
      (p_amount: bignumberish) (p_receiverDataHash: string)
  | EntryPointDepositWithdrawal (p_recipient: string) (p_amountWei: bignumberish)
  | ValidatorRotation (p_proposedValidator: string) (p_proposedValidatorKeyIdBinding: string)
      (p_proposedValidatorEpoch: bignumberish)
  | RecoveryRequest (p_proposedValidator: string) (p_proposedValidatorKeyIdBinding: string)
      (p_proposedValidatorEpoch: bignumberish) (p_recoveryRequestSalt: string)
  | RecoveryCancel (p_recoveryRequestId: string)
  | RecoveryConfigRotationRequest (p_proposedRecoveryConfigHash: string)
      (p_proposedPrimaryDeviceCommitment: string) (p_proposedHardwareSecurityKeyCommitment: string)
      (p_proposedRecoveryFactorCommitment: string) (p_proposedRecoveryEpoch: bignumberish)
  | RecoveryConfigRotationCancel (p_recoveryConfigRotationRequestId: string)

record PhilCoreV2IntentInput =
  in_header :: PhilCoreV2IntentCoreHeaderInput
  in_payload :: PhilCoreV2ActionPayloadInput

record PhilCoreV2IntentEncoding =
  enc_header :: PhilCoreV2IntentCoreHeader
  enc_coreHeaderEncoding :: string
  enc_coreHeaderHash :: string
  enc_actionEncoding :: string
  enc_intentCoreHash :: string

section \<open>Argument checks\<close>

definition intent_bytes32 :: "ethers \<Rightarrow> string \<Rightarrow> string \<Rightarrow> bool \<Rightarrow> string result" where
  "intent_bytes32 E v label allowZero =
     (if \<not> isHexString E v 32 then throw (label @ ''_must_be_bytes32'')
      else let normalized = toLowerCase v in
        if \<not> allowZero \<and> normalized = ZERO_BYTES32 then throw (label @ ''_must_be_nonzero'')
        else Inr normalized)"

definition intent_uint :: "bignumberish \<Rightarrow> nat \<Rightarrow> string \<Rightarrow> bool \<Rightarrow> int result" where
  "intent_uint v bits label nonzero =
     catch (BigInt_of v) (throw (label @ ''_must_be_uint'' @ show_nat bits))
       (\<lambda>parsed.
          if parsed < 0 \<or> parsed \<ge> 2 ^ bits then throw (label @ ''_must_be_uint'' @ show_nat bits)
          else if nonzero \<and> parsed = 0 then throw (label @ ''_must_be_nonzero'')
          else Inr parsed)"

definition intent_address :: "ethers \<Rightarrow> string \<Rightarrow> string \<Rightarrow> bool \<Rightarrow> string result" where
  "intent_address E v label allowZero =
     (case getAddress E v of
        None \<Rightarrow> throw (label @ ''_must_be_address'')
      | Some normalized \<Rightarrow>
          if \<not> allowZero \<and> normalized = ZERO_ADDRESS then throw (label @ ''_must_be_nonzero'')
          else Inr normalized)"

definition actionType :: "bignumberish \<Rightarrow> action_type result" where
  "actionType v =
     bnd (intent_uint v 8 ''actionType'' True) (\<lambda>parsed.
       case find (\<lambda>a. PHILCORE_V2_ACTION_TYPE a = parsed) action_types of
         None \<Rightarrow> throw ''actionType_unsupported''
       | Some a \<Rightarrow> Inr a)"

fun payloadActionType :: "PhilCoreV2ActionPayloadInput \<Rightarrow> action_type" where
  "payloadActionType (Confirm _ _) = CONFIRM"
| "payloadActionType (NativeTransfer _ _) = NATIVE_TRANSFER"
| "payloadActionType (ERC20Transfer _ _ _) = ERC20_TRANSFER"
| "payloadActionType (ERC721SafeTransfer _ _ _ _) = ERC721_SAFE_TRANSFER"
| "payloadActionType (ERC1155SafeTransfer _ _ _ _ _) = ERC1155_SAFE_TRANSFER"
| "payloadActionType (EntryPointDepositWithdrawal _ _) = ENTRYPOINT_DEPOSIT_WITHDRAWAL"
| "payloadActionType (ValidatorRotation _ _ _) = VALIDATOR_ROTATION"
| "payloadActionType (RecoveryRequest _ _ _ _) = RECOVERY_REQUEST"
| "payloadActionType (RecoveryCancel _) = RECOVERY_CANCEL"
| "payloadActionType (RecoveryConfigRotationRequest _ _ _ _ _) = RECOVERY_CONFIG_ROTATION_REQUEST"
| "payloadActionType (RecoveryConfigRotationCancel _) = RECOVERY_CONFIG_ROTATION_CANCEL"

definition assertPurpose :: "ethers \<Rightarrow> action_type \<Rightarrow> string \<Rightarrow> unit result" where
  "assertPurpose E action purpose =
     ensure (purpose \<in> set (ACTION_PURPOSES E action)) ''purpose_not_allowed_for_action''"

definition assertDistinctFromAccount :: "string \<Rightarrow> string \<Rightarrow> string \<Rightarrow> unit result" where
  "assertDistinctFromAccount candidate account label =
     ensure (candidate \<noteq> account) (label @ ''_cannot_equal_account'')"

section \<open>The header\<close>

definition normalizePhilCoreV2IntentCoreHeader ::
  "ethers \<Rightarrow> PhilCoreV2IntentCoreHeaderInput \<Rightarrow> PhilCoreV2IntentCoreHeader result" where
  "normalizePhilCoreV2IntentCoreHeader E input =
     bnd (actionType (hi_actionType input)) (\<lambda>normalizedActionType.
     bnd (intent_bytes32 E (hi_purpose input) ''purpose'' False) (\<lambda>normalizedPurpose.
     bnd (intent_uint (hi_nonceKey input) 192 ''nonceKey'' False) (\<lambda>normalizedNonceKey.
     bnd (intent_uint (hi_validAfter input) 48 ''validAfter'' False) (\<lambda>validAfter.
     bnd (intent_uint (hi_validUntil input) 48 ''validUntil'' False) (\<lambda>validUntil.
     let expectedLifetime =
       (if PHILCORE_V2_ACTION_TYPE normalizedActionType \<ge> PHILCORE_V2_ACTION_TYPE RECOVERY_REQUEST
        then 3600 else 600) in
     bnd (intent_uint (hi_specificationVersion input) 8 ''specificationVersion'' False) (\<lambda>version.
     bnd (ensure (version = PHILCORE_V2_INTENT_SPECIFICATION_VERSION)
            ''specificationVersion_unsupported'') (\<lambda>_.
     bnd (intent_bytes32 E (hi_securityModelId input) ''securityModelId'' False) (\<lambda>model.
     bnd (ensure (model = toLowerCase (PHILCORE_V2_SECURITY_MODEL_ID E))
            ''securityModelId_unsupported'') (\<lambda>_.
     bnd (ensure (normalizedNonceKey = ACTION_NONCE_KEYS normalizedActionType)
            ''nonceKey_not_allowed_for_action'') (\<lambda>_.
     bnd (assertPurpose E normalizedActionType normalizedPurpose) (\<lambda>_.
     bnd (ensure (\<not> validUntil \<le> validAfter) ''validity_range_invalid'') (\<lambda>_.
     bnd (ensure (\<not> validUntil - validAfter > expectedLifetime)
            ''validity_lifetime_exceeded'') (\<lambda>_.
     bnd (intent_bytes32 E (hi_actionId input) ''actionId'' False) (\<lambda>actionId.
     bnd (intent_bytes32 E (hi_ownerCommitment input) ''ownerCommitment'' False) (\<lambda>ownerCommitment.
     bnd (intent_uint (hi_chainId input) 256 ''chainId'' True) (\<lambda>chainId.
     bnd (intent_address E (hi_entryPoint input) ''entryPoint'' False) (\<lambda>entryPoint.
     bnd (intent_address E (hi_account input) ''account'' False) (\<lambda>account.
     bnd (intent_uint (hi_nonceSequence input) 64 ''nonceSequence'' False) (\<lambda>nonceSequence.
     bnd (intent_uint (hi_validatorEpoch input) 64 ''validatorEpoch'' True) (\<lambda>validatorEpoch.
     bnd (intent_uint (hi_recoveryEpoch input) 64 ''recoveryEpoch'' True) (\<lambda>recoveryEpoch.
     bnd (intent_bytes32 E (hi_applicationContextHash input) ''applicationContextHash'' False)
       (\<lambda>applicationContextHash.
     bnd (intent_bytes32 E (hi_fundLifecycleDigest input) ''fundLifecycleDigest'' False)
       (\<lambda>fundLifecycleDigest.
     bnd (intent_uint (hi_maxTotalFeeWei input) 256 ''maxTotalFeeWei'' True) (\<lambda>maxTotalFeeWei.
     Inr \<lparr>h_specificationVersion = PHILCORE_V2_INTENT_SPECIFICATION_VERSION,
          h_securityModelId = toLowerCase (PHILCORE_V2_SECURITY_MODEL_ID E),
          h_actionType = normalizedActionType, h_actionId = actionId,
          h_purpose = normalizedPurpose, h_ownerCommitment = ownerCommitment,
          h_chainId = chainId, h_entryPoint = entryPoint, h_account = account,
          h_nonceKey = normalizedNonceKey, h_nonceSequence = nonceSequence,
          h_validatorEpoch = validatorEpoch, h_recoveryEpoch = recoveryEpoch,
          h_applicationContextHash = applicationContextHash,
          h_fundLifecycleDigest = fundLifecycleDigest, h_maxTotalFeeWei = maxTotalFeeWei,
          h_validAfter = validAfter, h_validUntil = validUntil\<rparr>))))))))))))))))))))))))"

text \<open>A normalised header is itself a header input (bigints and the numeric action type).\<close>

definition header_input :: "PhilCoreV2IntentCoreHeader \<Rightarrow> PhilCoreV2IntentCoreHeaderInput" where
  "header_input h =
     \<lparr>hi_specificationVersion = BigIntV (h_specificationVersion h),
      hi_securityModelId = h_securityModelId h,
      hi_actionType = NumberV (IntegerNumber (PHILCORE_V2_ACTION_TYPE (h_actionType h))),
      hi_actionId = h_actionId h, hi_purpose = h_purpose h,
      hi_ownerCommitment = h_ownerCommitment h, hi_chainId = BigIntV (h_chainId h),
      hi_entryPoint = h_entryPoint h, hi_account = h_account h,
      hi_nonceKey = BigIntV (h_nonceKey h), hi_nonceSequence = BigIntV (h_nonceSequence h),
      hi_validatorEpoch = BigIntV (h_validatorEpoch h),
      hi_recoveryEpoch = BigIntV (h_recoveryEpoch h),
      hi_applicationContextHash = h_applicationContextHash h,
      hi_fundLifecycleDigest = h_fundLifecycleDigest h,
      hi_maxTotalFeeWei = BigIntV (h_maxTotalFeeWei h),
      hi_validAfter = BigIntV (h_validAfter h), hi_validUntil = BigIntV (h_validUntil h)\<rparr>"

definition header_types :: "string list" where
  "header_types =
     [''bytes32'', ''uint8'', ''bytes32'', ''uint8'', ''bytes32'', ''bytes32'', ''bytes32'',
      ''uint256'', ''address'', ''address'', ''uint192'', ''uint64'', ''uint64'', ''uint64'',
      ''bytes32'', ''bytes32'', ''uint256'', ''uint48'', ''uint48'']"

definition header_values :: "ethers \<Rightarrow> PhilCoreV2IntentCoreHeader \<Rightarrow> abi_value list" where
  "header_values E header =
     [AbiHex (PHILCORE_V2_TYPEHASH E INTENT_CORE_HEADER),
      AbiUint (h_specificationVersion header), AbiHex (h_securityModelId header),
      AbiUint (PHILCORE_V2_ACTION_TYPE (h_actionType header)), AbiHex (h_actionId header),
      AbiHex (h_purpose header), AbiHex (h_ownerCommitment header),
      AbiUint (h_chainId header), AbiHex (h_entryPoint header), AbiHex (h_account header),
      AbiUint (h_nonceKey header), AbiUint (h_nonceSequence header),
      AbiUint (h_validatorEpoch header), AbiUint (h_recoveryEpoch header),
      AbiHex (h_applicationContextHash header), AbiHex (h_fundLifecycleDigest header),
      AbiUint (h_maxTotalFeeWei header), AbiUint (h_validAfter header),
      AbiUint (h_validUntil header)]"

definition encodePhilCoreV2IntentCoreHeader ::
  "ethers \<Rightarrow> PhilCoreV2IntentCoreHeaderInput \<Rightarrow> string result" where
  "encodePhilCoreV2IntentCoreHeader E input =
     bnd (normalizePhilCoreV2IntentCoreHeader E input) (\<lambda>header.
     Inr (abiEncode E header_types (header_values E header)))"

definition computePhilCoreV2IntentCoreHeaderHash ::
  "ethers \<Rightarrow> PhilCoreV2IntentCoreHeaderInput \<Rightarrow> string result" where
  "computePhilCoreV2IntentCoreHeaderHash E input =
     bnd (encodePhilCoreV2IntentCoreHeader E input) (\<lambda>encoding.
     Inr (keccak256 E (HexData encoding)))"

section \<open>Application context and fund lifecycle\<close>

definition computePhilCoreV2ApplicationContextHash ::
  "ethers \<Rightarrow> PhilCoreV2ApplicationContextInput \<Rightarrow> string result" where
  "computePhilCoreV2ApplicationContextHash E input =
     bnd (intent_bytes32 E (ac_applicationIdHash input) ''applicationIdHash'' False) (\<lambda>applicationIdHash.
     bnd (intent_bytes32 E (ac_originHash input) ''originHash'' False) (\<lambda>originHash.
     bnd (intent_bytes32 E (ac_sessionIdHash input) ''sessionIdHash'' False) (\<lambda>sessionIdHash.
     bnd (intent_bytes32 E (ac_capabilityGrantIdHash input) ''capabilityGrantIdHash'' False)
       (\<lambda>capabilityGrantIdHash.
     bnd (intent_bytes32 E (ac_policyDecisionIdHash input) ''policyDecisionIdHash'' False)
       (\<lambda>policyDecisionIdHash.
     Inr (keccak256 E (HexData (abiEncode E
       [''bytes32'', ''bytes32'', ''bytes32'', ''bytes32'', ''bytes32'', ''bytes32'']
       [AbiHex (PHILCORE_V2_TYPEHASH E APPLICATION_CONTEXT), AbiHex applicationIdHash,
        AbiHex originHash, AbiHex sessionIdHash, AbiHex capabilityGrantIdHash,
        AbiHex policyDecisionIdHash]))))))))"

definition fund_lifecycle_types :: "string list" where
  "fund_lifecycle_types =
     [''bytes32'', ''bytes32'', ''address'', ''address'', ''uint256'', ''uint256'', ''uint256'',
      ''address'', ''uint256'', ''uint256'', ''bytes32'', ''bytes32'']"

definition computePhilCoreV2FundLifecycleDigest ::
  "ethers \<Rightarrow> PhilCoreV2FundLifecycleInput \<Rightarrow> string result" where
  "computePhilCoreV2FundLifecycleDigest E input =
     bnd (intent_uint (fl_maximumFundingOrHolding input) 256 ''maximumFundingOrHolding'' False)
       (\<lambda>maximumFundingOrHolding.
     bnd (intent_uint (fl_maximumStranded input) 256 ''maximumStranded'' False) (\<lambda>maximumStranded.
     bnd (ensure (\<not> maximumStranded > maximumFundingOrHolding)
            ''maximumStranded_exceeds_maximumFundingOrHolding'') (\<lambda>_.
     bnd (intent_bytes32 E (fl_lifecycleSchemaHash input) ''lifecycleSchemaHash'' False)
       (\<lambda>lifecycleSchemaHash.
     bnd (intent_address E (fl_account input) ''fundLifecycle.account'' False) (\<lambda>account.
     bnd (intent_address E (fl_asset input) ''fundLifecycle.asset'' True) (\<lambda>asset.
     bnd (intent_uint (fl_tokenId input) 256 ''tokenId'' False) (\<lambda>tokenId.
     bnd (intent_address E (fl_residualRecipient input) ''residualRecipient'' True)
       (\<lambda>residualRecipient.
     bnd (intent_uint (fl_expectedPostOperationBalance input) 256
            ''expectedPostOperationBalance'' False) (\<lambda>expectedPostOperationBalance.
     bnd (intent_uint (fl_expectedFinalBalance input) 256 ''expectedFinalBalance'' False)
       (\<lambda>expectedFinalBalance.
     bnd (intent_bytes32 E (fl_releaseRouteHash input) ''releaseRouteHash'' False)
       (\<lambda>releaseRouteHash.
     bnd (intent_bytes32 E (fl_simulationEvidenceHash input) ''simulationEvidenceHash'' False)
       (\<lambda>simulationEvidenceHash.
     Inr (keccak256 E (HexData (abiEncode E fund_lifecycle_types
       [AbiHex (PHILCORE_V2_TYPEHASH E FUND_LIFECYCLE), AbiHex lifecycleSchemaHash,
        AbiHex account, AbiHex asset, AbiUint tokenId, AbiUint maximumFundingOrHolding,
        AbiUint maximumStranded, AbiHex residualRecipient, AbiUint expectedPostOperationBalance,
        AbiUint expectedFinalBalance, AbiHex releaseRouteHash,
        AbiHex simulationEvidenceHash])))))))))))))))"

section \<open>Actions\<close>

definition action_encoding ::
  "ethers \<Rightarrow> action_type \<Rightarrow> string \<Rightarrow> string list \<Rightarrow> abi_value list \<Rightarrow> string" where
  "action_encoding E action coreHeaderHash types values =
     abiEncode E (''bytes32'' # ''bytes32'' # types)
       (AbiHex (PHILCORE_V2_TYPEHASH E (ACTION action)) # AbiHex coreHeaderHash # values)"

text \<open>
  \<open>encodeAction\<close>: every case encodes the type hash of the action, the header hash and the
  checked fields of the payload (\<open>action_encoding\<close>). The checks stand in the source's order.
\<close>

fun encode_payload ::
  "ethers \<Rightarrow> PhilCoreV2IntentCoreHeader \<Rightarrow> string \<Rightarrow> PhilCoreV2ActionPayloadInput \<Rightarrow> string result"
where
  "encode_payload E header hash (Confirm confirmationTarget confirmationDigest) =
     bnd (intent_address E confirmationTarget ''confirmationTarget'' False) (\<lambda>target.
     bnd (intent_bytes32 E confirmationDigest ''confirmationDigest'' False) (\<lambda>digest.
     Inr (action_encoding E CONFIRM hash [''address'', ''bytes32''] [AbiHex target, AbiHex digest])))"
| "encode_payload E header hash (NativeTransfer recipient amountWei) =
     bnd (intent_address E recipient ''recipient'' False) (\<lambda>recipient.
     bnd (assertDistinctFromAccount recipient (h_account header) ''recipient'') (\<lambda>_.
     bnd (intent_uint amountWei 256 ''amountWei'' True) (\<lambda>amountWei.
     Inr (action_encoding E NATIVE_TRANSFER hash [''address'', ''uint256'']
            [AbiHex recipient, AbiUint amountWei]))))"
| "encode_payload E header hash (ERC20Transfer token recipient amount) =
     bnd (intent_address E token ''token'' False) (\<lambda>token.
     bnd (intent_address E recipient ''recipient'' False) (\<lambda>recipient.
     bnd (assertDistinctFromAccount recipient (h_account header) ''recipient'') (\<lambda>_.
     bnd (intent_uint amount 256 ''amount'' True) (\<lambda>amount.
     Inr (action_encoding E ERC20_TRANSFER hash [''address'', ''address'', ''uint256'']
            [AbiHex token, AbiHex recipient, AbiUint amount])))))"
| "encode_payload E header hash (ERC721SafeTransfer token recipient tokenId receiverDataHash) =
     bnd (intent_address E recipient ''recipient'' False) (\<lambda>recipient.
     bnd (assertDistinctFromAccount recipient (h_account header) ''recipient'') (\<lambda>_.
     bnd (intent_address E token ''token'' False) (\<lambda>token.
     bnd (intent_uint tokenId 256 ''tokenId'' False) (\<lambda>tokenId.
     bnd (intent_bytes32 E receiverDataHash ''receiverDataHash'' False) (\<lambda>receiverDataHash.
     Inr (action_encoding E ERC721_SAFE_TRANSFER hash
            [''address'', ''address'', ''uint256'', ''bytes32'']
            [AbiHex token, AbiHex recipient, AbiUint tokenId, AbiHex receiverDataHash]))))))"
| "encode_payload E header hash (ERC1155SafeTransfer token recipient tokenId amount receiverDataHash) =
     bnd (intent_address E recipient ''recipient'' False) (\<lambda>recipient.
     bnd (assertDistinctFromAccount recipient (h_account header) ''recipient'') (\<lambda>_.
     bnd (intent_address E token ''token'' False) (\<lambda>token.
     bnd (intent_uint tokenId 256 ''tokenId'' False) (\<lambda>tokenId.
     bnd (intent_uint amount 256 ''amount'' True) (\<lambda>amount.
     bnd (intent_bytes32 E receiverDataHash ''receiverDataHash'' False) (\<lambda>receiverDataHash.
     Inr (action_encoding E ERC1155_SAFE_TRANSFER hash
            [''address'', ''address'', ''uint256'', ''uint256'', ''bytes32'']
            [AbiHex token, AbiHex recipient, AbiUint tokenId, AbiUint amount,
             AbiHex receiverDataHash])))))))"
| "encode_payload E header hash (EntryPointDepositWithdrawal recipient amountWei) =
     bnd (intent_address E recipient ''recipient'' False) (\<lambda>recipient.
     bnd (assertDistinctFromAccount recipient (h_account header) ''recipient'') (\<lambda>_.
     bnd (intent_uint amountWei 256 ''amountWei'' True) (\<lambda>amountWei.
     Inr (action_encoding E ENTRYPOINT_DEPOSIT_WITHDRAWAL hash [''address'', ''uint256'']
            [AbiHex recipient, AbiUint amountWei]))))"
| "encode_payload E header hash (ValidatorRotation proposedValidator keyIdBinding epoch) =
     bnd (intent_uint epoch 64 ''proposedValidatorEpoch'' True) (\<lambda>proposed.
     bnd (ensure (proposed = h_validatorEpoch header + 1)
            ''proposedValidatorEpoch_must_equal_current_plus_one'') (\<lambda>_.
     bnd (intent_address E proposedValidator ''proposedValidator'' False) (\<lambda>validator.
     bnd (intent_bytes32 E keyIdBinding ''proposedValidatorKeyIdBinding'' False) (\<lambda>binding.
     bnd (intent_uint epoch 64 ''proposedValidatorEpoch'' True) (\<lambda>epoch.
     Inr (action_encoding E VALIDATOR_ROTATION hash [''address'', ''bytes32'', ''uint64'']
            [AbiHex validator, AbiHex binding, AbiUint epoch]))))))"
| "encode_payload E header hash (RecoveryRequest proposedValidator keyIdBinding epoch salt) =
     bnd (intent_uint epoch 64 ''proposedValidatorEpoch'' True) (\<lambda>proposed.
     bnd (ensure (proposed = h_validatorEpoch header + 1)
            ''proposedValidatorEpoch_must_equal_current_plus_one'') (\<lambda>_.
     bnd (intent_address E proposedValidator ''proposedValidator'' False) (\<lambda>validator.
     bnd (intent_bytes32 E keyIdBinding ''proposedValidatorKeyIdBinding'' False) (\<lambda>binding.
     bnd (intent_uint epoch 64 ''proposedValidatorEpoch'' True) (\<lambda>epoch.
     bnd (intent_bytes32 E salt ''recoveryRequestSalt'' False) (\<lambda>salt.
     Inr (action_encoding E RECOVERY_REQUEST hash
            [''address'', ''bytes32'', ''uint64'', ''bytes32'']
            [AbiHex validator, AbiHex binding, AbiUint epoch, AbiHex salt])))))))"
| "encode_payload E header hash (RecoveryCancel requestId) =
     bnd (intent_bytes32 E requestId ''recoveryRequestId'' False) (\<lambda>requestId.
     Inr (action_encoding E RECOVERY_CANCEL hash [''bytes32''] [AbiHex requestId]))"
| "encode_payload E header hash (RecoveryConfigRotationRequest config primary hardware factor epoch) =
     bnd (intent_uint epoch 64 ''proposedRecoveryEpoch'' True) (\<lambda>proposed.
     bnd (ensure (proposed = h_recoveryEpoch header + 1)
            ''proposedRecoveryEpoch_must_equal_current_plus_one'') (\<lambda>_.
     bnd (intent_bytes32 E primary ''proposedPrimaryDeviceCommitment'' False) (\<lambda>primary.
     bnd (intent_bytes32 E hardware ''proposedHardwareSecurityKeyCommitment'' False) (\<lambda>hardware.
     bnd (intent_bytes32 E factor ''proposedRecoveryFactorCommitment'' False) (\<lambda>factor.
     bnd (ensure (distinct [primary, hardware, factor])
            ''proposed_factor_commitments_must_be_unique'') (\<lambda>_.
     bnd (intent_bytes32 E config ''proposedRecoveryConfigHash'' False) (\<lambda>config.
     bnd (intent_uint epoch 64 ''proposedRecoveryEpoch'' True) (\<lambda>epoch.
     Inr (action_encoding E RECOVERY_CONFIG_ROTATION_REQUEST hash
            [''bytes32'', ''bytes32'', ''bytes32'', ''bytes32'', ''uint64'']
            [AbiHex config, AbiHex primary, AbiHex hardware, AbiHex factor, AbiUint epoch])))))))))"
| "encode_payload E header hash (RecoveryConfigRotationCancel requestId) =
     bnd (intent_bytes32 E requestId ''recoveryConfigRotationRequestId'' False) (\<lambda>requestId.
     Inr (action_encoding E RECOVERY_CONFIG_ROTATION_CANCEL hash [''bytes32''] [AbiHex requestId]))"

definition encodeAction ::
  "ethers \<Rightarrow> PhilCoreV2IntentCoreHeader \<Rightarrow> string \<Rightarrow> PhilCoreV2ActionPayloadInput \<Rightarrow> string result"
where
  "encodeAction E header coreHeaderHash payload =
     bnd (ensure (h_actionType header = payloadActionType payload) ''payload_actionType_mismatch'') (\<lambda>_.
     encode_payload E header coreHeaderHash payload)"

definition encodePhilCoreV2Intent ::
  "ethers \<Rightarrow> PhilCoreV2IntentInput \<Rightarrow> PhilCoreV2IntentEncoding result" where
  "encodePhilCoreV2Intent E input =
     bnd (normalizePhilCoreV2IntentCoreHeader E (in_header input)) (\<lambda>header.
     bnd (encodePhilCoreV2IntentCoreHeader E (header_input header)) (\<lambda>coreHeaderEncoding.
     let coreHeaderHash = keccak256 E (HexData coreHeaderEncoding) in
     bnd (encodeAction E header coreHeaderHash (in_payload input)) (\<lambda>actionEncoding.
     Inr \<lparr>enc_header = header, enc_coreHeaderEncoding = coreHeaderEncoding,
          enc_coreHeaderHash = coreHeaderHash, enc_actionEncoding = actionEncoding,
          enc_intentCoreHash = keccak256 E (HexData actionEncoding)\<rparr>)))"

definition computePhilCoreV2IntentCoreHash :: "ethers \<Rightarrow> PhilCoreV2IntentInput \<Rightarrow> string result" where
  "computePhilCoreV2IntentCoreHash E input =
     bnd (encodePhilCoreV2Intent E input) (\<lambda>encoding. Inr (enc_intentCoreHash encoding))"

section \<open>EIP-712 digests and the keyed nonce\<close>

definition computePhilCoreV2DomainSeparator ::
  "ethers \<Rightarrow> bignumberish \<Rightarrow> string \<Rightarrow> string result" where
  "computePhilCoreV2DomainSeparator E chainId account =
     bnd (intent_uint chainId 256 ''chainId'' True) (\<lambda>chainId.
     bnd (intent_address E account ''account'' False) (\<lambda>account.
     Inr (keccak256 E (HexData (abiEncode E
       [''bytes32'', ''bytes32'', ''bytes32'', ''uint256'', ''address'']
       [AbiHex (PHILCORE_V2_TYPEHASH E EIP712_DOMAIN),
        AbiHex (keccak256 E (toUtf8Bytes E PHILCORE_V2_EIP712_NAME)),
        AbiHex (keccak256 E (toUtf8Bytes E PHILCORE_V2_EIP712_VERSION)),
        AbiUint chainId, AbiHex account])))))"

definition computePhilCoreV2TypedDataDigest :: "ethers \<Rightarrow> string \<Rightarrow> string \<Rightarrow> string result" where
  "computePhilCoreV2TypedDataDigest E domainSeparator structHash =
     bnd (intent_bytes32 E domainSeparator ''domainSeparator'' False) (\<lambda>domainSeparator.
     bnd (intent_bytes32 E structHash ''structHash'' False) (\<lambda>structHash.
     Inr (keccak256 E (HexData (hexConcat E [''0x1901'', domainSeparator, structHash])))))"

definition composePhilCoreV2Nonce :: "bignumberish \<Rightarrow> bignumberish \<Rightarrow> int result" where
  "composePhilCoreV2Nonce key sequence =
     bnd (intent_uint key 192 ''nonceKey'' False) (\<lambda>key.
     bnd (intent_uint sequence 64 ''nonceSequence'' False) (\<lambda>sequence.
     Inr (or (push_bit 64 key) sequence)))"

definition decomposePhilCoreV2Nonce :: "bignumberish \<Rightarrow> (int \<times> int) result" where
  "decomposePhilCoreV2Nonce nonce =
     bnd (intent_uint nonce 256 ''nonce'' False) (\<lambda>value.
     Inr (drop_bit 64 value, and value (push_bit 64 1 - 1)))"

definition expectedPhilCoreV2NonceKey :: "action_type \<Rightarrow> int" where
  "expectedPhilCoreV2NonceKey action = ACTION_NONCE_KEYS action"

section \<open>The argument checks accept exactly the well-formed values\<close>

lemma intent_uint_iff [result_simps]: "intent_uint v b l nz = Inr n \<longleftrightarrow> is_uint nz b v n"
  by (cases "BigInt_of v") (auto simp: intent_uint_def is_uint_def uint_fits_def)

lemma intent_bytes32_iff [result_simps]: "intent_bytes32 E v l az = Inr s \<longleftrightarrow> is_bytes32 E az v s"
  by (auto simp: intent_bytes32_def is_bytes32_def Let_def)

lemma intent_address_iff [result_simps]: "intent_address E v l az = Inr a \<longleftrightarrow> is_address E az v a"
  by (auto simp: intent_address_def is_address_def split: option.splits)

lemma PHILCORE_V2_ACTION_TYPE_inject [simp]:
  "PHILCORE_V2_ACTION_TYPE a = PHILCORE_V2_ACTION_TYPE b \<longleftrightarrow> a = b"
  by (cases a; cases b) simp_all

lemma PHILCORE_V2_ACTION_TYPE_range: "1 \<le> PHILCORE_V2_ACTION_TYPE a \<and> PHILCORE_V2_ACTION_TYPE a \<le> 11"
  by (cases a) simp_all

lemma actionType_iff [result_simps]:
  "actionType v = Inr a \<longleftrightarrow> BigInt_of v = Inr (PHILCORE_V2_ACTION_TYPE a)"
proof
  assume "actionType v = Inr a"
  then show "BigInt_of v = Inr (PHILCORE_V2_ACTION_TYPE a)"
    by (auto simp: actionType_def result_simps is_uint_def find_Some_iff split: option.splits)
next
  assume v: "BigInt_of v = Inr (PHILCORE_V2_ACTION_TYPE a)"
  then have "intent_uint v 8 ''actionType'' True = Inr (PHILCORE_V2_ACTION_TYPE a)"
    using PHILCORE_V2_ACTION_TYPE_range [of a] by (simp add: result_simps is_uint_def uint_fits_def)
  moreover have "find (\<lambda>b. PHILCORE_V2_ACTION_TYPE b = PHILCORE_V2_ACTION_TYPE a) action_types = Some a"
    by (cases a) (simp_all add: action_types_def)
  ultimately show "actionType v = Inr a" by (simp add: actionType_def)
qed

section \<open>Header normalisation\<close>

lemma normalizePhilCoreV2IntentCoreHeader_iff:
  "normalizePhilCoreV2IntentCoreHeader E i = Inr h \<longleftrightarrow>
     BigInt_of (hi_actionType i) = Inr (PHILCORE_V2_ACTION_TYPE (h_actionType h)) \<and>
     is_bytes32 E False (hi_purpose i) (h_purpose h) \<and>
     is_uint False 192 (hi_nonceKey i) (h_nonceKey h) \<and>
     is_uint False 48 (hi_validAfter i) (h_validAfter h) \<and>
     is_uint False 48 (hi_validUntil i) (h_validUntil h) \<and>
     is_uint False 8 (hi_specificationVersion i) (h_specificationVersion h) \<and>
     h_specificationVersion h = PHILCORE_V2_INTENT_SPECIFICATION_VERSION \<and>
     is_bytes32 E False (hi_securityModelId i) (h_securityModelId h) \<and>
     h_securityModelId h = toLowerCase (PHILCORE_V2_SECURITY_MODEL_ID E) \<and>
     h_nonceKey h = ACTION_NONCE_KEYS (h_actionType h) \<and>
     h_purpose h \<in> set (ACTION_PURPOSES E (h_actionType h)) \<and>
     h_validAfter h < h_validUntil h \<and>
     h_validUntil h - h_validAfter h
       \<le> (if PHILCORE_V2_ACTION_TYPE (h_actionType h) \<ge> 8 then 3600 else 600) \<and>
     is_bytes32 E False (hi_actionId i) (h_actionId h) \<and>
     is_bytes32 E False (hi_ownerCommitment i) (h_ownerCommitment h) \<and>
     is_uint True 256 (hi_chainId i) (h_chainId h) \<and>
     is_address E False (hi_entryPoint i) (h_entryPoint h) \<and>
     is_address E False (hi_account i) (h_account h) \<and>
     is_uint False 64 (hi_nonceSequence i) (h_nonceSequence h) \<and>
     is_uint True 64 (hi_validatorEpoch i) (h_validatorEpoch h) \<and>
     is_uint True 64 (hi_recoveryEpoch i) (h_recoveryEpoch h) \<and>
     is_bytes32 E False (hi_applicationContextHash i) (h_applicationContextHash h) \<and>
     is_bytes32 E False (hi_fundLifecycleDigest i) (h_fundLifecycleDigest h) \<and>
     is_uint True 256 (hi_maxTotalFeeWei i) (h_maxTotalFeeWei h)"
  (is "?lhs \<longleftrightarrow> ?rhs")
proof
  show "?lhs \<Longrightarrow> ?rhs"
    by (auto simp: normalizePhilCoreV2IntentCoreHeader_def assertPurpose_def Let_def result_simps
        not_le not_less)
next
  show "?rhs \<Longrightarrow> ?lhs"
    by (cases h) (simp add: normalizePhilCoreV2IntentCoreHeader_def assertPurpose_def Let_def
        result_simps not_le not_less)
qed

lemma header_stable:
  assumes "ethers_laws E" and "normalizePhilCoreV2IntentCoreHeader E i = Inr h"
  shows "normalizePhilCoreV2IntentCoreHeader E (header_input h) = Inr h"
  using assms(2) unfolding normalizePhilCoreV2IntentCoreHeader_iff header_input_def
  by (auto simp: is_uint_def intro: is_bytes32_stable [OF assms(1)] is_address_stable [OF assms(1)])

interpretation header: normaliser ethers_laws normalizePhilCoreV2IntentCoreHeader header_input
  by unfold_locales (rule header_stable)

section \<open>The keyed nonce\<close>

lemma or_push_bit_add:
  assumes "0 \<le> s" and "s < 2 ^ n"
  shows "or (push_bit n k) s = k * 2 ^ n + (s :: int)"
proof -
  from assms have "s = take_bit n s" by (simp add: take_bit_int_eq_self)
  then have "\<not> bit s m" if "n \<le> m" for m
    using that by (metis bit_take_bit_iff not_le)
  then have "and (push_bit n k) s = 0"
    by (intro bit_eqI) (auto simp: bit_and_iff bit_push_bit_iff)
  then show ?thesis by (simp add: disjunctive_add_eq_or [symmetric] push_bit_eq_mult)
qed

lemma low_64_bits: "and n (push_bit 64 1 - 1) = n mod (2 ^ 64 :: int)"
  unfolding take_bit_eq_mod [symmetric] take_bit_eq_mask
  by (simp add: mask_eq_exp_minus_1 push_bit_eq_mult)

lemma composePhilCoreV2Nonce_iff [result_simps]:
  "composePhilCoreV2Nonce key sequence = Inr n \<longleftrightarrow>
     (\<exists>k s. is_uint False 192 key k \<and> is_uint False 64 sequence s \<and> n = k * 2 ^ 64 + s)"
  by (auto simp: composePhilCoreV2Nonce_def result_simps is_uint_def uint_fits_def or_push_bit_add)

lemma decomposePhilCoreV2Nonce_iff [result_simps]:
  "decomposePhilCoreV2Nonce nonce = Inr ks \<longleftrightarrow>
     (\<exists>n. is_uint False 256 nonce n \<and> ks = (n div 2 ^ 64, n mod 2 ^ 64))"
  unfolding decomposePhilCoreV2Nonce_def low_64_bits drop_bit_eq_div
  by (auto simp: result_simps)

lemma nonce_fits:
  "uint_fits 192 k \<Longrightarrow> uint_fits 64 s \<Longrightarrow> uint_fits 256 (k * 2 ^ 64 + s)"
  by (auto simp: uint_fits_def)

lemma nonce_parts_fit: "uint_fits 256 n \<Longrightarrow> uint_fits 192 (n div 2 ^ 64) \<and> uint_fits 64 (n mod 2 ^ 64)"
  by (auto simp: uint_fits_def)

lemma nonce_parts_unique:
  fixes k k' s s' :: int
  assumes "uint_fits 64 s" and "uint_fits 64 s'" and "k * 2 ^ 64 + s = k' * 2 ^ 64 + s'"
  shows "k = k' \<and> s = s'"
proof -
  have "(k * 2 ^ 64 + s) div 2 ^ 64 = k" "(k' * 2 ^ 64 + s') div 2 ^ 64 = k'"
    using assms(1,2) by (simp_all add: uint_fits_def)
  with assms(3) have "k = k'" by metis
  with assms(3) show ?thesis by simp
qed

section \<open>What the intent hash binds\<close>

definition norm_address :: "ethers \<Rightarrow> string \<Rightarrow> string" where
  "norm_address E v = (case getAddress E v of None \<Rightarrow> v | Some a \<Rightarrow> a)"

definition norm_uint :: "bignumberish \<Rightarrow> bignumberish" where
  "norm_uint v = (case BigInt_of v of Inl _ \<Rightarrow> v | Inr n \<Rightarrow> BigIntV n)"

text \<open>The payload with every field in its normal form.\<close>

fun canonical_payload ::
  "ethers \<Rightarrow> PhilCoreV2ActionPayloadInput \<Rightarrow> PhilCoreV2ActionPayloadInput" where
  "canonical_payload E (Confirm t d) = Confirm (norm_address E t) (toLowerCase d)"
| "canonical_payload E (NativeTransfer r a) = NativeTransfer (norm_address E r) (norm_uint a)"
| "canonical_payload E (ERC20Transfer t r a) =
     ERC20Transfer (norm_address E t) (norm_address E r) (norm_uint a)"
| "canonical_payload E (ERC721SafeTransfer t r i d) =
     ERC721SafeTransfer (norm_address E t) (norm_address E r) (norm_uint i) (toLowerCase d)"
| "canonical_payload E (ERC1155SafeTransfer t r i a d) =
     ERC1155SafeTransfer (norm_address E t) (norm_address E r) (norm_uint i) (norm_uint a)
       (toLowerCase d)"
| "canonical_payload E (EntryPointDepositWithdrawal r a) =
     EntryPointDepositWithdrawal (norm_address E r) (norm_uint a)"
| "canonical_payload E (ValidatorRotation v b e) =
     ValidatorRotation (norm_address E v) (toLowerCase b) (norm_uint e)"
| "canonical_payload E (RecoveryRequest v b e s) =
     RecoveryRequest (norm_address E v) (toLowerCase b) (norm_uint e) (toLowerCase s)"
| "canonical_payload E (RecoveryCancel r) = RecoveryCancel (toLowerCase r)"
| "canonical_payload E (RecoveryConfigRotationRequest c p h f e) =
     RecoveryConfigRotationRequest (toLowerCase c) (toLowerCase p) (toLowerCase h) (toLowerCase f)
       (norm_uint e)"
| "canonical_payload E (RecoveryConfigRotationCancel r) = RecoveryConfigRotationCancel (toLowerCase r)"

fun bigint_word :: "bignumberish \<Rightarrow> abi_value" where
  "bigint_word v = AbiUint (case BigInt_of v of Inl _ \<Rightarrow> 0 | Inr n \<Rightarrow> n)"

fun payload_words :: "PhilCoreV2ActionPayloadInput \<Rightarrow> abi_value list" where
  "payload_words (Confirm t d) = [AbiHex t, AbiHex d]"
| "payload_words (NativeTransfer r a) = [AbiHex r, bigint_word a]"
| "payload_words (ERC20Transfer t r a) = [AbiHex t, AbiHex r, bigint_word a]"
| "payload_words (ERC721SafeTransfer t r i d) = [AbiHex t, AbiHex r, bigint_word i, AbiHex d]"
| "payload_words (ERC1155SafeTransfer t r i a d) =
     [AbiHex t, AbiHex r, bigint_word i, bigint_word a, AbiHex d]"
| "payload_words (EntryPointDepositWithdrawal r a) = [AbiHex r, bigint_word a]"
| "payload_words (ValidatorRotation v b e) = [AbiHex v, AbiHex b, bigint_word e]"
| "payload_words (RecoveryRequest v b e s) = [AbiHex v, AbiHex b, bigint_word e, AbiHex s]"
| "payload_words (RecoveryCancel r) = [AbiHex r]"
| "payload_words (RecoveryConfigRotationRequest c p h f e) =
     [AbiHex c, AbiHex p, AbiHex h, AbiHex f, bigint_word e]"
| "payload_words (RecoveryConfigRotationCancel r) = [AbiHex r]"

fun payload_field_types :: "action_type \<Rightarrow> string list" where
  "payload_field_types CONFIRM = [''address'', ''bytes32'']"
| "payload_field_types NATIVE_TRANSFER = [''address'', ''uint256'']"
| "payload_field_types ERC20_TRANSFER = [''address'', ''address'', ''uint256'']"
| "payload_field_types ERC721_SAFE_TRANSFER = [''address'', ''address'', ''uint256'', ''bytes32'']"
| "payload_field_types ERC1155_SAFE_TRANSFER =
     [''address'', ''address'', ''uint256'', ''uint256'', ''bytes32'']"
| "payload_field_types ENTRYPOINT_DEPOSIT_WITHDRAWAL = [''address'', ''uint256'']"
| "payload_field_types VALIDATOR_ROTATION = [''address'', ''bytes32'', ''uint64'']"
| "payload_field_types RECOVERY_REQUEST = [''address'', ''bytes32'', ''uint64'', ''bytes32'']"
| "payload_field_types RECOVERY_CANCEL = [''bytes32'']"
| "payload_field_types RECOVERY_CONFIG_ROTATION_REQUEST =
     [''bytes32'', ''bytes32'', ''bytes32'', ''bytes32'', ''uint64'']"
| "payload_field_types RECOVERY_CONFIG_ROTATION_CANCEL = [''bytes32'']"

text \<open>The numbers of a payload are given as numerals that parse.\<close>

fun payload_numbers :: "PhilCoreV2ActionPayloadInput \<Rightarrow> bignumberish list" where
  "payload_numbers (NativeTransfer r a) = [a]"
| "payload_numbers (ERC20Transfer t r a) = [a]"
| "payload_numbers (ERC721SafeTransfer t r i d) = [i]"
| "payload_numbers (ERC1155SafeTransfer t r i a d) = [i, a]"
| "payload_numbers (EntryPointDepositWithdrawal r a) = [a]"
| "payload_numbers (ValidatorRotation v b e) = [e]"
| "payload_numbers (RecoveryRequest v b e s) = [e]"
| "payload_numbers (RecoveryConfigRotationRequest c p h f e) = [e]"
| "payload_numbers p = []"

lemma norm_address_abi: "ethers_laws E \<Longrightarrow> is_address E az v a \<Longrightarrow> norm_address E v = a \<and> abi_fits E ''address'' (AbiHex a)"
  by (auto simp: is_address_def norm_address_def dest: laws_getAddress)

lemma norm_bytes32_abi: "ethers_laws E \<Longrightarrow> is_bytes32 E az v s \<Longrightarrow> toLowerCase v = s \<and> abi_fits E ''bytes32'' (AbiHex s)"
  using is_bytes32_abi by (auto simp: is_bytes32_def)

lemma norm_uint_abi: "is_uint nz b v n \<Longrightarrow> norm_uint v = BigIntV n \<and> uint_fits b n \<and> (\<exists>m. BigInt_of v = Inr m)"
  by (auto simp: is_uint_def norm_uint_def)

lemma encode_payload_words:
  assumes laws: "ethers_laws E" and enc: "encode_payload E header hash p = Inr e"
  shows "e = action_encoding E (payloadActionType p) hash (payload_field_types (payloadActionType p))
           (payload_words (canonical_payload E p)) \<and>
         list_all2 (abi_fits E) (payload_field_types (payloadActionType p))
           (payload_words (canonical_payload E p)) \<and>
         (\<forall>v \<in> set (payload_numbers p). \<exists>n. BigInt_of v = Inr n)"
  using enc
  by (cases p)
     (auto simp: result_simps dest!: norm_address_abi [OF laws] norm_bytes32_abi [OF laws] norm_uint_abi)

lemma payload_words_inject:
  "payloadActionType p = payloadActionType q \<Longrightarrow>
   (\<forall>v \<in> set (payload_numbers p). \<exists>n. BigInt_of v = Inr n) \<Longrightarrow>
   (\<forall>v \<in> set (payload_numbers q). \<exists>n. BigInt_of v = Inr n) \<Longrightarrow>
   payload_words (canonical_payload E p) = payload_words (canonical_payload E q) \<Longrightarrow>
   canonical_payload E p = canonical_payload E q"
  by (cases p; cases q) (auto simp: norm_uint_def)

lemma payloadActionType_canonical [simp]: "payloadActionType (canonical_payload E p) = payloadActionType p"
  by (cases p) auto

lemma PHILCORE_V2_TYPE_action_inject:
  "PHILCORE_V2_TYPE (ACTION a) = PHILCORE_V2_TYPE (ACTION b) \<Longrightarrow> a = b"
  by (cases a; cases b) simp_all

lemma header_values_fit:
  assumes laws: "ethers_laws E" and norm: "normalizePhilCoreV2IntentCoreHeader E i = Inr h"
  shows "list_all2 (abi_fits E) header_types (header_values E h)"
proof -
  note n = norm [unfolded normalizePhilCoreV2IntentCoreHeader_iff]
  have "uint_fits 8 (PHILCORE_V2_ACTION_TYPE (h_actionType h))"
    using PHILCORE_V2_ACTION_TYPE_range [of "h_actionType h"] by (simp add: uint_fits_def)
  with n show ?thesis
    by (auto simp: header_types_def header_values_def PHILCORE_V2_TYPEHASH_def laws_keccak256 [OF laws]
        is_uint_def simp del: abi_fits.simps(2)
        intro: is_bytes32_abi [OF laws] is_address_abi [OF laws] keccak_abi [OF laws])
qed

lemma header_values_inject: "header_values E h = header_values E h' \<Longrightarrow> h = h'"
  by (cases h; cases h') (simp add: header_values_def)

lemma encodePhilCoreV2Intent_iff:
  assumes "ethers_laws E"
  shows "encodePhilCoreV2Intent E input = Inr enc \<longleftrightarrow>
    normalizePhilCoreV2IntentCoreHeader E (in_header input) = Inr (enc_header enc) \<and>
    enc_coreHeaderEncoding enc = abiEncode E header_types (header_values E (enc_header enc)) \<and>
    enc_coreHeaderHash enc = keccak256 E (HexData (enc_coreHeaderEncoding enc)) \<and>
    h_actionType (enc_header enc) = payloadActionType (in_payload input) \<and>
    encode_payload E (enc_header enc) (enc_coreHeaderHash enc) (in_payload input) =
      Inr (enc_actionEncoding enc) \<and>
    enc_intentCoreHash enc = keccak256 E (HexData (enc_actionEncoding enc))"
  by (cases enc)
     (auto simp: encodePhilCoreV2Intent_def encodePhilCoreV2IntentCoreHeader_def encodeAction_def
       Let_def result_simps dest: header_stable [OF assms])

text \<open>What is hashed for an intent: its two encodings and the type strings.\<close>

definition intent_preimages :: "ethers \<Rightarrow> PhilCoreV2IntentEncoding \<Rightarrow> bytes_like set" where
  "intent_preimages E enc =
     {HexData (enc_coreHeaderEncoding enc), HexData (enc_actionEncoding enc)} \<union>
     range (\<lambda>k. toUtf8Bytes E (PHILCORE_V2_TYPE k))"

lemma action_encoding_binding:
  assumes laws: "ethers_laws E" and noc: "\<not> keccak_collision E S"
    and types: "range (\<lambda>k. toUtf8Bytes E (PHILCORE_V2_TYPE k)) \<subseteq> S"
    and p: "encode_payload E h hh p = Inr e" and q: "encode_payload E h' hh' q = Inr e"
    and hh: "abi_fits E ''bytes32'' (AbiHex hh)" "abi_fits E ''bytes32'' (AbiHex hh')"
  shows "payloadActionType p = payloadActionType q \<and> hh = hh' \<and>
         canonical_payload E p = canonical_payload E q"
proof -
  note pe = encode_payload_words [OF laws p] and qe = encode_payload_words [OF laws q]
  let ?ts = "\<lambda>r. payload_field_types (payloadActionType r)"
  let ?vs = "\<lambda>r k. AbiHex (PHILCORE_V2_TYPEHASH E (ACTION (payloadActionType r))) # AbiHex k #
      payload_words (canonical_payload E r)"
  have fits: "list_all2 (abi_fits E) (''bytes32'' # ''bytes32'' # ?ts p) (?vs p hh)"
    "list_all2 (abi_fits E) (''bytes32'' # ''bytes32'' # ?ts q) (?vs q hh')"
    using pe qe hh keccak_abi [OF laws] by (simp_all add: PHILCORE_V2_TYPEHASH_def)
  have eq: "abiEncode E (''bytes32'' # ''bytes32'' # ?ts p) (?vs p hh) =
      abiEncode E (''bytes32'' # ''bytes32'' # ?ts q) (?vs q hh')"
    using pe qe by (simp add: action_encoding_def)
  from abiEncode_head [OF laws fits eq]
  have "PHILCORE_V2_TYPEHASH E (ACTION (payloadActionType p)) =
      PHILCORE_V2_TYPEHASH E (ACTION (payloadActionType q))" by simp
  with keccak_utf8_eq_in [OF laws noc] types have same: "payloadActionType p = payloadActionType q"
    unfolding PHILCORE_V2_TYPEHASH_def using PHILCORE_V2_TYPE_action_inject
    by (metis range_subsetD)
  with abiEncode_inject [OF laws fits(1) fits(2) [folded same]] eq
  have "?vs p hh = ?vs q hh'" by simp
  with same payload_words_inject [OF same] pe qe show ?thesis by simp
qed

lemma intent_hash_binds:
  assumes laws: "ethers_laws E"
    and i: "encodePhilCoreV2Intent E i = Inr enc" and j: "encodePhilCoreV2Intent E j = Inr enc'"
    and eq: "enc_intentCoreHash enc = enc_intentCoreHash enc'"
    and noc: "\<not> keccak_collision E (intent_preimages E enc \<union> intent_preimages E enc')"
  shows "enc_header enc = enc_header enc' \<and>
         canonical_payload E (in_payload i) = canonical_payload E (in_payload j)"
proof -
  note i' = i [unfolded encodePhilCoreV2Intent_iff [OF laws]]
    and j' = j [unfolded encodePhilCoreV2Intent_iff [OF laws]]
  have "enc_actionEncoding enc = enc_actionEncoding enc'"
    using keccak_eq_in [OF noc, of "HexData (enc_actionEncoding enc)" "HexData (enc_actionEncoding enc')"]
      i' j' eq by (simp add: intent_preimages_def)
  moreover have "range (\<lambda>k. toUtf8Bytes E (PHILCORE_V2_TYPE k)) \<subseteq>
      intent_preimages E enc \<union> intent_preimages E enc'"
    by (auto simp: intent_preimages_def)
  moreover have "abi_fits E ''bytes32'' (AbiHex (enc_coreHeaderHash enc))"
    "abi_fits E ''bytes32'' (AbiHex (enc_coreHeaderHash enc'))"
    using i' j' keccak_abi [OF laws] by metis+
  ultimately have same: "enc_coreHeaderHash enc = enc_coreHeaderHash enc'"
    and payload: "canonical_payload E (in_payload i) = canonical_payload E (in_payload j)"
    using action_encoding_binding [OF laws noc] i' j' by metis+
  from same have "enc_coreHeaderEncoding enc = enc_coreHeaderEncoding enc'"
    using keccak_eq_in [OF noc, of "HexData (enc_coreHeaderEncoding enc)"
        "HexData (enc_coreHeaderEncoding enc')"] i' j' by (simp add: intent_preimages_def)
  with i' j' have "header_values E (enc_header enc) = header_values E (enc_header enc')"
    using abiEncode_inject [OF laws header_values_fit [OF laws] header_values_fit [OF laws]] by metis
  with payload header_values_inject show ?thesis by blast
qed

section \<open>What the EIP-712 digests bind\<close>

definition bigint_value :: "bignumberish \<Rightarrow> int" where
  "bigint_value v = (case BigInt_of v of Inl _ \<Rightarrow> 0 | Inr n \<Rightarrow> n)"

definition domain_words :: "ethers \<Rightarrow> bignumberish \<Rightarrow> string \<Rightarrow> abi_value list" where
  "domain_words E chainId account =
     [AbiHex (PHILCORE_V2_TYPEHASH E EIP712_DOMAIN),
      AbiHex (keccak256 E (toUtf8Bytes E PHILCORE_V2_EIP712_NAME)),
      AbiHex (keccak256 E (toUtf8Bytes E PHILCORE_V2_EIP712_VERSION)),
      AbiUint (bigint_value chainId), AbiHex (norm_address E account)]"

definition domain_preimage :: "ethers \<Rightarrow> bignumberish \<Rightarrow> string \<Rightarrow> bytes_like" where
  "domain_preimage E chainId account =
     HexData (abiEncode E [''bytes32'', ''bytes32'', ''bytes32'', ''uint256'', ''address'']
       (domain_words E chainId account))"

definition typed_data_preimage :: "ethers \<Rightarrow> string \<Rightarrow> string \<Rightarrow> bytes_like" where
  "typed_data_preimage E domainSeparator structHash =
     HexData (hexConcat E [''0x1901'', toLowerCase domainSeparator, toLowerCase structHash])"

lemma is_uint_bigint_value: "is_uint nz b v n \<Longrightarrow> bigint_value v = n"
  by (simp add: is_uint_def bigint_value_def)

lemma is_address_norm: "is_address E az v a \<Longrightarrow> norm_address E v = a"
  by (simp add: is_address_def norm_address_def)

lemma domain_separator_preimage:
  assumes laws: "ethers_laws E" and d: "computePhilCoreV2DomainSeparator E c a = Inr d"
  shows "d = keccak256 E (domain_preimage E c a) \<and>
    list_all2 (abi_fits E) [''bytes32'', ''bytes32'', ''bytes32'', ''uint256'', ''address'']
      (domain_words E c a)"
proof -
  from d obtain n b where n: "is_uint True 256 c n" and b: "is_address E False a b"
    and eq: "d = keccak256 E (HexData (abiEncode E
         [''bytes32'', ''bytes32'', ''bytes32'', ''uint256'', ''address'']
         [AbiHex (PHILCORE_V2_TYPEHASH E EIP712_DOMAIN),
          AbiHex (keccak256 E (toUtf8Bytes E PHILCORE_V2_EIP712_NAME)),
          AbiHex (keccak256 E (toUtf8Bytes E PHILCORE_V2_EIP712_VERSION)), AbiUint n, AbiHex b]))"
    unfolding computePhilCoreV2DomainSeparator_def bnd_eq_Inr intent_uint_iff intent_address_iff
    by blast
  from n b is_address_abi [OF laws b] keccak_abi [OF laws] eq show ?thesis
    by (simp add: domain_preimage_def domain_words_def PHILCORE_V2_TYPEHASH_def is_uint_def
        is_uint_bigint_value [OF n] is_address_norm [OF b])
qed

lemma domain_separator_binding:
  assumes laws: "ethers_laws E" and noc: "\<not> keccak_collision E S"
    and S: "domain_preimage E c a \<in> S" "domain_preimage E c' a' \<in> S"
    and d: "computePhilCoreV2DomainSeparator E c a = Inr d"
    and d': "computePhilCoreV2DomainSeparator E c' a' = Inr d"
  shows "bigint_value c = bigint_value c' \<and> norm_address E a = norm_address E a'"
proof -
  note p = domain_separator_preimage [OF laws d] and p' = domain_separator_preimage [OF laws d']
  from p p' have "domain_preimage E c a = domain_preimage E c' a'"
    using keccak_eq_in [OF noc S] by metis
  with abiEncode_inject [OF laws conjunct2 [OF p] conjunct2 [OF p']]
  have "domain_words E c a = domain_words E c' a'" by (simp add: domain_preimage_def)
  then show ?thesis by (simp add: domain_words_def)
qed

lemma typed_data_digest_binding:
  assumes laws: "ethers_laws E" and noc: "\<not> keccak_collision E S"
    and S: "typed_data_preimage E ds sh \<in> S" "typed_data_preimage E ds' sh' \<in> S"
    and d: "computePhilCoreV2TypedDataDigest E ds sh = Inr x"
    and d': "computePhilCoreV2TypedDataDigest E ds' sh' = Inr x"
  shows "toLowerCase ds = toLowerCase ds' \<and> toLowerCase sh = toLowerCase sh'"
proof -
  let ?l = "\<lambda>a b. [''0x1901'', toLowerCase a, toLowerCase b]"
  have hex: "hex_string (toLowerCase v) 32" if "is_bytes32 E False v s" for v s
    using that by (simp add: is_bytes32_def laws_isHexString [OF laws] hex_string_lower)
  have prefix: "hex_string ''0x1901'' 2" "toLowerCase ''0x1901'' = ''0x1901''"
    by (simp_all add: hex_string_def hex_digit_def lower_char_def)
  from d d' have ok: "list_all2 hex_string (?l ds sh) [2, 32, 32]"
      "list_all2 hex_string (?l ds' sh') [2, 32, 32]"
    and eq: "keccak256 E (typed_data_preimage E ds sh) = keccak256 E (typed_data_preimage E ds' sh')"
    using hex prefix(1)
    by (auto simp: computePhilCoreV2TypedDataDigest_def typed_data_preimage_def result_simps
        is_bytes32_def)
  from keccak_eq_in [OF noc S eq] have "hexConcat E (?l ds sh) = hexConcat E (?l ds' sh')"
    by (simp add: typed_data_preimage_def)
  from hexConcat_inject [OF laws ok _ this] prefix(2) show ?thesis by auto
qed

section \<open>Which intents are accepted\<close>

definition transfer_recipient :: "ethers \<Rightarrow> PhilCoreV2IntentCoreHeader \<Rightarrow> string \<Rightarrow> bool" where
  "transfer_recipient E h v \<longleftrightarrow> (\<exists>a. is_address E False v a \<and> a \<noteq> h_account h)"

definition nonzero_address :: "ethers \<Rightarrow> string \<Rightarrow> bool" where
  "nonzero_address E v \<longleftrightarrow> (\<exists>a. is_address E False v a)"

definition nonzero_bytes32 :: "ethers \<Rightarrow> string \<Rightarrow> bool" where
  "nonzero_bytes32 E v \<longleftrightarrow> isHexString E v 32 \<and> toLowerCase v \<noteq> ZERO_BYTES32"

definition uint256 :: "bool \<Rightarrow> bignumberish \<Rightarrow> bool" where
  "uint256 nonzero v \<longleftrightarrow> (\<exists>n. is_uint nonzero 256 v n)"

definition epoch_after :: "int \<Rightarrow> bignumberish \<Rightarrow> bool" where
  "epoch_after current v \<longleftrightarrow> is_uint True 64 v (current + 1)"

text \<open>The specification of a payload, given its header.\<close>

fun payload_policy ::
  "ethers \<Rightarrow> PhilCoreV2IntentCoreHeader \<Rightarrow> PhilCoreV2ActionPayloadInput \<Rightarrow> bool" where
  "payload_policy E h (Confirm t d) = (nonzero_address E t \<and> nonzero_bytes32 E d)"
| "payload_policy E h (NativeTransfer r a) = (transfer_recipient E h r \<and> uint256 True a)"
| "payload_policy E h (ERC20Transfer t r a) =
     (nonzero_address E t \<and> transfer_recipient E h r \<and> uint256 True a)"
| "payload_policy E h (ERC721SafeTransfer t r i d) =
     (nonzero_address E t \<and> transfer_recipient E h r \<and> uint256 False i \<and> nonzero_bytes32 E d)"
| "payload_policy E h (ERC1155SafeTransfer t r i a d) =
     (nonzero_address E t \<and> transfer_recipient E h r \<and> uint256 False i \<and> uint256 True a \<and>
      nonzero_bytes32 E d)"
| "payload_policy E h (EntryPointDepositWithdrawal r a) =
     (transfer_recipient E h r \<and> uint256 True a)"
| "payload_policy E h (ValidatorRotation v b e) =
     (nonzero_address E v \<and> nonzero_bytes32 E b \<and> epoch_after (h_validatorEpoch h) e)"
| "payload_policy E h (RecoveryRequest v b e s) =
     (nonzero_address E v \<and> nonzero_bytes32 E b \<and> epoch_after (h_validatorEpoch h) e \<and>
      nonzero_bytes32 E s)"
| "payload_policy E h (RecoveryCancel r) = nonzero_bytes32 E r"
| "payload_policy E h (RecoveryConfigRotationRequest c p w f e) =
     (nonzero_bytes32 E c \<and> nonzero_bytes32 E p \<and> nonzero_bytes32 E w \<and> nonzero_bytes32 E f \<and>
      distinct [toLowerCase p, toLowerCase w, toLowerCase f] \<and> epoch_after (h_recoveryEpoch h) e)"
| "payload_policy E h (RecoveryConfigRotationCancel r) = nonzero_bytes32 E r"

lemmas policy_defs = transfer_recipient_def nonzero_address_def nonzero_bytes32_def uint256_def
  epoch_after_def assertDistinctFromAccount_def

lemma encode_payload_iff: "(\<exists>e. encode_payload E h hh p = Inr e) \<longleftrightarrow> payload_policy E h p"
  by (cases p) (auto simp: policy_defs result_simps is_bytes32_def dest: is_uint_unique, blast)

lemma encode_intent_iff:
  assumes laws: "ethers_laws E"
  shows "(\<exists>enc. encodePhilCoreV2Intent E i = Inr enc) \<longleftrightarrow>
    (\<exists>h. normalizePhilCoreV2IntentCoreHeader E (in_header i) = Inr h \<and>
      h_actionType h = payloadActionType (in_payload i) \<and> payload_policy E h (in_payload i))"
proof
  assume "\<exists>enc. encodePhilCoreV2Intent E i = Inr enc"
  then show "\<exists>h. normalizePhilCoreV2IntentCoreHeader E (in_header i) = Inr h \<and>
      h_actionType h = payloadActionType (in_payload i) \<and> payload_policy E h (in_payload i)"
    unfolding encodePhilCoreV2Intent_iff [OF laws] using encode_payload_iff by blast
next
  assume "\<exists>h. normalizePhilCoreV2IntentCoreHeader E (in_header i) = Inr h \<and>
      h_actionType h = payloadActionType (in_payload i) \<and> payload_policy E h (in_payload i)"
  then obtain h where h: "normalizePhilCoreV2IntentCoreHeader E (in_header i) = Inr h"
    "h_actionType h = payloadActionType (in_payload i)" "payload_policy E h (in_payload i)"
    by blast
  then obtain e where "encode_payload E h
      (keccak256 E (HexData (abiEncode E header_types (header_values E h)))) (in_payload i) = Inr e"
    using encode_payload_iff by blast
  with h header_stable [OF laws h(1)] show "\<exists>enc. encodePhilCoreV2Intent E i = Inr enc"
    by (simp add: encodePhilCoreV2Intent_def encodePhilCoreV2IntentCoreHeader_def encodeAction_def
        Let_def)
qed

section \<open>A sample intent\<close>

definition sample_header :: "action_type \<Rightarrow> purpose \<Rightarrow> PhilCoreV2IntentCoreHeaderInput" where
  "sample_header a p =
     \<lparr>hi_specificationVersion = BigIntV 1,
      hi_securityModelId = PHILCORE_V2_SECURITY_MODEL_ID sample_ethers,
      hi_actionType = NumberV (IntegerNumber (PHILCORE_V2_ACTION_TYPE a)), hi_actionId = h32 (CHR ''1''),
      hi_purpose = PHILCORE_V2_PURPOSE sample_ethers p, hi_ownerCommitment = h32 (CHR ''2''),
      hi_chainId = BigIntV 1, hi_entryPoint = a20 (CHR ''e''), hi_account = a20 (CHR ''a''),
      hi_nonceKey = BigIntV (ACTION_NONCE_KEYS a), hi_nonceSequence = BigIntV 0,
      hi_validatorEpoch = BigIntV 1, hi_recoveryEpoch = BigIntV 1,
      hi_applicationContextHash = h32 (CHR ''3''), hi_fundLifecycleDigest = h32 (CHR ''4''),
      hi_maxTotalFeeWei = BigIntV 10, hi_validAfter = BigIntV 100, hi_validUntil = BigIntV 700\<rparr>"

definition sample_normal_header :: "action_type \<Rightarrow> purpose \<Rightarrow> PhilCoreV2IntentCoreHeader" where
  "sample_normal_header a p =
     \<lparr>h_specificationVersion = 1, h_securityModelId = PHILCORE_V2_SECURITY_MODEL_ID sample_ethers,
      h_actionType = a, h_actionId = h32 (CHR ''1''),
      h_purpose = PHILCORE_V2_PURPOSE sample_ethers p, h_ownerCommitment = h32 (CHR ''2''),
      h_chainId = 1, h_entryPoint = a20 (CHR ''e''), h_account = a20 (CHR ''a''),
      h_nonceKey = ACTION_NONCE_KEYS a, h_nonceSequence = 0, h_validatorEpoch = 1, h_recoveryEpoch = 1,
      h_applicationContextHash = h32 (CHR ''3''), h_fundLifecycleDigest = h32 (CHR ''4''),
      h_maxTotalFeeWei = 10, h_validAfter = 100, h_validUntil = 700\<rparr>"

lemma sample_lower_keccak: "toLowerCase (keccak256 sample_ethers x) = keccak256 sample_ethers x"
  by (rule laws_keccak256(2) [OF sample_ethers_laws])

lemma nonce_key_range: "uint_fits 192 (ACTION_NONCE_KEYS a)"
  by (cases a) (simp_all add: uint_fits_def)

lemma sample_header_normal:
  assumes "p \<in> set (action_purposes a)"
  shows "normalizePhilCoreV2IntentCoreHeader sample_ethers (sample_header a p) =
    Inr (sample_normal_header a p)"
  using assms nonce_key_range [of a] unfolding normalizePhilCoreV2IntentCoreHeader_iff
  by (simp add: sample_header_def sample_normal_header_def literal_simps sample_lower_keccak
      PHILCORE_V2_SECURITY_MODEL_ID_def PHILCORE_V2_PURPOSE_def ACTION_PURPOSES_def uint_fits_def
      PHILCORE_V2_INTENT_SPECIFICATION_VERSION_def)

definition sample_transfer :: "string \<Rightarrow> bignumberish \<Rightarrow> PhilCoreV2IntentInput" where
  "sample_transfer recipient amount =
     \<lparr>in_header = sample_header NATIVE_TRANSFER TRANSFER_ASSET,
      in_payload = NativeTransfer recipient amount\<rparr>"

lemma sample_transfer_accepted:
  assumes "is_address sample_ethers False r a" and "a \<noteq> a20 (CHR ''a'')" and "is_uint True 256 v n"
  shows "\<exists>enc. encodePhilCoreV2Intent sample_ethers (sample_transfer r v) = Inr enc"
  unfolding encode_intent_iff [OF sample_ethers_laws]
  using assms sample_header_normal [of TRANSFER_ASSET NATIVE_TRANSFER]
  by (auto simp: sample_transfer_def sample_normal_header_def policy_defs)

lemma encode_intent_canonical:
  assumes laws: "ethers_laws E"
    and "encodePhilCoreV2Intent E i = Inr enc" and "encodePhilCoreV2Intent E j = Inr enc'"
    and "in_header i = in_header j"
    and "canonical_payload E (in_payload i) = canonical_payload E (in_payload j)"
  shows "enc_intentCoreHash enc = enc_intentCoreHash enc'"
proof -
  note i = assms(2) [unfolded encodePhilCoreV2Intent_iff [OF laws]]
    and j = assms(3) [unfolded encodePhilCoreV2Intent_iff [OF laws]]
  from i j assms(4) have "enc_header enc = enc_header enc'" by simp
  moreover have "payloadActionType (in_payload i) = payloadActionType (in_payload j)"
    using assms(5) by (metis payloadActionType_canonical)
  ultimately show ?thesis
    using i j encode_payload_words [OF laws] assms(5) by metis
qed

section \<open>Properties\<close>

text \<open>
  the keyed nonce round-trips. A composed nonce is a 256-bit number that decomposes into the
  key and the sequence it was composed of; a decomposed nonce recomposes to itself.
\<close>

theorem nonce_round_trip:
  "(composePhilCoreV2Nonce key sequence = Inr n \<longrightarrow>
      uint_fits 256 n \<and>
      (\<exists>k s. decomposePhilCoreV2Nonce (BigIntV n) = Inr (k, s) \<and> BigInt_of key = Inr k \<and>
        BigInt_of sequence = Inr s)) \<and>
   (decomposePhilCoreV2Nonce nonce = Inr (k, s) \<longrightarrow>
      (\<exists>m. BigInt_of nonce = Inr m \<and> composePhilCoreV2Nonce (BigIntV k) (BigIntV s) = Inr m))"
  by (auto simp: result_simps is_uint_def uint_fits_def)

theorem nonce_round_trip_witness:
  "composePhilCoreV2Nonce (BigIntV 2) (StringV ''7'') = Inr (2 * 2 ^ 64 + 7) \<and>
   decomposePhilCoreV2Nonce (BigIntV (2 * 2 ^ 64 + 7)) = Inr (2, 7) \<and>
   composePhilCoreV2Nonce (BigIntV 2) (BigIntV 7) = Inr (2 * 2 ^ 64 + 7)"
proof -
  have seven: "is_uint False 64 (StringV ''7'') 7"
    by (simp add: is_uint_def uint_fits_def string_to_bigint_def trim_def js_space_def
        read_decimal_def decimal_digit_def read_digits_def digit_value_def)
  then have comp: "composePhilCoreV2Nonce (BigIntV 2) (StringV ''7'') = Inr (2 * 2 ^ 64 + 7)"
    unfolding composePhilCoreV2Nonce_iff is_uint_BigIntV by (auto simp: uint_fits_def)
  have dec: "decomposePhilCoreV2Nonce (BigIntV (2 * 2 ^ 64 + 7)) = Inr (2, 7)"
    using nonce_round_trip [of "BigIntV 2" "StringV ''7''" "2 * 2 ^ 64 + 7" "BigIntV 0" 0 0] comp seven
    by (auto simp: is_uint_def)
  from nonce_round_trip [of "BigIntV 2" "BigIntV 7" 0 "BigIntV (2 * 2 ^ 64 + 7)" 2 7] comp dec
  show ?thesis by simp
qed

text \<open>
  C11: the intent hash binds the whole intent. Two accepted intents with the same
  \<open>intentCoreHash\<close> have the same normalised header (action, purpose, owner, chain, entry point,
  account, nonce, epochs, context, fund lifecycle, fee bound, validity window) and the same
  normalised payload, or two of the inputs that were hashed for them (their two encodings and
  the type strings) are a Keccak-256 collision.
\<close>

theorem intent_hash_binding:
  assumes "ethers_laws E"
    and "encodePhilCoreV2Intent E i = Inr enc" and "encodePhilCoreV2Intent E j = Inr enc'"
    and "enc_intentCoreHash enc = enc_intentCoreHash enc'"
  shows "(enc_header enc = enc_header enc' \<and>
          canonical_payload E (in_payload i) = canonical_payload E (in_payload j)) \<or>
         keccak_collision E (intent_preimages E enc \<union> intent_preimages E enc')"
  using intent_hash_binds [OF assms] by blast

theorem intent_hash_binding_witness:
  "\<exists>enc enc'.
     encodePhilCoreV2Intent sample_ethers (sample_transfer (a20 (CHR ''b'')) (BigIntV 5)) = Inr enc \<and>
     encodePhilCoreV2Intent sample_ethers
       (sample_transfer (a20 (CHR ''b'')) (NumberV (IntegerNumber 5))) = Inr enc' \<and>
     enc_intentCoreHash enc = enc_intentCoreHash enc' \<and>
     (enc_header enc = enc_header enc' \<or>
      keccak_collision sample_ethers
        (intent_preimages sample_ethers enc \<union> intent_preimages sample_ethers enc'))"
proof -
  let ?i = "sample_transfer (a20 (CHR ''b'')) (BigIntV 5)"
  let ?j = "sample_transfer (a20 (CHR ''b'')) (NumberV (IntegerNumber 5))"
  have "is_address sample_ethers False (a20 (CHR ''b'')) (a20 (CHR ''b''))"
    by (simp add: literal_simps)
  moreover have "is_uint True 256 (BigIntV 5) 5" "is_uint True 256 (NumberV (IntegerNumber 5)) 5"
    by (simp_all add: is_uint_def uint_fits_def)
  ultimately obtain enc enc' where e: "encodePhilCoreV2Intent sample_ethers ?i = Inr enc"
    and e': "encodePhilCoreV2Intent sample_ethers ?j = Inr enc'"
    using sample_transfer_accepted [of "a20 (CHR ''b'')" "a20 (CHR ''b'')" "BigIntV 5" 5]
      sample_transfer_accepted [of "a20 (CHR ''b'')" "a20 (CHR ''b'')" "NumberV (IntegerNumber 5)" 5]
    by auto
  have same: "enc_intentCoreHash enc = enc_intentCoreHash enc'"
    by (rule encode_intent_canonical [OF sample_ethers_laws e e'])
       (simp_all add: sample_transfer_def norm_uint_def)
  from intent_hash_binding [OF sample_ethers_laws e e' same] e e' same show ?thesis by blast
qed

text \<open>
  C33: which intents are accepted. Encoding an intent succeeds exactly when its header normalises,
  the payload is of the header's action type, and the payload satisfies its policy: recipients
  are nonzero addresses other than the account, amounts are nonzero 256-bit numbers, a proposed
  epoch is the current one plus one, the three proposed factor commitments are distinct.
\<close>

theorem intent_acceptance:
  assumes "ethers_laws E"
  shows "(\<exists>enc. encodePhilCoreV2Intent E i = Inr enc) \<longleftrightarrow>
    (\<exists>h. normalizePhilCoreV2IntentCoreHeader E (in_header i) = Inr h \<and>
      h_actionType h = payloadActionType (in_payload i) \<and> payload_policy E h (in_payload i))"
  using assms by (rule encode_intent_iff)

theorem intent_acceptance_witness:
  "(\<exists>enc. encodePhilCoreV2Intent sample_ethers (sample_transfer (a20 (CHR ''b'')) (BigIntV 5)) = Inr enc) \<and>
   \<not> (\<exists>enc. encodePhilCoreV2Intent sample_ethers (sample_transfer (a20 (CHR ''A'')) (BigIntV 5)) = Inr enc)"
  using intent_acceptance [OF sample_ethers_laws, of "sample_transfer (a20 (CHR ''b'')) (BigIntV 5)"]
    intent_acceptance [OF sample_ethers_laws, of "sample_transfer (a20 (CHR ''A'')) (BigIntV 5)"]
    sample_header_normal [of TRANSFER_ASSET NATIVE_TRANSFER]
  by (simp add: sample_transfer_def sample_normal_header_def policy_defs literal_simps uint_fits_def)

lemma is_nonzero_bytes32:
  "is_bytes32 E False v s \<longleftrightarrow> isHexString E v 32 \<and> s = toLowerCase v \<and> s \<noteq> ZERO_BYTES32"
  by (auto simp: is_bytes32_def)

text \<open>
  C34: the policy of an accepted header. It has the supported version and security model, the
  nonce key of its action, one of the purposes of its action, a validity window of at most one
  hour for the recovery actions and ten minutes for the others, a nonzero chain and fee bound of
  256 bits, nonzero epochs and a nonce sequence of 64 bits, an entry point and an account that are
  the normal forms of the given addresses and not the zero address, and a nonzero action, owner
  commitment, application context and fund lifecycle digest that are the given hashes of 32 bytes
  in lower case.
\<close>

theorem accepted_header_policy:
  assumes "normalizePhilCoreV2IntentCoreHeader E i = Inr h"
  shows "h_specificationVersion h = 1 \<and>
    h_securityModelId h = toLowerCase (PHILCORE_V2_SECURITY_MODEL_ID E) \<and>
    h_nonceKey h = ACTION_NONCE_KEYS (h_actionType h) \<and>
    h_purpose h \<in> set (ACTION_PURPOSES E (h_actionType h)) \<and>
    0 \<le> h_validAfter h \<and> h_validAfter h < h_validUntil h \<and> h_validUntil h < 2 ^ 48 \<and>
    h_validUntil h - h_validAfter h
      \<le> (if h_actionType h \<in> {RECOVERY_REQUEST, RECOVERY_CANCEL, RECOVERY_CONFIG_ROTATION_REQUEST,
             RECOVERY_CONFIG_ROTATION_CANCEL} then 3600 else 600) \<and>
    0 < h_chainId h \<and> h_chainId h < 2 ^ 256 \<and> 0 < h_maxTotalFeeWei h \<and> h_maxTotalFeeWei h < 2 ^ 256 \<and>
    0 < h_validatorEpoch h \<and> h_validatorEpoch h < 2 ^ 64 \<and>
    0 < h_recoveryEpoch h \<and> h_recoveryEpoch h < 2 ^ 64 \<and>
    0 \<le> h_nonceSequence h \<and> h_nonceSequence h < 2 ^ 64 \<and>
    getAddress E (hi_entryPoint i) = Some (h_entryPoint h) \<and> h_entryPoint h \<noteq> ZERO_ADDRESS \<and>
    getAddress E (hi_account i) = Some (h_account h) \<and> h_account h \<noteq> ZERO_ADDRESS \<and>
    list_all2 (\<lambda>v s. isHexString E v 32 \<and> s = toLowerCase v \<and> s \<noteq> ZERO_BYTES32)
      [hi_actionId i, hi_ownerCommitment i, hi_applicationContextHash i, hi_fundLifecycleDigest i]
      [h_actionId h, h_ownerCommitment h, h_applicationContextHash h, h_fundLifecycleDigest h]"
proof -
  have "(8 \<le> PHILCORE_V2_ACTION_TYPE a) = (a \<in> {RECOVERY_REQUEST, RECOVERY_CANCEL,
      RECOVERY_CONFIG_ROTATION_REQUEST, RECOVERY_CONFIG_ROTATION_CANCEL})" for a
    by (cases a) simp_all
  moreover have "list_all2 (\<lambda>v s. isHexString E v 32 \<and> s = toLowerCase v \<and> s \<noteq> ZERO_BYTES32)
      [hi_actionId i, hi_ownerCommitment i, hi_applicationContextHash i, hi_fundLifecycleDigest i]
      [h_actionId h, h_ownerCommitment h, h_applicationContextHash h, h_fundLifecycleDigest h]"
    using assms
    unfolding normalizePhilCoreV2IntentCoreHeader_iff is_nonzero_bytes32 list_all2_Cons list_all2_Nil
    by (elim conjE) (intro conjI; (assumption | rule refl))
  ultimately show ?thesis
    using assms unfolding normalizePhilCoreV2IntentCoreHeader_iff is_uint_def uint_fits_def is_address_def
    by (elim conjE) (intro conjI; (assumption | simp add: PHILCORE_V2_INTENT_SPECIFICATION_VERSION_def))
qed

theorem accepted_header_policy_witness:
  "normalizePhilCoreV2IntentCoreHeader sample_ethers (sample_header RECOVERY_CANCEL CANCEL_RECOVERY) =
     Inr (sample_normal_header RECOVERY_CANCEL CANCEL_RECOVERY) \<and>
   h_nonceKey (sample_normal_header RECOVERY_CANCEL CANCEL_RECOVERY) = 2 \<and>
   h_purpose (sample_normal_header RECOVERY_CANCEL CANCEL_RECOVERY) =
     PHILCORE_V2_PURPOSE sample_ethers CANCEL_RECOVERY"
proof -
  have n: "normalizePhilCoreV2IntentCoreHeader sample_ethers (sample_header RECOVERY_CANCEL CANCEL_RECOVERY) =
     Inr (sample_normal_header RECOVERY_CANCEL CANCEL_RECOVERY)"
    by (rule sample_header_normal) simp
  with accepted_header_policy [OF n] show ?thesis
    by (simp add: sample_normal_header_def ACTION_PURPOSES_def)
qed

text \<open>
  header normalisation is idempotent. A normalised header, passed in again, is accepted and
  comes back unchanged.
\<close>

theorem header_normalisation_stable:
  assumes "ethers_laws E" and "normalizePhilCoreV2IntentCoreHeader E i = Inr h"
  shows "normalizePhilCoreV2IntentCoreHeader E (header_input h) = Inr h"
  using header.canonical_result [OF assms] by (simp add: header.canonical_def)

theorem header_normalisation_stable_witness:
  "normalizePhilCoreV2IntentCoreHeader sample_ethers
     (header_input (sample_normal_header CONFIRM CONFIRM_ACTION)) =
     Inr (sample_normal_header CONFIRM CONFIRM_ACTION)"
  by (rule header_normalisation_stable [OF sample_ethers_laws
        sample_header_normal [of CONFIRM_ACTION CONFIRM]]) simp

end
