(* ===== verification/Authorization.thy ===== *)
theory Authorization
  imports Intent
begin

text \<open>
  The authorization digests of the V2 account (\<^verbatim>\<open>v2Authorization.ts\<close>): proof binding,
  runtime authorization, validator commitment, recovery factors and recovery configuration, and
  the four authority digests (validator signature, recovery quorum, combined cancellation,
  configuration rotation). Shown here: a recovery configuration is two of three distinct factors,
  an accepted factor bitmap selects exactly two roles, the role and verifier policy of a factor,
  the epoch check, and what each digest binds.
\<close>

section \<open>Constants\<close>

datatype authorization_type =
    PROOF_BINDING | RUNTIME_AUTHORIZATION | AUTHORIZED_INTENT | VALIDATOR_COMMITMENT
  | VALIDATOR_AUTHORIZATION | RECOVERY_FACTOR_TYPE | RECOVERY_CONFIGURATION
  | RECOVERY_AUTHORIZATION | COMBINED_CANCELLATION | CONFIG_ROTATION_AUTHORIZATION

fun PHILCORE_V2_AUTHORIZATION_TYPE :: "authorization_type \<Rightarrow> string" where
  "PHILCORE_V2_AUTHORIZATION_TYPE PROOF_BINDING =
     ''PhilCoreV2ProofBinding(bytes32 proofTypeHash,bytes32 proofInputHash,bytes32 proofArtifactDigest,bytes32 nullifier)''"
| "PHILCORE_V2_AUTHORIZATION_TYPE RUNTIME_AUTHORIZATION =
     ''PhilCoreV2RuntimeAuthorization(bytes32 intentCoreHash,bytes32 proofBindingHash,bytes32 policyDecisionHash,bytes32 approvalEvidenceHash,bytes32 userPresenceEvidenceHash)''"
| "PHILCORE_V2_AUTHORIZATION_TYPE AUTHORIZED_INTENT =
     ''PhilCoreV2AuthorizedIntent(bytes32 intentCoreHash,bytes32 runtimeAuthorizationDigest)''"
| "PHILCORE_V2_AUTHORIZATION_TYPE VALIDATOR_COMMITMENT =
     ''PhilCoreV2ValidatorCommitment(uint8 verifierKind,address validator,bytes32 validatorKeyIdBinding)''"
| "PHILCORE_V2_AUTHORIZATION_TYPE VALIDATOR_AUTHORIZATION =
     ''PhilCoreV2Authorization(bytes32 authorizedIntentHash,bytes32 userOpHash,address validator,bytes32 validatorKeyIdBinding,uint64 validatorEpoch,uint64 recoveryEpoch)''"
| "PHILCORE_V2_AUTHORIZATION_TYPE RECOVERY_FACTOR_TYPE =
     ''PhilCoreV2RecoveryFactor(bytes32 accountVersionId,bytes32 securityModelId,uint8 role,uint8 verifierKind,bytes32 publicVerificationMaterialHash,bytes32 rpIdHash,bytes32 originPolicyHash,uint8 userVerificationPolicy,uint64 credentialGeneration)''"
| "PHILCORE_V2_AUTHORIZATION_TYPE RECOVERY_CONFIGURATION =
     ''PhilCoreV2RecoveryConfiguration(uint8 configurationVersion,uint8 threshold,bytes32 primaryDeviceCommitment,bytes32 hardwareSecurityKeyCommitment,bytes32 recoveryFactorCommitment)''"
| "PHILCORE_V2_AUTHORIZATION_TYPE RECOVERY_AUTHORIZATION =
     ''PhilCoreV2RecoveryAuthorization(bytes32 authorizedIntentHash,bytes32 userOpHash,bytes32 recoveryConfigHash,uint64 recoveryEpoch,uint8 factorBitmap)''"
| "PHILCORE_V2_AUTHORIZATION_TYPE COMBINED_CANCELLATION =
     ''PhilCoreV2CombinedCancellation(bytes32 authorizedIntentHash,bytes32 userOpHash,address validator,uint64 validatorEpoch,bytes32 recoveryConfigHash,uint64 recoveryEpoch,uint8 factorBitmap)''"
| "PHILCORE_V2_AUTHORIZATION_TYPE CONFIG_ROTATION_AUTHORIZATION =
     ''PhilCoreV2ConfigRotationAuthorization(bytes32 authorizedIntentHash,bytes32 userOpHash,address validator,uint64 validatorEpoch,bytes32 recoveryConfigHash,uint64 recoveryEpoch,bytes32 proposedRecoveryConfigHash,uint64 proposedRecoveryEpoch,uint8 factorBitmap)''"

definition PHILCORE_V2_AUTHORIZATION_TYPEHASH :: "ethers \<Rightarrow> authorization_type \<Rightarrow> string" where
  "PHILCORE_V2_AUTHORIZATION_TYPEHASH E k =
     keccak256 E (toUtf8Bytes E (PHILCORE_V2_AUTHORIZATION_TYPE k))"

definition PHILCORE_V2_VALIDATOR_VERIFIER_KIND_SECP256K1_ECDSA :: int where
  "PHILCORE_V2_VALIDATOR_VERIFIER_KIND_SECP256K1_ECDSA = 1"

datatype recovery_role = PRIMARY_DEVICE | HARDWARE_SECURITY_KEY | RECOVERY_FACTOR

fun PHILCORE_V2_RECOVERY_FACTOR_ROLE :: "recovery_role \<Rightarrow> int" where
  "PHILCORE_V2_RECOVERY_FACTOR_ROLE PRIMARY_DEVICE = 0"
| "PHILCORE_V2_RECOVERY_FACTOR_ROLE HARDWARE_SECURITY_KEY = 1"
| "PHILCORE_V2_RECOVERY_FACTOR_ROLE RECOVERY_FACTOR = 2"

datatype recovery_verifier_kind =
    WEBAUTHN_P256 | PURPOSE_BOUND_SECP256K1 | THRESHOLD_COMMITMENT | NATIVE_DEVICE_P256

fun PHILCORE_V2_RECOVERY_VERIFIER_KIND :: "recovery_verifier_kind \<Rightarrow> int" where
  "PHILCORE_V2_RECOVERY_VERIFIER_KIND WEBAUTHN_P256 = 1"
| "PHILCORE_V2_RECOVERY_VERIFIER_KIND PURPOSE_BOUND_SECP256K1 = 2"
| "PHILCORE_V2_RECOVERY_VERIFIER_KIND THRESHOLD_COMMITMENT = 3"
| "PHILCORE_V2_RECOVERY_VERIFIER_KIND NATIVE_DEVICE_P256 = 4"

datatype user_verification_policy =
    NOT_APPLICABLE | USER_PRESENCE_REQUIRED | USER_VERIFICATION_REQUIRED

fun PHILCORE_V2_USER_VERIFICATION_POLICY :: "user_verification_policy \<Rightarrow> int" where
  "PHILCORE_V2_USER_VERIFICATION_POLICY NOT_APPLICABLE = 0"
| "PHILCORE_V2_USER_VERIFICATION_POLICY USER_PRESENCE_REQUIRED = 1"
| "PHILCORE_V2_USER_VERIFICATION_POLICY USER_VERIFICATION_REQUIRED = 2"

definition PHILCORE_V2_RECOVERY_CONFIGURATION_VERSION :: int where
  "PHILCORE_V2_RECOVERY_CONFIGURATION_VERSION = 1"

definition PHILCORE_V2_RECOVERY_THRESHOLD :: int where
  "PHILCORE_V2_RECOVERY_THRESHOLD = 2"

text \<open>\<open>0b011\<close>, \<open>0b101\<close> and \<open>0b110\<close>.\<close>

definition PHILCORE_V2_RECOVERY_FACTOR_BITMAP :: "int list" where
  "PHILCORE_V2_RECOVERY_FACTOR_BITMAP = [3, 5, 6]"

section \<open>Inputs\<close>

record PhilCoreV2ProofBindingInput =
  pb_proofTypeHash :: string
  pb_proofInputHash :: string
  pb_proofArtifactDigest :: string
  pb_nullifier :: string

record PhilCoreV2RuntimeAuthorizationInput =
  ra_intentCoreHash :: string
  ra_proofBindingHash :: string
  ra_policyDecisionHash :: string
  ra_approvalEvidenceHash :: string
  ra_userPresenceEvidenceHash :: string

record PhilCoreV2ValidatorCommitmentInput =
  vc_verifierKind :: bignumberish
  vc_validator :: string
  vc_validatorKeyIdBinding :: string

record PhilCoreV2ValidatorAuthorizationInput =
  va_authorizedIntentHash :: string
  va_userOperationHash :: string
  va_validator :: string
  va_validatorKeyIdBinding :: string
  va_validatorEpoch :: bignumberish
  va_recoveryEpoch :: bignumberish

record PhilCoreV2RecoveryFactorInput =
  rf_accountVersionId :: string
  rf_securityModelId :: string
  rf_role :: bignumberish
  rf_verifierKind :: bignumberish
  rf_publicVerificationMaterialHash :: string
  rf_rpIdHash :: string
  rf_originPolicyHash :: string
  rf_userVerificationPolicy :: bignumberish
  rf_credentialGeneration :: bignumberish

record PhilCoreV2RecoveryConfigurationInput =
  rc_configurationVersion :: bignumberish
  rc_threshold :: bignumberish
  rc_primaryDeviceCommitment :: string
  rc_hardwareSecurityKeyCommitment :: string
  rc_recoveryFactorCommitment :: string

text \<open>The three recovery inputs extend each other, as the interfaces do.\<close>

record PhilCoreV2RecoveryAuthorizationInput =
  au_authorizedIntentHash :: string
  au_userOperationHash :: string
  au_recoveryConfigHash :: string
  au_recoveryEpoch :: bignumberish
  au_factorBitmap :: bignumberish

record PhilCoreV2CombinedCancellationInput = PhilCoreV2RecoveryAuthorizationInput +
  cc_validator :: string
  cc_validatorEpoch :: bignumberish

record PhilCoreV2ConfigRotationAuthorizationInput = PhilCoreV2CombinedCancellationInput +
  cr_proposedRecoveryConfigHash :: string
  cr_proposedRecoveryEpoch :: bignumberish

record PhilCoreV2DigestResult =
  dr_domainSeparator :: string
  dr_structHash :: string
  dr_digest :: string

section \<open>Argument checks\<close>

definition auth_bytes32 :: "ethers \<Rightarrow> string \<Rightarrow> string \<Rightarrow> bool \<Rightarrow> string result" where
  "auth_bytes32 E v label allowZero =
     (if \<not> isHexString E v 32 then throw (label @ ''_must_be_bytes32'')
      else let normalized = toLowerCase v in
        if \<not> allowZero \<and> normalized = ZERO_BYTES32 then throw (label @ ''_must_be_nonzero'')
        else Inr normalized)"

definition auth_uint :: "bignumberish \<Rightarrow> nat \<Rightarrow> string \<Rightarrow> bool \<Rightarrow> int result" where
  "auth_uint v bits label nonzero =
     catch (BigInt_of v) (throw (label @ ''_must_be_uint'' @ show_nat bits))
       (\<lambda>parsed.
          if parsed < 0 \<or> parsed \<ge> 2 ^ bits then throw (label @ ''_must_be_uint'' @ show_nat bits)
          else if nonzero \<and> parsed = 0 then throw (label @ ''_must_be_nonzero'')
          else Inr parsed)"

definition auth_address :: "ethers \<Rightarrow> string \<Rightarrow> string \<Rightarrow> string result" where
  "auth_address E v label =
     (case getAddress E v of
        None \<Rightarrow> throw (label @ ''_must_be_address'')
      | Some normalized \<Rightarrow>
          if normalized = ZERO_ADDRESS then throw (label @ ''_must_be_nonzero'') else Inr normalized)"

definition role :: "bignumberish \<Rightarrow> recovery_role result" where
  "role v =
     bnd (auth_uint v 8 ''factorRole'' False) (\<lambda>parsed.
       case find (\<lambda>r. PHILCORE_V2_RECOVERY_FACTOR_ROLE r = parsed)
              [PRIMARY_DEVICE, HARDWARE_SECURITY_KEY, RECOVERY_FACTOR] of
         None \<Rightarrow> throw ''factorRole_unsupported''
       | Some r \<Rightarrow> Inr r)"

definition verifierKind :: "bignumberish \<Rightarrow> recovery_verifier_kind result" where
  "verifierKind v =
     bnd (auth_uint v 8 ''verifierKind'' True) (\<lambda>parsed.
       case find (\<lambda>k. PHILCORE_V2_RECOVERY_VERIFIER_KIND k = parsed)
              [WEBAUTHN_P256, PURPOSE_BOUND_SECP256K1, THRESHOLD_COMMITMENT, NATIVE_DEVICE_P256] of
         None \<Rightarrow> throw ''verifierKind_unsupported''
       | Some k \<Rightarrow> Inr k)"

definition userVerificationPolicy :: "bignumberish \<Rightarrow> user_verification_policy result" where
  "userVerificationPolicy v =
     bnd (auth_uint v 8 ''userVerificationPolicy'' False) (\<lambda>parsed.
       case find (\<lambda>p. PHILCORE_V2_USER_VERIFICATION_POLICY p = parsed)
              [NOT_APPLICABLE, USER_PRESENCE_REQUIRED, USER_VERIFICATION_REQUIRED] of
         None \<Rightarrow> throw ''userVerificationPolicy_unsupported''
       | Some p \<Rightarrow> Inr p)"

definition factorBitmap :: "bignumberish \<Rightarrow> int result" where
  "factorBitmap v =
     bnd (auth_uint v 8 ''factorBitmap'' True) (\<lambda>parsed.
     bnd (ensure (parsed \<in> set PHILCORE_V2_RECOVERY_FACTOR_BITMAP)
            ''factorBitmap_must_select_exactly_two_roles'') (\<lambda>_.
     Inr parsed))"

text \<open>The signing domain \<open>{ chainId, account }\<close>.\<close>

type_synonym domain = "bignumberish \<times> string"

definition typedDigest :: "ethers \<Rightarrow> domain \<Rightarrow> string \<Rightarrow> PhilCoreV2DigestResult result" where
  "typedDigest E domain structHash =
     bnd (computePhilCoreV2DomainSeparator E (fst domain) (snd domain)) (\<lambda>domainSeparator.
     bnd (computePhilCoreV2TypedDataDigest E domainSeparator structHash) (\<lambda>digest.
     Inr \<lparr>dr_domainSeparator = domainSeparator, dr_structHash = structHash, dr_digest = digest\<rparr>))"

section \<open>Proof binding, runtime authorization, authorized intent\<close>

definition computePhilCoreV2ProofBindingHash ::
  "ethers \<Rightarrow> PhilCoreV2ProofBindingInput \<Rightarrow> string result" where
  "computePhilCoreV2ProofBindingHash E input =
     bnd (auth_bytes32 E (pb_proofTypeHash input) ''proofTypeHash'' False) (\<lambda>proofTypeHash.
     bnd (auth_bytes32 E (pb_proofInputHash input) ''proofInputHash'' False) (\<lambda>proofInputHash.
     bnd (auth_bytes32 E (pb_proofArtifactDigest input) ''proofArtifactDigest'' False)
       (\<lambda>proofArtifactDigest.
     bnd (auth_bytes32 E (pb_nullifier input) ''nullifier'' False) (\<lambda>nullifier.
     Inr (keccak256 E (HexData (abiEncode E
       [''bytes32'', ''bytes32'', ''bytes32'', ''bytes32'', ''bytes32'']
       [AbiHex (PHILCORE_V2_AUTHORIZATION_TYPEHASH E PROOF_BINDING), AbiHex proofTypeHash,
        AbiHex proofInputHash, AbiHex proofArtifactDigest, AbiHex nullifier])))))))"

definition computePhilCoreV2RuntimeAuthorizationDigest ::
  "ethers \<Rightarrow> PhilCoreV2RuntimeAuthorizationInput \<Rightarrow> string result" where
  "computePhilCoreV2RuntimeAuthorizationDigest E input =
     bnd (auth_bytes32 E (ra_intentCoreHash input) ''intentCoreHash'' False) (\<lambda>intentCoreHash.
     bnd (auth_bytes32 E (ra_proofBindingHash input) ''proofBindingHash'' False) (\<lambda>proofBindingHash.
     bnd (auth_bytes32 E (ra_policyDecisionHash input) ''policyDecisionHash'' False)
       (\<lambda>policyDecisionHash.
     bnd (auth_bytes32 E (ra_approvalEvidenceHash input) ''approvalEvidenceHash'' False)
       (\<lambda>approvalEvidenceHash.
     bnd (auth_bytes32 E (ra_userPresenceEvidenceHash input) ''userPresenceEvidenceHash'' False)
       (\<lambda>userPresenceEvidenceHash.
     Inr (keccak256 E (HexData (abiEncode E
       [''bytes32'', ''bytes32'', ''bytes32'', ''bytes32'', ''bytes32'', ''bytes32'']
       [AbiHex (PHILCORE_V2_AUTHORIZATION_TYPEHASH E RUNTIME_AUTHORIZATION), AbiHex intentCoreHash,
        AbiHex proofBindingHash, AbiHex policyDecisionHash, AbiHex approvalEvidenceHash,
        AbiHex userPresenceEvidenceHash]))))))))"

definition computePhilCoreV2AuthorizedIntentHash ::
  "ethers \<Rightarrow> string \<Rightarrow> string \<Rightarrow> string result" where
  "computePhilCoreV2AuthorizedIntentHash E intentCoreHash runtimeAuthorizationDigest =
     bnd (auth_bytes32 E intentCoreHash ''intentCoreHash'' False) (\<lambda>intentCoreHash.
     bnd (auth_bytes32 E runtimeAuthorizationDigest ''runtimeAuthorizationDigest'' False)
       (\<lambda>runtimeAuthorizationDigest.
     Inr (keccak256 E (HexData (abiEncode E [''bytes32'', ''bytes32'', ''bytes32'']
       [AbiHex (PHILCORE_V2_AUTHORIZATION_TYPEHASH E AUTHORIZED_INTENT), AbiHex intentCoreHash,
        AbiHex runtimeAuthorizationDigest])))))"

section \<open>Validator authority\<close>

definition computePhilCoreV2ValidatorCommitment ::
  "ethers \<Rightarrow> PhilCoreV2ValidatorCommitmentInput \<Rightarrow> string result" where
  "computePhilCoreV2ValidatorCommitment E input =
     bnd (auth_uint (vc_verifierKind input) 8 ''validatorVerifierKind'' True) (\<lambda>kind.
     bnd (ensure (kind = PHILCORE_V2_VALIDATOR_VERIFIER_KIND_SECP256K1_ECDSA)
            ''validatorVerifierKind_unsupported'') (\<lambda>_.
     bnd (auth_address E (vc_validator input) ''validator'') (\<lambda>validator.
     bnd (auth_bytes32 E (vc_validatorKeyIdBinding input) ''validatorKeyIdBinding'' False)
       (\<lambda>validatorKeyIdBinding.
     Inr (keccak256 E (HexData (abiEncode E [''bytes32'', ''uint8'', ''address'', ''bytes32'']
       [AbiHex (PHILCORE_V2_AUTHORIZATION_TYPEHASH E VALIDATOR_COMMITMENT), AbiUint kind,
        AbiHex validator, AbiHex validatorKeyIdBinding])))))))"

definition computePhilCoreV2ValidatorDigest ::
  "ethers \<Rightarrow> domain \<Rightarrow> PhilCoreV2ValidatorAuthorizationInput \<Rightarrow> PhilCoreV2DigestResult result" where
  "computePhilCoreV2ValidatorDigest E domain input =
     bnd (auth_bytes32 E (va_authorizedIntentHash input) ''authorizedIntentHash'' False)
       (\<lambda>authorizedIntentHash.
     bnd (auth_bytes32 E (va_userOperationHash input) ''userOperationHash'' False)
       (\<lambda>userOperationHash.
     bnd (auth_address E (va_validator input) ''validator'') (\<lambda>validator.
     bnd (auth_bytes32 E (va_validatorKeyIdBinding input) ''validatorKeyIdBinding'' False)
       (\<lambda>validatorKeyIdBinding.
     bnd (auth_uint (va_validatorEpoch input) 64 ''validatorEpoch'' True) (\<lambda>validatorEpoch.
     bnd (auth_uint (va_recoveryEpoch input) 64 ''recoveryEpoch'' True) (\<lambda>recoveryEpoch.
     typedDigest E domain (keccak256 E (HexData (abiEncode E
       [''bytes32'', ''bytes32'', ''bytes32'', ''address'', ''bytes32'', ''uint64'', ''uint64'']
       [AbiHex (PHILCORE_V2_AUTHORIZATION_TYPEHASH E VALIDATOR_AUTHORIZATION),
        AbiHex authorizedIntentHash, AbiHex userOperationHash, AbiHex validator,
        AbiHex validatorKeyIdBinding, AbiUint validatorEpoch, AbiUint recoveryEpoch])))))))))"

section \<open>Recovery factors and configuration\<close>

definition recovery_factor_policy ::
  "recovery_role \<Rightarrow> recovery_verifier_kind \<Rightarrow> user_verification_policy \<Rightarrow> string \<Rightarrow> string \<Rightarrow> unit result"
where
  "recovery_factor_policy r kind policy rpIdHash originPolicyHash =
     bnd (ensure (\<not> (r = PRIMARY_DEVICE \<and> kind = THRESHOLD_COMMITMENT))
            ''primary_device_verifierKind_not_allowed'') (\<lambda>_.
     bnd (ensure (\<not> (r = HARDWARE_SECURITY_KEY \<and> kind = THRESHOLD_COMMITMENT))
            ''hardware_security_key_verifierKind_not_allowed'') (\<lambda>_.
     bnd (ensure (\<not> (r = RECOVERY_FACTOR \<and> kind = WEBAUTHN_P256))
            ''recovery_factor_verifierKind_not_allowed'') (\<lambda>_.
     if kind = WEBAUTHN_P256 then
       bnd (ensure (\<not> (rpIdHash = ZERO_BYTES32 \<or> originPolicyHash = ZERO_BYTES32))
              ''webauthn_policy_hashes_required'') (\<lambda>_.
       ensure (policy = USER_VERIFICATION_REQUIRED) ''webauthn_user_verification_required'')
     else
       bnd (ensure (\<not> (rpIdHash \<noteq> ZERO_BYTES32 \<or> originPolicyHash \<noteq> ZERO_BYTES32))
              ''non_webauthn_policy_hashes_must_be_zero'') (\<lambda>_.
       ensure (\<not> (r = RECOVERY_FACTOR \<and> policy \<noteq> NOT_APPLICABLE))
         ''recovery_factor_user_verification_not_applicable''))))"

definition computePhilCoreV2RecoveryFactorCommitment ::
  "ethers \<Rightarrow> PhilCoreV2RecoveryFactorInput \<Rightarrow> string result" where
  "computePhilCoreV2RecoveryFactorCommitment E input =
     bnd (role (rf_role input)) (\<lambda>normalizedRole.
     bnd (verifierKind (rf_verifierKind input)) (\<lambda>normalizedVerifierKind.
     bnd (userVerificationPolicy (rf_userVerificationPolicy input)) (\<lambda>normalizedPolicy.
     bnd (auth_bytes32 E (rf_rpIdHash input) ''rpIdHash'' True) (\<lambda>rpIdHash.
     bnd (auth_bytes32 E (rf_originPolicyHash input) ''originPolicyHash'' True) (\<lambda>originPolicyHash.
     bnd (auth_bytes32 E (rf_accountVersionId input) ''accountVersionId'' False) (\<lambda>version.
     bnd (ensure (version = toLowerCase (PHILCORE_V2_ACCOUNT_VERSION_ID E))
            ''accountVersionId_unsupported'') (\<lambda>_.
     bnd (auth_bytes32 E (rf_securityModelId input) ''securityModelId'' False) (\<lambda>model.
     bnd (ensure (model = toLowerCase (PHILCORE_V2_SECURITY_MODEL_ID E))
            ''securityModelId_unsupported'') (\<lambda>_.
     bnd (recovery_factor_policy normalizedRole normalizedVerifierKind normalizedPolicy rpIdHash
            originPolicyHash) (\<lambda>_.
     bnd (auth_bytes32 E (rf_publicVerificationMaterialHash input)
            ''publicVerificationMaterialHash'' False) (\<lambda>material.
     bnd (auth_uint (rf_credentialGeneration input) 64 ''credentialGeneration'' True) (\<lambda>generation.
     Inr (keccak256 E (HexData (abiEncode E
       [''bytes32'', ''bytes32'', ''bytes32'', ''uint8'', ''uint8'', ''bytes32'', ''bytes32'',
        ''bytes32'', ''uint8'', ''uint64'']
       [AbiHex (PHILCORE_V2_AUTHORIZATION_TYPEHASH E RECOVERY_FACTOR_TYPE),
        AbiHex (PHILCORE_V2_ACCOUNT_VERSION_ID E), AbiHex (PHILCORE_V2_SECURITY_MODEL_ID E),
        AbiUint (PHILCORE_V2_RECOVERY_FACTOR_ROLE normalizedRole),
        AbiUint (PHILCORE_V2_RECOVERY_VERIFIER_KIND normalizedVerifierKind), AbiHex material,
        AbiHex rpIdHash, AbiHex originPolicyHash,
        AbiUint (PHILCORE_V2_USER_VERIFICATION_POLICY normalizedPolicy),
        AbiUint generation])))))))))))))))"

definition computePhilCoreV2RecoveryConfigurationHash ::
  "ethers \<Rightarrow> PhilCoreV2RecoveryConfigurationInput \<Rightarrow> string result" where
  "computePhilCoreV2RecoveryConfigurationHash E input =
     bnd (auth_uint (rc_configurationVersion input) 8 ''configurationVersion'' True)
       (\<lambda>configurationVersion.
     bnd (auth_uint (rc_threshold input) 8 ''threshold'' True) (\<lambda>threshold.
     bnd (ensure (configurationVersion = PHILCORE_V2_RECOVERY_CONFIGURATION_VERSION)
            ''configurationVersion_unsupported'') (\<lambda>_.
     bnd (ensure (threshold = PHILCORE_V2_RECOVERY_THRESHOLD)
            ''recovery_threshold_must_equal_two'') (\<lambda>_.
     bnd (auth_bytes32 E (rc_primaryDeviceCommitment input) ''primaryDeviceCommitment'' False)
       (\<lambda>primary.
     bnd (auth_bytes32 E (rc_hardwareSecurityKeyCommitment input)
            ''hardwareSecurityKeyCommitment'' False) (\<lambda>hardware.
     bnd (auth_bytes32 E (rc_recoveryFactorCommitment input) ''recoveryFactorCommitment'' False)
       (\<lambda>factor.
     bnd (ensure (distinct [primary, hardware, factor])
            ''recovery_factor_commitments_must_be_unique'') (\<lambda>_.
     Inr (keccak256 E (HexData (abiEncode E
       [''bytes32'', ''uint8'', ''uint8'', ''bytes32'', ''bytes32'', ''bytes32'']
       [AbiHex (PHILCORE_V2_AUTHORIZATION_TYPEHASH E RECOVERY_CONFIGURATION),
        AbiUint configurationVersion, AbiUint threshold, AbiHex primary, AbiHex hardware,
        AbiHex factor])))))))))))"

section \<open>Recovery authority digests\<close>

definition computePhilCoreV2RecoveryFactorDigest ::
  "ethers \<Rightarrow> domain \<Rightarrow> 'z PhilCoreV2RecoveryAuthorizationInput_scheme \<Rightarrow> PhilCoreV2DigestResult result"
where
  "computePhilCoreV2RecoveryFactorDigest E domain input =
     bnd (auth_bytes32 E (au_authorizedIntentHash input) ''authorizedIntentHash'' False)
       (\<lambda>authorizedIntentHash.
     bnd (auth_bytes32 E (au_userOperationHash input) ''userOperationHash'' False)
       (\<lambda>userOperationHash.
     bnd (auth_bytes32 E (au_recoveryConfigHash input) ''recoveryConfigHash'' False)
       (\<lambda>recoveryConfigHash.
     bnd (auth_uint (au_recoveryEpoch input) 64 ''recoveryEpoch'' True) (\<lambda>recoveryEpoch.
     bnd (factorBitmap (au_factorBitmap input)) (\<lambda>bitmap.
     typedDigest E domain (keccak256 E (HexData (abiEncode E
       [''bytes32'', ''bytes32'', ''bytes32'', ''bytes32'', ''uint64'', ''uint8'']
       [AbiHex (PHILCORE_V2_AUTHORIZATION_TYPEHASH E RECOVERY_AUTHORIZATION),
        AbiHex authorizedIntentHash, AbiHex userOperationHash, AbiHex recoveryConfigHash,
        AbiUint recoveryEpoch, AbiUint bitmap]))))))))"

definition computePhilCoreV2CombinedCancellationDigest ::
  "ethers \<Rightarrow> domain \<Rightarrow> 'z PhilCoreV2CombinedCancellationInput_scheme \<Rightarrow> PhilCoreV2DigestResult result"
where
  "computePhilCoreV2CombinedCancellationDigest E domain input =
     bnd (auth_bytes32 E (au_authorizedIntentHash input) ''authorizedIntentHash'' False)
       (\<lambda>authorizedIntentHash.
     bnd (auth_bytes32 E (au_userOperationHash input) ''userOperationHash'' False)
       (\<lambda>userOperationHash.
     bnd (auth_address E (cc_validator input) ''validator'') (\<lambda>validator.
     bnd (auth_uint (cc_validatorEpoch input) 64 ''validatorEpoch'' True) (\<lambda>validatorEpoch.
     bnd (auth_bytes32 E (au_recoveryConfigHash input) ''recoveryConfigHash'' False)
       (\<lambda>recoveryConfigHash.
     bnd (auth_uint (au_recoveryEpoch input) 64 ''recoveryEpoch'' True) (\<lambda>recoveryEpoch.
     bnd (factorBitmap (au_factorBitmap input)) (\<lambda>bitmap.
     typedDigest E domain (keccak256 E (HexData (abiEncode E
       [''bytes32'', ''bytes32'', ''bytes32'', ''address'', ''uint64'', ''bytes32'', ''uint64'',
        ''uint8'']
       [AbiHex (PHILCORE_V2_AUTHORIZATION_TYPEHASH E COMBINED_CANCELLATION),
        AbiHex authorizedIntentHash, AbiHex userOperationHash, AbiHex validator,
        AbiUint validatorEpoch, AbiHex recoveryConfigHash, AbiUint recoveryEpoch,
        AbiUint bitmap]))))))))))"

definition computePhilCoreV2ConfigRotationDigest ::
  "ethers \<Rightarrow> domain \<Rightarrow> 'z PhilCoreV2ConfigRotationAuthorizationInput_scheme \<Rightarrow>
     PhilCoreV2DigestResult result" where
  "computePhilCoreV2ConfigRotationDigest E domain input =
     bnd (auth_uint (au_recoveryEpoch input) 64 ''recoveryEpoch'' True) (\<lambda>currentRecoveryEpoch.
     bnd (auth_uint (cr_proposedRecoveryEpoch input) 64 ''proposedRecoveryEpoch'' True)
       (\<lambda>proposedRecoveryEpoch.
     bnd (ensure (proposedRecoveryEpoch = currentRecoveryEpoch + 1)
            ''proposedRecoveryEpoch_must_equal_current_plus_one'') (\<lambda>_.
     bnd (auth_bytes32 E (au_authorizedIntentHash input) ''authorizedIntentHash'' False)
       (\<lambda>authorizedIntentHash.
     bnd (auth_bytes32 E (au_userOperationHash input) ''userOperationHash'' False)
       (\<lambda>userOperationHash.
     bnd (auth_address E (cc_validator input) ''validator'') (\<lambda>validator.
     bnd (auth_uint (cc_validatorEpoch input) 64 ''validatorEpoch'' True) (\<lambda>validatorEpoch.
     bnd (auth_bytes32 E (au_recoveryConfigHash input) ''recoveryConfigHash'' False)
       (\<lambda>recoveryConfigHash.
     bnd (auth_bytes32 E (cr_proposedRecoveryConfigHash input) ''proposedRecoveryConfigHash'' False)
       (\<lambda>proposedRecoveryConfigHash.
     bnd (factorBitmap (au_factorBitmap input)) (\<lambda>bitmap.
     typedDigest E domain (keccak256 E (HexData (abiEncode E
       [''bytes32'', ''bytes32'', ''bytes32'', ''address'', ''uint64'', ''bytes32'', ''uint64'',
        ''bytes32'', ''uint64'', ''uint8'']
       [AbiHex (PHILCORE_V2_AUTHORIZATION_TYPEHASH E CONFIG_ROTATION_AUTHORIZATION),
        AbiHex authorizedIntentHash, AbiHex userOperationHash, AbiHex validator,
        AbiUint validatorEpoch, AbiHex recoveryConfigHash, AbiUint currentRecoveryEpoch,
        AbiHex proposedRecoveryConfigHash, AbiUint proposedRecoveryEpoch,
        AbiUint bitmap])))))))))))))"

section \<open>Epochs\<close>

definition assertPhilCoreV2AuthorityEpoch ::
  "bignumberish \<Rightarrow> bignumberish \<Rightarrow> bignumberish \<Rightarrow> bignumberish \<Rightarrow> unit result" where
  "assertPhilCoreV2AuthorityEpoch currentValidator currentRecovery suppliedValidator suppliedRecovery =
     bnd (auth_uint currentValidator 64 ''currentValidatorEpoch'' True) (\<lambda>currentValidatorEpoch.
     bnd (auth_uint currentRecovery 64 ''currentRecoveryEpoch'' True) (\<lambda>currentRecoveryEpoch.
     bnd (auth_uint suppliedValidator 64 ''suppliedValidatorEpoch'' True) (\<lambda>suppliedValidatorEpoch.
     bnd (auth_uint suppliedRecovery 64 ''suppliedRecoveryEpoch'' True) (\<lambda>suppliedRecoveryEpoch.
     bnd (ensure (\<not> suppliedValidatorEpoch < currentValidatorEpoch) ''validator_epoch_stale'') (\<lambda>_.
     bnd (ensure (\<not> suppliedValidatorEpoch > currentValidatorEpoch) ''validator_epoch_future'') (\<lambda>_.
     bnd (ensure (\<not> suppliedRecoveryEpoch < currentRecoveryEpoch) ''recovery_epoch_stale'') (\<lambda>_.
     ensure (\<not> suppliedRecoveryEpoch > currentRecoveryEpoch) ''recovery_epoch_future'')))))))"

section \<open>The argument checks accept exactly the well-formed values\<close>

lemma auth_uint_iff [result_simps]: "auth_uint v b l nz = Inr n \<longleftrightarrow> is_uint nz b v n"
  by (cases "BigInt_of v") (auto simp: auth_uint_def is_uint_def uint_fits_def)

lemma auth_bytes32_iff [result_simps]: "auth_bytes32 E v l az = Inr s \<longleftrightarrow> is_bytes32 E az v s"
  by (auto simp: auth_bytes32_def is_bytes32_def Let_def)

lemma auth_address_iff [result_simps]: "auth_address E v l = Inr a \<longleftrightarrow> is_address E False v a"
  by (auto simp: auth_address_def is_address_def split: option.splits)

lemma factorBitmap_iff [result_simps]:
  "factorBitmap v = Inr n \<longleftrightarrow> BigInt_of v = Inr n \<and> n \<in> {3, 5, 6}"
  by (auto simp: factorBitmap_def result_simps is_uint_def uint_fits_def
      PHILCORE_V2_RECOVERY_FACTOR_BITMAP_def)

lemma typedDigest_iff [result_simps]:
  "typedDigest E d sh = Inr r \<longleftrightarrow>
     computePhilCoreV2DomainSeparator E (fst d) (snd d) = Inr (dr_domainSeparator r) \<and>
     computePhilCoreV2TypedDataDigest E (dr_domainSeparator r) sh = Inr (dr_digest r) \<and>
     dr_structHash r = sh"
  by (cases r) (auto simp: typedDigest_def result_simps)

lemma PHILCORE_V2_RECOVERY_FACTOR_ROLE_inject: "inj PHILCORE_V2_RECOVERY_FACTOR_ROLE"
proof (rule injI)
  fix a b assume "PHILCORE_V2_RECOVERY_FACTOR_ROLE a = PHILCORE_V2_RECOVERY_FACTOR_ROLE b"
  then show "a = b" by (cases a; cases b) simp_all
qed

lemma PHILCORE_V2_RECOVERY_VERIFIER_KIND_inject: "inj PHILCORE_V2_RECOVERY_VERIFIER_KIND"
proof (rule injI)
  fix a b assume "PHILCORE_V2_RECOVERY_VERIFIER_KIND a = PHILCORE_V2_RECOVERY_VERIFIER_KIND b"
  then show "a = b" by (cases a; cases b) simp_all
qed

lemma PHILCORE_V2_USER_VERIFICATION_POLICY_inject: "inj PHILCORE_V2_USER_VERIFICATION_POLICY"
proof (rule injI)
  fix a b assume "PHILCORE_V2_USER_VERIFICATION_POLICY a = PHILCORE_V2_USER_VERIFICATION_POLICY b"
  then show "a = b" by (cases a; cases b) simp_all
qed

lemma recovery_roles: "set [PRIMARY_DEVICE, HARDWARE_SECURITY_KEY, RECOVERY_FACTOR] = UNIV"
  using recovery_role.exhaust by auto

lemma recovery_verifier_kinds:
  "set [WEBAUTHN_P256, PURPOSE_BOUND_SECP256K1, THRESHOLD_COMMITMENT, NATIVE_DEVICE_P256] = UNIV"
  using recovery_verifier_kind.exhaust by auto

lemma user_verification_policies:
  "set [NOT_APPLICABLE, USER_PRESENCE_REQUIRED, USER_VERIFICATION_REQUIRED] = UNIV"
  using user_verification_policy.exhaust by auto

lemma role_iff [result_simps]:
  "role v = Inr r \<longleftrightarrow> BigInt_of v = Inr (PHILCORE_V2_RECOVERY_FACTOR_ROLE r)"
  by (cases r)
     (auto simp: role_def result_simps is_uint_def uint_fits_def simp del: find.simps
       simp: find_table_iff [OF PHILCORE_V2_RECOVERY_FACTOR_ROLE_inject recovery_roles])

lemma verifierKind_iff [result_simps]:
  "verifierKind v = Inr k \<longleftrightarrow> BigInt_of v = Inr (PHILCORE_V2_RECOVERY_VERIFIER_KIND k)"
  by (cases k)
     (auto simp: verifierKind_def result_simps is_uint_def uint_fits_def simp del: find.simps
       simp: find_table_iff [OF PHILCORE_V2_RECOVERY_VERIFIER_KIND_inject recovery_verifier_kinds])

lemma userVerificationPolicy_iff [result_simps]:
  "userVerificationPolicy v = Inr p \<longleftrightarrow> BigInt_of v = Inr (PHILCORE_V2_USER_VERIFICATION_POLICY p)"
  by (cases p)
     (auto simp: userVerificationPolicy_def result_simps is_uint_def uint_fits_def simp del: find.simps
       simp: find_table_iff [OF PHILCORE_V2_USER_VERIFICATION_POLICY_inject user_verification_policies])

lemma PHILCORE_V2_AUTHORIZATION_TYPE_inject:
  "PHILCORE_V2_AUTHORIZATION_TYPE a = PHILCORE_V2_AUTHORIZATION_TYPE b \<Longrightarrow> a = b"
  by (cases a; cases b) simp_all

section \<open>What the authority digests bind\<close>

text \<open>The struct hash of an authority digest: the type hash and the fields.\<close>

definition struct_preimage ::
  "ethers \<Rightarrow> authorization_type \<Rightarrow> string list \<Rightarrow> abi_value list \<Rightarrow> bytes_like" where
  "struct_preimage E k ts vs =
     HexData (abiEncode E (''bytes32'' # ts) (AbiHex (PHILCORE_V2_AUTHORIZATION_TYPEHASH E k) # vs))"

text \<open>What is hashed for an authority digest.\<close>

definition digest_preimages ::
  "ethers \<Rightarrow> domain \<Rightarrow> bytes_like \<Rightarrow> PhilCoreV2DigestResult \<Rightarrow> bytes_like set" where
  "digest_preimages E D struct r =
     {struct, domain_preimage E (fst D) (snd D),
      typed_data_preimage E (dr_domainSeparator r) (dr_structHash r)} \<union>
     range (\<lambda>k. toUtf8Bytes E (PHILCORE_V2_AUTHORIZATION_TYPE k))"

lemma struct_binding:
  assumes laws: "ethers_laws E" and noc: "\<not> keccak_collision E S"
    and S: "struct_preimage E k ts vs \<in> S" "struct_preimage E k' ts' us \<in> S"
      "range (\<lambda>k. toUtf8Bytes E (PHILCORE_V2_AUTHORIZATION_TYPE k)) \<subseteq> S"
    and vs: "list_all2 (abi_fits E) ts vs" and us: "list_all2 (abi_fits E) ts' us"
    and eq: "keccak256 E (struct_preimage E k ts vs) = keccak256 E (struct_preimage E k' ts' us)"
  shows "k = k' \<and> (ts = ts' \<longrightarrow> vs = us)"
proof -
  have fits: "list_all2 (abi_fits E) (''bytes32'' # ts) (AbiHex (PHILCORE_V2_AUTHORIZATION_TYPEHASH E k) # vs)"
    "list_all2 (abi_fits E) (''bytes32'' # ts') (AbiHex (PHILCORE_V2_AUTHORIZATION_TYPEHASH E k') # us)"
    using vs us keccak_abi [OF laws]
    by (simp_all add: PHILCORE_V2_AUTHORIZATION_TYPEHASH_def del: abi_fits.simps)
  from keccak_eq_in [OF noc S(1,2) eq]
  have enc: "abiEncode E (''bytes32'' # ts) (AbiHex (PHILCORE_V2_AUTHORIZATION_TYPEHASH E k) # vs) =
      abiEncode E (''bytes32'' # ts') (AbiHex (PHILCORE_V2_AUTHORIZATION_TYPEHASH E k') # us)"
    by (simp add: struct_preimage_def)
  from abiEncode_head [OF laws fits enc]
  have "PHILCORE_V2_AUTHORIZATION_TYPEHASH E k = PHILCORE_V2_AUTHORIZATION_TYPEHASH E k'" by simp
  with keccak_utf8_eq_in [OF laws noc] S(3) have "k = k'"
    unfolding PHILCORE_V2_AUTHORIZATION_TYPEHASH_def
    using PHILCORE_V2_AUTHORIZATION_TYPE_inject by (metis range_subsetD)
  moreover have "vs = us" if "ts = ts'"
    using abiEncode_inject [OF laws fits(1) fits(2) [folded that]] enc that by simp
  ultimately show ?thesis by blast
qed

lemma typedDigest_binding:
  assumes laws: "ethers_laws E" and noc: "\<not> keccak_collision E S"
    and S: "digest_preimages E D (struct_preimage E k ts vs) r \<subseteq> S"
      "digest_preimages E D' (struct_preimage E k' ts' us) r' \<subseteq> S"
    and d: "typedDigest E D (keccak256 E (struct_preimage E k ts vs)) = Inr r"
    and d': "typedDigest E D' (keccak256 E (struct_preimage E k' ts' us)) = Inr r'"
    and fits: "list_all2 (abi_fits E) ts vs" "list_all2 (abi_fits E) ts' us"
    and eq: "dr_digest r = dr_digest r'"
  shows "k = k' \<and> bigint_value (fst D) = bigint_value (fst D') \<and>
         norm_address E (snd D) = norm_address E (snd D') \<and> (ts = ts' \<longrightarrow> vs = us)"
proof -
  note t = d [unfolded typedDigest_iff] and t' = d' [unfolded typedDigest_iff]
  from S have in_S: "domain_preimage E (fst D) (snd D) \<in> S" "domain_preimage E (fst D') (snd D') \<in> S"
    "typed_data_preimage E (dr_domainSeparator r) (dr_structHash r) \<in> S"
    "typed_data_preimage E (dr_domainSeparator r') (dr_structHash r') \<in> S"
    "struct_preimage E k ts vs \<in> S" "struct_preimage E k' ts' us \<in> S"
    "range (\<lambda>k. toUtf8Bytes E (PHILCORE_V2_AUTHORIZATION_TYPE k)) \<subseteq> S"
    by (auto simp: digest_preimages_def)
  have low: "toLowerCase (dr_domainSeparator r) = dr_domainSeparator r"
    "toLowerCase (dr_domainSeparator r') = dr_domainSeparator r'"
    "toLowerCase (dr_structHash r) = dr_structHash r"
    "toLowerCase (dr_structHash r') = dr_structHash r'"
    using t t' domain_separator_preimage [OF laws] laws_keccak256(2) [OF laws] by metis+
  from t t' eq have td:
    "computePhilCoreV2TypedDataDigest E (dr_domainSeparator r) (dr_structHash r) = Inr (dr_digest r')"
    "computePhilCoreV2TypedDataDigest E (dr_domainSeparator r') (dr_structHash r') = Inr (dr_digest r')"
    by simp_all
  from typed_data_digest_binding [OF laws noc in_S(3,4) td] low
  have ds: "dr_domainSeparator r = dr_domainSeparator r'" and sh: "dr_structHash r = dr_structHash r'"
    by simp_all
  from ds t t' have "bigint_value (fst D) = bigint_value (fst D') \<and>
      norm_address E (snd D) = norm_address E (snd D')"
    using domain_separator_binding [OF laws noc in_S(1,2)] by metis
  moreover have "k = k' \<and> (ts = ts' \<longrightarrow> vs = us)"
    using struct_binding [OF laws noc in_S(5-7) fits] sh t t' by metis
  ultimately show ?thesis by blast
qed

text \<open>
  The interface of an authority digest: a computation that, when it succeeds, is the EIP-712
  digest of a struct of one type whose fields are words of the input. Every digest binds its
  domain and its fields.
\<close>

locale authority_digest =
  fixes compute :: "ethers \<Rightarrow> domain \<Rightarrow> 'i \<Rightarrow> PhilCoreV2DigestResult result"
    and kind :: authorization_type
    and types :: "string list"
    and words :: "ethers \<Rightarrow> 'i \<Rightarrow> abi_value list"
  assumes compute_struct: "ethers_laws E \<Longrightarrow> compute E D i = Inr r \<Longrightarrow>
      typedDigest E D (keccak256 E (struct_preimage E kind types (words E i))) = Inr r \<and>
      list_all2 (abi_fits E) types (words E i)"
begin

definition preimages :: "ethers \<Rightarrow> domain \<Rightarrow> 'i \<Rightarrow> PhilCoreV2DigestResult \<Rightarrow> bytes_like set" where
  "preimages E D i r = digest_preimages E D (struct_preimage E kind types (words E i)) r"

lemma digest_binds:
  assumes laws: "ethers_laws E" and d: "compute E D i = Inr r" and d': "compute E D' j = Inr r'"
    and eq: "dr_digest r = dr_digest r'"
    and noc: "\<not> keccak_collision E (preimages E D i r \<union> preimages E D' j r')"
  shows "bigint_value (fst D) = bigint_value (fst D') \<and>
         norm_address E (snd D) = norm_address E (snd D') \<and> words E i = words E j"
  using typedDigest_binding [OF laws noc, of D kind types "words E i" r D' kind types "words E j" r']
    compute_struct [OF laws d] compute_struct [OF laws d'] eq
  by (simp add: preimages_def)

end

text \<open>The four authority digests and the words they hash.\<close>

definition validator_types :: "string list" where
  "validator_types = [''bytes32'', ''bytes32'', ''address'', ''bytes32'', ''uint64'', ''uint64'']"

definition validator_words :: "ethers \<Rightarrow> PhilCoreV2ValidatorAuthorizationInput \<Rightarrow> abi_value list" where
  "validator_words E i =
     [AbiHex (toLowerCase (va_authorizedIntentHash i)), AbiHex (toLowerCase (va_userOperationHash i)),
      AbiHex (norm_address E (va_validator i)), AbiHex (toLowerCase (va_validatorKeyIdBinding i)),
      AbiUint (bigint_value (va_validatorEpoch i)), AbiUint (bigint_value (va_recoveryEpoch i))]"

definition recovery_types :: "string list" where
  "recovery_types = [''bytes32'', ''bytes32'', ''bytes32'', ''uint64'', ''uint8'']"

definition recovery_words ::
  "ethers \<Rightarrow> 'z PhilCoreV2RecoveryAuthorizationInput_scheme \<Rightarrow> abi_value list" where
  "recovery_words E i =
     [AbiHex (toLowerCase (au_authorizedIntentHash i)), AbiHex (toLowerCase (au_userOperationHash i)),
      AbiHex (toLowerCase (au_recoveryConfigHash i)), AbiUint (bigint_value (au_recoveryEpoch i)),
      AbiUint (bigint_value (au_factorBitmap i))]"

definition cancellation_types :: "string list" where
  "cancellation_types =
     [''bytes32'', ''bytes32'', ''address'', ''uint64'', ''bytes32'', ''uint64'', ''uint8'']"

definition cancellation_words ::
  "ethers \<Rightarrow> 'z PhilCoreV2CombinedCancellationInput_scheme \<Rightarrow> abi_value list" where
  "cancellation_words E i =
     [AbiHex (toLowerCase (au_authorizedIntentHash i)), AbiHex (toLowerCase (au_userOperationHash i)),
      AbiHex (norm_address E (cc_validator i)), AbiUint (bigint_value (cc_validatorEpoch i)),
      AbiHex (toLowerCase (au_recoveryConfigHash i)), AbiUint (bigint_value (au_recoveryEpoch i)),
      AbiUint (bigint_value (au_factorBitmap i))]"

definition config_rotation_types :: "string list" where
  "config_rotation_types =
     [''bytes32'', ''bytes32'', ''address'', ''uint64'', ''bytes32'', ''uint64'', ''bytes32'',
      ''uint64'', ''uint8'']"

definition config_rotation_words ::
  "ethers \<Rightarrow> 'z PhilCoreV2ConfigRotationAuthorizationInput_scheme \<Rightarrow> abi_value list" where
  "config_rotation_words E i =
     [AbiHex (toLowerCase (au_authorizedIntentHash i)), AbiHex (toLowerCase (au_userOperationHash i)),
      AbiHex (norm_address E (cc_validator i)), AbiUint (bigint_value (cc_validatorEpoch i)),
      AbiHex (toLowerCase (au_recoveryConfigHash i)), AbiUint (bigint_value (au_recoveryEpoch i)),
      AbiHex (toLowerCase (cr_proposedRecoveryConfigHash i)),
      AbiUint (bigint_value (cr_proposedRecoveryEpoch i)), AbiUint (bigint_value (au_factorBitmap i))]"

text \<open>A checked field is the word of its normal form, and it fits its type.\<close>

lemma bytes32_word:
  "is_bytes32 E az v s \<Longrightarrow>
     s = toLowerCase v \<and> (ethers_laws E \<longrightarrow> abi_fits E ''bytes32'' (AbiHex (toLowerCase v)))"
  using is_bytes32_abi by (auto simp: is_bytes32_def)

lemma address_word:
  "is_address E az v a \<Longrightarrow>
     a = norm_address E v \<and> (ethers_laws E \<longrightarrow> abi_fits E ''address'' (AbiHex (norm_address E v)))"
  using is_address_abi is_address_norm by metis

lemma uint64_word:
  "is_uint nz 64 v n \<Longrightarrow> n = bigint_value v \<and> abi_fits E ''uint64'' (AbiUint (bigint_value v))"
  by (simp add: is_uint_def bigint_value_def)

lemma factorBitmap_word:
  "factorBitmap v = Inr n \<Longrightarrow> n = bigint_value v \<and> abi_fits E ''uint8'' (AbiUint (bigint_value v))"
  by (auto simp: factorBitmap_iff bigint_value_def uint_fits_def)

lemmas check_simps = bnd_eq_Inr ensure_eq_Inr auth_bytes32_iff auth_address_iff auth_uint_iff

lemmas digest_defs =
  computePhilCoreV2ValidatorDigest_def computePhilCoreV2RecoveryFactorDigest_def
  computePhilCoreV2CombinedCancellationDigest_def computePhilCoreV2ConfigRotationDigest_def
  validator_types_def validator_words_def recovery_types_def recovery_words_def
  cancellation_types_def cancellation_words_def config_rotation_types_def
  config_rotation_words_def struct_preimage_def

lemmas word_dests = bytes32_word address_word uint64_word factorBitmap_word

interpretation validator_digest: authority_digest computePhilCoreV2ValidatorDigest
    VALIDATOR_AUTHORIZATION validator_types validator_words
  by unfold_locales
     (auto simp: digest_defs check_simps simp del: abi_fits.simps dest!: word_dests)

interpretation recovery_digest: authority_digest computePhilCoreV2RecoveryFactorDigest
    RECOVERY_AUTHORIZATION recovery_types recovery_words
  by unfold_locales
     (auto simp: digest_defs check_simps simp del: abi_fits.simps dest!: word_dests)

interpretation cancellation_digest: authority_digest computePhilCoreV2CombinedCancellationDigest
    COMBINED_CANCELLATION cancellation_types cancellation_words
  by unfold_locales
     (auto simp: digest_defs check_simps simp del: abi_fits.simps dest!: word_dests)

interpretation config_rotation_digest: authority_digest computePhilCoreV2ConfigRotationDigest
    CONFIG_ROTATION_AUTHORIZATION config_rotation_types config_rotation_words
  by unfold_locales
     (auto simp: digest_defs check_simps simp del: abi_fits.simps dest!: word_dests)

text \<open>The four requests for an authority digest as one type.\<close>

datatype authority_request =
    ValidatorRequest PhilCoreV2ValidatorAuthorizationInput
  | RecoveryQuorumRequest PhilCoreV2RecoveryAuthorizationInput
  | CancellationRequest PhilCoreV2CombinedCancellationInput
  | ConfigRotationRequest PhilCoreV2ConfigRotationAuthorizationInput

fun request_digest :: "ethers \<Rightarrow> domain \<Rightarrow> authority_request \<Rightarrow> PhilCoreV2DigestResult result" where
  "request_digest E D (ValidatorRequest i) = computePhilCoreV2ValidatorDigest E D i"
| "request_digest E D (RecoveryQuorumRequest i) = computePhilCoreV2RecoveryFactorDigest E D i"
| "request_digest E D (CancellationRequest i) = computePhilCoreV2CombinedCancellationDigest E D i"
| "request_digest E D (ConfigRotationRequest i) = computePhilCoreV2ConfigRotationDigest E D i"

fun request_type :: "authority_request \<Rightarrow> authorization_type" where
  "request_type (ValidatorRequest i) = VALIDATOR_AUTHORIZATION"
| "request_type (RecoveryQuorumRequest i) = RECOVERY_AUTHORIZATION"
| "request_type (CancellationRequest i) = COMBINED_CANCELLATION"
| "request_type (ConfigRotationRequest i) = CONFIG_ROTATION_AUTHORIZATION"

fun request_types :: "authority_request \<Rightarrow> string list" where
  "request_types (ValidatorRequest i) = validator_types"
| "request_types (RecoveryQuorumRequest i) = recovery_types"
| "request_types (CancellationRequest i) = cancellation_types"
| "request_types (ConfigRotationRequest i) = config_rotation_types"

fun request_words :: "ethers \<Rightarrow> authority_request \<Rightarrow> abi_value list" where
  "request_words E (ValidatorRequest i) = validator_words E i"
| "request_words E (RecoveryQuorumRequest i) = recovery_words E i"
| "request_words E (CancellationRequest i) = cancellation_words E i"
| "request_words E (ConfigRotationRequest i) = config_rotation_words E i"

definition request_preimages ::
  "ethers \<Rightarrow> domain \<Rightarrow> authority_request \<Rightarrow> PhilCoreV2DigestResult \<Rightarrow> bytes_like set" where
  "request_preimages E D q r =
     digest_preimages E D (struct_preimage E (request_type q) (request_types q) (request_words E q)) r"

lemma request_digest_struct:
  "ethers_laws E \<Longrightarrow> request_digest E D q = Inr r \<Longrightarrow>
     typedDigest E D
       (keccak256 E (struct_preimage E (request_type q) (request_types q) (request_words E q))) = Inr r \<and>
     list_all2 (abi_fits E) (request_types q) (request_words E q)"
  by (cases q)
     (auto dest: validator_digest.compute_struct recovery_digest.compute_struct
       cancellation_digest.compute_struct config_rotation_digest.compute_struct)

lemma request_types_determined: "request_type q = request_type q' \<Longrightarrow> request_types q = request_types q'"
  by (cases q; cases q') simp_all

lemma request_digest_binds:
  assumes laws: "ethers_laws E"
    and d: "request_digest E D q = Inr r" and d': "request_digest E D' q' = Inr r'"
    and eq: "dr_digest r = dr_digest r'"
    and noc: "\<not> keccak_collision E (request_preimages E D q r \<union> request_preimages E D' q' r')"
  shows "request_type q = request_type q' \<and> bigint_value (fst D) = bigint_value (fst D') \<and>
         norm_address E (snd D) = norm_address E (snd D') \<and> request_words E q = request_words E q'"
  using typedDigest_binding [OF laws noc, of D "request_type q" "request_types q" "request_words E q" r
      D' "request_type q'" "request_types q'" "request_words E q'" r']
    request_digest_struct [OF laws d] request_digest_struct [OF laws d'] eq
    request_types_determined [of q q']
  by (simp add: request_preimages_def)

section \<open>Two of three\<close>

definition selected_roles :: "int \<Rightarrow> recovery_role set" where
  "selected_roles n = {r. bit n (nat (PHILCORE_V2_RECOVERY_FACTOR_ROLE r))}"

lemma selected_roles_cases:
  "selected_roles n =
     (if bit n 0 then {PRIMARY_DEVICE} else {}) \<union> (if bit n 1 then {HARDWARE_SECURITY_KEY} else {}) \<union>
     (if bit n 2 then {RECOVERY_FACTOR} else {})"
proof -
  have "r \<in> selected_roles n \<longleftrightarrow> r \<in> (if bit n 0 then {PRIMARY_DEVICE} else {}) \<union>
      (if bit n 1 then {HARDWARE_SECURITY_KEY} else {}) \<union> (if bit n 2 then {RECOVERY_FACTOR} else {})" for r
    by (cases r) (simp_all add: selected_roles_def)
  then show ?thesis by blast
qed

lemma factorBitmap_two_of_three:
  "factorBitmap v = Inr n \<longleftrightarrow>
     BigInt_of v = Inr n \<and> 0 \<le> n \<and> n < 8 \<and> card (selected_roles n) = 2"
proof -
  have "n \<in> {3, 5, 6} \<longleftrightarrow> card (selected_roles n) = 2" if "0 \<le> n" "n < 8"
  proof -
    from that have "n \<in> {0, 1, 2, 3, 4, 5, 6, 7}" by auto
    then show ?thesis by (auto simp: selected_roles_cases)
  qed
  then show ?thesis by (auto simp: factorBitmap_iff)
qed

section \<open>Which configurations and factors are accepted\<close>

definition recovery_configuration_policy :: "ethers \<Rightarrow> PhilCoreV2RecoveryConfigurationInput \<Rightarrow> bool" where
  "recovery_configuration_policy E i \<longleftrightarrow>
     BigInt_of (rc_configurationVersion i) = Inr 1 \<and> BigInt_of (rc_threshold i) = Inr 2 \<and>
     nonzero_bytes32 E (rc_primaryDeviceCommitment i) \<and>
     nonzero_bytes32 E (rc_hardwareSecurityKeyCommitment i) \<and>
     nonzero_bytes32 E (rc_recoveryFactorCommitment i) \<and>
     distinct [toLowerCase (rc_primaryDeviceCommitment i),
       toLowerCase (rc_hardwareSecurityKeyCommitment i),
       toLowerCase (rc_recoveryFactorCommitment i)]"

lemma recovery_configuration_iff:
  "(\<exists>h. computePhilCoreV2RecoveryConfigurationHash E i = Inr h) \<longleftrightarrow> recovery_configuration_policy E i"
  by (auto simp: computePhilCoreV2RecoveryConfigurationHash_def recovery_configuration_policy_def
      nonzero_bytes32_def check_simps is_bytes32_def is_uint_def uint_fits_def
      PHILCORE_V2_RECOVERY_CONFIGURATION_VERSION_def PHILCORE_V2_RECOVERY_THRESHOLD_def)

definition recovery_factor_accepted ::
  "ethers \<Rightarrow> PhilCoreV2RecoveryFactorInput \<Rightarrow> recovery_role \<Rightarrow> recovery_verifier_kind \<Rightarrow>
     user_verification_policy \<Rightarrow> bool" where
  "recovery_factor_accepted E i r k p \<longleftrightarrow>
     BigInt_of (rf_role i) = Inr (PHILCORE_V2_RECOVERY_FACTOR_ROLE r) \<and>
     BigInt_of (rf_verifierKind i) = Inr (PHILCORE_V2_RECOVERY_VERIFIER_KIND k) \<and>
     BigInt_of (rf_userVerificationPolicy i) = Inr (PHILCORE_V2_USER_VERIFICATION_POLICY p) \<and>
     isHexString E (rf_rpIdHash i) 32 \<and> isHexString E (rf_originPolicyHash i) 32 \<and>
     nonzero_bytes32 E (rf_accountVersionId i) \<and>
     toLowerCase (rf_accountVersionId i) = toLowerCase (PHILCORE_V2_ACCOUNT_VERSION_ID E) \<and>
     nonzero_bytes32 E (rf_securityModelId i) \<and>
     toLowerCase (rf_securityModelId i) = toLowerCase (PHILCORE_V2_SECURITY_MODEL_ID E) \<and>
     nonzero_bytes32 E (rf_publicVerificationMaterialHash i) \<and>
     (\<exists>g. is_uint True 64 (rf_credentialGeneration i) g) \<and>
     (case r of
        RECOVERY_FACTOR \<Rightarrow> k \<noteq> WEBAUTHN_P256 \<and> p = NOT_APPLICABLE
      | _ \<Rightarrow> k \<noteq> THRESHOLD_COMMITMENT) \<and>
     (if k = WEBAUTHN_P256
      then toLowerCase (rf_rpIdHash i) \<noteq> ZERO_BYTES32 \<and>
           toLowerCase (rf_originPolicyHash i) \<noteq> ZERO_BYTES32 \<and> p = USER_VERIFICATION_REQUIRED
      else toLowerCase (rf_rpIdHash i) = ZERO_BYTES32 \<and>
           toLowerCase (rf_originPolicyHash i) = ZERO_BYTES32)"

lemma recovery_factor_policy_iff:
  "recovery_factor_policy r k p rp og = Inr () \<longleftrightarrow>
     (case r of
        RECOVERY_FACTOR \<Rightarrow> k \<noteq> WEBAUTHN_P256 \<and> p = NOT_APPLICABLE
      | _ \<Rightarrow> k \<noteq> THRESHOLD_COMMITMENT) \<and>
     (if k = WEBAUTHN_P256
      then rp \<noteq> ZERO_BYTES32 \<and> og \<noteq> ZERO_BYTES32 \<and> p = USER_VERIFICATION_REQUIRED
      else rp = ZERO_BYTES32 \<and> og = ZERO_BYTES32)"
  by (cases r; cases k) (auto simp: recovery_factor_policy_def result_simps)

lemma recovery_factor_commitment_iff:
  "(\<exists>h. computePhilCoreV2RecoveryFactorCommitment E i = Inr h) \<longleftrightarrow>
     (\<exists>r k p. recovery_factor_accepted E i r k p)"
proof
  assume "\<exists>h. computePhilCoreV2RecoveryFactorCommitment E i = Inr h"
  then obtain r k p rp og v m mat g where
    "role (rf_role i) = Inr r" "verifierKind (rf_verifierKind i) = Inr k"
    "userVerificationPolicy (rf_userVerificationPolicy i) = Inr p"
    "is_bytes32 E True (rf_rpIdHash i) rp" "is_bytes32 E True (rf_originPolicyHash i) og"
    "is_bytes32 E False (rf_accountVersionId i) v"
    "v = toLowerCase (PHILCORE_V2_ACCOUNT_VERSION_ID E)"
    "is_bytes32 E False (rf_securityModelId i) m"
    "m = toLowerCase (PHILCORE_V2_SECURITY_MODEL_ID E)"
    "recovery_factor_policy r k p rp og = Inr ()"
    "is_bytes32 E False (rf_publicVerificationMaterialHash i) mat"
    "is_uint True 64 (rf_credentialGeneration i) g"
    unfolding computePhilCoreV2RecoveryFactorCommitment_def check_simps by auto
  then have "recovery_factor_accepted E i r k p"
    unfolding recovery_factor_accepted_def recovery_factor_policy_iff nonzero_bytes32_def
      is_bytes32_def role_iff verifierKind_iff userVerificationPolicy_iff by auto
  then show "\<exists>r k p. recovery_factor_accepted E i r k p" by blast
next
  assume "\<exists>r k p. recovery_factor_accepted E i r k p"
  then obtain r k p where a: "recovery_factor_accepted E i r k p" by blast
  then obtain g where "is_uint True 64 (rf_credentialGeneration i) g"
    unfolding recovery_factor_accepted_def by blast
  then have "auth_uint (rf_credentialGeneration i) 64 l True = Inr g" for l
    by (simp add: auth_uint_iff)
  moreover have "auth_bytes32 E (rf_rpIdHash i) l True = Inr (toLowerCase (rf_rpIdHash i))"
    "auth_bytes32 E (rf_originPolicyHash i) l True = Inr (toLowerCase (rf_originPolicyHash i))"
    "auth_bytes32 E (rf_accountVersionId i) l False = Inr (toLowerCase (PHILCORE_V2_ACCOUNT_VERSION_ID E))"
    "auth_bytes32 E (rf_securityModelId i) l False = Inr (toLowerCase (PHILCORE_V2_SECURITY_MODEL_ID E))"
    "auth_bytes32 E (rf_publicVerificationMaterialHash i) l False =
       Inr (toLowerCase (rf_publicVerificationMaterialHash i))" for l
    using a [unfolded recovery_factor_accepted_def nonzero_bytes32_def]
    by (metis auth_bytes32_iff is_bytes32_def)+
  moreover have "role (rf_role i) = Inr r" "verifierKind (rf_verifierKind i) = Inr k"
    "userVerificationPolicy (rf_userVerificationPolicy i) = Inr p"
    "recovery_factor_policy r k p (toLowerCase (rf_rpIdHash i)) (toLowerCase (rf_originPolicyHash i)) = Inr ()"
    using a by (simp_all add: recovery_factor_accepted_def role_iff verifierKind_iff
        userVerificationPolicy_iff recovery_factor_policy_iff)
  ultimately show "\<exists>h. computePhilCoreV2RecoveryFactorCommitment E i = Inr h"
    by (simp add: computePhilCoreV2RecoveryFactorCommitment_def)
qed

section \<open>A sample request\<close>

definition sample_validator_request :: "bignumberish \<Rightarrow> authority_request" where
  "sample_validator_request epoch =
     ValidatorRequest \<lparr>va_authorizedIntentHash = h32 (CHR ''1''), va_userOperationHash = h32 (CHR ''2''),
       va_validator = a20 (CHR ''b''), va_validatorKeyIdBinding = h32 (CHR ''3''),
       va_validatorEpoch = epoch, va_recoveryEpoch = BigIntV 1\<rparr>"

lemma sample_typedDigest:
  assumes "is_uint True 256 c n" and "is_address sample_ethers False a b"
  shows "\<exists>r. typedDigest sample_ethers (c, a) (keccak256 sample_ethers x) = Inr r"
proof -
  from assms obtain y where "computePhilCoreV2DomainSeparator sample_ethers c a = Inr (keccak256 sample_ethers y)"
    by (auto simp: computePhilCoreV2DomainSeparator_def result_simps)
  moreover have "intent_bytes32 sample_ethers (keccak256 sample_ethers z) l False =
      Inr (keccak256 sample_ethers z)" for z l
    by (simp add: result_simps literal_simps)
  ultimately show ?thesis by (simp add: typedDigest_def computePhilCoreV2TypedDataDigest_def)
qed

section \<open>Properties\<close>

text \<open>
  two of three. The factor bitmap check accepts exactly the numbers below 8 that select two
  of the three recovery roles.
\<close>

theorem factor_bitmap_selects_two:
  "factorBitmap v = Inr n \<longleftrightarrow>
     BigInt_of v = Inr n \<and> 0 \<le> n \<and> n < 8 \<and> card (selected_roles n) = 2"
  by (rule factorBitmap_two_of_three)

text \<open>
  which recovery configurations are accepted. A configuration hash is computed exactly for
  version 1, threshold two and three nonzero commitments that are pairwise distinct.
\<close>

theorem recovery_configuration_acceptance:
  "(\<exists>h. computePhilCoreV2RecoveryConfigurationHash E i = Inr h) \<longleftrightarrow>
     recovery_configuration_policy E i"
  by (rule recovery_configuration_iff)

text \<open>
  which recovery factors are accepted. A factor commitment is computed exactly for the
  supported account version and security model, with a nonzero material hash and generation,
  when the verifier kind is allowed for the role (no threshold commitment for a device or a
  hardware key, no passkey for the recovery factor), a passkey names its relying party and
  origin and requires user verification, and every other kind leaves both hashes zero and, for
  the recovery factor, has no user verification.
\<close>

theorem recovery_factor_acceptance:
  "(\<exists>h. computePhilCoreV2RecoveryFactorCommitment E i = Inr h) \<longleftrightarrow>
     (\<exists>r k p. recovery_factor_accepted E i r k p)"
  by (rule recovery_factor_commitment_iff)

text \<open>
  the epoch check passes exactly when the four epochs are nonzero 64-bit numbers and each
  supplied epoch equals the current one.
\<close>

theorem authority_epoch_check:
  "assertPhilCoreV2AuthorityEpoch cv cr sv sr = Inr () \<longleftrightarrow>
     (\<exists>v r. is_uint True 64 cv v \<and> is_uint True 64 cr r \<and> is_uint True 64 sv v \<and>
       is_uint True 64 sr r)"
  by (auto simp: assertPhilCoreV2AuthorityEpoch_def check_simps not_less) blast

text \<open>
  C12: an authority digest binds its authority. Two requests (validator signature, recovery
  quorum, combined cancellation, configuration rotation) with the same digest are of the same
  kind, for the same chain and account, and agree in every field: intent, user operation,
  validator, key binding, epochs, recovery configuration and factor bitmap, as far as their kind
  has them; or two of the inputs hashed for them are a Keccak-256 collision.
\<close>

theorem authority_digest_binding:
  assumes "ethers_laws E"
    and "request_digest E D q = Inr r" and "request_digest E D' q' = Inr r'"
    and "dr_digest r = dr_digest r'"
  shows "(request_type q = request_type q' \<and> bigint_value (fst D) = bigint_value (fst D') \<and>
          norm_address E (snd D) = norm_address E (snd D') \<and>
          request_words E q = request_words E q') \<or>
         keccak_collision E (request_preimages E D q r \<union> request_preimages E D' q' r')"
  using request_digest_binds [OF assms] by blast

theorem authority_digest_binding_witness:
  "\<exists>r r'. request_digest sample_ethers (BigIntV 1, a20 (CHR ''a''))
       (sample_validator_request (BigIntV 7)) = Inr r \<and>
     request_digest sample_ethers (BigIntV 1, a20 (CHR ''A''))
       (sample_validator_request (NumberV (IntegerNumber 7))) = Inr r' \<and>
     dr_digest r = dr_digest r' \<and>
     (request_words sample_ethers (sample_validator_request (BigIntV 7)) =
        request_words sample_ethers (sample_validator_request (NumberV (IntegerNumber 7))) \<or>
      keccak_collision sample_ethers
        (request_preimages sample_ethers (BigIntV 1, a20 (CHR ''a''))
           (sample_validator_request (BigIntV 7)) r \<union>
         request_preimages sample_ethers (BigIntV 1, a20 (CHR ''A''))
           (sample_validator_request (NumberV (IntegerNumber 7))) r'))"
proof -
  let ?q = "sample_validator_request (BigIntV 7)"
  let ?q' = "sample_validator_request (NumberV (IntegerNumber 7))"
  let ?D = "(BigIntV 1, a20 (CHR ''a''))" and ?D' = "(BigIntV 1, a20 (CHR ''A''))"
  have same: "request_digest sample_ethers ?D ?q = request_digest sample_ethers ?D' ?q'"
    by (simp add: sample_validator_request_def computePhilCoreV2ValidatorDigest_def auth_uint_def
        typedDigest_def computePhilCoreV2DomainSeparator_def intent_address_def sample_ethers_def
        literal_simps)
  have "\<exists>r. request_digest sample_ethers ?D ?q = Inr r"
  proof -
    obtain r where "typedDigest sample_ethers ?D (keccak256 sample_ethers (struct_preimage sample_ethers
        VALIDATOR_AUTHORIZATION validator_types
        [AbiHex (h32 (CHR ''1'')), AbiHex (h32 (CHR ''2'')), AbiHex (a20 (CHR ''b'')),
         AbiHex (h32 (CHR ''3'')), AbiUint 7, AbiUint 1])) = Inr r"
      using sample_typedDigest [of "BigIntV 1" 1 "a20 (CHR ''a'')" "a20 (CHR ''a'')"]
      by (auto simp: uint_fits_def literal_simps)
    then show ?thesis
      by (auto simp: sample_validator_request_def computePhilCoreV2ValidatorDigest_def check_simps
          literal_simps uint_fits_def struct_preimage_def validator_types_def)
  qed
  then obtain r where r: "request_digest sample_ethers ?D ?q = Inr r" by blast
  with same have r': "request_digest sample_ethers ?D' ?q' = Inr r" by simp
  from authority_digest_binding [OF sample_ethers_laws r r' refl] r r' show ?thesis by blast
qed

end
