(* ===== verification/Validator.thy ===== *)
theory Validator
  imports Authorization
begin

text \<open>
  The validator state of the V2 account (\<^verbatim>\<open>v2Validator.ts\<close>): who may sign, the validator and
  recovery epochs, the recovery state, and the ledgers of consumed authorization digests and
  nonces; the operations that change it, the authority evidence reference and the fixture
  authority verifier. Shown here: every operation keeps the state well formed and changes only
  what it says, epochs advance by one, a digest or nonce is consumed at most once (also over any
  sequence of consumptions), and the fixture verifier accepts only what its allow-list names.
\<close>

section \<open>Data\<close>

definition PHILCORE_V2_AUTHORITY_EVIDENCE_FORMAT :: string where
  "PHILCORE_V2_AUTHORITY_EVIDENCE_FORMAT = ''philcore-v2-authority-evidence-reference-v1''"

definition PHILCORE_V2_VALIDATOR_SIGNATURE_FORMAT :: string where
  "PHILCORE_V2_VALIDATOR_SIGNATURE_FORMAT = ''secp256k1-rsv-65-low-s-v1''"

definition PHILCORE_V2_RECOVERY_AUTHORITY_FORMAT :: string where
  "PHILCORE_V2_RECOVERY_AUTHORITY_FORMAT = ''role-bound-factor-bundle-v1''"

text \<open>
  Authority kinds are strings that the code checks at run time; the recovery state and the
  validator status are parsed into data types when a state is created.
\<close>

type_synonym authority_kind = string

datatype PhilCoreV2RecoveryState = Normal | RecoveryActive | RecoveryConfigRotationActive

datatype PhilCoreV2ValidatorStatus = Active | Revoked

fun recovery_state_name :: "PhilCoreV2RecoveryState \<Rightarrow> string" where
  "recovery_state_name Normal = ''normal''"
| "recovery_state_name RecoveryActive = ''recovery_active''"
| "recovery_state_name RecoveryConfigRotationActive = ''recovery_config_rotation_active''"

fun validator_status_name :: "PhilCoreV2ValidatorStatus \<Rightarrow> string" where
  "validator_status_name Active = ''active''"
| "validator_status_name Revoked = ''revoked''"

record PhilCoreV2AuthorityEvidenceReference =
  ev_format :: string
  ev_authorityKind :: authority_kind
  ev_verificationFormat :: string
  ev_evidenceReferenceHash :: string
  ev_signatureBytesPresentToEngine :: bool
  ev_fixtureOnly :: bool

record PhilCoreV2ValidatorStateInput =
  vi_chainId :: bignumberish
  vi_entryPoint :: string
  vi_account :: string
  vi_ownerCommitment :: string
  vi_validator :: string
  vi_validatorKeyIdBinding :: string
  vi_validatorEpoch :: bignumberish
  vi_validatorStatus :: "string option"
  vi_recoveryEpoch :: bignumberish
  vi_recoveryConfigHash :: string
  vi_recoveryState :: "string option"
  vi_consumedAuthorizationDigests :: "string list option"
  vi_consumedNonces :: "bignumberish list option"

record PhilCoreV2ValidatorState =
  vs_chainId :: int
  vs_entryPoint :: string
  vs_account :: string
  vs_ownerCommitment :: string
  vs_validator :: string
  vs_validatorKeyIdBinding :: string
  vs_validatorEpoch :: int
  vs_validatorStatus :: PhilCoreV2ValidatorStatus
  vs_recoveryEpoch :: int
  vs_recoveryConfigHash :: string
  vs_recoveryState :: PhilCoreV2RecoveryState
  vs_consumedAuthorizationDigests :: "string list"
  vs_consumedNonces :: "int list"

datatype PhilCoreV2AuthorityVerificationFailure =
    AUTHORITY_EVIDENCE_MALFORMED | AUTHORITY_KIND_UNSUPPORTED
  | AUTHORITY_DIGEST_NOT_ALLOWLISTED | AUTHORITY_BINDING_MISMATCH

datatype PhilCoreV2AuthorityVerificationResult =
    Verified (vr_classification: string) (vr_verifierId: string) (vr_signatureProduced: bool)
  | Unverified (vr_failure: PhilCoreV2AuthorityVerificationFailure) (vr_verifierId: string)
      (vr_signatureProduced: bool)

record PhilCoreV2AuthorityVerificationRequest =
  rq_authorityKind :: authority_kind
  rq_digest :: string
  rq_evidence :: PhilCoreV2AuthorityEvidenceReference
  rq_chainId :: int
  rq_account :: string
  rq_validator :: string
  rq_validatorKeyIdBinding :: string
  rq_validatorEpoch :: int
  rq_recoveryEpoch :: int
  rq_recoveryConfigHash :: string
  rq_factorBitmap :: "js_number option"

text \<open>
  An authority verifier: its descriptor and its \<open>verify\<close>, which answers or throws (a rejected
  promise).
\<close>

record PhilCoreV2AuthorityVerifier =
  av_verifierId :: string
  av_fixtureOnly :: bool
  av_acceptsGenericMessages :: bool
  av_createsSignatures :: bool
  av_requiresIntentBoundDigest :: bool
  av_verify ::
    "PhilCoreV2AuthorityVerificationRequest \<Rightarrow> PhilCoreV2AuthorityVerificationResult result"

record PhilCoreV2FixtureAuthorityExpectation =
  fe_authorityKind :: authority_kind
  fe_digest :: string
  fe_evidenceReferenceHash :: string
  fe_chainId :: bignumberish
  fe_account :: string
  fe_validator :: string
  fe_validatorKeyIdBinding :: string
  fe_validatorEpoch :: bignumberish
  fe_recoveryEpoch :: bignumberish
  fe_recoveryConfigHash :: string
  fe_factorBitmap :: "js_number option"

record fixture_expectation =
  fx_authorityKind :: authority_kind
  fx_digest :: string
  fx_evidenceReferenceHash :: string
  fx_chainId :: int
  fx_account :: string
  fx_validator :: string
  fx_validatorKeyIdBinding :: string
  fx_validatorEpoch :: int
  fx_recoveryEpoch :: int
  fx_recoveryConfigHash :: string
  fx_factorBitmap :: "js_number option"

section \<open>Argument checks\<close>

definition validator_uint :: "bignumberish \<Rightarrow> nat \<Rightarrow> string \<Rightarrow> bool \<Rightarrow> int result" where
  "validator_uint v bits label nonzero =
     catch (BigInt_of v) (throw (label @ ''_must_be_uint'' @ show_nat bits))
       (\<lambda>parsed.
          if parsed < 0 \<or> parsed \<ge> 2 ^ bits then throw (label @ ''_must_be_uint'' @ show_nat bits)
          else if nonzero \<and> parsed = 0 then throw (label @ ''_must_be_nonzero'')
          else Inr parsed)"

definition validator_bytes32 :: "ethers \<Rightarrow> string \<Rightarrow> string \<Rightarrow> string result" where
  "validator_bytes32 E v label =
     (if \<not> isHexString E v 32 then throw (label @ ''_must_be_bytes32'')
      else let normalized = toLowerCase v in
        if normalized = ZERO_BYTES32 then throw (label @ ''_must_be_nonzero'') else Inr normalized)"

definition validator_address :: "ethers \<Rightarrow> string \<Rightarrow> string \<Rightarrow> string result" where
  "validator_address E v label =
     (case getAddress E v of
        None \<Rightarrow> throw (label @ ''_must_be_address'')
      | Some normalized \<Rightarrow>
          if normalized = ZERO_ADDRESS then throw (label @ ''_must_be_nonzero'') else Inr normalized)"

definition authorityKind :: "string \<Rightarrow> authority_kind result" where
  "authorityKind v =
     (if v \<noteq> ''validator_signature'' \<and> v \<noteq> ''recovery_threshold'' \<and>
         v \<noteq> ''combined_validator_recovery'' \<and> v \<noteq> ''recovery_config_rotation''
      then throw ''authorityKind_unsupported'' else Inr v)"

definition recoveryState :: "string \<Rightarrow> PhilCoreV2RecoveryState result" where
  "recoveryState v =
     (if v = ''normal'' then Inr Normal
      else if v = ''recovery_active'' then Inr RecoveryActive
      else if v = ''recovery_config_rotation_active'' then Inr RecoveryConfigRotationActive
      else throw ''recoveryState_unsupported'')"

definition validatorStatus :: "string \<Rightarrow> PhilCoreV2ValidatorStatus result" where
  "validatorStatus v =
     (if v = ''active'' then Inr Active else if v = ''revoked'' then Inr Revoked
      else throw ''validatorStatus_unsupported'')"

definition indexed_label :: "string \<Rightarrow> nat \<Rightarrow> string" where
  "indexed_label label i = label @ ''['' @ show_nat i @ '']''"

definition uniqueHex :: "ethers \<Rightarrow> string list \<Rightarrow> string \<Rightarrow> string list result" where
  "uniqueHex E vals label =
     bnd (map_index (\<lambda>i v. validator_bytes32 E v (indexed_label label i)) 0 vals) (\<lambda>normalized.
     bnd (ensure (distinct normalized) (label @ ''_must_be_unique'')) (\<lambda>_.
     Inr normalized))"

definition uniqueNonces :: "bignumberish list \<Rightarrow> string \<Rightarrow> int list result" where
  "uniqueNonces vals label =
     bnd (map_index (\<lambda>i v. validator_uint v 256 (indexed_label label i) False) 0 vals) (\<lambda>normalized.
     bnd (ensure (distinct (map show_int normalized)) (label @ ''_must_be_unique'')) (\<lambda>_.
     Inr normalized))"

section \<open>The validator state\<close>

definition createPhilCoreV2ValidatorState ::
  "ethers \<Rightarrow> PhilCoreV2ValidatorStateInput \<Rightarrow> PhilCoreV2ValidatorState result" where
  "createPhilCoreV2ValidatorState E input =
     bnd (validator_uint (vi_chainId input) 256 ''chainId'' True) (\<lambda>chainId.
     bnd (validator_address E (vi_entryPoint input) ''entryPoint'') (\<lambda>entryPoint.
     bnd (validator_address E (vi_account input) ''account'') (\<lambda>account.
     bnd (validator_bytes32 E (vi_ownerCommitment input) ''ownerCommitment'') (\<lambda>ownerCommitment.
     bnd (validator_address E (vi_validator input) ''validator'') (\<lambda>validator.
     bnd (validator_bytes32 E (vi_validatorKeyIdBinding input) ''validatorKeyIdBinding'')
       (\<lambda>validatorKeyIdBinding.
     bnd (validator_uint (vi_validatorEpoch input) 64 ''validatorEpoch'' True) (\<lambda>validatorEpoch.
     bnd (validatorStatus (case vi_validatorStatus input of None \<Rightarrow> ''active'' | Some s \<Rightarrow> s))
       (\<lambda>status.
     bnd (validator_uint (vi_recoveryEpoch input) 64 ''recoveryEpoch'' True) (\<lambda>recoveryEpoch.
     bnd (validator_bytes32 E (vi_recoveryConfigHash input) ''recoveryConfigHash'')
       (\<lambda>recoveryConfigHash.
     bnd (recoveryState (case vi_recoveryState input of None \<Rightarrow> ''normal'' | Some s \<Rightarrow> s)) (\<lambda>recovery.
     bnd (uniqueHex E (case vi_consumedAuthorizationDigests input of None \<Rightarrow> [] | Some l \<Rightarrow> l)
            ''consumedAuthorizationDigests'') (\<lambda>digests.
     bnd (uniqueNonces (case vi_consumedNonces input of None \<Rightarrow> [] | Some l \<Rightarrow> l)
            ''consumedNonces'') (\<lambda>nonces.
     Inr \<lparr>vs_chainId = chainId, vs_entryPoint = entryPoint, vs_account = account,
          vs_ownerCommitment = ownerCommitment, vs_validator = validator,
          vs_validatorKeyIdBinding = validatorKeyIdBinding, vs_validatorEpoch = validatorEpoch,
          vs_validatorStatus = status, vs_recoveryEpoch = recoveryEpoch,
          vs_recoveryConfigHash = recoveryConfigHash, vs_recoveryState = recovery,
          vs_consumedAuthorizationDigests = digests, vs_consumedNonces = nonces\<rparr>)))))))))))))"

text \<open>A validator state, used as an input again.\<close>

definition validator_input :: "PhilCoreV2ValidatorState \<Rightarrow> PhilCoreV2ValidatorStateInput" where
  "validator_input s =
     \<lparr>vi_chainId = BigIntV (vs_chainId s), vi_entryPoint = vs_entryPoint s,
      vi_account = vs_account s, vi_ownerCommitment = vs_ownerCommitment s,
      vi_validator = vs_validator s, vi_validatorKeyIdBinding = vs_validatorKeyIdBinding s,
      vi_validatorEpoch = BigIntV (vs_validatorEpoch s),
      vi_validatorStatus = Some (validator_status_name (vs_validatorStatus s)),
      vi_recoveryEpoch = BigIntV (vs_recoveryEpoch s),
      vi_recoveryConfigHash = vs_recoveryConfigHash s,
      vi_recoveryState = Some (recovery_state_name (vs_recoveryState s)),
      vi_consumedAuthorizationDigests = Some (vs_consumedAuthorizationDigests s),
      vi_consumedNonces = Some (map BigIntV (vs_consumedNonces s))\<rparr>"

definition createPhilCoreV2AuthorityEvidenceReference ::
  "ethers \<Rightarrow> string \<Rightarrow> string \<Rightarrow> bool \<Rightarrow> PhilCoreV2AuthorityEvidenceReference result" where
  "createPhilCoreV2AuthorityEvidenceReference E kind hash fixtureOnly =
     bnd (authorityKind kind) (\<lambda>kind.
     bnd (validator_bytes32 E hash ''evidenceReferenceHash'') (\<lambda>hash.
     Inr \<lparr>ev_format = PHILCORE_V2_AUTHORITY_EVIDENCE_FORMAT, ev_authorityKind = kind,
          ev_verificationFormat =
            (if kind = ''validator_signature'' then PHILCORE_V2_VALIDATOR_SIGNATURE_FORMAT
             else PHILCORE_V2_RECOVERY_AUTHORITY_FORMAT),
          ev_evidenceReferenceHash = hash, ev_signatureBytesPresentToEngine = False,
          ev_fixtureOnly = fixtureOnly\<rparr>))"

section \<open>Operations\<close>

definition consumePhilCoreV2AuthorizationLocally ::
  "ethers \<Rightarrow> PhilCoreV2ValidatorState \<Rightarrow> string \<Rightarrow> bignumberish \<Rightarrow> bignumberish \<Rightarrow>
     PhilCoreV2ValidatorState result" where
  "consumePhilCoreV2AuthorizationLocally E st authorizationDigest nonceKey nonceSequence =
     bnd (createPhilCoreV2ValidatorState E (validator_input st)) (\<lambda>state.
     bnd (validator_bytes32 E authorizationDigest ''authorizationDigest'') (\<lambda>digest.
     bnd (composePhilCoreV2Nonce nonceKey nonceSequence) (\<lambda>nonce.
     bnd (ensure (digest \<notin> set (vs_consumedAuthorizationDigests state)) ''authorization_replay'') (\<lambda>_.
     bnd (ensure (nonce \<notin> set (vs_consumedNonces state)) ''nonce_replay'') (\<lambda>_.
     createPhilCoreV2ValidatorState E ((validator_input state)
       \<lparr>vi_consumedAuthorizationDigests := Some (vs_consumedAuthorizationDigests state @ [digest]),
        vi_consumedNonces := Some (map BigIntV (vs_consumedNonces state) @ [BigIntV nonce])\<rparr>))))))"

definition beginPhilCoreV2Recovery ::
  "ethers \<Rightarrow> PhilCoreV2ValidatorState \<Rightarrow> PhilCoreV2ValidatorState result" where
  "beginPhilCoreV2Recovery E stateInput =
     bnd (createPhilCoreV2ValidatorState E (validator_input stateInput)) (\<lambda>state.
     bnd (ensure (vs_recoveryState state = Normal) ''recovery_state_not_normal'') (\<lambda>_.
     createPhilCoreV2ValidatorState E
       ((validator_input state)\<lparr>vi_recoveryState := Some ''recovery_active''\<rparr>)))"

definition cancelPhilCoreV2Recovery ::
  "ethers \<Rightarrow> PhilCoreV2ValidatorState \<Rightarrow> PhilCoreV2ValidatorState result" where
  "cancelPhilCoreV2Recovery E stateInput =
     bnd (createPhilCoreV2ValidatorState E (validator_input stateInput)) (\<lambda>state.
     bnd (ensure (vs_recoveryState state = RecoveryActive) ''recovery_not_active'') (\<lambda>_.
     createPhilCoreV2ValidatorState E
       ((validator_input state)\<lparr>vi_recoveryState := Some ''normal''\<rparr>)))"

definition beginPhilCoreV2RecoveryConfigRotation ::
  "ethers \<Rightarrow> PhilCoreV2ValidatorState \<Rightarrow> PhilCoreV2ValidatorState result" where
  "beginPhilCoreV2RecoveryConfigRotation E stateInput =
     bnd (createPhilCoreV2ValidatorState E (validator_input stateInput)) (\<lambda>state.
     bnd (ensure (vs_recoveryState state = Normal) ''recovery_state_not_normal'') (\<lambda>_.
     createPhilCoreV2ValidatorState E
       ((validator_input state)\<lparr>vi_recoveryState := Some ''recovery_config_rotation_active''\<rparr>)))"

definition cancelPhilCoreV2RecoveryConfigRotation ::
  "ethers \<Rightarrow> PhilCoreV2ValidatorState \<Rightarrow> PhilCoreV2ValidatorState result" where
  "cancelPhilCoreV2RecoveryConfigRotation E stateInput =
     bnd (createPhilCoreV2ValidatorState E (validator_input stateInput)) (\<lambda>state.
     bnd (ensure (vs_recoveryState state = RecoveryConfigRotationActive)
            ''recovery_config_rotation_not_active'') (\<lambda>_.
     createPhilCoreV2ValidatorState E
       ((validator_input state)\<lparr>vi_recoveryState := Some ''normal''\<rparr>)))"

datatype rotation_mode = NormalRotation | RecoveryCompletion

definition rotatePhilCoreV2ValidatorState ::
  "ethers \<Rightarrow> PhilCoreV2ValidatorState \<Rightarrow> string \<Rightarrow> string \<Rightarrow> bignumberish \<Rightarrow> rotation_mode \<Rightarrow>
     bignumberish option \<Rightarrow> PhilCoreV2ValidatorState result" where
  "rotatePhilCoreV2ValidatorState E st proposedValidator keyIdBinding epoch mode recoveryEpoch =
     bnd (createPhilCoreV2ValidatorState E (validator_input st)) (\<lambda>state.
     bnd (validator_uint epoch 64 ''proposedValidatorEpoch'' True) (\<lambda>proposedValidatorEpoch.
     bnd (ensure (proposedValidatorEpoch = vs_validatorEpoch state + 1)
            ''proposedValidatorEpoch_must_equal_current_plus_one'') (\<lambda>_.
     if mode = NormalRotation then
       bnd (ensure (vs_recoveryState state = Normal)
              ''validator_rotation_blocked_by_recovery_state'') (\<lambda>_.
       bnd (ensure (vs_validatorStatus state = Active)
              ''validator_rotation_requires_active_validator'') (\<lambda>_.
       createPhilCoreV2ValidatorState E ((validator_input state)
         \<lparr>vi_validator := proposedValidator, vi_validatorKeyIdBinding := keyIdBinding,
          vi_validatorEpoch := BigIntV proposedValidatorEpoch,
          vi_validatorStatus := Some ''active''\<rparr>)))
     else
       bnd (ensure (vs_recoveryState state = RecoveryActive)
              ''recovery_completion_requires_active_recovery'') (\<lambda>_.
       bnd (validator_uint (case recoveryEpoch of None \<Rightarrow> NumberV (IntegerNumber 0) | Some e \<Rightarrow> e) 64
              ''proposedRecoveryEpoch'' True) (\<lambda>proposedRecoveryEpoch.
       bnd (ensure (proposedRecoveryEpoch = vs_recoveryEpoch state + 1)
              ''proposedRecoveryEpoch_must_equal_current_plus_one'') (\<lambda>_.
       createPhilCoreV2ValidatorState E ((validator_input state)
         \<lparr>vi_validator := proposedValidator, vi_validatorKeyIdBinding := keyIdBinding,
          vi_validatorEpoch := BigIntV proposedValidatorEpoch,
          vi_validatorStatus := Some ''active'', vi_recoveryEpoch := BigIntV proposedRecoveryEpoch,
          vi_recoveryState := Some ''normal''\<rparr>)))))))"

definition revokePhilCoreV2ValidatorLocally ::
  "ethers \<Rightarrow> PhilCoreV2ValidatorState \<Rightarrow> PhilCoreV2ValidatorState result" where
  "revokePhilCoreV2ValidatorLocally E stateInput =
     bnd (createPhilCoreV2ValidatorState E (validator_input stateInput)) (\<lambda>state.
     bnd (ensure (vs_validatorStatus state = Active) ''validator_already_revoked'') (\<lambda>_.
     createPhilCoreV2ValidatorState E
       ((validator_input state)\<lparr>vi_validatorStatus := Some ''revoked''\<rparr>)))"

section \<open>The fixture authority verifier\<close>

definition normalizeFixtureExpectation ::
  "ethers \<Rightarrow> PhilCoreV2FixtureAuthorityExpectation \<Rightarrow> fixture_expectation result" where
  "normalizeFixtureExpectation E input =
     bnd (ensure (\<not> (fe_factorBitmap input \<noteq> None \<and> fe_factorBitmap input = Some NonIntegerNumber))
            ''factorBitmap_must_be_integer'') (\<lambda>_.
     bnd (authorityKind (fe_authorityKind input)) (\<lambda>kind.
     bnd (validator_bytes32 E (fe_digest input) ''digest'') (\<lambda>digest.
     bnd (validator_bytes32 E (fe_evidenceReferenceHash input) ''evidenceReferenceHash'') (\<lambda>hash.
     bnd (validator_uint (fe_chainId input) 256 ''chainId'' True) (\<lambda>chainId.
     bnd (validator_address E (fe_account input) ''account'') (\<lambda>account.
     bnd (validator_address E (fe_validator input) ''validator'') (\<lambda>validator.
     bnd (validator_bytes32 E (fe_validatorKeyIdBinding input) ''validatorKeyIdBinding'') (\<lambda>binding.
     bnd (validator_uint (fe_validatorEpoch input) 64 ''validatorEpoch'' True) (\<lambda>validatorEpoch.
     bnd (validator_uint (fe_recoveryEpoch input) 64 ''recoveryEpoch'' True) (\<lambda>recoveryEpoch.
     bnd (validator_bytes32 E (fe_recoveryConfigHash input) ''recoveryConfigHash'') (\<lambda>config.
     Inr \<lparr>fx_authorityKind = kind, fx_digest = digest, fx_evidenceReferenceHash = hash,
          fx_chainId = chainId, fx_account = account, fx_validator = validator,
          fx_validatorKeyIdBinding = binding, fx_validatorEpoch = validatorEpoch,
          fx_recoveryEpoch = recoveryEpoch, fx_recoveryConfigHash = config,
          fx_factorBitmap = fe_factorBitmap input\<rparr>)))))))))))"

definition lower_alnum :: "char \<Rightarrow> bool" where
  "lower_alnum c =
     (let n = (of_char c :: nat) in (97 \<le> n \<and> n \<le> 122) \<or> (48 \<le> n \<and> n \<le> 57))"

text \<open>\<open>/^[a-z0-9][a-z0-9._-]{2,80}$/.test(id)\<close>.\<close>

fun verifierId_valid :: "string \<Rightarrow> bool" where
  "verifierId_valid [] = False"
| "verifierId_valid (c # t) =
     (lower_alnum c \<and> 2 \<le> length t \<and> length t \<le> 80 \<and>
      list_all (\<lambda>d. lower_alnum d \<or> d = CHR ''.'' \<or> d = CHR ''_'' \<or> d = CHR ''-'') t)"

definition fixture_evidence ::
  "ethers \<Rightarrow> PhilCoreV2AuthorityEvidenceReference \<Rightarrow> PhilCoreV2AuthorityEvidenceReference result"
where
  "fixture_evidence E evidence =
     (let expectedVerificationFormat =
        (if ev_authorityKind evidence = ''validator_signature''
         then PHILCORE_V2_VALIDATOR_SIGNATURE_FORMAT else PHILCORE_V2_RECOVERY_AUTHORITY_FORMAT) in
      bnd (ensure (\<not> (ev_format evidence \<noteq> PHILCORE_V2_AUTHORITY_EVIDENCE_FORMAT \<or>
                     ev_verificationFormat evidence \<noteq> expectedVerificationFormat \<or>
                     ev_signatureBytesPresentToEngine evidence \<or> \<not> ev_fixtureOnly evidence))
             ''fixture_evidence_boundary_invalid'') (\<lambda>_.
      createPhilCoreV2AuthorityEvidenceReference E (ev_authorityKind evidence)
        (ev_evidenceReferenceHash evidence) (ev_fixtureOnly evidence)))"

text \<open>\<open>getAddress(value)\<close> outside of a try block: its exception propagates.\<close>

definition getAddress_or_throw :: "ethers \<Rightarrow> string \<Rightarrow> string result" where
  "getAddress_or_throw E v = (case getAddress E v of None \<Rightarrow> Inl LibraryError | Some a \<Rightarrow> Inr a)"

text \<open>
  The conjunction \<open>bindingMatches\<close> is evaluated from left to right, so an address that does not
  parse only throws when the comparison before it succeeded.
\<close>

definition fixture_binding_matches ::
  "ethers \<Rightarrow> fixture_expectation \<Rightarrow> PhilCoreV2AuthorityVerificationRequest \<Rightarrow> bool result" where
  "fixture_binding_matches E m request =
     (if fx_chainId m \<noteq> rq_chainId request then Inr False else
      bnd (getAddress_or_throw E (rq_account request)) (\<lambda>account.
      if fx_account m \<noteq> account then Inr False else
      bnd (getAddress_or_throw E (rq_validator request)) (\<lambda>validator.
      Inr (fx_validator m = validator \<and>
           fx_validatorKeyIdBinding m = toLowerCase (rq_validatorKeyIdBinding request) \<and>
           fx_validatorEpoch m = rq_validatorEpoch request \<and>
           fx_recoveryEpoch m = rq_recoveryEpoch request \<and>
           fx_recoveryConfigHash m = toLowerCase (rq_recoveryConfigHash request) \<and>
           fx_factorBitmap m = rq_factorBitmap request))))"

definition fixture_verify ::
  "ethers \<Rightarrow> string \<Rightarrow> fixture_expectation list \<Rightarrow> PhilCoreV2AuthorityVerificationRequest \<Rightarrow>
     PhilCoreV2AuthorityVerificationResult result" where
  "fixture_verify E verifierId expectations request =
     catch (fixture_evidence E (rq_evidence request))
       (Inr (Unverified AUTHORITY_EVIDENCE_MALFORMED verifierId False)) (\<lambda>evidence.
     if ev_authorityKind evidence \<noteq> rq_authorityKind request
     then Inr (Unverified AUTHORITY_KIND_UNSUPPORTED verifierId False)
     else bnd (validator_bytes32 E (rq_digest request) ''digest'') (\<lambda>digest.
       case find (\<lambda>expectation. fx_authorityKind expectation = rq_authorityKind request \<and>
              fx_digest expectation = digest \<and>
              fx_evidenceReferenceHash expectation = ev_evidenceReferenceHash evidence) expectations of
         None \<Rightarrow> Inr (Unverified AUTHORITY_DIGEST_NOT_ALLOWLISTED verifierId False)
       | Some m \<Rightarrow>
           bnd (fixture_binding_matches E m request) (\<lambda>bindingMatches.
           Inr (if \<not> bindingMatches then Unverified AUTHORITY_BINDING_MISMATCH verifierId False
                else Verified ''fixture_authority_verified'' verifierId False))))"

definition fixture_verifier ::
  "ethers \<Rightarrow> string \<Rightarrow> fixture_expectation list \<Rightarrow> PhilCoreV2AuthorityVerifier" where
  "fixture_verifier E verifierId expectations =
     \<lparr>av_verifierId = verifierId, av_fixtureOnly = True, av_acceptsGenericMessages = False,
      av_createsSignatures = False, av_requiresIntentBoundDigest = True,
      av_verify = fixture_verify E verifierId expectations\<rparr>"

definition createPhilCoreV2FixtureAuthorityVerifier ::
  "ethers \<Rightarrow> string \<Rightarrow> PhilCoreV2FixtureAuthorityExpectation list \<Rightarrow>
     PhilCoreV2AuthorityVerifier result" where
  "createPhilCoreV2FixtureAuthorityVerifier E verifierId inputs =
     bnd (ensure (verifierId_valid verifierId) ''verifierId_invalid'') (\<lambda>_.
     bnd (map_index (\<lambda>_. normalizeFixtureExpectation E) 0 inputs) (\<lambda>expectations.
     Inr (fixture_verifier E verifierId expectations)))"

section \<open>The argument checks accept exactly the well-formed values\<close>

lemma validator_uint_iff [result_simps]: "validator_uint v b l nz = Inr n \<longleftrightarrow> is_uint nz b v n"
  by (cases "BigInt_of v") (auto simp: validator_uint_def is_uint_def uint_fits_def)

lemma validator_bytes32_iff [result_simps]: "validator_bytes32 E v l = Inr s \<longleftrightarrow> is_bytes32 E False v s"
  by (auto simp: validator_bytes32_def is_bytes32_def Let_def)

lemma validator_address_iff [result_simps]: "validator_address E v l = Inr a \<longleftrightarrow> is_address E False v a"
  by (auto simp: validator_address_def is_address_def split: option.splits)

lemma recoveryState_name [simp]: "recoveryState (recovery_state_name r) = Inr r"
  by (cases r) (simp_all add: recoveryState_def)

lemma recoveryState_iff [result_simps]: "recoveryState v = Inr r \<longleftrightarrow> v = recovery_state_name r"
  by (cases r) (auto simp: recoveryState_def)

lemma validatorStatus_name [simp]: "validatorStatus (validator_status_name r) = Inr r"
  by (cases r) (simp_all add: validatorStatus_def)

lemma validatorStatus_iff [result_simps]: "validatorStatus v = Inr r \<longleftrightarrow> v = validator_status_name r"
  by (cases r) (auto simp: validatorStatus_def)

lemma authorityKind_iff [result_simps]:
  "authorityKind v = Inr k \<longleftrightarrow>
     k = v \<and> v \<in> {''validator_signature'', ''recovery_threshold'', ''combined_validator_recovery'',
       ''recovery_config_rotation''}"
  by (auto simp: authorityKind_def)

text \<open>The ledgers: lists of checked entries without duplicates.\<close>

definition digest_ledger :: "ethers \<Rightarrow> string list \<Rightarrow> bool" where
  "digest_ledger E ds \<longleftrightarrow> distinct ds \<and> (\<forall>d \<in> set ds. is_bytes32 E False d d)"

definition nonce_ledger :: "int list \<Rightarrow> bool" where
  "nonce_ledger ns \<longleftrightarrow> distinct ns \<and> (\<forall>n \<in> set ns. uint_fits 256 n)"

lemma uniqueHex_ledger: "ethers_laws E \<Longrightarrow> uniqueHex E xs l = Inr ds \<Longrightarrow> digest_ledger E ds"
  unfolding uniqueHex_def digest_ledger_def bnd_eq_Inr ensure_eq_Inr
  by (auto dest!: map_index_set simp: validator_bytes32_iff intro: is_bytes32_stable)

lemma uniqueHex_fixpoint: "digest_ledger E ds \<Longrightarrow> uniqueHex E ds l = Inr ds"
  using map_index_fixpoint [of ds "\<lambda>i v. validator_bytes32 E v (indexed_label l i)" id 0]
  by (auto simp: uniqueHex_def digest_ledger_def validator_bytes32_iff)

lemma uniqueHex_iff: "digest_ledger E ds \<longleftrightarrow> uniqueHex E ds l = Inr ds"
proof
  assume u: "uniqueHex E ds l = Inr ds"
  then have m: "map_index (\<lambda>i v. validator_bytes32 E v (indexed_label l i)) 0 ds = Inr ds"
    and d: "distinct ds" by (auto simp: uniqueHex_def result_simps)
  have "is_bytes32 E False (ds ! k) (ds ! k)" if "k < length ds" for k
    using map_index_Inr [OF m] that by (auto simp: validator_bytes32_iff)
  with d show "digest_ledger E ds" by (auto simp: digest_ledger_def in_set_conv_nth)
qed (rule uniqueHex_fixpoint)

lemma distinct_show_int [simp]: "distinct (map show_int ns) \<longleftrightarrow> distinct ns"
  by (simp add: distinct_map inj_on_def)

lemma uniqueNonces_ledger: "uniqueNonces vs l = Inr ns \<Longrightarrow> nonce_ledger ns"
  unfolding uniqueNonces_def nonce_ledger_def bnd_eq_Inr ensure_eq_Inr
  by (auto dest!: map_index_set simp: validator_uint_iff is_uint_def)

lemma uniqueNonces_fixpoint: "nonce_ledger ns \<Longrightarrow> uniqueNonces (map BigIntV ns) l = Inr ns"
  using map_index_fixpoint [of ns "\<lambda>i v. validator_uint v 256 (indexed_label l i) False" BigIntV 0]
  by (auto simp: uniqueNonces_def nonce_ledger_def validator_uint_iff)

lemma uniqueNonces_iff: "uniqueNonces (map BigIntV ns) l = Inr ms \<longleftrightarrow> ms = ns \<and> nonce_ledger ns"
proof
  assume u: "uniqueNonces (map BigIntV ns) l = Inr ms"
  then have m: "map_index (\<lambda>i v. validator_uint v 256 (indexed_label l i) False) 0 (map BigIntV ns) = Inr ms"
    by (auto simp: uniqueNonces_def result_simps)
  have "ms = ns"
    using map_index_Inr [OF m] by (auto intro: nth_equalityI simp: validator_uint_iff)
  with uniqueNonces_ledger [OF u] show "ms = ns \<and> nonce_ledger ns" by simp
qed (simp add: uniqueNonces_fixpoint)

section \<open>Well-formed validator states\<close>

definition validator_wf :: "ethers \<Rightarrow> PhilCoreV2ValidatorState \<Rightarrow> bool" where
  "validator_wf E s \<longleftrightarrow>
     uint_fits 256 (vs_chainId s) \<and> vs_chainId s \<noteq> 0 \<and>
     is_address E False (vs_entryPoint s) (vs_entryPoint s) \<and>
     is_address E False (vs_account s) (vs_account s) \<and>
     is_bytes32 E False (vs_ownerCommitment s) (vs_ownerCommitment s) \<and>
     is_address E False (vs_validator s) (vs_validator s) \<and>
     is_bytes32 E False (vs_validatorKeyIdBinding s) (vs_validatorKeyIdBinding s) \<and>
     uint_fits 64 (vs_validatorEpoch s) \<and> vs_validatorEpoch s \<noteq> 0 \<and>
     uint_fits 64 (vs_recoveryEpoch s) \<and> vs_recoveryEpoch s \<noteq> 0 \<and>
     is_bytes32 E False (vs_recoveryConfigHash s) (vs_recoveryConfigHash s) \<and>
     digest_ledger E (vs_consumedAuthorizationDigests s) \<and>
     nonce_ledger (vs_consumedNonces s)"

lemma createPhilCoreV2ValidatorState_iff:
  "createPhilCoreV2ValidatorState E i = Inr s \<longleftrightarrow>
     is_uint True 256 (vi_chainId i) (vs_chainId s) \<and>
     is_address E False (vi_entryPoint i) (vs_entryPoint s) \<and>
     is_address E False (vi_account i) (vs_account s) \<and>
     is_bytes32 E False (vi_ownerCommitment i) (vs_ownerCommitment s) \<and>
     is_address E False (vi_validator i) (vs_validator s) \<and>
     is_bytes32 E False (vi_validatorKeyIdBinding i) (vs_validatorKeyIdBinding s) \<and>
     is_uint True 64 (vi_validatorEpoch i) (vs_validatorEpoch s) \<and>
     (case vi_validatorStatus i of None \<Rightarrow> ''active'' | Some n \<Rightarrow> n)
       = validator_status_name (vs_validatorStatus s) \<and>
     is_uint True 64 (vi_recoveryEpoch i) (vs_recoveryEpoch s) \<and>
     is_bytes32 E False (vi_recoveryConfigHash i) (vs_recoveryConfigHash s) \<and>
     (case vi_recoveryState i of None \<Rightarrow> ''normal'' | Some n \<Rightarrow> n)
       = recovery_state_name (vs_recoveryState s) \<and>
     uniqueHex E (case vi_consumedAuthorizationDigests i of None \<Rightarrow> [] | Some l \<Rightarrow> l)
       ''consumedAuthorizationDigests'' = Inr (vs_consumedAuthorizationDigests s) \<and>
     uniqueNonces (case vi_consumedNonces i of None \<Rightarrow> [] | Some l \<Rightarrow> l) ''consumedNonces''
       = Inr (vs_consumedNonces s)"
  (is "?lhs \<longleftrightarrow> ?rhs")
proof
  show "?lhs \<Longrightarrow> ?rhs" by (auto simp: createPhilCoreV2ValidatorState_def result_simps)
next
  show "?rhs \<Longrightarrow> ?lhs" by (cases s) (simp add: createPhilCoreV2ValidatorState_def result_simps)
qed

lemma validator_wf_result:
  assumes laws: "ethers_laws E" and "createPhilCoreV2ValidatorState E i = Inr s"
  shows "validator_wf E s"
  using assms(2) unfolding createPhilCoreV2ValidatorState_iff validator_wf_def
  by (auto simp: is_uint_def uniqueHex_ledger [OF laws] uniqueNonces_ledger
      intro: is_bytes32_stable [OF laws] is_address_stable [OF laws])

lemma validator_wf_iff: "createPhilCoreV2ValidatorState E (validator_input s) = Inr s \<longleftrightarrow> validator_wf E s"
  unfolding createPhilCoreV2ValidatorState_iff validator_input_def validator_wf_def
  by (auto simp: uniqueHex_iff [symmetric] uniqueNonces_iff)

interpretation validator_state: normaliser ethers_laws createPhilCoreV2ValidatorState validator_input
  by unfold_locales (simp add: validator_wf_iff validator_wf_result)

lemma create_wf [simp]: "validator_wf E s \<Longrightarrow> createPhilCoreV2ValidatorState E (validator_input s) = Inr s"
  by (simp add: validator_wf_iff)

text \<open>Updating the input of a state is updating the state.\<close>

lemma validator_input_updates [simp]:
  "(validator_input s)\<lparr>vi_recoveryState := Some ''normal''\<rparr> =
     validator_input (s\<lparr>vs_recoveryState := Normal\<rparr>)"
  "(validator_input s)\<lparr>vi_recoveryState := Some ''recovery_active''\<rparr> =
     validator_input (s\<lparr>vs_recoveryState := RecoveryActive\<rparr>)"
  "(validator_input s)\<lparr>vi_recoveryState := Some ''recovery_config_rotation_active''\<rparr> =
     validator_input (s\<lparr>vs_recoveryState := RecoveryConfigRotationActive\<rparr>)"
  "(validator_input s)\<lparr>vi_validatorStatus := Some ''revoked''\<rparr> =
     validator_input (s\<lparr>vs_validatorStatus := Revoked\<rparr>)"
  "(validator_input s)\<lparr>vi_consumedAuthorizationDigests := Some ds,
       vi_consumedNonces := Some (map BigIntV ns @ [BigIntV n])\<rparr> =
     validator_input (s\<lparr>vs_consumedAuthorizationDigests := ds, vs_consumedNonces := ns @ [n]\<rparr>)"
  by (simp_all add: validator_input_def)

lemma validator_wf_updates [simp]:
  "validator_wf E (s\<lparr>vs_recoveryState := r\<rparr>) \<longleftrightarrow> validator_wf E s"
  "validator_wf E (s\<lparr>vs_validatorStatus := st\<rparr>) \<longleftrightarrow> validator_wf E s"
  by (simp_all add: validator_wf_def)

lemma validator_wf_consume:
  assumes "validator_wf E s" and "is_bytes32 E False d d" and "uint_fits 256 n"
    and "d \<notin> set (vs_consumedAuthorizationDigests s)" and "n \<notin> set (vs_consumedNonces s)"
  shows "validator_wf E (s\<lparr>vs_consumedAuthorizationDigests := vs_consumedAuthorizationDigests s @ [d],
    vs_consumedNonces := vs_consumedNonces s @ [n]\<rparr>)"
  using assms by (auto simp: validator_wf_def digest_ledger_def nonce_ledger_def)

lemma compose_fits: "composePhilCoreV2Nonce k q = Inr n \<Longrightarrow> uint_fits 256 n"
  using nonce_fits unfolding composePhilCoreV2Nonce_iff is_uint_def by blast

section \<open>The exact effect of each operation\<close>

lemma begin_recovery_effect:
  "validator_wf E s \<Longrightarrow> beginPhilCoreV2Recovery E s =
    (if vs_recoveryState s = Normal then Inr (s\<lparr>vs_recoveryState := RecoveryActive\<rparr>)
     else throw ''recovery_state_not_normal'')"
  by (simp add: beginPhilCoreV2Recovery_def)

lemma cancel_recovery_effect:
  "validator_wf E s \<Longrightarrow> cancelPhilCoreV2Recovery E s =
    (if vs_recoveryState s = RecoveryActive then Inr (s\<lparr>vs_recoveryState := Normal\<rparr>)
     else throw ''recovery_not_active'')"
  by (simp add: cancelPhilCoreV2Recovery_def)

lemma begin_config_rotation_effect:
  "validator_wf E s \<Longrightarrow> beginPhilCoreV2RecoveryConfigRotation E s =
    (if vs_recoveryState s = Normal then Inr (s\<lparr>vs_recoveryState := RecoveryConfigRotationActive\<rparr>)
     else throw ''recovery_state_not_normal'')"
  by (simp add: beginPhilCoreV2RecoveryConfigRotation_def)

lemma cancel_config_rotation_effect:
  "validator_wf E s \<Longrightarrow> cancelPhilCoreV2RecoveryConfigRotation E s =
    (if vs_recoveryState s = RecoveryConfigRotationActive then Inr (s\<lparr>vs_recoveryState := Normal\<rparr>)
     else throw ''recovery_config_rotation_not_active'')"
  by (simp add: cancelPhilCoreV2RecoveryConfigRotation_def)

lemma revoke_effect:
  "validator_wf E s \<Longrightarrow> revokePhilCoreV2ValidatorLocally E s =
    (if vs_validatorStatus s = Active then Inr (s\<lparr>vs_validatorStatus := Revoked\<rparr>)
     else throw ''validator_already_revoked'')"
  by (simp add: revokePhilCoreV2ValidatorLocally_def)

lemma consume_effect:
  assumes laws: "ethers_laws E" and wf: "validator_wf E s"
  shows "consumePhilCoreV2AuthorizationLocally E s d k q = Inr t \<longleftrightarrow>
    (\<exists>n. is_bytes32 E False d (toLowerCase d) \<and> composePhilCoreV2Nonce k q = Inr n \<and>
      toLowerCase d \<notin> set (vs_consumedAuthorizationDigests s) \<and> n \<notin> set (vs_consumedNonces s) \<and>
      t = s\<lparr>vs_consumedAuthorizationDigests := vs_consumedAuthorizationDigests s @ [toLowerCase d],
            vs_consumedNonces := vs_consumedNonces s @ [n]\<rparr>)"
proof -
  have ok: "createPhilCoreV2ValidatorState E (validator_input
      (s\<lparr>vs_consumedAuthorizationDigests := vs_consumedAuthorizationDigests s @ [toLowerCase d],
         vs_consumedNonces := vs_consumedNonces s @ [n]\<rparr>)) =
    Inr (s\<lparr>vs_consumedAuthorizationDigests := vs_consumedAuthorizationDigests s @ [toLowerCase d],
         vs_consumedNonces := vs_consumedNonces s @ [n]\<rparr>)"
    if "is_bytes32 E False d (toLowerCase d)" "composePhilCoreV2Nonce k q = Inr n"
      "toLowerCase d \<notin> set (vs_consumedAuthorizationDigests s)" "n \<notin> set (vs_consumedNonces s)" for n
    by (intro create_wf validator_wf_consume wf compose_fits [OF that(2)] that is_bytes32_stable [OF laws that(1)])
  show ?thesis
    unfolding consumePhilCoreV2AuthorizationLocally_def create_wf [OF wf] bnd.simps bnd_eq_Inr
      ensure_eq_Inr validator_bytes32_iff validator_input_updates
    using ok by (auto simp: is_bytes32_def simp del: composePhilCoreV2Nonce_iff)
qed

text \<open>Rotation: the accepted proposals and the state they give.\<close>

definition rotated ::
  "PhilCoreV2ValidatorState \<Rightarrow> string \<Rightarrow> string \<Rightarrow> PhilCoreV2ValidatorState" where
  "rotated s v b =
     s\<lparr>vs_validator := v, vs_validatorKeyIdBinding := b, vs_validatorEpoch := vs_validatorEpoch s + 1,
       vs_validatorStatus := Active\<rparr>"

definition recovered ::
  "PhilCoreV2ValidatorState \<Rightarrow> string \<Rightarrow> string \<Rightarrow> PhilCoreV2ValidatorState" where
  "recovered s v b =
     (rotated s v b)\<lparr>vs_recoveryEpoch := vs_recoveryEpoch s + 1, vs_recoveryState := Normal\<rparr>"

lemma create_rotated:
  assumes laws: "ethers_laws E" and wf: "validator_wf E s"
  shows "createPhilCoreV2ValidatorState E ((validator_input s)
      \<lparr>vi_validator := pv, vi_validatorKeyIdBinding := pb,
       vi_validatorEpoch := BigIntV (vs_validatorEpoch s + 1),
       vi_validatorStatus := Some ''active''\<rparr>) = Inr t \<longleftrightarrow>
    (\<exists>v b. is_address E False pv v \<and> is_bytes32 E False pb b \<and>
      uint_fits 64 (vs_validatorEpoch s + 1) \<and> t = rotated s v b)"
  (is "createPhilCoreV2ValidatorState E ?i = _ \<longleftrightarrow> ?r")
proof -
  have ok: "createPhilCoreV2ValidatorState E ?i = Inr (rotated s v b)"
    if "is_address E False pv v" "is_bytes32 E False pb b" "uint_fits 64 (vs_validatorEpoch s + 1)" for v b
    using wf that unfolding createPhilCoreV2ValidatorState_iff
    by (auto simp: validator_input_def rotated_def validator_wf_def uint_fits_def
        uniqueHex_fixpoint uniqueNonces_fixpoint)
  show ?thesis
  proof
    assume c: "createPhilCoreV2ValidatorState E ?i = Inr t"
    then have "is_address E False pv (vs_validator t)" "is_bytes32 E False pb (vs_validatorKeyIdBinding t)"
      "uint_fits 64 (vs_validatorEpoch s + 1)"
      unfolding createPhilCoreV2ValidatorState_iff by (simp_all add: validator_input_def)
    with ok c show ?r by (metis sum.inject(2))
  qed (use ok in blast)
qed

lemma create_recovered:
  assumes laws: "ethers_laws E" and wf: "validator_wf E s"
  shows "createPhilCoreV2ValidatorState E ((validator_input s)
      \<lparr>vi_validator := pv, vi_validatorKeyIdBinding := pb,
       vi_validatorEpoch := BigIntV (vs_validatorEpoch s + 1), vi_validatorStatus := Some ''active'',
       vi_recoveryEpoch := BigIntV (vs_recoveryEpoch s + 1),
       vi_recoveryState := Some ''normal''\<rparr>) = Inr t \<longleftrightarrow>
    (\<exists>v b. is_address E False pv v \<and> is_bytes32 E False pb b \<and>
      uint_fits 64 (vs_validatorEpoch s + 1) \<and> uint_fits 64 (vs_recoveryEpoch s + 1) \<and>
      t = recovered s v b)"
  (is "createPhilCoreV2ValidatorState E ?i = _ \<longleftrightarrow> ?r")
proof -
  have ok: "createPhilCoreV2ValidatorState E ?i = Inr (recovered s v b)"
    if "is_address E False pv v" "is_bytes32 E False pb b" "uint_fits 64 (vs_validatorEpoch s + 1)"
      "uint_fits 64 (vs_recoveryEpoch s + 1)" for v b
    using wf that unfolding createPhilCoreV2ValidatorState_iff
    by (auto simp: validator_input_def rotated_def recovered_def validator_wf_def uint_fits_def
        uniqueHex_fixpoint uniqueNonces_fixpoint)
  show ?thesis
  proof
    assume c: "createPhilCoreV2ValidatorState E ?i = Inr t"
    then have "is_address E False pv (vs_validator t)" "is_bytes32 E False pb (vs_validatorKeyIdBinding t)"
      "uint_fits 64 (vs_validatorEpoch s + 1)" "uint_fits 64 (vs_recoveryEpoch s + 1)"
      unfolding createPhilCoreV2ValidatorState_iff by (simp_all add: validator_input_def)
    with ok c show ?r by (metis sum.inject(2))
  qed (use ok in blast)
qed

lemma rotate_effect:
  assumes laws: "ethers_laws E" and wf: "validator_wf E s"
  shows "rotatePhilCoreV2ValidatorState E s pv pb pe NormalRotation pr = Inr t \<longleftrightarrow>
    (\<exists>v b. is_address E False pv v \<and> is_bytes32 E False pb b \<and>
      is_uint True 64 pe (vs_validatorEpoch s + 1) \<and> vs_recoveryState s = Normal \<and>
      vs_validatorStatus s = Active \<and> t = rotated s v b)"
  unfolding rotatePhilCoreV2ValidatorState_def create_wf [OF wf] bnd.simps bnd_eq_Inr ensure_eq_Inr
    validator_uint_iff
  by (auto simp: create_rotated [OF laws wf] bnd_eq_Inr ensure_eq_Inr is_uint_def)

lemma complete_recovery_effect:
  assumes laws: "ethers_laws E" and wf: "validator_wf E s"
  shows "rotatePhilCoreV2ValidatorState E s pv pb pe RecoveryCompletion pr = Inr t \<longleftrightarrow>
    (\<exists>v b. is_address E False pv v \<and> is_bytes32 E False pb b \<and>
      is_uint True 64 pe (vs_validatorEpoch s + 1) \<and> vs_recoveryState s = RecoveryActive \<and>
      (\<exists>re. pr = Some re \<and> is_uint True 64 re (vs_recoveryEpoch s + 1)) \<and> t = recovered s v b)"
  unfolding rotatePhilCoreV2ValidatorState_def create_wf [OF wf] bnd.simps bnd_eq_Inr ensure_eq_Inr
    validator_uint_iff
  by (auto simp: create_recovered [OF laws wf] bnd_eq_Inr ensure_eq_Inr is_uint_def validator_uint_iff
      split: option.splits)

lemma validator_wf_rotated:
  "ethers_laws E \<Longrightarrow> validator_wf E s \<Longrightarrow> is_address E False pv v \<Longrightarrow> is_bytes32 E False pb b \<Longrightarrow>
     is_uint True 64 pe (vs_validatorEpoch s + 1) \<Longrightarrow> validator_wf E (rotated s v b)"
  by (auto simp: validator_wf_def rotated_def is_uint_def intro: is_address_stable is_bytes32_stable)

section \<open>The validator as a state machine\<close>

inductive validator_step :: "ethers \<Rightarrow> PhilCoreV2ValidatorState \<Rightarrow> PhilCoreV2ValidatorState \<Rightarrow> bool"
  for E where
  consume: "consumePhilCoreV2AuthorizationLocally E s d k q = Inr t \<Longrightarrow> validator_step E s t"
| begin_recovery: "beginPhilCoreV2Recovery E s = Inr t \<Longrightarrow> validator_step E s t"
| cancel_recovery: "cancelPhilCoreV2Recovery E s = Inr t \<Longrightarrow> validator_step E s t"
| begin_config_rotation: "beginPhilCoreV2RecoveryConfigRotation E s = Inr t \<Longrightarrow> validator_step E s t"
| cancel_config_rotation: "cancelPhilCoreV2RecoveryConfigRotation E s = Inr t \<Longrightarrow> validator_step E s t"
| rotate: "rotatePhilCoreV2ValidatorState E s v b e m r = Inr t \<Longrightarrow> validator_step E s t"
| revoke: "revokePhilCoreV2ValidatorLocally E s = Inr t \<Longrightarrow> validator_step E s t"

inductive_cases validator_stepE: "validator_step E s t"

text \<open>What no operation changes, and in which direction the rest moves.\<close>

definition validator_evolves :: "PhilCoreV2ValidatorState \<Rightarrow> PhilCoreV2ValidatorState \<Rightarrow> bool" where
  "validator_evolves s t \<longleftrightarrow>
     vs_chainId t = vs_chainId s \<and> vs_entryPoint t = vs_entryPoint s \<and> vs_account t = vs_account s \<and>
     vs_ownerCommitment t = vs_ownerCommitment s \<and>
     vs_recoveryConfigHash t = vs_recoveryConfigHash s \<and>
     vs_validatorEpoch s \<le> vs_validatorEpoch t \<and> vs_recoveryEpoch s \<le> vs_recoveryEpoch t \<and>
     (vs_validatorEpoch t = vs_validatorEpoch s \<longrightarrow>
        vs_validator t = vs_validator s \<and> vs_validatorKeyIdBinding t = vs_validatorKeyIdBinding s \<and>
        (vs_validatorStatus s = Revoked \<longrightarrow> vs_validatorStatus t = Revoked)) \<and>
     (\<exists>ds. vs_consumedAuthorizationDigests t = vs_consumedAuthorizationDigests s @ ds) \<and>
     (\<exists>ns. vs_consumedNonces t = vs_consumedNonces s @ ns)"

lemma validator_evolves_refl: "validator_evolves s s"
  by (simp add: validator_evolves_def)

lemma validator_evolves_trans: "validator_evolves s t \<Longrightarrow> validator_evolves t u \<Longrightarrow> validator_evolves s u"
  unfolding validator_evolves_def by (elim conjE exE) auto

lemmas validator_effects = begin_recovery_effect cancel_recovery_effect begin_config_rotation_effect
  cancel_config_rotation_effect revoke_effect

lemma validator_rotation_step:
  assumes "ethers_laws E" and "validator_wf E s"
    and "rotatePhilCoreV2ValidatorState E s pv pb pe m pr = Inr t"
  shows "validator_wf E t \<and> validator_evolves s t"
  using assms
  by (cases m)
     (auto simp: rotate_effect complete_recovery_effect recovered_def rotated_def validator_evolves_def
       validator_wf_def is_uint_def intro: is_address_stable is_bytes32_stable)

lemma validator_step_sound:
  assumes laws: "ethers_laws E" and wf: "validator_wf E s" and step: "validator_step E s t"
  shows "validator_wf E t \<and> validator_evolves s t"
  using step
proof cases
  case (consume d k q)
  then obtain n where "is_bytes32 E False d (toLowerCase d)" "composePhilCoreV2Nonce k q = Inr n"
    "toLowerCase d \<notin> set (vs_consumedAuthorizationDigests s)" "n \<notin> set (vs_consumedNonces s)"
    and t: "t = s\<lparr>vs_consumedAuthorizationDigests := vs_consumedAuthorizationDigests s @ [toLowerCase d],
            vs_consumedNonces := vs_consumedNonces s @ [n]\<rparr>"
    unfolding consume_effect [OF laws wf] by blast
  then have "validator_wf E t"
    using validator_wf_consume [OF wf is_bytes32_stable [OF laws]] compose_fits by blast
  with t show ?thesis by (simp add: validator_evolves_def)
next
  case (rotate v b e m r)
  then show ?thesis using validator_rotation_step [OF laws wf] by blast
qed (use wf in \<open>auto simp: validator_effects validator_evolves_def split: if_splits\<close>)

interpretation validator_system: invariant_system "validator_step E"
    "\<lambda>s. ethers_laws E \<and> validator_wf E s" for E
  by unfold_locales (use validator_step_sound in blast)

lemma validator_reachable:
  assumes "ethers_laws E" and "validator_wf E s" and "(validator_step E)\<^sup>*\<^sup>* s t"
  shows "validator_wf E t \<and> validator_evolves s t"
  using assms validator_system.star_inv [of E s t]
    validator_system.star_preserves [of E s t validator_evolves] validator_step_sound
    validator_evolves_refl validator_evolves_trans
  by blast

interpretation digests: one_shot_ledger "\<lambda>s. ethers_laws E \<and> validator_wf E s"
    vs_consumedAuthorizationDigests
    "\<lambda>s (d, k, q). consumePhilCoreV2AuthorizationLocally E s d k q" "\<lambda>(d, k, q). toLowerCase d" for E
proof unfold_locales
  fix s u s'
  assume v: "ethers_laws E \<and> validator_wf E s"
    and u: "(case u of (d, k, q) \<Rightarrow> consumePhilCoreV2AuthorizationLocally E s d k q) = Inr s'"
  show "ethers_laws E \<and> validator_wf E s'"
    using v u validator_step_sound validator_step.consume by (cases u) auto
  show "vs_consumedAuthorizationDigests s' =
      vs_consumedAuthorizationDigests s @ [case u of (d, k, q) \<Rightarrow> toLowerCase d]"
    using v u by (cases u) (auto simp: consume_effect)
  show "(case u of (d, k, q) \<Rightarrow> toLowerCase d) \<notin> set (vs_consumedAuthorizationDigests s)"
    using v u by (cases u) (auto simp: consume_effect)
qed

interpretation nonces: one_shot_ledger "\<lambda>s. ethers_laws E \<and> validator_wf E s"
    vs_consumedNonces
    "\<lambda>s (d, k, q). consumePhilCoreV2AuthorizationLocally E s d k q"
    "\<lambda>(d, k, q). bigint_value k * 2 ^ 64 + bigint_value q" for E
proof unfold_locales
  fix s u s'
  assume v: "ethers_laws E \<and> validator_wf E s"
    and u: "(case u of (d, k, q) \<Rightarrow> consumePhilCoreV2AuthorizationLocally E s d k q) = Inr s'"
  have n: "n = bigint_value k * 2 ^ 64 + bigint_value q" if "composePhilCoreV2Nonce k q = Inr n" for k q n
    using that by (auto simp: composePhilCoreV2Nonce_iff is_uint_bigint_value)
  show "ethers_laws E \<and> validator_wf E s'"
    using v u validator_step_sound validator_step.consume by (cases u) auto
  show "vs_consumedNonces s' =
      vs_consumedNonces s @ [case u of (d, k, q) \<Rightarrow> bigint_value k * 2 ^ 64 + bigint_value q]"
    using v u by (cases u) (auto simp: consume_effect dest: n simp del: composePhilCoreV2Nonce_iff)
  show "(case u of (d, k, q) \<Rightarrow> bigint_value k * 2 ^ 64 + bigint_value q) \<notin> set (vs_consumedNonces s)"
    using v u by (cases u) (auto simp: consume_effect dest: n simp del: composePhilCoreV2Nonce_iff)
qed

text \<open>A sequence of consumptions.\<close>

fun consume_all ::
  "ethers \<Rightarrow> PhilCoreV2ValidatorState \<Rightarrow> (string \<times> bignumberish \<times> bignumberish) list \<Rightarrow>
     PhilCoreV2ValidatorState result" where
  "consume_all E s [] = Inr s"
| "consume_all E s ((d, k, q) # us) =
     bnd (consumePhilCoreV2AuthorizationLocally E s d k q) (\<lambda>s'. consume_all E s' us)"

lemma consume_all_use_all: "consume_all E s us = digests.use_all E s us"
proof (induction us arbitrary: s)
  case (Cons u us)
  then show ?case by (cases u) (simp add: Cons)
qed simp

section \<open>Authority verifiers\<close>

text \<open>
  What the engine relies on in a verifier: it accepts only requests that it is meant to allow,
  and it makes no signature.
\<close>

locale authority_verifier =
  fixes verifier :: PhilCoreV2AuthorityVerifier
    and allows :: "PhilCoreV2AuthorityVerificationRequest \<Rightarrow> bool"
  assumes verified_allowed: "av_verify verifier rq = Inr (Verified c i p) \<Longrightarrow> allows rq \<and> \<not> p"

text \<open>What the fixture verifier allows: an expectation of its list that the request matches.\<close>

definition fixture_allows ::
  "ethers \<Rightarrow> fixture_expectation list \<Rightarrow> PhilCoreV2AuthorityVerificationRequest \<Rightarrow> bool" where
  "fixture_allows E expectations rq \<longleftrightarrow>
     (\<exists>m \<in> set expectations.
        fx_authorityKind m = rq_authorityKind rq \<and> fx_digest m = toLowerCase (rq_digest rq) \<and>
        ev_authorityKind (rq_evidence rq) = rq_authorityKind rq \<and>
        fx_evidenceReferenceHash m = toLowerCase (ev_evidenceReferenceHash (rq_evidence rq)) \<and>
        \<not> ev_signatureBytesPresentToEngine (rq_evidence rq) \<and> ev_fixtureOnly (rq_evidence rq) \<and>
        fx_chainId m = rq_chainId rq \<and> getAddress E (rq_account rq) = Some (fx_account m) \<and>
        getAddress E (rq_validator rq) = Some (fx_validator m) \<and>
        fx_validatorKeyIdBinding m = toLowerCase (rq_validatorKeyIdBinding rq) \<and>
        fx_validatorEpoch m = rq_validatorEpoch rq \<and> fx_recoveryEpoch m = rq_recoveryEpoch rq \<and>
        fx_recoveryConfigHash m = toLowerCase (rq_recoveryConfigHash rq) \<and>
        fx_factorBitmap m = rq_factorBitmap rq)"

lemma createPhilCoreV2AuthorityEvidenceReference_iff [result_simps]:
  "createPhilCoreV2AuthorityEvidenceReference E kind hash fo = Inr ev \<longleftrightarrow>
     authorityKind kind = Inr kind \<and> is_bytes32 E False hash (toLowerCase hash) \<and>
     ev = \<lparr>ev_format = PHILCORE_V2_AUTHORITY_EVIDENCE_FORMAT, ev_authorityKind = kind,
          ev_verificationFormat =
            (if kind = ''validator_signature'' then PHILCORE_V2_VALIDATOR_SIGNATURE_FORMAT
             else PHILCORE_V2_RECOVERY_AUTHORITY_FORMAT),
          ev_evidenceReferenceHash = toLowerCase hash, ev_signatureBytesPresentToEngine = False,
          ev_fixtureOnly = fo\<rparr>"
  by (auto simp: createPhilCoreV2AuthorityEvidenceReference_def bnd_eq_Inr authorityKind_iff
      validator_bytes32_iff is_bytes32_def)

lemma fixture_binding_matches_iff:
  "fixture_binding_matches E m rq = Inr True \<longleftrightarrow>
     fx_chainId m = rq_chainId rq \<and> getAddress E (rq_account rq) = Some (fx_account m) \<and>
     getAddress E (rq_validator rq) = Some (fx_validator m) \<and>
     fx_validatorKeyIdBinding m = toLowerCase (rq_validatorKeyIdBinding rq) \<and>
     fx_validatorEpoch m = rq_validatorEpoch rq \<and> fx_recoveryEpoch m = rq_recoveryEpoch rq \<and>
     fx_recoveryConfigHash m = toLowerCase (rq_recoveryConfigHash rq) \<and>
     fx_factorBitmap m = rq_factorBitmap rq"
  by (auto simp: fixture_binding_matches_def getAddress_or_throw_def result_simps split: option.splits)

lemma catch_eq_cases: "catch m h f = r \<Longrightarrow> (\<exists>e. m = Inl e \<and> h = r) \<or> (\<exists>x. m = Inr x \<and> f x = r)"
  by (cases m) auto

lemma fixture_verify_sound:
  assumes v: "fixture_verify E vid expectations rq = Inr (Verified c i p)"
  shows "fixture_allows E expectations rq \<and> \<not> p \<and> i = vid \<and> c = ''fixture_authority_verified''"
proof -
  from v obtain ev where ev: "fixture_evidence E (rq_evidence rq) = Inr ev"
    and kind: "ev_authorityKind ev = rq_authorityKind rq"
    and rest: "bnd (validator_bytes32 E (rq_digest rq) ''digest'') (\<lambda>digest.
       case find (\<lambda>expectation. fx_authorityKind expectation = rq_authorityKind rq \<and>
              fx_digest expectation = digest \<and>
              fx_evidenceReferenceHash expectation = ev_evidenceReferenceHash ev) expectations of
         None \<Rightarrow> Inr (Unverified AUTHORITY_DIGEST_NOT_ALLOWLISTED vid False)
       | Some m \<Rightarrow>
           bnd (fixture_binding_matches E m rq) (\<lambda>bindingMatches.
           Inr (if \<not> bindingMatches then Unverified AUTHORITY_BINDING_MISMATCH vid False
                else Verified ''fixture_authority_verified'' vid False))) = Inr (Verified c i p)"
    unfolding fixture_verify_def by (auto dest!: catch_eq_cases split: if_splits)
  from rest obtain m where m: "m \<in> set expectations" "fx_authorityKind m = rq_authorityKind rq"
    "fx_digest m = toLowerCase (rq_digest rq)"
    "fx_evidenceReferenceHash m = ev_evidenceReferenceHash ev"
    and b: "fixture_binding_matches E m rq = Inr True" and r: "\<not> p" "i = vid" "c = ''fixture_authority_verified''"
    by (auto simp: bnd_eq_Inr validator_bytes32_iff is_bytes32_def dest!: find_SomeD
        split: option.splits if_splits)
  from ev kind have "ev_authorityKind (rq_evidence rq) = rq_authorityKind rq"
    "ev_evidenceReferenceHash ev = toLowerCase (ev_evidenceReferenceHash (rq_evidence rq))"
    "\<not> ev_signatureBytesPresentToEngine (rq_evidence rq)" "ev_fixtureOnly (rq_evidence rq)"
    by (auto simp: fixture_evidence_def Let_def result_simps)
  with m b r show ?thesis
    unfolding fixture_allows_def fixture_binding_matches_iff by auto
qed

interpretation fixture: authority_verifier "fixture_verifier E vid expectations"
    "fixture_allows E expectations" for E vid expectations
  by unfold_locales (use fixture_verify_sound in \<open>simp add: fixture_verifier_def, blast\<close>)

section \<open>A sample state\<close>

definition sample_validator_state :: PhilCoreV2ValidatorState where
  "sample_validator_state =
     \<lparr>vs_chainId = 1, vs_entryPoint = a20 (CHR ''e''), vs_account = a20 (CHR ''a''),
      vs_ownerCommitment = h32 (CHR ''2''), vs_validator = a20 (CHR ''b''),
      vs_validatorKeyIdBinding = h32 (CHR ''3''), vs_validatorEpoch = 1, vs_validatorStatus = Active,
      vs_recoveryEpoch = 1, vs_recoveryConfigHash = h32 (CHR ''4''), vs_recoveryState = Normal,
      vs_consumedAuthorizationDigests = [], vs_consumedNonces = []\<rparr>"

lemma sample_validator_wf: "validator_wf sample_ethers sample_validator_state"
  by (simp add: validator_wf_def sample_validator_state_def literal_simps uint_fits_def
      digest_ledger_def nonce_ledger_def)

definition sample_expectation :: PhilCoreV2FixtureAuthorityExpectation where
  "sample_expectation =
     \<lparr>fe_authorityKind = ''validator_signature'', fe_digest = h32 (CHR ''1''),
      fe_evidenceReferenceHash = h32 (CHR ''2''), fe_chainId = BigIntV 1, fe_account = a20 (CHR ''A''),
      fe_validator = a20 (CHR ''b''), fe_validatorKeyIdBinding = h32 (CHR ''3''),
      fe_validatorEpoch = BigIntV 1, fe_recoveryEpoch = BigIntV 1,
      fe_recoveryConfigHash = h32 (CHR ''4''), fe_factorBitmap = None\<rparr>"

definition sample_normal_expectation :: fixture_expectation where
  "sample_normal_expectation =
     \<lparr>fx_authorityKind = ''validator_signature'', fx_digest = h32 (CHR ''1''),
      fx_evidenceReferenceHash = h32 (CHR ''2''), fx_chainId = 1, fx_account = a20 (CHR ''a''),
      fx_validator = a20 (CHR ''b''), fx_validatorKeyIdBinding = h32 (CHR ''3''),
      fx_validatorEpoch = 1, fx_recoveryEpoch = 1, fx_recoveryConfigHash = h32 (CHR ''4''),
      fx_factorBitmap = None\<rparr>"

definition sample_verification_request :: PhilCoreV2AuthorityVerificationRequest where
  "sample_verification_request =
     \<lparr>rq_authorityKind = ''validator_signature'', rq_digest = h32 (CHR ''1''),
      rq_evidence = \<lparr>ev_format = PHILCORE_V2_AUTHORITY_EVIDENCE_FORMAT,
        ev_authorityKind = ''validator_signature'',
        ev_verificationFormat = PHILCORE_V2_VALIDATOR_SIGNATURE_FORMAT,
        ev_evidenceReferenceHash = h32 (CHR ''2''), ev_signatureBytesPresentToEngine = False,
        ev_fixtureOnly = True\<rparr>,
      rq_chainId = 1, rq_account = a20 (CHR ''a''), rq_validator = a20 (CHR ''b''),
      rq_validatorKeyIdBinding = h32 (CHR ''3''), rq_validatorEpoch = 1, rq_recoveryEpoch = 1,
      rq_recoveryConfigHash = h32 (CHR ''4''), rq_factorBitmap = None\<rparr>"

section \<open>Properties\<close>

text \<open>
  C13: the validator state machine. From a well-formed state, any sequence of operations
  (consumption of an authorization, begin and cancel of a recovery or of a configuration
  rotation, validator rotation, recovery completion, revocation) leads to a well-formed state in
  which chain, entry point, account, owner and recovery configuration are unchanged, the two
  epochs have not gone down, the validator and its key binding are unchanged and a revocation
  stands unless the validator epoch advanced, and the two ledgers have only grown at their end.
\<close>

theorem validator_machine_invariant:
  assumes "ethers_laws E" and "validator_wf E s" and "(validator_step E)\<^sup>*\<^sup>* s t"
  shows "validator_wf E t \<and> validator_evolves s t"
  using assms by (rule validator_reachable)

theorem validator_machine_invariant_witness:
  "(validator_step sample_ethers)\<^sup>*\<^sup>* sample_validator_state
     (recovered sample_validator_state (a20 (CHR ''c'')) (h32 (CHR ''d''))) \<and>
   validator_wf sample_ethers (recovered sample_validator_state (a20 (CHR ''c'')) (h32 (CHR ''d''))) \<and>
   validator_evolves sample_validator_state
     (recovered sample_validator_state (a20 (CHR ''c'')) (h32 (CHR ''d'')))"
proof -
  let ?s = sample_validator_state and ?r = "sample_validator_state\<lparr>vs_recoveryState := RecoveryActive\<rparr>"
  let ?t = "recovered sample_validator_state (a20 (CHR ''c'')) (h32 (CHR ''d''))"
  have wf: "validator_wf sample_ethers ?r" using sample_validator_wf by simp
  have "beginPhilCoreV2Recovery sample_ethers ?s = Inr ?r"
    by (simp add: begin_recovery_effect [OF sample_validator_wf]) (simp add: sample_validator_state_def)
  moreover have "rotatePhilCoreV2ValidatorState sample_ethers ?r (a20 (CHR ''c'')) (h32 (CHR ''d''))
      (BigIntV 2) RecoveryCompletion (Some (BigIntV 2)) = Inr ?t"
    unfolding complete_recovery_effect [OF sample_ethers_laws wf]
    by (simp add: literal_simps sample_validator_state_def uint_fits_def recovered_def rotated_def)
  ultimately have star: "(validator_step sample_ethers)\<^sup>*\<^sup>* ?s ?t"
    by (meson validator_step.begin_recovery validator_step.rotate r_into_rtranclp rtranclp_trans)
  from validator_machine_invariant [OF sample_ethers_laws sample_validator_wf star] star
  show ?thesis by blast
qed

text \<open>
  an authorization is consumed once. After a successful consumption, in every state that any
  sequence of operations leads to, consuming the same authorization digest fails whatever the
  nonce, and consuming the same nonce fails whatever the digest.
\<close>

theorem consumed_once:
  assumes "ethers_laws E" and "validator_wf E s"
    and "consumePhilCoreV2AuthorizationLocally E s d k q = Inr t"
    and "(validator_step E)\<^sup>*\<^sup>* t u"
  shows "(\<exists>e. consumePhilCoreV2AuthorizationLocally E u d k' q' = Inl e) \<and>
         (\<exists>e. consumePhilCoreV2AuthorizationLocally E u d' k q = Inl e)"
proof -
  have t: "validator_wf E t"
    using validator_step_sound [OF assms(1,2) validator_step.consume [OF assms(3)]] by blast
  then have u: "ethers_laws E \<and> validator_wf E u" and ev: "validator_evolves t u"
    using validator_reachable [OF assms(1) t assms(4)] assms(1) by blast+
  have "vs_consumedAuthorizationDigests t = vs_consumedAuthorizationDigests s @ [toLowerCase d]"
    using digests.use_records [of E s "(d, k, q)" t] assms by simp
  moreover have "vs_consumedNonces t = vs_consumedNonces s @ [bigint_value k * 2 ^ 64 + bigint_value q]"
    using nonces.use_records [of E s "(d, k, q)" t] assms by simp
  ultimately have "toLowerCase d \<in> set (vs_consumedAuthorizationDigests u)"
    "bigint_value k * 2 ^ 64 + bigint_value q \<in> set (vs_consumedNonces u)"
    using ev by (auto simp: validator_evolves_def)
  then show ?thesis
    using digests.recorded_token_refused [OF u, of "(d, k', q')"]
      nonces.recorded_token_refused [OF u, of "(d', k, q)"] by simp
qed

theorem consumed_once_witness:
  "\<exists>t. consumePhilCoreV2AuthorizationLocally sample_ethers sample_validator_state (h32 (CHR ''1''))
         (BigIntV 0) (BigIntV 0) = Inr t \<and>
       (\<exists>e. consumePhilCoreV2AuthorizationLocally sample_ethers t (h32 (CHR ''1''))
          (BigIntV 0) (BigIntV 1) = Inl e) \<and>
       (\<exists>e. consumePhilCoreV2AuthorizationLocally sample_ethers t (h32 (CHR ''4''))
          (BigIntV 0) (BigIntV 0) = Inl e)"
proof -
  let ?t = "sample_validator_state\<lparr>vs_consumedAuthorizationDigests := [h32 (CHR ''1'')],
    vs_consumedNonces := [0]\<rparr>"
  have c: "consumePhilCoreV2AuthorizationLocally sample_ethers sample_validator_state (h32 (CHR ''1''))
      (BigIntV 0) (BigIntV 0) = Inr ?t"
    unfolding consume_effect [OF sample_ethers_laws sample_validator_wf] composePhilCoreV2Nonce_iff
    by (simp add: literal_simps sample_validator_state_def uint_fits_def)
  from consumed_once [OF sample_ethers_laws sample_validator_wf c rtranclp.rtrancl_refl] c
  show ?thesis by blast
qed

text \<open>
  the ledgers of a sequence of consumptions. When a sequence of consumptions succeeds on a
  well-formed state, its digests and its nonces are pairwise distinct, none was recorded before,
  and the ledgers are the old ones followed by them.
\<close>

theorem consumption_sequence:
  assumes "ethers_laws E" and "validator_wf E s" and "consume_all E s us = Inr t"
  shows "distinct (map (\<lambda>(d, k, q). toLowerCase d) us) \<and>
         distinct (map (\<lambda>(d, k, q). bigint_value k * 2 ^ 64 + bigint_value q) us) \<and>
         vs_consumedAuthorizationDigests t =
           vs_consumedAuthorizationDigests s @ map (\<lambda>(d, k, q). toLowerCase d) us \<and>
         vs_consumedNonces t =
           vs_consumedNonces s @ map (\<lambda>(d, k, q). bigint_value k * 2 ^ 64 + bigint_value q) us"
  using assms(1,2) assms(3) [unfolded consume_all_use_all]
    digests.use_all_distinct [of E s us t] digests.use_all_records [of E s us t]
    nonces.use_all_distinct [of E s us t] nonces.use_all_records [of E s us t]
  by blast

theorem consumption_sequence_witness:
  "\<exists>t. consume_all sample_ethers sample_validator_state
         [(h32 (CHR ''1''), BigIntV 0, BigIntV 0), (h32 (CHR ''4''), BigIntV 2, BigIntV 0)] = Inr t \<and>
       vs_consumedAuthorizationDigests t = [h32 (CHR ''1''), h32 (CHR ''4'')] \<and>
       vs_consumedNonces t = [0, 2 * 2 ^ 64]"
proof -
  let ?t = "sample_validator_state\<lparr>vs_consumedAuthorizationDigests := [h32 (CHR ''1'')],
    vs_consumedNonces := [0]\<rparr>"
  let ?u = "sample_validator_state\<lparr>vs_consumedAuthorizationDigests := [h32 (CHR ''1''), h32 (CHR ''4'')],
    vs_consumedNonces := [0, 2 * 2 ^ 64]\<rparr>"
  have c: "consumePhilCoreV2AuthorizationLocally sample_ethers sample_validator_state (h32 (CHR ''1''))
      (BigIntV 0) (BigIntV 0) = Inr ?t"
    unfolding consume_effect [OF sample_ethers_laws sample_validator_wf] composePhilCoreV2Nonce_iff
    by (simp add: literal_simps sample_validator_state_def uint_fits_def)
  then have wf: "validator_wf sample_ethers ?t"
    using validator_step_sound [OF sample_ethers_laws sample_validator_wf validator_step.consume] by blast
  have "consumePhilCoreV2AuthorizationLocally sample_ethers ?t (h32 (CHR ''4''))
      (BigIntV 2) (BigIntV 0) = Inr ?u"
    unfolding consume_effect [OF sample_ethers_laws wf] composePhilCoreV2Nonce_iff
    by (simp add: literal_simps sample_validator_state_def uint_fits_def)
  with c have "consume_all sample_ethers sample_validator_state
      [(h32 (CHR ''1''), BigIntV 0, BigIntV 0), (h32 (CHR ''4''), BigIntV 2, BigIntV 0)] = Inr ?u"
    by simp
  from this consumption_sequence [OF sample_ethers_laws sample_validator_wf this] show ?thesis
    by (simp add: sample_validator_state_def bigint_value_def)
qed

text \<open>
  rotation and recovery completion. On a well-formed state a validator rotation succeeds
  exactly for a valid validator and key binding at the next validator epoch, while no recovery is
  in progress and the validator is active; a recovery completion exactly while a recovery is
  active (also for a revoked validator), at the next validator epoch and the next recovery epoch.
  The result is the state with the new active validator and the advanced epochs, and after a
  completion no recovery in progress.
\<close>

theorem rotation_behaviour:
  assumes "ethers_laws E" and "validator_wf E s"
  shows "rotatePhilCoreV2ValidatorState E s pv pb pe m pr = Inr t \<longleftrightarrow>
    (\<exists>v b. is_address E False pv v \<and> is_bytes32 E False pb b \<and>
      is_uint True 64 pe (vs_validatorEpoch s + 1) \<and>
      (case m of
         NormalRotation \<Rightarrow>
           vs_recoveryState s = Normal \<and> vs_validatorStatus s = Active \<and> t = rotated s v b
       | RecoveryCompletion \<Rightarrow>
           vs_recoveryState s = RecoveryActive \<and>
           (\<exists>re. pr = Some re \<and> is_uint True 64 re (vs_recoveryEpoch s + 1)) \<and> t = recovered s v b))"
  by (cases m) (simp_all add: rotate_effect [OF assms] complete_recovery_effect [OF assms])

theorem rotation_behaviour_witness:
  "rotatePhilCoreV2ValidatorState sample_ethers sample_validator_state (a20 (CHR ''c''))
     (h32 (CHR ''d'')) (BigIntV 2) NormalRotation None =
     Inr (rotated sample_validator_state (a20 (CHR ''c'')) (h32 (CHR ''d''))) \<and>
   (\<forall>t. rotatePhilCoreV2ValidatorState sample_ethers sample_validator_state (a20 (CHR ''c''))
     (h32 (CHR ''d'')) (BigIntV 3) NormalRotation None \<noteq> Inr t)"
  unfolding rotation_behaviour [OF sample_ethers_laws sample_validator_wf]
  by (simp add: literal_simps sample_validator_state_def uint_fits_def)

text \<open>
  the fixture verifier is sound. What it verifies is on its allow-list: an expectation with
  the request's authority kind, digest and evidence reference whose chain, account, validator,
  key binding, epochs, recovery configuration and factor bitmap are those of the request; the
  evidence carries no signature bytes and no signature is produced.
\<close>

theorem fixture_verifier_sound:
  assumes "createPhilCoreV2FixtureAuthorityVerifier E vid inputs = Inr verifier"
    and "av_verify verifier rq = Inr (Verified c i p)"
  shows "\<exists>expectations. map_index (\<lambda>_. normalizeFixtureExpectation E) 0 inputs = Inr expectations \<and>
    fixture_allows E expectations rq \<and> \<not> p \<and> i = vid"
  using assms fixture_verify_sound
  by (fastforce simp: createPhilCoreV2FixtureAuthorityVerifier_def fixture_verifier_def result_simps)

theorem fixture_verifier_sound_witness:
  "\<exists>verifier. createPhilCoreV2FixtureAuthorityVerifier sample_ethers ''fixture'' [sample_expectation] =
       Inr verifier \<and>
     av_verify verifier sample_verification_request =
       Inr (Verified ''fixture_authority_verified'' ''fixture'' False) \<and>
     (\<exists>expectations. fixture_allows sample_ethers expectations sample_verification_request)"
proof -
  let ?v = "fixture_verifier sample_ethers ''fixture'' [sample_normal_expectation]"
  have n: "normalizeFixtureExpectation sample_ethers sample_expectation = Inr sample_normal_expectation"
    by (simp add: normalizeFixtureExpectation_def sample_expectation_def sample_normal_expectation_def
        result_simps literal_simps uint_fits_def)
  then have c: "createPhilCoreV2FixtureAuthorityVerifier sample_ethers ''fixture'' [sample_expectation] = Inr ?v"
    by (simp add: createPhilCoreV2FixtureAuthorityVerifier_def lower_alnum_def)
  have v: "av_verify ?v sample_verification_request =
      Inr (Verified ''fixture_authority_verified'' ''fixture'' False)"
    by (simp add: fixture_verifier_def fixture_verify_def sample_verification_request_def
        sample_normal_expectation_def fixture_evidence_def fixture_binding_matches_def
        getAddress_or_throw_def createPhilCoreV2AuthorityEvidenceReference_def authorityKind_def
        validator_bytes32_def sample_ethers_def literal_simps)
  from fixture_verifier_sound [OF c v] c v show ?thesis by blast
qed

end
