(* ===== verification/Engine.thy ===== *)
theory Engine
  imports Validator
begin

text \<open>
  The authorization engine (\<^verbatim>\<open>v2AuthorizationEngine.ts\<close>): it checks an authorization package
  against a validator state and asks an authority verifier about the digest it has computed
  itself. Shown here: verification always returns, an accepted package is bound to the state
  (chain, account, owner, epochs, time window, validator, recovery configuration), has the
  authority its action requires, is not a replay and was accepted by the verifier; what is frozen
  while a recovery is in progress; and what acceptance means for a sound verifier.
\<close>

section \<open>Data\<close>

datatype PhilCoreV2AuthorizationFailureCode =
    STATE_INVALID | INTENT_INVALID | CHAIN_MISMATCH | ENTRYPOINT_MISMATCH | ACCOUNT_MISMATCH
  | OWNER_COMMITMENT_MISMATCH | AUTHORIZATION_NOT_YET_VALID | AUTHORIZATION_EXPIRED
  | VALIDATOR_REVOKED | VALIDATOR_MISMATCH | VALIDATOR_KEY_ID_MISMATCH | VALIDATOR_EPOCH_STALE
  | VALIDATOR_EPOCH_FUTURE | RECOVERY_EPOCH_STALE | RECOVERY_EPOCH_FUTURE
  | RECOVERY_CONFIG_MISMATCH | ORDINARY_EXECUTION_FROZEN | MAINTENANCE_FROZEN
  | RECOVERY_ACTION_INVALID_FOR_STATE | INTENT_HASH_MISMATCH | RUNTIME_INTENT_HASH_MISMATCH
  | RUNTIME_AUTHORIZATION_DIGEST_MISMATCH | AUTHORIZED_INTENT_HASH_MISMATCH | AUTHORITY_MISSING
  | AUTHORITY_KIND_MISMATCH | RECOVERY_THRESHOLD_NOT_MET | RECOVERY_FACTOR_BITMAP_INVALID
  | AUTHORITY_DIGEST_INVALID | AUTHORITY_DIGEST_MISMATCH | AUTHORITY_EVIDENCE_MALFORMED_CODE
  | AUTHORITY_VERIFIER_UNSAFE | SIGNATURE_INVALID | AUTHORIZATION_REPLAY | NONCE_REPLAY

datatype PhilCoreV2AuthorizationFailureStage =
    StageState | StageIntent | StageRuntime | StageAuthority | StageRecovery | StageReplay

record PhilCoreV2ValidatorAuthorityInput =
  ai_authorityKind :: authority_kind
  ai_validator :: string
  ai_validatorKeyIdBinding :: string
  ai_validatorEpoch :: bignumberish
  ai_recoveryEpoch :: bignumberish
  ai_recoveryConfigHash :: string
  ai_factorBitmap :: "js_number option"
  ai_evidence :: PhilCoreV2AuthorityEvidenceReference
  ai_declaredAuthorityDigest :: string

record PhilCoreV2AuthorizationPackage =
  ap_intent :: PhilCoreV2IntentInput
  ap_declaredIntentCoreHash :: string
  ap_runtimeAuthorization :: PhilCoreV2RuntimeAuthorizationInput
  ap_declaredRuntimeAuthorizationDigest :: string
  ap_declaredAuthorizedIntentHash :: string
  ap_userOperationHashBinding :: string
  ap_authority :: "PhilCoreV2ValidatorAuthorityInput option"

record PhilCoreV2AuthorizationVerificationRequest =
  vq_state :: PhilCoreV2ValidatorState
  vq_authorizationPackage :: PhilCoreV2AuthorizationPackage
  vq_currentTime :: bignumberish
  vq_authorityVerifier :: PhilCoreV2AuthorityVerifier

datatype PhilCoreV2AuthorizedStateTransition =
    NoTransition | RotateValidator | BeginRecovery | CancelRecovery | BeginRecoveryConfigRotation
  | CancelRecoveryConfigRotation

text \<open>
  The accepted result. The fields that every result has with the same constant value
  (\<open>executionPerformed\<close>, \<open>signatureProduced\<close>, \<open>userOperationCreated\<close>: false,
  \<open>publicMutationCount\<close>: 0, and the status texts) are left out.
\<close>

record PhilCoreV2AcceptedAuthorization =
  aa_intentCoreHash :: string
  aa_runtimeAuthorizationDigest :: string
  aa_authorizedIntentHash :: string
  aa_authorityDigest :: string
  aa_keyedNonce :: int
  aa_authorityKind :: authority_kind
  aa_verifierId :: string
  aa_authorizedStateTransition :: PhilCoreV2AuthorizedStateTransition

datatype PhilCoreV2AuthorizationVerificationResult =
    Accepted PhilCoreV2AcceptedAuthorization
  | Rejected PhilCoreV2AuthorizationFailureCode PhilCoreV2AuthorizationFailureStage

section \<open>Early returns\<close>

text \<open>
  A step of the verification goes on with a value, returns \<open>rejected(code, stage)\<close>, or throws:
  \<open>require\<close> is \<open>if (!c) return rejected(...)\<close>, \<open>attempt\<close> is a try block whose handler
  rejects, \<open>present\<close> rejects on \<open>undefined\<close>, and \<open>uncaught\<close> is a call outside of a try block.
\<close>

datatype engine_exit =
    Reject PhilCoreV2AuthorizationFailureCode PhilCoreV2AuthorizationFailureStage
  | Raise js_error

type_synonym 'a engine = "engine_exit + 'a"

definition require ::
  "bool \<Rightarrow> PhilCoreV2AuthorizationFailureCode \<Rightarrow> PhilCoreV2AuthorizationFailureStage \<Rightarrow> unit engine" where
  "require c code stage = (if c then Inr () else Inl (Reject code stage))"

fun attempt ::
  "'a result \<Rightarrow> PhilCoreV2AuthorizationFailureCode \<Rightarrow> PhilCoreV2AuthorizationFailureStage \<Rightarrow> 'a engine" where
  "attempt (Inl e) code stage = Inl (Reject code stage)"
| "attempt (Inr x) code stage = Inr x"

fun present ::
  "'a option \<Rightarrow> PhilCoreV2AuthorizationFailureCode \<Rightarrow> PhilCoreV2AuthorizationFailureStage \<Rightarrow> 'a engine" where
  "present None code stage = Inl (Reject code stage)"
| "present (Some x) code stage = Inr x"

fun uncaught :: "'a result \<Rightarrow> 'a engine" where
  "uncaught (Inl e) = Inl (Raise e)"
| "uncaught (Inr x) = Inr x"

text \<open>A helper that returns a rejection or \<open>undefined\<close>: \<open>if (failure) return failure\<close>.\<close>

type_synonym failure =
  "(PhilCoreV2AuthorizationFailureCode \<times> PhilCoreV2AuthorizationFailureStage) option"

fun return_failure :: "failure \<Rightarrow> unit engine" where
  "return_failure None = Inr ()"
| "return_failure (Some (code, stage)) = Inl (Reject code stage)"

section \<open>Helpers\<close>

definition engine_bytes32 :: "ethers \<Rightarrow> string \<Rightarrow> string option" where
  "engine_bytes32 E v =
     (if \<not> isHexString E v 32 then None else if v = ZERO_BYTES32 then None else Some (toLowerCase v))"

definition engine_bigint :: "bignumberish \<Rightarrow> int option" where
  "engine_bigint v = catch (BigInt_of v) None (\<lambda>parsed. if parsed \<ge> 0 then Some parsed else None)"

definition engine_address :: "ethers \<Rightarrow> string \<Rightarrow> string option" where
  "engine_address E v = getAddress E v"

fun requiredAuthorityKinds :: "action_type \<Rightarrow> authority_kind list" where
  "requiredAuthorityKinds CONFIRM = [''validator_signature'']"
| "requiredAuthorityKinds NATIVE_TRANSFER = [''validator_signature'']"
| "requiredAuthorityKinds ERC20_TRANSFER = [''validator_signature'']"
| "requiredAuthorityKinds ERC721_SAFE_TRANSFER = [''validator_signature'']"
| "requiredAuthorityKinds ERC1155_SAFE_TRANSFER = [''validator_signature'']"
| "requiredAuthorityKinds ENTRYPOINT_DEPOSIT_WITHDRAWAL = [''validator_signature'']"
| "requiredAuthorityKinds VALIDATOR_ROTATION = [''validator_signature'']"
| "requiredAuthorityKinds RECOVERY_REQUEST = [''recovery_threshold'']"
| "requiredAuthorityKinds RECOVERY_CANCEL = [''recovery_threshold'']"
| "requiredAuthorityKinds RECOVERY_CONFIG_ROTATION_CANCEL = [''recovery_threshold'']"
| "requiredAuthorityKinds RECOVERY_CONFIG_ROTATION_REQUEST = [''recovery_config_rotation'']"

fun expectedStateTransition :: "action_type \<Rightarrow> PhilCoreV2AuthorizedStateTransition" where
  "expectedStateTransition VALIDATOR_ROTATION = RotateValidator"
| "expectedStateTransition RECOVERY_REQUEST = BeginRecovery"
| "expectedStateTransition RECOVERY_CANCEL = CancelRecovery"
| "expectedStateTransition RECOVERY_CONFIG_ROTATION_REQUEST = BeginRecoveryConfigRotation"
| "expectedStateTransition RECOVERY_CONFIG_ROTATION_CANCEL = CancelRecoveryConfigRotation"
| "expectedStateTransition _ = NoTransition"

definition recoveryStateFailure ::
  "PhilCoreV2ValidatorState \<Rightarrow> action_type \<Rightarrow> int \<Rightarrow> failure" where
  "recoveryStateFailure state action nonceKey =
     (case vs_recoveryState state of
        RecoveryActive \<Rightarrow>
          if nonceKey = PHILCORE_V2_NONCE_KEY ORDINARY
          then Some (ORDINARY_EXECUTION_FROZEN, StageRecovery)
          else if nonceKey = PHILCORE_V2_NONCE_KEY MAINTENANCE
          then Some (MAINTENANCE_FROZEN, StageRecovery)
          else if action \<noteq> RECOVERY_CANCEL
          then Some (RECOVERY_ACTION_INVALID_FOR_STATE, StageRecovery)
          else None
      | RecoveryConfigRotationActive \<Rightarrow>
          if nonceKey = PHILCORE_V2_NONCE_KEY MAINTENANCE
          then Some (MAINTENANCE_FROZEN, StageRecovery)
          else if nonceKey = PHILCORE_V2_NONCE_KEY RECOVERY \<and> action \<noteq> RECOVERY_CONFIG_ROTATION_CANCEL
          then Some (RECOVERY_ACTION_INVALID_FOR_STATE, StageRecovery)
          else None
      | Normal \<Rightarrow>
          if action = RECOVERY_CANCEL \<or> action = RECOVERY_CONFIG_ROTATION_CANCEL
          then Some (RECOVERY_ACTION_INVALID_FOR_STATE, StageRecovery)
          else None)"

definition RECOVERY_FACTOR_BITMAPS :: "int list" where
  "RECOVERY_FACTOR_BITMAPS = [3, 5, 6]"

fun factorBitmapFailure :: "js_number option \<Rightarrow> failure" where
  "factorBitmapFailure None = Some (RECOVERY_FACTOR_BITMAP_INVALID, StageAuthority)"
| "factorBitmapFailure (Some NonIntegerNumber) = Some (RECOVERY_FACTOR_BITMAP_INVALID, StageAuthority)"
| "factorBitmapFailure (Some (IntegerNumber v)) =
     (if v < 0 then Some (RECOVERY_FACTOR_BITMAP_INVALID, StageAuthority)
      else if v = 1 \<or> v = 2 \<or> v = 4 then Some (RECOVERY_THRESHOLD_NOT_MET, StageAuthority)
      else if v \<notin> set RECOVERY_FACTOR_BITMAPS then Some (RECOVERY_FACTOR_BITMAP_INVALID, StageAuthority)
      else None)"

text \<open>
  \<open>computeAuthorityDigest\<close>; \<open>PhilCoreV2AuthorityKind\<close> has four values, the last of which is the
  rotation of the recovery configuration.
\<close>

definition engine_common ::
  "PhilCoreV2AuthorizationPackage \<Rightarrow> string \<Rightarrow> PhilCoreV2ValidatorAuthorityInput \<Rightarrow>
     PhilCoreV2RecoveryAuthorizationInput" where
  "engine_common package authorizedIntentHash authority =
     \<lparr>au_authorizedIntentHash = authorizedIntentHash,
      au_userOperationHash = ap_userOperationHashBinding package,
      au_recoveryConfigHash = ai_recoveryConfigHash authority,
      au_recoveryEpoch = ai_recoveryEpoch authority,
      au_factorBitmap =
        NumberV (case ai_factorBitmap authority of None \<Rightarrow> IntegerNumber 0 | Some v \<Rightarrow> v)\<rparr>"

definition engine_cancellation ::
  "PhilCoreV2AuthorizationPackage \<Rightarrow> string \<Rightarrow> PhilCoreV2ValidatorAuthorityInput \<Rightarrow>
     PhilCoreV2CombinedCancellationInput" where
  "engine_cancellation package authorizedIntentHash authority =
     PhilCoreV2RecoveryAuthorizationInput.extend
       (engine_common package authorizedIntentHash authority)
       \<lparr>cc_validator = ai_validator authority, cc_validatorEpoch = ai_validatorEpoch authority\<rparr>"

definition computeAuthorityDigest ::
  "ethers \<Rightarrow> PhilCoreV2ValidatorState \<Rightarrow> PhilCoreV2AuthorizationPackage \<Rightarrow> string \<Rightarrow>
     PhilCoreV2ValidatorAuthorityInput \<Rightarrow> string result" where
  "computeAuthorityDigest E state package authorizedIntentHash authority =
     (let domain = (BigIntV (vs_chainId state), vs_account state);
          common = engine_common package authorizedIntentHash authority
      in bnd (
        if ai_authorityKind authority = ''validator_signature'' then
          computePhilCoreV2ValidatorDigest E domain
            \<lparr>va_authorizedIntentHash = authorizedIntentHash,
             va_userOperationHash = ap_userOperationHashBinding package,
             va_validator = ai_validator authority,
             va_validatorKeyIdBinding = ai_validatorKeyIdBinding authority,
             va_validatorEpoch = ai_validatorEpoch authority,
             va_recoveryEpoch = ai_recoveryEpoch authority\<rparr>
        else if ai_authorityKind authority = ''recovery_threshold'' then
          computePhilCoreV2RecoveryFactorDigest E domain common
        else if ai_authorityKind authority = ''combined_validator_recovery'' then
          computePhilCoreV2CombinedCancellationDigest E domain
            (engine_cancellation package authorizedIntentHash authority)
        else
          (case in_payload (ap_intent package) of
             RecoveryConfigRotationRequest config primary hardware factor epoch \<Rightarrow>
               computePhilCoreV2ConfigRotationDigest E domain
                 (PhilCoreV2CombinedCancellationInput.extend
                   (engine_cancellation package authorizedIntentHash authority)
                   \<lparr>cr_proposedRecoveryConfigHash = config, cr_proposedRecoveryEpoch = epoch\<rparr>)
           | _ \<Rightarrow> throw ''recovery_config_rotation_payload_required''))
        (\<lambda>result. Inr (dr_digest result)))"

section \<open>Verification\<close>

text \<open>The header fields that are compared with the state before the intent is encoded.\<close>

definition verify_intent_binding ::
  "ethers \<Rightarrow> PhilCoreV2ValidatorState \<Rightarrow> PhilCoreV2IntentCoreHeaderInput \<Rightarrow> unit engine" where
  "verify_intent_binding E state rawHeader =
     bnd (present (engine_bigint (hi_chainId rawHeader)) INTENT_INVALID StageIntent) (\<lambda>chainId.
     bnd (present (engine_address E (hi_entryPoint rawHeader)) INTENT_INVALID StageIntent) (\<lambda>entryPoint.
     bnd (present (engine_address E (hi_account rawHeader)) INTENT_INVALID StageIntent) (\<lambda>account.
     bnd (present (engine_bytes32 E (hi_ownerCommitment rawHeader)) INTENT_INVALID StageIntent)
       (\<lambda>ownerCommitment.
     bnd (require (chainId = vs_chainId state) CHAIN_MISMATCH StageIntent) (\<lambda>_.
     bnd (require (entryPoint = vs_entryPoint state) ENTRYPOINT_MISMATCH StageIntent) (\<lambda>_.
     bnd (require (account = vs_account state) ACCOUNT_MISMATCH StageIntent) (\<lambda>_.
     require (ownerCommitment = vs_ownerCommitment state) OWNER_COMMITMENT_MISMATCH StageIntent)))))))"

text \<open>The time window, the epochs of the intent and the recovery state.\<close>

definition verify_intent_window ::
  "PhilCoreV2ValidatorState \<Rightarrow> PhilCoreV2IntentCoreHeader \<Rightarrow> bignumberish \<Rightarrow> unit engine" where
  "verify_intent_window state header currentTime =
     bnd (present (engine_bigint currentTime) INTENT_INVALID StageIntent) (\<lambda>now.
     bnd (require (\<not> now < h_validAfter header) AUTHORIZATION_NOT_YET_VALID StageIntent) (\<lambda>_.
     bnd (require (\<not> now > h_validUntil header) AUTHORIZATION_EXPIRED StageIntent) (\<lambda>_.
     bnd (require (\<not> h_validatorEpoch header < vs_validatorEpoch state)
            VALIDATOR_EPOCH_STALE StageIntent) (\<lambda>_.
     bnd (require (\<not> h_validatorEpoch header > vs_validatorEpoch state)
            VALIDATOR_EPOCH_FUTURE StageIntent) (\<lambda>_.
     bnd (require (\<not> h_recoveryEpoch header < vs_recoveryEpoch state)
            RECOVERY_EPOCH_STALE StageIntent) (\<lambda>_.
     bnd (require (\<not> h_recoveryEpoch header > vs_recoveryEpoch state)
            RECOVERY_EPOCH_FUTURE StageIntent) (\<lambda>_.
     return_failure (recoveryStateFailure state (h_actionType header) (h_nonceKey header)))))))))"

text \<open>The declared hashes; the result is the runtime digest and the authorized intent hash.\<close>

definition verify_runtime ::
  "ethers \<Rightarrow> PhilCoreV2AuthorizationPackage \<Rightarrow> PhilCoreV2IntentEncoding \<Rightarrow> (string \<times> string) engine" where
  "verify_runtime E package encoded =
     bnd (require (engine_bytes32 E (ap_declaredIntentCoreHash package) = Some (enc_intentCoreHash encoded))
            INTENT_HASH_MISMATCH StageIntent) (\<lambda>_.
     bnd (require (engine_bytes32 E (ra_intentCoreHash (ap_runtimeAuthorization package))
              = Some (enc_intentCoreHash encoded)) RUNTIME_INTENT_HASH_MISMATCH StageRuntime) (\<lambda>_.
     bnd (attempt (computePhilCoreV2RuntimeAuthorizationDigest E (ap_runtimeAuthorization package))
            RUNTIME_AUTHORIZATION_DIGEST_MISMATCH StageRuntime) (\<lambda>runtimeAuthorizationDigest.
     bnd (require (engine_bytes32 E (ap_declaredRuntimeAuthorizationDigest package)
              = Some runtimeAuthorizationDigest) RUNTIME_AUTHORIZATION_DIGEST_MISMATCH StageRuntime) (\<lambda>_.
     bnd (uncaught (computePhilCoreV2AuthorizedIntentHash E (enc_intentCoreHash encoded)
            runtimeAuthorizationDigest)) (\<lambda>authorizedIntentHash.
     bnd (require (engine_bytes32 E (ap_declaredAuthorizedIntentHash package)
              = Some authorizedIntentHash) AUTHORIZED_INTENT_HASH_MISMATCH StageRuntime) (\<lambda>_.
     Inr (runtimeAuthorizationDigest, authorizedIntentHash)))))))"

text \<open>The authority: its kind, factor bitmap, validator, epochs and recovery configuration.\<close>

definition verify_authority ::
  "ethers \<Rightarrow> PhilCoreV2ValidatorState \<Rightarrow> action_type \<Rightarrow> PhilCoreV2ValidatorAuthorityInput \<Rightarrow>
     unit engine" where
  "verify_authority E state action authority =
     bnd (require (ai_authorityKind authority \<in> set (requiredAuthorityKinds action))
            AUTHORITY_KIND_MISMATCH StageAuthority) (\<lambda>_.
     bnd (if ai_authorityKind authority \<noteq> ''validator_signature''
          then return_failure (factorBitmapFailure (ai_factorBitmap authority)) else Inr ()) (\<lambda>_.
     bnd (require (engine_address E (ai_validator authority) = Some (vs_validator state))
            VALIDATOR_MISMATCH StageAuthority) (\<lambda>_.
     bnd (require (engine_bytes32 E (ai_validatorKeyIdBinding authority)
              = Some (vs_validatorKeyIdBinding state)) VALIDATOR_KEY_ID_MISMATCH StageAuthority) (\<lambda>_.
     bnd (present (engine_bigint (ai_validatorEpoch authority)) VALIDATOR_EPOCH_FUTURE StageAuthority)
       (\<lambda>validatorEpoch.
     bnd (require (\<not> validatorEpoch < vs_validatorEpoch state) VALIDATOR_EPOCH_STALE StageAuthority) (\<lambda>_.
     bnd (require (\<not> validatorEpoch > vs_validatorEpoch state) VALIDATOR_EPOCH_FUTURE StageAuthority) (\<lambda>_.
     bnd (present (engine_bigint (ai_recoveryEpoch authority)) RECOVERY_EPOCH_FUTURE StageAuthority)
       (\<lambda>recoveryEpoch.
     bnd (require (\<not> recoveryEpoch < vs_recoveryEpoch state) RECOVERY_EPOCH_STALE StageAuthority) (\<lambda>_.
     bnd (require (\<not> recoveryEpoch > vs_recoveryEpoch state) RECOVERY_EPOCH_FUTURE StageAuthority) (\<lambda>_.
     bnd (require (engine_bytes32 E (ai_recoveryConfigHash authority)
              = Some (vs_recoveryConfigHash state)) RECOVERY_CONFIG_MISMATCH StageAuthority) (\<lambda>_.
     require (\<not> (ai_authorityKind authority = ''validator_signature'' \<and>
                vs_validatorStatus state \<noteq> Active)) VALIDATOR_REVOKED StageAuthority)))))))))))"

text \<open>The digest the authority has to have signed, its declaration and the replay check.\<close>

definition verify_authority_digest ::
  "ethers \<Rightarrow> PhilCoreV2ValidatorState \<Rightarrow> PhilCoreV2AuthorizationPackage \<Rightarrow> string \<Rightarrow>
     PhilCoreV2ValidatorAuthorityInput \<Rightarrow> string engine" where
  "verify_authority_digest E state package authorizedIntentHash authority =
     bnd (attempt (computeAuthorityDigest E state package authorizedIntentHash authority)
            AUTHORITY_DIGEST_INVALID StageAuthority) (\<lambda>authorityDigest.
     bnd (require (engine_bytes32 E (ai_declaredAuthorityDigest authority) = Some authorityDigest)
            AUTHORITY_DIGEST_MISMATCH StageAuthority) (\<lambda>_.
     bnd (require (authorityDigest \<notin> set (vs_consumedAuthorizationDigests state))
            AUTHORIZATION_REPLAY StageReplay) (\<lambda>_.
     bnd (require (engine_bytes32 E (ap_userOperationHashBinding package) \<noteq> None)
            AUTHORITY_DIGEST_INVALID StageAuthority) (\<lambda>_.
     Inr authorityDigest))))"

definition verification_request ::
  "PhilCoreV2ValidatorState \<Rightarrow> PhilCoreV2ValidatorAuthorityInput \<Rightarrow> string \<Rightarrow>
     PhilCoreV2AuthorityVerificationRequest" where
  "verification_request state authority authorityDigest =
     \<lparr>rq_authorityKind = ai_authorityKind authority, rq_digest = authorityDigest,
      rq_evidence = ai_evidence authority, rq_chainId = vs_chainId state,
      rq_account = vs_account state, rq_validator = vs_validator state,
      rq_validatorKeyIdBinding = vs_validatorKeyIdBinding state,
      rq_validatorEpoch = vs_validatorEpoch state, rq_recoveryEpoch = vs_recoveryEpoch state,
      rq_recoveryConfigHash = vs_recoveryConfigHash state,
      rq_factorBitmap = ai_factorBitmap authority\<rparr>"

text \<open>The evidence reference, the verifier's descriptor and the verifier's answer.\<close>

definition verify_evidence ::
  "ethers \<Rightarrow> PhilCoreV2ValidatorState \<Rightarrow> PhilCoreV2ValidatorAuthorityInput \<Rightarrow> string \<Rightarrow>
     PhilCoreV2AuthorityVerifier \<Rightarrow> string engine" where
  "verify_evidence E state authority authorityDigest verifier =
     (let evidence = ai_evidence authority;
          expectedEvidenceVerificationFormat =
            (if ai_authorityKind authority = ''validator_signature''
             then PHILCORE_V2_VALIDATOR_SIGNATURE_FORMAT else PHILCORE_V2_RECOVERY_AUTHORITY_FORMAT) in
      bnd (require (\<not> (ev_format evidence \<noteq> PHILCORE_V2_AUTHORITY_EVIDENCE_FORMAT \<or>
                      ev_authorityKind evidence \<noteq> ai_authorityKind authority \<or>
                      ev_verificationFormat evidence \<noteq> expectedEvidenceVerificationFormat \<or>
                      ev_signatureBytesPresentToEngine evidence \<or>
                      engine_bytes32 E (ev_evidenceReferenceHash evidence) = None))
             AUTHORITY_EVIDENCE_MALFORMED_CODE StageAuthority) (\<lambda>_.
      bnd (require (\<not> (av_acceptsGenericMessages verifier \<or> av_createsSignatures verifier \<or>
                      \<not> av_requiresIntentBoundDigest verifier \<or>
                      \<not> verifierId_valid (av_verifierId verifier)))
             AUTHORITY_VERIFIER_UNSAFE StageAuthority) (\<lambda>_.
      bnd (attempt (av_verify verifier (verification_request state authority authorityDigest))
             SIGNATURE_INVALID StageAuthority) (\<lambda>verification.
      case verification of
        Unverified failure _ _ \<Rightarrow>
          Inl (Reject (if failure = AUTHORITY_EVIDENCE_MALFORMED then AUTHORITY_EVIDENCE_MALFORMED_CODE
                       else SIGNATURE_INVALID) StageAuthority)
      | Verified _ verifierId signatureProduced \<Rightarrow>
          bnd (require (\<not> (signatureProduced \<or> verifierId \<noteq> av_verifierId verifier))
                 AUTHORITY_VERIFIER_UNSAFE StageAuthority) (\<lambda>_.
          Inr verifierId)))))"

definition verify_steps ::
  "ethers \<Rightarrow> PhilCoreV2AuthorizationVerificationRequest \<Rightarrow> PhilCoreV2AcceptedAuthorization engine" where
  "verify_steps E request =
     (let package = vq_authorizationPackage request in
      bnd (attempt (createPhilCoreV2ValidatorState E (validator_input (vq_state request)))
             STATE_INVALID StageState) (\<lambda>state.
      bnd (verify_intent_binding E state (in_header (ap_intent package))) (\<lambda>_.
      bnd (attempt (encodePhilCoreV2Intent E (ap_intent package)) INTENT_INVALID StageIntent) (\<lambda>encoded.
      bnd (verify_intent_window state (enc_header encoded) (vq_currentTime request)) (\<lambda>_.
      bnd (verify_runtime E package encoded) (\<lambda>(runtimeAuthorizationDigest, authorizedIntentHash).
      bnd (uncaught (composePhilCoreV2Nonce (BigIntV (h_nonceKey (enc_header encoded)))
             (BigIntV (h_nonceSequence (enc_header encoded))))) (\<lambda>keyedNonce.
      bnd (require (keyedNonce \<notin> set (vs_consumedNonces state)) NONCE_REPLAY StageReplay) (\<lambda>_.
      bnd (present (ap_authority package) AUTHORITY_MISSING StageAuthority) (\<lambda>authority.
      bnd (verify_authority E state (h_actionType (enc_header encoded)) authority) (\<lambda>_.
      bnd (verify_authority_digest E state package authorizedIntentHash authority) (\<lambda>authorityDigest.
      bnd (verify_evidence E state authority authorityDigest (vq_authorityVerifier request)) (\<lambda>verifierId.
      Inr \<lparr>aa_intentCoreHash = enc_intentCoreHash encoded,
           aa_runtimeAuthorizationDigest = runtimeAuthorizationDigest,
           aa_authorizedIntentHash = authorizedIntentHash, aa_authorityDigest = authorityDigest,
           aa_keyedNonce = keyedNonce, aa_authorityKind = ai_authorityKind authority,
           aa_verifierId = verifierId,
           aa_authorizedStateTransition =
             expectedStateTransition (h_actionType (enc_header encoded))\<rparr>))))))))))))"

text \<open>\<open>Inl\<close> is a rejected promise, \<open>Inr\<close> the result it resolves to.\<close>

definition verifyPhilCoreV2Authorization ::
  "ethers \<Rightarrow> PhilCoreV2AuthorizationVerificationRequest \<Rightarrow>
     PhilCoreV2AuthorizationVerificationResult result" where
  "verifyPhilCoreV2Authorization E request =
     (case verify_steps E request of
        Inr acceptance \<Rightarrow> Inr (Accepted acceptance)
      | Inl (Reject code stage) \<Rightarrow> Inr (Rejected code stage)
      | Inl (Raise e) \<Rightarrow> Inl e)"

section \<open>Inversion of the steps\<close>

lemma require_iff [result_simps]: "require c code stage = Inr u \<longleftrightarrow> c"
  by (simp add: require_def)

lemma attempt_iff [result_simps]: "attempt m code stage = Inr x \<longleftrightarrow> m = Inr x"
  by (cases m) simp_all

lemma present_iff [result_simps]: "present m code stage = Inr x \<longleftrightarrow> m = Some x"
  by (cases m) simp_all

lemma uncaught_iff [result_simps]: "uncaught m = Inr x \<longleftrightarrow> m = Inr x"
  by (cases m) simp_all

lemma return_failure_iff [result_simps]: "return_failure f = Inr u \<longleftrightarrow> f = None"
  by (cases f) auto

lemma no_raise:
  "require c code stage \<noteq> Inl (Raise e)" "attempt m code stage \<noteq> Inl (Raise e)"
  "present opt code stage \<noteq> Inl (Raise e)" "return_failure f \<noteq> Inl (Raise e)"
  by (simp add: require_def, cases m, simp_all, cases opt, simp_all, cases f, auto)

lemma uncaught_raise [result_simps]: "uncaught m = Inl (Raise e) \<longleftrightarrow> m = Inl e"
  by (cases m) simp_all

lemma engine_bytes32_iff [result_simps]: "engine_bytes32 E v = Some s \<longleftrightarrow> isHexString E v 32 \<and> v \<noteq> ZERO_BYTES32 \<and> s = toLowerCase v"
  by (auto simp: engine_bytes32_def)

lemma engine_bigint_iff [result_simps]: "engine_bigint v = Some n \<longleftrightarrow> BigInt_of v = Inr n \<and> 0 \<le> n"
  by (cases "BigInt_of v") (auto simp: engine_bigint_def)

lemma factorBitmapFailure_None [result_simps]:
  "factorBitmapFailure v = None \<longleftrightarrow> (\<exists>n \<in> {3, 5, 6}. v = Some (IntegerNumber n))"
  by (cases v rule: factorBitmapFailure.cases) (auto simp: RECOVERY_FACTOR_BITMAPS_def)

lemma verify_accepted_iff:
  "verifyPhilCoreV2Authorization E request = Inr (Accepted a) \<longleftrightarrow> verify_steps E request = Inr a"
  by (auto simp: verifyPhilCoreV2Authorization_def split: sum.splits engine_exit.splits)

section \<open>What acceptance means\<close>

text \<open>The actions that the recovery state lets through.\<close>

fun recovery_gate :: "PhilCoreV2RecoveryState \<Rightarrow> action_type \<Rightarrow> bool" where
  "recovery_gate RecoveryActive a = (a = RECOVERY_CANCEL)"
| "recovery_gate RecoveryConfigRotationActive a =
     (a \<notin> {VALIDATOR_ROTATION, RECOVERY_REQUEST, RECOVERY_CANCEL, RECOVERY_CONFIG_ROTATION_REQUEST})"
| "recovery_gate Normal a = (a \<notin> {RECOVERY_CANCEL, RECOVERY_CONFIG_ROTATION_CANCEL})"

lemma recoveryStateFailure_None:
  "recoveryStateFailure s a (ACTION_NONCE_KEYS a) = None \<longleftrightarrow> recovery_gate (vs_recoveryState s) a"
  by (cases "vs_recoveryState s"; cases a) (simp_all add: recoveryStateFailure_def)

text \<open>An accepted intent is bound to the state and valid now.\<close>

definition intent_bound ::
  "PhilCoreV2ValidatorState \<Rightarrow> PhilCoreV2IntentCoreHeader \<Rightarrow> int \<Rightarrow> bool" where
  "intent_bound s h now \<longleftrightarrow>
     h_chainId h = vs_chainId s \<and> h_entryPoint h = vs_entryPoint s \<and> h_account h = vs_account s \<and>
     h_ownerCommitment h = vs_ownerCommitment s \<and> h_validatorEpoch h = vs_validatorEpoch s \<and>
     h_recoveryEpoch h = vs_recoveryEpoch s \<and> h_validAfter h \<le> now \<and> now \<le> h_validUntil h \<and>
     recovery_gate (vs_recoveryState s) (h_actionType h)"

text \<open>An accepted authority is the one the action requires, and the current one.\<close>

definition authority_bound ::
  "ethers \<Rightarrow> PhilCoreV2ValidatorState \<Rightarrow> action_type \<Rightarrow> PhilCoreV2ValidatorAuthorityInput \<Rightarrow> bool" where
  "authority_bound E s a au \<longleftrightarrow>
     ai_authorityKind au \<in> set (requiredAuthorityKinds a) \<and>
     (ai_authorityKind au = ''validator_signature'' \<longrightarrow> vs_validatorStatus s = Active) \<and>
     (ai_authorityKind au \<noteq> ''validator_signature'' \<longrightarrow>
        (\<exists>n. ai_factorBitmap au = Some (IntegerNumber n) \<and> card (selected_roles n) = 2)) \<and>
     getAddress E (ai_validator au) = Some (vs_validator s) \<and>
     toLowerCase (ai_validatorKeyIdBinding au) = vs_validatorKeyIdBinding s \<and>
     BigInt_of (ai_validatorEpoch au) = Inr (vs_validatorEpoch s) \<and>
     BigInt_of (ai_recoveryEpoch au) = Inr (vs_recoveryEpoch s) \<and>
     toLowerCase (ai_recoveryConfigHash au) = vs_recoveryConfigHash s"

definition authorization_accepted ::
  "ethers \<Rightarrow> PhilCoreV2AuthorizationVerificationRequest \<Rightarrow> PhilCoreV2ValidatorState \<Rightarrow>
     PhilCoreV2IntentEncoding \<Rightarrow> PhilCoreV2ValidatorAuthorityInput \<Rightarrow>
     PhilCoreV2AcceptedAuthorization \<Rightarrow> bool" where
  "authorization_accepted E rq s enc au a \<longleftrightarrow>
     createPhilCoreV2ValidatorState E (validator_input (vq_state rq)) = Inr s \<and>
     encodePhilCoreV2Intent E (ap_intent (vq_authorizationPackage rq)) = Inr enc \<and>
     ap_authority (vq_authorizationPackage rq) = Some au \<and>
     (\<exists>now. BigInt_of (vq_currentTime rq) = Inr now \<and> intent_bound s (enc_header enc) now) \<and>
     authority_bound E s (h_actionType (enc_header enc)) au \<and>
     aa_intentCoreHash a = enc_intentCoreHash enc \<and>
     toLowerCase (ra_intentCoreHash (ap_runtimeAuthorization (vq_authorizationPackage rq)))
       = enc_intentCoreHash enc \<and>
     computePhilCoreV2RuntimeAuthorizationDigest E (ap_runtimeAuthorization (vq_authorizationPackage rq))
       = Inr (aa_runtimeAuthorizationDigest a) \<and>
     computePhilCoreV2AuthorizedIntentHash E (enc_intentCoreHash enc) (aa_runtimeAuthorizationDigest a)
       = Inr (aa_authorizedIntentHash a) \<and>
     aa_keyedNonce a = h_nonceKey (enc_header enc) * 2 ^ 64 + h_nonceSequence (enc_header enc) \<and>
     aa_keyedNonce a \<notin> set (vs_consumedNonces s) \<and>
     computeAuthorityDigest E s (vq_authorizationPackage rq) (aa_authorizedIntentHash a) au
       = Inr (aa_authorityDigest a) \<and>
     aa_authorityDigest a \<notin> set (vs_consumedAuthorizationDigests s) \<and>
     aa_authorityKind a = ai_authorityKind au \<and>
     aa_authorizedStateTransition a = expectedStateTransition (h_actionType (enc_header enc)) \<and>
     aa_verifierId a = av_verifierId (vq_authorityVerifier rq) \<and>
     \<not> av_acceptsGenericMessages (vq_authorityVerifier rq) \<and>
     \<not> av_createsSignatures (vq_authorityVerifier rq) \<and>
     av_requiresIntentBoundDigest (vq_authorityVerifier rq) \<and>
     (\<exists>c. av_verify (vq_authorityVerifier rq) (verification_request s au (aa_authorityDigest a))
        = Inr (Verified c (aa_verifierId a) False))"

lemma verify_intent_binding_iff:
  "verify_intent_binding E s h = Inr u \<longleftrightarrow>
     BigInt_of (hi_chainId h) = Inr (vs_chainId s) \<and> 0 \<le> vs_chainId s \<and>
     getAddress E (hi_entryPoint h) = Some (vs_entryPoint s) \<and>
     getAddress E (hi_account h) = Some (vs_account s) \<and>
     isHexString E (hi_ownerCommitment h) 32 \<and> hi_ownerCommitment h \<noteq> ZERO_BYTES32 \<and>
     toLowerCase (hi_ownerCommitment h) = vs_ownerCommitment s"
  by (auto simp: verify_intent_binding_def result_simps engine_address_def)

lemma verify_intent_window_iff:
  "verify_intent_window s h t = Inr u \<longleftrightarrow>
     (\<exists>now. BigInt_of t = Inr now \<and> 0 \<le> now \<and> h_validAfter h \<le> now \<and> now \<le> h_validUntil h) \<and>
     h_validatorEpoch h = vs_validatorEpoch s \<and> h_recoveryEpoch h = vs_recoveryEpoch s \<and>
     recoveryStateFailure s (h_actionType h) (h_nonceKey h) = None"
  by (auto simp: verify_intent_window_def result_simps)

lemma verify_runtime_iff:
  "verify_runtime E p enc = Inr (rt, ih) \<longleftrightarrow>
     engine_bytes32 E (ap_declaredIntentCoreHash p) = Some (enc_intentCoreHash enc) \<and>
     engine_bytes32 E (ra_intentCoreHash (ap_runtimeAuthorization p)) = Some (enc_intentCoreHash enc) \<and>
     computePhilCoreV2RuntimeAuthorizationDigest E (ap_runtimeAuthorization p) = Inr rt \<and>
     engine_bytes32 E (ap_declaredRuntimeAuthorizationDigest p) = Some rt \<and>
     computePhilCoreV2AuthorizedIntentHash E (enc_intentCoreHash enc) rt = Inr ih \<and>
     engine_bytes32 E (ap_declaredAuthorizedIntentHash p) = Some ih"
  unfolding verify_runtime_def bnd_eq_Inr require_iff attempt_iff uncaught_iff by auto

lemma verify_authority_bound:
  assumes "verify_authority E s a au = Inr u"
  shows "authority_bound E s a au"
proof -
  have two: "card (selected_roles n) = 2" if "n \<in> {3, 5, 6}" for n
    using factorBitmap_two_of_three [of "BigIntV n" n] that by (simp add: factorBitmap_iff)
  from assms show ?thesis
    unfolding verify_authority_def authority_bound_def
    by (auto simp: result_simps engine_address_def two split: if_splits)
qed

lemma verify_authority_digest_iff:
  "verify_authority_digest E s p ih au = Inr d \<longleftrightarrow>
     computeAuthorityDigest E s p ih au = Inr d \<and>
     engine_bytes32 E (ai_declaredAuthorityDigest au) = Some d \<and>
     d \<notin> set (vs_consumedAuthorizationDigests s) \<and>
     engine_bytes32 E (ap_userOperationHashBinding p) \<noteq> None"
  unfolding verify_authority_digest_def bnd_eq_Inr require_iff attempt_iff by auto

lemma verify_evidence_accepts:
  assumes "verify_evidence E s au d v = Inr i"
  shows "i = av_verifierId v \<and> \<not> av_acceptsGenericMessages v \<and> \<not> av_createsSignatures v \<and>
    av_requiresIntentBoundDigest v \<and>
    (\<exists>c. av_verify v (verification_request s au d) = Inr (Verified c i False))"
proof -
  from assms obtain r where
    r: "av_verify v (verification_request s au d) = Inr r" and
    safe: "\<not> av_acceptsGenericMessages v" "\<not> av_createsSignatures v" "av_requiresIntentBoundDigest v"
    and answer: "(case r of
        Unverified failure _ _ \<Rightarrow>
          Inl (Reject (if failure = AUTHORITY_EVIDENCE_MALFORMED then AUTHORITY_EVIDENCE_MALFORMED_CODE
                       else SIGNATURE_INVALID) StageAuthority)
      | Verified _ verifierId signatureProduced \<Rightarrow>
          bnd (require (\<not> (signatureProduced \<or> verifierId \<noteq> av_verifierId v))
                 AUTHORITY_VERIFIER_UNSAFE StageAuthority) (\<lambda>_. Inr verifierId)) = Inr i"
    unfolding verify_evidence_def Let_def bnd_eq_Inr require_iff attempt_iff by blast
  from r safe answer show ?thesis by (cases r) (auto simp: result_simps)
qed

lemma header_state_binding:
  assumes "ethers_laws E" and "validator_wf E s"
    and "normalizePhilCoreV2IntentCoreHeader E i = Inr h"
    and "verify_intent_binding E s i = Inr u"
  shows "h_chainId h = vs_chainId s \<and> h_entryPoint h = vs_entryPoint s \<and>
    h_account h = vs_account s \<and> h_ownerCommitment h = vs_ownerCommitment s"
  using assms(3,4) unfolding normalizePhilCoreV2IntentCoreHeader_iff verify_intent_binding_iff
  by (auto simp: is_uint_def is_address_def is_bytes32_def)

lemma verify_accepts:
  assumes laws: "ethers_laws E" and acc: "verify_steps E rq = Inr a"
  shows "\<exists>s enc au. authorization_accepted E rq s enc au a"
proof -
  let ?p = "vq_authorizationPackage rq"
  from acc obtain s enc q n au d i u1 u2 u3 where
    s: "createPhilCoreV2ValidatorState E (validator_input (vq_state rq)) = Inr s" and
    b: "verify_intent_binding E s (in_header (ap_intent ?p)) = Inr u1" and
    enc: "encodePhilCoreV2Intent E (ap_intent ?p) = Inr enc" and
    w: "verify_intent_window s (enc_header enc) (vq_currentTime rq) = Inr u2" and
    r: "verify_runtime E ?p enc = Inr q" and
    n: "composePhilCoreV2Nonce (BigIntV (h_nonceKey (enc_header enc)))
          (BigIntV (h_nonceSequence (enc_header enc))) = Inr n" "n \<notin> set (vs_consumedNonces s)" and
    au: "ap_authority ?p = Some au" and
    k: "verify_authority E s (h_actionType (enc_header enc)) au = Inr u3" and
    d: "verify_authority_digest E s ?p (snd q) au = Inr d" and
    i: "verify_evidence E s au d (vq_authorityVerifier rq) = Inr i" and
    a: "\<lparr>aa_intentCoreHash = enc_intentCoreHash enc, aa_runtimeAuthorizationDigest = fst q,
      aa_authorizedIntentHash = snd q, aa_authorityDigest = d, aa_keyedNonce = n,
      aa_authorityKind = ai_authorityKind au, aa_verifierId = i,
      aa_authorizedStateTransition = expectedStateTransition (h_actionType (enc_header enc))\<rparr> = a"
    unfolding verify_steps_def Let_def case_prod_unfold bnd_eq_Inr attempt_iff require_iff
      uncaught_iff present_iff sum.inject by blast
  from enc have h: "normalizePhilCoreV2IntentCoreHeader E (in_header (ap_intent ?p)) = Inr (enc_header enc)"
    unfolding encodePhilCoreV2Intent_iff [OF laws] by blast
  then have key: "h_nonceKey (enc_header enc) = ACTION_NONCE_KEYS (h_actionType (enc_header enc))"
    unfolding normalizePhilCoreV2IntentCoreHeader_iff by blast
  have nonce: "n = h_nonceKey (enc_header enc) * 2 ^ 64 + h_nonceSequence (enc_header enc)"
    using n(1) unfolding composePhilCoreV2Nonce_iff by auto
  have bound: "\<exists>now. BigInt_of (vq_currentTime rq) = Inr now \<and> intent_bound s (enc_header enc) now"
    using header_state_binding [OF laws validator_wf_result [OF laws s] h b]
      w [unfolded verify_intent_window_iff key recoveryStateFailure_None]
    unfolding intent_bound_def by blast
  have "authorization_accepted E rq s enc au a"
    unfolding authorization_accepted_def
    using s enc au bound verify_authority_bound [OF k] r [unfolded verify_runtime_iff [of E ?p enc "fst q" "snd q", unfolded prod.collapse] engine_bytes32_iff]
      nonce n(2) d [unfolded verify_authority_digest_iff] verify_evidence_accepts [OF i]
    by (simp add: a [symmetric]) auto
  then show ?thesis by blast
qed

section \<open>Verification always returns\<close>

lemma verify_runtime_no_raise: 
  assumes laws: "ethers_laws E"
  shows "verify_runtime E p enc \<noteq> Inl (Raise e)"
proof
  assume "verify_runtime E p enc = Inl (Raise e)"
  then obtain rt where i: "engine_bytes32 E (ap_declaredIntentCoreHash p) = Some (enc_intentCoreHash enc)"
    and r: "engine_bytes32 E (ap_declaredRuntimeAuthorizationDigest p) = Some rt"
    and f: "computePhilCoreV2AuthorizedIntentHash E (enc_intentCoreHash enc) rt = Inl e"
    unfolding verify_runtime_def bnd_eq_Inl bnd_eq_Inr require_iff attempt_iff uncaught_raise
    by (auto simp: no_raise)
  have "is_bytes32 E False v v" if "engine_bytes32 E w = Some v" for v w
    using that by (auto simp: engine_bytes32_iff is_bytes32_def laws_isHexString [OF laws] hex_string_lower
        dest: hex_string_lower_zero)
  with i r have "is_bytes32 E False (enc_intentCoreHash enc) (enc_intentCoreHash enc)"
    "is_bytes32 E False rt rt" by blast+
  with f show False
    by (auto simp: computePhilCoreV2AuthorizedIntentHash_def auth_bytes32_def is_bytes32_def Let_def)
qed

lemma verify_steps_no_raise:
  assumes laws: "ethers_laws E"
  shows "verify_steps E rq \<noteq> Inl (Raise e)"
proof
  assume raise: "verify_steps E rq = Inl (Raise e)"
  have parts: "verify_intent_binding E s h \<noteq> Inl (Raise e)" "verify_intent_window s hd t \<noteq> Inl (Raise e)"
    "verify_authority E s a au \<noteq> Inl (Raise e)" "verify_authority_digest E s p ih au \<noteq> Inl (Raise e)"
    "verify_evidence E s au d v \<noteq> Inl (Raise e)" for s h hd t a au p ih d v
    by (auto simp: verify_intent_binding_def verify_intent_window_def verify_authority_def
        verify_authority_digest_def verify_evidence_def Let_def bnd_eq_Inl no_raise
        split: if_splits PhilCoreV2AuthorityVerificationResult.splits)
  from raise obtain enc where
    enc: "encodePhilCoreV2Intent E (ap_intent (vq_authorizationPackage rq)) = Inr enc"
    and n: "composePhilCoreV2Nonce (BigIntV (h_nonceKey (enc_header enc)))
          (BigIntV (h_nonceSequence (enc_header enc))) = Inl e"
    unfolding verify_steps_def Let_def case_prod_unfold bnd_eq_Inl bnd_eq_Inr attempt_iff require_iff
      uncaught_iff uncaught_raise present_iff
    by (auto simp: no_raise parts verify_runtime_no_raise [OF laws])
  from enc have "uint_fits 192 (h_nonceKey (enc_header enc))" "uint_fits 64 (h_nonceSequence (enc_header enc))"
    unfolding encodePhilCoreV2Intent_iff [OF laws] normalizePhilCoreV2IntentCoreHeader_iff
    by (auto simp: is_uint_def)
  then have "\<exists>m. composePhilCoreV2Nonce (BigIntV (h_nonceKey (enc_header enc)))
          (BigIntV (h_nonceSequence (enc_header enc))) = Inr m"
    unfolding composePhilCoreV2Nonce_iff by (auto simp: is_uint_BigIntV)
  with n show False by auto
qed

lemma verify_total:
  assumes "ethers_laws E"
  shows "\<exists>r. verifyPhilCoreV2Authorization E rq = Inr r"
  using verify_steps_no_raise [OF assms]
  by (auto simp: verifyPhilCoreV2Authorization_def split: sum.splits engine_exit.splits)

section \<open>Sound verifiers\<close>

context authority_verifier
begin

lemma accepted_allowed:
  assumes "ethers_laws E" and "vq_authorityVerifier rq = verifier"
    and "verifyPhilCoreV2Authorization E rq = Inr (Accepted a)"
  shows "\<exists>s enc au. authorization_accepted E rq s enc au a \<and>
    allows (verification_request s au (aa_authorityDigest a))"
proof -
  from verify_accepts [OF assms(1) assms(3) [unfolded verify_accepted_iff]]
  obtain s enc au where acc: "authorization_accepted E rq s enc au a" by blast
  then obtain c where "av_verify verifier (verification_request s au (aa_authorityDigest a)) =
      Inr (Verified c (aa_verifierId a) False)"
    unfolding authorization_accepted_def assms(2) by blast
  with acc verified_allowed show ?thesis by blast
qed

end

section \<open>A sample package\<close>

definition sample_intent :: PhilCoreV2IntentInput where
  "sample_intent = sample_transfer (a20 (CHR ''c'')) (BigIntV 5)"

definition sample_encoding :: PhilCoreV2IntentEncoding where
  "sample_encoding = projr (encodePhilCoreV2Intent sample_ethers sample_intent)"

definition sample_runtime :: PhilCoreV2RuntimeAuthorizationInput where
  "sample_runtime =
     \<lparr>ra_intentCoreHash = enc_intentCoreHash sample_encoding, ra_proofBindingHash = h32 (CHR ''1''),
      ra_policyDecisionHash = h32 (CHR ''2''), ra_approvalEvidenceHash = h32 (CHR ''3''),
      ra_userPresenceEvidenceHash = h32 (CHR ''4'')\<rparr>"

definition sample_runtime_digest :: string where
  "sample_runtime_digest = projr (computePhilCoreV2RuntimeAuthorizationDigest sample_ethers sample_runtime)"

definition sample_authorized_intent :: string where
  "sample_authorized_intent =
     projr (computePhilCoreV2AuthorizedIntentHash sample_ethers (enc_intentCoreHash sample_encoding)
       sample_runtime_digest)"

definition sample_authority :: "string \<Rightarrow> PhilCoreV2ValidatorAuthorityInput" where
  "sample_authority digest =
     \<lparr>ai_authorityKind = ''validator_signature'', ai_validator = a20 (CHR ''b''),
      ai_validatorKeyIdBinding = h32 (CHR ''3''), ai_validatorEpoch = BigIntV 1,
      ai_recoveryEpoch = BigIntV 1, ai_recoveryConfigHash = h32 (CHR ''4''), ai_factorBitmap = None,
      ai_evidence = rq_evidence sample_verification_request, ai_declaredAuthorityDigest = digest\<rparr>"

definition sample_package :: "string \<Rightarrow> PhilCoreV2AuthorizationPackage" where
  "sample_package digest =
     \<lparr>ap_intent = sample_intent, ap_declaredIntentCoreHash = enc_intentCoreHash sample_encoding,
      ap_runtimeAuthorization = sample_runtime,
      ap_declaredRuntimeAuthorizationDigest = sample_runtime_digest,
      ap_declaredAuthorizedIntentHash = sample_authorized_intent,
      ap_userOperationHashBinding = h32 (CHR ''d''), ap_authority = Some (sample_authority digest)\<rparr>"

definition sample_authority_digest :: string where
  "sample_authority_digest =
     projr (computeAuthorityDigest sample_ethers sample_validator_state (sample_package [])
       sample_authorized_intent (sample_authority []))"

definition sample_verifier :: PhilCoreV2AuthorityVerifier where
  "sample_verifier = fixture_verifier sample_ethers ''fixture''
     [sample_normal_expectation\<lparr>fx_digest := sample_authority_digest\<rparr>]"

definition sample_request :: "PhilCoreV2ValidatorState \<Rightarrow> PhilCoreV2AuthorizationVerificationRequest" where
  "sample_request s =
     \<lparr>vq_state = s, vq_authorizationPackage = sample_package sample_authority_digest,
      vq_currentTime = BigIntV 300, vq_authorityVerifier = sample_verifier\<rparr>"

definition sample_acceptance :: PhilCoreV2AcceptedAuthorization where
  "sample_acceptance =
     \<lparr>aa_intentCoreHash = enc_intentCoreHash sample_encoding,
      aa_runtimeAuthorizationDigest = sample_runtime_digest,
      aa_authorizedIntentHash = sample_authorized_intent,
      aa_authorityDigest = sample_authority_digest, aa_keyedNonce = 0,
      aa_authorityKind = ''validator_signature'', aa_verifierId = ''fixture'',
      aa_authorizedStateTransition = NoTransition\<rparr>"

lemma sample_auth_checks [literal_simps]:
  "auth_bytes32 sample_ethers (keccak256 sample_ethers x) l False = Inr (keccak256 sample_ethers x)"
  "hex_digit c \<Longrightarrow> lower_char c \<noteq> CHR ''0'' \<Longrightarrow>
     auth_bytes32 sample_ethers (h32 c) l False = Inr (h32 (lower_char c))"
  "hex_digit c \<Longrightarrow> lower_char c \<noteq> CHR ''0'' \<Longrightarrow>
     auth_address sample_ethers (a20 c) l = Inr (a20 (lower_char c))"
  "uint_fits w n \<Longrightarrow> n \<noteq> 0 \<Longrightarrow> auth_uint (BigIntV n) w l nz = Inr n"
  by (simp_all add: result_simps literal_simps)

lemma sample_validator_checks [literal_simps]:
  "validator_bytes32 sample_ethers (keccak256 sample_ethers x) l = Inr (keccak256 sample_ethers x)"
  "hex_digit c \<Longrightarrow> lower_char c \<noteq> CHR ''0'' \<Longrightarrow>
     validator_bytes32 sample_ethers (h32 c) l = Inr (h32 (lower_char c))"
  by (simp_all add: result_simps literal_simps)

lemma sample_getAddress [literal_simps]:
  "hex_digit c \<Longrightarrow> getAddress sample_ethers (a20 c) = Some (a20 (lower_char c))"
  by (simp add: sample_ethers_def)

lemma sample_encoding_ok:
  "encodePhilCoreV2Intent sample_ethers sample_intent = Inr sample_encoding"
proof -
  have "is_address sample_ethers False (a20 (CHR ''c'')) (a20 (CHR ''c''))" "is_uint True 256 (BigIntV 5) 5"
    by (simp_all add: literal_simps uint_fits_def)
  then have "\<exists>enc. encodePhilCoreV2Intent sample_ethers sample_intent = Inr enc"
    unfolding sample_intent_def by (intro sample_transfer_accepted) auto
  then show ?thesis by (auto simp: sample_encoding_def)
qed

lemma sample_encoding_fields:
  "enc_header sample_encoding = sample_normal_header NATIVE_TRANSFER TRANSFER_ASSET"
  "\<exists>x. enc_intentCoreHash sample_encoding = keccak256 sample_ethers x"
  using sample_encoding_ok sample_header_normal [of TRANSFER_ASSET NATIVE_TRANSFER]
  unfolding encodePhilCoreV2Intent_iff [OF sample_ethers_laws] sample_intent_def sample_transfer_def
  by auto

lemma sample_runtime_ok:
  "computePhilCoreV2RuntimeAuthorizationDigest sample_ethers sample_runtime = Inr sample_runtime_digest"
  "\<exists>x. sample_runtime_digest = keccak256 sample_ethers x"
proof -
  obtain i where k: "enc_intentCoreHash sample_encoding = keccak256 sample_ethers i"
    using sample_encoding_fields(2) by blast
  show "computePhilCoreV2RuntimeAuthorizationDigest sample_ethers sample_runtime = Inr sample_runtime_digest"
    "\<exists>x. sample_runtime_digest = keccak256 sample_ethers x"
    by (auto simp: sample_runtime_digest_def sample_runtime_def k literal_simps
        computePhilCoreV2RuntimeAuthorizationDigest_def)
qed

lemma sample_authorized_intent_ok:
  "computePhilCoreV2AuthorizedIntentHash sample_ethers (enc_intentCoreHash sample_encoding)
     sample_runtime_digest = Inr sample_authorized_intent"
  "\<exists>x. sample_authorized_intent = keccak256 sample_ethers x"
proof -
  obtain i r where k: "enc_intentCoreHash sample_encoding = keccak256 sample_ethers i"
    "sample_runtime_digest = keccak256 sample_ethers r"
    using sample_encoding_fields(2) sample_runtime_ok(2) by blast
  show "computePhilCoreV2AuthorizedIntentHash sample_ethers (enc_intentCoreHash sample_encoding)
     sample_runtime_digest = Inr sample_authorized_intent"
    "\<exists>x. sample_authorized_intent = keccak256 sample_ethers x"
    by (auto simp: sample_authorized_intent_def computePhilCoreV2AuthorizedIntentHash_def k literal_simps)
qed

lemma sample_authority_digest_ok:
  "computeAuthorityDigest sample_ethers sample_validator_state (sample_package x)
     sample_authorized_intent (sample_authority y) = Inr sample_authority_digest"
  "\<exists>x. sample_authority_digest = keccak256 sample_ethers x"
proof -
  obtain a where a: "sample_authorized_intent = keccak256 sample_ethers a"
    using sample_authorized_intent_ok(2) by blast
  have "\<exists>r. typedDigest sample_ethers (BigIntV 1, a20 (CHR ''a'')) (keccak256 sample_ethers z) = Inr r" for z
    by (rule sample_typedDigest [of _ 1 _ "a20 (CHR ''a'')"]) (simp_all add: uint_fits_def literal_simps)
  then obtain r where r: "computePhilCoreV2ValidatorDigest sample_ethers (BigIntV 1, a20 (CHR ''a''))
      \<lparr>va_authorizedIntentHash = sample_authorized_intent, va_userOperationHash = h32 (CHR ''d''),
       va_validator = a20 (CHR ''b''), va_validatorKeyIdBinding = h32 (CHR ''3''),
       va_validatorEpoch = BigIntV 1, va_recoveryEpoch = BigIntV 1\<rparr> = Inr r"
    by (auto simp: a computePhilCoreV2ValidatorDigest_def literal_simps uint_fits_def)
  then have d: "computeAuthorityDigest sample_ethers sample_validator_state (sample_package x)
      sample_authorized_intent (sample_authority y) = Inr (dr_digest r)" for x y
    by (simp add: computeAuthorityDigest_def sample_package_def sample_authority_def
        sample_validator_state_def)
  show "computeAuthorityDigest sample_ethers sample_validator_state (sample_package x)
      sample_authorized_intent (sample_authority y) = Inr sample_authority_digest"
    by (simp add: d sample_authority_digest_def)
  have "\<exists>x. dr_digest r = keccak256 sample_ethers x"
    using r by (auto simp: computePhilCoreV2ValidatorDigest_def check_simps typedDigest_iff
        computePhilCoreV2TypedDataDigest_def) metis
  then show "\<exists>x. sample_authority_digest = keccak256 sample_ethers x"
    by (simp add: d sample_authority_digest_def)
qed

lemma sample_engine_bytes32 [literal_simps]:
  "engine_bytes32 sample_ethers (keccak256 sample_ethers x) = Some (keccak256 sample_ethers x)"
  using sample_keccak_nonzero
  by (auto simp: engine_bytes32_iff laws_isHexString [OF sample_ethers_laws]
      laws_keccak256 [OF sample_ethers_laws])

lemma sample_engine_bytes32_h32 [literal_simps]:
  "engine_bytes32 sample_ethers (h32 c) =
     (if hex_digit c \<and> c \<noteq> CHR ''0'' then Some (h32 (lower_char c)) else None)"
  by (auto simp: engine_bytes32_def sample_ethers_def)

lemma sample_accepted:
  "verifyPhilCoreV2Authorization sample_ethers (sample_request sample_validator_state) =
     Inr (Accepted sample_acceptance)"
proof -
  let ?s = sample_validator_state and ?h = "sample_normal_header NATIVE_TRANSFER TRANSFER_ASSET"
  let ?p = "sample_package sample_authority_digest" and ?au = "sample_authority sample_authority_digest"
  obtain i r a d where k:
    "enc_intentCoreHash sample_encoding = keccak256 sample_ethers i"
    "sample_runtime_digest = keccak256 sample_ethers r"
    "sample_authorized_intent = keccak256 sample_ethers a"
    "sample_authority_digest = keccak256 sample_ethers d"
    using sample_encoding_fields(2) sample_runtime_ok(2) sample_authorized_intent_ok(2)
      sample_authority_digest_ok(2) by blast
  have "createPhilCoreV2ValidatorState sample_ethers (validator_input ?s) = Inr ?s"
    using sample_validator_wf by simp
  moreover have "verify_intent_binding sample_ethers ?s (in_header sample_intent) = Inr ()"
    unfolding verify_intent_binding_iff
    by (simp add: sample_intent_def sample_transfer_def sample_header_def sample_validator_state_def
        sample_ethers_def literal_simps)
  moreover have "verify_intent_window ?s ?h (BigIntV 300) = Inr ()"
    unfolding verify_intent_window_iff
    by (simp add: sample_normal_header_def sample_validator_state_def recoveryStateFailure_def)
  moreover have "verify_runtime sample_ethers ?p sample_encoding =
      Inr (sample_runtime_digest, sample_authorized_intent)"
    unfolding verify_runtime_iff
    using sample_runtime_ok(1) sample_authorized_intent_ok(1)
    by (simp add: sample_package_def k literal_simps) (simp add: sample_runtime_def k literal_simps)
  moreover have "composePhilCoreV2Nonce (BigIntV (h_nonceKey ?h)) (BigIntV (h_nonceSequence ?h)) = Inr 0"
    unfolding composePhilCoreV2Nonce_iff by (simp add: sample_normal_header_def uint_fits_def)
  moreover have "verify_authority sample_ethers ?s NATIVE_TRANSFER ?au = Inr ()"
    by (simp add: verify_authority_def sample_authority_def sample_validator_state_def require_def
        engine_address_def engine_bigint_def sample_ethers_def engine_bytes32_def literal_simps)
  moreover have "verify_authority_digest sample_ethers ?s ?p sample_authorized_intent ?au =
      Inr sample_authority_digest"
    unfolding verify_authority_digest_iff
    using sample_authority_digest_ok(1)
    by (simp add: sample_authority_def sample_package_def sample_validator_state_def k literal_simps)
  moreover have "verify_evidence sample_ethers ?s ?au sample_authority_digest sample_verifier = Inr ''fixture''"
    by (simp add: verify_evidence_def Let_def require_def sample_authority_def verification_request_def
        sample_verifier_def fixture_verifier_def fixture_verify_def fixture_evidence_def
        fixture_binding_matches_def getAddress_or_throw_def sample_verification_request_def
        createPhilCoreV2AuthorityEvidenceReference_def authorityKind_def sample_validator_state_def
        sample_normal_expectation_def k literal_simps lower_alnum_def)
  ultimately show ?thesis
    using sample_encoding_ok sample_encoding_fields(1)
    by (simp add: verify_accepted_iff verify_steps_def sample_request_def sample_package_def
        sample_acceptance_def require_def sample_validator_state_def sample_normal_header_def
        sample_authority_def)
qed

section \<open>Properties\<close>

text \<open>
  verification always returns a result. Whatever the request, the promise resolves to an
  acceptance or to a rejection with a code and a stage; the calls outside of try blocks never
  throw.
\<close>

theorem verification_total:
  assumes "ethers_laws E"
  shows "\<exists>r. verifyPhilCoreV2Authorization E rq = Inr r"
  using assms by (rule verify_total)

theorem verification_total_witness:
  "\<exists>r. verifyPhilCoreV2Authorization sample_ethers
     (sample_request (sample_validator_state\<lparr>vs_chainId := 0\<rparr>)) = Inr r"
  by (rule verification_total [OF sample_ethers_laws])

text \<open>
  C4: soundness of the authorization engine. An accepted package has an intent that is accepted,
  bound to the chain, entry point, account, owner and epochs of the state, inside its validity
  window, and let through by the recovery state; an authority of the kind the action requires,
  with the current validator, key binding, epochs and recovery configuration, an active validator
  for a signature and two of the three roles otherwise; hashes that the engine has computed
  itself from the intent; a nonce and an authority digest that were not consumed; and the answer
  of a verifier that accepted exactly this digest for this state and produced no signature.
\<close>

theorem engine_soundness:
  assumes "ethers_laws E" and "verifyPhilCoreV2Authorization E rq = Inr (Accepted a)"
  shows "\<exists>s enc au. authorization_accepted E rq s enc au a"
  using assms verify_accepts verify_accepted_iff by blast

theorem engine_soundness_witness:
  "verifyPhilCoreV2Authorization sample_ethers (sample_request sample_validator_state) =
     Inr (Accepted sample_acceptance) \<and>
   (\<exists>s enc au. authorization_accepted sample_ethers (sample_request sample_validator_state) s enc au
      sample_acceptance)"
  using engine_soundness [OF sample_ethers_laws sample_accepted] sample_accepted by blast

text \<open>
  what a recovery in progress freezes. While a recovery is active only its cancellation is
  accepted; while a configuration rotation is active, no validator rotation, recovery request,
  recovery cancellation or further configuration rotation is accepted; cancellations are accepted
  only in the state they cancel.
\<close>

theorem recovery_freezes:
  assumes "ethers_laws E" and "verifyPhilCoreV2Authorization E rq = Inr (Accepted a)"
    and "encodePhilCoreV2Intent E (ap_intent (vq_authorizationPackage rq)) = Inr enc"
    and "validator_wf E (vq_state rq)"
  shows "(vs_recoveryState (vq_state rq) = RecoveryActive \<longrightarrow>
            h_actionType (enc_header enc) = RECOVERY_CANCEL) \<and>
         (vs_recoveryState (vq_state rq) = RecoveryConfigRotationActive \<longrightarrow>
            h_actionType (enc_header enc) \<notin> {VALIDATOR_ROTATION, RECOVERY_REQUEST, RECOVERY_CANCEL,
              RECOVERY_CONFIG_ROTATION_REQUEST}) \<and>
         (h_actionType (enc_header enc) = RECOVERY_CANCEL \<longrightarrow>
            vs_recoveryState (vq_state rq) = RecoveryActive) \<and>
         (h_actionType (enc_header enc) = RECOVERY_CONFIG_ROTATION_CANCEL \<longrightarrow>
            vs_recoveryState (vq_state rq) = RecoveryConfigRotationActive)"
proof -
  from assms(1,2) verify_accepts verify_accepted_iff obtain s enc' au
    where acc: "authorization_accepted E rq s enc' au a" by blast
  then have "s = vq_state rq" "enc' = enc"
    using assms(3,4) by (simp_all add: authorization_accepted_def)
  with acc have "recovery_gate (vs_recoveryState (vq_state rq)) (h_actionType (enc_header enc))"
    by (auto simp: authorization_accepted_def intent_bound_def)
  then show ?thesis by (cases "vs_recoveryState (vq_state rq)") auto
qed

theorem recovery_freezes_witness:
  "verifyPhilCoreV2Authorization sample_ethers (sample_request sample_validator_state) =
     Inr (Accepted sample_acceptance) \<and>
   vs_recoveryState sample_validator_state \<noteq> RecoveryActive"
  using recovery_freezes [OF sample_ethers_laws sample_accepted, of sample_encoding] sample_accepted
    sample_encoding_ok sample_validator_wf sample_encoding_fields(1)
  by (auto simp: sample_request_def sample_package_def sample_normal_header_def)

text \<open>
  C10: who authorizes what. An accepted recovery request, recovery cancellation or cancellation of
  a configuration rotation is authorized by a recovery quorum, a configuration rotation by the
  rotation authority, every other action by a signature of the active validator; a quorum is two
  of the three roles; the combined validator and recovery authority is never accepted.
\<close>

theorem accepted_authority:
  assumes "ethers_laws E" and "verifyPhilCoreV2Authorization E rq = Inr (Accepted a)"
    and "encodePhilCoreV2Intent E (ap_intent (vq_authorizationPackage rq)) = Inr enc"
    and "validator_wf E (vq_state rq)"
  shows "aa_authorityKind a \<noteq> ''combined_validator_recovery'' \<and>
    (case h_actionType (enc_header enc) of
       RECOVERY_REQUEST \<Rightarrow> aa_authorityKind a = ''recovery_threshold''
     | RECOVERY_CANCEL \<Rightarrow> aa_authorityKind a = ''recovery_threshold''
     | RECOVERY_CONFIG_ROTATION_CANCEL \<Rightarrow> aa_authorityKind a = ''recovery_threshold''
     | RECOVERY_CONFIG_ROTATION_REQUEST \<Rightarrow> aa_authorityKind a = ''recovery_config_rotation''
     | _ \<Rightarrow> aa_authorityKind a = ''validator_signature'' \<and> vs_validatorStatus (vq_state rq) = Active) \<and>
    (aa_authorityKind a \<noteq> ''validator_signature'' \<longrightarrow>
       (\<exists>au n. ap_authority (vq_authorizationPackage rq) = Some au \<and>
         ai_factorBitmap au = Some (IntegerNumber n) \<and> card (selected_roles n) = 2))"
proof -
  from assms(1,2) verify_accepts verify_accepted_iff obtain s enc' au
    where acc: "authorization_accepted E rq s enc' au a" by blast
  then have "s = vq_state rq" "enc' = enc"
    using assms(3,4) by (simp_all add: authorization_accepted_def)
  with acc have b: "authority_bound E (vq_state rq) (h_actionType (enc_header enc)) au"
    "aa_authorityKind a = ai_authorityKind au" "ap_authority (vq_authorizationPackage rq) = Some au"
    by (simp_all add: authorization_accepted_def)
  then show ?thesis
    unfolding authority_bound_def by (cases "h_actionType (enc_header enc)") auto
qed

theorem accepted_authority_witness:
  "aa_authorityKind sample_acceptance = ''validator_signature'' \<and>
   vs_validatorStatus sample_validator_state = Active"
  using accepted_authority [OF sample_ethers_laws sample_accepted, of sample_encoding]
    sample_encoding_ok sample_validator_wf sample_encoding_fields(1)
  by (auto simp: sample_request_def sample_package_def sample_normal_header_def)

text \<open>
  acceptance with the fixture verifier. With a fixture verifier, whatever the engine accepts
  is on the verifier's allow-list, with the digest the engine computed and the chain, account,
  validator, key binding, epochs, recovery configuration and factor bitmap of the state and
  package.
\<close>

theorem fixture_acceptance:
  assumes "ethers_laws E"
    and "vq_authorityVerifier rq = fixture_verifier E vid expectations"
    and "verifyPhilCoreV2Authorization E rq = Inr (Accepted a)"
  shows "\<exists>s enc au. authorization_accepted E rq s enc au a \<and>
    fixture_allows E expectations (verification_request s au (aa_authorityDigest a))"
  using assms by (rule fixture.accepted_allowed)

theorem fixture_acceptance_witness:
  "\<exists>s au. fixture_allows sample_ethers
     [sample_normal_expectation\<lparr>fx_digest := sample_authority_digest\<rparr>]
     (verification_request s au sample_authority_digest)"
  using fixture_acceptance [OF sample_ethers_laws _ sample_accepted, of "''fixture''"
      "[sample_normal_expectation\<lparr>fx_digest := sample_authority_digest\<rparr>]"]
  by (auto simp: sample_request_def sample_verifier_def sample_acceptance_def)

text \<open>
  a consumed authorization is not accepted again. When a package was accepted and its
  authority digest and nonce have been consumed, every verification of the same package, with the
  same or any other verifier and at any time, is rejected in every state that any sequence of
  validator operations leads to.
\<close>

theorem accepted_once:
  assumes "ethers_laws E" and "validator_wf E (vq_state rq)"
    and "verifyPhilCoreV2Authorization E rq = Inr (Accepted a)"
    and "consumePhilCoreV2AuthorizationLocally E (vq_state rq) (aa_authorityDigest a) k q = Inr t"
    and "composePhilCoreV2Nonce k q = Inr (aa_keyedNonce a)"
    and "(validator_step E)\<^sup>*\<^sup>* t u"
    and "vq_state rq' = u" and "vq_authorizationPackage rq' = vq_authorizationPackage rq"
  shows "\<exists>code stage. verifyPhilCoreV2Authorization E rq' = Inr (Rejected code stage)"
proof -
  have t: "validator_wf E t" and nt: "aa_keyedNonce a \<in> set (vs_consumedNonces t)"
    using validator_step_sound [OF assms(1,2) validator_step.consume [OF assms(4)]] assms(4,5)
    by (auto simp: consume_effect [OF assms(1,2)])
  from validator_reachable [OF assms(1) t assms(6)] nt
  have u: "validator_wf E u" and nu: "aa_keyedNonce a \<in> set (vs_consumedNonces u)"
    by (auto simp: validator_evolves_def)
  from verify_accepts [OF assms(1) assms(3) [unfolded verify_accepted_iff]]
  obtain s enc au where acc: "authorization_accepted E rq s enc au a" by blast
  have "\<not> (\<exists>a'. verifyPhilCoreV2Authorization E rq' = Inr (Accepted a'))"
  proof
    assume "\<exists>a'. verifyPhilCoreV2Authorization E rq' = Inr (Accepted a')"
    then obtain a' s' enc' au' where "authorization_accepted E rq' s' enc' au' a'"
      using verify_accepts [OF assms(1)] verify_accepted_iff by blast
    then have "s' = u" "enc' = enc" "aa_keyedNonce a' \<notin> set (vs_consumedNonces s')"
      "aa_keyedNonce a' = h_nonceKey (enc_header enc') * 2 ^ 64 + h_nonceSequence (enc_header enc')"
      using acc u assms(7,8) unfolding authorization_accepted_def by auto
    moreover have "aa_keyedNonce a = h_nonceKey (enc_header enc) * 2 ^ 64 + h_nonceSequence (enc_header enc)"
      using acc unfolding authorization_accepted_def by blast
    ultimately show False using nu by simp
  qed
  with verify_total [OF assms(1), of rq'] show ?thesis
    by (metis PhilCoreV2AuthorizationVerificationResult.exhaust)
qed

theorem accepted_once_witness:
  "\<exists>t. consumePhilCoreV2AuthorizationLocally sample_ethers sample_validator_state
         sample_authority_digest (BigIntV 0) (BigIntV 0) = Inr t \<and>
       (\<exists>code stage. verifyPhilCoreV2Authorization sample_ethers (sample_request t) =
          Inr (Rejected code stage))"
proof -
  obtain d where d: "sample_authority_digest = keccak256 sample_ethers d"
    using sample_authority_digest_ok(2) by blast
  have n: "composePhilCoreV2Nonce (BigIntV 0) (BigIntV 0) = Inr 0"
    unfolding composePhilCoreV2Nonce_iff by (simp add: uint_fits_def)
  have "\<exists>t. consumePhilCoreV2AuthorizationLocally sample_ethers sample_validator_state
      sample_authority_digest (BigIntV 0) (BigIntV 0) = Inr t"
    unfolding consume_effect [OF sample_ethers_laws sample_validator_wf] n
    by (simp add: d literal_simps sample_lower_keccak) (simp add: sample_validator_state_def)
  then obtain t where t: "consumePhilCoreV2AuthorizationLocally sample_ethers sample_validator_state
      sample_authority_digest (BigIntV 0) (BigIntV 0) = Inr t" by blast
  from accepted_once [OF sample_ethers_laws, of "sample_request sample_validator_state" sample_acceptance
      "BigIntV 0" "BigIntV 0" t t "sample_request t"] sample_validator_wf sample_accepted t n
  show ?thesis by (simp add: sample_request_def sample_acceptance_def)
qed

end
