(* ===== verification/Json.thy ===== *)
theory Json
  imports Prelude
begin

text \<open>
  \<open>JSON.stringify\<close> without indentation: the values it serialises, strings quoted and escaped as
  the language defines, object members in the order of their creation. Shown here: the
  serialisation determines the value (\<open>render_inject\<close>), which is what a digest of a serialised
  state relies on.
\<close>

datatype json =
    JNull | JBool bool | JNumber int | JString string
  | JArray "json list" | JObject "(string \<times> json) list"

section \<open>Rendering\<close>

definition lower_hex :: "nat \<Rightarrow> char" where
  "lower_hex d = (if d < 10 then char_of (48 + d) else char_of (87 + d))"

text \<open>QuoteJSONString, for code units up to U+00FF.\<close>

definition escape_char :: "char \<Rightarrow> string" where
  "escape_char c =
     (let n = (of_char c :: nat) in
      if n = 34 then [CHR 0x5C, CHR 0x22]
      else if n = 92 then [CHR 0x5C, CHR 0x5C]
      else if n = 8 then [CHR 0x5C, CHR ''b'']
      else if n = 9 then [CHR 0x5C, CHR ''t'']
      else if n = 10 then [CHR 0x5C, CHR ''n'']
      else if n = 12 then [CHR 0x5C, CHR ''f'']
      else if n = 13 then [CHR 0x5C, CHR ''r'']
      else if n < 32
      then [CHR 0x5C, CHR ''u'', CHR ''0'', CHR ''0'', lower_hex (n div 16), lower_hex (n mod 16)]
      else [c])"

definition quote :: "string \<Rightarrow> string" where
  "quote s = CHR 0x22 # concat (map escape_char s) @ [CHR 0x22]"

text \<open>The elements of a list, separated by commas.\<close>

fun comma_separated :: "string list \<Rightarrow> string" where
  "comma_separated [] = []"
| "comma_separated [x] = x"
| "comma_separated (x # y # zs) = x @ CHR '','' # comma_separated (y # zs)"

fun render :: "json \<Rightarrow> string" where
  "render JNull = ''null''"
| "render (JBool True) = ''true''"
| "render (JBool False) = ''false''"
| "render (JNumber n) = show_int n"
| "render (JString s) = quote s"
| "render (JArray vs) = CHR ''['' # comma_separated (map render vs) @ [CHR '']'']"
| "render (JObject fs) =
     CHR ''{'' # comma_separated (map (\<lambda>(k, v). quote k @ CHR '':'' # render v) fs) @ [CHR ''}'']"

section \<open>Strings are read back\<close>

text \<open>One escaped character and the rest of the text.\<close>

definition hex_of :: "char \<Rightarrow> nat" where
  "hex_of c = (let n = (of_char c :: nat) in if n < 58 then n - 48 else n - 87)"

fun unescape :: "string \<Rightarrow> char \<times> string" where
  "unescape (b # e # t) =
     (if b \<noteq> CHR 0x5C then (b, e # t)
      else if e = CHR ''u'' then (char_of (16 * hex_of (t ! 2) + hex_of (t ! 3)), drop 4 t)
      else (if e = CHR ''b'' then CHR 0x08 else if e = CHR ''t'' then CHR 0x09
            else if e = CHR ''n'' then CHR 0x0A else if e = CHR ''f'' then CHR 0x0C
            else if e = CHR ''r'' then CHR 0x0D else e, t))"
| "unescape [b] = (b, [])"
| "unescape [] = (CHR ''0'', [])"

lemma hex_of_lower_hex: "d < 16 \<Longrightarrow> hex_of (lower_hex d) = d"
  by (auto simp: hex_of_def lower_hex_def)

lemma char_of_code: "(of_char c :: nat) = n \<Longrightarrow> c = char_of n"
  by (metis char_of_char)

lemma unescape_escape: "unescape (escape_char c @ t) = (c, t)"
proof -
  let ?n = "of_char c :: nat"
  consider "?n \<in> {34, 92, 8, 9, 10, 12, 13}" | "?n \<notin> {34, 92, 8, 9, 10, 12, 13}" "?n < 32"
    | "?n \<notin> {34, 92, 8, 9, 10, 12, 13}" "32 \<le> ?n" by linarith
  then show ?thesis
  proof cases
    case 1
    then show ?thesis
      by (auto simp: escape_char_def char_of_def bit_0 dest!: char_of_code)
  next
    case 2
    then have "char_of (16 * (?n div 16) + ?n mod 16) = c" by simp
    moreover have "?n div 16 < 16" "?n mod 16 < 16" using 2 by auto
    ultimately show ?thesis using 2 by (simp add: escape_char_def Let_def hex_of_lower_hex)
  next
    case 3
    then have "c \<noteq> CHR 0x5C" by auto
    with 3 show ?thesis by (cases t) (auto simp: escape_char_def)
  qed
qed

lemma escape_char_head: "\<exists>h t. escape_char c = h # t \<and> h \<noteq> CHR 0x22"
proof -
  have "c \<noteq> CHR 0x22" if "(of_char c :: nat) \<noteq> 34" using that by auto
  then show ?thesis by (auto simp: escape_char_def Let_def)
qed

lemma quoted_inject:
  "concat (map escape_char s) @ CHR 0x22 # x = concat (map escape_char t) @ CHR 0x22 # y \<Longrightarrow>
     s = t \<and> x = y"
proof (induction s arbitrary: t)
  case Nil
  then show ?case using escape_char_head by (cases t) (auto, metis append_Cons list.inject)
next
  case (Cons c s)
  show ?case
  proof (cases t)
    case Nil
    with Cons.prems escape_char_head [of c] show ?thesis by auto
  next
    case (Cons d u)
    with Cons.prems have eq: "escape_char c @ concat (map escape_char s) @ CHR 0x22 # x =
        escape_char d @ concat (map escape_char u) @ CHR 0x22 # y" by simp
    have "c = d \<and> concat (map escape_char s) @ CHR 0x22 # x =
        concat (map escape_char u) @ CHR 0x22 # y"
      using arg_cong [OF eq, of unescape] unfolding unescape_escape by simp
    with Cons.IH Cons show ?thesis by blast
  qed
qed

lemma quote_inject: "quote s @ x = quote t @ y \<Longrightarrow> s = t \<and> x = y"
  using quoted_inject [of s x t y] by (simp add: quote_def)

section \<open>The serialisation determines the value\<close>

text \<open>What may follow a value in a text.\<close>

definition stops :: "string \<Rightarrow> bool" where
  "stops x \<longleftrightarrow> (case x of [] \<Rightarrow> True | c # _ \<Rightarrow> c \<in> {CHR '','', CHR '']'', CHR ''}''})"

definition number_char :: "char \<Rightarrow> bool" where
  "number_char c \<longleftrightarrow> decimal_digit c \<or> c = CHR ''-''"

lemma number_char_not [simp]:
  "\<not> number_char (CHR '','')" "\<not> number_char (CHR '']'')" "\<not> number_char (CHR ''}'')"
  "\<not> number_char (CHR ''{'')" "\<not> number_char (CHR ''['')" "\<not> number_char (CHR 0x22)"
  "\<not> number_char (CHR ''n'')" "\<not> number_char (CHR ''t'')" "\<not> number_char (CHR ''f'')"
  by (simp_all add: number_char_def decimal_digit_def)

lemma show_int_chars: "show_int n \<noteq> [] \<and> list_all number_char (show_int n)"
  using show_nat_digits
  by (auto simp: show_int_def number_char_def list_all_iff)

lemma show_int_head: "\<exists>h t. show_int n = h # t \<and> number_char h"
  using show_int_chars [of n] by (cases "show_int n") auto

lemma takeWhile_show_int: "stops x \<Longrightarrow> takeWhile number_char (show_int n @ x) = show_int n"
  using show_int_chars [of n]
  by (cases x) (auto simp: stops_def takeWhile_append list_all_iff)

lemma show_int_stops_inject:
  assumes eq: "show_int n @ x = show_int m @ y" and "stops x" and "stops y"
  shows "n = m \<and> x = y"
proof -
  from eq have "takeWhile number_char (show_int n @ x) = takeWhile number_char (show_int m @ y)" by simp
  with assms(2,3) have "show_int n = show_int m" by (simp add: takeWhile_show_int)
  with eq show ?thesis by simp
qed

lemma render_head: "\<exists>h t. render v = h # t \<and> h \<notin> {CHR '','', CHR '']'', CHR ''}''}"
proof (cases v)
  case (JBool b)
  then show ?thesis by (cases b) auto
next
  case (JNumber n)
  then show ?thesis using show_int_head [of n] by auto
qed (auto simp: quote_def)

lemma member_head:
  "\<exists>h t. (case p of (k, v) \<Rightarrow> quote k @ CHR '':'' # render v) = h # t \<and> h \<notin> {CHR '','', CHR '']'', CHR ''}''}"
  by (cases p) (simp add: quote_def)

text \<open>Lists of items that are each determined by their text.\<close>

lemma comma_separated_Cons:
  "comma_separated (x # xs) = x @ (if xs = [] then [] else CHR '','' # comma_separated xs)"
  by (cases xs) auto

lemma comma_separated_inject:
  assumes head: "\<And>w. \<exists>h t. f w = h # t \<and> h \<notin> {CHR '','', CHR '']'', CHR ''}''}"
    and c: "c \<in> {CHR '']'', CHR ''}''}"
    and item: "\<And>v w a b. v \<in> set vs \<Longrightarrow> f v @ a = f w @ b \<Longrightarrow> stops a \<Longrightarrow> stops b \<Longrightarrow> v = w \<and> a = b"
    and eq: "comma_separated (map f vs) @ c # x = comma_separated (map f ws) @ c # y"
  shows "vs = ws \<and> x = y"
  using item eq
proof (induction vs arbitrary: ws)
  case Nil
  show ?case
  proof (cases ws)
    case (Cons w us)
    with Nil head [of w] c show ?thesis by (auto simp: comma_separated_Cons)
  qed (use Nil in simp)
next
  case (Cons v vs)
  show ?case
  proof (cases ws)
    case Nil
    with Cons.prems(2) head [of v] c show ?thesis by (auto simp: comma_separated_Cons)
  next
    case ws: (Cons w us)
    let ?r = "\<lambda>us z. (if us = [] then [] else CHR '','' # comma_separated (map f us)) @ c # z"
    have stop: "stops (?r us z)" for us z using c by (auto simp: stops_def)
    from Cons.prems(2) ws have "f v @ ?r vs x = f w @ ?r us y" by (simp add: comma_separated_Cons)
    from Cons.prems(1) [OF _ this stop stop] have same: "v = w" and rest: "?r vs x = ?r us y" by simp_all
    have "comma_separated (map f vs) @ c # x = comma_separated (map f us) @ c # y"
      using rest c by (auto split: if_splits)
    then have "vs = us \<and> x = y"
      by (rule Cons.IH [rotated]) (rule Cons.prems(1), simp)
    with same ws show ?thesis by simp
  qed
qed

lemma render_stops_inject:
  "render v @ x = render w @ y \<Longrightarrow> stops x \<Longrightarrow> stops y \<Longrightarrow> v = w \<and> x = y"
proof (induction v arbitrary: w x y)
  case JNull
  then show ?case using show_int_head by (cases w rule: render.cases) (auto simp: quote_def, metis append_Cons list.inject number_char_not(7))
next
  case (JBool b)
  then show ?case using show_int_head
    by (cases b; cases w rule: render.cases)
       (auto simp: quote_def, (metis append_Cons list.inject number_char_not)+)
next
  case (JNumber n)
  obtain h t where h: "show_int n = h # t" "number_char h" using show_int_head by blast
  from JNumber h show ?case
  proof (cases w rule: render.cases)
    case (4 m)
    with JNumber show ?thesis using show_int_stops_inject [of n x m y] by simp
  qed (auto simp: quote_def)
next
  case (JString s)
  then show ?case
  proof (cases w rule: render.cases)
    case (5 t)
    with JString quote_inject [of s x t y] show ?thesis by simp
  next
    case (4 m)
    with JString show_int_head [of m] show ?thesis by (auto simp: quote_def)
  qed (auto simp: quote_def)
next
  case (JArray vs)
  then show ?case
  proof (cases w rule: render.cases)
    case (4 m)
    with JArray show_int_head [of m] show ?thesis by auto
  next
    case (6 ws)
    with JArray.prems(1) have "comma_separated (map render vs) @ CHR '']'' # x =
        comma_separated (map render ws) @ CHR '']'' # y" by simp
    from comma_separated_inject [OF render_head _ _ this] JArray.IH 6 show ?thesis by blast
  qed (auto simp: quote_def)
next
  case (JObject fs)
  let ?f = "\<lambda>(k, v). quote k @ CHR '':'' # render v"
  from JObject show ?case
  proof (cases w rule: render.cases)
    case (4 m)
    with JObject show_int_head [of m] show ?thesis by auto
  next
    case (7 gs)
    with JObject.prems(1) have eq: "comma_separated (map ?f fs) @ CHR ''}'' # x =
        comma_separated (map ?f gs) @ CHR ''}'' # y" by simp
    have item: "p = q \<and> a = b"
      if "p \<in> set fs" "?f p @ a = ?f q @ b" "stops a" "stops b" for p q a b
    proof -
      obtain k v l u where pq: "p = (k, v)" "q = (l, u)" by (cases p; cases q) auto
      with that(2) have "quote k @ CHR '':'' # render v @ a = quote l @ CHR '':'' # render u @ b" by simp
      then have "k = l" "render v @ a = render u @ b" using quote_inject by blast+
      with JObject.IH [of p v a u b] that pq show ?thesis by (auto simp: snds.simps)
    qed
    from comma_separated_inject [OF member_head _ item eq] 7 show ?thesis by blast
  qed (auto simp: quote_def)
qed

theorem render_inject: "render v = render w \<Longrightarrow> v = w"
  using render_stops_inject [of v "[]" w "[]"] by (simp add: stops_def)

end
