(* ===== verification/Account.thy ===== *)
theory Account
  imports Engine Json
begin

text \<open>
  The account core (\<^verbatim>\<open>v2AccountCore.ts\<close>): the account state, the validation of an operation
  (which issues a validation context), the application of a validated transition (which consumes
  the context) and the completion of a recovery. The contexts issued and consumed, which the code
  keeps in two module-level weak sets, are an explicit store that the operations thread.

  Shown here: every state the operations return is well formed, validation never throws and
  accepts only what the engine accepted for the expected nonce, a context is bound to the whole
  state and applied at most once, each application advances exactly one nonce sequence, and a
  recovery changes the validator only after its delay and before its expiry.
\<close>

section \<open>Data\<close>

definition PHILCORE_V2_ACCOUNT_CORE_FORMAT :: string where
  "PHILCORE_V2_ACCOUNT_CORE_FORMAT = ''philcore-v2-account-core-local-prototype-v1''"

definition PHILCORE_V2_ACCOUNT_VALIDATION_CONTEXT_FORMAT :: string where
  "PHILCORE_V2_ACCOUNT_VALIDATION_CONTEXT_FORMAT = ''philcore-v2-account-validation-context-local-v1''"

definition PHILCORE_V2_RECOVERY_DELAY_SECONDS :: int where
  "PHILCORE_V2_RECOVERY_DELAY_SECONDS = 172800"

definition PHILCORE_V2_RECOVERY_EXPIRY_SECONDS :: int where
  "PHILCORE_V2_RECOVERY_EXPIRY_SECONDS = 604800"

definition MAX_UINT64 :: int where
  "MAX_UINT64 = push_bit 64 1 - 1"

datatype PhilCoreV2AccountRecoveryLifecycle =
    LifecycleNormal | LifecycleActive | LifecycleCompleted | LifecycleCancelled

fun lifecycle_name :: "PhilCoreV2AccountRecoveryLifecycle \<Rightarrow> string" where
  "lifecycle_name LifecycleNormal = ''NORMAL''"
| "lifecycle_name LifecycleActive = ''RECOVERY_ACTIVE''"
| "lifecycle_name LifecycleCompleted = ''RECOVERY_COMPLETED''"
| "lifecycle_name LifecycleCancelled = ''RECOVERY_CANCELLED''"

record PhilCoreV2AccountImmutableInput =
  ii_chainId :: bignumberish
  ii_entryPoint :: string
  ii_account :: string
  ii_ownerCommitment :: string
  ii_factoryBinding :: string
  ii_accountVersionId :: string
  ii_securityModelId :: string
  ii_confirmationTarget :: string
  ii_recoveryDelaySeconds :: bignumberish
  ii_recoveryExpirySeconds :: bignumberish

text \<open>
  The fields that are the same constant in every state (\<open>upgradeable\<close>, \<open>administrator\<close>,
  \<open>upgradeKey\<close>, \<open>arbitraryExecutionEnabled\<close>, \<open>delegatecallEnabled\<close>, \<open>modulesEnabled\<close>,
  \<open>sessionKeysEnabled\<close>, \<open>paymastersEnabled\<close>, and in the state \<open>format\<close> and
  \<open>publicMutationCount\<close>) are not stored; \<open>immutable_json\<close> and \<open>account_json\<close> write them.
\<close>

record PhilCoreV2AccountImmutable =
  im_chainId :: int
  im_entryPoint :: string
  im_account :: string
  im_ownerCommitment :: string
  im_factoryBinding :: string
  im_accountVersionId :: string
  im_securityModelId :: string
  im_confirmationTarget :: string
  im_recoveryDelaySeconds :: int
  im_recoveryExpirySeconds :: int

record PhilCoreV2NonceSequencesInput =
  ni_ordinary :: bignumberish
  ni_maintenance :: bignumberish
  ni_recovery :: bignumberish

record PhilCoreV2NonceSequences =
  ns_ordinary :: int
  ns_maintenance :: int
  ns_recovery :: int

record PhilCoreV2PendingRecovery =
  pr_requestId :: string
  pr_proposedValidator :: string
  pr_proposedValidatorKeyIdBinding :: string
  pr_proposedValidatorEpoch :: int
  pr_sourceValidatorEpoch :: int
  pr_sourceRecoveryEpoch :: int
  pr_requestedAt :: int
  pr_executableAfter :: int
  pr_expiresAt :: int
  pr_authorizationEvidenceCommitment :: string

record PhilCoreV2AccountStateInput =
  si_immutable :: PhilCoreV2AccountImmutableInput
  si_validatorState :: PhilCoreV2ValidatorStateInput
  si_nonceSequences :: PhilCoreV2NonceSequencesInput
  si_validatorCommitment :: string
  si_securityConfigurationHash :: string
  si_primaryDeviceFactorCommitment :: string
  si_hardwareSecurityKeyCommitment :: string
  si_recoveryFactorCommitment :: string
  si_executionLocked :: "bool option"
  si_recoveryLifecycle :: "string option"
  si_pendingRecovery :: "PhilCoreV2PendingRecovery option"

record PhilCoreV2AccountState =
  as_immutable :: PhilCoreV2AccountImmutable
  as_validatorState :: PhilCoreV2ValidatorState
  as_nonceSequences :: PhilCoreV2NonceSequences
  as_validatorCommitment :: string
  as_securityConfigurationHash :: string
  as_primaryDeviceFactorCommitment :: string
  as_hardwareSecurityKeyCommitment :: string
  as_recoveryFactorCommitment :: string
  as_executionLocked :: bool
  as_recoveryLifecycle :: PhilCoreV2AccountRecoveryLifecycle
  as_pendingRecovery :: "PhilCoreV2PendingRecovery option"

record PhilCoreV2FundLifecycleGate =
  fg_lifecycle :: PhilCoreV2FundLifecycleInput
  fg_releasePathVerified :: bool
  fg_residualHandlingBound :: bool
  fg_finalStateVerificationRequired :: bool
  fg_separateReleaseAuthorizationRequired :: bool

text \<open>
  A validation request. The members \<open>arbitraryTarget\<close>, \<open>arbitraryCalldata\<close>, \<open>delegatecall\<close>,
  \<open>module\<close> and \<open>sessionKey\<close> have no value of their type; that a request object has one of them
  all the same is what \<open>Object.hasOwn\<close> tests, on the names of its own properties.
\<close>

record PhilCoreV2AccountValidationRequest =
  ar_state :: PhilCoreV2AccountState
  ar_caller :: string
  ar_keyedNonce :: bignumberish
  ar_userOperationHashBinding :: string
  ar_authorizationPackage :: PhilCoreV2AuthorizationPackage
  ar_currentTime :: bignumberish
  ar_authorityVerifier :: PhilCoreV2AuthorityVerifier
  ar_fundLifecycleGate :: "PhilCoreV2FundLifecycleGate option"
  ar_paymasterPresent :: "bool option"
  ar_ownPropertyNames :: "string list"

datatype PhilCoreV2AccountFailureCode =
    ACCOUNT_STATE_INVALID | CALLER_NOT_ENTRYPOINT | EXECUTION_LOCKED
  | UNRESTRICTED_EXECUTION_PROHIBITED | USER_OPERATION_BINDING_MISMATCH | NONCE_KEY_UNSUPPORTED
  | NONCE_STALE | NONCE_FUTURE | NONCE_ENVELOPE_MISMATCH | ACTION_NOT_IMPLEMENTED
  | CONFIRMATION_TARGET_MISMATCH | PAYMASTER_PROHIBITED | FUND_LIFECYCLE_REQUIRED
  | FUND_LIFECYCLE_INVALID | FUND_LIFECYCLE_MISMATCH | RELEASE_PATH_UNVERIFIED
  | AUTHORIZATION_REJECTED

text \<open>The typed execution draft, without the constant members of its kinds.\<close>

datatype PhilCoreV2TypedExecutionDraft =
    DraftConfirm (df_target: string) (df_confirmationDigest: string)
  | DraftNativeTransfer (df_recipient: string) (df_amountWei: int)
  | DraftERC20Transfer (df_token: string) (df_recipient: string) (df_amount: int)
  | DraftERC721SafeTransfer (df_token: string) (df_recipient: string) (df_tokenId: int)
      (df_receiverDataHash: string)
  | DraftERC1155SafeTransfer (df_token: string) (df_recipient: string) (df_tokenId: int)
      (df_amount: int) (df_receiverDataHash: string)
  | DraftValidatorRotation (df_proposedValidator: string) (df_proposedValidatorKeyIdBinding: string)
      (df_proposedValidatorEpoch: int)
  | DraftRecoveryRequest (df_requestId: string) (df_proposedValidator: string)
      (df_proposedValidatorKeyIdBinding: string) (df_proposedValidatorEpoch: int)
  | DraftRecoveryCancel (df_requestId: string)

text \<open>
  An accepted validation: an object, whose identity is \<open>ax_ref\<close>. It is frozen when it is
  created, so that its identity determines its members.
\<close>

record PhilCoreV2AccountValidation =
  ax_ref :: nat
  ax_format :: string
  ax_authorization :: PhilCoreV2AcceptedAuthorization
  ax_action :: PhilCoreV2TypedExecutionDraft
  ax_nonceKey :: int
  ax_nonceSequence :: int
  ax_validatedStateBinding :: string
  ax_fundLifecycleEnforced :: bool
  ax_publicMutationCount :: int

datatype PhilCoreV2AccountValidationResult =
    AccountAccepted PhilCoreV2AccountValidation
  | AccountRejected PhilCoreV2AccountFailureCode "PhilCoreV2AuthorizationFailureCode option"

text \<open>\<open>issuedValidationContexts\<close> and \<open>consumedValidationContexts\<close>.\<close>

record validation_contexts =
  issuedValidationContexts :: "PhilCoreV2AccountValidation list"
  consumedValidationContexts :: "PhilCoreV2AccountValidation list"

section \<open>Argument checks\<close>

definition account_uint :: "bignumberish \<Rightarrow> nat \<Rightarrow> string \<Rightarrow> int result" where
  "account_uint v bits label =
     catch (BigInt_of v) (throw (label @ ''_must_be_uint'' @ show_nat bits))
       (\<lambda>parsed.
          if parsed < 0 \<or> parsed \<ge> push_bit bits 1 then throw (label @ ''_must_be_uint'' @ show_nat bits)
          else Inr parsed)"

definition account_bytes32 :: "ethers \<Rightarrow> string \<Rightarrow> string \<Rightarrow> string result" where
  "account_bytes32 E v label =
     (if \<not> isHexString E v 32 then throw (label @ ''_must_be_bytes32'')
      else if v = ZERO_BYTES32 then throw (label @ ''_must_be_nonzero'')
      else Inr (toLowerCase v))"

definition account_address :: "ethers \<Rightarrow> string \<Rightarrow> string \<Rightarrow> bool \<Rightarrow> string result" where
  "account_address E v label allowZero =
     (case getAddress E v of
        None \<Rightarrow> throw (label @ ''_must_be_address'')
      | Some normalized \<Rightarrow>
          if \<not> allowZero \<and> normalized = ZERO_ADDRESS then throw (label @ ''_must_be_nonzero'')
          else Inr normalized)"

definition sameAddress :: "ethers \<Rightarrow> string \<Rightarrow> string \<Rightarrow> bool" where
  "sameAddress E left right =
     (case (getAddress E left, getAddress E right) of
        (Some l, Some r) \<Rightarrow> l = r
      | _ \<Rightarrow> False)"

section \<open>Nonce sequences\<close>

definition nonceSequences :: "PhilCoreV2NonceSequencesInput \<Rightarrow> PhilCoreV2NonceSequences result" where
  "nonceSequences input =
     bnd (account_uint (ni_ordinary input) 64 ''ordinaryNonceSequence'') (\<lambda>ordinary.
     bnd (account_uint (ni_maintenance input) 64 ''maintenanceNonceSequence'') (\<lambda>maintenance.
     bnd (account_uint (ni_recovery input) 64 ''recoveryNonceSequence'') (\<lambda>recovery.
     Inr \<lparr>ns_ordinary = ordinary, ns_maintenance = maintenance, ns_recovery = recovery\<rparr>)))"

definition expectedSequence :: "PhilCoreV2NonceSequences \<Rightarrow> int \<Rightarrow> int option" where
  "expectedSequence sequences key =
     (if key = PHILCORE_V2_NONCE_KEY ORDINARY then Some (ns_ordinary sequences)
      else if key = PHILCORE_V2_NONCE_KEY MAINTENANCE then Some (ns_maintenance sequences)
      else if key = PHILCORE_V2_NONCE_KEY RECOVERY then Some (ns_recovery sequences)
      else None)"

definition incrementSequence ::
  "PhilCoreV2NonceSequences \<Rightarrow> int \<Rightarrow> PhilCoreV2NonceSequences result" where
  "incrementSequence sequences key =
     (case expectedSequence sequences key of
        None \<Rightarrow> throw ''nonce_key_unsupported''
      | Some current \<Rightarrow>
          if current = MAX_UINT64 then throw ''nonce_sequence_exhausted''
          else Inr
            \<lparr>ns_ordinary = (if key = 0 then current + 1 else ns_ordinary sequences),
             ns_maintenance = (if key = 1 then current + 1 else ns_maintenance sequences),
             ns_recovery = (if key = 2 then current + 1 else ns_recovery sequences)\<rparr>)"

definition normalizePendingRecovery ::
  "ethers \<Rightarrow> PhilCoreV2PendingRecovery option \<Rightarrow> PhilCoreV2PendingRecovery option result" where
  "normalizePendingRecovery E pending =
     (case pending of
        None \<Rightarrow> Inr None
      | Some pending \<Rightarrow>
          bnd (account_uint (BigIntV (pr_requestedAt pending)) 48 ''requestedAt'') (\<lambda>requestedAt.
          bnd (account_uint (BigIntV (pr_executableAfter pending)) 48 ''executableAfter'')
            (\<lambda>executableAfter.
          bnd (account_uint (BigIntV (pr_expiresAt pending)) 48 ''expiresAt'') (\<lambda>expiresAt.
          bnd (ensure (requestedAt < executableAfter \<and> executableAfter < expiresAt)
                 ''pendingRecovery_timing_invalid'') (\<lambda>_.
          bnd (account_bytes32 E (pr_requestId pending) ''recoveryRequestId'') (\<lambda>requestId.
          bnd (account_address E (pr_proposedValidator pending) ''proposedValidator'' False)
            (\<lambda>proposedValidator.
          bnd (account_bytes32 E (pr_proposedValidatorKeyIdBinding pending)
                 ''proposedValidatorKeyIdBinding'') (\<lambda>binding.
          bnd (account_uint (BigIntV (pr_proposedValidatorEpoch pending)) 64 ''proposedValidatorEpoch'')
            (\<lambda>proposedValidatorEpoch.
          bnd (account_uint (BigIntV (pr_sourceValidatorEpoch pending)) 64 ''sourceValidatorEpoch'')
            (\<lambda>sourceValidatorEpoch.
          bnd (account_uint (BigIntV (pr_sourceRecoveryEpoch pending)) 64 ''sourceRecoveryEpoch'')
            (\<lambda>sourceRecoveryEpoch.
          bnd (account_bytes32 E (pr_authorizationEvidenceCommitment pending)
                 ''authorizationEvidenceCommitment'') (\<lambda>commitment.
          Inr (Some
            \<lparr>pr_requestId = requestId, pr_proposedValidator = proposedValidator,
             pr_proposedValidatorKeyIdBinding = binding,
             pr_proposedValidatorEpoch = proposedValidatorEpoch,
             pr_sourceValidatorEpoch = sourceValidatorEpoch,
             pr_sourceRecoveryEpoch = sourceRecoveryEpoch, pr_requestedAt = requestedAt,
             pr_executableAfter = executableAfter, pr_expiresAt = expiresAt,
             pr_authorizationEvidenceCommitment = commitment\<rparr>)))))))))))))"

section \<open>The account state\<close>

text \<open>The immutable part and the checks on it.\<close>

definition account_immutable ::
  "ethers \<Rightarrow> PhilCoreV2AccountImmutableInput \<Rightarrow> PhilCoreV2AccountImmutable result" where
  "account_immutable E input =
     bnd (account_uint (ii_chainId input) 256 ''chainId'') (\<lambda>chainId.
     bnd (account_address E (ii_entryPoint input) ''entryPoint'' False) (\<lambda>entryPoint.
     bnd (account_address E (ii_account input) ''account'' False) (\<lambda>account.
     bnd (account_bytes32 E (ii_ownerCommitment input) ''ownerCommitment'') (\<lambda>ownerCommitment.
     bnd (account_address E (ii_factoryBinding input) ''factoryBinding'' False) (\<lambda>factoryBinding.
     bnd (account_bytes32 E (ii_accountVersionId input) ''accountVersionId'') (\<lambda>accountVersionId.
     bnd (account_bytes32 E (ii_securityModelId input) ''securityModelId'') (\<lambda>securityModelId.
     bnd (account_address E (ii_confirmationTarget input) ''confirmationTarget'' False)
       (\<lambda>confirmationTarget.
     bnd (account_uint (ii_recoveryDelaySeconds input) 48 ''recoveryDelaySeconds'') (\<lambda>delay.
     bnd (account_uint (ii_recoveryExpirySeconds input) 48 ''recoveryExpirySeconds'') (\<lambda>expiry.
     bnd (ensure (chainId \<noteq> 0) ''chainId_must_be_nonzero'') (\<lambda>_.
     bnd (ensure (accountVersionId = PHILCORE_V2_ACCOUNT_VERSION_ID E)
            ''accountVersionId_unsupported'') (\<lambda>_.
     bnd (ensure (securityModelId = PHILCORE_V2_SECURITY_MODEL_ID E)
            ''securityModelId_unsupported'') (\<lambda>_.
     bnd (ensure (delay = PHILCORE_V2_RECOVERY_DELAY_SECONDS \<and>
                  expiry = PHILCORE_V2_RECOVERY_EXPIRY_SECONDS) ''recovery_timing_not_canonical'') (\<lambda>_.
     Inr \<lparr>im_chainId = chainId, im_entryPoint = entryPoint, im_account = account,
          im_ownerCommitment = ownerCommitment, im_factoryBinding = factoryBinding,
          im_accountVersionId = accountVersionId, im_securityModelId = securityModelId,
          im_confirmationTarget = confirmationTarget, im_recoveryDelaySeconds = delay,
          im_recoveryExpirySeconds = expiry\<rparr>))))))))))))))"

definition recoveryLifecycle :: "string \<Rightarrow> PhilCoreV2AccountRecoveryLifecycle result" where
  "recoveryLifecycle v =
     (if v = ''NORMAL'' then Inr LifecycleNormal
      else if v = ''RECOVERY_ACTIVE'' then Inr LifecycleActive
      else if v = ''RECOVERY_COMPLETED'' then Inr LifecycleCompleted
      else if v = ''RECOVERY_CANCELLED'' then Inr LifecycleCancelled
      else throw ''recoveryLifecycle_unsupported'')"

text \<open>The commitment to the validator of a state, as the account computes it.\<close>

definition validator_commitment :: "ethers \<Rightarrow> PhilCoreV2ValidatorState \<Rightarrow> string result" where
  "validator_commitment E validatorState =
     computePhilCoreV2ValidatorCommitment E
       \<lparr>vc_verifierKind =
          NumberV (IntegerNumber PHILCORE_V2_VALIDATOR_VERIFIER_KIND_SECP256K1_ECDSA),
        vc_validator = vs_validator validatorState,
        vc_validatorKeyIdBinding = vs_validatorKeyIdBinding validatorState\<rparr>"

definition security_configuration :: "ethers \<Rightarrow> string \<Rightarrow> string \<Rightarrow> string \<Rightarrow> string result" where
  "security_configuration E primary hardware factor =
     computePhilCoreV2RecoveryConfigurationHash E
       \<lparr>rc_configurationVersion = NumberV (IntegerNumber PHILCORE_V2_RECOVERY_CONFIGURATION_VERSION),
        rc_threshold = NumberV (IntegerNumber PHILCORE_V2_RECOVERY_THRESHOLD),
        rc_primaryDeviceCommitment = primary, rc_hardwareSecurityKeyCommitment = hardware,
        rc_recoveryFactorCommitment = factor\<rparr>"

definition createPhilCoreV2AccountState ::
  "ethers \<Rightarrow> PhilCoreV2AccountStateInput \<Rightarrow> PhilCoreV2AccountState result" where
  "createPhilCoreV2AccountState E input =
     bnd (account_immutable E (si_immutable input)) (\<lambda>immutable.
     bnd (createPhilCoreV2ValidatorState E (si_validatorState input)) (\<lambda>validatorState.
     bnd (ensure (\<not> (vs_chainId validatorState \<noteq> im_chainId immutable \<or>
                    vs_entryPoint validatorState \<noteq> im_entryPoint immutable \<or>
                    vs_account validatorState \<noteq> im_account immutable \<or>
                    vs_ownerCommitment validatorState \<noteq> im_ownerCommitment immutable))
            ''validatorState_immutable_binding_mismatch'') (\<lambda>_.
     bnd (account_bytes32 E (si_validatorCommitment input) ''validatorCommitment'')
       (\<lambda>validatorCommitment.
     bnd (validator_commitment E validatorState) (\<lambda>commitment.
     bnd (ensure (validatorCommitment = commitment) ''validatorCommitment_state_mismatch'') (\<lambda>_.
     bnd (account_bytes32 E (si_securityConfigurationHash input) ''securityConfigurationHash'')
       (\<lambda>securityConfigurationHash.
     bnd (account_bytes32 E (si_primaryDeviceFactorCommitment input) ''primaryDeviceFactorCommitment'')
       (\<lambda>primary.
     bnd (account_bytes32 E (si_hardwareSecurityKeyCommitment input) ''hardwareSecurityKeyCommitment'')
       (\<lambda>hardware.
     bnd (account_bytes32 E (si_recoveryFactorCommitment input) ''recoveryFactorCommitment'') (\<lambda>factor.
     bnd (ensure (securityConfigurationHash = vs_recoveryConfigHash validatorState)
            ''securityConfigurationHash_state_mismatch'') (\<lambda>_.
     bnd (security_configuration E primary hardware factor) (\<lambda>configuration.
     bnd (ensure (securityConfigurationHash = configuration)
            ''securityConfigurationHash_state_mismatch'') (\<lambda>_.
     bnd (recoveryLifecycle (case si_recoveryLifecycle input of None \<Rightarrow> ''NORMAL'' | Some l \<Rightarrow> l))
       (\<lambda>lifecycle.
     bnd (normalizePendingRecovery E (si_pendingRecovery input)) (\<lambda>pendingRecovery.
     bnd (ensure (\<not> ((lifecycle = LifecycleActive) \<noteq> (pendingRecovery \<noteq> None) \<or>
                    (lifecycle = LifecycleActive) \<noteq> (vs_recoveryState validatorState = RecoveryActive)))
            ''recoveryLifecycle_state_mismatch'') (\<lambda>_.
     bnd (ensure (\<not> (lifecycle \<noteq> LifecycleActive \<and> vs_recoveryState validatorState = RecoveryActive))
            ''recoveryLifecycle_state_mismatch'') (\<lambda>_.
     bnd (nonceSequences (si_nonceSequences input)) (\<lambda>sequences.
     Inr \<lparr>as_immutable = immutable, as_validatorState = validatorState,
          as_nonceSequences = sequences, as_validatorCommitment = validatorCommitment,
          as_securityConfigurationHash = securityConfigurationHash,
          as_primaryDeviceFactorCommitment = primary, as_hardwareSecurityKeyCommitment = hardware,
          as_recoveryFactorCommitment = factor,
          as_executionLocked = (si_executionLocked input = Some True),
          as_recoveryLifecycle = lifecycle, as_pendingRecovery = pendingRecovery\<rparr>))))))))))))))))))"

text \<open>An account state, used as an input again.\<close>

definition immutable_input :: "PhilCoreV2AccountImmutable \<Rightarrow> PhilCoreV2AccountImmutableInput" where
  "immutable_input im =
     \<lparr>ii_chainId = BigIntV (im_chainId im), ii_entryPoint = im_entryPoint im,
      ii_account = im_account im, ii_ownerCommitment = im_ownerCommitment im,
      ii_factoryBinding = im_factoryBinding im, ii_accountVersionId = im_accountVersionId im,
      ii_securityModelId = im_securityModelId im, ii_confirmationTarget = im_confirmationTarget im,
      ii_recoveryDelaySeconds = BigIntV (im_recoveryDelaySeconds im),
      ii_recoveryExpirySeconds = BigIntV (im_recoveryExpirySeconds im)\<rparr>"

definition sequences_input :: "PhilCoreV2NonceSequences \<Rightarrow> PhilCoreV2NonceSequencesInput" where
  "sequences_input ns =
     \<lparr>ni_ordinary = BigIntV (ns_ordinary ns), ni_maintenance = BigIntV (ns_maintenance ns),
      ni_recovery = BigIntV (ns_recovery ns)\<rparr>"

definition account_input :: "PhilCoreV2AccountState \<Rightarrow> PhilCoreV2AccountStateInput" where
  "account_input s =
     \<lparr>si_immutable = immutable_input (as_immutable s),
      si_validatorState = validator_input (as_validatorState s),
      si_nonceSequences = sequences_input (as_nonceSequences s),
      si_validatorCommitment = as_validatorCommitment s,
      si_securityConfigurationHash = as_securityConfigurationHash s,
      si_primaryDeviceFactorCommitment = as_primaryDeviceFactorCommitment s,
      si_hardwareSecurityKeyCommitment = as_hardwareSecurityKeyCommitment s,
      si_recoveryFactorCommitment = as_recoveryFactorCommitment s,
      si_executionLocked = Some (as_executionLocked s),
      si_recoveryLifecycle = Some (lifecycle_name (as_recoveryLifecycle s)),
      si_pendingRecovery = as_pendingRecovery s\<rparr>"

section \<open>The state binding\<close>

text \<open>
  \<open>JSON.stringify(state, replacer)\<close>: the members in the order the code creates them, bigints
  replaced by their decimal strings.
\<close>

definition jbigint :: "int \<Rightarrow> json" where
  "jbigint n = JString (show_int n)"

definition immutable_json :: "PhilCoreV2AccountImmutable \<Rightarrow> json" where
  "immutable_json im = JObject
     [(''chainId'', jbigint (im_chainId im)), (''entryPoint'', JString (im_entryPoint im)),
      (''account'', JString (im_account im)), (''ownerCommitment'', JString (im_ownerCommitment im)),
      (''factoryBinding'', JString (im_factoryBinding im)),
      (''accountVersionId'', JString (im_accountVersionId im)),
      (''securityModelId'', JString (im_securityModelId im)),
      (''confirmationTarget'', JString (im_confirmationTarget im)),
      (''recoveryDelaySeconds'', jbigint (im_recoveryDelaySeconds im)),
      (''recoveryExpirySeconds'', jbigint (im_recoveryExpirySeconds im)),
      (''upgradeable'', JBool False), (''administrator'', JNull), (''upgradeKey'', JNull),
      (''arbitraryExecutionEnabled'', JBool False), (''delegatecallEnabled'', JBool False),
      (''modulesEnabled'', JBool False), (''sessionKeysEnabled'', JBool False),
      (''paymastersEnabled'', JBool False)]"

definition validator_json :: "PhilCoreV2ValidatorState \<Rightarrow> json" where
  "validator_json s = JObject
     [(''chainId'', jbigint (vs_chainId s)), (''entryPoint'', JString (vs_entryPoint s)),
      (''account'', JString (vs_account s)), (''ownerCommitment'', JString (vs_ownerCommitment s)),
      (''validator'', JString (vs_validator s)),
      (''validatorKeyIdBinding'', JString (vs_validatorKeyIdBinding s)),
      (''validatorEpoch'', jbigint (vs_validatorEpoch s)),
      (''validatorStatus'', JString (validator_status_name (vs_validatorStatus s))),
      (''recoveryEpoch'', jbigint (vs_recoveryEpoch s)),
      (''recoveryConfigHash'', JString (vs_recoveryConfigHash s)),
      (''recoveryState'', JString (recovery_state_name (vs_recoveryState s))),
      (''consumedAuthorizationDigests'', JArray (map JString (vs_consumedAuthorizationDigests s))),
      (''consumedNonces'', JArray (map jbigint (vs_consumedNonces s)))]"

definition sequences_json :: "PhilCoreV2NonceSequences \<Rightarrow> json" where
  "sequences_json ns = JObject
     [(''ordinary'', jbigint (ns_ordinary ns)), (''maintenance'', jbigint (ns_maintenance ns)),
      (''recovery'', jbigint (ns_recovery ns))]"

definition pending_json :: "PhilCoreV2PendingRecovery \<Rightarrow> json" where
  "pending_json pr = JObject
     [(''requestId'', JString (pr_requestId pr)),
      (''proposedValidator'', JString (pr_proposedValidator pr)),
      (''proposedValidatorKeyIdBinding'', JString (pr_proposedValidatorKeyIdBinding pr)),
      (''proposedValidatorEpoch'', jbigint (pr_proposedValidatorEpoch pr)),
      (''sourceValidatorEpoch'', jbigint (pr_sourceValidatorEpoch pr)),
      (''sourceRecoveryEpoch'', jbigint (pr_sourceRecoveryEpoch pr)),
      (''requestedAt'', jbigint (pr_requestedAt pr)),
      (''executableAfter'', jbigint (pr_executableAfter pr)),
      (''expiresAt'', jbigint (pr_expiresAt pr)),
      (''authorizationEvidenceCommitment'', JString (pr_authorizationEvidenceCommitment pr))]"

definition account_json :: "PhilCoreV2AccountState \<Rightarrow> json" where
  "account_json s = JObject
     [(''format'', JString PHILCORE_V2_ACCOUNT_CORE_FORMAT),
      (''immutable'', immutable_json (as_immutable s)),
      (''validatorState'', validator_json (as_validatorState s)),
      (''nonceSequences'', sequences_json (as_nonceSequences s)),
      (''validatorCommitment'', JString (as_validatorCommitment s)),
      (''securityConfigurationHash'', JString (as_securityConfigurationHash s)),
      (''primaryDeviceFactorCommitment'', JString (as_primaryDeviceFactorCommitment s)),
      (''hardwareSecurityKeyCommitment'', JString (as_hardwareSecurityKeyCommitment s)),
      (''recoveryFactorCommitment'', JString (as_recoveryFactorCommitment s)),
      (''executionLocked'', JBool (as_executionLocked s)),
      (''recoveryLifecycle'', JString (lifecycle_name (as_recoveryLifecycle s))),
      (''pendingRecovery'',
         case as_pendingRecovery s of None \<Rightarrow> JNull | Some pr \<Rightarrow> pending_json pr),
      (''publicMutationCount'', JNumber 0)]"

definition accountStateBinding :: "ethers \<Rightarrow> PhilCoreV2AccountState \<Rightarrow> string" where
  "accountStateBinding E state = keccak256 E (toUtf8Bytes E (render (account_json state)))"

section \<open>Fund lifecycle and typed actions\<close>

fun isValueMoving :: "PhilCoreV2ActionPayloadInput \<Rightarrow> bool" where
  "isValueMoving (NativeTransfer _ _) = True"
| "isValueMoving (ERC20Transfer _ _ _) = True"
| "isValueMoving (ERC721SafeTransfer _ _ _ _) = True"
| "isValueMoving (ERC1155SafeTransfer _ _ _ _ _) = True"
| "isValueMoving _ = False"

text \<open>The asset, token id and amount a payload moves.\<close>

fun expected_asset :: "PhilCoreV2ActionPayloadInput \<Rightarrow> string option" where
  "expected_asset (NativeTransfer _ _) = Some ZERO_ADDRESS"
| "expected_asset (ERC20Transfer token _ _) = Some token"
| "expected_asset (ERC721SafeTransfer token _ _ _) = Some token"
| "expected_asset (ERC1155SafeTransfer token _ _ _ _) = Some token"
| "expected_asset _ = None"

fun expected_token_id :: "PhilCoreV2ActionPayloadInput \<Rightarrow> int result" where
  "expected_token_id (ERC721SafeTransfer _ _ tokenId _) = BigInt_of tokenId"
| "expected_token_id (ERC1155SafeTransfer _ _ tokenId _ _) = BigInt_of tokenId"
| "expected_token_id _ = Inr 0"

fun authorized_amount :: "PhilCoreV2ActionPayloadInput \<Rightarrow> int result" where
  "authorized_amount (NativeTransfer _ amountWei) = BigInt_of amountWei"
| "authorized_amount (ERC20Transfer _ _ amount) = BigInt_of amount"
| "authorized_amount (ERC1155SafeTransfer _ _ _ amount _) = BigInt_of amount"
| "authorized_amount _ = Inr 1"

text \<open>
  The comparisons of the gate with the payload, in the order of the source: \<open>Inr None\<close> is no
  failure. \<open>BigInt\<close> of a malformed number would throw.
\<close>

definition fund_lifecycle_amounts ::
  "ethers \<Rightarrow> PhilCoreV2FundLifecycleInput \<Rightarrow> PhilCoreV2ActionPayloadInput \<Rightarrow>
     PhilCoreV2AccountFailureCode option result" where
  "fund_lifecycle_amounts E lifecycle payload =
     (case expected_asset payload of
        None \<Rightarrow> Inr (Some FUND_LIFECYCLE_INVALID)
      | Some expectedAsset \<Rightarrow>
          bnd (expected_token_id payload) (\<lambda>expectedTokenId.
          if \<not> sameAddress E (fl_asset lifecycle) expectedAsset
          then Inr (Some FUND_LIFECYCLE_MISMATCH)
          else bnd (BigInt_of (fl_tokenId lifecycle)) (\<lambda>tokenId.
          if tokenId \<noteq> expectedTokenId then Inr (Some FUND_LIFECYCLE_MISMATCH)
          else bnd (BigInt_of (fl_expectedFinalBalance lifecycle)) (\<lambda>expectedFinalBalance.
          bnd (BigInt_of (fl_maximumStranded lifecycle)) (\<lambda>maximumStranded.
          if expectedFinalBalance > maximumStranded then Inr (Some FUND_LIFECYCLE_MISMATCH)
          else bnd (authorized_amount payload) (\<lambda>authorizedAmount.
          bnd (BigInt_of (fl_maximumFundingOrHolding lifecycle)) (\<lambda>maximumFundingOrHolding.
          Inr (if authorizedAmount > maximumFundingOrHolding
               then Some FUND_LIFECYCLE_MISMATCH else None))))))))"

definition validateFundLifecycle ::
  "ethers \<Rightarrow> PhilCoreV2AccountState \<Rightarrow> PhilCoreV2ActionPayloadInput \<Rightarrow> string \<Rightarrow>
     PhilCoreV2FundLifecycleGate option \<Rightarrow> PhilCoreV2AccountFailureCode option result" where
  "validateFundLifecycle E state payload expectedDigest gate =
     (if \<not> isValueMoving payload then Inr None
      else case gate of
        None \<Rightarrow> Inr (Some FUND_LIFECYCLE_REQUIRED)
      | Some gate \<Rightarrow>
          if \<not> fg_releasePathVerified gate \<or> \<not> fg_residualHandlingBound gate \<or>
             \<not> fg_finalStateVerificationRequired gate \<or>
             \<not> fg_separateReleaseAuthorizationRequired gate
          then Inr (Some RELEASE_PATH_UNVERIFIED)
          else let lifecycle = fg_lifecycle gate in
            catch (computePhilCoreV2FundLifecycleDigest E lifecycle)
              (Inr (Some FUND_LIFECYCLE_INVALID)) (\<lambda>digest.
            if digest \<noteq> toLowerCase expectedDigest \<or>
               \<not> sameAddress E (fl_account lifecycle) (im_account (as_immutable state)) \<or>
               sameAddress E (fl_residualRecipient lifecycle) ZERO_ADDRESS
            then Inr (Some FUND_LIFECYCLE_MISMATCH)
            else fund_lifecycle_amounts E lifecycle payload))"

text \<open>\<open>Inr None\<close> is \<open>undefined\<close>: an action the account does not implement.\<close>

fun typedAction ::
  "ethers \<Rightarrow> PhilCoreV2ActionPayloadInput \<Rightarrow> string \<Rightarrow> PhilCoreV2TypedExecutionDraft option result" where
  "typedAction E (Confirm target digest) authorizedIntentHash =
     bnd (getAddress_or_throw E target) (\<lambda>target.
     Inr (Some (DraftConfirm target (toLowerCase digest))))"
| "typedAction E (NativeTransfer recipient amountWei) authorizedIntentHash =
     bnd (getAddress_or_throw E recipient) (\<lambda>recipient.
     bnd (BigInt_of amountWei) (\<lambda>amountWei.
     Inr (Some (DraftNativeTransfer recipient amountWei))))"
| "typedAction E (ERC20Transfer token recipient amount) authorizedIntentHash =
     bnd (getAddress_or_throw E token) (\<lambda>token.
     bnd (getAddress_or_throw E recipient) (\<lambda>recipient.
     bnd (BigInt_of amount) (\<lambda>amount.
     Inr (Some (DraftERC20Transfer token recipient amount)))))"
| "typedAction E (ERC721SafeTransfer token recipient tokenId receiverDataHash) authorizedIntentHash =
     bnd (getAddress_or_throw E token) (\<lambda>token.
     bnd (getAddress_or_throw E recipient) (\<lambda>recipient.
     bnd (BigInt_of tokenId) (\<lambda>tokenId.
     Inr (Some (DraftERC721SafeTransfer token recipient tokenId (toLowerCase receiverDataHash))))))"
| "typedAction E (ERC1155SafeTransfer token recipient tokenId amount receiverDataHash)
     authorizedIntentHash =
     bnd (getAddress_or_throw E token) (\<lambda>token.
     bnd (getAddress_or_throw E recipient) (\<lambda>recipient.
     bnd (BigInt_of tokenId) (\<lambda>tokenId.
     bnd (BigInt_of amount) (\<lambda>amount.
     Inr (Some (DraftERC1155SafeTransfer token recipient tokenId amount
       (toLowerCase receiverDataHash)))))))"
| "typedAction E (ValidatorRotation validator binding epoch) authorizedIntentHash =
     bnd (getAddress_or_throw E validator) (\<lambda>validator.
     bnd (BigInt_of epoch) (\<lambda>epoch.
     Inr (Some (DraftValidatorRotation validator (toLowerCase binding) epoch))))"
| "typedAction E (RecoveryRequest validator binding epoch salt) authorizedIntentHash =
     bnd (getAddress_or_throw E validator) (\<lambda>validator.
     bnd (BigInt_of epoch) (\<lambda>epoch.
     Inr (Some (DraftRecoveryRequest authorizedIntentHash validator (toLowerCase binding) epoch))))"
| "typedAction E (RecoveryCancel requestId) authorizedIntentHash =
     Inr (Some (DraftRecoveryCancel (toLowerCase requestId)))"
| "typedAction E _ authorizedIntentHash = Inr None"

section \<open>Validation\<close>

text \<open>
  Early returns as in the engine: \<open>Inl\<close> ends the validation, with a rejection or an exception.
\<close>

datatype account_exit =
    Refuse PhilCoreV2AccountFailureCode "PhilCoreV2AuthorizationFailureCode option"
  | Escape js_error

type_synonym 'a validation = "account_exit + 'a"

definition demand :: "bool \<Rightarrow> PhilCoreV2AccountFailureCode \<Rightarrow> unit validation" where
  "demand c code = (if c then Inr () else Inl (Refuse code None))"

fun guarded ::
  "'a result \<Rightarrow> PhilCoreV2AccountFailureCode \<Rightarrow> PhilCoreV2AuthorizationFailureCode option \<Rightarrow>
     'a validation" where
  "guarded (Inl e) code auth = Inl (Refuse code auth)"
| "guarded (Inr x) code auth = Inr x"

fun unguarded :: "'a result \<Rightarrow> 'a validation" where
  "unguarded (Inl e) = Inl (Escape e)"
| "unguarded (Inr x) = Inr x"

definition prohibited_members :: "string list" where
  "prohibited_members =
     [''arbitraryTarget'', ''arbitraryCalldata'', ''delegatecall'', ''module'', ''sessionKey'']"

text \<open>The checks on the caller, the lock and the shape of the request.\<close>

definition validate_envelope ::
  "ethers \<Rightarrow> PhilCoreV2AccountState \<Rightarrow> PhilCoreV2AccountValidationRequest \<Rightarrow> unit validation" where
  "validate_envelope E state request =
     bnd (demand (sameAddress E (ar_caller request) (im_entryPoint (as_immutable state)))
            CALLER_NOT_ENTRYPOINT) (\<lambda>_.
     bnd (demand (\<not> as_executionLocked state) EXECUTION_LOCKED) (\<lambda>_.
     bnd (demand (\<not> (\<exists>name \<in> set prohibited_members. name \<in> set (ar_ownPropertyNames request)))
            UNRESTRICTED_EXECUTION_PROHIBITED) (\<lambda>_.
     demand (ar_paymasterPresent request \<noteq> Some True) PAYMASTER_PROHIBITED)))"

text \<open>The nonce: its key, that it is the next one, and that the intent carries it.\<close>

definition validate_nonce ::
  "ethers \<Rightarrow> PhilCoreV2AccountState \<Rightarrow> PhilCoreV2AccountValidationRequest \<Rightarrow>
     ((int \<times> int) \<times> PhilCoreV2IntentEncoding) validation" where
  "validate_nonce E state request =
     bnd (guarded (decomposePhilCoreV2Nonce (ar_keyedNonce request)) NONCE_ENVELOPE_MISMATCH None) (\<lambda>nonce.
     bnd (guarded (encodePhilCoreV2Intent E (ap_intent (ar_authorizationPackage request)))
            AUTHORIZATION_REJECTED (Some INTENT_INVALID)) (\<lambda>encoded.
     case expectedSequence (as_nonceSequences state) (fst nonce) of
       None \<Rightarrow> Inl (Refuse NONCE_KEY_UNSUPPORTED None)
     | Some expected \<Rightarrow>
         bnd (demand (\<not> snd nonce < expected) NONCE_STALE) (\<lambda>_.
         bnd (demand (\<not> snd nonce > expected) NONCE_FUTURE) (\<lambda>_.
         bnd (demand (\<not> (fst nonce \<noteq> h_nonceKey (enc_header encoded) \<or>
                        snd nonce \<noteq> h_nonceSequence (enc_header encoded))) NONCE_ENVELOPE_MISMATCH) (\<lambda>_.
         Inr (nonce, encoded))))))"

text \<open>The user operation, the typed action and the fund lifecycle.\<close>

definition validate_action ::
  "ethers \<Rightarrow> PhilCoreV2AccountState \<Rightarrow> PhilCoreV2AccountValidationRequest \<Rightarrow> PhilCoreV2IntentEncoding \<Rightarrow>
     PhilCoreV2TypedExecutionDraft validation" where
  "validate_action E state request encoded =
     (let package = ar_authorizationPackage request;
          payload = in_payload (ap_intent package);
          userOperationHash = toLowerCase (ar_userOperationHashBinding request) in
      bnd (demand (\<not> (\<not> isHexString E userOperationHash 32 \<or>
                     userOperationHash \<noteq> toLowerCase (ap_userOperationHashBinding package)))
             USER_OPERATION_BINDING_MISMATCH) (\<lambda>_.
      bnd (unguarded (typedAction E payload (toLowerCase (ap_declaredAuthorizedIntentHash package))))
        (\<lambda>draft.
      case draft of
        None \<Rightarrow> Inl (Refuse ACTION_NOT_IMPLEMENTED None)
      | Some action \<Rightarrow>
          bnd (demand (case action of
                         DraftConfirm target _ \<Rightarrow> target = im_confirmationTarget (as_immutable state)
                       | _ \<Rightarrow> True)
                 CONFIRMATION_TARGET_MISMATCH) (\<lambda>_.
          bnd (unguarded (validateFundLifecycle E state payload
                 (h_fundLifecycleDigest (enc_header encoded)) (ar_fundLifecycleGate request))) (\<lambda>fundFailure.
          case fundFailure of
            Some code \<Rightarrow> Inl (Refuse code None)
          | None \<Rightarrow> Inr action)))))"

fun expectsNoStateTransition :: "PhilCoreV2TypedExecutionDraft \<Rightarrow> bool" where
  "expectsNoStateTransition (DraftConfirm _ _) = True"
| "expectsNoStateTransition (DraftNativeTransfer _ _) = True"
| "expectsNoStateTransition (DraftERC20Transfer _ _ _) = True"
| "expectsNoStateTransition (DraftERC721SafeTransfer _ _ _ _) = True"
| "expectsNoStateTransition (DraftERC1155SafeTransfer _ _ _ _ _) = True"
| "expectsNoStateTransition _ = False"

text \<open>The call of the engine and the comparison of its answer with the action.\<close>

definition validate_authorization ::
  "ethers \<Rightarrow> PhilCoreV2AccountState \<Rightarrow> PhilCoreV2AccountValidationRequest \<Rightarrow>
     PhilCoreV2TypedExecutionDraft \<Rightarrow> PhilCoreV2AcceptedAuthorization validation" where
  "validate_authorization E state request action =
     bnd (unguarded (verifyPhilCoreV2Authorization E
            \<lparr>vq_state = as_validatorState state,
             vq_authorizationPackage = ar_authorizationPackage request,
             vq_currentTime = ar_currentTime request,
             vq_authorityVerifier = ar_authorityVerifier request\<rparr>)) (\<lambda>result.
     case result of
       Rejected code stage \<Rightarrow> Inl (Refuse AUTHORIZATION_REJECTED (Some code))
     | Accepted authorization \<Rightarrow>
         bnd (unguarded (BigInt_of (ar_keyedNonce request))) (\<lambda>keyedNonce.
         bnd (demand (\<not> (aa_keyedNonce authorization \<noteq> keyedNonce \<or>
                        (aa_authorizedStateTransition authorization = NoTransition)
                          \<noteq> expectsNoStateTransition action)) NONCE_ENVELOPE_MISMATCH) (\<lambda>_.
         Inr authorization)))"

definition validation_steps ::
  "ethers \<Rightarrow> nat \<Rightarrow> PhilCoreV2AccountValidationRequest \<Rightarrow> PhilCoreV2AccountValidation validation" where
  "validation_steps E ref request =
     bnd (guarded (createPhilCoreV2AccountState E (account_input (ar_state request)))
            ACCOUNT_STATE_INVALID None) (\<lambda>state.
     bnd (validate_envelope E state request) (\<lambda>_.
     bnd (validate_nonce E state request) (\<lambda>(nonce, encoded).
     bnd (validate_action E state request encoded) (\<lambda>action.
     bnd (validate_authorization E state request action) (\<lambda>authorization.
     Inr \<lparr>ax_ref = ref, ax_format = PHILCORE_V2_ACCOUNT_VALIDATION_CONTEXT_FORMAT,
          ax_authorization = authorization, ax_action = action, ax_nonceKey = fst nonce,
          ax_nonceSequence = snd nonce, ax_validatedStateBinding = accountStateBinding E state,
          ax_fundLifecycleEnforced =
            isValueMoving (in_payload (ap_intent (ar_authorizationPackage request))),
          ax_publicMutationCount = 0\<rparr>)))))"

text \<open>
  The result of the validation and the contexts after it: an accepted validation is a new object
  and is added to the issued ones.
\<close>

definition validatePhilCoreV2AccountOperation ::
  "ethers \<Rightarrow> validation_contexts \<Rightarrow> PhilCoreV2AccountValidationRequest \<Rightarrow>
     validation_contexts \<times> PhilCoreV2AccountValidationResult result" where
  "validatePhilCoreV2AccountOperation E contexts request =
     (case validation_steps E (length (issuedValidationContexts contexts)) request of
        Inr accepted \<Rightarrow>
          (contexts\<lparr>issuedValidationContexts := issuedValidationContexts contexts @ [accepted]\<rparr>,
           Inr (AccountAccepted accepted))
      | Inl (Refuse code auth) \<Rightarrow> (contexts, Inr (AccountRejected code auth))
      | Inl (Escape e) \<Rightarrow> (contexts, Inl e))"

section \<open>Transitions\<close>

definition nextState ::
  "ethers \<Rightarrow> PhilCoreV2AccountState \<Rightarrow>
     (PhilCoreV2AccountStateInput \<Rightarrow> PhilCoreV2AccountStateInput) \<Rightarrow> PhilCoreV2AccountState result" where
  "nextState E state changes = createPhilCoreV2AccountState E (changes (account_input state))"

record PhilCoreV2LocalTransitionResult =
  tr_state :: PhilCoreV2AccountState
  tr_action :: PhilCoreV2TypedExecutionDraft

text \<open>The checks of a validation context before it is consumed.\<close>

definition context_valid ::
  "ethers \<Rightarrow> validation_contexts \<Rightarrow> PhilCoreV2AccountState \<Rightarrow> PhilCoreV2AccountValidation \<Rightarrow> bool" where
  "context_valid E contexts state validation \<longleftrightarrow>
     \<not> (validation \<notin> set (issuedValidationContexts contexts) \<or>
        validation \<in> set (consumedValidationContexts contexts) \<or>
        ax_format validation \<noteq> PHILCORE_V2_ACCOUNT_VALIDATION_CONTEXT_FORMAT \<or>
        ax_publicMutationCount validation \<noteq> 0 \<or>
        ax_validatedStateBinding validation \<noteq> accountStateBinding E state \<or>
        expectedSequence (as_nonceSequences state) (ax_nonceKey validation)
          \<noteq> Some (ax_nonceSequence validation))"

text \<open>What happens once the context is consumed: one case per kind of action.\<close>

definition apply_action ::
  "ethers \<Rightarrow> PhilCoreV2AccountState \<Rightarrow> PhilCoreV2AccountValidation \<Rightarrow> int \<Rightarrow>
     PhilCoreV2ValidatorState \<Rightarrow> PhilCoreV2AccountState result" where
  "apply_action E state validation now validatorState =
     (case ax_action validation of
        DraftValidatorRotation proposedValidator keyIdBinding epoch \<Rightarrow>
          bnd (rotatePhilCoreV2ValidatorState E validatorState proposedValidator keyIdBinding
                 (BigIntV epoch) NormalRotation None) (\<lambda>validatorState.
          bnd (validator_commitment E validatorState) (\<lambda>commitment.
          bnd (incrementSequence (as_nonceSequences state) (ax_nonceKey validation)) (\<lambda>sequences.
          nextState E state (\<lambda>i. i\<lparr>si_validatorState := validator_input validatorState,
            si_validatorCommitment := commitment, si_nonceSequences := sequences_input sequences\<rparr>))))
      | DraftRecoveryRequest requestId proposedValidator keyIdBinding epoch \<Rightarrow>
          bnd (beginPhilCoreV2Recovery E validatorState) (\<lambda>validatorState.
          let pendingRecovery =
            \<lparr>pr_requestId = requestId, pr_proposedValidator = proposedValidator,
             pr_proposedValidatorKeyIdBinding = keyIdBinding, pr_proposedValidatorEpoch = epoch,
             pr_sourceValidatorEpoch = vs_validatorEpoch (as_validatorState state),
             pr_sourceRecoveryEpoch = vs_recoveryEpoch (as_validatorState state),
             pr_requestedAt = now,
             pr_executableAfter = now + im_recoveryDelaySeconds (as_immutable state),
             pr_expiresAt = now + im_recoveryExpirySeconds (as_immutable state),
             pr_authorizationEvidenceCommitment =
               aa_authorityDigest (ax_authorization validation)\<rparr> in
          bnd (incrementSequence (as_nonceSequences state) (ax_nonceKey validation)) (\<lambda>sequences.
          nextState E state (\<lambda>i. i\<lparr>si_validatorState := validator_input validatorState,
            si_nonceSequences := sequences_input sequences,
            si_recoveryLifecycle := Some ''RECOVERY_ACTIVE'',
            si_pendingRecovery := Some pendingRecovery\<rparr>)))
      | DraftRecoveryCancel requestId \<Rightarrow>
          bnd (ensure (case as_pendingRecovery state of
                         None \<Rightarrow> False | Some pending \<Rightarrow> pr_requestId pending = requestId)
                 ''recovery_request_id_mismatch'') (\<lambda>_.
          bnd (cancelPhilCoreV2Recovery E validatorState) (\<lambda>validatorState.
          bnd (incrementSequence (as_nonceSequences state) (ax_nonceKey validation)) (\<lambda>sequences.
          nextState E state (\<lambda>i. i\<lparr>si_validatorState := validator_input validatorState,
            si_nonceSequences := sequences_input sequences,
            si_recoveryLifecycle := Some ''RECOVERY_CANCELLED'', si_pendingRecovery := None\<rparr>))))
      | _ \<Rightarrow>
          bnd (incrementSequence (as_nonceSequences state) (ax_nonceKey validation)) (\<lambda>sequences.
          nextState E state (\<lambda>i. i\<lparr>si_validatorState := validator_input validatorState,
            si_nonceSequences := sequences_input sequences\<rparr>)))"

text \<open>
  The contexts after the call and its result: a context that passed the checks stays consumed,
  also when the transition then throws.
\<close>

definition applyPhilCoreV2AccountTransitionLocally ::
  "ethers \<Rightarrow> validation_contexts \<Rightarrow> PhilCoreV2AccountState \<Rightarrow> PhilCoreV2AccountValidation \<Rightarrow>
     bignumberish \<Rightarrow> validation_contexts \<times> PhilCoreV2LocalTransitionResult result" where
  "applyPhilCoreV2AccountTransitionLocally E contexts stateInput validation currentTime =
     (case createPhilCoreV2AccountState E (account_input stateInput) of
        Inl e \<Rightarrow> (contexts, Inl e)
      | Inr state \<Rightarrow>
     (case account_uint currentTime 48 ''currentTime'' of
        Inl e \<Rightarrow> (contexts, Inl e)
      | Inr now \<Rightarrow>
          if \<not> context_valid E contexts state validation
          then (contexts, throw ''validation_context_invalid'')
          else
            (contexts\<lparr>consumedValidationContexts := consumedValidationContexts contexts @ [validation]\<rparr>,
             bnd (consumePhilCoreV2AuthorizationLocally E (as_validatorState state)
                    (aa_authorityDigest (ax_authorization validation))
                    (BigIntV (ax_nonceKey validation)) (BigIntV (ax_nonceSequence validation)))
               (\<lambda>validatorState.
             bnd (apply_action E state validation now validatorState) (\<lambda>updated.
             Inr \<lparr>tr_state = updated, tr_action = ax_action validation\<rparr>)))))"

definition completePhilCoreV2RecoveryLocally ::
  "ethers \<Rightarrow> PhilCoreV2AccountState \<Rightarrow> string \<Rightarrow> bignumberish \<Rightarrow> PhilCoreV2AccountState result" where
  "completePhilCoreV2RecoveryLocally E stateInput recoveryRequestId currentTime =
     bnd (createPhilCoreV2AccountState E (account_input stateInput)) (\<lambda>state.
     bnd (account_uint currentTime 48 ''currentTime'') (\<lambda>now.
     bnd (ensure (as_recoveryLifecycle state = LifecycleActive) ''recovery_request_not_active'') (\<lambda>_.
     case as_pendingRecovery state of
       None \<Rightarrow> throw ''recovery_request_not_active''
     | Some pending \<Rightarrow>
     bnd (account_bytes32 E recoveryRequestId ''recoveryRequestId'') (\<lambda>requestId.
     bnd (ensure (pr_requestId pending = requestId) ''recovery_request_not_active'') (\<lambda>_.
     bnd (ensure (\<not> now < pr_executableAfter pending) ''recovery_delay_not_elapsed'') (\<lambda>_.
     bnd (ensure (\<not> now \<ge> pr_expiresAt pending) ''recovery_request_expired'') (\<lambda>_.
     bnd (ensure (\<not> (pr_sourceValidatorEpoch pending \<noteq> vs_validatorEpoch (as_validatorState state) \<or>
                    pr_sourceRecoveryEpoch pending \<noteq> vs_recoveryEpoch (as_validatorState state)))
            ''recovery_source_epoch_changed'') (\<lambda>_.
     bnd (rotatePhilCoreV2ValidatorState E (as_validatorState state) (pr_proposedValidator pending)
            (pr_proposedValidatorKeyIdBinding pending) (BigIntV (pr_proposedValidatorEpoch pending))
            RecoveryCompletion (Some (BigIntV (vs_recoveryEpoch (as_validatorState state) + 1))))
       (\<lambda>validatorState.
     bnd (validator_commitment E validatorState) (\<lambda>commitment.
     nextState E state (\<lambda>i. i\<lparr>si_validatorState := validator_input validatorState,
       si_validatorCommitment := commitment, si_recoveryLifecycle := Some ''RECOVERY_COMPLETED'',
       si_pendingRecovery := None\<rparr>)))))))))))"

section \<open>The argument checks accept exactly the well-formed values\<close>

lemma account_uint_iff [result_simps]: "account_uint v b l = Inr n \<longleftrightarrow> is_uint False b v n"
  by (cases "BigInt_of v") (auto simp: account_uint_def is_uint_def uint_fits_def push_bit_eq_mult)

lemma account_address_iff [result_simps]: "account_address E v l az = Inr a \<longleftrightarrow> is_address E az v a"
  by (auto simp: account_address_def is_address_def split: option.splits)

lemma lower_ZERO_BYTES32: "toLowerCase ZERO_BYTES32 = ZERO_BYTES32"
  by (simp add: ZERO_BYTES32_alt) (simp add: toLowerCase_def lower_char_def)

lemma account_bytes32_iff:
  assumes "ethers_laws E"
  shows "account_bytes32 E v l = Inr s \<longleftrightarrow> is_bytes32 E False v s"
  using hex_string_lower_zero [of v]
  by (auto simp: account_bytes32_def is_bytes32_def laws_isHexString [OF assms] lower_ZERO_BYTES32)

lemma recoveryLifecycle_iff [result_simps]: "recoveryLifecycle v = Inr r \<longleftrightarrow> v = lifecycle_name r"
  by (cases r) (auto simp: recoveryLifecycle_def)

lemma lifecycle_name_inject [simp]: "lifecycle_name a = lifecycle_name b \<longleftrightarrow> a = b"
  by (cases a; cases b) simp_all

lemma nonceSequences_iff [result_simps]:
  "nonceSequences i = Inr ns \<longleftrightarrow>
     is_uint False 64 (ni_ordinary i) (ns_ordinary ns) \<and>
     is_uint False 64 (ni_maintenance i) (ns_maintenance ns) \<and>
     is_uint False 64 (ni_recovery i) (ns_recovery ns)"
  by (cases ns) (auto simp: nonceSequences_def result_simps)

section \<open>Well-formed account states\<close>

definition immutable_wf :: "ethers \<Rightarrow> PhilCoreV2AccountImmutable \<Rightarrow> bool" where
  "immutable_wf E im \<longleftrightarrow>
     uint_fits 256 (im_chainId im) \<and> im_chainId im \<noteq> 0 \<and>
     is_address E False (im_entryPoint im) (im_entryPoint im) \<and>
     is_address E False (im_account im) (im_account im) \<and>
     is_bytes32 E False (im_ownerCommitment im) (im_ownerCommitment im) \<and>
     is_address E False (im_factoryBinding im) (im_factoryBinding im) \<and>
     is_bytes32 E False (im_accountVersionId im) (im_accountVersionId im) \<and>
     im_accountVersionId im = PHILCORE_V2_ACCOUNT_VERSION_ID E \<and>
     is_bytes32 E False (im_securityModelId im) (im_securityModelId im) \<and>
     im_securityModelId im = PHILCORE_V2_SECURITY_MODEL_ID E \<and>
     is_address E False (im_confirmationTarget im) (im_confirmationTarget im) \<and>
     im_recoveryDelaySeconds im = PHILCORE_V2_RECOVERY_DELAY_SECONDS \<and>
     im_recoveryExpirySeconds im = PHILCORE_V2_RECOVERY_EXPIRY_SECONDS"

definition sequences_wf :: "PhilCoreV2NonceSequences \<Rightarrow> bool" where
  "sequences_wf ns \<longleftrightarrow>
     uint_fits 64 (ns_ordinary ns) \<and> uint_fits 64 (ns_maintenance ns) \<and> uint_fits 64 (ns_recovery ns)"

text \<open>A pending recovery, and its normal form.\<close>

definition pending_timing :: "PhilCoreV2PendingRecovery \<Rightarrow> bool" where
  "pending_timing p \<longleftrightarrow>
     uint_fits 48 (pr_requestedAt p) \<and> uint_fits 48 (pr_executableAfter p) \<and>
     uint_fits 48 (pr_expiresAt p) \<and> pr_requestedAt p < pr_executableAfter p \<and>
     pr_executableAfter p < pr_expiresAt p"

definition pending_normal ::
  "ethers \<Rightarrow> PhilCoreV2PendingRecovery \<Rightarrow> PhilCoreV2PendingRecovery \<Rightarrow> bool" where
  "pending_normal E p q \<longleftrightarrow>
     pending_timing p \<and>
     is_bytes32 E False (pr_requestId p) (pr_requestId q) \<and>
     is_address E False (pr_proposedValidator p) (pr_proposedValidator q) \<and>
     is_bytes32 E False (pr_proposedValidatorKeyIdBinding p) (pr_proposedValidatorKeyIdBinding q) \<and>
     uint_fits 64 (pr_proposedValidatorEpoch p) \<and> uint_fits 64 (pr_sourceValidatorEpoch p) \<and>
     uint_fits 64 (pr_sourceRecoveryEpoch p) \<and>
     is_bytes32 E False (pr_authorizationEvidenceCommitment p) (pr_authorizationEvidenceCommitment q) \<and>
     pr_proposedValidatorEpoch q = pr_proposedValidatorEpoch p \<and>
     pr_sourceValidatorEpoch q = pr_sourceValidatorEpoch p \<and>
     pr_sourceRecoveryEpoch q = pr_sourceRecoveryEpoch p \<and>
     pr_requestedAt q = pr_requestedAt p \<and> pr_executableAfter q = pr_executableAfter p \<and>
     pr_expiresAt q = pr_expiresAt p"

lemma normalizePendingRecovery_iff:
  assumes "ethers_laws E"
  shows "normalizePendingRecovery E p = Inr q \<longleftrightarrow> rel_option (pending_normal E) p q"
proof (cases p)
  case (Some r)
  show ?thesis
  proof (cases q)
    case None
    with Some show ?thesis
      by (auto simp: normalizePendingRecovery_def bnd_eq_Inr)
  next
    case (Some t)
    with \<open>p = Some r\<close> show ?thesis
      by (cases t)
         (auto simp: normalizePendingRecovery_def bnd_eq_Inr ensure_eq_Inr account_uint_iff
           account_bytes32_iff [OF assms] account_address_iff pending_normal_def pending_timing_def)
  qed
qed (auto simp: normalizePendingRecovery_def)

definition account_wf :: "ethers \<Rightarrow> PhilCoreV2AccountState \<Rightarrow> bool" where
  "account_wf E s \<longleftrightarrow>
     immutable_wf E (as_immutable s) \<and> validator_wf E (as_validatorState s) \<and>
     vs_chainId (as_validatorState s) = im_chainId (as_immutable s) \<and>
     vs_entryPoint (as_validatorState s) = im_entryPoint (as_immutable s) \<and>
     vs_account (as_validatorState s) = im_account (as_immutable s) \<and>
     vs_ownerCommitment (as_validatorState s) = im_ownerCommitment (as_immutable s) \<and>
     is_bytes32 E False (as_validatorCommitment s) (as_validatorCommitment s) \<and>
     validator_commitment E (as_validatorState s) = Inr (as_validatorCommitment s) \<and>
     is_bytes32 E False (as_securityConfigurationHash s) (as_securityConfigurationHash s) \<and>
     is_bytes32 E False (as_primaryDeviceFactorCommitment s) (as_primaryDeviceFactorCommitment s) \<and>
     is_bytes32 E False (as_hardwareSecurityKeyCommitment s) (as_hardwareSecurityKeyCommitment s) \<and>
     is_bytes32 E False (as_recoveryFactorCommitment s) (as_recoveryFactorCommitment s) \<and>
     as_securityConfigurationHash s = vs_recoveryConfigHash (as_validatorState s) \<and>
     security_configuration E (as_primaryDeviceFactorCommitment s) (as_hardwareSecurityKeyCommitment s)
       (as_recoveryFactorCommitment s) = Inr (as_securityConfigurationHash s) \<and>
     (as_recoveryLifecycle s = LifecycleActive \<longleftrightarrow> as_pendingRecovery s \<noteq> None) \<and>
     (as_recoveryLifecycle s = LifecycleActive \<longleftrightarrow>
        vs_recoveryState (as_validatorState s) = RecoveryActive) \<and>
     (case as_pendingRecovery s of None \<Rightarrow> True | Some p \<Rightarrow> pending_normal E p p) \<and>
     sequences_wf (as_nonceSequences s)"

lemma account_immutable_iff:
  assumes "ethers_laws E"
  shows "account_immutable E i = Inr im \<longleftrightarrow>
     is_uint False 256 (ii_chainId i) (im_chainId im) \<and> im_chainId im \<noteq> 0 \<and>
     is_address E False (ii_entryPoint i) (im_entryPoint im) \<and>
     is_address E False (ii_account i) (im_account im) \<and>
     is_bytes32 E False (ii_ownerCommitment i) (im_ownerCommitment im) \<and>
     is_address E False (ii_factoryBinding i) (im_factoryBinding im) \<and>
     is_bytes32 E False (ii_accountVersionId i) (im_accountVersionId im) \<and>
     im_accountVersionId im = PHILCORE_V2_ACCOUNT_VERSION_ID E \<and>
     is_bytes32 E False (ii_securityModelId i) (im_securityModelId im) \<and>
     im_securityModelId im = PHILCORE_V2_SECURITY_MODEL_ID E \<and>
     is_address E False (ii_confirmationTarget i) (im_confirmationTarget im) \<and>
     is_uint False 48 (ii_recoveryDelaySeconds i) (im_recoveryDelaySeconds im) \<and>
     im_recoveryDelaySeconds im = PHILCORE_V2_RECOVERY_DELAY_SECONDS \<and>
     is_uint False 48 (ii_recoveryExpirySeconds i) (im_recoveryExpirySeconds im) \<and>
     im_recoveryExpirySeconds im = PHILCORE_V2_RECOVERY_EXPIRY_SECONDS"
  (is "?lhs \<longleftrightarrow> ?rhs")
proof
  show "?lhs \<Longrightarrow> ?rhs"
    by (auto simp: account_immutable_def account_uint_iff account_address_iff bnd_eq_Inr ensure_eq_Inr
        account_bytes32_iff [OF assms])
next
  show "?rhs \<Longrightarrow> ?lhs"
    by (cases im) (simp add: account_immutable_def bnd_eq_Inr ensure_eq_Inr account_uint_iff
        account_address_iff account_bytes32_iff [OF assms])
qed

lemma createPhilCoreV2AccountState_iff:
  assumes "ethers_laws E"
  shows "createPhilCoreV2AccountState E i = Inr s \<longleftrightarrow>
     account_immutable E (si_immutable i) = Inr (as_immutable s) \<and>
     createPhilCoreV2ValidatorState E (si_validatorState i) = Inr (as_validatorState s) \<and>
     vs_chainId (as_validatorState s) = im_chainId (as_immutable s) \<and>
     vs_entryPoint (as_validatorState s) = im_entryPoint (as_immutable s) \<and>
     vs_account (as_validatorState s) = im_account (as_immutable s) \<and>
     vs_ownerCommitment (as_validatorState s) = im_ownerCommitment (as_immutable s) \<and>
     is_bytes32 E False (si_validatorCommitment i) (as_validatorCommitment s) \<and>
     validator_commitment E (as_validatorState s) = Inr (as_validatorCommitment s) \<and>
     is_bytes32 E False (si_securityConfigurationHash i) (as_securityConfigurationHash s) \<and>
     is_bytes32 E False (si_primaryDeviceFactorCommitment i) (as_primaryDeviceFactorCommitment s) \<and>
     is_bytes32 E False (si_hardwareSecurityKeyCommitment i) (as_hardwareSecurityKeyCommitment s) \<and>
     is_bytes32 E False (si_recoveryFactorCommitment i) (as_recoveryFactorCommitment s) \<and>
     as_securityConfigurationHash s = vs_recoveryConfigHash (as_validatorState s) \<and>
     security_configuration E (as_primaryDeviceFactorCommitment s) (as_hardwareSecurityKeyCommitment s)
       (as_recoveryFactorCommitment s) = Inr (as_securityConfigurationHash s) \<and>
     (case si_recoveryLifecycle i of None \<Rightarrow> ''NORMAL'' | Some l \<Rightarrow> l)
       = lifecycle_name (as_recoveryLifecycle s) \<and>
     rel_option (pending_normal E) (si_pendingRecovery i) (as_pendingRecovery s) \<and>
     (as_recoveryLifecycle s = LifecycleActive \<longleftrightarrow> as_pendingRecovery s \<noteq> None) \<and>
     (as_recoveryLifecycle s = LifecycleActive \<longleftrightarrow>
        vs_recoveryState (as_validatorState s) = RecoveryActive) \<and>
     nonceSequences (si_nonceSequences i) = Inr (as_nonceSequences s) \<and>
     as_executionLocked s = (si_executionLocked i = Some True)"
  (is "?lhs \<longleftrightarrow> ?rhs")
proof
  show "?lhs \<Longrightarrow> ?rhs"
    unfolding createPhilCoreV2AccountState_def bnd_eq_Inr ensure_eq_Inr
      account_bytes32_iff [OF assms] recoveryLifecycle_iff normalizePendingRecovery_iff [OF assms] sum.inject
    by (elim exE conjE) (hypsubst, simp, blast)
next
  show "?rhs \<Longrightarrow> ?lhs"
    unfolding createPhilCoreV2AccountState_def bnd_eq_Inr ensure_eq_Inr
      account_bytes32_iff [OF assms] recoveryLifecycle_iff normalizePendingRecovery_iff [OF assms]
    by (cases s) (simp, blast)
qed

lemma uint_fits_timing [simp]:
  "uint_fits 48 PHILCORE_V2_RECOVERY_DELAY_SECONDS" "uint_fits 48 PHILCORE_V2_RECOVERY_EXPIRY_SECONDS"
  by (simp_all add: uint_fits_def PHILCORE_V2_RECOVERY_DELAY_SECONDS_def
      PHILCORE_V2_RECOVERY_EXPIRY_SECONDS_def)

lemma immutable_wf_iff:
  "ethers_laws E \<Longrightarrow> account_immutable E (immutable_input im) = Inr im \<longleftrightarrow> immutable_wf E im"
  by (auto simp: account_immutable_iff immutable_wf_def immutable_input_def is_uint_BigIntV)

lemma account_immutable_wf:
  "ethers_laws E \<Longrightarrow> account_immutable E i = Inr im \<Longrightarrow> immutable_wf E im"
  unfolding account_immutable_iff immutable_wf_def
  by (auto simp: is_uint_def intro: is_bytes32_stable is_address_stable)

lemma sequences_wf_iff: "nonceSequences (sequences_input ns) = Inr ms \<longleftrightarrow> ms = ns \<and> sequences_wf ns"
  by (cases ms, cases ns) (auto simp: nonceSequences_iff sequences_input_def sequences_wf_def is_uint_BigIntV)

lemma nonceSequences_wf: "nonceSequences i = Inr ns \<Longrightarrow> sequences_wf ns"
  by (auto simp: nonceSequences_iff sequences_wf_def is_uint_def)

lemma pending_normal_stable: "ethers_laws E \<Longrightarrow> pending_normal E p q \<Longrightarrow> pending_normal E q q"
  unfolding pending_normal_def pending_timing_def by (auto intro: is_bytes32_stable is_address_stable)

lemma account_wf_iff:
  "ethers_laws E \<Longrightarrow> createPhilCoreV2AccountState E (account_input s) = Inr s \<longleftrightarrow> account_wf E s"
  unfolding createPhilCoreV2AccountState_iff account_wf_def account_input_def
  by (auto simp: immutable_wf_iff validator_wf_iff sequences_wf_iff split: option.splits)

lemma account_wf_result:
  assumes "ethers_laws E" and "createPhilCoreV2AccountState E i = Inr s"
  shows "account_wf E s"
  using assms(2) unfolding createPhilCoreV2AccountState_iff [OF assms(1)] account_wf_def
  by (auto simp: option_rel_Some2 intro: account_immutable_wf [OF assms(1)] validator_wf_result [OF assms(1)]
      is_bytes32_stable [OF assms(1)] nonceSequences_wf pending_normal_stable [OF assms(1)]
      split: option.splits)

interpretation account: normaliser ethers_laws createPhilCoreV2AccountState account_input
  by unfold_locales (simp add: account_wf_iff account_wf_result)

lemma create_account_wf [simp]:
  "ethers_laws E \<Longrightarrow> account_wf E s \<Longrightarrow> createPhilCoreV2AccountState E (account_input s) = Inr s"
  by (simp add: account_wf_iff)

section \<open>Nonce sequences\<close>

lemma nonce_key_values [simp]:
  "PHILCORE_V2_NONCE_KEY ORDINARY = 0" "PHILCORE_V2_NONCE_KEY MAINTENANCE = 1"
  "PHILCORE_V2_NONCE_KEY RECOVERY = 2"
  by simp_all

text \<open>The sequence with key \<open>k\<close> moves to its successor; the two others stay.\<close>

definition advances :: "int \<Rightarrow> PhilCoreV2NonceSequences \<Rightarrow> PhilCoreV2NonceSequences \<Rightarrow> bool" where
  "advances k ns ms \<longleftrightarrow>
     (\<exists>n. expectedSequence ns k = Some n \<and> n \<noteq> MAX_UINT64 \<and> expectedSequence ms k = Some (n + 1)) \<and>
     (\<forall>j. j \<noteq> k \<longrightarrow> expectedSequence ms j = expectedSequence ns j)"

lemma sequences_eqI:
  "(\<And>k. expectedSequence ns k = expectedSequence ms k) \<Longrightarrow> ns = (ms :: PhilCoreV2NonceSequences)"
  by (cases ns, cases ms) (metis PhilCoreV2NonceSequences.select_convs expectedSequence_def
      nonce_key_values option.inject zero_neq_one zero_neq_numeral one_eq_numeral_iff semiring_norm(85))

lemma advances_unique: "advances k ns ms \<Longrightarrow> advances k ns ms' \<Longrightarrow> ms = ms'"
  by (rule sequences_eqI) (metis advances_def option.inject)

lemma increment_advances: "incrementSequence ns k = Inr ms \<Longrightarrow> advances k ns ms"
  by (auto simp: incrementSequence_def advances_def expectedSequence_def split: if_splits)

lemma incrementSequence_iff: "incrementSequence ns k = Inr ms \<longleftrightarrow> advances k ns ms"
proof
  assume a: "advances k ns ms"
  then obtain n where "expectedSequence ns k = Some n" "n \<noteq> MAX_UINT64" by (auto simp: advances_def)
  then obtain ms' where m: "incrementSequence ns k = Inr ms'" by (simp add: incrementSequence_def)
  with a show "incrementSequence ns k = Inr ms"
    using advances_unique increment_advances by blast
qed (rule increment_advances)

lemma sequences_wf_expected: "sequences_wf ns \<longleftrightarrow> (\<forall>k n. expectedSequence ns k = Some n \<longrightarrow> uint_fits 64 n)"
proof
  assume "sequences_wf ns"
  then show "\<forall>k n. expectedSequence ns k = Some n \<longrightarrow> uint_fits 64 n"
    by (simp add: sequences_wf_def expectedSequence_def)
next
  assume "\<forall>k n. expectedSequence ns k = Some n \<longrightarrow> uint_fits 64 n"
  from this [rule_format, of 0] this [rule_format, of 1] this [rule_format, of 2]
  show "sequences_wf ns" by (simp add: sequences_wf_def expectedSequence_def)
qed

lemma advances_wf:
  assumes a: "advances k ns ms" and wf: "sequences_wf ns"
  shows "sequences_wf ms"
  unfolding sequences_wf_expected
proof (intro allI impI)
  fix j n
  assume j: "expectedSequence ms j = Some n"
  from a obtain m where m: "expectedSequence ns k = Some m" "m \<noteq> MAX_UINT64"
    "expectedSequence ms k = Some (m + 1)" by (auto simp: advances_def)
  with wf have "uint_fits 64 m" by (simp add: sequences_wf_expected)
  with m(2) have "uint_fits 64 (m + 1)" by (simp add: uint_fits_def MAX_UINT64_def push_bit_eq_mult)
  with m(3) j a wf show "uint_fits 64 n"
    by (cases "j = k") (auto simp: advances_def sequences_wf_expected)
qed

lemma expectedSequence_key: "expectedSequence ns k = Some n \<Longrightarrow> k \<in> {0, 1, 2}"
  by (auto simp: expectedSequence_def split: if_splits)

section \<open>The exact effect of each operation\<close>

text \<open>Updating the input of a state is updating the state.\<close>

lemma account_input_updates:
  "(account_input s)\<lparr>si_validatorState := validator_input v, si_nonceSequences := sequences_input ns\<rparr> =
     account_input (s\<lparr>as_validatorState := v, as_nonceSequences := ns\<rparr>)"
  "(account_input s)\<lparr>si_validatorState := validator_input v, si_validatorCommitment := c,
       si_nonceSequences := sequences_input ns\<rparr> =
     account_input (s\<lparr>as_validatorState := v, as_nonceSequences := ns, as_validatorCommitment := c\<rparr>)"
  "(account_input s)\<lparr>si_validatorState := validator_input v, si_nonceSequences := sequences_input ns,
       si_recoveryLifecycle := Some ''RECOVERY_ACTIVE'', si_pendingRecovery := p\<rparr> =
     account_input (s\<lparr>as_validatorState := v, as_nonceSequences := ns,
       as_recoveryLifecycle := LifecycleActive, as_pendingRecovery := p\<rparr>)"
  "(account_input s)\<lparr>si_validatorState := validator_input v, si_nonceSequences := sequences_input ns,
       si_recoveryLifecycle := Some ''RECOVERY_CANCELLED'', si_pendingRecovery := p\<rparr> =
     account_input (s\<lparr>as_validatorState := v, as_nonceSequences := ns,
       as_recoveryLifecycle := LifecycleCancelled, as_pendingRecovery := p\<rparr>)"
  "(account_input s)\<lparr>si_validatorState := validator_input v, si_validatorCommitment := c,
       si_recoveryLifecycle := Some ''RECOVERY_COMPLETED'', si_pendingRecovery := p\<rparr> =
     account_input (s\<lparr>as_validatorState := v, as_validatorCommitment := c,
       as_recoveryLifecycle := LifecycleCompleted, as_pendingRecovery := p\<rparr>)"
  by (simp_all add: account_input_def)

text \<open>
  A state that differs from a well-formed one in what the operations change is accepted exactly
  when its parts fit together again.
\<close>

lemma create_updated_iff:
  assumes laws: "ethers_laws E" and s: "account_wf E s" and v: "validator_wf E v"
    and ev: "validator_evolves (as_validatorState s) v"
    and im: "as_immutable s' = as_immutable s" "as_validatorState s' = v"
      "as_securityConfigurationHash s' = as_securityConfigurationHash s"
      "as_primaryDeviceFactorCommitment s' = as_primaryDeviceFactorCommitment s"
      "as_hardwareSecurityKeyCommitment s' = as_hardwareSecurityKeyCommitment s"
      "as_recoveryFactorCommitment s' = as_recoveryFactorCommitment s"
    and c: "validator_commitment E v = Inr (as_validatorCommitment s')"
  shows "createPhilCoreV2AccountState E (account_input s') = Inr t \<longleftrightarrow>
    is_bytes32 E False (as_validatorCommitment s') (as_validatorCommitment s') \<and>
    sequences_wf (as_nonceSequences s') \<and>
    (as_recoveryLifecycle s' = LifecycleActive \<longleftrightarrow> as_pendingRecovery s' \<noteq> None) \<and>
    (as_recoveryLifecycle s' = LifecycleActive \<longleftrightarrow> vs_recoveryState v = RecoveryActive) \<and>
    (\<exists>q. rel_option (pending_normal E) (as_pendingRecovery s') q \<and> t = s'\<lparr>as_pendingRecovery := q\<rparr>)"
  (is "_ \<longleftrightarrow> ?rhs")
proof
  have none: "(p = None \<longleftrightarrow> q = None)" if "rel_option R p q" for R p and q :: "PhilCoreV2PendingRecovery option"
    using that by (cases p; cases q) auto
  have i: "account_immutable E (immutable_input (as_immutable s)) = Inr (as_immutable s)"
    using s laws by (simp add: immutable_wf_iff account_wf_def)
  {
    assume "createPhilCoreV2AccountState E (account_input s') = Inr t"
    then have "as_immutable t = as_immutable s" "as_validatorState t = v"
      "as_validatorCommitment t = as_validatorCommitment s'"
      "is_bytes32 E False (as_validatorCommitment s') (as_validatorCommitment t)"
      "as_securityConfigurationHash t = as_securityConfigurationHash s"
      "as_primaryDeviceFactorCommitment t = as_primaryDeviceFactorCommitment s"
      "as_hardwareSecurityKeyCommitment t = as_hardwareSecurityKeyCommitment s"
      "as_recoveryFactorCommitment t = as_recoveryFactorCommitment s"
      "as_recoveryLifecycle t = as_recoveryLifecycle s'"
      "rel_option (pending_normal E) (as_pendingRecovery s') (as_pendingRecovery t)"
      "as_recoveryLifecycle t = LifecycleActive \<longleftrightarrow> as_pendingRecovery t \<noteq> None"
      "as_recoveryLifecycle t = LifecycleActive \<longleftrightarrow> vs_recoveryState v = RecoveryActive"
      "as_nonceSequences t = as_nonceSequences s'" "sequences_wf (as_nonceSequences s')"
      "as_executionLocked t = as_executionLocked s'"
      using s v c i unfolding createPhilCoreV2AccountState_iff [OF laws] account_wf_def
      by (auto simp: account_input_def im sequences_wf_iff is_bytes32_def)
    with im none show ?rhs
      by (intro conjI exI [of _ "as_pendingRecovery t"] PhilCoreV2AccountState.equality) (auto simp: option_rel_Some2)
  next
    assume ?rhs
    then obtain q where q: "rel_option (pending_normal E) (as_pendingRecovery s') q"
      "t = s'\<lparr>as_pendingRecovery := q\<rparr>" by blast
    from s have config: "is_bytes32 E False (vs_recoveryConfigHash (as_validatorState s))
        (vs_recoveryConfigHash (as_validatorState s))" by (auto simp: account_wf_def)
    from \<open>?rhs\<close> none [OF q(1)] have "q \<noteq> None \<longleftrightarrow> vs_recoveryState v = RecoveryActive" by (elim conjE) simp
    with \<open>?rhs\<close> q config s v c i ev none [OF q(1)] show "createPhilCoreV2AccountState E (account_input s') = Inr t"
      unfolding createPhilCoreV2AccountState_iff [OF laws] account_wf_def validator_evolves_def
      by (simp add: account_input_def im sequences_wf_iff)
  }
qed

text \<open>What no operation changes, and in which direction the rest moves.\<close>

definition sequences_grow :: "PhilCoreV2NonceSequences \<Rightarrow> PhilCoreV2NonceSequences \<Rightarrow> bool" where
  "sequences_grow ns ms \<longleftrightarrow>
     ns_ordinary ns \<le> ns_ordinary ms \<and> ns_maintenance ns \<le> ns_maintenance ms \<and>
     ns_recovery ns \<le> ns_recovery ms"

definition account_evolves :: "PhilCoreV2AccountState \<Rightarrow> PhilCoreV2AccountState \<Rightarrow> bool" where
  "account_evolves s t \<longleftrightarrow>
     as_immutable t = as_immutable s \<and>
     as_securityConfigurationHash t = as_securityConfigurationHash s \<and>
     as_primaryDeviceFactorCommitment t = as_primaryDeviceFactorCommitment s \<and>
     as_hardwareSecurityKeyCommitment t = as_hardwareSecurityKeyCommitment s \<and>
     as_recoveryFactorCommitment t = as_recoveryFactorCommitment s \<and>
     as_executionLocked t = as_executionLocked s \<and>
     sequences_grow (as_nonceSequences s) (as_nonceSequences t) \<and>
     validator_evolves (as_validatorState s) (as_validatorState t)"

lemma account_evolves_refl: "account_evolves s s"
  by (simp add: account_evolves_def sequences_grow_def validator_evolves_refl)

lemma account_evolves_trans: "account_evolves s t \<Longrightarrow> account_evolves t u \<Longrightarrow> account_evolves s u"
  unfolding account_evolves_def sequences_grow_def by (auto intro: validator_evolves_trans)

lemma advances_grow:
  assumes "advances k ns ms"
  shows "sequences_grow ns ms"
proof -
  have "n \<le> m" if "expectedSequence ns j = Some n" "expectedSequence ms j = Some m" for j n m
    using assms that by (cases "j = k") (auto simp: advances_def)
  from this [of 0] this [of 1] this [of 2] show ?thesis
    by (simp add: sequences_grow_def expectedSequence_def)
qed

text \<open>The validator state after the authorization of a context is consumed.\<close>

definition consumed_validator ::
  "PhilCoreV2AccountState \<Rightarrow> PhilCoreV2AccountValidation \<Rightarrow> PhilCoreV2ValidatorState" where
  "consumed_validator s x = (as_validatorState s)\<lparr>
     vs_consumedAuthorizationDigests := vs_consumedAuthorizationDigests (as_validatorState s) @
       [toLowerCase (aa_authorityDigest (ax_authorization x))],
     vs_consumedNonces := vs_consumedNonces (as_validatorState s) @
       [ax_nonceKey x * 2 ^ 64 + ax_nonceSequence x]\<rparr>"

text \<open>The authorization of a context can be consumed.\<close>

definition consumable :: "ethers \<Rightarrow> PhilCoreV2AccountState \<Rightarrow> PhilCoreV2AccountValidation \<Rightarrow> bool" where
  "consumable E s x \<longleftrightarrow>
     (let d = aa_authorityDigest (ax_authorization x) in
      is_bytes32 E False d (toLowerCase d) \<and>
      toLowerCase d \<notin> set (vs_consumedAuthorizationDigests (as_validatorState s)) \<and>
      uint_fits 192 (ax_nonceKey x) \<and> uint_fits 64 (ax_nonceSequence x) \<and>
      ax_nonceKey x * 2 ^ 64 + ax_nonceSequence x \<notin> set (vs_consumedNonces (as_validatorState s)))"

lemma consume_context_iff:
  assumes "ethers_laws E" and "account_wf E s"
  shows "consumePhilCoreV2AuthorizationLocally E (as_validatorState s)
      (aa_authorityDigest (ax_authorization x)) (BigIntV (ax_nonceKey x)) (BigIntV (ax_nonceSequence x))
      = Inr v \<longleftrightarrow> consumable E s x \<and> v = consumed_validator s x"
proof -
  from assms(2) have wf: "validator_wf E (as_validatorState s)" by (simp add: account_wf_def)
  show ?thesis
    unfolding consume_effect [OF assms(1) wf] composePhilCoreV2Nonce_iff
    by (auto simp: consumable_def consumed_validator_def Let_def is_uint_BigIntV)
qed

lemma consumed_validator_sound:
  assumes "ethers_laws E" and "account_wf E s" and "consumable E s x"
  shows "validator_wf E (consumed_validator s x) \<and>
    validator_evolves (as_validatorState s) (consumed_validator s x)"
proof -
  from assms have "validator_step E (as_validatorState s) (consumed_validator s x)"
    using consume_context_iff [OF assms(1,2), of x] validator_step.consume by blast
  with assms show ?thesis using validator_step_sound by (auto simp: account_wf_def)
qed

lemma consumed_validator_simps [simp]:
  "vs_recoveryState (consumed_validator s x) = vs_recoveryState (as_validatorState s)"
  "vs_validatorStatus (consumed_validator s x) = vs_validatorStatus (as_validatorState s)"
  "vs_validatorEpoch (consumed_validator s x) = vs_validatorEpoch (as_validatorState s)"
  "vs_recoveryEpoch (consumed_validator s x) = vs_recoveryEpoch (as_validatorState s)"
  "validator_commitment E (consumed_validator s x) = validator_commitment E (as_validatorState s)"
  by (simp_all add: consumed_validator_def validator_commitment_def)

lemma validator_commitment_recovery [simp]:
  "validator_commitment E (v\<lparr>vs_recoveryState := r\<rparr>) = validator_commitment E v"
  by (simp add: validator_commitment_def)

text \<open>The pending recovery that a request installs.\<close>

definition pending_request ::
  "PhilCoreV2AccountState \<Rightarrow> PhilCoreV2AccountValidation \<Rightarrow> int \<Rightarrow> string \<Rightarrow> string \<Rightarrow> string \<Rightarrow> int \<Rightarrow>
     PhilCoreV2PendingRecovery" where
  "pending_request s x now requestId pv pb pe =
     \<lparr>pr_requestId = requestId, pr_proposedValidator = pv, pr_proposedValidatorKeyIdBinding = pb,
      pr_proposedValidatorEpoch = pe,
      pr_sourceValidatorEpoch = vs_validatorEpoch (as_validatorState s),
      pr_sourceRecoveryEpoch = vs_recoveryEpoch (as_validatorState s), pr_requestedAt = now,
      pr_executableAfter = now + im_recoveryDelaySeconds (as_immutable s),
      pr_expiresAt = now + im_recoveryExpirySeconds (as_immutable s),
      pr_authorizationEvidenceCommitment = aa_authorityDigest (ax_authorization x)\<rparr>"

text \<open>What the application of a context does to a well-formed state, by the kind of its action.\<close>

definition action_effect ::
  "ethers \<Rightarrow> PhilCoreV2AccountState \<Rightarrow> PhilCoreV2AccountValidation \<Rightarrow> int \<Rightarrow> PhilCoreV2NonceSequences \<Rightarrow>
     PhilCoreV2AccountState \<Rightarrow> bool" where
  "action_effect E s x now ns t \<longleftrightarrow>
     (let v = consumed_validator s x in
      case ax_action x of
        DraftValidatorRotation pv pb pe \<Rightarrow>
          (\<exists>a b c. is_address E False pv a \<and> is_bytes32 E False pb b \<and>
             pe = vs_validatorEpoch v + 1 \<and> uint_fits 64 pe \<and>
             vs_recoveryState v = Normal \<and> vs_validatorStatus v = Active \<and>
             validator_commitment E (rotated v a b) = Inr c \<and> is_bytes32 E False c c \<and>
             t = s\<lparr>as_validatorState := rotated v a b, as_nonceSequences := ns,
                   as_validatorCommitment := c\<rparr>)
      | DraftRecoveryRequest requestId pv pb pe \<Rightarrow>
          (\<exists>q. pending_normal E (pending_request s x now requestId pv pb pe) q \<and>
             vs_recoveryState v = Normal \<and>
             t = s\<lparr>as_validatorState := v\<lparr>vs_recoveryState := RecoveryActive\<rparr>,
                   as_nonceSequences := ns, as_recoveryLifecycle := LifecycleActive,
                   as_pendingRecovery := Some q\<rparr>)
      | DraftRecoveryCancel requestId \<Rightarrow>
          (\<exists>p. as_pendingRecovery s = Some p \<and> pr_requestId p = requestId \<and>
             t = s\<lparr>as_validatorState := v\<lparr>vs_recoveryState := Normal\<rparr>,
                   as_nonceSequences := ns, as_recoveryLifecycle := LifecycleCancelled,
                   as_pendingRecovery := None\<rparr>)
      | _ \<Rightarrow> t = s\<lparr>as_validatorState := v, as_nonceSequences := ns\<rparr>)"

lemma sequences_advanced [simp]: "sequences_wf ns \<Longrightarrow> advances k ns ms \<Longrightarrow> sequences_wf ms"
  by (rule advances_wf)

lemma rel_option_Some_ex: "(\<exists>q. rel_option R (Some p) q \<and> P q) \<longleftrightarrow> (\<exists>r. R p r \<and> P (Some r))"
  by (auto simp: option_rel_Some1)

lemma pending_stays:
  assumes "ethers_laws E" and "account_wf E s"
  shows "rel_option (pending_normal E) (as_pendingRecovery s) q \<longleftrightarrow> q = as_pendingRecovery s"
proof (cases "as_pendingRecovery s")
  case (Some p)
  with assms(2) have p: "pending_normal E p p" by (simp add: account_wf_def)
  then have "q' = p" if "pending_normal E p q'" for q'
    using that by (cases p, cases q') (auto simp: pending_normal_def is_bytes32_def is_address_def)
  with Some p show ?thesis by (cases q) auto
qed (cases q; simp)

lemmas consumed_validator_wf = consumed_validator_sound [THEN conjunct1]
  and consumed_validator_evolves = consumed_validator_sound [THEN conjunct2]

lemma account_wf_parts:
  assumes "account_wf E s"
  shows "sequences_wf (as_nonceSequences s)"
    and "is_bytes32 E False (as_validatorCommitment s) (as_validatorCommitment s)"
    and "validator_commitment E (as_validatorState s) = Inr (as_validatorCommitment s)"
    and "as_recoveryLifecycle s = LifecycleActive \<longleftrightarrow> as_pendingRecovery s \<noteq> None"
    and "vs_recoveryState (as_validatorState s) = RecoveryActive \<longleftrightarrow> as_pendingRecovery s \<noteq> None"
  using assms by (auto simp: account_wf_def)

lemma apply_rotation_iff:
  assumes laws: "ethers_laws E" and s: "account_wf E s" and con: "consumable E s x"
    and act: "ax_action x = DraftValidatorRotation pv pb pe"
  shows "apply_action E s x now (consumed_validator s x) = Inr t \<longleftrightarrow>
    (\<exists>ns. advances (ax_nonceKey x) (as_nonceSequences s) ns \<and> action_effect E s x now ns t)"
proof -
  let ?v = "consumed_validator s x"
  note v = consumed_validator_wf [OF laws s con] consumed_validator_evolves [OF laws s con]
  have rot: "nextState E s (\<lambda>i. i\<lparr>si_validatorState := validator_input (rotated ?v a b),
      si_validatorCommitment := c, si_nonceSequences := sequences_input ns\<rparr>) = Inr t \<longleftrightarrow>
    is_bytes32 E False c c \<and>
    t = s\<lparr>as_validatorState := rotated ?v a b, as_nonceSequences := ns, as_validatorCommitment := c\<rparr>"
    if "advances (ax_nonceKey x) (as_nonceSequences s) ns"
      "rotatePhilCoreV2ValidatorState E ?v pv pb (BigIntV pe) NormalRotation None = Inr (rotated ?v a b)"
      "validator_commitment E (rotated ?v a b) = Inr c" for ns a b c
  proof -
    have w: "validator_wf E (rotated ?v a b)" "validator_evolves (as_validatorState s) (rotated ?v a b)"
      using validator_rotation_step [OF laws v(1) that(2)] validator_evolves_trans [OF v(2)] by blast+
    have "vs_recoveryState (rotated ?v a b) = vs_recoveryState (as_validatorState s)"
      by (simp add: rotated_def)
    with that account_wf_parts [OF s] show ?thesis unfolding nextState_def account_input_updates
      by (subst create_updated_iff [OF laws s w]) (auto simp: pending_stays [OF laws s])
  qed
  have pos: "0 \<le> vs_validatorEpoch ?v" using v(1) by (simp add: validator_wf_def uint_fits_def)
  have rot_iff: "rotatePhilCoreV2ValidatorState E ?v pv pb (BigIntV pe) NormalRotation None = Inr w \<longleftrightarrow>
    (\<exists>a b. is_address E False pv a \<and> is_bytes32 E False pb b \<and> pe = vs_validatorEpoch ?v + 1 \<and>
      uint_fits 64 pe \<and> vs_recoveryState ?v = Normal \<and> vs_validatorStatus ?v = Active \<and>
      w = rotated ?v a b)" for w
    using pos unfolding rotate_effect [OF laws v(1)] is_uint_BigIntV by (intro iff_exI) auto
  have apply_iff: "apply_action E s x now ?v = Inr t \<longleftrightarrow> (\<exists>w c ns.
      rotatePhilCoreV2ValidatorState E ?v pv pb (BigIntV pe) NormalRotation None = Inr w \<and>
      validator_commitment E w = Inr c \<and> advances (ax_nonceKey x) (as_nonceSequences s) ns \<and>
      nextState E s (\<lambda>i. i\<lparr>si_validatorState := validator_input w, si_validatorCommitment := c,
        si_nonceSequences := sequences_input ns\<rparr>) = Inr t)"
    unfolding apply_action_def act PhilCoreV2TypedExecutionDraft.case bnd_eq_Inr incrementSequence_iff
    by blast
  show ?thesis
    unfolding apply_iff action_effect_def Let_def act PhilCoreV2TypedExecutionDraft.case
    by (intro iffI; elim exE conjE) (use rot rot_iff in \<open>metis+\<close>)
qed

lemma apply_request_iff:
  assumes laws: "ethers_laws E" and s: "account_wf E s" and con: "consumable E s x"
    and act: "ax_action x = DraftRecoveryRequest rid pv pb pe"
  shows "apply_action E s x now (consumed_validator s x) = Inr t \<longleftrightarrow>
    (\<exists>ns. advances (ax_nonceKey x) (as_nonceSequences s) ns \<and> action_effect E s x now ns t)"
proof -
  let ?v = "consumed_validator s x"
  let ?w = "?v\<lparr>vs_recoveryState := RecoveryActive\<rparr>"
  note v = consumed_validator_wf [OF laws s con] consumed_validator_evolves [OF laws s con]
  have w: "validator_wf E ?w" "validator_evolves (as_validatorState s) ?w"
    using v by (simp_all add: validator_evolves_def)
  have req: "nextState E s (\<lambda>i. i\<lparr>si_validatorState := validator_input ?w,
      si_nonceSequences := sequences_input ns, si_recoveryLifecycle := Some ''RECOVERY_ACTIVE'',
      si_pendingRecovery := Some p\<rparr>) = Inr t \<longleftrightarrow>
    (\<exists>q. pending_normal E p q \<and> t = s\<lparr>as_validatorState := ?w, as_nonceSequences := ns,
      as_recoveryLifecycle := LifecycleActive, as_pendingRecovery := Some q\<rparr>)"
    if "advances (ax_nonceKey x) (as_nonceSequences s) ns" for ns p
    using that account_wf_parts [OF s] unfolding nextState_def account_input_updates(3)
    by (subst create_updated_iff [OF laws s w]) (simp_all add: rel_option_Some_ex)
  have begin_iff: "beginPhilCoreV2Recovery E ?v = Inr u \<longleftrightarrow> vs_recoveryState ?v = Normal \<and> u = ?w" for u
    by (auto simp: begin_recovery_effect [OF v(1)])
  show ?thesis
    unfolding apply_action_def action_effect_def Let_def act pending_request_def [symmetric]
      PhilCoreV2TypedExecutionDraft.case bnd_eq_Inr incrementSequence_iff begin_iff
    using req by blast
qed

lemma apply_cancel_iff:
  assumes laws: "ethers_laws E" and s: "account_wf E s" and con: "consumable E s x"
    and act: "ax_action x = DraftRecoveryCancel rid"
  shows "apply_action E s x now (consumed_validator s x) = Inr t \<longleftrightarrow>
    (\<exists>ns. advances (ax_nonceKey x) (as_nonceSequences s) ns \<and> action_effect E s x now ns t)"
proof -
  let ?v = "consumed_validator s x"
  let ?w = "?v\<lparr>vs_recoveryState := Normal\<rparr>"
  note v = consumed_validator_wf [OF laws s con] consumed_validator_evolves [OF laws s con]
  have w: "validator_wf E ?w" "validator_evolves (as_validatorState s) ?w"
    using v by (simp_all add: validator_evolves_def)
  have cancel: "nextState E s (\<lambda>i. i\<lparr>si_validatorState := validator_input ?w,
      si_nonceSequences := sequences_input ns, si_recoveryLifecycle := Some ''RECOVERY_CANCELLED'',
      si_pendingRecovery := None\<rparr>) = Inr t \<longleftrightarrow>
    t = s\<lparr>as_validatorState := ?w, as_nonceSequences := ns,
      as_recoveryLifecycle := LifecycleCancelled, as_pendingRecovery := None\<rparr>"
    if "advances (ax_nonceKey x) (as_nonceSequences s) ns" for ns
    using that account_wf_parts [OF s] unfolding nextState_def account_input_updates(4)
    by (subst create_updated_iff [OF laws s w]) simp_all
  have cancel_iff: "cancelPhilCoreV2Recovery E ?v = Inr u \<longleftrightarrow>
      vs_recoveryState ?v = RecoveryActive \<and> u = ?w" for u
    by (auto simp: cancel_recovery_effect [OF v(1)])
  have active: "vs_recoveryState ?v = RecoveryActive" if "as_pendingRecovery s = Some p" for p
    using that account_wf_parts [OF s] by simp
  show ?thesis
    unfolding apply_action_def action_effect_def Let_def act
      PhilCoreV2TypedExecutionDraft.case bnd_eq_Inr incrementSequence_iff ensure_eq_Inr cancel_iff
    using cancel active by (cases "as_pendingRecovery s") auto
qed

lemma apply_action_iff:
  assumes laws: "ethers_laws E" and s: "account_wf E s" and con: "consumable E s x"
  shows "apply_action E s x now (consumed_validator s x) = Inr t \<longleftrightarrow>
    (\<exists>ns. advances (ax_nonceKey x) (as_nonceSequences s) ns \<and> action_effect E s x now ns t)"
proof -
  let ?v = "consumed_validator s x"
  note v = consumed_validator_wf [OF laws s con] consumed_validator_evolves [OF laws s con]
  have stay: "nextState E s (\<lambda>i. i\<lparr>si_validatorState := validator_input ?v,
      si_nonceSequences := sequences_input ns\<rparr>) = Inr t \<longleftrightarrow>
      t = s\<lparr>as_validatorState := ?v, as_nonceSequences := ns\<rparr>"
    if "advances (ax_nonceKey x) (as_nonceSequences s) ns" for ns t
    using that account_wf_parts [OF s] unfolding nextState_def account_input_updates
    by (subst create_updated_iff [OF laws s v]) (auto simp: pending_stays [OF laws s])
  show ?thesis
    using apply_rotation_iff [OF assms] apply_request_iff [OF assms] apply_cancel_iff [OF assms]
    by (cases "ax_action x")
       (auto simp: apply_action_def action_effect_def Let_def bnd_eq_Inr incrementSequence_iff stay)
qed

text \<open>An application returns exactly when its context is valid and can be consumed.\<close>

lemma apply_iff:
  assumes laws: "ethers_laws E" and s: "account_wf E s"
  shows "applyPhilCoreV2AccountTransitionLocally E C s x time = (C', Inr r) \<longleftrightarrow>
    (\<exists>now ns. is_uint False 48 time now \<and> context_valid E C s x \<and> consumable E s x \<and>
      C' = C\<lparr>consumedValidationContexts := consumedValidationContexts C @ [x]\<rparr> \<and>
      tr_action r = ax_action x \<and> advances (ax_nonceKey x) (as_nonceSequences s) ns \<and>
      action_effect E s x now ns (tr_state r))"
proof (cases "account_uint time 48 ''currentTime''")
  case (Inl e)
  then have "\<not> is_uint False 48 time now" for now by (metis account_uint_iff sum.distinct(1))
  with Inl show ?thesis
    by (simp add: applyPhilCoreV2AccountTransitionLocally_def create_account_wf [OF laws s])
next
  case (Inr now)
  then have now: "is_uint False 48 time m \<longleftrightarrow> m = now" for m by (metis account_uint_iff sum.inject(2))
  show ?thesis
  proof (cases "context_valid E C s x")
    case False
    with Inr show ?thesis
      by (simp add: applyPhilCoreV2AccountTransitionLocally_def create_account_wf [OF laws s])
  next
    case True
    have "applyPhilCoreV2AccountTransitionLocally E C s x time = (C', Inr r) \<longleftrightarrow>
      C' = C\<lparr>consumedValidationContexts := consumedValidationContexts C @ [x]\<rparr> \<and>
      (\<exists>t. consumable E s x \<and> apply_action E s x now (consumed_validator s x) = Inr t \<and>
        r = \<lparr>tr_state = t, tr_action = ax_action x\<rparr>)"
      using True Inr
      by (auto simp: applyPhilCoreV2AccountTransitionLocally_def create_account_wf [OF laws s]
          bnd_eq_Inr consume_context_iff [OF laws s])
    also have "\<dots> \<longleftrightarrow> C' = C\<lparr>consumedValidationContexts := consumedValidationContexts C @ [x]\<rparr> \<and>
      consumable E s x \<and> tr_action r = ax_action x \<and>
      (\<exists>ns. advances (ax_nonceKey x) (as_nonceSequences s) ns \<and> action_effect E s x now ns (tr_state r))"
      using apply_action_iff [OF laws s] by (cases r) auto
    finally show ?thesis using True by (auto simp: now)
  qed
qed

text \<open>The contexts after an application: one more is consumed, also when the transition fails.\<close>

lemma apply_contexts:
  assumes "applyPhilCoreV2AccountTransitionLocally E C s x time = (C', r)"
  shows "C' = C \<or> (x \<in> set (issuedValidationContexts C) \<and> x \<notin> set (consumedValidationContexts C) \<and>
    C' = C\<lparr>consumedValidationContexts := consumedValidationContexts C @ [x]\<rparr>)"
  using assms
  by (auto simp: applyPhilCoreV2AccountTransitionLocally_def context_valid_def
      split: sum.splits if_splits)

lemma action_effect_sound:
  assumes laws: "ethers_laws E" and s: "account_wf E s" and con: "consumable E s x"
    and adv: "advances (ax_nonceKey x) (as_nonceSequences s) ns" and eff: "action_effect E s x now ns t"
  shows "account_wf E t \<and> account_evolves s t \<and> as_nonceSequences t = ns \<and>
    vs_consumedAuthorizationDigests (as_validatorState t) =
      vs_consumedAuthorizationDigests (consumed_validator s x) \<and>
    vs_consumedNonces (as_validatorState t) = vs_consumedNonces (consumed_validator s x)"
proof -
  from apply_action_iff [OF laws s con] adv eff
  have ap: "apply_action E s x now (consumed_validator s x) = Inr t" by blast
  then have "\<exists>i. createPhilCoreV2AccountState E i = Inr t"
    unfolding apply_action_def nextState_def
    by (cases "ax_action x") (auto simp: bnd_eq_Inr Let_def)
  then have wf: "account_wf E t" using account_wf_result [OF laws] by blast
  note v = consumed_validator_wf [OF laws s con] consumed_validator_evolves [OF laws s con]
  have "as_immutable t = as_immutable s \<and>
     as_securityConfigurationHash t = as_securityConfigurationHash s \<and>
     as_primaryDeviceFactorCommitment t = as_primaryDeviceFactorCommitment s \<and>
     as_hardwareSecurityKeyCommitment t = as_hardwareSecurityKeyCommitment s \<and>
     as_recoveryFactorCommitment t = as_recoveryFactorCommitment s \<and>
     as_executionLocked t = as_executionLocked s \<and> as_nonceSequences t = ns \<and>
     validator_evolves (as_validatorState s) (as_validatorState t) \<and>
    vs_consumedAuthorizationDigests (as_validatorState t) =
      vs_consumedAuthorizationDigests (consumed_validator s x) \<and>
    vs_consumedNonces (as_validatorState t) = vs_consumedNonces (consumed_validator s x)"
    using eff v(2) unfolding action_effect_def Let_def
    by (cases "ax_action x") (auto simp: validator_evolves_def rotated_def)
  with wf advances_grow [OF adv] show ?thesis by (simp add: account_evolves_def)
qed

text \<open>The completion of a recovery.\<close>

lemma complete_iff:
  assumes laws: "ethers_laws E" and s: "account_wf E s"
  shows "completePhilCoreV2RecoveryLocally E s rid time = Inr t \<longleftrightarrow>
    (\<exists>now p c. is_uint False 48 time now \<and> as_pendingRecovery s = Some p \<and>
      is_bytes32 E False rid (pr_requestId p) \<and>
      pr_executableAfter p \<le> now \<and> now < pr_expiresAt p \<and>
      pr_sourceValidatorEpoch p = vs_validatorEpoch (as_validatorState s) \<and>
      pr_sourceRecoveryEpoch p = vs_recoveryEpoch (as_validatorState s) \<and>
      pr_proposedValidatorEpoch p = vs_validatorEpoch (as_validatorState s) + 1 \<and>
      uint_fits 64 (vs_recoveryEpoch (as_validatorState s) + 1) \<and>
      validator_commitment E (recovered (as_validatorState s) (pr_proposedValidator p)
        (pr_proposedValidatorKeyIdBinding p)) = Inr c \<and> is_bytes32 E False c c \<and>
      t = s\<lparr>as_validatorState := recovered (as_validatorState s) (pr_proposedValidator p)
              (pr_proposedValidatorKeyIdBinding p),
            as_validatorCommitment := c, as_recoveryLifecycle := LifecycleCompleted,
            as_pendingRecovery := None\<rparr>)"
proof (cases "as_pendingRecovery s")
  case None
  then show ?thesis
    by (simp add: completePhilCoreV2RecoveryLocally_def create_account_wf [OF laws s] bnd_eq_Inr
        split: option.splits)
next
  case (Some p)
  let ?v = "as_validatorState s"
  let ?w = "recovered ?v (pr_proposedValidator p) (pr_proposedValidatorKeyIdBinding p)"
  have v: "validator_wf E ?v" and norm: "pending_normal E p p"
    and active: "as_recoveryLifecycle s = LifecycleActive" "vs_recoveryState ?v = RecoveryActive"
    using s Some by (auto simp: account_wf_def)
  have fits: "uint_fits 64 (pr_proposedValidatorEpoch p)"
    and id: "is_address E False (pr_proposedValidator p) a \<longleftrightarrow> a = pr_proposedValidator p"
      "is_bytes32 E False (pr_proposedValidatorKeyIdBinding p) a \<longleftrightarrow>
        a = pr_proposedValidatorKeyIdBinding p" for a
    using norm by (auto simp: pending_normal_def is_address_def is_bytes32_def)
  have rot: "rotatePhilCoreV2ValidatorState E ?v (pr_proposedValidator p)
      (pr_proposedValidatorKeyIdBinding p) (BigIntV (pr_proposedValidatorEpoch p)) RecoveryCompletion
      (Some (BigIntV (vs_recoveryEpoch ?v + 1))) = Inr w \<longleftrightarrow>
    pr_proposedValidatorEpoch p = vs_validatorEpoch ?v + 1 \<and> uint_fits 64 (vs_recoveryEpoch ?v + 1) \<and>
    w = ?w" for w
    using v fits active(2) unfolding complete_recovery_effect [OF laws v]
    by (auto simp: id is_uint_BigIntV validator_wf_def uint_fits_def)
  have nxt: "nextState E s (\<lambda>i. i\<lparr>si_validatorState := validator_input ?w, si_validatorCommitment := c,
      si_recoveryLifecycle := Some ''RECOVERY_COMPLETED'', si_pendingRecovery := None\<rparr>) = Inr t \<longleftrightarrow>
    is_bytes32 E False c c \<and> t = s\<lparr>as_validatorState := ?w, as_validatorCommitment := c,
      as_recoveryLifecycle := LifecycleCompleted, as_pendingRecovery := None\<rparr>"
    if r: "rotatePhilCoreV2ValidatorState E ?v (pr_proposedValidator p)
        (pr_proposedValidatorKeyIdBinding p) (BigIntV (pr_proposedValidatorEpoch p)) RecoveryCompletion
        (Some (BigIntV (vs_recoveryEpoch ?v + 1))) = Inr ?w" and c: "validator_commitment E ?w = Inr c" for c
  proof -
    have w: "validator_wf E ?w" "validator_evolves ?v ?w"
      using validator_rotation_step [OF laws v r] by blast+
    show ?thesis using c account_wf_parts [OF s] unfolding nextState_def account_input_updates(5)
      by (subst create_updated_iff [OF laws s w]) (simp_all add: recovered_def)
  qed
  show ?thesis
    unfolding completePhilCoreV2RecoveryLocally_def create_account_wf [OF laws s] bnd.simps
      bnd_eq_Inr ensure_eq_Inr account_uint_iff account_bytes32_iff [OF laws] Some option.case
    using rot nxt active by auto
qed

lemma complete_sound:
  assumes laws: "ethers_laws E" and s: "account_wf E s"
    and "completePhilCoreV2RecoveryLocally E s rid time = Inr t"
  shows "account_wf E t \<and> account_evolves s t \<and> as_nonceSequences t = as_nonceSequences s \<and>
    vs_consumedNonces (as_validatorState t) = vs_consumedNonces (as_validatorState s)"
proof -
  from assms(3) have "\<exists>i. createPhilCoreV2AccountState E i = Inr t"
    unfolding completePhilCoreV2RecoveryLocally_def nextState_def
    by (auto simp: bnd_eq_Inr split: option.splits)
  then have wf: "account_wf E t" using account_wf_result [OF laws] by blast
  from assms(3) show ?thesis unfolding complete_iff [OF laws s]
    using wf by (auto simp: account_evolves_def sequences_grow_def validator_evolves_def
        recovered_def rotated_def)
qed

section \<open>Validation\<close>

lemma demand_iff [result_simps]: "demand c code = Inr u \<longleftrightarrow> c"
  by (simp add: demand_def)

lemma guarded_iff [result_simps]: "guarded m code auth = Inr x \<longleftrightarrow> m = Inr x"
  by (cases m) simp_all

lemma unguarded_iff [result_simps]: "unguarded m = Inr x \<longleftrightarrow> m = Inr x"
  by (cases m) simp_all

lemma validate_accepted_iff:
  "validatePhilCoreV2AccountOperation E C rq = (C', Inr (AccountAccepted x)) \<longleftrightarrow>
     validation_steps E (length (issuedValidationContexts C)) rq = Inr x \<and>
     C' = C\<lparr>issuedValidationContexts := issuedValidationContexts C @ [x]\<rparr>"
  by (auto simp: validatePhilCoreV2AccountOperation_def split: sum.splits account_exit.splits)

lemma validate_contexts:
  "validatePhilCoreV2AccountOperation E C rq = (C', r) \<Longrightarrow> C' = C \<or>
     (\<exists>x. validation_steps E (length (issuedValidationContexts C)) rq = Inr x \<and>
        r = Inr (AccountAccepted x) \<and>
        C' = C\<lparr>issuedValidationContexts := issuedValidationContexts C @ [x]\<rparr>)"
  by (auto simp: validatePhilCoreV2AccountOperation_def split: sum.splits account_exit.splits)

text \<open>The nonce of a request, and what the account expects.\<close>

lemma validate_nonce_iff:
  "validate_nonce E s rq = Inr (n, enc) \<longleftrightarrow>
     decomposePhilCoreV2Nonce (ar_keyedNonce rq) = Inr n \<and>
     encodePhilCoreV2Intent E (ap_intent (ar_authorizationPackage rq)) = Inr enc \<and>
     expectedSequence (as_nonceSequences s) (fst n) = Some (snd n) \<and>
     fst n = h_nonceKey (enc_header enc) \<and> snd n = h_nonceSequence (enc_header enc)"
  by (cases "decomposePhilCoreV2Nonce (ar_keyedNonce rq)";
      cases "encodePhilCoreV2Intent E (ap_intent (ar_authorizationPackage rq))";
      cases "expectedSequence (as_nonceSequences s) (fst n)")
     (auto simp: validate_nonce_def bnd_eq_Inr demand_iff simp del: decomposePhilCoreV2Nonce_iff
       split: option.splits)

text \<open>The fund lifecycle bounds the value a transfer may move.\<close>

definition fund_bounds ::
  "ethers \<Rightarrow> PhilCoreV2AccountState \<Rightarrow> PhilCoreV2ActionPayloadInput \<Rightarrow> string \<Rightarrow> PhilCoreV2FundLifecycleGate \<Rightarrow>
     bool" where
  "fund_bounds E s payload digest g \<longleftrightarrow>
     fg_releasePathVerified g \<and> fg_residualHandlingBound g \<and> fg_finalStateVerificationRequired g \<and>
     fg_separateReleaseAuthorizationRequired g \<and>
     computePhilCoreV2FundLifecycleDigest E (fg_lifecycle g) = Inr (toLowerCase digest) \<and>
     sameAddress E (fl_account (fg_lifecycle g)) (im_account (as_immutable s)) \<and>
     \<not> sameAddress E (fl_residualRecipient (fg_lifecycle g)) ZERO_ADDRESS \<and>
     (\<exists>asset. expected_asset payload = Some asset \<and> sameAddress E (fl_asset (fg_lifecycle g)) asset) \<and>
     (\<exists>tid. expected_token_id payload = Inr tid \<and> BigInt_of (fl_tokenId (fg_lifecycle g)) = Inr tid) \<and>
     (\<exists>final stranded. BigInt_of (fl_expectedFinalBalance (fg_lifecycle g)) = Inr final \<and>
        BigInt_of (fl_maximumStranded (fg_lifecycle g)) = Inr stranded \<and> final \<le> stranded) \<and>
     (\<exists>amount holding. authorized_amount payload = Inr amount \<and>
        BigInt_of (fl_maximumFundingOrHolding (fg_lifecycle g)) = Inr holding \<and> amount \<le> holding)"

lemma if_Some_None: "(if c then Inr (Some x) else m) = Inr None \<longleftrightarrow> \<not> c \<and> m = Inr None"
  by simp

lemma catch_Some_None: "catch m (Inr (Some x)) f = Inr None \<longleftrightarrow> (\<exists>y. m = Inr y \<and> f y = Inr None)"
  by (cases m) simp_all

lemma validateFundLifecycle_iff:
  "validateFundLifecycle E s payload digest gate = Inr None \<longleftrightarrow>
     (isValueMoving payload \<longrightarrow> (\<exists>g. gate = Some g \<and> fund_bounds E s payload digest g))"
proof (cases gate)
  case (Some g)
  show ?thesis
    unfolding validateFundLifecycle_def Let_def fund_lifecycle_amounts_def fund_bounds_def Some option.case
    by (cases "expected_asset payload")
       (auto simp: if_Some_None catch_Some_None bnd_eq_Inr not_less split: if_splits)
qed (simp add: validateFundLifecycle_def)

text \<open>The request the account hands to the engine.\<close>

definition engine_request ::
  "PhilCoreV2AccountState \<Rightarrow> PhilCoreV2AccountValidationRequest \<Rightarrow>
     PhilCoreV2AuthorizationVerificationRequest" where
  "engine_request s rq =
     \<lparr>vq_state = as_validatorState s, vq_authorizationPackage = ar_authorizationPackage rq,
      vq_currentTime = ar_currentTime rq, vq_authorityVerifier = ar_authorityVerifier rq\<rparr>"

text \<open>What an accepted validation means.\<close>

definition operation_accepted ::
  "ethers \<Rightarrow> PhilCoreV2AccountValidationRequest \<Rightarrow> PhilCoreV2AccountState \<Rightarrow> PhilCoreV2IntentEncoding \<Rightarrow>
     PhilCoreV2AccountValidation \<Rightarrow> bool" where
  "operation_accepted E rq s enc x \<longleftrightarrow>
     (let package = ar_authorizationPackage rq; payload = in_payload (ap_intent package) in
      createPhilCoreV2AccountState E (account_input (ar_state rq)) = Inr s \<and>
      sameAddress E (ar_caller rq) (im_entryPoint (as_immutable s)) \<and> \<not> as_executionLocked s \<and>
      set prohibited_members \<inter> set (ar_ownPropertyNames rq) = {} \<and> ar_paymasterPresent rq \<noteq> Some True \<and>
      encodePhilCoreV2Intent E (ap_intent package) = Inr enc \<and>
      ax_nonceKey x = h_nonceKey (enc_header enc) \<and>
      ax_nonceSequence x = h_nonceSequence (enc_header enc) \<and>
      is_uint False 256 (ar_keyedNonce rq) (ax_nonceKey x * 2 ^ 64 + ax_nonceSequence x) \<and>
      expectedSequence (as_nonceSequences s) (ax_nonceKey x) = Some (ax_nonceSequence x) \<and>
      isHexString E (toLowerCase (ar_userOperationHashBinding rq)) 32 \<and>
      toLowerCase (ar_userOperationHashBinding rq) = toLowerCase (ap_userOperationHashBinding package) \<and>
      typedAction E payload (toLowerCase (ap_declaredAuthorizedIntentHash package)) =
        Inr (Some (ax_action x)) \<and>
      (\<forall>target d. ax_action x = DraftConfirm target d \<longrightarrow>
         target = im_confirmationTarget (as_immutable s)) \<and>
      (isValueMoving payload \<longrightarrow> (\<exists>g. ar_fundLifecycleGate rq = Some g \<and>
         fund_bounds E s payload (h_fundLifecycleDigest (enc_header enc)) g)) \<and>
      verifyPhilCoreV2Authorization E (engine_request s rq) = Inr (Accepted (ax_authorization x)) \<and>
      aa_keyedNonce (ax_authorization x) = ax_nonceKey x * 2 ^ 64 + ax_nonceSequence x \<and>
      (aa_authorizedStateTransition (ax_authorization x) = NoTransition
         \<longleftrightarrow> expectsNoStateTransition (ax_action x)) \<and>
      ax_format x = PHILCORE_V2_ACCOUNT_VALIDATION_CONTEXT_FORMAT \<and>
      ax_validatedStateBinding x = accountStateBinding E s \<and>
      ax_fundLifecycleEnforced x = isValueMoving payload \<and> ax_publicMutationCount x = 0)"

lemma validate_envelope_iff [result_simps]:
  "validate_envelope E s rq = Inr u \<longleftrightarrow>
     sameAddress E (ar_caller rq) (im_entryPoint (as_immutable s)) \<and> \<not> as_executionLocked s \<and>
     set prohibited_members \<inter> set (ar_ownPropertyNames rq) = {} \<and> ar_paymasterPresent rq \<noteq> Some True"
  unfolding validate_envelope_def bnd_eq_Inr demand_iff by blast

lemma validate_action_iff [result_simps]:
  "validate_action E s rq enc = Inr a \<longleftrightarrow>
     isHexString E (toLowerCase (ar_userOperationHashBinding rq)) 32 \<and>
     toLowerCase (ar_userOperationHashBinding rq) =
       toLowerCase (ap_userOperationHashBinding (ar_authorizationPackage rq)) \<and>
     typedAction E (in_payload (ap_intent (ar_authorizationPackage rq)))
       (toLowerCase (ap_declaredAuthorizedIntentHash (ar_authorizationPackage rq))) = Inr (Some a) \<and>
     (\<forall>target d. a = DraftConfirm target d \<longrightarrow> target = im_confirmationTarget (as_immutable s)) \<and>
     (isValueMoving (in_payload (ap_intent (ar_authorizationPackage rq))) \<longrightarrow>
        (\<exists>g. ar_fundLifecycleGate rq = Some g \<and>
           fund_bounds E s (in_payload (ap_intent (ar_authorizationPackage rq)))
             (h_fundLifecycleDigest (enc_header enc)) g))"
  unfolding validateFundLifecycle_iff [symmetric]
  by (cases "typedAction E (in_payload (ap_intent (ar_authorizationPackage rq)))
       (toLowerCase (ap_declaredAuthorizedIntentHash (ar_authorizationPackage rq)))")
     (auto simp: validate_action_def Let_def bnd_eq_Inr demand_iff unguarded_iff
       split: option.splits PhilCoreV2TypedExecutionDraft.splits)

lemma validate_authorization_iff [result_simps]:
  "validate_authorization E s rq a = Inr au \<longleftrightarrow>
     verifyPhilCoreV2Authorization E (engine_request s rq) = Inr (Accepted au) \<and>
     BigInt_of (ar_keyedNonce rq) = Inr (aa_keyedNonce au) \<and>
     (aa_authorizedStateTransition au = NoTransition \<longleftrightarrow> expectsNoStateTransition a)"
proof (cases "verifyPhilCoreV2Authorization E (engine_request s rq)")
  case (Inr r)
  then show ?thesis
    by (cases r) (auto simp: validate_authorization_def engine_request_def bnd_eq_Inr demand_iff unguarded_iff)
qed (simp add: validate_authorization_def engine_request_def)

lemma validation_steps_iff:
  assumes "ethers_laws E"
  shows "validation_steps E ref rq = Inr x \<longleftrightarrow> ax_ref x = ref \<and> (\<exists>s enc. operation_accepted E rq s enc x)"
proof
  assume "validation_steps E ref rq = Inr x"
  then obtain s k n enc a au u where
    s: "createPhilCoreV2AccountState E (account_input (ar_state rq)) = Inr s" and
    env: "validate_envelope E s rq = Inr u" and
    nonce: "validate_nonce E s rq = Inr ((k, n), enc)" and
    act: "validate_action E s rq enc = Inr a" and
    auth: "validate_authorization E s rq a = Inr au" and
    x: "x = \<lparr>ax_ref = ref, ax_format = PHILCORE_V2_ACCOUNT_VALIDATION_CONTEXT_FORMAT,
          ax_authorization = au, ax_action = a, ax_nonceKey = k,
          ax_nonceSequence = n, ax_validatedStateBinding = accountStateBinding E s,
          ax_fundLifecycleEnforced =
            isValueMoving (in_payload (ap_intent (ar_authorizationPackage rq))),
          ax_publicMutationCount = 0\<rparr>"
    unfolding validation_steps_def bnd_eq_Inr guarded_iff case_prod_unfold by force
  from nonce obtain m where m: "is_uint False 256 (ar_keyedNonce rq) m" "k = m div 2 ^ 64" "n = m mod 2 ^ 64"
    unfolding validate_nonce_iff decomposePhilCoreV2Nonce_iff by auto
  then have "m = k * 2 ^ 64 + n" "BigInt_of (ar_keyedNonce rq) = Inr m"
    by (simp_all add: is_uint_def)
  with s env nonce act auth m(1) show "ax_ref x = ref \<and> (\<exists>s enc. operation_accepted E rq s enc x)"
    unfolding validate_nonce_iff result_simps operation_accepted_def Let_def x by auto
next
  assume "ax_ref x = ref \<and> (\<exists>s enc. operation_accepted E rq s enc x)"
  then obtain s enc where ref: "ax_ref x = ref" and acc: "operation_accepted E rq s enc x" by blast
  let ?m = "ax_nonceKey x * 2 ^ 64 + ax_nonceSequence x"
  from acc have m: "is_uint False 256 (ar_keyedNonce rq) ?m" and "uint_fits 64 (ax_nonceSequence x)"
    unfolding operation_accepted_def Let_def encodePhilCoreV2Intent_iff [OF assms]
      normalizePhilCoreV2IntentCoreHeader_iff by (auto simp: is_uint_def)
  then have "?m div 2 ^ 64 = ax_nonceKey x" "?m mod 2 ^ 64 = ax_nonceSequence x"
    by (simp_all add: uint_fits_def)
  with m have "decomposePhilCoreV2Nonce (ar_keyedNonce rq) = Inr (ax_nonceKey x, ax_nonceSequence x)"
    unfolding decomposePhilCoreV2Nonce_iff by auto
  with acc have "validate_nonce E s rq = Inr ((ax_nonceKey x, ax_nonceSequence x), enc)"
    unfolding validate_nonce_iff operation_accepted_def Let_def fst_conv snd_conv by blast
  moreover from acc have "validate_envelope E s rq = Inr ()" "validate_action E s rq enc = Inr (ax_action x)"
    unfolding validate_envelope_iff validate_action_iff operation_accepted_def Let_def by blast+
  moreover from acc m have "validate_authorization E s rq (ax_action x) = Inr (ax_authorization x)"
    unfolding validate_authorization_iff operation_accepted_def Let_def is_uint_def by metis
  ultimately show "validation_steps E ref rq = Inr x"
    using acc ref unfolding validation_steps_def operation_accepted_def Let_def
    by (cases x) simp
qed

section \<open>Validation always returns\<close>

lemma typedAction_total:
  "payload_policy E h p \<Longrightarrow> \<exists>a. typedAction E p ih = Inr a"
  by (cases p) (auto simp: policy_defs getAddress_or_throw_def is_address_def is_uint_def)

lemma fund_lifecycle_total:
  assumes "payload_policy E h p"
  shows "\<exists>f. validateFundLifecycle E s p d gate = Inr f"
proof (cases gate)
  case (Some g)
  have numbers: "\<exists>i. expected_token_id p = Inr i" "\<exists>a. authorized_amount p = Inr a"
    using assms by (cases p; auto simp: policy_defs is_uint_def)+
  show ?thesis
  proof (cases "computePhilCoreV2FundLifecycleDigest E (fg_lifecycle g)")
    case (Inr digest)
    then have "\<exists>n. BigInt_of (fl_tokenId (fg_lifecycle g)) = Inr n"
      "\<exists>n. BigInt_of (fl_expectedFinalBalance (fg_lifecycle g)) = Inr n"
      "\<exists>n. BigInt_of (fl_maximumStranded (fg_lifecycle g)) = Inr n"
      "\<exists>n. BigInt_of (fl_maximumFundingOrHolding (fg_lifecycle g)) = Inr n"
      unfolding computePhilCoreV2FundLifecycleDigest_def bnd_eq_Inr intent_uint_iff is_uint_def by blast+
    with numbers have "\<exists>f. fund_lifecycle_amounts E (fg_lifecycle g) p = Inr f"
      by (auto simp: fund_lifecycle_amounts_def split: option.splits)
    with Inr Some show ?thesis by (auto simp: validateFundLifecycle_def Let_def)
  qed (use Some in \<open>simp add: validateFundLifecycle_def Let_def\<close>)
qed (simp add: validateFundLifecycle_def)

lemma no_escape:
  "demand c code \<noteq> Inl (Escape e)" "guarded m code auth \<noteq> Inl (Escape e)"
  by (simp add: demand_def, cases m, simp_all)

lemma unguarded_escape: "unguarded m = Inl (Escape e) \<longleftrightarrow> m = Inl e"
  by (cases m) simp_all

lemma validate_action_no_escape:
  assumes "payload_policy E h (in_payload (ap_intent (ar_authorizationPackage rq)))"
  shows "validate_action E s rq enc \<noteq> Inl (Escape e)"
  using typedAction_total [OF assms, of "toLowerCase (ap_declaredAuthorizedIntentHash (ar_authorizationPackage rq))"]
    fund_lifecycle_total [OF assms, of s "h_fundLifecycleDigest (enc_header enc)" "ar_fundLifecycleGate rq"]
  by (auto simp: validate_action_def Let_def bnd_eq_Inl no_escape unguarded_escape split: option.splits)

lemma validate_authorization_no_escape:
  assumes "ethers_laws E" and "is_uint False 256 (ar_keyedNonce rq) m"
  shows "validate_authorization E s rq a \<noteq> Inl (Escape e)"
proof -
  obtain r where "verifyPhilCoreV2Authorization E (engine_request s rq) = Inr r"
    using verify_total [OF assms(1)] by blast
  with assms(2) show ?thesis
    by (cases r) (auto simp: validate_authorization_def engine_request_def bnd_eq_Inl no_escape
        unguarded_escape is_uint_def)
qed

lemma validation_no_escape:
  assumes laws: "ethers_laws E"
  shows "validation_steps E ref rq \<noteq> Inl (Escape e)"
proof
  assume "validation_steps E ref rq = Inl (Escape e)"
  moreover have "validate_envelope E s rq \<noteq> Inl (Escape e)" "validate_nonce E s rq \<noteq> Inl (Escape e)" for s
    by (auto simp: validate_envelope_def validate_nonce_def bnd_eq_Inl no_escape split: option.splits)
  ultimately obtain s n enc where
    "validate_nonce E s rq = Inr (n, enc)" and
    esc: "validate_action E s rq enc = Inl (Escape e) \<or>
      (\<exists>a. validate_authorization E s rq a = Inl (Escape e))"
    unfolding validation_steps_def bnd_eq_Inl bnd_eq_Inr guarded_iff case_prod_unfold
    by (auto simp: no_escape) blast
  then have m: "\<exists>m. is_uint False 256 (ar_keyedNonce rq) m" and
    enc: "encodePhilCoreV2Intent E (ap_intent (ar_authorizationPackage rq)) = Inr enc"
    unfolding validate_nonce_iff decomposePhilCoreV2Nonce_iff by auto
  from enc obtain h where "payload_policy E h (in_payload (ap_intent (ar_authorizationPackage rq)))"
    using encode_intent_iff [OF laws] by blast
  from esc m validate_action_no_escape [OF this] validate_authorization_no_escape [OF laws]
  show False by blast
qed

lemma validate_total:
  assumes "ethers_laws E"
  shows "\<exists>C' r. validatePhilCoreV2AccountOperation E C rq = (C', Inr r)"
  using validation_no_escape [OF assms]
  by (auto simp: validatePhilCoreV2AccountOperation_def split: sum.splits account_exit.splits)

section \<open>The state binding\<close>

lemma jbigint_inject [simp]: "jbigint m = jbigint n \<longleftrightarrow> m = n"
  by (simp add: jbigint_def)

lemma status_name_inject [simp]:
  "validator_status_name a = validator_status_name b \<longleftrightarrow> a = b"
  "recovery_state_name c = recovery_state_name d \<longleftrightarrow> c = d"
  by (cases a; cases b; simp) (cases c; cases d; simp)

lemma immutable_json_inject: "immutable_json a = immutable_json b \<Longrightarrow> a = b"
  by (cases a, cases b) (simp add: immutable_json_def)

lemma validator_json_inject: "validator_json a = validator_json b \<Longrightarrow> a = b"
  by (cases a, cases b) (auto simp: validator_json_def inj_def dest!: inj_mapD [rotated])

lemma sequences_json_inject: "sequences_json a = sequences_json b \<Longrightarrow> a = b"
  by (cases a, cases b) (simp add: sequences_json_def)

lemma pending_json_inject: "pending_json a = pending_json b \<Longrightarrow> a = b"
  by (cases a, cases b) (simp add: pending_json_def)

lemma pending_json_not_null [simp]: "pending_json p \<noteq> JNull" "JNull \<noteq> pending_json p"
  by (simp_all add: pending_json_def)

lemma account_json_inject:
  assumes "account_json a = account_json b"
  shows "a = b"
  using assms
  by (intro PhilCoreV2AccountState.equality)
     (auto simp: account_json_def dest: immutable_json_inject validator_json_inject sequences_json_inject pending_json_inject
       split: option.splits)

definition state_preimage :: "ethers \<Rightarrow> PhilCoreV2AccountState \<Rightarrow> bytes_like" where
  "state_preimage E s = toUtf8Bytes E (render (account_json s))"

lemma state_binding:
  assumes "ethers_laws E" and "\<not> keccak_collision E {state_preimage E s, state_preimage E t}"
    and "accountStateBinding E s = accountStateBinding E t"
  shows "s = t"
proof -
  have "render (account_json s) = render (account_json t)"
    using assms keccak_utf8_eq_in unfolding accountStateBinding_def state_preimage_def by blast
  then show ?thesis by (blast dest: render_inject account_json_inject)
qed

section \<open>Accepted validations\<close>

text \<open>What the engine accepted, on a well-formed account.\<close>

lemma accepted_digest:
  assumes "ethers_laws E" and "verifyPhilCoreV2Authorization E rq = Inr (Accepted a)"
  shows "is_bytes32 E False (aa_authorityDigest a) (aa_authorityDigest a)"
proof -
  from assms(2) obtain s p ih au d where
    "verify_authority_digest E s p ih au = Inr d" and d: "aa_authorityDigest a = d"
    unfolding verify_accepted_iff verify_steps_def Let_def bnd_eq_Inr case_prod_unfold by auto
  then have "engine_bytes32 E (ai_declaredAuthorityDigest au) = Some (aa_authorityDigest a)"
    unfolding verify_authority_digest_iff d by blast
  then show ?thesis
    by (auto simp: engine_bytes32_iff is_bytes32_def laws_isHexString [OF assms(1)] hex_string_lower
        dest: hex_string_lower_zero)
qed

lemma operation_engine:
  assumes laws: "ethers_laws E" and acc: "operation_accepted E rq s enc x"
  shows "account_wf E s \<and> (\<exists>au. authorization_accepted E (engine_request s rq) (as_validatorState s) enc au
    (ax_authorization x))"
proof -
  from acc have wf: "account_wf E s"
    unfolding operation_accepted_def Let_def using account_wf_result [OF laws] by blast
  then have v: "createPhilCoreV2ValidatorState E (validator_input (as_validatorState s)) = Inr (as_validatorState s)"
    by (simp add: account_wf_def)
  from acc have e: "encodePhilCoreV2Intent E (ap_intent (ar_authorizationPackage rq)) = Inr enc"
    unfolding operation_accepted_def Let_def by blast
  from acc have "verify_steps E (engine_request s rq) = Inr (ax_authorization x)"
    unfolding operation_accepted_def Let_def verify_accepted_iff by blast
  then obtain s' enc' au where "authorization_accepted E (engine_request s rq) s' enc' au (ax_authorization x)"
    using verify_accepts [OF laws] by blast
  moreover from this v e have "s' = as_validatorState s" "enc' = enc"
    by (auto simp: authorization_accepted_def engine_request_def)
  ultimately show ?thesis using wf by blast
qed

text \<open>The kind of the action is that of the payload.\<close>

lemma typedAction_kind:
  assumes "typedAction E p ih = Inr (Some a)"
  shows "(case a of
      DraftConfirm _ _ \<Rightarrow> payloadActionType p = CONFIRM
    | DraftNativeTransfer _ _ \<Rightarrow> payloadActionType p = NATIVE_TRANSFER
    | DraftERC20Transfer _ _ _ \<Rightarrow> payloadActionType p = ERC20_TRANSFER
    | DraftERC721SafeTransfer _ _ _ _ \<Rightarrow> payloadActionType p = ERC721_SAFE_TRANSFER
    | DraftERC1155SafeTransfer _ _ _ _ _ \<Rightarrow> payloadActionType p = ERC1155_SAFE_TRANSFER
    | DraftValidatorRotation _ _ _ \<Rightarrow> payloadActionType p = VALIDATOR_ROTATION
    | DraftRecoveryRequest _ _ _ _ \<Rightarrow> payloadActionType p = RECOVERY_REQUEST
    | DraftRecoveryCancel _ \<Rightarrow> payloadActionType p = RECOVERY_CANCEL)"
  using assms by (cases p) (auto simp: bnd_eq_Inr)

lemma operation_action:
  assumes laws: "ethers_laws E" and acc: "operation_accepted E rq s enc x"
  shows "typedAction E (in_payload (ap_intent (ar_authorizationPackage rq)))
      (toLowerCase (ap_declaredAuthorizedIntentHash (ar_authorizationPackage rq))) = Inr (Some (ax_action x))"
    and "h_actionType (enc_header enc) = payloadActionType (in_payload (ap_intent (ar_authorizationPackage rq)))"
    and "payload_policy E (enc_header enc) (in_payload (ap_intent (ar_authorizationPackage rq)))"
  using acc unfolding operation_accepted_def Let_def encodePhilCoreV2Intent_iff [OF laws]
  using encode_payload_iff by blast+

text \<open>An accepted operation that makes no state transition can be applied to its state.\<close>

lemma accepted_consumable:
  assumes laws: "ethers_laws E" and acc: "operation_accepted E rq s enc x"
  shows "consumable E s x"
proof -
  obtain au where a: "authorization_accepted E (engine_request s rq) (as_validatorState s) enc au
      (ax_authorization x)"
    using operation_engine [OF laws acc] by blast
  have d: "is_bytes32 E False (aa_authorityDigest (ax_authorization x))
      (aa_authorityDigest (ax_authorization x))"
    using acc accepted_digest [OF laws] unfolding operation_accepted_def Let_def by blast
  then have "toLowerCase (aa_authorityDigest (ax_authorization x)) = aa_authorityDigest (ax_authorization x)"
    by (simp add: is_bytes32_def)
  moreover from acc have "normalizePhilCoreV2IntentCoreHeader E (in_header (ap_intent (ar_authorizationPackage rq)))
      = Inr (enc_header enc)" "ax_nonceKey x = h_nonceKey (enc_header enc)"
    "ax_nonceSequence x = h_nonceSequence (enc_header enc)"
    "aa_keyedNonce (ax_authorization x) = ax_nonceKey x * 2 ^ 64 + ax_nonceSequence x"
    unfolding operation_accepted_def Let_def encodePhilCoreV2Intent_iff [OF laws] by blast+
  moreover then have "uint_fits 192 (ax_nonceKey x)" "uint_fits 64 (ax_nonceSequence x)"
    unfolding normalizePhilCoreV2IntentCoreHeader_iff by (auto simp: is_uint_def)
  ultimately show ?thesis
    using a d unfolding consumable_def Let_def authorization_accepted_def by (metis (no_types))
qed

section \<open>A sample account\<close>

definition sample_account :: PhilCoreV2AccountState where
  "sample_account =
     \<lparr>as_immutable =
        \<lparr>im_chainId = 1, im_entryPoint = a20 (CHR ''e''), im_account = a20 (CHR ''a''),
         im_ownerCommitment = h32 (CHR ''2''), im_factoryBinding = a20 (CHR ''f''),
         im_accountVersionId = PHILCORE_V2_ACCOUNT_VERSION_ID sample_ethers,
         im_securityModelId = PHILCORE_V2_SECURITY_MODEL_ID sample_ethers,
         im_confirmationTarget = a20 (CHR ''d''),
         im_recoveryDelaySeconds = 172800, im_recoveryExpirySeconds = 604800\<rparr>,
      as_validatorState = sample_validator_state,
      as_nonceSequences = \<lparr>ns_ordinary = 0, ns_maintenance = 0, ns_recovery = 0\<rparr>,
      as_validatorCommitment = h32 (CHR ''c''), as_securityConfigurationHash = h32 (CHR ''4''),
      as_primaryDeviceFactorCommitment = h32 (CHR ''d''),
      as_hardwareSecurityKeyCommitment = h32 (CHR ''e''),
      as_recoveryFactorCommitment = h32 (CHR ''f''), as_executionLocked = False,
      as_recoveryLifecycle = LifecycleNormal, as_pendingRecovery = None\<rparr>"

text \<open>Evaluation of the sample digest function.\<close>

lemma sample_weight_simps:
  "sample_weight [] = 0" "sample_weight (c # s) = of_char c + sample_weight s"
  "sample_weight (s @ t) = sample_weight s + sample_weight t"
  "sample_weight (replicate n c) = n * of_char c"
  by (simp_all add: sample_weight_def sum_list_replicate)

lemma sample_utf8_digest:
  "keccak256 sample_ethers (toUtf8Bytes sample_ethers s) = sample_digest (sample_weight s)"
  by (simp add: sample_ethers_def comp_def sample_weight_def unat_of_nat take_bit_eq_mod)

lemma sample_abi_digest:
  "keccak256 sample_ethers (HexData (abiEncode sample_ethers ts vs)) =
     sample_digest (168 + sum_list (map sample_weight (map2 sample_abi_word ts vs)))"
proof -
  have "sample_weight (concat ws) = sum_list (map sample_weight ws)" for ws
    by (induction ws) (simp_all add: sample_weight_simps)
  then show ?thesis by (simp add: sample_ethers_def sample_weight_simps)
qed

lemma sample_word_drop: "drop 2 (h32 c) = replicate 64 c" "drop 2 (a20 c) = replicate 40 c"
  by (simp_all add: h32_def a20_def)

lemma sample_word_weight:
  "sample_weight (sample_abi_word ''bytes32'' (AbiHex (h32 c))) = 64 * of_char c"
  "sample_weight (sample_abi_word ''address'' (AbiHex (a20 c))) = 24 * 48 + 40 * of_char c"
  "0 \<le> n \<Longrightarrow> n < 16 \<Longrightarrow>
     sample_weight (sample_abi_word t (AbiUint n)) = 63 * 48 + of_char (sample_digit (nat n))"
proof -
  show "sample_weight (sample_abi_word ''bytes32'' (AbiHex (h32 c))) = 64 * of_char c"
    "sample_weight (sample_abi_word ''address'' (AbiHex (a20 c))) = 24 * 48 + 40 * of_char c"
    by (simp_all add: sample_word_drop sample_weight_simps)
  assume n: "0 \<le> n" "n < 16"
  have zero: "sample_digits 63 0 = replicate 63 (CHR ''0'')"
    using sample_digits.simps(2) [of 62 0] by (simp add: numeral_eq_Suc)
  have "sample_digits 64 (nat n) = sample_digits 63 (nat n div 16) @ [sample_digit (nat n mod 16)]"
    using sample_digits_Suc [of 63 "nat n"] by simp
  also have "nat n div 16 = 0" using n by simp
  also have "nat n mod 16 = nat n" using n by simp
  finally show "sample_weight (sample_abi_word t (AbiUint n)) = 63 * 48 + of_char (sample_digit (nat n))"
    by (simp add: zero sample_weight_simps)
qed

lemma sample_typehashes:
  "PHILCORE_V2_AUTHORIZATION_TYPEHASH sample_ethers RECOVERY_CONFIGURATION = h32 (CHR ''6'')"
  "PHILCORE_V2_AUTHORIZATION_TYPEHASH sample_ethers VALIDATOR_COMMITMENT = h32 (CHR ''8'')"
  "PHILCORE_V2_TYPEHASH sample_ethers FUND_LIFECYCLE = h32 (CHR ''e'')"
  by (simp_all add: PHILCORE_V2_AUTHORIZATION_TYPEHASH_def PHILCORE_V2_TYPEHASH_def sample_utf8_digest
      sample_weight_simps sample_digest_def sample_digit_def)

lemmas sample_evaluation = sample_abi_digest sample_word_weight sample_typehashes sample_digest_def sample_digit_def

declare sample_abi_word.simps [simp del]

lemma sample_commitments:
  "security_configuration sample_ethers (h32 (CHR ''d'')) (h32 (CHR ''e'')) (h32 (CHR ''f'')) =
     Inr (h32 (CHR ''4''))"
  "validator_commitment sample_ethers sample_validator_state = Inr (h32 (CHR ''c''))"
  by (simp_all add: security_configuration_def computePhilCoreV2RecoveryConfigurationHash_def
      validator_commitment_def computePhilCoreV2ValidatorCommitment_def sample_validator_state_def
      PHILCORE_V2_RECOVERY_CONFIGURATION_VERSION_def PHILCORE_V2_RECOVERY_THRESHOLD_def
      PHILCORE_V2_VALIDATOR_VERIFIER_KIND_SECP256K1_ECDSA_def auth_uint_def literal_simps
      sample_evaluation)

lemma sample_account_wf: "account_wf sample_ethers sample_account"
  using sample_validator_wf
  by (simp add: account_wf_def sample_account_def immutable_wf_def sample_commitments literal_simps
      uint_fits_def sequences_wf_def PHILCORE_V2_ACCOUNT_VERSION_ID_def PHILCORE_V2_SECURITY_MODEL_ID_def
      PHILCORE_V2_RECOVERY_DELAY_SECONDS_def PHILCORE_V2_RECOVERY_EXPIRY_SECONDS_def
      sample_validator_state_def [symmetric])
     (simp add: sample_validator_state_def)

text \<open>The same account with a recovery requested at time 1000.\<close>

definition sample_pending :: PhilCoreV2PendingRecovery where
  "sample_pending =
     \<lparr>pr_requestId = h32 (CHR ''1''), pr_proposedValidator = a20 (CHR ''c''),
      pr_proposedValidatorKeyIdBinding = h32 (CHR ''2''), pr_proposedValidatorEpoch = 2,
      pr_sourceValidatorEpoch = 1, pr_sourceRecoveryEpoch = 1, pr_requestedAt = 1000,
      pr_executableAfter = 173800, pr_expiresAt = 605800,
      pr_authorizationEvidenceCommitment = h32 (CHR ''3'')\<rparr>"

definition sample_recovering :: PhilCoreV2AccountState where
  "sample_recovering = sample_account
     \<lparr>as_validatorState := sample_validator_state\<lparr>vs_recoveryState := RecoveryActive\<rparr>,
      as_recoveryLifecycle := LifecycleActive, as_pendingRecovery := Some sample_pending\<rparr>"

lemma sample_recovering_wf: "account_wf sample_ethers sample_recovering"
  using sample_account_wf
  by (simp add: account_wf_def sample_recovering_def sample_account_def pending_normal_def
      pending_timing_def sample_pending_def literal_simps uint_fits_def)
     (simp add: sample_validator_state_def literal_simps)

text \<open>A validation request for the sample package, with a fund lifecycle for it.\<close>

definition sample_lifecycle :: PhilCoreV2FundLifecycleInput where
  "sample_lifecycle =
     \<lparr>fl_lifecycleSchemaHash = h32 (CHR ''e''), fl_account = a20 (CHR ''a''),
      fl_asset = ZERO_ADDRESS, fl_tokenId = BigIntV 0, fl_maximumFundingOrHolding = BigIntV 9,
      fl_maximumStranded = BigIntV 1, fl_residualRecipient = a20 (CHR ''d''),
      fl_expectedPostOperationBalance = BigIntV 1, fl_expectedFinalBalance = BigIntV 0,
      fl_releaseRouteHash = h32 (CHR ''1''), fl_simulationEvidenceHash = h32 (CHR ''3'')\<rparr>"

definition sample_operation :: PhilCoreV2AccountValidationRequest where
  "sample_operation =
     \<lparr>ar_state = sample_account, ar_caller = a20 (CHR ''e''), ar_keyedNonce = BigIntV 0,
      ar_userOperationHashBinding = h32 (CHR ''d''),
      ar_authorizationPackage = sample_package sample_authority_digest,
      ar_currentTime = BigIntV 300, ar_authorityVerifier = sample_verifier,
      ar_fundLifecycleGate = Some \<lparr>fg_lifecycle = sample_lifecycle, fg_releasePathVerified = True,
        fg_residualHandlingBound = True, fg_finalStateVerificationRequired = True,
        fg_separateReleaseAuthorizationRequired = True\<rparr>,
      ar_paymasterPresent = None, ar_ownPropertyNames = []\<rparr>"

definition sample_context :: "nat \<Rightarrow> PhilCoreV2AccountValidation" where
  "sample_context ref =
     \<lparr>ax_ref = ref, ax_format = PHILCORE_V2_ACCOUNT_VALIDATION_CONTEXT_FORMAT,
      ax_authorization = sample_acceptance, ax_action = DraftNativeTransfer (a20 (CHR ''c'')) 5,
      ax_nonceKey = 0, ax_nonceSequence = 0,
      ax_validatedStateBinding = accountStateBinding sample_ethers sample_account,
      ax_fundLifecycleEnforced = True, ax_publicMutationCount = 0\<rparr>"

lemma sample_lifecycle_digest:
  "computePhilCoreV2FundLifecycleDigest sample_ethers sample_lifecycle = Inr (h32 (CHR ''4''))"
proof -
  have "intent_uint (BigIntV n) 256 l False = Inr n" if "uint_fits 256 n" for n l
    using that by (simp add: intent_uint_iff)
  moreover have "intent_bytes32 sample_ethers (h32 c) l False = Inr (h32 c)"
    if "hex_digit c" "lower_char c = c" "c \<noteq> CHR ''0''" for c l
    using that by (simp add: intent_bytes32_iff literal_simps)
  moreover have "intent_address sample_ethers (a20 c) l True = Inr (a20 c)"
    if "hex_digit c" "lower_char c = c" for c l
    using that by (simp add: intent_address_iff literal_simps)
  moreover have "intent_address sample_ethers (a20 (CHR ''a'')) l False = Inr (a20 (CHR ''a''))" for l
    by (simp add: intent_address_iff literal_simps)
  ultimately show ?thesis
    by (simp add: computePhilCoreV2FundLifecycleDigest_def sample_lifecycle_def literal_simps
        uint_fits_def ZERO_ADDRESS_alt fund_lifecycle_types_def sample_evaluation)
qed

lemma sample_operation_accepted:
  "operation_accepted sample_ethers sample_operation sample_account sample_encoding (sample_context ref)"
proof -
  have "fund_bounds sample_ethers sample_account (NativeTransfer (a20 (CHR ''c'')) (BigIntV 5))
      (h32 (CHR ''4'')) (the (ar_fundLifecycleGate sample_operation))"
    unfolding fund_bounds_def
    by (simp add: sample_operation_def sample_lifecycle_digest literal_simps)
       (simp add: sample_lifecycle_def sameAddress_def sample_account_def literal_simps ZERO_ADDRESS_alt)
  moreover have "engine_request sample_account sample_operation = sample_request sample_validator_state"
    by (simp add: engine_request_def sample_request_def sample_operation_def sample_account_def)
  ultimately show ?thesis
    using sample_accepted sample_encoding_ok sample_encoding_fields(1)
      create_account_wf [OF sample_ethers_laws sample_account_wf]
    unfolding operation_accepted_def Let_def
    by (simp add: sample_operation_def sample_context_def sample_package_def sample_intent_def
        sample_transfer_def sample_normal_header_def sample_acceptance_def getAddress_or_throw_def
        literal_simps is_uint_BigIntV uint_fits_def prohibited_members_def)
       (simp add: sample_account_def sameAddress_def expectedSequence_def literal_simps
         laws_isHexString [OF sample_ethers_laws])
qed

end
