(* ===== verification/AccountSystem.thy ===== *)
theory AccountSystem
  imports Account
begin

text \<open>
  The account core as a system of contexts and a state: validations, applications (successful or
  not) and recovery completions as the steps of a relation, its invariant, and the properties of
  the account core that speak about sequences of operations.
\<close>

section \<open>The account as a state machine\<close>

text \<open>
  A step validates a request, applies a context (which may fail, the context then being consumed
  all the same) or completes a recovery.
\<close>

inductive account_step ::
  "ethers \<Rightarrow> validation_contexts \<times> PhilCoreV2AccountState \<Rightarrow> validation_contexts \<times> PhilCoreV2AccountState \<Rightarrow> bool"
  for E where
  validate: "validatePhilCoreV2AccountOperation E C rq = (C', r) \<Longrightarrow> account_step E (C, s) (C', s)"
| applied: "applyPhilCoreV2AccountTransitionLocally E C s x time = (C', Inr r) \<Longrightarrow>
    account_step E (C, s) (C', tr_state r)"
| apply_fails: "applyPhilCoreV2AccountTransitionLocally E C s x time = (C', Inl e) \<Longrightarrow>
    account_step E (C, s) (C', s)"
| complete: "completePhilCoreV2RecoveryLocally E s rid time = Inr t \<Longrightarrow> account_step E (C, s) (C, t)"

inductive_cases account_stepE: "account_step E (C, s) (C', t)"

text \<open>The calls with their arguments, and what a call leaves behind. A call that throws may still consume a context.\<close>

datatype account_call =
    ValidateCall PhilCoreV2AccountValidationRequest
  | ApplyCall PhilCoreV2AccountValidation bignumberish
  | CompleteCall string bignumberish

fun account_after ::
  "ethers \<Rightarrow> account_call \<Rightarrow> validation_contexts \<times> PhilCoreV2AccountState \<Rightarrow> validation_contexts \<times> PhilCoreV2AccountState"
where
  "account_after E (ValidateCall rq) (C, s) = (fst (validatePhilCoreV2AccountOperation E C rq), s)"
| "account_after E (ApplyCall x time) (C, s) =
     (case applyPhilCoreV2AccountTransitionLocally E C s x time of
        (C', Inl e) \<Rightarrow> (C', s) | (C', Inr r) \<Rightarrow> (C', tr_state r))"
| "account_after E (CompleteCall rid time) (C, s) =
     (case completePhilCoreV2RecoveryLocally E s rid time of Inl e \<Rightarrow> (C, s) | Inr t \<Rightarrow> (C, t))"

text \<open>The steps are the calls: every step is the effect of a call, and a call takes a step or changes nothing.\<close>

lemma account_step_call: "account_step E cs dt \<Longrightarrow> \<exists>call. account_after E call cs = dt"
proof (induction rule: account_step.induct)
  case (validate C rq C' r s)
  then show ?case by (intro exI [of _ "ValidateCall rq"]) simp
next
  case (applied C s x time C' r)
  then show ?case by (intro exI [of _ "ApplyCall x time"]) simp
next
  case (apply_fails C s x time C' e)
  then show ?case by (intro exI [of _ "ApplyCall x time"]) simp
next
  case (complete s rid time t C)
  then show ?case by (intro exI [of _ "CompleteCall rid time"]) simp
qed

lemma account_call_step: "account_after E call cs = cs \<or> account_step E cs (account_after E call cs)"
proof (cases call; cases cs)
  fix rq C s
  assume "call = ValidateCall rq" "cs = (C, s)"
  then show ?thesis by (simp add: account_step.validate [OF prod.collapse [symmetric]])
next
  fix x time C s
  assume "call = ApplyCall x time" "cs = (C, s)"
  then show ?thesis by (auto intro: account_step.applied account_step.apply_fails split: prod.splits sum.splits)
next
  fix rid time C s
  assume "call = CompleteCall rid time" "cs = (C, s)"
  then show ?thesis by (auto intro: account_step.complete split: sum.splits)
qed

text \<open>The contexts: the issued ones are different objects, the consumed ones are issued.\<close>

definition contexts_wf :: "validation_contexts \<Rightarrow> bool" where
  "contexts_wf C \<longleftrightarrow>
     map ax_ref (issuedValidationContexts C) = [0 ..< length (issuedValidationContexts C)] \<and>
     set (consumedValidationContexts C) \<subseteq> set (issuedValidationContexts C) \<and>
     distinct (consumedValidationContexts C)"

text \<open>Every consumed nonce is below the sequence of its key.\<close>

definition nonces_below :: "PhilCoreV2AccountState \<Rightarrow> bool" where
  "nonces_below s \<longleftrightarrow> (\<forall>n \<in> set (vs_consumedNonces (as_validatorState s)).
     \<exists>q. expectedSequence (as_nonceSequences s) (n div 2 ^ 64) = Some q \<and> n mod 2 ^ 64 < q)"

text \<open>A pending recovery has the delay and the expiry of the account, and the current epochs.\<close>

definition pending_locked :: "PhilCoreV2AccountState \<Rightarrow> bool" where
  "pending_locked s \<longleftrightarrow> (\<forall>p. as_pendingRecovery s = Some p \<longrightarrow>
     pr_executableAfter p = pr_requestedAt p + PHILCORE_V2_RECOVERY_DELAY_SECONDS \<and>
     pr_expiresAt p = pr_requestedAt p + PHILCORE_V2_RECOVERY_EXPIRY_SECONDS \<and>
     pr_sourceValidatorEpoch p = vs_validatorEpoch (as_validatorState s) \<and>
     pr_sourceRecoveryEpoch p = vs_recoveryEpoch (as_validatorState s))"

text \<open>A pending recovery was installed by a consumed context of a recovery request.\<close>

definition pending_authorised :: "ethers \<Rightarrow> validation_contexts \<Rightarrow> PhilCoreV2AccountState \<Rightarrow> bool" where
  "pending_authorised E C s \<longleftrightarrow> (\<forall>p. as_pendingRecovery s = Some p \<longrightarrow>
     (\<exists>x \<in> set (consumedValidationContexts C). \<exists>rid pv pb pe.
        ax_action x = DraftRecoveryRequest rid pv pb pe \<and> pr_requestId p = toLowerCase rid \<and>
        is_address E False pv (pr_proposedValidator p) \<and>
        is_bytes32 E False pb (pr_proposedValidatorKeyIdBinding p) \<and>
        pr_proposedValidatorEpoch p = pe \<and>
        pr_authorizationEvidenceCommitment p = toLowerCase (aa_authorityDigest (ax_authorization x))))"

text \<open>Every issued context comes from an accepted validation.\<close>

definition issued_accepted :: "ethers \<Rightarrow> validation_contexts \<Rightarrow> bool" where
  "issued_accepted E C \<longleftrightarrow>
     (\<forall>x \<in> set (issuedValidationContexts C). \<exists>rq s enc. operation_accepted E rq s enc x)"

definition account_inv :: "ethers \<Rightarrow> validation_contexts \<times> PhilCoreV2AccountState \<Rightarrow> bool" where
  "account_inv E cs \<longleftrightarrow>
     contexts_wf (fst cs) \<and> issued_accepted E (fst cs) \<and> account_wf E (snd cs) \<and>
     nonces_below (snd cs) \<and> pending_locked (snd cs) \<and> pending_authorised E (fst cs) (snd cs)"

text \<open>How the account and its contexts evolve.\<close>

definition system_evolves ::
  "validation_contexts \<times> PhilCoreV2AccountState \<Rightarrow> validation_contexts \<times> PhilCoreV2AccountState \<Rightarrow> bool" where
  "system_evolves cs dt \<longleftrightarrow>
     account_evolves (snd cs) (snd dt) \<and>
     (\<exists>xs. issuedValidationContexts (fst dt) = issuedValidationContexts (fst cs) @ xs) \<and>
     (\<exists>ys. consumedValidationContexts (fst dt) = consumedValidationContexts (fst cs) @ ys)"

lemma system_evolves_refl: "system_evolves cs cs"
  by (simp add: system_evolves_def account_evolves_refl)

lemma system_evolves_trans: "system_evolves a b \<Longrightarrow> system_evolves b c \<Longrightarrow> system_evolves a c"
  unfolding system_evolves_def by (auto intro: account_evolves_trans)

lemma contexts_wf_validate:
  assumes "ethers_laws E" and "contexts_wf C" and "validatePhilCoreV2AccountOperation E C rq = (C', r)"
  shows "contexts_wf C' \<and> consumedValidationContexts C' = consumedValidationContexts C \<and>
    (\<exists>xs. issuedValidationContexts C' = issuedValidationContexts C @ xs)"
  using assms validate_contexts [OF assms(3)]
  by (auto simp: contexts_wf_def validation_steps_iff)

lemma issued_accepted_validate:
  assumes "ethers_laws E" and "issued_accepted E C" and "validatePhilCoreV2AccountOperation E C rq = (C', r)"
  shows "issued_accepted E C'"
  using assms validate_contexts [OF assms(3)] by (auto simp: issued_accepted_def validation_steps_iff) blast

lemma pending_authorised_mono:
  "pending_authorised E C s \<Longrightarrow> set (consumedValidationContexts C) \<subseteq> set (consumedValidationContexts C') \<Longrightarrow>
     pending_authorised E C' s"
  unfolding pending_authorised_def by blast

lemma contexts_wf_apply:
  assumes "contexts_wf C" and "applyPhilCoreV2AccountTransitionLocally E C s x time = (C', r)"
  shows "contexts_wf C' \<and> issuedValidationContexts C' = issuedValidationContexts C \<and>
    (\<exists>ys. consumedValidationContexts C' = consumedValidationContexts C @ ys)"
  using assms(1) apply_contexts [OF assms(2)] by (auto simp: contexts_wf_def)

lemma nonces_below_advance:
  assumes wf: "sequences_wf (as_nonceSequences s)" and below: "nonces_below s"
    and adv: "advances k (as_nonceSequences s) (as_nonceSequences t)"
    and k: "expectedSequence (as_nonceSequences s) k = Some q"
    and n: "vs_consumedNonces (as_validatorState t) =
      vs_consumedNonces (as_validatorState s) @ [k * 2 ^ 64 + q]"
  shows "nonces_below t"
  unfolding nonces_below_def
proof
  fix n
  assume "n \<in> set (vs_consumedNonces (as_validatorState t))"
  then consider "n \<in> set (vs_consumedNonces (as_validatorState s))" | "n = k * 2 ^ 64 + q"
    using n by auto
  then show "\<exists>q. expectedSequence (as_nonceSequences t) (n div 2 ^ 64) = Some q \<and> n mod 2 ^ 64 < q"
  proof cases
    case 1
    with below obtain p where "expectedSequence (as_nonceSequences s) (n div 2 ^ 64) = Some p"
      "n mod 2 ^ 64 < p" unfolding nonces_below_def by blast
    with adv show ?thesis by (cases "n div 2 ^ 64 = k") (force simp: advances_def)+
  next
    case 2
    from wf k have "uint_fits 64 q" by (simp add: sequences_wf_expected)
    then have "n div 2 ^ 64 = k" "n mod 2 ^ 64 = q" using 2 by (simp_all add: uint_fits_def)
    with adv k show ?thesis by (auto simp: advances_def)
  qed
qed

lemma pending_locked_effect:
  assumes s: "account_wf E s" and "pending_locked s" and eff: "action_effect E s x now ns t"
  shows "pending_locked t"
proof (cases "ax_action x")
  case (DraftRecoveryRequest rid pv pb pe)
  with eff s show ?thesis
    unfolding action_effect_def pending_locked_def account_wf_def immutable_wf_def
    by (auto simp: Let_def pending_normal_def pending_request_def)
next
  case (DraftValidatorRotation pv pb pe)
  with eff s have "as_pendingRecovery t = None"
    by (auto simp: action_effect_def Let_def account_wf_def)
  then show ?thesis by (simp add: pending_locked_def)
qed (use assms in \<open>auto simp: action_effect_def Let_def pending_locked_def\<close>)

lemma pending_authorised_effect:
  assumes "pending_authorised E C s" and eff: "action_effect E s x now ns t"
  shows "pending_authorised E
    (C\<lparr>consumedValidationContexts := consumedValidationContexts C @ [x]\<rparr>) t"
proof (cases "ax_action x")
  case (DraftRecoveryRequest rid pv pb pe)
  with eff obtain q where q: "as_pendingRecovery t = Some q"
    "pending_normal E (pending_request s x now rid pv pb pe) q"
    by (auto simp: action_effect_def Let_def)
  with DraftRecoveryRequest show ?thesis unfolding pending_authorised_def
    by (intro allI impI bexI [of _ x])
       (auto simp: pending_normal_def pending_request_def is_bytes32_def)
qed (use assms in \<open>auto simp: action_effect_def Let_def pending_authorised_def\<close>)

lemma account_apply_inv:
  assumes laws: "ethers_laws E" and inv: "account_inv E (C, s)"
    and ap: "applyPhilCoreV2AccountTransitionLocally E C s x time = (C', Inr r)"
  shows "account_inv E (C', tr_state r) \<and> system_evolves (C, s) (C', tr_state r)"
proof -
  from inv have s: "account_wf E s" "contexts_wf C" "nonces_below s" "pending_locked s"
    "pending_authorised E C s" "issued_accepted E C"
    by (simp_all add: account_inv_def)
  from ap obtain now ns where
    valid: "context_valid E C s x" and con: "consumable E s x" and
    C': "C' = C\<lparr>consumedValidationContexts := consumedValidationContexts C @ [x]\<rparr>" and
    adv: "advances (ax_nonceKey x) (as_nonceSequences s) ns" and
    eff: "action_effect E s x now ns (tr_state r)"
    unfolding apply_iff [OF laws s(1)] by blast
  note sound = action_effect_sound [OF laws s(1) con adv eff]
  have "nonces_below (tr_state r)"
    using sound adv valid account_wf_parts(1) [OF s(1)]
    by (intro nonces_below_advance [OF _ s(3), where k = "ax_nonceKey x" and q = "ax_nonceSequence x"])
       (simp_all add: consumed_validator_def context_valid_def)
  with sound contexts_wf_apply [OF s(2) ap] pending_locked_effect [OF s(1) s(4) eff]
    pending_authorised_effect [OF s(5) eff] s(6)
  show ?thesis by (auto simp: account_inv_def system_evolves_def issued_accepted_def C')
qed

lemma account_step_sound:
  assumes laws: "ethers_laws E" and inv: "account_inv E cs" and step: "account_step E cs dt"
  shows "account_inv E dt \<and> system_evolves cs dt"
  using step
proof cases
  case (validate C rq C' r s)
  with inv contexts_wf_validate [OF laws _ validate(3)] issued_accepted_validate [OF laws _ validate(3)]
    pending_authorised_mono [of E C s C'] show ?thesis
    by (auto simp: account_inv_def system_evolves_def account_evolves_refl)
next
  case (applied C s x time C' r)
  with account_apply_inv [OF laws _ applied(3)] inv show ?thesis by simp
next
  case (apply_fails C s x time C' e)
  with inv contexts_wf_apply [OF _ apply_fails(3)] pending_authorised_mono [of E C s C'] show ?thesis
    by (auto simp: account_inv_def system_evolves_def account_evolves_refl issued_accepted_def)
next
  case (complete s rid time t C)
  then have s: "account_wf E s" using inv by (simp add: account_inv_def)
  have "as_pendingRecovery t = None"
    using complete(3) unfolding complete_iff [OF laws s] by auto
  with complete inv complete_sound [OF laws s complete(3)] show ?thesis
    by (simp add: account_inv_def system_evolves_def nonces_below_def pending_locked_def
        pending_authorised_def)
qed

interpretation account_system: invariant_system "account_step E"
    "\<lambda>cs. ethers_laws E \<and> account_inv E cs" for E
  by unfold_locales (use account_step_sound in blast)

lemma account_reachable:
  assumes "ethers_laws E" and "account_inv E cs" and "(account_step E)\<^sup>*\<^sup>* cs dt"
  shows "account_inv E dt \<and> system_evolves cs dt"
  using assms account_system.star_inv [of E cs dt]
    account_system.star_preserves [of E cs dt system_evolves] account_step_sound
    system_evolves_refl system_evolves_trans
  by blast

text \<open>The contexts as a one-shot ledger.\<close>

definition apply_context ::
  "ethers \<Rightarrow> validation_contexts \<times> PhilCoreV2AccountState \<Rightarrow> PhilCoreV2AccountValidation \<times> bignumberish \<Rightarrow>
     (validation_contexts \<times> PhilCoreV2AccountState) result" where
  "apply_context E cs xt =
     (case applyPhilCoreV2AccountTransitionLocally E (fst cs) (snd cs) (fst xt) (snd xt) of
        (C', r) \<Rightarrow> bnd r (\<lambda>r. Inr (C', tr_state r)))"

lemma apply_context_iff:
  "apply_context E (C, s) (x, time) = Inr (C', t) \<longleftrightarrow>
     (\<exists>r. applyPhilCoreV2AccountTransitionLocally E C s x time = (C', Inr r) \<and> t = tr_state r)"
  by (auto simp: apply_context_def bnd_eq_Inr split: prod.splits)

lemma apply_consumes:
  assumes "applyPhilCoreV2AccountTransitionLocally E C s x time = (C', Inr r)"
  shows "x \<in> set (issuedValidationContexts C) \<and> x \<notin> set (consumedValidationContexts C) \<and>
    C' = C\<lparr>consumedValidationContexts := consumedValidationContexts C @ [x]\<rparr>"
  using assms
  by (auto simp: applyPhilCoreV2AccountTransitionLocally_def context_valid_def
      split: sum.splits if_splits)

interpretation contexts: one_shot_ledger "\<lambda>cs. ethers_laws E \<and> account_inv E cs"
    "\<lambda>cs. consumedValidationContexts (fst cs)" "apply_context E" fst for E
proof unfold_locales
  fix cs u dt
  assume v: "ethers_laws E \<and> account_inv E cs" and u: "apply_context E cs u = Inr dt"
  obtain C s x time C' t where [simp]: "cs = (C, s)" "u = (x, time)" "dt = (C', t)"
    by (cases cs, cases u, cases dt) blast
  from u obtain r where ap: "applyPhilCoreV2AccountTransitionLocally E C s x time = (C', Inr r)"
    and "t = tr_state r" by (auto simp: apply_context_iff)
  with v account_apply_inv [OF _ _ ap] show "ethers_laws E \<and> account_inv E dt" by simp
  from apply_consumes [OF ap] show
    "consumedValidationContexts (fst dt) = consumedValidationContexts (fst cs) @ [fst u]"
    "fst u \<notin> set (consumedValidationContexts (fst cs))" by simp_all
qed

lemma consumed_context_refused:
  assumes "x \<in> set (consumedValidationContexts C)"
  shows "\<exists>e. applyPhilCoreV2AccountTransitionLocally E C s x time = (C, Inl e)"
  using assms
  by (auto simp: applyPhilCoreV2AccountTransitionLocally_def context_valid_def split: sum.splits)

text \<open>A sequence of applications.\<close>

fun apply_all ::
  "ethers \<Rightarrow> validation_contexts \<times> PhilCoreV2AccountState \<Rightarrow>
     (PhilCoreV2AccountValidation \<times> bignumberish) list \<Rightarrow>
     (validation_contexts \<times> PhilCoreV2AccountState) result" where
  "apply_all E cs [] = Inr cs"
| "apply_all E cs (u # us) = bnd (apply_context E cs u) (\<lambda>dt. apply_all E dt us)"

lemma apply_all_use_all: "apply_all E cs us = contexts.use_all E cs us"
  by (induction us arbitrary: cs) auto

lemma not_accepted_rejected:
  assumes "ethers_laws E" and "\<And>s enc x. \<not> operation_accepted E rq s enc x"
  shows "\<exists>code auth. validatePhilCoreV2AccountOperation E C rq = (C, Inr (AccountRejected code auth))"
proof -
  from assms(2) have "\<not> (\<exists>x. validation_steps E (length (issuedValidationContexts C)) rq = Inr x)"
    by (simp add: validation_steps_iff [OF assms(1)])
  with validation_no_escape [OF assms(1)] show ?thesis
    by (auto simp: validatePhilCoreV2AccountOperation_def split: sum.splits account_exit.splits)
qed

lemma accepted_on_state:
  assumes "ethers_laws E" and "account_wf E (ar_state rq)"
    and "validatePhilCoreV2AccountOperation E C rq = (C', Inr (AccountAccepted x))"
  shows "\<exists>enc. operation_accepted E rq (ar_state rq) enc x"
  using assms(3) create_account_wf [OF assms(1,2)]
  unfolding validate_accepted_iff validation_steps_iff [OF assms(1)]
  by (auto simp: operation_accepted_def Let_def)

section \<open>A sample run\<close>

definition no_contexts :: validation_contexts where
  "no_contexts = \<lparr>issuedValidationContexts = [], consumedValidationContexts = []\<rparr>"

definition sample_issued :: validation_contexts where
  "sample_issued = \<lparr>issuedValidationContexts = [sample_context 0], consumedValidationContexts = []\<rparr>"

definition sample_consumed :: validation_contexts where
  "sample_consumed =
     \<lparr>issuedValidationContexts = [sample_context 0], consumedValidationContexts = [sample_context 0]\<rparr>"

definition sample_result :: PhilCoreV2AccountState where
  "sample_result = sample_account
     \<lparr>as_validatorState := consumed_validator sample_account (sample_context 0),
      as_nonceSequences := \<lparr>ns_ordinary = 1, ns_maintenance = 0, ns_recovery = 0\<rparr>\<rparr>"

lemma sample_inv: "account_inv sample_ethers (no_contexts, sample_account)"
  using sample_account_wf
  by (simp add: account_inv_def no_contexts_def contexts_wf_def issued_accepted_def nonces_below_def
      pending_locked_def pending_authorised_def sample_account_def sample_validator_state_def)

lemma sample_validated:
  "validatePhilCoreV2AccountOperation sample_ethers no_contexts sample_operation =
     (sample_issued, Inr (AccountAccepted (sample_context 0)))"
  unfolding validate_accepted_iff validation_steps_iff [OF sample_ethers_laws]
  using sample_operation_accepted by (auto simp: sample_context_def no_contexts_def sample_issued_def)

lemma sample_context_valid: "context_valid sample_ethers sample_issued sample_account (sample_context 0)"
  by (simp add: context_valid_def sample_issued_def sample_context_def sample_account_def expectedSequence_def)

lemma sample_advances:
  "advances 0 (as_nonceSequences sample_account) \<lparr>ns_ordinary = 1, ns_maintenance = 0, ns_recovery = 0\<rparr>"
  by (simp add: incrementSequence_iff [symmetric] incrementSequence_def expectedSequence_def
      sample_account_def MAX_UINT64_def)

lemma sample_applied:
  "applyPhilCoreV2AccountTransitionLocally sample_ethers sample_issued sample_account (sample_context 0)
     (BigIntV 400) = (sample_consumed,
       Inr \<lparr>tr_state = sample_result, tr_action = DraftNativeTransfer (a20 (CHR ''c'')) 5\<rparr>)"
  unfolding apply_iff [OF sample_ethers_laws sample_account_wf]
  using sample_context_valid accepted_consumable [OF sample_ethers_laws sample_operation_accepted, of 0]
    sample_advances
  by (intro exI [of _ 400] exI [of _ "\<lparr>ns_ordinary = 1, ns_maintenance = 0, ns_recovery = 0\<rparr>"])
     (simp add: sample_issued_def sample_consumed_def sample_result_def action_effect_def uint_fits_def
       sample_context_def is_uint_BigIntV)

lemma sample_run:
  "(account_step sample_ethers)\<^sup>*\<^sup>* (no_contexts, sample_account) (sample_consumed, sample_result)"
proof -
  have "account_step sample_ethers (no_contexts, sample_account) (sample_issued, sample_account)"
    by (rule account_step.validate [OF sample_validated])
  moreover have "account_step sample_ethers (sample_issued, sample_account) (sample_consumed, sample_result)"
    using account_step.applied [OF sample_applied] by simp
  ultimately show ?thesis by (meson converse_rtranclp_into_rtranclp rtranclp.rtrancl_refl)
qed

text \<open>The sample account with another ordinary sequence: a different state with another binding.\<close>

definition sample_advanced :: PhilCoreV2AccountState where
  "sample_advanced = sample_account
     \<lparr>as_nonceSequences := \<lparr>ns_ordinary = 1, ns_maintenance = 0, ns_recovery = 0\<rparr>\<rparr>"

lemma sample_advanced_wf: "account_wf sample_ethers sample_advanced"
  using sample_account_wf unfolding account_wf_def
  by (elim conjE, intro conjI) (simp_all add: sample_advanced_def sequences_wf_def uint_fits_def)

lemma sample_advanced_weight:
  "sample_weight (render (account_json sample_advanced)) =
     sample_weight (render (account_json sample_account)) + 1"
proof -
  have ns: "as_nonceSequences sample_account = \<lparr>ns_ordinary = 0, ns_maintenance = 0, ns_recovery = 0\<rparr>"
    by (simp add: sample_account_def)
  have "sample_weight (render (sequences_json \<lparr>ns_ordinary = 1, ns_maintenance = 0, ns_recovery = 0\<rparr>)) =
      sample_weight (render (sequences_json \<lparr>ns_ordinary = 0, ns_maintenance = 0, ns_recovery = 0\<rparr>)) + 1"
    by (simp add: sequences_json_def jbigint_def quote_def show_int_def show_nat.simps [of 0] show_nat.simps [of "Suc 0"]
        sample_weight_simps digit_char_def escape_char_def)
  then show ?thesis
    unfolding account_json_def
    by (simp add: sample_advanced_def ns sample_weight_simps)
qed

lemma sample_advanced_differs:
  "sample_advanced \<noteq> sample_account"
  "\<not> keccak_collision sample_ethers {state_preimage sample_ethers sample_account,
     state_preimage sample_ethers sample_advanced}"
proof -
  show "sample_advanced \<noteq> sample_account"
    by (simp add: sample_advanced_def sample_account_def)
  have "sample_digit (w mod 15 + 1) \<noteq> sample_digit ((w + 1) mod 15 + 1)" for w
  proof
    assume "sample_digit (w mod 15 + 1) = sample_digit ((w + 1) mod 15 + 1)"
    moreover have "w mod 15 + 1 < 16" "(w + 1) mod 15 + 1 < 16"
      using mod_less_divisor [of 15 w] mod_less_divisor [of 15 "w + 1"] by linarith+
    ultimately have "w mod 15 + 1 = (w + 1) mod 15 + 1" by (rule sample_digit_inject [rotated 2])
    then show False by (simp add: mod_Suc split: if_splits)
  qed
  then have "keccak256 sample_ethers (state_preimage sample_ethers sample_advanced) \<noteq>
      keccak256 sample_ethers (state_preimage sample_ethers sample_account)"
    unfolding state_preimage_def sample_utf8_digest sample_advanced_weight sample_digest_def h32_inject
    by metis
  then show "\<not> keccak_collision sample_ethers {state_preimage sample_ethers sample_account,
     state_preimage sample_ethers sample_advanced}"
    unfolding keccak_collision_def by (metis empty_iff insert_iff)
qed

section \<open>A sample recovery\<close>

definition recovery_intent :: PhilCoreV2IntentInput where
  "recovery_intent =
     \<lparr>in_header = sample_header RECOVERY_REQUEST REQUEST_RECOVERY,
      in_payload = RecoveryRequest (a20 (CHR ''c'')) (h32 (CHR ''2'')) (BigIntV 2) (h32 (CHR ''1''))\<rparr>"

definition quorum_verifier :: PhilCoreV2AuthorityVerifier where
  "quorum_verifier =
     \<lparr>av_verifierId = ''quorum'', av_fixtureOnly = True, av_acceptsGenericMessages = False,
      av_createsSignatures = False, av_requiresIntentBoundDigest = True,
      av_verify = (\<lambda>_. Inr (Verified ''fixture_authority_verified'' ''quorum'' False))\<rparr>"

definition quorum_authority :: "string \<Rightarrow> PhilCoreV2ValidatorAuthorityInput" where
  "quorum_authority digest =
     \<lparr>ai_authorityKind = ''recovery_threshold'', ai_validator = a20 (CHR ''b''),
      ai_validatorKeyIdBinding = h32 (CHR ''3''), ai_validatorEpoch = BigIntV 1,
      ai_recoveryEpoch = BigIntV 1, ai_recoveryConfigHash = h32 (CHR ''4''),
      ai_factorBitmap = Some (IntegerNumber 3),
      ai_evidence = \<lparr>ev_format = PHILCORE_V2_AUTHORITY_EVIDENCE_FORMAT,
        ev_authorityKind = ''recovery_threshold'',
        ev_verificationFormat = PHILCORE_V2_RECOVERY_AUTHORITY_FORMAT,
        ev_evidenceReferenceHash = h32 (CHR ''2''), ev_signatureBytesPresentToEngine = False,
        ev_fixtureOnly = True\<rparr>,
      ai_declaredAuthorityDigest = digest\<rparr>"

definition quorum_package ::
  "string \<Rightarrow> string \<Rightarrow> string \<Rightarrow> string \<Rightarrow> PhilCoreV2AuthorizationPackage" where
  "quorum_package core runtime intent digest =
     \<lparr>ap_intent = recovery_intent, ap_declaredIntentCoreHash = core,
      ap_runtimeAuthorization = sample_runtime\<lparr>ra_intentCoreHash := core\<rparr>,
      ap_declaredRuntimeAuthorizationDigest = runtime, ap_declaredAuthorizedIntentHash = intent,
      ap_userOperationHashBinding = h32 (CHR ''d''),
      ap_authority = Some (quorum_authority digest)\<rparr>"

definition recovery_operation ::
  "string \<Rightarrow> string \<Rightarrow> string \<Rightarrow> string \<Rightarrow> PhilCoreV2AccountValidationRequest" where
  "recovery_operation core runtime intent digest =
     \<lparr>ar_state = sample_account, ar_caller = a20 (CHR ''e''), ar_keyedNonce = BigIntV (2 * 2 ^ 64),
      ar_userOperationHashBinding = h32 (CHR ''d''),
      ar_authorizationPackage = quorum_package core runtime intent digest,
      ar_currentTime = BigIntV 300, ar_authorityVerifier = quorum_verifier,
      ar_fundLifecycleGate = None, ar_paymasterPresent = None, ar_ownPropertyNames = []\<rparr>"

definition recovery_context :: "string \<Rightarrow> string \<Rightarrow> string \<Rightarrow> string \<Rightarrow> PhilCoreV2AccountValidation" where
  "recovery_context core runtime intent digest =
     \<lparr>ax_ref = 0, ax_format = PHILCORE_V2_ACCOUNT_VALIDATION_CONTEXT_FORMAT,
      ax_authorization =
        \<lparr>aa_intentCoreHash = core, aa_runtimeAuthorizationDigest = runtime,
         aa_authorizedIntentHash = intent, aa_authorityDigest = digest, aa_keyedNonce = 2 * 2 ^ 64,
         aa_authorityKind = ''recovery_threshold'', aa_verifierId = ''quorum'',
         aa_authorizedStateTransition = BeginRecovery\<rparr>,
      ax_action = DraftRecoveryRequest intent (a20 (CHR ''c'')) (h32 (CHR ''2'')) 2,
      ax_nonceKey = 2, ax_nonceSequence = 0,
      ax_validatedStateBinding = accountStateBinding sample_ethers sample_account,
      ax_fundLifecycleEnforced = False, ax_publicMutationCount = 0\<rparr>"

text \<open>The hashes of the package, each of them a digest of the sample hash function.\<close>

definition quorum_hashes ::
  "PhilCoreV2IntentEncoding \<Rightarrow> string \<Rightarrow> string \<Rightarrow> string \<Rightarrow> bool" where
  "quorum_hashes enc runtime intent digest \<longleftrightarrow>
     encodePhilCoreV2Intent sample_ethers recovery_intent = Inr enc \<and>
     enc_header enc = sample_normal_header RECOVERY_REQUEST REQUEST_RECOVERY \<and>
     computePhilCoreV2RuntimeAuthorizationDigest sample_ethers
       (sample_runtime\<lparr>ra_intentCoreHash := enc_intentCoreHash enc\<rparr>) = Inr runtime \<and>
     computePhilCoreV2AuthorizedIntentHash sample_ethers (enc_intentCoreHash enc) runtime = Inr intent \<and>
     (\<forall>x. computeAuthorityDigest sample_ethers sample_validator_state
        (quorum_package (enc_intentCoreHash enc) runtime intent x) intent (quorum_authority x) = Inr digest) \<and>
     {enc_intentCoreHash enc, runtime, intent, digest} \<subseteq> range (keccak256 sample_ethers)"

lemma typedDigest_range: "typedDigest E D sh = Inr q \<Longrightarrow> dr_digest q \<in> range (keccak256 E)"
  by (cases D) (auto simp: typedDigest_iff computePhilCoreV2TypedDataDigest_def bnd_eq_Inr, metis rangeI)

lemma quorum_hashes_exist: "\<exists>enc runtime intent digest. quorum_hashes enc runtime intent digest"
proof -
  have "\<exists>enc. encodePhilCoreV2Intent sample_ethers recovery_intent = Inr enc"
    unfolding encode_intent_iff [OF sample_ethers_laws]
    using sample_header_normal [of REQUEST_RECOVERY RECOVERY_REQUEST]
    by (auto simp: recovery_intent_def sample_normal_header_def policy_defs literal_simps
        laws_isHexString [OF sample_ethers_laws] is_uint_BigIntV uint_fits_def)
  then obtain enc where enc: "encodePhilCoreV2Intent sample_ethers recovery_intent = Inr enc" by blast
  then have h: "enc_header enc = sample_normal_header RECOVERY_REQUEST REQUEST_RECOVERY"
    and "\<exists>i. enc_intentCoreHash enc = keccak256 sample_ethers i"
    unfolding encodePhilCoreV2Intent_iff [OF sample_ethers_laws]
    using sample_header_normal [of REQUEST_RECOVERY RECOVERY_REQUEST] by (auto simp: recovery_intent_def)
  then obtain i where i: "enc_intentCoreHash enc = keccak256 sample_ethers i" by blast
  obtain r where r: "computePhilCoreV2RuntimeAuthorizationDigest sample_ethers
      (sample_runtime\<lparr>ra_intentCoreHash := enc_intentCoreHash enc\<rparr>) = Inr (keccak256 sample_ethers r)"
    by (simp add: sample_runtime_def i literal_simps computePhilCoreV2RuntimeAuthorizationDigest_def)
  obtain a where a: "computePhilCoreV2AuthorizedIntentHash sample_ethers (enc_intentCoreHash enc)
      (keccak256 sample_ethers r) = Inr (keccak256 sample_ethers a)"
    by (simp add: computePhilCoreV2AuthorizedIntentHash_def i literal_simps)
  have "\<exists>q. typedDigest sample_ethers (BigIntV 1, a20 (CHR ''a'')) (keccak256 sample_ethers z) = Inr q" for z
    by (rule sample_typedDigest [of _ 1 _ "a20 (CHR ''a'')"]) (simp_all add: uint_fits_def literal_simps)
  moreover have "factorBitmap (NumberV (IntegerNumber 3)) = Inr 3"
    by (simp add: factorBitmap_iff)
  ultimately have "\<exists>q. computePhilCoreV2RecoveryFactorDigest sample_ethers (BigIntV 1, a20 (CHR ''a''))
      (engine_common (quorum_package (enc_intentCoreHash enc) (keccak256 sample_ethers r)
        (keccak256 sample_ethers a) []) (keccak256 sample_ethers a) (quorum_authority [])) = Inr q"
    by (simp add: computePhilCoreV2RecoveryFactorDigest_def engine_common_def quorum_package_def
        quorum_authority_def literal_simps uint_fits_def)
  then obtain q where q: "computePhilCoreV2RecoveryFactorDigest sample_ethers (BigIntV 1, a20 (CHR ''a''))
      (engine_common (quorum_package (enc_intentCoreHash enc) (keccak256 sample_ethers r)
        (keccak256 sample_ethers a) []) (keccak256 sample_ethers a) (quorum_authority [])) = Inr q" by blast
  have common: "engine_common (quorum_package c rt ih x) ih (quorum_authority x) =
      engine_common (quorum_package c rt ih []) ih (quorum_authority [])" for c rt ih x
    by (simp add: engine_common_def quorum_package_def quorum_authority_def)
  have "computeAuthorityDigest sample_ethers sample_validator_state
      (quorum_package (enc_intentCoreHash enc) (keccak256 sample_ethers r) (keccak256 sample_ethers a) x)
      (keccak256 sample_ethers a) (quorum_authority x) = Inr (dr_digest q)" for x
    using q common [of _ _ _ x]
    by (simp add: computeAuthorityDigest_def sample_validator_state_def Let_def)
       (simp add: quorum_authority_def)
  moreover from q obtain sh where "typedDigest sample_ethers (BigIntV 1, a20 (CHR ''a'')) sh = Inr q"
    unfolding computePhilCoreV2RecoveryFactorDigest_def bnd_eq_Inr by blast
  then have "dr_digest q \<in> range (keccak256 sample_ethers)" by (rule typedDigest_range)
  ultimately have "quorum_hashes enc (keccak256 sample_ethers r) (keccak256 sample_ethers a) (dr_digest q)"
    using enc h r a unfolding quorum_hashes_def by (simp add: i)
  then show ?thesis by blast
qed

lemma recovery_operation_accepted:
  assumes q: "quorum_hashes enc runtime intent digest"
  shows "operation_accepted sample_ethers (recovery_operation (enc_intentCoreHash enc) runtime intent digest)
    sample_account enc (recovery_context (enc_intentCoreHash enc) runtime intent digest)"
proof -
  let ?s = sample_validator_state and ?c = "enc_intentCoreHash enc"
  let ?h = "sample_normal_header RECOVERY_REQUEST REQUEST_RECOVERY"
  let ?p = "quorum_package ?c runtime intent digest" and ?au = "quorum_authority digest"
  let ?x = "recovery_context ?c runtime intent digest"
  from q have "?c \<in> range (keccak256 sample_ethers)" "runtime \<in> range (keccak256 sample_ethers)"
    "intent \<in> range (keccak256 sample_ethers)" "digest \<in> range (keccak256 sample_ethers)"
    by (simp_all add: quorum_hashes_def)
  then obtain i r a d where k: "?c = keccak256 sample_ethers i" "runtime = keccak256 sample_ethers r"
    "intent = keccak256 sample_ethers a" "digest = keccak256 sample_ethers d"
    by (elim rangeE)
  have "verify_intent_binding sample_ethers ?s (in_header recovery_intent) = Inr ()"
    unfolding verify_intent_binding_iff
    by (simp add: recovery_intent_def sample_header_def sample_validator_state_def
        sample_ethers_def literal_simps)
  moreover have "verify_intent_window ?s ?h (BigIntV 300) = Inr ()"
    unfolding verify_intent_window_iff
    by (simp add: sample_normal_header_def sample_validator_state_def recoveryStateFailure_def)
  moreover have "verify_runtime sample_ethers ?p enc = Inr (runtime, intent)"
    unfolding verify_runtime_iff using q
    by (simp add: quorum_package_def quorum_hashes_def) (simp add: k literal_simps)
  moreover have "composePhilCoreV2Nonce (BigIntV (h_nonceKey ?h)) (BigIntV (h_nonceSequence ?h)) =
      Inr (2 * 2 ^ 64)"
    unfolding composePhilCoreV2Nonce_iff by (simp add: sample_normal_header_def uint_fits_def)
  moreover have "verify_authority sample_ethers ?s RECOVERY_REQUEST ?au = Inr ()"
    by (simp add: verify_authority_def quorum_authority_def sample_validator_state_def require_def
        engine_address_def engine_bigint_def RECOVERY_FACTOR_BITMAPS_def literal_simps)
  moreover have "verify_authority_digest sample_ethers ?s ?p intent ?au = Inr digest"
    unfolding verify_authority_digest_iff using q
    by (simp add: quorum_hashes_def)
       (simp add: quorum_authority_def quorum_package_def sample_validator_state_def k literal_simps)
  moreover have "verify_evidence sample_ethers ?s ?au digest quorum_verifier = Inr ''quorum''"
    by (simp add: verify_evidence_def Let_def require_def quorum_authority_def quorum_verifier_def
        lower_alnum_def literal_simps)
  ultimately have "verifyPhilCoreV2Authorization sample_ethers
      (engine_request sample_account (recovery_operation ?c runtime intent digest)) =
      Inr (Accepted (ax_authorization ?x))"
    using q create_wf [OF sample_validator_wf]
    by (simp add: verify_accepted_iff verify_steps_def engine_request_def recovery_operation_def
        quorum_hashes_def recovery_context_def quorum_package_def require_def sample_account_def)
       (simp add: sample_validator_state_def sample_normal_header_def quorum_authority_def)
  then show ?thesis
    using q create_account_wf [OF sample_ethers_laws sample_account_wf]
    unfolding operation_accepted_def Let_def quorum_hashes_def
    by (simp add: recovery_operation_def recovery_context_def quorum_package_def recovery_intent_def
        sample_normal_header_def getAddress_or_throw_def literal_simps is_uint_BigIntV uint_fits_def
        prohibited_members_def)
       (simp add: sample_account_def sameAddress_def expectedSequence_def literal_simps
         laws_isHexString [OF sample_ethers_laws] k sample_lower_keccak)
qed

text \<open>The recovery is requested at time 1000, and can be completed at time 200000.\<close>

definition requested_recovery :: "PhilCoreV2AccountValidation \<Rightarrow> PhilCoreV2PendingRecovery" where
  "requested_recovery x =
     pending_request sample_account x 1000 (aa_authorizedIntentHash (ax_authorization x))
       (a20 (CHR ''c'')) (h32 (CHR ''2'')) 2"

definition requested_state :: "PhilCoreV2AccountValidation \<Rightarrow> PhilCoreV2AccountState" where
  "requested_state x = sample_account
     \<lparr>as_validatorState := (consumed_validator sample_account x)\<lparr>vs_recoveryState := RecoveryActive\<rparr>,
      as_nonceSequences := \<lparr>ns_ordinary = 0, ns_maintenance = 0, ns_recovery = 1\<rparr>,
      as_recoveryLifecycle := LifecycleActive, as_pendingRecovery := Some (requested_recovery x)\<rparr>"

definition recovery_contexts :: "PhilCoreV2AccountValidation \<Rightarrow> validation_contexts" where
  "recovery_contexts x = \<lparr>issuedValidationContexts = [x], consumedValidationContexts = [x]\<rparr>"

lemma recovery_requested:
  assumes q: "quorum_hashes enc runtime intent digest"
    and x: "x = recovery_context (enc_intentCoreHash enc) runtime intent digest"
  shows "(account_step sample_ethers)\<^sup>*\<^sup>* (no_contexts, sample_account) (recovery_contexts x, requested_state x)"
proof -
  let ?rq = "recovery_operation (enc_intentCoreHash enc) runtime intent digest"
  let ?C = "\<lparr>issuedValidationContexts = [x], consumedValidationContexts = []\<rparr>"
  let ?ns = "\<lparr>ns_ordinary = 0, ns_maintenance = 0, ns_recovery = 1\<rparr>"
  note acc = recovery_operation_accepted [OF q, folded x]
  have v: "validatePhilCoreV2AccountOperation sample_ethers no_contexts ?rq = (?C, Inr (AccountAccepted x))"
    unfolding validate_accepted_iff validation_steps_iff [OF sample_ethers_laws]
    using acc by (auto simp: no_contexts_def x recovery_context_def)
  have "advances 2 (as_nonceSequences sample_account) ?ns"
    by (simp add: incrementSequence_iff [symmetric] incrementSequence_def expectedSequence_def
        sample_account_def MAX_UINT64_def)
  moreover have "context_valid sample_ethers ?C sample_account x"
    by (simp add: context_valid_def x recovery_context_def sample_account_def expectedSequence_def)
  moreover have "pending_normal sample_ethers (requested_recovery x) (requested_recovery x)"
  proof -
    from q have "intent \<in> range (keccak256 sample_ethers)" "digest \<in> range (keccak256 sample_ethers)"
      by (simp_all add: quorum_hashes_def)
    then obtain a d where "intent = keccak256 sample_ethers a" "digest = keccak256 sample_ethers d"
      by (elim rangeE)
    then show ?thesis
      by (simp add: requested_recovery_def pending_request_def pending_normal_def pending_timing_def x
          recovery_context_def sample_account_def sample_validator_state_def uint_fits_def literal_simps)
  qed
  ultimately have "applyPhilCoreV2AccountTransitionLocally sample_ethers ?C sample_account x (BigIntV 1000) =
      (recovery_contexts x, Inr \<lparr>tr_state = requested_state x, tr_action = ax_action x\<rparr>)"
    using accepted_consumable [OF sample_ethers_laws acc]
    unfolding apply_iff [OF sample_ethers_laws sample_account_wf]
    by (intro exI [of _ 1000] exI [of _ ?ns])
       (simp add: recovery_contexts_def requested_state_def action_effect_def uint_fits_def Let_def
         x recovery_context_def is_uint_BigIntV requested_recovery_def,
        simp add: sample_account_def sample_validator_state_def)
  from account_step.validate [OF v, of sample_account] account_step.applied [OF this]
  show ?thesis by (simp add: converse_rtranclp_into_rtranclp r_into_rtranclp)
qed

lemma recovery_completed:
  assumes q: "quorum_hashes enc runtime intent digest"
    and x: "x = recovery_context (enc_intentCoreHash enc) runtime intent digest"
  shows "\<exists>t. completePhilCoreV2RecoveryLocally sample_ethers (requested_state x) intent (BigIntV 200000) = Inr t"
proof -
  have wf: "account_wf sample_ethers (requested_state x)"
    using account_reachable [OF sample_ethers_laws sample_inv recovery_requested [OF assms]]
    by (simp add: account_inv_def)
  from q have "intent \<in> range (keccak256 sample_ethers)" by (simp add: quorum_hashes_def)
  then obtain a where a: "intent = keccak256 sample_ethers a" by (elim rangeE)
  have "\<exists>c. validator_commitment sample_ethers (recovered (as_validatorState (requested_state x))
      (a20 (CHR ''c'')) (h32 (CHR ''2''))) = Inr c \<and> is_bytes32 sample_ethers False c c"
    by (simp add: validator_commitment_def recovered_def rotated_def computePhilCoreV2ValidatorCommitment_def
      PHILCORE_V2_VALIDATOR_VERIFIER_KIND_SECP256K1_ECDSA_def auth_uint_def literal_simps)
  then show ?thesis
    unfolding complete_iff [OF sample_ethers_laws wf]
    by (simp add: requested_state_def requested_recovery_def pending_request_def x recovery_context_def
        sample_account_def is_uint_BigIntV uint_fits_def a literal_simps)
       (simp add: sample_validator_state_def)
qed

lemma sample_recovered_commitment:
  "\<exists>c. validator_commitment sample_ethers (recovered (as_validatorState sample_recovering)
     (a20 (CHR ''c'')) (h32 (CHR ''2''))) = Inr c \<and> is_bytes32 sample_ethers False c c"
  by (simp add: validator_commitment_def recovered_def rotated_def computePhilCoreV2ValidatorCommitment_def
      PHILCORE_V2_VALIDATOR_VERIFIER_KIND_SECP256K1_ECDSA_def auth_uint_def literal_simps)

section \<open>Properties\<close>

text \<open>
  C3: the invariant of the account. Over any sequence of validations, applications (also failing
  ones) and recovery completions: the state stays well formed, its lifecycle, pending recovery and
  validator state agree, its commitments are those of its validator and factors, every consumed
  nonce is below the sequence of its key, a pending recovery has the 48 hour delay, the 7 day
  expiry and the current epochs and was installed by a consumed recovery request, every context
  is from an accepted validation and is consumed at most once; the immutable part, the recovery
  factors and the lock never change, nonce sequences and epochs never decrease, and the ledgers
  of consumed digests, nonces and contexts only grow.
\<close>

theorem account_machine_invariant:
  assumes "ethers_laws E" and "account_inv E cs" and "(account_step E)\<^sup>*\<^sup>* cs dt"
  shows "account_inv E dt \<and> system_evolves cs dt"
  using assms by (rule account_reachable)

theorem account_machine_invariant_witness:
  "account_inv sample_ethers (sample_consumed, sample_result) \<and>
   system_evolves (no_contexts, sample_account) (sample_consumed, sample_result)"
  by (rule account_machine_invariant [OF sample_ethers_laws sample_inv sample_run])

text \<open>
  C5: what a validation accepts. A validation accepts, and issues a new context, exactly when the
  state is a valid one, the caller is the entry point, execution is not locked, no prohibited
  member or paymaster is present, the nonce is the next one of its sequence and the one of the
  intent, the user operation hash is the package's, the action is implemented, a confirmation goes
  to the account's confirmation target, a transfer is within the fund lifecycle its intent commits
  to, and the engine accepts the package for this state.
\<close>

theorem validation_acceptance:
  assumes "ethers_laws E"
  shows "validatePhilCoreV2AccountOperation E C rq = (C', Inr (AccountAccepted x)) \<longleftrightarrow>
    ax_ref x = length (issuedValidationContexts C) \<and>
    (\<exists>s enc. operation_accepted E rq s enc x) \<and>
    C' = C\<lparr>issuedValidationContexts := issuedValidationContexts C @ [x]\<rparr>"
  unfolding validate_accepted_iff validation_steps_iff [OF assms] by blast

theorem validation_acceptance_witness:
  "\<exists>s enc. operation_accepted sample_ethers sample_operation s enc (sample_context 0)"
  using validation_acceptance [OF sample_ethers_laws, of no_contexts sample_operation sample_issued
      "sample_context 0"] sample_validated by blast

text \<open>
  C31: a validation always returns a result: for every request it resolves to an acceptance or to
  a rejection with a code; none of the unprotected conversions it makes can throw.
\<close>

theorem validation_total:
  assumes "ethers_laws E"
  shows "\<exists>C' r. validatePhilCoreV2AccountOperation E C rq = (C', Inr r)"
  using assms by (rule validate_total)

theorem validation_total_witness:
  "\<exists>C' r. validatePhilCoreV2AccountOperation sample_ethers no_contexts
     (sample_operation\<lparr>ar_keyedNonce := StringV ''x''\<rparr>) = (C', Inr r)"
  by (rule validation_total [OF sample_ethers_laws])

text \<open>
  C6: the exact effect of an application on a well-formed state. It succeeds exactly when the time
  is a 48 bit number, the context is issued, not consumed, bound to this state and carries the next
  nonce, its authorization is not consumed and the action's own condition holds; it then consumes
  the context, the authority digest and the nonce, advances the sequence of the nonce's key by one
  and no other, and changes what the kind of the action says and nothing else.
\<close>

theorem application_effect:
  assumes "ethers_laws E" and "account_wf E s"
  shows "applyPhilCoreV2AccountTransitionLocally E C s x time = (C', Inr r) \<longleftrightarrow>
    (\<exists>now ns. is_uint False 48 time now \<and> context_valid E C s x \<and> consumable E s x \<and>
      C' = C\<lparr>consumedValidationContexts := consumedValidationContexts C @ [x]\<rparr> \<and>
      tr_action r = ax_action x \<and> advances (ax_nonceKey x) (as_nonceSequences s) ns \<and>
      action_effect E s x now ns (tr_state r))"
  using assms by (rule apply_iff)

theorem application_effect_witness:
  "\<exists>now ns. is_uint False 48 (BigIntV 400) now \<and>
     advances 0 (as_nonceSequences sample_account) ns \<and>
     action_effect sample_ethers sample_account (sample_context 0) now ns sample_result"
  using application_effect [OF sample_ethers_laws sample_account_wf, of sample_issued "sample_context 0"]
    sample_applied by (fastforce simp: sample_context_def)

text \<open>
  a context is bound to the state it was validated against. A context that a validation
  accepted for one state is refused by every other well-formed state, and not consumed there,
  unless the serialisations of the two states collide under keccak256.
\<close>

theorem context_state_binding:
  assumes "ethers_laws E" and "operation_accepted E rq s enc x" and "account_wf E t" and "t \<noteq> s"
    and "\<not> keccak_collision E {state_preimage E s, state_preimage E t}"
  shows "\<exists>e. applyPhilCoreV2AccountTransitionLocally E C t x time = (C, Inl e)"
proof -
  from assms(2) have "ax_validatedStateBinding x = accountStateBinding E s"
    unfolding operation_accepted_def Let_def by blast
  with state_binding [OF assms(1,5)] assms(4) have "\<not> context_valid E C t x"
    by (auto simp: context_valid_def)
  then show ?thesis
    by (auto simp: applyPhilCoreV2AccountTransitionLocally_def create_account_wf [OF assms(1,3)]
        split: sum.splits)
qed

theorem context_state_binding_witness:
  "\<exists>e. applyPhilCoreV2AccountTransitionLocally sample_ethers sample_issued sample_advanced
     (sample_context 0) (BigIntV 400) = (sample_issued, Inl e)"
  by (rule context_state_binding [OF sample_ethers_laws sample_operation_accepted sample_advanced_wf
      sample_advanced_differs(1) sample_advanced_differs(2)])

text \<open>
  C9: a context is applied at most once. Once an application has consumed a context, whether the
  transition then succeeded or threw, every later application of it is refused, in every state
  that any sequence of validations, applications and completions leads to.
\<close>

theorem context_applied_once:
  assumes "ethers_laws E" and "account_inv E (C, s)"
    and "applyPhilCoreV2AccountTransitionLocally E C s x time = (C1, r)" and "C1 \<noteq> C"
    and "s1 = (case r of Inl e \<Rightarrow> s | Inr q \<Rightarrow> tr_state q)"
    and "(account_step E)\<^sup>*\<^sup>* (C1, s1) (C2, s2)"
  shows "\<exists>e. applyPhilCoreV2AccountTransitionLocally E C2 s2 x time' = (C2, Inl e)"
proof -
  have "account_step E (C, s) (C1, s1)"
    using assms(3,5) by (cases r) (auto intro: account_step.applied account_step.apply_fails)
  then have inv: "account_inv E (C1, s1)" using account_step_sound [OF assms(1,2)] by blast
  have "x \<in> set (consumedValidationContexts C1)" using apply_contexts [OF assms(3)] assms(4) by auto
  with account_reachable [OF assms(1) inv assms(6)] have "x \<in> set (consumedValidationContexts C2)"
    by (auto simp: system_evolves_def)
  then show ?thesis by (rule consumed_context_refused)
qed

theorem context_applied_once_witness:
  "\<exists>e. applyPhilCoreV2AccountTransitionLocally sample_ethers sample_consumed sample_result
     (sample_context 0) (BigIntV 500) = (sample_consumed, Inl e)"
proof -
  have "account_inv sample_ethers (sample_issued, sample_account)"
    using account_step_sound [OF sample_ethers_laws sample_inv account_step.validate [OF sample_validated]]
    by blast
  from context_applied_once [OF sample_ethers_laws this sample_applied, of sample_result sample_consumed
      sample_result "BigIntV 500"]
  show ?thesis by (simp add: sample_issued_def sample_consumed_def)
qed

text \<open>
  sequences of applications. When a list of contexts is applied one after the other and all
  applications succeed, no context occurs twice in it, none of them was consumed before, and the
  consumed contexts at the end are those of the beginning followed by the list.
\<close>

theorem application_sequence:
  assumes "ethers_laws E" and "account_inv E cs" and "apply_all E cs us = Inr dt"
  shows "distinct (map fst us) \<and>
    set (map fst us) \<inter> set (consumedValidationContexts (fst cs)) = {} \<and>
    consumedValidationContexts (fst dt) = consumedValidationContexts (fst cs) @ map fst us"
proof -
  from assms(3) have u: "contexts.use_all E cs us = Inr dt" by (simp add: apply_all_use_all)
  from assms(1,2) have v: "ethers_laws E \<and> account_inv E cs" by blast
  from contexts.use_all_distinct [OF v u] contexts.use_all_records [OF v u] show ?thesis by simp
qed

theorem application_sequence_witness:
  "apply_all sample_ethers (sample_issued, sample_account) [(sample_context 0, BigIntV 400)] =
     Inr (sample_consumed, sample_result) \<and>
   consumedValidationContexts sample_consumed = [sample_context 0]"
proof -
  have inv: "account_inv sample_ethers (sample_issued, sample_account)"
    using account_step_sound [OF sample_ethers_laws sample_inv account_step.validate [OF sample_validated]]
    by blast
  have "apply_all sample_ethers (sample_issued, sample_account) [(sample_context 0, BigIntV 400)] =
     Inr (sample_consumed, sample_result)"
    by (simp add: apply_context_def sample_applied)
  with application_sequence [OF sample_ethers_laws inv this] show ?thesis by (simp add: sample_issued_def)
qed

text \<open>
  C28: an accepted operation without a state transition of the validator (a confirmation or a
  transfer) can be applied. On the state it was accepted for and at any 48 bit time, the
  application succeeds unless the sequence of its nonce is exhausted, and gives the state with the
  authorization consumed and the sequence advanced.
\<close>

theorem accepted_operation_applies:
  assumes "ethers_laws E" and "contexts_wf C" and "account_wf E (ar_state rq)"
    and "validatePhilCoreV2AccountOperation E C rq = (C', Inr (AccountAccepted x))"
    and "expectsNoStateTransition (ax_action x)" and "ax_nonceSequence x \<noteq> MAX_UINT64"
    and "is_uint False 48 time now"
  shows "\<exists>ns. advances (ax_nonceKey x) (as_nonceSequences (ar_state rq)) ns \<and>
    applyPhilCoreV2AccountTransitionLocally E C' (ar_state rq) x time =
      (C'\<lparr>consumedValidationContexts := consumedValidationContexts C' @ [x]\<rparr>,
       Inr \<lparr>tr_state = (ar_state rq)\<lparr>as_validatorState := consumed_validator (ar_state rq) x,
              as_nonceSequences := ns\<rparr>, tr_action = ax_action x\<rparr>)"
proof -
  from assms(4) obtain s enc where ref: "ax_ref x = length (issuedValidationContexts C)"
    and C': "C' = C\<lparr>issuedValidationContexts := issuedValidationContexts C @ [x]\<rparr>"
    and acc': "operation_accepted E rq s enc x"
    unfolding validate_accepted_iff validation_steps_iff [OF assms(1)] by blast
  then have acc: "operation_accepted E rq (ar_state rq) enc x"
    using create_account_wf [OF assms(1,3)] by (auto simp: operation_accepted_def Let_def)
  have "x \<notin> set (issuedValidationContexts C)"
  proof
    assume "x \<in> set (issuedValidationContexts C)"
    then have "ax_ref x \<in> set (map ax_ref (issuedValidationContexts C))" by simp
    with assms(2) ref show False by (simp add: contexts_wf_def)
  qed
  then have valid: "context_valid E C' (ar_state rq) x"
    using acc assms(2) by (auto simp: context_valid_def contexts_wf_def operation_accepted_def Let_def C')
  from acc assms(6) obtain ns where ns: "incrementSequence (as_nonceSequences (ar_state rq)) (ax_nonceKey x) = Inr ns"
    by (auto simp: operation_accepted_def Let_def incrementSequence_def)
  then have adv: "advances (ax_nonceKey x) (as_nonceSequences (ar_state rq)) ns"
    by (simp add: incrementSequence_iff)
  show ?thesis
    using valid adv accepted_consumable [OF assms(1) acc] assms(5,7)
    unfolding apply_iff [OF assms(1,3)]
    by (intro exI [of _ ns] conjI exI [of _ now])
       (cases "ax_action x"; simp add: action_effect_def Let_def)+
qed

theorem accepted_operation_applies_witness:
  "\<exists>ns. applyPhilCoreV2AccountTransitionLocally sample_ethers sample_issued sample_account
     (sample_context 0) (BigIntV 1000) =
      (sample_consumed,
       Inr \<lparr>tr_state = sample_account\<lparr>as_validatorState := consumed_validator sample_account (sample_context 0),
              as_nonceSequences := ns\<rparr>, tr_action = DraftNativeTransfer (a20 (CHR ''c'')) 5\<rparr>)"
  using accepted_operation_applies [OF sample_ethers_laws _ _ sample_validated, of "BigIntV 1000" 1000]
    sample_inv sample_account_wf
  by (auto simp: account_inv_def sample_operation_def sample_context_def MAX_UINT64_def uint_fits_def
      sample_issued_def sample_consumed_def is_uint_BigIntV)

lemma fund_lifecycle_content:
  assumes "ethers_laws E" and "computePhilCoreV2FundLifecycleDigest E l = Inr d"
  shows "getAddress E (fl_residualRecipient l) \<noteq> None"
    and "\<exists>holding stranded final. BigInt_of (fl_maximumFundingOrHolding l) = Inr holding \<and> holding < 2 ^ 256 \<and>
      BigInt_of (fl_maximumStranded l) = Inr stranded \<and> stranded \<le> holding \<and>
      BigInt_of (fl_expectedFinalBalance l) = Inr final \<and> 0 \<le> final"
  using assms(2)
  unfolding computePhilCoreV2FundLifecycleDigest_def bnd_eq_Inr ensure_eq_Inr intent_uint_iff intent_address_iff is_uint_def
    is_address_def uint_fits_def not_less by blast+

text \<open>
  C29: transfers are bounded by the fund lifecycle. For an accepted native transfer the recipient
  is not the account, and the intent commits to a fund lifecycle of this account for the native
  asset and token 0, whose gate verifies the release path, binds the handling of residuals and
  requires the verification of the final state and a separate authorization of the release, whose
  residual recipient is an address other than the zero address, and whose maximum holding, of 256
  bits, is at least the amount and at least the maximum stranded balance, which is at least the
  expected final balance.
\<close>

theorem native_transfer_bounded:
  assumes "ethers_laws E" and "account_wf E (ar_state rq)"
    and "validatePhilCoreV2AccountOperation E C rq = (C', Inr (AccountAccepted x))"
    and "ax_action x = DraftNativeTransfer recipient amount"
  shows "recipient \<noteq> im_account (as_immutable (ar_state rq)) \<and> 0 < amount \<and>
    (\<exists>g d residual holding stranded final.
      ar_fundLifecycleGate rq = Some g \<and> fg_releasePathVerified g \<and> fg_residualHandlingBound g \<and>
      fg_finalStateVerificationRequired g \<and> fg_separateReleaseAuthorizationRequired g \<and>
      computePhilCoreV2FundLifecycleDigest E (fg_lifecycle g) = Inr d \<and>
      toLowerCase (hi_fundLifecycleDigest (in_header (ap_intent (ar_authorizationPackage rq)))) = d \<and>
      getAddress E (fl_account (fg_lifecycle g)) = Some (im_account (as_immutable (ar_state rq))) \<and>
      getAddress E (fl_asset (fg_lifecycle g)) = getAddress E ZERO_ADDRESS \<and>
      BigInt_of (fl_tokenId (fg_lifecycle g)) = Inr 0 \<and>
      getAddress E (fl_residualRecipient (fg_lifecycle g)) = Some residual \<and> residual \<noteq> ZERO_ADDRESS \<and>
      BigInt_of (fl_maximumFundingOrHolding (fg_lifecycle g)) = Inr holding \<and> amount \<le> holding \<and>
      holding < 2 ^ 256 \<and> stranded \<le> holding \<and>
      BigInt_of (fl_maximumStranded (fg_lifecycle g)) = Inr stranded \<and>
      BigInt_of (fl_expectedFinalBalance (fg_lifecycle g)) = Inr final \<and> 0 \<le> final \<and> final \<le> stranded)"
proof -
  let ?p = "in_payload (ap_intent (ar_authorizationPackage rq))"
  from accepted_on_state [OF assms(1-3)] obtain enc where
    acc: "operation_accepted E rq (ar_state rq) enc x" by blast
  note action = operation_action [OF assms(1) acc]
  from action(1) assms(4) obtain r a where p: "?p = NativeTransfer r a"
    "getAddress E r = Some recipient" "BigInt_of a = Inr amount"
    by (cases ?p) (auto simp: bnd_eq_Inr getAddress_or_throw_def split: option.splits)
  have "h_account (enc_header enc) = im_account (as_immutable (ar_state rq))"
    using operation_engine [OF assms(1) acc] assms(2)
    by (auto simp: authorization_accepted_def intent_bound_def account_wf_def)
  with action(3) p have recipient: "recipient \<noteq> im_account (as_immutable (ar_state rq)) \<and> 0 < amount"
    by (auto simp: policy_defs is_address_def is_uint_def uint_fits_def)
  from acc p have "\<exists>g. ar_fundLifecycleGate rq = Some g \<and>
      fund_bounds E (ar_state rq) ?p (h_fundLifecycleDigest (enc_header enc)) g"
    unfolding operation_accepted_def Let_def by simp
  then obtain g where g: "ar_fundLifecycleGate rq = Some g"
    "fund_bounds E (ar_state rq) ?p (h_fundLifecycleDigest (enc_header enc)) g" by blast
  have digest: "toLowerCase (h_fundLifecycleDigest (enc_header enc)) =
      toLowerCase (hi_fundLifecycleDigest (in_header (ap_intent (ar_authorizationPackage rq))))"
    using acc unfolding operation_accepted_def Let_def encodePhilCoreV2Intent_iff [OF assms(1)]
      normalizePhilCoreV2IntentCoreHeader_iff by (auto simp: is_bytes32_def)
  have account: "getAddress E (im_account (as_immutable (ar_state rq))) =
      Some (im_account (as_immutable (ar_state rq)))"
    using assms(2) by (auto simp: account_wf_def immutable_wf_def is_address_def)
  from g(2) obtain d where d: "computePhilCoreV2FundLifecycleDigest E (fg_lifecycle g) = Inr d" by (auto simp: fund_bounds_def)
  note lifecycle = fund_lifecycle_content [OF assms(1) d]
  from lifecycle(1) obtain residual where residual: "getAddress E (fl_residualRecipient (fg_lifecycle g)) = Some residual"
    by blast
  have nonzero: "residual \<noteq> ZERO_ADDRESS"
  proof
    assume "residual = ZERO_ADDRESS"
    with residual laws_getAddress [OF assms(1) residual]
    have "sameAddress E (fl_residualRecipient (fg_lifecycle g)) ZERO_ADDRESS" by (simp add: sameAddress_def)
    with g(2) show False by (simp add: fund_bounds_def)
  qed
  from g digest account p recipient lifecycle(2) residual nonzero show ?thesis
    unfolding fund_bounds_def by (auto simp: sameAddress_def split: option.splits)
qed

theorem native_transfer_bounded_witness:
  "\<exists>g holding. ar_fundLifecycleGate sample_operation = Some g \<and>
     BigInt_of (fl_maximumFundingOrHolding (fg_lifecycle g)) = Inr holding \<and> 5 \<le> holding"
  using native_transfer_bounded [OF sample_ethers_laws _ sample_validated, of "a20 (CHR ''c'')" 5]
    sample_account_wf
  by (auto simp: sample_operation_def sample_context_def)

text \<open>
  actions that the account does not implement. Whatever the state, authority and gate, a
  package whose payload withdraws an entry point deposit or requests or cancels a rotation of the
  recovery configuration is never accepted, although its intent and authorization may be valid.
\<close>

theorem unimplemented_actions_refused:
  assumes "ethers_laws E"
    and "payloadActionType (in_payload (ap_intent (ar_authorizationPackage rq))) \<in>
      {ENTRYPOINT_DEPOSIT_WITHDRAWAL, RECOVERY_CONFIG_ROTATION_REQUEST, RECOVERY_CONFIG_ROTATION_CANCEL}"
  shows "\<exists>code auth. validatePhilCoreV2AccountOperation E C rq = (C, Inr (AccountRejected code auth))"
proof (rule not_accepted_rejected [OF assms(1)])
  fix s enc x
  show "\<not> operation_accepted E rq s enc x"
  proof
    assume acc: "operation_accepted E rq s enc x"
    from assms(2) operation_action(1) [OF assms(1) acc] show False
      by (cases "in_payload (ap_intent (ar_authorizationPackage rq))") auto
  qed
qed

theorem unimplemented_actions_refused_witness:
  "\<exists>code auth. validatePhilCoreV2AccountOperation sample_ethers no_contexts (sample_operation
     \<lparr>ar_authorizationPackage := (sample_package sample_authority_digest)\<lparr>ap_intent :=
        sample_intent\<lparr>in_payload := EntryPointDepositWithdrawal (a20 (CHR ''c'')) (BigIntV 5)\<rparr>\<rparr>\<rparr>) =
     (no_contexts, Inr (AccountRejected code auth))"
  by (rule unimplemented_actions_refused [OF sample_ethers_laws]) simp

text \<open>
  C7: the completion of a recovery, exactly. On a well-formed state it succeeds exactly when a
  recovery is pending under the given request id, its delay has elapsed and it has not expired,
  the validator and recovery epochs are the ones it was requested in, it proposes the next
  validator epoch and the recovery epoch is not exhausted; it then installs the proposed validator
  and its commitment, advances both epochs by one, reactivates the validator, clears the pending
  recovery, and changes nothing else.
\<close>

theorem recovery_completion:
  assumes "ethers_laws E" and "account_wf E s"
  shows "completePhilCoreV2RecoveryLocally E s rid time = Inr t \<longleftrightarrow>
    (\<exists>now p c. is_uint False 48 time now \<and> as_pendingRecovery s = Some p \<and>
      is_bytes32 E False rid (pr_requestId p) \<and>
      pr_executableAfter p \<le> now \<and> now < pr_expiresAt p \<and>
      pr_sourceValidatorEpoch p = vs_validatorEpoch (as_validatorState s) \<and>
      pr_sourceRecoveryEpoch p = vs_recoveryEpoch (as_validatorState s) \<and>
      pr_proposedValidatorEpoch p = vs_validatorEpoch (as_validatorState s) + 1 \<and>
      uint_fits 64 (vs_recoveryEpoch (as_validatorState s) + 1) \<and>
      validator_commitment E (recovered (as_validatorState s) (pr_proposedValidator p)
        (pr_proposedValidatorKeyIdBinding p)) = Inr c \<and> is_bytes32 E False c c \<and>
      t = s\<lparr>as_validatorState := recovered (as_validatorState s) (pr_proposedValidator p)
              (pr_proposedValidatorKeyIdBinding p),
            as_validatorCommitment := c, as_recoveryLifecycle := LifecycleCompleted,
            as_pendingRecovery := None\<rparr>)"
  using assms by (rule complete_iff)

theorem recovery_completion_witness:
  "\<exists>t. completePhilCoreV2RecoveryLocally sample_ethers sample_recovering (h32 (CHR ''1''))
      (BigIntV 200000) = Inr t \<and> vs_validator (as_validatorState t) = a20 (CHR ''c'') \<and>
      vs_validatorEpoch (as_validatorState t) = 2 \<and> vs_recoveryEpoch (as_validatorState t) = 2"
proof -
  obtain c where c: "validator_commitment sample_ethers (recovered (as_validatorState sample_recovering)
      (a20 (CHR ''c'')) (h32 (CHR ''2''))) = Inr c" "is_bytes32 sample_ethers False c c"
    using sample_recovered_commitment by blast
  have "completePhilCoreV2RecoveryLocally sample_ethers sample_recovering (h32 (CHR ''1''))
      (BigIntV 200000) = Inr (sample_recovering\<lparr>
        as_validatorState := recovered (as_validatorState sample_recovering) (a20 (CHR ''c'')) (h32 (CHR ''2'')),
        as_validatorCommitment := c, as_recoveryLifecycle := LifecycleCompleted, as_pendingRecovery := None\<rparr>)"
    unfolding recovery_completion [OF sample_ethers_laws sample_recovering_wf] using c
    by (intro exI [of _ 200000] exI [of _ sample_pending] exI [of _ c])
       (simp add: sample_recovering_def sample_pending_def sample_validator_state_def uint_fits_def
         is_uint_BigIntV literal_simps)
  then show ?thesis
    by (auto simp: recovered_def rotated_def sample_recovering_def sample_validator_state_def)
qed

text \<open>
  C8: the time lock of a recovery. In every state that is reachable from one that satisfies the
  invariant, a recovery is completed only by a call whose time is at least 48 hours and less than
  7 days after the time the recovery was requested at.
\<close>

theorem recovery_time_lock:
  assumes "ethers_laws E" and "account_inv E cs" and "(account_step E)\<^sup>*\<^sup>* cs (C, s)"
    and "completePhilCoreV2RecoveryLocally E s rid time = Inr t"
  shows "\<exists>p now. as_pendingRecovery s = Some p \<and> is_uint False 48 time now \<and>
    pr_requestedAt p + 48 * 60 * 60 \<le> now \<and> now < pr_requestedAt p + 7 * 24 * 60 * 60"
proof -
  have inv: "account_inv E (C, s)" using account_reachable [OF assms(1-3)] by blast
  then have s: "account_wf E s" and lock: "pending_locked s" by (simp_all add: account_inv_def)
  from assms(4) lock show ?thesis
    unfolding complete_iff [OF assms(1) s]
    by (auto simp: pending_locked_def PHILCORE_V2_RECOVERY_DELAY_SECONDS_def
        PHILCORE_V2_RECOVERY_EXPIRY_SECONDS_def)
qed

theorem recovery_time_lock_witness:
  "\<exists>C s p now. (account_step sample_ethers)\<^sup>*\<^sup>* (no_contexts, sample_account) (C, s) \<and>
     as_pendingRecovery s = Some p \<and> is_uint False 48 (BigIntV 200000) now \<and>
     pr_requestedAt p + 48 * 60 * 60 \<le> now"
proof -
  obtain enc runtime intent digest where q: "quorum_hashes enc runtime intent digest"
    using quorum_hashes_exist by blast
  let ?x = "recovery_context (enc_intentCoreHash enc) runtime intent digest"
  obtain t where "completePhilCoreV2RecoveryLocally sample_ethers (requested_state ?x) intent
      (BigIntV 200000) = Inr t" using recovery_completed [OF q refl] by blast
  from recovery_time_lock [OF sample_ethers_laws sample_inv recovery_requested [OF q refl] this]
    recovery_requested [OF q refl] show ?thesis by blast
qed

text \<open>
  C30: a pending recovery freezes the account, also after it has expired. While a recovery is
  pending, the only operation a validation accepts on the account is the cancellation of a
  recovery; and from its expiry on no completion succeeds, so that only a cancellation by a
  recovery quorum ends the freeze.
\<close>

theorem expired_recovery_stays_frozen:
  assumes "ethers_laws E" and "account_wf E s" and "as_pendingRecovery s = Some p"
    and "is_uint False 48 time now" and "pr_expiresAt p \<le> now"
  shows "(\<forall>rid. \<exists>e. completePhilCoreV2RecoveryLocally E s rid time = Inl e) \<and>
    (\<forall>C rq C' x. ar_state rq = s \<longrightarrow>
       validatePhilCoreV2AccountOperation E C rq = (C', Inr (AccountAccepted x)) \<longrightarrow>
       (\<exists>rid. ax_action x = DraftRecoveryCancel rid) \<and>
       aa_authorityKind (ax_authorization x) = ''recovery_threshold'')"
proof (intro conjI allI impI)
  fix rid
  have "completePhilCoreV2RecoveryLocally E s rid time \<noteq> Inr t" for t
    using assms(3-5) is_uint_unique unfolding complete_iff [OF assms(1,2)] by fastforce
  then show "\<exists>e. completePhilCoreV2RecoveryLocally E s rid time = Inl e"
    by (cases "completePhilCoreV2RecoveryLocally E s rid time") auto
next
  fix C rq C' x
  assume s: "ar_state rq = s"
    and v: "validatePhilCoreV2AccountOperation E C rq = (C', Inr (AccountAccepted x))"
  from accepted_on_state [OF assms(1) _ v] assms(2) s obtain enc where
    acc: "operation_accepted E rq s enc x" by auto
  then obtain au where a: "authorization_accepted E (engine_request s rq) (as_validatorState s) enc au
      (ax_authorization x)" using operation_engine [OF assms(1)] by blast
  have "vs_recoveryState (as_validatorState s) = RecoveryActive"
    using account_wf_parts(5) [OF assms(2)] assms(3) by simp
  with a have kind: "h_actionType (enc_header enc) = RECOVERY_CANCEL"
    by (auto simp: authorization_accepted_def intent_bound_def)
  note action = operation_action [OF assms(1) acc]
  from kind action(2) typedAction_kind [OF action(1)] show "\<exists>rid. ax_action x = DraftRecoveryCancel rid"
    by (cases "ax_action x") auto
  from a kind show "aa_authorityKind (ax_authorization x) = ''recovery_threshold''"
    by (auto simp: authorization_accepted_def authority_bound_def)
qed

theorem expired_recovery_stays_frozen_witness:
  "\<exists>e. completePhilCoreV2RecoveryLocally sample_ethers sample_recovering (h32 (CHR ''1''))
     (BigIntV 700000) = Inl e"
  using expired_recovery_stays_frozen [OF sample_ethers_laws sample_recovering_wf, of sample_pending
      "BigIntV 700000" 700000]
  by (simp add: sample_recovering_def sample_pending_def is_uint_BigIntV uint_fits_def)

text \<open>
  C35: account states round trip. What the constructor returns is well formed, is accepted by the
  constructor again and comes back unchanged: re-normalising the state at the start of every
  operation never alters it.
\<close>

theorem account_state_round_trip:
  assumes "ethers_laws E" and "createPhilCoreV2AccountState E i = Inr s"
  shows "account_wf E s \<and> createPhilCoreV2AccountState E (account_input s) = Inr s"
  using account_wf_result [OF assms] account.norm_stable [OF assms] by blast

theorem account_state_round_trip_witness:
  "account_wf sample_ethers sample_recovering \<and>
   createPhilCoreV2AccountState sample_ethers (account_input sample_recovering) = Inr sample_recovering"
  by (rule account_state_round_trip [OF sample_ethers_laws
      create_account_wf [OF sample_ethers_laws sample_recovering_wf]])

end
