(* ===== verification/Bytes.thy ===== *)
theory Bytes
  imports Json Ethers
begin

text \<open>
  Byte strings: big-endian numbers, the hexadecimal data strings of byte arrays, and the functions
  of the packages \<open>ethers\<close> and \<open>@noble/curves\<close> that work on them, which the sources call and do not
  contain, as a record of parameters with their documented behaviour (\<open>byte_laws\<close>). The last section
  gives an instance that satisfies it.
\<close>

type_synonym bytes = "8 word list"

section \<open>Big-endian numbers\<close>

definition be_value :: "bytes \<Rightarrow> nat" where
  "be_value bs = foldl (\<lambda>acc b. 256 * acc + unat b) 0 bs"

fun be_bytes :: "nat \<Rightarrow> nat \<Rightarrow> bytes" where
  "be_bytes 0 n = []"
| "be_bytes (Suc w) n = be_bytes w (n div 256) @ [of_nat n]"

text \<open>Without leading zero bytes.\<close>

fun minimal_bytes :: "nat \<Rightarrow> bytes" where
  "minimal_bytes n = (if n = 0 then [] else minimal_bytes (n div 256) @ [of_nat n])"

declare minimal_bytes.simps [simp del]

lemma be_value_simps [simp]: "be_value [] = 0" "be_value (bs @ [b]) = 256 * be_value bs + unat b"
  by (simp_all add: be_value_def)

lemma unat_byte_less: "unat (b :: 8 word) < 256"
  using unsigned_less [of b, where 'a = nat] by simp

lemma byte_div_mod [simp]:
  "(256 * k + unat (b :: 8 word)) div 256 = k" "(of_nat (256 * k + unat b) :: 8 word) = b"
proof -
  show "(256 * k + unat b) div 256 = k" using unat_byte_less [of b] by simp
  have "(256 :: 8 word) = 0" by simp
  then show "(of_nat (256 * k + unat b) :: 8 word) = b" by (simp only: of_nat_add of_nat_mult of_nat_numeral) simp
qed

lemma unat_of_nat_byte: "unat (of_nat n :: 8 word) = n mod 256"
  by (simp add: unat_of_nat)

lemma length_be_bytes [simp]: "length (be_bytes w n) = w"
  by (induction w arbitrary: n) simp_all

lemma be_bytes_value [simp]: "be_bytes (length bs) (be_value bs) = bs"
  by (induction bs rule: rev_induct) (simp_all del: of_nat_add of_nat_mult)

lemma be_value_bytes: "be_value (be_bytes w n) = n mod 256 ^ w"
proof (induction w arbitrary: n)
  case 0
  then show ?case by simp
next
  case (Suc w)
  have "n mod (256 * 256 ^ w) = 256 * (n div 256 mod 256 ^ w) + n mod 256"
    by (rule mod_mult2_eq)
  with Suc show ?case by (simp add: unat_of_nat_byte)
qed

lemma be_value_less: "be_value bs < 256 ^ length bs"
proof (induction bs rule: rev_induct)
  case Nil
  then show ?case by simp
next
  case (snoc b bs)
  from snoc unat_byte_less [of b] show ?case by simp
qed

lemma be_value_zero_Cons [simp]: "be_value (0 # bs) = be_value bs"
  by (simp add: be_value_def)

lemma be_value_Cons_ge: "unat b * 256 ^ length bs \<le> be_value (b # bs)"
proof (induction bs rule: rev_induct)
  case (snoc c bs)
  then have "unat b * 256 ^ length (bs @ [c]) \<le> 256 * be_value (b # bs)" by simp
  also have "\<dots> \<le> be_value ((b # bs) @ [c])" by (simp only: be_value_simps)
  finally show ?case by simp
qed (simp add: be_value_def)

lemma minimal_bytes_value:
  assumes "bs \<noteq> [] \<Longrightarrow> hd bs \<noteq> 0"
  shows "minimal_bytes (be_value bs) = bs"
  using assms
proof (induction bs rule: rev_induct)
  case Nil
  then show ?case by (simp add: minimal_bytes.simps)
next
  case (snoc b bs)
  show ?case
  proof (cases bs)
    case Nil
    with snoc.prems show ?thesis
      using unat_byte_less [of b] be_value_simps(2) [of "[]" b]
      by (simp add: minimal_bytes.simps [of "unat b"] minimal_bytes.simps [of 0] unat_eq_zero)
  next
    case (Cons c cs)
    with snoc have IH: "minimal_bytes (be_value bs) = bs" by simp
    have "be_value bs \<noteq> 0"
    proof
      assume "be_value bs = 0"
      with IH Cons show False by (simp add: minimal_bytes.simps)
    qed
    with IH show ?thesis
      by (subst minimal_bytes.simps) (simp del: of_nat_add of_nat_mult)
  qed
qed

lemma be_value_minimal [simp]: "be_value (minimal_bytes n) = n"
  by (induction n rule: minimal_bytes.induct) (subst minimal_bytes.simps, simp add: unat_of_nat_byte)

lemma minimal_bytes_hd: "n \<noteq> 0 \<Longrightarrow> minimal_bytes n \<noteq> [] \<and> hd (minimal_bytes n) \<noteq> 0"
proof (induction n rule: minimal_bytes.induct)
  case (1 n)
  show ?case
  proof (cases "n div 256 = 0")
    case True
    then have "n < 256" by (simp add: div_eq_0_iff)
    with 1 True show ?thesis
      by (subst (1 2) minimal_bytes.simps)
         (simp add: minimal_bytes.simps [of 0] word_of_nat_eq_0_iff dvd_imp_le nat_dvd_not_less)
  next
    case False
    with 1 show ?thesis by (subst (1 2) minimal_bytes.simps) simp
  qed
qed

lemma length_minimal_bytes: "n < 256 ^ w \<Longrightarrow> length (minimal_bytes n) \<le> w"
proof (induction w arbitrary: n)
  case 0
  then show ?case by (simp add: minimal_bytes.simps)
next
  case (Suc w)
  then have "n div 256 < 256 ^ w" by (simp add: less_mult_imp_div_less mult.commute)
  with Suc.IH show ?case by (subst minimal_bytes.simps) simp
qed

section \<open>Hexadecimal data strings\<close>

definition byte_hex :: "8 word \<Rightarrow> string" where
  "byte_hex b = [lower_hex (unat b div 16), lower_hex (unat b mod 16)]"

definition hex_bytes :: "bytes \<Rightarrow> string" where
  "hex_bytes bs = ''0x'' @ concat (map byte_hex bs)"

lemma lower_hex_digit:
  assumes "d < 16"
  shows "hex_digit (lower_hex d)" "based_digit_value (lower_hex d) = d" "\<not> js_space (lower_hex d)"
    "lower_char (lower_hex d) = lower_hex d"
proof -
  from assms have "(of_char (lower_hex d) :: nat) = (if d < 10 then 48 + d else 87 + d)"
    by (simp add: lower_hex_def)
  moreover from this assms have "lower_char (lower_hex d) = lower_hex d"
    by (auto simp: lower_char_def Let_def)
  ultimately show "hex_digit (lower_hex d)" "based_digit_value (lower_hex d) = d"
    "\<not> js_space (lower_hex d)" "lower_char (lower_hex d) = lower_hex d"
    using assms by (auto simp: hex_digit_def based_digit_value_def js_space_def Let_def)
qed

lemma byte_hex_digits:
  "list_all hex_digit (byte_hex b)" "length (byte_hex b) = 2" "toLowerCase (byte_hex b) = byte_hex b"
  "\<not> js_space (last (byte_hex b))"
  using unat_byte_less [of b] by (simp_all add: byte_hex_def lower_hex_digit less_mult_imp_div_less)

lemma lower_hex_inject: "d < 16 \<Longrightarrow> e < 16 \<Longrightarrow> lower_hex d = lower_hex e \<longleftrightarrow> d = e"
  using lower_hex_digit(2) by metis

lemma byte_hex_inject [simp]: "byte_hex a = byte_hex b \<longleftrightarrow> a = b"
proof
  have "unat a div 16 < 16" "unat b div 16 < 16"
    using unat_byte_less [of a] unat_byte_less [of b] by (simp_all add: less_mult_imp_div_less)
  moreover assume "byte_hex a = byte_hex b"
  ultimately have "unat a div 16 = unat b div 16" "unat a mod 16 = unat b mod 16"
    by (simp_all add: byte_hex_def lower_hex_inject)
  then have "unat a = unat b" by (metis div_mult_mod_eq)
  then show "a = b" by (rule unsigned_word_eqI)
qed simp

lemma hex_bytes_inject [simp]: "hex_bytes as = hex_bytes bs \<longleftrightarrow> as = bs"
proof
  assume "hex_bytes as = hex_bytes bs"
  then have eq: "concat (map byte_hex as) = concat (map byte_hex bs)" by (simp add: hex_bytes_def)
  have len: "length (concat (map byte_hex cs)) = 2 * length cs" for cs
    by (induction cs) (simp_all add: byte_hex_digits)
  have "length (map byte_hex as) = length (map byte_hex bs)"
    using arg_cong [OF eq, of length] len by simp
  then have "map byte_hex as = map byte_hex bs"
    by (rule concat_same_length_inject [where n = 2]) (use eq in \<open>auto simp: byte_hex_digits\<close>)
  then show "as = bs" by (simp add: inj_map_eq_map inj_def)
qed simp

lemma hex_bytes_string: "hex_string (hex_bytes bs) (length bs)" "toLowerCase (hex_bytes bs) = hex_bytes bs"
proof -
  have "list_all hex_digit (concat (map byte_hex bs)) \<and> length (concat (map byte_hex bs)) = 2 * length bs \<and>
      toLowerCase (concat (map byte_hex bs)) = concat (map byte_hex bs)"
    by (induction bs) (simp_all add: byte_hex_digits)
  then show "hex_string (hex_bytes bs) (length bs)" "toLowerCase (hex_bytes bs) = hex_bytes bs"
    by (simp_all add: hex_bytes_def hex_string_def)
qed

lemma trim_id: "s \<noteq> [] \<Longrightarrow> \<not> js_space (hd s) \<Longrightarrow> \<not> js_space (last s) \<Longrightarrow> trim s = s"
proof -
  assume s: "s \<noteq> []" "\<not> js_space (hd s)" "\<not> js_space (last s)"
  then have "dropWhile js_space s = s" by (cases s) simp_all
  moreover from s have "dropWhile js_space (rev s) = rev s" by (cases s rule: rev_cases) simp_all
  ultimately show ?thesis by (simp add: trim_def)
qed

lemma read_based_hex:
  assumes "bs \<noteq> []"
  shows "read_based 16 (concat (map byte_hex bs)) = Some (int (be_value bs))"
proof -
  let ?read = "foldl (\<lambda>acc c. 16 * acc + based_digit_value c)"
  have one: "?read acc (byte_hex b) = 256 * acc + unat b" for acc b
  proof -
    have "unat b div 16 < 16" using unat_byte_less [of b] by (simp add: less_mult_imp_div_less)
    then have "?read acc (byte_hex b) = 16 * (16 * acc + unat b div 16) + unat b mod 16"
      by (simp add: byte_hex_def lower_hex_digit)
    then show ?thesis using div_mult_mod_eq [of "unat b" 16] by simp
  qed
  have all: "?read acc (concat (map byte_hex cs)) = foldl (\<lambda>acc b. 256 * acc + unat b) acc cs" for acc cs
    by (induction cs arbitrary: acc) (simp_all add: one)
  have small: "hex_digit c \<Longrightarrow> based_digit_value c < 16" for c
    by (auto simp: hex_digit_def based_digit_value_def Let_def of_char_lower_char)
  have digits: "list_all (\<lambda>c. hex_digit c \<and> based_digit_value c < 16) (concat (map byte_hex cs))" for cs
    by (induction cs) (use byte_hex_digits(1) small in \<open>auto simp: list_all_iff\<close>)
  moreover have "concat (map byte_hex bs) \<noteq> []"
    using assms by (cases bs) (simp_all add: byte_hex_def)
  ultimately show ?thesis by (simp add: read_based_def all be_value_def)
qed

lemma BigInt_hex_bytes:
  assumes "bs \<noteq> []"
  shows "BigInt_of (StringV (hex_bytes bs)) = Inr (int (be_value bs))"
proof -
  from assms obtain cs b where bs: "bs = cs @ [b]" by (cases bs rule: rev_cases) auto
  then have "last (hex_bytes bs) = last (byte_hex b)" using byte_hex_digits(2) [of b]
    by (auto simp: hex_bytes_def last_append)
  then have "trim (hex_bytes bs) = hex_bytes bs"
    using byte_hex_digits(4) [of b] by (intro trim_id) (simp_all add: hex_bytes_def js_space_def)
  with read_based_hex [OF assms] show ?thesis
    by (simp add: string_to_bigint_def hex_bytes_def)
qed

section \<open>The functions of \<open>ethers\<close> on byte strings\<close>

text \<open>
  \<open>getBytes\<close> and \<open>hexlify\<close> throw on what is not \<open>BytesLike\<close>, \<open>toBeHex\<close> on a value that does not fit
  its width (\<open>None\<close>).
\<close>

record byte_library =
  getBytes :: "bytes_like \<Rightarrow> bytes option"
  hexlify :: "bytes_like \<Rightarrow> string option"
  toBeHex :: "int \<Rightarrow> nat \<Rightarrow> string option"
  concatBytes :: "bytes_like list \<Rightarrow> string"
  sha256 :: "bytes_like \<Rightarrow> string"

definition getBytes_law :: "byte_library \<Rightarrow> bool" where
  "getBytes_law L \<longleftrightarrow> (\<forall>bs. getBytes L (ByteArray bs) = Some bs) \<and>
     (\<forall>s bs. getBytes L (HexData s) = Some bs \<longleftrightarrow> hex_string s (length bs) \<and> toLowerCase s = hex_bytes bs)"

definition hexlify_law :: "byte_library \<Rightarrow> bool" where
  "hexlify_law L \<longleftrightarrow> (\<forall>d. hexlify L d = map_option hex_bytes (getBytes L d))"

definition toBeHex_law :: "byte_library \<Rightarrow> bool" where
  "toBeHex_law L \<longleftrightarrow> (\<forall>n w. toBeHex L (int n) w =
     (if n < 256 ^ w then Some (hex_bytes (be_bytes w n)) else None))"

definition concatBytes_law :: "byte_library \<Rightarrow> bool" where
  "concatBytes_law L \<longleftrightarrow> (\<forall>ds bss. list_all2 (\<lambda>d bs. getBytes L d = Some bs) ds bss \<longrightarrow>
     concatBytes L ds = hex_bytes (concat bss))"

definition byte_laws :: "byte_library \<Rightarrow> bool" where
  "byte_laws L \<longleftrightarrow> getBytes_law L \<and> hexlify_law L \<and> toBeHex_law L \<and> concatBytes_law L"

lemma laws_getBytes:
  assumes "byte_laws L"
  shows "getBytes L (ByteArray bs) = Some bs"
    and "getBytes L (HexData s) = Some cs \<longleftrightarrow> hex_string s (length cs) \<and> toLowerCase s = hex_bytes cs"
    and "getBytes L (HexData (hex_bytes bs)) = Some bs"
  using assms hex_bytes_string [of bs] by (auto simp: byte_laws_def getBytes_law_def)

lemma laws_hexlify: "byte_laws L \<Longrightarrow> hexlify L d = map_option hex_bytes (getBytes L d)"
  by (simp add: byte_laws_def hexlify_law_def)

lemma laws_toBeHex:
  "byte_laws L \<Longrightarrow> toBeHex L (int n) w = (if n < 256 ^ w then Some (hex_bytes (be_bytes w n)) else None)"
  by (simp add: byte_laws_def toBeHex_law_def)

lemma laws_concatBytes:
  "byte_laws L \<Longrightarrow> list_all2 (\<lambda>d bs. getBytes L d = Some bs) ds bss \<Longrightarrow>
     concatBytes L ds = hex_bytes (concat bss)"
  by (auto simp: byte_laws_def concatBytes_law_def)

section \<open>A concrete instance\<close>

fun hex_pairs :: "string \<Rightarrow> bytes" where
  "hex_pairs (c # d # t) = of_nat (16 * based_digit_value c + based_digit_value d) # hex_pairs t"
| "hex_pairs _ = []"

fun sample_getBytes :: "bytes_like \<Rightarrow> bytes option" where
  "sample_getBytes (ByteArray bs) = Some bs"
| "sample_getBytes (HexData s) =
     (if hex_string s ((length s - 2) div 2) then Some (hex_pairs (drop 2 s)) else None)"

definition sample_bytes :: byte_library where
  "sample_bytes = \<lparr>getBytes = sample_getBytes, hexlify = (\<lambda>d. map_option hex_bytes (sample_getBytes d)),
     toBeHex = (\<lambda>n w. if 0 \<le> n \<and> nat n < 256 ^ w then Some (hex_bytes (be_bytes w (nat n))) else None),
     concatBytes = (\<lambda>ds. hex_bytes (concat (map (the \<circ> sample_getBytes) ds))),
     sha256 = (\<lambda>_. hex_bytes (replicate 32 1))\<rparr>"

lemma hex_digit_code:
  assumes "hex_digit c"
  shows "based_digit_value c < 16 \<and> lower_hex (based_digit_value c) = lower_char c"
proof -
  let ?n = "of_char (lower_char c) :: nat"
  from assms have n: "(48 \<le> ?n \<and> ?n \<le> 57) \<or> (97 \<le> ?n \<and> ?n \<le> 102)"
    by (auto simp: hex_digit_def of_char_lower_char Let_def)
  moreover have "lower_hex (based_digit_value c) = char_of ?n"
    using n by (auto simp: based_digit_value_def Let_def lower_hex_def)
  ultimately show ?thesis by (auto simp: based_digit_value_def Let_def)
qed

lemma hex_pairs_lower:
  "list_all hex_digit t \<Longrightarrow> even (length t) \<Longrightarrow>
     concat (map byte_hex (hex_pairs t)) = toLowerCase t \<and> 2 * length (hex_pairs t) = length t"
proof (induction t rule: hex_pairs.induct)
  case (1 c d t)
  then have "based_digit_value c < 16" "based_digit_value d < 16"
    "lower_hex (based_digit_value c) = lower_char c" "lower_hex (based_digit_value d) = lower_char d"
    using hex_digit_code by auto
  moreover from this(1,2) have
    "unat (of_nat (16 * based_digit_value c + based_digit_value d) :: 8 word) =
       16 * based_digit_value c + based_digit_value d"
    unfolding unat_of_nat_byte by simp
  ultimately show ?case using 1 by (simp add: byte_hex_def del: of_nat_add of_nat_mult)
qed auto

lemma hex_pairs_byte_hex: "hex_pairs (concat (map byte_hex bs)) = bs"
proof -
  have "list_all hex_digit (concat (map byte_hex bs))" "even (length (concat (map byte_hex bs)))"
    "toLowerCase (concat (map byte_hex bs)) = concat (map byte_hex bs)"
    by (induction bs) (simp_all add: byte_hex_digits)
  then have "hex_bytes (hex_pairs (concat (map byte_hex bs))) = hex_bytes bs"
    using hex_pairs_lower [of "concat (map byte_hex bs)"] by (simp add: hex_bytes_def)
  then show ?thesis by simp
qed

lemma based_digit_value_lower: "based_digit_value (lower_char c) = based_digit_value c"
  by (simp add: based_digit_value_def)

lemma hex_pairs_toLowerCase [simp]: "hex_pairs (toLowerCase t) = hex_pairs t"
  by (induction t rule: hex_pairs.induct) (simp_all add: based_digit_value_lower)

lemma sample_bytes_laws: "byte_laws sample_bytes"
proof -
  have "sample_getBytes (HexData s) = Some bs \<longleftrightarrow> hex_string s (length bs) \<and> toLowerCase s = hex_bytes bs"
    (is "?l \<longleftrightarrow> ?r") for s bs
  proof
    assume ?l
    then have s: "hex_string s ((length s - 2) div 2)" and bs: "bs = hex_pairs (drop 2 s)"
      by (simp_all split: if_splits)
    from s have "list_all hex_digit (drop 2 s)" and len: "length s = 2 + 2 * ((length s - 2) div 2)"
      and x: "take 2 s = ''0x''" unfolding hex_string_def by blast+
    moreover from len have "even (length (drop 2 s))" by (simp only: length_drop) presburger
    ultimately have p: "concat (map byte_hex bs) = toLowerCase (drop 2 s)" "2 * length bs = length s - 2"
      using hex_pairs_lower [of "drop 2 s"] bs by simp_all
    have "toLowerCase s = toLowerCase (take 2 s) @ toLowerCase (drop 2 s)"
      by (simp flip: toLowerCase_append)
    with x p(1) have "toLowerCase s = hex_bytes bs" by (simp add: hex_bytes_def)
    moreover from p(2) have "(length s - 2) div 2 = length bs" by simp
    ultimately show ?r using s by simp
  next
    assume r: ?r
    then have "drop 2 (toLowerCase s) = concat (map byte_hex bs)" by (simp add: hex_bytes_def)
    then have "hex_pairs (drop 2 s) = bs"
      using hex_pairs_byte_hex [of bs] by (metis drop_toLowerCase hex_pairs_toLowerCase)
    moreover from r have "(length s - 2) div 2 = length bs" by (simp add: hex_string_def)
    ultimately show ?l using r by simp
  qed
  moreover have "list_all2 (\<lambda>d bs. sample_getBytes d = Some bs) ds bss \<Longrightarrow>
      map (the \<circ> sample_getBytes) ds = bss" for ds bss
    by (induction rule: list_all2_induct) simp_all
  ultimately show ?thesis
    by (simp add: byte_laws_def getBytes_law_def hexlify_law_def toBeHex_law_def concatBytes_law_def
        sample_bytes_def del: sample_getBytes.simps(2))
qed

end
