(* ===== verification/P256Wire.thy ===== *)
theory P256Wire
  imports Bytes
begin

unbundle bit_operations_syntax

text \<open>
  The signature wire format of the routine device approvals (\<open>p256SignatureWireV2.ts\<close>): strict DER
  parsing of P-256 signatures, the canonical low-S raw encoding, public key validation and
  verification. The curve arithmetic of \<open>@noble/curves\<close> is a parameter.
\<close>

section \<open>Constants\<close>

definition PHIL_DEVICE_APPROVAL_SIGNING_PREHASH_V2_LABEL :: string where
  "PHIL_DEVICE_APPROVAL_SIGNING_PREHASH_V2_LABEL = ''PHIL_DEVICE_APPROVAL_SIGNING_PREHASH_V2''"

definition PHIL_ROUTINE_SIGNATURE_SUITE_V2_NAME :: string where
  "PHIL_ROUTINE_SIGNATURE_SUITE_V2_NAME = ''phil-signature-p256-sha256-prehash-raw-rs-low-s-v2''"

definition PHIL_ROUTINE_PROVIDER_PROFILE_V2_NAME :: string where
  "PHIL_ROUTINE_PROVIDER_PROFILE_V2_NAME = ''apple-secure-enclave-p256-x962-sha256-digest-der-v1''"

definition PHIL_ROUTINE_WIRE_ENCODING_V2_NAME :: string where
  "PHIL_ROUTINE_WIRE_ENCODING_V2_NAME = ''phil-p256-signature-rs-64-low-s-v1''"

definition wire_domain :: "ethers \<Rightarrow> string \<Rightarrow> string" where
  "wire_domain E label = keccak256 E (toUtf8Bytes E label)"

definition PHIL_DEVICE_APPROVAL_SIGNING_PREHASH_V2_HASH :: "ethers \<Rightarrow> string" where
  "PHIL_DEVICE_APPROVAL_SIGNING_PREHASH_V2_HASH E =
     wire_domain E PHIL_DEVICE_APPROVAL_SIGNING_PREHASH_V2_LABEL"

definition PHIL_ROUTINE_SIGNATURE_SUITE_V2_ID :: "ethers \<Rightarrow> string" where
  "PHIL_ROUTINE_SIGNATURE_SUITE_V2_ID E = wire_domain E PHIL_ROUTINE_SIGNATURE_SUITE_V2_NAME"

definition PHIL_ROUTINE_PROVIDER_PROFILE_V2_ID :: "ethers \<Rightarrow> string" where
  "PHIL_ROUTINE_PROVIDER_PROFILE_V2_ID E = wire_domain E PHIL_ROUTINE_PROVIDER_PROFILE_V2_NAME"

definition PHIL_ROUTINE_WIRE_ENCODING_V2_ID :: "ethers \<Rightarrow> string" where
  "PHIL_ROUTINE_WIRE_ENCODING_V2_ID E = wire_domain E PHIL_ROUTINE_WIRE_ENCODING_V2_NAME"

definition PHIL_P256_ORDER :: int where
  "PHIL_P256_ORDER = 0xffffffff00000000ffffffffffffffffbce6faada7179e84f3b9cac2fc632551"

definition PHIL_P256_HALF_ORDER :: int where
  "PHIL_P256_HALF_ORDER = drop_bit 1 PHIL_P256_ORDER"

section \<open>Errors\<close>

text \<open>\<open>PhilP256SignatureWireV2Error\<close> with its code and message, or an exception of a called function.\<close>

datatype PhilP256SignatureWireV2Error = WireError string string | Thrown js_error

type_synonym 'a wire = "PhilP256SignatureWireV2Error + 'a"

definition wire_fail :: "string \<Rightarrow> string \<Rightarrow> 'a wire" where
  "wire_fail code message = Inl (WireError code message)"

definition wire_check :: "bool \<Rightarrow> string \<Rightarrow> string \<Rightarrow> unit wire" where
  "wire_check c code message = (if c then Inr () else wire_fail code message)"

fun uncaught_wire :: "'a result \<Rightarrow> 'a wire" where
  "uncaught_wire (Inl e) = Inl (Thrown e)"
| "uncaught_wire (Inr x) = Inr x"

fun library_wire :: "'a option \<Rightarrow> 'a wire" where
  "library_wire None = Inl (Thrown LibraryError)"
| "library_wire (Some x) = Inr x"

section \<open>Scalars\<close>

definition wire_bytes :: "byte_library \<Rightarrow> bytes_like \<Rightarrow> nat \<Rightarrow> string \<Rightarrow> bytes wire" where
  "wire_bytes L v len label =
     (case getBytes L v of
        None \<Rightarrow> wire_fail ''PHIL_ROUTINE_P256_BYTES_INVALID'' (label @ '' must be bytes'')
      | Some result \<Rightarrow>
          if length result \<noteq> len
          then wire_fail ''PHIL_ROUTINE_P256_LENGTH_INVALID'' (label @ '' must be '' @ show_nat len @ '' bytes'')
          else Inr result)"

definition scalar :: "byte_library \<Rightarrow> bytes_like \<Rightarrow> string \<Rightarrow> bool \<Rightarrow> int wire" where
  "scalar L v label requireLowS =
     bnd (wire_bytes L v 32 label) (\<lambda>bs.
     bnd (library_wire (hexlify L (ByteArray bs))) (\<lambda>hex.
     bnd (uncaught_wire (BigInt_of (StringV hex))) (\<lambda>parsed.
     bnd (wire_check (\<not> (parsed = 0 \<or> parsed \<ge> PHIL_P256_ORDER)) ''PHIL_ROUTINE_P256_SCALAR_INVALID''
            (label @ '' is outside the P-256 scalar range'')) (\<lambda>_.
     bnd (wire_check (\<not> (requireLowS \<and> parsed > PHIL_P256_HALF_ORDER))
            ''PHIL_ROUTINE_P256_HIGH_S_FORBIDDEN'' (label @ '' must use canonical low-S'')) (\<lambda>_.
     Inr parsed)))))"

section \<open>DER\<close>

text \<open>
  \<open>(length << 8) | byte\<close> is a 32 bit operation; the loop runs at most twice. The result is the length
  and the offset of the contents.
\<close>

definition readDerLength :: "bytes \<Rightarrow> nat \<Rightarrow> (nat \<times> nat) wire" where
  "readDerLength input offset =
     (if offset \<ge> length input
      then wire_fail ''PHIL_ROUTINE_P256_DER_MALFORMED'' ''missing DER length''
      else let first = input ! offset in
      if first < 0x80 then Inr (unat first, offset + 1)
      else let octets = unat (first AND 0x7f) in
      if octets = 0 \<or> octets > 2 \<or> offset + 1 + octets > length input
      then wire_fail ''PHIL_ROUTINE_P256_DER_LENGTH_INVALID'' ''unsupported DER length form''
      else if input ! (offset + 1) = 0
      then wire_fail ''PHIL_ROUTINE_P256_DER_LENGTH_INVALID'' ''DER length is not minimal''
      else let len = foldl (\<lambda>len i. push_bit 8 len OR ucast (input ! (offset + 1 + i))) (0 :: 32 word) [0..<octets] in
      if len < 0x80
      then wire_fail ''PHIL_ROUTINE_P256_DER_LENGTH_INVALID'' ''long DER length is not minimal''
      else Inr (unat len, offset + 1 + octets))"

text \<open>\<open>input[offset]\<close> is \<open>undefined\<close>, and so not the tag, past the end.\<close>

definition readDerInteger :: "byte_library \<Rightarrow> bytes \<Rightarrow> nat \<Rightarrow> string \<Rightarrow> (int \<times> nat) wire" where
  "readDerInteger L input offset label =
     bnd (wire_check (offset < length input \<and> input ! offset = 0x02)
            ''PHIL_ROUTINE_P256_DER_INTEGER_INVALID'' (label @ '' tag is invalid'')) (\<lambda>_.
     bnd (readDerLength input (offset + 1)) (\<lambda>(len, next).
     let end = next + len in
     bnd (wire_check (\<not> (len = 0 \<or> len > 33 \<or> end > length input))
            ''PHIL_ROUTINE_P256_DER_INTEGER_INVALID'' (label @ '' length is invalid'')) (\<lambda>_.
     let encoded = take len (drop next input) in
     bnd (wire_check (encoded ! 0 AND 0x80 = 0)
            ''PHIL_ROUTINE_P256_DER_INTEGER_INVALID'' (label @ '' must be positive'')) (\<lambda>_.
     bnd (wire_check (\<not> (length encoded > 1 \<and> encoded ! 0 = 0 \<and> encoded ! 1 AND 0x80 = 0))
            ''PHIL_ROUTINE_P256_DER_INTEGER_INVALID'' (label @ '' has unnecessary sign padding'')) (\<lambda>_.
     bnd (wire_check (\<not> (length encoded = 33 \<and> (encoded ! 0 \<noteq> 0 \<or> encoded ! 1 AND 0x80 = 0)))
            ''PHIL_ROUTINE_P256_DER_INTEGER_INVALID'' (label @ '' sign padding is invalid'')) (\<lambda>_.
     bnd (library_wire (hexlify L (ByteArray encoded))) (\<lambda>hex.
     bnd (uncaught_wire (BigInt_of (StringV hex))) (\<lambda>val.
     bnd (wire_check (\<not> (val = 0 \<or> val \<ge> PHIL_P256_ORDER)) ''PHIL_ROUTINE_P256_SCALAR_INVALID''
            (label @ '' is outside the P-256 scalar range'')) (\<lambda>_.
     Inr (val, end))))))))))"

section \<open>Signatures\<close>

record PhilP256SignatureComponentsV2 =
  sc_r :: string
  sc_s :: string

definition derivePhilDeviceApprovalSigningDigestV2 :: "ethers \<Rightarrow> byte_library \<Rightarrow> bytes_like \<Rightarrow> string wire" where
  "derivePhilDeviceApprovalSigningDigestV2 E L requestId =
     bnd (wire_bytes L requestId 32 ''requestId'') (\<lambda>bs.
     Inr (sha256 L (HexData (concatBytes L
       [HexData (PHIL_DEVICE_APPROVAL_SIGNING_PREHASH_V2_HASH E), ByteArray bs]))))"

definition normalizePhilP256SignatureLowSV2 ::
  "byte_library \<Rightarrow> bytes_like \<Rightarrow> bytes_like \<Rightarrow> PhilP256SignatureComponentsV2 wire" where
  "normalizePhilP256SignatureLowSV2 L input_r input_s =
     bnd (scalar L input_r ''r'' False) (\<lambda>r.
     bnd (scalar L input_s ''s'' False) (\<lambda>s.
     let s = (if s > PHIL_P256_HALF_ORDER then PHIL_P256_ORDER - s else s) in
     bnd (library_wire (toBeHex L r 32)) (\<lambda>r_hex.
     bnd (library_wire (toBeHex L s 32)) (\<lambda>s_hex.
     Inr \<lparr>sc_r = r_hex, sc_s = s_hex\<rparr>))))"

definition parsePhilP256DerSignatureV2 ::
  "byte_library \<Rightarrow> bytes_like \<Rightarrow> PhilP256SignatureComponentsV2 wire" where
  "parsePhilP256DerSignatureV2 L input =
     bnd (library_wire (getBytes L input)) (\<lambda>encoded.
     bnd (wire_check (\<not> (length encoded < 8 \<or> encoded ! 0 \<noteq> 0x30))
            ''PHIL_ROUTINE_P256_DER_MALFORMED'' ''signature must be one DER sequence'') (\<lambda>_.
     bnd (readDerLength encoded 1) (\<lambda>(len, next).
     bnd (wire_check (next + len = length encoded)
            ''PHIL_ROUTINE_P256_DER_TRAILING_BYTES'' ''DER sequence length is not exact'') (\<lambda>_.
     bnd (readDerInteger L encoded next ''r'') (\<lambda>(r, r_next).
     bnd (readDerInteger L encoded r_next ''s'') (\<lambda>(s, s_next).
     bnd (wire_check (s_next = length encoded)
            ''PHIL_ROUTINE_P256_DER_TRAILING_BYTES'' ''DER signature has trailing values'') (\<lambda>_.
     bnd (library_wire (toBeHex L r 32)) (\<lambda>r_hex.
     bnd (library_wire (toBeHex L s 32)) (\<lambda>s_hex.
     normalizePhilP256SignatureLowSV2 L (HexData r_hex) (HexData s_hex))))))))))"

definition encodePhilP256RawSignatureV2 :: "byte_library \<Rightarrow> bytes_like \<Rightarrow> bytes_like \<Rightarrow> string wire" where
  "encodePhilP256RawSignatureV2 L input_r input_s =
     bnd (normalizePhilP256SignatureLowSV2 L input_r input_s) (\<lambda>normalized.
     library_wire (hexlify L (HexData (concatBytes L
       [HexData (sc_r normalized), HexData (sc_s normalized)]))))"

definition decodePhilP256RawSignatureV2 ::
  "byte_library \<Rightarrow> bytes_like \<Rightarrow> PhilP256SignatureComponentsV2 wire" where
  "decodePhilP256RawSignatureV2 L input =
     bnd (wire_bytes L input 64 ''rawSignature'') (\<lambda>raw.
     bnd (library_wire (hexlify L (ByteArray (take 32 raw)))) (\<lambda>r.
     bnd (library_wire (hexlify L (ByteArray (drop 32 raw)))) (\<lambda>s.
     bnd (scalar L (HexData r) ''r'' False) (\<lambda>_.
     bnd (scalar L (HexData s) ''s'' True) (\<lambda>_.
     Inr \<lparr>sc_r = r, sc_s = s\<rparr>)))))"

section \<open>Keys and verification\<close>

text \<open>
  \<open>ProjectivePoint.fromHex\<close>: whether it returns a point or throws. \<open>p256.verify\<close> of a \<open>Signature\<close> with
  the options \<open>lowS\<close> and no prehash: \<open>None\<close> when the constructor or the verification throws.
\<close>

record p256_library =
  fromHex :: "string \<Rightarrow> bool"
  p256_verify :: "int \<Rightarrow> int \<Rightarrow> bytes \<Rightarrow> string \<Rightarrow> bool option"

record public_key_x963 =
  publicKeyX963 :: string
  publicKeyX :: string
  publicKeyY :: string
  publicKeyFingerprint :: string

definition validatePhilP256PublicKeyX963V2 ::
  "byte_library \<Rightarrow> p256_library \<Rightarrow> bytes_like \<Rightarrow> public_key_x963 wire" where
  "validatePhilP256PublicKeyX963V2 L P input =
     bnd (wire_bytes L input 65 ''publicKeyX963'') (\<lambda>raw.
     bnd (wire_check (raw ! 0 = 0x04) ''PHIL_ROUTINE_P256_PUBLIC_KEY_INVALID''
            ''public key must be uncompressed X9.63'') (\<lambda>_.
     bnd (wire_check (case hexlify L (ByteArray raw) of None \<Rightarrow> False | Some hex \<Rightarrow> fromHex P (drop 2 hex))
            ''PHIL_ROUTINE_P256_PUBLIC_KEY_INVALID'' ''public key is not a valid P-256 point'') (\<lambda>_.
     bnd (library_wire (hexlify L (ByteArray raw))) (\<lambda>hex.
     bnd (library_wire (hexlify L (ByteArray (take 32 (drop 1 raw))))) (\<lambda>x.
     bnd (library_wire (hexlify L (ByteArray (take 32 (drop 33 raw))))) (\<lambda>y.
     Inr \<lparr>publicKeyX963 = hex, publicKeyX = x, publicKeyY = y,
          publicKeyFingerprint = sha256 L (ByteArray raw)\<rparr>))))))"

definition verifyPhilP256RawSignatureV2 ::
  "byte_library \<Rightarrow> p256_library \<Rightarrow> bytes_like \<Rightarrow> bytes_like \<Rightarrow> bytes_like \<Rightarrow> bool wire" where
  "verifyPhilP256RawSignatureV2 L P input_digest input_signature input_publicKey =
     bnd (wire_bytes L input_digest 32 ''digest'') (\<lambda>digest.
     bnd (decodePhilP256RawSignatureV2 L input_signature) (\<lambda>signature.
     bnd (validatePhilP256PublicKeyX963V2 L P input_publicKey) (\<lambda>publicKey.
     Inr (catch (bnd (BigInt_of (StringV (sc_r signature))) (\<lambda>r.
                 bnd (BigInt_of (StringV (sc_s signature))) (\<lambda>s.
                 case p256_verify P r s digest (drop 2 (publicKeyX963 publicKey)) of
                   None \<Rightarrow> Inl LibraryError | Some ok \<Rightarrow> Inr ok)))
            False (\<lambda>ok. ok)))))"

section \<open>Inversion of the steps\<close>

lemma wire_check_iff [result_simps]: "wire_check c code msg = Inr u \<longleftrightarrow> c"
  by (simp add: wire_check_def wire_fail_def)

lemma library_wire_iff [result_simps]: "library_wire m = Inr x \<longleftrightarrow> m = Some x"
  by (cases m) simp_all

lemma uncaught_wire_iff [result_simps]: "uncaught_wire m = Inr x \<longleftrightarrow> m = Inr x"
  by (cases m) simp_all

lemma wire_fail_neq [result_simps]: "wire_fail code msg \<noteq> Inr x"
  by (simp add: wire_fail_def)

lemma wire_bytes_iff [result_simps]:
  "wire_bytes L v n label = Inr bs \<longleftrightarrow> getBytes L v = Some bs \<and> length bs = n"
  by (auto simp: wire_bytes_def wire_fail_def split: option.splits)

text \<open>The scalars, and the 32 byte string of one.\<close>

definition is_scalar :: "nat \<Rightarrow> bool" where
  "is_scalar n \<longleftrightarrow> 0 < n \<and> int n < PHIL_P256_ORDER"

definition hex32 :: "nat \<Rightarrow> string" where
  "hex32 n = hex_bytes (be_bytes 32 n)"

definition low_s :: "nat \<Rightarrow> nat" where
  "low_s s = (if int s > PHIL_P256_HALF_ORDER then nat PHIL_P256_ORDER - s else s)"

lemma half_order: "PHIL_P256_ORDER = 2 * PHIL_P256_HALF_ORDER + 1" "0 < PHIL_P256_HALF_ORDER"
  by (simp_all add: PHIL_P256_HALF_ORDER_def PHIL_P256_ORDER_def drop_bit_Suc)

lemma scalar_less: "is_scalar n \<Longrightarrow> n < 256 ^ 32"
  by (simp add: is_scalar_def PHIL_P256_ORDER_def)

lemma low_s_scalar:
  assumes "is_scalar s"
  shows "is_scalar (low_s s)" "int (low_s s) \<le> PHIL_P256_HALF_ORDER" "low_s (low_s s) = low_s s"
  using assms half_order by (auto simp: is_scalar_def low_s_def)

lemma low_s_int:
  "is_scalar s \<Longrightarrow> (if int s > PHIL_P256_HALF_ORDER then PHIL_P256_ORDER - int s else int s) = int (low_s s)"
  by (auto simp: low_s_def is_scalar_def)

lemma BigInt_hexlify:
  assumes "byte_laws L" and "bs \<noteq> []"
  shows "hexlify L (ByteArray bs) = Some (hex_bytes bs)"
    and "BigInt_of (StringV (hex_bytes bs)) = Inr (int (be_value bs))"
  using assms BigInt_hex_bytes [of bs] by (simp_all add: laws_hexlify laws_getBytes del: BigInt_of.simps)

lemma scalar_iff:
  assumes "byte_laws L"
  shows "scalar L v label low = Inr n \<longleftrightarrow> (\<exists>bs. getBytes L v = Some bs \<and> length bs = 32 \<and>
     n = int (be_value bs) \<and> is_scalar (be_value bs) \<and> (low \<longrightarrow> n \<le> PHIL_P256_HALF_ORDER))"
proof (cases "\<exists>bs. getBytes L v = Some bs \<and> length bs = 32")
  case True
  then obtain bs where bs: "getBytes L v = Some bs" "length bs = 32" by blast
  then have "bs \<noteq> []" by auto
  with BigInt_hexlify [OF assms this] bs show ?thesis
    by (auto simp: scalar_def result_simps is_scalar_def simp del: BigInt_of.simps)
next
  case False
  then show ?thesis by (auto simp: scalar_def result_simps)
qed

text \<open>The 32 byte string of a scalar, and only it, is read as the scalar.\<close>

lemma bytes_of_scalar:
  "length bs = 32 \<Longrightarrow> be_bytes 32 (be_value bs) = bs"
  "is_scalar n \<Longrightarrow> be_value (be_bytes 32 n) = n"
  using be_bytes_value [of bs] scalar_less [of n] by (auto simp: be_value_bytes)

lemma normalize_iff:
  assumes "byte_laws L"
  shows "normalizePhilP256SignatureLowSV2 L vr vs = Inr c \<longleftrightarrow>
    (\<exists>r s. is_scalar r \<and> is_scalar s \<and> getBytes L vr = Some (be_bytes 32 r) \<and>
       getBytes L vs = Some (be_bytes 32 s) \<and> c = \<lparr>sc_r = hex32 r, sc_s = hex32 (low_s s)\<rparr>)"
    (is "?l \<longleftrightarrow> ?r")
proof
  assume ?l
  then obtain nr ns where sc: "scalar L vr ''r'' False = Inr nr" "scalar L vs ''s'' False = Inr ns"
    and hex: "toBeHex L nr 32 = Some (sc_r c)"
      "toBeHex L (if ns > PHIL_P256_HALF_ORDER then PHIL_P256_ORDER - ns else ns) 32 = Some (sc_s c)"
    unfolding normalizePhilP256SignatureLowSV2_def result_simps Let_def by fastforce
  from sc obtain br bs where b: "getBytes L vr = Some br" "length br = 32" "is_scalar (be_value br)"
    "getBytes L vs = Some bs" "length bs = 32" "is_scalar (be_value bs)"
    and n: "nr = int (be_value br)" "ns = int (be_value bs)"
    unfolding scalar_iff [OF assms] by blast
  note hex = hex [unfolded n low_s_int [OF b(6)]]
  from hex have "sc_r c = hex32 (be_value br)" "sc_s c = hex32 (low_s (be_value bs))"
    by (simp_all add: laws_toBeHex [OF assms] hex32_def split: if_splits)
  with b bytes_of_scalar(1) show ?r
    by (intro exI [of _ "be_value br"] exI [of _ "be_value bs"]) simp
next
  assume ?r
  then obtain r s where rs: "is_scalar r" "is_scalar s" "getBytes L vr = Some (be_bytes 32 r)"
    "getBytes L vs = Some (be_bytes 32 s)" "c = \<lparr>sc_r = hex32 r, sc_s = hex32 (low_s s)\<rparr>" by blast
  then have sc: "scalar L vr ''r'' False = Inr (int r)" "scalar L vs ''s'' False = Inr (int s)"
    by (simp_all add: scalar_iff [OF assms] bytes_of_scalar(2))
  have "toBeHex L (int r) 32 = Some (hex32 r)" "toBeHex L (int (low_s s)) 32 = Some (hex32 (low_s s))"
    using scalar_less [OF rs(1)] scalar_less [OF low_s_scalar(1) [OF rs(2)]]
    by (simp_all add: laws_toBeHex [OF assms] hex32_def)
  with sc rs(5) show ?l
    unfolding normalizePhilP256SignatureLowSV2_def by (simp add: Let_def low_s_int [OF rs(2)])
qed

lemma normalize_hex32:
  assumes "byte_laws L" and "is_scalar r" and "is_scalar s"
  shows "normalizePhilP256SignatureLowSV2 L (HexData (hex32 r)) (HexData (hex32 s)) =
    Inr \<lparr>sc_r = hex32 r, sc_s = hex32 (low_s s)\<rparr>"
  unfolding normalize_iff [OF assms(1)] using assms by (auto simp: hex32_def laws_getBytes(3))

section \<open>The DER reference\<close>

text \<open>
  The distinguished encoding of a positive integer (X.690): the shortest two's complement contents,
  with the definite short form of the length; and of a signature, a sequence of two of them.
\<close>

definition der_content :: "nat \<Rightarrow> bytes" where
  "der_content n = (let m = minimal_bytes n in if hd m < 0x80 then m else 0 # m)"

definition der_integer :: "nat \<Rightarrow> bytes" where
  "der_integer n = 0x02 # of_nat (length (der_content n)) # der_content n"

definition der_signature :: "nat \<Rightarrow> nat \<Rightarrow> bytes" where
  "der_signature r s = 0x30 # of_nat (length (der_integer r @ der_integer s)) # der_integer r @ der_integer s"

lemma top_bit: "(b :: 8 word) AND 0x80 = 0 \<longleftrightarrow> b < 0x80"
proof -
  have "b AND 0x80 = 0 \<longleftrightarrow> \<not> bit b 7"
    using and_exp_eq_0_iff_not_bit [of b 7] by simp
  also have "bit b 7 \<longleftrightarrow> bit (unat b) 7"
    by (simp add: bit_unsigned_iff bit_imp_le_length)
  also have "\<dots> \<longleftrightarrow> \<not> unat b < 128"
  proof (cases "unat b < 128")
    case True
    then show ?thesis by (simp add: bit_iff_odd)
  next
    case False
    with unat_byte_less [of b] have "unat b div 128 = 1" by (intro div_nat_eqI) simp_all
    with False show ?thesis by (simp add: bit_iff_odd)
  qed
  finally show ?thesis by (simp add: word_less_nat_alt)
qed

lemma der_content_value:
  assumes "n \<noteq> 0"
  shows "be_value (der_content n) = n" "der_content n \<noteq> []" "der_content n ! 0 < 0x80"
    "\<not> (length (der_content n) > 1 \<and> der_content n ! 0 = 0 \<and> der_content n ! 1 < 0x80)"
proof -
  obtain b m where m: "minimal_bytes n = b # m" "b \<noteq> 0"
    using minimal_bytes_hd [OF assms] by (cases "minimal_bytes n") auto
  then show "be_value (der_content n) = n" "der_content n \<noteq> []" "der_content n ! 0 < 0x80"
    "\<not> (length (der_content n) > 1 \<and> der_content n ! 0 = 0 \<and> der_content n ! 1 < 0x80)"
    using be_value_minimal [of n] by (auto simp: der_content_def Let_def)
qed

lemma der_content_unique:
  assumes "bs \<noteq> []" and "bs ! 0 < 0x80" and "be_value bs \<noteq> 0"
    and "\<not> (length bs > 1 \<and> bs ! 0 = 0 \<and> bs ! 1 < 0x80)"
  shows "der_content (be_value bs) = bs"
proof -
  from assms(1) obtain b t where bs: "bs = b # t" by (cases bs) auto
  show ?thesis
  proof (cases "b = 0")
    case True
    with bs assms(3) obtain c u where t: "t = c # u" by (cases t) auto
    with bs True assms(4) have "\<not> c < 0x80" by simp
    moreover from this t have "minimal_bytes (be_value t) = t" by (intro minimal_bytes_value) auto
    ultimately show ?thesis using bs True t by (simp add: der_content_def)
  next
    case False
    with bs have "minimal_bytes (be_value bs) = bs" by (intro minimal_bytes_value) simp
    with bs assms(2) show ?thesis by (simp add: der_content_def Let_def)
  qed
qed

lemma der_content_length:
  assumes "is_scalar n"
  shows "length (der_content n) \<le> 33" "length (der_content n) = 33 \<Longrightarrow> der_content n ! 0 = 0"
    "0 < length (der_content n)"
proof -
  have "length (minimal_bytes n) \<le> 32" using scalar_less [OF assms] by (rule length_minimal_bytes)
  then show "length (der_content n) \<le> 33" "length (der_content n) = 33 \<Longrightarrow> der_content n ! 0 = 0"
    by (auto simp: der_content_def Let_def split: if_splits)
  show "0 < length (der_content n)"
    using der_content_value(2) [of n] assms by (auto simp: is_scalar_def)
qed

text \<open>A length is in the short form, or at least 128.\<close>

lemma readDerLength_cases:
  assumes "readDerLength input offset = Inr (len, next)"
  shows "offset < length input \<and> next = offset + 1 \<and> unat (input ! offset) = len \<and> len < 128 \<or> 128 \<le> len"
  using assms unfolding readDerLength_def Let_def
  by (auto simp: result_simps word_less_nat_alt split: if_splits)

lemma readDerLength_short:
  "offset < length input \<Longrightarrow> unat (input ! offset) < 128 \<Longrightarrow>
     readDerLength input offset = Inr (unat (input ! offset), offset + 1)"
  by (simp add: readDerLength_def Let_def word_less_nat_alt)

text \<open>The input has a given string at an offset.\<close>

definition has_at :: "bytes \<Rightarrow> nat \<Rightarrow> bytes \<Rightarrow> bool" where
  "has_at input offset bs \<longleftrightarrow> offset + length bs \<le> length input \<and> take (length bs) (drop offset input) = bs"

lemma has_at_Cons:
  "has_at input offset (b # bs) \<longleftrightarrow>
     offset < length input \<and> input ! offset = b \<and> has_at input (offset + 1) bs"
  by (auto simp: has_at_def Cons_nth_drop_Suc [symmetric])

lemma has_at_append:
  "has_at input offset (as @ bs) \<longleftrightarrow> has_at input offset as \<and> has_at input (offset + length as) bs"
  by (auto simp: has_at_def take_add add.commute append_eq_append_conv)

lemma has_at_all: "has_at input 0 bs \<and> length bs = length input \<longleftrightarrow> input = bs"
  by (auto simp: has_at_def)

text \<open>The contents of an accepted integer, before its value is read.\<close>

definition integer_contents :: "bytes \<Rightarrow> bool" where
  "integer_contents e \<longleftrightarrow> e ! 0 < 0x80 \<and> \<not> (length e > 1 \<and> e ! 0 = 0 \<and> e ! 1 < 0x80) \<and>
     \<not> (length e = 33 \<and> (e ! 0 \<noteq> 0 \<or> e ! 1 < 0x80))"

lemma readDerInteger_steps:
  "readDerInteger L input offset label = Inr (v, next) \<longleftrightarrow> offset < length input \<and> input ! offset = 2 \<and>
     (\<exists>len nx hex. readDerLength input (offset + 1) = Inr (len, nx) \<and>
        0 < len \<and> len \<le> 33 \<and> nx + len \<le> length input \<and>
        integer_contents (take len (drop nx input)) \<and>
        hexlify L (ByteArray (take len (drop nx input))) = Some hex \<and> BigInt_of (StringV hex) = Inr v \<and>
        v \<noteq> 0 \<and> v < PHIL_P256_ORDER \<and> next = nx + len)"
  unfolding readDerInteger_def Let_def integer_contents_def
  by (auto simp: result_simps top_bit not_less not_le
      simp del: nth_take nth_drop length_take length_drop take_all BigInt_of.simps)

lemma der_integer_read:
  assumes "byte_laws L" and "is_scalar n" and "has_at input offset (der_integer n)"
  shows "readDerInteger L input offset label = Inr (int n, offset + length (der_integer n))"
proof -
  let ?c = "der_content n"
  note len = der_content_length [OF assms(2)]
  have n: "n \<noteq> 0" using assms(2) by (simp add: is_scalar_def)
  note c = der_content_value [OF n]
  from assms(3) have at: "offset < length input" "input ! offset = 2" "offset + 1 < length input"
    "input ! (offset + 1) = of_nat (length ?c)" and con: "has_at input (offset + 2) ?c"
    by (simp_all add: der_integer_def has_at_Cons)
  have u: "unat (of_nat (length ?c) :: 8 word) = length ?c"
    using len(1) by (simp add: unat_of_nat_byte)
  have rd: "readDerLength input (offset + 1) = Inr (length ?c, offset + 2)"
    using readDerLength_short [of "offset + 1" input] at u len(1) by simp
  have slice: "take (length ?c) (drop (offset + 2) input) = ?c" and room: "offset + 2 + length ?c \<le> length input"
    using con by (simp_all add: has_at_def)
  have "integer_contents ?c" using len(2) c by (auto simp: integer_contents_def)
  moreover have "0 < int n" "int n < PHIL_P256_ORDER" using assms(2) by (simp_all add: is_scalar_def)
  ultimately show ?thesis
    unfolding readDerInteger_steps using at(1,2) rd slice room len BigInt_hexlify [OF assms(1) c(2)] c(1)
    by (intro conjI exI [of _ "length ?c"] exI [of _ "offset + 2"] exI [of _ "hex_bytes ?c"])
       (simp_all add: der_integer_def del: BigInt_of.simps)
qed

lemma readDerInteger_iff:
  assumes "byte_laws L"
  shows "readDerInteger L input offset label = Inr (v, next) \<longleftrightarrow>
    (\<exists>n. is_scalar n \<and> v = int n \<and> has_at input offset (der_integer n) \<and>
       next = offset + length (der_integer n))" (is "?l \<longleftrightarrow> ?r")
proof
  assume ?l
  then obtain len nx hex where tag: "offset < length input" "input ! offset = 2"
    and rd: "readDerLength input (offset + 1) = Inr (len, nx)" and len: "0 < len" "len \<le> 33"
    and nxt: "nx + len \<le> length input" "next = nx + len"
    and con: "integer_contents (take len (drop nx input))"
    and val: "hexlify L (ByteArray (take len (drop nx input))) = Some hex" "BigInt_of (StringV hex) = Inr v"
      "v \<noteq> 0" "v < PHIL_P256_ORDER"
    unfolding readDerInteger_steps by blast
  let ?e = "take len (drop nx input)"
  have e: "length ?e = len" "?e \<noteq> []" using nxt(1) len(1) by auto
  from val BigInt_hexlify [OF assms e(2)] have v: "v = int (be_value ?e)" "is_scalar (be_value ?e)"
    by (auto simp: is_scalar_def simp del: BigInt_of.simps)
  have c: "der_content (be_value ?e) = ?e"
    using con v by (intro der_content_unique e(2))
      (simp_all add: integer_contents_def is_scalar_def del: nth_take nth_drop length_take length_drop)
  from readDerLength_cases [OF rd] len have l: "offset + 1 < length input" "nx = offset + 2"
    "unat (input ! (offset + 1)) = len" by auto
  from l(3) have "input ! (offset + 1) = of_nat len" by auto
  with tag l e c nxt have "has_at input offset (der_integer (be_value ?e))"
    by (simp add: der_integer_def has_at_Cons) (simp add: has_at_def)
  with v c e(1) l(2) nxt(2) show ?r
    by (intro exI [of _ "be_value ?e"]) (simp add: der_integer_def)
qed (use der_integer_read [OF assms] in auto)

lemma length_der_integer: "is_scalar n \<Longrightarrow> 3 \<le> length (der_integer n) \<and> length (der_integer n) \<le> 35"
  using der_content_length [of n] by (auto simp: der_integer_def Suc_le_eq)

lemma parse_iff:
  assumes "byte_laws L"
  shows "parsePhilP256DerSignatureV2 L input = Inr c \<longleftrightarrow>
    (\<exists>r s. is_scalar r \<and> is_scalar s \<and> getBytes L input = Some (der_signature r s) \<and>
       c = \<lparr>sc_r = hex32 r, sc_s = hex32 (low_s s)\<rparr>)" (is "?l \<longleftrightarrow> ?r")
proof
  assume ?l
  then obtain bs len nx r s rn where bs: "getBytes L input = Some bs" "8 \<le> length bs" "bs ! 0 = 0x30"
    and rd: "readDerLength bs 1 = Inr (len, nx)" "nx + len = length bs"
    and int: "readDerInteger L bs nx ''r'' = Inr (r, rn)" "readDerInteger L bs rn ''s'' = Inr (s, length bs)"
    and norm: "\<exists>rh sh. toBeHex L r 32 = Some rh \<and> toBeHex L s 32 = Some sh \<and>
       normalizePhilP256SignatureLowSV2 L (HexData rh) (HexData sh) = Inr c"
    unfolding parsePhilP256DerSignatureV2_def by (auto simp: result_simps not_less)
  from int obtain m n where m: "is_scalar m" "r = int m" "has_at bs nx (der_integer m)"
      "rn = nx + length (der_integer m)"
    and n: "is_scalar n" "s = int n" "has_at bs rn (der_integer n)" "length bs = rn + length (der_integer n)"
    unfolding readDerInteger_iff [OF assms] by blast
  let ?body = "der_integer m @ der_integer n"
  have body: "len = length ?body" using rd(2) m(4) n(4) by simp
  then have "len < 128" using length_der_integer [OF m(1)] length_der_integer [OF n(1)] by simp
  with readDerLength_cases [OF rd(1)] have short: "nx = 2" "unat (bs ! 1) = len" by auto
  then have "bs ! 1 = of_nat len" by auto
  with bs(2,3) short(1) m n body have "bs = der_signature m n"
    by (subst has_at_all [symmetric])
       (simp add: der_signature_def has_at_Cons has_at_append numeral_2_eq_2)
  moreover have "toBeHex L r 32 = Some (hex32 m)" "toBeHex L s 32 = Some (hex32 n)"
    using m n scalar_less by (simp_all add: laws_toBeHex [OF assms] hex32_def)
  with norm normalize_hex32 [OF assms m(1) n(1)] have "c = \<lparr>sc_r = hex32 m, sc_s = hex32 (low_s n)\<rparr>"
    by simp
  ultimately show ?r using bs(1) m(1) n(1) by blast
next
  assume ?r
  then obtain r s where rs: "is_scalar r" "is_scalar s" and bs: "getBytes L input = Some (der_signature r s)"
    and c: "c = \<lparr>sc_r = hex32 r, sc_s = hex32 (low_s s)\<rparr>" by blast
  let ?bs = "der_signature r s" and ?body = "der_integer r @ der_integer s"
  note len = length_der_integer [OF rs(1)] length_der_integer [OF rs(2)]
  have u: "unat (of_nat (length ?body) :: 8 word) = length ?body"
    using len by (simp add: unat_of_nat_byte del: of_nat_add)
  have "has_at ?bs 0 ?bs" using has_at_all [of ?bs ?bs] by blast
  then have at: "has_at ?bs 2 (der_integer r)" "has_at ?bs (2 + length (der_integer r)) (der_integer s)"
    by (simp_all add: der_signature_def has_at_Cons has_at_append numeral_2_eq_2)
  have rd: "readDerLength ?bs 1 = Inr (length ?body, 2)"
    using readDerLength_short [of 1 ?bs] u len by (simp add: der_signature_def)
  have hex: "toBeHex L (int r) 32 = Some (hex32 r)" "toBeHex L (int s) 32 = Some (hex32 s)"
    using rs scalar_less by (simp_all add: laws_toBeHex [OF assms] hex32_def)
  have "normalizePhilP256SignatureLowSV2 L (HexData (hex32 r)) (HexData (hex32 s)) = Inr c"
    using normalize_hex32 [OF assms rs] c by simp
  moreover have "length ?bs = 2 + length (der_integer r) + length (der_integer s)" "?bs ! 0 = 0x30"
    by (simp_all add: der_signature_def)
  ultimately show ?l
    using bs rd hex len der_integer_read [OF assms rs(1) at(1)] der_integer_read [OF assms rs(2) at(2)]
    by (simp add: parsePhilP256DerSignatureV2_def wire_check_def)
qed

lemma der_content_inject: "m \<noteq> 0 \<Longrightarrow> n \<noteq> 0 \<Longrightarrow> der_content m = der_content n \<Longrightarrow> m = n"
  using der_content_value(1) by metis

lemma der_signature_inject:
  assumes "is_scalar r" and "is_scalar s" and "is_scalar r'" and "is_scalar s'"
    and "der_signature r s = der_signature r' s'"
  shows "r = r'" "s = s'"
proof -
  have len: "unat (of_nat (length (der_content n)) :: 8 word) = length (der_content n)" if "is_scalar n" for n
    using der_content_length(1) [OF that] by (simp add: unat_of_nat_byte)
  from assms(5) have body: "der_integer r @ der_integer s = der_integer r' @ der_integer s'"
    by (simp add: der_signature_def)
  then have "(of_nat (length (der_content r)) :: 8 word) = of_nat (length (der_content r'))"
    by (simp add: der_integer_def)
  then have "length (der_content r) = length (der_content r')"
    using len [OF assms(1)] len [OF assms(3)] by metis
  with body have "der_content r = der_content r'" "der_content s = der_content s'"
    by (auto simp: der_integer_def)
  with assms show "r = r'" "s = s'" by (auto simp: is_scalar_def intro: der_content_inject)
qed

section \<open>The raw encoding\<close>

lemma hex32_bytes: "byte_laws L \<Longrightarrow> getBytes L (HexData (hex32 n)) = Some (be_bytes 32 n)"
  by (simp add: hex32_def laws_getBytes)

lemma encode_iff:
  assumes "byte_laws L"
  shows "encodePhilP256RawSignatureV2 L vr vs = Inr x \<longleftrightarrow>
    (\<exists>r s. is_scalar r \<and> is_scalar s \<and> getBytes L vr = Some (be_bytes 32 r) \<and>
       getBytes L vs = Some (be_bytes 32 s) \<and> x = hex_bytes (be_bytes 32 r @ be_bytes 32 (low_s s)))"
proof -
  have "concatBytes L [HexData (hex32 r), HexData (hex32 s)] = hex_bytes (be_bytes 32 r @ be_bytes 32 s)" for r s
    using laws_concatBytes [OF assms, of "[HexData (hex32 r), HexData (hex32 s)]" "[be_bytes 32 r, be_bytes 32 s]"]
    by (simp add: hex32_bytes [OF assms])
  then have last: "library_wire (hexlify L (HexData (concatBytes L [HexData (sc_r c), HexData (sc_s c)]))) = Inr x
      \<longleftrightarrow> x = hex_bytes (be_bytes 32 r @ be_bytes 32 s)"
    if "c = \<lparr>sc_r = hex32 r, sc_s = hex32 s\<rparr>" for c r s
    using that by (auto simp: laws_hexlify [OF assms] laws_getBytes(3) [OF assms])
  show ?thesis
    unfolding encodePhilP256RawSignatureV2_def bnd_eq_Inr normalize_iff [OF assms] using last by blast
qed

lemma decode_iff:
  assumes "byte_laws L"
  shows "decodePhilP256RawSignatureV2 L v = Inr c \<longleftrightarrow>
    (\<exists>r s. is_scalar r \<and> is_scalar s \<and> int s \<le> PHIL_P256_HALF_ORDER \<and>
       getBytes L v = Some (be_bytes 32 r @ be_bytes 32 s) \<and> c = \<lparr>sc_r = hex32 r, sc_s = hex32 s\<rparr>)"
    (is "?l \<longleftrightarrow> ?r")
proof
  assume ?l
  then obtain raw where raw: "getBytes L v = Some raw" "length raw = 64"
    and c: "c = \<lparr>sc_r = hex_bytes (take 32 raw), sc_s = hex_bytes (drop 32 raw)\<rparr>"
    and sc: "is_scalar (be_value (take 32 raw))" "is_scalar (be_value (drop 32 raw))"
      "int (be_value (drop 32 raw)) \<le> PHIL_P256_HALF_ORDER"
    unfolding decodePhilP256RawSignatureV2_def
    by (auto simp: result_simps scalar_iff [OF assms] laws_hexlify [OF assms] laws_getBytes [OF assms])
  from raw(2) have "be_bytes 32 (be_value (take 32 raw)) = take 32 raw"
    "be_bytes 32 (be_value (drop 32 raw)) = drop 32 raw" by (simp_all add: bytes_of_scalar)
  with raw c sc show ?r
    by (intro exI [of _ "be_value (take 32 raw)"] exI [of _ "be_value (drop 32 raw)"])
       (simp add: hex32_def)
next
  assume ?r
  then show ?l
    unfolding decodePhilP256RawSignatureV2_def
    by (auto simp: result_simps scalar_iff [OF assms] laws_hexlify [OF assms] laws_getBytes [OF assms]
        bytes_of_scalar hex32_def)
qed

lemma encode_scalars:
  "byte_laws L \<Longrightarrow> is_scalar r \<Longrightarrow> is_scalar s \<Longrightarrow>
     encodePhilP256RawSignatureV2 L (HexData (hex32 r)) (HexData (hex32 s)) =
       Inr (hex_bytes (be_bytes 32 r @ be_bytes 32 (low_s s)))"
  using encode_iff hex32_bytes by blast

lemma decode_scalars:
  "byte_laws L \<Longrightarrow> is_scalar r \<Longrightarrow> is_scalar s \<Longrightarrow> int s \<le> PHIL_P256_HALF_ORDER \<Longrightarrow>
     getBytes L v = Some (be_bytes 32 r @ be_bytes 32 s) \<Longrightarrow>
     decodePhilP256RawSignatureV2 L v = Inr \<lparr>sc_r = hex32 r, sc_s = hex32 s\<rparr>"
  using decode_iff by blast

text \<open>The error of a high \<open>s\<close>.\<close>

lemma decode_high_s:
  assumes "byte_laws L" and "is_scalar r" and "is_scalar s" and "PHIL_P256_HALF_ORDER < int s"
    and "getBytes L v = Some (be_bytes 32 r @ be_bytes 32 s)"
  shows "decodePhilP256RawSignatureV2 L v =
    Inl (WireError ''PHIL_ROUTINE_P256_HIGH_S_FORBIDDEN'' ''s must use canonical low-S'')"
proof -
  have r: "scalar L (HexData (hex32 r)) ''r'' False = Inr (int r)"
    using assms by (simp add: scalar_iff hex32_bytes bytes_of_scalar)
  have ne: "be_bytes 32 s \<noteq> []" using length_be_bytes [of 32 s] by (metis list.size(3) zero_neq_numeral)
  have s: "scalar L (HexData (hex32 s)) ''s'' True =
      Inl (WireError ''PHIL_ROUTINE_P256_HIGH_S_FORBIDDEN'' ''s must use canonical low-S'')"
    using assms BigInt_hexlify [OF assms(1) ne]
    by (simp add: scalar_def wire_bytes_def hex32_bytes bytes_of_scalar wire_check_def wire_fail_def
        is_scalar_def bytes_of_scalar(2) [OF assms(3)] del: BigInt_of.simps)
  from r s assms(5) show ?thesis
    by (simp add: decodePhilP256RawSignatureV2_def wire_bytes_def laws_hexlify [OF assms(1)]
        laws_getBytes [OF assms(1)] hex32_def)
qed

lemma validate_key_iff:
  assumes "byte_laws L"
  shows "validatePhilP256PublicKeyX963V2 L P v = Inr k \<longleftrightarrow>
    (\<exists>x y. length x = 32 \<and> length y = 32 \<and> getBytes L v = Some (4 # x @ y) \<and>
       fromHex P (drop 2 (hex_bytes (4 # x @ y))) \<and>
       k = \<lparr>publicKeyX963 = hex_bytes (4 # x @ y), publicKeyX = hex_bytes x, publicKeyY = hex_bytes y,
            publicKeyFingerprint = sha256 L (ByteArray (4 # x @ y))\<rparr>)" (is "?l \<longleftrightarrow> ?r")
proof
  assume ?l
  then obtain raw where raw: "getBytes L v = Some raw" "length raw = 65" "raw ! 0 = 4"
    "fromHex P (drop 2 (hex_bytes raw))"
    and k: "k = \<lparr>publicKeyX963 = hex_bytes raw, publicKeyX = hex_bytes (take 32 (drop 1 raw)),
      publicKeyY = hex_bytes (take 32 (drop 33 raw)), publicKeyFingerprint = sha256 L (ByteArray raw)\<rparr>"
    unfolding validatePhilP256PublicKeyX963V2_def
    by (auto simp: result_simps laws_hexlify [OF assms] laws_getBytes [OF assms])
  from raw(2,3) obtain t where t: "raw = 4 # t" "length t = 64" by (cases raw) auto
  with raw k show ?r by (intro exI [of _ "take 32 t"] exI [of _ "drop 32 t"]) simp
next
  assume ?r
  then show ?l
    unfolding validatePhilP256PublicKeyX963V2_def
    by (auto simp: result_simps laws_hexlify [OF assms] laws_getBytes [OF assms])
qed

text \<open>The call of the curve library with the components of a decoded signature.\<close>

lemma verify_call:
  assumes "is_scalar r" and "is_scalar s"
  shows "catch (bnd (BigInt_of (StringV (hex32 r))) (\<lambda>r. bnd (BigInt_of (StringV (hex32 s))) (\<lambda>s.
        case p256_verify P r s d k of None \<Rightarrow> Inl LibraryError | Some ok \<Rightarrow> Inr ok))) False (\<lambda>ok. ok)
      \<longleftrightarrow> p256_verify P (int r) (int s) d k = Some True"
proof -
  have num: "BigInt_of (StringV (hex32 n)) = Inr (int n)" if "is_scalar n" for n
  proof -
    have "be_bytes 32 n \<noteq> []" using length_be_bytes [of 32 n] by (metis list.size(3) zero_neq_numeral)
    then show ?thesis
      using BigInt_hex_bytes bytes_of_scalar(2) [OF that] by (simp add: hex32_def del: BigInt_of.simps)
  qed
  from num assms show ?thesis by (auto simp del: BigInt_of.simps split: option.splits)
qed

section \<open>Signature formats\<close>

text \<open>
  A decoder of a signature format: it accepts exactly the encodings of two scalars, with a condition
  on the second, and returns the scalars with the second one normalised. Every accepted signature is
  canonical, can be put on the wire and is read back from there.
\<close>

locale signature_decoder =
  fixes format :: "nat \<Rightarrow> nat \<Rightarrow> bytes"
    and allowed :: "nat \<Rightarrow> bool"
    and decode :: "byte_library \<Rightarrow> bytes_like \<Rightarrow> PhilP256SignatureComponentsV2 wire"
  assumes decode_exact: "byte_laws L \<Longrightarrow> decode L v = Inr c \<longleftrightarrow>
    (\<exists>r s. is_scalar r \<and> is_scalar s \<and> allowed s \<and> getBytes L v = Some (format r s) \<and>
       c = \<lparr>sc_r = hex32 r, sc_s = hex32 (low_s s)\<rparr>)"
begin

lemma canonical:
  assumes "byte_laws L" and "decode L v = Inr c"
  shows "\<exists>r s. is_scalar r \<and> is_scalar s \<and> int s \<le> PHIL_P256_HALF_ORDER \<and>
    c = \<lparr>sc_r = hex32 r, sc_s = hex32 s\<rparr>"
  using assms low_s_scalar unfolding decode_exact [OF assms(1)] by blast

lemma to_wire:
  assumes "byte_laws L" and "decode L v = Inr c"
  shows "\<exists>r s. is_scalar r \<and> is_scalar s \<and> int s \<le> PHIL_P256_HALF_ORDER \<and>
    c = \<lparr>sc_r = hex32 r, sc_s = hex32 s\<rparr> \<and>
    encodePhilP256RawSignatureV2 L (HexData (sc_r c)) (HexData (sc_s c)) =
      Inr (hex_bytes (be_bytes 32 r @ be_bytes 32 s)) \<and>
    decodePhilP256RawSignatureV2 L (HexData (hex_bytes (be_bytes 32 r @ be_bytes 32 s))) = Inr c"
proof -
  obtain r s where c: "is_scalar r" "is_scalar s" "int s \<le> PHIL_P256_HALF_ORDER"
    "c = \<lparr>sc_r = hex32 r, sc_s = hex32 s\<rparr>" using canonical [OF assms] by blast
  then have "low_s s = s" by (simp add: low_s_def)
  with c encode_scalars [OF assms(1) c(1,2)]
    decode_scalars [OF assms(1) c(1-3) laws_getBytes(3) [OF assms(1)]]
  show ?thesis by (intro exI [of _ r] exI [of _ s]) simp
qed

end

interpretation der: signature_decoder der_signature "\<lambda>_. True" parsePhilP256DerSignatureV2
  by unfold_locales (simp add: parse_iff)

interpretation raw: signature_decoder "\<lambda>r s. be_bytes 32 r @ be_bytes 32 s"
  "\<lambda>s. int s \<le> PHIL_P256_HALF_ORDER" decodePhilP256RawSignatureV2
proof unfold_locales
  have "low_s s = s" if "int s \<le> PHIL_P256_HALF_ORDER" for s using that by (simp add: low_s_def)
  then show "decodePhilP256RawSignatureV2 L v = Inr c \<longleftrightarrow>
      (\<exists>r s. is_scalar r \<and> is_scalar s \<and> int s \<le> PHIL_P256_HALF_ORDER \<and>
         getBytes L v = Some (be_bytes 32 r @ be_bytes 32 s) \<and>
         c = \<lparr>sc_r = hex32 r, sc_s = hex32 (low_s s)\<rparr>)" if "byte_laws L" for L v c
    unfolding decode_iff [OF that] by metis
qed

section \<open>Properties\<close>

lemma small_scalar: "is_scalar 1" "is_scalar 2"
  by (simp_all add: is_scalar_def PHIL_P256_ORDER_def)

text \<open>
  C39: the DER parser is strict. It accepts exactly the distinguished encodings of two numbers from 1
  to the group order less 1, and returns the first and the low form of the second; and different pairs
  have different encodings, so that no signature has a second accepted DER form.
\<close>

theorem der_parsing_exact:
  assumes "byte_laws L"
  shows "(parsePhilP256DerSignatureV2 L input = Inr c \<longleftrightarrow>
      (\<exists>r s. is_scalar r \<and> is_scalar s \<and> getBytes L input = Some (der_signature r s) \<and>
         c = \<lparr>sc_r = hex32 r, sc_s = hex32 (low_s s)\<rparr>)) \<and>
    (is_scalar r \<and> is_scalar s \<and> is_scalar r' \<and> is_scalar s' \<and> der_signature r s = der_signature r' s' \<longrightarrow>
      r = r' \<and> s = s')"
  using parse_iff [OF assms] der_signature_inject by auto

theorem der_parsing_exact_witness:
  "parsePhilP256DerSignatureV2 sample_bytes (ByteArray [0x30, 6, 2, 1, 1, 2, 1, 2]) =
     Inr \<lparr>sc_r = hex32 1, sc_s = hex32 (low_s 2)\<rparr>"
proof -
  have "der_signature 1 2 = [0x30, 6, 2, 1, 1, 2, 1, 2]"
    by (simp add: der_signature_def der_integer_def der_content_def Let_def
        minimal_bytes.simps [of "Suc 0"] minimal_bytes.simps [of 2] minimal_bytes.simps [of 0])
  with small_scalar der_parsing_exact [OF sample_bytes_laws]
  show ?thesis by (metis laws_getBytes(1) [OF sample_bytes_laws])
qed

lemma signature_wire_round_trip_parts:
  assumes "byte_laws L"
  shows "parsePhilP256DerSignatureV2 L v = Inr c \<Longrightarrow>
      \<exists>x. encodePhilP256RawSignatureV2 L (HexData (sc_r c)) (HexData (sc_s c)) = Inr x \<and>
        decodePhilP256RawSignatureV2 L (HexData x) = Inr c"
    and "decodePhilP256RawSignatureV2 L w = Inr c \<Longrightarrow>
      \<exists>x. encodePhilP256RawSignatureV2 L (HexData (sc_r c)) (HexData (sc_s c)) = Inr x \<and>
        decodePhilP256RawSignatureV2 L (HexData x) = Inr c \<and> hexlify L w = Some x"
proof -
  show "\<exists>x. encodePhilP256RawSignatureV2 L (HexData (sc_r c)) (HexData (sc_s c)) = Inr x \<and>
      decodePhilP256RawSignatureV2 L (HexData x) = Inr c" if "parsePhilP256DerSignatureV2 L v = Inr c"
    using der.to_wire [OF assms that] by blast
  assume d: "decodePhilP256RawSignatureV2 L w = Inr c"
  from raw.to_wire [OF assms d] obtain r s where rs: "is_scalar r" "is_scalar s"
    "c = \<lparr>sc_r = hex32 r, sc_s = hex32 s\<rparr>"
    "encodePhilP256RawSignatureV2 L (HexData (sc_r c)) (HexData (sc_s c)) =
      Inr (hex_bytes (be_bytes 32 r @ be_bytes 32 s))"
    "decodePhilP256RawSignatureV2 L (HexData (hex_bytes (be_bytes 32 r @ be_bytes 32 s))) = Inr c" by blast
  from d obtain r' s' where "getBytes L w = Some (be_bytes 32 r' @ be_bytes 32 s')"
    "c = \<lparr>sc_r = hex32 r', sc_s = hex32 s'\<rparr>" unfolding decode_iff [OF assms] by blast
  with rs(3) have "hexlify L w = Some (hex_bytes (be_bytes 32 r @ be_bytes 32 s))"
    by (simp add: laws_hexlify [OF assms] hex32_def)
  with rs show "\<exists>x. encodePhilP256RawSignatureV2 L (HexData (sc_r c)) (HexData (sc_s c)) = Inr x \<and>
      decodePhilP256RawSignatureV2 L (HexData x) = Inr c \<and> hexlify L w = Some x" by blast
qed

text \<open>
  signatures round trip through the wire format. The components of a parsed DER signature and of a
  decoded raw signature are encoded as 64 bytes, which are decoded to the same components; and for a
  decoded raw signature these are the bytes it was decoded from.
\<close>

theorem signature_wire_round_trip:
  assumes "byte_laws L"
  shows "(parsePhilP256DerSignatureV2 L v = Inr c \<longrightarrow>
      (\<exists>x. encodePhilP256RawSignatureV2 L (HexData (sc_r c)) (HexData (sc_s c)) = Inr x \<and>
        decodePhilP256RawSignatureV2 L (HexData x) = Inr c)) \<and>
    (decodePhilP256RawSignatureV2 L w = Inr c \<longrightarrow>
      (\<exists>x. encodePhilP256RawSignatureV2 L (HexData (sc_r c)) (HexData (sc_s c)) = Inr x \<and>
        decodePhilP256RawSignatureV2 L (HexData x) = Inr c \<and> hexlify L w = Some x))"
  using signature_wire_round_trip_parts [OF assms] by blast

theorem signature_wire_round_trip_witness:
  "\<exists>x c. decodePhilP256RawSignatureV2 sample_bytes (ByteArray (be_bytes 32 1 @ be_bytes 32 2)) = Inr c \<and>
     encodePhilP256RawSignatureV2 sample_bytes (HexData (sc_r c)) (HexData (sc_s c)) = Inr x \<and>
     decodePhilP256RawSignatureV2 sample_bytes (HexData x) = Inr c"
proof -
  have "int 2 \<le> PHIL_P256_HALF_ORDER" by (simp add: PHIL_P256_HALF_ORDER_def PHIL_P256_ORDER_def drop_bit_Suc)
  then have "decodePhilP256RawSignatureV2 sample_bytes (ByteArray (be_bytes 32 1 @ be_bytes 32 2)) =
      Inr \<lparr>sc_r = hex32 1, sc_s = hex32 2\<rparr>"
    by (rule decode_scalars [OF sample_bytes_laws small_scalar _ laws_getBytes(1) [OF sample_bytes_laws]])
  with signature_wire_round_trip [OF sample_bytes_laws] show ?thesis by blast
qed

lemma signature_malleability_parts:
  assumes "byte_laws L" and "is_scalar r" and "is_scalar s" and "int s \<le> PHIL_P256_HALF_ORDER"
    and "getBytes L v = Some (be_bytes 32 r @ be_bytes 32 s)"
    and "getBytes L w = Some (be_bytes 32 r @ be_bytes 32 (nat PHIL_P256_ORDER - s))"
  shows "decodePhilP256RawSignatureV2 L v = Inr \<lparr>sc_r = hex32 r, sc_s = hex32 s\<rparr>"
    and "decodePhilP256RawSignatureV2 L w =
      Inl (WireError ''PHIL_ROUTINE_P256_HIGH_S_FORBIDDEN'' ''s must use canonical low-S'')"
    and "encodePhilP256RawSignatureV2 L (HexData (hex32 r)) (HexData (hex32 s)) =
      Inr (hex_bytes (be_bytes 32 r @ be_bytes 32 s))"
    and "encodePhilP256RawSignatureV2 L (HexData (hex32 r)) (HexData (hex32 (nat PHIL_P256_ORDER - s))) =
      Inr (hex_bytes (be_bytes 32 r @ be_bytes 32 s))"
proof -
  let ?t = "nat PHIL_P256_ORDER - s"
  have t: "is_scalar ?t" "PHIL_P256_HALF_ORDER < int ?t" "low_s ?t = s" "low_s s = s"
    using assms(3,4) half_order by (auto simp: is_scalar_def low_s_def)
  show "decodePhilP256RawSignatureV2 L v = Inr \<lparr>sc_r = hex32 r, sc_s = hex32 s\<rparr>"
    by (rule decode_scalars [OF assms(1-5)])
  show "decodePhilP256RawSignatureV2 L w =
      Inl (WireError ''PHIL_ROUTINE_P256_HIGH_S_FORBIDDEN'' ''s must use canonical low-S'')"
    by (rule decode_high_s [OF assms(1,2) t(1,2) assms(6)])
  show "encodePhilP256RawSignatureV2 L (HexData (hex32 r)) (HexData (hex32 s)) =
      Inr (hex_bytes (be_bytes 32 r @ be_bytes 32 s))"
    using encode_scalars [OF assms(1-3)] t(4) by simp
  show "encodePhilP256RawSignatureV2 L (HexData (hex32 r)) (HexData (hex32 ?t)) =
      Inr (hex_bytes (be_bytes 32 r @ be_bytes 32 s))"
    using encode_scalars [OF assms(1,2) t(1)] t(3) by simp
qed

text \<open>
  C40: no malleability on the wire. Of the two signatures with the same \<open>r\<close> and the opposite values of
  \<open>s\<close>, the decoder accepts exactly one, the one with the low value, and refuses the other as a high
  \<open>s\<close>; the encoder gives the same 64 bytes for both, and these are the accepted ones.
\<close>

theorem signature_malleability:
  assumes "byte_laws L" and "is_scalar r" and "is_scalar s" and "int s \<le> PHIL_P256_HALF_ORDER"
    and "getBytes L v = Some (be_bytes 32 r @ be_bytes 32 s)"
    and "getBytes L w = Some (be_bytes 32 r @ be_bytes 32 (nat PHIL_P256_ORDER - s))"
  shows "decodePhilP256RawSignatureV2 L v = Inr \<lparr>sc_r = hex32 r, sc_s = hex32 s\<rparr> \<and>
    decodePhilP256RawSignatureV2 L w =
      Inl (WireError ''PHIL_ROUTINE_P256_HIGH_S_FORBIDDEN'' ''s must use canonical low-S'') \<and>
    encodePhilP256RawSignatureV2 L (HexData (hex32 r)) (HexData (hex32 s)) =
      Inr (hex_bytes (be_bytes 32 r @ be_bytes 32 s)) \<and>
    encodePhilP256RawSignatureV2 L (HexData (hex32 r)) (HexData (hex32 (nat PHIL_P256_ORDER - s))) =
      Inr (hex_bytes (be_bytes 32 r @ be_bytes 32 s))"
  by (intro conjI signature_malleability_parts [OF assms])

theorem signature_malleability_witness:
  "decodePhilP256RawSignatureV2 sample_bytes (ByteArray (be_bytes 32 1 @ be_bytes 32 2)) =
     Inr \<lparr>sc_r = hex32 1, sc_s = hex32 2\<rparr> \<and>
   decodePhilP256RawSignatureV2 sample_bytes
     (ByteArray (be_bytes 32 1 @ be_bytes 32 (nat PHIL_P256_ORDER - 2))) =
     Inl (WireError ''PHIL_ROUTINE_P256_HIGH_S_FORBIDDEN'' ''s must use canonical low-S'')"
proof -
  have "int 2 \<le> PHIL_P256_HALF_ORDER" by (simp add: PHIL_P256_HALF_ORDER_def PHIL_P256_ORDER_def drop_bit_Suc)
  from signature_malleability [OF sample_bytes_laws small_scalar this
      laws_getBytes(1) [OF sample_bytes_laws] laws_getBytes(1) [OF sample_bytes_laws]]
  show ?thesis by simp
qed

text \<open>
  what verification accepts. It returns true exactly for a digest of 32 bytes, a raw signature of
  two scalars with a low \<open>s\<close> and an uncompressed key of 65 bytes that is a point of the curve, when
  the curve library verifies these two scalars for this digest and key; what the library throws is
  false.
\<close>

theorem signature_verification:
  assumes "byte_laws L"
  shows "verifyPhilP256RawSignatureV2 L P vd vs vk = Inr True \<longleftrightarrow>
    (\<exists>d r s x y. getBytes L vd = Some d \<and> length d = 32 \<and>
       is_scalar r \<and> is_scalar s \<and> int s \<le> PHIL_P256_HALF_ORDER \<and>
       getBytes L vs = Some (be_bytes 32 r @ be_bytes 32 s) \<and>
       getBytes L vk = Some (4 # x @ y) \<and> length x = 32 \<and> length y = 32 \<and>
       fromHex P (drop 2 (hex_bytes (4 # x @ y))) \<and>
       p256_verify P (int r) (int s) d (drop 2 (hex_bytes (4 # x @ y))) = Some True)" (is "?l \<longleftrightarrow> ?r")
proof
  assume ?l
  then obtain d c k where st: "getBytes L vd = Some d" "length d = 32"
    "decodePhilP256RawSignatureV2 L vs = Inr c" "validatePhilP256PublicKeyX963V2 L P vk = Inr k"
    and v: "catch (bnd (BigInt_of (StringV (sc_r c))) (\<lambda>r. bnd (BigInt_of (StringV (sc_s c))) (\<lambda>s.
      case p256_verify P r s d (drop 2 (publicKeyX963 k)) of None \<Rightarrow> Inl LibraryError | Some ok \<Rightarrow> Inr ok)))
        False (\<lambda>ok. ok)"
    unfolding verifyPhilP256RawSignatureV2_def bnd_eq_Inr wire_bytes_iff by blast
  from st(3) obtain r s where rs: "is_scalar r" "is_scalar s" "int s \<le> PHIL_P256_HALF_ORDER"
    "getBytes L vs = Some (be_bytes 32 r @ be_bytes 32 s)" "c = \<lparr>sc_r = hex32 r, sc_s = hex32 s\<rparr>"
    unfolding decode_iff [OF assms] by blast
  from st(4) obtain x y where "length x = 32" "length y = 32" "getBytes L vk = Some (4 # x @ y)"
    "fromHex P (drop 2 (hex_bytes (4 # x @ y)))" "publicKeyX963 k = hex_bytes (4 # x @ y)"
    unfolding validate_key_iff [OF assms] by auto
  with st(1,2) rs v show ?r
    by (intro exI [of _ d] exI [of _ r] exI [of _ s] exI [of _ x] exI [of _ y])
       (simp add: verify_call del: BigInt_of.simps)
next
  assume ?r
  then obtain d r s x y where d: "getBytes L vd = Some d" "length d = 32"
    and rs: "is_scalar r" "is_scalar s" "int s \<le> PHIL_P256_HALF_ORDER"
      "getBytes L vs = Some (be_bytes 32 r @ be_bytes 32 s)"
    and xy: "getBytes L vk = Some (4 # x @ y)" "length x = 32" "length y = 32"
      "fromHex P (drop 2 (hex_bytes (4 # x @ y)))"
    and v: "p256_verify P (int r) (int s) d (drop 2 (hex_bytes (4 # x @ y))) = Some True" by blast
  from xy obtain k where "validatePhilP256PublicKeyX963V2 L P vk = Inr k"
    "publicKeyX963 k = hex_bytes (4 # x @ y)" using validate_key_iff [OF assms] by fastforce
  with d v decode_scalars [OF assms rs] show ?l
    by (simp add: verifyPhilP256RawSignatureV2_def wire_bytes_def verify_call [OF rs(1,2)] del: BigInt_of.simps)
qed

theorem signature_verification_witness:
  "verifyPhilP256RawSignatureV2 sample_bytes \<lparr>fromHex = (\<lambda>_. True), p256_verify = (\<lambda>r s d k. Some (r < s))\<rparr>
     (ByteArray (replicate 32 0)) (ByteArray (be_bytes 32 1 @ be_bytes 32 2))
     (ByteArray (4 # replicate 64 0)) = Inr True"
proof -
  have "int 2 \<le> PHIL_P256_HALF_ORDER" by (simp add: PHIL_P256_HALF_ORDER_def PHIL_P256_ORDER_def drop_bit_Suc)
  moreover have "replicate 64 (0 :: 8 word) = replicate 32 0 @ replicate 32 0"
    by (simp flip: replicate_add)
  ultimately show ?thesis
    unfolding signature_verification [OF sample_bytes_laws] laws_getBytes(1) [OF sample_bytes_laws]
    using small_scalar
    by (intro exI [of _ "replicate 32 0"] exI [of _ "1 :: nat"] exI [of _ "2 :: nat"]) simp
qed

end
