(* ===== verification/JsValue.thy ===== *)
theory JsValue
  imports Ethers
begin

text \<open>
  JavaScript values as a function that takes \<open>unknown\<close> sees them. An object is what the operations on
  it answer: \<open>Array.isArray\<close>, \<open>Reflect.ownKeys\<close>, \<open>Object.getPrototypeOf\<close> and
  \<open>Object.getOwnPropertyDescriptor\<close>, each of which a proxy may answer as it likes or by throwing. The
  sources perform each of them at most once on an object (once for each key), so that an answer per
  operation is all there is to see of an object, also of one that changes between operations.
\<close>

section \<open>Values and objects\<close>

text \<open>
  What is thrown: an error object of a class of the sources that keeps its instances in a private set
  (\<open>Classified\<close>, with the name of the class and the code of the error), or anything else.
\<close>

datatype thrown = Classified string string | Unclassified

datatype 'a trap = Returns 'a | Throws thrown

datatype js_key = StringKey string | SymbolKey

datatype js_prototype = NullPrototype | ObjectPrototype | OtherPrototype

text \<open>An accessor property has a getter or not.\<close>

datatype js_value =
    UndefinedVal | NullVal | BooleanVal bool | NumberVal js_number | BigIntVal int | StringVal string
  | SymbolVal | FunctionVal | ObjectVal js_object
and js_object =
    JsObject (isArray: "bool trap") (ownKeys: "js_key list trap") (getPrototypeOf: "js_prototype trap")
      (getOwnPropertyDescriptor: "string \<Rightarrow> js_descriptor option trap")
and js_descriptor = DataProperty js_value | AccessorProperty "js_value trap option"

fun is_null :: "js_value \<Rightarrow> bool" where
  "is_null NullVal = True"
| "is_null _ = False"

text \<open>An object with the given data properties, from a literal or from \<open>Object.create(null)\<close>.\<close>

definition data_object :: "js_prototype \<Rightarrow> (string \<times> js_value) list \<Rightarrow> js_value" where
  "data_object proto ps = ObjectVal (JsObject (Returns False) (Returns (map (StringKey \<circ> fst) ps)) (Returns proto)
     (\<lambda>k. Returns (map_option DataProperty (map_of ps k))))"

abbreviation object_literal :: "(string \<times> js_value) list \<Rightarrow> js_value" where
  "object_literal \<equiv> data_object ObjectPrototype"

abbreviation null_object :: "(string \<times> js_value) list \<Rightarrow> js_value" where
  "null_object \<equiv> data_object NullPrototype"

text \<open>The value of a property of an object that is given by its properties.\<close>

definition snap :: "(string \<times> js_value) list \<Rightarrow> string \<Rightarrow> js_value" where
  "snap snapshot key = (case map_of snapshot key of None \<Rightarrow> UndefinedVal | Some v \<Rightarrow> v)"

text \<open>A property that holds 32 bytes as a hexadecimal string, and their normal form.\<close>

definition js_bytes32 :: "ethers \<Rightarrow> bool \<Rightarrow> js_value \<Rightarrow> string \<Rightarrow> bool" where
  "js_bytes32 E az v t \<longleftrightarrow> (\<exists>s. v = StringVal s \<and> is_bytes32 E az s t)"

section \<open>Errors with a code\<close>

text \<open>A function of the sources that throws only errors of one class: \<open>Inl\<close> is the code.\<close>

type_synonym 'a coded = "string + 'a"

definition check :: "bool \<Rightarrow> string \<Rightarrow> unit coded" where
  "check c code = (if c then Inr () else Inl code)"

text \<open>
  \<open>try { ... } catch (thrown) { ... }\<close> where the handler rethrows an error of the class itself and
  throws the given code for everything else.
\<close>

fun classify :: "string \<Rightarrow> string \<Rightarrow> 'a trap \<Rightarrow> 'a coded" where
  "classify cls code (Returns x) = Inr x"
| "classify cls code (Throws (Classified c d)) = (if c = cls then Inl d else Inl code)"
| "classify cls code (Throws Unclassified) = Inl code"

fun traverse :: "('a \<Rightarrow> 'e + 'b) \<Rightarrow> 'a list \<Rightarrow> 'e + 'b list" where
  "traverse f [] = Inr []"
| "traverse f (x # xs) = bnd (f x) (\<lambda>y. bnd (traverse f xs) (\<lambda>ys. Inr (y # ys)))"

text \<open>The descriptors that are not \<open>undefined\<close>.\<close>

fun defined_descriptors :: "(string \<times> js_descriptor option) list \<Rightarrow> (string \<times> js_descriptor) list" where
  "defined_descriptors [] = []"
| "defined_descriptors ((key, None) # found) = defined_descriptors found"
| "defined_descriptors ((key, Some d) # found) = (key, d) # defined_descriptors found"

lemma map_of_defined_descriptors:
  "map_of (defined_descriptors (map (\<lambda>k. (k, f k)) ks)) = (\<lambda>k. if k \<in> set ks then f k else None)"
proof (induction ks)
  case (Cons k ks)
  then show ?case by (cases "f k") auto
qed simp

lemma check_iff [result_simps]: "check c code = Inr u \<longleftrightarrow> c"
  by (simp add: check_def)

lemma check_Inl [result_simps]: "check c code = Inl e \<longleftrightarrow> \<not> c \<and> e = code"
  by (auto simp: check_def)

lemma check_eval [simp]: "check True code = Inr ()" "check False code = Inl code"
  by (simp_all add: check_def)

lemma classify_iff [result_simps]: "classify cls code t = Inr x \<longleftrightarrow> t = Returns x"
  by (cases "(cls, code, t)" rule: classify.cases) auto

lemma traverse_iff:
  "traverse f xs = Inr ys \<longleftrightarrow> list_all2 (\<lambda>x y. f x = Inr y) xs ys"
  by (induction xs arbitrary: ys) (auto simp: result_simps list_all2_Cons1)

lemma traverse_map: "(\<And>x. x \<in> set xs \<Longrightarrow> f x = Inr (g x)) \<Longrightarrow> traverse f xs = Inr (map g xs)"
  by (induction xs) auto

section \<open>Own properties\<close>

text \<open>
  The guarded reading of the own properties, which the sources repeat in each file: the own keys are
  candidates, of which no one may be a symbol or a name that is not allowed; a candidate counts when it
  has a descriptor; and every required name must have one.
\<close>

fun candidate_key :: "string list \<Rightarrow> string \<Rightarrow> js_key \<Rightarrow> string coded" where
  "candidate_key allowed extraCode SymbolKey = Inl extraCode"
| "candidate_key allowed extraCode (StringKey key) = (if key \<in> set allowed then Inr key else Inl extraCode)"

definition own_descriptors ::
  "string \<Rightarrow> js_object \<Rightarrow> js_key list \<Rightarrow> string list \<Rightarrow> string list \<Rightarrow> string \<Rightarrow> string \<Rightarrow> string \<Rightarrow>
     (string \<times> js_descriptor) list coded" where
  "own_descriptors cls obj keys allowedKeys requiredKeys missingCode extraCode enumerationCode =
     bnd (traverse (candidate_key allowedKeys extraCode) keys) (\<lambda>candidates.
     bnd (traverse (\<lambda>key. bnd (classify cls enumerationCode (getOwnPropertyDescriptor obj key))
                           (\<lambda>descriptor. Inr (key, descriptor))) candidates) (\<lambda>found.
     let verified = defined_descriptors found in
     bnd (traverse (\<lambda>key. check (map_of verified key \<noteq> None) missingCode) requiredKeys) (\<lambda>_.
     Inr verified)))"

definition descriptor_of :: "js_object \<Rightarrow> string \<Rightarrow> js_descriptor option" where
  "descriptor_of obj key = (case getOwnPropertyDescriptor obj key of Returns d \<Rightarrow> d | Throws _ \<Rightarrow> None)"

fun descriptor_value :: "js_descriptor \<Rightarrow> js_value option" where
  "descriptor_value (DataProperty v) = Some v"
| "descriptor_value (AccessorProperty (Some (Returns v))) = Some v"
| "descriptor_value _ = None"

text \<open>An object that has exactly the given own properties.\<close>

definition exact_object :: "js_object \<Rightarrow> string list \<Rightarrow> bool" where
  "exact_object obj keys \<longleftrightarrow>
     (\<exists>ks. ownKeys obj = Returns (map StringKey ks) \<and> set ks = set keys) \<and>
     (\<forall>k \<in> set keys. \<exists>d. getOwnPropertyDescriptor obj k = Returns (Some d))"

lemma candidate_keys_iff:
  "traverse (candidate_key allowed code) keys = Inr ks \<longleftrightarrow> keys = map StringKey ks \<and> set ks \<subseteq> set allowed"
proof (induction keys arbitrary: ks)
  case (Cons k keys)
  then show ?case by (cases k) (auto simp: result_simps)
qed auto

lemma traverse_descriptors_iff:
  "traverse (\<lambda>key. bnd (classify cls code (getOwnPropertyDescriptor obj key)) (\<lambda>d. Inr (key, d))) ks = Inr found
     \<longleftrightarrow> (\<forall>k \<in> set ks. \<exists>d. getOwnPropertyDescriptor obj k = Returns d) \<and>
       found = map (\<lambda>k. (k, descriptor_of obj k)) ks"
  unfolding traverse_iff
  by (induction ks arbitrary: found)
     (auto simp: list_all2_Cons1 result_simps descriptor_of_def split: trap.splits)

lemma traverse_check_iff:
  "traverse (\<lambda>k. check (f k) code) ks = Inr us \<longleftrightarrow> (\<forall>k \<in> set ks. f k) \<and> us = replicate (length ks) ()"
  by (induction ks arbitrary: us) (auto simp: result_simps)

lemma descriptor_of_defined:
  "(\<exists>d. getOwnPropertyDescriptor obj k = Returns (Some d)) \<longleftrightarrow> descriptor_of obj k \<noteq> None"
  by (auto simp: descriptor_of_def split: trap.splits)

lemma own_descriptors_iff:
  assumes own: "ownKeys obj = Returns keys"
  shows "(\<exists>verified. own_descriptors cls obj keys allowed allowed m e n = Inr verified \<and> P (map_of verified)) \<longleftrightarrow>
     exact_object obj allowed \<and> P (\<lambda>k. if k \<in> set allowed then descriptor_of obj k else None)"
    (is "?l \<longleftrightarrow> ?r")
proof
  assume ?l
  then obtain ks where ks: "keys = map StringKey ks" "set ks \<subseteq> set allowed"
    and al: "\<forall>k \<in> set allowed. k \<in> set ks \<and> descriptor_of obj k \<noteq> None"
    and p: "P (\<lambda>k. if k \<in> set ks then descriptor_of obj k else None)"
    unfolding own_descriptors_def Let_def
    by (auto simp: result_simps candidate_keys_iff traverse_descriptors_iff traverse_check_iff
        map_of_defined_descriptors split: if_splits)
  then have "set ks = set allowed" by blast
  with ks al p own show ?r unfolding exact_object_def descriptor_of_defined by auto
next
  assume ?r
  then obtain ks where ks: "keys = map StringKey ks" "set ks = set allowed"
    and got: "\<forall>k \<in> set allowed. \<exists>d. getOwnPropertyDescriptor obj k = Returns (Some d)"
    and p: "P (\<lambda>k. if k \<in> set allowed then descriptor_of obj k else None)"
    using own unfolding exact_object_def by auto
  from got have ds: "\<forall>k \<in> set allowed. \<exists>d. getOwnPropertyDescriptor obj k = Returns d" by blast
  from got have al: "\<forall>k \<in> set allowed. descriptor_of obj k \<noteq> None" unfolding descriptor_of_defined .
  let ?found = "map (\<lambda>k. (k, descriptor_of obj k)) ks"
  have "own_descriptors cls obj keys allowed allowed m e n = Inr (defined_descriptors ?found)"
    using candidate_keys_iff [of allowed e keys ks] traverse_descriptors_iff [of cls n obj ks ?found] ks ds al
      traverse_check_iff [of "\<lambda>k. map_of (defined_descriptors ?found) k \<noteq> None" m allowed "replicate (length allowed) ()"]
    by (simp add: own_descriptors_def Let_def map_of_defined_descriptors)
  with p ks(2) show ?l by (auto simp: map_of_defined_descriptors)
qed

text \<open>An object with data properties has exactly these, with their values.\<close>

lemma data_object_shows:
  assumes "data_object proto ps = ObjectVal obj"
  shows "isArray obj = Returns False" "ownKeys obj = Returns (map (StringKey \<circ> fst) ps)"
    "getPrototypeOf obj = Returns proto"
    "getOwnPropertyDescriptor obj k = Returns (map_option DataProperty (map_of ps k))"
    "exact_object obj (map fst ps)" "descriptor_of obj k = map_option DataProperty (map_of ps k)"
proof -
  from assms have obj: "obj = JsObject (Returns False) (Returns (map (StringKey \<circ> fst) ps)) (Returns proto)
      (\<lambda>k. Returns (map_option DataProperty (map_of ps k)))"
    by (simp add: data_object_def)
  then show "isArray obj = Returns False" "ownKeys obj = Returns (map (StringKey \<circ> fst) ps)"
    "getPrototypeOf obj = Returns proto"
    "getOwnPropertyDescriptor obj k = Returns (map_option DataProperty (map_of ps k))"
    "descriptor_of obj k = map_option DataProperty (map_of ps k)"
    by (simp_all add: descriptor_of_def)
  have "\<exists>d. map_option DataProperty (map_of ps k) = Some d" if "k \<in> fst ` set ps" for k
    using that by (cases "map_of ps k") (auto simp: map_of_eq_None_iff)
  then show "exact_object obj (map fst ps)"
    unfolding exact_object_def using obj by (simp del: split_paired_Ex) (metis image_set list.map_comp)
qed

section \<open>Canonical decimal strings\<close>

text \<open>\<open>/^(0|[1-9][0-9]*)$/\<close>\<close>

definition canonical_uint :: "string \<Rightarrow> bool" where
  "canonical_uint s \<longleftrightarrow> s = ''0'' \<or>
     (case s of [] \<Rightarrow> False | c # t \<Rightarrow> decimal_digit c \<and> c \<noteq> CHR ''0'' \<and> list_all decimal_digit t)"

definition MAX_SAFE_INTEGER :: int where
  "MAX_SAFE_INTEGER = 2 ^ 53 - 1"

fun isSafeInteger :: "js_number \<Rightarrow> bool" where
  "isSafeInteger (IntegerNumber i) = (\<bar>i\<bar> \<le> MAX_SAFE_INTEGER)"
| "isSafeInteger NonIntegerNumber = False"

lemma canonical_uint_digits: "canonical_uint s \<Longrightarrow> s \<noteq> [] \<and> list_all decimal_digit s"
  by (auto simp: canonical_uint_def decimal_digit_def split: list.splits)

lemma digit_not_special:
  assumes "decimal_digit c"
  shows "\<not> js_space c" "c \<notin> {CHR ''x'', CHR ''X'', CHR ''o'', CHR ''O'', CHR ''b'', CHR ''B'', CHR ''-'', CHR ''+''}"
  using assms by (auto simp: decimal_digit_def js_space_def)

lemma BigInt_decimal:
  assumes "s \<noteq> []" and "list_all decimal_digit s"
  shows "BigInt_of (StringV s) = Inr (int (read_digits 10 s))"
proof -
  have "dropWhile js_space t = t" if "list_all decimal_digit t" for t
    using that by (cases t) (auto simp: digit_not_special)
  with assms have trim: "trim s = s" by (simp add: trim_def list_all_rev)
  from assms(1) show ?thesis
  proof (cases s)
    case (Cons c t)
    then show ?thesis using assms trim digit_not_special
      by (cases t) (auto simp: string_to_bigint_def read_decimal_def)
  qed simp
qed

lemma show_nat_canonical: "canonical_uint (show_nat n)"
proof (induction n rule: show_nat.induct)
  case (1 n)
  show ?case
  proof (cases "n < 10")
    case True
    then show ?thesis
      by (cases "n = 0") (auto simp: show_nat.simps [of n] show_nat.simps [of 0] canonical_uint_def digit_char_def decimal_digit_def)
  next
    case False
    then have "n div 10 \<noteq> 0" by (simp add: div_eq_0_iff)
    then have "show_nat (n div 10) \<noteq> ''0''"
      using show_nat_inject [of "n div 10" 0] char_of_char [of "CHR ''0''", where 'a = nat]
      by (simp add: show_nat.simps [of 0] digit_char_def)
    with 1 [OF False] False show ?thesis
      by (auto simp: show_nat.simps [of n] canonical_uint_def decimal_digit_digit_char split: list.splits)
  qed
qed

lemma BigInt_show_nat: "BigInt_of (StringV (show_nat n)) = Inr (int n)"
  using BigInt_decimal [OF show_nat_nonempty show_nat_digits] by simp

lemma BigInt_show_int: "0 \<le> i \<Longrightarrow> BigInt_of (StringV (show_int i)) = Inr i"
  by (simp add: show_int_def BigInt_show_nat del: BigInt_of.simps)

end
