(* ===== verification/Commitment.thy ===== *)
theory Commitment
  imports Ethers
begin

text \<open>
  Commitments of the ceremony protocols: the Keccak-256 digest of the ABI encoding of the hash of a
  type literal followed by the fields. A commitment determines its fields, and commitments under
  different literals differ, unless two of the hashed inputs collide.
\<close>

definition literal_hash :: "ethers \<Rightarrow> string \<Rightarrow> string" where
  "literal_hash E literal = keccak256 E (toUtf8Bytes E literal)"

definition commitment_preimage :: "ethers \<Rightarrow> string \<Rightarrow> string list \<Rightarrow> abi_value list \<Rightarrow> bytes_like" where
  "commitment_preimage E literal types vs =
     HexData (abiEncode E (''bytes32'' # types) (AbiHex (literal_hash E literal) # vs))"

definition commitment :: "ethers \<Rightarrow> string \<Rightarrow> string list \<Rightarrow> abi_value list \<Rightarrow> string" where
  "commitment E literal types vs = keccak256 E (commitment_preimage E literal types vs)"

text \<open>The inputs that are hashed for a commitment.\<close>

definition commitment_inputs :: "ethers \<Rightarrow> string \<Rightarrow> string list \<Rightarrow> abi_value list \<Rightarrow> bytes_like set" where
  "commitment_inputs E literal types vs = {commitment_preimage E literal types vs, toUtf8Bytes E literal}"

lemma commitment_word: "ethers_laws E \<Longrightarrow> abi_fits E ''bytes32'' (AbiHex (literal_hash E literal))"
  by (simp add: literal_hash_def laws_keccak256)

lemma commitment_shape: "ethers_laws E \<Longrightarrow> hex_string (commitment E literal types vs) 32"
  "ethers_laws E \<Longrightarrow> toLowerCase (commitment E literal types vs) = commitment E literal types vs"
  by (simp_all add: commitment_def laws_keccak256)

lemma commitment_binds:
  assumes laws: "ethers_laws E"
    and vs: "list_all2 (abi_fits E) types vs" and us: "list_all2 (abi_fits E) types' us"
    and eq: "commitment E literal types vs = commitment E literal' types' us"
    and noc: "\<not> keccak_collision E (commitment_inputs E literal types vs \<union> commitment_inputs E literal' types' us)"
  shows "literal = literal' \<and> (types = types' \<longrightarrow> vs = us)"
proof -
  have "commitment_preimage E literal types vs = commitment_preimage E literal' types' us"
    by (rule keccak_eq_in [OF noc]) (use eq in \<open>simp_all add: commitment_inputs_def commitment_def\<close>)
  then have enc: "abiEncode E (''bytes32'' # types) (AbiHex (literal_hash E literal) # vs) =
      abiEncode E (''bytes32'' # types') (AbiHex (literal_hash E literal') # us)"
    by (simp add: commitment_preimage_def)
  have fv: "list_all2 (abi_fits E) (''bytes32'' # types) (AbiHex (literal_hash E literal) # vs)"
    and fu: "list_all2 (abi_fits E) (''bytes32'' # types') (AbiHex (literal_hash E literal') # us)"
    using vs us commitment_word [OF laws] by simp_all
  from abiEncode_head [OF laws fv fu enc] have lit: "literal_hash E literal = literal_hash E literal'" by simp
  have "literal = literal'"
    by (rule keccak_utf8_eq_in [OF laws noc])
       (use lit in \<open>simp_all add: literal_hash_def commitment_inputs_def\<close>)
  moreover have "vs = us" if "types = types'"
    using abiEncode_inject [OF laws fv _ enc [folded that]] fu that by simp
  ultimately show ?thesis by blast
qed

text \<open>
  The interface of a commitment: a computation that, when it succeeds, is the commitment to values
  that fit the types.
\<close>

locale committing =
  fixes compute :: "ethers \<Rightarrow> 'i \<Rightarrow> 'x + string"
    and literal :: string
    and types :: "string list"
    and content :: "ethers \<Rightarrow> 'i \<Rightarrow> abi_value list \<Rightarrow> bool"
  assumes compute_content: "ethers_laws E \<Longrightarrow> compute E i = Inr h \<Longrightarrow>
      \<exists>vs. content E i vs \<and> list_all2 (abi_fits E) types vs \<and> h = commitment E literal types vs"
begin

lemma computed_shape:
  assumes "ethers_laws E" and "compute E i = Inr h"
  shows "hex_string h 32" "toLowerCase h = h"
  using compute_content [OF assms] commitment_shape [OF assms(1)] by auto

lemma computed_binds:
  assumes laws: "ethers_laws E" and i: "compute E i = Inr h" and j: "compute E j = Inr h"
  shows "\<exists>vs us. content E i vs \<and> content E j us \<and>
    (vs = us \<or> keccak_collision E (commitment_inputs E literal types vs \<union> commitment_inputs E literal types us))"
proof -
  obtain vs where vs: "content E i vs" "list_all2 (abi_fits E) types vs" "h = commitment E literal types vs"
    using compute_content [OF laws i] by blast
  obtain us where us: "content E j us" "list_all2 (abi_fits E) types us" "h = commitment E literal types us"
    using compute_content [OF laws j] by blast
  from vs us commitment_binds [OF laws vs(2) us(2)] show ?thesis by metis
qed

end

text \<open>Two commitments under different literals never have the same digest, up to a collision.\<close>

locale separated_commitments =
  a: committing compute literal types content + b: committing compute' literal' types' content'
  for compute :: "ethers \<Rightarrow> 'i \<Rightarrow> 'x + string" and literal types content
    and compute' :: "ethers \<Rightarrow> 'j \<Rightarrow> 'y + string" and literal' types' content' +
  assumes literals: "literal \<noteq> literal'"
begin

lemma separated:
  assumes laws: "ethers_laws E" and i: "compute E i = Inr h" and j: "compute' E j = Inr h"
  shows "\<exists>vs us. content E i vs \<and> content' E j us \<and>
    keccak_collision E (commitment_inputs E literal types vs \<union> commitment_inputs E literal' types' us)"
proof -
  obtain vs where vs: "content E i vs" "list_all2 (abi_fits E) types vs" "h = commitment E literal types vs"
    using a.compute_content [OF laws i] by blast
  obtain us where us: "content' E j us" "list_all2 (abi_fits E) types' us" "h = commitment E literal' types' us"
    using b.compute_content [OF laws j] by blast
  from vs us literals commitment_binds [OF laws vs(2) us(2)] show ?thesis by metis
qed

end

end
