(* ===== verification/GenesisProtocol.thy ===== *)
theory GenesisProtocol
  imports Authorization JsValue Commitment
begin

text \<open>
  The genesis commitments (\<open>v2ConsumerRecoveryGenesisProtocol.ts\<close>, without the profile validation):
  the deployment intent hash and the enrollment ceremony hash, with the access to caller supplied
  objects that the file guards against proxies and accessors.
\<close>

section \<open>Constants\<close>

definition PHILCORE_V2_LOCAL_GENESIS_DEPLOYMENT_INTENT_LITERAL :: string where
  "PHILCORE_V2_LOCAL_GENESIS_DEPLOYMENT_INTENT_LITERAL =
     ''PhilCoreV2LocalGenesisDeploymentIntentV1(uint8 intentVersion,bytes32 intentId,uint25'' @
     ''6 chainId,address entryPoint,address factoryBinding,address confirmationTarget,addre'' @
     ''ss verifier,bytes32 verifierRuntimeCodeHash,bytes32 accountCreationBytecodeHash,byte'' @
     ''s32 accountVersionId,bytes32 securityModelId,bytes32 recoveryDomainId,bytes32 ownerC'' @
     ''ommitment,bytes32 identityBindingCommitment,address initialValidator,uint8 validator'' @
     ''VerifierKind,bytes32 validatorKeyIdBinding,bytes32 validatorCommitment,uint64 valida'' @
     ''torEpoch,uint64 recoveryEpoch,uint64 recoveryDelaySeconds,uint64 recoveryExpirySecon'' @
     ''ds,bytes32 userSalt,uint48 expiresAt)''"

definition PHILCORE_V2_LOCAL_GENESIS_ENROLLMENT_CEREMONY_LITERAL :: string where
  "PHILCORE_V2_LOCAL_GENESIS_ENROLLMENT_CEREMONY_LITERAL =
     ''PhilCoreV2LocalGenesisEnrollmentCeremonyV1(uint8 ceremonyVersion,bytes32 ceremonyId,'' @
     ''bytes32 genesisDeploymentIntentHash,uint8 role,uint64 credentialGeneration,uint48 ex'' @
     ''piresAt)''"

definition PHILCORE_V2_LOCAL_GENESIS_DEPLOYMENT_INTENT_TYPEHASH :: "ethers \<Rightarrow> string" where
  "PHILCORE_V2_LOCAL_GENESIS_DEPLOYMENT_INTENT_TYPEHASH E =
     keccak256 E (toUtf8Bytes E PHILCORE_V2_LOCAL_GENESIS_DEPLOYMENT_INTENT_LITERAL)"

definition PHILCORE_V2_LOCAL_GENESIS_ENROLLMENT_CEREMONY_TYPEHASH :: "ethers \<Rightarrow> string" where
  "PHILCORE_V2_LOCAL_GENESIS_ENROLLMENT_CEREMONY_TYPEHASH E =
     keccak256 E (toUtf8Bytes E PHILCORE_V2_LOCAL_GENESIS_ENROLLMENT_CEREMONY_LITERAL)"

text \<open>The types of the fields; the first one, of the type hash, stands where they are used.\<close>

definition INTENT_ABI_TYPES :: "string list" where
  "INTENT_ABI_TYPES =
     [''uint8'', ''bytes32'', ''uint256'', ''address'', ''address'', ''address'',
      ''address'', ''bytes32'', ''bytes32'', ''bytes32'', ''bytes32'', ''bytes32'',
      ''bytes32'', ''bytes32'', ''address'', ''uint8'', ''bytes32'', ''bytes32'',
      ''uint64'', ''uint64'', ''uint64'', ''uint64'', ''bytes32'', ''uint48'']"

definition CEREMONY_ABI_TYPES :: "string list" where
  "CEREMONY_ABI_TYPES = [''uint8'', ''bytes32'', ''bytes32'', ''uint8'', ''uint64'', ''uint48'']"

definition PHILCORE_V2_CONSUMER_RECOVERY_ACCOUNT_VERSION_ID :: "ethers \<Rightarrow> string" where
  "PHILCORE_V2_CONSUMER_RECOVERY_ACCOUNT_VERSION_ID E =
     keccak256 E (toUtf8Bytes E ''philcore-v2-minimal-account-v3-consumer-recovery'')"

definition PHILCORE_V2_CONSUMER_RECOVERY_DOMAIN_ID :: "ethers \<Rightarrow> string" where
  "PHILCORE_V2_CONSUMER_RECOVERY_DOMAIN_ID E =
     keccak256 E (toUtf8Bytes E ''PHILCORE_V2_RECOVERY_FACTOR_DESCRIPTOR_V3'')"

definition PINNED_ACCOUNT_VERSION_ID :: "ethers \<Rightarrow> string" where
  "PINNED_ACCOUNT_VERSION_ID E = PHILCORE_V2_CONSUMER_RECOVERY_ACCOUNT_VERSION_ID E"

definition PINNED_SECURITY_MODEL_ID :: "ethers \<Rightarrow> string" where
  "PINNED_SECURITY_MODEL_ID E = PHILCORE_V2_SECURITY_MODEL_ID E"

definition PINNED_RECOVERY_DOMAIN_ID :: "ethers \<Rightarrow> string" where
  "PINNED_RECOVERY_DOMAIN_ID E = PHILCORE_V2_CONSUMER_RECOVERY_DOMAIN_ID E"

definition PINNED_VALIDATOR_VERIFIER_KIND :: int where
  "PINNED_VALIDATOR_VERIFIER_KIND = PHILCORE_V2_VALIDATOR_VERIFIER_KIND_SECP256K1_ECDSA"

definition PINNED_VALIDATOR_EPOCH :: int where
  "PINNED_VALIDATOR_EPOCH = 1"

definition PINNED_RECOVERY_EPOCH :: int where
  "PINNED_RECOVERY_EPOCH = 1"

definition PINNED_RECOVERY_DELAY_SECONDS :: int where
  "PINNED_RECOVERY_DELAY_SECONDS = 172800"

definition PINNED_RECOVERY_EXPIRY_SECONDS :: int where
  "PINNED_RECOVERY_EXPIRY_SECONDS = 604800"

definition PINNED_INTENT_VERSION :: int where
  "PINNED_INTENT_VERSION = 1"

definition PINNED_CEREMONY_VERSION :: int where
  "PINNED_CEREMONY_VERSION = 1"

definition PINNED_GENESIS_GENERATION :: int where
  "PINNED_GENESIS_GENERATION = 1"

definition INTENT_OWN_KEYS :: "string list" where
  "INTENT_OWN_KEYS =
     [''intentVersion'', ''intentId'', ''chainId'', ''entryPoint'', ''factoryBinding'',
      ''confirmationTarget'', ''verifier'', ''verifierRuntimeCodeHash'',
      ''accountCreationBytecodeHash'', ''accountVersionId'', ''securityModelId'',
      ''recoveryDomainId'', ''ownerCommitment'', ''identityBindingCommitment'',
      ''initialValidator'', ''validatorVerifierKind'', ''validatorKeyIdBinding'',
      ''validatorCommitment'', ''validatorEpoch'', ''recoveryEpoch'',
      ''recoveryDelaySeconds'', ''recoveryExpirySeconds'', ''userSalt'', ''expiresAt'']"

definition CEREMONY_OWN_KEYS :: "string list" where
  "CEREMONY_OWN_KEYS =
     [''ceremonyVersion'', ''ceremonyId'', ''genesisDeploymentIntentHash'', ''role'',
      ''credentialGeneration'', ''expiresAt'']"

section \<open>Access to the caller's object\<close>

definition PROTOCOL_ERROR :: string where
  "PROTOCOL_ERROR = ''PhilCoreV2ConsumerRecoveryGenesisProtocolError''"

definition failWithCause :: "string \<Rightarrow> 'a trap \<Rightarrow> 'a coded" where
  "failWithCause code t = classify PROTOCOL_ERROR code t"

fun requirePlainObject :: "js_value \<Rightarrow> string \<Rightarrow> js_object coded" where
  "requirePlainObject (ObjectVal obj) code =
     bnd (failWithCause code (isArray obj)) (\<lambda>array.
     bnd (check (\<not> array) code) (\<lambda>_. Inr obj))"
| "requirePlainObject _ code = Inl code"

fun readValueFromVerifiedDescriptor :: "js_descriptor \<Rightarrow> string \<Rightarrow> js_value coded" where
  "readValueFromVerifiedDescriptor (DataProperty v) code = Inr v"
| "readValueFromVerifiedDescriptor (AccessorProperty None) code = Inl code"
| "readValueFromVerifiedDescriptor (AccessorProperty (Some getter)) code = failWithCause code getter"

definition requireExactOwnKeys ::
  "js_object \<Rightarrow> string list \<Rightarrow> string list \<Rightarrow> string \<Rightarrow> string \<Rightarrow> string \<Rightarrow> (string \<times> js_descriptor) list coded" where
  "requireExactOwnKeys obj requiredKeys optionalKeys missingCode extraCode enumerationCode =
     bnd (failWithCause enumerationCode (ownKeys obj)) (\<lambda>keys.
     own_descriptors PROTOCOL_ERROR obj keys (requiredKeys @ optionalKeys) requiredKeys missingCode extraCode
       enumerationCode)"

section \<open>Fields\<close>

fun genesis_bytes32 :: "ethers \<Rightarrow> js_value \<Rightarrow> string \<Rightarrow> string \<Rightarrow> string coded" where
  "genesis_bytes32 E (StringVal s) invalidCode zeroCode =
     bnd (check (isHexString E s 32) invalidCode) (\<lambda>_.
     bnd (check (toLowerCase s = s) invalidCode) (\<lambda>_.
     bnd (check (toLowerCase s \<noteq> ZERO_BYTES32) zeroCode) (\<lambda>_.
     Inr (toLowerCase s))))"
| "genesis_bytes32 E _ invalidCode zeroCode = Inl invalidCode"

definition requirePinnedBytes32 :: "ethers \<Rightarrow> js_value \<Rightarrow> string \<Rightarrow> string \<Rightarrow> string \<Rightarrow> string coded" where
  "requirePinnedBytes32 E v expected invalidCode mismatchCode =
     bnd (genesis_bytes32 E v invalidCode invalidCode) (\<lambda>normalized.
     bnd (check (normalized = toLowerCase expected) mismatchCode) (\<lambda>_.
     Inr normalized))"

fun requireCanonicalAddress :: "ethers \<Rightarrow> js_value \<Rightarrow> string \<Rightarrow> string \<Rightarrow> string coded" where
  "requireCanonicalAddress E (StringVal s) invalidCode zeroCode =
     (case getAddress E s of
        None \<Rightarrow> Inl invalidCode
      | Some normalized \<Rightarrow>
          bnd (check (normalized = s) invalidCode) (\<lambda>_.
          bnd (check (normalized \<noteq> ZERO_ADDRESS) zeroCode) (\<lambda>_.
          Inr normalized)))"
| "requireCanonicalAddress E _ invalidCode zeroCode = Inl invalidCode"

fun requireCanonicalUint :: "js_value \<Rightarrow> nat \<Rightarrow> string \<Rightarrow> int coded" where
  "requireCanonicalUint (BigIntVal i) bits invalidCode =
     bnd (check (\<not> i < 0) invalidCode) (\<lambda>_.
     catch (BigInt_of (StringV (show_int i))) (Inl invalidCode) (\<lambda>parsed.
     bnd (check (\<not> (parsed < 0 \<or> parsed \<ge> 2 ^ bits)) invalidCode) (\<lambda>_. Inr parsed)))"
| "requireCanonicalUint (StringVal s) bits invalidCode =
     bnd (check (canonical_uint s) invalidCode) (\<lambda>_.
     catch (BigInt_of (StringV s)) (Inl invalidCode) (\<lambda>parsed.
     bnd (check (\<not> (parsed < 0 \<or> parsed \<ge> 2 ^ bits)) invalidCode) (\<lambda>_. Inr parsed)))"
| "requireCanonicalUint _ bits invalidCode = Inl invalidCode"

definition requirePinnedUint :: "js_value \<Rightarrow> nat \<Rightarrow> int \<Rightarrow> string \<Rightarrow> string \<Rightarrow> int coded" where
  "requirePinnedUint v bits expected invalidCode mismatchCode =
     bnd (requireCanonicalUint v bits invalidCode) (\<lambda>parsed.
     bnd (check (parsed = expected) mismatchCode) (\<lambda>_.
     Inr parsed))"

text \<open>
  The two hash functions read and check one field after the other. The check of a field, with its
  error codes:
\<close>

datatype field_rule =
    Bytes32Field string string
  | PinnedBytes32Field string string string
  | AddressField string string
  | NonzeroUintField nat string string
  | PinnedUintField nat int string string
  | RoleField string

fun check_field :: "ethers \<Rightarrow> field_rule \<Rightarrow> js_value \<Rightarrow> abi_value coded" where
  "check_field E (Bytes32Field invalidCode zeroCode) v =
     bnd (genesis_bytes32 E v invalidCode zeroCode) (\<lambda>s. Inr (AbiHex s))"
| "check_field E (PinnedBytes32Field expected invalidCode mismatchCode) v =
     bnd (requirePinnedBytes32 E v expected invalidCode mismatchCode) (\<lambda>s. Inr (AbiHex s))"
| "check_field E (AddressField invalidCode zeroCode) v =
     bnd (requireCanonicalAddress E v invalidCode zeroCode) (\<lambda>s. Inr (AbiHex s))"
| "check_field E (NonzeroUintField bits invalidCode zeroCode) v =
     bnd (requireCanonicalUint v bits invalidCode) (\<lambda>n.
     bnd (check (n \<noteq> 0) zeroCode) (\<lambda>_. Inr (AbiUint n)))"
| "check_field E (PinnedUintField bits expected invalidCode mismatchCode) v =
     bnd (requirePinnedUint v bits expected invalidCode mismatchCode) (\<lambda>n. Inr (AbiUint n))"
| "check_field E (RoleField invalidCode) v =
     bnd (requireCanonicalUint v 8 invalidCode) (\<lambda>n.
     bnd (check (n = 0 \<or> n = 1 \<or> n = 2) invalidCode) (\<lambda>_. Inr (AbiUint n)))"

definition read_field ::
  "(string \<times> js_descriptor) list \<Rightarrow> string \<Rightarrow> string \<Rightarrow> js_value coded" where
  "read_field verified readCode key =
     (case map_of verified key of
        None \<Rightarrow> Inl readCode
      | Some descriptor \<Rightarrow> readValueFromVerifiedDescriptor descriptor readCode)"

definition read_fields ::
  "ethers \<Rightarrow> (string \<times> js_descriptor) list \<Rightarrow> string \<Rightarrow> (string \<times> field_rule) list \<Rightarrow> abi_value list coded" where
  "read_fields E verified readCode rules =
     traverse (\<lambda>(key, rule). bnd (read_field verified readCode key) (check_field E rule)) rules"

definition intent_fields :: "ethers \<Rightarrow> (string \<times> field_rule) list" where
  "intent_fields E =
     [(''intentVersion'', PinnedUintField 8 PINNED_INTENT_VERSION ''INTENT_VERSION_INVALID'' ''INTENT_VERSION_MISMATCH''),
      (''intentId'', Bytes32Field ''INTENT_ID_INVALID'' ''INTENT_ID_ZERO''),
      (''chainId'', NonzeroUintField 256 ''CHAIN_ID_INVALID'' ''CHAIN_ID_ZERO''),
      (''entryPoint'', AddressField ''ENTRY_POINT_INVALID'' ''ENTRY_POINT_ZERO''),
      (''factoryBinding'', AddressField ''FACTORY_BINDING_INVALID'' ''FACTORY_BINDING_ZERO''),
      (''confirmationTarget'', AddressField ''CONFIRMATION_TARGET_INVALID'' ''CONFIRMATION_TARGET_ZERO''),
      (''verifier'', AddressField ''VERIFIER_INVALID'' ''VERIFIER_ZERO''),
      (''verifierRuntimeCodeHash'', Bytes32Field ''VERIFIER_RUNTIME_CODE_HASH_INVALID'' ''VERIFIER_RUNTIME_CODE_HASH_ZERO''),
      (''accountCreationBytecodeHash'', Bytes32Field ''ACCOUNT_CREATION_BYTECODE_HASH_INVALID'' ''ACCOUNT_CREATION_BYTECODE_HASH_ZERO''),
      (''accountVersionId'', PinnedBytes32Field (PINNED_ACCOUNT_VERSION_ID E) ''ACCOUNT_VERSION_ID_INVALID'' ''ACCOUNT_VERSION_ID_MISMATCH''),
      (''securityModelId'', PinnedBytes32Field (PINNED_SECURITY_MODEL_ID E) ''SECURITY_MODEL_ID_INVALID'' ''SECURITY_MODEL_ID_MISMATCH''),
      (''recoveryDomainId'', PinnedBytes32Field (PINNED_RECOVERY_DOMAIN_ID E) ''RECOVERY_DOMAIN_ID_INVALID'' ''RECOVERY_DOMAIN_ID_MISMATCH''),
      (''ownerCommitment'', Bytes32Field ''OWNER_COMMITMENT_INVALID'' ''OWNER_COMMITMENT_ZERO''),
      (''identityBindingCommitment'', Bytes32Field ''IDENTITY_BINDING_COMMITMENT_INVALID'' ''IDENTITY_BINDING_COMMITMENT_ZERO''),
      (''initialValidator'', AddressField ''INITIAL_VALIDATOR_INVALID'' ''INITIAL_VALIDATOR_ZERO''),
      (''validatorVerifierKind'', PinnedUintField 8 PINNED_VALIDATOR_VERIFIER_KIND ''VALIDATOR_VERIFIER_KIND_INVALID'' ''VALIDATOR_VERIFIER_KIND_MISMATCH''),
      (''validatorKeyIdBinding'', Bytes32Field ''VALIDATOR_KEY_ID_BINDING_INVALID'' ''VALIDATOR_KEY_ID_BINDING_ZERO''),
      (''validatorCommitment'', Bytes32Field ''VALIDATOR_COMMITMENT_INVALID'' ''VALIDATOR_COMMITMENT_ZERO''),
      (''validatorEpoch'', PinnedUintField 64 PINNED_VALIDATOR_EPOCH ''VALIDATOR_EPOCH_INVALID'' ''VALIDATOR_EPOCH_MISMATCH''),
      (''recoveryEpoch'', PinnedUintField 64 PINNED_RECOVERY_EPOCH ''RECOVERY_EPOCH_INVALID'' ''RECOVERY_EPOCH_MISMATCH''),
      (''recoveryDelaySeconds'', PinnedUintField 64 PINNED_RECOVERY_DELAY_SECONDS ''RECOVERY_DELAY_SECONDS_INVALID'' ''RECOVERY_DELAY_SECONDS_MISMATCH''),
      (''recoveryExpirySeconds'', PinnedUintField 64 PINNED_RECOVERY_EXPIRY_SECONDS ''RECOVERY_EXPIRY_SECONDS_INVALID'' ''RECOVERY_EXPIRY_SECONDS_MISMATCH''),
      (''userSalt'', Bytes32Field ''USER_SALT_INVALID'' ''USER_SALT_ZERO''),
      (''expiresAt'', NonzeroUintField 48 ''INTENT_EXPIRES_AT_INVALID'' ''INTENT_EXPIRES_AT_ZERO'')]"

definition ceremony_fields :: "(string \<times> field_rule) list" where
  "ceremony_fields =
     [(''ceremonyVersion'', PinnedUintField 8 PINNED_CEREMONY_VERSION ''CEREMONY_VERSION_INVALID'' ''CEREMONY_VERSION_MISMATCH''),
      (''ceremonyId'', Bytes32Field ''CEREMONY_ID_INVALID'' ''CEREMONY_ID_ZERO''),
      (''genesisDeploymentIntentHash'', Bytes32Field ''CEREMONY_GENESIS_DEPLOYMENT_INTENT_HASH_INVALID''
         ''CEREMONY_GENESIS_DEPLOYMENT_INTENT_HASH_ZERO''),
      (''role'', RoleField ''CEREMONY_ROLE_INVALID''),
      (''credentialGeneration'', PinnedUintField 64 PINNED_GENESIS_GENERATION ''CEREMONY_GENERATION_INVALID''
         ''CEREMONY_GENERATION_MISMATCH''),
      (''expiresAt'', NonzeroUintField 48 ''CEREMONY_EXPIRES_AT_INVALID'' ''CEREMONY_EXPIRES_AT_ZERO'')]"

definition computePhilCoreV2LocalGenesisDeploymentIntentHash :: "ethers \<Rightarrow> js_value \<Rightarrow> string coded" where
  "computePhilCoreV2LocalGenesisDeploymentIntentHash E input =
     bnd (requirePlainObject input ''INTENT_INPUT_NOT_OBJECT'') (\<lambda>obj.
     bnd (requireExactOwnKeys obj INTENT_OWN_KEYS [] ''INTENT_MISSING_OWN_KEY'' ''INTENT_EXTRA_OWN_KEY''
            ''INTENT_ENUMERATION_FAILED'') (\<lambda>verified.
     bnd (read_fields E verified ''INTENT_PROPERTY_READ_FAILED'' (intent_fields E)) (\<lambda>words.
     Inr (keccak256 E (HexData (abiEncode E (''bytes32'' # INTENT_ABI_TYPES)
       (AbiHex (PHILCORE_V2_LOCAL_GENESIS_DEPLOYMENT_INTENT_TYPEHASH E) # words)))))))"

definition computePhilCoreV2LocalGenesisEnrollmentCeremonyHash :: "ethers \<Rightarrow> js_value \<Rightarrow> string coded" where
  "computePhilCoreV2LocalGenesisEnrollmentCeremonyHash E input =
     bnd (requirePlainObject input ''CEREMONY_INPUT_NOT_OBJECT'') (\<lambda>obj.
     bnd (requireExactOwnKeys obj CEREMONY_OWN_KEYS [] ''CEREMONY_MISSING_OWN_KEY'' ''CEREMONY_EXTRA_OWN_KEY''
            ''CEREMONY_ENUMERATION_FAILED'') (\<lambda>verified.
     bnd (read_fields E verified ''CEREMONY_PROPERTY_READ_FAILED'' ceremony_fields) (\<lambda>words.
     Inr (keccak256 E (HexData (abiEncode E (''bytes32'' # CEREMONY_ABI_TYPES)
       (AbiHex (PHILCORE_V2_LOCAL_GENESIS_ENROLLMENT_CEREMONY_TYPEHASH E) # words)))))))"

section \<open>What the checks accept\<close>

fun js_uint :: "js_value \<Rightarrow> int option" where
  "js_uint (BigIntVal i) = (if 0 \<le> i then Some i else None)"
| "js_uint (StringVal s) = (if canonical_uint s then Some (int (read_digits 10 s)) else None)"
| "js_uint _ = None"

lemma catch_Inr [result_simps]:
  "catch m (Inl e) f = Inr y \<longleftrightarrow> (\<exists>x. m = Inr x \<and> f x = Inr y)"
  by (cases m) auto

lemma requireCanonicalUint_iff [result_simps]:
  "requireCanonicalUint v bits code = Inr n \<longleftrightarrow> js_uint v = Some n \<and> uint_fits bits n"
proof (cases v)
  case (BigIntVal i)
  then show ?thesis
    by (cases "0 \<le> i") (auto simp: result_simps BigInt_show_int uint_fits_def simp del: BigInt_of.simps)
next
  case (StringVal s)
  then show ?thesis
    by (cases "canonical_uint s")
       (auto simp: result_simps BigInt_decimal dest!: canonical_uint_digits simp del: BigInt_of.simps
        simp add: uint_fits_def)
qed simp_all

lemma requirePinnedUint_iff [result_simps]:
  "requirePinnedUint v bits k code code' = Inr n \<longleftrightarrow> n = k \<and> js_uint v = Some k \<and> uint_fits bits k"
  by (auto simp: requirePinnedUint_def result_simps)

lemma genesis_bytes32_iff [result_simps]:
  "genesis_bytes32 E v code code' = Inr s \<longleftrightarrow>
     v = StringVal s \<and> isHexString E s 32 \<and> toLowerCase s = s \<and> s \<noteq> ZERO_BYTES32"
  by (cases v) (auto simp: result_simps)

lemma requirePinnedBytes32_iff [result_simps]:
  "requirePinnedBytes32 E v k code code' = Inr s \<longleftrightarrow>
     v = StringVal s \<and> s = toLowerCase k \<and> isHexString E s 32 \<and> s \<noteq> ZERO_BYTES32"
  by (auto simp: requirePinnedBytes32_def result_simps)

lemma requireCanonicalAddress_iff [result_simps]:
  "requireCanonicalAddress E v code code' = Inr a \<longleftrightarrow>
     v = StringVal a \<and> getAddress E a = Some a \<and> a \<noteq> ZERO_ADDRESS"
  by (cases v) (auto simp: result_simps split: option.splits)

lemma failWithCause_iff [result_simps]: "failWithCause code t = Inr x \<longleftrightarrow> t = Returns x"
  by (simp add: failWithCause_def result_simps)

text \<open>The ABI type of a field.\<close>

fun rule_type :: "field_rule \<Rightarrow> string" where
  "rule_type (Bytes32Field _ _) = ''bytes32''"
| "rule_type (PinnedBytes32Field _ _ _) = ''bytes32''"
| "rule_type (AddressField _ _) = ''address''"
| "rule_type (NonzeroUintField bits _ _) = ''uint'' @ show_nat bits"
| "rule_type (PinnedUintField bits _ _ _) = ''uint'' @ show_nat bits"
| "rule_type (RoleField _) = ''uint'' @ show_nat 8"

fun abi_width :: "field_rule \<Rightarrow> bool" where
  "abi_width (NonzeroUintField bits _ _) = (bits \<in> {8, 48, 64, 256})"
| "abi_width (PinnedUintField bits _ _ _) = (bits \<in> {8, 48, 64, 256})"
| "abi_width _ = True"

lemma uint_type_names:
  "''uint'' @ show_nat 8 = ''uint8''" "''uint'' @ show_nat 48 = ''uint48''"
  "''uint'' @ show_nat 64 = ''uint64''" "''uint'' @ show_nat 256 = ''uint256''"
  by code_simp+

lemma check_field_fits:
  assumes "ethers_laws E" and "abi_width rule" and "check_field E rule v = Inr w"
  shows "abi_fits E (rule_type rule) w"
  using assms
  by (cases rule) (auto simp: result_simps laws_isHexString uint_type_names [simplified])

section \<open>What an object shows\<close>

lemma requirePlainObject_iff [result_simps]:
  "requirePlainObject v code = Inr obj \<longleftrightarrow> v = ObjectVal obj \<and> isArray obj = Returns False"
  by (cases v) (auto simp: result_simps)

lemma readValue_iff [result_simps]:
  "readValueFromVerifiedDescriptor d code = Inr v \<longleftrightarrow> descriptor_value d = Some v"
  by (cases "(d, code)" rule: readValueFromVerifiedDescriptor.cases)
     (auto simp: result_simps split: trap.splits elim: descriptor_value.elims)

lemma requireExactOwnKeys_iff:
  "(\<exists>verified. requireExactOwnKeys obj keys [] m e n = Inr verified \<and> P (map_of verified)) \<longleftrightarrow>
     exact_object obj keys \<and> P (\<lambda>k. if k \<in> set keys then descriptor_of obj k else None)"
proof (cases "ownKeys obj")
  case (Returns ks)
  with own_descriptors_iff [OF this, of PROTOCOL_ERROR keys m e n P] show ?thesis
    by (simp add: requireExactOwnKeys_def failWithCause_def)
next
  case (Throws t)
  then show ?thesis by (auto simp: requireExactOwnKeys_def result_simps exact_object_def)
qed

text \<open>
  The values of the given own properties, each accepted by its rule as the given word: what a hash
  function reads of its argument.
\<close>

definition object_words :: "ethers \<Rightarrow> (string \<times> field_rule) list \<Rightarrow> js_value \<Rightarrow> abi_value list \<Rightarrow> bool" where
  "object_words E rules v ws \<longleftrightarrow>
     (\<exists>obj. v = ObjectVal obj \<and> isArray obj = Returns False \<and> exact_object obj (map fst rules) \<and>
        list_all2 (\<lambda>(key, rule) w. \<exists>d x. descriptor_of obj key = Some d \<and> descriptor_value d = Some x \<and>
          check_field E rule x = Inr w) rules ws)"

lemma read_fields_iff:
  "read_fields E verified code rules = Inr ws \<longleftrightarrow>
     list_all2 (\<lambda>(key, rule) w. \<exists>d x. map_of verified key = Some d \<and> descriptor_value d = Some x \<and>
       check_field E rule x = Inr w) rules ws"
  unfolding read_fields_def traverse_iff
  by (rule arg_cong [of _ _ "\<lambda>P. list_all2 P rules ws"])
     (auto simp: fun_eq_iff read_field_def result_simps split: option.splits)

lemma compute_words:
  assumes "map fst rules = keys"
  shows "bnd (requirePlainObject input c1) (\<lambda>obj.
       bnd (requireExactOwnKeys obj keys [] c2 c3 c4) (\<lambda>verified.
       bnd (read_fields E verified c5 rules) (\<lambda>ws. Inr (f ws)))) = Inr h \<longleftrightarrow>
     (\<exists>ws. object_words E rules input ws \<and> f ws = h)"
proof -
  let ?row = "\<lambda>M. \<lambda>(key, rule) w. \<exists>d x. M key = Some d \<and> descriptor_value d = Some x \<and> check_field E rule x = Inr w"
  have row: "list_all2 (?row (\<lambda>k. if k \<in> set keys then descriptor_of obj k else None)) rules ws \<longleftrightarrow>
      list_all2 (?row (descriptor_of obj)) rules ws" for obj ws
  proof (rule list.rel_cong [OF refl refl])
    fix p w
    assume "p \<in> set rules"
    then have "fst p \<in> set keys" using assms by auto
    then show "?row (\<lambda>k. if k \<in> set keys then descriptor_of obj k else None) p w \<longleftrightarrow> ?row (descriptor_of obj) p w"
      by (cases p) simp
  qed
  have "(\<exists>verified. requireExactOwnKeys obj keys [] c2 c3 c4 = Inr verified \<and>
       (\<exists>ws. list_all2 (?row (map_of verified)) rules ws \<and> f ws = h)) \<longleftrightarrow>
     exact_object obj keys \<and> (\<exists>ws. list_all2 (?row (descriptor_of obj)) rules ws \<and> f ws = h)" for obj
    using requireExactOwnKeys_iff [of obj keys c2 c3 c4 "\<lambda>M. \<exists>ws. list_all2 (?row M) rules ws \<and> f ws = h"] row
    by simp
  then show ?thesis
    unfolding bnd_eq_Inr requirePlainObject_iff read_fields_iff object_words_def assms sum.inject by blast
qed

lemma object_words_fits:
  assumes "ethers_laws E" and "list_all (abi_width \<circ> snd) rules" and "object_words E rules v ws"
  shows "list_all2 (abi_fits E) (map (rule_type \<circ> snd) rules) ws"
proof -
  from assms(3) obtain obj where
    "list_all2 (\<lambda>(key, rule) w. \<exists>d x. descriptor_of obj key = Some d \<and> descriptor_value d = Some x \<and>
       check_field E rule x = Inr w) rules ws" by (auto simp: object_words_def)
  then show ?thesis using assms(2)
  proof (induction rule: list_all2_induct)
    case (Cons p rules w ws)
    then show ?case using check_field_fits [OF assms(1)] by (cases p) auto
  qed simp
qed

lemma intent_rules:
  "map fst (intent_fields E) = INTENT_OWN_KEYS" "map (rule_type \<circ> snd) (intent_fields E) = INTENT_ABI_TYPES"
  "list_all (abi_width \<circ> snd) (intent_fields E)"
  by (simp_all add: intent_fields_def INTENT_OWN_KEYS_def INTENT_ABI_TYPES_def uint_type_names [simplified])

lemma ceremony_rules:
  "map fst ceremony_fields = CEREMONY_OWN_KEYS" "map (rule_type \<circ> snd) ceremony_fields = CEREMONY_ABI_TYPES"
  "list_all (abi_width \<circ> snd) ceremony_fields"
  by (simp_all add: ceremony_fields_def CEREMONY_OWN_KEYS_def CEREMONY_ABI_TYPES_def uint_type_names [simplified])

lemma intent_hash_iff:
  "computePhilCoreV2LocalGenesisDeploymentIntentHash E v = Inr h \<longleftrightarrow>
     (\<exists>ws. object_words E (intent_fields E) v ws \<and>
        commitment E PHILCORE_V2_LOCAL_GENESIS_DEPLOYMENT_INTENT_LITERAL INTENT_ABI_TYPES ws = h)"
  unfolding computePhilCoreV2LocalGenesisDeploymentIntentHash_def commitment_def commitment_preimage_def
    literal_hash_def PHILCORE_V2_LOCAL_GENESIS_DEPLOYMENT_INTENT_TYPEHASH_def
  by (rule compute_words [OF intent_rules(1)])

lemma ceremony_hash_iff:
  "computePhilCoreV2LocalGenesisEnrollmentCeremonyHash E v = Inr h \<longleftrightarrow>
     (\<exists>ws. object_words E ceremony_fields v ws \<and>
        commitment E PHILCORE_V2_LOCAL_GENESIS_ENROLLMENT_CEREMONY_LITERAL CEREMONY_ABI_TYPES ws = h)"
  unfolding computePhilCoreV2LocalGenesisEnrollmentCeremonyHash_def commitment_def commitment_preimage_def
    literal_hash_def PHILCORE_V2_LOCAL_GENESIS_ENROLLMENT_CEREMONY_TYPEHASH_def
  by (rule compute_words [OF ceremony_rules(1)])

interpretation genesis_intent: committing computePhilCoreV2LocalGenesisDeploymentIntentHash
  PHILCORE_V2_LOCAL_GENESIS_DEPLOYMENT_INTENT_LITERAL INTENT_ABI_TYPES
  "\<lambda>E. object_words E (intent_fields E)"
  by unfold_locales (metis intent_hash_iff object_words_fits intent_rules(2,3))

interpretation genesis_ceremony: committing computePhilCoreV2LocalGenesisEnrollmentCeremonyHash
  PHILCORE_V2_LOCAL_GENESIS_ENROLLMENT_CEREMONY_LITERAL CEREMONY_ABI_TYPES
  "\<lambda>E. object_words E ceremony_fields"
  by unfold_locales (metis ceremony_hash_iff object_words_fits ceremony_rules(2,3))

text \<open>The ceremony hash of an object with the six properties as data.\<close>

definition ceremony_words :: "string \<Rightarrow> string \<Rightarrow> int \<Rightarrow> int \<Rightarrow> abi_value list" where
  "ceremony_words cid intentHash roleId expiry =
     [AbiUint 1, AbiHex cid, AbiHex intentHash, AbiUint roleId, AbiUint 1, AbiUint expiry]"

lemma ceremony_hash_data:
  assumes "is_bytes32 E False cid cid" and "is_bytes32 E False intentHash intentHash"
    and "js_uint version = Some 1" and "js_uint roleV = Some r" and "r \<in> {0, 1, 2}"
    and "js_uint generation = Some 1" and "js_uint expiryV = Some t" and "0 < t" and "t < 2 ^ 48"
  shows "computePhilCoreV2LocalGenesisEnrollmentCeremonyHash E
    (data_object proto [(''ceremonyVersion'', version), (''ceremonyId'', StringVal cid),
       (''genesisDeploymentIntentHash'', StringVal intentHash), (''role'', roleV),
       (''credentialGeneration'', generation), (''expiresAt'', expiryV)]) =
    Inr (commitment E PHILCORE_V2_LOCAL_GENESIS_ENROLLMENT_CEREMONY_LITERAL CEREMONY_ABI_TYPES
      (ceremony_words cid intentHash r t))"
proof -
  let ?ps = "[(''ceremonyVersion'', version), (''ceremonyId'', StringVal cid),
       (''genesisDeploymentIntentHash'', StringVal intentHash), (''role'', roleV),
       (''credentialGeneration'', generation), (''expiresAt'', expiryV)]"
  obtain obj where obj: "data_object proto ?ps = ObjectVal obj" by (simp add: data_object_def)
  note seen = data_object_shows [OF obj]
  have "map fst ?ps = map fst ceremony_fields" by (simp add: ceremony_fields_def)
  with seen(5) have ex: "exact_object obj (map fst ceremony_fields)" by metis
  have "list_all2 (\<lambda>(key, rule) w. \<exists>d x. descriptor_of obj key = Some d \<and> descriptor_value d = Some x \<and>
      check_field E rule x = Inr w) ceremony_fields (ceremony_words cid intentHash r t)"
    using assms unfolding ceremony_fields_def ceremony_words_def seen(6)
    by (auto simp: result_simps is_bytes32_def uint_fits_def PINNED_CEREMONY_VERSION_def
        PINNED_GENESIS_GENERATION_def)
  with obj seen(1) ex show ?thesis
    unfolding ceremony_hash_iff object_words_def by blast
qed

end
