(* ===== verification/Ceremony.thy ===== *)
theory Ceremony
  imports Main
begin

text \<open>
  What a ceremony promises, apart from its encoding: a slot that is vacant, or holds a ceremony that is
  open until its expiry, or one that is closed for a reason. A ceremony binds what it is for (\<open>'b\<close>) and
  remembers the last time it was observed.
\<close>

datatype end_reason = Cancelled | Expired | Consumed

datatype 'b phase = Vacant | Open 'b int int | Closed 'b end_reason int

fun observed :: "'b phase \<Rightarrow> int" where
  "observed Vacant = 0"
| "observed (Open b e obs) = obs"
| "observed (Closed b x obs) = obs"

text \<open>
  The steps, for ceremonies that live at most a given time. Expiry has precedence over cancellation;
  a consumption does not look at the expiry; time never goes back while a ceremony is in the slot.
\<close>

inductive ceremony_step :: "int \<Rightarrow> 'b phase \<Rightarrow> 'b phase \<Rightarrow> bool" for ttl where
  mint: "now < e \<Longrightarrow> e \<le> now + ttl \<Longrightarrow> ceremony_step ttl Vacant (Open b e now)"
| observe: "obs \<le> now \<Longrightarrow> now < e \<Longrightarrow> ceremony_step ttl (Open b e obs) (Open b e now)"
| expire: "obs \<le> now \<Longrightarrow> e \<le> now \<Longrightarrow> ceremony_step ttl (Open b e obs) (Closed b Expired now)"
| cancel: "obs \<le> now \<Longrightarrow> now < e \<Longrightarrow> ceremony_step ttl (Open b e obs) (Closed b Cancelled now)"
| consume: "obs \<le> now \<Longrightarrow> ceremony_step ttl (Open b e obs) (Closed b Consumed now)"
| look: "obs \<le> now \<Longrightarrow> ceremony_step ttl (Closed b x obs) (Closed b x now)"
| retire: "ceremony_step ttl (Closed b x obs) Vacant"

inductive_cases ceremony_step_closedE: "ceremony_step ttl (Closed b x obs) p"
inductive_cases ceremony_step_openE: "ceremony_step ttl (Open b e obs) p"
inductive_cases ceremony_step_vacantE: "ceremony_step ttl Vacant p"

text \<open>Steps during which the ceremony stays in the slot.\<close>

definition installed_step :: "int \<Rightarrow> 'b phase \<Rightarrow> 'b phase \<Rightarrow> bool" where
  "installed_step ttl p q \<longleftrightarrow> ceremony_step ttl p q \<and> p \<noteq> Vacant \<and> q \<noteq> Vacant"

lemma closed_stays:
  "(installed_step ttl)\<^sup>*\<^sup>* (Closed b x obs) q \<Longrightarrow> \<exists>obs'. q = Closed b x obs' \<and> obs \<le> obs'"
proof (induction rule: rtranclp_induct)
  case base
  then show ?case by simp
next
  case (step p q)
  then show ?case by (auto simp: installed_step_def elim!: ceremony_step_closedE)
qed

lemma installed_binding:
  assumes "installed_step ttl p q"
  shows "observed p \<le> observed q"
    and "p = Open b e obs \<Longrightarrow> (\<exists>now. q = Open b e now) \<or> (\<exists>x now. q = Closed b x now)"
  using assms by (auto simp: installed_step_def elim: ceremony_step.cases elim!: ceremony_step_openE)

text \<open>An open ceremony was last observed before its expiry, and lives no longer than allowed.\<close>

fun phase_inv :: "'b phase \<Rightarrow> bool" where
  "phase_inv (Open b e obs) = (obs < e)"
| "phase_inv _ = True"

lemma step_phase_inv: "ceremony_step ttl p q \<Longrightarrow> phase_inv q"
  by (induction rule: ceremony_step.induct) auto

text \<open>
  The interface of an implementation: its steps are steps of the ceremony under an abstraction of
  its states. What is said of ceremonies holds of its runs.
\<close>

locale ceremony =
  fixes step :: "'s \<Rightarrow> 's \<Rightarrow> bool"
    and inv :: "'s \<Rightarrow> bool"
    and abs :: "'s \<Rightarrow> 'b phase"
    and ttl :: int
  assumes inv_step: "inv s \<Longrightarrow> step s t \<Longrightarrow> inv t"
    and simulates: "inv s \<Longrightarrow> step s t \<Longrightarrow> ceremony_step ttl (abs s) (abs t)"
begin

lemma run_simulates:
  assumes "step\<^sup>*\<^sup>* s t" and "inv s"
  shows "inv t \<and> (ceremony_step ttl)\<^sup>*\<^sup>* (abs s) (abs t)"
  using assms
proof (induction rule: rtranclp_induct)
  case base
  then show ?case by simp
next
  case (step t u)
  then show ?case using inv_step simulates by (meson rtranclp.rtrancl_into_rtrancl)
qed

text \<open>Runs during which the slot is not vacated.\<close>

definition stay :: "'s \<Rightarrow> 's \<Rightarrow> bool" where
  "stay s t \<longleftrightarrow> step s t \<and> abs s \<noteq> Vacant \<and> abs t \<noteq> Vacant"

lemma stay_installed:
  assumes "stay\<^sup>*\<^sup>* s t" and "inv s"
  shows "inv t \<and> (installed_step ttl)\<^sup>*\<^sup>* (abs s) (abs t)"
  using assms
proof (induction rule: rtranclp_induct)
  case base
  then show ?case by simp
next
  case (step t u)
  then have "installed_step ttl (abs t) (abs u)" "inv u"
    using inv_step simulates by (auto simp: stay_def installed_step_def)
  with step show ?case by (auto intro: rtranclp.rtrancl_into_rtrancl)
qed

lemma end_is_final:
  assumes "stay\<^sup>*\<^sup>* s t" and "inv s" and "abs s = Closed b x obs"
  shows "\<exists>obs'. abs t = Closed b x obs' \<and> obs \<le> obs'"
  using stay_installed [OF assms(1,2)] closed_stays assms(3) by metis

lemma time_advances:
  assumes "stay\<^sup>*\<^sup>* s t" and "inv s"
  shows "observed (abs s) \<le> observed (abs t)"
proof -
  have "observed p \<le> observed q" if "(installed_step ttl)\<^sup>*\<^sup>* p q" for p q :: "'b phase"
    using that by (induction rule: rtranclp_induct) (auto dest: installed_binding(1))
  with stay_installed [OF assms] show ?thesis by blast
qed

end

end
