(* ===== verification/GenesisCeremony.thy ===== *)
theory GenesisCeremony
  imports GenesisProtocol Ceremony
begin

text \<open>
  The genesis role ceremony (\<open>v2ConsumerRecoveryGenesisRoleCeremonyLifecycle.ts\<close>): a record with a
  limited lifetime that is minted for a role of a deployment intent, observed, and ended by
  cancellation, expiry or consumption, then retired. Every operation takes an \<open>unknown\<close> argument and
  validates it and the record in it from scratch.
\<close>

section \<open>Constants and codes\<close>

definition PHILCORE_V2_GENESIS_ROLE_CEREMONY_TTL_SECONDS :: int where
  "PHILCORE_V2_GENESIS_ROLE_CEREMONY_TTL_SECONDS = 300"

definition PHILCORE_V2_GENESIS_ROLE_CEREMONY_VERSION :: int where
  "PHILCORE_V2_GENESIS_ROLE_CEREMONY_VERSION = 1"

definition PHILCORE_V2_GENESIS_ROLE_CEREMONY_GENERATION :: int where
  "PHILCORE_V2_GENESIS_ROLE_CEREMONY_GENERATION = 1"

definition UINT48_MAX_BIGINT :: int where
  "UINT48_MAX_BIGINT = push_bit 48 1 - 1"

definition UINT48_MAX_NUMBER :: int where
  "UINT48_MAX_NUMBER = 281474976710655"

text \<open>\<open>/^0x[0-9a-f]{64}$/u\<close>\<close>

definition BYTES32_LOWER_RE :: "string \<Rightarrow> bool" where
  "BYTES32_LOWER_RE s \<longleftrightarrow> take 2 s = ''0x'' \<and> length s = 66 \<and>
     list_all (\<lambda>c. let n = (of_char c :: nat) in (48 \<le> n \<and> n \<le> 57) \<or> (97 \<le> n \<and> n \<le> 102)) (drop 2 s)"

definition LIFECYCLE_ERROR :: string where
  "LIFECYCLE_ERROR = ''PhilCoreV2GenesisRoleCeremonyLifecycleError''"

section \<open>Records\<close>

datatype PhilCoreV2GenesisRoleCeremonyState = ACTIVE | ENDED

text \<open>The end reasons; \<open>null\<close> is \<open>None\<close>.\<close>

datatype PhilCoreV2GenesisRoleCeremonyEndReason = CANCELLED | EXPIRED | CONSUMED

fun state_name :: "PhilCoreV2GenesisRoleCeremonyState \<Rightarrow> string" where
  "state_name ACTIVE = ''ACTIVE''"
| "state_name ENDED = ''ENDED''"

fun reason_name :: "PhilCoreV2GenesisRoleCeremonyEndReason \<Rightarrow> string" where
  "reason_name CANCELLED = ''CANCELLED''"
| "reason_name EXPIRED = ''EXPIRED''"
| "reason_name CONSUMED = ''CONSUMED''"

record PhilCoreV2GenesisRoleCeremonyRecord =
  gr_state :: PhilCoreV2GenesisRoleCeremonyState
  gr_endReason :: "PhilCoreV2GenesisRoleCeremonyEndReason option"
  gr_ceremonyVersion :: int
  gr_ceremonyId :: string
  gr_genesisDeploymentIntentHash :: string
  gr_role :: int
  gr_credentialGeneration :: int
  gr_expiresAtUnixSeconds :: int
  gr_mintedAtUnixSeconds :: int
  gr_lastObservedAtUnixSeconds :: int
  gr_genesisEnrollmentCeremonyHash :: string

text \<open>A record as the frozen object that the operations return.\<close>

definition record_value :: "PhilCoreV2GenesisRoleCeremonyRecord \<Rightarrow> js_value" where
  "record_value r = object_literal
     [(''state'', StringVal (state_name (gr_state r))),
      (''endReason'', (case gr_endReason r of None \<Rightarrow> NullVal | Some e \<Rightarrow> StringVal (reason_name e))),
      (''ceremonyVersion'', BigIntVal (gr_ceremonyVersion r)),
      (''ceremonyId'', StringVal (gr_ceremonyId r)),
      (''genesisDeploymentIntentHash'', StringVal (gr_genesisDeploymentIntentHash r)),
      (''role'', BigIntVal (gr_role r)),
      (''credentialGeneration'', BigIntVal (gr_credentialGeneration r)),
      (''expiresAtUnixSeconds'', BigIntVal (gr_expiresAtUnixSeconds r)),
      (''mintedAtUnixSeconds'', BigIntVal (gr_mintedAtUnixSeconds r)),
      (''lastObservedAtUnixSeconds'', BigIntVal (gr_lastObservedAtUnixSeconds r)),
      (''genesisEnrollmentCeremonyHash'', StringVal (gr_genesisEnrollmentCeremonyHash r))]"

definition RECORD_KEYS :: "string list" where
  "RECORD_KEYS = [''state'', ''endReason'', ''ceremonyVersion'', ''ceremonyId'', ''genesisDeploymentIntentHash'',
     ''role'', ''credentialGeneration'', ''expiresAtUnixSeconds'', ''mintedAtUnixSeconds'',
     ''lastObservedAtUnixSeconds'', ''genesisEnrollmentCeremonyHash'']"

definition MINT_INPUT_KEYS :: "string list" where
  "MINT_INPUT_KEYS = [''current'', ''ceremonyId'', ''role'', ''genesisDeploymentIntentHash'',
     ''intentExpiresAtUnixSeconds'', ''nowUnixSeconds'']"

definition CLOCK_INPUT_KEYS :: "string list" where
  "CLOCK_INPUT_KEYS = [''current'', ''nowUnixSeconds'']"

definition RETIRE_INPUT_KEYS :: "string list" where
  "RETIRE_INPUT_KEYS = [''current'', ''expectedCeremonyId'']"

section \<open>Access to the caller's object\<close>

definition failDiscardingThrown :: "string \<Rightarrow> 'a trap \<Rightarrow> 'a coded" where
  "failDiscardingThrown code t = classify LIFECYCLE_ERROR code t"

record Boundary =
  notObject :: string
  extraKey :: string
  missingKey :: string
  enumerationFailed :: string
  readFailed :: string

definition OPERATION_BOUNDARY :: Boundary where
  "OPERATION_BOUNDARY = \<lparr>notObject = ''INPUT_NOT_OBJECT'', extraKey = ''INPUT_EXTRA_KEY'',
     missingKey = ''INPUT_MISSING_KEY'', enumerationFailed = ''INPUT_ENUMERATION_FAILED'',
     readFailed = ''INPUT_PROPERTY_READ_FAILED''\<rparr>"

definition RECORD_BOUNDARY :: Boundary where
  "RECORD_BOUNDARY = \<lparr>notObject = ''INVALID_RECORD'', extraKey = ''INVALID_RECORD'',
     missingKey = ''INVALID_RECORD'', enumerationFailed = ''INVALID_RECORD'', readFailed = ''INVALID_RECORD''\<rparr>"

fun readFromDescriptor :: "js_descriptor \<Rightarrow> string \<Rightarrow> js_value coded" where
  "readFromDescriptor (DataProperty v) code = Inr v"
| "readFromDescriptor (AccessorProperty None) code = Inl code"
| "readFromDescriptor (AccessorProperty (Some getter)) code = failDiscardingThrown code getter"

text \<open>The snapshot pairs the allowed keys, in their order, with the values read.\<close>

fun readExactOwnKeys :: "js_value \<Rightarrow> string list \<Rightarrow> Boundary \<Rightarrow> (string \<times> js_value) list coded" where
  "readExactOwnKeys (ObjectVal obj) allowedKeys boundary =
     bnd (failDiscardingThrown (notObject boundary) (isArray obj)) (\<lambda>array.
     bnd (check (\<not> array) (notObject boundary)) (\<lambda>_.
     bnd (failDiscardingThrown (enumerationFailed boundary) (ownKeys obj)) (\<lambda>candidateKeys.
     bnd (failDiscardingThrown (notObject boundary) (getPrototypeOf obj)) (\<lambda>prototype.
     bnd (check (\<not> (prototype \<noteq> NullPrototype \<and> prototype \<noteq> ObjectPrototype)) (notObject boundary)) (\<lambda>_.
     bnd (own_descriptors LIFECYCLE_ERROR obj candidateKeys allowedKeys allowedKeys (missingKey boundary)
            (extraKey boundary) (enumerationFailed boundary)) (\<lambda>verified.
     traverse (\<lambda>key. case map_of verified key of
         None \<Rightarrow> Inl (missingKey boundary)
       | Some descriptor \<Rightarrow> bnd (readFromDescriptor descriptor (readFailed boundary)) (\<lambda>v. Inr (key, v)))
       allowedKeys))))))"
| "readExactOwnKeys _ allowedKeys boundary = Inl (notObject boundary)"

section \<open>Fields\<close>

fun requireLowercaseBytes32 :: "js_value \<Rightarrow> string \<Rightarrow> string coded" where
  "requireLowercaseBytes32 (StringVal s) code =
     bnd (check (BYTES32_LOWER_RE s) code) (\<lambda>_.
     bnd (check (s \<noteq> ZERO_BYTES32) code) (\<lambda>_. Inr s))"
| "requireLowercaseBytes32 _ code = Inl code"

text \<open>\<open>BigInt(value)\<close> of a canonical decimal string; it stands outside of a \<open>try\<close>.\<close>

fun requireRoleInput :: "js_value \<Rightarrow> string \<Rightarrow> int coded" where
  "requireRoleInput (BigIntVal i) code = bnd (check (i = 0 \<or> i = 1 \<or> i = 2) code) (\<lambda>_. Inr i)"
| "requireRoleInput (StringVal s) code =
     bnd (check (canonical_uint s) code) (\<lambda>_.
     let i = int (read_digits 10 s) in
     bnd (check (i = 0 \<or> i = 1 \<or> i = 2) code) (\<lambda>_. Inr i))"
| "requireRoleInput _ code = Inl code"

fun requireRecordRole :: "js_value \<Rightarrow> string \<Rightarrow> int coded" where
  "requireRecordRole (BigIntVal i) code = bnd (check (i = 0 \<or> i = 1 \<or> i = 2) code) (\<lambda>_. Inr i)"
| "requireRecordRole _ code = Inl code"

definition expiry_in_range :: "int \<Rightarrow> string \<Rightarrow> int coded" where
  "expiry_in_range i code = bnd (check (\<not> (i < 1 \<or> i > UINT48_MAX_BIGINT)) code) (\<lambda>_. Inr i)"

fun requireIntentExpiry :: "js_value \<Rightarrow> string \<Rightarrow> int coded" where
  "requireIntentExpiry (BigIntVal i) code = expiry_in_range i code"
| "requireIntentExpiry (StringVal s) code =
     bnd (check (canonical_uint s) code) (\<lambda>_. expiry_in_range (int (read_digits 10 s)) code)"
| "requireIntentExpiry (NumberVal (IntegerNumber i)) code =
     bnd (check (isSafeInteger (IntegerNumber i) \<and> \<not> i < 0) code) (\<lambda>_. expiry_in_range i code)"
| "requireIntentExpiry _ code = Inl code"

fun requireClockSeconds :: "js_value \<Rightarrow> string \<Rightarrow> int coded" where
  "requireClockSeconds (NumberVal (IntegerNumber i)) code =
     bnd (check (\<not> (\<not> isSafeInteger (IntegerNumber i) \<or> i < 1 \<or> i > UINT48_MAX_NUMBER)) code) (\<lambda>_. Inr i)"
| "requireClockSeconds _ code = Inl code"

fun requireRecordUint48 :: "js_value \<Rightarrow> string \<Rightarrow> int coded" where
  "requireRecordUint48 (BigIntVal i) code =
     bnd (check (\<not> (i < 1 \<or> i > UINT48_MAX_BIGINT)) code) (\<lambda>_. Inr i)"
| "requireRecordUint48 _ code = Inl code"

fun requireRecordPinned :: "js_value \<Rightarrow> int \<Rightarrow> string \<Rightarrow> int coded" where
  "requireRecordPinned (BigIntVal i) expected code = bnd (check (i = expected) code) (\<lambda>_. Inr i)"
| "requireRecordPinned _ expected code = Inl code"

section \<open>The commitment of a record\<close>

definition buildHashInput :: "int \<Rightarrow> string \<Rightarrow> string \<Rightarrow> int \<Rightarrow> int \<Rightarrow> int \<Rightarrow> js_value" where
  "buildHashInput version ceremonyId intentHash roleId generation expiresAt = null_object
     [(''ceremonyVersion'', StringVal (show_int version)), (''ceremonyId'', StringVal ceremonyId),
      (''genesisDeploymentIntentHash'', StringVal intentHash), (''role'', StringVal (show_int roleId)),
      (''credentialGeneration'', StringVal (show_int generation)), (''expiresAt'', StringVal (show_int expiresAt))]"

definition computeCeremonyHash :: "ethers \<Rightarrow> js_value \<Rightarrow> string coded" where
  "computeCeremonyHash E input =
     (case computePhilCoreV2LocalGenesisEnrollmentCeremonyHash E input of
        Inl _ \<Rightarrow> Inl ''CEREMONY_HASH_COMPUTATION_FAILED''
      | Inr h \<Rightarrow> Inr h)"

section \<open>Validation\<close>

fun validate_state :: "js_value \<Rightarrow> PhilCoreV2GenesisRoleCeremonyState coded" where
  "validate_state (StringVal s) =
     (if s = ''ACTIVE'' then Inr ACTIVE else if s = ''ENDED'' then Inr ENDED else Inl ''INVALID_RECORD'')"
| "validate_state _ = Inl ''INVALID_RECORD''"

fun validate_endReason ::
  "PhilCoreV2GenesisRoleCeremonyState \<Rightarrow> js_value \<Rightarrow> PhilCoreV2GenesisRoleCeremonyEndReason option coded" where
  "validate_endReason ACTIVE v = (if is_null v then Inr None else Inl ''INVALID_RECORD'')"
| "validate_endReason ENDED (StringVal s) =
     (if s = ''CANCELLED'' then Inr (Some CANCELLED)
      else if s = ''EXPIRED'' then Inr (Some EXPIRED)
      else if s = ''CONSUMED'' then Inr (Some CONSUMED)
      else Inl ''INVALID_RECORD'')"
| "validate_endReason ENDED _ = Inl ''INVALID_RECORD''"

definition validatePhilCoreV2GenesisRoleCeremonyRecord ::
  "ethers \<Rightarrow> js_value \<Rightarrow> PhilCoreV2GenesisRoleCeremonyRecord coded" where
  "validatePhilCoreV2GenesisRoleCeremonyRecord E v =
     (let R = ''INVALID_RECORD'' in
     bnd (readExactOwnKeys v RECORD_KEYS RECORD_BOUNDARY) (\<lambda>snapshot.
     bnd (validate_state (snap snapshot ''state'')) (\<lambda>state.
     bnd (validate_endReason state (snap snapshot ''endReason'')) (\<lambda>endReason.
     bnd (requireRecordPinned (snap snapshot ''ceremonyVersion'') PHILCORE_V2_GENESIS_ROLE_CEREMONY_VERSION R) (\<lambda>version.
     bnd (requireLowercaseBytes32 (snap snapshot ''ceremonyId'') R) (\<lambda>ceremonyId.
     bnd (requireLowercaseBytes32 (snap snapshot ''genesisDeploymentIntentHash'') R) (\<lambda>intentHash.
     bnd (requireRecordRole (snap snapshot ''role'') R) (\<lambda>roleId.
     bnd (requireRecordPinned (snap snapshot ''credentialGeneration'') PHILCORE_V2_GENESIS_ROLE_CEREMONY_GENERATION R)
       (\<lambda>generation.
     bnd (requireRecordUint48 (snap snapshot ''expiresAtUnixSeconds'') R) (\<lambda>expiresAt.
     bnd (requireRecordUint48 (snap snapshot ''mintedAtUnixSeconds'') R) (\<lambda>mintedAt.
     bnd (requireRecordUint48 (snap snapshot ''lastObservedAtUnixSeconds'') R) (\<lambda>lastObservedAt.
     bnd (check (\<not> expiresAt \<le> mintedAt) R) (\<lambda>_.
     bnd (check (\<not> lastObservedAt < mintedAt) R) (\<lambda>_.
     bnd (requireLowercaseBytes32 (snap snapshot ''genesisEnrollmentCeremonyHash'') R) (\<lambda>ceremonyHash.
     bnd (computeCeremonyHash E (buildHashInput version ceremonyId intentHash roleId generation expiresAt)) (\<lambda>recomputed.
     bnd (check (recomputed = ceremonyHash) R) (\<lambda>_.
     Inr \<lparr>gr_state = state, gr_endReason = endReason, gr_ceremonyVersion = version, gr_ceremonyId = ceremonyId,
          gr_genesisDeploymentIntentHash = intentHash, gr_role = roleId, gr_credentialGeneration = generation,
          gr_expiresAtUnixSeconds = expiresAt, gr_mintedAtUnixSeconds = mintedAt,
          gr_lastObservedAtUnixSeconds = lastObservedAt,
          gr_genesisEnrollmentCeremonyHash = ceremonyHash\<rparr>)))))))))))))))))"

definition toPhilCoreV2GenesisRoleCeremonyHashInput :: "ethers \<Rightarrow> js_value \<Rightarrow> js_value coded" where
  "toPhilCoreV2GenesisRoleCeremonyHashInput E v =
     bnd (validatePhilCoreV2GenesisRoleCeremonyRecord E v) (\<lambda>r.
     Inr (buildHashInput (gr_ceremonyVersion r) (gr_ceremonyId r) (gr_genesisDeploymentIntentHash r) (gr_role r)
       (gr_credentialGeneration r) (gr_expiresAtUnixSeconds r)))"

section \<open>Transitions\<close>

definition mintPhilCoreV2GenesisRoleCeremony :: "ethers \<Rightarrow> js_value \<Rightarrow> PhilCoreV2GenesisRoleCeremonyRecord coded" where
  "mintPhilCoreV2GenesisRoleCeremony E input =
     bnd (readExactOwnKeys input MINT_INPUT_KEYS OPERATION_BOUNDARY) (\<lambda>snapshot.
     bnd (if \<not> is_null (snap snapshot ''current'')
          then bnd (validatePhilCoreV2GenesisRoleCeremonyRecord E (snap snapshot ''current'')) (\<lambda>validated.
            if gr_state validated = ACTIVE then Inl ''CEREMONY_ALREADY_ACTIVE'' else Inl ''CEREMONY_PENDING_RETIREMENT'')
          else Inr ()) (\<lambda>_.
     bnd (requireClockSeconds (snap snapshot ''nowUnixSeconds'') ''INVALID_NOW'') (\<lambda>now.
     bnd (requireRoleInput (snap snapshot ''role'') ''ROLE_INVALID'') (\<lambda>roleId.
     bnd (requireLowercaseBytes32 (snap snapshot ''ceremonyId'') ''CEREMONY_ID_INVALID'') (\<lambda>ceremonyId.
     bnd (requireLowercaseBytes32 (snap snapshot ''genesisDeploymentIntentHash'') ''INTENT_HASH_INVALID'') (\<lambda>intentHash.
     bnd (requireIntentExpiry (snap snapshot ''intentExpiresAtUnixSeconds'') ''INTENT_EXPIRY_INVALID'') (\<lambda>intentExpiry.
     bnd (check (\<not> now > UINT48_MAX_BIGINT - PHILCORE_V2_GENESIS_ROLE_CEREMONY_TTL_SECONDS) ''EXPIRY_OVERFLOW'') (\<lambda>_.
     let ttlExpiry = now + PHILCORE_V2_GENESIS_ROLE_CEREMONY_TTL_SECONDS;
         expiresAt = (if ttlExpiry < intentExpiry then ttlExpiry else intentExpiry) in
     bnd (check (\<not> expiresAt \<le> now) ''EXPIRY_NOT_IN_FUTURE'') (\<lambda>_.
     bnd (computeCeremonyHash E (buildHashInput PHILCORE_V2_GENESIS_ROLE_CEREMONY_VERSION ceremonyId intentHash roleId
            PHILCORE_V2_GENESIS_ROLE_CEREMONY_GENERATION expiresAt)) (\<lambda>ceremonyHash.
     Inr \<lparr>gr_state = ACTIVE, gr_endReason = None,
          gr_ceremonyVersion = PHILCORE_V2_GENESIS_ROLE_CEREMONY_VERSION, gr_ceremonyId = ceremonyId,
          gr_genesisDeploymentIntentHash = intentHash, gr_role = roleId,
          gr_credentialGeneration = PHILCORE_V2_GENESIS_ROLE_CEREMONY_GENERATION,
          gr_expiresAtUnixSeconds = expiresAt, gr_mintedAtUnixSeconds = now, gr_lastObservedAtUnixSeconds = now,
          gr_genesisEnrollmentCeremonyHash = ceremonyHash\<rparr>))))))))))"

definition observePhilCoreV2GenesisRoleCeremonyStatus ::
  "ethers \<Rightarrow> js_value \<Rightarrow> PhilCoreV2GenesisRoleCeremonyRecord coded" where
  "observePhilCoreV2GenesisRoleCeremonyStatus E input =
     bnd (readExactOwnKeys input CLOCK_INPUT_KEYS OPERATION_BOUNDARY) (\<lambda>snapshot.
     bnd (check (\<not> is_null (snap snapshot ''current'')) ''CEREMONY_NOT_INSTALLED'') (\<lambda>_.
     bnd (validatePhilCoreV2GenesisRoleCeremonyRecord E (snap snapshot ''current'')) (\<lambda>current.
     bnd (requireClockSeconds (snap snapshot ''nowUnixSeconds'') ''INVALID_NOW'') (\<lambda>now.
     bnd (check (\<not> now < gr_lastObservedAtUnixSeconds current) ''CLOCK_REGRESSION_DETECTED'') (\<lambda>_.
     if gr_state current = ACTIVE \<and> now \<ge> gr_expiresAtUnixSeconds current
     then Inr (current\<lparr>gr_state := ENDED, gr_endReason := Some EXPIRED, gr_lastObservedAtUnixSeconds := now\<rparr>)
     else Inr (current\<lparr>gr_lastObservedAtUnixSeconds := now\<rparr>))))))"

definition cancelPhilCoreV2GenesisRoleCeremony :: "ethers \<Rightarrow> js_value \<Rightarrow> PhilCoreV2GenesisRoleCeremonyRecord coded" where
  "cancelPhilCoreV2GenesisRoleCeremony E input =
     bnd (readExactOwnKeys input CLOCK_INPUT_KEYS OPERATION_BOUNDARY) (\<lambda>snapshot.
     bnd (check (\<not> is_null (snap snapshot ''current'')) ''CEREMONY_NOT_INSTALLED'') (\<lambda>_.
     bnd (validatePhilCoreV2GenesisRoleCeremonyRecord E (snap snapshot ''current'')) (\<lambda>current.
     bnd (check (gr_state current = ACTIVE) ''CEREMONY_NOT_ACTIVE'') (\<lambda>_.
     bnd (requireClockSeconds (snap snapshot ''nowUnixSeconds'') ''INVALID_NOW'') (\<lambda>now.
     bnd (check (\<not> now < gr_lastObservedAtUnixSeconds current) ''CLOCK_REGRESSION_DETECTED'') (\<lambda>_.
     if now \<ge> gr_expiresAtUnixSeconds current
     then Inr (current\<lparr>gr_state := ENDED, gr_endReason := Some EXPIRED, gr_lastObservedAtUnixSeconds := now\<rparr>)
     else Inr (current\<lparr>gr_state := ENDED, gr_endReason := Some CANCELLED, gr_lastObservedAtUnixSeconds := now\<rparr>)))))))"

definition consumePhilCoreV2GenesisRoleCeremony :: "ethers \<Rightarrow> js_value \<Rightarrow> PhilCoreV2GenesisRoleCeremonyRecord coded" where
  "consumePhilCoreV2GenesisRoleCeremony E input =
     bnd (readExactOwnKeys input CLOCK_INPUT_KEYS OPERATION_BOUNDARY) (\<lambda>snapshot.
     bnd (check (\<not> is_null (snap snapshot ''current'')) ''CEREMONY_NOT_INSTALLED'') (\<lambda>_.
     bnd (validatePhilCoreV2GenesisRoleCeremonyRecord E (snap snapshot ''current'')) (\<lambda>current.
     bnd (check (gr_state current = ACTIVE) ''CEREMONY_NOT_ACTIVE'') (\<lambda>_.
     bnd (requireClockSeconds (snap snapshot ''nowUnixSeconds'') ''INVALID_NOW'') (\<lambda>now.
     bnd (check (\<not> now < gr_lastObservedAtUnixSeconds current) ''CLOCK_REGRESSION_DETECTED'') (\<lambda>_.
     Inr (current\<lparr>gr_state := ENDED, gr_endReason := Some CONSUMED, gr_lastObservedAtUnixSeconds := now\<rparr>)))))))"

definition retirePhilCoreV2GenesisRoleCeremony :: "ethers \<Rightarrow> js_value \<Rightarrow> PhilCoreV2GenesisRoleCeremonyRecord coded" where
  "retirePhilCoreV2GenesisRoleCeremony E input =
     bnd (readExactOwnKeys input RETIRE_INPUT_KEYS OPERATION_BOUNDARY) (\<lambda>snapshot.
     bnd (check (\<not> is_null (snap snapshot ''current'')) ''CEREMONY_NOT_INSTALLED'') (\<lambda>_.
     bnd (validatePhilCoreV2GenesisRoleCeremonyRecord E (snap snapshot ''current'')) (\<lambda>current.
     bnd (check (gr_state current \<noteq> ACTIVE) ''CEREMONY_STILL_ACTIVE'') (\<lambda>_.
     bnd (check (gr_state current = ENDED) ''INVALID_RECORD'') (\<lambda>_.
     bnd (requireLowercaseBytes32 (snap snapshot ''expectedCeremonyId'') ''CEREMONY_ID_INVALID'') (\<lambda>expectedCeremonyId.
     bnd (check (expectedCeremonyId = gr_ceremonyId current) ''CEREMONY_ID_MISMATCH'') (\<lambda>_.
     Inr current)))))))"

section \<open>What the checks accept\<close>

lemma failDiscardingThrown_iff [result_simps]: "failDiscardingThrown code t = Inr x \<longleftrightarrow> t = Returns x"
  by (simp add: failDiscardingThrown_def result_simps)

lemma readFromDescriptor_iff [result_simps]:
  "readFromDescriptor d code = Inr v \<longleftrightarrow> descriptor_value d = Some v"
  by (cases "(d, code)" rule: readFromDescriptor.cases)
     (auto simp: result_simps split: trap.splits elim: descriptor_value.elims)

text \<open>
  The values of the given own properties of a plain object: what \<open>readExactOwnKeys\<close> takes from it.
\<close>

definition shows_values :: "js_value \<Rightarrow> (string \<times> js_value) list \<Rightarrow> bool" where
  "shows_values v ps \<longleftrightarrow>
     (\<exists>obj. v = ObjectVal obj \<and> isArray obj = Returns False \<and>
        getPrototypeOf obj \<in> {Returns NullPrototype, Returns ObjectPrototype} \<and>
        exact_object obj (map fst ps) \<and>
        (\<forall>p \<in> set ps. \<exists>d. descriptor_of obj (fst p) = Some d \<and> descriptor_value d = Some (snd p)))"

lemma traverse_values_iff:
  "traverse (\<lambda>key. case M key of None \<Rightarrow> Inl m | Some d \<Rightarrow> bnd (readFromDescriptor d c) (\<lambda>v. Inr (key, v))) keys
     = Inr ps \<longleftrightarrow>
   map fst ps = keys \<and> (\<forall>p \<in> set ps. \<exists>d. M (fst p) = Some d \<and> descriptor_value d = Some (snd p))"
  unfolding traverse_iff
  by (induction keys arbitrary: ps)
     (auto simp: list_all2_Cons1 result_simps Cons_eq_map_conv map_eq_Cons_conv split: option.splits)

lemma readExactOwnKeys_iff:
  "readExactOwnKeys v keys b = Inr ps \<longleftrightarrow> map fst ps = keys \<and> shows_values v ps"
proof (cases "\<exists>obj ks. v = ObjectVal obj \<and> ownKeys obj = Returns ks")
  case True
  then obtain obj ks where obj: "v = ObjectVal obj" "ownKeys obj = Returns ks" by blast
  let ?M = "\<lambda>k. if k \<in> set keys then descriptor_of obj k else None"
  have M: "(\<forall>p \<in> set ps. \<exists>d. ?M (fst p) = Some d \<and> descriptor_value d = Some (snd p)) \<longleftrightarrow>
      (\<forall>p \<in> set ps. \<exists>d. descriptor_of obj (fst p) = Some d \<and> descriptor_value d = Some (snd p))"
    if "map fst ps = keys"
    by (intro ball_cong refl) (simp add: that [symmetric])
  have pr: "\<not> (p \<noteq> NullPrototype \<and> p \<noteq> ObjectPrototype) \<longleftrightarrow> p \<in> {NullPrototype, ObjectPrototype}" for p
    by auto
  from own_descriptors_iff [OF obj(2), of LIFECYCLE_ERROR keys "missingKey b" "extraKey b" "enumerationFailed b"
      "\<lambda>M. map fst ps = keys \<and> (\<forall>p \<in> set ps. \<exists>d. M (fst p) = Some d \<and> descriptor_value d = Some (snd p))"]
  show ?thesis
    using obj M
    by (auto simp: result_simps traverse_values_iff shows_values_def pr simp del: not_not)
next
  case False
  then show ?thesis
    by (cases v) (auto simp: result_simps shows_values_def exact_object_def)
qed

text \<open>An object from data properties shows these, and nothing else.\<close>

lemma shows_values_data:
  assumes "distinct (map fst ps)" and "proto \<noteq> OtherPrototype"
  shows "map fst qs = map fst ps \<and> shows_values (data_object proto ps) qs \<longleftrightarrow> qs = ps"
proof -
  obtain obj where obj: "data_object proto ps = ObjectVal obj" by (simp add: data_object_def)
  note seen = data_object_shows [OF obj]
  have val: "(\<exists>d. descriptor_of obj (fst p) = Some d \<and> descriptor_value d = Some (snd p)) \<longleftrightarrow> p \<in> set ps" for p
    using map_of_eq_Some_iff [OF assms(1)] by (cases p) (auto simp: seen(6))
  have "qs = ps" if "map fst qs = map fst ps" "\<forall>p \<in> set qs. p \<in> set ps"
  proof (rule nth_equalityI)
    show len: "length qs = length ps" using that(1) by (metis length_map)
    fix i assume i: "i < length qs"
    then have "qs ! i \<in> set ps" "fst (qs ! i) = fst (ps ! i)" using that len by (auto dest: arg_cong [of _ _ "\<lambda>l. l ! i"])
    moreover from i len have "ps ! i \<in> set ps" by simp
    ultimately show "qs ! i = ps ! i" using assms(1) by (metis eq_key_imp_eq_value prod.collapse)
  qed
  moreover have "getPrototypeOf obj \<in> {Returns NullPrototype, Returns ObjectPrototype}"
    using assms(2) seen(3) by (cases proto) auto
  ultimately show ?thesis using obj seen val by (auto simp: shows_values_def)
qed

lemma readExactOwnKeys_data:
  assumes "distinct (map fst ps)" and "proto \<noteq> OtherPrototype"
  shows "readExactOwnKeys (data_object proto ps) (map fst ps) b = Inr ps"
  using shows_values_data [OF assms, of ps] by (simp add: readExactOwnKeys_iff)

lemma lower_class:
  "(let n = (of_char c :: nat) in (48 \<le> n \<and> n \<le> 57) \<or> (97 \<le> n \<and> n \<le> 102)) \<longleftrightarrow> hex_digit c \<and> lower_char c = c"
proof -
  have "lower_char c = c \<longleftrightarrow> (of_char (lower_char c) :: nat) = of_char c" by simp
  then show ?thesis by (auto simp: of_char_lower_char hex_digit_def Let_def)
qed

lemma BYTES32_LOWER_RE_iff: "BYTES32_LOWER_RE s \<longleftrightarrow> hex_string s 32 \<and> toLowerCase s = s"
proof -
  have low: "list_all (\<lambda>c. let n = (of_char c :: nat) in (48 \<le> n \<and> n \<le> 57) \<or> (97 \<le> n \<and> n \<le> 102)) t \<longleftrightarrow>
      list_all hex_digit t \<and> toLowerCase t = t" for t
    unfolding lower_class by (induction t) auto
  have "toLowerCase s = s \<longleftrightarrow> toLowerCase (drop 2 s) = drop 2 s" if "take 2 s = ''0x''"
  proof -
    have "s = ''0x'' @ drop 2 s" using append_take_drop_id [of 2 s] that by simp
    then have "toLowerCase s = ''0x'' @ toLowerCase (drop 2 s)"
      by (metis lower_char_0x(1) lower_char_0x(2) toLowerCase_append toLowerCase_simps)
    with \<open>s = ''0x'' @ drop 2 s\<close> show ?thesis by (metis same_append_eq)
  qed
  then show ?thesis by (auto simp: BYTES32_LOWER_RE_def hex_string_def low)
qed

lemma requireLowercaseBytes32_iff:
  assumes "ethers_laws E"
  shows "requireLowercaseBytes32 v code = Inr s \<longleftrightarrow> v = StringVal s \<and> is_bytes32 E False s s"
  by (cases v) (auto simp: result_simps BYTES32_LOWER_RE_iff is_bytes32_def laws_isHexString [OF assms])

lemma uint48_max: "UINT48_MAX_BIGINT = 2 ^ 48 - 1" "UINT48_MAX_NUMBER = 2 ^ 48 - 1"
  by (simp_all add: UINT48_MAX_BIGINT_def UINT48_MAX_NUMBER_def push_bit_eq_mult)

lemma requireClockSeconds_iff [result_simps]:
  "requireClockSeconds v code = Inr n \<longleftrightarrow> v = NumberVal (IntegerNumber n) \<and> 1 \<le> n \<and> n < 2 ^ 48"
  by (cases "(v, code)" rule: requireClockSeconds.cases)
     (auto simp: result_simps uint48_max MAX_SAFE_INTEGER_def)

lemma requireRecordUint48_iff [result_simps]:
  "requireRecordUint48 v code = Inr n \<longleftrightarrow> v = BigIntVal n \<and> 1 \<le> n \<and> n < 2 ^ 48"
  by (cases v) (auto simp: result_simps uint48_max)

lemma requireRecordPinned_iff [result_simps]:
  "requireRecordPinned v k code = Inr n \<longleftrightarrow> v = BigIntVal n \<and> n = k"
  by (cases v) (auto simp: result_simps)

lemma requireRecordRole_iff [result_simps]:
  "requireRecordRole v code = Inr n \<longleftrightarrow> v = BigIntVal n \<and> n \<in> {0, 1, 2}"
  by (cases v) (auto simp: result_simps)

lemma validate_state_iff [result_simps]:
  "validate_state v = Inr st \<longleftrightarrow> v = StringVal (state_name st)"
  by (cases v; cases st) auto

lemma is_null_iff [simp]: "is_null v \<longleftrightarrow> v = NullVal"
  by (cases v) auto

definition reason_value :: "PhilCoreV2GenesisRoleCeremonyEndReason option \<Rightarrow> js_value" where
  "reason_value e = (case e of None \<Rightarrow> NullVal | Some e \<Rightarrow> StringVal (reason_name e))"

lemma validate_endReason_iff [result_simps]:
  "validate_endReason st v = Inr e \<longleftrightarrow> v = reason_value e \<and> (st = ACTIVE \<longleftrightarrow> e = None)"
proof (cases st)
  case ENDED
  show ?thesis
  proof (cases e)
    case None
    with ENDED show ?thesis by (cases v) (simp_all add: reason_value_def)
  next
    case (Some x)
    with ENDED show ?thesis by (cases v; cases x) (simp_all add: reason_value_def)
  qed
qed (auto simp: reason_value_def split: option.splits)

section \<open>Valid records\<close>

definition record_fields :: "PhilCoreV2GenesisRoleCeremonyRecord \<Rightarrow> (string \<times> js_value) list" where
  "record_fields r =
     [(''state'', StringVal (state_name (gr_state r))), (''endReason'', reason_value (gr_endReason r)),
      (''ceremonyVersion'', BigIntVal (gr_ceremonyVersion r)), (''ceremonyId'', StringVal (gr_ceremonyId r)),
      (''genesisDeploymentIntentHash'', StringVal (gr_genesisDeploymentIntentHash r)),
      (''role'', BigIntVal (gr_role r)), (''credentialGeneration'', BigIntVal (gr_credentialGeneration r)),
      (''expiresAtUnixSeconds'', BigIntVal (gr_expiresAtUnixSeconds r)),
      (''mintedAtUnixSeconds'', BigIntVal (gr_mintedAtUnixSeconds r)),
      (''lastObservedAtUnixSeconds'', BigIntVal (gr_lastObservedAtUnixSeconds r)),
      (''genesisEnrollmentCeremonyHash'', StringVal (gr_genesisEnrollmentCeremonyHash r))]"

lemma record_value_fields: "record_value r = object_literal (record_fields r)"
  by (simp add: record_value_def record_fields_def reason_value_def)

lemma record_keys: "map fst (record_fields r) = RECORD_KEYS" "distinct RECORD_KEYS"
  by (simp_all add: record_fields_def RECORD_KEYS_def)

lemma snap_record:
  "snap (record_fields r) ''state'' = StringVal (state_name (gr_state r))"
  "snap (record_fields r) ''endReason'' = reason_value (gr_endReason r)"
  "snap (record_fields r) ''ceremonyVersion'' = BigIntVal (gr_ceremonyVersion r)"
  "snap (record_fields r) ''ceremonyId'' = StringVal (gr_ceremonyId r)"
  "snap (record_fields r) ''genesisDeploymentIntentHash'' = StringVal (gr_genesisDeploymentIntentHash r)"
  "snap (record_fields r) ''role'' = BigIntVal (gr_role r)"
  "snap (record_fields r) ''credentialGeneration'' = BigIntVal (gr_credentialGeneration r)"
  "snap (record_fields r) ''expiresAtUnixSeconds'' = BigIntVal (gr_expiresAtUnixSeconds r)"
  "snap (record_fields r) ''mintedAtUnixSeconds'' = BigIntVal (gr_mintedAtUnixSeconds r)"
  "snap (record_fields r) ''lastObservedAtUnixSeconds'' = BigIntVal (gr_lastObservedAtUnixSeconds r)"
  "snap (record_fields r) ''genesisEnrollmentCeremonyHash'' = StringVal (gr_genesisEnrollmentCeremonyHash r)"
  by (simp_all add: record_fields_def snap_def)

text \<open>The commitment of a ceremony, and the records of a ceremony.\<close>

definition genesis_commitment :: "ethers \<Rightarrow> string \<Rightarrow> string \<Rightarrow> int \<Rightarrow> int \<Rightarrow> string" where
  "genesis_commitment E cid intentHash roleId expiry =
     commitment E PHILCORE_V2_LOCAL_GENESIS_ENROLLMENT_CEREMONY_LITERAL CEREMONY_ABI_TYPES
       (ceremony_words cid intentHash roleId expiry)"

definition genesis_inv :: "ethers \<Rightarrow> PhilCoreV2GenesisRoleCeremonyRecord \<Rightarrow> bool" where
  "genesis_inv E r \<longleftrightarrow>
     (gr_state r = ACTIVE \<longleftrightarrow> gr_endReason r = None) \<and>
     gr_ceremonyVersion r = 1 \<and> gr_credentialGeneration r = 1 \<and>
     is_bytes32 E False (gr_ceremonyId r) (gr_ceremonyId r) \<and>
     is_bytes32 E False (gr_genesisDeploymentIntentHash r) (gr_genesisDeploymentIntentHash r) \<and>
     gr_role r \<in> {0, 1, 2} \<and>
     1 \<le> gr_mintedAtUnixSeconds r \<and> gr_mintedAtUnixSeconds r < gr_expiresAtUnixSeconds r \<and>
     gr_expiresAtUnixSeconds r < 2 ^ 48 \<and>
     gr_mintedAtUnixSeconds r \<le> gr_lastObservedAtUnixSeconds r \<and> gr_lastObservedAtUnixSeconds r < 2 ^ 48 \<and>
     gr_genesisEnrollmentCeremonyHash r = genesis_commitment E (gr_ceremonyId r)
       (gr_genesisDeploymentIntentHash r) (gr_role r) (gr_expiresAtUnixSeconds r)"

lemma js_uint_show_int: "0 \<le> i \<Longrightarrow> js_uint (StringVal (show_int i)) = Some i"
  by (simp add: show_int_def show_nat_canonical)

lemma ceremony_hash_computed:
  assumes "is_bytes32 E False cid cid" and "is_bytes32 E False ih ih" and "r \<in> {0, 1, 2}" and "0 < t" and "t < 2 ^ 48"
  shows "computeCeremonyHash E (buildHashInput 1 cid ih r 1 t) = Inr (genesis_commitment E cid ih r t)"
proof -
  from assms(3,4) have "0 \<le> r" "0 \<le> t" by auto
  with ceremony_hash_data [OF assms(1,2), of "StringVal (show_int 1)" "StringVal (show_int r)" r
      "StringVal (show_int 1)" "StringVal (show_int t)" t] assms(3-5)
  show ?thesis
    by (simp add: computeCeremonyHash_def buildHashInput_def genesis_commitment_def js_uint_show_int del: js_uint.simps)
qed

lemma snapshot_fields:
  assumes "map fst ps = keys" and "distinct keys"
  shows "ps = map (\<lambda>k. (k, snap ps k)) keys"
proof (rule nth_equalityI)
  show "length ps = length (map (\<lambda>k. (k, snap ps k)) keys)" using assms(1) by auto
  fix i assume i: "i < length ps"
  with assms have "map_of ps (fst (ps ! i)) = Some (snd (ps ! i))" by auto
  with i assms(1) show "ps ! i = map (\<lambda>k. (k, snap ps k)) keys ! i"
    by (auto simp: snap_def)
qed

lemma validate_iff:
  assumes laws: "ethers_laws E"
  shows "validatePhilCoreV2GenesisRoleCeremonyRecord E v = Inr r \<longleftrightarrow>
    shows_values v (record_fields r) \<and> genesis_inv E r \<and> gr_genesisEnrollmentCeremonyHash r \<noteq> ZERO_BYTES32"
    (is "?l \<longleftrightarrow> ?r")
proof
  assume ?l
  then obtain ps where ps: "readExactOwnKeys v RECORD_KEYS RECORD_BOUNDARY = Inr ps"
    and f: "snap ps ''state'' = StringVal (state_name (gr_state r))" "snap ps ''endReason'' = reason_value (gr_endReason r)"
      "snap ps ''ceremonyVersion'' = BigIntVal (gr_ceremonyVersion r)" "snap ps ''ceremonyId'' = StringVal (gr_ceremonyId r)"
      "snap ps ''genesisDeploymentIntentHash'' = StringVal (gr_genesisDeploymentIntentHash r)"
      "snap ps ''role'' = BigIntVal (gr_role r)" "snap ps ''credentialGeneration'' = BigIntVal (gr_credentialGeneration r)"
      "snap ps ''expiresAtUnixSeconds'' = BigIntVal (gr_expiresAtUnixSeconds r)"
      "snap ps ''mintedAtUnixSeconds'' = BigIntVal (gr_mintedAtUnixSeconds r)"
      "snap ps ''lastObservedAtUnixSeconds'' = BigIntVal (gr_lastObservedAtUnixSeconds r)"
      "snap ps ''genesisEnrollmentCeremonyHash'' = StringVal (gr_genesisEnrollmentCeremonyHash r)"
    and c: "gr_state r = ACTIVE \<longleftrightarrow> gr_endReason r = None" "gr_ceremonyVersion r = 1" "gr_credentialGeneration r = 1"
      "is_bytes32 E False (gr_ceremonyId r) (gr_ceremonyId r)"
      "is_bytes32 E False (gr_genesisDeploymentIntentHash r) (gr_genesisDeploymentIntentHash r)"
      "gr_role r \<in> {0, 1, 2}" "1 \<le> gr_mintedAtUnixSeconds r" "gr_mintedAtUnixSeconds r < gr_expiresAtUnixSeconds r"
      "gr_expiresAtUnixSeconds r < 2 ^ 48" "gr_mintedAtUnixSeconds r \<le> gr_lastObservedAtUnixSeconds r"
      "gr_lastObservedAtUnixSeconds r < 2 ^ 48"
      "is_bytes32 E False (gr_genesisEnrollmentCeremonyHash r) (gr_genesisEnrollmentCeremonyHash r)"
    and h: "computeCeremonyHash E (buildHashInput (gr_ceremonyVersion r) (gr_ceremonyId r)
       (gr_genesisDeploymentIntentHash r) (gr_role r) (gr_credentialGeneration r) (gr_expiresAtUnixSeconds r)) =
       Inr (gr_genesisEnrollmentCeremonyHash r)"
    unfolding validatePhilCoreV2GenesisRoleCeremonyRecord_def Let_def
    by (auto simp: result_simps requireLowercaseBytes32_iff [OF laws]
        PHILCORE_V2_GENESIS_ROLE_CEREMONY_VERSION_def PHILCORE_V2_GENESIS_ROLE_CEREMONY_GENERATION_def)
  from c(7,8) have "0 < gr_expiresAtUnixSeconds r" by simp
  from ceremony_hash_computed [OF c(4-6) this c(9)] h c(2,3)
  have hash: "gr_genesisEnrollmentCeremonyHash r = genesis_commitment E (gr_ceremonyId r)
      (gr_genesisDeploymentIntentHash r) (gr_role r) (gr_expiresAtUnixSeconds r)" by simp
  have keys: "map fst ps = RECORD_KEYS" "shows_values v ps" using ps by (simp_all add: readExactOwnKeys_iff)
  have "ps = record_fields r"
    using snapshot_fields [OF keys(1) record_keys(2)] f by (simp add: RECORD_KEYS_def record_fields_def)
  with keys(2) c hash show ?r by (auto simp: genesis_inv_def is_bytes32_def)
next
  assume r: ?r
  then have inv: "genesis_inv E r" by blast
  from r have rd: "readExactOwnKeys v RECORD_KEYS RECORD_BOUNDARY = Inr (record_fields r)"
    by (simp add: readExactOwnKeys_iff record_keys)
  from inv have h: "computeCeremonyHash E (buildHashInput 1 (gr_ceremonyId r) (gr_genesisDeploymentIntentHash r)
      (gr_role r) 1 (gr_expiresAtUnixSeconds r)) = Inr (gr_genesisEnrollmentCeremonyHash r)"
    by (subst ceremony_hash_computed) (auto simp: genesis_inv_def)
  have b: "is_bytes32 E False (gr_genesisEnrollmentCeremonyHash r) (gr_genesisEnrollmentCeremonyHash r)"
  proof -
    have g: "gr_genesisEnrollmentCeremonyHash r = genesis_commitment E (gr_ceremonyId r)
        (gr_genesisDeploymentIntentHash r) (gr_role r) (gr_expiresAtUnixSeconds r)"
      using inv by (simp add: genesis_inv_def)
    have "hex_string (gr_genesisEnrollmentCeremonyHash r) 32"
      "toLowerCase (gr_genesisEnrollmentCeremonyHash r) = gr_genesisEnrollmentCeremonyHash r"
      unfolding g genesis_commitment_def using commitment_shape [OF laws] by blast+
    with r show ?thesis by (simp add: is_bytes32_def laws_isHexString [OF laws])
  qed
  note hex = requireLowercaseBytes32_iff [OF laws, THEN iffD2, OF conjI, OF refl]
  have st: "validate_state (StringVal (state_name (gr_state r))) = Inr (gr_state r)"
    "validate_endReason (gr_state r) (reason_value (gr_endReason r)) = Inr (gr_endReason r)"
    using inv unfolding validate_state_iff validate_endReason_iff genesis_inv_def by blast+
  from inv have "requireRecordUint48 (BigIntVal (gr_expiresAtUnixSeconds r)) R = Inr (gr_expiresAtUnixSeconds r)"
    "requireRecordUint48 (BigIntVal (gr_mintedAtUnixSeconds r)) R = Inr (gr_mintedAtUnixSeconds r)"
    "requireRecordUint48 (BigIntVal (gr_lastObservedAtUnixSeconds r)) R = Inr (gr_lastObservedAtUnixSeconds r)"
    "requireRecordRole (BigIntVal (gr_role r)) R = Inr (gr_role r)" for R
    unfolding requireRecordUint48_iff requireRecordRole_iff genesis_inv_def by auto
  moreover from inv have "gr_ceremonyVersion r = 1" "gr_credentialGeneration r = 1"
    "is_bytes32 E False (gr_ceremonyId r) (gr_ceremonyId r)"
    "is_bytes32 E False (gr_genesisDeploymentIntentHash r) (gr_genesisDeploymentIntentHash r)"
    "gr_mintedAtUnixSeconds r < gr_expiresAtUnixSeconds r"
    "gr_mintedAtUnixSeconds r \<le> gr_lastObservedAtUnixSeconds r" unfolding genesis_inv_def by blast+
  ultimately show ?l
    unfolding validatePhilCoreV2GenesisRoleCeremonyRecord_def Let_def rd bnd.simps snap_record
    using st h b
    by (simp add: hex PHILCORE_V2_GENESIS_ROLE_CEREMONY_VERSION_def
        PHILCORE_V2_GENESIS_ROLE_CEREMONY_GENERATION_def
        del: requireRecordUint48.simps requireRecordRole.simps requireLowercaseBytes32.simps validate_state.simps)
qed

lemma validate_record:
  assumes "ethers_laws E"
  shows "validatePhilCoreV2GenesisRoleCeremonyRecord E (record_value r) = Inr q \<longleftrightarrow>
    q = r \<and> genesis_inv E r \<and> gr_genesisEnrollmentCeremonyHash r \<noteq> ZERO_BYTES32"
proof -
  have "shows_values (record_value r) (record_fields q) \<longleftrightarrow> record_fields q = record_fields r"
    using shows_values_data [of "record_fields r" ObjectPrototype "record_fields q"]
    by (simp add: record_keys record_value_fields)
  also have "\<dots> \<longleftrightarrow> q = r"
  proof -
    have "state_name a = state_name b \<longleftrightarrow> a = b" for a b by (cases a; cases b) simp_all
    moreover have "reason_value a = reason_value b \<longleftrightarrow> a = b" for a b
      by (auto simp: reason_value_def split: option.splits elim!: reason_name.elims)
    ultimately show ?thesis by (auto simp: record_fields_def)
  qed
  finally show ?thesis unfolding validate_iff [OF assms] by auto
qed

section \<open>Effects of the operations\<close>

text \<open>The content of the slot as it is passed to the operations.\<close>

fun slot_value :: "PhilCoreV2GenesisRoleCeremonyRecord option \<Rightarrow> js_value" where
  "slot_value None = NullVal"
| "slot_value (Some r) = record_value r"

lemma record_value_not_null [simp]: "record_value r \<noteq> NullVal"
  by (simp add: record_value_def data_object_def)

text \<open>The arguments of an operation: the object shows the slot and the given values.\<close>

definition clock_input :: "js_value \<Rightarrow> PhilCoreV2GenesisRoleCeremonyRecord option \<Rightarrow> js_value \<Rightarrow> bool" where
  "clock_input v slot now \<longleftrightarrow> shows_values v [(''current'', slot_value slot), (''nowUnixSeconds'', now)]"

definition retire_input :: "js_value \<Rightarrow> PhilCoreV2GenesisRoleCeremonyRecord option \<Rightarrow> js_value \<Rightarrow> bool" where
  "retire_input v slot cid \<longleftrightarrow> shows_values v [(''current'', slot_value slot), (''expectedCeremonyId'', cid)]"

definition mint_input ::
  "js_value \<Rightarrow> PhilCoreV2GenesisRoleCeremonyRecord option \<Rightarrow> js_value \<Rightarrow> js_value \<Rightarrow> js_value \<Rightarrow> js_value \<Rightarrow> js_value \<Rightarrow> bool"
where
  "mint_input v slot cid roleV intentHash expiry now \<longleftrightarrow> shows_values v
     [(''current'', slot_value slot), (''ceremonyId'', cid), (''role'', roleV),
      (''genesisDeploymentIntentHash'', intentHash), (''intentExpiresAtUnixSeconds'', expiry), (''nowUnixSeconds'', now)]"

text \<open>A record that the operations accept at a time.\<close>

definition accepted_at :: "ethers \<Rightarrow> PhilCoreV2GenesisRoleCeremonyRecord \<Rightarrow> js_value \<Rightarrow> int \<Rightarrow> bool" where
  "accepted_at E r now n \<longleftrightarrow> genesis_inv E r \<and> gr_genesisEnrollmentCeremonyHash r \<noteq> ZERO_BYTES32 \<and>
     now = NumberVal (IntegerNumber n) \<and> 1 \<le> n \<and> n < 2 ^ 48 \<and> gr_lastObservedAtUnixSeconds r \<le> n"

definition ended_as ::
  "PhilCoreV2GenesisRoleCeremonyRecord \<Rightarrow> PhilCoreV2GenesisRoleCeremonyEndReason \<Rightarrow> int \<Rightarrow> PhilCoreV2GenesisRoleCeremonyRecord" where
  "ended_as r e n = r\<lparr>gr_state := ENDED, gr_endReason := Some e, gr_lastObservedAtUnixSeconds := n\<rparr>"

lemma clock_read:
  assumes "clock_input v slot now"
  shows "readExactOwnKeys v CLOCK_INPUT_KEYS b = Inr [(''current'', slot_value slot), (''nowUnixSeconds'', now)]"
  using assms by (simp add: readExactOwnKeys_iff clock_input_def CLOCK_INPUT_KEYS_def)

lemma snap_clock:
  "snap [(''current'', c), (''nowUnixSeconds'', t)] ''current'' = c"
  "snap [(''current'', c), (''nowUnixSeconds'', t)] ''nowUnixSeconds'' = t"
  by (simp_all add: snap_def)

text \<open>The common part of the operations with a clock.\<close>

lemma clock_steps:
  assumes "ethers_laws E"
  shows "bnd (check (\<not> is_null (slot_value slot)) c1) (\<lambda>_.
     bnd (validatePhilCoreV2GenesisRoleCeremonyRecord E (slot_value slot)) (\<lambda>current.
     bnd (check (P current) c2) (\<lambda>_.
     bnd (requireClockSeconds now c3) (\<lambda>n.
     bnd (check (\<not> n < gr_lastObservedAtUnixSeconds current) c4) (\<lambda>_. Inr (f current n)))))) = Inr q \<longleftrightarrow>
    (\<exists>r n. slot = Some r \<and> P r \<and> accepted_at E r now n \<and> q = f r n)"
proof (cases slot)
  case None
  then show ?thesis by (simp add: result_simps)
next
  case (Some r)
  have "validatePhilCoreV2GenesisRoleCeremonyRecord E (record_value r) = Inr current \<longleftrightarrow>
      current = r \<and> genesis_inv E r \<and> gr_genesisEnrollmentCeremonyHash r \<noteq> ZERO_BYTES32" for current
    by (rule validate_record [OF assms])
  with Some show ?thesis
    unfolding bnd_eq_Inr check_iff requireClockSeconds_iff accepted_at_def
    by (auto simp: not_less)
qed

lemmas clock_simps = snap_clock bnd.simps

lemma observe_iff:
  assumes "ethers_laws E" and "clock_input v slot now"
  shows "observePhilCoreV2GenesisRoleCeremonyStatus E v = Inr q \<longleftrightarrow>
    (\<exists>r n. slot = Some r \<and> accepted_at E r now n \<and>
       q = (if gr_state r = ACTIVE \<and> gr_expiresAtUnixSeconds r \<le> n then ended_as r EXPIRED n
            else r\<lparr>gr_lastObservedAtUnixSeconds := n\<rparr>))"
  using clock_steps [OF assms(1), of slot _ "\<lambda>_. True" _ now _ _
      "\<lambda>r n. if gr_state r = ACTIVE \<and> gr_expiresAtUnixSeconds r \<le> n then ended_as r EXPIRED n
            else r\<lparr>gr_lastObservedAtUnixSeconds := n\<rparr>" q]
  unfolding observePhilCoreV2GenesisRoleCeremonyStatus_def clock_read [OF assms(2)] clock_simps ended_as_def
  by (simp add: if_distrib [of Inr] cong: if_cong)

lemma cancel_iff:
  assumes "ethers_laws E" and "clock_input v slot now"
  shows "cancelPhilCoreV2GenesisRoleCeremony E v = Inr q \<longleftrightarrow>
    (\<exists>r n. slot = Some r \<and> gr_state r = ACTIVE \<and> accepted_at E r now n \<and>
       q = ended_as r (if gr_expiresAtUnixSeconds r \<le> n then EXPIRED else CANCELLED) n)"
proof -
  have ends: "(if n \<ge> gr_expiresAtUnixSeconds r
      then Inr (r\<lparr>gr_state := ENDED, gr_endReason := Some EXPIRED, gr_lastObservedAtUnixSeconds := n\<rparr>)
      else Inr (r\<lparr>gr_state := ENDED, gr_endReason := Some CANCELLED, gr_lastObservedAtUnixSeconds := n\<rparr>)) =
    Inr (ended_as r (if gr_expiresAtUnixSeconds r \<le> n then EXPIRED else CANCELLED) n)" for r n
    by (simp add: ended_as_def)
  show ?thesis
    unfolding cancelPhilCoreV2GenesisRoleCeremony_def clock_read [OF assms(2)] clock_simps ends
    by (rule clock_steps [OF assms(1)])
qed

lemma consume_iff:
  assumes "ethers_laws E" and "clock_input v slot now"
  shows "consumePhilCoreV2GenesisRoleCeremony E v = Inr q \<longleftrightarrow>
    (\<exists>r n. slot = Some r \<and> gr_state r = ACTIVE \<and> accepted_at E r now n \<and> q = ended_as r CONSUMED n)"
  unfolding consumePhilCoreV2GenesisRoleCeremony_def clock_read [OF assms(2)] clock_simps ended_as_def
  by (rule clock_steps [OF assms(1)])

lemma retire_iff:
  assumes laws: "ethers_laws E" and "retire_input v slot cid"
  shows "retirePhilCoreV2GenesisRoleCeremony E v = Inr q \<longleftrightarrow>
    slot = Some q \<and> genesis_inv E q \<and> gr_genesisEnrollmentCeremonyHash q \<noteq> ZERO_BYTES32 \<and> gr_state q = ENDED \<and>
    cid = StringVal (gr_ceremonyId q)"
proof -
  have "readExactOwnKeys v RETIRE_INPUT_KEYS b = Inr [(''current'', slot_value slot), (''expectedCeremonyId'', cid)]" for b
    using assms(2) by (simp add: readExactOwnKeys_iff retire_input_def RETIRE_INPUT_KEYS_def)
  then show ?thesis
    unfolding retirePhilCoreV2GenesisRoleCeremony_def
    by (cases slot)
       (auto simp: result_simps snap_def validate_record [OF laws] requireLowercaseBytes32_iff [OF laws] genesis_inv_def)
qed

end
