(* ===== verification/GenesisSlot.thy ===== *)
theory GenesisSlot
  imports GenesisCeremony
begin

text \<open>
  The slot of a genesis role over the operations of \<open>v2ConsumerRecoveryGenesisRoleCeremonyLifecycle.ts\<close>:
  what minting does, the slot as a state machine that refines the abstract ceremony, and the
  properties of the genesis role ceremonies.
\<close>

section \<open>Minting\<close>

text \<open>The times that an intent expiry may be given as.\<close>

fun js_seconds :: "js_value \<Rightarrow> int option" where
  "js_seconds (NumberVal (IntegerNumber i)) = (if 0 \<le> i \<and> i \<le> MAX_SAFE_INTEGER then Some i else None)"
| "js_seconds v = js_uint v"

lemma requireRoleInput_iff [result_simps]:
  "requireRoleInput v code = Inr i \<longleftrightarrow> js_uint v = Some i \<and> i \<in> {0, 1, 2}"
  by (cases v) (auto simp: result_simps Let_def)

lemma requireIntentExpiry_iff [result_simps]:
  "requireIntentExpiry v code = Inr i \<longleftrightarrow> js_seconds v = Some i \<and> 1 \<le> i \<and> i < 2 ^ 48"
  by (cases "(v, code)" rule: requireIntentExpiry.cases)
     (auto simp: result_simps expiry_in_range_def uint48_max)

text \<open>The record that is minted.\<close>

definition minted :: "ethers \<Rightarrow> string \<Rightarrow> string \<Rightarrow> int \<Rightarrow> int \<Rightarrow> int \<Rightarrow> PhilCoreV2GenesisRoleCeremonyRecord" where
  "minted E cid ih r expiry n =
     \<lparr>gr_state = ACTIVE, gr_endReason = None, gr_ceremonyVersion = 1, gr_ceremonyId = cid,
      gr_genesisDeploymentIntentHash = ih, gr_role = r, gr_credentialGeneration = 1,
      gr_expiresAtUnixSeconds = min (n + 300) expiry, gr_mintedAtUnixSeconds = n, gr_lastObservedAtUnixSeconds = n,
      gr_genesisEnrollmentCeremonyHash = genesis_commitment E cid ih r (min (n + 300) expiry)\<rparr>"

lemma mint_iff:
  assumes laws: "ethers_laws E" and "mint_input v slot cidV roleV ihV expiryV now"
  shows "mintPhilCoreV2GenesisRoleCeremony E v = Inr q \<longleftrightarrow>
    (\<exists>n r cid ih t. slot = None \<and> now = NumberVal (IntegerNumber n) \<and> 1 \<le> n \<and> n + 300 < 2 ^ 48 \<and>
       js_uint roleV = Some r \<and> r \<in> {0, 1, 2} \<and>
       cidV = StringVal cid \<and> is_bytes32 E False cid cid \<and> ihV = StringVal ih \<and> is_bytes32 E False ih ih \<and>
       js_seconds expiryV = Some t \<and> n < t \<and> t < 2 ^ 48 \<and> q = minted E cid ih r t n)"
proof -
  let ?ps = "[(''current'', slot_value slot), (''ceremonyId'', cidV), (''role'', roleV),
      (''genesisDeploymentIntentHash'', ihV), (''intentExpiresAtUnixSeconds'', expiryV), (''nowUnixSeconds'', now)]"
  have read: "readExactOwnKeys v MINT_INPUT_KEYS b = Inr ?ps" for b
    using assms(2) by (simp add: readExactOwnKeys_iff mint_input_def MINT_INPUT_KEYS_def)
  have snaps: "snap ?ps ''current'' = slot_value slot" "snap ?ps ''ceremonyId'' = cidV" "snap ?ps ''role'' = roleV"
    "snap ?ps ''genesisDeploymentIntentHash'' = ihV" "snap ?ps ''intentExpiresAtUnixSeconds'' = expiryV"
    "snap ?ps ''nowUnixSeconds'' = now"
    by (simp_all add: snap_def)
  have empty: "(\<exists>u. (if \<not> is_null (slot_value slot)
      then bnd (validatePhilCoreV2GenesisRoleCeremonyRecord E (slot_value slot)) (\<lambda>validated.
        if gr_state validated = ACTIVE then Inl ''CEREMONY_ALREADY_ACTIVE'' else Inl ''CEREMONY_PENDING_RETIREMENT'')
      else Inr ()) = Inr u \<and> P) \<longleftrightarrow> slot = None \<and> P" for P
    by (cases slot) (auto simp: result_simps split: if_splits)
  have choose: "(if n + 300 < t then n + 300 else t) = min (n + 300) t" for n t :: int by auto
  have hash: "computeCeremonyHash E (buildHashInput 1 cid ih r 1 (min (n + 300) t)) = Inr h \<longleftrightarrow>
      h = genesis_commitment E cid ih r (min (n + 300) t)"
    if "1 \<le> n" "r \<in> {0, 1, 2}" "is_bytes32 E False cid cid" "is_bytes32 E False ih ih" "1 \<le> t" "t < 2 ^ 48"
    for cid ih r n t h
    using ceremony_hash_computed [OF that(3,4,2), of "min (n + 300) t"] that(1,5,6) by auto
  show ?thesis
    unfolding mintPhilCoreV2GenesisRoleCeremony_def read snaps bnd.simps(2) bnd_eq_Inr empty Let_def check_iff
      requireClockSeconds_iff requireRoleInput_iff requireIntentExpiry_iff requireLowercaseBytes32_iff [OF laws]
      PHILCORE_V2_GENESIS_ROLE_CEREMONY_VERSION_def PHILCORE_V2_GENESIS_ROLE_CEREMONY_GENERATION_def
      PHILCORE_V2_GENESIS_ROLE_CEREMONY_TTL_SECONDS_def choose uint48_max
    by (intro iffI; elim exE conjE; clarsimp simp: hash minted_def)
       (fastforce simp: hash)+
qed

section \<open>The slot as a state machine\<close>

text \<open>
  The slot of a role between the operations: the record that an operation returned takes the place of
  the record it was called with; a retired record leaves the slot empty. An operation that fails
  leaves the slot as it is.
\<close>

type_synonym slot = "PhilCoreV2GenesisRoleCeremonyRecord option"

inductive genesis_step :: "ethers \<Rightarrow> slot \<Rightarrow> slot \<Rightarrow> bool" for E where
  mint: "mint_input v s cid roleV ih expiry now \<Longrightarrow> mintPhilCoreV2GenesisRoleCeremony E v = Inr r \<Longrightarrow>
    genesis_step E s (Some r)"
| observe: "clock_input v s now \<Longrightarrow> observePhilCoreV2GenesisRoleCeremonyStatus E v = Inr r \<Longrightarrow>
    genesis_step E s (Some r)"
| cancel: "clock_input v s now \<Longrightarrow> cancelPhilCoreV2GenesisRoleCeremony E v = Inr r \<Longrightarrow> genesis_step E s (Some r)"
| consume: "clock_input v s now \<Longrightarrow> consumePhilCoreV2GenesisRoleCeremony E v = Inr r \<Longrightarrow> genesis_step E s (Some r)"
| retire: "retire_input v s cid \<Longrightarrow> retirePhilCoreV2GenesisRoleCeremony E v = Inr r \<Longrightarrow> genesis_step E s None"

definition slot_inv :: "ethers \<Rightarrow> slot \<Rightarrow> bool" where
  "slot_inv E s \<longleftrightarrow> (\<forall>r. s = Some r \<longrightarrow> genesis_inv E r)"

fun abs_reason :: "PhilCoreV2GenesisRoleCeremonyEndReason \<Rightarrow> end_reason" where
  "abs_reason CANCELLED = Cancelled"
| "abs_reason EXPIRED = Expired"
| "abs_reason CONSUMED = Consumed"

text \<open>What a ceremony is for, with its lifetime and its commitment.\<close>

definition binding :: "PhilCoreV2GenesisRoleCeremonyRecord \<Rightarrow> string \<times> string \<times> int \<times> int \<times> int \<times> string" where
  "binding r = (gr_ceremonyId r, gr_genesisDeploymentIntentHash r, gr_role r, gr_mintedAtUnixSeconds r,
     gr_expiresAtUnixSeconds r, gr_genesisEnrollmentCeremonyHash r)"

fun abs_slot :: "slot \<Rightarrow> (string \<times> string \<times> int \<times> int \<times> int \<times> string) phase" where
  "abs_slot None = Vacant"
| "abs_slot (Some r) = (case gr_endReason r of
     None \<Rightarrow> Open (binding r) (gr_expiresAtUnixSeconds r) (gr_lastObservedAtUnixSeconds r)
   | Some e \<Rightarrow> Closed (binding r) (abs_reason e) (gr_lastObservedAtUnixSeconds r))"

lemma abs_ended: "abs_slot (Some (ended_as r e n)) = Closed (binding r) (abs_reason e) n"
  by (simp add: ended_as_def binding_def)

lemma abs_seen: "abs_slot (Some (r\<lparr>gr_lastObservedAtUnixSeconds := n\<rparr>)) = (case gr_endReason r of
     None \<Rightarrow> Open (binding r) (gr_expiresAtUnixSeconds r) n
   | Some e \<Rightarrow> Closed (binding r) (abs_reason e) n)"
  by (simp add: binding_def split: option.splits)

lemma inv_active: "genesis_inv E r \<Longrightarrow> gr_state r = ACTIVE \<longleftrightarrow> gr_endReason r = None"
  by (simp add: genesis_inv_def)

lemma genesis_inv_updates:
  assumes "accepted_at E r now n"
  shows "genesis_inv E (ended_as r e n)" "genesis_inv E (r\<lparr>gr_lastObservedAtUnixSeconds := n\<rparr>)"
  using assms by (auto simp: accepted_at_def genesis_inv_def ended_as_def)

lemma minted_inv:
  assumes "1 \<le> n" "n + 300 < 2 ^ 48" "r \<in> {0, 1, 2}" "is_bytes32 E False cid cid" "is_bytes32 E False ih ih" "n < t"
  shows "genesis_inv E (minted E cid ih r t n)"
  using assms by (auto simp: minted_def genesis_inv_def)

text \<open>The steps by their effect on the slot.\<close>

inductive genesis_effect :: "ethers \<Rightarrow> slot \<Rightarrow> slot \<Rightarrow> bool" for E where
  minting: "1 \<le> n \<Longrightarrow> n + 300 < 2 ^ 48 \<Longrightarrow> r \<in> {0, 1, 2} \<Longrightarrow> is_bytes32 E False cid cid \<Longrightarrow>
    is_bytes32 E False ih ih \<Longrightarrow> n < t \<Longrightarrow> genesis_effect E None (Some (minted E cid ih r t n))"
| seeing: "accepted_at E r now n \<Longrightarrow> gr_state r = ACTIVE \<longrightarrow> n < gr_expiresAtUnixSeconds r \<Longrightarrow>
    genesis_effect E (Some r) (Some (r\<lparr>gr_lastObservedAtUnixSeconds := n\<rparr>))"
| ending: "accepted_at E r now n \<Longrightarrow> gr_state r = ACTIVE \<Longrightarrow>
    e = EXPIRED \<longrightarrow> gr_expiresAtUnixSeconds r \<le> n \<Longrightarrow> e = CANCELLED \<longrightarrow> n < gr_expiresAtUnixSeconds r \<Longrightarrow>
    genesis_effect E (Some r) (Some (ended_as r e n))"
| retiring: "genesis_inv E r \<Longrightarrow> gr_state r = ENDED \<Longrightarrow> genesis_effect E (Some r) None"

lemma step_effect:
  assumes laws: "ethers_laws E" and "genesis_step E s t"
  shows "genesis_effect E s t"
  using assms(2)
proof cases
  case (mint v cid roleV ih expiry now r)
  then show ?thesis unfolding mint_iff [OF laws mint(2)] by (auto intro: genesis_effect.minting)
next
  case (observe v now r)
  then obtain c n where c: "s = Some c" "accepted_at E c now n"
    "r = (if gr_state c = ACTIVE \<and> gr_expiresAtUnixSeconds c \<le> n then ended_as c EXPIRED n
            else c\<lparr>gr_lastObservedAtUnixSeconds := n\<rparr>)"
    unfolding observe_iff [OF laws observe(2)] by blast
  then show ?thesis
    using genesis_effect.seeing [OF c(2)] genesis_effect.ending [OF c(2), of EXPIRED] observe(1)
    by (cases "gr_state c = ACTIVE \<and> gr_expiresAtUnixSeconds c \<le> n") auto
next
  case (cancel v now r)
  then obtain c n where c: "s = Some c" "gr_state c = ACTIVE" "accepted_at E c now n"
    "r = ended_as c (if gr_expiresAtUnixSeconds c \<le> n then EXPIRED else CANCELLED) n"
    unfolding cancel_iff [OF laws cancel(2)] by blast
  with genesis_effect.ending [OF c(3,2), of "if gr_expiresAtUnixSeconds c \<le> n then EXPIRED else CANCELLED"] cancel(1)
  show ?thesis by (simp split: if_splits)
next
  case (consume v now r)
  then show ?thesis unfolding consume_iff [OF laws consume(2)] by (auto intro: genesis_effect.ending)
next
  case (retire v cid r)
  then show ?thesis unfolding retire_iff [OF laws retire(2)] by (auto intro: genesis_effect.retiring)
qed

lemma effect_inv: "genesis_effect E s t \<Longrightarrow> slot_inv E t"
  by (induction rule: genesis_effect.induct) (auto simp: slot_inv_def genesis_inv_updates minted_inv)

lemma effect_simulates:
  assumes "genesis_effect E s t"
  shows "ceremony_step 300 (abs_slot s) (abs_slot t)"
  using assms
proof cases
  case (minting n r cid ih t)
  then show ?thesis by (auto simp: minted_def intro!: ceremony_step.mint)
next
  case (seeing r now n)
  moreover have "gr_state r = ACTIVE \<longleftrightarrow> gr_endReason r = None" "gr_lastObservedAtUnixSeconds r \<le> n"
    using seeing by (auto simp: accepted_at_def inv_active)
  ultimately show ?thesis
    by (cases "gr_endReason r") (auto simp: binding_def intro: ceremony_step.observe ceremony_step.look)
next
  case (ending r now n e)
  moreover have "gr_endReason r = None" "gr_lastObservedAtUnixSeconds r \<le> n"
    using ending by (auto simp: accepted_at_def inv_active)
  ultimately show ?thesis
    unfolding ending abs_ended by (cases e) (auto intro: ceremony_step.intros)
next
  case (retiring r)
  moreover from retiring have "gr_endReason r \<noteq> None" using inv_active by force
  ultimately show ?thesis by (auto intro: ceremony_step.retire)
qed

text \<open>The contract of a ceremony holds of the slot, for any library that keeps its documented laws.\<close>

interpretation genesis_slot: ceremony "\<lambda>s t. ethers_laws E \<and> genesis_step E s t" "slot_inv E" abs_slot 300 for E
  by unfold_locales (meson step_effect effect_inv effect_simulates)+

text \<open>The invariant of the runs from an empty slot: no ceremony outlives its lifetime, nor its intent.\<close>

definition lifetime_inv :: "slot \<Rightarrow> bool" where
  "lifetime_inv s \<longleftrightarrow> (\<forall>r. s = Some r \<longrightarrow>
     gr_expiresAtUnixSeconds r \<le> gr_mintedAtUnixSeconds r + PHILCORE_V2_GENESIS_ROLE_CEREMONY_TTL_SECONDS \<and>
     (gr_state r = ACTIVE \<longrightarrow> gr_lastObservedAtUnixSeconds r < gr_expiresAtUnixSeconds r) \<and>
     (gr_endReason r = Some EXPIRED \<longrightarrow> gr_expiresAtUnixSeconds r \<le> gr_lastObservedAtUnixSeconds r))"

lemma effect_lifetime: "genesis_effect E s t \<Longrightarrow> lifetime_inv s \<Longrightarrow> lifetime_inv t"
  by (induction rule: genesis_effect.induct)
     (auto simp: lifetime_inv_def minted_def ended_as_def accepted_at_def PHILCORE_V2_GENESIS_ROLE_CEREMONY_TTL_SECONDS_def)

section \<open>Properties\<close>

text \<open>
  Ceremonies of the genesis roles have a bounded life: in every slot that can be reached from the
  empty one by the operations, on whatever arguments, the record is valid, its expiry is no more than
  300 seconds after its minting, an active ceremony was never observed at or after its expiry, and one
  that ended as expired had reached it.
\<close>

theorem genesis_lifetime:
  assumes "ethers_laws E" and "(genesis_step E)\<^sup>*\<^sup>* None s"
  shows "slot_inv E s \<and> lifetime_inv s"
  using assms(2)
proof (induction rule: rtranclp_induct)
  case base
  then show ?case by (simp add: slot_inv_def lifetime_inv_def)
next
  case (step s t)
  then have "genesis_effect E s t" using step_effect [OF assms(1)] by blast
  with step show ?case using effect_inv effect_lifetime by blast
qed

lemma genesis_refines_ceremony_parts:
  assumes "ethers_laws E" and "slot_inv E s"
  shows "genesis_step E s t \<Longrightarrow> ceremony_step 300 (abs_slot s) (abs_slot t)"
    and "(genesis_step E)\<^sup>*\<^sup>* s t \<Longrightarrow> (ceremony_step 300)\<^sup>*\<^sup>* (abs_slot s) (abs_slot t)"
  using genesis_slot.simulates [OF assms(2)] genesis_slot.run_simulates [of E s t] assms by auto

text \<open>
  C36: The slot of a genesis role refines the abstract ceremony: a step of the operations is a step of
  the ceremony with a lifetime of 300 seconds, hence so are the runs.
\<close>

theorem genesis_refines_ceremony:
  assumes "ethers_laws E" and "slot_inv E s"
  shows "(genesis_step E s t \<longrightarrow> ceremony_step 300 (abs_slot s) (abs_slot t)) \<and>
    ((genesis_step E)\<^sup>*\<^sup>* s t \<longrightarrow> (ceremony_step 300)\<^sup>*\<^sup>* (abs_slot s) (abs_slot t))"
  using genesis_refines_ceremony_parts [OF assms] by blast

text \<open>
  The end of a ceremony is final: while a ceremony that has ended stays in its slot, no sequence of
  operations changes what it is for, its times, its commitment or the reason of its end, and its clock
  does not go back.
\<close>

theorem genesis_end_is_final:
  assumes "ethers_laws E" and "genesis_inv E r" and "gr_state r = ENDED"
    and "(\<lambda>s t. genesis_step E s t \<and> t \<noteq> None)\<^sup>*\<^sup>* (Some r) s"
  shows "\<exists>q. s = Some q \<and> gr_state q = ENDED \<and> binding q = binding r \<and> gr_endReason q = gr_endReason r \<and>
    gr_lastObservedAtUnixSeconds r \<le> gr_lastObservedAtUnixSeconds q"
proof -
  have stay: "(genesis_slot.stay E)\<^sup>*\<^sup>* (Some r) s \<and> s \<noteq> None"
    using assms(4)
  proof (induction rule: rtranclp_induct)
    case (step s t)
    then have "genesis_step E s t" "s \<noteq> None" "t \<noteq> None" by blast+
    then have "genesis_slot.stay E s t"
      unfolding genesis_slot.stay_def using assms(1) by (auto split: option.splits)
    with step.IH \<open>t \<noteq> None\<close> show ?case by (blast intro: rtranclp.rtrancl_into_rtrancl)
  qed simp
  have inv: "slot_inv E (Some r)" using assms(2) by (simp add: slot_inv_def)
  from inv_active [OF assms(2)] assms(3) obtain e where e: "gr_endReason r = Some e" by auto
  then have abs: "abs_slot (Some r) = Closed (binding r) (abs_reason e) (gr_lastObservedAtUnixSeconds r)" by simp
  from stay obtain q where q: "s = Some q" by auto
  from genesis_slot.stay_installed [OF conjunct1 [OF stay] inv] have "genesis_inv E q" by (auto simp: q slot_inv_def)
  moreover obtain obs where "abs_slot s = Closed (binding r) (abs_reason e) obs" "gr_lastObservedAtUnixSeconds r \<le> obs"
    using genesis_slot.end_is_final [OF conjunct1 [OF stay] inv abs] by blast
  moreover have "abs_reason a = abs_reason b \<longleftrightarrow> a = b" for a b by (cases a; cases b) simp_all
  ultimately show ?thesis
    using e q inv_active [of E q] by (cases "gr_state q"; cases "gr_endReason q") auto
qed

lemma shows_data:
  assumes "distinct (map fst ps)"
  shows "shows_values (object_literal ps) ps"
  using shows_values_data [OF assms, of ObjectPrototype ps] by simp

text \<open>A sample ceremony, minted at time 1000 for an intent that expires at 1200.\<close>

definition sample_ceremony :: PhilCoreV2GenesisRoleCeremonyRecord where
  "sample_ceremony = minted sample_ethers (h32 (CHR ''1'')) (h32 (CHR ''2'')) 1 1200 1000"

definition sample_clock :: "slot \<Rightarrow> int \<Rightarrow> js_value" where
  "sample_clock s n = object_literal [(''current'', slot_value s), (''nowUnixSeconds'', NumberVal (IntegerNumber n))]"

definition sample_mint :: "slot \<Rightarrow> js_value" where
  "sample_mint s = object_literal [(''current'', slot_value s), (''ceremonyId'', StringVal (h32 (CHR ''1''))),
     (''role'', StringVal ''1''), (''genesisDeploymentIntentHash'', StringVal (h32 (CHR ''2''))),
     (''intentExpiresAtUnixSeconds'', NumberVal (IntegerNumber 1200)), (''nowUnixSeconds'', NumberVal (IntegerNumber 1000))]"

lemma sample_inputs:
  "clock_input (sample_clock s n) s (NumberVal (IntegerNumber n))"
  "mint_input (sample_mint s) s (StringVal (h32 (CHR ''1''))) (StringVal ''1'') (StringVal (h32 (CHR ''2'')))
     (NumberVal (IntegerNumber 1200)) (NumberVal (IntegerNumber 1000))"
  by (simp_all add: clock_input_def mint_input_def sample_clock_def sample_mint_def shows_data)

lemma sample_ceremony_inv:
  "genesis_inv sample_ethers sample_ceremony" "gr_genesisEnrollmentCeremonyHash sample_ceremony \<noteq> ZERO_BYTES32"
  "gr_state sample_ceremony = ACTIVE" "gr_expiresAtUnixSeconds sample_ceremony = 1200"
  "gr_lastObservedAtUnixSeconds sample_ceremony = 1000"
proof -
  show "genesis_inv sample_ethers sample_ceremony"
    unfolding sample_ceremony_def by (rule minted_inv) (simp_all add: literal_simps)
  show "gr_genesisEnrollmentCeremonyHash sample_ceremony \<noteq> ZERO_BYTES32"
    by (simp add: sample_ceremony_def minted_def genesis_commitment_def commitment_def sample_keccak_nonzero)
qed (simp_all add: sample_ceremony_def minted_def)

lemma sample_minted: "mintPhilCoreV2GenesisRoleCeremony sample_ethers (sample_mint None) = Inr sample_ceremony"
proof -
  have one: "canonical_uint ''1''" "read_digits 10 ''1'' = 1" by code_simp+
  show ?thesis
    unfolding mint_iff [OF sample_ethers_laws sample_inputs(2)]
    by (rule exI [of _ 1000], rule exI [of _ 1], rule exI [of _ "h32 (CHR ''1'')"], rule exI [of _ "h32 (CHR ''2'')"],
        rule exI [of _ 1200])
       (simp add: literal_simps one MAX_SAFE_INTEGER_def sample_ceremony_def)
qed

lemma sample_step: "genesis_step sample_ethers None (Some sample_ceremony)"
  by (rule genesis_step.mint [OF sample_inputs(2) sample_minted])

theorem genesis_lifetime_witness: "slot_inv sample_ethers (Some sample_ceremony) \<and> lifetime_inv (Some sample_ceremony)"
  by (rule genesis_lifetime [OF sample_ethers_laws]) (rule r_into_rtranclp, rule sample_step)

theorem genesis_refines_ceremony_witness:
  "ceremony_step 300 Vacant (Open (binding sample_ceremony) 1200 1000)"
proof -
  have "slot_inv sample_ethers None" by (simp add: slot_inv_def)
  from genesis_refines_ceremony [OF sample_ethers_laws this, of "Some sample_ceremony"] sample_step
  show ?thesis by (simp add: sample_ceremony_def minted_def)
qed

lemma sample_ended: "genesis_inv sample_ethers (ended_as sample_ceremony CONSUMED 1100)"
  "gr_genesisEnrollmentCeremonyHash (ended_as sample_ceremony CONSUMED 1100) \<noteq> ZERO_BYTES32"
proof -
  have "accepted_at sample_ethers sample_ceremony (NumberVal (IntegerNumber 1100)) 1100"
    by (simp add: accepted_at_def sample_ceremony_inv)
  then show "genesis_inv sample_ethers (ended_as sample_ceremony CONSUMED 1100)" by (rule genesis_inv_updates)
qed (simp add: ended_as_def sample_ceremony_inv)

theorem genesis_end_is_final_witness:
  "\<exists>q. Some ((ended_as sample_ceremony CONSUMED 1100)\<lparr>gr_lastObservedAtUnixSeconds := 2000\<rparr>) = Some q \<and>
     gr_state q = ENDED \<and> binding q = binding (ended_as sample_ceremony CONSUMED 1100) \<and>
     gr_endReason q = gr_endReason (ended_as sample_ceremony CONSUMED 1100) \<and>
     gr_lastObservedAtUnixSeconds (ended_as sample_ceremony CONSUMED 1100) \<le> gr_lastObservedAtUnixSeconds q"
proof (rule genesis_end_is_final [OF sample_ethers_laws sample_ended(1)])
  let ?r = "ended_as sample_ceremony CONSUMED 1100"
  show st: "gr_state ?r = ENDED" by (simp add: ended_as_def)
  have "observePhilCoreV2GenesisRoleCeremonyStatus sample_ethers (sample_clock (Some ?r) 2000) =
      Inr (?r\<lparr>gr_lastObservedAtUnixSeconds := 2000\<rparr>)"
    unfolding observe_iff [OF sample_ethers_laws sample_inputs(1)] using sample_ended st
    by (auto simp: accepted_at_def ended_as_def)
  then have "genesis_step sample_ethers (Some ?r) (Some (?r\<lparr>gr_lastObservedAtUnixSeconds := 2000\<rparr>))"
    by (rule genesis_step.observe [OF sample_inputs(1)])
  then show "(\<lambda>s t. genesis_step sample_ethers s t \<and> t \<noteq> None)\<^sup>*\<^sup>* (Some ?r)
      (Some (?r\<lparr>gr_lastObservedAtUnixSeconds := 2000\<rparr>))"
    by (intro r_into_rtranclp) simp
qed

lemma genesis_transitions_parts:
  assumes "ethers_laws E" and "genesis_inv E r" and "gr_genesisEnrollmentCeremonyHash r \<noteq> ZERO_BYTES32"
    and "clock_input v (Some r) (NumberVal (IntegerNumber n))" and "1 \<le> n" and "n < 2 ^ 48"
  shows "observePhilCoreV2GenesisRoleCeremonyStatus E v =
      (if n < gr_lastObservedAtUnixSeconds r then Inl ''CLOCK_REGRESSION_DETECTED''
       else if gr_state r = ACTIVE \<and> gr_expiresAtUnixSeconds r \<le> n then Inr (ended_as r EXPIRED n)
       else Inr (r\<lparr>gr_lastObservedAtUnixSeconds := n\<rparr>))"
    and "cancelPhilCoreV2GenesisRoleCeremony E v =
      (if gr_state r \<noteq> ACTIVE then Inl ''CEREMONY_NOT_ACTIVE''
       else if n < gr_lastObservedAtUnixSeconds r then Inl ''CLOCK_REGRESSION_DETECTED''
       else Inr (ended_as r (if gr_expiresAtUnixSeconds r \<le> n then EXPIRED else CANCELLED) n))"
    and "consumePhilCoreV2GenesisRoleCeremony E v =
      (if gr_state r \<noteq> ACTIVE then Inl ''CEREMONY_NOT_ACTIVE''
       else if n < gr_lastObservedAtUnixSeconds r then Inl ''CLOCK_REGRESSION_DETECTED''
       else Inr (ended_as r CONSUMED n))"
proof -
  have val: "validatePhilCoreV2GenesisRoleCeremonyRecord E (record_value r) = Inr r"
    using validate_record [OF assms(1)] assms(2,3) by blast
  have clk: "requireClockSeconds (NumberVal (IntegerNumber n)) c = Inr n" for c
    using assms(5,6) unfolding requireClockSeconds_iff by blast
  note steps = clock_read [OF assms(4)] clock_simps slot_value.simps val clk
  show "observePhilCoreV2GenesisRoleCeremonyStatus E v =
      (if n < gr_lastObservedAtUnixSeconds r then Inl ''CLOCK_REGRESSION_DETECTED''
       else if gr_state r = ACTIVE \<and> gr_expiresAtUnixSeconds r \<le> n then Inr (ended_as r EXPIRED n)
       else Inr (r\<lparr>gr_lastObservedAtUnixSeconds := n\<rparr>))"
    unfolding observePhilCoreV2GenesisRoleCeremonyStatus_def steps by (simp add: check_eval ended_as_def)
  show "cancelPhilCoreV2GenesisRoleCeremony E v =
      (if gr_state r \<noteq> ACTIVE then Inl ''CEREMONY_NOT_ACTIVE''
       else if n < gr_lastObservedAtUnixSeconds r then Inl ''CLOCK_REGRESSION_DETECTED''
       else Inr (ended_as r (if gr_expiresAtUnixSeconds r \<le> n then EXPIRED else CANCELLED) n))"
    unfolding cancelPhilCoreV2GenesisRoleCeremony_def steps by (simp add: check_eval ended_as_def clk del: requireClockSeconds.simps)
  show "consumePhilCoreV2GenesisRoleCeremony E v =
      (if gr_state r \<noteq> ACTIVE then Inl ''CEREMONY_NOT_ACTIVE''
       else if n < gr_lastObservedAtUnixSeconds r then Inl ''CLOCK_REGRESSION_DETECTED''
       else Inr (ended_as r CONSUMED n))"
    unfolding consumePhilCoreV2GenesisRoleCeremony_def steps by (simp add: check_eval ended_as_def clk del: requireClockSeconds.simps)
qed

text \<open>
  The transitions of a genesis role ceremony on a valid record, at every time of the clock: a time
  before the last observation is refused; an observation ends an active ceremony whose expiry has come
  and otherwise records the time; a cancellation ends an active ceremony, as expired rather than
  cancelled when its expiry has come; a consumption ends an active ceremony whether or not its expiry
  has come; a ceremony that has ended can be neither cancelled nor consumed.
\<close>

theorem genesis_transitions:
  assumes "ethers_laws E" and "genesis_inv E r" and "gr_genesisEnrollmentCeremonyHash r \<noteq> ZERO_BYTES32"
    and "clock_input v (Some r) (NumberVal (IntegerNumber n))" and "1 \<le> n" and "n < 2 ^ 48"
  shows "observePhilCoreV2GenesisRoleCeremonyStatus E v =
      (if n < gr_lastObservedAtUnixSeconds r then Inl ''CLOCK_REGRESSION_DETECTED''
       else if gr_state r = ACTIVE \<and> gr_expiresAtUnixSeconds r \<le> n then Inr (ended_as r EXPIRED n)
       else Inr (r\<lparr>gr_lastObservedAtUnixSeconds := n\<rparr>)) \<and>
    cancelPhilCoreV2GenesisRoleCeremony E v =
      (if gr_state r \<noteq> ACTIVE then Inl ''CEREMONY_NOT_ACTIVE''
       else if n < gr_lastObservedAtUnixSeconds r then Inl ''CLOCK_REGRESSION_DETECTED''
       else Inr (ended_as r (if gr_expiresAtUnixSeconds r \<le> n then EXPIRED else CANCELLED) n)) \<and>
    consumePhilCoreV2GenesisRoleCeremony E v =
      (if gr_state r \<noteq> ACTIVE then Inl ''CEREMONY_NOT_ACTIVE''
       else if n < gr_lastObservedAtUnixSeconds r then Inl ''CLOCK_REGRESSION_DETECTED''
       else Inr (ended_as r CONSUMED n))"
  by (intro conjI genesis_transitions_parts [OF assms])

theorem genesis_transitions_witness:
  "observePhilCoreV2GenesisRoleCeremonyStatus sample_ethers (sample_clock (Some sample_ceremony) 1200) =
     Inr (ended_as sample_ceremony EXPIRED 1200) \<and>
   cancelPhilCoreV2GenesisRoleCeremony sample_ethers (sample_clock (Some sample_ceremony) 1200) =
     Inr (ended_as sample_ceremony EXPIRED 1200) \<and>
   consumePhilCoreV2GenesisRoleCeremony sample_ethers (sample_clock (Some sample_ceremony) 1200) =
     Inr (ended_as sample_ceremony CONSUMED 1200) \<and>
   cancelPhilCoreV2GenesisRoleCeremony sample_ethers (sample_clock (Some sample_ceremony) 999) =
     Inl ''CLOCK_REGRESSION_DETECTED''"
  using genesis_transitions [OF sample_ethers_laws sample_ceremony_inv(1,2) sample_inputs(1), of 1200]
    genesis_transitions [OF sample_ethers_laws sample_ceremony_inv(1,2) sample_inputs(1), of 999]
  by (simp add: sample_ceremony_inv)

lemma genesis_minting_parts:
  assumes "ethers_laws E" and "mint_input v slot cidV roleV ihV expiryV now"
  shows "mintPhilCoreV2GenesisRoleCeremony E v = Inr q \<longleftrightarrow>
    (\<exists>n r cid ih t. slot = None \<and> now = NumberVal (IntegerNumber n) \<and> 1 \<le> n \<and> n + 300 < 2 ^ 48 \<and>
       js_uint roleV = Some r \<and> r \<in> {0, 1, 2} \<and>
       cidV = StringVal cid \<and> is_bytes32 E False cid cid \<and> ihV = StringVal ih \<and> is_bytes32 E False ih ih \<and>
       js_seconds expiryV = Some t \<and> n < t \<and> t < 2 ^ 48 \<and> q = minted E cid ih r t n)"
    and "slot = Some r \<Longrightarrow> validatePhilCoreV2GenesisRoleCeremonyRecord E (record_value r) = Inr r \<Longrightarrow>
      mintPhilCoreV2GenesisRoleCeremony E v =
        Inl (if gr_state r = ACTIVE then ''CEREMONY_ALREADY_ACTIVE'' else ''CEREMONY_PENDING_RETIREMENT'')"
proof -
  show "mintPhilCoreV2GenesisRoleCeremony E v = Inl (if gr_state r = ACTIVE then ''CEREMONY_ALREADY_ACTIVE''
      else ''CEREMONY_PENDING_RETIREMENT'')"
    if "slot = Some r" "validatePhilCoreV2GenesisRoleCeremonyRecord E (record_value r) = Inr r"
  proof -
    let ?ps = "[(''current'', slot_value slot), (''ceremonyId'', cidV), (''role'', roleV),
      (''genesisDeploymentIntentHash'', ihV), (''intentExpiresAtUnixSeconds'', expiryV), (''nowUnixSeconds'', now)]"
    have "readExactOwnKeys v MINT_INPUT_KEYS OPERATION_BOUNDARY = Inr ?ps"
      using assms(2) by (simp add: readExactOwnKeys_iff mint_input_def MINT_INPUT_KEYS_def)
    moreover have "snap ?ps ''current'' = record_value r" using that(1) by (simp add: snap_def)
    ultimately show ?thesis
      unfolding mintPhilCoreV2GenesisRoleCeremony_def by (simp add: that(2))
  qed
qed (rule mint_iff [OF assms])

text \<open>
  Minting a genesis role ceremony succeeds exactly into an empty slot, with a clock from 1 that
  leaves room for the lifetime in 48 bits, a role of the three, an identifier and an intent hash that are
  lowercase nonzero 32-byte words, and an intent that has not expired. The record is active,
  expires at the earlier of 300 seconds from now and the expiry of the intent, and carries the commitment to
  its content. Minting into a slot with a valid record fails by the state of the record.
\<close>

theorem genesis_minting:
  assumes "ethers_laws E" and "mint_input v slot cidV roleV ihV expiryV now"
  shows "(mintPhilCoreV2GenesisRoleCeremony E v = Inr q \<longleftrightarrow>
      (\<exists>n r cid ih t. slot = None \<and> now = NumberVal (IntegerNumber n) \<and> 1 \<le> n \<and> n + 300 < 2 ^ 48 \<and>
         js_uint roleV = Some r \<and> r \<in> {0, 1, 2} \<and>
         cidV = StringVal cid \<and> is_bytes32 E False cid cid \<and> ihV = StringVal ih \<and> is_bytes32 E False ih ih \<and>
         js_seconds expiryV = Some t \<and> n < t \<and> t < 2 ^ 48 \<and> q = minted E cid ih r t n)) \<and>
    (slot = Some r \<and> validatePhilCoreV2GenesisRoleCeremonyRecord E (record_value r) = Inr r \<longrightarrow>
      mintPhilCoreV2GenesisRoleCeremony E v =
        Inl (if gr_state r = ACTIVE then ''CEREMONY_ALREADY_ACTIVE'' else ''CEREMONY_PENDING_RETIREMENT''))"
  using genesis_minting_parts [OF assms] by blast

theorem genesis_minting_witness:
  "mintPhilCoreV2GenesisRoleCeremony sample_ethers (sample_mint None) = Inr sample_ceremony \<and>
   mintPhilCoreV2GenesisRoleCeremony sample_ethers (sample_mint (Some sample_ceremony)) = Inl ''CEREMONY_ALREADY_ACTIVE''"
proof
  have one: "canonical_uint ''1''" "read_digits 10 ''1'' = 1" by code_simp+
  note mint = conjunct1 [OF genesis_minting [OF sample_ethers_laws sample_inputs(2)]]
  show "mintPhilCoreV2GenesisRoleCeremony sample_ethers (sample_mint None) = Inr sample_ceremony"
    unfolding mint
    by (rule exI [of _ 1000], rule exI [of _ 1], rule exI [of _ "h32 (CHR ''1'')"], rule exI [of _ "h32 (CHR ''2'')"],
        rule exI [of _ 1200])
       (simp add: literal_simps one MAX_SAFE_INTEGER_def sample_ceremony_def)
  have "validatePhilCoreV2GenesisRoleCeremonyRecord sample_ethers (record_value sample_ceremony) = Inr sample_ceremony"
    using validate_record [OF sample_ethers_laws] sample_ceremony_inv(1,2) by blast
  with genesis_minting [OF sample_ethers_laws sample_inputs(2), of "Some sample_ceremony" undefined sample_ceremony]
  show "mintPhilCoreV2GenesisRoleCeremony sample_ethers (sample_mint (Some sample_ceremony)) = Inl ''CEREMONY_ALREADY_ACTIVE''"
    by (simp add: sample_ceremony_inv)
qed

lemma genesis_record_round_trip_parts:
  assumes "ethers_laws E" and "validatePhilCoreV2GenesisRoleCeremonyRecord E v = Inr r"
  shows "genesis_inv E r"
    and "validatePhilCoreV2GenesisRoleCeremonyRecord E (record_value r) = Inr r"
    and "\<exists>i. toPhilCoreV2GenesisRoleCeremonyHashInput E v = Inr i \<and>
      computePhilCoreV2LocalGenesisEnrollmentCeremonyHash E i = Inr (gr_genesisEnrollmentCeremonyHash r)"
proof -
  from assms(2) show inv: "genesis_inv E r" unfolding validate_iff [OF assms(1)] by blast
  from assms(2) show "validatePhilCoreV2GenesisRoleCeremonyRecord E (record_value r) = Inr r"
    unfolding validate_record [OF assms(1)] validate_iff [OF assms(1), of v] by blast
  let ?i = "buildHashInput 1 (gr_ceremonyId r) (gr_genesisDeploymentIntentHash r) (gr_role r) 1 (gr_expiresAtUnixSeconds r)"
  have "computeCeremonyHash E ?i = Inr (gr_genesisEnrollmentCeremonyHash r)"
    using inv by (subst ceremony_hash_computed) (auto simp: genesis_inv_def)
  then have "computePhilCoreV2LocalGenesisEnrollmentCeremonyHash E ?i = Inr (gr_genesisEnrollmentCeremonyHash r)"
    by (auto simp: computeCeremonyHash_def split: sum.splits)
  moreover have "toPhilCoreV2GenesisRoleCeremonyHashInput E v = Inr ?i"
    using assms(2) inv by (simp add: toPhilCoreV2GenesisRoleCeremonyHashInput_def genesis_inv_def)
  ultimately show "\<exists>i. toPhilCoreV2GenesisRoleCeremonyHashInput E v = Inr i \<and>
      computePhilCoreV2LocalGenesisEnrollmentCeremonyHash E i = Inr (gr_genesisEnrollmentCeremonyHash r)" by blast
qed

text \<open>
  Validation of a genesis role record accepts an \<open>unknown\<close> value only for a record that satisfies
  the invariant, whose object form validates to the same record again, and from which the hash input is
  derived that has the record's commitment as its hash.
\<close>

theorem genesis_record_round_trip:
  assumes "ethers_laws E" and "validatePhilCoreV2GenesisRoleCeremonyRecord E v = Inr r"
  shows "genesis_inv E r \<and> validatePhilCoreV2GenesisRoleCeremonyRecord E (record_value r) = Inr r \<and>
    (\<exists>i. toPhilCoreV2GenesisRoleCeremonyHashInput E v = Inr i \<and>
      computePhilCoreV2LocalGenesisEnrollmentCeremonyHash E i = Inr (gr_genesisEnrollmentCeremonyHash r))"
  using genesis_record_round_trip_parts [OF assms] by blast

lemma sample_validated_ceremony:
  "validatePhilCoreV2GenesisRoleCeremonyRecord sample_ethers (record_value sample_ceremony) = Inr sample_ceremony"
  using validate_record [OF sample_ethers_laws] sample_ceremony_inv(1,2) by blast

theorem genesis_record_round_trip_witness:
  "\<exists>i. toPhilCoreV2GenesisRoleCeremonyHashInput sample_ethers (record_value sample_ceremony) = Inr i \<and>
      computePhilCoreV2LocalGenesisEnrollmentCeremonyHash sample_ethers i =
        Inr (gr_genesisEnrollmentCeremonyHash sample_ceremony)"
  using genesis_record_round_trip [OF sample_ethers_laws sample_validated_ceremony] by blast

text \<open>The words that the commitment of a record hashes.\<close>

definition record_inputs :: "ethers \<Rightarrow> PhilCoreV2GenesisRoleCeremonyRecord \<Rightarrow> bytes_like set" where
  "record_inputs E r = commitment_inputs E PHILCORE_V2_LOCAL_GENESIS_ENROLLMENT_CEREMONY_LITERAL CEREMONY_ABI_TYPES
     (ceremony_words (gr_ceremonyId r) (gr_genesisDeploymentIntentHash r) (gr_role r) (gr_expiresAtUnixSeconds r))"

lemma record_words_fit:
  assumes "ethers_laws E" and "genesis_inv E r"
  shows "list_all2 (abi_fits E) CEREMONY_ABI_TYPES
    (ceremony_words (gr_ceremonyId r) (gr_genesisDeploymentIntentHash r) (gr_role r) (gr_expiresAtUnixSeconds r))"
  using assms(2) is_bytes32_abi [OF assms(1)]
  unfolding CEREMONY_ABI_TYPES_def ceremony_words_def genesis_inv_def by (auto simp: uint_fits_def)

lemma record_commitment:
  assumes "genesis_inv E r"
  shows "gr_genesisEnrollmentCeremonyHash r = commitment E PHILCORE_V2_LOCAL_GENESIS_ENROLLMENT_CEREMONY_LITERAL
    CEREMONY_ABI_TYPES
    (ceremony_words (gr_ceremonyId r) (gr_genesisDeploymentIntentHash r) (gr_role r) (gr_expiresAtUnixSeconds r))"
  using assms by (simp add: genesis_inv_def genesis_commitment_def)

lemma genesis_literals:
  "PHILCORE_V2_LOCAL_GENESIS_ENROLLMENT_CEREMONY_LITERAL \<noteq> PHILCORE_V2_LOCAL_GENESIS_DEPLOYMENT_INTENT_LITERAL"
  by (simp add: PHILCORE_V2_LOCAL_GENESIS_ENROLLMENT_CEREMONY_LITERAL_def
      PHILCORE_V2_LOCAL_GENESIS_DEPLOYMENT_INTENT_LITERAL_def)

lemma genesis_commitments_bind_parts:
  assumes laws: "ethers_laws E" and "validatePhilCoreV2GenesisRoleCeremonyRecord E v = Inr r"
  shows "validatePhilCoreV2GenesisRoleCeremonyRecord E w = Inr q \<Longrightarrow>
      gr_genesisEnrollmentCeremonyHash r = gr_genesisEnrollmentCeremonyHash q \<Longrightarrow>
      gr_ceremonyId r = gr_ceremonyId q \<and> gr_genesisDeploymentIntentHash r = gr_genesisDeploymentIntentHash q \<and>
      gr_role r = gr_role q \<and> gr_expiresAtUnixSeconds r = gr_expiresAtUnixSeconds q \<or>
      keccak_collision E (record_inputs E r \<union> record_inputs E q)"
    and "computePhilCoreV2LocalGenesisDeploymentIntentHash E i = Inr (gr_genesisEnrollmentCeremonyHash r) \<Longrightarrow>
      \<exists>ws. object_words E (intent_fields E) i ws \<and> keccak_collision E (record_inputs E r \<union>
        commitment_inputs E PHILCORE_V2_LOCAL_GENESIS_DEPLOYMENT_INTENT_LITERAL INTENT_ABI_TYPES ws)"
proof -
  have inv: "genesis_inv E r" using assms(2) unfolding validate_iff [OF laws] by blast
  note fits = record_words_fit [OF laws]
  show "gr_ceremonyId r = gr_ceremonyId q \<and> gr_genesisDeploymentIntentHash r = gr_genesisDeploymentIntentHash q \<and>
      gr_role r = gr_role q \<and> gr_expiresAtUnixSeconds r = gr_expiresAtUnixSeconds q \<or>
      keccak_collision E (record_inputs E r \<union> record_inputs E q)"
    if q: "validatePhilCoreV2GenesisRoleCeremonyRecord E w = Inr q"
      and eq: "gr_genesisEnrollmentCeremonyHash r = gr_genesisEnrollmentCeremonyHash q"
  proof -
    have invq: "genesis_inv E q" using q unfolding validate_iff [OF laws] by blast
    from eq have "commitment E PHILCORE_V2_LOCAL_GENESIS_ENROLLMENT_CEREMONY_LITERAL CEREMONY_ABI_TYPES
        (ceremony_words (gr_ceremonyId r) (gr_genesisDeploymentIntentHash r) (gr_role r) (gr_expiresAtUnixSeconds r)) =
      commitment E PHILCORE_V2_LOCAL_GENESIS_ENROLLMENT_CEREMONY_LITERAL CEREMONY_ABI_TYPES
        (ceremony_words (gr_ceremonyId q) (gr_genesisDeploymentIntentHash q) (gr_role q) (gr_expiresAtUnixSeconds q))"
      unfolding record_commitment [OF inv] record_commitment [OF invq] .
    from commitment_binds [OF laws fits [OF inv] fits [OF invq] this, folded record_inputs_def] show ?thesis
      unfolding ceremony_words_def by blast
  qed
  show "\<exists>ws. object_words E (intent_fields E) i ws \<and> keccak_collision E (record_inputs E r \<union>
        commitment_inputs E PHILCORE_V2_LOCAL_GENESIS_DEPLOYMENT_INTENT_LITERAL INTENT_ABI_TYPES ws)"
    if i: "computePhilCoreV2LocalGenesisDeploymentIntentHash E i = Inr (gr_genesisEnrollmentCeremonyHash r)"
  proof -
    obtain ws where ws: "object_words E (intent_fields E) i ws" "list_all2 (abi_fits E) INTENT_ABI_TYPES ws"
      "gr_genesisEnrollmentCeremonyHash r =
         commitment E PHILCORE_V2_LOCAL_GENESIS_DEPLOYMENT_INTENT_LITERAL INTENT_ABI_TYPES ws"
      using genesis_intent.compute_content [OF laws i] by blast
    from commitment_binds [OF laws fits [OF inv] ws(2) ws(3) [unfolded record_commitment [OF inv]],
        folded record_inputs_def] ws(1) genesis_literals
    show ?thesis by blast
  qed
qed

text \<open>
  The commitment of a genesis role record binds what the ceremony is for: two values that validate to records with
  the same commitment have the same identifier, deployment intent, role and expiry, and no
  deployment intent has that hash, unless two of the inputs hashed for them are a Keccak-256 collision.
\<close>

theorem genesis_commitments_bind:
  assumes "ethers_laws E" and "validatePhilCoreV2GenesisRoleCeremonyRecord E v = Inr r"
  shows "(validatePhilCoreV2GenesisRoleCeremonyRecord E w = Inr q \<and>
      gr_genesisEnrollmentCeremonyHash r = gr_genesisEnrollmentCeremonyHash q \<longrightarrow>
      gr_ceremonyId r = gr_ceremonyId q \<and> gr_genesisDeploymentIntentHash r = gr_genesisDeploymentIntentHash q \<and>
      gr_role r = gr_role q \<and> gr_expiresAtUnixSeconds r = gr_expiresAtUnixSeconds q \<or>
      keccak_collision E (record_inputs E r \<union> record_inputs E q)) \<and>
    (computePhilCoreV2LocalGenesisDeploymentIntentHash E i = Inr (gr_genesisEnrollmentCeremonyHash r) \<longrightarrow>
      (\<exists>ws. object_words E (intent_fields E) i ws \<and> keccak_collision E (record_inputs E r \<union>
        commitment_inputs E PHILCORE_V2_LOCAL_GENESIS_DEPLOYMENT_INTENT_LITERAL INTENT_ABI_TYPES ws)))"
  using genesis_commitments_bind_parts [OF assms] by blast

theorem genesis_commitments_bind_witness:
  "gr_ceremonyId sample_ceremony = gr_ceremonyId (ended_as sample_ceremony CONSUMED 1100) \<and>
     gr_genesisDeploymentIntentHash sample_ceremony =
       gr_genesisDeploymentIntentHash (ended_as sample_ceremony CONSUMED 1100) \<and>
     gr_role sample_ceremony = gr_role (ended_as sample_ceremony CONSUMED 1100) \<and>
     gr_expiresAtUnixSeconds sample_ceremony = gr_expiresAtUnixSeconds (ended_as sample_ceremony CONSUMED 1100) \<or>
   keccak_collision sample_ethers (record_inputs sample_ethers sample_ceremony \<union>
     record_inputs sample_ethers (ended_as sample_ceremony CONSUMED 1100))"
proof -
  have "validatePhilCoreV2GenesisRoleCeremonyRecord sample_ethers
      (record_value (ended_as sample_ceremony CONSUMED 1100)) = Inr (ended_as sample_ceremony CONSUMED 1100)"
    using validate_record [OF sample_ethers_laws] sample_ended by blast
  moreover have "gr_genesisEnrollmentCeremonyHash sample_ceremony =
      gr_genesisEnrollmentCeremonyHash (ended_as sample_ceremony CONSUMED 1100)" by (simp add: ended_as_def)
  ultimately show ?thesis
    using genesis_commitments_bind [OF sample_ethers_laws sample_validated_ceremony] by blast
qed

end
