(* ===== verification/LocalCeremony.thy ===== *)
theory LocalCeremony
  imports GenesisProtocol Bytes
begin

text \<open>
  The commitments of the ceremonies of a deployed account (\<open>v2LocalCeremonyProtocol.ts\<close>): the
  enrollment ceremony hash, the digest of the proof of the offline factor, and the recovery of the
  signer of a digest. The arguments are records: an ordinary object, given by its own enumerable
  properties in their order, or something else.
\<close>

section \<open>Constants\<close>

definition PHILCORE_V2_LOCAL_ENROLLMENT_CEREMONY_LITERAL :: string where
  "PHILCORE_V2_LOCAL_ENROLLMENT_CEREMONY_LITERAL =
     ''PhilCoreV2LocalEnrollmentCeremony(bytes32 ceremonyId,address account,uint256 chainId,'' @
     ''address entryPoint,bytes32 accountVersionId,bytes32 securityModelId,bytes32 recoveryD'' @
     ''omainId,uint64 expectedRecoveryEpoch,uint64 expectedValidatorEpoch,uint48 expiresAt)''"

definition PHILCORE_V2_LOCAL_ROLE2_CEREMONY_PROOF_LITERAL :: string where
  "PHILCORE_V2_LOCAL_ROLE2_CEREMONY_PROOF_LITERAL =
     ''PhilCoreV2LocalRole2CeremonyProof(uint8 proofVersion,bytes32 enrollmentCeremonyHash,b'' @
     ''ytes32 independenceBindingHash,bytes32 factorCommitment,uint64 credentialGeneration,a'' @
     ''ddress account,uint256 chainId,address entryPoint,address signer)''"

definition PHILCORE_V2_LOCAL_ENROLLMENT_CEREMONY_TYPEHASH :: "ethers \<Rightarrow> string" where
  "PHILCORE_V2_LOCAL_ENROLLMENT_CEREMONY_TYPEHASH E =
     keccak256 E (toUtf8Bytes E PHILCORE_V2_LOCAL_ENROLLMENT_CEREMONY_LITERAL)"

definition PHILCORE_V2_LOCAL_ROLE2_CEREMONY_PROOF_TYPEHASH :: "ethers \<Rightarrow> string" where
  "PHILCORE_V2_LOCAL_ROLE2_CEREMONY_PROOF_TYPEHASH E =
     keccak256 E (toUtf8Bytes E PHILCORE_V2_LOCAL_ROLE2_CEREMONY_PROOF_LITERAL)"

definition PHILCORE_V2_LOCAL_ENROLLMENT_CEREMONY_ABI_TYPES :: "string list" where
  "PHILCORE_V2_LOCAL_ENROLLMENT_CEREMONY_ABI_TYPES =
     [''bytes32'', ''bytes32'', ''address'', ''uint256'', ''address'', ''bytes32'', ''bytes32'', ''bytes32'',
      ''uint64'', ''uint64'', ''uint48'']"

definition PHILCORE_V2_LOCAL_ROLE2_CEREMONY_PROOF_ABI_TYPES :: "string list" where
  "PHILCORE_V2_LOCAL_ROLE2_CEREMONY_PROOF_ABI_TYPES =
     [''bytes32'', ''uint8'', ''bytes32'', ''bytes32'', ''bytes32'', ''uint64'', ''address'', ''uint256'',
      ''address'', ''address'']"

definition PHILCORE_V2_LOCAL_ACCOUNT_VERSION_ID :: "ethers \<Rightarrow> string" where
  "PHILCORE_V2_LOCAL_ACCOUNT_VERSION_ID E = PHILCORE_V2_CONSUMER_RECOVERY_ACCOUNT_VERSION_ID E"

definition PHILCORE_V2_LOCAL_SECURITY_MODEL_ID :: "ethers \<Rightarrow> string" where
  "PHILCORE_V2_LOCAL_SECURITY_MODEL_ID E = PHILCORE_V2_SECURITY_MODEL_ID E"

definition PHILCORE_V2_LOCAL_RECOVERY_DOMAIN_ID :: "ethers \<Rightarrow> string" where
  "PHILCORE_V2_LOCAL_RECOVERY_DOMAIN_ID E = PHILCORE_V2_CONSUMER_RECOVERY_DOMAIN_ID E"

definition PHILCORE_V2_LOCAL_ROLE2_PROOF_VERSION :: int where
  "PHILCORE_V2_LOCAL_ROLE2_PROOF_VERSION = 1"

definition PHILCORE_O37_2_SECP256K1_ORDER :: int where
  "PHILCORE_O37_2_SECP256K1_ORDER = 0xfffffffffffffffffffffffffffffffebaaedce6af48a03bbfd25e8cd0364141"

definition PHILCORE_O37_2_SECP256K1_HALF_ORDER :: int where
  "PHILCORE_O37_2_SECP256K1_HALF_ORDER = PHILCORE_O37_2_SECP256K1_ORDER div 2"

definition ENROLLMENT_OWN_KEYS :: "string list" where
  "ENROLLMENT_OWN_KEYS = [''ceremonyId'', ''account'', ''chainId'', ''entryPoint'', ''accountVersionId'',
     ''securityModelId'', ''recoveryDomainId'', ''expectedRecoveryEpoch'', ''expectedValidatorEpoch'', ''expiresAt'']"

definition PROOF_OWN_KEYS :: "string list" where
  "PROOF_OWN_KEYS = [''proofVersion'', ''enrollmentCeremonyHash'', ''independenceBindingHash'', ''factorCommitment'',
     ''credentialGeneration'', ''account'', ''chainId'', ''entryPoint'', ''signer'']"

definition SIGNATURE_OWN_KEYS :: "string list" where
  "SIGNATURE_OWN_KEYS = [''r'', ''s'', ''v'']"

section \<open>Arguments and their fields\<close>

datatype record_argument = NotPlainObject | PlainObject "(string \<times> js_value) list"

fun local_plain_object :: "record_argument \<Rightarrow> string \<Rightarrow> (string \<times> js_value) list coded" where
  "local_plain_object NotPlainObject code = Inl code"
| "local_plain_object (PlainObject ps) code = Inr ps"

definition local_exact_own_keys :: "(string \<times> js_value) list \<Rightarrow> string list \<Rightarrow> string \<Rightarrow> string \<Rightarrow> unit coded" where
  "local_exact_own_keys ps allowedKeys missingCode extraCode =
     bnd (traverse (\<lambda>key. check (key \<in> set allowedKeys) extraCode) (map fst ps)) (\<lambda>_.
     bnd (traverse (\<lambda>key. check (map_of ps key \<noteq> None) missingCode) allowedKeys) (\<lambda>_. Inr ()))"

fun local_bytes32 :: "ethers \<Rightarrow> bool \<Rightarrow> js_value \<Rightarrow> string coded" where
  "local_bytes32 E allowZero (StringVal s) =
     bnd (check (isHexString E s 32) ''BYTES32_INVALID'') (\<lambda>_.
     bnd (check (\<not> (\<not> allowZero \<and> toLowerCase s = ZERO_BYTES32)) ''BYTES32_ZERO'') (\<lambda>_.
     Inr (toLowerCase s)))"
| "local_bytes32 E allowZero _ = Inl ''BYTES32_INVALID''"

fun local_nonzero_address :: "ethers \<Rightarrow> js_value \<Rightarrow> string coded" where
  "local_nonzero_address E (StringVal s) =
     (case getAddress E s of
        None \<Rightarrow> Inl ''ADDRESS_INVALID''
      | Some normalized \<Rightarrow> bnd (check (normalized \<noteq> ZERO_ADDRESS) ''ADDRESS_ZERO'') (\<lambda>_. Inr normalized))"
| "local_nonzero_address E _ = Inl ''ADDRESS_INVALID''"

definition local_parse_uint :: "string \<Rightarrow> nat \<Rightarrow> int coded" where
  "local_parse_uint asString bits =
     catch (BigInt_of (StringV asString)) (Inl ''INTEGER_SYNTAX_INVALID'') (\<lambda>parsed.
     bnd (check (\<not> (parsed < 0 \<or> parsed \<ge> 2 ^ bits)) ''UINT_OUT_OF_RANGE'') (\<lambda>_. Inr parsed))"

fun local_canonical_uint :: "js_value \<Rightarrow> nat \<Rightarrow> int coded" where
  "local_canonical_uint (NumberVal _) bits = Inl ''INTEGER_NUMBER_REJECTED''"
| "local_canonical_uint (BigIntVal i) bits =
     bnd (check (\<not> i < 0) ''INTEGER_SYNTAX_INVALID'') (\<lambda>_. local_parse_uint (show_int i) bits)"
| "local_canonical_uint (StringVal s) bits =
     bnd (check (canonical_uint s) ''INTEGER_SYNTAX_INVALID'') (\<lambda>_. local_parse_uint s bits)"
| "local_canonical_uint _ bits = Inl ''INTEGER_TYPE_INVALID''"

definition local_nonzero_uint :: "js_value \<Rightarrow> nat \<Rightarrow> string \<Rightarrow> int coded" where
  "local_nonzero_uint v bits zeroCode =
     bnd (local_canonical_uint v bits) (\<lambda>n. bnd (check (n \<noteq> 0) zeroCode) (\<lambda>_. Inr n))"

definition local_pinned_bytes32 :: "ethers \<Rightarrow> js_value \<Rightarrow> string \<Rightarrow> string \<Rightarrow> string coded" where
  "local_pinned_bytes32 E v expected mismatchCode =
     bnd (local_bytes32 E True v) (\<lambda>normalized.
     bnd (check (normalized = toLowerCase expected) mismatchCode) (\<lambda>_. Inr normalized))"

section \<open>Commitments\<close>

definition computePhilCoreV2LocalEnrollmentCeremonyHash :: "ethers \<Rightarrow> record_argument \<Rightarrow> string coded" where
  "computePhilCoreV2LocalEnrollmentCeremonyHash E input =
     bnd (local_plain_object input ''INPUT_NOT_OBJECT'') (\<lambda>v.
     bnd (local_exact_own_keys v ENROLLMENT_OWN_KEYS ''MISSING_OWN_KEY'' ''EXTRA_OWN_KEY'') (\<lambda>_.
     bnd (local_bytes32 E False (snap v ''ceremonyId'')) (\<lambda>ceremonyId.
     bnd (local_nonzero_address E (snap v ''account'')) (\<lambda>account.
     bnd (local_nonzero_uint (snap v ''chainId'') 256 ''CHAIN_ID_ZERO'') (\<lambda>chainId.
     bnd (local_nonzero_address E (snap v ''entryPoint'')) (\<lambda>entryPoint.
     bnd (local_pinned_bytes32 E (snap v ''accountVersionId'') (PHILCORE_V2_LOCAL_ACCOUNT_VERSION_ID E)
            ''ACCOUNT_VERSION_ID_MISMATCH'') (\<lambda>accountVersionId.
     bnd (local_pinned_bytes32 E (snap v ''securityModelId'') (PHILCORE_V2_LOCAL_SECURITY_MODEL_ID E)
            ''SECURITY_MODEL_ID_MISMATCH'') (\<lambda>securityModelId.
     bnd (local_pinned_bytes32 E (snap v ''recoveryDomainId'') (PHILCORE_V2_LOCAL_RECOVERY_DOMAIN_ID E)
            ''RECOVERY_DOMAIN_ID_MISMATCH'') (\<lambda>recoveryDomainId.
     bnd (local_nonzero_uint (snap v ''expectedRecoveryEpoch'') 64 ''EXPECTED_RECOVERY_EPOCH_ZERO'')
       (\<lambda>expectedRecoveryEpoch.
     bnd (local_nonzero_uint (snap v ''expectedValidatorEpoch'') 64 ''EXPECTED_VALIDATOR_EPOCH_ZERO'')
       (\<lambda>expectedValidatorEpoch.
     bnd (local_nonzero_uint (snap v ''expiresAt'') 48 ''EXPIRES_AT_ZERO'') (\<lambda>expiresAt.
     Inr (keccak256 E (HexData (abiEncode E PHILCORE_V2_LOCAL_ENROLLMENT_CEREMONY_ABI_TYPES
       [AbiHex (PHILCORE_V2_LOCAL_ENROLLMENT_CEREMONY_TYPEHASH E), AbiHex ceremonyId, AbiHex account, AbiUint chainId,
        AbiHex entryPoint, AbiHex accountVersionId, AbiHex securityModelId, AbiHex recoveryDomainId,
        AbiUint expectedRecoveryEpoch, AbiUint expectedValidatorEpoch, AbiUint expiresAt])))))))))))))))"

definition computePhilCoreV2LocalRole2CeremonyProofDigest :: "ethers \<Rightarrow> record_argument \<Rightarrow> string coded" where
  "computePhilCoreV2LocalRole2CeremonyProofDigest E input =
     bnd (local_plain_object input ''INPUT_NOT_OBJECT'') (\<lambda>v.
     bnd (local_exact_own_keys v PROOF_OWN_KEYS ''MISSING_OWN_KEY'' ''EXTRA_OWN_KEY'') (\<lambda>_.
     bnd (local_canonical_uint (snap v ''proofVersion'') 8) (\<lambda>proofVersion.
     bnd (check (proofVersion = PHILCORE_V2_LOCAL_ROLE2_PROOF_VERSION) ''PROOF_VERSION_MISMATCH'') (\<lambda>_.
     bnd (local_bytes32 E False (snap v ''enrollmentCeremonyHash'')) (\<lambda>enrollmentCeremonyHash.
     bnd (local_bytes32 E False (snap v ''independenceBindingHash'')) (\<lambda>independenceBindingHash.
     bnd (local_bytes32 E False (snap v ''factorCommitment'')) (\<lambda>factorCommitment.
     bnd (local_nonzero_uint (snap v ''credentialGeneration'') 64 ''CREDENTIAL_GENERATION_ZERO'')
       (\<lambda>credentialGeneration.
     bnd (local_nonzero_address E (snap v ''account'')) (\<lambda>account.
     bnd (local_nonzero_uint (snap v ''chainId'') 256 ''CHAIN_ID_ZERO'') (\<lambda>chainId.
     bnd (local_nonzero_address E (snap v ''entryPoint'')) (\<lambda>entryPoint.
     bnd (local_nonzero_address E (snap v ''signer'')) (\<lambda>signer.
     Inr (keccak256 E (HexData (abiEncode E PHILCORE_V2_LOCAL_ROLE2_CEREMONY_PROOF_ABI_TYPES
       [AbiHex (PHILCORE_V2_LOCAL_ROLE2_CEREMONY_PROOF_TYPEHASH E), AbiUint proofVersion, AbiHex enrollmentCeremonyHash,
        AbiHex independenceBindingHash, AbiHex factorCommitment, AbiUint credentialGeneration, AbiHex account,
        AbiUint chainId, AbiHex entryPoint, AbiHex signer])))))))))))))))"

section \<open>The signer of a digest\<close>

text \<open>
  \<open>BigInt\<close> is called outside of a \<open>try\<close>, so that an error of it is thrown as it is. The last step,
  \<open>recoverAddress\<close> of \<open>Signature.from\<close>, is code of the package \<open>ethers\<close>: a parameter, \<open>None\<close> when it
  throws.
\<close>

datatype signer_error = CeremonyError string | ThrownError js_error

fun of_coded :: "'a coded \<Rightarrow> signer_error + 'a" where
  "of_coded (Inl code) = Inl (CeremonyError code)"
| "of_coded (Inr x) = Inr x"

fun of_thrown :: "'a result \<Rightarrow> signer_error + 'a" where
  "of_thrown (Inl e) = Inl (ThrownError e)"
| "of_thrown (Inr x) = Inr x"

fun signature_word :: "ethers \<Rightarrow> js_value \<Rightarrow> string \<Rightarrow> string coded" where
  "signature_word E (StringVal s) code = bnd (check (isHexString E s 32) code) (\<lambda>_. Inr s)"
| "signature_word E _ code = Inl code"

fun signature_v :: "js_value \<Rightarrow> int coded" where
  "signature_v (NumberVal (IntegerNumber v)) = bnd (check (v = 27 \<or> v = 28) ''SIGNATURE_V_INVALID'') (\<lambda>_. Inr v)"
| "signature_v _ = Inl ''SIGNATURE_V_INVALID''"

definition recoverCanonicalSecp256k1Signer ::
  "ethers \<Rightarrow> (string \<Rightarrow> string \<Rightarrow> string \<Rightarrow> int \<Rightarrow> string option) \<Rightarrow> js_value \<Rightarrow> record_argument \<Rightarrow>
     signer_error + string" where
  "recoverCanonicalSecp256k1Signer E recoverAddress digest signature =
     bnd (of_coded (signature_word E digest ''DIGEST_SHAPE_INVALID'')) (\<lambda>digest.
     bnd (of_coded (local_plain_object signature ''SIGNATURE_SHAPE_INVALID'')) (\<lambda>value.
     bnd (of_coded (local_exact_own_keys value SIGNATURE_OWN_KEYS ''SIGNATURE_SHAPE_INVALID'' ''SIGNATURE_SHAPE_INVALID''))
       (\<lambda>_.
     bnd (of_coded (signature_word E (snap value ''r'') ''SIGNATURE_R_INVALID'')) (\<lambda>valueR.
     bnd (of_coded (signature_word E (snap value ''s'') ''SIGNATURE_S_INVALID'')) (\<lambda>valueS.
     bnd (of_coded (signature_v (snap value ''v''))) (\<lambda>valueV.
     bnd (of_thrown (BigInt_of (StringV (toLowerCase valueR)))) (\<lambda>r.
     bnd (of_thrown (BigInt_of (StringV (toLowerCase valueS)))) (\<lambda>s.
     bnd (of_coded (check (\<not> (r \<le> 0 \<or> r \<ge> PHILCORE_O37_2_SECP256K1_ORDER)) ''SIGNATURE_R_OUT_OF_RANGE'')) (\<lambda>_.
     bnd (of_coded (check (\<not> (s \<le> 0 \<or> s \<ge> PHILCORE_O37_2_SECP256K1_ORDER)) ''SIGNATURE_S_OUT_OF_RANGE'')) (\<lambda>_.
     bnd (of_coded (check (\<not> s > PHILCORE_O37_2_SECP256K1_HALF_ORDER) ''SIGNATURE_HIGH_S'')) (\<lambda>_.
     case recoverAddress (toLowerCase digest) valueR valueS valueV of
       None \<Rightarrow> Inl (CeremonyError ''SIGNATURE_RECOVERY_FAILED'')
     | Some address \<Rightarrow> Inr address)))))))))))"

section \<open>What the checks accept\<close>

lemma local_plain_object_iff [result_simps]: "local_plain_object v code = Inr ps \<longleftrightarrow> v = PlainObject ps"
  by (cases v) auto

lemma local_exact_own_keys_iff [result_simps]:
  "local_exact_own_keys ps keys m e = Inr u \<longleftrightarrow> fst ` set ps = set keys"
proof -
  have "(\<forall>k \<in> set keys. \<exists>v. map_of ps k = Some v) \<longleftrightarrow> set keys \<subseteq> fst ` set ps"
    by (metis map_of_eq_None_iff not_None_eq subset_eq)
  then show ?thesis
    unfolding local_exact_own_keys_def by (auto simp: result_simps traverse_check_iff)
qed

lemma local_bytes32_iff [result_simps]:
  "local_bytes32 E az v = Inr t \<longleftrightarrow> (\<exists>s. v = StringVal s \<and> is_bytes32 E az s t)"
  by (cases v) (auto simp: result_simps is_bytes32_def)

lemma local_nonzero_address_iff [result_simps]:
  "local_nonzero_address E v = Inr a \<longleftrightarrow> (\<exists>s. v = StringVal s \<and> is_address E False s a)"
  by (cases v) (auto simp: result_simps is_address_def split: option.splits)

lemma local_canonical_uint_iff [result_simps]:
  "local_canonical_uint v bits = Inr n \<longleftrightarrow> js_uint v = Some n \<and> uint_fits bits n"
proof (cases v)
  case (BigIntVal i)
  then show ?thesis
    by (cases "0 \<le> i") (auto simp: result_simps local_parse_uint_def BigInt_show_int uint_fits_def simp del: BigInt_of.simps)
next
  case (StringVal s)
  then show ?thesis
    by (cases "canonical_uint s")
       (auto simp: result_simps local_parse_uint_def BigInt_decimal dest!: canonical_uint_digits simp del: BigInt_of.simps
        simp add: uint_fits_def)
qed simp_all

lemma local_nonzero_uint_iff [result_simps]:
  "local_nonzero_uint v bits code = Inr n \<longleftrightarrow> js_uint v = Some n \<and> uint_fits bits n \<and> n \<noteq> 0"
  by (auto simp: local_nonzero_uint_def result_simps)

lemma local_pinned_bytes32_iff [result_simps]:
  "local_pinned_bytes32 E v k code = Inr t \<longleftrightarrow>
     t = toLowerCase k \<and> (\<exists>s. v = StringVal s \<and> is_bytes32 E True s t)"
  by (auto simp: local_pinned_bytes32_def result_simps)

lemma signature_word_iff [result_simps]:
  "signature_word E v code = Inr s \<longleftrightarrow> v = StringVal s \<and> isHexString E s 32"
  by (cases v) (auto simp: result_simps)

lemma signature_v_iff [result_simps]:
  "signature_v v = Inr n \<longleftrightarrow> v = NumberVal (IntegerNumber n) \<and> n \<in> {27, 28}"
  by (cases v rule: signature_v.cases) (auto simp: result_simps)

lemma of_coded_iff [result_simps]: "of_coded m = Inr x \<longleftrightarrow> m = Inr x"
  by (cases m) auto

lemma of_thrown_iff [result_simps]: "of_thrown m = Inr x \<longleftrightarrow> m = Inr x"
  by (cases m) auto

section \<open>What is committed to\<close>

definition enrollment_types :: "string list" where
  "enrollment_types = tl PHILCORE_V2_LOCAL_ENROLLMENT_CEREMONY_ABI_TYPES"

definition proof_types :: "string list" where
  "proof_types = tl PHILCORE_V2_LOCAL_ROLE2_CEREMONY_PROOF_ABI_TYPES"

definition enrollment_words :: "ethers \<Rightarrow> string \<Rightarrow> string \<Rightarrow> int \<Rightarrow> string \<Rightarrow> int \<Rightarrow> int \<Rightarrow> int \<Rightarrow> abi_value list" where
  "enrollment_words E cid acc ch ep re ve ex =
     [AbiHex cid, AbiHex acc, AbiUint ch, AbiHex ep, AbiHex (toLowerCase (PHILCORE_V2_LOCAL_ACCOUNT_VERSION_ID E)),
      AbiHex (toLowerCase (PHILCORE_V2_LOCAL_SECURITY_MODEL_ID E)),
      AbiHex (toLowerCase (PHILCORE_V2_LOCAL_RECOVERY_DOMAIN_ID E)), AbiUint re, AbiUint ve, AbiUint ex]"

text \<open>The words of an argument: its properties as they are normalised.\<close>

definition nonzero_uint :: "nat \<Rightarrow> js_value \<Rightarrow> int \<Rightarrow> bool" where
  "nonzero_uint bits v n \<longleftrightarrow> js_uint v = Some n \<and> uint_fits bits n \<and> n \<noteq> 0"

definition js_address :: "ethers \<Rightarrow> js_value \<Rightarrow> string \<Rightarrow> bool" where
  "js_address E v a \<longleftrightarrow> (\<exists>s. v = StringVal s \<and> is_address E False s a)"

definition enrollment_content :: "ethers \<Rightarrow> record_argument \<Rightarrow> abi_value list \<Rightarrow> bool" where
  "enrollment_content E input ws \<longleftrightarrow>
     (\<exists>ps cid acc ch ep re ve ex. input = PlainObject ps \<and> fst ` set ps = set ENROLLMENT_OWN_KEYS \<and>
        js_bytes32 E False (snap ps ''ceremonyId'') cid \<and> js_address E (snap ps ''account'') acc \<and>
        nonzero_uint 256 (snap ps ''chainId'') ch \<and> js_address E (snap ps ''entryPoint'') ep \<and>
        js_bytes32 E True (snap ps ''accountVersionId'') (toLowerCase (PHILCORE_V2_LOCAL_ACCOUNT_VERSION_ID E)) \<and>
        js_bytes32 E True (snap ps ''securityModelId'') (toLowerCase (PHILCORE_V2_LOCAL_SECURITY_MODEL_ID E)) \<and>
        js_bytes32 E True (snap ps ''recoveryDomainId'') (toLowerCase (PHILCORE_V2_LOCAL_RECOVERY_DOMAIN_ID E)) \<and>
        nonzero_uint 64 (snap ps ''expectedRecoveryEpoch'') re \<and> nonzero_uint 64 (snap ps ''expectedValidatorEpoch'') ve \<and>
        nonzero_uint 48 (snap ps ''expiresAt'') ex \<and> ws = enrollment_words E cid acc ch ep re ve ex)"

definition proof_content :: "ethers \<Rightarrow> record_argument \<Rightarrow> abi_value list \<Rightarrow> bool" where
  "proof_content E input ws \<longleftrightarrow>
     (\<exists>ps ceh ibh fc gen acc ch ep signer. input = PlainObject ps \<and> fst ` set ps = set PROOF_OWN_KEYS \<and>
        js_uint (snap ps ''proofVersion'') = Some 1 \<and>
        js_bytes32 E False (snap ps ''enrollmentCeremonyHash'') ceh \<and>
        js_bytes32 E False (snap ps ''independenceBindingHash'') ibh \<and>
        js_bytes32 E False (snap ps ''factorCommitment'') fc \<and> nonzero_uint 64 (snap ps ''credentialGeneration'') gen \<and>
        js_address E (snap ps ''account'') acc \<and> nonzero_uint 256 (snap ps ''chainId'') ch \<and>
        js_address E (snap ps ''entryPoint'') ep \<and> js_address E (snap ps ''signer'') signer \<and>
        ws = [AbiUint 1, AbiHex ceh, AbiHex ibh, AbiHex fc, AbiUint gen, AbiHex acc, AbiUint ch, AbiHex ep, AbiHex signer])"

lemmas content_defs = js_bytes32_def [symmetric] js_address_def [symmetric] nonzero_uint_def [symmetric]

lemma enrollment_commitment:
  "keccak256 E (HexData (abiEncode E PHILCORE_V2_LOCAL_ENROLLMENT_CEREMONY_ABI_TYPES
     (AbiHex (PHILCORE_V2_LOCAL_ENROLLMENT_CEREMONY_TYPEHASH E) # ws))) =
   commitment E PHILCORE_V2_LOCAL_ENROLLMENT_CEREMONY_LITERAL enrollment_types ws"
  by (simp add: commitment_def commitment_preimage_def literal_hash_def enrollment_types_def
      PHILCORE_V2_LOCAL_ENROLLMENT_CEREMONY_TYPEHASH_def PHILCORE_V2_LOCAL_ENROLLMENT_CEREMONY_ABI_TYPES_def)

lemma proof_commitment:
  "keccak256 E (HexData (abiEncode E PHILCORE_V2_LOCAL_ROLE2_CEREMONY_PROOF_ABI_TYPES
     (AbiHex (PHILCORE_V2_LOCAL_ROLE2_CEREMONY_PROOF_TYPEHASH E) # ws))) =
   commitment E PHILCORE_V2_LOCAL_ROLE2_CEREMONY_PROOF_LITERAL proof_types ws"
  by (simp add: commitment_def commitment_preimage_def literal_hash_def proof_types_def
      PHILCORE_V2_LOCAL_ROLE2_CEREMONY_PROOF_TYPEHASH_def PHILCORE_V2_LOCAL_ROLE2_CEREMONY_PROOF_ABI_TYPES_def)

lemma enrollment_hash_iff:
  "computePhilCoreV2LocalEnrollmentCeremonyHash E input = Inr h \<longleftrightarrow>
     (\<exists>ws. enrollment_content E input ws \<and>
        h = commitment E PHILCORE_V2_LOCAL_ENROLLMENT_CEREMONY_LITERAL enrollment_types ws)"
  unfolding computePhilCoreV2LocalEnrollmentCeremonyHash_def enrollment_commitment bnd_eq_Inr
    local_plain_object_iff local_exact_own_keys_iff local_bytes32_iff local_nonzero_address_iff
    local_nonzero_uint_iff local_pinned_bytes32_iff content_defs enrollment_content_def enrollment_words_def sum.inject
  by (intro iffI; elim exE conjE; hypsubst; intro exI conjI; (assumption | rule refl TrueI))

lemma proof_digest_iff:
  "computePhilCoreV2LocalRole2CeremonyProofDigest E input = Inr h \<longleftrightarrow>
     (\<exists>ws. proof_content E input ws \<and>
        h = commitment E PHILCORE_V2_LOCAL_ROLE2_CEREMONY_PROOF_LITERAL proof_types ws)"
proof -
  have one: "uint_fits 8 1" by (simp add: uint_fits_def)
  show ?thesis
    unfolding computePhilCoreV2LocalRole2CeremonyProofDigest_def proof_commitment bnd_eq_Inr
      local_plain_object_iff local_exact_own_keys_iff local_bytes32_iff local_nonzero_address_iff
      local_nonzero_uint_iff local_canonical_uint_iff check_iff content_defs proof_content_def sum.inject
      PHILCORE_V2_LOCAL_ROLE2_PROOF_VERSION_def
    by (intro iffI; elim exE conjE; hypsubst; intro exI conjI; (assumption | rule refl TrueI one))
qed

lemma enrollment_fits:
  assumes "ethers_laws E" and "enrollment_content E input ws"
  shows "list_all2 (abi_fits E) enrollment_types ws"
  using assms(2) is_bytes32_abi [OF assms(1)] is_address_abi [OF assms(1)]
  unfolding enrollment_content_def enrollment_types_def PHILCORE_V2_LOCAL_ENROLLMENT_CEREMONY_ABI_TYPES_def
    enrollment_words_def js_bytes32_def js_address_def nonzero_uint_def
  by (elim exE conjE) (simp del: abi_fits.simps add: abi_fits.simps(1))

lemma proof_fits:
  assumes "ethers_laws E" and "proof_content E input ws"
  shows "list_all2 (abi_fits E) proof_types ws"
  using assms(2) is_bytes32_abi [OF assms(1)] is_address_abi [OF assms(1)]
  unfolding proof_content_def proof_types_def PHILCORE_V2_LOCAL_ROLE2_CEREMONY_PROOF_ABI_TYPES_def
    js_bytes32_def js_address_def nonzero_uint_def
  by (elim exE conjE) (simp del: abi_fits.simps add: abi_fits.simps(1) uint_fits_def)

interpretation local_enrollment: committing computePhilCoreV2LocalEnrollmentCeremonyHash
  PHILCORE_V2_LOCAL_ENROLLMENT_CEREMONY_LITERAL enrollment_types enrollment_content
  by unfold_locales (metis enrollment_hash_iff enrollment_fits)

interpretation local_proof: committing computePhilCoreV2LocalRole2CeremonyProofDigest
  PHILCORE_V2_LOCAL_ROLE2_CEREMONY_PROOF_LITERAL proof_types proof_content
  by unfold_locales (metis proof_digest_iff proof_fits)

section \<open>The signer of a digest\<close>

lemma hex_not_space: "hex_digit c \<Longrightarrow> \<not> js_space c"
  by (auto simp: hex_digit_def js_space_def)

lemma BigInt_hex_string:
  assumes "hex_string s (Suc n)"
  shows "\<exists>i \<ge> 0. BigInt_of (StringV s) = Inr i"
proof -
  from assms have s: "s = CHR ''0'' # CHR ''x'' # drop 2 s" and d: "list_all hex_digit (drop 2 s)" "drop 2 s \<noteq> []"
    unfolding hex_string_def using append_take_drop_id [of 2 s] by (auto simp del: append_take_drop_id)
  have "\<not> js_space (last s)"
    using d hex_not_space last_in_set [OF d(2)] by (subst s) (auto simp: list_all_iff)
  moreover have "s \<noteq> []" using s by auto
  ultimately have "dropWhile js_space (rev s) = rev s"
    by (cases s rule: rev_cases) auto
  moreover have "dropWhile js_space s = s" by (subst (1 2) s) (simp add: js_space_def)
  ultimately have trim: "trim s = s" by (simp add: trim_def)
  have "based_digit_value c < 16" if "hex_digit c" for c
    using that unfolding based_digit_value_def Let_def of_char_lower_char hex_digit_def by auto
  then have "list_all (\<lambda>c. hex_digit c \<and> based_digit_value c < 16) (drop 2 s)" using d(1) by (auto simp: list_all_iff)
  then have "read_based 16 (drop 2 s) = Some (int (foldl (\<lambda>acc c. 16 * acc + based_digit_value c) 0 (drop 2 s)))"
    using d(2) by (simp add: read_based_def)
  then obtain n :: nat where "read_based 16 (drop 2 s) = Some (int n)" by blast
  moreover have "string_to_bigint s = read_based 16 (drop 2 s)"
    unfolding string_to_bigint_def Let_def trim by (subst s) simp
  ultimately show ?thesis by simp
qed

lemma of_coded_not_thrown [simp]: "of_coded m \<noteq> Inl (ThrownError e)"
  by (cases m) auto

lemma bnd_Inl: "bnd m f = Inl e \<longleftrightarrow> m = Inl e \<or> (\<exists>x. m = Inr x \<and> f x = Inl e)"
  by (cases m) auto

lemma BigInt_word:
  assumes "ethers_laws E" and "isHexString E s 32"
  shows "of_thrown (BigInt_of (StringV (toLowerCase s))) \<noteq> Inl (ThrownError e)"
proof -
  have "hex_string (toLowerCase s) (Suc 31)" using assms by (simp add: laws_isHexString hex_string_lower)
  from BigInt_hex_string [OF this] obtain i where "BigInt_of (StringV (toLowerCase s)) = Inr i" by blast
  then show ?thesis by (simp del: BigInt_of.simps)
qed

lemma signer_no_throw:
  assumes "ethers_laws E"
  shows "recoverCanonicalSecp256k1Signer E rec d sig \<noteq> Inl (ThrownError e)"
  using BigInt_word [OF assms]
  unfolding recoverCanonicalSecp256k1Signer_def
  by (auto simp: bnd_Inl of_coded_iff signature_word_iff simp del: BigInt_of.simps split: option.splits)

lemma signer_iff:
  assumes "ethers_laws E"
  shows "recoverCanonicalSecp256k1Signer E rec d sig = Inr a \<longleftrightarrow>
    (\<exists>ds ps vr vs v r s. d = StringVal ds \<and> hex_string ds 32 \<and> sig = PlainObject ps \<and>
       fst ` set ps = {''r'', ''s'', ''v''} \<and> snap ps ''r'' = StringVal vr \<and> hex_string vr 32 \<and>
       snap ps ''s'' = StringVal vs \<and> hex_string vs 32 \<and>
       snap ps ''v'' = NumberVal (IntegerNumber v) \<and> v \<in> {27, 28} \<and>
       BigInt_of (StringV (toLowerCase vr)) = Inr r \<and> 0 < r \<and> r < PHILCORE_O37_2_SECP256K1_ORDER \<and>
       BigInt_of (StringV (toLowerCase vs)) = Inr s \<and> 0 < s \<and> s \<le> PHILCORE_O37_2_SECP256K1_ORDER div 2 \<and>
       rec (toLowerCase ds) vr vs v = Some a)"
proof -
  have last: "(case x of None \<Rightarrow> Inl e | Some y \<Rightarrow> Inr y) = Inr a \<longleftrightarrow> x = Some a" for x :: "string option" and e :: signer_error
    by (cases x) auto
  have keys: "set SIGNATURE_OWN_KEYS = {''r'', ''s'', ''v''}" by (simp add: SIGNATURE_OWN_KEYS_def)
  have half: "s < PHILCORE_O37_2_SECP256K1_ORDER" if "0 < s" "s \<le> PHILCORE_O37_2_SECP256K1_ORDER div 2" for s
    using that by linarith
  show ?thesis
    unfolding recoverCanonicalSecp256k1Signer_def bnd_eq_Inr of_coded_iff of_thrown_iff signature_word_iff
      signature_v_iff local_plain_object_iff local_exact_own_keys_iff check_iff last keys laws_isHexString [OF assms]
      PHILCORE_O37_2_SECP256K1_HALF_ORDER_def de_Morgan_disj not_le not_less
    by (intro iffI; elim exE conjE; hypsubst; intro exI conjI; (assumption | rule refl TrueI half))
qed

text \<open>
  Recovery of the signer of a digest never throws anything but the errors of its codes, and it succeeds exactly for a
  digest of 32 bytes and a signature with the three properties of an \<open>r\<close> and an \<open>s\<close> of 32 bytes and a \<open>v\<close> of 27
  or 28, where \<open>r\<close> is in the range of the group order and \<open>s\<close> is in its lower half, when
  the library recovers an address, which is returned. So a signature with the opposite \<open>s\<close> is never accepted.
\<close>

theorem signer_recovery:
  assumes "ethers_laws E"
  shows "recoverCanonicalSecp256k1Signer E rec d sig \<noteq> Inl (ThrownError e) \<and>
    (recoverCanonicalSecp256k1Signer E rec d sig = Inr a \<longleftrightarrow>
      (\<exists>ds ps vr vs v r s. d = StringVal ds \<and> hex_string ds 32 \<and> sig = PlainObject ps \<and>
         fst ` set ps = {''r'', ''s'', ''v''} \<and> snap ps ''r'' = StringVal vr \<and> hex_string vr 32 \<and>
         snap ps ''s'' = StringVal vs \<and> hex_string vs 32 \<and>
         snap ps ''v'' = NumberVal (IntegerNumber v) \<and> v \<in> {27, 28} \<and>
         BigInt_of (StringV (toLowerCase vr)) = Inr r \<and> 0 < r \<and> r < PHILCORE_O37_2_SECP256K1_ORDER \<and>
         BigInt_of (StringV (toLowerCase vs)) = Inr s \<and> 0 < s \<and> s \<le> PHILCORE_O37_2_SECP256K1_ORDER div 2 \<and>
         rec (toLowerCase ds) vr vs v = Some a))"
  by (intro conjI signer_no_throw signer_iff assms)

definition sample_word :: "nat \<Rightarrow> string" where
  "sample_word n = hex_bytes (be_bytes 32 n)"

lemma sample_word_facts:
  assumes "n < 256 ^ 32"
  shows "hex_string (sample_word n) 32" "BigInt_of (StringV (toLowerCase (sample_word n))) = Inr (int n)"
proof -
  have "be_bytes 32 n \<noteq> []" using length_be_bytes [of 32 n] by (metis list.size(3) zero_neq_numeral)
  then show "hex_string (sample_word n) 32" "BigInt_of (StringV (toLowerCase (sample_word n))) = Inr (int n)"
    using hex_bytes_string [of "be_bytes 32 n"] BigInt_hex_bytes [of "be_bytes 32 n"] assms
    by (simp_all add: sample_word_def be_value_bytes del: BigInt_of.simps)
qed

theorem signer_recovery_witness:
  "recoverCanonicalSecp256k1Signer sample_ethers (\<lambda>_ _ _ _. Some (a20 (CHR ''a''))) (StringVal (h32 (CHR ''c'')))
     (PlainObject [(''r'', StringVal (sample_word 1)), (''s'', StringVal (sample_word 2)),
        (''v'', NumberVal (IntegerNumber 27))]) = Inr (a20 (CHR ''a''))"
proof -
  let ?w = sample_word
  show ?thesis
    unfolding conjunct2 [OF signer_recovery [OF sample_ethers_laws]]
    by (rule exI [of _ "h32 (CHR ''c'')"], rule exI [of _ "[(''r'', StringVal (?w 1)), (''s'', StringVal (?w 2)),
          (''v'', NumberVal (IntegerNumber 27))]"], rule exI [of _ "?w 1"], rule exI [of _ "?w 2"],
        rule exI [of _ 27], rule exI [of _ "int 1"], rule exI [of _ "int 2"])
       (simp add: literal_simps sample_word_facts snap_def PHILCORE_O37_2_SECP256K1_ORDER_def insert_commute
        del: BigInt_of.simps)
qed

section \<open>Separation of the commitments\<close>

lemmas commitment_literals = PHILCORE_V2_LOCAL_GENESIS_ENROLLMENT_CEREMONY_LITERAL_def
  PHILCORE_V2_LOCAL_GENESIS_DEPLOYMENT_INTENT_LITERAL_def PHILCORE_V2_LOCAL_ENROLLMENT_CEREMONY_LITERAL_def
  PHILCORE_V2_LOCAL_ROLE2_CEREMONY_PROOF_LITERAL_def

interpretation genesis_local: separated_commitments computePhilCoreV2LocalGenesisEnrollmentCeremonyHash
  PHILCORE_V2_LOCAL_GENESIS_ENROLLMENT_CEREMONY_LITERAL CEREMONY_ABI_TYPES "\<lambda>E. object_words E ceremony_fields"
  computePhilCoreV2LocalEnrollmentCeremonyHash PHILCORE_V2_LOCAL_ENROLLMENT_CEREMONY_LITERAL enrollment_types
  enrollment_content
  by unfold_locales (simp add: commitment_literals)

interpretation intent_local: separated_commitments computePhilCoreV2LocalGenesisDeploymentIntentHash
  PHILCORE_V2_LOCAL_GENESIS_DEPLOYMENT_INTENT_LITERAL INTENT_ABI_TYPES "\<lambda>E. object_words E (intent_fields E)"
  computePhilCoreV2LocalEnrollmentCeremonyHash PHILCORE_V2_LOCAL_ENROLLMENT_CEREMONY_LITERAL enrollment_types
  enrollment_content
  by unfold_locales (simp add: commitment_literals)

interpretation local_role2: separated_commitments computePhilCoreV2LocalEnrollmentCeremonyHash
  PHILCORE_V2_LOCAL_ENROLLMENT_CEREMONY_LITERAL enrollment_types enrollment_content
  computePhilCoreV2LocalRole2CeremonyProofDigest PHILCORE_V2_LOCAL_ROLE2_CEREMONY_PROOF_LITERAL proof_types proof_content
  by unfold_locales (simp add: commitment_literals)

end
