(* ===== verification/RecoveryCeremony.thy ===== *)
theory RecoveryCeremony
  imports LocalCeremony Ceremony
begin

text \<open>
  The ceremony of a deployed account (\<open>v2ConsumerRecoveryCeremonyLifecycle.ts\<close>): it is minted for the
  context an account is expected in, lives 300 seconds, and is ended by cancellation or expiry. The
  record in the slot is a typed argument here; identifier, clock and expectations are checked.
\<close>

section \<open>Constants and records\<close>

definition UINT48_MAX :: int where
  "UINT48_MAX = push_bit 48 1 - 1"

definition PHILCORE_V2_RECOVERY_CEREMONY_TTL_SECONDS :: int where
  "PHILCORE_V2_RECOVERY_CEREMONY_TTL_SECONDS = 300"

definition PHILCORE_V2_RECOVERY_CEREMONY_ACCOUNT_VERSION_ID :: "ethers \<Rightarrow> string" where
  "PHILCORE_V2_RECOVERY_CEREMONY_ACCOUNT_VERSION_ID E = PHILCORE_V2_LOCAL_ACCOUNT_VERSION_ID E"

definition PHILCORE_V2_RECOVERY_CEREMONY_SECURITY_MODEL_ID :: "ethers \<Rightarrow> string" where
  "PHILCORE_V2_RECOVERY_CEREMONY_SECURITY_MODEL_ID E = PHILCORE_V2_LOCAL_SECURITY_MODEL_ID E"

definition PHILCORE_V2_RECOVERY_CEREMONY_RECOVERY_DOMAIN_ID :: "ethers \<Rightarrow> string" where
  "PHILCORE_V2_RECOVERY_CEREMONY_RECOVERY_DOMAIN_ID E = PHILCORE_V2_LOCAL_RECOVERY_DOMAIN_ID E"

datatype PhilCoreV2ConsumerRecoveryCeremonyState = CEREMONY_ACTIVE | CEREMONY_ENDED

text \<open>The end reasons; \<open>null\<close> is \<open>None\<close>.\<close>

datatype PhilCoreV2ConsumerRecoveryCeremonyEndReason = CEREMONY_CANCELLED | CEREMONY_EXPIRED

record PhilCoreV2ConsumerRecoveryCeremonyRecord =
  rc_state :: PhilCoreV2ConsumerRecoveryCeremonyState
  rc_endReason :: "PhilCoreV2ConsumerRecoveryCeremonyEndReason option"
  rc_ceremonyId :: string
  rc_mintedAtUnixSeconds :: int
  rc_expiresAtUnixSeconds :: int
  rc_lastObservedAtUnixSeconds :: int
  rc_accountVersionId :: string
  rc_securityModelId :: string
  rc_recoveryDomainId :: string
  rc_account :: string
  rc_chainId :: int
  rc_entryPoint :: string
  rc_expectedRecoveryEpoch :: int
  rc_expectedValidatorEpoch :: int
  rc_enrollmentCeremonyHash :: string

record PhilCoreV2ConsumerRecoveryCeremonyExpectations =
  ex_account :: string
  ex_chainId :: int
  ex_entryPoint :: string
  ex_expectedRecoveryEpoch :: int
  ex_expectedValidatorEpoch :: int

definition EXPECTATION_KEYS :: "string list" where
  "EXPECTATION_KEYS = [''account'', ''chainId'', ''entryPoint'', ''expectedRecoveryEpoch'', ''expectedValidatorEpoch'']"

text \<open>
  The errors: of the file, with their code, and those of the commitment, whose code belongs to
  another class and which are not caught.
\<close>

datatype ceremony_error = LifecycleError string | ProtocolError string

type_synonym 'a lifecycle = "ceremony_error + 'a"

definition demand_that :: "bool \<Rightarrow> string \<Rightarrow> unit lifecycle" where
  "demand_that c code = (if c then Inr () else Inl (LifecycleError code))"

fun protocol_call :: "'a coded \<Rightarrow> 'a lifecycle" where
  "protocol_call (Inl code) = Inl (ProtocolError code)"
| "protocol_call (Inr x) = Inr x"

section \<open>Checks\<close>

fun requirePositiveSafeIntegerNow :: "js_value \<Rightarrow> int lifecycle" where
  "requirePositiveSafeIntegerNow (NumberVal (IntegerNumber i)) =
     bnd (demand_that (\<not> (\<not> isSafeInteger (IntegerNumber i) \<or> i \<le> 0)) ''INVALID_NOW'') (\<lambda>_. Inr i)"
| "requirePositiveSafeIntegerNow _ = Inl (LifecycleError ''INVALID_NOW'')"

definition assertNoClockRegression :: "int \<Rightarrow> int \<Rightarrow> unit lifecycle" where
  "assertNoClockRegression now lastObserved = demand_that (\<not> now < lastObserved) ''CLOCK_REGRESSION_DETECTED''"

fun requireCeremonyId :: "ethers \<Rightarrow> js_value \<Rightarrow> string lifecycle" where
  "requireCeremonyId E (StringVal s) =
     bnd (demand_that (isHexString E s 32) ''INVALID_INJECTED_CEREMONY_ID'') (\<lambda>_.
     bnd (demand_that (toLowerCase s \<noteq> ZERO_BYTES32) ''INVALID_INJECTED_CEREMONY_ID'') (\<lambda>_.
     Inr (toLowerCase s)))"
| "requireCeremonyId E _ = Inl (LifecycleError ''INVALID_INJECTED_CEREMONY_ID'')"

definition expectation_parse :: "string \<Rightarrow> nat \<Rightarrow> int lifecycle" where
  "expectation_parse asString bits =
     catch (BigInt_of (StringV asString)) (Inl (LifecycleError ''INVALID_EXPECTED_CONTEXT'')) (\<lambda>parsed.
     bnd (demand_that (\<not> (parsed < 0 \<or> parsed \<ge> 2 ^ bits)) ''INVALID_EXPECTED_CONTEXT'') (\<lambda>_. Inr parsed))"

fun expectation_uint :: "js_value \<Rightarrow> nat \<Rightarrow> int lifecycle" where
  "expectation_uint (BigIntVal i) bits =
     bnd (demand_that (\<not> i < 0) ''INVALID_EXPECTED_CONTEXT'') (\<lambda>_. expectation_parse (show_int i) bits)"
| "expectation_uint (StringVal s) bits =
     bnd (demand_that (canonical_uint s) ''INVALID_EXPECTED_CONTEXT'') (\<lambda>_. expectation_parse s bits)"
| "expectation_uint _ bits = Inl (LifecycleError ''INVALID_EXPECTED_CONTEXT'')"

fun expectation_address :: "ethers \<Rightarrow> js_value \<Rightarrow> string lifecycle" where
  "expectation_address E (StringVal s) =
     (case getAddress E s of
        None \<Rightarrow> Inl (LifecycleError ''INVALID_EXPECTED_CONTEXT'')
      | Some normalized \<Rightarrow>
          bnd (demand_that (normalized \<noteq> ZERO_ADDRESS) ''INVALID_EXPECTED_CONTEXT'') (\<lambda>_. Inr normalized))"
| "expectation_address E _ = Inl (LifecycleError ''INVALID_EXPECTED_CONTEXT'')"

fun expectation_keys :: "record_argument \<Rightarrow> (string \<times> js_value) list lifecycle" where
  "expectation_keys NotPlainObject = Inl (LifecycleError ''INVALID_EXPECTED_CONTEXT'')"
| "expectation_keys (PlainObject ps) =
     bnd (traverse (\<lambda>key. demand_that (key \<in> set EXPECTATION_KEYS) ''INVALID_EXPECTED_CONTEXT'') (map fst ps)) (\<lambda>_.
     bnd (traverse (\<lambda>key. demand_that (map_of ps key \<noteq> None) ''INVALID_EXPECTED_CONTEXT'') EXPECTATION_KEYS) (\<lambda>_.
     Inr ps))"

definition normalizeExpectations ::
  "ethers \<Rightarrow> record_argument \<Rightarrow> PhilCoreV2ConsumerRecoveryCeremonyExpectations lifecycle" where
  "normalizeExpectations E v =
     (let invalid = ''INVALID_EXPECTED_CONTEXT'' in
     bnd (expectation_keys v) (\<lambda>input.
     bnd (expectation_address E (snap input ''account'')) (\<lambda>account.
     bnd (expectation_uint (snap input ''chainId'') 256) (\<lambda>chainId.
     bnd (demand_that (chainId \<noteq> 0) invalid) (\<lambda>_.
     bnd (expectation_address E (snap input ''entryPoint'')) (\<lambda>entryPoint.
     bnd (expectation_uint (snap input ''expectedRecoveryEpoch'') 64) (\<lambda>recoveryEpoch.
     bnd (demand_that (recoveryEpoch \<noteq> 0) invalid) (\<lambda>_.
     bnd (expectation_uint (snap input ''expectedValidatorEpoch'') 64) (\<lambda>validatorEpoch.
     bnd (demand_that (validatorEpoch \<noteq> 0) invalid) (\<lambda>_.
     Inr \<lparr>ex_account = account, ex_chainId = chainId, ex_entryPoint = entryPoint,
          ex_expectedRecoveryEpoch = recoveryEpoch, ex_expectedValidatorEpoch = validatorEpoch\<rparr>))))))))))"

definition normalizePhilCoreV2ConsumerRecoveryCeremonyExpectations ::
  "ethers \<Rightarrow> record_argument \<Rightarrow> PhilCoreV2ConsumerRecoveryCeremonyExpectations lifecycle" where
  "normalizePhilCoreV2ConsumerRecoveryCeremonyExpectations E v = normalizeExpectations E v"

section \<open>Transitions\<close>

definition buildActiveRecord ::
  "ethers \<Rightarrow> string \<Rightarrow> int \<Rightarrow> PhilCoreV2ConsumerRecoveryCeremonyExpectations \<Rightarrow>
     PhilCoreV2ConsumerRecoveryCeremonyRecord lifecycle" where
  "buildActiveRecord E ceremonyId now expectations =
     bnd (demand_that (\<not> now > UINT48_MAX - PHILCORE_V2_RECOVERY_CEREMONY_TTL_SECONDS) ''EXPIRY_OVERFLOW'') (\<lambda>_.
     let expiresAt = now + PHILCORE_V2_RECOVERY_CEREMONY_TTL_SECONDS in
     bnd (protocol_call (computePhilCoreV2LocalEnrollmentCeremonyHash E (PlainObject
       [(''ceremonyId'', StringVal ceremonyId), (''account'', StringVal (ex_account expectations)),
        (''chainId'', BigIntVal (ex_chainId expectations)), (''entryPoint'', StringVal (ex_entryPoint expectations)),
        (''accountVersionId'', StringVal (PHILCORE_V2_RECOVERY_CEREMONY_ACCOUNT_VERSION_ID E)),
        (''securityModelId'', StringVal (PHILCORE_V2_RECOVERY_CEREMONY_SECURITY_MODEL_ID E)),
        (''recoveryDomainId'', StringVal (PHILCORE_V2_RECOVERY_CEREMONY_RECOVERY_DOMAIN_ID E)),
        (''expectedRecoveryEpoch'', BigIntVal (ex_expectedRecoveryEpoch expectations)),
        (''expectedValidatorEpoch'', BigIntVal (ex_expectedValidatorEpoch expectations)),
        (''expiresAt'', BigIntVal expiresAt)]))) (\<lambda>enrollmentCeremonyHash.
     Inr \<lparr>rc_state = CEREMONY_ACTIVE, rc_endReason = None, rc_ceremonyId = ceremonyId,
          rc_mintedAtUnixSeconds = now, rc_expiresAtUnixSeconds = expiresAt, rc_lastObservedAtUnixSeconds = now,
          rc_accountVersionId = PHILCORE_V2_RECOVERY_CEREMONY_ACCOUNT_VERSION_ID E,
          rc_securityModelId = PHILCORE_V2_RECOVERY_CEREMONY_SECURITY_MODEL_ID E,
          rc_recoveryDomainId = PHILCORE_V2_RECOVERY_CEREMONY_RECOVERY_DOMAIN_ID E,
          rc_account = ex_account expectations, rc_chainId = ex_chainId expectations,
          rc_entryPoint = ex_entryPoint expectations,
          rc_expectedRecoveryEpoch = ex_expectedRecoveryEpoch expectations,
          rc_expectedValidatorEpoch = ex_expectedValidatorEpoch expectations,
          rc_enrollmentCeremonyHash = enrollmentCeremonyHash\<rparr>))"

text \<open>\<open>withObservation\<close> with the patches it is called with: none, or an end with a reason.\<close>

fun withObservation ::
  "PhilCoreV2ConsumerRecoveryCeremonyRecord \<Rightarrow> int \<Rightarrow> PhilCoreV2ConsumerRecoveryCeremonyEndReason option \<Rightarrow>
     PhilCoreV2ConsumerRecoveryCeremonyRecord" where
  "withObservation r now None = r\<lparr>rc_lastObservedAtUnixSeconds := now\<rparr>"
| "withObservation r now (Some reason) =
     r\<lparr>rc_state := CEREMONY_ENDED, rc_endReason := Some reason, rc_lastObservedAtUnixSeconds := now\<rparr>"

definition expireIfNeeded ::
  "PhilCoreV2ConsumerRecoveryCeremonyRecord \<Rightarrow> int \<Rightarrow> PhilCoreV2ConsumerRecoveryCeremonyRecord lifecycle" where
  "expireIfNeeded r now =
     bnd (demand_that (rc_state r = CEREMONY_ACTIVE) ''CEREMONY_NOT_ACTIVE'') (\<lambda>_.
     bnd (assertNoClockRegression now (rc_lastObservedAtUnixSeconds r)) (\<lambda>_.
     if now \<ge> rc_expiresAtUnixSeconds r then Inr (withObservation r now (Some CEREMONY_EXPIRED))
     else Inr (withObservation r now None)))"

definition mintPhilCoreV2ConsumerRecoveryCeremony ::
  "ethers \<Rightarrow> PhilCoreV2ConsumerRecoveryCeremonyRecord option \<Rightarrow> js_value \<Rightarrow> js_value \<Rightarrow> record_argument \<Rightarrow>
     PhilCoreV2ConsumerRecoveryCeremonyRecord lifecycle" where
  "mintPhilCoreV2ConsumerRecoveryCeremony E current ceremonyId nowUnixSeconds expectations =
     bnd (case current of
            None \<Rightarrow> Inr ()
          | Some r \<Rightarrow> (case rc_state r of
              CEREMONY_ACTIVE \<Rightarrow> Inl (LifecycleError ''CEREMONY_ALREADY_ACTIVE'')
            | CEREMONY_ENDED \<Rightarrow> Inl (LifecycleError ''CEREMONY_PENDING_RETIREMENT''))) (\<lambda>_.
     bnd (requirePositiveSafeIntegerNow nowUnixSeconds) (\<lambda>now.
     bnd (requireCeremonyId E ceremonyId) (\<lambda>ceremonyId.
     bnd (normalizeExpectations E expectations) (\<lambda>expectations.
     buildActiveRecord E ceremonyId now expectations))))"

definition cancelPhilCoreV2ConsumerRecoveryCeremony ::
  "PhilCoreV2ConsumerRecoveryCeremonyRecord \<Rightarrow> js_value \<Rightarrow> PhilCoreV2ConsumerRecoveryCeremonyRecord lifecycle" where
  "cancelPhilCoreV2ConsumerRecoveryCeremony current nowUnixSeconds =
     bnd (requirePositiveSafeIntegerNow nowUnixSeconds) (\<lambda>now.
     bnd (demand_that (rc_state current = CEREMONY_ACTIVE) ''CEREMONY_NOT_ACTIVE'') (\<lambda>_.
     bnd (assertNoClockRegression now (rc_lastObservedAtUnixSeconds current)) (\<lambda>_.
     if now \<ge> rc_expiresAtUnixSeconds current then Inr (withObservation current now (Some CEREMONY_EXPIRED))
     else Inr (withObservation current now (Some CEREMONY_CANCELLED)))))"

definition checkPhilCoreV2ConsumerRecoveryCeremonyExpiry ::
  "PhilCoreV2ConsumerRecoveryCeremonyRecord \<Rightarrow> js_value \<Rightarrow> PhilCoreV2ConsumerRecoveryCeremonyRecord lifecycle" where
  "checkPhilCoreV2ConsumerRecoveryCeremonyExpiry current nowUnixSeconds =
     bnd (requirePositiveSafeIntegerNow nowUnixSeconds) (\<lambda>now. expireIfNeeded current now)"

definition evaluatePhilCoreV2ConsumerRecoveryCeremonyStatus ::
  "PhilCoreV2ConsumerRecoveryCeremonyRecord \<Rightarrow> js_value \<Rightarrow> PhilCoreV2ConsumerRecoveryCeremonyRecord lifecycle" where
  "evaluatePhilCoreV2ConsumerRecoveryCeremonyStatus current nowUnixSeconds =
     bnd (requirePositiveSafeIntegerNow nowUnixSeconds) (\<lambda>now.
     if rc_state current = CEREMONY_ACTIVE then expireIfNeeded current now
     else bnd (assertNoClockRegression now (rc_lastObservedAtUnixSeconds current)) (\<lambda>_.
          Inr (withObservation current now None)))"

section \<open>What the checks accept\<close>

lemma demand_that_iff [result_simps]: "demand_that c code = Inr u \<longleftrightarrow> c"
  by (simp add: demand_that_def)

lemma demand_that_eval [simp]: "demand_that True code = Inr ()" "demand_that False code = Inl (LifecycleError code)"
  by (simp_all add: demand_that_def)

lemma protocol_call_iff [result_simps]: "protocol_call m = Inr x \<longleftrightarrow> m = Inr x"
  by (cases m) auto

lemma now_iff [result_simps]:
  "requirePositiveSafeIntegerNow v = Inr n \<longleftrightarrow> v = NumberVal (IntegerNumber n) \<and> 0 < n \<and> n < 2 ^ 53"
  by (cases v rule: requirePositiveSafeIntegerNow.cases) (auto simp: result_simps MAX_SAFE_INTEGER_def)

lemma assertNoClockRegression_iff [result_simps]: "assertNoClockRegression n l = Inr u \<longleftrightarrow> l \<le> n"
  by (auto simp: assertNoClockRegression_def result_simps)

lemma requireCeremonyId_iff [result_simps]:
  "requireCeremonyId E v = Inr t \<longleftrightarrow> js_bytes32 E False v t"
  by (cases v) (auto simp: result_simps js_bytes32_def is_bytes32_def)

lemma expectation_uint_iff [result_simps]:
  "expectation_uint v bits = Inr n \<longleftrightarrow> js_uint v = Some n \<and> uint_fits bits n"
proof (cases v)
  case (BigIntVal i)
  then show ?thesis
    by (cases "0 \<le> i") (auto simp: result_simps expectation_parse_def BigInt_show_int uint_fits_def simp del: BigInt_of.simps)
next
  case (StringVal s)
  then show ?thesis
    by (cases "canonical_uint s")
       (auto simp: result_simps expectation_parse_def BigInt_decimal dest!: canonical_uint_digits simp del: BigInt_of.simps
        simp add: uint_fits_def)
qed simp_all

lemma expectation_address_iff [result_simps]: "expectation_address E v = Inr a \<longleftrightarrow> js_address E v a"
  by (cases v) (auto simp: result_simps js_address_def is_address_def split: option.splits)

lemma traverse_demand_iff:
  "(\<exists>us. traverse (\<lambda>k. demand_that (f k) code) ks = Inr us) \<longleftrightarrow> (\<forall>k \<in> set ks. f k)"
  by (induction ks) (auto simp: result_simps)

lemma expectation_keys_iff [result_simps]:
  "expectation_keys v = Inr ps \<longleftrightarrow> v = PlainObject ps \<and> fst ` set ps = set EXPECTATION_KEYS"
proof (cases v)
  case (PlainObject qs)
  have "(\<forall>k \<in> set EXPECTATION_KEYS. map_of qs k \<noteq> None) \<longleftrightarrow> set EXPECTATION_KEYS \<subseteq> fst ` set qs"
    by (metis map_of_eq_None_iff subset_eq)
  moreover have "(\<forall>k \<in> set (map fst qs). k \<in> set EXPECTATION_KEYS) \<longleftrightarrow> fst ` set qs \<subseteq> set EXPECTATION_KEYS" by auto
  moreover have "expectation_keys v = Inr ps \<longleftrightarrow>
      (\<exists>us. traverse (\<lambda>key. demand_that (key \<in> set EXPECTATION_KEYS) ''INVALID_EXPECTED_CONTEXT'') (map fst qs) = Inr us) \<and>
      (\<exists>us. traverse (\<lambda>key. demand_that (map_of qs key \<noteq> None) ''INVALID_EXPECTED_CONTEXT'') EXPECTATION_KEYS = Inr us) \<and>
      qs = ps"
    unfolding PlainObject expectation_keys.simps bnd_eq_Inr by auto
  ultimately show ?thesis
    unfolding traverse_demand_iff PlainObject record_argument.inject by (simp only:) blast
qed simp

text \<open>The expectations of an argument.\<close>

definition expects :: "ethers \<Rightarrow> record_argument \<Rightarrow> PhilCoreV2ConsumerRecoveryCeremonyExpectations \<Rightarrow> bool" where
  "expects E v x \<longleftrightarrow> (\<exists>ps. v = PlainObject ps \<and> fst ` set ps = set EXPECTATION_KEYS \<and>
     js_address E (snap ps ''account'') (ex_account x) \<and> nonzero_uint 256 (snap ps ''chainId'') (ex_chainId x) \<and>
     js_address E (snap ps ''entryPoint'') (ex_entryPoint x) \<and>
     nonzero_uint 64 (snap ps ''expectedRecoveryEpoch'') (ex_expectedRecoveryEpoch x) \<and>
     nonzero_uint 64 (snap ps ''expectedValidatorEpoch'') (ex_expectedValidatorEpoch x))"

lemma normalizeExpectations_iff [result_simps]: "normalizeExpectations E v = Inr x \<longleftrightarrow> expects E v x"
proof
  show "expects E v x" if "normalizeExpectations E v = Inr x"
    using that
    unfolding normalizeExpectations_def Let_def bnd_eq_Inr expectation_keys_iff expectation_address_iff
      expectation_uint_iff demand_that_iff sum.inject expects_def nonzero_uint_def
    by (elim exE conjE, hypsubst, simp only: PhilCoreV2ConsumerRecoveryCeremonyExpectations.select_convs, intro exI conjI)
       (assumption | rule refl TrueI notI)+
  assume "expects E v x"
  then obtain ps where ps: "v = PlainObject ps" "fst ` set ps = set EXPECTATION_KEYS"
    "js_address E (snap ps ''account'') (ex_account x)" "nonzero_uint 256 (snap ps ''chainId'') (ex_chainId x)"
    "js_address E (snap ps ''entryPoint'') (ex_entryPoint x)"
    "nonzero_uint 64 (snap ps ''expectedRecoveryEpoch'') (ex_expectedRecoveryEpoch x)"
    "nonzero_uint 64 (snap ps ''expectedValidatorEpoch'') (ex_expectedValidatorEpoch x)"
    unfolding expects_def by blast
  then have "expectation_keys v = Inr ps" "expectation_address E (snap ps ''account'') = Inr (ex_account x)"
    "expectation_uint (snap ps ''chainId'') 256 = Inr (ex_chainId x)" "ex_chainId x \<noteq> 0"
    "expectation_address E (snap ps ''entryPoint'') = Inr (ex_entryPoint x)"
    "expectation_uint (snap ps ''expectedRecoveryEpoch'') 64 = Inr (ex_expectedRecoveryEpoch x)" "ex_expectedRecoveryEpoch x \<noteq> 0"
    "expectation_uint (snap ps ''expectedValidatorEpoch'') 64 = Inr (ex_expectedValidatorEpoch x)" "ex_expectedValidatorEpoch x \<noteq> 0"
    unfolding expectation_keys_iff expectation_address_iff expectation_uint_iff nonzero_uint_def by blast+
  then show "normalizeExpectations E v = Inr x" by (simp add: normalizeExpectations_def)
qed

section \<open>Effects\<close>

text \<open>The record minted from expectations, and its invariant.\<close>

definition enrollment_of :: "ethers \<Rightarrow> string \<Rightarrow> int \<Rightarrow> PhilCoreV2ConsumerRecoveryCeremonyExpectations \<Rightarrow> string" where
  "enrollment_of E cid t x = commitment E PHILCORE_V2_LOCAL_ENROLLMENT_CEREMONY_LITERAL enrollment_types
     (enrollment_words E cid (ex_account x) (ex_chainId x) (ex_entryPoint x) (ex_expectedRecoveryEpoch x)
        (ex_expectedValidatorEpoch x) t)"

definition active_record ::
  "ethers \<Rightarrow> string \<Rightarrow> int \<Rightarrow> PhilCoreV2ConsumerRecoveryCeremonyExpectations \<Rightarrow> PhilCoreV2ConsumerRecoveryCeremonyRecord" where
  "active_record E cid n x =
     \<lparr>rc_state = CEREMONY_ACTIVE, rc_endReason = None, rc_ceremonyId = cid, rc_mintedAtUnixSeconds = n,
      rc_expiresAtUnixSeconds = n + 300, rc_lastObservedAtUnixSeconds = n,
      rc_accountVersionId = PHILCORE_V2_LOCAL_ACCOUNT_VERSION_ID E,
      rc_securityModelId = PHILCORE_V2_LOCAL_SECURITY_MODEL_ID E,
      rc_recoveryDomainId = PHILCORE_V2_LOCAL_RECOVERY_DOMAIN_ID E,
      rc_account = ex_account x, rc_chainId = ex_chainId x, rc_entryPoint = ex_entryPoint x,
      rc_expectedRecoveryEpoch = ex_expectedRecoveryEpoch x, rc_expectedValidatorEpoch = ex_expectedValidatorEpoch x,
      rc_enrollmentCeremonyHash = enrollment_of E cid (n + 300) x\<rparr>"

definition normal_expectations :: "ethers \<Rightarrow> PhilCoreV2ConsumerRecoveryCeremonyExpectations \<Rightarrow> bool" where
  "normal_expectations E x \<longleftrightarrow> is_address E False (ex_account x) (ex_account x) \<and>
     is_address E False (ex_entryPoint x) (ex_entryPoint x) \<and> uint_fits 256 (ex_chainId x) \<and> ex_chainId x \<noteq> 0 \<and>
     uint_fits 64 (ex_expectedRecoveryEpoch x) \<and> ex_expectedRecoveryEpoch x \<noteq> 0 \<and>
     uint_fits 64 (ex_expectedValidatorEpoch x) \<and> ex_expectedValidatorEpoch x \<noteq> 0"

lemma expects_normal: "ethers_laws E \<Longrightarrow> expects E v x \<Longrightarrow> normal_expectations E x"
  unfolding expects_def normal_expectations_def js_address_def nonzero_uint_def
  by (elim exE conjE) (simp add: is_address_stable)

lemma identifiers_bytes32:
  assumes "ethers_laws E"
  shows "js_bytes32 E True (StringVal (PHILCORE_V2_LOCAL_ACCOUNT_VERSION_ID E)) (toLowerCase (PHILCORE_V2_LOCAL_ACCOUNT_VERSION_ID E))"
    "js_bytes32 E True (StringVal (PHILCORE_V2_LOCAL_SECURITY_MODEL_ID E)) (toLowerCase (PHILCORE_V2_LOCAL_SECURITY_MODEL_ID E))"
    "js_bytes32 E True (StringVal (PHILCORE_V2_LOCAL_RECOVERY_DOMAIN_ID E)) (toLowerCase (PHILCORE_V2_LOCAL_RECOVERY_DOMAIN_ID E))"
  by (simp_all add: js_bytes32_def is_bytes32_def laws_isHexString [OF assms] laws_keccak256 [OF assms]
      PHILCORE_V2_LOCAL_ACCOUNT_VERSION_ID_def PHILCORE_V2_LOCAL_SECURITY_MODEL_ID_def PHILCORE_V2_LOCAL_RECOVERY_DOMAIN_ID_def
      PHILCORE_V2_CONSUMER_RECOVERY_ACCOUNT_VERSION_ID_def PHILCORE_V2_SECURITY_MODEL_ID_def
      PHILCORE_V2_CONSUMER_RECOVERY_DOMAIN_ID_def)

lemma nonzero_uint_BigInt: "nonzero_uint bits (BigIntVal i) i \<longleftrightarrow> uint_fits bits i \<and> i \<noteq> 0"
  by (auto simp: nonzero_uint_def uint_fits_def)

lemma enrollment_computed:
  assumes laws: "ethers_laws E" and x: "normal_expectations E x" and cid: "is_bytes32 E False cid cid"
    and t: "0 < t" "t < 2 ^ 48"
  shows "computePhilCoreV2LocalEnrollmentCeremonyHash E (PlainObject
       [(''ceremonyId'', StringVal cid), (''account'', StringVal (ex_account x)),
        (''chainId'', BigIntVal (ex_chainId x)), (''entryPoint'', StringVal (ex_entryPoint x)),
        (''accountVersionId'', StringVal (PHILCORE_V2_LOCAL_ACCOUNT_VERSION_ID E)),
        (''securityModelId'', StringVal (PHILCORE_V2_LOCAL_SECURITY_MODEL_ID E)),
        (''recoveryDomainId'', StringVal (PHILCORE_V2_LOCAL_RECOVERY_DOMAIN_ID E)),
        (''expectedRecoveryEpoch'', BigIntVal (ex_expectedRecoveryEpoch x)),
        (''expectedValidatorEpoch'', BigIntVal (ex_expectedValidatorEpoch x)),
        (''expiresAt'', BigIntVal t)]) = Inr (enrollment_of E cid t x)" (is "_ (PlainObject ?ps) = _")
proof -
  have "fst ` set ?ps = set ENROLLMENT_OWN_KEYS" by (simp add: ENROLLMENT_OWN_KEYS_def)
  moreover have "js_bytes32 E False (StringVal cid) cid" using cid by (simp add: js_bytes32_def)
  moreover have "js_address E (StringVal (ex_account x)) (ex_account x)" "js_address E (StringVal (ex_entryPoint x)) (ex_entryPoint x)"
    using x by (simp_all add: js_address_def normal_expectations_def)
  moreover have "nonzero_uint 256 (BigIntVal (ex_chainId x)) (ex_chainId x)"
    "nonzero_uint 64 (BigIntVal (ex_expectedRecoveryEpoch x)) (ex_expectedRecoveryEpoch x)"
    "nonzero_uint 64 (BigIntVal (ex_expectedValidatorEpoch x)) (ex_expectedValidatorEpoch x)"
    "nonzero_uint 48 (BigIntVal t) t"
    using x t by (simp_all add: nonzero_uint_BigInt normal_expectations_def uint_fits_def)
  ultimately have "enrollment_content E (PlainObject ?ps) (enrollment_words E cid (ex_account x) (ex_chainId x)
      (ex_entryPoint x) (ex_expectedRecoveryEpoch x) (ex_expectedValidatorEpoch x) t)"
    unfolding enrollment_content_def using identifiers_bytes32 [OF laws]
    by (intro exI conjI) (rule refl | assumption | simp add: snap_def)+
  then show ?thesis unfolding enrollment_hash_iff enrollment_of_def by blast
qed

lemma buildActiveRecord_iff:
  assumes laws: "ethers_laws E" and x: "normal_expectations E x" and cid: "is_bytes32 E False cid cid" and "0 < n"
  shows "buildActiveRecord E cid n x = Inr r \<longleftrightarrow> n + 300 < 2 ^ 48 \<and> r = active_record E cid n x"
proof -
  note defs = PHILCORE_V2_RECOVERY_CEREMONY_TTL_SECONDS_def PHILCORE_V2_RECOVERY_CEREMONY_ACCOUNT_VERSION_ID_def
      PHILCORE_V2_RECOVERY_CEREMONY_SECURITY_MODEL_ID_def PHILCORE_V2_RECOVERY_CEREMONY_RECOVERY_DOMAIN_ID_def
  have max: "\<not> n > UINT48_MAX - 300 \<longleftrightarrow> n + 300 < 2 ^ 48" by (auto simp: UINT48_MAX_def push_bit_eq_mult)
  show ?thesis
  proof (cases "n + 300 < 2 ^ 48")
    case True
    with enrollment_computed [OF laws x cid, of "n + 300"] assms(4) show ?thesis
      unfolding buildActiveRecord_def defs max Let_def by (auto simp: active_record_def)
  next
    case False
    then show ?thesis unfolding buildActiveRecord_def defs max by simp
  qed
qed

lemma mint_recovery_iff:
  assumes laws: "ethers_laws E"
  shows "mintPhilCoreV2ConsumerRecoveryCeremony E current cidV now v = Inr r \<longleftrightarrow>
    (\<exists>n cid x. current = None \<and> now = NumberVal (IntegerNumber n) \<and> 0 < n \<and> n + 300 < 2 ^ 48 \<and>
       js_bytes32 E False cidV cid \<and> expects E v x \<and> r = active_record E cid n x)"
proof (cases current)
  case None
  have b: "buildActiveRecord E cid n x = Inr r \<longleftrightarrow> n + 300 < 2 ^ 48 \<and> r = active_record E cid n x"
    if "js_bytes32 E False cidV cid" "expects E v x" "0 < n" for cid n x
  proof (rule buildActiveRecord_iff [OF laws expects_normal [OF laws that(2)] _ that(3)])
    show "is_bytes32 E False cid cid" using that(1) is_bytes32_stable [OF laws] by (auto simp: js_bytes32_def)
  qed
  have small: "n < 2 ^ 53" if "n + 300 < (2 :: int) ^ 48" for n using that by simp
  show ?thesis
    unfolding mintPhilCoreV2ConsumerRecoveryCeremony_def None option.case bnd.simps bnd_eq_Inr now_iff
      requireCeremonyId_iff normalizeExpectations_iff
    using b small by metis
next
  case (Some q)
  then show ?thesis by (cases "rc_state q") (simp_all add: mintPhilCoreV2ConsumerRecoveryCeremony_def)
qed

text \<open>The effect of the clocked operations on a record at a time of the clock.\<close>

definition clock_time :: "js_value \<Rightarrow> int \<Rightarrow> bool" where
  "clock_time now n \<longleftrightarrow> now = NumberVal (IntegerNumber n) \<and> 0 < n \<and> n < 2 ^ 53"

lemma if_Inr: "(if c then Inr a else Inr b) = Inr q \<longleftrightarrow> q = (if c then a else b)"
  by auto

lemma cancel_recovery_iff:
  "cancelPhilCoreV2ConsumerRecoveryCeremony r now = Inr q \<longleftrightarrow>
     (\<exists>n. clock_time now n \<and> rc_state r = CEREMONY_ACTIVE \<and> rc_lastObservedAtUnixSeconds r \<le> n \<and>
        q = withObservation r n (Some (if rc_expiresAtUnixSeconds r \<le> n then CEREMONY_EXPIRED else CEREMONY_CANCELLED)))"
  unfolding cancelPhilCoreV2ConsumerRecoveryCeremony_def bnd_eq_Inr now_iff demand_that_iff assertNoClockRegression_iff
    clock_time_def if_Inr if_distrib [of "\<lambda>e. withObservation r n (Some e)" for n] by blast

lemma expireIfNeeded_iff [result_simps]:
  "expireIfNeeded r n = Inr q \<longleftrightarrow> rc_state r = CEREMONY_ACTIVE \<and> rc_lastObservedAtUnixSeconds r \<le> n \<and>
     q = withObservation r n (if rc_expiresAtUnixSeconds r \<le> n then Some CEREMONY_EXPIRED else None)"
  unfolding expireIfNeeded_def bnd_eq_Inr demand_that_iff assertNoClockRegression_iff by auto

lemma check_expiry_iff:
  "checkPhilCoreV2ConsumerRecoveryCeremonyExpiry r now = Inr q \<longleftrightarrow>
     (\<exists>n. clock_time now n \<and> rc_state r = CEREMONY_ACTIVE \<and> rc_lastObservedAtUnixSeconds r \<le> n \<and>
        q = withObservation r n (if rc_expiresAtUnixSeconds r \<le> n then Some CEREMONY_EXPIRED else None))"
  unfolding checkPhilCoreV2ConsumerRecoveryCeremonyExpiry_def bnd_eq_Inr now_iff expireIfNeeded_iff clock_time_def by blast

lemma evaluate_status_iff:
  "evaluatePhilCoreV2ConsumerRecoveryCeremonyStatus r now = Inr q \<longleftrightarrow>
     (\<exists>n. clock_time now n \<and> rc_lastObservedAtUnixSeconds r \<le> n \<and>
        q = withObservation r n (if rc_state r = CEREMONY_ACTIVE \<and> rc_expiresAtUnixSeconds r \<le> n
          then Some CEREMONY_EXPIRED else None))"
proof (cases "rc_state r = CEREMONY_ACTIVE")
  case True
  show ?thesis
    unfolding evaluatePhilCoreV2ConsumerRecoveryCeremonyStatus_def bnd_eq_Inr now_iff clock_time_def if_P [OF True]
      expireIfNeeded_iff by (simp only: True simp_thms)
next
  case False
  show ?thesis
    unfolding evaluatePhilCoreV2ConsumerRecoveryCeremonyStatus_def bnd_eq_Inr now_iff clock_time_def if_not_P [OF False]
      assertNoClockRegression_iff sum.inject by (simp only: False simp_thms if_False ex_simps) metis
qed

end
