(* ===== verification/RecoveryHost.thy ===== *)
theory RecoveryHost
  imports RecoveryCeremony
begin

text \<open>
  The host that drives the account-bound ceremony (\<open>recovery-ceremony-host.cjs\<close>), as a machine over
  sequences of calls, and the properties of these ceremonies.
\<close>

section \<open>The host\<close>

text \<open>
  The host of the desktop application (\<open>recovery-ceremony-host.cjs\<close>) keeps the record in the variable
  \<open>current\<close>. The clock and the source of random bytes are called once by an operation: what they
  return is an argument. The result of an operation is what it returns or throws, and the variable.
\<close>

datatype random_value = RandomBytes bytes | NotBytes

fun bytesToCeremonyId :: "random_value \<Rightarrow> string lifecycle" where
  "bytesToCeremonyId NotBytes = Inl (LifecycleError ''INVALID_INJECTED_CEREMONY_ID'')"
| "bytesToCeremonyId (RandomBytes bs) =
     bnd (demand_that (length bs = 32) ''INVALID_INJECTED_CEREMONY_ID'') (\<lambda>_. Inr (hex_bytes bs))"

text \<open>\<open>/^0x[0-9a-fA-F]{64}$/\<close>\<close>

definition RETIREMENT_CEREMONY_ID_RE :: "string \<Rightarrow> bool" where
  "RETIREMENT_CEREMONY_ID_RE s \<longleftrightarrow> take 2 s = ''0x'' \<and> length s = 66 \<and> list_all hex_digit (drop 2 s)"

fun normalizeRetirementCeremonyId :: "js_value \<Rightarrow> string lifecycle" where
  "normalizeRetirementCeremonyId (StringVal s) =
     bnd (demand_that (RETIREMENT_CEREMONY_ID_RE s) ''RETIREMENT_CEREMONY_ID_INVALID'') (\<lambda>_.
     bnd (demand_that (toLowerCase s \<noteq> ZERO_BYTES32) ''RETIREMENT_CEREMONY_ID_INVALID'') (\<lambda>_.
     Inr (toLowerCase s)))"
| "normalizeRetirementCeremonyId _ = Inl (LifecycleError ''RETIREMENT_CEREMONY_ID_INVALID'')"

type_synonym ceremony_slot = "PhilCoreV2ConsumerRecoveryCeremonyRecord option"

text \<open>\<open>current = ...; return snapshot(current);\<close> where the right-hand side may throw.\<close>

fun assign :: "ceremony_slot \<Rightarrow> PhilCoreV2ConsumerRecoveryCeremonyRecord lifecycle \<Rightarrow> ceremony_slot lifecycle \<times> ceremony_slot" where
  "assign current (Inl e) = (Inl e, current)"
| "assign current (Inr r) = (Inr (Some r), Some r)"

definition host_mint :: "ethers \<Rightarrow> ceremony_slot \<Rightarrow> js_value \<Rightarrow> random_value \<Rightarrow> record_argument \<Rightarrow>
    ceremony_slot lifecycle \<times> ceremony_slot" where
  "host_mint E current nowUnixSeconds random callerExpectations =
     assign current (
     bnd (case current of
            None \<Rightarrow> Inr ()
          | Some r \<Rightarrow> (case rc_state r of
              CEREMONY_ACTIVE \<Rightarrow> Inl (LifecycleError ''CEREMONY_ALREADY_ACTIVE'')
            | CEREMONY_ENDED \<Rightarrow> Inl (LifecycleError ''CEREMONY_PENDING_RETIREMENT''))) (\<lambda>_.
     bnd (normalizePhilCoreV2ConsumerRecoveryCeremonyExpectations E callerExpectations) (\<lambda>_.
     bnd (bytesToCeremonyId random) (\<lambda>ceremonyId.
     mintPhilCoreV2ConsumerRecoveryCeremony E current (StringVal ceremonyId) nowUnixSeconds callerExpectations))))"

fun host_cancel :: "ceremony_slot \<Rightarrow> js_value \<Rightarrow> ceremony_slot lifecycle \<times> ceremony_slot" where
  "host_cancel None nowUnixSeconds = (Inl (LifecycleError ''CEREMONY_NOT_ACTIVE''), None)"
| "host_cancel (Some r) nowUnixSeconds = assign (Some r) (cancelPhilCoreV2ConsumerRecoveryCeremony r nowUnixSeconds)"

fun host_checkExpiry :: "ceremony_slot \<Rightarrow> js_value \<Rightarrow> ceremony_slot lifecycle \<times> ceremony_slot" where
  "host_checkExpiry None nowUnixSeconds = (Inl (LifecycleError ''CEREMONY_NOT_ACTIVE''), None)"
| "host_checkExpiry (Some r) nowUnixSeconds =
     assign (Some r) (checkPhilCoreV2ConsumerRecoveryCeremonyExpiry r nowUnixSeconds)"

fun host_status :: "ceremony_slot \<Rightarrow> js_value \<Rightarrow> ceremony_slot lifecycle \<times> ceremony_slot" where
  "host_status None nowUnixSeconds = (Inr None, None)"
| "host_status (Some r) nowUnixSeconds =
     assign (Some r) (evaluatePhilCoreV2ConsumerRecoveryCeremonyStatus r nowUnixSeconds)"

definition host_retire :: "ceremony_slot \<Rightarrow> js_value \<Rightarrow> ceremony_slot lifecycle \<times> ceremony_slot" where
  "host_retire current expectedCeremonyId =
     (case bnd (normalizeRetirementCeremonyId expectedCeremonyId) (\<lambda>expectedId.
        case current of
          None \<Rightarrow> Inl (LifecycleError ''CEREMONY_NOT_INSTALLED'')
        | Some r \<Rightarrow>
            bnd (demand_that (rc_state r \<noteq> CEREMONY_ACTIVE) ''CEREMONY_STILL_ACTIVE'') (\<lambda>_.
            bnd (demand_that (rc_ceremonyId r = expectedId) ''CEREMONY_ID_MISMATCH'') (\<lambda>_. Inr r))) of
        Inl e \<Rightarrow> (Inl e, current)
      | Inr r \<Rightarrow> (Inr (Some r), None))"

section \<open>The host as a state machine\<close>

datatype host_call =
    MintCall js_value random_value record_argument
  | CancelCall js_value
  | CheckExpiryCall js_value
  | StatusCall js_value
  | RetireCall js_value

fun host_apply :: "ethers \<Rightarrow> host_call \<Rightarrow> ceremony_slot \<Rightarrow> ceremony_slot lifecycle \<times> ceremony_slot" where
  "host_apply E (MintCall now random expectations) current = host_mint E current now random expectations"
| "host_apply E (CancelCall now) current = host_cancel current now"
| "host_apply E (CheckExpiryCall now) current = host_checkExpiry current now"
| "host_apply E (StatusCall now) current = host_status current now"
| "host_apply E (RetireCall cid) current = host_retire current cid"

definition host_run :: "ethers \<Rightarrow> host_call list \<Rightarrow> ceremony_slot \<Rightarrow> ceremony_slot" where
  "host_run E calls current = foldl (\<lambda>s call. snd (host_apply E call s)) current calls"

text \<open>A call that succeeds on a slot, other than a status of the empty one.\<close>

definition host_step :: "ethers \<Rightarrow> ceremony_slot \<Rightarrow> ceremony_slot \<Rightarrow> bool" where
  "host_step E s t \<longleftrightarrow> (\<exists>call res. host_apply E call s = (Inr (Some res), t))"

fun recovery_reason :: "PhilCoreV2ConsumerRecoveryCeremonyEndReason \<Rightarrow> end_reason" where
  "recovery_reason CEREMONY_CANCELLED = Cancelled"
| "recovery_reason CEREMONY_EXPIRED = Expired"

type_synonym ceremony_binding = "string \<times> int \<times> PhilCoreV2ConsumerRecoveryCeremonyExpectations \<times> string"

definition recovery_binding :: "PhilCoreV2ConsumerRecoveryCeremonyRecord \<Rightarrow> ceremony_binding" where
  "recovery_binding r = (rc_ceremonyId r, rc_mintedAtUnixSeconds r,
     \<lparr>ex_account = rc_account r, ex_chainId = rc_chainId r, ex_entryPoint = rc_entryPoint r,
      ex_expectedRecoveryEpoch = rc_expectedRecoveryEpoch r, ex_expectedValidatorEpoch = rc_expectedValidatorEpoch r\<rparr>,
     rc_enrollmentCeremonyHash r)"

fun recovery_abs :: "ceremony_slot \<Rightarrow> ceremony_binding phase" where
  "recovery_abs None = Vacant"
| "recovery_abs (Some r) = (case rc_endReason r of
     None \<Rightarrow> Open (recovery_binding r) (rc_expiresAtUnixSeconds r) (rc_lastObservedAtUnixSeconds r)
   | Some e \<Rightarrow> Closed (recovery_binding r) (recovery_reason e) (rc_lastObservedAtUnixSeconds r))"

text \<open>
  The records of a host: minted for expectations, with the commitment to them, of which only the state
  and the last observation have changed.
\<close>

definition recovery_inv :: "ethers \<Rightarrow> PhilCoreV2ConsumerRecoveryCeremonyRecord \<Rightarrow> bool" where
  "recovery_inv E r \<longleftrightarrow>
     (\<exists>cid n x. normal_expectations E x \<and> is_bytes32 E False cid cid \<and> 0 < n \<and> n + 300 < 2 ^ 48 \<and>
        recovery_binding r = (cid, n, x, enrollment_of E cid (n + 300) x) \<and> rc_expiresAtUnixSeconds r = n + 300) \<and>
     rc_accountVersionId r = PHILCORE_V2_LOCAL_ACCOUNT_VERSION_ID E \<and>
     rc_securityModelId r = PHILCORE_V2_LOCAL_SECURITY_MODEL_ID E \<and>
     rc_recoveryDomainId r = PHILCORE_V2_LOCAL_RECOVERY_DOMAIN_ID E \<and>
     (rc_state r = CEREMONY_ACTIVE \<longleftrightarrow> rc_endReason r = None) \<and>
     rc_mintedAtUnixSeconds r \<le> rc_lastObservedAtUnixSeconds r \<and>
     (rc_state r = CEREMONY_ACTIVE \<longrightarrow> rc_lastObservedAtUnixSeconds r < rc_expiresAtUnixSeconds r) \<and>
     (rc_endReason r = Some CEREMONY_EXPIRED \<longrightarrow> rc_expiresAtUnixSeconds r \<le> rc_lastObservedAtUnixSeconds r)"

definition recovery_slot_inv :: "ethers \<Rightarrow> ceremony_slot \<Rightarrow> bool" where
  "recovery_slot_inv E s \<longleftrightarrow> (\<forall>r. s = Some r \<longrightarrow> recovery_inv E r)"

text \<open>The calls by their effect.\<close>

inductive host_effect :: "ethers \<Rightarrow> ceremony_slot \<Rightarrow> ceremony_slot \<Rightarrow> bool" for E where
  minting: "normal_expectations E x \<Longrightarrow> is_bytes32 E False cid cid \<Longrightarrow> 0 < n \<Longrightarrow> n + 300 < 2 ^ 48 \<Longrightarrow>
    host_effect E None (Some (active_record E cid n x))"
| seeing: "rc_lastObservedAtUnixSeconds r \<le> n \<Longrightarrow> rc_state r = CEREMONY_ACTIVE \<longrightarrow> n < rc_expiresAtUnixSeconds r \<Longrightarrow>
    host_effect E (Some r) (Some (withObservation r n None))"
| ending: "rc_lastObservedAtUnixSeconds r \<le> n \<Longrightarrow> rc_state r = CEREMONY_ACTIVE \<Longrightarrow>
    e = CEREMONY_EXPIRED \<longleftrightarrow> rc_expiresAtUnixSeconds r \<le> n \<Longrightarrow>
    host_effect E (Some r) (Some (withObservation r n (Some e)))"
| retiring: "rc_state r = CEREMONY_ENDED \<Longrightarrow> host_effect E (Some r) None"

lemma assign_Inr: "assign s m = (Inr x, t) \<longleftrightarrow> (\<exists>r. m = Inr r \<and> x = Some r \<and> t = Some r)"
  by (cases m) auto

lemma host_step_effect:
  assumes laws: "ethers_laws E" and "host_step E s t"
  shows "host_effect E s t"
proof -
  obtain call res where call: "host_apply E call s = (Inr (Some res), t)" using assms(2) by (auto simp: host_step_def)
  have seen: "host_effect E (Some r) (Some (withObservation r n (if rc_expiresAtUnixSeconds r \<le> n then Some CEREMONY_EXPIRED else None)))"
    if "rc_lastObservedAtUnixSeconds r \<le> n" "rc_state r = CEREMONY_ACTIVE" for r n
    using that host_effect.seeing [OF that(1)] host_effect.ending [OF that, of CEREMONY_EXPIRED]
    by (cases "rc_expiresAtUnixSeconds r \<le> n") auto
  show ?thesis
  proof (cases call)
    case (MintCall now random v)
    with call obtain cid where m: "mintPhilCoreV2ConsumerRecoveryCeremony E s (StringVal cid) now v = Inr res" "t = Some res"
      by (auto simp: host_mint_def assign_Inr bnd_eq_Inr)
    from m(1) obtain n cid' x where "s = None" "0 < n" "n + 300 < 2 ^ 48" "js_bytes32 E False (StringVal cid) cid'"
      "expects E v x" "res = active_record E cid' n x" unfolding mint_recovery_iff [OF laws] by blast
    moreover have "is_bytes32 E False cid' cid'"
      using calculation(4) is_bytes32_stable [OF laws] by (auto simp: js_bytes32_def)
    ultimately show ?thesis using m(2) expects_normal [OF laws] host_effect.minting by metis
  next
    case (CancelCall now)
    with call obtain r where r: "s = Some r" "cancelPhilCoreV2ConsumerRecoveryCeremony r now = Inr res" "t = Some res"
      by (cases s) (auto simp: assign_Inr)
    then obtain n where n: "rc_lastObservedAtUnixSeconds r \<le> n" "rc_state r = CEREMONY_ACTIVE"
      "res = withObservation r n (Some (if rc_expiresAtUnixSeconds r \<le> n then CEREMONY_EXPIRED else CEREMONY_CANCELLED))"
      unfolding cancel_recovery_iff by blast
    from host_effect.ending [OF n(1,2)] show ?thesis unfolding r(1,3) n(3) by simp
  next
    case (CheckExpiryCall now)
    with call obtain r where r: "s = Some r" "checkPhilCoreV2ConsumerRecoveryCeremonyExpiry r now = Inr res" "t = Some res"
      by (cases s) (auto simp: assign_Inr)
    then show ?thesis unfolding check_expiry_iff using seen by blast
  next
    case (StatusCall now)
    with call obtain r where r: "s = Some r" "evaluatePhilCoreV2ConsumerRecoveryCeremonyStatus r now = Inr res" "t = Some res"
      by (cases s) (auto simp: assign_Inr)
    then obtain n where n: "rc_lastObservedAtUnixSeconds r \<le> n"
      "res = withObservation r n (if rc_state r = CEREMONY_ACTIVE \<and> rc_expiresAtUnixSeconds r \<le> n
          then Some CEREMONY_EXPIRED else None)" unfolding evaluate_status_iff by blast
    then show ?thesis using r seen [of r n] host_effect.seeing [OF n(1)]
      by (cases "rc_state r = CEREMONY_ACTIVE") auto
  next
    case (RetireCall cid)
    with call show ?thesis
      by (cases s) (auto simp: host_retire_def bnd_eq_Inr result_simps split: sum.splits
          intro!: host_effect.retiring, metis PhilCoreV2ConsumerRecoveryCeremonyState.exhaust)
  qed
qed

lemma binding_observed [simp]: "recovery_binding (withObservation r n e) = recovery_binding r"
  by (cases e) (simp_all add: recovery_binding_def)

lemma binding_active [simp]: "recovery_binding (active_record E cid n x) = (cid, n, x, enrollment_of E cid (n + 300) x)"
  by (simp add: recovery_binding_def active_record_def)

lemma observed_fields [simp]:
  "rc_accountVersionId (withObservation r n e) = rc_accountVersionId r"
  "rc_securityModelId (withObservation r n e) = rc_securityModelId r"
  "rc_recoveryDomainId (withObservation r n e) = rc_recoveryDomainId r"
  "rc_expiresAtUnixSeconds (withObservation r n e) = rc_expiresAtUnixSeconds r"
  "rc_mintedAtUnixSeconds (withObservation r n e) = rc_mintedAtUnixSeconds r"
  "rc_lastObservedAtUnixSeconds (withObservation r n e) = n"
  by (cases e; simp)+

lemma host_effect_inv: "host_effect E s t \<Longrightarrow> recovery_slot_inv E s \<Longrightarrow> recovery_slot_inv E t"
proof (induction rule: host_effect.induct)
  case (minting x cid n)
  then have "recovery_inv E (active_record E cid n x)"
    unfolding recovery_inv_def binding_active by (simp add: active_record_def)
  then show ?case by (simp add: recovery_slot_inv_def)
next
  case (seeing r n)
  then have "recovery_inv E (withObservation r n None)"
    unfolding recovery_slot_inv_def recovery_inv_def binding_observed observed_fields by auto
  then show ?case by (simp add: recovery_slot_inv_def)
next
  case (ending r n e)
  then have "recovery_inv E (withObservation r n (Some e))"
    unfolding recovery_slot_inv_def recovery_inv_def binding_observed observed_fields by auto
  then show ?case by (simp add: recovery_slot_inv_def)
qed (simp add: recovery_slot_inv_def)

lemma host_effect_simulates:
  assumes "host_effect E s t" and "recovery_slot_inv E s"
  shows "ceremony_step 300 (recovery_abs s) (recovery_abs t)"
  using assms
proof cases
  case (minting x cid n)
  then show ?thesis by (auto simp: active_record_def intro!: ceremony_step.mint)
next
  case (seeing r n)
  moreover have "rc_state r = CEREMONY_ACTIVE \<longleftrightarrow> rc_endReason r = None"
    using seeing assms(2) by (simp add: recovery_slot_inv_def recovery_inv_def)
  ultimately show ?thesis
    by (cases "rc_endReason r") (auto simp: recovery_binding_def intro: ceremony_step.observe ceremony_step.look)
next
  case (ending r n e)
  moreover have "rc_endReason r = None" using ending assms(2) by (simp add: recovery_slot_inv_def recovery_inv_def)
  ultimately show ?thesis
    by (cases e) (auto simp: recovery_binding_def intro: ceremony_step.expire ceremony_step.cancel)
next
  case (retiring r)
  moreover from retiring assms(2) have "rc_endReason r \<noteq> None"
    by (auto simp: recovery_slot_inv_def recovery_inv_def)
  ultimately show ?thesis by (auto intro: ceremony_step.retire)
qed

interpretation recovery_slot: ceremony "\<lambda>s t. ethers_laws E \<and> host_step E s t" "recovery_slot_inv E" recovery_abs 300 for E
  by unfold_locales (meson host_step_effect host_effect_inv host_effect_simulates)+

lemma assign_cases: "(\<exists>e. assign s m = (Inl e, s)) \<or> (\<exists>r. assign s m = (Inr (Some r), Some r))"
  by (cases m) auto

lemma host_apply_cases:
  "(\<exists>e. host_apply E call s = (Inl e, s)) \<or> (host_apply E call s = (Inr None, None) \<and> s = None) \<or>
     (\<exists>r t. host_apply E call s = (Inr (Some r), t))"
proof (cases call)
  case (RetireCall cid)
  then show ?thesis by (simp add: host_retire_def split: sum.splits)
qed (cases s; simp add: host_mint_def; use assign_cases in blast)+

lemma host_stepI: "host_apply E call s = (Inr (Some r), t) \<Longrightarrow> host_step E s t"
  by (auto simp: host_step_def)

section \<open>Properties\<close>

text \<open>
  C19: The host of the account-bound ceremony implements the abstract ceremony call by call: a call that
  throws leaves the slot as it is, only a status of the empty slot returns nothing, and every other call
  that returns is a step of the ceremony with a lifetime of 300 seconds; the invariant of the record is kept.
\<close>

theorem recovery_host_refines:
  assumes "ethers_laws E" and "recovery_slot_inv E s"
  shows "recovery_slot_inv E (snd (host_apply E call s)) \<and>
    (case fst (host_apply E call s) of
       Inl e \<Rightarrow> snd (host_apply E call s) = s
     | Inr None \<Rightarrow> s = None \<and> snd (host_apply E call s) = None
     | Inr (Some r) \<Rightarrow> ceremony_step 300 (recovery_abs s) (recovery_abs (snd (host_apply E call s))))"
proof (cases "\<exists>r t. host_apply E call s = (Inr (Some r), t)")
  case True
  then obtain r t where t: "host_apply E call s = (Inr (Some r), t)" by blast
  then have "ethers_laws E \<and> host_step E s t" using assms(1) by (auto simp: host_step_def)
  with t recovery_slot.simulates [OF assms(2)] recovery_slot.inv_step [OF assms(2)] show ?thesis by simp
next
  case False
  with host_apply_cases [of E call s] assms(2) show ?thesis by auto
qed

text \<open>
  In every sequence of calls of the host from the empty slot, whatever they are given by clock,
  random source and caller, the slot holds a record with the invariant (it expires 300 seconds after its
  minting, it carries the commitment to the expectations it was minted for, an active one was never observed
  at its expiry), and is reached by steps of the abstract ceremony.
\<close>

theorem recovery_host_runs:
  assumes "ethers_laws E"
  shows "recovery_slot_inv E (host_run E calls None) \<and>
    (ceremony_step 300)\<^sup>*\<^sup>* Vacant (recovery_abs (host_run E calls None))"
proof -
  have run: "(host_step E)\<^sup>*\<^sup>* s (host_run E calls s)" for s
  proof (induction calls arbitrary: s)
    case (Cons call calls)
    have "(host_step E)\<^sup>*\<^sup>* s (snd (host_apply E call s))"
      using host_apply_cases [of E call s] host_stepI by (auto intro: r_into_rtranclp)
    with Cons.IH [of "snd (host_apply E call s)"] show ?case by (simp add: host_run_def)
  qed (simp add: host_run_def)
  have "recovery_slot_inv E None" by (simp add: recovery_slot_inv_def)
  with recovery_slot.run_simulates [of E None "host_run E calls None"] run [of None] assms show ?thesis by simp
qed

text \<open>A sample run: mint, an observation, a cancellation, and retirement.\<close>

definition sample_expectations :: record_argument where
  "sample_expectations = PlainObject [(''account'', StringVal (a20 (CHR ''a''))), (''chainId'', BigIntVal 1),
     (''entryPoint'', StringVal (a20 (CHR ''b''))), (''expectedRecoveryEpoch'', BigIntVal 1),
     (''expectedValidatorEpoch'', BigIntVal 2)]"

definition sample_expected :: PhilCoreV2ConsumerRecoveryCeremonyExpectations where
  "sample_expected = \<lparr>ex_account = a20 (CHR ''a''), ex_chainId = 1, ex_entryPoint = a20 (CHR ''b''),
     ex_expectedRecoveryEpoch = 1, ex_expectedValidatorEpoch = 2\<rparr>"

lemma sample_expects: "expects sample_ethers sample_expectations sample_expected"
  by (simp add: expects_def sample_expectations_def sample_expected_def EXPECTATION_KEYS_def snap_def js_address_def
      nonzero_uint_BigInt uint_fits_def literal_simps)

lemma sample_normal: "normal_expectations sample_ethers sample_expected"
  by (rule expects_normal [OF sample_ethers_laws sample_expects])

lemma sample_active_inv:
  "recovery_slot_inv sample_ethers (Some (active_record sample_ethers (h32 (CHR ''1'')) 1000 sample_expected))"
  by (rule host_effect_inv [OF host_effect.minting [OF sample_normal]])
     (simp_all add: literal_simps recovery_slot_inv_def)

theorem recovery_host_refines_witness:
  "ceremony_step 300
     (recovery_abs (Some (active_record sample_ethers (h32 (CHR ''1'')) 1000 sample_expected)))
     (recovery_abs (Some (withObservation (active_record sample_ethers (h32 (CHR ''1'')) 1000 sample_expected) 1300
        (Some CEREMONY_EXPIRED))))"
proof -
  let ?r = "active_record sample_ethers (h32 (CHR ''1'')) 1000 sample_expected"
  have "cancelPhilCoreV2ConsumerRecoveryCeremony ?r (NumberVal (IntegerNumber 1300)) =
      Inr (withObservation ?r 1300 (Some CEREMONY_EXPIRED))"
    unfolding cancel_recovery_iff by (rule exI [of _ 1300]) (simp add: clock_time_def active_record_def)
  then have "host_apply sample_ethers (CancelCall (NumberVal (IntegerNumber 1300))) (Some ?r) =
      (Inr (Some (withObservation ?r 1300 (Some CEREMONY_EXPIRED))), Some (withObservation ?r 1300 (Some CEREMONY_EXPIRED)))"
    by simp
  with recovery_host_refines [OF sample_ethers_laws sample_active_inv, of "CancelCall (NumberVal (IntegerNumber 1300))"]
  show ?thesis by simp
qed

definition sample_id :: string where
  "sample_id = hex_bytes (replicate 32 1)"

lemma sample_id_bytes32: "js_bytes32 sample_ethers False (StringVal sample_id) sample_id"
proof -
  have "sample_id \<noteq> ZERO_BYTES32" unfolding sample_id_def by code_simp
  then show ?thesis
    using hex_bytes_string [of "replicate 32 1"]
    by (simp add: js_bytes32_def is_bytes32_def laws_isHexString [OF sample_ethers_laws] sample_id_def)
qed

lemma sample_host_mint:
  "host_apply sample_ethers (MintCall (NumberVal (IntegerNumber 1000)) (RandomBytes (replicate 32 1)) sample_expectations) None =
     (Inr (Some (active_record sample_ethers sample_id 1000 sample_expected)),
      Some (active_record sample_ethers sample_id 1000 sample_expected))"
proof -
  have "mintPhilCoreV2ConsumerRecoveryCeremony sample_ethers None (StringVal sample_id) (NumberVal (IntegerNumber 1000))
      sample_expectations = Inr (active_record sample_ethers sample_id 1000 sample_expected)"
    unfolding mint_recovery_iff [OF sample_ethers_laws]
    by (intro exI [of _ 1000] exI [of _ sample_id] exI [of _ sample_expected]) (simp add: sample_id_bytes32 sample_expects)
  moreover have "normalizeExpectations sample_ethers sample_expectations = Inr sample_expected"
    by (simp add: normalizeExpectations_iff sample_expects)
  ultimately show ?thesis
    by (simp add: host_mint_def normalizePhilCoreV2ConsumerRecoveryCeremonyExpectations_def sample_id_def)
qed

theorem recovery_host_runs_witness:
  "recovery_slot_inv sample_ethers (Some (active_record sample_ethers sample_id 1000 sample_expected)) \<and>
   (ceremony_step 300)\<^sup>*\<^sup>* Vacant (recovery_abs (Some (active_record sample_ethers sample_id 1000 sample_expected)))"
  using recovery_host_runs [OF sample_ethers_laws,
      of "[MintCall (NumberVal (IntegerNumber 1000)) (RandomBytes (replicate 32 1)) sample_expectations]"]
  by (simp add: host_run_def sample_host_mint del: host_apply.simps recovery_abs.simps)

text \<open>
  The enrollment commitment of an account-bound ceremony binds its content and its kind: two
  arguments with the same hash have the same identifier, account, chain, entry point, epochs and expiry
  after normalisation; and the hash is neither that of a genesis ceremony, nor of a deployment intent,
  nor the digest of a proof of the offline factor, unless two of the hashed inputs are a Keccak-256 collision.
\<close>

theorem enrollment_commitment_binds:
  assumes "ethers_laws E" and "computePhilCoreV2LocalEnrollmentCeremonyHash E a = Inr h"
  shows "(computePhilCoreV2LocalEnrollmentCeremonyHash E b = Inr h \<longrightarrow>
      (\<exists>vs us. enrollment_content E a vs \<and> enrollment_content E b us \<and>
         (vs = us \<or> keccak_collision E
            (commitment_inputs E PHILCORE_V2_LOCAL_ENROLLMENT_CEREMONY_LITERAL enrollment_types vs \<union>
             commitment_inputs E PHILCORE_V2_LOCAL_ENROLLMENT_CEREMONY_LITERAL enrollment_types us)))) \<and>
    (computePhilCoreV2LocalGenesisEnrollmentCeremonyHash E c = Inr h \<longrightarrow>
      (\<exists>vs us. object_words E ceremony_fields c vs \<and> enrollment_content E a us \<and> keccak_collision E
            (commitment_inputs E PHILCORE_V2_LOCAL_GENESIS_ENROLLMENT_CEREMONY_LITERAL CEREMONY_ABI_TYPES vs \<union>
             commitment_inputs E PHILCORE_V2_LOCAL_ENROLLMENT_CEREMONY_LITERAL enrollment_types us))) \<and>
    (computePhilCoreV2LocalGenesisDeploymentIntentHash E i = Inr h \<longrightarrow>
      (\<exists>vs us. object_words E (intent_fields E) i vs \<and> enrollment_content E a us \<and> keccak_collision E
            (commitment_inputs E PHILCORE_V2_LOCAL_GENESIS_DEPLOYMENT_INTENT_LITERAL INTENT_ABI_TYPES vs \<union>
             commitment_inputs E PHILCORE_V2_LOCAL_ENROLLMENT_CEREMONY_LITERAL enrollment_types us))) \<and>
    (computePhilCoreV2LocalRole2CeremonyProofDigest E p = Inr h \<longrightarrow>
      (\<exists>vs us. enrollment_content E a vs \<and> proof_content E p us \<and> keccak_collision E
            (commitment_inputs E PHILCORE_V2_LOCAL_ENROLLMENT_CEREMONY_LITERAL enrollment_types vs \<union>
             commitment_inputs E PHILCORE_V2_LOCAL_ROLE2_CEREMONY_PROOF_LITERAL proof_types us)))"
  using local_enrollment.computed_binds [OF assms] genesis_local.separated [OF assms(1) _ assms(2)]
    intent_local.separated [OF assms(1) _ assms(2)] local_role2.separated [OF assms]
  by (intro conjI impI) assumption+

text \<open>The argument of the commitment of the sample ceremony.\<close>

definition sample_enrollment :: "string \<Rightarrow> record_argument" where
  "sample_enrollment account = PlainObject
     [(''ceremonyId'', StringVal (h32 (CHR ''1''))), (''account'', StringVal account),
      (''chainId'', BigIntVal 1), (''entryPoint'', StringVal (a20 (CHR ''b''))),
      (''accountVersionId'', StringVal (PHILCORE_V2_LOCAL_ACCOUNT_VERSION_ID sample_ethers)),
      (''securityModelId'', StringVal (PHILCORE_V2_LOCAL_SECURITY_MODEL_ID sample_ethers)),
      (''recoveryDomainId'', StringVal (PHILCORE_V2_LOCAL_RECOVERY_DOMAIN_ID sample_ethers)),
      (''expectedRecoveryEpoch'', BigIntVal 1), (''expectedValidatorEpoch'', BigIntVal 2), (''expiresAt'', BigIntVal 1300)]"

theorem enrollment_commitment_binds_witness:
  "\<exists>h vs us. computePhilCoreV2LocalEnrollmentCeremonyHash sample_ethers (sample_enrollment (a20 (CHR ''a''))) = Inr h \<and>
     enrollment_content sample_ethers (sample_enrollment (a20 (CHR ''a''))) vs \<and>
     enrollment_content sample_ethers (sample_enrollment (a20 (CHR ''a''))) us \<and>
     (vs = us \<or> keccak_collision sample_ethers
        (commitment_inputs sample_ethers PHILCORE_V2_LOCAL_ENROLLMENT_CEREMONY_LITERAL enrollment_types vs \<union>
         commitment_inputs sample_ethers PHILCORE_V2_LOCAL_ENROLLMENT_CEREMONY_LITERAL enrollment_types us))"
proof -
  have "is_bytes32 sample_ethers False (h32 (CHR ''1'')) (h32 (CHR ''1''))" by (simp add: literal_simps)
  from enrollment_computed [OF sample_ethers_laws sample_normal this, of 1300]
  have "computePhilCoreV2LocalEnrollmentCeremonyHash sample_ethers (sample_enrollment (a20 (CHR ''a''))) =
      Inr (enrollment_of sample_ethers (h32 (CHR ''1'')) 1300 sample_expected)"
    by (simp add: sample_enrollment_def sample_expected_def)
  with enrollment_commitment_binds [OF sample_ethers_laws this] show ?thesis by blast
qed

end
