(* ===== verification/ConsumerRecovery.thy ===== *)
theory ConsumerRecovery
  imports GenesisProtocol
begin

text \<open>
  The policy of consumer recovery (\<open>v2ConsumerRecovery.ts\<close>): the independence binding and the
  commitment of a recovery factor, the policy of a factor in its role, the profile of three factors,
  and the rotation of one of them.

  The fields of a factor are values of a snapshot. A number is taken from a field by \<open>BigInt(value)\<close>,
  which on an object runs methods of the object. What they answer is a parameter, and since the
  sources convert a field again whenever they need it, there is one answer for each pass over the
  fields and each field. An exception of such a method that the sources do not catch, and the
  \<open>TypeError\<close> of a call on a value that has no such method, is \<open>LibraryError\<close>.
\<close>

section \<open>Constants\<close>

definition PHILCORE_V2_CONSUMER_RECOVERY_DESCRIPTOR_VERSION :: int where
  "PHILCORE_V2_CONSUMER_RECOVERY_DESCRIPTOR_VERSION = 3"

definition PHILCORE_V2_CONSUMER_RECOVERY_CONFIGURATION_VERSION :: int where
  "PHILCORE_V2_CONSUMER_RECOVERY_CONFIGURATION_VERSION = 3"

definition PHILCORE_V2_CONSUMER_RECOVERY_INDEPENDENCE_VERSION :: int where
  "PHILCORE_V2_CONSUMER_RECOVERY_INDEPENDENCE_VERSION = 2"

datatype authenticator_class =
    PRIMARY_PLATFORM_DEVICE | SECONDARY_PLATFORM_DEVICE | EXTERNAL_HARDWARE_KEY | OFFLINE_SECP256K1_EXPORT

fun PHILCORE_V2_CONSUMER_AUTHENTICATOR_CLASS :: "authenticator_class \<Rightarrow> int" where
  "PHILCORE_V2_CONSUMER_AUTHENTICATOR_CLASS PRIMARY_PLATFORM_DEVICE = 1"
| "PHILCORE_V2_CONSUMER_AUTHENTICATOR_CLASS SECONDARY_PLATFORM_DEVICE = 2"
| "PHILCORE_V2_CONSUMER_AUTHENTICATOR_CLASS EXTERNAL_HARDWARE_KEY = 3"
| "PHILCORE_V2_CONSUMER_AUTHENTICATOR_CLASS OFFLINE_SECP256K1_EXPORT = 4"

definition SYNC_NOT_APPLICABLE :: int where
  "SYNC_NOT_APPLICABLE = 0"

definition SYNC_DEVICE_BOUND :: int where
  "SYNC_DEVICE_BOUND = 1"

definition INDEPENDENCE_ENFORCED :: int where
  "INDEPENDENCE_ENFORCED = 1"

definition BACKUP_SINGLE_DEVICE_REQUIRED :: int where
  "BACKUP_SINGLE_DEVICE_REQUIRED = 1"

definition ATTACHMENT_PLATFORM_REQUIRED :: int where
  "ATTACHMENT_PLATFORM_REQUIRED = 1"

definition ATTACHMENT_CROSS_PLATFORM_REQUIRED :: int where
  "ATTACHMENT_CROSS_PLATFORM_REQUIRED = 2"

definition ATTESTATION_VERIFIED_DEVICE_BOUND :: int where
  "ATTESTATION_VERIFIED_DEVICE_BOUND = 1"

definition ATTESTATION_VERIFIED_EXTERNAL_HARDWARE :: int where
  "ATTESTATION_VERIFIED_EXTERNAL_HARDWARE = 2"

definition INDEPENDENCE_BINDING_TYPE :: string where
  "INDEPENDENCE_BINDING_TYPE =
     ''PhilCoreV2RecoveryIndependenceBindingV2(uint8 bindingVersion,uint8 role,uint8 authenticatorClass,uint8 '' @
     ''synchronizationClass,uint8 independenceAssurance,bytes32 credentialIdHash,bytes32 enrollmentCeremonyHas'' @
     ''h,bytes32 attestationEvidenceHash,bytes32 custodyDomainCommitment,uint64 credentialGeneration)''"

definition FACTOR_DESCRIPTOR_TYPE :: string where
  "FACTOR_DESCRIPTOR_TYPE =
     ''PhilCoreV2RecoveryFactorDescriptorV3(uint8 descriptorVersion,bytes32 accountVersionId,bytes32 securityM'' @
     ''odelId,bytes32 recoveryDomainId,uint8 role,uint8 verifierKind,bytes32 publicVerificationMaterialHash,by'' @
     ''tes32 credentialIdHash,bytes32 rpIdHash,bytes32 originPolicyHash,bytes32 independenceBindingHash,uint8 '' @
     ''userVerificationPolicy,uint8 backupPolicy,uint8 authenticatorAttachmentPolicy,uint8 attestationPolicy,u'' @
     ''int64 credentialGeneration)''"

definition RECOVERY_CONFIGURATION_TYPE :: string where
  "RECOVERY_CONFIGURATION_TYPE =
     ''PhilCoreV2RecoveryConfigurationV3(uint8 configurationVersion,uint8 threshold,bytes32 role0Commitment,by'' @
     ''tes32 role1Commitment,bytes32 role2Commitment)''"

definition SECP256K1_PUBLIC_MATERIAL_TYPE :: string where
  "SECP256K1_PUBLIC_MATERIAL_TYPE = ''PhilCoreV2Secp256k1PublicMaterial(address signer)''"

definition FACTOR_REQUIRED_OWN_KEYS :: "string list" where
  "FACTOR_REQUIRED_OWN_KEYS = [''descriptor'', ''independence'']"

definition FACTOR_OPTIONAL_OWN_KEYS :: "string list" where
  "FACTOR_OPTIONAL_OWN_KEYS = [''signer'']"

definition DESCRIPTOR_OWN_KEYS :: "string list" where
  "DESCRIPTOR_OWN_KEYS = [''descriptorVersion'', ''accountVersionId'', ''securityModelId'', ''recoveryDomainId'', ''role'',
     ''verifierKind'', ''publicVerificationMaterialHash'', ''credentialIdHash'', ''rpIdHash'', ''originPolicyHash'',
     ''independenceBindingHash'', ''userVerificationPolicy'', ''backupPolicy'', ''authenticatorAttachmentPolicy'',
     ''attestationPolicy'', ''credentialGeneration'']"

definition INDEPENDENCE_OWN_KEYS :: "string list" where
  "INDEPENDENCE_OWN_KEYS = [''bindingVersion'', ''role'', ''authenticatorClass'', ''synchronizationClass'',
     ''independenceAssurance'', ''credentialIdHash'', ''enrollmentCeremonyHash'', ''attestationEvidenceHash'',
     ''custodyDomainCommitment'', ''credentialGeneration'']"

section \<open>Field checks\<close>

text \<open>
  What the objects (and functions) in the fields answer when they are converted, by the name of the
  field; \<open>None\<close>: the method throws, or it answers a value that \<open>BigInt\<close> refuses.
\<close>

type_synonym conversion = "string \<Rightarrow> bignumberish option"

text \<open>The own properties of a snapshot, an object with the prototype \<open>null\<close>.\<close>

type_synonym snapshot = "(string \<times> js_value) list"

definition BigInt_primitive :: "bignumberish \<Rightarrow> int option" where
  "BigInt_primitive p = (case BigInt_of p of Inl _ \<Rightarrow> None | Inr i \<Rightarrow> Some i)"

text \<open>\<open>BigInt(value)\<close>; \<open>None\<close> when it throws.\<close>

fun BigInt_value :: "bignumberish option \<Rightarrow> js_value \<Rightarrow> int option" where
  "BigInt_value answer (BigIntVal i) = Some i"
| "BigInt_value answer (NumberVal n) = BigInt_primitive (NumberV n)"
| "BigInt_value answer (StringVal s) = BigInt_primitive (StringV s)"
| "BigInt_value answer (BooleanVal b) = Some (if b then 1 else 0)"
| "BigInt_value answer (ObjectVal obj) = Option.bind answer BigInt_primitive"
| "BigInt_value answer FunctionVal = Option.bind answer BigInt_primitive"
| "BigInt_value answer _ = None"

definition BigInt_field :: "conversion \<Rightarrow> snapshot \<Rightarrow> string \<Rightarrow> int option" where
  "BigInt_field C input key = BigInt_value (C key) (snap input key)"

fun factor_bytes32 :: "ethers \<Rightarrow> js_value \<Rightarrow> string \<Rightarrow> bool \<Rightarrow> string result" where
  "factor_bytes32 E (StringVal s) label allowZero =
     bnd (ensure (isHexString E s 32) (label @ ''_must_be_bytes32'')) (\<lambda>_.
     bnd (ensure (\<not> (\<not> allowZero \<and> toLowerCase s = ZERO_BYTES32)) (label @ ''_must_be_nonzero'')) (\<lambda>_.
     Inr (toLowerCase s)))"
| "factor_bytes32 E _ label allowZero = throw (label @ ''_must_be_bytes32'')"

definition factor_uint :: "conversion \<Rightarrow> snapshot \<Rightarrow> string \<Rightarrow> nat \<Rightarrow> string \<Rightarrow> int result" where
  "factor_uint C input key bits label =
     (case BigInt_field C input key of
        None \<Rightarrow> throw (label @ ''_must_be_uint'' @ show_nat bits)
      | Some parsed \<Rightarrow>
          bnd (ensure (\<not> (parsed < 0 \<or> parsed \<ge> 2 ^ bits)) (label @ ''_must_be_uint'' @ show_nat bits)) (\<lambda>_. Inr parsed))"

definition exact :: "conversion \<Rightarrow> snapshot \<Rightarrow> string \<Rightarrow> int \<Rightarrow> string \<Rightarrow> int result" where
  "exact C input key expected label =
     bnd (factor_uint C input key 8 label) (\<lambda>parsed.
     bnd (ensure (parsed = expected) (label @ ''_unsupported'')) (\<lambda>_. Inr parsed))"

section \<open>Independence\<close>

record normal_independence =
  ni_bindingVersion :: int
  ni_role :: int
  ni_authenticatorClass :: int
  ni_synchronizationClass :: int
  ni_independenceAssurance :: int
  ni_credentialIdHash :: string
  ni_enrollmentCeremonyHash :: string
  ni_attestationEvidenceHash :: string
  ni_custodyDomainCommitment :: string
  ni_credentialGeneration :: int

definition normalizeIndependence :: "ethers \<Rightarrow> conversion \<Rightarrow> snapshot \<Rightarrow> normal_independence result" where
  "normalizeIndependence E C input =
     bnd (factor_uint C input ''role'' 8 ''independence.role'') (\<lambda>role.
     bnd (ensure (\<not> role > 2) ''independence.role_unsupported'') (\<lambda>_.
     bnd (factor_uint C input ''credentialGeneration'' 64 ''independence.credentialGeneration'') (\<lambda>generation.
     bnd (ensure (generation \<noteq> 0) ''credentialGeneration_must_be_nonzero'') (\<lambda>_.
     bnd (exact C input ''bindingVersion'' PHILCORE_V2_CONSUMER_RECOVERY_INDEPENDENCE_VERSION
            ''independence.bindingVersion'') (\<lambda>bindingVersion.
     bnd (factor_uint C input ''authenticatorClass'' 8 ''independence.authenticatorClass'') (\<lambda>authenticatorClass.
     bnd (factor_uint C input ''synchronizationClass'' 8 ''independence.synchronizationClass'') (\<lambda>synchronizationClass.
     bnd (factor_uint C input ''independenceAssurance'' 8 ''independence.independenceAssurance'') (\<lambda>independenceAssurance.
     bnd (factor_bytes32 E (snap input ''credentialIdHash'') ''independence.credentialIdHash'' (role = 2)) (\<lambda>credentialIdHash.
     bnd (factor_bytes32 E (snap input ''enrollmentCeremonyHash'') ''independence.enrollmentCeremonyHash'' False)
       (\<lambda>enrollmentCeremonyHash.
     bnd (factor_bytes32 E (snap input ''attestationEvidenceHash'') ''independence.attestationEvidenceHash'' False)
       (\<lambda>attestationEvidenceHash.
     bnd (factor_bytes32 E (snap input ''custodyDomainCommitment'') ''independence.custodyDomainCommitment'' False)
       (\<lambda>custodyDomainCommitment.
     Inr \<lparr>ni_bindingVersion = bindingVersion, ni_role = role, ni_authenticatorClass = authenticatorClass,
          ni_synchronizationClass = synchronizationClass, ni_independenceAssurance = independenceAssurance,
          ni_credentialIdHash = credentialIdHash, ni_enrollmentCeremonyHash = enrollmentCeremonyHash,
          ni_attestationEvidenceHash = attestationEvidenceHash, ni_custodyDomainCommitment = custodyDomainCommitment,
          ni_credentialGeneration = generation\<rparr>))))))))))))"

definition independence_types :: "string list" where
  "independence_types = [''uint8'', ''uint8'', ''uint8'', ''uint8'', ''uint8'', ''bytes32'', ''bytes32'', ''bytes32'',
     ''bytes32'', ''uint64'']"

definition independence_words :: "normal_independence \<Rightarrow> abi_value list" where
  "independence_words n = [AbiUint (ni_bindingVersion n), AbiUint (ni_role n), AbiUint (ni_authenticatorClass n),
     AbiUint (ni_synchronizationClass n), AbiUint (ni_independenceAssurance n), AbiHex (ni_credentialIdHash n),
     AbiHex (ni_enrollmentCeremonyHash n), AbiHex (ni_attestationEvidenceHash n), AbiHex (ni_custodyDomainCommitment n),
     AbiUint (ni_credentialGeneration n)]"

definition computePhilCoreV2ConsumerRecoveryIndependenceBinding ::
  "ethers \<Rightarrow> conversion \<Rightarrow> snapshot \<Rightarrow> string result" where
  "computePhilCoreV2ConsumerRecoveryIndependenceBinding E C input =
     bnd (normalizeIndependence E C input) (\<lambda>normalized.
     Inr (keccak256 E (HexData (abiEncode E (''bytes32'' # independence_types)
       (AbiHex (keccak256 E (toUtf8Bytes E INDEPENDENCE_BINDING_TYPE)) # independence_words normalized)))))"

section \<open>Descriptors\<close>

record normal_descriptor =
  nd_role :: int
  nd_verifierKind :: int
  nd_publicVerificationMaterialHash :: string
  nd_credentialIdHash :: string
  nd_rpIdHash :: string
  nd_originPolicyHash :: string
  nd_independenceBindingHash :: string
  nd_userVerificationPolicy :: int
  nd_backupPolicy :: int
  nd_authenticatorAttachmentPolicy :: int
  nd_attestationPolicy :: int
  nd_credentialGeneration :: int

definition normalizeDescriptorForPolicy :: "ethers \<Rightarrow> conversion \<Rightarrow> snapshot \<Rightarrow> normal_descriptor result" where
  "normalizeDescriptorForPolicy E C descriptor =
     bnd (factor_uint C descriptor ''role'' 8 ''descriptor.role'') (\<lambda>role.
     bnd (ensure (\<not> role > 2) ''descriptor.role_unsupported'') (\<lambda>_.
     bnd (factor_uint C descriptor ''verifierKind'' 8 ''descriptor.verifierKind'') (\<lambda>kind.
     bnd (factor_bytes32 E (snap descriptor ''publicVerificationMaterialHash'')
            ''descriptor.publicVerificationMaterialHash'' False) (\<lambda>material.
     bnd (factor_bytes32 E (snap descriptor ''credentialIdHash'') ''descriptor.credentialIdHash'' (role = 2)) (\<lambda>credentialIdHash.
     bnd (factor_bytes32 E (snap descriptor ''rpIdHash'') ''descriptor.rpIdHash'' (role = 2)) (\<lambda>rpIdHash.
     bnd (factor_bytes32 E (snap descriptor ''originPolicyHash'') ''descriptor.originPolicyHash'' (role = 2)) (\<lambda>originPolicyHash.
     bnd (factor_bytes32 E (snap descriptor ''independenceBindingHash'') ''descriptor.independenceBindingHash'' False) (\<lambda>bindingHash.
     bnd (factor_uint C descriptor ''userVerificationPolicy'' 8 ''descriptor.userVerificationPolicy'') (\<lambda>verification.
     bnd (factor_uint C descriptor ''backupPolicy'' 8 ''descriptor.backupPolicy'') (\<lambda>backup.
     bnd (factor_uint C descriptor ''authenticatorAttachmentPolicy'' 8 ''descriptor.authenticatorAttachmentPolicy'') (\<lambda>attachment.
     bnd (factor_uint C descriptor ''attestationPolicy'' 8 ''descriptor.attestationPolicy'') (\<lambda>attestation.
     bnd (factor_uint C descriptor ''credentialGeneration'' 64 ''descriptor.credentialGeneration'') (\<lambda>generation.
     Inr \<lparr>nd_role = role, nd_verifierKind = kind, nd_publicVerificationMaterialHash = material,
          nd_credentialIdHash = credentialIdHash, nd_rpIdHash = rpIdHash, nd_originPolicyHash = originPolicyHash,
          nd_independenceBindingHash = bindingHash, nd_userVerificationPolicy = verification, nd_backupPolicy = backup,
          nd_authenticatorAttachmentPolicy = attachment, nd_attestationPolicy = attestation,
          nd_credentialGeneration = generation\<rparr>)))))))))))))"

definition descriptor_types :: "string list" where
  "descriptor_types = [''uint8'', ''bytes32'', ''bytes32'', ''bytes32'', ''uint8'', ''uint8'', ''bytes32'', ''bytes32'',
     ''bytes32'', ''bytes32'', ''bytes32'', ''uint8'', ''uint8'', ''uint8'', ''uint8'', ''uint64'']"

text \<open>\<open>BigInt(descriptor.role) === 2n\<close>, not inside a \<open>try\<close>.\<close>

definition role_is_two :: "conversion \<Rightarrow> snapshot \<Rightarrow> bool result" where
  "role_is_two C descriptor =
     (case BigInt_field C descriptor ''role'' of None \<Rightarrow> Inl LibraryError | Some r \<Rightarrow> Inr (r = 2))"

text \<open>
  The fields are converted once, and the role three more times, for the fields that may be zero:
  passes 0 to 3.
\<close>

definition computePhilCoreV2ConsumerRecoveryFactorCommitment ::
  "ethers \<Rightarrow> (nat \<Rightarrow> conversion) \<Rightarrow> snapshot \<Rightarrow> string result" where
  "computePhilCoreV2ConsumerRecoveryFactorCommitment E C descriptor =
     bnd (exact (C 0) descriptor ''descriptorVersion'' PHILCORE_V2_CONSUMER_RECOVERY_DESCRIPTOR_VERSION
            ''descriptorVersion'') (\<lambda>version.
     bnd (factor_bytes32 E (snap descriptor ''accountVersionId'') ''accountVersionId'' False) (\<lambda>accountVersionId.
     bnd (factor_bytes32 E (snap descriptor ''securityModelId'') ''securityModelId'' False) (\<lambda>securityModelId.
     bnd (factor_bytes32 E (snap descriptor ''recoveryDomainId'') ''recoveryDomainId'' False) (\<lambda>recoveryDomainId.
     bnd (factor_uint (C 0) descriptor ''role'' 8 ''role'') (\<lambda>role.
     bnd (factor_uint (C 0) descriptor ''verifierKind'' 8 ''verifierKind'') (\<lambda>kind.
     bnd (factor_bytes32 E (snap descriptor ''publicVerificationMaterialHash'') ''publicVerificationMaterialHash'' False) (\<lambda>material.
     bnd (role_is_two (C 1) descriptor) (\<lambda>allowZero.
     bnd (factor_bytes32 E (snap descriptor ''credentialIdHash'') ''credentialIdHash'' allowZero) (\<lambda>credentialIdHash.
     bnd (role_is_two (C 2) descriptor) (\<lambda>allowZero.
     bnd (factor_bytes32 E (snap descriptor ''rpIdHash'') ''rpIdHash'' allowZero) (\<lambda>rpIdHash.
     bnd (role_is_two (C 3) descriptor) (\<lambda>allowZero.
     bnd (factor_bytes32 E (snap descriptor ''originPolicyHash'') ''originPolicyHash'' allowZero) (\<lambda>originPolicyHash.
     bnd (factor_bytes32 E (snap descriptor ''independenceBindingHash'') ''independenceBindingHash'' False) (\<lambda>bindingHash.
     bnd (factor_uint (C 0) descriptor ''userVerificationPolicy'' 8 ''userVerificationPolicy'') (\<lambda>verification.
     bnd (factor_uint (C 0) descriptor ''backupPolicy'' 8 ''backupPolicy'') (\<lambda>backup.
     bnd (factor_uint (C 0) descriptor ''authenticatorAttachmentPolicy'' 8 ''authenticatorAttachmentPolicy'') (\<lambda>attachment.
     bnd (factor_uint (C 0) descriptor ''attestationPolicy'' 8 ''attestationPolicy'') (\<lambda>attestation.
     bnd (factor_uint (C 0) descriptor ''credentialGeneration'' 64 ''credentialGeneration'') (\<lambda>generation.
     bnd (ensure (accountVersionId = PHILCORE_V2_CONSUMER_RECOVERY_ACCOUNT_VERSION_ID E) ''accountVersionId_unsupported'') (\<lambda>_.
     bnd (ensure (securityModelId = PHILCORE_V2_SECURITY_MODEL_ID E) ''securityModelId_unsupported'') (\<lambda>_.
     bnd (ensure (recoveryDomainId = PHILCORE_V2_CONSUMER_RECOVERY_DOMAIN_ID E) ''recoveryDomainId_unsupported'') (\<lambda>_.
     bnd (ensure (\<not> (role > 2 \<or> generation = 0)) ''descriptor_role_or_generation_invalid'') (\<lambda>_.
     Inr (keccak256 E (HexData (abiEncode E (''bytes32'' # descriptor_types)
       [AbiHex (keccak256 E (toUtf8Bytes E FACTOR_DESCRIPTOR_TYPE)),
        AbiUint version, AbiHex accountVersionId, AbiHex securityModelId, AbiHex recoveryDomainId, AbiUint role, AbiUint kind,
        AbiHex material, AbiHex credentialIdHash, AbiHex rpIdHash, AbiHex originPolicyHash, AbiHex bindingHash,
        AbiUint verification, AbiUint backup, AbiUint attachment, AbiUint attestation,
        AbiUint generation]))))))))))))))))))))))))))"

section \<open>Public material of the offline signer\<close>

definition evidence_address :: "ethers \<Rightarrow> string \<Rightarrow> string \<Rightarrow> string result" where
  "evidence_address E v label =
     (case getAddress E v of
        None \<Rightarrow> throw (label @ ''_must_be_address'')
      | Some normalized \<Rightarrow>
          bnd (ensure (normalized \<noteq> ZERO_ADDRESS) (label @ ''_must_be_nonzero'')) (\<lambda>_. Inr normalized))"

definition computePhilCoreV2Secp256k1PublicMaterialHash :: "ethers \<Rightarrow> string \<Rightarrow> string result" where
  "computePhilCoreV2Secp256k1PublicMaterialHash E signer =
     bnd (evidence_address E signer ''signer'') (\<lambda>normalized.
     Inr (keccak256 E (HexData (abiEncode E [''bytes32'', ''address'']
       [AbiHex (keccak256 E (toUtf8Bytes E SECP256K1_PUBLIC_MATERIAL_TYPE)), AbiHex normalized]))))"

section \<open>Access to the caller's objects\<close>

fun caught :: "string \<Rightarrow> 'a trap \<Rightarrow> 'a result" where
  "caught message (Returns x) = Inr x"
| "caught message (Throws _) = throw message"

fun factor_plain_object :: "js_value \<Rightarrow> string \<Rightarrow> js_object result" where
  "factor_plain_object (ObjectVal obj) message =
     bnd (caught message (isArray obj)) (\<lambda>array.
     bnd (ensure (\<not> array) message) (\<lambda>_. Inr obj))"
| "factor_plain_object _ message = throw message"

fun factor_read :: "js_descriptor \<Rightarrow> string \<Rightarrow> js_value result" where
  "factor_read (DataProperty v) message = Inr v"
| "factor_read (AccessorProperty None) message = throw message"
| "factor_read (AccessorProperty (Some getter)) message = caught message getter"

text \<open>Every rejection of the own keys throws the same message.\<close>

fun with_message :: "string \<Rightarrow> 'a coded \<Rightarrow> 'a result" where
  "with_message message (Inl _) = throw message"
| "with_message message (Inr x) = Inr x"

definition factor_own_keys ::
  "js_object \<Rightarrow> string list \<Rightarrow> string list \<Rightarrow> string \<Rightarrow> (string \<times> js_descriptor) list result" where
  "factor_own_keys obj requiredKeys optionalKeys message =
     bnd (caught message (ownKeys obj)) (\<lambda>keys.
     with_message message
       (own_descriptors [] obj keys (requiredKeys @ optionalKeys) requiredKeys message message message))"

definition read_verified :: "(string \<times> js_descriptor) list \<Rightarrow> string \<Rightarrow> string \<Rightarrow> js_value result" where
  "read_verified verified key message =
     (case map_of verified key of None \<Rightarrow> Inl LibraryError | Some descriptor \<Rightarrow> factor_read descriptor message)"

definition factor_snapshot :: "js_value \<Rightarrow> string list \<Rightarrow> string \<Rightarrow> snapshot result" where
  "factor_snapshot v allowedKeys message =
     bnd (factor_plain_object v message) (\<lambda>obj.
     bnd (factor_own_keys obj allowedKeys [] message) (\<lambda>verified.
     traverse (\<lambda>key. bnd (read_verified verified key message) (\<lambda>value. Inr (key, value))) allowedKeys))"

section \<open>What the checks accept\<close>

definition field_uint :: "conversion \<Rightarrow> snapshot \<Rightarrow> string \<Rightarrow> nat \<Rightarrow> int \<Rightarrow> bool" where
  "field_uint C input key bits n \<longleftrightarrow> BigInt_field C input key = Some n \<and> uint_fits bits n"

lemma factor_bytes32_iff: "factor_bytes32 E v label az = Inr t \<longleftrightarrow> js_bytes32 E az v t"
  by (cases v) (auto simp: result_simps js_bytes32_def is_bytes32_def)

lemma factor_uint_iff: "factor_uint C input key bits label = Inr n \<longleftrightarrow> field_uint C input key bits n"
  by (auto simp: factor_uint_def field_uint_def uint_fits_def result_simps split: option.splits)

lemma exact_iff: "exact C input key k label = Inr n \<longleftrightarrow> n = k \<and> field_uint C input key 8 k"
  by (auto simp: exact_def result_simps factor_uint_iff)

lemma role_is_two_iff: "role_is_two C d = Inr b \<longleftrightarrow> (\<exists>r. BigInt_field C d ''role'' = Some r \<and> b = (r = 2))"
  by (auto simp: role_is_two_def split: option.splits)

lemma caught_iff: "caught message t = Inr x \<longleftrightarrow> t = Returns x"
  by (cases t) auto

lemma with_message_iff: "with_message message r = Inr x \<longleftrightarrow> r = Inr x"
  by (cases r) auto

lemma factor_plain_object_iff:
  "factor_plain_object v message = Inr obj \<longleftrightarrow> v = ObjectVal obj \<and> isArray obj = Returns False"
  by (cases v) (auto simp: result_simps caught_iff)

lemma factor_read_iff: "factor_read d message = Inr v \<longleftrightarrow> descriptor_value d = Some v"
  by (cases "(d, message)" rule: factor_read.cases; cases d rule: descriptor_value.cases) (auto simp: caught_iff)

lemma read_verified_iff:
  "read_verified verified key message = Inr v \<longleftrightarrow> Option.bind (map_of verified key) descriptor_value = Some v"
  by (auto simp: read_verified_def factor_read_iff split: option.splits)

text \<open>A snapshot holds the values of the own properties, in the order of the keys.\<close>

definition object_snapshot :: "js_value \<Rightarrow> string list \<Rightarrow> snapshot \<Rightarrow> bool" where
  "object_snapshot v keys ps \<longleftrightarrow>
     (\<exists>obj. v = ObjectVal obj \<and> isArray obj = Returns False \<and> exact_object obj keys \<and>
        list_all2 (\<lambda>key p. fst p = key \<and> Option.bind (descriptor_of obj key) descriptor_value = Some (snd p)) keys ps)"

lemma factor_snapshot_iff: "factor_snapshot v keys message = Inr ps \<longleftrightarrow> object_snapshot v keys ps"
proof -
  have one: "bnd (read_verified verified key message) (\<lambda>value. Inr (key, value)) = Inr p \<longleftrightarrow>
      fst p = key \<and> Option.bind (map_of verified key) descriptor_value = Some (snd p)" for verified key p
    by (cases p) (auto simp: result_simps read_verified_iff)
  have own: "(\<exists>verified. own_descriptors [] obj ks keys keys message message message = Inr verified \<and>
        list_all2 (\<lambda>key p. fst p = key \<and> Option.bind (map_of verified key) descriptor_value = Some (snd p)) keys ps) \<longleftrightarrow>
      exact_object obj keys \<and>
        list_all2 (\<lambda>key p. fst p = key \<and> Option.bind (descriptor_of obj key) descriptor_value = Some (snd p)) keys ps"
    if "ownKeys obj = Returns ks" for obj ks
    using own_descriptors_iff [OF that, of "[]" keys message message message
        "\<lambda>m. list_all2 (\<lambda>key p. fst p = key \<and> Option.bind (m key) descriptor_value = Some (snd p)) keys ps"]
    by (simp add: list_all2_conv_all_nth cong: conj_cong)
  have keys: "exact_object obj keys \<Longrightarrow> \<exists>ks. ownKeys obj = Returns ks" for obj
    by (auto simp: exact_object_def)
  have obj: "(\<exists>verified. factor_own_keys obj keys [] message = Inr verified \<and>
        list_all2 (\<lambda>key p. fst p = key \<and> Option.bind (map_of verified key) descriptor_value = Some (snd p)) keys ps) \<longleftrightarrow>
      exact_object obj keys \<and>
        list_all2 (\<lambda>key p. fst p = key \<and> Option.bind (descriptor_of obj key) descriptor_value = Some (snd p)) keys ps" for obj
  proof (cases "\<exists>ks. ownKeys obj = Returns ks")
    case True
    then obtain ks where "ownKeys obj = Returns ks" by blast
    with own [OF this] show ?thesis
      unfolding factor_own_keys_def bnd_eq_Inr caught_iff with_message_iff by simp
  next
    case False
    with keys show ?thesis unfolding factor_own_keys_def bnd_eq_Inr caught_iff by blast
  qed
  show ?thesis
    unfolding factor_snapshot_def object_snapshot_def bnd_eq_Inr [of "factor_plain_object v message"]
      bnd_eq_Inr [of "factor_own_keys _ _ _ _"] factor_plain_object_iff traverse_iff one obj by blast
qed

section \<open>What is committed to\<close>

definition independence_of :: "ethers \<Rightarrow> conversion \<Rightarrow> snapshot \<Rightarrow> normal_independence \<Rightarrow> bool" where
  "independence_of E C input n \<longleftrightarrow>
     field_uint C input ''role'' 8 (ni_role n) \<and> ni_role n \<le> 2 \<and>
     field_uint C input ''credentialGeneration'' 64 (ni_credentialGeneration n) \<and> ni_credentialGeneration n \<noteq> 0 \<and>
     ni_bindingVersion n = PHILCORE_V2_CONSUMER_RECOVERY_INDEPENDENCE_VERSION \<and>
     field_uint C input ''bindingVersion'' 8 PHILCORE_V2_CONSUMER_RECOVERY_INDEPENDENCE_VERSION \<and>
     field_uint C input ''authenticatorClass'' 8 (ni_authenticatorClass n) \<and>
     field_uint C input ''synchronizationClass'' 8 (ni_synchronizationClass n) \<and>
     field_uint C input ''independenceAssurance'' 8 (ni_independenceAssurance n) \<and>
     js_bytes32 E (ni_role n = 2) (snap input ''credentialIdHash'') (ni_credentialIdHash n) \<and>
     js_bytes32 E False (snap input ''enrollmentCeremonyHash'') (ni_enrollmentCeremonyHash n) \<and>
     js_bytes32 E False (snap input ''attestationEvidenceHash'') (ni_attestationEvidenceHash n) \<and>
     js_bytes32 E False (snap input ''custodyDomainCommitment'') (ni_custodyDomainCommitment n)"

lemma normalizeIndependence_iff: "normalizeIndependence E C input = Inr n \<longleftrightarrow> independence_of E C input n"
  by (cases n) (auto simp: normalizeIndependence_def independence_of_def bnd_eq_Inr ensure_eq_Inr factor_uint_iff
      factor_bytes32_iff exact_iff)

definition policy_descriptor :: "ethers \<Rightarrow> conversion \<Rightarrow> snapshot \<Rightarrow> normal_descriptor \<Rightarrow> bool" where
  "policy_descriptor E C d n \<longleftrightarrow>
     field_uint C d ''role'' 8 (nd_role n) \<and> nd_role n \<le> 2 \<and> field_uint C d ''verifierKind'' 8 (nd_verifierKind n) \<and>
     js_bytes32 E False (snap d ''publicVerificationMaterialHash'') (nd_publicVerificationMaterialHash n) \<and>
     js_bytes32 E (nd_role n = 2) (snap d ''credentialIdHash'') (nd_credentialIdHash n) \<and>
     js_bytes32 E (nd_role n = 2) (snap d ''rpIdHash'') (nd_rpIdHash n) \<and>
     js_bytes32 E (nd_role n = 2) (snap d ''originPolicyHash'') (nd_originPolicyHash n) \<and>
     js_bytes32 E False (snap d ''independenceBindingHash'') (nd_independenceBindingHash n) \<and>
     field_uint C d ''userVerificationPolicy'' 8 (nd_userVerificationPolicy n) \<and>
     field_uint C d ''backupPolicy'' 8 (nd_backupPolicy n) \<and>
     field_uint C d ''authenticatorAttachmentPolicy'' 8 (nd_authenticatorAttachmentPolicy n) \<and>
     field_uint C d ''attestationPolicy'' 8 (nd_attestationPolicy n) \<and>
     field_uint C d ''credentialGeneration'' 64 (nd_credentialGeneration n)"

lemma normalizeDescriptorForPolicy_iff: "normalizeDescriptorForPolicy E C d = Inr n \<longleftrightarrow> policy_descriptor E C d n"
  by (cases n) (auto simp: normalizeDescriptorForPolicy_def policy_descriptor_def bnd_eq_Inr ensure_eq_Inr factor_uint_iff
      factor_bytes32_iff)

definition descriptor_words :: "ethers \<Rightarrow> normal_descriptor \<Rightarrow> abi_value list" where
  "descriptor_words E n =
     [AbiUint PHILCORE_V2_CONSUMER_RECOVERY_DESCRIPTOR_VERSION, AbiHex (PHILCORE_V2_CONSUMER_RECOVERY_ACCOUNT_VERSION_ID E),
      AbiHex (PHILCORE_V2_SECURITY_MODEL_ID E), AbiHex (PHILCORE_V2_CONSUMER_RECOVERY_DOMAIN_ID E), AbiUint (nd_role n),
      AbiUint (nd_verifierKind n), AbiHex (nd_publicVerificationMaterialHash n), AbiHex (nd_credentialIdHash n),
      AbiHex (nd_rpIdHash n), AbiHex (nd_originPolicyHash n), AbiHex (nd_independenceBindingHash n),
      AbiUint (nd_userVerificationPolicy n), AbiUint (nd_backupPolicy n), AbiUint (nd_authenticatorAttachmentPolicy n),
      AbiUint (nd_attestationPolicy n), AbiUint (nd_credentialGeneration n)]"

text \<open>What the commitment of a descriptor is computed from.\<close>

definition committed_descriptor :: "ethers \<Rightarrow> (nat \<Rightarrow> conversion) \<Rightarrow> snapshot \<Rightarrow> normal_descriptor \<Rightarrow> bool" where
  "committed_descriptor E C d n \<longleftrightarrow>
     field_uint (C 0) d ''descriptorVersion'' 8 PHILCORE_V2_CONSUMER_RECOVERY_DESCRIPTOR_VERSION \<and>
     js_bytes32 E False (snap d ''accountVersionId'') (PHILCORE_V2_CONSUMER_RECOVERY_ACCOUNT_VERSION_ID E) \<and>
     js_bytes32 E False (snap d ''securityModelId'') (PHILCORE_V2_SECURITY_MODEL_ID E) \<and>
     js_bytes32 E False (snap d ''recoveryDomainId'') (PHILCORE_V2_CONSUMER_RECOVERY_DOMAIN_ID E) \<and>
     field_uint (C 0) d ''role'' 8 (nd_role n) \<and> nd_role n \<le> 2 \<and> field_uint (C 0) d ''verifierKind'' 8 (nd_verifierKind n) \<and>
     js_bytes32 E False (snap d ''publicVerificationMaterialHash'') (nd_publicVerificationMaterialHash n) \<and>
     (\<exists>r. BigInt_field (C 1) d ''role'' = Some r \<and> js_bytes32 E (r = 2) (snap d ''credentialIdHash'') (nd_credentialIdHash n)) \<and>
     (\<exists>r. BigInt_field (C 2) d ''role'' = Some r \<and> js_bytes32 E (r = 2) (snap d ''rpIdHash'') (nd_rpIdHash n)) \<and>
     (\<exists>r. BigInt_field (C 3) d ''role'' = Some r \<and> js_bytes32 E (r = 2) (snap d ''originPolicyHash'') (nd_originPolicyHash n)) \<and>
     js_bytes32 E False (snap d ''independenceBindingHash'') (nd_independenceBindingHash n) \<and>
     field_uint (C 0) d ''userVerificationPolicy'' 8 (nd_userVerificationPolicy n) \<and>
     field_uint (C 0) d ''backupPolicy'' 8 (nd_backupPolicy n) \<and>
     field_uint (C 0) d ''authenticatorAttachmentPolicy'' 8 (nd_authenticatorAttachmentPolicy n) \<and>
     field_uint (C 0) d ''attestationPolicy'' 8 (nd_attestationPolicy n) \<and>
     field_uint (C 0) d ''credentialGeneration'' 64 (nd_credentialGeneration n) \<and> nd_credentialGeneration n \<noteq> 0"

abbreviation independence_commitment :: "ethers \<Rightarrow> normal_independence \<Rightarrow> string" where
  "independence_commitment E n \<equiv> commitment E INDEPENDENCE_BINDING_TYPE independence_types (independence_words n)"

abbreviation descriptor_commitment :: "ethers \<Rightarrow> normal_descriptor \<Rightarrow> string" where
  "descriptor_commitment E n \<equiv> commitment E FACTOR_DESCRIPTOR_TYPE descriptor_types (descriptor_words E n)"

lemma independence_binding_iff:
  "computePhilCoreV2ConsumerRecoveryIndependenceBinding E C input = Inr h \<longleftrightarrow>
     (\<exists>n. independence_of E C input n \<and> h = independence_commitment E n)"
  by (auto simp: computePhilCoreV2ConsumerRecoveryIndependenceBinding_def bnd_eq_Inr normalizeIndependence_iff
      commitment_def commitment_preimage_def literal_hash_def)

lemma ex_normal_descriptor:
  "(\<exists>n. P n) \<longleftrightarrow> (\<exists>role kind material cred rp origin binding verification backup attachment attestation generation.
     P \<lparr>nd_role = role, nd_verifierKind = kind, nd_publicVerificationMaterialHash = material,
       nd_credentialIdHash = cred, nd_rpIdHash = rp, nd_originPolicyHash = origin, nd_independenceBindingHash = binding,
       nd_userVerificationPolicy = verification, nd_backupPolicy = backup, nd_authenticatorAttachmentPolicy = attachment,
       nd_attestationPolicy = attestation, nd_credentialGeneration = generation\<rparr>)"
  by (metis normal_descriptor.cases)

lemma factor_commitment_iff:
  "computePhilCoreV2ConsumerRecoveryFactorCommitment E C d = Inr h \<longleftrightarrow>
     (\<exists>n. committed_descriptor E C d n \<and> h = descriptor_commitment E n)"
  unfolding computePhilCoreV2ConsumerRecoveryFactorCommitment_def bnd_eq_Inr exact_iff factor_uint_iff factor_bytes32_iff
    role_is_two_iff ensure_eq_Inr de_Morgan_disj not_less ex_normal_descriptor committed_descriptor_def descriptor_words_def
    commitment_def commitment_preimage_def literal_hash_def normal_descriptor.simps sum.inject
  by (intro iffI; elim exE conjE; hypsubst; intro exI conjI; (assumption | rule refl TrueI))

lemma field_uint_abi:
  "field_uint C d key 8 n \<Longrightarrow> abi_fits E ''uint8'' (AbiUint n)"
  "field_uint C d key 64 n \<Longrightarrow> abi_fits E ''uint64'' (AbiUint n)"
  by (simp_all add: field_uint_def)

lemma js_bytes32_abi: "ethers_laws E \<Longrightarrow> js_bytes32 E az v t \<Longrightarrow> abi_fits E ''bytes32'' (AbiHex t)"
  by (auto simp: js_bytes32_def simp del: abi_fits.simps intro: is_bytes32_abi)

lemma js_bytes32_lower: "js_bytes32 E az v t \<Longrightarrow> toLowerCase t = t"
  by (auto simp: js_bytes32_def is_bytes32_def)

lemma js_bytes32_unique: "js_bytes32 E az v t \<Longrightarrow> js_bytes32 E az' v t' \<Longrightarrow> t = t'"
  by (auto simp: js_bytes32_def is_bytes32_def)

lemma independence_fits:
  assumes "ethers_laws E" and "independence_of E C input n"
  shows "list_all2 (abi_fits E) independence_types (independence_words n)"
proof -
  have "abi_fits E ''uint8'' (AbiUint (ni_bindingVersion n))"
    using assms(2) by (simp add: independence_of_def PHILCORE_V2_CONSUMER_RECOVERY_INDEPENDENCE_VERSION_def uint_fits_def)
  with assms(2) show ?thesis
    unfolding independence_of_def independence_types_def independence_words_def list_all2_Cons list_all2_Nil
    by (elim conjE) (intro conjI; (rule refl | assumption | erule field_uint_abi | erule js_bytes32_abi [OF assms(1)]))
qed

lemma descriptor_fits:
  assumes "ethers_laws E" and "committed_descriptor E C d n"
  shows "list_all2 (abi_fits E) descriptor_types (descriptor_words E n)"
  using assms(2)
  unfolding committed_descriptor_def descriptor_types_def descriptor_words_def list_all2_Cons list_all2_Nil
  by (elim conjE exE) (intro conjI; (rule refl | erule field_uint_abi | erule js_bytes32_abi [OF assms(1)]))

lemma independence_words_inject: "independence_words n = independence_words m \<Longrightarrow> n = m"
  by (cases n; cases m) (simp add: independence_words_def)

lemma descriptor_words_inject: "descriptor_words E n = descriptor_words E m \<Longrightarrow> n = m"
  by (cases n; cases m) (simp add: descriptor_words_def)

interpretation independence_binding: committing
  "\<lambda>E p. computePhilCoreV2ConsumerRecoveryIndependenceBinding E (fst p) (snd p)"
  INDEPENDENCE_BINDING_TYPE independence_types
  "\<lambda>E p ws. \<exists>n. independence_of E (fst p) (snd p) n \<and> ws = independence_words n"
  by unfold_locales (auto simp: independence_binding_iff intro: independence_fits)

interpretation factor_commitment: committing
  "\<lambda>E p. computePhilCoreV2ConsumerRecoveryFactorCommitment E (fst p) (snd p)"
  FACTOR_DESCRIPTOR_TYPE descriptor_types
  "\<lambda>E p ws. \<exists>n. committed_descriptor E (fst p) (snd p) n \<and> ws = descriptor_words E n"
  by unfold_locales (auto simp: factor_commitment_iff intro: descriptor_fits)

text \<open>The passes over a snapshot agree on the numbers.\<close>

definition steady :: "(nat \<Rightarrow> conversion) \<Rightarrow> snapshot \<Rightarrow> bool" where
  "steady C input \<longleftrightarrow> (\<forall>k key. BigInt_field (C k) input key = BigInt_field (C 0) input key)"

text \<open>A snapshot without objects and functions.\<close>

fun primitive_value :: "js_value \<Rightarrow> bool" where
  "primitive_value (ObjectVal _) = False"
| "primitive_value FunctionVal = False"
| "primitive_value _ = True"

lemma steady_primitive:
  assumes "\<forall>p \<in> set input. primitive_value (snd p)"
  shows "steady C input"
proof -
  have "primitive_value (snap input key)" for key
    using assms by (fastforce simp: snap_def dest: map_of_SomeD split: option.splits)
  then have "BigInt_value a (snap input key) = BigInt_value b (snap input key)" for a b key
    by (cases "snap input key") (simp_all, (metis primitive_value.simps)+)
  then show ?thesis by (simp add: steady_def BigInt_field_def)
qed

lemma steady_field_uint: "steady C input \<Longrightarrow> field_uint (C k) input key bits n \<longleftrightarrow> field_uint (C 0) input key bits n"
  unfolding steady_def field_uint_def by metis

lemma steady_independence: "steady C input \<Longrightarrow> independence_of E (C k) input n \<longleftrightarrow> independence_of E (C 0) input n"
  unfolding independence_of_def by (simp add: steady_field_uint [of C input k])

lemma steady_descriptor: "steady C d \<Longrightarrow> policy_descriptor E (C k) d n \<longleftrightarrow> policy_descriptor E (C 0) d n"
  unfolding policy_descriptor_def by (simp add: steady_field_uint [of C d k])

lemma steady_shift: "steady C input \<Longrightarrow> steady (\<lambda>k. C (j + k)) input"
  unfolding steady_def by metis

lemma independence_unique: "independence_of E C input n \<Longrightarrow> independence_of E C input m \<Longrightarrow> n = m"
  by (metis normalizeIndependence_iff sum.inject(2))

lemma policy_descriptor_unique: "policy_descriptor E C d n \<Longrightarrow> policy_descriptor E C d m \<Longrightarrow> n = m"
  by (metis normalizeDescriptorForPolicy_iff sum.inject(2))

text \<open>The commitment of a steady descriptor is to its normal form.\<close>

lemma committed_descriptor_steady:
  assumes "steady C d"
  shows "committed_descriptor E C d n \<longleftrightarrow>
     field_uint (C 0) d ''descriptorVersion'' 8 PHILCORE_V2_CONSUMER_RECOVERY_DESCRIPTOR_VERSION \<and>
     js_bytes32 E False (snap d ''accountVersionId'') (PHILCORE_V2_CONSUMER_RECOVERY_ACCOUNT_VERSION_ID E) \<and>
     js_bytes32 E False (snap d ''securityModelId'') (PHILCORE_V2_SECURITY_MODEL_ID E) \<and>
     js_bytes32 E False (snap d ''recoveryDomainId'') (PHILCORE_V2_CONSUMER_RECOVERY_DOMAIN_ID E) \<and>
     policy_descriptor E (C 0) d n \<and> nd_credentialGeneration n \<noteq> 0"
proof -
  have role: "(\<exists>r. BigInt_field (C k) d ''role'' = Some r \<and> js_bytes32 E (r = 2) v t) \<longleftrightarrow> js_bytes32 E (nd_role n = 2) v t"
    if "field_uint (C 0) d ''role'' 8 (nd_role n)" for k v t
  proof -
    have "BigInt_field (C k) d ''role'' = Some (nd_role n)" using that assms unfolding field_uint_def steady_def by metis
    then show ?thesis by simp
  qed
  show ?thesis
    unfolding committed_descriptor_def policy_descriptor_def
    by (cases "field_uint (C 0) d ''role'' 8 (nd_role n)") (simp_all only: role simp_thms, blast)
qed

end
