(* ===== verification/RecoveryProfile.thy ===== *)
theory RecoveryProfile
  imports ConsumerRecovery
begin

text \<open>
  The policy of a recovery factor in its role, the profile of three factors and the rotation of one
  of them (\<open>v2ConsumerRecovery.ts\<close>, from the factor policy on). The factors and their fields are any
  objects. The object that carries the arguments of the profile or of the rotation (\<open>factors\<close>,
  \<open>executionValidator\<close>, \<open>current\<close>, \<open>proposed\<close>) is plain data: its properties are arguments of the
  definitions, and an accessor that answers two reads differently is not covered.
\<close>

section \<open>The policy of a factor\<close>

fun expected_role :: "js_value \<Rightarrow> int result" where
  "expected_role (NumberVal (IntegerNumber r)) =
     bnd (ensure (r = 0 \<or> r = 1 \<or> r = 2) ''recovery_factor_expected_role_invalid'') (\<lambda>_. Inr r)"
| "expected_role _ = throw ''recovery_factor_expected_role_invalid''"

text \<open>The binding is computed only when the other comparisons succeed.\<close>

definition check_binding ::
  "ethers \<Rightarrow> conversion \<Rightarrow> int \<Rightarrow> normal_descriptor \<Rightarrow> normal_independence \<Rightarrow> snapshot \<Rightarrow> unit result" where
  "check_binding E C r descriptor independence independenceSnapshot =
     bnd (ensure (\<not> (nd_role descriptor \<noteq> r \<or> ni_role independence \<noteq> r \<or>
                     nd_credentialGeneration descriptor \<noteq> ni_credentialGeneration independence))
            ''recovery_factor_role_or_independence_binding_invalid'') (\<lambda>_.
     bnd (computePhilCoreV2ConsumerRecoveryIndependenceBinding E C independenceSnapshot) (\<lambda>binding.
     ensure (\<not> (nd_independenceBindingHash descriptor \<noteq> binding))
       ''recovery_factor_role_or_independence_binding_invalid''))"

definition webauthn_policy :: "normal_descriptor \<Rightarrow> normal_independence \<Rightarrow> bool" where
  "webauthn_policy descriptor independence \<longleftrightarrow>
     nd_verifierKind descriptor = PHILCORE_V2_RECOVERY_VERIFIER_KIND WEBAUTHN_P256 \<and>
     nd_userVerificationPolicy descriptor = PHILCORE_V2_USER_VERIFICATION_POLICY USER_VERIFICATION_REQUIRED \<and>
     nd_backupPolicy descriptor = BACKUP_SINGLE_DEVICE_REQUIRED \<and>
     ni_synchronizationClass independence = SYNC_DEVICE_BOUND"

definition primary_policy :: "normal_descriptor \<Rightarrow> normal_independence \<Rightarrow> bool" where
  "primary_policy descriptor independence \<longleftrightarrow>
     ni_authenticatorClass independence = PHILCORE_V2_CONSUMER_AUTHENTICATOR_CLASS PRIMARY_PLATFORM_DEVICE \<and>
     nd_authenticatorAttachmentPolicy descriptor = ATTACHMENT_PLATFORM_REQUIRED \<and>
     nd_attestationPolicy descriptor = ATTESTATION_VERIFIED_DEVICE_BOUND"

definition secondary_platform :: "normal_descriptor \<Rightarrow> normal_independence \<Rightarrow> bool" where
  "secondary_platform descriptor independence \<longleftrightarrow>
     ni_authenticatorClass independence = PHILCORE_V2_CONSUMER_AUTHENTICATOR_CLASS SECONDARY_PLATFORM_DEVICE \<and>
     nd_authenticatorAttachmentPolicy descriptor = ATTACHMENT_PLATFORM_REQUIRED \<and>
     nd_attestationPolicy descriptor = ATTESTATION_VERIFIED_DEVICE_BOUND"

definition secondary_hardware :: "normal_descriptor \<Rightarrow> normal_independence \<Rightarrow> bool" where
  "secondary_hardware descriptor independence \<longleftrightarrow>
     ni_authenticatorClass independence = PHILCORE_V2_CONSUMER_AUTHENTICATOR_CLASS EXTERNAL_HARDWARE_KEY \<and>
     nd_authenticatorAttachmentPolicy descriptor = ATTACHMENT_CROSS_PLATFORM_REQUIRED \<and>
     nd_attestationPolicy descriptor = ATTESTATION_VERIFIED_EXTERNAL_HARDWARE"

definition offline_policy :: "normal_descriptor \<Rightarrow> normal_independence \<Rightarrow> bool" where
  "offline_policy descriptor independence \<longleftrightarrow>
     ni_authenticatorClass independence = PHILCORE_V2_CONSUMER_AUTHENTICATOR_CLASS OFFLINE_SECP256K1_EXPORT \<and>
     ni_synchronizationClass independence = SYNC_NOT_APPLICABLE \<and>
     nd_verifierKind descriptor = PHILCORE_V2_RECOVERY_VERIFIER_KIND PURPOSE_BOUND_SECP256K1 \<and>
     nd_credentialIdHash descriptor = ZERO_BYTES32 \<and> nd_rpIdHash descriptor = ZERO_BYTES32 \<and>
     nd_originPolicyHash descriptor = ZERO_BYTES32 \<and> nd_userVerificationPolicy descriptor = 0 \<and>
     nd_backupPolicy descriptor = 0 \<and> nd_authenticatorAttachmentPolicy descriptor = 0 \<and>
     nd_attestationPolicy descriptor = 0"

fun offline_signer :: "ethers \<Rightarrow> normal_descriptor \<Rightarrow> js_value \<Rightarrow> string result" where
  "offline_signer E descriptor (StringVal signerRaw) =
     (case getAddress E signerRaw of
        None \<Rightarrow> throw ''offline_recovery_signer_invalid''
      | Some normalizedSigner \<Rightarrow>
          bnd (ensure (\<not> (normalizedSigner \<noteq> signerRaw \<or> normalizedSigner = ZERO_ADDRESS)) ''offline_recovery_signer_invalid'') (\<lambda>_.
          bnd (computePhilCoreV2Secp256k1PublicMaterialHash E normalizedSigner) (\<lambda>material.
          bnd (ensure (\<not> (material \<noteq> nd_publicVerificationMaterialHash descriptor)) ''offline_recovery_signer_binding_invalid'') (\<lambda>_.
          Inr normalizedSigner))))"
| "offline_signer E descriptor _ = throw ''offline_recovery_signer_invalid''"

text \<open>The checks that depend on the role, with the signer of the offline factor.\<close>

definition role_policy ::
  "ethers \<Rightarrow> int \<Rightarrow> (string \<times> js_descriptor) list \<Rightarrow> normal_descriptor \<Rightarrow> normal_independence \<Rightarrow> string option result" where
  "role_policy E r verified descriptor independence =
     bnd (ensure (\<not> (r < 2 \<and> \<not> webauthn_policy descriptor independence)) ''webauthn_recovery_factor_policy_invalid'') (\<lambda>_.
     if r = 0 then
       bnd (ensure (primary_policy descriptor independence) ''primary_device_policy_invalid'') (\<lambda>_. Inr None)
     else if r = 1 then
       bnd (ensure (\<not> (\<not> secondary_platform descriptor independence \<and> \<not> secondary_hardware descriptor independence))
              ''secondary_authenticator_classification_invalid'') (\<lambda>_. Inr None)
     else
       bnd (ensure (offline_policy descriptor independence) ''offline_recovery_factor_policy_invalid'') (\<lambda>_.
       bnd (read_verified verified ''signer'' ''offline_recovery_signer_invalid'') (\<lambda>signerRaw.
       bnd (offline_signer E descriptor signerRaw) (\<lambda>signer. Inr (Some signer)))))"

record factor_policy =
  fp_descriptor :: snapshot
  fp_independence :: snapshot
  fp_signer :: "string option"
  fp_factorCommitment :: string

text \<open>
  The passes over the fields: 0 and 1 for the normal forms that the policy is checked on, 2 for the
  binding, 3 to 6 for the commitment.
\<close>

definition validatePhilCoreV2ConsumerRecoveryFactorPolicy ::
  "ethers \<Rightarrow> (nat \<Rightarrow> conversion) \<Rightarrow> js_value \<Rightarrow> js_value \<Rightarrow> factor_policy result" where
  "validatePhilCoreV2ConsumerRecoveryFactorPolicy E C factor expectedRole =
     bnd (expected_role expectedRole) (\<lambda>role.
     bnd (factor_plain_object factor ''recovery_factor_input_invalid'') (\<lambda>factorObject.
     bnd (factor_own_keys factorObject FACTOR_REQUIRED_OWN_KEYS FACTOR_OPTIONAL_OWN_KEYS
            ''recovery_factor_input_invalid'') (\<lambda>verified.
     bnd (ensure (\<not> (role < 2 \<and> map_of verified ''signer'' \<noteq> None)) ''webauthn_recovery_factor_signer_forbidden'') (\<lambda>_.
     bnd (ensure (\<not> (role = 2 \<and> \<not> map_of verified ''signer'' \<noteq> None)) ''offline_recovery_signer_required'') (\<lambda>_.
     bnd (read_verified verified ''descriptor'' ''recovery_factor_descriptor_input_invalid'') (\<lambda>descriptorRaw.
     bnd (read_verified verified ''independence'' ''recovery_factor_independence_input_invalid'') (\<lambda>independenceRaw.
     bnd (factor_snapshot descriptorRaw DESCRIPTOR_OWN_KEYS ''recovery_factor_descriptor_input_invalid'') (\<lambda>descriptorSnapshot.
     bnd (factor_snapshot independenceRaw INDEPENDENCE_OWN_KEYS ''recovery_factor_independence_input_invalid'') (\<lambda>independenceSnapshot.
     bnd (normalizeIndependence E (C 0) independenceSnapshot) (\<lambda>independence.
     bnd (normalizeDescriptorForPolicy E (C 1) descriptorSnapshot) (\<lambda>descriptor.
     bnd (check_binding E (C 2) role descriptor independence independenceSnapshot) (\<lambda>_.
     bnd (ensure (ni_independenceAssurance independence = INDEPENDENCE_ENFORCED) ''degraded_independence_not_deployable'') (\<lambda>_.
     bnd (ensure (nd_credentialIdHash descriptor = ni_credentialIdHash independence)
            ''descriptor_independence_credential_id_hash_mismatch'') (\<lambda>_.
     bnd (role_policy E role verified descriptor independence) (\<lambda>signer.
     bnd (computePhilCoreV2ConsumerRecoveryFactorCommitment E (\<lambda>k. C (3 + k)) descriptorSnapshot) (\<lambda>factorCommitment.
     Inr \<lparr>fp_descriptor = descriptorSnapshot, fp_independence = independenceSnapshot, fp_signer = signer,
          fp_factorCommitment = factorCommitment\<rparr>))))))))))))))))"

section \<open>The configuration\<close>

definition configuration_types :: "string list" where
  "configuration_types = [''uint8'', ''uint8'', ''bytes32'', ''bytes32'', ''bytes32'']"

text \<open>The size of \<open>new Set(values)\<close>.\<close>

definition set_size :: "string list \<Rightarrow> nat" where
  "set_size values = length (remdups values)"

definition computePhilCoreV2ConsumerRecoveryConfigurationHash :: "ethers \<Rightarrow> string list \<Rightarrow> string result" where
  "computePhilCoreV2ConsumerRecoveryConfigurationHash E commitments =
     bnd (map_index (\<lambda>index v. factor_bytes32 E (StringVal v) (''role'' @ show_nat index @ ''Commitment'') False) 0 commitments) (\<lambda>normalized.
     bnd (ensure (set_size normalized = 3) ''recovery_factor_commitments_must_be_unique'') (\<lambda>_.
     Inr (keccak256 E (HexData (abiEncode E (''bytes32'' # configuration_types)
       ([AbiHex (keccak256 E (toUtf8Bytes E RECOVERY_CONFIGURATION_TYPE)),
         AbiUint PHILCORE_V2_CONSUMER_RECOVERY_CONFIGURATION_VERSION, AbiUint PHILCORE_V2_RECOVERY_THRESHOLD] @
        map AbiHex normalized))))))"

section \<open>The profile\<close>

datatype recovery_profile = STANDARD | ENHANCED

record profile_result =
  pf_profile :: recovery_profile
  pf_descriptors :: "snapshot list"
  pf_commitments :: "string list"
  pf_recoveryConfigurationHash :: string
  pf_independenceAssurance :: string
  pf_warnings :: "string list"

fun string_lower :: "js_value \<Rightarrow> string result" where
  "string_lower (StringVal s) = Inr (toLowerCase s)"
| "string_lower _ = Inl LibraryError"

text \<open>
  The conversions of the factor in a role: passes 0 to 6 are those of its policy, 7 and 8 are the
  later ones of the profile.
\<close>

definition validatePhilCoreV2ConsumerRecoveryProfile ::
  "ethers \<Rightarrow> (nat \<Rightarrow> nat \<Rightarrow> conversion) \<Rightarrow> js_value \<times> js_value \<times> js_value \<Rightarrow> string \<Rightarrow> profile_result result" where
  "validatePhilCoreV2ConsumerRecoveryProfile E C factors executionValidatorInput =
     (case getAddress E executionValidatorInput of
        None \<Rightarrow> Inl LibraryError
      | Some executionValidator \<Rightarrow>
     (case factors of (factor0, factor1, factor2) \<Rightarrow>
     bnd (validatePhilCoreV2ConsumerRecoveryFactorPolicy E (C 0) factor0 (NumberVal (IntegerNumber 0))) (\<lambda>result0.
     bnd (validatePhilCoreV2ConsumerRecoveryFactorPolicy E (C 1) factor1 (NumberVal (IntegerNumber 1))) (\<lambda>result1.
     bnd (validatePhilCoreV2ConsumerRecoveryFactorPolicy E (C 2) factor2 (NumberVal (IntegerNumber 2))) (\<lambda>result2.
     bnd (normalizeIndependence E (C 0 7) (fp_independence result0)) (\<lambda>independence0.
     bnd (normalizeIndependence E (C 1 7) (fp_independence result1)) (\<lambda>independence1.
     bnd (normalizeIndependence E (C 2 7) (fp_independence result2)) (\<lambda>independence2.
     bnd (ensure (set_size [ni_credentialIdHash independence0, ni_credentialIdHash independence1] = 2)
            ''primary_and_secondary_credential_must_be_distinct'') (\<lambda>_.
     bnd (traverse (\<lambda>result. string_lower (snap (fp_descriptor result) ''publicVerificationMaterialHash''))
            [result0, result1, result2]) (\<lambda>publicMaterial.
     bnd (ensure (set_size publicMaterial = 3) ''recovery_public_material_must_be_unique'') (\<lambda>_.
     bnd (ensure (set_size (map ni_custodyDomainCommitment [independence0, independence1, independence2]) = 3)
            ''recovery_custody_domains_must_be_unique'') (\<lambda>_.
     bnd (ensure (fp_signer result2 \<noteq> Some executionValidator) ''execution_validator_cannot_be_recovery_factor'') (\<lambda>_.
     case BigInt_field (C 1 8) (fp_independence result1) ''authenticatorClass'' of
       None \<Rightarrow> Inl LibraryError
     | Some authenticatorClass \<Rightarrow>
         bnd (computePhilCoreV2ConsumerRecoveryConfigurationHash E (map fp_factorCommitment [result0, result1, result2])) (\<lambda>hash.
         Inr \<lparr>pf_profile = (if authenticatorClass = PHILCORE_V2_CONSUMER_AUTHENTICATOR_CLASS EXTERNAL_HARDWARE_KEY
                           then ENHANCED else STANDARD),
              pf_descriptors = map fp_descriptor [result0, result1, result2],
              pf_commitments = map fp_factorCommitment [result0, result1, result2],
              pf_recoveryConfigurationHash = hash,
              pf_independenceAssurance = ''ENFORCED'',
              pf_warnings = [''Custody-domain separation is commitment-bound but remains user-attested.'',
                ''WebAuthn cannot prove separate cloud, password-manager, or backup accounts.'']\<rparr>))))))))))))))"

section \<open>Rotation\<close>

record rotation_result =
  rr_changedRole :: nat
  rr_currentRecoveryConfigurationHash :: string
  rr_proposedRecoveryConfigurationHash :: string

text \<open>
  \<open>BigInt(input.current[role].descriptor.credentialGeneration)\<close> reads the caller's objects again: what
  they answer is a parameter; \<open>None\<close>: the access or the conversion throws.
\<close>

type_synonym generation_reading = "nat \<Rightarrow> int option"

definition check_generation :: "generation_reading \<Rightarrow> generation_reading \<Rightarrow> nat \<Rightarrow> nat \<Rightarrow> unit result" where
  "check_generation current proposed changedRole r =
     (case current r of
        None \<Rightarrow> Inl LibraryError
      | Some currentGeneration \<Rightarrow>
     (case proposed r of
        None \<Rightarrow> Inl LibraryError
      | Some proposedGeneration \<Rightarrow>
          ensure (\<not> ((r = changedRole \<and> proposedGeneration \<noteq> currentGeneration + 1) \<or>
                     (r \<noteq> changedRole \<and> proposedGeneration \<noteq> currentGeneration)))
            ''recovery_rotation_generation_invalid''))"

definition changed_roles :: "string list \<Rightarrow> string list \<Rightarrow> nat list" where
  "changed_roles current proposed = filter (\<lambda>role. current ! role \<noteq> proposed ! role) [0..<length current]"

definition validatePhilCoreV2ConsumerRecoveryRotation ::
  "ethers \<Rightarrow> (nat \<Rightarrow> nat \<Rightarrow> conversion) \<Rightarrow> (nat \<Rightarrow> nat \<Rightarrow> conversion) \<Rightarrow> generation_reading \<Rightarrow> generation_reading \<Rightarrow>
     js_value \<times> js_value \<times> js_value \<Rightarrow> js_value \<times> js_value \<times> js_value \<Rightarrow> string \<Rightarrow> rotation_result result" where
  "validatePhilCoreV2ConsumerRecoveryRotation E C C' readCurrent readProposed currentFactors proposedFactors executionValidator =
     bnd (validatePhilCoreV2ConsumerRecoveryProfile E C currentFactors executionValidator) (\<lambda>current.
     bnd (validatePhilCoreV2ConsumerRecoveryProfile E C' proposedFactors executionValidator) (\<lambda>proposed.
     let changed = changed_roles (pf_commitments current) (pf_commitments proposed) in
     bnd (ensure (length changed = 1) ''recovery_rotation_must_replace_exactly_one_role'') (\<lambda>_.
     bnd (traverse (check_generation readCurrent readProposed (hd changed)) [0, 1, 2]) (\<lambda>_.
     Inr \<lparr>rr_changedRole = hd changed,
          rr_currentRecoveryConfigurationHash = pf_recoveryConfigurationHash current,
          rr_proposedRecoveryConfigurationHash = pf_recoveryConfigurationHash proposed\<rparr>))))"

section \<open>What the policy accepts\<close>

abbreviation material_commitment :: "ethers \<Rightarrow> string \<Rightarrow> string" where
  "material_commitment E signer \<equiv> commitment E SECP256K1_PUBLIC_MATERIAL_TYPE [''address''] [AbiHex signer]"

lemma material_hash_iff:
  "computePhilCoreV2Secp256k1PublicMaterialHash E v = Inr h \<longleftrightarrow>
     (\<exists>a. is_address E False v a \<and> h = material_commitment E a)"
  by (auto simp: computePhilCoreV2Secp256k1PublicMaterialHash_def evidence_address_def is_address_def result_simps
      commitment_def commitment_preimage_def literal_hash_def split: option.splits)

definition signer_of :: "ethers \<Rightarrow> normal_descriptor \<Rightarrow> string \<Rightarrow> bool" where
  "signer_of E n a \<longleftrightarrow> getAddress E a = Some a \<and> a \<noteq> ZERO_ADDRESS \<and>
     nd_publicVerificationMaterialHash n = material_commitment E a"

lemma offline_signer_iff: "offline_signer E n v = Inr a \<longleftrightarrow> v = StringVal a \<and> signer_of E n a"
  by (cases v) (auto simp: signer_of_def result_simps material_hash_iff is_address_def split: option.splits)

lemma expected_role_iff: "expected_role (NumberVal (IntegerNumber r)) = Inr q \<longleftrightarrow> q = r \<and> (r = 0 \<or> r = 1 \<or> r = 2)"
  by (auto simp: result_simps)

text \<open>
  The rules for the factor of a role, as a table of the numbers: a platform authenticator for the
  primary device, a platform authenticator or an external key for the secondary one, both with user
  verification on a single device; an exported secp256k1 key for the offline factor.
\<close>

definition role_rules :: "int \<Rightarrow> normal_descriptor \<Rightarrow> normal_independence \<Rightarrow> bool" where
  "role_rules r n i \<longleftrightarrow>
     ((r = 0 \<or> r = 1) \<and> nd_verifierKind n = 1 \<and> nd_userVerificationPolicy n = 2 \<and> nd_backupPolicy n = 1 \<and>
        ni_synchronizationClass i = 1 \<and>
        (ni_authenticatorClass i, nd_authenticatorAttachmentPolicy n, nd_attestationPolicy n) \<in>
          (if r = 0 then {(1, 1, 1)} else {(2, 1, 1), (3, 2, 2)})) \<or>
     (r = 2 \<and> nd_verifierKind n = 2 \<and> nd_userVerificationPolicy n = 0 \<and> nd_backupPolicy n = 0 \<and>
        ni_synchronizationClass i = 0 \<and> ni_authenticatorClass i = 4 \<and> nd_authenticatorAttachmentPolicy n = 0 \<and>
        nd_attestationPolicy n = 0 \<and> nd_credentialIdHash n = ZERO_BYTES32 \<and> nd_rpIdHash n = ZERO_BYTES32 \<and>
        nd_originPolicyHash n = ZERO_BYTES32)"

definition signer_rule :: "ethers \<Rightarrow> int \<Rightarrow> normal_descriptor \<Rightarrow> string option \<Rightarrow> bool" where
  "signer_rule E r n s \<longleftrightarrow> (case s of None \<Rightarrow> r \<noteq> 2 | Some a \<Rightarrow> r = 2 \<and> signer_of E n a)"

lemmas factor_policy_defs = webauthn_policy_def primary_policy_def secondary_platform_def secondary_hardware_def offline_policy_def
  SYNC_NOT_APPLICABLE_def SYNC_DEVICE_BOUND_def INDEPENDENCE_ENFORCED_def BACKUP_SINGLE_DEVICE_REQUIRED_def
  ATTACHMENT_PLATFORM_REQUIRED_def ATTACHMENT_CROSS_PLATFORM_REQUIRED_def ATTESTATION_VERIFIED_DEVICE_BOUND_def
  ATTESTATION_VERIFIED_EXTERNAL_HARDWARE_def

lemma role_policy_iff:
  assumes "r = 0 \<or> r = 1 \<or> r = 2"
  shows "role_policy E r verified n i = Inr s \<longleftrightarrow> role_rules r n i \<and> signer_rule E r n s \<and>
    (\<forall>a. s = Some a \<longrightarrow> Option.bind (map_of verified ''signer'') descriptor_value = Some (StringVal a))"
  using assms
  by (auto simp: role_policy_def role_rules_def factor_policy_defs signer_rule_def result_simps read_verified_iff
      offline_signer_iff split: option.splits)

text \<open>The access to a factor: its verified properties and the snapshots of two of them.\<close>

definition factor_access :: "js_value \<Rightarrow> int \<Rightarrow> (string \<times> js_descriptor) list \<Rightarrow> snapshot \<Rightarrow> snapshot \<Rightarrow> bool" where
  "factor_access factor r verified d i \<longleftrightarrow>
     (\<exists>obj dr ir. factor = ObjectVal obj \<and> isArray obj = Returns False \<and>
        factor_own_keys obj FACTOR_REQUIRED_OWN_KEYS FACTOR_OPTIONAL_OWN_KEYS ''recovery_factor_input_invalid'' = Inr verified \<and>
        (map_of verified ''signer'' \<noteq> None \<longleftrightarrow> r = 2) \<and>
        Option.bind (map_of verified ''descriptor'') descriptor_value = Some dr \<and>
        Option.bind (map_of verified ''independence'') descriptor_value = Some ir \<and>
        object_snapshot dr DESCRIPTOR_OWN_KEYS d \<and> object_snapshot ir INDEPENDENCE_OWN_KEYS i)"

definition factor_checks :: "ethers \<Rightarrow> (nat \<Rightarrow> conversion) \<Rightarrow> int \<Rightarrow> factor_policy \<Rightarrow> normal_descriptor \<Rightarrow> normal_independence \<Rightarrow> bool" where
  "factor_checks E C r p n i \<longleftrightarrow>
     independence_of E (C 0) (fp_independence p) i \<and> policy_descriptor E (C 1) (fp_descriptor p) n \<and>
     nd_role n = r \<and> ni_role i = r \<and> nd_credentialGeneration n = ni_credentialGeneration i \<and>
     (\<exists>j. independence_of E (C 2) (fp_independence p) j \<and> nd_independenceBindingHash n = independence_commitment E j) \<and>
     ni_independenceAssurance i = INDEPENDENCE_ENFORCED \<and> nd_credentialIdHash n = ni_credentialIdHash i \<and>
     role_rules r n i \<and> signer_rule E r n (fp_signer p) \<and>
     (\<exists>m. committed_descriptor E (\<lambda>k. C (3 + k)) (fp_descriptor p) m \<and> fp_factorCommitment p = descriptor_commitment E m)"

lemma check_binding_iff:
  "check_binding E C r n i s = Inr u \<longleftrightarrow> nd_role n = r \<and> ni_role i = r \<and>
     nd_credentialGeneration n = ni_credentialGeneration i \<and>
     (\<exists>j. independence_of E C s j \<and> nd_independenceBindingHash n = independence_commitment E j)"
  by (auto simp: check_binding_def bnd_eq_Inr ensure_eq_Inr independence_binding_iff)

lemma signer_presence:
  assumes "r = 0 \<or> r = 1 \<or> r = (2 :: int)"
  shows "\<not> (r < 2 \<and> m \<noteq> None) \<Longrightarrow> \<not> (r = 2 \<and> m = None) \<Longrightarrow> m \<noteq> None \<longleftrightarrow> r = 2"
    "(m \<noteq> None \<longleftrightarrow> r = 2) \<Longrightarrow> \<not> (r < 2 \<and> m \<noteq> None)" "(m \<noteq> None \<longleftrightarrow> r = 2) \<Longrightarrow> \<not> (r = 2 \<and> m = None)"
  using assms by auto

lemma factor_policy_iff:
  "validatePhilCoreV2ConsumerRecoveryFactorPolicy E C factor (NumberVal (IntegerNumber r)) = Inr p \<longleftrightarrow>
     (r = 0 \<or> r = 1 \<or> r = 2) \<and>
     (\<exists>verified n i. factor_access factor r verified (fp_descriptor p) (fp_independence p) \<and> factor_checks E C r p n i \<and>
        (\<forall>a. fp_signer p = Some a \<longrightarrow> Option.bind (map_of verified ''signer'') descriptor_value = Some (StringVal a)))"
proof (cases "r = 0 \<or> r = 1 \<or> r = 2")
  case True
  show ?thesis
    unfolding validatePhilCoreV2ConsumerRecoveryFactorPolicy_def bnd_eq_Inr expected_role_iff factor_plain_object_iff
      ensure_eq_Inr read_verified_iff factor_snapshot_iff normalizeIndependence_iff normalizeDescriptorForPolicy_iff
      check_binding_iff factor_commitment_iff factor_access_def factor_checks_def sum.inject
    using True
    by (cases p, simp only: conj_assoc simp_thms role_policy_iff [OF True] factor_policy.simps factor_policy.ext_inject)
       (intro iffI; elim exE conjE; hypsubst; intro exI conjI;
        (assumption | rule refl | rule signer_presence; assumption))
next
  case False
  then show ?thesis by (simp add: validatePhilCoreV2ConsumerRecoveryFactorPolicy_def bnd_eq_Inr expected_role_iff del: expected_role.simps)
qed

section \<open>Factors in normal form\<close>

text \<open>The snapshots with given normal forms.\<close>

definition independence_snapshot :: "normal_independence \<Rightarrow> snapshot" where
  "independence_snapshot i =
     [(''bindingVersion'', BigIntVal (ni_bindingVersion i)), (''role'', BigIntVal (ni_role i)),
      (''authenticatorClass'', BigIntVal (ni_authenticatorClass i)), (''synchronizationClass'', BigIntVal (ni_synchronizationClass i)),
      (''independenceAssurance'', BigIntVal (ni_independenceAssurance i)), (''credentialIdHash'', StringVal (ni_credentialIdHash i)),
      (''enrollmentCeremonyHash'', StringVal (ni_enrollmentCeremonyHash i)),
      (''attestationEvidenceHash'', StringVal (ni_attestationEvidenceHash i)),
      (''custodyDomainCommitment'', StringVal (ni_custodyDomainCommitment i)),
      (''credentialGeneration'', BigIntVal (ni_credentialGeneration i))]"

text \<open>The backup policy may be any value.\<close>

definition descriptor_snapshot :: "ethers \<Rightarrow> normal_descriptor \<Rightarrow> js_value \<Rightarrow> snapshot" where
  "descriptor_snapshot E n backup =
     [(''descriptorVersion'', BigIntVal PHILCORE_V2_CONSUMER_RECOVERY_DESCRIPTOR_VERSION),
      (''accountVersionId'', StringVal (PHILCORE_V2_CONSUMER_RECOVERY_ACCOUNT_VERSION_ID E)),
      (''securityModelId'', StringVal (PHILCORE_V2_SECURITY_MODEL_ID E)),
      (''recoveryDomainId'', StringVal (PHILCORE_V2_CONSUMER_RECOVERY_DOMAIN_ID E)), (''role'', BigIntVal (nd_role n)),
      (''verifierKind'', BigIntVal (nd_verifierKind n)),
      (''publicVerificationMaterialHash'', StringVal (nd_publicVerificationMaterialHash n)),
      (''credentialIdHash'', StringVal (nd_credentialIdHash n)), (''rpIdHash'', StringVal (nd_rpIdHash n)),
      (''originPolicyHash'', StringVal (nd_originPolicyHash n)),
      (''independenceBindingHash'', StringVal (nd_independenceBindingHash n)),
      (''userVerificationPolicy'', BigIntVal (nd_userVerificationPolicy n)), (''backupPolicy'', backup),
      (''authenticatorAttachmentPolicy'', BigIntVal (nd_authenticatorAttachmentPolicy n)),
      (''attestationPolicy'', BigIntVal (nd_attestationPolicy n)), (''credentialGeneration'', BigIntVal (nd_credentialGeneration n))]"

abbreviation backup_snapshot :: "ethers \<Rightarrow> normal_descriptor \<Rightarrow> snapshot" where
  "backup_snapshot E n \<equiv> descriptor_snapshot E n (BigIntVal (nd_backupPolicy n))"

definition factor_object :: "js_prototype \<Rightarrow> snapshot \<Rightarrow> snapshot \<Rightarrow> js_value option \<Rightarrow> js_value" where
  "factor_object proto d i s = object_literal
     ([(''descriptor'', data_object proto d), (''independence'', data_object proto i)] @
      (case s of None \<Rightarrow> [] | Some v \<Rightarrow> [(''signer'', v)]))"

definition bytes32_normal :: "ethers \<Rightarrow> bool \<Rightarrow> string \<Rightarrow> bool" where
  "bytes32_normal E az s \<longleftrightarrow> js_bytes32 E az (StringVal s) s"

definition independence_ok :: "ethers \<Rightarrow> normal_independence \<Rightarrow> bool" where
  "independence_ok E i \<longleftrightarrow>
     ni_bindingVersion i = PHILCORE_V2_CONSUMER_RECOVERY_INDEPENDENCE_VERSION \<and> 0 \<le> ni_role i \<and> ni_role i \<le> 2 \<and>
     uint_fits 8 (ni_authenticatorClass i) \<and> uint_fits 8 (ni_synchronizationClass i) \<and>
     uint_fits 8 (ni_independenceAssurance i) \<and> uint_fits 64 (ni_credentialGeneration i) \<and> ni_credentialGeneration i \<noteq> 0 \<and>
     bytes32_normal E (ni_role i = 2) (ni_credentialIdHash i) \<and> bytes32_normal E False (ni_enrollmentCeremonyHash i) \<and>
     bytes32_normal E False (ni_attestationEvidenceHash i) \<and> bytes32_normal E False (ni_custodyDomainCommitment i)"

definition descriptor_ok :: "ethers \<Rightarrow> normal_descriptor \<Rightarrow> bool" where
  "descriptor_ok E n \<longleftrightarrow>
     0 \<le> nd_role n \<and> nd_role n \<le> 2 \<and> uint_fits 8 (nd_verifierKind n) \<and> uint_fits 8 (nd_userVerificationPolicy n) \<and>
     uint_fits 8 (nd_backupPolicy n) \<and> uint_fits 8 (nd_authenticatorAttachmentPolicy n) \<and> uint_fits 8 (nd_attestationPolicy n) \<and>
     uint_fits 64 (nd_credentialGeneration n) \<and> nd_credentialGeneration n \<noteq> 0 \<and>
     bytes32_normal E False (nd_publicVerificationMaterialHash n) \<and> bytes32_normal E False (nd_independenceBindingHash n) \<and>
     bytes32_normal E (nd_role n = 2) (nd_credentialIdHash n) \<and> bytes32_normal E (nd_role n = 2) (nd_rpIdHash n) \<and>
     bytes32_normal E (nd_role n = 2) (nd_originPolicyHash n) \<and>
     bytes32_normal E False (PHILCORE_V2_CONSUMER_RECOVERY_ACCOUNT_VERSION_ID E) \<and>
     bytes32_normal E False (PHILCORE_V2_SECURITY_MODEL_ID E) \<and> bytes32_normal E False (PHILCORE_V2_CONSUMER_RECOVERY_DOMAIN_ID E)"

lemma uint_fits_small: "uint_fits 8 0" "uint_fits 8 1" "uint_fits 8 2" "uint_fits 8 3" "0 \<le> r \<Longrightarrow> r \<le> 2 \<Longrightarrow> uint_fits 8 r"
  by (simp_all add: uint_fits_def)

lemma independence_snapshot_of: "independence_ok E i \<Longrightarrow> independence_of E C (independence_snapshot i) i"
  by (simp add: independence_ok_def independence_of_def independence_snapshot_def field_uint_def BigInt_field_def snap_def
      bytes32_normal_def uint_fits_small PHILCORE_V2_CONSUMER_RECOVERY_INDEPENDENCE_VERSION_def)

lemma descriptor_snapshot_of:
  assumes "descriptor_ok E n" and "BigInt_value (C ''backupPolicy'') v = Some b" and "uint_fits 8 b"
  shows "policy_descriptor E C (descriptor_snapshot E n v) (n\<lparr>nd_backupPolicy := b\<rparr>)"
  using assms by (simp add: descriptor_ok_def policy_descriptor_def descriptor_snapshot_def field_uint_def BigInt_field_def snap_def
      bytes32_normal_def uint_fits_small)

lemma descriptor_snapshot_committed:
  assumes "descriptor_ok E n" and "BigInt_value (C 0 ''backupPolicy'') v = Some b" and "uint_fits 8 b"
  shows "committed_descriptor E C (descriptor_snapshot E n v) (n\<lparr>nd_backupPolicy := b\<rparr>)"
  using assms by (simp add: descriptor_ok_def committed_descriptor_def descriptor_snapshot_def field_uint_def BigInt_field_def snap_def
      bytes32_normal_def uint_fits_small PHILCORE_V2_CONSUMER_RECOVERY_DESCRIPTOR_VERSION_def)

lemma data_object_snapshot:
  assumes "map fst ps = keys" and "distinct keys"
  shows "object_snapshot (data_object proto ps) keys ps"
proof -
  obtain obj where obj: "data_object proto ps = ObjectVal obj" by (auto simp: data_object_def)
  note facts = data_object_shows [OF obj]
  have "map_of ps (fst p) = Some (snd p)" if "p \<in> set ps" for p
    using that assms by (simp add: map_of_is_SomeI)
  then have "list_all2 (\<lambda>key p. fst p = key \<and> Option.bind (descriptor_of obj key) descriptor_value = Some (snd p)) (map fst ps) ps"
    by (simp add: list_all2_conv_all_nth facts)
  with assms obj facts(1,5) show ?thesis unfolding object_snapshot_def by auto
qed

lemma factor_object_access:
  assumes "s \<noteq> None \<longleftrightarrow> r = 2" and "map fst d = DESCRIPTOR_OWN_KEYS" and "map fst i = INDEPENDENCE_OWN_KEYS"
  shows "\<exists>verified. factor_access (factor_object proto d i s) r verified d i \<and>
    Option.bind (map_of verified ''signer'') descriptor_value = s"
proof -
  have "distinct DESCRIPTOR_OWN_KEYS" "distinct INDEPENDENCE_OWN_KEYS"
    by (simp_all add: DESCRIPTOR_OWN_KEYS_def INDEPENDENCE_OWN_KEYS_def)
  with assms have "object_snapshot (data_object proto d) DESCRIPTOR_OWN_KEYS d"
    "object_snapshot (data_object proto i) INDEPENDENCE_OWN_KEYS i" by (simp_all add: data_object_snapshot)
  with assms(1) show ?thesis
    unfolding factor_access_def factor_object_def data_object_def [of ObjectPrototype] factor_own_keys_def own_descriptors_def
    by (cases s) (auto simp: FACTOR_REQUIRED_OWN_KEYS_def FACTOR_OPTIONAL_OWN_KEYS_def check_def)
qed

section \<open>Soundness and completeness of the policy\<close>

text \<open>
  A factor with the normal forms \<open>n\<close> and \<open>i\<close> that satisfies the rules of its role, and whose commitment
  is to \<open>n\<close>, and through the binding in \<open>n\<close> to \<open>i\<close>.
\<close>

definition sound_factor :: "ethers \<Rightarrow> int \<Rightarrow> factor_policy \<Rightarrow> normal_descriptor \<Rightarrow> normal_independence \<Rightarrow> bool" where
  "sound_factor E r p n i \<longleftrightarrow>
     nd_role n = r \<and> ni_role i = r \<and> role_rules r n i \<and> ni_independenceAssurance i = 1 \<and>
     nd_credentialGeneration n = ni_credentialGeneration i \<and> ni_credentialGeneration i \<noteq> 0 \<and>
     nd_credentialIdHash n = ni_credentialIdHash i \<and> signer_rule E r n (fp_signer p) \<and>
     nd_independenceBindingHash n = independence_commitment E i \<and> fp_factorCommitment p = descriptor_commitment E n"

definition steady_factor :: "(nat \<Rightarrow> conversion) \<Rightarrow> factor_policy \<Rightarrow> bool" where
  "steady_factor C p \<longleftrightarrow> steady C (fp_descriptor p) \<and> steady C (fp_independence p)"

lemma factor_policy_steady:
  assumes "validatePhilCoreV2ConsumerRecoveryFactorPolicy E C factor (NumberVal (IntegerNumber r)) = Inr p"
    and "steady_factor C p"
  shows "\<exists>n i. policy_descriptor E (C 0) (fp_descriptor p) n \<and> independence_of E (C 0) (fp_independence p) i \<and>
    sound_factor E r p n i"
proof -
  from assms(1) obtain n i where checks: "factor_checks E C r p n i" unfolding factor_policy_iff by blast
  from assms(2) have d: "steady C (fp_descriptor p)" and s: "steady C (fp_independence p)"
    by (simp_all add: steady_factor_def)
  from checks have i: "independence_of E (C 0) (fp_independence p) i" and n1: "policy_descriptor E (C 1) (fp_descriptor p) n"
    unfolding factor_checks_def by blast+
  from n1 have n: "policy_descriptor E (C 0) (fp_descriptor p) n" unfolding steady_descriptor [OF d, of E 1] .
  from checks obtain j where j: "independence_of E (C 2) (fp_independence p) j"
    and binding: "nd_independenceBindingHash n = independence_commitment E j" unfolding factor_checks_def by blast
  from j have "j = i" using i by (simp add: steady_independence [OF s, of E 2] independence_unique)
  from checks obtain m where m: "committed_descriptor E (\<lambda>k. C (3 + k)) (fp_descriptor p) m"
    and fc: "fp_factorCommitment p = descriptor_commitment E m" unfolding factor_checks_def by blast
  from m have "policy_descriptor E (C 3) (fp_descriptor p) m"
    unfolding committed_descriptor_steady [OF steady_shift [OF d, of 3]] by simp
  then have "m = n" using n by (simp add: steady_descriptor [OF d, of E 3] policy_descriptor_unique)
  with \<open>j = i\<close> checks binding fc i have "sound_factor E r p n i"
    by (simp add: sound_factor_def factor_checks_def independence_of_def INDEPENDENCE_ENFORCED_def)
  with n i show ?thesis by blast
qed

text \<open>
  C15: A factor that the policy accepts for a role, and whose fields are converted to the same numbers in every pass, has
  normal forms that satisfy the rules of that role: the role and the generation are the same on both sides, the
  independence is enforced, the credential is the same, the kind of verifier, the user verification, the backup,
  attachment and attestation policies are those of the role, an offline factor has a canonical signer whose public
  material is in the descriptor and no other factor has a signer. The commitment is to this descriptor, which contains
  the commitment to this independence.
\<close>

theorem factor_policy_sound:
  assumes "validatePhilCoreV2ConsumerRecoveryFactorPolicy E C factor (NumberVal (IntegerNumber r)) = Inr p"
    and "steady_factor C p"
  shows "\<exists>n i. policy_descriptor E (C 0) (fp_descriptor p) n \<and> independence_of E (C 0) (fp_independence p) i \<and>
    sound_factor E r p n i"
  by (rule factor_policy_steady [OF assms])

lemma snapshot_keys:
  "map fst (descriptor_snapshot E n v) = DESCRIPTOR_OWN_KEYS" "map fst (independence_snapshot i) = INDEPENDENCE_OWN_KEYS"
  by (simp_all add: descriptor_snapshot_def independence_snapshot_def DESCRIPTOR_OWN_KEYS_def INDEPENDENCE_OWN_KEYS_def)

text \<open>The result for a factor in normal form.\<close>

definition normal_result :: "ethers \<Rightarrow> normal_descriptor \<Rightarrow> normal_independence \<Rightarrow> string option \<Rightarrow> factor_policy" where
  "normal_result E n i s = \<lparr>fp_descriptor = backup_snapshot E n, fp_independence = independence_snapshot i,
     fp_signer = s, fp_factorCommitment = descriptor_commitment E n\<rparr>"

definition normal_factor :: "ethers \<Rightarrow> js_prototype \<Rightarrow> normal_descriptor \<Rightarrow> normal_independence \<Rightarrow> string option \<Rightarrow> js_value" where
  "normal_factor E proto n i s = factor_object proto (backup_snapshot E n) (independence_snapshot i) (map_option StringVal s)"

text \<open>
  A factor whose backup policy is a value that is converted to \<open>b\<close> for the check and to \<open>b'\<close> for the
  commitment.
\<close>

lemma accepted_factor:
  assumes ok: "descriptor_ok E n" "independence_ok E i" and r: "r = 0 \<or> r = 1 \<or> r = 2"
    and b: "BigInt_value (C 1 ''backupPolicy'') v = Some b" "uint_fits 8 b"
    and b': "BigInt_value (C 3 ''backupPolicy'') v = Some b'" "uint_fits 8 b'"
    and sound: "sound_factor E r p (n\<lparr>nd_backupPolicy := b\<rparr>) i"
    and p: "p = normal_result E (n\<lparr>nd_backupPolicy := b\<rparr>) i s"
  shows "validatePhilCoreV2ConsumerRecoveryFactorPolicy E C
      (factor_object proto (descriptor_snapshot E n v) (independence_snapshot i) (map_option StringVal s))
      (NumberVal (IntegerNumber r)) =
    Inr (p\<lparr>fp_descriptor := descriptor_snapshot E n v, fp_factorCommitment := descriptor_commitment E (n\<lparr>nd_backupPolicy := b'\<rparr>)\<rparr>)"
    (is "_ = Inr ?p")
proof -
  let ?n = "n\<lparr>nd_backupPolicy := b\<rparr>"
  from p have fp: "fp_signer p = s" "fp_independence p = independence_snapshot i" by (simp_all add: normal_result_def)
  with sound r have present: "map_option StringVal s \<noteq> None \<longleftrightarrow> r = 2"
    by (auto simp: sound_factor_def signer_rule_def split: option.splits)
  have acc: "\<exists>verified. factor_access (factor_object proto (descriptor_snapshot E n v) (independence_snapshot i) (map_option StringVal s))
      r verified (descriptor_snapshot E n v) (independence_snapshot i) \<and>
    Option.bind (map_of verified ''signer'') descriptor_value = map_option StringVal s"
    by (rule factor_object_access [OF present snapshot_keys])
  have pd: "policy_descriptor E (C 1) (descriptor_snapshot E n v) ?n"
    by (rule descriptor_snapshot_of [OF ok(1)]) (use b in simp_all)
  have cd: "committed_descriptor E (\<lambda>k. C (3 + k)) (descriptor_snapshot E n v) (n\<lparr>nd_backupPolicy := b'\<rparr>)"
    by (rule descriptor_snapshot_committed [OF ok(1)]) (use b' in simp_all)
  have "factor_checks E C r ?p ?n i"
    unfolding factor_checks_def using sound fp pd cd independence_snapshot_of [OF ok(2)]
    by (auto simp: sound_factor_def INDEPENDENCE_ENFORCED_def)
  with acc r fp show ?thesis unfolding factor_policy_iff by fastforce
qed

lemma normal_factor_accepted:
  assumes "descriptor_ok E n" "independence_ok E i" "r = 0 \<or> r = 1 \<or> r = 2" "sound_factor E r (normal_result E n i s) n i"
  shows "validatePhilCoreV2ConsumerRecoveryFactorPolicy E C (normal_factor E proto n i s) (NumberVal (IntegerNumber r)) =
    Inr (normal_result E n i s)"
proof -
  let ?b = "nd_backupPolicy n"
  have upd: "n\<lparr>nd_backupPolicy := ?b\<rparr> = n" "(normal_result E n i s)\<lparr>fp_descriptor := backup_snapshot E n,
      fp_factorCommitment := descriptor_commitment E n\<rparr> = normal_result E n i s"
    by (simp_all add: normal_result_def)
  have fits: "uint_fits 8 ?b" using assms(1) by (simp add: descriptor_ok_def)
  show ?thesis
    unfolding normal_factor_def
    by (rule accepted_factor [OF assms(1-3), where v = "BigIntVal ?b" and b = ?b and b' = ?b and p = "normal_result E n i s" and s = s,
          unfolded upd]) (simp_all add: fits assms(4))
qed

lemma normal_result_steady: "steady_factor C (normal_result E n i s)"
  by (auto simp: steady_factor_def normal_result_def descriptor_snapshot_def independence_snapshot_def intro!: steady_primitive)

text \<open>
  C18: The policy is checked on numbers that are converted again for the commitment. For every factor that satisfies the
  rules of the primary device and every \<open>b\<close> there is an accepted factor, with the same fields but for an object as its
  backup policy, whose commitment is to the backup policy \<open>b\<close> instead of the one that the rules demand.
\<close>

theorem policy_checked_on_other_values:
  assumes "descriptor_ok E n" "independence_ok E i" "sound_factor E 0 (normal_result E n i None) n i" "uint_fits 8 b"
  shows "\<exists>C factor p. validatePhilCoreV2ConsumerRecoveryFactorPolicy E C factor (NumberVal (IntegerNumber 0)) = Inr p \<and>
    fp_factorCommitment p = descriptor_commitment E (n\<lparr>nd_backupPolicy := b\<rparr>)"
proof -
  let ?C = "\<lambda>(k :: nat) (key :: string). if k = 1 then Some (BigIntV (nd_backupPolicy n)) else Some (BigIntV b)"
  let ?v = "null_object []"
  have "BigInt_value (?C 1 ''backupPolicy'') ?v = Some (nd_backupPolicy n)" "BigInt_value (?C 3 ''backupPolicy'') ?v = Some b"
    by (simp_all add: data_object_def BigInt_primitive_def)
  moreover have "uint_fits 8 (nd_backupPolicy n)" using assms(1) by (simp add: descriptor_ok_def)
  moreover have "n\<lparr>nd_backupPolicy := nd_backupPolicy n\<rparr> = n" by simp
  ultimately have accepted: "validatePhilCoreV2ConsumerRecoveryFactorPolicy E ?C
      (factor_object ObjectPrototype (descriptor_snapshot E n ?v) (independence_snapshot i) (map_option StringVal None))
      (NumberVal (IntegerNumber 0)) =
    Inr ((normal_result E n i None)\<lparr>fp_descriptor := descriptor_snapshot E n ?v,
      fp_factorCommitment := descriptor_commitment E (n\<lparr>nd_backupPolicy := b\<rparr>)\<rparr>)"
    using accepted_factor [OF assms(1,2), where r = 0 and C = ?C and v = ?v and b = "nd_backupPolicy n" and b' = b
        and s = None and p = "normal_result E n i None" and proto = ObjectPrototype] assms(3,4) by metis
  show ?thesis by (intro exI conjI) (rule accepted, simp)
qed

lemma policy_descriptor_fits:
  assumes "ethers_laws E" and "policy_descriptor E C d n"
  shows "list_all2 (abi_fits E) descriptor_types (descriptor_words E n)"
proof -
  have "abi_fits E ''uint8'' (AbiUint PHILCORE_V2_CONSUMER_RECOVERY_DESCRIPTOR_VERSION)"
    "abi_fits E ''bytes32'' (AbiHex (PHILCORE_V2_CONSUMER_RECOVERY_ACCOUNT_VERSION_ID E))"
    "abi_fits E ''bytes32'' (AbiHex (PHILCORE_V2_SECURITY_MODEL_ID E))"
    "abi_fits E ''bytes32'' (AbiHex (PHILCORE_V2_CONSUMER_RECOVERY_DOMAIN_ID E))"
    by (simp_all add: PHILCORE_V2_CONSUMER_RECOVERY_DESCRIPTOR_VERSION_def uint_fits_def laws_keccak256 [OF assms(1)]
        PHILCORE_V2_CONSUMER_RECOVERY_ACCOUNT_VERSION_ID_def PHILCORE_V2_SECURITY_MODEL_ID_def PHILCORE_V2_CONSUMER_RECOVERY_DOMAIN_ID_def)
  with assms(2) show ?thesis
    unfolding policy_descriptor_def descriptor_types_def descriptor_words_def list_all2_Cons list_all2_Nil
    by (elim conjE) (intro conjI; (rule refl | assumption | erule field_uint_abi | erule js_bytes32_abi [OF assms(1)]))
qed

lemma keccak_collision_mono: "keccak_collision E S \<Longrightarrow> S \<subseteq> T \<Longrightarrow> keccak_collision E T"
  unfolding keccak_collision_def by blast

text \<open>
  Two accepted factors with the same commitment, whose fields are converted to the same numbers in every pass, agree
  in everything the policy looks at: the role, the generation, the credential, the public material, the policies, and
  also in the enrollment ceremony, the attestation evidence and the custody domain, which the commitment contains only
  through the independence binding; unless two of the inputs that were hashed collide.
\<close>

theorem factor_commitment_binds:
  assumes laws: "ethers_laws E"
    and p: "validatePhilCoreV2ConsumerRecoveryFactorPolicy E C factor (NumberVal (IntegerNumber r)) = Inr p" "steady_factor C p"
    and q: "validatePhilCoreV2ConsumerRecoveryFactorPolicy E D factor' (NumberVal (IntegerNumber r')) = Inr q" "steady_factor D q"
    and eq: "fp_factorCommitment p = fp_factorCommitment q"
  shows "\<exists>n i m j. policy_descriptor E (C 0) (fp_descriptor p) n \<and> independence_of E (C 0) (fp_independence p) i \<and>
    policy_descriptor E (D 0) (fp_descriptor q) m \<and> independence_of E (D 0) (fp_independence q) j \<and>
    (n = m \<and> i = j \<and> r = r' \<or> keccak_collision E
      (commitment_inputs E FACTOR_DESCRIPTOR_TYPE descriptor_types (descriptor_words E n) \<union>
       commitment_inputs E FACTOR_DESCRIPTOR_TYPE descriptor_types (descriptor_words E m) \<union>
       commitment_inputs E INDEPENDENCE_BINDING_TYPE independence_types (independence_words i) \<union>
       commitment_inputs E INDEPENDENCE_BINDING_TYPE independence_types (independence_words j)))"
proof -
  let ?d = "\<lambda>n. commitment_inputs E FACTOR_DESCRIPTOR_TYPE descriptor_types (descriptor_words E n)"
  let ?i = "\<lambda>i. commitment_inputs E INDEPENDENCE_BINDING_TYPE independence_types (independence_words i)"
  obtain n i where n: "policy_descriptor E (C 0) (fp_descriptor p) n" "independence_of E (C 0) (fp_independence p) i"
    "sound_factor E r p n i" using factor_policy_steady [OF p] by blast
  obtain m j where m: "policy_descriptor E (D 0) (fp_descriptor q) m" "independence_of E (D 0) (fp_independence q) j"
    "sound_factor E r' q m j" using factor_policy_steady [OF q] by blast
  have "n = m \<and> i = j \<and> r = r'" if "\<not> keccak_collision E (?d n \<union> ?d m \<union> ?i i \<union> ?i j)"
  proof -
    from that have d: "\<not> keccak_collision E (?d n \<union> ?d m)" and i: "\<not> keccak_collision E (?i i \<union> ?i j)"
      by (meson keccak_collision_mono Un_upper1 Un_least Un_upper2 order_trans)+
    from eq n(3) m(3) have "descriptor_commitment E n = descriptor_commitment E m" by (simp add: sound_factor_def)
    then have nm: "n = m"
      using commitment_binds [OF laws policy_descriptor_fits [OF laws n(1)] policy_descriptor_fits [OF laws m(1)] _ d]
        descriptor_words_inject by blast
    with n(3) m(3) have "independence_commitment E i = independence_commitment E j" "r = r'" by (simp_all add: sound_factor_def)
    with nm show ?thesis
      using commitment_binds [OF laws independence_fits [OF laws n(2)] independence_fits [OF laws m(2)] _ i]
        independence_words_inject by blast
  qed
  with n m show ?thesis by blast
qed

section \<open>Profiles\<close>

lemma set_size_distinct: "set_size xs = length xs \<longleftrightarrow> distinct xs"
  by (simp add: set_size_def length_remdups_eq)

lemma set_size_2: "set_size [a, b] = 2 \<longleftrightarrow> a \<noteq> b"
  using set_size_distinct [of "[a, b]"] by (simp add: numeral_2_eq_2)

lemma set_size_3: "length xs = 3 \<Longrightarrow> set_size xs = 3 \<longleftrightarrow> distinct xs"
  using set_size_distinct [of xs] by simp

abbreviation configuration_words :: "string list \<Rightarrow> abi_value list" where
  "configuration_words cs \<equiv> [AbiUint PHILCORE_V2_CONSUMER_RECOVERY_CONFIGURATION_VERSION, AbiUint PHILCORE_V2_RECOVERY_THRESHOLD] @
     map AbiHex cs"

abbreviation configuration_commitment :: "ethers \<Rightarrow> string list \<Rightarrow> string" where
  "configuration_commitment E cs \<equiv> commitment E RECOVERY_CONFIGURATION_TYPE configuration_types (configuration_words cs)"

text \<open>The hash of a configuration whose commitments are in normal form.\<close>

lemma configuration_hash_iff:
  assumes "length cs = 3" and "\<forall>c \<in> set cs. toLowerCase c = c"
  shows "computePhilCoreV2ConsumerRecoveryConfigurationHash E cs = Inr h \<longleftrightarrow>
    (\<forall>c \<in> set cs. is_bytes32 E False c c) \<and> distinct cs \<and> h = configuration_commitment E cs"
proof -
  obtain a b c where cs: "cs = [a, b, c]" using assms(1) by (auto simp: length_Suc_conv numeral_3_eq_3)
  with assms(2) have norm: "toLowerCase a = a" "toLowerCase b = b" "toLowerCase c = c" by simp_all
  have same: "js_bytes32 E False (StringVal x) t \<longleftrightarrow> t = x \<and> is_bytes32 E False x x" if "toLowerCase x = x" for x t
    using that by (auto simp: js_bytes32_def is_bytes32_def)
  show ?thesis
    unfolding computePhilCoreV2ConsumerRecoveryConfigurationHash_def bnd_eq_Inr cs map_index.simps factor_bytes32_iff
    by (simp only: same [OF norm(1)] same [OF norm(2)] same [OF norm(3)] bnd_eq_Inr sum.inject ensure_eq_Inr)
       (auto simp: set_size_3 commitment_def commitment_preimage_def literal_hash_def)
qed

lemma case_option_Inr: "(case m of None \<Rightarrow> Inl e | Some x \<Rightarrow> f x) = Inr y \<longleftrightarrow> (\<exists>x. m = Some x \<and> f x = Inr y)"
  by (cases m) auto

lemma profile_parts:
  "validatePhilCoreV2ConsumerRecoveryProfile E C (f0, f1, f2) v = Inr res \<Longrightarrow>
   \<exists>x p0 p1 p2 i0 i1 i2 material cls h. getAddress E v = Some x \<and>
    validatePhilCoreV2ConsumerRecoveryFactorPolicy E (C 0) f0 (NumberVal (IntegerNumber 0)) = Inr p0 \<and>
    validatePhilCoreV2ConsumerRecoveryFactorPolicy E (C 1) f1 (NumberVal (IntegerNumber 1)) = Inr p1 \<and>
    validatePhilCoreV2ConsumerRecoveryFactorPolicy E (C 2) f2 (NumberVal (IntegerNumber 2)) = Inr p2 \<and>
    independence_of E (C 0 7) (fp_independence p0) i0 \<and> independence_of E (C 1 7) (fp_independence p1) i1 \<and>
    independence_of E (C 2 7) (fp_independence p2) i2 \<and> ni_credentialIdHash i0 \<noteq> ni_credentialIdHash i1 \<and>
    list_all2 (\<lambda>p m. string_lower (snap (fp_descriptor p) ''publicVerificationMaterialHash'') = Inr m) [p0, p1, p2] material \<and>
    set_size material = 3 \<and> set_size (map ni_custodyDomainCommitment [i0, i1, i2]) = 3 \<and> fp_signer p2 \<noteq> Some x \<and>
    BigInt_field (C 1 8) (fp_independence p1) ''authenticatorClass'' = Some cls \<and>
    computePhilCoreV2ConsumerRecoveryConfigurationHash E (map fp_factorCommitment [p0, p1, p2]) = Inr h \<and>
    pf_profile res = (if cls = PHILCORE_V2_CONSUMER_AUTHENTICATOR_CLASS EXTERNAL_HARDWARE_KEY then ENHANCED else STANDARD) \<and>
    pf_descriptors res = map fp_descriptor [p0, p1, p2] \<and> pf_commitments res = map fp_factorCommitment [p0, p1, p2] \<and>
    pf_recoveryConfigurationHash res = h"
  unfolding validatePhilCoreV2ConsumerRecoveryProfile_def case_option_Inr prod.case bnd_eq_Inr normalizeIndependence_iff
    ensure_eq_Inr traverse_iff set_size_2 sum.inject
  by (elim exE conjE; hypsubst; intro exI conjI; (assumption | rule refl | simp only: profile_result.simps))

text \<open>The objects in the fields of a factor answer the same in every pass.\<close>

definition consistent :: "(nat \<Rightarrow> nat \<Rightarrow> conversion) \<Rightarrow> bool" where
  "consistent C \<longleftrightarrow> (\<forall>r k. C r k = C r 0)"

lemma consistent_steady: "consistent C \<Longrightarrow> steady (C r) s"
  unfolding consistent_def steady_def by metis

lemma commitments_normal: "ethers_laws E \<Longrightarrow> fp_factorCommitment p = descriptor_commitment E n \<Longrightarrow>
    toLowerCase (fp_factorCommitment p) = fp_factorCommitment p"
  by (simp add: commitment_shape)

text \<open>The commitment of an accepted factor, whatever its fields answer.\<close>

lemma factor_commitment_lower:
  assumes "ethers_laws E" and "validatePhilCoreV2ConsumerRecoveryFactorPolicy E C factor (NumberVal (IntegerNumber r)) = Inr p"
  shows "toLowerCase (fp_factorCommitment p) = fp_factorCommitment p"
proof -
  from assms(2) obtain m where "fp_factorCommitment p = descriptor_commitment E m"
    unfolding factor_policy_iff factor_checks_def by blast
  then show ?thesis by (rule commitments_normal [OF assms(1)])
qed

lemma profile_configuration:
  assumes laws: "ethers_laws E" and res: "validatePhilCoreV2ConsumerRecoveryProfile E C fs v = Inr res"
  shows "length (pf_commitments res) = 3 \<and> distinct (pf_commitments res) \<and>
    (\<forall>c \<in> set (pf_commitments res). is_bytes32 E False c c) \<and>
    pf_recoveryConfigurationHash res = configuration_commitment E (pf_commitments res)"
proof -
  obtain f0 f1 f2 where fs: "fs = (f0, f1, f2)" by (cases fs)
  from profile_parts [OF res [unfolded fs]] obtain p0 p1 p2 where
      p: "validatePhilCoreV2ConsumerRecoveryFactorPolicy E (C 0) f0 (NumberVal (IntegerNumber 0)) = Inr p0"
      "validatePhilCoreV2ConsumerRecoveryFactorPolicy E (C 1) f1 (NumberVal (IntegerNumber 1)) = Inr p1"
      "validatePhilCoreV2ConsumerRecoveryFactorPolicy E (C 2) f2 (NumberVal (IntegerNumber 2)) = Inr p2"
    and cs: "pf_commitments res = map fp_factorCommitment [p0, p1, p2]"
    and h: "computePhilCoreV2ConsumerRecoveryConfigurationHash E (pf_commitments res) = Inr (pf_recoveryConfigurationHash res)"
    by metis
  have len: "length (pf_commitments res) = 3" by (simp add: cs)
  have low: "\<forall>c \<in> set (pf_commitments res). toLowerCase c = c"
    using p [THEN factor_commitment_lower [OF laws]] unfolding cs by simp
  from h show ?thesis unfolding configuration_hash_iff [OF len low] using len by blast
qed

lemma configuration_fits:
  assumes "ethers_laws E" and "length cs = 3" and "\<forall>c \<in> set cs. is_bytes32 E False c c"
  shows "list_all2 (abi_fits E) configuration_types (configuration_words cs)"
proof -
  obtain a b c where cs: "cs = [a, b, c]" using assms(2) by (auto simp: length_Suc_conv numeral_3_eq_3)
  with assms show ?thesis
    by (simp add: configuration_types_def PHILCORE_V2_CONSUMER_RECOVERY_CONFIGURATION_VERSION_def
        PHILCORE_V2_RECOVERY_THRESHOLD_def uint_fits_def is_bytes32_def laws_isHexString)
qed

lemma material_lower:
  assumes "policy_descriptor E C d n" and "string_lower (snap d ''publicVerificationMaterialHash'') = Inr m"
  shows "m = nd_publicVerificationMaterialHash n"
  using assms by (auto simp: policy_descriptor_def js_bytes32_def is_bytes32_def)

text \<open>What the profile adds to the policies of its factors.\<close>

definition separated_factors :: "normal_descriptor list \<Rightarrow> normal_independence list \<Rightarrow> bool" where
  "separated_factors ns is \<longleftrightarrow> ni_credentialIdHash (is ! 0) \<noteq> ni_credentialIdHash (is ! 1) \<and>
     distinct (map nd_publicVerificationMaterialHash ns) \<and> distinct (map ni_custodyDomainCommitment is)"

lemma profile_facts:
  assumes laws: "ethers_laws E" and cons: "consistent C"
    and res: "validatePhilCoreV2ConsumerRecoveryProfile E C (f0, f1, f2) v = Inr res"
  shows "\<exists>x a p0 p1 p2 n0 n1 n2 i0 i1 i2. getAddress E v = Some x \<and>
    validatePhilCoreV2ConsumerRecoveryFactorPolicy E (C 0) f0 (NumberVal (IntegerNumber 0)) = Inr p0 \<and>
    validatePhilCoreV2ConsumerRecoveryFactorPolicy E (C 1) f1 (NumberVal (IntegerNumber 1)) = Inr p1 \<and>
    validatePhilCoreV2ConsumerRecoveryFactorPolicy E (C 2) f2 (NumberVal (IntegerNumber 2)) = Inr p2 \<and>
    independence_of E (C 0 0) (fp_independence p0) i0 \<and> independence_of E (C 1 0) (fp_independence p1) i1 \<and>
    independence_of E (C 2 0) (fp_independence p2) i2 \<and>
    sound_factor E 0 p0 n0 i0 \<and> sound_factor E 1 p1 n1 i1 \<and> sound_factor E 2 p2 n2 i2 \<and>
    separated_factors [n0, n1, n2] [i0, i1, i2] \<and> fp_signer p2 = Some a \<and> a \<noteq> x \<and>
    (pf_profile res = ENHANCED \<longleftrightarrow> ni_authenticatorClass i1 = 3) \<and>
    pf_commitments res = [descriptor_commitment E n0, descriptor_commitment E n1, descriptor_commitment E n2] \<and>
    distinct (pf_commitments res) \<and> pf_recoveryConfigurationHash res = configuration_commitment E (pf_commitments res)"
proof -
  from profile_parts [OF res] obtain x p0 p1 p2 j0 j1 j2 material cls where x: "getAddress E v = Some x"
    and p: "validatePhilCoreV2ConsumerRecoveryFactorPolicy E (C 0) f0 (NumberVal (IntegerNumber 0)) = Inr p0"
      "validatePhilCoreV2ConsumerRecoveryFactorPolicy E (C 1) f1 (NumberVal (IntegerNumber 1)) = Inr p1"
      "validatePhilCoreV2ConsumerRecoveryFactorPolicy E (C 2) f2 (NumberVal (IntegerNumber 2)) = Inr p2"
    and j: "independence_of E (C 0 7) (fp_independence p0) j0" "independence_of E (C 1 7) (fp_independence p1) j1"
      "independence_of E (C 2 7) (fp_independence p2) j2"
    and cred: "ni_credentialIdHash j0 \<noteq> ni_credentialIdHash j1"
    and mat: "list_all2 (\<lambda>p m. string_lower (snap (fp_descriptor p) ''publicVerificationMaterialHash'') = Inr m) [p0, p1, p2] material"
      "set_size material = 3"
    and custody: "set_size (map ni_custodyDomainCommitment [j0, j1, j2]) = 3" and signer: "fp_signer p2 \<noteq> Some x"
    and cls: "BigInt_field (C 1 8) (fp_independence p1) ''authenticatorClass'' = Some cls"
    and prof: "pf_profile res = (if cls = PHILCORE_V2_CONSUMER_AUTHENTICATOR_CLASS EXTERNAL_HARDWARE_KEY then ENHANCED else STANDARD)"
    and cs: "pf_commitments res = map fp_factorCommitment [p0, p1, p2]"
    by metis
  note st = consistent_steady [OF cons]
  have steady: "steady_factor (C r) q" for r q by (simp add: steady_factor_def st)
  obtain n0 i0 where f0: "policy_descriptor E (C 0 0) (fp_descriptor p0) n0" "independence_of E (C 0 0) (fp_independence p0) i0"
    "sound_factor E 0 p0 n0 i0" using factor_policy_steady [OF p(1) steady] by blast
  obtain n1 i1 where f1: "policy_descriptor E (C 1 0) (fp_descriptor p1) n1" "independence_of E (C 1 0) (fp_independence p1) i1"
    "sound_factor E 1 p1 n1 i1" using factor_policy_steady [OF p(2) steady] by blast
  obtain n2 i2 where f2: "policy_descriptor E (C 2 0) (fp_descriptor p2) n2" "independence_of E (C 2 0) (fp_independence p2) i2"
    "sound_factor E 2 p2 n2 i2" using factor_policy_steady [OF p(3) steady] by blast
  have same: "j0 = i0" "j1 = i1" "j2 = i2"
    using j f0(2) f1(2) f2(2) independence_unique unfolding steady_independence [OF st, of E _ 7] by blast+
  from mat(1) f0(1) f1(1) f2(1) have m: "material = map nd_publicVerificationMaterialHash [n0, n1, n2]"
    by (auto simp: list_all2_Cons1 dest!: material_lower)
  have sep: "separated_factors [n0, n1, n2] [i0, i1, i2]"
    using cred custody mat(2) unfolding separated_factors_def m same by (simp add: set_size_3)
  have "cls = ni_authenticatorClass i1"
    using cls f1(2) st [of 1 "fp_independence p1"] unfolding steady_def independence_of_def field_uint_def by (metis option.inject)
  then have enh: "pf_profile res = ENHANCED \<longleftrightarrow> ni_authenticatorClass i1 = 3"
    using prof by simp
  obtain a where a: "fp_signer p2 = Some a" using f2(3) by (auto simp: sound_factor_def signer_rule_def split: option.splits)
  have "pf_commitments res = [descriptor_commitment E n0, descriptor_commitment E n1, descriptor_commitment E n2]"
    using f0(3) f1(3) f2(3) by (simp add: cs sound_factor_def)
  with x p f0(2,3) f1(2,3) f2(2,3) sep enh a signer profile_configuration [OF laws res] show ?thesis by blast
qed

text \<open>
  C16: In an accepted profile whose fields answer consistently, the three factors satisfy the rules of roles 0, 1 and 2;
  the credentials of the two authenticators differ, the public material and the custody domains are pairwise different,
  the offline signer is not the execution validator; the profile is enhanced exactly when the secondary factor is an
  external hardware key; the three commitments are pairwise different, and the configuration hash is the commitment to
  them in the order of the roles.
\<close>

theorem profile_separation:
  assumes laws: "ethers_laws E" and cons: "consistent C"
    and res: "validatePhilCoreV2ConsumerRecoveryProfile E C (f0, f1, f2) v = Inr res"
  shows "\<exists>x a p0 p1 p2 n0 n1 n2 i0 i1 i2. getAddress E v = Some x \<and>
    sound_factor E 0 p0 n0 i0 \<and> sound_factor E 1 p1 n1 i1 \<and> sound_factor E 2 p2 n2 i2 \<and>
    separated_factors [n0, n1, n2] [i0, i1, i2] \<and> fp_signer p2 = Some a \<and> a \<noteq> x \<and>
    (pf_profile res = ENHANCED \<longleftrightarrow> ni_authenticatorClass i1 = 3) \<and>
    pf_commitments res = [descriptor_commitment E n0, descriptor_commitment E n1, descriptor_commitment E n2] \<and>
    distinct (pf_commitments res) \<and> pf_recoveryConfigurationHash res = configuration_commitment E (pf_commitments res)"
  using profile_facts [OF assms] by blast

section \<open>Rotations\<close>

lemma check_generation_iff:
  "check_generation current proposed changed r = Inr u \<longleftrightarrow>
     (\<exists>g. current r = Some g \<and> proposed r = Some (if r = changed then g + 1 else g))"
  by (auto simp: check_generation_def ensure_eq_Inr split: option.splits)

lemma changed_roles_iff:
  assumes "length current = 3" and "length (changed_roles current proposed) = 1"
  shows "hd (changed_roles current proposed) < 3 \<and>
    (\<forall>r < 3. current ! r \<noteq> proposed ! r \<longleftrightarrow> r = hd (changed_roles current proposed))"
proof -
  obtain k where k: "changed_roles current proposed = [k]" using assms(2) by (auto simp: length_Suc_conv)
  have "set (changed_roles current proposed) = {r. r < 3 \<and> current ! r \<noteq> proposed ! r}"
    using assms(1) by (auto simp: changed_roles_def)
  with k have "{r. r < 3 \<and> current ! r \<noteq> proposed ! r} = {k}" by simp
  with k show ?thesis by auto
qed

lemma rotation_parts:
  "validatePhilCoreV2ConsumerRecoveryRotation E C D cr pr cur prop v = Inr res \<Longrightarrow>
   \<exists>c p. validatePhilCoreV2ConsumerRecoveryProfile E C cur v = Inr c \<and>
     validatePhilCoreV2ConsumerRecoveryProfile E D prop v = Inr p \<and>
     length (changed_roles (pf_commitments c) (pf_commitments p)) = 1 \<and>
     rr_changedRole res = hd (changed_roles (pf_commitments c) (pf_commitments p)) \<and>
     (\<forall>r \<in> {0, 1, 2}. \<exists>u. check_generation cr pr (rr_changedRole res) r = Inr u) \<and>
     rr_currentRecoveryConfigurationHash res = pf_recoveryConfigurationHash c \<and>
     rr_proposedRecoveryConfigurationHash res = pf_recoveryConfigurationHash p"
  unfolding validatePhilCoreV2ConsumerRecoveryRotation_def Let_def bnd_eq_Inr ensure_eq_Inr traverse_iff sum.inject
  by (elim exE conjE; hypsubst) (auto simp: list_all2_Cons1)

text \<open>
  C17: An accepted rotation goes from one accepted profile to another one with the same validator, the commitments of
  exactly one role differ, which is the one that is reported; the generation that is read for it increases by one and
  the generations of the other roles stay as they are. The two reported hashes are those of the two profiles, and they
  differ, unless two of the hashed inputs collide.
\<close>

theorem rotation_replaces_one_factor:
  assumes laws: "ethers_laws E"
    and res: "validatePhilCoreV2ConsumerRecoveryRotation E C D readCurrent readProposed current proposed v = Inr res"
  shows "\<exists>c p. validatePhilCoreV2ConsumerRecoveryProfile E C current v = Inr c \<and>
    validatePhilCoreV2ConsumerRecoveryProfile E D proposed v = Inr p \<and> rr_changedRole res < 3 \<and>
    (\<forall>r < 3. (pf_commitments c ! r \<noteq> pf_commitments p ! r \<longleftrightarrow> r = rr_changedRole res) \<and>
      (\<exists>g. readCurrent r = Some g \<and> readProposed r = Some (if r = rr_changedRole res then g + 1 else g))) \<and>
    rr_currentRecoveryConfigurationHash res = configuration_commitment E (pf_commitments c) \<and>
    rr_proposedRecoveryConfigurationHash res = configuration_commitment E (pf_commitments p) \<and>
    (rr_currentRecoveryConfigurationHash res \<noteq> rr_proposedRecoveryConfigurationHash res \<or> keccak_collision E
      (commitment_inputs E RECOVERY_CONFIGURATION_TYPE configuration_types (configuration_words (pf_commitments c)) \<union>
       commitment_inputs E RECOVERY_CONFIGURATION_TYPE configuration_types (configuration_words (pf_commitments p))))"
proof -
  from rotation_parts [OF res] obtain c p where c: "validatePhilCoreV2ConsumerRecoveryProfile E C current v = Inr c"
    and p: "validatePhilCoreV2ConsumerRecoveryProfile E D proposed v = Inr p"
    and one: "length (changed_roles (pf_commitments c) (pf_commitments p)) = 1"
      "rr_changedRole res = hd (changed_roles (pf_commitments c) (pf_commitments p))"
    and gen: "\<forall>r \<in> {0, 1, 2}. \<exists>u. check_generation readCurrent readProposed (rr_changedRole res) r = Inr u"
    and h: "rr_currentRecoveryConfigurationHash res = pf_recoveryConfigurationHash c"
      "rr_proposedRecoveryConfigurationHash res = pf_recoveryConfigurationHash p"
    by blast
  note cc = profile_configuration [OF laws c] and pp = profile_configuration [OF laws p]
  from changed_roles_iff [of "pf_commitments c"] cc one
  have roles: "rr_changedRole res < 3" "\<forall>r < 3. pf_commitments c ! r \<noteq> pf_commitments p ! r \<longleftrightarrow> r = rr_changedRole res" by simp_all
  have reads: "\<exists>g. readCurrent r = Some g \<and> readProposed r = Some (if r = rr_changedRole res then g + 1 else g)" if "r < 3" for r
  proof -
    from that have "r \<in> {0, 1, 2}" by auto
    with gen show ?thesis unfolding check_generation_iff by blast
  qed
  from roles have "pf_commitments c \<noteq> pf_commitments p" by auto
  then have "configuration_words (pf_commitments c) \<noteq> configuration_words (pf_commitments p)"
    by (auto simp: inj_map_eq_map [of AbiHex] inj_def)
  with commitment_binds [OF laws configuration_fits [OF laws, of "pf_commitments c"] configuration_fits [OF laws, of "pf_commitments p"]] cc pp
  have "configuration_commitment E (pf_commitments c) \<noteq> configuration_commitment E (pf_commitments p) \<or> keccak_collision E
      (commitment_inputs E RECOVERY_CONFIGURATION_TYPE configuration_types (configuration_words (pf_commitments c)) \<union>
       commitment_inputs E RECOVERY_CONFIGURATION_TYPE configuration_types (configuration_words (pf_commitments p)))" by blast
  with c p roles reads h cc pp show ?thesis by auto
qed

section \<open>A concrete profile\<close>

text \<open>
  An instance of the library whose digests keep the role and the generation of a descriptor apart.
\<close>

lemma laws_keccak_update:
  assumes "ethers_laws E" and "\<And>x. hex_string (f x) 32 \<and> toLowerCase (f x) = f x"
  shows "ethers_laws (E\<lparr>keccak256 := f\<rparr>)"
proof -
  have fits: "abi_fits (E\<lparr>keccak256 := f\<rparr>) = abi_fits E"
  proof (intro ext)
    show "abi_fits (E\<lparr>keccak256 := f\<rparr>) t v = abi_fits E t v" for t v by (cases v) simp_all
  qed
  from assms show ?thesis
    unfolding ethers_laws_def isHexString_law_def getAddress_law_def keccak256_law_def concat_law_def abi_law_def
      abi_word_law_def utf8_law_def fits by simp
qed

definition profile_digit :: "string \<Rightarrow> char" where
  "profile_digit s = (if length s = 1090 then sample_digit ((digit_value (s ! 385) + 3 * digit_value (s ! 1089)) mod 15 + 1)
     else CHR ''c'')"

fun profile_keccak :: "bytes_like \<Rightarrow> string" where
  "profile_keccak (HexData s) = h32 (profile_digit s)"
| "profile_keccak (ByteArray bs) = h32 (CHR ''d'')"

definition profile_ethers :: ethers where
  "profile_ethers = sample_ethers\<lparr>keccak256 := profile_keccak\<rparr>"

lemma profile_digit_hex: "hex_digit (profile_digit s) \<and> lower_char (profile_digit s) = profile_digit s \<and> profile_digit s \<noteq> CHR ''0''"
proof -
  have "sample_digit (d mod 15 + 1) \<noteq> CHR ''0''" for d
  proof
    assume "sample_digit (d mod 15 + 1) = CHR ''0''"
    then have "d mod 15 + 1 = 0" by (intro sample_digit_inject) (auto simp: sample_digit_zero)
    then show False by simp
  qed
  moreover have "d mod 15 + 1 < 16" for d :: nat by auto
  ultimately show ?thesis using sample_digit_lower unfolding profile_digit_def by (simp add: literal_simps)
qed

lemma profile_keccak_shape: "hex_string (profile_keccak x) 32" "toLowerCase (profile_keccak x) = profile_keccak x"
  "profile_keccak x \<noteq> ZERO_BYTES32"
  using profile_digit_hex by (cases x; simp add: literal_simps)+

lemma profile_ethers_laws: "ethers_laws profile_ethers"
  unfolding profile_ethers_def by (rule laws_keccak_update [OF sample_ethers_laws]) (simp add: profile_keccak_shape)

lemma profile_bytes32:
  "bytes32_normal profile_ethers az (h32 c) \<longleftrightarrow> hex_digit c \<and> lower_char c = c \<and> (\<not> az \<longrightarrow> c \<noteq> CHR ''0'')"
  "bytes32_normal profile_ethers az (keccak256 profile_ethers x)" "bytes32_normal profile_ethers True ZERO_BYTES32"
  using profile_keccak_shape h32_zero [of "CHR ''0''"]
  by (auto simp: bytes32_normal_def js_bytes32_def is_bytes32_def profile_ethers_def sample_ethers_def literal_simps)
     (metis h32_zero hex_string_h32 hex_chars(12) lower_h32 lower_char_0x(1))+

abbreviation profile_signer :: string where
  "profile_signer \<equiv> a20 (CHR ''e'')"

definition profile_independence :: "int \<Rightarrow> int \<Rightarrow> normal_independence" where
  "profile_independence r g = \<lparr>ni_bindingVersion = 2, ni_role = r, ni_authenticatorClass = (if r = 0 then 1 else if r = 1 then 3 else 4),
     ni_synchronizationClass = (if r = 2 then 0 else 1), ni_independenceAssurance = 1,
     ni_credentialIdHash = (if r = 0 then h32 (CHR ''a'') else if r = 1 then h32 (CHR ''b'') else ZERO_BYTES32),
     ni_enrollmentCeremonyHash = h32 (CHR ''c''), ni_attestationEvidenceHash = h32 (CHR ''d''),
     ni_custodyDomainCommitment = (if r = 0 then h32 (CHR ''1'') else if r = 1 then h32 (CHR ''2'') else h32 (CHR ''3'')),
     ni_credentialGeneration = g\<rparr>"

definition profile_descriptor :: "int \<Rightarrow> int \<Rightarrow> normal_descriptor" where
  "profile_descriptor r g = \<lparr>nd_role = r, nd_verifierKind = (if r = 2 then 2 else 1),
     nd_publicVerificationMaterialHash = (if r = 0 then h32 (CHR ''a'') else if r = 1 then h32 (CHR ''b'')
       else material_commitment profile_ethers profile_signer),
     nd_credentialIdHash = ni_credentialIdHash (profile_independence r g),
     nd_rpIdHash = (if r = 2 then ZERO_BYTES32 else h32 (CHR ''e'')),
     nd_originPolicyHash = (if r = 2 then ZERO_BYTES32 else h32 (CHR ''f'')),
     nd_independenceBindingHash = independence_commitment profile_ethers (profile_independence r g),
     nd_userVerificationPolicy = (if r = 2 then 0 else 2), nd_backupPolicy = (if r = 2 then 0 else 1),
     nd_authenticatorAttachmentPolicy = (if r = 0 then 1 else if r = 1 then 2 else 0),
     nd_attestationPolicy = (if r = 0 then 1 else if r = 1 then 2 else 0), nd_credentialGeneration = g\<rparr>"

definition profile_signer_of :: "int \<Rightarrow> string option" where
  "profile_signer_of r = (if r = 2 then Some profile_signer else None)"

definition profile_policy :: "int \<Rightarrow> int \<Rightarrow> factor_policy" where
  "profile_policy r g = normal_result profile_ethers (profile_descriptor r g) (profile_independence r g) (profile_signer_of r)"

definition profile_factor :: "int \<Rightarrow> int \<Rightarrow> js_value" where
  "profile_factor r g = normal_factor profile_ethers NullPrototype (profile_descriptor r g) (profile_independence r g) (profile_signer_of r)"

abbreviation sample_role :: "int \<Rightarrow> int \<Rightarrow> bool" where
  "sample_role r g \<equiv> (r = 0 \<or> r = 1 \<or> r = 2) \<and> (g = 1 \<or> g = 2)"

lemma profile_independence_ok: "sample_role r g \<Longrightarrow> independence_ok profile_ethers (profile_independence r g)"
  by (elim conjE disjE) (simp_all add: independence_ok_def profile_independence_def PHILCORE_V2_CONSUMER_RECOVERY_INDEPENDENCE_VERSION_def
      uint_fits_def profile_bytes32 literal_simps)

lemma profile_descriptor_ok: "sample_role r g \<Longrightarrow> descriptor_ok profile_ethers (profile_descriptor r g)"
  by (elim conjE disjE) (simp_all add: descriptor_ok_def profile_descriptor_def profile_independence_def commitment_def
      PHILCORE_V2_CONSUMER_RECOVERY_ACCOUNT_VERSION_ID_def PHILCORE_V2_SECURITY_MODEL_ID_def PHILCORE_V2_CONSUMER_RECOVERY_DOMAIN_ID_def
      uint_fits_def profile_bytes32 literal_simps)

lemma profile_address: "getAddress profile_ethers (a20 (CHR ''e'')) = Some (a20 (CHR ''e''))"
  "getAddress profile_ethers (a20 (CHR ''a'')) = Some (a20 (CHR ''a''))"
  by (simp_all add: profile_ethers_def sample_ethers_def literal_simps)

lemma profile_sound: "sample_role r g \<Longrightarrow>
    sound_factor profile_ethers r (profile_policy r g) (profile_descriptor r g) (profile_independence r g)"
  using profile_address
  by (elim conjE disjE) (simp_all add: sound_factor_def profile_policy_def normal_result_def profile_signer_of_def signer_rule_def
      signer_of_def role_rules_def profile_descriptor_def profile_independence_def)

lemma profile_factor_accepted: "sample_role r g \<Longrightarrow>
    validatePhilCoreV2ConsumerRecoveryFactorPolicy profile_ethers C (profile_factor r g) (NumberVal (IntegerNumber r)) =
    Inr (profile_policy r g)"
  unfolding profile_factor_def profile_policy_def
  by (rule normal_factor_accepted) (simp_all add: profile_descriptor_ok profile_independence_ok profile_sound [unfolded profile_policy_def])

lemma nth_concat_words:
  "\<forall>w \<in> set ws. length w = m \<Longrightarrow> k < length ws \<Longrightarrow> j < m \<Longrightarrow> concat ws ! (m * k + j) = ws ! k ! j"
proof (induction ws arbitrary: k)
  case (Cons w ws)
  then show ?case by (cases k) (auto simp: nth_append algebra_simps)
qed simp

lemma length_concat_words: "\<forall>w \<in> set ws. length w = m \<Longrightarrow> length (concat ws) = m * length ws"
  by (induction ws) auto

lemma sample_digits_last: "sample_digits 64 n ! 63 = sample_digit (n mod 16)"
  using sample_digits_Suc [of 63 n] by (simp add: nth_append del: sample_digits.simps)

lemma profile_words:
  assumes "list_all2 (abi_fits profile_ethers) types vs"
  shows "\<forall>w \<in> set (map2 sample_abi_word (''bytes32'' # types) (AbiHex (literal_hash profile_ethers literal) # vs)). length w = 64"
proof -
  have fit: "abi_fits profile_ethers = abi_fits sample_ethers"
  proof (intro ext)
    show "abi_fits profile_ethers t v = abi_fits sample_ethers t v" for t v by (cases v) (simp_all add: profile_ethers_def)
  qed
  from assms commitment_word [OF profile_ethers_laws]
  have "list_all2 (abi_fits sample_ethers) (''bytes32'' # types) (AbiHex (literal_hash profile_ethers literal) # vs)"
    unfolding fit by (simp del: abi_fits.simps)
  then show ?thesis using sample_abi_word_length by (auto simp: list_all2_iff hex_string_def)
qed

lemma profile_commitment:
  assumes "sample_role r g"
  shows "descriptor_commitment profile_ethers (profile_descriptor r g) = h32 (sample_digit ((nat r + 3 * nat g) mod 15 + 1))"
proof -
  let ?E = profile_ethers and ?n = "profile_descriptor r g"
  let ?ts = "''bytes32'' # descriptor_types" and ?vs = "AbiHex (literal_hash ?E FACTOR_DESCRIPTOR_TYPE) # descriptor_words ?E ?n"
  let ?ws = "map2 sample_abi_word ?ts ?vs"
  have d: "policy_descriptor ?E (\<lambda>_. None) (backup_snapshot ?E ?n) ?n"
    using descriptor_snapshot_of [OF profile_descriptor_ok [OF assms], of "\<lambda>_. None" "BigIntVal (nd_backupPolicy ?n)" "nd_backupPolicy ?n"]
      profile_descriptor_ok [OF assms] by (simp add: descriptor_ok_def)
  note words = profile_words [OF policy_descriptor_fits [OF profile_ethers_laws d], of FACTOR_DESCRIPTOR_TYPE]
  have len: "length ?ws = 17" by (simp add: descriptor_types_def descriptor_words_def)
  have role: "?ws ! 5 = sample_digits 64 (nat r)" and gen: "?ws ! 16 = sample_digits 64 (nat g)"
    by (simp_all add: descriptor_types_def descriptor_words_def profile_descriptor_def nth_Cons' del: sample_digits.simps)
  have "(''0x'' @ concat ?ws) ! 385 = sample_digit (nat r)" "(''0x'' @ concat ?ws) ! 1089 = sample_digit (nat g)"
    using nth_concat_words [OF words, of 5 63] nth_concat_words [OF words, of 16 63] assms
    unfolding role gen sample_digits_last len by (auto simp: nth_append)
  moreover have "length (''0x'' @ concat ?ws) = 1090"
    using length_concat_words [OF words] len by simp
  moreover have "digit_value (sample_digit (nat r)) = nat r" "digit_value (sample_digit (nat g)) = nat g"
    using assms by (auto simp: sample_digit_def digit_value_def)
  moreover have "descriptor_commitment ?E ?n = h32 (profile_digit (''0x'' @ concat ?ws))"
    by (simp add: commitment_def commitment_preimage_def profile_ethers_def sample_ethers_def)
  ultimately show ?thesis by (simp add: profile_digit_def)
qed

abbreviation profile_factors :: "int \<Rightarrow> js_value \<times> js_value \<times> js_value" where
  "profile_factors g \<equiv> (profile_factor 0 g, profile_factor 1 1, profile_factor 2 1)"

abbreviation profile_commitments :: "int \<Rightarrow> string list" where
  "profile_commitments g \<equiv> [descriptor_commitment profile_ethers (profile_descriptor 0 g),
     descriptor_commitment profile_ethers (profile_descriptor 1 1), descriptor_commitment profile_ethers (profile_descriptor 2 1)]"

definition profile_outcome :: "int \<Rightarrow> profile_result" where
  "profile_outcome g = \<lparr>pf_profile = ENHANCED,
     pf_descriptors = map fp_descriptor [profile_policy 0 g, profile_policy 1 1, profile_policy 2 1],
     pf_commitments = profile_commitments g,
     pf_recoveryConfigurationHash = configuration_commitment profile_ethers (profile_commitments g),
     pf_independenceAssurance = ''ENFORCED'',
     pf_warnings = [''Custody-domain separation is commitment-bound but remains user-attested.'',
       ''WebAuthn cannot prove separate cloud, password-manager, or backup accounts.'']\<rparr>"

lemma sample_digit_neq: "a < 16 \<Longrightarrow> b < 16 \<Longrightarrow> a \<noteq> b \<Longrightarrow> sample_digit a \<noteq> sample_digit b"
  using sample_digit_inject by blast

lemma profile_configuration_hash:
  assumes "g = 1 \<or> g = 2"
  shows "computePhilCoreV2ConsumerRecoveryConfigurationHash profile_ethers (profile_commitments g) =
    Inr (configuration_commitment profile_ethers (profile_commitments g))"
proof -
  have "is_bytes32 profile_ethers False (descriptor_commitment profile_ethers n) (descriptor_commitment profile_ethers n)" for n
    using profile_bytes32(2) [of False "commitment_preimage profile_ethers FACTOR_DESCRIPTOR_TYPE descriptor_types (descriptor_words profile_ethers n)"]
    by (simp add: commitment_def bytes32_normal_def js_bytes32_def)
  moreover have "distinct (profile_commitments g)"
    using assms by (auto simp: profile_commitment sample_digit_neq)
  ultimately show ?thesis
    by (subst configuration_hash_iff) (simp_all add: commitment_shape [OF profile_ethers_laws])
qed

lemma profile_normal_independence:
  "sample_role r g \<Longrightarrow> normalizeIndependence profile_ethers C (fp_independence (profile_policy r g)) = Inr (profile_independence r g)"
  unfolding normalizeIndependence_iff profile_policy_def normal_result_def
  by (simp add: independence_snapshot_of profile_independence_ok)

lemma profile_material:
  "string_lower (snap (fp_descriptor (profile_policy r g)) ''publicVerificationMaterialHash'') =
     Inr (toLowerCase (nd_publicVerificationMaterialHash (profile_descriptor r g)))"
  by (simp add: profile_policy_def normal_result_def descriptor_snapshot_def snap_def)

lemma profile_material_values:
  "toLowerCase (nd_publicVerificationMaterialHash (profile_descriptor 0 g)) = h32 (CHR ''a'')"
  "toLowerCase (nd_publicVerificationMaterialHash (profile_descriptor 1 g)) = h32 (CHR ''b'')"
  "toLowerCase (nd_publicVerificationMaterialHash (profile_descriptor 2 g)) = h32 (CHR ''c'')"
proof -
  have "material_commitment profile_ethers profile_signer = h32 (CHR ''c'')"
    by (simp add: commitment_def commitment_preimage_def profile_ethers_def sample_ethers_def profile_digit_def literal_hash_def
        h32_def a20_def)
  then show "toLowerCase (nd_publicVerificationMaterialHash (profile_descriptor 0 g)) = h32 (CHR ''a'')"
    "toLowerCase (nd_publicVerificationMaterialHash (profile_descriptor 1 g)) = h32 (CHR ''b'')"
    "toLowerCase (nd_publicVerificationMaterialHash (profile_descriptor 2 g)) = h32 (CHR ''c'')"
    by (simp_all add: profile_descriptor_def literal_simps)
qed

lemma profile_accepted:
  assumes "g = 1 \<or> g = 2"
  shows "validatePhilCoreV2ConsumerRecoveryProfile profile_ethers C (profile_factors g) (a20 (CHR ''a'')) = Inr (profile_outcome g)"
proof -
  from assms have s: "sample_role 0 g" "sample_role 1 1" "sample_role 2 1" by auto
  have cred: "set_size [ni_credentialIdHash (profile_independence 0 g), ni_credentialIdHash (profile_independence 1 1)] = 2"
    "set_size [h32 (CHR ''a''), h32 (CHR ''b''), h32 (CHR ''c'')] = 3"
    "set_size (map ni_custodyDomainCommitment [profile_independence 0 g, profile_independence 1 1, profile_independence 2 1]) = 3"
    by (simp_all add: set_size_2 set_size_3 profile_independence_def)
  have sig: "fp_signer (profile_policy 2 1) \<noteq> Some (a20 (CHR ''a''))"
    by (simp add: profile_policy_def normal_result_def profile_signer_of_def)
  have cls: "BigInt_field (C 1 8) (fp_independence (profile_policy 1 1)) ''authenticatorClass'' = Some 3"
    by (simp add: profile_policy_def normal_result_def independence_snapshot_def profile_independence_def BigInt_field_def snap_def)
  have fc: "map fp_factorCommitment [profile_policy 0 g, profile_policy 1 1, profile_policy 2 1] = profile_commitments g"
    by (simp add: profile_policy_def normal_result_def)
  show ?thesis
    unfolding validatePhilCoreV2ConsumerRecoveryProfile_def profile_address option.case prod.case
      profile_factor_accepted [OF s(1)] profile_factor_accepted [OF s(2)] profile_factor_accepted [OF s(3)] bnd.simps
      profile_normal_independence [OF s(1)] profile_normal_independence [OF s(2)] profile_normal_independence [OF s(3)]
      traverse.simps profile_material profile_material_values cred sig cls fc profile_configuration_hash [OF assms]
    using sig by (simp add: profile_outcome_def)
qed

section \<open>The properties on the concrete profile\<close>

lemma sample_roles: "sample_role 0 1" "sample_role 2 1"
  by simp_all

lemma profile_policy_steady: "steady_factor C (profile_policy r g)"
  unfolding profile_policy_def by (rule normal_result_steady)

theorem factor_policy_sound_witness:
  "(\<exists>n i. policy_descriptor profile_ethers (\<lambda>_. None) (fp_descriptor (profile_policy 2 1)) n \<and>
     independence_of profile_ethers (\<lambda>_. None) (fp_independence (profile_policy 2 1)) i \<and>
     sound_factor profile_ethers 2 (profile_policy 2 1) n i)"
  by (rule factor_policy_sound [OF profile_factor_accepted [OF sample_roles(2), where C = "\<lambda>_ _. None"] profile_policy_steady])

theorem policy_checked_on_other_values_witness:
  "\<exists>C factor p. validatePhilCoreV2ConsumerRecoveryFactorPolicy profile_ethers C factor (NumberVal (IntegerNumber 0)) = Inr p \<and>
     fp_factorCommitment p = descriptor_commitment profile_ethers ((profile_descriptor 0 1)\<lparr>nd_backupPolicy := 0\<rparr>)"
proof (rule policy_checked_on_other_values)
  show "descriptor_ok profile_ethers (profile_descriptor 0 1)" "independence_ok profile_ethers (profile_independence 0 1)"
    by (simp_all add: profile_descriptor_ok profile_independence_ok)
  show "sound_factor profile_ethers 0 (normal_result profile_ethers (profile_descriptor 0 1) (profile_independence 0 1) None)
      (profile_descriptor 0 1) (profile_independence 0 1)"
    using profile_sound [OF sample_roles(1)] by (simp add: profile_policy_def profile_signer_of_def)
  show "uint_fits 8 0" by (rule uint_fits_small)
qed

theorem factor_commitment_binds_witness:
  "\<exists>n i m j. policy_descriptor profile_ethers (\<lambda>_. None) (fp_descriptor (profile_policy 0 1)) n \<and>
     independence_of profile_ethers (\<lambda>_. None) (fp_independence (profile_policy 0 1)) i \<and>
     policy_descriptor profile_ethers (\<lambda>_. None) (fp_descriptor (profile_policy 0 1)) m \<and>
     independence_of profile_ethers (\<lambda>_. None) (fp_independence (profile_policy 0 1)) j \<and>
     (n = m \<and> i = j \<and> (0 :: int) = 0 \<or> keccak_collision profile_ethers
      (commitment_inputs profile_ethers FACTOR_DESCRIPTOR_TYPE descriptor_types (descriptor_words profile_ethers n) \<union>
       commitment_inputs profile_ethers FACTOR_DESCRIPTOR_TYPE descriptor_types (descriptor_words profile_ethers m) \<union>
       commitment_inputs profile_ethers INDEPENDENCE_BINDING_TYPE independence_types (independence_words i) \<union>
       commitment_inputs profile_ethers INDEPENDENCE_BINDING_TYPE independence_types (independence_words j)))"
  by (rule factor_commitment_binds [OF profile_ethers_laws
        profile_factor_accepted [OF sample_roles(1), where C = "\<lambda>_ _. None"] profile_policy_steady
        profile_factor_accepted [OF sample_roles(1), where C = "\<lambda>_ _. None"] profile_policy_steady refl])

theorem profile_separation_witness:
  "validatePhilCoreV2ConsumerRecoveryProfile profile_ethers (\<lambda>_ _ _. None) (profile_factors 1) (a20 (CHR ''a'')) =
     Inr (profile_outcome 1) \<and>
   (\<exists>x a p0 p1 p2 n0 n1 n2 i0 i1 i2. getAddress profile_ethers (a20 (CHR ''a'')) = Some x \<and>
     sound_factor profile_ethers 0 p0 n0 i0 \<and> sound_factor profile_ethers 1 p1 n1 i1 \<and> sound_factor profile_ethers 2 p2 n2 i2 \<and>
     separated_factors [n0, n1, n2] [i0, i1, i2] \<and> fp_signer p2 = Some a \<and> a \<noteq> x \<and>
     (pf_profile (profile_outcome 1) = ENHANCED \<longleftrightarrow> ni_authenticatorClass i1 = 3) \<and>
     pf_commitments (profile_outcome 1) = [descriptor_commitment profile_ethers n0, descriptor_commitment profile_ethers n1,
       descriptor_commitment profile_ethers n2] \<and>
     distinct (pf_commitments (profile_outcome 1)) \<and>
     pf_recoveryConfigurationHash (profile_outcome 1) = configuration_commitment profile_ethers (pf_commitments (profile_outcome 1)))"
proof -
  have cons: "consistent (\<lambda>_ _ _. None)" by (simp add: consistent_def)
  have acc: "validatePhilCoreV2ConsumerRecoveryProfile profile_ethers (\<lambda>_ _ _. None) (profile_factors 1) (a20 (CHR ''a'')) =
    Inr (profile_outcome 1)" by (rule profile_accepted) simp
  from acc profile_separation [OF profile_ethers_laws cons acc] show ?thesis by blast
qed

text \<open>The primary device is replaced: its generation goes from 1 to 2.\<close>

abbreviation profile_readings :: "int \<Rightarrow> generation_reading" where
  "profile_readings g \<equiv> (\<lambda>r. if r = 0 then Some g else Some 1)"

definition profile_rotation :: rotation_result where
  "profile_rotation = \<lparr>rr_changedRole = 0,
     rr_currentRecoveryConfigurationHash = pf_recoveryConfigurationHash (profile_outcome 1),
     rr_proposedRecoveryConfigurationHash = pf_recoveryConfigurationHash (profile_outcome 2)\<rparr>"

lemma profile_rotation_accepted:
  "validatePhilCoreV2ConsumerRecoveryRotation profile_ethers (\<lambda>_ _ _. None) (\<lambda>_ _ _. None) (profile_readings 1) (profile_readings 2)
     (profile_factors 1) (profile_factors 2) (a20 (CHR ''a'')) = Inr profile_rotation"
proof -
  have "changed_roles (profile_commitments 1) (profile_commitments 2) = [0]"
    by (simp add: changed_roles_def profile_commitment sample_digit_neq upt_rec)
  moreover have "pf_commitments (profile_outcome g) = profile_commitments g" for g by (simp add: profile_outcome_def)
  ultimately show ?thesis
    unfolding validatePhilCoreV2ConsumerRecoveryRotation_def profile_accepted [of 1, simplified] profile_accepted [of 2, simplified]
    by (simp add: check_generation_def profile_rotation_def)
qed

theorem rotation_replaces_one_factor_witness:
  "\<exists>c p. validatePhilCoreV2ConsumerRecoveryProfile profile_ethers (\<lambda>_ _ _. None) (profile_factors 1) (a20 (CHR ''a'')) = Inr c \<and>
    validatePhilCoreV2ConsumerRecoveryProfile profile_ethers (\<lambda>_ _ _. None) (profile_factors 2) (a20 (CHR ''a'')) = Inr p \<and>
    rr_changedRole profile_rotation < 3 \<and>
    (\<forall>r < 3. (pf_commitments c ! r \<noteq> pf_commitments p ! r \<longleftrightarrow> r = rr_changedRole profile_rotation) \<and>
      (\<exists>g. profile_readings 1 r = Some g \<and> profile_readings 2 r = Some (if r = rr_changedRole profile_rotation then g + 1 else g))) \<and>
    rr_currentRecoveryConfigurationHash profile_rotation = configuration_commitment profile_ethers (pf_commitments c) \<and>
    rr_proposedRecoveryConfigurationHash profile_rotation = configuration_commitment profile_ethers (pf_commitments p) \<and>
    (rr_currentRecoveryConfigurationHash profile_rotation \<noteq> rr_proposedRecoveryConfigurationHash profile_rotation \<or>
     keccak_collision profile_ethers
      (commitment_inputs profile_ethers RECOVERY_CONFIGURATION_TYPE configuration_types (configuration_words (pf_commitments c)) \<union>
       commitment_inputs profile_ethers RECOVERY_CONFIGURATION_TYPE configuration_types (configuration_words (pf_commitments p))))"
  by (rule rotation_replaces_one_factor [OF profile_ethers_laws profile_rotation_accepted])

end
