(* ===== verification/GenesisProfile.thy ===== *)
theory GenesisProfile
  imports RecoveryProfile
begin

text \<open>
  The validation of a genesis profile (\<open>v2ConsumerRecoveryGenesisProtocol.ts\<close>): the deployment intent,
  the three enrollment ceremonies and the three factors of an account that does not exist yet, checked
  against each other before the factors are handed to the generic profile validation.
\<close>

section \<open>Access\<close>

definition PROFILE_OWN_KEYS :: "string list" where
  "PROFILE_OWN_KEYS = [''intent'', ''ceremonies'', ''factors'', ''executionValidator'']"

definition snapshotExactObject ::
  "js_value \<Rightarrow> string list \<Rightarrow> string \<Rightarrow> string \<Rightarrow> string \<Rightarrow> string \<Rightarrow> string \<Rightarrow> snapshot coded" where
  "snapshotExactObject v allowedKeys notObjectCode missingCode extraCode enumerationCode readCode =
     bnd (requirePlainObject v notObjectCode) (\<lambda>obj.
     bnd (requireExactOwnKeys obj allowedKeys [] missingCode extraCode enumerationCode) (\<lambda>verified.
     traverse (\<lambda>key. bnd (read_field verified readCode key) (\<lambda>value. Inr (key, value))) allowedKeys))"

definition TUPLE_OWN_KEYS :: "string list" where
  "TUPLE_OWN_KEYS = [''0'', ''1'', ''2'', ''length'']"

fun is_three :: "js_value \<Rightarrow> bool" where
  "is_three (NumberVal (IntegerNumber n)) = (n = 3)"
| "is_three _ = False"

fun requireExactThreeTuple :: "js_value \<Rightarrow> string \<Rightarrow> (js_value \<times> js_value \<times> js_value) coded" where
  "requireExactThreeTuple (ObjectVal obj) notTupleCode =
     bnd (failWithCause notTupleCode (isArray obj)) (\<lambda>array.
     bnd (check array notTupleCode) (\<lambda>_.
     bnd (requireExactOwnKeys obj TUPLE_OWN_KEYS [] notTupleCode notTupleCode notTupleCode) (\<lambda>verified.
     bnd (read_field verified notTupleCode ''length'') (\<lambda>len.
     bnd (check (is_three len) notTupleCode) (\<lambda>_.
     bnd (read_field verified notTupleCode ''0'') (\<lambda>slot0.
     bnd (read_field verified notTupleCode ''1'') (\<lambda>slot1.
     bnd (read_field verified notTupleCode ''2'') (\<lambda>slot2.
     Inr (slot0, slot1, slot2)))))))))"
| "requireExactThreeTuple _ notTupleCode = Inl notTupleCode"

record factor_snapshots =
  fs_descriptor :: snapshot
  fs_independence :: snapshot
  fs_signer :: js_value

definition snapshotFactor :: "js_value \<Rightarrow> factor_snapshots coded" where
  "snapshotFactor v =
     bnd (requirePlainObject v ''FACTOR_INPUT_NOT_OBJECT'') (\<lambda>factor.
     bnd (requireExactOwnKeys factor FACTOR_REQUIRED_OWN_KEYS FACTOR_OPTIONAL_OWN_KEYS ''FACTOR_INPUT_NOT_OBJECT''
            ''FACTOR_INPUT_NOT_OBJECT'' ''FACTOR_INPUT_NOT_OBJECT'') (\<lambda>verified.
     bnd (read_field verified ''FACTOR_DESCRIPTOR_INVALID'' ''descriptor'') (\<lambda>descriptorRaw.
     bnd (read_field verified ''FACTOR_INDEPENDENCE_INVALID'' ''independence'') (\<lambda>independenceRaw.
     bnd (snapshotExactObject descriptorRaw DESCRIPTOR_OWN_KEYS ''FACTOR_DESCRIPTOR_INVALID'' ''FACTOR_DESCRIPTOR_INVALID''
            ''FACTOR_DESCRIPTOR_INVALID'' ''FACTOR_DESCRIPTOR_INVALID'' ''FACTOR_DESCRIPTOR_INVALID'') (\<lambda>descriptor.
     bnd (snapshotExactObject independenceRaw INDEPENDENCE_OWN_KEYS ''FACTOR_INDEPENDENCE_INVALID''
            ''FACTOR_INDEPENDENCE_INVALID'' ''FACTOR_INDEPENDENCE_INVALID'' ''FACTOR_INDEPENDENCE_INVALID''
            ''FACTOR_INDEPENDENCE_INVALID'') (\<lambda>independence.
     bnd (if map_of verified ''signer'' \<noteq> None then read_field verified ''FACTOR_INPUT_NOT_OBJECT'' ''signer''
          else Inr UndefinedVal) (\<lambda>signer.
     Inr \<lparr>fs_descriptor = descriptor, fs_independence = independence, fs_signer = signer\<rparr>)))))))"

section \<open>The checks across the records\<close>

definition genesis_ceremony_slot :: "ethers \<Rightarrow> string \<Rightarrow> int \<Rightarrow> int \<Rightarrow> js_value \<Rightarrow> (snapshot \<times> string) coded" where
  "genesis_ceremony_slot E genesisDeploymentIntentHash intentExpiresAt slot v =
     bnd (snapshotExactObject v CEREMONY_OWN_KEYS ''CEREMONY_INPUT_NOT_OBJECT'' ''CEREMONY_MISSING_OWN_KEY''
            ''CEREMONY_EXTRA_OWN_KEY'' ''CEREMONY_ENUMERATION_FAILED'' ''CEREMONY_PROPERTY_READ_FAILED'') (\<lambda>ceremonySnapshot.
     bnd (computePhilCoreV2LocalGenesisEnrollmentCeremonyHash E (null_object ceremonySnapshot)) (\<lambda>ceremonyHash.
     bnd (requireCanonicalUint (snap ceremonySnapshot ''role'') 8 ''CEREMONY_ROLE_INVALID'') (\<lambda>role.
     bnd (check (role = slot) ''CEREMONY_ROLE_ORDER_INVALID'') (\<lambda>_.
     bnd (genesis_bytes32 E (snap ceremonySnapshot ''genesisDeploymentIntentHash'') ''CEREMONY_INTENT_MISMATCH''
            ''CEREMONY_INTENT_MISMATCH'') (\<lambda>ceremonyIntentHash.
     bnd (check (ceremonyIntentHash = genesisDeploymentIntentHash) ''CEREMONY_INTENT_MISMATCH'') (\<lambda>_.
     bnd (requireCanonicalUint (snap ceremonySnapshot ''expiresAt'') 48 ''CEREMONY_EXPIRES_AT_INVALID'') (\<lambda>ceremonyExpiresAt.
     bnd (check (\<not> ceremonyExpiresAt > intentExpiresAt) ''CEREMONY_EXPIRY_EXCEEDS_INTENT'') (\<lambda>_.
     Inr (ceremonySnapshot, ceremonyHash)))))))))"

definition genesis_ceremony_id :: "ethers \<Rightarrow> snapshot \<Rightarrow> string coded" where
  "genesis_ceremony_id E ceremonySnapshot =
     genesis_bytes32 E (snap ceremonySnapshot ''ceremonyId'') ''CEREMONY_ID_DUPLICATE'' ''CEREMONY_ID_DUPLICATE''"

definition genesis_factor_slot :: "ethers \<Rightarrow> int \<Rightarrow> string \<Rightarrow> factor_snapshots \<Rightarrow> unit coded" where
  "genesis_factor_slot E slot ceremonyHash factor =
     bnd (requireCanonicalUint (snap (fs_descriptor factor) ''role'') 8 ''FACTOR_ROLE_MISMATCH'') (\<lambda>descriptorRole.
     bnd (requireCanonicalUint (snap (fs_independence factor) ''role'') 8 ''FACTOR_ROLE_MISMATCH'') (\<lambda>independenceRole.
     bnd (check (\<not> (descriptorRole \<noteq> slot \<or> independenceRole \<noteq> slot)) ''FACTOR_ROLE_MISMATCH'') (\<lambda>_.
     bnd (requireCanonicalUint (snap (fs_descriptor factor) ''credentialGeneration'') 64 ''FACTOR_GENERATION_MISMATCH'') (\<lambda>descriptorGeneration.
     bnd (requireCanonicalUint (snap (fs_independence factor) ''credentialGeneration'') 64 ''FACTOR_GENERATION_MISMATCH'') (\<lambda>independenceGeneration.
     bnd (check (\<not> (descriptorGeneration \<noteq> PINNED_GENESIS_GENERATION \<or> independenceGeneration \<noteq> PINNED_GENESIS_GENERATION))
            ''FACTOR_GENERATION_MISMATCH'') (\<lambda>_.
     bnd (genesis_bytes32 E (snap (fs_independence factor) ''enrollmentCeremonyHash'') ''FACTOR_CEREMONY_HASH_MISMATCH''
            ''FACTOR_CEREMONY_HASH_MISMATCH'') (\<lambda>enrollmentCeremonyHash.
     check (enrollmentCeremonyHash = ceremonyHash) ''FACTOR_CEREMONY_HASH_MISMATCH'')))))))"

text \<open>\<open>executionValidatorRaw !== intentSnapshot.initialValidator\<close>; the second is a string.\<close>

fun same_string :: "js_value \<Rightarrow> js_value \<Rightarrow> string option" where
  "same_string (StringVal a) (StringVal b) = (if a = b then Some a else None)"
| "same_string _ _ = None"

definition genesis_factor_object :: "factor_snapshots \<Rightarrow> js_value" where
  "genesis_factor_object factor = factor_object NullPrototype (fs_descriptor factor) (fs_independence factor)
     (case fs_signer factor of UndefinedVal \<Rightarrow> None | v \<Rightarrow> Some v)"

text \<open>
  The generic validation throws errors that are not of the class of this file, except where a method of
  the caller's object is run outside a \<open>try\<close>: what that one throws is a parameter.
\<close>

fun generic_profile :: "thrown \<Rightarrow> profile_result result \<Rightarrow> profile_result coded" where
  "generic_profile T (Inr profile) = Inr profile"
| "generic_profile T (Inl LibraryError) = failWithCause ''GENERIC_PROFILE_VALIDATION_FAILED'' (Throws T)"
| "generic_profile T (Inl _) = failWithCause ''GENERIC_PROFILE_VALIDATION_FAILED'' (Throws Unclassified)"

record genesis_profile =
  gp_genesisDeploymentIntentHash :: string
  gp_genesisEnrollmentCeremonyHashes :: "string list"
  gp_profile :: profile_result

definition validatePhilCoreV2ConsumerRecoveryGenesisProfile ::
  "ethers \<Rightarrow> (nat \<Rightarrow> nat \<Rightarrow> conversion) \<Rightarrow> thrown \<Rightarrow> js_value \<Rightarrow> genesis_profile coded" where
  "validatePhilCoreV2ConsumerRecoveryGenesisProfile E C T input =
     bnd (requirePlainObject input ''PROFILE_INPUT_NOT_OBJECT'') (\<lambda>top.
     bnd (requireExactOwnKeys top PROFILE_OWN_KEYS [] ''PROFILE_MISSING_OWN_KEY'' ''PROFILE_EXTRA_OWN_KEY''
            ''PROFILE_ENUMERATION_FAILED'') (\<lambda>verified.
     bnd (read_field verified ''PROFILE_PROPERTY_READ_FAILED'' ''intent'') (\<lambda>intentRaw.
     bnd (read_field verified ''PROFILE_PROPERTY_READ_FAILED'' ''ceremonies'') (\<lambda>ceremoniesRaw.
     bnd (read_field verified ''PROFILE_PROPERTY_READ_FAILED'' ''factors'') (\<lambda>factorsRaw.
     bnd (read_field verified ''PROFILE_PROPERTY_READ_FAILED'' ''executionValidator'') (\<lambda>executionValidatorRaw.
     bnd (requireExactThreeTuple ceremoniesRaw ''CEREMONIES_NOT_TUPLE'') (\<lambda>(ceremony0, ceremony1, ceremony2).
     bnd (requireExactThreeTuple factorsRaw ''FACTORS_NOT_TUPLE'') (\<lambda>(factor0, factor1, factor2).
     bnd (snapshotExactObject intentRaw INTENT_OWN_KEYS ''INTENT_INPUT_NOT_OBJECT'' ''INTENT_MISSING_OWN_KEY''
            ''INTENT_EXTRA_OWN_KEY'' ''INTENT_ENUMERATION_FAILED'' ''INTENT_PROPERTY_READ_FAILED'') (\<lambda>intentSnapshot.
     bnd (computePhilCoreV2LocalGenesisDeploymentIntentHash E (null_object intentSnapshot)) (\<lambda>intentHash.
     bnd (requireCanonicalUint (snap intentSnapshot ''expiresAt'') 48 ''INTENT_EXPIRES_AT_INVALID'') (\<lambda>intentExpiresAt.
     bnd (genesis_ceremony_slot E intentHash intentExpiresAt 0 ceremony0) (\<lambda>(snapshot0, hash0).
     bnd (genesis_ceremony_slot E intentHash intentExpiresAt 1 ceremony1) (\<lambda>(snapshot1, hash1).
     bnd (genesis_ceremony_slot E intentHash intentExpiresAt 2 ceremony2) (\<lambda>(snapshot2, hash2).
     bnd (traverse (genesis_ceremony_id E) [snapshot0, snapshot1, snapshot2]) (\<lambda>ceremonyIds.
     bnd (check (set_size ceremonyIds = 3) ''CEREMONY_ID_DUPLICATE'') (\<lambda>_.
     bnd (snapshotFactor factor0) (\<lambda>factors0.
     bnd (snapshotFactor factor1) (\<lambda>factors1.
     bnd (snapshotFactor factor2) (\<lambda>factors2.
     bnd (genesis_factor_slot E 0 hash0 factors0) (\<lambda>_.
     bnd (genesis_factor_slot E 1 hash1 factors1) (\<lambda>_.
     bnd (genesis_factor_slot E 2 hash2 factors2) (\<lambda>_.
     case same_string executionValidatorRaw (snap intentSnapshot ''initialValidator'') of
       None \<Rightarrow> Inl ''EXECUTION_VALIDATOR_INTENT_MISMATCH''
     | Some executionValidator \<Rightarrow>
         bnd (generic_profile T (validatePhilCoreV2ConsumerRecoveryProfile E C
                (genesis_factor_object factors0, genesis_factor_object factors1, genesis_factor_object factors2)
                executionValidator)) (\<lambda>profile.
         Inr \<lparr>gp_genesisDeploymentIntentHash = intentHash, gp_genesisEnrollmentCeremonyHashes = [hash0, hash1, hash2],
              gp_profile = profile\<rparr>)))))))))))))))))))))))"

section \<open>What the checks accept\<close>

lemma read_field_iff: "read_field verified code key = Inr v \<longleftrightarrow> Option.bind (map_of verified key) descriptor_value = Some v"
  by (auto simp: read_field_def readValue_iff split: option.splits)

lemma genesis_snapshot_iff: "snapshotExactObject v keys c1 c2 c3 c4 c5 = Inr ps \<longleftrightarrow> object_snapshot v keys ps"
proof -
  let ?row = "\<lambda>M key p. fst p = key \<and> Option.bind (M key) descriptor_value = Some (snd p)"
  have one: "bnd (read_field verified c5 key) (\<lambda>value. Inr (key, value)) = Inr p \<longleftrightarrow> ?row (map_of verified) key p" for verified key p
    by (cases p) (auto simp: result_simps read_field_iff)
  have obj: "(\<exists>verified. requireExactOwnKeys obj keys [] c2 c3 c4 = Inr verified \<and> list_all2 (?row (map_of verified)) keys ps) \<longleftrightarrow>
      exact_object obj keys \<and> list_all2 (?row (descriptor_of obj)) keys ps" for obj
    using requireExactOwnKeys_iff [of obj keys c2 c3 c4 "\<lambda>M. list_all2 (?row M) keys ps"]
    by (simp add: list_all2_conv_all_nth cong: conj_cong)
  show ?thesis
    unfolding snapshotExactObject_def object_snapshot_def bnd_eq_Inr [of "requirePlainObject v c1"]
      bnd_eq_Inr [of "requireExactOwnKeys _ _ _ _ _ _"] requirePlainObject_iff traverse_iff one obj by blast
qed

lemma object_snapshot_keys:
  assumes "object_snapshot v keys ps"
  shows "map fst ps = keys"
proof -
  from assms have "list_all2 (\<lambda>key p. fst p = key) keys ps" unfolding object_snapshot_def by (auto elim: list_all2_mono)
  then show ?thesis by (induction rule: list_all2_induct) auto
qed

text \<open>The snapshot of a data object with these properties is again this list of properties.\<close>

lemma data_object_snapshot_unique:
  assumes "object_snapshot (data_object proto ps) keys qs" and "map fst ps = keys" and "distinct keys"
  shows "qs = ps"
proof -
  obtain obj where obj: "data_object proto ps = ObjectVal obj" by (auto simp: data_object_def)
  have "object_snapshot (data_object proto ps) keys ps" by (rule data_object_snapshot [OF assms(2,3)])
  with assms(1) obj have
    "list_all2 (\<lambda>key p. fst p = key \<and> Option.bind (descriptor_of obj key) descriptor_value = Some (snd p)) keys qs"
    "list_all2 (\<lambda>key p. fst p = key \<and> Option.bind (descriptor_of obj key) descriptor_value = Some (snd p)) keys ps"
    unfolding object_snapshot_def by auto
  then show ?thesis by (auto simp: list_all2_conv_all_nth prod_eq_iff intro!: nth_equalityI)
qed

text \<open>The words that a hash function reads of a snapshot.\<close>

definition snapshot_words :: "ethers \<Rightarrow> (string \<times> field_rule) list \<Rightarrow> snapshot \<Rightarrow> abi_value list \<Rightarrow> bool" where
  "snapshot_words E rules ps ws \<longleftrightarrow> list_all2 (\<lambda>(key, rule) w. check_field E rule (snap ps key) = Inr w) rules ws"

lemma object_words_snapshot:
  assumes "map fst ps = map fst rules"
  shows "object_words E rules (data_object proto ps) ws \<longleftrightarrow> snapshot_words E rules ps ws"
proof -
  obtain obj where obj: "data_object proto ps = ObjectVal obj" by (auto simp: data_object_def)
  note seen = data_object_shows [OF obj]
  have row: "(\<exists>d x. descriptor_of obj key = Some d \<and> descriptor_value d = Some x \<and> check_field E rule x = Inr w) \<longleftrightarrow>
      check_field E rule (snap ps key) = Inr w" if "(key, rule) \<in> set rules" for key rule w
  proof -
    have "key \<in> fst ` set ps" using that assms by (metis fst_conv image_set in_set_conv_decomp image_eqI)
    then obtain x where "map_of ps key = Some x" by (metis map_of_eq_None_iff option.exhaust)
    then show ?thesis by (auto simp: seen(6) snap_def)
  qed
  have "object_words E rules (data_object proto ps) ws \<longleftrightarrow>
      list_all2 (\<lambda>(key, rule) w. \<exists>d x. descriptor_of obj key = Some d \<and> descriptor_value d = Some x \<and>
        check_field E rule x = Inr w) rules ws"
    using obj seen(1,5) assms by (auto simp: object_words_def)
  also have "\<dots> \<longleftrightarrow> snapshot_words E rules ps ws"
    unfolding snapshot_words_def
  proof (rule list.rel_cong [OF refl refl])
    fix p w
    assume p: "p \<in> set rules"
    obtain key rule where "p = (key, rule)" by (cases p)
    with row [of key rule w] p
    show "(case p of (key, rule) \<Rightarrow> \<lambda>w. \<exists>d x. descriptor_of obj key = Some d \<and> descriptor_value d = Some x \<and>
        check_field E rule x = Inr w) w \<longleftrightarrow> (case p of (key, rule) \<Rightarrow> \<lambda>w. check_field E rule (snap ps key) = Inr w) w"
      by (simp only: prod.case)
  qed
  finally show ?thesis .
qed

lemma ceremony_slot_iff:
  "genesis_ceremony_slot E intentHash t slot v = Inr (ps, h) \<longleftrightarrow>
     (\<exists>ws ex. object_snapshot v CEREMONY_OWN_KEYS ps \<and> snapshot_words E ceremony_fields ps ws \<and>
        h = commitment E PHILCORE_V2_LOCAL_GENESIS_ENROLLMENT_CEREMONY_LITERAL CEREMONY_ABI_TYPES ws \<and>
        js_uint (snap ps ''role'') = Some slot \<and> uint_fits 8 slot \<and> snap ps ''genesisDeploymentIntentHash'' = StringVal intentHash \<and>
        isHexString E intentHash 32 \<and> toLowerCase intentHash = intentHash \<and> intentHash \<noteq> ZERO_BYTES32 \<and>
        js_uint (snap ps ''expiresAt'') = Some ex \<and> uint_fits 48 ex \<and> ex \<le> t)"
proof -
  have words: "object_words E ceremony_fields (null_object ps) ws \<longleftrightarrow> snapshot_words E ceremony_fields ps ws"
    if "object_snapshot v CEREMONY_OWN_KEYS ps" for ps ws
    using object_snapshot_keys [OF that] by (intro object_words_snapshot) (simp add: ceremony_rules)
  show ?thesis
    unfolding genesis_ceremony_slot_def bnd_eq_Inr genesis_snapshot_iff ceremony_hash_iff requireCanonicalUint_iff
      genesis_bytes32_iff check_iff sum.inject prod.inject not_less
    using words by blast
qed

lemma ceremony_snapshot_words:
  assumes "snapshot_words E ceremony_fields ps ws" and "js_uint (snap ps ''role'') = Some slot"
    and "snap ps ''genesisDeploymentIntentHash'' = StringVal h" and "js_uint (snap ps ''expiresAt'') = Some ex"
  shows "\<exists>cid. snap ps ''ceremonyId'' = StringVal cid \<and> ws = ceremony_words cid h slot ex"
  using assms unfolding snapshot_words_def ceremony_fields_def ceremony_words_def
  by (auto simp: list_all2_Cons1 result_simps PINNED_CEREMONY_VERSION_def PINNED_GENESIS_GENERATION_def)

lemma intent_snapshot_words:
  assumes "snapshot_words E (intent_fields E) ps ws"
  shows "(\<exists>a. snap ps ''initialValidator'' = StringVal a \<and> ws ! 14 = AbiHex a \<and> getAddress E a = Some a) \<and>
    (\<exists>t. js_uint (snap ps ''expiresAt'') = Some t \<and> ws ! 23 = AbiUint t)"
proof -
  have "length (intent_fields E) = 24" by (simp add: intent_fields_def)
  with assms have nth: "case intent_fields E ! k of (key, rule) \<Rightarrow> check_field E rule (snap ps key) = Inr (ws ! k)" if "k < 24" for k
    using that unfolding snapshot_words_def by (auto simp: list_all2_conv_all_nth split: prod.splits)
  show ?thesis
    using nth [of 14] nth [of 23] by (auto simp: intent_fields_def result_simps)
qed

lemma factor_slot_iff:
  "genesis_factor_slot E slot h f = Inr u \<longleftrightarrow>
     js_uint (snap (fs_descriptor f) ''role'') = Some slot \<and> js_uint (snap (fs_independence f) ''role'') = Some slot \<and> uint_fits 8 slot \<and>
     js_uint (snap (fs_descriptor f) ''credentialGeneration'') = Some 1 \<and>
     js_uint (snap (fs_independence f) ''credentialGeneration'') = Some 1 \<and>
     snap (fs_independence f) ''enrollmentCeremonyHash'' = StringVal h \<and> isHexString E h 32 \<and> toLowerCase h = h \<and> h \<noteq> ZERO_BYTES32"
  by (auto simp: genesis_factor_slot_def bnd_eq_Inr requireCanonicalUint_iff genesis_bytes32_iff check_iff PINNED_GENESIS_GENERATION_def
      uint_fits_def)

lemma snapshotFactor_keys:
  assumes "snapshotFactor v = Inr f"
  shows "map fst (fs_descriptor f) = DESCRIPTOR_OWN_KEYS" "map fst (fs_independence f) = INDEPENDENCE_OWN_KEYS"
  using assms unfolding snapshotFactor_def bnd_eq_Inr genesis_snapshot_iff by (auto dest: object_snapshot_keys)

lemma same_string_iff: "same_string v w = Some a \<longleftrightarrow> v = StringVal a \<and> w = StringVal a"
  by (cases "(v, w)" rule: same_string.cases) auto

lemma generic_profile_iff: "generic_profile T r = Inr x \<longleftrightarrow> r = Inr x"
  by (cases "(T, r)" rule: generic_profile.cases) (auto simp: failWithCause_iff)

text \<open>The policy of a factor object that is made of two snapshots is about these.\<close>

lemma factor_object_fields:
  assumes "validatePhilCoreV2ConsumerRecoveryFactorPolicy E C (factor_object proto d i s) (NumberVal (IntegerNumber r)) = Inr p"
    and "map fst d = DESCRIPTOR_OWN_KEYS" and "map fst i = INDEPENDENCE_OWN_KEYS"
  shows "fp_descriptor p = d" "fp_independence p = i"
proof -
  have keys: "distinct DESCRIPTOR_OWN_KEYS" "distinct INDEPENDENCE_OWN_KEYS"
    by (simp_all add: DESCRIPTOR_OWN_KEYS_def INDEPENDENCE_OWN_KEYS_def)
  from assms(1) obtain verified where "factor_access (factor_object proto d i s) r verified (fp_descriptor p) (fp_independence p)"
    unfolding factor_policy_iff by blast
  then have "object_snapshot (data_object proto d) DESCRIPTOR_OWN_KEYS (fp_descriptor p)"
    "object_snapshot (data_object proto i) INDEPENDENCE_OWN_KEYS (fp_independence p)"
    unfolding factor_access_def factor_object_def data_object_def [of ObjectPrototype] factor_own_keys_def own_descriptors_def
    by (cases s; auto simp: FACTOR_REQUIRED_OWN_KEYS_def FACTOR_OPTIONAL_OWN_KEYS_def check_def)+
  with assms(2,3) keys show "fp_descriptor p = d" "fp_independence p = i" using data_object_snapshot_unique by blast+
qed

text \<open>The parts of an accepted genesis profile.\<close>

lemma genesis_profile_parts:
  "validatePhilCoreV2ConsumerRecoveryGenesisProfile E C T input = Inr G \<Longrightarrow>
   \<exists>I t a v0 v1 v2 K0 K1 K2 h0 h1 h2 ids F0 F1 F2 iv c0 c1 c2. object_snapshot iv INTENT_OWN_KEYS I \<and>
     computePhilCoreV2LocalGenesisDeploymentIntentHash E (null_object I) = Inr (gp_genesisDeploymentIntentHash G) \<and>
     js_uint (snap I ''expiresAt'') = Some t \<and>
     genesis_ceremony_slot E (gp_genesisDeploymentIntentHash G) t 0 c0 = Inr (K0, h0) \<and>
     genesis_ceremony_slot E (gp_genesisDeploymentIntentHash G) t 1 c1 = Inr (K1, h1) \<and>
     genesis_ceremony_slot E (gp_genesisDeploymentIntentHash G) t 2 c2 = Inr (K2, h2) \<and>
     list_all2 (\<lambda>K cid. snap K ''ceremonyId'' = StringVal cid) [K0, K1, K2] ids \<and> set_size ids = 3 \<and>
     snapshotFactor v0 = Inr F0 \<and> snapshotFactor v1 = Inr F1 \<and> snapshotFactor v2 = Inr F2 \<and>
     genesis_factor_slot E 0 h0 F0 = Inr () \<and> genesis_factor_slot E 1 h1 F1 = Inr () \<and> genesis_factor_slot E 2 h2 F2 = Inr () \<and>
     snap I ''initialValidator'' = StringVal a \<and>
     validatePhilCoreV2ConsumerRecoveryProfile E C (genesis_factor_object F0, genesis_factor_object F1, genesis_factor_object F2) a =
       Inr (gp_profile G) \<and>
     gp_genesisEnrollmentCeremonyHashes G = [h0, h1, h2]"
  unfolding validatePhilCoreV2ConsumerRecoveryGenesisProfile_def bnd_eq_Inr split_paired_Ex prod.case genesis_snapshot_iff
    requireCanonicalUint_iff check_iff case_option_Inr same_string_iff generic_profile_iff traverse_iff
    genesis_ceremony_id_def genesis_bytes32_iff sum.inject
  by (elim exE conjE; hypsubst; intro exI conjI; (assumption | rule refl | simp only: genesis_profile.simps)?)
     (simp_all add: list_all2_Cons1, blast)

section \<open>Provenance\<close>

lemma js_uint_BigInt: "js_uint v = Some n \<Longrightarrow> BigInt_value answer v = Some n"
  by (cases v) (auto simp: BigInt_primitive_def BigInt_decimal dest!: canonical_uint_digits simp del: BigInt_of.simps split: if_splits)

abbreviation ceremony_commitment :: "ethers \<Rightarrow> string \<Rightarrow> string \<Rightarrow> int \<Rightarrow> int \<Rightarrow> string" where
  "ceremony_commitment E cid intentHash slot ex \<equiv>
     commitment E PHILCORE_V2_LOCAL_GENESIS_ENROLLMENT_CEREMONY_LITERAL CEREMONY_ABI_TYPES (ceremony_words cid intentHash slot ex)"

text \<open>The factor of a role was enrolled by a ceremony of that role, of generation 1.\<close>

lemma genesis_role_chain:
  assumes ceremony: "genesis_ceremony_slot E intentHash t slot c = Inr (K, h)"
    and factor: "genesis_factor_slot E slot h F = Inr ()" "snapshotFactor v = Inr F"
    and policy: "validatePhilCoreV2ConsumerRecoveryFactorPolicy E C (genesis_factor_object F) (NumberVal (IntegerNumber slot)) = Inr p"
    and i: "independence_of E D (fp_independence p) i"
  shows "\<exists>cid ex. snap K ''ceremonyId'' = StringVal cid \<and> ex \<le> t \<and> h = ceremony_commitment E cid intentHash slot ex \<and>
    ni_enrollmentCeremonyHash i = h \<and> ni_credentialGeneration i = 1"
proof -
  from policy have fp: "fp_independence p = fs_independence F"
    unfolding genesis_factor_object_def by (rule factor_object_fields(2) [OF _ snapshotFactor_keys [OF factor(2)]])
  from factor(1) have enr: "snap (fs_independence F) ''enrollmentCeremonyHash'' = StringVal h" "toLowerCase h = h"
    and gen: "js_uint (snap (fs_independence F) ''credentialGeneration'') = Some 1" unfolding factor_slot_iff by blast+
  have e: "ni_enrollmentCeremonyHash i = h"
    using i enr unfolding fp independence_of_def by (auto simp: js_bytes32_def is_bytes32_def)
  have g: "ni_credentialGeneration i = 1"
    using i js_uint_BigInt [OF gen] unfolding fp independence_of_def by (simp add: field_uint_def BigInt_field_def)
  from ceremony obtain ws ex where c: "snapshot_words E ceremony_fields K ws"
      "h = commitment E PHILCORE_V2_LOCAL_GENESIS_ENROLLMENT_CEREMONY_LITERAL CEREMONY_ABI_TYPES ws"
      "js_uint (snap K ''role'') = Some slot" "snap K ''genesisDeploymentIntentHash'' = StringVal intentHash"
      "js_uint (snap K ''expiresAt'') = Some ex" "ex \<le> t"
    unfolding ceremony_slot_iff by blast
  obtain cid where "snap K ''ceremonyId'' = StringVal cid" "ws = ceremony_words cid intentHash slot ex"
    using ceremony_snapshot_words [OF c(1,3,4,5)] by blast
  with c(2,6) e g show ?thesis by blast
qed

text \<open>
  The chain of commitments of a role: the configuration contains the commitment to the descriptor, which contains the
  commitment to the independence, which contains the hash of a ceremony, which contains the hash of the intent.
\<close>

definition genesis_chain ::
  "ethers \<Rightarrow> genesis_profile \<Rightarrow> nat \<Rightarrow> string \<Rightarrow> int \<Rightarrow> normal_descriptor \<Rightarrow> normal_independence \<Rightarrow> bool" where
  "genesis_chain E G k cid ex n i \<longleftrightarrow>
     pf_commitments (gp_profile G) ! k = descriptor_commitment E n \<and>
     nd_independenceBindingHash n = independence_commitment E i \<and>
     ni_enrollmentCeremonyHash i = gp_genesisEnrollmentCeremonyHashes G ! k \<and>
     gp_genesisEnrollmentCeremonyHashes G ! k = ceremony_commitment E cid (gp_genesisDeploymentIntentHash G) (int k) ex \<and>
     role_rules (int k) n i \<and> nd_role n = int k \<and> ni_role i = int k \<and>
     nd_credentialGeneration n = 1 \<and> ni_credentialGeneration i = 1"

text \<open>
  C14: An accepted genesis profile, whose fields answer consistently, is one chain of commitments. The configuration hash
  commits to the three factor commitments, each of them through the independence binding to the hash of the ceremony
  that enrolled it, each ceremony to the hash of the deployment intent, to its role, to generation 1, to an identifier
  of its own and to an expiry that is not after that of the intent. The factors satisfy the rules of their roles and are
  separated, and the offline signer is not the validator that the intent installs.
\<close>

theorem genesis_profile_chain:
  assumes laws: "ethers_laws E" and cons: "consistent C"
    and G: "validatePhilCoreV2ConsumerRecoveryGenesisProfile E C T input = Inr G"
  shows "\<exists>intent ws a t c0 c1 c2 e0 e1 e2 n0 n1 n2 i0 i1 i2 s. snapshot_words E (intent_fields E) intent ws \<and>
    gp_genesisDeploymentIntentHash G = commitment E PHILCORE_V2_LOCAL_GENESIS_DEPLOYMENT_INTENT_LITERAL INTENT_ABI_TYPES ws \<and>
    ws ! 14 = AbiHex a \<and> ws ! 23 = AbiUint t \<and> distinct [c0, c1, c2] \<and> e0 \<le> t \<and> e1 \<le> t \<and> e2 \<le> t \<and>
    genesis_chain E G 0 c0 e0 n0 i0 \<and> genesis_chain E G 1 c1 e1 n1 i1 \<and> genesis_chain E G 2 c2 e2 n2 i2 \<and>
    separated_factors [n0, n1, n2] [i0, i1, i2] \<and> signer_of E n2 s \<and> s \<noteq> a \<and>
    pf_recoveryConfigurationHash (gp_profile G) = configuration_commitment E (pf_commitments (gp_profile G))"
proof -
  from genesis_profile_parts [OF G] obtain I t a v0 v1 v2 K0 K1 K2 h0 h1 h2 ids F0 F1 F2 iv c0 c1 c2
    where I: "object_snapshot iv INTENT_OWN_KEYS I"
      "computePhilCoreV2LocalGenesisDeploymentIntentHash E (null_object I) = Inr (gp_genesisDeploymentIntentHash G)"
      "js_uint (snap I ''expiresAt'') = Some t"
    and k0: "genesis_ceremony_slot E (gp_genesisDeploymentIntentHash G) t 0 c0 = Inr (K0, h0)"
    and k1: "genesis_ceremony_slot E (gp_genesisDeploymentIntentHash G) t 1 c1 = Inr (K1, h1)"
    and k2: "genesis_ceremony_slot E (gp_genesisDeploymentIntentHash G) t 2 c2 = Inr (K2, h2)"
    and ids: "list_all2 (\<lambda>K cid. snap K ''ceremonyId'' = StringVal cid) [K0, K1, K2] ids" "set_size ids = 3"
    and F: "snapshotFactor v0 = Inr F0" "snapshotFactor v1 = Inr F1" "snapshotFactor v2 = Inr F2"
    and fs: "genesis_factor_slot E 0 h0 F0 = Inr ()" "genesis_factor_slot E 1 h1 F1 = Inr ()" "genesis_factor_slot E 2 h2 F2 = Inr ()"
    and a: "snap I ''initialValidator'' = StringVal a"
    and prof: "validatePhilCoreV2ConsumerRecoveryProfile E C (genesis_factor_object F0, genesis_factor_object F1, genesis_factor_object F2) a =
       Inr (gp_profile G)"
    and hs: "gp_genesisEnrollmentCeremonyHashes G = [h0, h1, h2]"
    by blast
  obtain ws where ws: "snapshot_words E (intent_fields E) I ws"
    "gp_genesisDeploymentIntentHash G = commitment E PHILCORE_V2_LOCAL_GENESIS_DEPLOYMENT_INTENT_LITERAL INTENT_ABI_TYPES ws"
    using I(2) object_words_snapshot [of I "intent_fields E" E] object_snapshot_keys [OF I(1)]
    unfolding intent_hash_iff by (auto simp: intent_rules)
  from intent_snapshot_words [OF ws(1)] I(3) a have wa: "ws ! 14 = AbiHex a" "ws ! 23 = AbiUint t" "getAddress E a = Some a" by auto
  from profile_facts [OF laws cons prof] wa(3) obtain s p0 p1 p2 n0 n1 n2 i0 i1 i2 where
      p: "validatePhilCoreV2ConsumerRecoveryFactorPolicy E (C 0) (genesis_factor_object F0) (NumberVal (IntegerNumber 0)) = Inr p0"
        "validatePhilCoreV2ConsumerRecoveryFactorPolicy E (C 1) (genesis_factor_object F1) (NumberVal (IntegerNumber 1)) = Inr p1"
        "validatePhilCoreV2ConsumerRecoveryFactorPolicy E (C 2) (genesis_factor_object F2) (NumberVal (IntegerNumber 2)) = Inr p2"
    and i: "independence_of E (C 0 0) (fp_independence p0) i0" "independence_of E (C 1 0) (fp_independence p1) i1"
        "independence_of E (C 2 0) (fp_independence p2) i2"
    and sound: "sound_factor E 0 p0 n0 i0" "sound_factor E 1 p1 n1 i1" "sound_factor E 2 p2 n2 i2"
    and sep: "separated_factors [n0, n1, n2] [i0, i1, i2]" and s: "fp_signer p2 = Some s" "s \<noteq> a"
    and cs: "pf_commitments (gp_profile G) = [descriptor_commitment E n0, descriptor_commitment E n1, descriptor_commitment E n2]"
    and conf: "pf_recoveryConfigurationHash (gp_profile G) = configuration_commitment E (pf_commitments (gp_profile G))"
    by force
  from genesis_role_chain [OF k0 fs(1) F(1) p(1) i(1)] obtain d0 e0 where
    r0: "snap K0 ''ceremonyId'' = StringVal d0" "e0 \<le> t" "h0 = ceremony_commitment E d0 (gp_genesisDeploymentIntentHash G) 0 e0"
      "ni_enrollmentCeremonyHash i0 = h0" "ni_credentialGeneration i0 = 1" by blast
  from genesis_role_chain [OF k1 fs(2) F(2) p(2) i(2)] obtain d1 e1 where
    r1: "snap K1 ''ceremonyId'' = StringVal d1" "e1 \<le> t" "h1 = ceremony_commitment E d1 (gp_genesisDeploymentIntentHash G) 1 e1"
      "ni_enrollmentCeremonyHash i1 = h1" "ni_credentialGeneration i1 = 1" by blast
  from genesis_role_chain [OF k2 fs(3) F(3) p(3) i(3)] obtain d2 e2 where
    r2: "snap K2 ''ceremonyId'' = StringVal d2" "e2 \<le> t" "h2 = ceremony_commitment E d2 (gp_genesisDeploymentIntentHash G) 2 e2"
      "ni_enrollmentCeremonyHash i2 = h2" "ni_credentialGeneration i2 = 1" by blast
  have "ids = [d0, d1, d2]" using ids(1) r0(1) r1(1) r2(1) by (auto simp: list_all2_Cons1)
  with ids(2) have dist: "distinct [d0, d1, d2]" by (simp add: set_size_3)
  have chain: "genesis_chain E G 0 d0 e0 n0 i0" "genesis_chain E G 1 d1 e1 n1 i1" "genesis_chain E G 2 d2 e2 n2 i2"
    using sound r0 r1 r2 by (simp_all add: genesis_chain_def cs hs sound_factor_def)
  have "signer_of E n2 s" using sound(3) s(1) by (simp add: sound_factor_def signer_rule_def)
  with ws wa dist r0(2) r1(2) r2(2) chain sep s(2) conf show ?thesis by blast
qed

section \<open>A concrete genesis profile\<close>

abbreviation hash_value :: "char \<Rightarrow> js_value" where
  "hash_value c \<equiv> StringVal (h32 c)"

definition sample_genesis_intent :: snapshot where
  "sample_genesis_intent =
     [(''intentVersion'', BigIntVal 1), (''intentId'', hash_value (CHR ''1'')), (''chainId'', StringVal ''1''),
      (''entryPoint'', StringVal (a20 (CHR ''b''))), (''factoryBinding'', StringVal (a20 (CHR ''b''))),
      (''confirmationTarget'', StringVal (a20 (CHR ''b''))), (''verifier'', StringVal (a20 (CHR ''b''))),
      (''verifierRuntimeCodeHash'', hash_value (CHR ''2'')), (''accountCreationBytecodeHash'', hash_value (CHR ''3'')),
      (''accountVersionId'', StringVal (PINNED_ACCOUNT_VERSION_ID profile_ethers)),
      (''securityModelId'', StringVal (PINNED_SECURITY_MODEL_ID profile_ethers)),
      (''recoveryDomainId'', StringVal (PINNED_RECOVERY_DOMAIN_ID profile_ethers)),
      (''ownerCommitment'', hash_value (CHR ''4'')), (''identityBindingCommitment'', hash_value (CHR ''a'')),
      (''initialValidator'', StringVal (a20 (CHR ''a''))), (''validatorVerifierKind'', BigIntVal PINNED_VALIDATOR_VERIFIER_KIND),
      (''validatorKeyIdBinding'', hash_value (CHR ''b'')), (''validatorCommitment'', hash_value (CHR ''c'')),
      (''validatorEpoch'', BigIntVal 1), (''recoveryEpoch'', BigIntVal 1), (''recoveryDelaySeconds'', BigIntVal 172800),
      (''recoveryExpirySeconds'', BigIntVal 604800), (''userSalt'', hash_value (CHR ''d'')), (''expiresAt'', BigIntVal 1000)]"

definition sample_role_ceremony :: "char \<Rightarrow> int \<Rightarrow> snapshot" where
  "sample_role_ceremony c slot =
     [(''ceremonyVersion'', BigIntVal 1), (''ceremonyId'', hash_value c), (''genesisDeploymentIntentHash'', hash_value (CHR ''c'')),
      (''role'', BigIntVal slot), (''credentialGeneration'', BigIntVal 1), (''expiresAt'', BigIntVal 900)]"

definition array_of_three :: "js_value \<Rightarrow> js_value \<Rightarrow> js_value \<Rightarrow> js_value" where
  "array_of_three x y z = ObjectVal (JsObject (Returns True) (Returns (map StringKey TUPLE_OWN_KEYS)) (Returns OtherPrototype)
     (\<lambda>k. Returns (map_option DataProperty (map_of [(''0'', x), (''1'', y), (''2'', z), (''length'', NumberVal (IntegerNumber 3))] k))))"

definition sample_genesis_input :: js_value where
  "sample_genesis_input = object_literal
     [(''intent'', object_literal sample_genesis_intent),
      (''ceremonies'', array_of_three (object_literal (sample_role_ceremony (CHR ''1'') 0)) (object_literal (sample_role_ceremony (CHR ''2'') 1))
         (object_literal (sample_role_ceremony (CHR ''3'') 2))),
      (''factors'', array_of_three (profile_factor 0 1) (profile_factor 1 1) (profile_factor 2 1)),
      (''executionValidator'', StringVal (a20 (CHR ''a'')))]"

lemma array_of_three_read: "requireExactThreeTuple (array_of_three x y z) code = Inr (x, y, z)"
  by (simp add: array_of_three_def requireExactOwnKeys_def own_descriptors_def failWithCause_def TUPLE_OWN_KEYS_def read_field_def)

lemma data_object_snapshotted:
  assumes "map fst ps = keys" and "distinct keys"
  shows "snapshotExactObject (data_object proto ps) keys c1 c2 c3 c4 c5 = Inr ps"
  unfolding genesis_snapshot_iff by (rule data_object_snapshot [OF assms])

text \<open>The digest of everything that is not a descriptor.\<close>

lemma profile_other_commitment:
  assumes "list_all2 (abi_fits profile_ethers) types ws" and "length types \<noteq> 16"
  shows "commitment profile_ethers literal types ws = h32 (CHR ''c'')"
proof -
  let ?E = profile_ethers
  let ?ts = "''bytes32'' # types" and ?vs = "AbiHex (literal_hash ?E literal) # ws"
  let ?ws = "map2 sample_abi_word ?ts ?vs"
  note words = profile_words [OF assms(1), of literal]
  have "length ?ws = length types + 1" using list_all2_lengthD [OF assms(1)] by simp
  then have "length (''0x'' @ concat ?ws) = 2 + 64 * (length types + 1)" using length_concat_words [OF words] by simp
  moreover have "2 + 64 * (length types + 1) \<noteq> 1090" using assms(2) by simp
  ultimately show ?thesis
    by (simp add: commitment_def commitment_preimage_def profile_ethers_def sample_ethers_def profile_digit_def)
qed

lemma profile_hash_value: "genesis_bytes32 profile_ethers (hash_value c) code code' = Inr s \<longleftrightarrow>
    s = h32 c \<and> hex_digit c \<and> lower_char c = c \<and> c \<noteq> CHR ''0''"
  unfolding genesis_bytes32_iff by (auto simp: profile_ethers_def sample_ethers_def)

lemma list_all2_exists: "(\<exists>ys. list_all2 P xs ys) \<longleftrightarrow> (\<forall>x \<in> set xs. \<exists>y. P x y)"
proof
  assume "\<exists>ys. list_all2 P xs ys"
  then obtain ys where "list_all2 P xs ys" by blast
  then show "\<forall>x \<in> set xs. \<exists>y. P x y" by (induction rule: list_all2_induct) auto
next
  assume "\<forall>x \<in> set xs. \<exists>y. P x y"
  then show "\<exists>ys. list_all2 P xs ys" by (induction xs) (auto intro: list.rel_intros)
qed

lemma sample_genesis_intent_words: "\<exists>ws. snapshot_words profile_ethers (intent_fields profile_ethers) sample_genesis_intent ws"
proof -
  have addr: "requireCanonicalAddress profile_ethers (StringVal (a20 (CHR ''b''))) c c' = Inr (a20 (CHR ''b''))"
    "requireCanonicalAddress profile_ethers (StringVal (a20 (CHR ''a''))) c c' = Inr (a20 (CHR ''a''))" for c c'
    unfolding requireCanonicalAddress_iff by (simp_all add: profile_ethers_def sample_ethers_def literal_simps)
  have pinned: "requirePinnedBytes32 profile_ethers (StringVal (keccak256 profile_ethers x)) (keccak256 profile_ethers x) c c' =
      Inr (keccak256 profile_ethers x)" for x c c'
    using profile_keccak_shape laws_isHexString [OF profile_ethers_laws]
    by (simp add: requirePinnedBytes32_iff) (simp add: profile_ethers_def)
  have hash: "genesis_bytes32 profile_ethers (hash_value c) code code' = Inr (h32 c)"
    if "hex_digit c" "lower_char c = c" "c \<noteq> CHR ''0''" for c code code'
    using that unfolding profile_hash_value by simp
  have uint: "requireCanonicalUint (BigIntVal n) bits c = Inr n" if "0 \<le> n" "n < 2 ^ bits" for n bits c
    using that unfolding requireCanonicalUint_iff by (simp add: uint_fits_def)
  have one: "requireCanonicalUint (StringVal ''1'') 256 c = Inr 1" for c
    unfolding requireCanonicalUint_iff by (simp add: uint_fits_def canonical_uint_def decimal_digit_def read_digits_def digit_value_def)
  show ?thesis
    unfolding snapshot_words_def list_all2_exists intent_fields_def sample_genesis_intent_def
    by (simp add: snap_def hash addr uint one pinned literal_simps requirePinnedUint_def PINNED_INTENT_VERSION_def PINNED_VALIDATOR_EPOCH_def
        PINNED_RECOVERY_EPOCH_def PINNED_RECOVERY_DELAY_SECONDS_def PINNED_RECOVERY_EXPIRY_SECONDS_def PINNED_VALIDATOR_VERIFIER_KIND_def
        PHILCORE_V2_VALIDATOR_VERIFIER_KIND_SECP256K1_ECDSA_def PINNED_ACCOUNT_VERSION_ID_def PINNED_SECURITY_MODEL_ID_def
        PINNED_RECOVERY_DOMAIN_ID_def PHILCORE_V2_CONSUMER_RECOVERY_ACCOUNT_VERSION_ID_def PHILCORE_V2_SECURITY_MODEL_ID_def
        PHILCORE_V2_CONSUMER_RECOVERY_DOMAIN_ID_def
        del: genesis_bytes32.simps requireCanonicalAddress.simps requireCanonicalUint.simps)
qed

lemma sample_genesis_intent_keys: "map fst sample_genesis_intent = INTENT_OWN_KEYS" "distinct INTENT_OWN_KEYS"
  by (simp_all add: sample_genesis_intent_def INTENT_OWN_KEYS_def)

lemma sample_genesis_intent_hash: "computePhilCoreV2LocalGenesisDeploymentIntentHash profile_ethers (null_object sample_genesis_intent) = Inr (h32 (CHR ''c''))"
proof -
  obtain ws where ws: "snapshot_words profile_ethers (intent_fields profile_ethers) sample_genesis_intent ws"
    using sample_genesis_intent_words by blast
  have ow: "object_words profile_ethers (intent_fields profile_ethers) (null_object sample_genesis_intent) ws"
    using object_words_snapshot [of sample_genesis_intent "intent_fields profile_ethers"] sample_genesis_intent_keys ws by (simp add: intent_rules)
  have "list_all2 (abi_fits profile_ethers) INTENT_ABI_TYPES ws"
    using object_words_fits [OF profile_ethers_laws intent_rules(3) ow] by (simp only: intent_rules)
  then have "commitment profile_ethers PHILCORE_V2_LOCAL_GENESIS_DEPLOYMENT_INTENT_LITERAL INTENT_ABI_TYPES ws = h32 (CHR ''c'')"
    by (rule profile_other_commitment) (simp add: INTENT_ABI_TYPES_def)
  with ow show ?thesis unfolding intent_hash_iff by blast
qed

lemma sample_ceremony_slot:
  assumes "slot = 0 \<or> slot = 1 \<or> slot = 2" and c: "hex_digit c" "lower_char c = c" "c \<noteq> CHR ''0''"
  shows "genesis_ceremony_slot profile_ethers (h32 (CHR ''c'')) 1000 slot (object_literal (sample_role_ceremony c slot)) =
    Inr (sample_role_ceremony c slot, h32 (CHR ''c''))"
proof -
  let ?ws = "ceremony_words (h32 c) (h32 (CHR ''c'')) slot 900"
  have keys: "map fst (sample_role_ceremony c slot) = CEREMONY_OWN_KEYS" "distinct CEREMONY_OWN_KEYS"
    by (simp_all add: sample_role_ceremony_def CEREMONY_OWN_KEYS_def)
  have hash: "genesis_bytes32 profile_ethers (hash_value x) code code' = Inr (h32 x)"
    if "hex_digit x" "lower_char x = x" "x \<noteq> CHR ''0''" for x code code'
    using that unfolding profile_hash_value by simp
  have uint: "requireCanonicalUint (BigIntVal n) bits c = Inr n" if "0 \<le> n" "n < 2 ^ bits" for n bits c
    using that unfolding requireCanonicalUint_iff by (simp add: uint_fits_def)
  have ws: "snapshot_words profile_ethers ceremony_fields (sample_role_ceremony c slot) ?ws"
    unfolding snapshot_words_def ceremony_fields_def ceremony_words_def sample_role_ceremony_def
    using assms by (elim disjE) (simp_all add: snap_def hash uint literal_simps requirePinnedUint_def PINNED_CEREMONY_VERSION_def
        PINNED_GENESIS_GENERATION_def del: genesis_bytes32.simps requireCanonicalUint.simps)
  have "object_words profile_ethers ceremony_fields (null_object (sample_role_ceremony c slot)) ?ws"
    using object_words_snapshot [of "sample_role_ceremony c slot" ceremony_fields] keys ws by (simp add: ceremony_rules)
  from object_words_fits [OF profile_ethers_laws ceremony_rules(3) this]
  have "list_all2 (abi_fits profile_ethers) CEREMONY_ABI_TYPES ?ws" by (simp only: ceremony_rules)
  then have h: "h32 (CHR ''c'') = commitment profile_ethers PHILCORE_V2_LOCAL_GENESIS_ENROLLMENT_CEREMONY_LITERAL CEREMONY_ABI_TYPES ?ws"
    by (intro profile_other_commitment [symmetric]) (simp_all add: CEREMONY_ABI_TYPES_def)
  have "isHexString profile_ethers (h32 (CHR ''c'')) 32" "js_uint (snap (sample_role_ceremony c slot) ''role'') = Some slot" "uint_fits 8 slot"
    "js_uint (snap (sample_role_ceremony c slot) ''expiresAt'') = Some 900"
    "snap (sample_role_ceremony c slot) ''genesisDeploymentIntentHash'' = hash_value (CHR ''c'')" "uint_fits 48 900"
    using assms(1) by (auto simp: profile_ethers_def sample_ethers_def sample_role_ceremony_def snap_def uint_fits_def literal_simps)
  with ws h data_object_snapshot [OF keys] show ?thesis
    unfolding ceremony_slot_iff by (intro exI conjI) (assumption | simp add: literal_simps)+
qed

definition profile_snapshots :: "int \<Rightarrow> factor_snapshots" where
  "profile_snapshots r = \<lparr>fs_descriptor = backup_snapshot profile_ethers (profile_descriptor r 1),
     fs_independence = independence_snapshot (profile_independence r 1),
     fs_signer = (case profile_signer_of r of None \<Rightarrow> UndefinedVal | Some a \<Rightarrow> StringVal a)\<rparr>"

lemma profile_snapshotFactor: "snapshotFactor (profile_factor r 1) = Inr (profile_snapshots r)"
proof -
  have keys: "distinct DESCRIPTOR_OWN_KEYS" "distinct INDEPENDENCE_OWN_KEYS"
    by (simp_all add: DESCRIPTOR_OWN_KEYS_def INDEPENDENCE_OWN_KEYS_def)
  have d: "snapshotExactObject (data_object proto (descriptor_snapshot E n v)) DESCRIPTOR_OWN_KEYS c1 c2 c3 c4 c5 = Inr (descriptor_snapshot E n v)"
    for proto E n v c1 c2 c3 c4 c5 by (rule data_object_snapshotted [OF snapshot_keys(1) keys(1)])
  have i: "snapshotExactObject (data_object proto (independence_snapshot n)) INDEPENDENCE_OWN_KEYS c1 c2 c3 c4 c5 = Inr (independence_snapshot n)"
    for proto n c1 c2 c3 c4 c5 by (rule data_object_snapshotted [OF snapshot_keys(2) keys(2)])
  show ?thesis
    unfolding snapshotFactor_def profile_factor_def normal_factor_def factor_object_def data_object_def [of ObjectPrototype]
    by (simp add: requireExactOwnKeys_def own_descriptors_def failWithCause_def FACTOR_REQUIRED_OWN_KEYS_def FACTOR_OPTIONAL_OWN_KEYS_def
        read_field_def d i profile_snapshots_def profile_signer_of_def)
qed

lemma profile_factor_object: "genesis_factor_object (profile_snapshots r) = profile_factor r 1"
  by (simp add: genesis_factor_object_def profile_snapshots_def profile_factor_def normal_factor_def profile_signer_of_def)

lemma profile_factor_slot:
  "slot = 0 \<or> slot = 1 \<or> slot = 2 \<Longrightarrow> genesis_factor_slot profile_ethers slot (h32 (CHR ''c'')) (profile_snapshots slot) = Inr ()"
  unfolding factor_slot_iff
  by (auto simp: profile_snapshots_def descriptor_snapshot_def independence_snapshot_def snap_def profile_descriptor_def
      profile_independence_def uint_fits_def literal_simps) (simp_all add: profile_ethers_def sample_ethers_def literal_simps)

definition sample_genesis :: genesis_profile where
  "sample_genesis = \<lparr>gp_genesisDeploymentIntentHash = h32 (CHR ''c''),
     gp_genesisEnrollmentCeremonyHashes = [h32 (CHR ''c''), h32 (CHR ''c''), h32 (CHR ''c'')], gp_profile = profile_outcome 1\<rparr>"

lemma sample_ids:
  assumes "hex_digit c" "lower_char c = c" "c \<noteq> CHR ''0''"
  shows "genesis_ceremony_id profile_ethers (sample_role_ceremony c slot) = Inr (h32 c)"
  using assms profile_hash_value by (simp add: genesis_ceremony_id_def sample_role_ceremony_def snap_def del: genesis_bytes32.simps)

lemma sample_genesis_accepted:
  "validatePhilCoreV2ConsumerRecoveryGenesisProfile profile_ethers C T sample_genesis_input = Inr sample_genesis"
proof -
  have t: "requireCanonicalUint (snap sample_genesis_intent ''expiresAt'') 48 code = Inr 1000" for code
    unfolding requireCanonicalUint_iff by (simp add: sample_genesis_intent_def snap_def uint_fits_def)
  have a: "same_string (StringVal (a20 (CHR ''a''))) (snap sample_genesis_intent ''initialValidator'') = Some (a20 (CHR ''a''))"
    by (simp add: sample_genesis_intent_def snap_def)
  have size: "set_size [h32 (CHR ''1''), h32 (CHR ''2''), h32 (CHR ''3'')] = 3" by (simp add: set_size_3)
  have snaps: "snapshotExactObject (object_literal sample_genesis_intent) INTENT_OWN_KEYS c1 c2 c3 c4 c5 = Inr sample_genesis_intent" for c1 c2 c3 c4 c5
    by (rule data_object_snapshotted [OF sample_genesis_intent_keys])
  note slots = sample_ceremony_slot [of 0 "CHR ''1''"] sample_ceremony_slot [of 1 "CHR ''2''"] sample_ceremony_slot [of 2 "CHR ''3''"]
  show ?thesis
    unfolding validatePhilCoreV2ConsumerRecoveryGenesisProfile_def sample_genesis_input_def
      data_object_def [of _ "[(''intent'', _), (''ceremonies'', _), (''factors'', _), (''executionValidator'', _)]"]
    using profile_accepted [of 1 C]
    by (simp add: requireExactOwnKeys_def own_descriptors_def failWithCause_def PROFILE_OWN_KEYS_def read_field_def
        array_of_three_read snaps sample_genesis_intent_hash t slots literal_simps sample_ids size profile_snapshotFactor
        profile_factor_slot a profile_factor_object sample_genesis_def
        del: requireCanonicalUint.simps requireExactThreeTuple.simps)
qed

theorem genesis_profile_chain_witness:
  "validatePhilCoreV2ConsumerRecoveryGenesisProfile profile_ethers (\<lambda>_ _ _. None) Unclassified sample_genesis_input = Inr sample_genesis \<and>
   (\<exists>intent ws a t c0 c1 c2 e0 e1 e2 n0 n1 n2 i0 i1 i2 s. snapshot_words profile_ethers (intent_fields profile_ethers) intent ws \<and>
     gp_genesisDeploymentIntentHash sample_genesis =
       commitment profile_ethers PHILCORE_V2_LOCAL_GENESIS_DEPLOYMENT_INTENT_LITERAL INTENT_ABI_TYPES ws \<and>
     ws ! 14 = AbiHex a \<and> ws ! 23 = AbiUint t \<and> distinct [c0, c1, c2] \<and> e0 \<le> t \<and> e1 \<le> t \<and> e2 \<le> t \<and>
     genesis_chain profile_ethers sample_genesis 0 c0 e0 n0 i0 \<and> genesis_chain profile_ethers sample_genesis 1 c1 e1 n1 i1 \<and>
     genesis_chain profile_ethers sample_genesis 2 c2 e2 n2 i2 \<and>
     separated_factors [n0, n1, n2] [i0, i1, i2] \<and> signer_of profile_ethers n2 s \<and> s \<noteq> a \<and>
     pf_recoveryConfigurationHash (gp_profile sample_genesis) =
       configuration_commitment profile_ethers (pf_commitments (gp_profile sample_genesis)))"
proof -
  have cons: "consistent (\<lambda>_ _ _. None)" by (simp add: consistent_def)
  from sample_genesis_accepted genesis_profile_chain [OF profile_ethers_laws cons sample_genesis_accepted] show ?thesis by blast
qed

end
