(* ===== verification/HostValue.thy ===== *)
theory HostValue
  imports JsValue Json
begin

text \<open>
  Values that reach the staging journals: from disk, from a caller or from a hostile proxy. The
  journals use other operations on objects than the ceremonies (\<open>JsValue\<close>): \<open>Array.isArray\<close>,
  \<open>Object.keys\<close>, \<open>hasOwnProperty\<close> and reading a property. An object is given by its answers to them,
  each of which may be thrown. The sources perform each operation at most once on an object that they
  did not build themselves (once for each key), so that an answer per operation is all there is to see.

  A number is a safe integer or carries the text that \<open>JSON.stringify\<close> gives it.
\<close>

section \<open>Values\<close>

datatype host_number = SafeInteger int | OtherNumber string

datatype host_value =
    UndefinedHost | NullHost | BooleanHost bool | NumberHost host_number | BigIntHost int | StringHost string
  | SymbolHost | FunctionHost | ObjectHost host_object
and host_object =
    HostObject (arrayAnswer: "bool trap") (keysAnswer: "string list trap")
      (hasOwnAnswer: "string \<Rightarrow> bool trap") (getAnswer: "string \<Rightarrow> host_value trap")

text \<open>Strict equality with \<open>null\<close>, with an integer and with a string.\<close>

fun host_null :: "host_value \<Rightarrow> bool" where
  "host_null NullHost = True"
| "host_null _ = False"

fun host_integer :: "int \<Rightarrow> host_value \<Rightarrow> bool" where
  "host_integer i (NumberHost (SafeInteger j)) = (i = j)"
| "host_integer i _ = False"

fun host_string :: "string \<Rightarrow> host_value \<Rightarrow> bool" where
  "host_string s (StringHost t) = (s = t)"
| "host_string s _ = False"

lemma host_null_iff [simp]: "host_null v \<longleftrightarrow> v = NullHost"
  by (cases v) simp_all

lemma host_integer_iff [simp]: "host_integer i v \<longleftrightarrow> v = NumberHost (SafeInteger i)"
  by (cases "(i, v)" rule: host_integer.cases) auto

lemma host_string_iff [simp]: "host_string s v \<longleftrightarrow> v = StringHost s"
  by (cases "(s, v)" rule: host_string.cases) auto

text \<open>A frozen object literal.\<close>

definition literal_value :: "(string \<times> host_value) list \<Rightarrow> host_value" where
  "literal_value ps = ObjectHost (HostObject (Returns False) (Returns (map fst ps))
     (\<lambda>k. Returns (map_of ps k \<noteq> None))
     (\<lambda>k. Returns (case map_of ps k of None \<Rightarrow> UndefinedHost | Some v \<Rightarrow> v)))"

section \<open>Guarded access\<close>

fun isCallerNotObjectShape :: "string \<Rightarrow> host_value \<Rightarrow> string \<Rightarrow> bool coded" where
  "isCallerNotObjectShape cls (ObjectHost obj) notObjectCode = classify cls notObjectCode (arrayAnswer obj)"
| "isCallerNotObjectShape cls _ notObjectCode = Inr True"

definition ownEnumerableStringKeys :: "string \<Rightarrow> host_object \<Rightarrow> string \<Rightarrow> string list coded" where
  "ownEnumerableStringKeys cls obj enumerationCode = classify cls enumerationCode (keysAnswer obj)"

definition hasOwnStringKey :: "string \<Rightarrow> host_object \<Rightarrow> string \<Rightarrow> string \<Rightarrow> bool coded" where
  "hasOwnStringKey cls obj key presenceCode = classify cls presenceCode (hasOwnAnswer obj key)"

definition readOwnProperty :: "string \<Rightarrow> host_object \<Rightarrow> string \<Rightarrow> string \<Rightarrow> host_value coded" where
  "readOwnProperty cls obj key readCode = classify cls readCode (getAnswer obj key)"

text \<open>
  The opening of every validation: an object that is not an array, without an enumerable key that is
  not allowed, and with every allowed key.
\<close>

definition closed_object ::
  "string \<Rightarrow> host_value \<Rightarrow> string list \<Rightarrow> string \<Rightarrow> string \<Rightarrow> string \<Rightarrow> host_object coded" where
  "closed_object cls v keys notObjectCode extraCode missingCode =
     bnd (isCallerNotObjectShape cls v notObjectCode) (\<lambda>notObject.
     case v of
       ObjectHost obj \<Rightarrow>
         bnd (check (\<not> notObject) notObjectCode) (\<lambda>_.
         bnd (ownEnumerableStringKeys cls obj notObjectCode) (\<lambda>own.
         bnd (traverse (\<lambda>key. check (key \<in> set keys) extraCode) own) (\<lambda>_.
         bnd (traverse (\<lambda>key. bnd (hasOwnStringKey cls obj key missingCode) (\<lambda>present. check present missingCode)) keys)
           (\<lambda>_. Inr obj))))
     | _ \<Rightarrow> Inl notObjectCode)"

section \<open>What is accepted\<close>

definition closed_answers :: "host_value \<Rightarrow> string list \<Rightarrow> host_object \<Rightarrow> bool" where
  "closed_answers v keys obj \<longleftrightarrow> v = ObjectHost obj \<and> arrayAnswer obj = Returns False \<and>
     (\<exists>own. keysAnswer obj = Returns own \<and> set own \<subseteq> set keys) \<and>
     (\<forall>k \<in> set keys. hasOwnAnswer obj k = Returns True)"

lemma readOwnProperty_iff [result_simps]:
  "readOwnProperty cls obj key code = Inr v \<longleftrightarrow> getAnswer obj key = Returns v"
  by (simp add: readOwnProperty_def classify_iff)

lemma traverse_own_iff:
  "(\<exists>us. traverse (\<lambda>key. bnd (hasOwnStringKey cls obj key code) (\<lambda>b. check b code)) keys = Inr us) \<longleftrightarrow>
     (\<forall>k \<in> set keys. hasOwnAnswer obj k = Returns True)"
proof (induction keys)
  case (Cons k keys)
  have "(\<exists>u. bnd (hasOwnStringKey cls obj k code) (\<lambda>b. check b code) = Inr u) \<longleftrightarrow> hasOwnAnswer obj k = Returns True"
    by (auto simp: result_simps hasOwnStringKey_def)
  with Cons show ?case by (auto simp: bnd_eq_Inr)
qed simp

lemma closed_object_iff [result_simps]:
  "closed_object cls v keys n e m = Inr obj \<longleftrightarrow> closed_answers v keys obj"
proof (cases v)
  case (ObjectHost o')
  have "closed_object cls v keys n e m = Inr obj \<longleftrightarrow> o' = obj \<and> arrayAnswer o' = Returns False \<and>
      (\<exists>own. keysAnswer o' = Returns own \<and> set own \<subseteq> set keys) \<and>
      (\<exists>us. traverse (\<lambda>key. bnd (hasOwnStringKey cls o' key m) (\<lambda>b. check b m)) keys = Inr us)"
    using ObjectHost
    by (auto simp: closed_object_def ownEnumerableStringKeys_def bnd_eq_Inr classify_iff check_iff traverse_check_iff)
  then show ?thesis using ObjectHost unfolding traverse_own_iff closed_answers_def by auto
qed (auto simp: closed_object_def closed_answers_def)

text \<open>A literal with the expected keys is accepted, and its properties are its values.\<close>

lemma literal_value_closed:
  assumes "set (map fst ps) = set keys"
  shows "\<exists>obj. closed_answers (literal_value ps) keys obj \<and>
    (\<forall>k v. map_of ps k = Some v \<longrightarrow> getAnswer obj k = Returns v)"
proof -
  have "map_of ps k \<noteq> None" if "k \<in> set keys" for k
    using that assms by (auto simp: map_of_eq_None_iff)
  with assms show ?thesis by (auto simp: literal_value_def closed_answers_def)
qed

section \<open>Text of JSON objects\<close>

definition object_text :: "(string \<times> string) list \<Rightarrow> string" where
  "object_text members =
     CHR ''{'' # comma_separated (map (\<lambda>(k, text). quote k @ CHR '':'' # text) members) @ [CHR ''}'']"

fun number_text :: "host_number \<Rightarrow> string" where
  "number_text (SafeInteger i) = show_int i"
| "number_text (OtherNumber text) = text"

lemma object_text_render: "object_text (map (\<lambda>(k, v). (k, render v)) fs) = render (JObject fs)"
  by (simp add: object_text_def case_prod_unfold comp_def)

text \<open>\<open>Buffer.byteLength(text, "utf8")\<close>: a code unit above U+007F takes two bytes.\<close>

definition utf8_byteLength :: "string \<Rightarrow> nat" where
  "utf8_byteLength s = sum_list (map (\<lambda>c. if (of_char c :: nat) < 128 then 1 else 2) s)"

lemma utf8_byteLength_append [simp]: "utf8_byteLength (s @ t) = utf8_byteLength s + utf8_byteLength t"
  by (simp add: utf8_byteLength_def)

lemma utf8_byteLength_ascii: "list_all (\<lambda>c. (of_char c :: nat) < 128) s \<Longrightarrow> utf8_byteLength s = length s"
  by (induction s) (auto simp: utf8_byteLength_def)

section \<open>Canonical decimal strings\<close>

lemma digit_char_value: "decimal_digit c \<Longrightarrow> digit_char (digit_value c) = c"
  by (simp add: decimal_digit_def digit_char_def digit_value_def)

lemma digit_value_less: "decimal_digit c \<Longrightarrow> digit_value c < 10"
  unfolding decimal_digit_def digit_value_def by linarith

lemma canonical_uint_snoc:
  assumes "canonical_uint (s @ [c])" and "s \<noteq> []"
  shows "canonical_uint s" "s \<noteq> ''0''" "decimal_digit c"
proof -
  obtain d t where s: "s = d # t" using assms(2) by (cases s) auto
  with assms(1) have "decimal_digit d" "d \<noteq> CHR ''0''" "list_all decimal_digit t" "decimal_digit c"
    by (auto simp: canonical_uint_def)
  with s show "canonical_uint s" "s \<noteq> ''0''" "decimal_digit c" by (simp_all add: canonical_uint_def)
qed

lemma read_digits_pos: "canonical_uint s \<Longrightarrow> s \<noteq> ''0'' \<Longrightarrow> 0 < read_digits 10 s"
proof (induction s rule: rev_induct)
  case (snoc c s)
  show ?case
  proof (cases "s = []")
    case True
    with snoc.prems have "decimal_digit c" "c \<noteq> CHR ''0''" by (auto simp: canonical_uint_def)
    then have "digit_value c \<noteq> 0"
      using digit_char_value [of c] char_of_char [of "CHR ''0''", where 'a = nat]
      by (cases "digit_value c = 0") (auto simp: digit_char_def)
    with True show ?thesis by (simp add: read_digits_def)
  next
    case False
    with canonical_uint_snoc [OF snoc.prems(1) False] snoc.IH show ?thesis by (simp add: read_digits_snoc)
  qed
qed (simp add: canonical_uint_def)

lemma show_read_canonical: "canonical_uint s \<Longrightarrow> show_nat (read_digits 10 s) = s"
proof (induction s rule: rev_induct)
  case (snoc c s)
  show ?case
  proof (cases "s = []")
    case True
    with snoc.prems have "decimal_digit c" by (auto simp: canonical_uint_def decimal_digit_def)
    with True show ?thesis
      by (simp add: read_digits_def show_nat.simps [of "digit_value c"] digit_value_less digit_char_value)
  next
    case False
    note s = canonical_uint_snoc [OF snoc.prems False]
    let ?n = "10 * read_digits 10 s + digit_value c"
    have "0 < read_digits 10 s" by (rule read_digits_pos [OF s(1,2)])
    moreover have "?n div 10 = read_digits 10 s" "?n mod 10 = digit_value c"
      using digit_value_less [OF s(3)] by auto
    ultimately show ?thesis
      using snoc.IH [OF s(1)] digit_char_value [OF s(3)] by (simp add: read_digits_snoc show_nat.simps [of ?n])
  qed
qed (simp add: canonical_uint_def)

lemma show_int_canonical: "0 \<le> n \<Longrightarrow> canonical_uint (show_int n)"
  by (simp add: show_int_def show_nat_canonical)

text \<open>The value of a decimal string, for strings that are known to be canonical: \<open>BigInt\<close> does not throw on them.\<close>

definition decimal_value :: "string \<Rightarrow> int" where
  "decimal_value s = (case BigInt_of (StringV s) of Inl _ \<Rightarrow> 0 | Inr n \<Rightarrow> n)"

lemma decimal_value_canonical:
  assumes "canonical_uint s"
  shows "BigInt_of (StringV s) = Inr (decimal_value s)" "0 \<le> decimal_value s" "show_int (decimal_value s) = s"
proof -
  have "BigInt_of (StringV s) = Inr (int (read_digits 10 s))"
    using canonical_uint_digits [OF assms] by (intro BigInt_decimal) auto
  then have v: "decimal_value s = int (read_digits 10 s)" by (simp add: decimal_value_def del: BigInt_of.simps)
  then show "BigInt_of (StringV s) = Inr (decimal_value s)" "0 \<le> decimal_value s" "show_int (decimal_value s) = s"
    using \<open>BigInt_of (StringV s) = _\<close> show_read_canonical [OF assms] by (simp_all add: show_int_def del: BigInt_of.simps)
qed

lemma decimal_value_show [simp]: "0 \<le> n \<Longrightarrow> decimal_value (show_int n) = n"
  by (simp add: decimal_value_def BigInt_show_int del: BigInt_of.simps)

end
