(* ===== verification/StagingJournal.thy ===== *)
theory StagingJournal
  imports RecoveryCeremony HostValue
begin

text \<open>
  The journal of a ceremony of a deployed account (\<open>v2ConsumerRecoveryStagingJournal.ts\<close>): the record
  that survives a restart of the desktop host while the public candidates of the three recovery factors
  are staged. Its definitions: the validation of a record that was read back, the creation of a journal from
  the context of a ceremony, and the transitions. Every argument is any value; the records that the file
  builds itself are typed.

  SHA-256 (\<open>createHash\<close> of \<open>node:crypto\<close>) is a parameter: the hexadecimal digest of the UTF-8 bytes of a text.
\<close>

section \<open>Constants\<close>

definition JOURNAL_ERROR_CLASS :: string where
  "JOURNAL_ERROR_CLASS = ''PhilCoreV2ConsumerRecoveryStagingJournalError''"

definition PHILCORE_V2_STAGING_JOURNAL_SCHEMA_VERSION :: int where
  "PHILCORE_V2_STAGING_JOURNAL_SCHEMA_VERSION = 1"

definition PHILCORE_V2_STAGING_JOURNAL_FORMAT_PROVENANCE :: string where
  "PHILCORE_V2_STAGING_JOURNAL_FORMAT_PROVENANCE = ''philcore-v2-ceremony-staging-journal-v1''"

definition PHILCORE_V2_STAGING_JOURNAL_CHECKSUM_PREFIX :: string where
  "PHILCORE_V2_STAGING_JOURNAL_CHECKSUM_PREFIX = ''PHILCORE_V2_CEREMONY_STAGING_JOURNAL_V1|''"

definition MAX_MANIFEST_ENTRY_BYTES :: nat where
  "MAX_MANIFEST_ENTRY_BYTES = 512"

definition PHILCORE_V2_STAGING_ROLE0_CANDIDATE_KIND :: string where
  "PHILCORE_V2_STAGING_ROLE0_CANDIDATE_KIND = ''ROLE0_PUBLIC_CANDIDATE_COMMITMENT_V1''"

definition PHILCORE_V2_STAGING_ROLE1_CANDIDATE_KIND :: string where
  "PHILCORE_V2_STAGING_ROLE1_CANDIDATE_KIND = ''ROLE1_PUBLIC_CANDIDATE_COMMITMENT_V1''"

definition PHILCORE_V2_STAGING_ROLE2_CANDIDATE_KIND :: string where
  "PHILCORE_V2_STAGING_ROLE2_CANDIDATE_KIND = ''ROLE2_PUBLIC_CANDIDATE_COMMITMENT_V1''"

lemmas staging_kinds = PHILCORE_V2_STAGING_ROLE0_CANDIDATE_KIND_def PHILCORE_V2_STAGING_ROLE1_CANDIDATE_KIND_def
  PHILCORE_V2_STAGING_ROLE2_CANDIDATE_KIND_def

definition CONTEXT_OWN_KEYS :: "string list" where
  "CONTEXT_OWN_KEYS = [''ceremonyId'', ''enrollmentCeremonyHash'', ''accountVersionId'', ''securityModelId'',
     ''recoveryDomainId'', ''account'', ''chainId'', ''entryPoint'', ''expectedRecoveryEpoch'',
     ''expectedValidatorEpoch'', ''expiresAtUnixSeconds'']"

definition JOURNAL_OWN_KEYS :: "string list" where
  "JOURNAL_OWN_KEYS = [''schemaVersion'', ''formatProvenance'', ''ceremonyId'', ''enrollmentCeremonyHash'',
     ''accountVersionId'', ''securityModelId'', ''recoveryDomainId'', ''account'', ''chainId'', ''entryPoint'',
     ''expectedRecoveryEpoch'', ''expectedValidatorEpoch'', ''expiresAtUnixSeconds'', ''state'',
     ''createdAtUnixSeconds'', ''updatedAtUnixSeconds'', ''manifest'', ''endReason'', ''integrityChecksum'']"

definition CANDIDATE_INPUT_OWN_KEYS :: "string list" where
  "CANDIDATE_INPUT_OWN_KEYS =
     [''candidateKind'', ''candidateVersion'', ''publicCandidateCommitment'', ''credentialGeneration'']"

definition MANIFEST_ENTRY_OWN_KEYS :: "string list" where
  "MANIFEST_ENTRY_OWN_KEYS = [''role'', ''candidateKind'', ''candidateVersion'', ''publicCandidateCommitment'',
     ''credentialGeneration'', ''stagedAtUnixSeconds'']"

definition MANIFEST_SLOT_KEYS :: "string list" where
  "MANIFEST_SLOT_KEYS = [''0'', ''1'', ''2'']"

definition ROLE_KIND_MAP :: "int \<Rightarrow> string" where
  "ROLE_KIND_MAP n =
     (if n = 0 then PHILCORE_V2_STAGING_ROLE0_CANDIDATE_KIND
      else if n = 1 then PHILCORE_V2_STAGING_ROLE1_CANDIDATE_KIND
      else PHILCORE_V2_STAGING_ROLE2_CANDIDATE_KIND)"

definition VALID_CANDIDATE_KINDS :: "string list" where
  "VALID_CANDIDATE_KINDS = [PHILCORE_V2_STAGING_ROLE0_CANDIDATE_KIND, PHILCORE_V2_STAGING_ROLE1_CANDIDATE_KIND,
     PHILCORE_V2_STAGING_ROLE2_CANDIDATE_KIND]"

section \<open>Records\<close>

datatype StagingJournalState = JOURNAL_STAGING | JOURNAL_CANCELLED | JOURNAL_EXPIRED | JOURNAL_SUPERSEDED

fun journal_state_name :: "StagingJournalState \<Rightarrow> string" where
  "journal_state_name JOURNAL_STAGING = ''STAGING''"
| "journal_state_name JOURNAL_CANCELLED = ''CANCELLED''"
| "journal_state_name JOURNAL_EXPIRED = ''EXPIRED''"
| "journal_state_name JOURNAL_SUPERSEDED = ''SUPERSEDED''"

text \<open>\<open>VALID_STATES.has(stateRaw)\<close> and the state it names.\<close>

definition VALID_STATES :: "string \<Rightarrow> StagingJournalState option" where
  "VALID_STATES s = find (\<lambda>st. journal_state_name st = s) [JOURNAL_STAGING, JOURNAL_CANCELLED, JOURNAL_EXPIRED, JOURNAL_SUPERSEDED]"

text \<open>A member of \<open>VALID_END_REASONS\<close>: \<open>null\<close> is \<open>Some None\<close>.\<close>

fun VALID_END_REASONS :: "host_value \<Rightarrow> StagingJournalState option option" where
  "VALID_END_REASONS NullHost = Some None"
| "VALID_END_REASONS (StringHost s) =
     map_option Some (find (\<lambda>st. journal_state_name st = s) [JOURNAL_CANCELLED, JOURNAL_EXPIRED, JOURNAL_SUPERSEDED])"
| "VALID_END_REASONS _ = None"

text \<open>A stored entry; in the entries that are only measured, the numbers may be any.\<close>

record StoredManifestEntry =
  me_role :: host_number
  me_candidateKind :: string
  me_candidateVersion :: host_number
  me_publicCandidateCommitment :: string
  me_credentialGeneration :: string
  me_stagedAtUnixSeconds :: string

record StagingManifest =
  sm_0 :: "StoredManifestEntry option"
  sm_1 :: "StoredManifestEntry option"
  sm_2 :: "StoredManifestEntry option"

record NormalizedCeremonyContext =
  cc_ceremonyId :: string
  cc_enrollmentCeremonyHash :: string
  cc_accountVersionId :: string
  cc_securityModelId :: string
  cc_recoveryDomainId :: string
  cc_account :: string
  cc_chainId :: string
  cc_entryPoint :: string
  cc_expectedRecoveryEpoch :: string
  cc_expectedValidatorEpoch :: string
  cc_expiresAtUnixSeconds :: string

text \<open>A journal has the fields of the context, and its own; \<open>sj_integrityChecksum\<close> comes last.\<close>

record StagingJournalRecordWithoutChecksum = NormalizedCeremonyContext +
  sj_schemaVersion :: int
  sj_formatProvenance :: string
  sj_state :: StagingJournalState
  sj_createdAtUnixSeconds :: string
  sj_updatedAtUnixSeconds :: string
  sj_manifest :: StagingManifest
  sj_endReason :: "StagingJournalState option"

record StagingJournalRecord = StagingJournalRecordWithoutChecksum +
  sj_integrityChecksum :: string

text \<open>The errors: of the file, with their code, and those of the commitment, which are not caught.\<close>

datatype journal_error = JournalError string | CommitmentError string

type_synonym 'a journal_result = "journal_error + 'a"

fun journal_call :: "'a coded \<Rightarrow> 'a journal_result" where
  "journal_call (Inl code) = Inl (JournalError code)"
| "journal_call (Inr x) = Inr x"

fun commitment_call :: "'a coded \<Rightarrow> 'a journal_result" where
  "commitment_call (Inl code) = Inl (CommitmentError code)"
| "commitment_call (Inr x) = Inr x"

abbreviation journal_check :: "bool \<Rightarrow> string \<Rightarrow> unit journal_result" where
  "journal_check c code \<equiv> journal_call (check c code)"

abbreviation journal_read :: "host_object \<Rightarrow> string \<Rightarrow> string \<Rightarrow> host_value coded" where
  "journal_read \<equiv> readOwnProperty JOURNAL_ERROR_CLASS"

section \<open>Checks of a value\<close>

fun requireJournalNow :: "host_value \<Rightarrow> int coded" where
  "requireJournalNow (NumberHost (SafeInteger i)) =
     bnd (check (\<not> (\<bar>i\<bar> > MAX_SAFE_INTEGER \<or> i \<le> 0 \<or> i > 281474976710655)) ''INVALID_NOW'') (\<lambda>_. Inr i)"
| "requireJournalNow _ = Inl ''INVALID_NOW''"

fun requireNonZeroBytes32 :: "ethers \<Rightarrow> host_value \<Rightarrow> string \<Rightarrow> string coded" where
  "requireNonZeroBytes32 E (StringHost s) invalidCode =
     bnd (check (\<not> (\<not> isHexString E s 32 \<or> s \<noteq> toLowerCase s)) invalidCode) (\<lambda>_.
     bnd (check (s \<noteq> ZERO_BYTES32) invalidCode) (\<lambda>_. Inr s))"
| "requireNonZeroBytes32 E _ invalidCode = Inl invalidCode"

fun requireNonZeroAddress :: "ethers \<Rightarrow> host_value \<Rightarrow> string \<Rightarrow> string coded" where
  "requireNonZeroAddress E (StringHost s) invalidCode =
     (case getAddress E s of
        None \<Rightarrow> Inl invalidCode
      | Some normalized \<Rightarrow>
          bnd (check (\<not> (normalized \<noteq> s \<or> normalized = ZERO_ADDRESS)) invalidCode) (\<lambda>_. Inr normalized))"
| "requireNonZeroAddress E _ invalidCode = Inl invalidCode"

definition canonical_string :: "string \<Rightarrow> nat \<Rightarrow> string \<Rightarrow> bool \<Rightarrow> string coded" where
  "canonical_string asString bits invalidCode rejectZero =
     catch (BigInt_of (StringV asString)) (Inl invalidCode) (\<lambda>parsed.
     bnd (check (\<not> (parsed < 0 \<or> parsed \<ge> push_bit bits 1)) invalidCode) (\<lambda>_.
     bnd (check (\<not> (rejectZero \<and> parsed = 0)) invalidCode) (\<lambda>_. Inr (show_int parsed))))"

fun requireCanonicalUintString :: "host_value \<Rightarrow> nat \<Rightarrow> string \<Rightarrow> bool \<Rightarrow> string coded" where
  "requireCanonicalUintString (NumberHost _) bits invalidCode rejectZero = Inl invalidCode"
| "requireCanonicalUintString (BigIntHost i) bits invalidCode rejectZero =
     bnd (check (\<not> i < 0) invalidCode) (\<lambda>_. canonical_string (show_int i) bits invalidCode rejectZero)"
| "requireCanonicalUintString (StringHost s) bits invalidCode rejectZero =
     bnd (check (canonical_uint s) invalidCode) (\<lambda>_. canonical_string s bits invalidCode rejectZero)"
| "requireCanonicalUintString _ bits invalidCode rejectZero = Inl invalidCode"

definition requireNonzeroCanonicalUintString :: "host_value \<Rightarrow> nat \<Rightarrow> string \<Rightarrow> string coded" where
  "requireNonzeroCanonicalUintString v bits invalidCode = requireCanonicalUintString v bits invalidCode True"

definition requirePositiveCanonicalUintString :: "host_value \<Rightarrow> nat \<Rightarrow> string \<Rightarrow> string coded" where
  "requirePositiveCanonicalUintString v bits invalidCode = requireCanonicalUintString v bits invalidCode True"

definition requireJournalPinned :: "ethers \<Rightarrow> host_value \<Rightarrow> string \<Rightarrow> string \<Rightarrow> string \<Rightarrow> string coded" where
  "requireJournalPinned E v expected invalidCode mismatchCode =
     bnd (requireNonZeroBytes32 E v invalidCode) (\<lambda>s.
     bnd (check (s = toLowerCase expected) mismatchCode) (\<lambda>_. Inr s))"

section \<open>The context of a ceremony\<close>

definition enrollment_argument :: "'a NormalizedCeremonyContext_scheme \<Rightarrow> record_argument" where
  "enrollment_argument c = PlainObject
     [(''ceremonyId'', StringVal (cc_ceremonyId c)), (''account'', StringVal (cc_account c)),
      (''chainId'', StringVal (cc_chainId c)), (''entryPoint'', StringVal (cc_entryPoint c)),
      (''accountVersionId'', StringVal (cc_accountVersionId c)),
      (''securityModelId'', StringVal (cc_securityModelId c)),
      (''recoveryDomainId'', StringVal (cc_recoveryDomainId c)),
      (''expectedRecoveryEpoch'', StringVal (cc_expectedRecoveryEpoch c)),
      (''expectedValidatorEpoch'', StringVal (cc_expectedValidatorEpoch c)),
      (''expiresAt'', StringVal (cc_expiresAtUnixSeconds c))]"

definition computeEnrollmentHashFromContext ::
  "ethers \<Rightarrow> 'a NormalizedCeremonyContext_scheme \<Rightarrow> string journal_result" where
  "computeEnrollmentHashFromContext E c =
     commitment_call (computePhilCoreV2LocalEnrollmentCeremonyHash E (enrollment_argument c))"

text \<open>The fields of a context, each read and checked before the next is read.\<close>

definition context_fields :: "ethers \<Rightarrow> host_object \<Rightarrow> NormalizedCeremonyContext coded" where
  "context_fields E input =
     bnd (bnd (journal_read input ''ceremonyId'' ''CEREMONY_ID_INVALID'') (\<lambda>v.
            requireNonZeroBytes32 E v ''CEREMONY_ID_INVALID'')) (\<lambda>ceremonyId.
     bnd (bnd (journal_read input ''enrollmentCeremonyHash'' ''ENROLLMENT_CEREMONY_HASH_INVALID'') (\<lambda>v.
            requireNonZeroBytes32 E v ''ENROLLMENT_CEREMONY_HASH_INVALID'')) (\<lambda>enrollmentCeremonyHash.
     bnd (bnd (journal_read input ''accountVersionId'' ''ACCOUNT_VERSION_ID_INVALID'') (\<lambda>v.
            requireJournalPinned E v (PHILCORE_V2_LOCAL_ACCOUNT_VERSION_ID E)
              ''ACCOUNT_VERSION_ID_INVALID'' ''ACCOUNT_VERSION_ID_MISMATCH'')) (\<lambda>accountVersionId.
     bnd (bnd (journal_read input ''securityModelId'' ''SECURITY_MODEL_ID_INVALID'') (\<lambda>v.
            requireJournalPinned E v (PHILCORE_V2_LOCAL_SECURITY_MODEL_ID E)
              ''SECURITY_MODEL_ID_INVALID'' ''SECURITY_MODEL_ID_MISMATCH'')) (\<lambda>securityModelId.
     bnd (bnd (journal_read input ''recoveryDomainId'' ''RECOVERY_DOMAIN_ID_INVALID'') (\<lambda>v.
            requireJournalPinned E v (PHILCORE_V2_LOCAL_RECOVERY_DOMAIN_ID E)
              ''RECOVERY_DOMAIN_ID_INVALID'' ''RECOVERY_DOMAIN_ID_MISMATCH'')) (\<lambda>recoveryDomainId.
     bnd (bnd (journal_read input ''account'' ''ACCOUNT_INVALID'') (\<lambda>v.
            requireNonZeroAddress E v ''ACCOUNT_INVALID'')) (\<lambda>account.
     bnd (bnd (journal_read input ''chainId'' ''CHAIN_ID_INVALID'') (\<lambda>v.
            requireNonzeroCanonicalUintString v 256 ''CHAIN_ID_INVALID'')) (\<lambda>chainId.
     bnd (bnd (journal_read input ''entryPoint'' ''ENTRY_POINT_INVALID'') (\<lambda>v.
            requireNonZeroAddress E v ''ENTRY_POINT_INVALID'')) (\<lambda>entryPoint.
     bnd (bnd (journal_read input ''expectedRecoveryEpoch'' ''EXPECTED_RECOVERY_EPOCH_INVALID'') (\<lambda>v.
            requireNonzeroCanonicalUintString v 64 ''EXPECTED_RECOVERY_EPOCH_INVALID'')) (\<lambda>expectedRecoveryEpoch.
     bnd (bnd (journal_read input ''expectedValidatorEpoch'' ''EXPECTED_VALIDATOR_EPOCH_INVALID'') (\<lambda>v.
            requireNonzeroCanonicalUintString v 64 ''EXPECTED_VALIDATOR_EPOCH_INVALID'')) (\<lambda>expectedValidatorEpoch.
     bnd (bnd (journal_read input ''expiresAtUnixSeconds'' ''CEREMONY_EXPIRY_INVALID'') (\<lambda>v.
            requirePositiveCanonicalUintString v 48 ''CEREMONY_EXPIRY_INVALID'')) (\<lambda>expiresAtUnixSeconds.
     Inr \<lparr>cc_ceremonyId = ceremonyId, cc_enrollmentCeremonyHash = enrollmentCeremonyHash,
          cc_accountVersionId = accountVersionId, cc_securityModelId = securityModelId,
          cc_recoveryDomainId = recoveryDomainId, cc_account = account, cc_chainId = chainId,
          cc_entryPoint = entryPoint, cc_expectedRecoveryEpoch = expectedRecoveryEpoch,
          cc_expectedValidatorEpoch = expectedValidatorEpoch, cc_expiresAtUnixSeconds = expiresAtUnixSeconds\<rparr>)))))))))))"

definition normalizeCeremonyContext :: "ethers \<Rightarrow> host_value \<Rightarrow> NormalizedCeremonyContext journal_result" where
  "normalizeCeremonyContext E v =
     bnd (journal_call (closed_object JOURNAL_ERROR_CLASS v CONTEXT_OWN_KEYS ''CEREMONY_CONTEXT_NOT_OBJECT''
            ''CEREMONY_CONTEXT_EXTRA_KEY'' ''CEREMONY_CONTEXT_MISSING_KEY'')) (\<lambda>input.
     bnd (journal_call (context_fields E input)) (\<lambda>normalized.
     bnd (computeEnrollmentHashFromContext E normalized) (\<lambda>recomputed.
     bnd (journal_check (recomputed = cc_enrollmentCeremonyHash normalized) ''CEREMONY_CONTEXT_HASH_MISMATCH'') (\<lambda>_.
     Inr (normalized\<lparr>cc_enrollmentCeremonyHash := recomputed\<rparr>)))))"

section \<open>The checksum\<close>

definition entry_text :: "StoredManifestEntry \<Rightarrow> string" where
  "entry_text entry = object_text
     [(''role'', number_text (me_role entry)), (''candidateKind'', quote (me_candidateKind entry)),
      (''candidateVersion'', number_text (me_candidateVersion entry)),
      (''publicCandidateCommitment'', quote (me_publicCandidateCommitment entry)),
      (''credentialGeneration'', quote (me_credentialGeneration entry)),
      (''stagedAtUnixSeconds'', quote (me_stagedAtUnixSeconds entry))]"

definition projectManifestEntryForChecksum :: "StoredManifestEntry option \<Rightarrow> string" where
  "projectManifestEntryForChecksum slot = (case slot of None \<Rightarrow> ''null'' | Some entry \<Rightarrow> entry_text entry)"

definition projectManifestForChecksum :: "StagingManifest \<Rightarrow> string" where
  "projectManifestForChecksum manifest = object_text
     [(''0'', projectManifestEntryForChecksum (sm_0 manifest)), (''1'', projectManifestEntryForChecksum (sm_1 manifest)),
      (''2'', projectManifestEntryForChecksum (sm_2 manifest))]"

definition end_reason_text :: "StagingJournalState option \<Rightarrow> string" where
  "end_reason_text reason = (case reason of None \<Rightarrow> ''null'' | Some st \<Rightarrow> quote (journal_state_name st))"

text \<open>The text that is hashed, of a record of the declared type.\<close>

definition checksum_projection :: "'a StagingJournalRecordWithoutChecksum_scheme \<Rightarrow> string" where
  "checksum_projection r = object_text
     [(''schemaVersion'', show_int (sj_schemaVersion r)), (''formatProvenance'', quote (sj_formatProvenance r)),
      (''ceremonyId'', quote (cc_ceremonyId r)), (''enrollmentCeremonyHash'', quote (cc_enrollmentCeremonyHash r)),
      (''accountVersionId'', quote (cc_accountVersionId r)), (''securityModelId'', quote (cc_securityModelId r)),
      (''recoveryDomainId'', quote (cc_recoveryDomainId r)), (''account'', quote (cc_account r)),
      (''chainId'', quote (cc_chainId r)), (''entryPoint'', quote (cc_entryPoint r)),
      (''expectedRecoveryEpoch'', quote (cc_expectedRecoveryEpoch r)),
      (''expectedValidatorEpoch'', quote (cc_expectedValidatorEpoch r)),
      (''expiresAtUnixSeconds'', quote (cc_expiresAtUnixSeconds r)), (''state'', quote (journal_state_name (sj_state r))),
      (''createdAtUnixSeconds'', quote (sj_createdAtUnixSeconds r)),
      (''updatedAtUnixSeconds'', quote (sj_updatedAtUnixSeconds r)),
      (''manifest'', projectManifestForChecksum (sj_manifest r)), (''endReason'', end_reason_text (sj_endReason r))]"

definition computeStagingJournalChecksum ::
  "(string \<Rightarrow> string) \<Rightarrow> 'a StagingJournalRecordWithoutChecksum_scheme \<Rightarrow> string" where
  "computeStagingJournalChecksum sha256Hex r =
     ''0x'' @ sha256Hex (PHILCORE_V2_STAGING_JOURNAL_CHECKSUM_PREFIX @ checksum_projection r)"

section \<open>Building a record\<close>

definition compactStoredEntryBytes :: "StoredManifestEntry \<Rightarrow> nat" where
  "compactStoredEntryBytes entry = utf8_byteLength (entry_text entry)"

definition buildJournalRecord ::
  "(string \<Rightarrow> string) \<Rightarrow> StagingJournalRecordWithoutChecksum \<Rightarrow> StagingJournalRecord" where
  "buildJournalRecord sha256Hex r =
     StagingJournalRecordWithoutChecksum.extend r
       (StagingJournalRecord.fields (computeStagingJournalChecksum sha256Hex r))"

definition assertNoJournalRegression :: "int \<Rightarrow> string \<Rightarrow> unit coded" where
  "assertNoJournalRegression now updatedAtUnixSeconds =
     check (\<not> now < decimal_value updatedAtUnixSeconds) ''CLOCK_REGRESSION_DETECTED''"

definition validateManifestEntryOversized :: "StoredManifestEntry \<Rightarrow> unit coded" where
  "validateManifestEntryOversized entry =
     check (\<not> compactStoredEntryBytes entry > MAX_MANIFEST_ENTRY_BYTES) ''MANIFEST_ENTRY_OVERSIZED''"

section \<open>Candidates and entries\<close>

fun require_string :: "host_value \<Rightarrow> string \<Rightarrow> string coded" where
  "require_string (StringHost s) code = Inr s"
| "require_string _ code = Inl code"

fun require_number :: "host_value \<Rightarrow> string \<Rightarrow> host_number coded" where
  "require_number (NumberHost n) code = Inr n"
| "require_number _ code = Inl code"

text \<open>What is returned: kind, commitment and generation; the version is 1.\<close>

definition validateCandidateInput :: "ethers \<Rightarrow> int \<Rightarrow> host_value \<Rightarrow> (string \<times> string \<times> string) coded" where
  "validateCandidateInput E roleIndex v =
     bnd (closed_object JOURNAL_ERROR_CLASS v CANDIDATE_INPUT_OWN_KEYS ''CANDIDATE_INPUT_NOT_OBJECT''
            ''CANDIDATE_INPUT_EXTRA_KEY'' ''CANDIDATE_INPUT_MISSING_KEY'') (\<lambda>input.
     bnd (bnd (journal_read input ''candidateKind'' ''CANDIDATE_INPUT_KIND_TYPE_INVALID'') (\<lambda>v.
            require_string v ''CANDIDATE_INPUT_KIND_TYPE_INVALID'')) (\<lambda>candidateKind.
     bnd (bnd (journal_read input ''candidateVersion'' ''CANDIDATE_INPUT_VERSION_TYPE_INVALID'') (\<lambda>v.
            require_number v ''CANDIDATE_INPUT_VERSION_TYPE_INVALID'')) (\<lambda>candidateVersion.
     bnd (bnd (journal_read input ''publicCandidateCommitment'' ''CANDIDATE_INPUT_COMMITMENT_TYPE_INVALID'') (\<lambda>v.
            require_string v ''CANDIDATE_INPUT_COMMITMENT_TYPE_INVALID'')) (\<lambda>publicCandidateCommitment.
     bnd (bnd (journal_read input ''credentialGeneration'' ''CANDIDATE_INPUT_GENERATION_TYPE_INVALID'') (\<lambda>v.
            require_string v ''CANDIDATE_INPUT_GENERATION_TYPE_INVALID'')) (\<lambda>credentialGenerationRaw.
     bnd (validateManifestEntryOversized
            \<lparr>me_role = SafeInteger roleIndex, me_candidateKind = candidateKind, me_candidateVersion = candidateVersion,
             me_publicCandidateCommitment = publicCandidateCommitment,
             me_credentialGeneration = credentialGenerationRaw, me_stagedAtUnixSeconds = ''1''\<rparr>) (\<lambda>_.
     bnd (check (candidateKind = ROLE_KIND_MAP roleIndex) ''CANDIDATE_INPUT_KIND_MISMATCH'') (\<lambda>_.
     bnd (check (candidateVersion = SafeInteger 1) ''CANDIDATE_INPUT_VERSION_INVALID'') (\<lambda>_.
     bnd (requireNonZeroBytes32 E (StringHost publicCandidateCommitment) ''CANDIDATE_INPUT_COMMITMENT_INVALID'')
       (\<lambda>commitment.
     bnd (requireNonzeroCanonicalUintString (StringHost credentialGenerationRaw) 64
            ''CANDIDATE_INPUT_GENERATION_INVALID'') (\<lambda>credentialGeneration.
     Inr (candidateKind, commitment, credentialGeneration)))))))))))"

text \<open>The string of a value, for the entry that is measured: the empty string when it is not one.\<close>

fun string_or_empty :: "host_value \<Rightarrow> string" where
  "string_or_empty (StringHost s) = s"
| "string_or_empty _ = ''''"

fun number_or :: "int \<Rightarrow> host_value \<Rightarrow> host_number" where
  "number_or d (NumberHost n) = n"
| "number_or d _ = SafeInteger d"

definition staged_order :: "string \<Rightarrow> string \<Rightarrow> string \<Rightarrow> string \<Rightarrow> bool" where
  "staged_order createdAt updatedAt expiresAt stagedAt \<longleftrightarrow>
     \<not> (decimal_value createdAt > decimal_value stagedAt \<or> decimal_value stagedAt > decimal_value updatedAt \<or>
        decimal_value stagedAt > decimal_value expiresAt)"

definition validateStoredManifestEntry ::
  "ethers \<Rightarrow> int \<Rightarrow> host_value \<Rightarrow> string \<Rightarrow> string \<Rightarrow> string \<Rightarrow> StoredManifestEntry option coded" where
  "validateStoredManifestEntry E slot v createdAtUnixSeconds updatedAtUnixSeconds expiresAtUnixSeconds =
     (if host_null v then Inr None else
     bnd (closed_object JOURNAL_ERROR_CLASS v MANIFEST_ENTRY_OWN_KEYS ''MANIFEST_ENTRY_NOT_OBJECT''
            ''MANIFEST_ENTRY_EXTRA_KEY'' ''MANIFEST_ENTRY_MISSING_KEY'') (\<lambda>entry.
     bnd (journal_read entry ''role'' ''MANIFEST_ROLE_INVALID'') (\<lambda>roleValue.
     bnd (journal_read entry ''candidateKind'' ''MANIFEST_CANDIDATE_KIND_INVALID'') (\<lambda>candidateKindRaw.
     bnd (journal_read entry ''candidateVersion'' ''MANIFEST_CANDIDATE_VERSION_INVALID'') (\<lambda>candidateVersion.
     bnd (journal_read entry ''publicCandidateCommitment'' ''MANIFEST_COMMITMENT_INVALID'') (\<lambda>commitmentRaw.
     bnd (journal_read entry ''credentialGeneration'' ''MANIFEST_CREDENTIAL_GENERATION_INVALID'') (\<lambda>generationRaw.
     bnd (journal_read entry ''stagedAtUnixSeconds'' ''MANIFEST_STAGED_AT_INVALID'') (\<lambda>stagedAtRaw.
     bnd (validateManifestEntryOversized
            \<lparr>me_role = number_or 0 roleValue, me_candidateKind = string_or_empty candidateKindRaw,
             me_candidateVersion = number_or 1 candidateVersion,
             me_publicCandidateCommitment = string_or_empty commitmentRaw,
             me_credentialGeneration = string_or_empty generationRaw,
             me_stagedAtUnixSeconds = string_or_empty stagedAtRaw\<rparr>) (\<lambda>_.
     bnd (check (host_integer 0 roleValue \<or> host_integer 1 roleValue \<or> host_integer 2 roleValue)
            ''MANIFEST_ROLE_INVALID'') (\<lambda>_.
     bnd (check (host_integer slot roleValue) ''MANIFEST_SLOT_ROLE_MISMATCH'') (\<lambda>_.
     bnd (check (string_or_empty candidateKindRaw \<in> set VALID_CANDIDATE_KINDS) ''MANIFEST_CANDIDATE_KIND_INVALID'') (\<lambda>_.
     bnd (check (string_or_empty candidateKindRaw = ROLE_KIND_MAP slot) ''MANIFEST_ROLE_KIND_MISMATCH'') (\<lambda>_.
     bnd (check (host_integer 1 candidateVersion) ''MANIFEST_CANDIDATE_VERSION_INVALID'') (\<lambda>_.
     bnd (requireNonZeroBytes32 E (StringHost (string_or_empty commitmentRaw)) ''MANIFEST_COMMITMENT_INVALID'')
       (\<lambda>commitment.
     bnd (requireNonzeroCanonicalUintString (StringHost (string_or_empty generationRaw)) 64
            ''MANIFEST_CREDENTIAL_GENERATION_INVALID'') (\<lambda>generation.
     bnd (requirePositiveCanonicalUintString (StringHost (string_or_empty stagedAtRaw)) 48
            ''MANIFEST_STAGED_AT_INVALID'') (\<lambda>stagedAt.
     bnd (check (staged_order createdAtUnixSeconds updatedAtUnixSeconds expiresAtUnixSeconds stagedAt)
            ''MANIFEST_STAGED_AT_ORDER_INVALID'') (\<lambda>_.
     Inr (Some \<lparr>me_role = SafeInteger slot, me_candidateKind = string_or_empty candidateKindRaw,
          me_candidateVersion = SafeInteger 1, me_publicCandidateCommitment = commitment,
          me_credentialGeneration = generation, me_stagedAtUnixSeconds = stagedAt\<rparr>)))))))))))))))))))"

section \<open>Validation of a journal\<close>

definition validateJournalStateTimestamps ::
  "StagingJournalState \<Rightarrow> string \<Rightarrow> string \<Rightarrow> string \<Rightarrow> unit coded" where
  "validateJournalStateTimestamps st createdAtUnixSeconds updatedAtUnixSeconds expiresAtUnixSeconds =
     (let created = decimal_value createdAtUnixSeconds; updated = decimal_value updatedAtUnixSeconds;
          expires = decimal_value expiresAtUnixSeconds in
     bnd (check (\<not> created \<ge> expires) ''JOURNAL_CREATION_NOT_BEFORE_EXPIRY'') (\<lambda>_.
     bnd (check (\<not> updated < created) ''JOURNAL_TIMESTAMP_ORDER_INVALID'') (\<lambda>_.
     if st = JOURNAL_STAGING \<or> st = JOURNAL_CANCELLED
     then check (\<not> updated \<ge> expires) ''JOURNAL_STATE_TIMESTAMP_MISMATCH''
     else if st = JOURNAL_EXPIRED
     then check (\<not> updated < expires) ''JOURNAL_STATE_TIMESTAMP_MISMATCH''
     else Inr ())))"

definition validateJournalContextHash :: "ethers \<Rightarrow> 'a NormalizedCeremonyContext_scheme \<Rightarrow> unit journal_result" where
  "validateJournalContextHash E c =
     bnd (computeEnrollmentHashFromContext E c) (\<lambda>recomputed.
     journal_check (recomputed = cc_enrollmentCeremonyHash c) ''JOURNAL_CONTEXT_HASH_MISMATCH'')"

definition validateEndReason :: "StagingJournalState \<Rightarrow> host_value \<Rightarrow> StagingJournalState option coded" where
  "validateEndReason st v =
     (case VALID_END_REASONS v of
        None \<Rightarrow> Inl ''JOURNAL_END_REASON_INVALID''
      | Some reason \<Rightarrow>
          if st = JOURNAL_STAGING
          then bnd (check (reason = None) ''JOURNAL_STATE_END_REASON_MISMATCH'') (\<lambda>_. Inr reason)
          else bnd (check (reason = Some st) ''JOURNAL_STATE_END_REASON_MISMATCH'') (\<lambda>_. Inr reason))"

definition journal_context :: "ethers \<Rightarrow> host_object \<Rightarrow> NormalizedCeremonyContext coded" where
  "journal_context E input =
     bnd (journal_read input ''schemaVersion'' ''JOURNAL_SCHEMA_VERSION_UNSUPPORTED'') (\<lambda>schemaVersion.
     bnd (check (host_integer PHILCORE_V2_STAGING_JOURNAL_SCHEMA_VERSION schemaVersion)
            ''JOURNAL_SCHEMA_VERSION_UNSUPPORTED'') (\<lambda>_.
     bnd (journal_read input ''formatProvenance'' ''JOURNAL_FORMAT_PROVENANCE_INVALID'') (\<lambda>formatProvenance.
     bnd (check (host_string PHILCORE_V2_STAGING_JOURNAL_FORMAT_PROVENANCE formatProvenance)
            ''JOURNAL_FORMAT_PROVENANCE_INVALID'') (\<lambda>_.
     bnd (bnd (journal_read input ''ceremonyId'' ''JOURNAL_CEREMONY_ID_INVALID'') (\<lambda>v.
            requireNonZeroBytes32 E v ''JOURNAL_CEREMONY_ID_INVALID'')) (\<lambda>ceremonyId.
     bnd (bnd (journal_read input ''enrollmentCeremonyHash'' ''JOURNAL_ENROLLMENT_CEREMONY_HASH_INVALID'') (\<lambda>v.
            requireNonZeroBytes32 E v ''JOURNAL_ENROLLMENT_CEREMONY_HASH_INVALID'')) (\<lambda>enrollmentCeremonyHash.
     bnd (bnd (journal_read input ''accountVersionId'' ''JOURNAL_ACCOUNT_VERSION_ID_INVALID'') (\<lambda>v.
            requireNonZeroBytes32 E v ''JOURNAL_ACCOUNT_VERSION_ID_INVALID'')) (\<lambda>accountVersionId.
     bnd (check (accountVersionId = toLowerCase (PHILCORE_V2_LOCAL_ACCOUNT_VERSION_ID E))
            ''JOURNAL_ACCOUNT_VERSION_ID_MISMATCH'') (\<lambda>_.
     bnd (bnd (journal_read input ''securityModelId'' ''JOURNAL_SECURITY_MODEL_ID_INVALID'') (\<lambda>v.
            requireNonZeroBytes32 E v ''JOURNAL_SECURITY_MODEL_ID_INVALID'')) (\<lambda>securityModelId.
     bnd (check (securityModelId = toLowerCase (PHILCORE_V2_LOCAL_SECURITY_MODEL_ID E))
            ''JOURNAL_SECURITY_MODEL_ID_MISMATCH'') (\<lambda>_.
     bnd (bnd (journal_read input ''recoveryDomainId'' ''JOURNAL_RECOVERY_DOMAIN_ID_INVALID'') (\<lambda>v.
            requireNonZeroBytes32 E v ''JOURNAL_RECOVERY_DOMAIN_ID_INVALID'')) (\<lambda>recoveryDomainId.
     bnd (check (recoveryDomainId = toLowerCase (PHILCORE_V2_LOCAL_RECOVERY_DOMAIN_ID E))
            ''JOURNAL_RECOVERY_DOMAIN_ID_MISMATCH'') (\<lambda>_.
     bnd (bnd (journal_read input ''account'' ''JOURNAL_ACCOUNT_INVALID'') (\<lambda>v.
            requireNonZeroAddress E v ''JOURNAL_ACCOUNT_INVALID'')) (\<lambda>account.
     bnd (bnd (journal_read input ''chainId'' ''JOURNAL_CHAIN_ID_INVALID'') (\<lambda>v.
            requireNonzeroCanonicalUintString v 256 ''JOURNAL_CHAIN_ID_INVALID'')) (\<lambda>chainId.
     bnd (bnd (journal_read input ''entryPoint'' ''JOURNAL_ENTRY_POINT_INVALID'') (\<lambda>v.
            requireNonZeroAddress E v ''JOURNAL_ENTRY_POINT_INVALID'')) (\<lambda>entryPoint.
     bnd (bnd (journal_read input ''expectedRecoveryEpoch'' ''JOURNAL_EXPECTED_RECOVERY_EPOCH_INVALID'') (\<lambda>v.
            requireNonzeroCanonicalUintString v 64 ''JOURNAL_EXPECTED_RECOVERY_EPOCH_INVALID'')) (\<lambda>expectedRecoveryEpoch.
     bnd (bnd (journal_read input ''expectedValidatorEpoch'' ''JOURNAL_EXPECTED_VALIDATOR_EPOCH_INVALID'') (\<lambda>v.
            requireNonzeroCanonicalUintString v 64 ''JOURNAL_EXPECTED_VALIDATOR_EPOCH_INVALID'')) (\<lambda>expectedValidatorEpoch.
     bnd (bnd (journal_read input ''expiresAtUnixSeconds'' ''JOURNAL_EXPIRY_INVALID'') (\<lambda>v.
            requirePositiveCanonicalUintString v 48 ''JOURNAL_EXPIRY_INVALID'')) (\<lambda>expiresAtUnixSeconds.
     Inr \<lparr>cc_ceremonyId = ceremonyId, cc_enrollmentCeremonyHash = enrollmentCeremonyHash,
          cc_accountVersionId = accountVersionId, cc_securityModelId = securityModelId,
          cc_recoveryDomainId = recoveryDomainId, cc_account = account, cc_chainId = chainId,
          cc_entryPoint = entryPoint, cc_expectedRecoveryEpoch = expectedRecoveryEpoch,
          cc_expectedValidatorEpoch = expectedValidatorEpoch, cc_expiresAtUnixSeconds = expiresAtUnixSeconds\<rparr>))))))))))))))))))"

fun require_state :: "host_value \<Rightarrow> StagingJournalState coded" where
  "require_state (StringHost s) =
     (case VALID_STATES s of None \<Rightarrow> Inl ''JOURNAL_STATE_INVALID'' | Some st \<Rightarrow> Inr st)"
| "require_state _ = Inl ''JOURNAL_STATE_INVALID''"

definition journal_manifest :: "ethers \<Rightarrow> host_object \<Rightarrow> string \<Rightarrow> string \<Rightarrow> string \<Rightarrow> StagingManifest coded" where
  "journal_manifest E input createdAt updatedAt expiresAt =
     bnd (journal_read input ''manifest'' ''JOURNAL_MANIFEST_NOT_OBJECT'') (\<lambda>manifestRaw.
     bnd (closed_object JOURNAL_ERROR_CLASS manifestRaw MANIFEST_SLOT_KEYS ''JOURNAL_MANIFEST_NOT_OBJECT''
            ''JOURNAL_MANIFEST_EXTRA_KEY'' ''JOURNAL_MANIFEST_MISSING_KEY'') (\<lambda>manifestInput.
     bnd (bnd (journal_read manifestInput ''0'' ''MANIFEST_ENTRY_NOT_OBJECT'') (\<lambda>v.
            validateStoredManifestEntry E 0 v createdAt updatedAt expiresAt)) (\<lambda>slot0.
     bnd (bnd (journal_read manifestInput ''1'' ''MANIFEST_ENTRY_NOT_OBJECT'') (\<lambda>v.
            validateStoredManifestEntry E 1 v createdAt updatedAt expiresAt)) (\<lambda>slot1.
     bnd (bnd (journal_read manifestInput ''2'' ''MANIFEST_ENTRY_NOT_OBJECT'') (\<lambda>v.
            validateStoredManifestEntry E 2 v createdAt updatedAt expiresAt)) (\<lambda>slot2.
     Inr \<lparr>sm_0 = slot0, sm_1 = slot1, sm_2 = slot2\<rparr>)))))"

text \<open>State, times, manifest and end reason, after the context.\<close>

definition journal_fields ::
  "ethers \<Rightarrow> host_object \<Rightarrow> NormalizedCeremonyContext \<Rightarrow> StagingJournalRecordWithoutChecksum coded" where
  "journal_fields E input c =
     bnd (bnd (journal_read input ''state'' ''JOURNAL_STATE_INVALID'') require_state) (\<lambda>st.
     bnd (bnd (journal_read input ''createdAtUnixSeconds'' ''JOURNAL_CREATED_AT_INVALID'') (\<lambda>v.
            requirePositiveCanonicalUintString v 48 ''JOURNAL_CREATED_AT_INVALID'')) (\<lambda>createdAt.
     bnd (bnd (journal_read input ''updatedAtUnixSeconds'' ''JOURNAL_UPDATED_AT_INVALID'') (\<lambda>v.
            requirePositiveCanonicalUintString v 48 ''JOURNAL_UPDATED_AT_INVALID'')) (\<lambda>updatedAt.
     bnd (validateJournalStateTimestamps st createdAt updatedAt (cc_expiresAtUnixSeconds c)) (\<lambda>_.
     bnd (journal_manifest E input createdAt updatedAt (cc_expiresAtUnixSeconds c)) (\<lambda>manifest.
     bnd (bnd (journal_read input ''endReason'' ''JOURNAL_END_REASON_INVALID'') (validateEndReason st)) (\<lambda>endReason.
     Inr (NormalizedCeremonyContext.extend c (StagingJournalRecordWithoutChecksum.fields
            PHILCORE_V2_STAGING_JOURNAL_SCHEMA_VERSION PHILCORE_V2_STAGING_JOURNAL_FORMAT_PROVENANCE
            st createdAt updatedAt manifest endReason))))))))"

text \<open>\<open>/^0x[0-9a-f]{64}$/\<close>\<close>

definition checksum_format :: "string \<Rightarrow> bool" where
  "checksum_format s \<longleftrightarrow> take 2 s = ''0x'' \<and> length s = 66 \<and>
     list_all (\<lambda>c. decimal_digit c \<or> (97 \<le> (of_char c :: nat) \<and> (of_char c :: nat) \<le> 102)) (drop 2 s)"

fun require_checksum :: "host_value \<Rightarrow> string coded" where
  "require_checksum (StringHost s) = bnd (check (checksum_format s) ''JOURNAL_CHECKSUM_FORMAT_INVALID'') (\<lambda>_. Inr s)"
| "require_checksum _ = Inl ''JOURNAL_CHECKSUM_FORMAT_INVALID''"

definition validateStagingJournalRecord ::
  "ethers \<Rightarrow> (string \<Rightarrow> string) \<Rightarrow> host_value \<Rightarrow> StagingJournalRecord journal_result" where
  "validateStagingJournalRecord E sha256Hex v =
     bnd (journal_call (closed_object JOURNAL_ERROR_CLASS v JOURNAL_OWN_KEYS ''JOURNAL_NOT_OBJECT''
            ''JOURNAL_EXTRA_KEY'' ''JOURNAL_MISSING_KEY'')) (\<lambda>input.
     bnd (journal_call (journal_context E input)) (\<lambda>contextFields.
     bnd (journal_call (journal_fields E input contextFields)) (\<lambda>withoutChecksum.
     bnd (validateJournalContextHash E contextFields) (\<lambda>_.
     bnd (journal_call (bnd (journal_read input ''integrityChecksum'' ''JOURNAL_CHECKSUM_FORMAT_INVALID'')
            require_checksum)) (\<lambda>integrityChecksum.
     bnd (journal_check (computeStagingJournalChecksum sha256Hex withoutChecksum = integrityChecksum)
            ''JOURNAL_CHECKSUM_MISMATCH'') (\<lambda>_.
     Inr (StagingJournalRecordWithoutChecksum.extend withoutChecksum
            (StagingJournalRecord.fields integrityChecksum))))))))"

text \<open>A record as the value that a caller passes back.\<close>

definition entry_value :: "StoredManifestEntry option \<Rightarrow> host_value" where
  "entry_value slot =
     (case slot of
        None \<Rightarrow> NullHost
      | Some e \<Rightarrow> literal_value
          [(''role'', NumberHost (me_role e)), (''candidateKind'', StringHost (me_candidateKind e)),
           (''candidateVersion'', NumberHost (me_candidateVersion e)),
           (''publicCandidateCommitment'', StringHost (me_publicCandidateCommitment e)),
           (''credentialGeneration'', StringHost (me_credentialGeneration e)),
           (''stagedAtUnixSeconds'', StringHost (me_stagedAtUnixSeconds e))])"

definition manifest_value :: "StagingManifest \<Rightarrow> host_value" where
  "manifest_value m = literal_value
     [(''0'', entry_value (sm_0 m)), (''1'', entry_value (sm_1 m)), (''2'', entry_value (sm_2 m))]"

definition end_reason_value :: "StagingJournalState option \<Rightarrow> host_value" where
  "end_reason_value reason = (case reason of None \<Rightarrow> NullHost | Some st \<Rightarrow> StringHost (journal_state_name st))"

definition journal_value :: "StagingJournalRecord \<Rightarrow> host_value" where
  "journal_value j = literal_value
     [(''schemaVersion'', NumberHost (SafeInteger (sj_schemaVersion j))),
      (''formatProvenance'', StringHost (sj_formatProvenance j)), (''ceremonyId'', StringHost (cc_ceremonyId j)),
      (''enrollmentCeremonyHash'', StringHost (cc_enrollmentCeremonyHash j)),
      (''accountVersionId'', StringHost (cc_accountVersionId j)), (''securityModelId'', StringHost (cc_securityModelId j)),
      (''recoveryDomainId'', StringHost (cc_recoveryDomainId j)), (''account'', StringHost (cc_account j)),
      (''chainId'', StringHost (cc_chainId j)), (''entryPoint'', StringHost (cc_entryPoint j)),
      (''expectedRecoveryEpoch'', StringHost (cc_expectedRecoveryEpoch j)),
      (''expectedValidatorEpoch'', StringHost (cc_expectedValidatorEpoch j)),
      (''expiresAtUnixSeconds'', StringHost (cc_expiresAtUnixSeconds j)),
      (''state'', StringHost (journal_state_name (sj_state j))),
      (''createdAtUnixSeconds'', StringHost (sj_createdAtUnixSeconds j)),
      (''updatedAtUnixSeconds'', StringHost (sj_updatedAtUnixSeconds j)),
      (''manifest'', manifest_value (sj_manifest j)), (''endReason'', end_reason_value (sj_endReason j)),
      (''integrityChecksum'', StringHost (sj_integrityChecksum j))]"

section \<open>Transitions\<close>

definition requireStagingJournal ::
  "ethers \<Rightarrow> (string \<Rightarrow> string) \<Rightarrow> host_value \<Rightarrow> StagingJournalRecord journal_result" where
  "requireStagingJournal E sha256Hex journal =
     bnd (validateStagingJournalRecord E sha256Hex journal) (\<lambda>validated.
     bnd (journal_check (sj_state validated = JOURNAL_STAGING) ''JOURNAL_NOT_STAGING'') (\<lambda>_. Inr validated))"

definition createStagingJournal ::
  "ethers \<Rightarrow> (string \<Rightarrow> string) \<Rightarrow> host_value \<Rightarrow> host_value \<Rightarrow> StagingJournalRecord journal_result" where
  "createStagingJournal E sha256Hex ceremonyContext nowUnixSeconds =
     bnd (normalizeCeremonyContext E ceremonyContext) (\<lambda>c.
     bnd (journal_call (requireJournalNow nowUnixSeconds)) (\<lambda>now.
     bnd (journal_check (\<not> now \<ge> decimal_value (cc_expiresAtUnixSeconds c)) ''CEREMONY_CONTEXT_EXPIRED'') (\<lambda>_.
     Inr (buildJournalRecord sha256Hex (NormalizedCeremonyContext.extend c (StagingJournalRecordWithoutChecksum.fields
            PHILCORE_V2_STAGING_JOURNAL_SCHEMA_VERSION PHILCORE_V2_STAGING_JOURNAL_FORMAT_PROVENANCE
            JOURNAL_STAGING (show_int now) (show_int now) \<lparr>sm_0 = None, sm_1 = None, sm_2 = None\<rparr> None))))))"

text \<open>
  The record of a validated journal with another state, update time, manifest and end reason: the object
  literals of the transitions copy every other field.
\<close>

definition updated_fields ::
  "StagingJournalRecord \<Rightarrow> StagingJournalState \<Rightarrow> int \<Rightarrow> StagingManifest \<Rightarrow> StagingJournalState option \<Rightarrow>
     StagingJournalRecordWithoutChecksum" where
  "updated_fields j st now manifest endReason =
     \<lparr>cc_ceremonyId = cc_ceremonyId j, cc_enrollmentCeremonyHash = cc_enrollmentCeremonyHash j,
      cc_accountVersionId = cc_accountVersionId j, cc_securityModelId = cc_securityModelId j,
      cc_recoveryDomainId = cc_recoveryDomainId j, cc_account = cc_account j, cc_chainId = cc_chainId j,
      cc_entryPoint = cc_entryPoint j, cc_expectedRecoveryEpoch = cc_expectedRecoveryEpoch j,
      cc_expectedValidatorEpoch = cc_expectedValidatorEpoch j, cc_expiresAtUnixSeconds = cc_expiresAtUnixSeconds j,
      sj_schemaVersion = sj_schemaVersion j, sj_formatProvenance = sj_formatProvenance j, sj_state = st,
      sj_createdAtUnixSeconds = sj_createdAtUnixSeconds j, sj_updatedAtUnixSeconds = show_int now,
      sj_manifest = manifest, sj_endReason = endReason\<rparr>"

definition transitionJournal ::
  "ethers \<Rightarrow> (string \<Rightarrow> string) \<Rightarrow> host_value \<Rightarrow> host_value \<Rightarrow> StagingJournalState \<Rightarrow> StagingJournalState option \<Rightarrow>
     StagingManifest option \<Rightarrow> StagingJournalRecord journal_result" where
  "transitionJournal E sha256Hex journal nowUnixSeconds nextState nextEndReason manifestOverride =
     bnd (requireStagingJournal E sha256Hex journal) (\<lambda>current.
     bnd (journal_call (requireJournalNow nowUnixSeconds)) (\<lambda>now.
     bnd (journal_call (assertNoJournalRegression now (sj_updatedAtUnixSeconds current))) (\<lambda>_.
     Inr (buildJournalRecord sha256Hex (updated_fields current nextState now
            (case manifestOverride of None \<Rightarrow> sj_manifest current | Some m \<Rightarrow> m) nextEndReason)))))"

definition classifyExpiryAtNow :: "int \<Rightarrow> string \<Rightarrow> bool \<times> StagingJournalState \<times> StagingJournalState option" where
  "classifyExpiryAtNow now expiresAtUnixSeconds =
     (if now \<ge> decimal_value expiresAtUnixSeconds
      then (True, JOURNAL_EXPIRED, Some JOURNAL_EXPIRED)
      else (False, JOURNAL_STAGING, None))"

fun stage_role :: "host_value \<Rightarrow> int coded" where
  "stage_role (NumberHost (SafeInteger r)) = bnd (check (r = 0 \<or> r = 1 \<or> r = 2) ''STAGE_ROLE_INVALID'') (\<lambda>_. Inr r)"
| "stage_role _ = Inl ''STAGE_ROLE_INVALID''"

definition stageRoleCandidate ::
  "ethers \<Rightarrow> (string \<Rightarrow> string) \<Rightarrow> host_value \<Rightarrow> host_value \<Rightarrow> host_value \<Rightarrow> host_value \<Rightarrow>
     StagingJournalRecord journal_result" where
  "stageRoleCandidate E sha256Hex journal roleValue candidateInput nowUnixSeconds =
     bnd (journal_call (stage_role roleValue)) (\<lambda>role.
     bnd (requireStagingJournal E sha256Hex journal) (\<lambda>current.
     bnd (journal_call (validateCandidateInput E role candidateInput)) (\<lambda>(candidateKind, commitment, generation).
     bnd (journal_call (requireJournalNow nowUnixSeconds)) (\<lambda>now.
     bnd (journal_call (assertNoJournalRegression now (sj_updatedAtUnixSeconds current))) (\<lambda>_.
     let (expired, expiryState, expiryReason) = classifyExpiryAtNow now (cc_expiresAtUnixSeconds current) in
     if expired
     then transitionJournal E sha256Hex (journal_value current) nowUnixSeconds expiryState expiryReason None
     else
       let entry = \<lparr>me_role = SafeInteger role, me_candidateKind = candidateKind, me_candidateVersion = SafeInteger 1,
             me_publicCandidateCommitment = commitment, me_credentialGeneration = generation,
             me_stagedAtUnixSeconds = show_int now\<rparr> in
       bnd (journal_call (validateManifestEntryOversized entry)) (\<lambda>_.
       let manifest =
         \<lparr>sm_0 = if role = 0 then Some entry else sm_0 (sj_manifest current),
          sm_1 = if role = 1 then Some entry else sm_1 (sj_manifest current),
          sm_2 = if role = 2 then Some entry else sm_2 (sj_manifest current)\<rparr> in
       Inr (buildJournalRecord sha256Hex (updated_fields current JOURNAL_STAGING now manifest None))))))))"

definition cancelStagingJournal ::
  "ethers \<Rightarrow> (string \<Rightarrow> string) \<Rightarrow> host_value \<Rightarrow> host_value \<Rightarrow> StagingJournalRecord journal_result" where
  "cancelStagingJournal E sha256Hex journal nowUnixSeconds =
     bnd (requireStagingJournal E sha256Hex journal) (\<lambda>current.
     bnd (journal_call (requireJournalNow nowUnixSeconds)) (\<lambda>now.
     bnd (journal_call (assertNoJournalRegression now (sj_updatedAtUnixSeconds current))) (\<lambda>_.
     if fst (classifyExpiryAtNow now (cc_expiresAtUnixSeconds current))
     then transitionJournal E sha256Hex (journal_value current) nowUnixSeconds JOURNAL_EXPIRED (Some JOURNAL_EXPIRED) None
     else transitionJournal E sha256Hex (journal_value current) nowUnixSeconds JOURNAL_CANCELLED (Some JOURNAL_CANCELLED)
            None)))"

definition expireStagingJournalIfNeeded ::
  "ethers \<Rightarrow> (string \<Rightarrow> string) \<Rightarrow> host_value \<Rightarrow> host_value \<Rightarrow> StagingJournalRecord journal_result" where
  "expireStagingJournalIfNeeded E sha256Hex journal nowUnixSeconds =
     bnd (requireStagingJournal E sha256Hex journal) (\<lambda>current.
     bnd (journal_call (requireJournalNow nowUnixSeconds)) (\<lambda>now.
     bnd (journal_call (assertNoJournalRegression now (sj_updatedAtUnixSeconds current))) (\<lambda>_.
     if \<not> fst (classifyExpiryAtNow now (cc_expiresAtUnixSeconds current)) then Inr current
     else transitionJournal E sha256Hex (journal_value current) nowUnixSeconds JOURNAL_EXPIRED (Some JOURNAL_EXPIRED)
            None)))"

definition supersedeStagingJournal ::
  "ethers \<Rightarrow> (string \<Rightarrow> string) \<Rightarrow> host_value \<Rightarrow> host_value \<Rightarrow> StagingJournalRecord journal_result" where
  "supersedeStagingJournal E sha256Hex journal nowUnixSeconds =
     transitionJournal E sha256Hex journal nowUnixSeconds JOURNAL_SUPERSEDED (Some JOURNAL_SUPERSEDED) None"

end
