(* ===== verification/JournalValidation.thy ===== *)
theory JournalValidation
  imports StagingJournal
begin

text \<open>
  What the validation of a staging journal accepts: exactly the values that show a well-formed record.
  Shown on the way: the size check of an entry never fails for an entry whose fields are right, and the
  commitment to the context never throws.
\<close>

section \<open>The checks of a value\<close>

definition uint_shown :: "nat \<Rightarrow> host_value \<Rightarrow> string \<Rightarrow> bool" where
  "uint_shown bits v s \<longleftrightarrow>
     (\<exists>n. (v = BigIntHost n \<or> v = StringHost (show_int n)) \<and> s = show_int n \<and> uint_fits bits n \<and> n \<noteq> 0)"

definition stored_uint :: "nat \<Rightarrow> string \<Rightarrow> bool" where
  "stored_uint bits s \<longleftrightarrow> (\<exists>n. s = show_int n \<and> uint_fits bits n \<and> n \<noteq> 0)"

lemma journal_call_iff [result_simps]: "journal_call m = Inr x \<longleftrightarrow> m = Inr x"
  by (cases m) auto

lemma commitment_call_iff [result_simps]: "commitment_call m = Inr x \<longleftrightarrow> m = Inr x"
  by (cases m) auto

lemma journal_call_not_commitment [simp]: "journal_call m \<noteq> Inl (CommitmentError e)"
  by (cases m) auto

lemma requireJournalNow_iff [result_simps]:
  "requireJournalNow v = Inr n \<longleftrightarrow> v = NumberHost (SafeInteger n) \<and> 0 < n \<and> n < 2 ^ 48"
  by (cases v rule: requireJournalNow.cases) (auto simp: result_simps MAX_SAFE_INTEGER_def)

lemma requireNonZeroBytes32_iff [result_simps]:
  "requireNonZeroBytes32 E v code = Inr s \<longleftrightarrow> v = StringHost s \<and> is_bytes32 E False s s"
  by (cases v) (auto simp: result_simps is_bytes32_def)

lemma requireNonZeroAddress_iff [result_simps]:
  "requireNonZeroAddress E v code = Inr a \<longleftrightarrow> v = StringHost a \<and> is_address E False a a"
  by (cases v) (auto simp: result_simps is_address_def split: option.splits)

lemma canonical_string_iff:
  assumes "canonical_uint s"
  shows "canonical_string s bits code True = Inr t \<longleftrightarrow> t = s \<and> uint_fits bits (decimal_value s) \<and> decimal_value s \<noteq> 0"
  unfolding canonical_string_def decimal_value_canonical(1) [OF assms]
  using decimal_value_canonical(3) [OF assms]
  by (auto simp: result_simps uint_fits_def push_bit_eq_mult)

lemma require_uint_iff:
  "requireCanonicalUintString v bits code True = Inr s \<longleftrightarrow> uint_shown bits v s"
proof (cases v)
  case (BigIntHost i)
  then show ?thesis
    by (cases "0 \<le> i") (auto simp: result_simps canonical_string_iff show_int_canonical uint_shown_def uint_fits_def)
next
  case (StringHost t)
  show ?thesis
  proof (cases "canonical_uint t")
    case True
    with StringHost show ?thesis
      using decimal_value_canonical(3) [OF True]
      by (auto simp: result_simps canonical_string_iff uint_shown_def uint_fits_def intro!: exI [of _ "decimal_value t"])
  next
    case False
    then have "t \<noteq> show_int n" if "0 \<le> n" for n using show_int_canonical [OF that] by auto
    with False StringHost show ?thesis by (auto simp: result_simps uint_shown_def uint_fits_def)
  qed
qed (auto simp: uint_shown_def)

lemma requireNonzeroCanonicalUintString_iff [result_simps]:
  "requireNonzeroCanonicalUintString v bits code = Inr s \<longleftrightarrow> uint_shown bits v s"
  by (simp add: requireNonzeroCanonicalUintString_def require_uint_iff)

lemma requirePositiveCanonicalUintString_iff [result_simps]:
  "requirePositiveCanonicalUintString v bits code = Inr s \<longleftrightarrow> uint_shown bits v s"
  by (simp add: requirePositiveCanonicalUintString_def require_uint_iff)

lemma requireJournalPinned_iff [result_simps]:
  "requireJournalPinned E v k c d = Inr s \<longleftrightarrow> v = StringHost s \<and> is_bytes32 E False s s \<and> s = toLowerCase k"
  by (auto simp: requireJournalPinned_def result_simps)

lemma uint_shown_string: "uint_shown bits (StringHost s) t \<longleftrightarrow> t = s \<and> stored_uint bits s"
  by (auto simp: uint_shown_def stored_uint_def)

lemma uint_shown_stored: "uint_shown bits v s \<Longrightarrow> stored_uint bits s"
  by (auto simp: uint_shown_def stored_uint_def)

lemma stored_uint_value:
  assumes "stored_uint bits s"
  shows "s = show_int (decimal_value s)" "0 < decimal_value s" "decimal_value s < 2 ^ bits" "canonical_uint s"
  using assms by (auto simp: stored_uint_def uint_fits_def show_int_canonical)

lemma stored_uint_js: "stored_uint bits s \<Longrightarrow> nonzero_uint bits (StringVal s) (decimal_value s)"
  using stored_uint_value [of bits s] canonical_uint_digits [of s]
  by (auto simp: nonzero_uint_def uint_fits_def BigInt_decimal decimal_value_def simp del: BigInt_of.simps)

lemma require_string_iff [result_simps]: "require_string v code = Inr s \<longleftrightarrow> v = StringHost s"
  by (cases v) auto

lemma require_number_iff [result_simps]: "require_number v code = Inr n \<longleftrightarrow> v = NumberHost n"
  by (cases v) auto

lemma VALID_STATES_iff: "VALID_STATES s = Some st \<longleftrightarrow> s = journal_state_name st"
  by (cases st) (auto simp: VALID_STATES_def)

lemma require_state_iff [result_simps]: "require_state v = Inr st \<longleftrightarrow> v = StringHost (journal_state_name st)"
proof (cases v)
  case (StringHost s)
  then show ?thesis by (cases "VALID_STATES s") (use VALID_STATES_iff [of s st] in auto)
qed auto

lemma validateEndReason_iff [result_simps]:
  "validateEndReason st v = Inr r \<longleftrightarrow>
     r = (if st = JOURNAL_STAGING then None else Some st) \<and> v = end_reason_value r"
proof -
  have null: "VALID_END_REASONS v = Some None \<longleftrightarrow> v = NullHost" by (cases v) auto
  have some: "VALID_END_REASONS v = Some (Some st') \<longleftrightarrow> st' \<noteq> JOURNAL_STAGING \<and> v = StringHost (journal_state_name st')" for st'
    by (cases v; cases st') auto
  show ?thesis
  proof (cases "VALID_END_REASONS v")
    case None
    then show ?thesis using null some [of st] by (auto simp: validateEndReason_def end_reason_value_def)
  next
    case (Some x)
    then show ?thesis using null some [of st]
      by (cases x) (auto simp: validateEndReason_def result_simps end_reason_value_def)
  qed
qed

lemma stage_role_iff [result_simps]:
  "stage_role v = Inr r \<longleftrightarrow> v = NumberHost (SafeInteger r) \<and> r \<in> {0, 1, 2}"
  by (cases v rule: stage_role.cases) (auto simp: result_simps)

section \<open>The context\<close>

definition context_commitment :: "ethers \<Rightarrow> 'a NormalizedCeremonyContext_scheme \<Rightarrow> string" where
  "context_commitment E c = commitment E PHILCORE_V2_LOCAL_ENROLLMENT_CEREMONY_LITERAL enrollment_types
     (enrollment_words E (cc_ceremonyId c) (cc_account c) (decimal_value (cc_chainId c)) (cc_entryPoint c)
        (decimal_value (cc_expectedRecoveryEpoch c)) (decimal_value (cc_expectedValidatorEpoch c))
        (decimal_value (cc_expiresAtUnixSeconds c)))"

definition context_fields_wf :: "ethers \<Rightarrow> 'a NormalizedCeremonyContext_scheme \<Rightarrow> bool" where
  "context_fields_wf E c \<longleftrightarrow>
     is_bytes32 E False (cc_ceremonyId c) (cc_ceremonyId c) \<and>
     is_bytes32 E False (cc_enrollmentCeremonyHash c) (cc_enrollmentCeremonyHash c) \<and>
     is_bytes32 E False (cc_accountVersionId c) (cc_accountVersionId c) \<and>
     cc_accountVersionId c = toLowerCase (PHILCORE_V2_LOCAL_ACCOUNT_VERSION_ID E) \<and>
     is_bytes32 E False (cc_securityModelId c) (cc_securityModelId c) \<and>
     cc_securityModelId c = toLowerCase (PHILCORE_V2_LOCAL_SECURITY_MODEL_ID E) \<and>
     is_bytes32 E False (cc_recoveryDomainId c) (cc_recoveryDomainId c) \<and>
     cc_recoveryDomainId c = toLowerCase (PHILCORE_V2_LOCAL_RECOVERY_DOMAIN_ID E) \<and>
     is_address E False (cc_account c) (cc_account c) \<and> stored_uint 256 (cc_chainId c) \<and>
     is_address E False (cc_entryPoint c) (cc_entryPoint c) \<and> stored_uint 64 (cc_expectedRecoveryEpoch c) \<and>
     stored_uint 64 (cc_expectedValidatorEpoch c) \<and> stored_uint 48 (cc_expiresAtUnixSeconds c)"

text \<open>A well-formed context: every field is normal and the hash is the commitment to the others.\<close>

definition context_wf :: "ethers \<Rightarrow> 'a NormalizedCeremonyContext_scheme \<Rightarrow> bool" where
  "context_wf E c \<longleftrightarrow> context_fields_wf E c \<and> cc_enrollmentCeremonyHash c = context_commitment E c"

text \<open>The properties of an object that show the fields of a context.\<close>

definition context_shown :: "host_object \<Rightarrow> 'a NormalizedCeremonyContext_scheme \<Rightarrow> bool" where
  "context_shown obj c \<longleftrightarrow>
     getAnswer obj ''ceremonyId'' = Returns (StringHost (cc_ceremonyId c)) \<and>
     getAnswer obj ''enrollmentCeremonyHash'' = Returns (StringHost (cc_enrollmentCeremonyHash c)) \<and>
     getAnswer obj ''accountVersionId'' = Returns (StringHost (cc_accountVersionId c)) \<and>
     getAnswer obj ''securityModelId'' = Returns (StringHost (cc_securityModelId c)) \<and>
     getAnswer obj ''recoveryDomainId'' = Returns (StringHost (cc_recoveryDomainId c)) \<and>
     getAnswer obj ''account'' = Returns (StringHost (cc_account c)) \<and>
     (\<exists>v. getAnswer obj ''chainId'' = Returns v \<and> uint_shown 256 v (cc_chainId c)) \<and>
     getAnswer obj ''entryPoint'' = Returns (StringHost (cc_entryPoint c)) \<and>
     (\<exists>v. getAnswer obj ''expectedRecoveryEpoch'' = Returns v \<and> uint_shown 64 v (cc_expectedRecoveryEpoch c)) \<and>
     (\<exists>v. getAnswer obj ''expectedValidatorEpoch'' = Returns v \<and> uint_shown 64 v (cc_expectedValidatorEpoch c)) \<and>
     (\<exists>v. getAnswer obj ''expiresAtUnixSeconds'' = Returns v \<and> uint_shown 48 v (cc_expiresAtUnixSeconds c))"

lemma context_fields_iff:
  "context_fields E obj = Inr c \<longleftrightarrow> context_shown obj c \<and> context_fields_wf E c"
proof
  assume "context_fields E obj = Inr c"
  then show "context_shown obj c \<and> context_fields_wf E c"
    unfolding context_fields_def context_shown_def context_fields_wf_def bnd_eq_Inr readOwnProperty_iff
      requireNonZeroBytes32_iff requireNonZeroAddress_iff requireJournalPinned_iff
      requireNonzeroCanonicalUintString_iff requirePositiveCanonicalUintString_iff
    by (elim exE conjE, unfold sum.inject, hypsubst, unfold NormalizedCeremonyContext.select_convs)
       (intro conjI exI; (assumption | rule refl | erule uint_shown_stored))
next
  assume "context_shown obj c \<and> context_fields_wf E c"
  then show "context_fields E obj = Inr c"
    unfolding context_fields_def context_shown_def context_fields_wf_def bnd_eq_Inr readOwnProperty_iff
      requireNonZeroBytes32_iff requireNonZeroAddress_iff requireJournalPinned_iff
      requireNonzeroCanonicalUintString_iff requirePositiveCanonicalUintString_iff
    by (elim exE conjE, intro exI conjI) (assumption | rule refl | simp)+
qed

lemma journal_context_iff:
  "journal_context E obj = Inr c \<longleftrightarrow>
     getAnswer obj ''schemaVersion'' = Returns (NumberHost (SafeInteger PHILCORE_V2_STAGING_JOURNAL_SCHEMA_VERSION)) \<and>
     getAnswer obj ''formatProvenance'' = Returns (StringHost PHILCORE_V2_STAGING_JOURNAL_FORMAT_PROVENANCE) \<and>
     context_shown obj c \<and> context_fields_wf E c"
proof
  assume "journal_context E obj = Inr c"
  then show "getAnswer obj ''schemaVersion'' = Returns (NumberHost (SafeInteger PHILCORE_V2_STAGING_JOURNAL_SCHEMA_VERSION)) \<and>
     getAnswer obj ''formatProvenance'' = Returns (StringHost PHILCORE_V2_STAGING_JOURNAL_FORMAT_PROVENANCE) \<and>
     context_shown obj c \<and> context_fields_wf E c"
    unfolding journal_context_def context_shown_def context_fields_wf_def bnd_eq_Inr readOwnProperty_iff check_iff
      requireNonZeroBytes32_iff requireNonZeroAddress_iff host_integer_iff host_string_iff
      requireNonzeroCanonicalUintString_iff requirePositiveCanonicalUintString_iff
    by (elim exE conjE, unfold sum.inject, hypsubst, unfold NormalizedCeremonyContext.select_convs)
       (intro conjI exI; (assumption | rule refl | erule uint_shown_stored))
next
  assume "getAnswer obj ''schemaVersion'' = Returns (NumberHost (SafeInteger PHILCORE_V2_STAGING_JOURNAL_SCHEMA_VERSION)) \<and>
     getAnswer obj ''formatProvenance'' = Returns (StringHost PHILCORE_V2_STAGING_JOURNAL_FORMAT_PROVENANCE) \<and>
     context_shown obj c \<and> context_fields_wf E c"
  then show "journal_context E obj = Inr c"
    unfolding journal_context_def context_shown_def context_fields_wf_def bnd_eq_Inr readOwnProperty_iff check_iff
      requireNonZeroBytes32_iff requireNonZeroAddress_iff host_integer_iff host_string_iff
      requireNonzeroCanonicalUintString_iff requirePositiveCanonicalUintString_iff
    by (elim exE conjE, intro exI conjI) (assumption | rule refl | simp)+
qed

text \<open>The commitment to a context whose fields are right does not throw.\<close>

lemma enrollment_from_context:
  assumes "context_fields_wf E c"
  shows "computeEnrollmentHashFromContext E c = Inr (context_commitment E c)"
proof -
  let ?ps = "[(''ceremonyId'', StringVal (cc_ceremonyId c)), (''account'', StringVal (cc_account c)),
      (''chainId'', StringVal (cc_chainId c)), (''entryPoint'', StringVal (cc_entryPoint c)),
      (''accountVersionId'', StringVal (cc_accountVersionId c)),
      (''securityModelId'', StringVal (cc_securityModelId c)),
      (''recoveryDomainId'', StringVal (cc_recoveryDomainId c)),
      (''expectedRecoveryEpoch'', StringVal (cc_expectedRecoveryEpoch c)),
      (''expectedValidatorEpoch'', StringVal (cc_expectedValidatorEpoch c)),
      (''expiresAt'', StringVal (cc_expiresAtUnixSeconds c))]"
  have any: "js_bytes32 E True (StringVal s) s" if "is_bytes32 E False s s" for s
    using that by (simp add: js_bytes32_def is_bytes32_def)
  have keys: "fst ` set ?ps = set ENROLLMENT_OWN_KEYS" by (simp add: ENROLLMENT_OWN_KEYS_def)
  have snaps: "snap ?ps ''ceremonyId'' = StringVal (cc_ceremonyId c)" "snap ?ps ''account'' = StringVal (cc_account c)"
    "snap ?ps ''chainId'' = StringVal (cc_chainId c)" "snap ?ps ''entryPoint'' = StringVal (cc_entryPoint c)"
    "snap ?ps ''accountVersionId'' = StringVal (cc_accountVersionId c)"
    "snap ?ps ''securityModelId'' = StringVal (cc_securityModelId c)"
    "snap ?ps ''recoveryDomainId'' = StringVal (cc_recoveryDomainId c)"
    "snap ?ps ''expectedRecoveryEpoch'' = StringVal (cc_expectedRecoveryEpoch c)"
    "snap ?ps ''expectedValidatorEpoch'' = StringVal (cc_expectedValidatorEpoch c)"
    "snap ?ps ''expiresAt'' = StringVal (cc_expiresAtUnixSeconds c)"
    by (simp_all add: snap_def)
  have facts: "js_bytes32 E False (StringVal (cc_ceremonyId c)) (cc_ceremonyId c)"
    "js_address E (StringVal (cc_account c)) (cc_account c)" "js_address E (StringVal (cc_entryPoint c)) (cc_entryPoint c)"
    "nonzero_uint 256 (StringVal (cc_chainId c)) (decimal_value (cc_chainId c))"
    "js_bytes32 E True (StringVal (cc_accountVersionId c)) (toLowerCase (PHILCORE_V2_LOCAL_ACCOUNT_VERSION_ID E))"
    "js_bytes32 E True (StringVal (cc_securityModelId c)) (toLowerCase (PHILCORE_V2_LOCAL_SECURITY_MODEL_ID E))"
    "js_bytes32 E True (StringVal (cc_recoveryDomainId c)) (toLowerCase (PHILCORE_V2_LOCAL_RECOVERY_DOMAIN_ID E))"
    "nonzero_uint 64 (StringVal (cc_expectedRecoveryEpoch c)) (decimal_value (cc_expectedRecoveryEpoch c))"
    "nonzero_uint 64 (StringVal (cc_expectedValidatorEpoch c)) (decimal_value (cc_expectedValidatorEpoch c))"
    "nonzero_uint 48 (StringVal (cc_expiresAtUnixSeconds c)) (decimal_value (cc_expiresAtUnixSeconds c))"
    using assms any stored_uint_js unfolding context_fields_wf_def js_address_def js_bytes32_def by metis+
  have "enrollment_content E (PlainObject ?ps)
      (enrollment_words E (cc_ceremonyId c) (cc_account c) (decimal_value (cc_chainId c)) (cc_entryPoint c)
        (decimal_value (cc_expectedRecoveryEpoch c)) (decimal_value (cc_expectedValidatorEpoch c))
        (decimal_value (cc_expiresAtUnixSeconds c)))"
    unfolding enrollment_content_def
    by (rule exI [of _ ?ps], intro exI, rule conjI [OF refl], rule conjI [OF keys], unfold snaps, intro conjI)
       (rule facts | rule refl)+
  then have "computePhilCoreV2LocalEnrollmentCeremonyHash E (enrollment_argument c) = Inr (context_commitment E c)"
    unfolding enrollment_hash_iff enrollment_argument_def context_commitment_def by blast
  then show ?thesis by (simp add: computeEnrollmentHashFromContext_def)
qed

lemma normalizeCeremonyContext_iff:
  "normalizeCeremonyContext E v = Inr c \<longleftrightarrow>
     (\<exists>obj. closed_answers v CONTEXT_OWN_KEYS obj \<and> context_shown obj c \<and> context_wf E c)"
proof -
  have "normalizeCeremonyContext E v = Inr c \<longleftrightarrow> (\<exists>obj d h. closed_answers v CONTEXT_OWN_KEYS obj \<and>
      context_shown obj d \<and> context_fields_wf E d \<and> computeEnrollmentHashFromContext E d = Inr h \<and>
      h = cc_enrollmentCeremonyHash d \<and> c = d\<lparr>cc_enrollmentCeremonyHash := h\<rparr>)"
    unfolding normalizeCeremonyContext_def bnd_eq_Inr journal_call_iff closed_object_iff context_fields_iff check_iff
    by auto
  also have "\<dots> \<longleftrightarrow> (\<exists>obj d. closed_answers v CONTEXT_OWN_KEYS obj \<and> context_shown obj d \<and> context_wf E d \<and> c = d)"
    unfolding context_wf_def by (auto simp: enrollment_from_context)
  finally show ?thesis by auto
qed

section \<open>Entries\<close>

definition plain_char :: "char \<Rightarrow> bool" where
  "plain_char c \<longleftrightarrow> 32 \<le> (of_char c :: nat) \<and> (of_char c :: nat) < 128 \<and> (of_char c :: nat) \<noteq> 34 \<and> (of_char c :: nat) \<noteq> 92"

lemma quote_plain:
  assumes "list_all plain_char s"
  shows "quote s = CHR 0x22 # s @ [CHR 0x22]"
proof -
  have "escape_char c = [c]" if "plain_char c" for c
    using that by (auto simp: plain_char_def escape_char_def Let_def)
  with assms have "concat (map escape_char s) = s" by (induction s) auto
  then show ?thesis by (simp add: quote_def)
qed

lemma quote_bytes: "list_all plain_char s \<Longrightarrow> utf8_byteLength (quote s) = length s + 2"
proof -
  assume s: "list_all plain_char s"
  then have "list_all (\<lambda>c. (of_char c :: nat) < 128) s" by (auto simp: list_all_iff plain_char_def)
  then have "utf8_byteLength s = length s" by (rule utf8_byteLength_ascii)
  then show ?thesis by (simp add: quote_plain [OF s] utf8_byteLength_def)
qed

lemma hex_plain: "list_all hex_digit s \<Longrightarrow> list_all plain_char s"
  unfolding list_all_iff hex_digit_def Let_def plain_char_def by fastforce

lemma bytes32_plain:
  assumes "ethers_laws E" and "is_bytes32 E False s s"
  shows "list_all plain_char s" "length s = 66"
proof -
  have h: "hex_string s 32" using assms by (simp add: is_bytes32_def laws_isHexString)
  then show "length s = 66" by (simp add: hex_string_def)
  from h have s: "s = ''0x'' @ drop 2 s" "list_all hex_digit (drop 2 s)"
    unfolding hex_string_def using append_take_drop_id [of 2 s] by simp_all
  have "list_all plain_char (''0x'' @ drop 2 s)" using hex_plain [OF s(2)] by (simp add: plain_char_def)
  with s(1) show "list_all plain_char s" by simp
qed

lemma digits_plain: "list_all decimal_digit s \<Longrightarrow> list_all plain_char s"
  unfolding list_all_iff decimal_digit_def plain_char_def by fastforce

lemma length_show_nat: "n < 10 ^ k \<Longrightarrow> 0 < k \<Longrightarrow> length (show_nat n) \<le> k"
proof (induction k arbitrary: n)
  case (Suc k)
  show ?case
  proof (cases "n < 10")
    case False
    with Suc.prems have "n div 10 < 10 ^ k" "0 < k" by (auto simp: less_mult_imp_div_less) (cases k; simp)+
    with Suc.IH [of "n div 10"] False show ?thesis by (simp add: show_nat.simps [of n])
  qed (simp add: show_nat.simps [of n])
qed simp

lemma stored_uint_plain:
  assumes "stored_uint bits s" and "(2 :: int) ^ bits \<le> 10 ^ k" and "0 < k"
  shows "list_all plain_char s" "length s \<le> k"
proof -
  from assms(1) obtain n where n: "s = show_nat (nat n)" "0 \<le> n" "n < 2 ^ bits"
    by (auto simp: stored_uint_def uint_fits_def show_int_def)
  then show "list_all plain_char s" using digits_plain [OF show_nat_digits] by simp
  from n assms(2) have "int (nat n) < 10 ^ k" by simp
  then have "nat n < 10 ^ k" by (metis of_nat_less_imp_less of_nat_numeral of_nat_power)
  with length_show_nat assms(3) n(1) show "length s \<le> k" by simp
qed

lemma kind_plain: "list_all plain_char (ROLE_KIND_MAP r)" "length (ROLE_KIND_MAP r) = 36"
  by (simp_all add: ROLE_KIND_MAP_def staging_kinds plain_char_def)

definition entry_fields_wf :: "ethers \<Rightarrow> int \<Rightarrow> StoredManifestEntry \<Rightarrow> bool" where
  "entry_fields_wf E slot e \<longleftrightarrow> me_role e = SafeInteger slot \<and> me_candidateKind e = ROLE_KIND_MAP slot \<and>
     me_candidateVersion e = SafeInteger 1 \<and>
     is_bytes32 E False (me_publicCandidateCommitment e) (me_publicCandidateCommitment e) \<and>
     stored_uint 64 (me_credentialGeneration e) \<and> stored_uint 48 (me_stagedAtUnixSeconds e)"

text \<open>An entry with these fields takes far less than the limit of 512 bytes.\<close>

lemma entry_bytes_bound:
  assumes laws: "ethers_laws E" and wf: "entry_fields_wf E slot e" and slot: "slot \<in> {0, 1, 2}"
  shows "compactStoredEntryBytes e \<le> 275"
proof -
  from wf have e: "me_role e = SafeInteger slot" "me_candidateKind e = ROLE_KIND_MAP slot"
    "me_candidateVersion e = SafeInteger 1"
    and c: "is_bytes32 E False (me_publicCandidateCommitment e) (me_publicCandidateCommitment e)"
    and g: "stored_uint 64 (me_credentialGeneration e)" and t: "stored_uint 48 (me_stagedAtUnixSeconds e)"
    unfolding entry_fields_wf_def by blast+
  have one: "utf8_byteLength [x] = 1" if "(of_char x :: nat) < 128" for x
    using that by (simp add: utf8_byteLength_def)
  have cons: "utf8_byteLength (x # s) = 1 + utf8_byteLength s" if "(of_char x :: nat) < 128" for x s
    using that by (simp add: utf8_byteLength_def)
  have "show_int 0 = ''0''" "show_int 1 = ''1''" "show_int 2 = ''2''"
    by (simp_all add: show_int_def show_nat.simps digit_char_def char_of_def bit_0)
  then have digit: "utf8_byteLength (show_int r) = 1" if "r \<in> {0, 1, 2}" for r
    using that by (auto simp: one)
  have kind: "utf8_byteLength (quote (me_candidateKind e)) = 38"
    using quote_bytes [OF kind_plain(1)] e kind_plain(2) by simp
  have commit: "utf8_byteLength (quote (me_publicCandidateCommitment e)) = 68"
    using quote_bytes [OF bytes32_plain(1) [OF laws c]] bytes32_plain(2) [OF laws c] by simp
  have gen: "utf8_byteLength (quote (me_credentialGeneration e)) \<le> 22"
    using quote_bytes [OF stored_uint_plain(1) [OF g, of 20]] stored_uint_plain(2) [OF g, of 20] by simp
  have staged: "utf8_byteLength (quote (me_stagedAtUnixSeconds e)) \<le> 17"
    using quote_bytes [OF stored_uint_plain(1) [OF t, of 15]] stored_uint_plain(2) [OF t, of 15] by simp
  have keys: "utf8_byteLength (quote ''role'') = 6" "utf8_byteLength (quote ''candidateKind'') = 15"
    "utf8_byteLength (quote ''candidateVersion'') = 18" "utf8_byteLength (quote ''publicCandidateCommitment'') = 27"
    "utf8_byteLength (quote ''credentialGeneration'') = 22" "utf8_byteLength (quote ''stagedAtUnixSeconds'') = 21"
    by (simp_all add: quote_bytes plain_char_def)
  show ?thesis
    using gen staged digit [OF slot] digit [of 1]
    by (simp add: e kind [unfolded e(2)] commit keys utf8_byteLength_def [of "[]"] compactStoredEntryBytes_def entry_text_def object_text_def comma_separated_Cons cons one)
qed

lemma entry_not_oversized:
  assumes "ethers_laws E" and "entry_fields_wf E slot e" and "slot \<in> {0, 1, 2}"
  shows "validateManifestEntryOversized e = Inr ()"
  using entry_bytes_bound [OF assms] by (simp add: validateManifestEntryOversized_def MAX_MANIFEST_ENTRY_BYTES_def)

definition entry_wf :: "ethers \<Rightarrow> int \<Rightarrow> string \<Rightarrow> string \<Rightarrow> string \<Rightarrow> StoredManifestEntry \<Rightarrow> bool" where
  "entry_wf E slot created updated expires e \<longleftrightarrow> entry_fields_wf E slot e \<and>
     decimal_value created \<le> decimal_value (me_stagedAtUnixSeconds e) \<and>
     decimal_value (me_stagedAtUnixSeconds e) \<le> decimal_value updated \<and>
     decimal_value (me_stagedAtUnixSeconds e) \<le> decimal_value expires"

definition entry_shown :: "host_value \<Rightarrow> StoredManifestEntry \<Rightarrow> bool" where
  "entry_shown v e \<longleftrightarrow> (\<exists>obj. closed_answers v MANIFEST_ENTRY_OWN_KEYS obj \<and>
     getAnswer obj ''role'' = Returns (NumberHost (me_role e)) \<and>
     getAnswer obj ''candidateKind'' = Returns (StringHost (me_candidateKind e)) \<and>
     getAnswer obj ''candidateVersion'' = Returns (NumberHost (me_candidateVersion e)) \<and>
     getAnswer obj ''publicCandidateCommitment'' = Returns (StringHost (me_publicCandidateCommitment e)) \<and>
     getAnswer obj ''credentialGeneration'' = Returns (StringHost (me_credentialGeneration e)) \<and>
     getAnswer obj ''stagedAtUnixSeconds'' = Returns (StringHost (me_stagedAtUnixSeconds e)))"

definition slot_wf :: "ethers \<Rightarrow> int \<Rightarrow> string \<Rightarrow> string \<Rightarrow> string \<Rightarrow> StoredManifestEntry option \<Rightarrow> bool" where
  "slot_wf E slot created updated expires s \<longleftrightarrow>
     (case s of None \<Rightarrow> True | Some e \<Rightarrow> entry_wf E slot created updated expires e)"

definition slot_shown :: "host_value \<Rightarrow> StoredManifestEntry option \<Rightarrow> bool" where
  "slot_shown v s \<longleftrightarrow> (case s of None \<Rightarrow> v = NullHost | Some e \<Rightarrow> entry_shown v e)"

text \<open>A value that is not a string is measured as the empty string, which no field check accepts.\<close>

lemma string_or_empty_bytes32:
  assumes "ethers_laws E" and "is_bytes32 E False (string_or_empty v) t"
  shows "v = StringHost (string_or_empty v)"
proof -
  from assms have "hex_string (string_or_empty v) 32" by (simp add: is_bytes32_def laws_isHexString)
  then show ?thesis by (cases v) (auto simp: hex_string_def)
qed

lemma string_or_empty_uint: "stored_uint bits (string_or_empty v) \<Longrightarrow> v = StringHost (string_or_empty v)"
  using stored_uint_value(4) [of bits "string_or_empty v"] by (cases v) (auto simp: canonical_uint_def)

lemma string_or_empty_kind: "string_or_empty v = ROLE_KIND_MAP r \<Longrightarrow> v = StringHost (ROLE_KIND_MAP r)"
  using kind_plain(2) [of r] by (cases v) auto

lemma role_kind_valid: "ROLE_KIND_MAP r \<in> set VALID_CANDIDATE_KINDS"
  by (simp add: ROLE_KIND_MAP_def VALID_CANDIDATE_KINDS_def)

text \<open>The fields of the entry that is returned, and those it is read from.\<close>

definition read_entry ::
  "host_object \<Rightarrow> host_value \<Rightarrow> host_value \<Rightarrow> host_value \<Rightarrow> host_value \<Rightarrow> host_value \<Rightarrow> host_value \<Rightarrow> bool" where
  "read_entry obj r k ver c g t \<longleftrightarrow> getAnswer obj ''role'' = Returns r \<and> getAnswer obj ''candidateKind'' = Returns k \<and>
     getAnswer obj ''candidateVersion'' = Returns ver \<and> getAnswer obj ''publicCandidateCommitment'' = Returns c \<and>
     getAnswer obj ''credentialGeneration'' = Returns g \<and> getAnswer obj ''stagedAtUnixSeconds'' = Returns t"

lemma validate_entry_parts:
  "v \<noteq> NullHost \<Longrightarrow> validateStoredManifestEntry E slot v cr up ex = Inr out \<longleftrightarrow>
    (\<exists>obj r k ver c g t. closed_answers v MANIFEST_ENTRY_OWN_KEYS obj \<and> read_entry obj r k ver c g t \<and>
      validateManifestEntryOversized
            \<lparr>me_role = number_or 0 r, me_candidateKind = string_or_empty k, me_candidateVersion = number_or 1 ver,
             me_publicCandidateCommitment = string_or_empty c, me_credentialGeneration = string_or_empty g,
             me_stagedAtUnixSeconds = string_or_empty t\<rparr> = Inr () \<and>
      r \<in> {NumberHost (SafeInteger 0), NumberHost (SafeInteger 1), NumberHost (SafeInteger 2)} \<and>
      r = NumberHost (SafeInteger slot) \<and> string_or_empty k \<in> set VALID_CANDIDATE_KINDS \<and>
      string_or_empty k = ROLE_KIND_MAP slot \<and> ver = NumberHost (SafeInteger 1) \<and>
      is_bytes32 E False (string_or_empty c) (string_or_empty c) \<and> stored_uint 64 (string_or_empty g) \<and>
      stored_uint 48 (string_or_empty t) \<and> staged_order cr up ex (string_or_empty t) \<and>
      out = Some \<lparr>me_role = SafeInteger slot, me_candidateKind = string_or_empty k, me_candidateVersion = SafeInteger 1,
          me_publicCandidateCommitment = string_or_empty c, me_credentialGeneration = string_or_empty g,
          me_stagedAtUnixSeconds = string_or_empty t\<rparr>)"
  unfolding validateStoredManifestEntry_def host_null_iff read_entry_def
  by (simp only: if_False bnd_eq_Inr readOwnProperty_iff closed_object_iff check_iff host_integer_iff
      requireNonZeroBytes32_iff requireNonzeroCanonicalUintString_iff requirePositiveCanonicalUintString_iff
      uint_shown_string host_value.inject sum.inject ex_simps simp_thms insert_iff empty_iff)
     (intro iffI; elim exE conjE; hypsubst; intro exI conjI; (assumption | rule refl | simp))

lemma validateStoredManifestEntry_iff:
  assumes laws: "ethers_laws E" and slot: "slot \<in> {0, 1, 2}"
  shows "validateStoredManifestEntry E slot v cr up ex = Inr out \<longleftrightarrow> slot_shown v out \<and> slot_wf E slot cr up ex out"
proof (cases "v = NullHost")
  case True
  then have "\<not> entry_shown v e" for e by (simp add: entry_shown_def closed_answers_def)
  with True show ?thesis
    by (auto simp: validateStoredManifestEntry_def slot_shown_def slot_wf_def split: option.splits)
next
  case False
  show ?thesis
  proof
    assume "validateStoredManifestEntry E slot v cr up ex = Inr out"
    then obtain obj r k ver c g t where obj: "closed_answers v MANIFEST_ENTRY_OWN_KEYS obj" "read_entry obj r k ver c g t"
      and f: "r = NumberHost (SafeInteger slot)" "string_or_empty k = ROLE_KIND_MAP slot"
        "ver = NumberHost (SafeInteger 1)" "is_bytes32 E False (string_or_empty c) (string_or_empty c)"
        "stored_uint 64 (string_or_empty g)" "stored_uint 48 (string_or_empty t)" "staged_order cr up ex (string_or_empty t)"
        "out = Some \<lparr>me_role = SafeInteger slot, me_candidateKind = string_or_empty k, me_candidateVersion = SafeInteger 1,
          me_publicCandidateCommitment = string_or_empty c, me_credentialGeneration = string_or_empty g,
          me_stagedAtUnixSeconds = string_or_empty t\<rparr>"
      unfolding validate_entry_parts [OF False] by blast
    have raw: "k = StringHost (ROLE_KIND_MAP slot)" "c = StringHost (string_or_empty c)"
      "g = StringHost (string_or_empty g)" "t = StringHost (string_or_empty t)"
      using string_or_empty_kind [OF f(2)] string_or_empty_bytes32 [OF laws f(4)] string_or_empty_uint [OF f(5)]
        string_or_empty_uint [OF f(6)] by blast+
    have "entry_shown v (the out)"
      unfolding entry_shown_def using obj f raw by (intro exI [of _ obj]) (simp add: read_entry_def)
    with f show "slot_shown v out \<and> slot_wf E slot cr up ex out"
      by (auto simp: slot_shown_def slot_wf_def entry_wf_def entry_fields_wf_def staged_order_def)
  next
    assume r: "slot_shown v out \<and> slot_wf E slot cr up ex out"
    with False obtain e where e: "out = Some e" "entry_shown v e" "entry_wf E slot cr up ex e"
      by (cases out) (auto simp: slot_shown_def slot_wf_def)
    then have w: "entry_fields_wf E slot e" by (simp add: entry_wf_def)
    from e(2) obtain obj where obj: "closed_answers v MANIFEST_ENTRY_OWN_KEYS obj"
      "read_entry obj (NumberHost (me_role e)) (StringHost (me_candidateKind e)) (NumberHost (me_candidateVersion e))
        (StringHost (me_publicCandidateCommitment e)) (StringHost (me_credentialGeneration e))
        (StringHost (me_stagedAtUnixSeconds e))"
      unfolding entry_shown_def read_entry_def by blast
    have size: "validateManifestEntryOversized \<lparr>me_role = SafeInteger slot, me_candidateKind = ROLE_KIND_MAP slot,
        me_candidateVersion = SafeInteger 1, me_publicCandidateCommitment = me_publicCandidateCommitment e,
        me_credentialGeneration = me_credentialGeneration e, me_stagedAtUnixSeconds = me_stagedAtUnixSeconds e\<rparr> = Inr ()"
      using entry_not_oversized [OF laws w slot] w by (cases e) (simp add: entry_fields_wf_def)
    show "validateStoredManifestEntry E slot v cr up ex = Inr out"
      unfolding validate_entry_parts [OF False]
      by (intro exI conjI, rule obj, rule obj)
         (use w e size slot role_kind_valid [of slot] in
           \<open>auto simp: entry_fields_wf_def entry_wf_def staged_order_def\<close>)
  qed
qed

section \<open>Journals\<close>

text \<open>The digest is written as 64 digits and lower-case letters.\<close>

definition sha256_law :: "(string \<Rightarrow> string) \<Rightarrow> bool" where
  "sha256_law sha256Hex \<longleftrightarrow> (\<forall>text. checksum_format (''0x'' @ sha256Hex text))"

text \<open>The times of a journal: created before the expiry, updated in the past of what the state says.\<close>

definition times_wf :: "StagingJournalState \<Rightarrow> int \<Rightarrow> int \<Rightarrow> int \<Rightarrow> bool" where
  "times_wf st created updated expires \<longleftrightarrow> created < expires \<and> created \<le> updated \<and>
     (st \<in> {JOURNAL_STAGING, JOURNAL_CANCELLED} \<longrightarrow> updated < expires) \<and>
     (st = JOURNAL_EXPIRED \<longrightarrow> expires \<le> updated)"

definition manifest_wf :: "ethers \<Rightarrow> string \<Rightarrow> string \<Rightarrow> string \<Rightarrow> StagingManifest \<Rightarrow> bool" where
  "manifest_wf E created updated expires m \<longleftrightarrow> slot_wf E 0 created updated expires (sm_0 m) \<and>
     slot_wf E 1 created updated expires (sm_1 m) \<and> slot_wf E 2 created updated expires (sm_2 m)"

definition fields_wf :: "ethers \<Rightarrow> 'a StagingJournalRecordWithoutChecksum_scheme \<Rightarrow> bool" where
  "fields_wf E j \<longleftrightarrow> sj_schemaVersion j = 1 \<and>
     sj_formatProvenance j = PHILCORE_V2_STAGING_JOURNAL_FORMAT_PROVENANCE \<and>
     stored_uint 48 (sj_createdAtUnixSeconds j) \<and> stored_uint 48 (sj_updatedAtUnixSeconds j) \<and>
     times_wf (sj_state j) (decimal_value (sj_createdAtUnixSeconds j)) (decimal_value (sj_updatedAtUnixSeconds j))
       (decimal_value (cc_expiresAtUnixSeconds j)) \<and>
     manifest_wf E (sj_createdAtUnixSeconds j) (sj_updatedAtUnixSeconds j) (cc_expiresAtUnixSeconds j) (sj_manifest j) \<and>
     sj_endReason j = (if sj_state j = JOURNAL_STAGING then None else Some (sj_state j))"

definition journal_wf :: "ethers \<Rightarrow> (string \<Rightarrow> string) \<Rightarrow> StagingJournalRecord \<Rightarrow> bool" where
  "journal_wf E sha256Hex j \<longleftrightarrow> context_wf E j \<and> fields_wf E j \<and>
     sj_integrityChecksum j = computeStagingJournalChecksum sha256Hex j"

text \<open>The properties of a value that show a record.\<close>

definition manifest_shown :: "host_value \<Rightarrow> StagingManifest \<Rightarrow> bool" where
  "manifest_shown v m \<longleftrightarrow> (\<exists>obj. closed_answers v MANIFEST_SLOT_KEYS obj \<and>
     (\<exists>w. getAnswer obj ''0'' = Returns w \<and> slot_shown w (sm_0 m)) \<and>
     (\<exists>w. getAnswer obj ''1'' = Returns w \<and> slot_shown w (sm_1 m)) \<and>
     (\<exists>w. getAnswer obj ''2'' = Returns w \<and> slot_shown w (sm_2 m)))"

definition fields_shown :: "host_object \<Rightarrow> 'a StagingJournalRecordWithoutChecksum_scheme \<Rightarrow> bool" where
  "fields_shown obj j \<longleftrightarrow>
     getAnswer obj ''state'' = Returns (StringHost (journal_state_name (sj_state j))) \<and>
     (\<exists>v. getAnswer obj ''createdAtUnixSeconds'' = Returns v \<and> uint_shown 48 v (sj_createdAtUnixSeconds j)) \<and>
     (\<exists>v. getAnswer obj ''updatedAtUnixSeconds'' = Returns v \<and> uint_shown 48 v (sj_updatedAtUnixSeconds j)) \<and>
     (\<exists>v. getAnswer obj ''manifest'' = Returns v \<and> manifest_shown v (sj_manifest j)) \<and>
     getAnswer obj ''endReason'' = Returns (end_reason_value (sj_endReason j))"

definition journal_shown :: "host_value \<Rightarrow> StagingJournalRecord \<Rightarrow> bool" where
  "journal_shown v j \<longleftrightarrow> (\<exists>obj. closed_answers v JOURNAL_OWN_KEYS obj \<and>
     getAnswer obj ''schemaVersion'' = Returns (NumberHost (SafeInteger (sj_schemaVersion j))) \<and>
     getAnswer obj ''formatProvenance'' = Returns (StringHost (sj_formatProvenance j)) \<and>
     context_shown obj j \<and> fields_shown obj j \<and>
     getAnswer obj ''integrityChecksum'' = Returns (StringHost (sj_integrityChecksum j)))"

lemma validateJournalStateTimestamps_iff [result_simps]:
  "validateJournalStateTimestamps st c u e = Inr x \<longleftrightarrow> times_wf st (decimal_value c) (decimal_value u) (decimal_value e)"
  by (cases st) (auto simp: validateJournalStateTimestamps_def times_wf_def result_simps Let_def)

lemma journal_manifest_iff:
  assumes laws: "ethers_laws E"
  shows "journal_manifest E obj cr up ex = Inr m \<longleftrightarrow>
    (\<exists>v. getAnswer obj ''manifest'' = Returns v \<and> manifest_shown v m) \<and> manifest_wf E cr up ex m"
proof -
  have slots: "validateStoredManifestEntry E 0 v cr up ex = Inr out \<longleftrightarrow> slot_shown v out \<and> slot_wf E 0 cr up ex out"
    "validateStoredManifestEntry E 1 v cr up ex = Inr out \<longleftrightarrow> slot_shown v out \<and> slot_wf E 1 cr up ex out"
    "validateStoredManifestEntry E 2 v cr up ex = Inr out \<longleftrightarrow> slot_shown v out \<and> slot_wf E 2 cr up ex out"
    for v out by (rule validateStoredManifestEntry_iff [OF laws]; simp)+
  show ?thesis
    unfolding journal_manifest_def manifest_shown_def manifest_wf_def bnd_eq_Inr readOwnProperty_iff closed_object_iff slots
    by (cases m) auto
qed

abbreviation without_checksum :: "NormalizedCeremonyContext \<Rightarrow> StagingJournalState \<Rightarrow> string \<Rightarrow> string \<Rightarrow>
    StagingManifest \<Rightarrow> StagingJournalState option \<Rightarrow> StagingJournalRecordWithoutChecksum" where
  "without_checksum c st created updated m reason \<equiv> NormalizedCeremonyContext.extend c
     (StagingJournalRecordWithoutChecksum.fields PHILCORE_V2_STAGING_JOURNAL_SCHEMA_VERSION
        PHILCORE_V2_STAGING_JOURNAL_FORMAT_PROVENANCE st created updated m reason)"

lemmas record_parts = NormalizedCeremonyContext.defs StagingJournalRecordWithoutChecksum.defs StagingJournalRecord.defs

lemma journal_fields_iff:
  assumes laws: "ethers_laws E"
  shows "journal_fields E obj c = Inr w \<longleftrightarrow>
    fields_shown obj w \<and> fields_wf E w \<and> NormalizedCeremonyContext.truncate w = c"
proof
  assume "journal_fields E obj c = Inr w"
  then obtain st cr up m r v1 v2 where
    "getAnswer obj ''state'' = Returns (StringHost (journal_state_name st))"
    "getAnswer obj ''createdAtUnixSeconds'' = Returns v1" "uint_shown 48 v1 cr"
    "getAnswer obj ''updatedAtUnixSeconds'' = Returns v2" "uint_shown 48 v2 up"
    "times_wf st (decimal_value cr) (decimal_value up) (decimal_value (cc_expiresAtUnixSeconds c))"
    "\<exists>v. getAnswer obj ''manifest'' = Returns v \<and> manifest_shown v m"
    "manifest_wf E cr up (cc_expiresAtUnixSeconds c) m"
    "getAnswer obj ''endReason'' = Returns (end_reason_value r)" "r = (if st = JOURNAL_STAGING then None else Some st)"
    and w: "w = without_checksum c st cr up m r"
    unfolding journal_fields_def bnd_eq_Inr readOwnProperty_iff require_state_iff requirePositiveCanonicalUintString_iff
      validateJournalStateTimestamps_iff journal_manifest_iff [OF laws] validateEndReason_iff
    by (elim exE conjE) (metis sum.inject(2))
  then show "fields_shown obj w \<and> fields_wf E w \<and> NormalizedCeremonyContext.truncate w = c"
    unfolding fields_shown_def fields_wf_def
    by (cases c) (auto simp: record_parts PHILCORE_V2_STAGING_JOURNAL_SCHEMA_VERSION_def dest: uint_shown_stored)
next
  assume r: "fields_shown obj w \<and> fields_wf E w \<and> NormalizedCeremonyContext.truncate w = c"
  then have "w = without_checksum c (sj_state w) (sj_createdAtUnixSeconds w) (sj_updatedAtUnixSeconds w) (sj_manifest w)
      (sj_endReason w)"
    by (cases w) (auto simp: fields_wf_def record_parts PHILCORE_V2_STAGING_JOURNAL_SCHEMA_VERSION_def)
  moreover from r have "cc_expiresAtUnixSeconds c = cc_expiresAtUnixSeconds w" by (auto simp: record_parts)
  ultimately show "journal_fields E obj c = Inr w"
    using r unfolding journal_fields_def fields_shown_def fields_wf_def bnd_eq_Inr readOwnProperty_iff require_state_iff
      requirePositiveCanonicalUintString_iff validateJournalStateTimestamps_iff journal_manifest_iff [OF laws]
      validateEndReason_iff
    by (elim exE conjE, intro exI conjI) (assumption | rule refl | simp)+
qed

lemma wf_truncate [simp]:
  "context_fields_wf E (NormalizedCeremonyContext.truncate j) = context_fields_wf E j"
  "context_commitment E (NormalizedCeremonyContext.truncate j) = context_commitment E j"
  "context_wf E (NormalizedCeremonyContext.truncate j) = context_wf E j"
  "context_shown obj (NormalizedCeremonyContext.truncate j) = context_shown obj j"
  "cc_enrollmentCeremonyHash (NormalizedCeremonyContext.truncate j) = cc_enrollmentCeremonyHash j"
  by (simp_all add: context_fields_wf_def context_commitment_def context_wf_def context_shown_def record_parts)

lemma checksum_extend [simp]:
  "computeStagingJournalChecksum sha256Hex (StagingJournalRecordWithoutChecksum.extend w x) =
     computeStagingJournalChecksum sha256Hex w"
  "context_wf E (StagingJournalRecordWithoutChecksum.extend w x) = context_wf E w"
  "fields_wf E (StagingJournalRecordWithoutChecksum.extend w x) = fields_wf E w"
  "context_shown obj (StagingJournalRecordWithoutChecksum.extend w x) = context_shown obj w"
  "fields_shown obj (StagingJournalRecordWithoutChecksum.extend w x) = fields_shown obj w"
  by (simp_all add: computeStagingJournalChecksum_def checksum_projection_def context_wf_def context_fields_wf_def
      context_commitment_def fields_wf_def context_shown_def fields_shown_def record_parts)

lemma checksum_truncate [simp]:
  "computeStagingJournalChecksum sha256Hex (StagingJournalRecordWithoutChecksum.truncate j) =
     computeStagingJournalChecksum sha256Hex j"
  "context_wf E (StagingJournalRecordWithoutChecksum.truncate j) = context_wf E j"
  "fields_wf E (StagingJournalRecordWithoutChecksum.truncate j) = fields_wf E j"
  "context_shown obj (StagingJournalRecordWithoutChecksum.truncate j) = context_shown obj j"
  "fields_shown obj (StagingJournalRecordWithoutChecksum.truncate j) = fields_shown obj j"
  "sj_schemaVersion (StagingJournalRecordWithoutChecksum.truncate j) = sj_schemaVersion j"
  "sj_formatProvenance (StagingJournalRecordWithoutChecksum.truncate j) = sj_formatProvenance j"
  by (simp_all add: computeStagingJournalChecksum_def checksum_projection_def context_wf_def context_fields_wf_def
      context_commitment_def fields_wf_def context_shown_def fields_shown_def record_parts)

lemma journal_split:
  "j = StagingJournalRecordWithoutChecksum.extend (StagingJournalRecordWithoutChecksum.truncate j)
     (StagingJournalRecord.fields (sj_integrityChecksum j))"
  "sj_integrityChecksum (StagingJournalRecordWithoutChecksum.extend w (StagingJournalRecord.fields s)) = s"
  "sj_schemaVersion (StagingJournalRecordWithoutChecksum.extend w (StagingJournalRecord.fields s)) = sj_schemaVersion w"
  "sj_formatProvenance (StagingJournalRecordWithoutChecksum.extend w (StagingJournalRecord.fields s)) = sj_formatProvenance w"
  by (simp_all add: record_parts)

lemma validateJournalContextHash_iff:
  "context_fields_wf E c \<Longrightarrow> validateJournalContextHash E c = Inr u \<longleftrightarrow> cc_enrollmentCeremonyHash c = context_commitment E c"
  by (auto simp: validateJournalContextHash_def enrollment_from_context result_simps)

lemma require_checksum_iff [result_simps]: "require_checksum v = Inr s \<longleftrightarrow> v = StringHost s \<and> checksum_format s"
  by (cases v) (auto simp: result_simps)

text \<open>The record that a validation returns, before its checksum is attached.\<close>

lemma validate_journal_parts:
  assumes laws: "ethers_laws E"
  shows "validateStagingJournalRecord E sha256Hex v = Inr j \<longleftrightarrow>
    (\<exists>obj w s. closed_answers v JOURNAL_OWN_KEYS obj \<and>
       getAnswer obj ''schemaVersion'' = Returns (NumberHost (SafeInteger (sj_schemaVersion w))) \<and>
       getAnswer obj ''formatProvenance'' = Returns (StringHost (sj_formatProvenance w)) \<and>
       context_shown obj w \<and> context_wf E w \<and> fields_shown obj w \<and> fields_wf E w \<and>
       getAnswer obj ''integrityChecksum'' = Returns (StringHost s) \<and> checksum_format s \<and>
       s = computeStagingJournalChecksum sha256Hex w \<and>
       j = StagingJournalRecordWithoutChecksum.extend w (StagingJournalRecord.fields s))" (is "?l \<longleftrightarrow> ?r")
proof
  assume ?l
  then obtain obj c w s where "closed_answers v JOURNAL_OWN_KEYS obj" "journal_context E obj = Inr c"
    "journal_fields E obj c = Inr w" "\<exists>u. validateJournalContextHash E c = Inr u"
    "getAnswer obj ''integrityChecksum'' = Returns (StringHost s)" "checksum_format s"
    "computeStagingJournalChecksum sha256Hex w = s"
    "j = StagingJournalRecordWithoutChecksum.extend w (StagingJournalRecord.fields s)"
    unfolding validateStagingJournalRecord_def bnd_eq_Inr journal_call_iff closed_object_iff check_iff readOwnProperty_iff
      require_checksum_iff by blast
  then show ?r
    unfolding journal_context_iff journal_fields_iff [OF laws]
    by (intro exI [of _ obj] exI [of _ w] exI [of _ s])
       (auto simp: validateJournalContextHash_iff context_wf_def fields_wf_def PHILCORE_V2_STAGING_JOURNAL_SCHEMA_VERSION_def)
next
  assume ?r
  then obtain obj w s where o: "closed_answers v JOURNAL_OWN_KEYS obj"
    "getAnswer obj ''schemaVersion'' = Returns (NumberHost (SafeInteger (sj_schemaVersion w)))"
    "getAnswer obj ''formatProvenance'' = Returns (StringHost (sj_formatProvenance w))"
    "context_shown obj w" "context_wf E w" "fields_shown obj w" "fields_wf E w"
    "getAnswer obj ''integrityChecksum'' = Returns (StringHost s)" "checksum_format s"
    "computeStagingJournalChecksum sha256Hex w = s"
    "j = StagingJournalRecordWithoutChecksum.extend w (StagingJournalRecord.fields s)"
    by blast
  let ?c = "NormalizedCeremonyContext.truncate w"
  have c: "journal_context E obj = Inr ?c"
    unfolding journal_context_iff using o by (simp add: context_wf_def fields_wf_def PHILCORE_V2_STAGING_JOURNAL_SCHEMA_VERSION_def)
  have f: "journal_fields E obj ?c = Inr w" unfolding journal_fields_iff [OF laws] using o by simp
  have "cc_enrollmentCeremonyHash ?c = context_commitment E ?c" "context_fields_wf E ?c"
    using o(5) by (simp_all add: context_wf_def)
  then have h: "validateJournalContextHash E ?c = Inr ()" by (simp add: validateJournalContextHash_iff)
  show ?l
    unfolding validateStagingJournalRecord_def bnd_eq_Inr journal_call_iff closed_object_iff check_iff readOwnProperty_iff
      require_checksum_iff
    using o c f h by blast
qed

lemma validateStagingJournalRecord_iff:
  assumes laws: "ethers_laws E" "sha256_law sha256Hex"
  shows "validateStagingJournalRecord E sha256Hex v = Inr j \<longleftrightarrow> journal_shown v j \<and> journal_wf E sha256Hex j"
proof
  assume "validateStagingJournalRecord E sha256Hex v = Inr j"
  then show "journal_shown v j \<and> journal_wf E sha256Hex j"
    unfolding validate_journal_parts [OF laws(1)] journal_shown_def journal_wf_def by (auto simp: journal_split)
next
  assume r: "journal_shown v j \<and> journal_wf E sha256Hex j"
  let ?w = "StagingJournalRecordWithoutChecksum.truncate j"
  have "checksum_format (computeStagingJournalChecksum sha256Hex j)"
    using laws(2) by (simp add: sha256_law_def computeStagingJournalChecksum_def)
  with r show "validateStagingJournalRecord E sha256Hex v = Inr j"
    unfolding validate_journal_parts [OF laws(1)] journal_shown_def journal_wf_def
    by (elim exE conjE; intro exI [of _ ?w] exI [of _ "sj_integrityChecksum j"] exI conjI)
       (assumption | rule journal_split(1) | simp)+
qed

text \<open>A record shows itself.\<close>

lemma entry_value_shown: "slot_shown (entry_value s) s"
proof (cases s)
  case (Some e)
  let ?ps = "[(''role'', NumberHost (me_role e)), (''candidateKind'', StringHost (me_candidateKind e)),
     (''candidateVersion'', NumberHost (me_candidateVersion e)),
     (''publicCandidateCommitment'', StringHost (me_publicCandidateCommitment e)),
     (''credentialGeneration'', StringHost (me_credentialGeneration e)),
     (''stagedAtUnixSeconds'', StringHost (me_stagedAtUnixSeconds e))]"
  have "set (map fst ?ps) = set MANIFEST_ENTRY_OWN_KEYS" by (simp add: MANIFEST_ENTRY_OWN_KEYS_def)
  from literal_value_closed [OF this] obtain obj where "closed_answers (literal_value ?ps) MANIFEST_ENTRY_OWN_KEYS obj"
    "\<forall>k v. map_of ?ps k = Some v \<longrightarrow> getAnswer obj k = Returns v" by blast
  then show ?thesis using Some by (auto simp: slot_shown_def entry_shown_def entry_value_def)
qed (simp add: slot_shown_def entry_value_def)

lemma manifest_value_shown: "manifest_shown (manifest_value m) m"
proof -
  let ?ps = "[(''0'', entry_value (sm_0 m)), (''1'', entry_value (sm_1 m)), (''2'', entry_value (sm_2 m))]"
  have "set (map fst ?ps) = set MANIFEST_SLOT_KEYS" by (simp add: MANIFEST_SLOT_KEYS_def)
  from literal_value_closed [OF this] obtain obj where "closed_answers (literal_value ?ps) MANIFEST_SLOT_KEYS obj"
    "\<forall>k v. map_of ?ps k = Some v \<longrightarrow> getAnswer obj k = Returns v" by blast
  then show ?thesis using entry_value_shown by (auto simp: manifest_shown_def manifest_value_def)
qed

lemma journal_value_shown:
  assumes "journal_wf E sha256Hex j"
  shows "journal_shown (journal_value j) j"
proof -
  let ?ps = "[(''schemaVersion'', NumberHost (SafeInteger (sj_schemaVersion j))),
      (''formatProvenance'', StringHost (sj_formatProvenance j)), (''ceremonyId'', StringHost (cc_ceremonyId j)),
      (''enrollmentCeremonyHash'', StringHost (cc_enrollmentCeremonyHash j)),
      (''accountVersionId'', StringHost (cc_accountVersionId j)), (''securityModelId'', StringHost (cc_securityModelId j)),
      (''recoveryDomainId'', StringHost (cc_recoveryDomainId j)), (''account'', StringHost (cc_account j)),
      (''chainId'', StringHost (cc_chainId j)), (''entryPoint'', StringHost (cc_entryPoint j)),
      (''expectedRecoveryEpoch'', StringHost (cc_expectedRecoveryEpoch j)),
      (''expectedValidatorEpoch'', StringHost (cc_expectedValidatorEpoch j)),
      (''expiresAtUnixSeconds'', StringHost (cc_expiresAtUnixSeconds j)),
      (''state'', StringHost (journal_state_name (sj_state j))),
      (''createdAtUnixSeconds'', StringHost (sj_createdAtUnixSeconds j)),
      (''updatedAtUnixSeconds'', StringHost (sj_updatedAtUnixSeconds j)),
      (''manifest'', manifest_value (sj_manifest j)), (''endReason'', end_reason_value (sj_endReason j)),
      (''integrityChecksum'', StringHost (sj_integrityChecksum j))]"
  have "set (map fst ?ps) = set JOURNAL_OWN_KEYS" by (simp add: JOURNAL_OWN_KEYS_def)
  from literal_value_closed [OF this] obtain obj where obj: "closed_answers (journal_value j) JOURNAL_OWN_KEYS obj"
    and get: "\<And>k v. map_of ?ps k = Some v \<Longrightarrow> getAnswer obj k = Returns v"
    unfolding journal_value_def by blast
  have uints: "stored_uint 256 (cc_chainId j)" "stored_uint 64 (cc_expectedRecoveryEpoch j)"
    "stored_uint 64 (cc_expectedValidatorEpoch j)" "stored_uint 48 (cc_expiresAtUnixSeconds j)"
    "stored_uint 48 (sj_createdAtUnixSeconds j)" "stored_uint 48 (sj_updatedAtUnixSeconds j)"
    using assms by (simp_all add: journal_wf_def context_wf_def context_fields_wf_def fields_wf_def)
  have "context_shown obj j"
    unfolding context_shown_def
    by (intro conjI) ((rule get, simp) | (rule exI, rule conjI, rule get, simp, simp add: uint_shown_string uints))+
  moreover have "fields_shown obj j"
    unfolding fields_shown_def
    by (intro conjI) ((rule get, simp) | (rule exI, rule conjI, rule get, simp, simp add: uint_shown_string uints
        manifest_value_shown))+
  ultimately show ?thesis
    unfolding journal_shown_def using obj get by (intro exI [of _ obj]) simp
qed

lemma validate_journal_value:
  assumes "ethers_laws E" "sha256_law sha256Hex" "journal_wf E sha256Hex j"
  shows "validateStagingJournalRecord E sha256Hex (journal_value j) = Inr j"
  using assms by (simp add: validateStagingJournalRecord_iff journal_value_shown)

text \<open>The commitment does not throw where it is computed.\<close>

lemma validate_not_commitment:
  "validateStagingJournalRecord E sha256Hex v \<noteq> Inl (CommitmentError e)"
proof -
  have "validateJournalContextHash E c \<noteq> Inl (CommitmentError e)" if "journal_context E obj = Inr c" for obj c
    using that by (simp add: journal_context_iff validateJournalContextHash_def enrollment_from_context)
  then show ?thesis
    by (auto simp: validateStagingJournalRecord_def bnd_eq_Inl journal_call_iff)
qed

lemma normalize_not_commitment: "normalizeCeremonyContext E v \<noteq> Inl (CommitmentError e)"
proof -
  have "computeEnrollmentHashFromContext E c \<noteq> Inl (CommitmentError e)" if "context_fields E obj = Inr c" for obj c
    using that by (simp add: context_fields_iff enrollment_from_context)
  then show ?thesis
    by (auto simp: normalizeCeremonyContext_def bnd_eq_Inl journal_call_iff)
qed

end
