(* ===== verification/JournalSystem.thy ===== *)
theory JournalSystem
  imports JournalValidation RecoveryHost
begin

text \<open>
  The transitions of a staging journal: what each accepts and returns, the abstract machine they
  implement, its runs, and the binding of the checksum.
\<close>

section \<open>The records that are built\<close>

lemma build_parts [simp]:
  "sj_state (buildJournalRecord h r) = sj_state r" "sj_manifest (buildJournalRecord h r) = sj_manifest r"
  "sj_createdAtUnixSeconds (buildJournalRecord h r) = sj_createdAtUnixSeconds r"
  "sj_updatedAtUnixSeconds (buildJournalRecord h r) = sj_updatedAtUnixSeconds r"
  "cc_expiresAtUnixSeconds (buildJournalRecord h r) = cc_expiresAtUnixSeconds r"
  "NormalizedCeremonyContext.truncate (buildJournalRecord h r) = NormalizedCeremonyContext.truncate r"
  by (simp_all add: buildJournalRecord_def record_parts)

lemma build_wf [simp]: "journal_wf E h (buildJournalRecord h r) \<longleftrightarrow> context_wf E r \<and> fields_wf E r"
  by (simp add: journal_wf_def buildJournalRecord_def journal_split)

lemma updated_parts [simp]:
  "sj_state (updated_fields j st now m r) = st" "sj_manifest (updated_fields j st now m r) = m"
  "sj_createdAtUnixSeconds (updated_fields j st now m r) = sj_createdAtUnixSeconds j"
  "sj_updatedAtUnixSeconds (updated_fields j st now m r) = show_int now"
  "cc_expiresAtUnixSeconds (updated_fields j st now m r) = cc_expiresAtUnixSeconds j"
  "NormalizedCeremonyContext.truncate (updated_fields j st now m r) = NormalizedCeremonyContext.truncate j"
  "context_wf E (updated_fields j st now m r) = context_wf E j"
  "sj_schemaVersion (updated_fields j st now m r) = sj_schemaVersion j"
  "sj_formatProvenance (updated_fields j st now m r) = sj_formatProvenance j"
  "sj_endReason (updated_fields j st now m r) = r"
  by (simp_all add: updated_fields_def record_parts context_wf_def context_fields_wf_def context_commitment_def)

text \<open>
  A journal with another state and update time. It is well-formed again when the time does not go back
  and fits the state.
\<close>

definition advanced ::
  "(string \<Rightarrow> string) \<Rightarrow> StagingJournalRecord \<Rightarrow> StagingJournalState \<Rightarrow> int \<Rightarrow> StagingManifest \<Rightarrow> StagingJournalRecord" where
  "advanced h j st now m =
     buildJournalRecord h (updated_fields j st now m (if st = JOURNAL_STAGING then None else Some st))"

abbreviation created :: "StagingJournalRecord \<Rightarrow> int" where
  "created j \<equiv> decimal_value (sj_createdAtUnixSeconds j)"

abbreviation updated :: "StagingJournalRecord \<Rightarrow> int" where
  "updated j \<equiv> decimal_value (sj_updatedAtUnixSeconds j)"

abbreviation expires :: "StagingJournalRecord \<Rightarrow> int" where
  "expires j \<equiv> decimal_value (cc_expiresAtUnixSeconds j)"

lemma advanced_parts [simp]:
  "sj_state (advanced h j st now m) = st" "sj_manifest (advanced h j st now m) = m"
  "sj_createdAtUnixSeconds (advanced h j st now m) = sj_createdAtUnixSeconds j"
  "sj_updatedAtUnixSeconds (advanced h j st now m) = show_int now"
  "cc_expiresAtUnixSeconds (advanced h j st now m) = cc_expiresAtUnixSeconds j"
  "NormalizedCeremonyContext.truncate (advanced h j st now m) = NormalizedCeremonyContext.truncate j"
  by (simp_all add: advanced_def)

text \<open>The time of an operation on a journal.\<close>

definition journal_clock :: "host_value \<Rightarrow> StagingJournalRecord \<Rightarrow> int \<Rightarrow> bool" where
  "journal_clock v j n \<longleftrightarrow> v = NumberHost (SafeInteger n) \<and> 0 < n \<and> n < 2 ^ 48 \<and> updated j \<le> n"

lemma advanced_wf:
  assumes wf: "journal_wf E h j" and n: "0 < n" "n < 2 ^ 48" "updated j \<le> n"
    and state: "st \<in> {JOURNAL_STAGING, JOURNAL_CANCELLED} \<longrightarrow> n < expires j" "st = JOURNAL_EXPIRED \<longrightarrow> expires j \<le> n"
    and m: "manifest_wf E (sj_createdAtUnixSeconds j) (show_int n) (cc_expiresAtUnixSeconds j) m"
  shows "journal_wf E h (advanced h j st n m)"
proof -
  from n have "stored_uint 48 (show_int n)" by (auto simp: stored_uint_def uint_fits_def)
  moreover from wf have "context_wf E j" "fields_wf E j" by (simp_all add: journal_wf_def)
  moreover from this(2) have "times_wf st (created j) n (expires j)"
    using n(3) state unfolding fields_wf_def times_wf_def by linarith
  ultimately show ?thesis using n(1) m by (simp add: advanced_def fields_wf_def)
qed

text \<open>A manifest stays well-formed as time goes on.\<close>

lemma slot_wf_later: "slot_wf E r c u e s \<Longrightarrow> decimal_value u \<le> decimal_value u' \<Longrightarrow> slot_wf E r c u' e s"
  by (auto simp: slot_wf_def entry_wf_def split: option.splits)

lemma manifest_wf_later:
  "manifest_wf E c u e m \<Longrightarrow> decimal_value u \<le> decimal_value u' \<Longrightarrow> manifest_wf E c u' e m"
  by (auto simp: manifest_wf_def intro: slot_wf_later)

lemma wf_manifest_later:
  assumes "journal_wf E h j" and "updated j \<le> n" and "0 < n"
  shows "manifest_wf E (sj_createdAtUnixSeconds j) (show_int n) (cc_expiresAtUnixSeconds j) (sj_manifest j)"
proof (rule manifest_wf_later)
  show "manifest_wf E (sj_createdAtUnixSeconds j) (sj_updatedAtUnixSeconds j) (cc_expiresAtUnixSeconds j) (sj_manifest j)"
    using assms(1) by (simp add: journal_wf_def fields_wf_def)
qed (use assms in simp)

section \<open>What the operations return\<close>

definition journal_inv :: "ethers \<Rightarrow> (string \<Rightarrow> string) \<Rightarrow> StagingJournalRecord \<Rightarrow> bool" where
  "journal_inv E h j \<longleftrightarrow> ethers_laws E \<and> sha256_law h \<and> journal_wf E h j"

lemma requireStagingJournal_iff:
  assumes "ethers_laws E" "sha256_law h"
  shows "requireStagingJournal E h v = Inr j \<longleftrightarrow>
    journal_shown v j \<and> journal_wf E h j \<and> sj_state j = JOURNAL_STAGING"
  by (auto simp: requireStagingJournal_def bnd_eq_Inr journal_call_iff check_iff validateStagingJournalRecord_iff [OF assms])

lemma require_journal_value:
  assumes "journal_inv E h j"
  shows "requireStagingJournal E h (journal_value j) =
    (if sj_state j = JOURNAL_STAGING then Inr j else Inl (JournalError ''JOURNAL_NOT_STAGING''))"
  using assms validate_journal_value [of E h j] by (simp add: requireStagingJournal_def journal_inv_def)

lemma assertNoJournalRegression_iff [result_simps]: "assertNoJournalRegression n u = Inr x \<longleftrightarrow> decimal_value u \<le> n"
  by (auto simp: assertNoJournalRegression_def result_simps)

lemma transition_value:
  assumes "journal_inv E h j" "sj_state j = JOURNAL_STAGING" "journal_clock now j n"
  shows "transitionJournal E h (journal_value j) now st r None =
    Inr (buildJournalRecord h (updated_fields j st n (sj_manifest j) r))"
proof -
  have "requireJournalNow now = Inr n" unfolding requireJournalNow_iff using assms(3) by (simp add: journal_clock_def)
  moreover have "assertNoJournalRegression n (sj_updatedAtUnixSeconds j) = Inr ()"
    using assms(3) by (simp add: journal_clock_def assertNoJournalRegression_iff)
  ultimately show ?thesis using assms by (simp add: transitionJournal_def require_journal_value)
qed

text \<open>
  The opening that the operations share: the journal is validated and must be in staging, and the clock
  must not have gone back.
\<close>

lemma opening_iff:
  assumes "ethers_laws E" "sha256_law h"
  shows "bnd (requireStagingJournal E h v) (\<lambda>current.
      bnd (journal_call (requireJournalNow now)) (\<lambda>n.
      bnd (journal_call (assertNoJournalRegression n (sj_updatedAtUnixSeconds current))) (\<lambda>_. f current n))) = Inr q \<longleftrightarrow>
    (\<exists>j n. journal_shown v j \<and> journal_inv E h j \<and> sj_state j = JOURNAL_STAGING \<and> journal_clock now j n \<and> f j n = Inr q)"
  unfolding bnd_eq_Inr journal_call_iff requireStagingJournal_iff [OF assms] requireJournalNow_iff
    assertNoJournalRegression_iff journal_clock_def journal_inv_def using assms by auto

lemma cancel_journal_iff:
  assumes "ethers_laws E" "sha256_law h"
  shows "cancelStagingJournal E h v now = Inr q \<longleftrightarrow>
    (\<exists>j n. journal_shown v j \<and> journal_inv E h j \<and> sj_state j = JOURNAL_STAGING \<and> journal_clock now j n \<and>
       q = advanced h j (if expires j \<le> n then JOURNAL_EXPIRED else JOURNAL_CANCELLED) n (sj_manifest j))"
  unfolding cancelStagingJournal_def opening_iff [OF assms]
  by (intro ex_cong1 conj_cong refl) (auto simp: transition_value classifyExpiryAtNow_def advanced_def)

lemma expire_journal_iff:
  assumes "ethers_laws E" "sha256_law h"
  shows "expireStagingJournalIfNeeded E h v now = Inr q \<longleftrightarrow>
    (\<exists>j n. journal_shown v j \<and> journal_inv E h j \<and> sj_state j = JOURNAL_STAGING \<and> journal_clock now j n \<and>
       q = (if expires j \<le> n then advanced h j JOURNAL_EXPIRED n (sj_manifest j) else j))"
  unfolding expireStagingJournalIfNeeded_def opening_iff [OF assms]
  by (intro ex_cong1 conj_cong refl) (auto simp: transition_value classifyExpiryAtNow_def advanced_def)

lemma supersede_journal_iff:
  assumes "ethers_laws E" "sha256_law h"
  shows "supersedeStagingJournal E h v now = Inr q \<longleftrightarrow>
    (\<exists>j n. journal_shown v j \<and> journal_inv E h j \<and> sj_state j = JOURNAL_STAGING \<and> journal_clock now j n \<and>
       q = advanced h j JOURNAL_SUPERSEDED n (sj_manifest j))"
  unfolding supersedeStagingJournal_def transitionJournal_def opening_iff [OF assms]
  by (intro ex_cong1 conj_cong refl) (auto simp: advanced_def)

section \<open>Candidates\<close>

text \<open>A candidate that is accepted for a role: its commitment and its generation.\<close>

definition candidate_shown :: "ethers \<Rightarrow> int \<Rightarrow> host_value \<Rightarrow> string \<Rightarrow> string \<Rightarrow> bool" where
  "candidate_shown E r v c g \<longleftrightarrow> (\<exists>obj. closed_answers v CANDIDATE_INPUT_OWN_KEYS obj \<and>
     getAnswer obj ''candidateKind'' = Returns (StringHost (ROLE_KIND_MAP r)) \<and>
     getAnswer obj ''candidateVersion'' = Returns (NumberHost (SafeInteger 1)) \<and>
     getAnswer obj ''publicCandidateCommitment'' = Returns (StringHost c) \<and>
     getAnswer obj ''credentialGeneration'' = Returns (StringHost g)) \<and>
     is_bytes32 E False c c \<and> stored_uint 64 g"

lemma candidate_iff:
  assumes laws: "ethers_laws E" and r: "r \<in> {0, 1, 2}"
  shows "validateCandidateInput E r v = Inr (k, c, g) \<longleftrightarrow> k = ROLE_KIND_MAP r \<and> candidate_shown E r v c g"
proof -
  have "stored_uint 48 ''1''"
    unfolding stored_uint_def by (rule exI [of _ 1]) (simp add: uint_fits_def show_int_def show_nat.simps digit_char_def char_of_def bit_0)
  then have size: "validateManifestEntryOversized \<lparr>me_role = SafeInteger r, me_candidateKind = ROLE_KIND_MAP r,
      me_candidateVersion = SafeInteger 1, me_publicCandidateCommitment = c, me_credentialGeneration = g,
      me_stagedAtUnixSeconds = ''1''\<rparr> = Inr ()" if "is_bytes32 E False c c" "stored_uint 64 g"
    using entry_not_oversized [OF laws _ r] that by (simp add: entry_fields_wf_def)
  show ?thesis
  proof
    assume "validateCandidateInput E r v = Inr (k, c, g)"
    then show "k = ROLE_KIND_MAP r \<and> candidate_shown E r v c g"
      unfolding validateCandidateInput_def candidate_shown_def bnd_eq_Inr closed_object_iff readOwnProperty_iff
        require_string_iff require_number_iff check_iff requireNonZeroBytes32_iff requireNonzeroCanonicalUintString_iff
        uint_shown_string
      by auto
  next
    assume "k = ROLE_KIND_MAP r \<and> candidate_shown E r v c g"
    then show "validateCandidateInput E r v = Inr (k, c, g)"
      using size
      unfolding validateCandidateInput_def candidate_shown_def bnd_eq_Inr closed_object_iff readOwnProperty_iff
        require_string_iff require_number_iff check_iff requireNonZeroBytes32_iff requireNonzeroCanonicalUintString_iff
        uint_shown_string
      by auto
  qed
qed

definition staged_entry :: "int \<Rightarrow> string \<Rightarrow> string \<Rightarrow> int \<Rightarrow> StoredManifestEntry" where
  "staged_entry r c g n = \<lparr>me_role = SafeInteger r, me_candidateKind = ROLE_KIND_MAP r, me_candidateVersion = SafeInteger 1,
     me_publicCandidateCommitment = c, me_credentialGeneration = g, me_stagedAtUnixSeconds = show_int n\<rparr>"

definition staged_manifest :: "StagingManifest \<Rightarrow> int \<Rightarrow> StoredManifestEntry \<Rightarrow> StagingManifest" where
  "staged_manifest m r e =
     \<lparr>sm_0 = if r = 0 then Some e else sm_0 m, sm_1 = if r = 1 then Some e else sm_1 m,
      sm_2 = if r = 2 then Some e else sm_2 m\<rparr>"

lemma staged_entry_wf:
  assumes "candidate_shown E r v c g" and "0 < n" "n < 2 ^ 48"
  shows "entry_fields_wf E r (staged_entry r c g n)"
  using assms by (auto simp: candidate_shown_def entry_fields_wf_def staged_entry_def stored_uint_def uint_fits_def)

text \<open>The steps of a staging after its arguments have been accepted.\<close>

definition stage_result :: "(string \<Rightarrow> string) \<Rightarrow> StagingJournalRecord \<Rightarrow> int \<Rightarrow> string \<Rightarrow> string \<Rightarrow> int \<Rightarrow> StagingJournalRecord" where
  "stage_result h j r c g n =
     (if expires j \<le> n then advanced h j JOURNAL_EXPIRED n (sj_manifest j)
      else advanced h j JOURNAL_STAGING n (staged_manifest (sj_manifest j) r (staged_entry r c g n)))"

lemma stage_iff:
  assumes laws: "ethers_laws E" "sha256_law h"
  shows "stageRoleCandidate E h v rv cv now = Inr q \<longleftrightarrow>
    (\<exists>r j c g n. rv = NumberHost (SafeInteger r) \<and> r \<in> {0, 1, 2} \<and> journal_shown v j \<and> journal_inv E h j \<and>
       sj_state j = JOURNAL_STAGING \<and> candidate_shown E r cv c g \<and> journal_clock now j n \<and> q = stage_result h j r c g n)"
proof -
  define rest where "rest r j k c g n =
     (let (expired, expiryState, expiryReason) = classifyExpiryAtNow n (cc_expiresAtUnixSeconds j) in
     if expired
     then transitionJournal E h (journal_value j) now expiryState expiryReason None
     else
       let entry = \<lparr>me_role = SafeInteger r, me_candidateKind = k, me_candidateVersion = SafeInteger 1,
             me_publicCandidateCommitment = c, me_credentialGeneration = g, me_stagedAtUnixSeconds = show_int n\<rparr> in
       bnd (journal_call (validateManifestEntryOversized entry)) (\<lambda>_.
       let manifest = \<lparr>sm_0 = if r = 0 then Some entry else sm_0 (sj_manifest j),
          sm_1 = if r = 1 then Some entry else sm_1 (sj_manifest j),
          sm_2 = if r = 2 then Some entry else sm_2 (sj_manifest j)\<rparr> in
       Inr (buildJournalRecord h (updated_fields j JOURNAL_STAGING n manifest None))))"
    for r :: int and j :: StagingJournalRecord and k c g n
  have stages: "rest r j (ROLE_KIND_MAP r) c g n = Inr (stage_result h j r c g n)"
    if "r \<in> {0, 1, 2}" "journal_inv E h j" "sj_state j = JOURNAL_STAGING" "candidate_shown E r cv c g" "journal_clock now j n"
    for r j c g n
  proof (cases "expires j \<le> n")
    case True
    with that show ?thesis by (simp add: rest_def classifyExpiryAtNow_def transition_value stage_result_def advanced_def)
  next
    case False
    have "validateManifestEntryOversized (staged_entry r c g n) = Inr ()"
      using staged_entry_wf [OF that(4)] that(5) entry_not_oversized [OF laws(1) _ that(1)]
      by (simp add: journal_clock_def)
    with False show ?thesis
      by (simp add: rest_def classifyExpiryAtNow_def stage_result_def advanced_def staged_manifest_def staged_entry_def)
  qed
  have "stageRoleCandidate E h v rv cv now = Inr q \<longleftrightarrow>
    (\<exists>r j c g n. rv = NumberHost (SafeInteger r) \<and> r \<in> {0, 1, 2} \<and> journal_shown v j \<and> journal_inv E h j \<and>
       sj_state j = JOURNAL_STAGING \<and> candidate_shown E r cv c g \<and> journal_clock now j n \<and>
       rest r j (ROLE_KIND_MAP r) c g n = Inr q)"
    unfolding stageRoleCandidate_def rest_def [symmetric] bnd_eq_Inr journal_call_iff requireStagingJournal_iff [OF laws]
      stage_role_iff split_paired_Ex case_prod_conv
    unfolding bnd_eq_Inr journal_call_iff requireJournalNow_iff assertNoJournalRegression_iff journal_clock_def journal_inv_def
    using laws by (auto simp: candidate_iff [OF laws(1), of 0, simplified] candidate_iff [OF laws(1), of 1, simplified]
        candidate_iff [OF laws(1), of 2, simplified]) blast+
  also have "\<dots> \<longleftrightarrow> (\<exists>r j c g n. rv = NumberHost (SafeInteger r) \<and> r \<in> {0, 1, 2} \<and> journal_shown v j \<and> journal_inv E h j \<and>
       sj_state j = JOURNAL_STAGING \<and> candidate_shown E r cv c g \<and> journal_clock now j n \<and> stage_result h j r c g n = q)"
    by (intro ex_cong1 conj_cong refl) (simp add: stages)
  finally show ?thesis by (simp add: eq_commute [of q])
qed

section \<open>Creation\<close>

definition created_journal :: "(string \<Rightarrow> string) \<Rightarrow> NormalizedCeremonyContext \<Rightarrow> int \<Rightarrow> StagingJournalRecord" where
  "created_journal h c n = buildJournalRecord h
     (without_checksum c JOURNAL_STAGING (show_int n) (show_int n) \<lparr>sm_0 = None, sm_1 = None, sm_2 = None\<rparr> None)"

lemma created_parts [simp]:
  "sj_state (created_journal h c n) = JOURNAL_STAGING" "sj_createdAtUnixSeconds (created_journal h c n) = show_int n"
  "sj_updatedAtUnixSeconds (created_journal h c n) = show_int n"
  "cc_expiresAtUnixSeconds (created_journal h c n) = cc_expiresAtUnixSeconds c"
  "sj_manifest (created_journal h c n) = \<lparr>sm_0 = None, sm_1 = None, sm_2 = None\<rparr>"
  "NormalizedCeremonyContext.truncate (created_journal h c n) = c"
  by (simp_all add: created_journal_def buildJournalRecord_def record_parts)

lemma create_iff:
  "createStagingJournal E h cv now = Inr q \<longleftrightarrow>
     (\<exists>obj c n. closed_answers cv CONTEXT_OWN_KEYS obj \<and> context_shown obj c \<and> context_wf E c \<and>
        now = NumberHost (SafeInteger n) \<and> 0 < n \<and> n < 2 ^ 48 \<and> n < decimal_value (cc_expiresAtUnixSeconds c) \<and>
        q = created_journal h c n)"
  unfolding createStagingJournal_def bnd_eq_Inr journal_call_iff normalizeCeremonyContext_iff requireJournalNow_iff check_iff
    created_journal_def not_le sum.inject
  by blast

lemma created_wf:
  assumes "context_wf E c" and "0 < n" "n < 2 ^ 48" "n < decimal_value (cc_expiresAtUnixSeconds c)"
  shows "journal_wf E h (created_journal h c n)"
proof -
  from assms have "stored_uint 48 (show_int n)" by (auto simp: stored_uint_def uint_fits_def)
  moreover have "context_wf E (without_checksum c st a b m r) = context_wf E c" for st a b m r
    by (simp add: context_wf_def context_fields_wf_def context_commitment_def record_parts)
  ultimately show ?thesis
    using assms unfolding created_journal_def build_wf
    by (simp add: fields_wf_def record_parts times_wf_def manifest_wf_def slot_wf_def
        PHILCORE_V2_STAGING_JOURNAL_SCHEMA_VERSION_def)
qed

section \<open>The operations together\<close>

datatype journal_op =
    StageOp host_value host_value host_value
  | CancelOp host_value
  | ExpireOp host_value
  | SupersedeOp host_value

fun journal_apply :: "ethers \<Rightarrow> (string \<Rightarrow> string) \<Rightarrow> journal_op \<Rightarrow> host_value \<Rightarrow> StagingJournalRecord journal_result" where
  "journal_apply E h (StageOp r c now) v = stageRoleCandidate E h v r c now"
| "journal_apply E h (CancelOp now) v = cancelStagingJournal E h v now"
| "journal_apply E h (ExpireOp now) v = expireStagingJournalIfNeeded E h v now"
| "journal_apply E h (SupersedeOp now) v = supersedeStagingJournal E h v now"

text \<open>
  The journal that an operation leaves, from one in staging at a time that does not go back: a candidate is
  staged before the expiry; a cancellation before it; from it on both expire; a superseding always.
\<close>

inductive journal_effect :: "ethers \<Rightarrow> (string \<Rightarrow> string) \<Rightarrow> StagingJournalRecord \<Rightarrow> StagingJournalRecord \<Rightarrow> bool"
  for E h j where
  staged: "r \<in> {0, 1, 2} \<Longrightarrow> entry_fields_wf E r (staged_entry r c g n) \<Longrightarrow> 0 < n \<Longrightarrow> n < 2 ^ 48 \<Longrightarrow> updated j \<le> n \<Longrightarrow>
     n < expires j \<Longrightarrow>
     journal_effect E h j (advanced h j JOURNAL_STAGING n (staged_manifest (sj_manifest j) r (staged_entry r c g n)))"
| expired: "n < 2 ^ 48 \<Longrightarrow> updated j \<le> n \<Longrightarrow> expires j \<le> n \<Longrightarrow> 0 < n \<Longrightarrow>
     journal_effect E h j (advanced h j JOURNAL_EXPIRED n (sj_manifest j))"
| cancelled: "n < 2 ^ 48 \<Longrightarrow> updated j \<le> n \<Longrightarrow> n < expires j \<Longrightarrow> 0 < n \<Longrightarrow>
     journal_effect E h j (advanced h j JOURNAL_CANCELLED n (sj_manifest j))"
| superseded: "n < 2 ^ 48 \<Longrightarrow> updated j \<le> n \<Longrightarrow> 0 < n \<Longrightarrow>
     journal_effect E h j (advanced h j JOURNAL_SUPERSEDED n (sj_manifest j))"
| unchanged: "journal_effect E h j j"

lemma journal_apply_effect:
  assumes laws: "ethers_laws E" "sha256_law h" and op: "journal_apply E h op v = Inr q"
  shows "\<exists>j. journal_shown v j \<and> journal_inv E h j \<and> sj_state j = JOURNAL_STAGING \<and> journal_effect E h j q"
proof (cases op)
  case (StageOp rv cv now)
  with op obtain r j c g n where s: "r \<in> {0, 1, 2}" "journal_shown v j" "journal_inv E h j"
    "sj_state j = JOURNAL_STAGING" "candidate_shown E r cv c g" "journal_clock now j n" "q = stage_result h j r c g n"
    by (simp only: journal_apply.simps stage_iff [OF laws]) blast
  have n: "0 < n" "n < 2 ^ 48" "updated j \<le> n" using s(6) by (simp_all add: journal_clock_def)
  have "journal_effect E h j q"
  proof (cases "expires j \<le> n")
    case True
    with s(7) n show ?thesis by (simp add: stage_result_def journal_effect.expired)
  next
    case False
    with s(7) n journal_effect.staged [OF s(1) staged_entry_wf [OF s(5) n(1,2)]] show ?thesis
      by (simp add: stage_result_def)
  qed
  with s show ?thesis by blast
next
  case (CancelOp now)
  with op obtain j n where s: "journal_shown v j" "journal_inv E h j" "sj_state j = JOURNAL_STAGING" "journal_clock now j n"
    "q = advanced h j (if expires j \<le> n then JOURNAL_EXPIRED else JOURNAL_CANCELLED) n (sj_manifest j)"
    by (simp only: journal_apply.simps cancel_journal_iff [OF laws]) blast
  then have "journal_effect E h j q"
    by (auto simp: journal_clock_def intro: journal_effect.expired journal_effect.cancelled)
  with s show ?thesis by blast
next
  case (ExpireOp now)
  with op obtain j n where s: "journal_shown v j" "journal_inv E h j" "sj_state j = JOURNAL_STAGING" "journal_clock now j n"
    "q = (if expires j \<le> n then advanced h j JOURNAL_EXPIRED n (sj_manifest j) else j)"
    by (simp only: journal_apply.simps expire_journal_iff [OF laws]) blast
  then have "journal_effect E h j q"
    by (auto simp: journal_clock_def intro: journal_effect.expired journal_effect.unchanged)
  with s show ?thesis by blast
next
  case (SupersedeOp now)
  with op obtain j n where s: "journal_shown v j" "journal_inv E h j" "sj_state j = JOURNAL_STAGING" "journal_clock now j n"
    "q = advanced h j JOURNAL_SUPERSEDED n (sj_manifest j)"
    by (simp only: journal_apply.simps supersede_journal_iff [OF laws]) blast
  then have "journal_effect E h j q"
    by (auto simp: journal_clock_def intro: journal_effect.superseded)
  with s show ?thesis by blast
qed

lemma staged_manifest_wf:
  assumes m: "manifest_wf E c (show_int n) e m" and entry: "entry_fields_wf E r (staged_entry r k g n)"
    and n: "0 < n" "decimal_value c \<le> n" "n < decimal_value e" and r: "r \<in> {0, 1, 2}"
  shows "manifest_wf E c (show_int n) e (staged_manifest m r (staged_entry r k g n))"
proof -
  have "entry_wf E r c (show_int n) e (staged_entry r k g n)"
    using entry n by (simp add: entry_wf_def, simp add: staged_entry_def)
  with m r show ?thesis by (auto simp: manifest_wf_def staged_manifest_def slot_wf_def)
qed

lemma effect_wf:
  assumes "journal_effect E h j q" and wf: "journal_wf E h j"
  shows "journal_wf E h q"
  using assms(1)
proof cases
  case (staged r c g n)
  have c: "created j \<le> updated j" using wf by (simp add: journal_wf_def fields_wf_def times_wf_def)
  show ?thesis
    unfolding staged(1)
    by (rule advanced_wf [OF wf staged(4,5,6)])
       (use staged staged_manifest_wf [OF wf_manifest_later [OF wf staged(6,4)] staged(3,4) _ staged(7,2)] c in auto)
next
  case (expired n)
  then show ?thesis using advanced_wf [OF wf] wf_manifest_later [OF wf] by simp
next
  case (cancelled n)
  then show ?thesis using advanced_wf [OF wf] wf_manifest_later [OF wf] by simp
next
  case (superseded n)
  then show ?thesis using advanced_wf [OF wf] wf_manifest_later [OF wf] by simp
next
  case unchanged
  then show ?thesis using wf by simp
qed

section \<open>The abstract machine\<close>

text \<open>
  What a staging promises, apart from its encoding: the context it is for, a state, two times, and for each role the
  commitment, the generation and the time of the last candidate.
\<close>

record staging =
  sg_context :: NormalizedCeremonyContext
  sg_state :: StagingJournalState
  sg_created :: int
  sg_updated :: int
  sg_slots :: "int \<Rightarrow> (string \<times> int \<times> int) option"

definition sg_expires :: "staging \<Rightarrow> int" where
  "sg_expires s = decimal_value (cc_expiresAtUnixSeconds (sg_context s))"

inductive staging_step :: "staging \<Rightarrow> staging \<Rightarrow> bool" where
  stage: "sg_state s = JOURNAL_STAGING \<Longrightarrow> sg_updated s \<le> now \<Longrightarrow> now < sg_expires s \<Longrightarrow> r \<in> {0, 1, 2} \<Longrightarrow>
     staging_step s (s\<lparr>sg_updated := now, sg_slots := (sg_slots s)(r \<mapsto> (c, g, now))\<rparr>)"
| close: "sg_state s = JOURNAL_STAGING \<Longrightarrow> sg_updated s \<le> now \<Longrightarrow> st \<noteq> JOURNAL_STAGING \<Longrightarrow>
     (st = JOURNAL_CANCELLED \<longrightarrow> now < sg_expires s) \<Longrightarrow> (st = JOURNAL_EXPIRED \<longrightarrow> sg_expires s \<le> now) \<Longrightarrow>
     staging_step s (s\<lparr>sg_state := st, sg_updated := now\<rparr>)"
| keep: "staging_step s s"

inductive_cases staging_stepE: "staging_step s t"

text \<open>The invariant of the machine, and what its runs keep.\<close>

definition staging_inv :: "staging \<Rightarrow> bool" where
  "staging_inv s \<longleftrightarrow> times_wf (sg_state s) (sg_created s) (sg_updated s) (sg_expires s) \<and>
     (\<forall>r c g t. sg_slots s r = Some (c, g, t) \<longrightarrow>
        r \<in> {0, 1, 2} \<and> sg_created s \<le> t \<and> t \<le> sg_updated s \<and> t < sg_expires s)"

definition staging_history :: "staging \<Rightarrow> staging \<Rightarrow> bool" where
  "staging_history s t \<longleftrightarrow> sg_context t = sg_context s \<and> sg_created t = sg_created s \<and> sg_updated s \<le> sg_updated t \<and>
     dom (sg_slots s) \<subseteq> dom (sg_slots t) \<and> (sg_state s \<noteq> JOURNAL_STAGING \<longrightarrow> t = s)"

lemma staging_step_inv: "staging_step s t \<Longrightarrow> staging_inv s \<Longrightarrow> staging_inv t"
  by (induction rule: staging_step.induct)
     (force simp: staging_inv_def sg_expires_def times_wf_def split: if_splits)+

lemma staging_step_history: "staging_step s t \<Longrightarrow> staging_history s t"
  by (induction rule: staging_step.induct) (auto simp: staging_history_def)

lemma staging_history_refl: "staging_history s s"
  by (simp add: staging_history_def)

lemma staging_history_trans: "staging_history s t \<Longrightarrow> staging_history t u \<Longrightarrow> staging_history s u"
  unfolding staging_history_def by auto

interpretation staging_machine: invariant_system staging_step staging_inv
  by unfold_locales (rule staging_step_inv)

section \<open>The journals implement it\<close>

definition journal_slot :: "StagingManifest \<Rightarrow> int \<Rightarrow> StoredManifestEntry option" where
  "journal_slot m r = (if r = 0 then sm_0 m else if r = 1 then sm_1 m else if r = 2 then sm_2 m else None)"

definition staging_abs :: "StagingJournalRecord \<Rightarrow> staging" where
  "staging_abs j =
     \<lparr>sg_context = NormalizedCeremonyContext.truncate j, sg_state = sj_state j, sg_created = created j,
      sg_updated = updated j,
      sg_slots = (\<lambda>r. map_option (\<lambda>e. (me_publicCandidateCommitment e, decimal_value (me_credentialGeneration e),
         decimal_value (me_stagedAtUnixSeconds e))) (journal_slot (sj_manifest j) r))\<rparr>"

lemma abs_expires [simp]: "sg_expires (staging_abs j) = expires j"
  by (simp add: sg_expires_def staging_abs_def record_parts)

lemma abs_parts [simp]:
  "sg_state (staging_abs j) = sj_state j" "sg_updated (staging_abs j) = updated j" "sg_created (staging_abs j) = created j"
  "sg_context (staging_abs j) = NormalizedCeremonyContext.truncate j"
  by (simp_all add: staging_abs_def)

lemma staged_slot:
  "r \<in> {0, 1, 2} \<Longrightarrow> journal_slot (staged_manifest m r e) = (journal_slot m)(r \<mapsto> e)"
  by (auto simp: journal_slot_def staged_manifest_def)

lemma effect_step:
  assumes "journal_effect E h j q" and "sj_state j = JOURNAL_STAGING"
  shows "staging_step (staging_abs j) (staging_abs q)"
  using assms(1)
proof cases
  case (staged r c g n)
  have eq: "staging_abs q = (staging_abs j)\<lparr>sg_updated := n, sg_slots := (sg_slots (staging_abs j))(r \<mapsto> (c, decimal_value g, n))\<rparr>"
    unfolding staged(1) using staged(4) assms(2)
    by (simp add: staging_abs_def staged_slot [OF staged(2)] fun_eq_iff, simp add: staged_entry_def)
  show ?thesis unfolding eq by (rule staging_step.stage) (use staged assms(2) in simp_all)
next
  case (expired n)
  have eq: "staging_abs q = (staging_abs j)\<lparr>sg_state := JOURNAL_EXPIRED, sg_updated := n\<rparr>"
    unfolding expired(1) using expired by (simp add: staging_abs_def)
  show ?thesis unfolding eq by (rule staging_step.close) (use expired assms(2) in simp_all)
next
  case (cancelled n)
  have eq: "staging_abs q = (staging_abs j)\<lparr>sg_state := JOURNAL_CANCELLED, sg_updated := n\<rparr>"
    unfolding cancelled(1) using cancelled by (simp add: staging_abs_def)
  show ?thesis unfolding eq by (rule staging_step.close) (use cancelled assms(2) in simp_all)
next
  case (superseded n)
  have eq: "staging_abs q = (staging_abs j)\<lparr>sg_state := JOURNAL_SUPERSEDED, sg_updated := n\<rparr>"
    unfolding superseded(1) using superseded by (simp add: staging_abs_def)
  show ?thesis unfolding eq by (rule staging_step.close) (use superseded assms(2) in simp_all)
next
  case unchanged
  then show ?thesis by (simp add: staging_step.keep)
qed

lemma shown_value:
  assumes "journal_inv E h j" and "journal_inv E h k" and "journal_shown (journal_value j) k"
  shows "k = j"
proof -
  have laws: "ethers_laws E" "sha256_law h" using assms(1) by (simp_all add: journal_inv_def)
  have "validateStagingJournalRecord E h (journal_value j) = Inr k"
    unfolding validateStagingJournalRecord_iff [OF laws] using assms by (simp add: journal_inv_def)
  with validate_journal_value [OF laws, of j] assms(1) show ?thesis by (simp add: journal_inv_def)
qed

text \<open>One operation on a journal that is kept.\<close>

definition journal_step :: "ethers \<Rightarrow> (string \<Rightarrow> string) \<Rightarrow> StagingJournalRecord \<Rightarrow> StagingJournalRecord \<Rightarrow> bool" where
  "journal_step E h j q \<longleftrightarrow> (\<exists>op. journal_apply E h op (journal_value j) = Inr q)"

lemma journal_apply_value:
  assumes inv: "journal_inv E h j" and op: "journal_apply E h op (journal_value j) = Inr q"
  shows "sj_state j = JOURNAL_STAGING" "journal_effect E h j q" "journal_inv E h q"
proof -
  have laws: "ethers_laws E" "sha256_law h" using inv by (simp_all add: journal_inv_def)
  from journal_apply_effect [OF laws op] obtain k where k: "journal_shown (journal_value j) k" "journal_inv E h k"
    "sj_state k = JOURNAL_STAGING" "journal_effect E h k q" by blast
  with shown_value [OF inv k(2,1)] show "sj_state j = JOURNAL_STAGING" "journal_effect E h j q" by simp_all
  with effect_wf inv show "journal_inv E h q" by (simp add: journal_inv_def)
qed

interpretation journal_machine: invariant_system "journal_step E h" "journal_inv E h"
  by unfold_locales (auto simp: journal_step_def dest: journal_apply_value)

lemma journal_step_abs: "journal_inv E h j \<Longrightarrow> journal_step E h j q \<Longrightarrow> staging_step (staging_abs j) (staging_abs q)"
  unfolding journal_step_def by (auto dest: journal_apply_value effect_step)

lemma journal_run_abs:
  assumes "(journal_step E h)\<^sup>*\<^sup>* j q" and "journal_inv E h j"
  shows "staging_step\<^sup>*\<^sup>* (staging_abs j) (staging_abs q)"
  by (rule journal_machine.star_preserves [OF assms]) (auto intro: journal_step_abs)

lemma created_abs_inv:
  assumes "0 < n" and "n < decimal_value (cc_expiresAtUnixSeconds c)"
  shows "staging_inv (staging_abs (created_journal h c n))"
  using assms by (auto simp: staging_inv_def sg_expires_def staging_abs_def times_wf_def journal_slot_def split: if_splits)

section \<open>The checksum binds the record\<close>

text \<open>The projections of well-formed records as JSON values.\<close>

fun number_json :: "host_number \<Rightarrow> json" where
  "number_json (SafeInteger i) = JNumber i"
| "number_json (OtherNumber text) = JNull"

definition entry_json :: "StoredManifestEntry option \<Rightarrow> json" where
  "entry_json s = (case s of None \<Rightarrow> JNull | Some e \<Rightarrow> JObject
     [(''role'', number_json (me_role e)), (''candidateKind'', JString (me_candidateKind e)),
      (''candidateVersion'', number_json (me_candidateVersion e)),
      (''publicCandidateCommitment'', JString (me_publicCandidateCommitment e)),
      (''credentialGeneration'', JString (me_credentialGeneration e)),
      (''stagedAtUnixSeconds'', JString (me_stagedAtUnixSeconds e))])"

definition manifest_json :: "StagingManifest \<Rightarrow> json" where
  "manifest_json m = JObject [(''0'', entry_json (sm_0 m)), (''1'', entry_json (sm_1 m)), (''2'', entry_json (sm_2 m))]"

definition end_reason_json :: "StagingJournalState option \<Rightarrow> json" where
  "end_reason_json r = (case r of None \<Rightarrow> JNull | Some st \<Rightarrow> JString (journal_state_name st))"

definition journal_json :: "StagingJournalRecord \<Rightarrow> json" where
  "journal_json r = JObject
     [(''schemaVersion'', JNumber (sj_schemaVersion r)), (''formatProvenance'', JString (sj_formatProvenance r)),
      (''ceremonyId'', JString (cc_ceremonyId r)), (''enrollmentCeremonyHash'', JString (cc_enrollmentCeremonyHash r)),
      (''accountVersionId'', JString (cc_accountVersionId r)), (''securityModelId'', JString (cc_securityModelId r)),
      (''recoveryDomainId'', JString (cc_recoveryDomainId r)), (''account'', JString (cc_account r)),
      (''chainId'', JString (cc_chainId r)), (''entryPoint'', JString (cc_entryPoint r)),
      (''expectedRecoveryEpoch'', JString (cc_expectedRecoveryEpoch r)),
      (''expectedValidatorEpoch'', JString (cc_expectedValidatorEpoch r)),
      (''expiresAtUnixSeconds'', JString (cc_expiresAtUnixSeconds r)), (''state'', JString (journal_state_name (sj_state r))),
      (''createdAtUnixSeconds'', JString (sj_createdAtUnixSeconds r)),
      (''updatedAtUnixSeconds'', JString (sj_updatedAtUnixSeconds r)),
      (''manifest'', manifest_json (sj_manifest r)), (''endReason'', end_reason_json (sj_endReason r))]"

lemma entry_json_text: "slot_wf E r c u e s \<Longrightarrow> projectManifestEntryForChecksum s = render (entry_json s)"
  by (auto simp: slot_wf_def entry_wf_def entry_fields_wf_def projectManifestEntryForChecksum_def entry_json_def entry_text_def
      object_text_def split: option.splits)

lemma manifest_json_text: "manifest_wf E c u e m \<Longrightarrow> projectManifestForChecksum m = render (manifest_json m)"
  by (simp add: manifest_wf_def projectManifestForChecksum_def manifest_json_def object_text_def
      entry_json_text [of E 0 c u e] entry_json_text [of E 1 c u e] entry_json_text [of E 2 c u e])

lemma journal_json_text: "journal_wf E h j \<Longrightarrow> checksum_projection j = render (journal_json j)"
  by (auto simp: journal_wf_def fields_wf_def checksum_projection_def journal_json_def object_text_def end_reason_json_def
      end_reason_text_def dest: manifest_json_text split: option.splits)

lemma entry_json_inject:
  "entry_json s = entry_json t \<Longrightarrow> slot_wf E r c u e s \<Longrightarrow> slot_wf E r c' u' e' t \<Longrightarrow> s = t"
  by (auto simp: slot_wf_def entry_wf_def entry_fields_wf_def entry_json_def split: option.splits)

lemma manifest_json_inject:
  "manifest_json m = manifest_json k \<Longrightarrow> manifest_wf E c u e m \<Longrightarrow> manifest_wf E c' u' e' k \<Longrightarrow> m = k"
  by (auto simp: manifest_json_def manifest_wf_def dest: entry_json_inject intro: StagingManifest.equality)

lemma journal_state_name_inject [simp]: "journal_state_name s = journal_state_name t \<longleftrightarrow> s = t"
  by (cases s; cases t) auto

lemma end_reason_json_inject: "end_reason_json r = end_reason_json s \<Longrightarrow> r = s"
  by (auto simp: end_reason_json_def split: option.splits)

lemma journal_json_inject:
  assumes "journal_json j = journal_json k" and j: "journal_wf E h j" and k: "journal_wf E h k"
  shows "j = k"
proof -
  have m: "sj_manifest j = sj_manifest k"
    using manifest_json_inject [of "sj_manifest j" "sj_manifest k"] assms
    by (simp add: journal_json_def journal_wf_def fields_wf_def) blast
  have "checksum_projection j = checksum_projection k" using assms journal_json_text by metis
  then have "sj_integrityChecksum j = sj_integrityChecksum k"
    using j k by (simp add: journal_wf_def computeStagingJournalChecksum_def)
  with assms(1) m show ?thesis
    by (simp add: journal_json_def StagingJournalRecord.equality end_reason_json_inject)
qed

section \<open>Properties\<close>

text \<open>
  C20: Validation of a staging journal is exact: whatever value is given, also one whose properties are
  accessors or proxies, it is accepted as a record exactly when it shows the record and the record is well
  formed, that is, every field is in its normal form, the hash commits to the context, times and end reason
  fit the state, every entry is for its slot and was staged between creation and update, and the checksum is
  that of the record. Every refusal is an error of the journal with its code: the commitment never throws.
\<close>

theorem journal_validation:
  assumes "ethers_laws E" and "sha256_law sha256Hex"
  shows "(validateStagingJournalRecord E sha256Hex v = Inr j \<longleftrightarrow> journal_shown v j \<and> journal_wf E sha256Hex j) \<and>
    validateStagingJournalRecord E sha256Hex v \<noteq> Inl (CommitmentError e)"
  by (intro conjI validateStagingJournalRecord_iff assms validate_not_commitment)

text \<open>
  C23: What the operations write can be read back: the record that a creation or any transition returns, passed
  back as a value, validates to itself.
\<close>

theorem journal_round_trip:
  assumes "ethers_laws E" and "sha256_law sha256Hex"
  shows "(createStagingJournal E sha256Hex cv now = Inr q \<longrightarrow>
      validateStagingJournalRecord E sha256Hex (journal_value q) = Inr q) \<and>
    (journal_apply E sha256Hex op v = Inr q \<longrightarrow>
      validateStagingJournalRecord E sha256Hex (journal_value q) = Inr q)"
proof (intro conjI impI)
  assume "createStagingJournal E sha256Hex cv now = Inr q"
  then have "journal_wf E sha256Hex q" unfolding create_iff by (auto intro: created_wf)
  then show "validateStagingJournalRecord E sha256Hex (journal_value q) = Inr q" by (rule validate_journal_value [OF assms])
next
  assume "journal_apply E sha256Hex op v = Inr q"
  from journal_apply_effect [OF assms this] have "journal_wf E sha256Hex q"
    by (auto simp: journal_inv_def intro: effect_wf)
  then show "validateStagingJournalRecord E sha256Hex (journal_value q) = Inr q" by (rule validate_journal_value [OF assms])
qed

text \<open>
  C21: The operations implement the abstract staging: on a well-formed journal, what an operation returns is well
  formed and one step of the staging away, whatever role, candidate and clock it was given; and a journal that has
  ended is refused by every operation with an error of the journal.
\<close>

theorem journal_refines_staging:
  assumes "ethers_laws E" and "sha256_law sha256Hex" and "journal_wf E sha256Hex j"
  shows "(journal_apply E sha256Hex op (journal_value j) = Inr q \<longrightarrow>
      journal_wf E sha256Hex q \<and> staging_step (staging_abs j) (staging_abs q)) \<and>
    (sj_state j \<noteq> JOURNAL_STAGING \<longrightarrow> (\<exists>code. journal_apply E sha256Hex op (journal_value j) = Inl (JournalError code)))"
proof (intro conjI impI)
  have inv: "journal_inv E sha256Hex j" using assms by (simp add: journal_inv_def)
  {
    assume "journal_apply E sha256Hex op (journal_value j) = Inr q"
    from journal_apply_value [OF inv this] effect_step
    show "journal_wf E sha256Hex q" "staging_step (staging_abs j) (staging_abs q)" by (auto simp: journal_inv_def)
  }
  assume ended: "sj_state j \<noteq> JOURNAL_STAGING"
  have req: "requireStagingJournal E sha256Hex (journal_value j) = Inl (JournalError ''JOURNAL_NOT_STAGING'')"
    using require_journal_value [OF inv] ended by simp
  have call: "\<exists>c. journal_call m = Inl (JournalError c) \<or> journal_call m = Inr x" if "\<And>y. m = Inr y \<Longrightarrow> y = x" for m x
    using that by (cases m) auto
  show "\<exists>code. journal_apply E sha256Hex op (journal_value j) = Inl (JournalError code)"
  proof (cases op)
    case (StageOp r c now)
    then show ?thesis
      by (cases "stage_role r") (simp_all add: stageRoleCandidate_def req)
  qed (simp_all add: cancelStagingJournal_def expireStagingJournalIfNeeded_def supersedeStagingJournal_def
      transitionJournal_def req)
qed

text \<open>
  C22: The life of a journal: over any sequence of operations after its creation the journal is well formed, keeps
  the context and the time of its creation, its time of update does not go back, a role that has a candidate keeps
  one, every candidate was staged between the creation and the last update and before the expiry of the ceremony, and once the
  journal has ended it does not change.
\<close>

theorem journal_runs:
  assumes "ethers_laws E" and "sha256_law sha256Hex" and "createStagingJournal E sha256Hex cv now = Inr j"
    and "(journal_step E sha256Hex)\<^sup>*\<^sup>* j k" and "(journal_step E sha256Hex)\<^sup>*\<^sup>* k q"
  shows "journal_wf E sha256Hex q \<and> staging_inv (staging_abs q) \<and> staging_history (staging_abs j) (staging_abs q) \<and>
    (sj_state k \<noteq> JOURNAL_STAGING \<longrightarrow> q = k)"
proof -
  from assms(3) obtain c n where j: "j = created_journal sha256Hex c n" "context_wf E c" "0 < n" "n < 2 ^ 48"
    "n < decimal_value (cc_expiresAtUnixSeconds c)" unfolding create_iff by blast
  have inv: "journal_inv E sha256Hex j" using j created_wf assms(1,2) by (simp add: journal_inv_def)
  then have kinv: "journal_inv E sha256Hex k" by (rule journal_machine.star_inv [OF assms(4)])
  have run: "(journal_step E sha256Hex)\<^sup>*\<^sup>* j q" using assms(4,5) by simp
  have qinv: "journal_inv E sha256Hex q" by (rule journal_machine.star_inv [OF run inv])
  have ended: "q = k" if "sj_state k \<noteq> JOURNAL_STAGING"
    using assms(5)
  proof (cases rule: converse_rtranclpE)
    case (step y)
    with that journal_apply_value(1) [OF kinv] show ?thesis by (auto simp: journal_step_def)
  qed simp
  note abs = journal_run_abs [OF run inv]
  have start: "staging_inv (staging_abs j)" using j created_abs_inv by simp
  have history: "staging_history s t" if "staging_step\<^sup>*\<^sup>* s t" for s t
    using that by (induction rule: rtranclp_induct)
      (auto intro: staging_history_refl staging_history_trans staging_step_history)
  show ?thesis
    using qinv staging_machine.star_inv [OF abs start] history [OF abs] ended by (simp add: journal_inv_def)
qed

text \<open>
  C24: The checksum binds the whole record: two well-formed journals with the same checksum are the same record,
  or the texts that were hashed for them are different texts with the same SHA-256 digest.
\<close>

theorem journal_checksum_binds:
  assumes "journal_wf E sha256Hex j" and "journal_wf E sha256Hex k"
    and "sj_integrityChecksum j = sj_integrityChecksum k"
  shows "j = k \<or> (checksum_projection j \<noteq> checksum_projection k \<and>
      sha256Hex (PHILCORE_V2_STAGING_JOURNAL_CHECKSUM_PREFIX @ checksum_projection j) =
      sha256Hex (PHILCORE_V2_STAGING_JOURNAL_CHECKSUM_PREFIX @ checksum_projection k))"
proof (cases "checksum_projection j = checksum_projection k")
  case True
  then have "journal_json j = journal_json k"
    using journal_json_text [OF assms(1)] journal_json_text [OF assms(2)] render_inject by metis
  with journal_json_inject [OF _ assms(1,2)] show ?thesis by simp
next
  case False
  with assms show ?thesis by (simp add: journal_wf_def computeStagingJournalChecksum_def)
qed

text \<open>
  C25: A candidate can be staged: on a well-formed journal in staging, at a time from its last update until before the
  expiry, a candidate for one of the three roles with the kind of that role, version 1, a commitment of 32 bytes and
  a generation of 64 bits is stored in the slot of its role with this time, and the other slots are as before.
\<close>

theorem candidate_staged:
  assumes "ethers_laws E" and "sha256_law sha256Hex" and "journal_wf E sha256Hex j" and "sj_state j = JOURNAL_STAGING"
    and "r \<in> {0, 1, 2}" and "candidate_shown E r cv c g"
    and "0 < n" and "n < 2 ^ 48" and "updated j \<le> n" and "n < expires j"
  shows "\<exists>q. stageRoleCandidate E sha256Hex (journal_value j) (NumberHost (SafeInteger r)) cv
      (NumberHost (SafeInteger n)) = Inr q \<and> sj_state q = JOURNAL_STAGING \<and>
    journal_slot (sj_manifest q) = (journal_slot (sj_manifest j))(r \<mapsto> staged_entry r c g n)"
proof -
  have "journal_shown (journal_value j) j" by (rule journal_value_shown [OF assms(3)])
  moreover have "journal_inv E sha256Hex j" "journal_clock (NumberHost (SafeInteger n)) j n"
    using assms by (simp_all add: journal_inv_def journal_clock_def)
  ultimately have "stageRoleCandidate E sha256Hex (journal_value j) (NumberHost (SafeInteger r)) cv
      (NumberHost (SafeInteger n)) = Inr (stage_result sha256Hex j r c g n)"
    unfolding stage_iff [OF assms(1,2)] using assms(4-6) by blast
  moreover have "sj_state (stage_result sha256Hex j r c g n) = JOURNAL_STAGING"
    "journal_slot (sj_manifest (stage_result sha256Hex j r c g n)) =
       (journal_slot (sj_manifest j))(r \<mapsto> staged_entry r c g n)"
    using assms(10) staged_slot [OF assms(5)] by (simp_all add: stage_result_def)
  ultimately show ?thesis by blast
qed

section \<open>The journal of a ceremony\<close>

text \<open>The context of a ceremony: the fields of its record, as they are exposed.\<close>

definition ceremony_context :: "PhilCoreV2ConsumerRecoveryCeremonyRecord \<Rightarrow> host_value" where
  "ceremony_context r = literal_value
     [(''ceremonyId'', StringHost (rc_ceremonyId r)), (''enrollmentCeremonyHash'', StringHost (rc_enrollmentCeremonyHash r)),
      (''accountVersionId'', StringHost (rc_accountVersionId r)), (''securityModelId'', StringHost (rc_securityModelId r)),
      (''recoveryDomainId'', StringHost (rc_recoveryDomainId r)), (''account'', StringHost (rc_account r)),
      (''chainId'', BigIntHost (rc_chainId r)), (''entryPoint'', StringHost (rc_entryPoint r)),
      (''expectedRecoveryEpoch'', BigIntHost (rc_expectedRecoveryEpoch r)),
      (''expectedValidatorEpoch'', BigIntHost (rc_expectedValidatorEpoch r)),
      (''expiresAtUnixSeconds'', BigIntHost (rc_expiresAtUnixSeconds r))]"

definition record_context :: "PhilCoreV2ConsumerRecoveryCeremonyRecord \<Rightarrow> NormalizedCeremonyContext" where
  "record_context r =
     \<lparr>cc_ceremonyId = rc_ceremonyId r, cc_enrollmentCeremonyHash = rc_enrollmentCeremonyHash r,
      cc_accountVersionId = rc_accountVersionId r, cc_securityModelId = rc_securityModelId r,
      cc_recoveryDomainId = rc_recoveryDomainId r, cc_account = rc_account r, cc_chainId = show_int (rc_chainId r),
      cc_entryPoint = rc_entryPoint r, cc_expectedRecoveryEpoch = show_int (rc_expectedRecoveryEpoch r),
      cc_expectedValidatorEpoch = show_int (rc_expectedValidatorEpoch r),
      cc_expiresAtUnixSeconds = show_int (rc_expiresAtUnixSeconds r)\<rparr>"

text \<open>No identifier and no hash of the record is the zero word.\<close>

definition nonzero_hashes :: "PhilCoreV2ConsumerRecoveryCeremonyRecord \<Rightarrow> bool" where
  "nonzero_hashes r \<longleftrightarrow> ZERO_BYTES32 \<notin> {rc_enrollmentCeremonyHash r, rc_accountVersionId r, rc_securityModelId r, rc_recoveryDomainId r}"

lemma ceremony_context_shown:
  assumes "uint_fits 256 (rc_chainId r)" "rc_chainId r \<noteq> 0" "uint_fits 64 (rc_expectedRecoveryEpoch r)"
    "rc_expectedRecoveryEpoch r \<noteq> 0" "uint_fits 64 (rc_expectedValidatorEpoch r)" "rc_expectedValidatorEpoch r \<noteq> 0"
    "uint_fits 48 (rc_expiresAtUnixSeconds r)" "rc_expiresAtUnixSeconds r \<noteq> 0"
  shows "\<exists>obj. closed_answers (ceremony_context r) CONTEXT_OWN_KEYS obj \<and> context_shown obj (record_context r)"
proof -
  let ?ps = "[(''ceremonyId'', StringHost (rc_ceremonyId r)), (''enrollmentCeremonyHash'', StringHost (rc_enrollmentCeremonyHash r)),
      (''accountVersionId'', StringHost (rc_accountVersionId r)), (''securityModelId'', StringHost (rc_securityModelId r)),
      (''recoveryDomainId'', StringHost (rc_recoveryDomainId r)), (''account'', StringHost (rc_account r)),
      (''chainId'', BigIntHost (rc_chainId r)), (''entryPoint'', StringHost (rc_entryPoint r)),
      (''expectedRecoveryEpoch'', BigIntHost (rc_expectedRecoveryEpoch r)),
      (''expectedValidatorEpoch'', BigIntHost (rc_expectedValidatorEpoch r)),
      (''expiresAtUnixSeconds'', BigIntHost (rc_expiresAtUnixSeconds r))]"
  have "set (map fst ?ps) = set CONTEXT_OWN_KEYS" by (simp add: CONTEXT_OWN_KEYS_def)
  from literal_value_closed [OF this] obtain obj where obj: "closed_answers (ceremony_context r) CONTEXT_OWN_KEYS obj"
    and get: "\<And>k v. map_of ?ps k = Some v \<Longrightarrow> getAnswer obj k = Returns v"
    unfolding ceremony_context_def by blast
  have "context_shown obj (record_context r)"
    unfolding context_shown_def record_context_def NormalizedCeremonyContext.select_convs
    by (intro conjI) ((rule get, simp) | (rule exI, rule conjI, rule get, simp, simp add: uint_shown_def assms))+
  with obj show ?thesis by blast
qed

lemma identifiers_lower:
  assumes "ethers_laws E"
  shows "hex_string (PHILCORE_V2_LOCAL_ACCOUNT_VERSION_ID E) 32" "hex_string (PHILCORE_V2_LOCAL_SECURITY_MODEL_ID E) 32"
    "hex_string (PHILCORE_V2_LOCAL_RECOVERY_DOMAIN_ID E) 32"
    "toLowerCase (PHILCORE_V2_LOCAL_ACCOUNT_VERSION_ID E) = PHILCORE_V2_LOCAL_ACCOUNT_VERSION_ID E"
    "toLowerCase (PHILCORE_V2_LOCAL_SECURITY_MODEL_ID E) = PHILCORE_V2_LOCAL_SECURITY_MODEL_ID E"
    "toLowerCase (PHILCORE_V2_LOCAL_RECOVERY_DOMAIN_ID E) = PHILCORE_V2_LOCAL_RECOVERY_DOMAIN_ID E"
  by (simp_all add: laws_keccak256 [OF assms] PHILCORE_V2_LOCAL_ACCOUNT_VERSION_ID_def
      PHILCORE_V2_LOCAL_SECURITY_MODEL_ID_def PHILCORE_V2_LOCAL_RECOVERY_DOMAIN_ID_def
      PHILCORE_V2_CONSUMER_RECOVERY_ACCOUNT_VERSION_ID_def PHILCORE_V2_SECURITY_MODEL_ID_def
      PHILCORE_V2_CONSUMER_RECOVERY_DOMAIN_ID_def)

lemma record_context_wf:
  assumes laws: "ethers_laws E" and x: "normal_expectations E x" and cid: "is_bytes32 E False cid cid"
    and n: "0 < n" "n + 300 < 2 ^ 48" and nonzero: "nonzero_hashes (active_record E cid n x)"
  shows "context_wf E (record_context (active_record E cid n x))" (is "context_wf E ?c")
proof -
  have uints: "stored_uint b (show_int i)" if "uint_fits b i" "i \<noteq> 0" for b i
    using that by (auto simp: stored_uint_def)
  have hash: "enrollment_of E cid (n + 300) x = context_commitment E ?c"
    using x n unfolding enrollment_of_def context_commitment_def normal_expectations_def
    by (simp add: record_context_def active_record_def uint_fits_def)
  have "enrollment_of E cid (n + 300) x \<noteq> ZERO_BYTES32"
    using nonzero by (auto simp: nonzero_hashes_def active_record_def)
  then have "is_bytes32 E False (enrollment_of E cid (n + 300) x) (enrollment_of E cid (n + 300) x)"
    using commitment_shape [OF laws] by (simp add: is_bytes32_def laws_isHexString [OF laws] enrollment_of_def)
  moreover have ids: "is_bytes32 E False i i"
    if "i \<in> {PHILCORE_V2_LOCAL_ACCOUNT_VERSION_ID E, PHILCORE_V2_LOCAL_SECURITY_MODEL_ID E, PHILCORE_V2_LOCAL_RECOVERY_DOMAIN_ID E}" for i
    using that nonzero identifiers_lower [OF laws]
    by (auto simp: is_bytes32_def laws_isHexString [OF laws] nonzero_hashes_def active_record_def)
  moreover have "uint_fits 48 (n + 300)" using n by (simp add: uint_fits_def)
  ultimately show ?thesis
    using x n(1) cid
    unfolding context_wf_def context_fields_wf_def normal_expectations_def hash [symmetric]
    by (simp add: record_context_def active_record_def uints identifiers_lower(4-6) [OF laws])
qed

text \<open>
  C26: Ceremony and journal fit together: for a ceremony that was minted, at every time from its minting until before its
  expiry, the journal can be created from its context. The journal is in staging, is well formed, is bound to the
  ceremony's identifier and commitment, and expires when the ceremony does. (None of the hashes may be the zero word, which
  the journal refuses and the ceremony does not.)
\<close>

theorem journal_of_ceremony:
  assumes "ethers_laws E" and "sha256_law sha256Hex"
    and "mintPhilCoreV2ConsumerRecoveryCeremony E None cidV (NumberVal (IntegerNumber n)) x = Inr r"
    and "nonzero_hashes r" and "n \<le> now" and "now < rc_expiresAtUnixSeconds r"
  shows "\<exists>j. createStagingJournal E sha256Hex (ceremony_context r) (NumberHost (SafeInteger now)) = Inr j \<and>
    journal_wf E sha256Hex j \<and> sj_state j = JOURNAL_STAGING \<and> cc_ceremonyId j = rc_ceremonyId r \<and>
    cc_enrollmentCeremonyHash j = rc_enrollmentCeremonyHash r \<and> expires j = rc_expiresAtUnixSeconds r"
proof -
  from assms(3) obtain cid y where m: "0 < n" "n + 300 < 2 ^ 48" "js_bytes32 E False cidV cid" "expects E x y"
    "r = active_record E cid n y" unfolding mint_recovery_iff [OF assms(1)] by auto
  have y: "normal_expectations E y" by (rule expects_normal [OF assms(1) m(4)])
  have cid: "is_bytes32 E False cid cid" using m(3) is_bytes32_stable [OF assms(1)] by (auto simp: js_bytes32_def)
  have wf: "context_wf E (record_context r)"
    using record_context_wf [OF assms(1) y cid m(1,2)] assms(4) m(5) by simp
  have "\<exists>obj. closed_answers (ceremony_context r) CONTEXT_OWN_KEYS obj \<and> context_shown obj (record_context r)"
    by (rule ceremony_context_shown) (use y m in \<open>auto simp: normal_expectations_def active_record_def uint_fits_def\<close>)
  moreover have t: "decimal_value (cc_expiresAtUnixSeconds (record_context r)) = rc_expiresAtUnixSeconds r"
    "0 < now" "now < 2 ^ 48"
    using m assms(5,6) by (simp_all add: record_context_def active_record_def)
  ultimately have "createStagingJournal E sha256Hex (ceremony_context r) (NumberHost (SafeInteger now)) =
      Inr (created_journal sha256Hex (record_context r) now)"
    unfolding create_iff using wf assms(6)
    by (elim exE conjE, intro exI conjI) (assumption | rule refl | simp)+
  moreover have "cc_ceremonyId (created_journal sha256Hex c k) = cc_ceremonyId c"
    "cc_enrollmentCeremonyHash (created_journal sha256Hex c k) = cc_enrollmentCeremonyHash c" for c k
    by (simp_all add: created_journal_def buildJournalRecord_def record_parts)
  ultimately show ?thesis
    using created_wf [OF wf t(2,3)] t(1) assms(6) by (simp add: record_context_def)
qed

section \<open>A sample journal\<close>

definition sample_sha256 :: "string \<Rightarrow> string" where
  "sample_sha256 s = drop 2 (sample_digest (sample_weight s))"

lemma sample_digest_nonzero: "sample_digest n \<noteq> ZERO_BYTES32"
proof -
  have "n mod 15 + 1 < 16" "n mod 15 + 1 \<noteq> 0" by auto
  then have "sample_digit (n mod 15 + 1) \<noteq> CHR ''0''"
    using sample_digit_inject [of "n mod 15 + 1" 0] sample_digit_zero by auto
  then show ?thesis by (simp add: sample_digest_def)
qed

lemma sample_sha256_law: "sha256_law sample_sha256"
proof -
  have "\<forall>d < 16. (\<lambda>c. decimal_digit c \<or> (97 \<le> (of_char c :: nat) \<and> (of_char c :: nat) \<le> 102)) (sample_digit d)"
    by code_simp
  then have "(\<lambda>c. decimal_digit c \<or> (97 \<le> (of_char c :: nat) \<and> (of_char c :: nat) \<le> 102)) (sample_digit (n mod 15 + 1))" for n
    by (rule allE [of _ "n mod 15 + 1"]) auto
  then show ?thesis
    by (simp add: sha256_law_def sample_sha256_def sample_digest_def h32_def checksum_format_def list_all_iff)
qed

lemma sample_nonzero: "keccak256 sample_ethers x \<noteq> ZERO_BYTES32"
  by (cases x) (simp_all add: sample_ethers_def sample_digest_nonzero)

definition sample_ceremony :: PhilCoreV2ConsumerRecoveryCeremonyRecord where
  "sample_ceremony = active_record sample_ethers (h32 (CHR ''1'')) 1000 sample_expected"

lemma sample_ceremony_hashes: "nonzero_hashes sample_ceremony"
  using sample_nonzero
  by (simp add: nonzero_hashes_def sample_ceremony_def active_record_def enrollment_of_def commitment_def
      PHILCORE_V2_LOCAL_ACCOUNT_VERSION_ID_def PHILCORE_V2_LOCAL_SECURITY_MODEL_ID_def PHILCORE_V2_LOCAL_RECOVERY_DOMAIN_ID_def
      PHILCORE_V2_CONSUMER_RECOVERY_ACCOUNT_VERSION_ID_def PHILCORE_V2_SECURITY_MODEL_ID_def
      PHILCORE_V2_CONSUMER_RECOVERY_DOMAIN_ID_def) metis

lemma sample_id_normal: "is_bytes32 sample_ethers False (h32 (CHR ''1'')) (h32 (CHR ''1''))"
  by (simp add: literal_simps)

lemma sample_context_wf: "context_wf sample_ethers (record_context sample_ceremony)"
  using record_context_wf [OF sample_ethers_laws sample_normal sample_id_normal, of 1000] sample_ceremony_hashes
  by (simp add: sample_ceremony_def)

definition sample_journal :: StagingJournalRecord where
  "sample_journal = created_journal sample_sha256 (record_context sample_ceremony) 1000"

lemma sample_times [simp]:
  "updated sample_journal = 1000" "expires sample_journal = 1300" "sj_state sample_journal = JOURNAL_STAGING"
  by (simp_all add: sample_journal_def record_context_def sample_ceremony_def active_record_def)

lemma sample_journal_wf: "journal_wf sample_ethers sample_sha256 sample_journal"
  unfolding sample_journal_def
  by (rule created_wf [OF sample_context_wf]) (simp_all add: record_context_def sample_ceremony_def active_record_def)

lemma sample_ceremony_minted:
  "mintPhilCoreV2ConsumerRecoveryCeremony sample_ethers None (StringVal (h32 (CHR ''1''))) (NumberVal (IntegerNumber 1000))
     sample_expectations = Inr sample_ceremony"
  unfolding mint_recovery_iff [OF sample_ethers_laws] sample_ceremony_def
  by (intro exI [of _ 1000] exI [of _ "h32 (CHR ''1'')"] exI [of _ sample_expected])
     (simp add: js_bytes32_def sample_id_normal sample_expects)

lemma sample_created:
  "createStagingJournal sample_ethers sample_sha256 (ceremony_context sample_ceremony) (NumberHost (SafeInteger 1000)) =
     Inr sample_journal"
proof -
  have "\<exists>obj. closed_answers (ceremony_context sample_ceremony) CONTEXT_OWN_KEYS obj \<and>
      context_shown obj (record_context sample_ceremony)"
    by (rule ceremony_context_shown) (simp_all add: sample_ceremony_def active_record_def sample_expected_def uint_fits_def)
  then show ?thesis
    unfolding create_iff sample_journal_def using sample_context_wf
    by (elim exE conjE, intro exI conjI)
       (assumption | rule refl | simp add: record_context_def sample_ceremony_def active_record_def)+
qed

lemma sample_cancelled:
  "journal_apply sample_ethers sample_sha256 (CancelOp (NumberHost (SafeInteger 1100))) (journal_value sample_journal) =
     Inr (advanced sample_sha256 sample_journal JOURNAL_CANCELLED 1100 (sj_manifest sample_journal))"
  unfolding journal_apply.simps cancel_journal_iff [OF sample_ethers_laws sample_sha256_law]
  by (intro exI [of _ sample_journal] exI [of _ 1100])
     (simp add: journal_value_shown [OF sample_journal_wf] journal_inv_def sample_ethers_laws sample_sha256_law
        sample_journal_wf journal_clock_def)

definition sample_candidate :: host_value where
  "sample_candidate = literal_value
     [(''candidateKind'', StringHost (ROLE_KIND_MAP 1)), (''candidateVersion'', NumberHost (SafeInteger 1)),
      (''publicCandidateCommitment'', StringHost (h32 (CHR ''c''))), (''credentialGeneration'', StringHost ''7'')]"

lemma sample_candidate_shown: "candidate_shown sample_ethers 1 sample_candidate (h32 (CHR ''c'')) ''7''"
proof -
  let ?ps = "[(''candidateKind'', StringHost (ROLE_KIND_MAP 1)), (''candidateVersion'', NumberHost (SafeInteger 1)),
      (''publicCandidateCommitment'', StringHost (h32 (CHR ''c''))), (''credentialGeneration'', StringHost ''7'')]"
  have "set (map fst ?ps) = set CANDIDATE_INPUT_OWN_KEYS" by (simp add: CANDIDATE_INPUT_OWN_KEYS_def)
  from literal_value_closed [OF this] obtain obj where obj: "closed_answers sample_candidate CANDIDATE_INPUT_OWN_KEYS obj"
    and get: "\<And>k v. map_of ?ps k = Some v \<Longrightarrow> getAnswer obj k = Returns v"
    unfolding sample_candidate_def by blast
  have "stored_uint 64 ''7''"
    unfolding stored_uint_def
    by (rule exI [of _ 7]) (simp add: uint_fits_def show_int_def show_nat.simps digit_char_def char_of_def bit_0)
  with obj get show ?thesis
    unfolding candidate_shown_def by (intro conjI exI [of _ obj]) (simp_all add: literal_simps)
qed

theorem journal_validation_witness:
  "validateStagingJournalRecord sample_ethers sample_sha256 (journal_value sample_journal) = Inr sample_journal"
  unfolding conjunct1 [OF journal_validation [OF sample_ethers_laws sample_sha256_law]]
  using journal_value_shown [OF sample_journal_wf] sample_journal_wf by simp

theorem journal_round_trip_witness:
  "createStagingJournal sample_ethers sample_sha256 (ceremony_context sample_ceremony) (NumberHost (SafeInteger 1000)) =
     Inr sample_journal \<and>
   validateStagingJournalRecord sample_ethers sample_sha256 (journal_value sample_journal) = Inr sample_journal"
  using sample_created journal_round_trip [OF sample_ethers_laws sample_sha256_law] by blast

theorem journal_refines_staging_witness:
  "staging_step (staging_abs sample_journal)
     (staging_abs (advanced sample_sha256 sample_journal JOURNAL_CANCELLED 1100 (sj_manifest sample_journal)))"
  using journal_refines_staging [OF sample_ethers_laws sample_sha256_law sample_journal_wf] sample_cancelled by blast

theorem journal_runs_witness:
  "let q = advanced sample_sha256 sample_journal JOURNAL_CANCELLED 1100 (sj_manifest sample_journal) in
     journal_wf sample_ethers sample_sha256 q \<and> staging_history (staging_abs sample_journal) (staging_abs q)"
proof -
  let ?q = "advanced sample_sha256 sample_journal JOURNAL_CANCELLED 1100 (sj_manifest sample_journal)"
  have "journal_step sample_ethers sample_sha256 sample_journal ?q"
    unfolding journal_step_def using sample_cancelled by blast
  with journal_runs [OF sample_ethers_laws sample_sha256_law sample_created rtranclp.rtrancl_refl r_into_rtranclp]
  show ?thesis by (simp add: Let_def)
qed

text \<open>Two journals of the sample ceremony, under a digest for which all texts collide.\<close>

definition colliding_journal :: "int \<Rightarrow> StagingJournalRecord" where
  "colliding_journal n = created_journal (\<lambda>_. replicate 64 (CHR ''a'')) (record_context sample_ceremony) n"

theorem journal_checksum_binds_witness:
  "sj_integrityChecksum (colliding_journal 1000) = sj_integrityChecksum (colliding_journal 1001) \<and>
     checksum_projection (colliding_journal 1000) \<noteq> checksum_projection (colliding_journal 1001)"
proof -
  let ?h = "\<lambda>_ :: string. replicate 64 (CHR ''a'')"
  have wf: "journal_wf sample_ethers ?h (colliding_journal n)" if "n \<in> {1000, 1001}" for n
    unfolding colliding_journal_def
    by (rule created_wf [OF sample_context_wf]) (use that in \<open>auto simp: record_context_def sample_ceremony_def active_record_def\<close>)
  have same: "sj_integrityChecksum (colliding_journal 1000) = sj_integrityChecksum (colliding_journal 1001)"
    using wf [of 1000] wf [of 1001] by (simp add: journal_wf_def computeStagingJournalChecksum_def)
  have "sj_createdAtUnixSeconds (colliding_journal 1000) \<noteq> sj_createdAtUnixSeconds (colliding_journal 1001)"
    by (simp add: colliding_journal_def)
  then have "colliding_journal 1000 \<noteq> colliding_journal 1001" by metis
  with journal_checksum_binds [OF wf wf same] same show ?thesis by simp
qed

theorem candidate_staged_witness:
  "\<exists>q. stageRoleCandidate sample_ethers sample_sha256 (journal_value sample_journal) (NumberHost (SafeInteger 1))
      sample_candidate (NumberHost (SafeInteger 1200)) = Inr q \<and> sj_state q = JOURNAL_STAGING \<and>
    journal_slot (sj_manifest q) =
      (journal_slot (sj_manifest sample_journal))(1 \<mapsto> staged_entry 1 (h32 (CHR ''c'')) ''7'' 1200)"
  by (rule candidate_staged [OF sample_ethers_laws sample_sha256_law sample_journal_wf _ _ sample_candidate_shown]) simp_all

theorem journal_of_ceremony_witness:
  "\<exists>j. createStagingJournal sample_ethers sample_sha256 (ceremony_context sample_ceremony) (NumberHost (SafeInteger 1299)) =
      Inr j \<and> journal_wf sample_ethers sample_sha256 j \<and> sj_state j = JOURNAL_STAGING \<and>
    cc_ceremonyId j = rc_ceremonyId sample_ceremony \<and>
    cc_enrollmentCeremonyHash j = rc_enrollmentCeremonyHash sample_ceremony \<and>
    expires j = rc_expiresAtUnixSeconds sample_ceremony"
  by (rule journal_of_ceremony [OF sample_ethers_laws sample_sha256_law sample_ceremony_minted sample_ceremony_hashes])
     (simp_all add: sample_ceremony_def active_record_def)

end
