(* ===== verification/RecoveryEvidence.thy ===== *)
theory RecoveryEvidence
  imports RecoveryProfile
begin

text \<open>
  Recovery descriptors and evidence of version 2 (\<open>v2RecoveryEvidence.ts\<close>): the public material and
  the independence binding of a factor, the descriptor of a factor in its role, the configuration of
  three descriptors, the rotation of descriptors, and the context that two factors sign to authorise a
  recovery action, with the checks of the context against the factors and against the account.

  The inputs are plain data of the types of the interfaces of the file: a number is a \<open>BigNumberish\<close>, a
  hash and an address a string, and each property has one value however often it is read. A member of
  \<open>PHILCORE_V2_RECOVERY_DESCRIPTOR_TYPE\<close> is a constructor of \<open>descriptor_type\<close>; \<open>RECOVERY_CONFIGURATION_V2\<close>
  is its \<open>RECOVERY_CONFIGURATION\<close>. The material of an offline signer is hashed in \<open>ConsumerRecovery\<close>.
\<close>

section \<open>Constants\<close>

definition PHILCORE_V2_RECOVERY_DESCRIPTOR_VERSION :: int where
  "PHILCORE_V2_RECOVERY_DESCRIPTOR_VERSION = 2"

definition PHILCORE_V2_RECOVERY_CONFIGURATION_VERSION_V2 :: int where
  "PHILCORE_V2_RECOVERY_CONFIGURATION_VERSION_V2 = 2"

definition PHILCORE_V2_RECOVERY_EVIDENCE_VERSION :: int where
  "PHILCORE_V2_RECOVERY_EVIDENCE_VERSION = 2"

definition PHILCORE_V2_RECOVERY_AUTHORITY_KIND :: int where
  "PHILCORE_V2_RECOVERY_AUTHORITY_KIND = 2"

definition EVIDENCE_RECOVERY_DELAY_SECONDS :: int where
  "EVIDENCE_RECOVERY_DELAY_SECONDS = 172800"

definition EVIDENCE_RECOVERY_EXPIRY_SECONDS :: int where
  "EVIDENCE_RECOVERY_EXPIRY_SECONDS = 604800"

definition PHILCORE_V2_RECOVERY_DOMAIN_LABEL :: string where
  "PHILCORE_V2_RECOVERY_DOMAIN_LABEL = ''PHILCORE_V2_RECOVERY_FACTOR_DESCRIPTOR_V2''"

definition PHILCORE_V2_RECOVERY_DOMAIN_ID :: "ethers \<Rightarrow> string" where
  "PHILCORE_V2_RECOVERY_DOMAIN_ID E = keccak256 E (toUtf8Bytes E PHILCORE_V2_RECOVERY_DOMAIN_LABEL)"

definition BACKUP_NOT_APPLICABLE :: int where
  "BACKUP_NOT_APPLICABLE = 0"

definition ATTACHMENT_NOT_APPLICABLE :: int where
  "ATTACHMENT_NOT_APPLICABLE = 0"

definition ATTESTATION_NOT_APPLICABLE :: int where
  "ATTESTATION_NOT_APPLICABLE = 0"

datatype descriptor_type =
    WEBAUTHN_PUBLIC_MATERIAL | SECP256K1_PUBLIC_MATERIAL | INDEPENDENCE_BINDING | FACTOR_DESCRIPTOR
  | RECOVERY_CONFIGURATION_V2 | EVIDENCE_CONTEXT

fun PHILCORE_V2_RECOVERY_DESCRIPTOR_TYPE :: "descriptor_type \<Rightarrow> string" where
  "PHILCORE_V2_RECOVERY_DESCRIPTOR_TYPE WEBAUTHN_PUBLIC_MATERIAL =
     ''PhilCoreV2WebAuthnPublicMaterial(bytes32 qx,bytes32 qy)''"
| "PHILCORE_V2_RECOVERY_DESCRIPTOR_TYPE SECP256K1_PUBLIC_MATERIAL = SECP256K1_PUBLIC_MATERIAL_TYPE"
| "PHILCORE_V2_RECOVERY_DESCRIPTOR_TYPE INDEPENDENCE_BINDING =
     ''PhilCoreV2RecoveryIndependenceBinding(uint8 bindingVersion,uint8 role,bytes32 credentialIdHash,bytes32 '' @
     ''enrollmentCeremonyHash,bytes32 attestationEvidenceHash,bytes32 custodyDomainId)''"
| "PHILCORE_V2_RECOVERY_DESCRIPTOR_TYPE FACTOR_DESCRIPTOR =
     ''PhilCoreV2RecoveryFactorDescriptorV2(uint8 descriptorVersion,bytes32 accountVersionId,bytes32 securityM'' @
     ''odelId,bytes32 recoveryDomainId,uint8 role,uint8 verifierKind,bytes32 publicVerificationMaterialHash,by'' @
     ''tes32 credentialIdHash,bytes32 rpIdHash,bytes32 originPolicyHash,bytes32 independenceBindingHash,uint8 '' @
     ''userVerificationPolicy,uint8 backupPolicy,uint8 authenticatorAttachmentPolicy,uint8 attestationPolicy,u'' @
     ''int64 credentialGeneration)''"
| "PHILCORE_V2_RECOVERY_DESCRIPTOR_TYPE RECOVERY_CONFIGURATION_V2 =
     ''PhilCoreV2RecoveryConfigurationV2(uint8 configurationVersion,uint8 threshold,bytes32 primaryDeviceCommi'' @
     ''tment,bytes32 hardwareSecurityKeyCommitment,bytes32 recoveryFactorCommitment)''"
| "PHILCORE_V2_RECOVERY_DESCRIPTOR_TYPE EVIDENCE_CONTEXT =
     ''PhilCoreV2RecoveryEvidenceContextV2(uint8 envelopeVersion,uint8 authorityKind,uint8 actionType,uint8 fa'' @
     ''ctorBitmap,address account,uint256 chainId,address entryPoint,bytes32 authorizedIntentHash,bytes32 user'' @
     ''OpHash,bytes32 requestId,bytes32 currentRecoveryConfigHash,uint64 validatorEpoch,uint64 recoveryEpoch,u'' @
     ''int48 validAfter,uint48 validUntil,uint64 recoveryDelaySeconds,uint64 recoveryExpirySeconds,bytes32 pro'' @
     ''posedValidatorCommitment,bytes32 proposedRecoveryConfigHash,uint64 proposedRecoveryEpoch,bytes32 primar'' @
     ''yDeviceCommitment,bytes32 hardwareSecurityKeyCommitment,bytes32 recoveryFactorCommitment,bytes32 firstF'' @
     ''actorCommitment,bytes32 secondFactorCommitment)''"

declare PHILCORE_V2_RECOVERY_DESCRIPTOR_TYPE.simps [simp del]

definition PHILCORE_V2_RECOVERY_DESCRIPTOR_TYPEHASH :: "ethers \<Rightarrow> descriptor_type \<Rightarrow> string" where
  "PHILCORE_V2_RECOVERY_DESCRIPTOR_TYPEHASH E t = keccak256 E (toUtf8Bytes E (PHILCORE_V2_RECOVERY_DESCRIPTOR_TYPE t))"

section \<open>Inputs\<close>

record PhilCoreV2RecoveryIndependenceBindingInput =
  bi_bindingVersion :: bignumberish
  bi_role :: bignumberish
  bi_credentialIdHash :: string
  bi_enrollmentCeremonyHash :: string
  bi_attestationEvidenceHash :: string
  bi_custodyDomainId :: string

record PhilCoreV2RecoveryFactorDescriptorInput =
  df_descriptorVersion :: bignumberish
  df_accountVersionId :: string
  df_securityModelId :: string
  df_recoveryDomainId :: string
  df_role :: bignumberish
  df_verifierKind :: bignumberish
  df_publicVerificationMaterialHash :: string
  df_credentialIdHash :: string
  df_rpIdHash :: string
  df_originPolicyHash :: string
  df_independenceBindingHash :: string
  df_userVerificationPolicy :: bignumberish
  df_backupPolicy :: bignumberish
  df_authenticatorAttachmentPolicy :: bignumberish
  df_attestationPolicy :: bignumberish
  df_credentialGeneration :: bignumberish

record PhilCoreV2RecoveryConfigurationV2Input =
  cv_configurationVersion :: bignumberish
  cv_threshold :: bignumberish
  cv_primaryDeviceCommitment :: string
  cv_hardwareSecurityKeyCommitment :: string
  cv_recoveryFactorCommitment :: string

record PhilCoreV2RecoveryEvidenceContextInput =
  ec_envelopeVersion :: bignumberish
  ec_authorityKind :: bignumberish
  ec_actionType :: bignumberish
  ec_factorBitmap :: bignumberish
  ec_account :: string
  ec_chainId :: bignumberish
  ec_entryPoint :: string
  ec_authorizedIntentHash :: string
  ec_userOperationHash :: string
  ec_requestId :: string
  ec_currentRecoveryConfigHash :: string
  ec_validatorEpoch :: bignumberish
  ec_recoveryEpoch :: bignumberish
  ec_validAfter :: bignumberish
  ec_validUntil :: bignumberish
  ec_recoveryDelaySeconds :: bignumberish
  ec_recoveryExpirySeconds :: bignumberish
  ec_proposedValidatorCommitment :: string
  ec_proposedRecoveryConfigHash :: string
  ec_proposedRecoveryEpoch :: bignumberish
  ec_primaryDeviceCommitment :: string
  ec_hardwareSecurityKeyCommitment :: string
  ec_recoveryFactorCommitment :: string
  ec_firstFactorCommitment :: string
  ec_secondFactorCommitment :: string

record PhilCoreV2RecoveryRotationInput =
  ri_currentRecoveryEpoch :: bignumberish
  ri_proposedRecoveryEpoch :: bignumberish
  ri_currentDescriptors :: "PhilCoreV2RecoveryFactorDescriptorInput list"
  ri_proposedDescriptors :: "PhilCoreV2RecoveryFactorDescriptorInput list"

section \<open>Argument checks\<close>

definition evidence_bytes32 :: "ethers \<Rightarrow> string \<Rightarrow> string \<Rightarrow> bool \<Rightarrow> string result" where
  "evidence_bytes32 E v label allowZero =
     bnd (ensure (isHexString E v 32) (label @ ''_must_be_bytes32'')) (\<lambda>_.
     bnd (ensure (\<not> (\<not> allowZero \<and> toLowerCase v = ZERO_BYTES32)) (label @ ''_must_be_nonzero'')) (\<lambda>_.
     Inr (toLowerCase v)))"

definition evidence_uint :: "bignumberish \<Rightarrow> nat \<Rightarrow> string \<Rightarrow> bool \<Rightarrow> int result" where
  "evidence_uint v bits label nonzero =
     catch (BigInt_of v) (throw (label @ ''_must_be_uint'' @ show_nat bits)) (\<lambda>parsed.
     bnd (ensure (\<not> (parsed < 0 \<or> parsed \<ge> 2 ^ bits)) (label @ ''_must_be_uint'' @ show_nat bits)) (\<lambda>_.
     bnd (ensure (\<not> (nonzero \<and> parsed = 0)) (label @ ''_must_be_nonzero'')) (\<lambda>_. Inr parsed)))"

definition exactUint8 :: "bignumberish \<Rightarrow> int \<Rightarrow> string \<Rightarrow> int result" where
  "exactUint8 v expected label =
     bnd (evidence_uint v 8 label False) (\<lambda>parsed.
     bnd (ensure (parsed = expected) (label @ ''_unsupported'')) (\<lambda>_. Inr parsed))"

definition factorRole :: "bignumberish \<Rightarrow> int result" where
  "factorRole v =
     bnd (evidence_uint v 8 ''factorRole'' False) (\<lambda>parsed.
     bnd (ensure (parsed \<in> set [0, 1, 2]) ''factorRole_unsupported'') (\<lambda>_. Inr parsed))"

definition evidence_factorBitmap :: "bignumberish \<Rightarrow> int result" where
  "evidence_factorBitmap v =
     bnd (evidence_uint v 8 ''factorBitmap'' False) (\<lambda>parsed.
     bnd (ensure (parsed \<in> set [3, 5, 6]) ''recovery_factor_bitmap_invalid'') (\<lambda>_. Inr parsed))"

text \<open>The bitmaps of \<open>PHILCORE_V2_RECOVERY_FACTOR_BITMAP\<close> are 3, 5 and 6.\<close>

definition expectedRoles :: "int \<Rightarrow> nat \<times> nat" where
  "expectedRoles bitmap =
     (if bitmap = PHILCORE_V2_RECOVERY_FACTOR_BITMAP ! 0 then (0, 1)
      else if bitmap = PHILCORE_V2_RECOVERY_FACTOR_BITMAP ! 1 then (0, 2) else (1, 2))"

section \<open>Public material and independence\<close>

definition computePhilCoreV2WebAuthnPublicMaterialHash :: "ethers \<Rightarrow> string \<Rightarrow> string \<Rightarrow> string result" where
  "computePhilCoreV2WebAuthnPublicMaterialHash E input_qx input_qy =
     bnd (evidence_bytes32 E input_qx ''qx'' False) (\<lambda>qx.
     bnd (evidence_bytes32 E input_qy ''qy'' False) (\<lambda>qy.
     bnd (ensure (qx \<noteq> qy) ''webauthn_public_point_coordinates_duplicate'') (\<lambda>_.
     Inr (keccak256 E (HexData (abiEncode E [''bytes32'', ''bytes32'', ''bytes32'']
       [AbiHex (PHILCORE_V2_RECOVERY_DESCRIPTOR_TYPEHASH E WEBAUTHN_PUBLIC_MATERIAL), AbiHex qx, AbiHex qy]))))))"

definition binding_types :: "string list" where
  "binding_types = [''uint8'', ''uint8'', ''bytes32'', ''bytes32'', ''bytes32'', ''bytes32'']"

definition computePhilCoreV2RecoveryIndependenceBinding ::
  "ethers \<Rightarrow> PhilCoreV2RecoveryIndependenceBindingInput \<Rightarrow> string result" where
  "computePhilCoreV2RecoveryIndependenceBinding E input =
     bnd (factorRole (bi_role input)) (\<lambda>role.
     bnd (evidence_bytes32 E (bi_credentialIdHash input) ''credentialIdHash''
            (role = PHILCORE_V2_RECOVERY_FACTOR_ROLE RECOVERY_FACTOR)) (\<lambda>credentialIdHash.
     bnd (evidence_bytes32 E (bi_attestationEvidenceHash input) ''attestationEvidenceHash''
            (role = PHILCORE_V2_RECOVERY_FACTOR_ROLE RECOVERY_FACTOR)) (\<lambda>attestationEvidenceHash.
     bnd (ensure (\<not> (role = PHILCORE_V2_RECOVERY_FACTOR_ROLE RECOVERY_FACTOR \<and> credentialIdHash \<noteq> ZERO_BYTES32))
            ''secp256k1_credentialIdHash_must_be_zero'') (\<lambda>_.
     bnd (ensure (\<not> (role \<noteq> PHILCORE_V2_RECOVERY_FACTOR_ROLE RECOVERY_FACTOR \<and> attestationEvidenceHash = ZERO_BYTES32))
            ''webauthn_attestation_evidence_required'') (\<lambda>_.
     bnd (exactUint8 (bi_bindingVersion input) 1 ''independenceBindingVersion'') (\<lambda>bindingVersion.
     bnd (evidence_bytes32 E (bi_enrollmentCeremonyHash input) ''enrollmentCeremonyHash'' False) (\<lambda>enrollmentCeremonyHash.
     bnd (evidence_bytes32 E (bi_custodyDomainId input) ''custodyDomainId'' False) (\<lambda>custodyDomainId.
     Inr (keccak256 E (HexData (abiEncode E (''bytes32'' # binding_types)
       [AbiHex (PHILCORE_V2_RECOVERY_DESCRIPTOR_TYPEHASH E INDEPENDENCE_BINDING), AbiUint bindingVersion, AbiUint role,
        AbiHex credentialIdHash, AbiHex enrollmentCeremonyHash, AbiHex attestationEvidenceHash,
        AbiHex custodyDomainId])))))))))))"

section \<open>Descriptors\<close>

record normal_factor_descriptor =
  dn_descriptorVersion :: int
  dn_accountVersionId :: string
  dn_securityModelId :: string
  dn_recoveryDomainId :: string
  dn_role :: int
  dn_verifierKind :: int
  dn_publicVerificationMaterialHash :: string
  dn_credentialIdHash :: string
  dn_rpIdHash :: string
  dn_originPolicyHash :: string
  dn_independenceBindingHash :: string
  dn_userVerificationPolicy :: int
  dn_backupPolicy :: int
  dn_authenticatorAttachmentPolicy :: int
  dn_attestationPolicy :: int
  dn_credentialGeneration :: int

definition webauthn_descriptor ::
  "string \<Rightarrow> int \<Rightarrow> int \<Rightarrow> normal_factor_descriptor \<Rightarrow> unit result" where
  "webauthn_descriptor label attachment attestation d =
     bnd (ensure (dn_verifierKind d = PHILCORE_V2_RECOVERY_VERIFIER_KIND WEBAUTHN_P256) (label @ ''_verifierKind_invalid'')) (\<lambda>_.
     bnd (ensure (\<not> (dn_credentialIdHash d = ZERO_BYTES32 \<or> dn_rpIdHash d = ZERO_BYTES32 \<or> dn_originPolicyHash d = ZERO_BYTES32))
            (label @ ''_descriptor_incomplete'')) (\<lambda>_.
     ensure (\<not> (dn_userVerificationPolicy d \<noteq> PHILCORE_V2_USER_VERIFICATION_POLICY USER_VERIFICATION_REQUIRED \<or>
                dn_backupPolicy d \<noteq> BACKUP_SINGLE_DEVICE_REQUIRED \<or> dn_authenticatorAttachmentPolicy d \<noteq> attachment \<or>
                dn_attestationPolicy d \<noteq> attestation))
       (label @ ''_policy_invalid'')))"

definition secp256k1_descriptor :: "normal_factor_descriptor \<Rightarrow> unit result" where
  "secp256k1_descriptor d =
     bnd (ensure (dn_verifierKind d = PHILCORE_V2_RECOVERY_VERIFIER_KIND PURPOSE_BOUND_SECP256K1)
            ''recovery_factor_verifierKind_invalid'') (\<lambda>_.
     bnd (ensure (\<not> (dn_credentialIdHash d \<noteq> ZERO_BYTES32 \<or> dn_rpIdHash d \<noteq> ZERO_BYTES32 \<or> dn_originPolicyHash d \<noteq> ZERO_BYTES32))
            ''secp256k1_webauthn_fields_must_be_zero'') (\<lambda>_.
     ensure (\<not> (dn_userVerificationPolicy d \<noteq> PHILCORE_V2_USER_VERIFICATION_POLICY NOT_APPLICABLE \<or>
                dn_backupPolicy d \<noteq> BACKUP_NOT_APPLICABLE \<or>
                dn_authenticatorAttachmentPolicy d \<noteq> ATTACHMENT_NOT_APPLICABLE \<or>
                dn_attestationPolicy d \<noteq> ATTESTATION_NOT_APPLICABLE))
       ''recovery_factor_policy_invalid''))"

definition descriptor_policy :: "normal_factor_descriptor \<Rightarrow> unit result" where
  "descriptor_policy d =
     (if dn_role d = PHILCORE_V2_RECOVERY_FACTOR_ROLE PRIMARY_DEVICE then
        webauthn_descriptor ''primary_device'' ATTACHMENT_PLATFORM_REQUIRED ATTESTATION_VERIFIED_DEVICE_BOUND d
      else if dn_role d = PHILCORE_V2_RECOVERY_FACTOR_ROLE HARDWARE_SECURITY_KEY then
        webauthn_descriptor ''hardware_security_key'' ATTACHMENT_CROSS_PLATFORM_REQUIRED ATTESTATION_VERIFIED_EXTERNAL_HARDWARE d
      else secp256k1_descriptor d)"

definition normalizedDescriptor ::
  "ethers \<Rightarrow> PhilCoreV2RecoveryFactorDescriptorInput \<Rightarrow> normal_factor_descriptor result" where
  "normalizedDescriptor E input =
     bnd (exactUint8 (df_descriptorVersion input) PHILCORE_V2_RECOVERY_DESCRIPTOR_VERSION ''descriptorVersion'') (\<lambda>descriptorVersion.
     bnd (evidence_bytes32 E (df_accountVersionId input) ''accountVersionId'' False) (\<lambda>accountVersionId.
     bnd (evidence_bytes32 E (df_securityModelId input) ''securityModelId'' False) (\<lambda>securityModelId.
     bnd (evidence_bytes32 E (df_recoveryDomainId input) ''recoveryDomainId'' False) (\<lambda>recoveryDomainId.
     bnd (ensure (accountVersionId = toLowerCase (PHILCORE_V2_ACCOUNT_VERSION_ID E)) ''accountVersionId_unsupported'') (\<lambda>_.
     bnd (ensure (securityModelId = toLowerCase (PHILCORE_V2_SECURITY_MODEL_ID E)) ''securityModelId_unsupported'') (\<lambda>_.
     bnd (ensure (recoveryDomainId = toLowerCase (PHILCORE_V2_RECOVERY_DOMAIN_ID E)) ''recoveryDomainId_unsupported'') (\<lambda>_.
     bnd (factorRole (df_role input)) (\<lambda>role.
     bnd (evidence_uint (df_verifierKind input) 8 ''verifierKind'' True) (\<lambda>kind.
     bnd (evidence_bytes32 E (df_publicVerificationMaterialHash input) ''publicVerificationMaterialHash'' False) (\<lambda>material.
     bnd (evidence_bytes32 E (df_credentialIdHash input) ''credentialIdHash'' True) (\<lambda>credentialIdHash.
     bnd (evidence_bytes32 E (df_rpIdHash input) ''rpIdHash'' True) (\<lambda>rpIdHash.
     bnd (evidence_bytes32 E (df_originPolicyHash input) ''originPolicyHash'' True) (\<lambda>originPolicyHash.
     bnd (evidence_bytes32 E (df_independenceBindingHash input) ''independenceBindingHash'' False) (\<lambda>independenceBindingHash.
     bnd (evidence_uint (df_userVerificationPolicy input) 8 ''userVerificationPolicy'' False) (\<lambda>verification.
     bnd (evidence_uint (df_backupPolicy input) 8 ''backupPolicy'' False) (\<lambda>backup.
     bnd (evidence_uint (df_authenticatorAttachmentPolicy input) 8 ''authenticatorAttachmentPolicy'' False) (\<lambda>attachment.
     bnd (evidence_uint (df_attestationPolicy input) 8 ''attestationPolicy'' False) (\<lambda>attestation.
     bnd (evidence_uint (df_credentialGeneration input) 64 ''credentialGeneration'' True) (\<lambda>generation.
     let d = \<lparr>dn_descriptorVersion = descriptorVersion, dn_accountVersionId = accountVersionId,
          dn_securityModelId = securityModelId, dn_recoveryDomainId = recoveryDomainId, dn_role = role,
          dn_verifierKind = kind, dn_publicVerificationMaterialHash = material, dn_credentialIdHash = credentialIdHash,
          dn_rpIdHash = rpIdHash, dn_originPolicyHash = originPolicyHash,
          dn_independenceBindingHash = independenceBindingHash, dn_userVerificationPolicy = verification,
          dn_backupPolicy = backup, dn_authenticatorAttachmentPolicy = attachment, dn_attestationPolicy = attestation,
          dn_credentialGeneration = generation\<rparr> in
     bnd (descriptor_policy d) (\<lambda>_. Inr d))))))))))))))))))))"

definition factor_descriptor_words :: "normal_factor_descriptor \<Rightarrow> abi_value list" where
  "factor_descriptor_words d =
     [AbiUint (dn_descriptorVersion d), AbiHex (dn_accountVersionId d), AbiHex (dn_securityModelId d),
      AbiHex (dn_recoveryDomainId d), AbiUint (dn_role d), AbiUint (dn_verifierKind d),
      AbiHex (dn_publicVerificationMaterialHash d), AbiHex (dn_credentialIdHash d), AbiHex (dn_rpIdHash d),
      AbiHex (dn_originPolicyHash d), AbiHex (dn_independenceBindingHash d), AbiUint (dn_userVerificationPolicy d),
      AbiUint (dn_backupPolicy d), AbiUint (dn_authenticatorAttachmentPolicy d), AbiUint (dn_attestationPolicy d),
      AbiUint (dn_credentialGeneration d)]"

text \<open>The types of the fields are those of the consumer descriptor (\<open>descriptor_types\<close>).\<close>

definition computePhilCoreV2RecoveryDescriptorCommitment ::
  "ethers \<Rightarrow> PhilCoreV2RecoveryFactorDescriptorInput \<Rightarrow> string result" where
  "computePhilCoreV2RecoveryDescriptorCommitment E input =
     bnd (normalizedDescriptor E input) (\<lambda>descriptor.
     Inr (keccak256 E (HexData (abiEncode E (''bytes32'' # descriptor_types)
       (AbiHex (PHILCORE_V2_RECOVERY_DESCRIPTOR_TYPEHASH E FACTOR_DESCRIPTOR) # factor_descriptor_words descriptor)))))"

section \<open>Configurations\<close>

definition computePhilCoreV2RecoveryConfigurationHashV2 ::
  "ethers \<Rightarrow> PhilCoreV2RecoveryConfigurationV2Input \<Rightarrow> string result" where
  "computePhilCoreV2RecoveryConfigurationHashV2 E input =
     bnd (exactUint8 (cv_configurationVersion input) PHILCORE_V2_RECOVERY_CONFIGURATION_VERSION_V2 ''configurationVersion'')
       (\<lambda>configurationVersion.
     bnd (exactUint8 (cv_threshold input) PHILCORE_V2_RECOVERY_THRESHOLD ''recoveryThreshold'') (\<lambda>threshold.
     bnd (evidence_bytes32 E (cv_primaryDeviceCommitment input) ''primaryDeviceCommitment'' False) (\<lambda>primary.
     bnd (evidence_bytes32 E (cv_hardwareSecurityKeyCommitment input) ''hardwareSecurityKeyCommitment'' False) (\<lambda>hardware.
     bnd (evidence_bytes32 E (cv_recoveryFactorCommitment input) ''recoveryFactorCommitment'' False) (\<lambda>recovery.
     bnd (ensure (set_size [primary, hardware, recovery] = length [primary, hardware, recovery])
            ''recovery_factor_commitments_must_be_unique'') (\<lambda>_.
     Inr (keccak256 E (HexData (abiEncode E (''bytes32'' # configuration_types)
       [AbiHex (PHILCORE_V2_RECOVERY_DESCRIPTOR_TYPEHASH E RECOVERY_CONFIGURATION_V2), AbiUint configurationVersion,
        AbiUint threshold, AbiHex primary, AbiHex hardware, AbiHex recovery])))))))))"

text \<open>The input of the calls with the version and the threshold of the file.\<close>

definition configuration_of :: "string \<Rightarrow> string \<Rightarrow> string \<Rightarrow> PhilCoreV2RecoveryConfigurationV2Input" where
  "configuration_of primary hardware recovery =
     \<lparr>cv_configurationVersion = NumberV (IntegerNumber PHILCORE_V2_RECOVERY_CONFIGURATION_VERSION_V2),
      cv_threshold = NumberV (IntegerNumber PHILCORE_V2_RECOVERY_THRESHOLD), cv_primaryDeviceCommitment = primary,
      cv_hardwareSecurityKeyCommitment = hardware, cv_recoveryFactorCommitment = recovery\<rparr>"

record descriptor_set =
  ds_commitments :: "string list"
  ds_recoveryConfigHash :: string

definition validatePhilCoreV2RecoveryDescriptorSet ::
  "ethers \<Rightarrow> PhilCoreV2RecoveryFactorDescriptorInput list \<Rightarrow> descriptor_set result" where
  "validatePhilCoreV2RecoveryDescriptorSet E descriptors =
     bnd (map_index (\<lambda>_. normalizedDescriptor E) 0 descriptors) (\<lambda>normalized.
     bnd (ensure (list_all2 (\<lambda>d index. dn_role d = int index) normalized [0..<length normalized])
            ''recovery_factor_role_order_invalid'') (\<lambda>_.
     bnd (ensure (set_size (map dn_publicVerificationMaterialHash normalized) = 3)
            ''recovery_factor_publicVerificationMaterialHash_must_be_unique'') (\<lambda>_.
     bnd (ensure (set_size (map dn_independenceBindingHash normalized) = 3)
            ''recovery_factor_independenceBindingHash_must_be_unique'') (\<lambda>_.
     bnd (ensure (dn_credentialIdHash (normalized ! 0) \<noteq> dn_credentialIdHash (normalized ! 1))
            ''webauthn_credentialIdHash_must_be_unique'') (\<lambda>_.
     bnd (map_index (\<lambda>_. computePhilCoreV2RecoveryDescriptorCommitment E) 0 descriptors) (\<lambda>commitments.
     bnd (computePhilCoreV2RecoveryConfigurationHashV2 E
            (configuration_of (commitments ! 0) (commitments ! 1) (commitments ! 2))) (\<lambda>recoveryConfigHash.
     Inr \<lparr>ds_commitments = commitments, ds_recoveryConfigHash = recoveryConfigHash\<rparr>)))))))"

section \<open>Rotation\<close>

record descriptor_rotation =
  dr_changedRoles :: "nat list"
  dr_currentRecoveryConfigHash :: string
  dr_proposedRecoveryConfigHash :: string

definition rotated_descriptor ::
  "nat \<Rightarrow> normal_factor_descriptor \<Rightarrow> normal_factor_descriptor \<Rightarrow> unit result" where
  "rotated_descriptor r current proposed =
     bnd (ensure (dn_credentialGeneration proposed = dn_credentialGeneration current + 1)
            ''rotated_factor_generation_must_increment_once'') (\<lambda>_.
     bnd (ensure (dn_publicVerificationMaterialHash proposed \<noteq> dn_publicVerificationMaterialHash current)
            ''rotated_factor_public_material_must_change'') (\<lambda>_.
     bnd (ensure (dn_independenceBindingHash proposed \<noteq> dn_independenceBindingHash current)
            ''rotated_factor_independence_binding_must_change'') (\<lambda>_.
     ensure (\<not> (int r \<noteq> PHILCORE_V2_RECOVERY_FACTOR_ROLE RECOVERY_FACTOR \<and>
                dn_credentialIdHash proposed = dn_credentialIdHash current))
       ''rotated_webauthn_credential_must_change'')))"

fun rotated_roles ::
  "string list \<Rightarrow> string list \<Rightarrow> normal_factor_descriptor list \<Rightarrow> normal_factor_descriptor list \<Rightarrow> nat list \<Rightarrow> nat list result"
where
  "rotated_roles cs cs' current proposed [] = Inr []"
| "rotated_roles cs cs' current proposed (r # rs) =
     (if cs ! r = cs' ! r then rotated_roles cs cs' current proposed rs
      else bnd (rotated_descriptor r (current ! r) (proposed ! r)) (\<lambda>_.
           bnd (rotated_roles cs cs' current proposed rs) (\<lambda>changedRoles. Inr (r # changedRoles))))"

definition validatePhilCoreV2RecoveryRotation ::
  "ethers \<Rightarrow> PhilCoreV2RecoveryRotationInput \<Rightarrow> descriptor_rotation result" where
  "validatePhilCoreV2RecoveryRotation E input =
     bnd (evidence_uint (ri_currentRecoveryEpoch input) 64 ''currentRecoveryEpoch'' True) (\<lambda>currentEpoch.
     bnd (evidence_uint (ri_proposedRecoveryEpoch input) 64 ''proposedRecoveryEpoch'' True) (\<lambda>proposedEpoch.
     bnd (ensure (proposedEpoch = currentEpoch + 1) ''proposedRecoveryEpoch_must_equal_current_plus_one'') (\<lambda>_.
     bnd (validatePhilCoreV2RecoveryDescriptorSet E (ri_currentDescriptors input)) (\<lambda>currentSet.
     bnd (validatePhilCoreV2RecoveryDescriptorSet E (ri_proposedDescriptors input)) (\<lambda>proposedSet.
     bnd (map_index (\<lambda>_. normalizedDescriptor E) 0 (ri_currentDescriptors input)) (\<lambda>current.
     bnd (map_index (\<lambda>_. normalizedDescriptor E) 0 (ri_proposedDescriptors input)) (\<lambda>proposed.
     bnd (rotated_roles (ds_commitments currentSet) (ds_commitments proposedSet) current proposed [0, 1, 2]) (\<lambda>changedRoles.
     bnd (ensure (length changedRoles \<noteq> 0) ''recovery_rotation_must_change_factor'') (\<lambda>_.
     Inr \<lparr>dr_changedRoles = changedRoles, dr_currentRecoveryConfigHash = ds_recoveryConfigHash currentSet,
          dr_proposedRecoveryConfigHash = ds_recoveryConfigHash proposedSet\<rparr>)))))))))"

section \<open>The argument checks accept exactly the well-formed values\<close>

lemma evidence_bytes32_iff [result_simps]: "evidence_bytes32 E v l az = Inr s \<longleftrightarrow> is_bytes32 E az v s"
  by (auto simp: evidence_bytes32_def is_bytes32_def bnd_eq_Inr ensure_eq_Inr)

lemma evidence_uint_iff [result_simps]: "evidence_uint v b l nz = Inr n \<longleftrightarrow> is_uint nz b v n"
  by (cases "BigInt_of v") (auto simp: evidence_uint_def is_uint_def uint_fits_def bnd_eq_Inr ensure_eq_Inr)

lemma evidence_address_iff [result_simps]: "evidence_address E v l = Inr a \<longleftrightarrow> is_address E False v a"
  by (auto simp: evidence_address_def is_address_def bnd_eq_Inr ensure_eq_Inr split: option.splits)

lemma exactUint8_iff [result_simps]: "exactUint8 v n l = Inr m \<longleftrightarrow> is_uint False 8 v n \<and> m = n"
  by (auto simp: exactUint8_def bnd_eq_Inr ensure_eq_Inr evidence_uint_iff)

lemma factorRole_iff [result_simps]: "factorRole v = Inr r \<longleftrightarrow> is_uint False 8 v r \<and> r \<in> {0, 1, 2}"
  by (auto simp: factorRole_def bnd_eq_Inr ensure_eq_Inr evidence_uint_iff)

lemma evidence_factorBitmap_iff [result_simps]:
  "evidence_factorBitmap v = Inr n \<longleftrightarrow> is_uint False 8 v n \<and> n \<in> {3, 5, 6}"
  by (auto simp: evidence_factorBitmap_def bnd_eq_Inr ensure_eq_Inr evidence_uint_iff)

lemmas evidence_checks = bnd_eq_Inr ensure_eq_Inr evidence_bytes32_iff evidence_uint_iff evidence_address_iff exactUint8_iff
  factorRole_iff evidence_factorBitmap_iff

section \<open>Descriptors in normal form\<close>

text \<open>The policy of a role: a platform authenticator, an external one, and an offline signer.\<close>

definition sound_descriptor :: "normal_factor_descriptor \<Rightarrow> bool" where
  "sound_descriptor d \<longleftrightarrow>
     (if dn_role d \<in> {0, 1}
      then dn_verifierKind d = 1 \<and> ZERO_BYTES32 \<notin> {dn_credentialIdHash d, dn_rpIdHash d, dn_originPolicyHash d} \<and>
        dn_userVerificationPolicy d = 2 \<and> dn_backupPolicy d = 1 \<and>
        dn_authenticatorAttachmentPolicy d = dn_role d + 1 \<and> dn_attestationPolicy d = dn_role d + 1
      else dn_verifierKind d = 2 \<and> {dn_credentialIdHash d, dn_rpIdHash d, dn_originPolicyHash d} = {ZERO_BYTES32} \<and>
        dn_userVerificationPolicy d = 0 \<and> dn_backupPolicy d = 0 \<and>
        dn_authenticatorAttachmentPolicy d = 0 \<and> dn_attestationPolicy d = 0)"

lemmas evidence_constants = BACKUP_SINGLE_DEVICE_REQUIRED_def BACKUP_NOT_APPLICABLE_def ATTACHMENT_PLATFORM_REQUIRED_def
  ATTACHMENT_CROSS_PLATFORM_REQUIRED_def ATTACHMENT_NOT_APPLICABLE_def ATTESTATION_VERIFIED_DEVICE_BOUND_def
  ATTESTATION_VERIFIED_EXTERNAL_HARDWARE_def ATTESTATION_NOT_APPLICABLE_def

lemma descriptor_policy_iff: "descriptor_policy d = Inr u \<longleftrightarrow> sound_descriptor d"
  by (auto simp: descriptor_policy_def webauthn_descriptor_def secp256k1_descriptor_def sound_descriptor_def bnd_eq_Inr
      ensure_eq_Inr evidence_constants)

text \<open>The descriptor \<open>n\<close> that an input is accepted as.\<close>

definition factor_descriptor :: "ethers \<Rightarrow> PhilCoreV2RecoveryFactorDescriptorInput \<Rightarrow> normal_factor_descriptor \<Rightarrow> bool" where
  "factor_descriptor E i n \<longleftrightarrow>
     is_uint False 8 (df_descriptorVersion i) PHILCORE_V2_RECOVERY_DESCRIPTOR_VERSION \<and>
     dn_descriptorVersion n = PHILCORE_V2_RECOVERY_DESCRIPTOR_VERSION \<and>
     is_bytes32 E False (df_accountVersionId i) (dn_accountVersionId n) \<and>
     is_bytes32 E False (df_securityModelId i) (dn_securityModelId n) \<and>
     is_bytes32 E False (df_recoveryDomainId i) (dn_recoveryDomainId n) \<and>
     dn_accountVersionId n = toLowerCase (PHILCORE_V2_ACCOUNT_VERSION_ID E) \<and>
     dn_securityModelId n = toLowerCase (PHILCORE_V2_SECURITY_MODEL_ID E) \<and>
     dn_recoveryDomainId n = toLowerCase (PHILCORE_V2_RECOVERY_DOMAIN_ID E) \<and>
     is_uint False 8 (df_role i) (dn_role n) \<and> dn_role n \<in> {0, 1, 2} \<and>
     is_uint True 8 (df_verifierKind i) (dn_verifierKind n) \<and>
     is_bytes32 E False (df_publicVerificationMaterialHash i) (dn_publicVerificationMaterialHash n) \<and>
     is_bytes32 E True (df_credentialIdHash i) (dn_credentialIdHash n) \<and>
     is_bytes32 E True (df_rpIdHash i) (dn_rpIdHash n) \<and>
     is_bytes32 E True (df_originPolicyHash i) (dn_originPolicyHash n) \<and>
     is_bytes32 E False (df_independenceBindingHash i) (dn_independenceBindingHash n) \<and>
     is_uint False 8 (df_userVerificationPolicy i) (dn_userVerificationPolicy n) \<and>
     is_uint False 8 (df_backupPolicy i) (dn_backupPolicy n) \<and>
     is_uint False 8 (df_authenticatorAttachmentPolicy i) (dn_authenticatorAttachmentPolicy n) \<and>
     is_uint False 8 (df_attestationPolicy i) (dn_attestationPolicy n) \<and>
     is_uint True 64 (df_credentialGeneration i) (dn_credentialGeneration n) \<and> sound_descriptor n"

lemma normalizedDescriptor_iff: "normalizedDescriptor E i = Inr n \<longleftrightarrow> factor_descriptor E i n"
  by (cases n) (auto simp: normalizedDescriptor_def factor_descriptor_def evidence_checks descriptor_policy_iff Let_def)

abbreviation factor_commitment_v2 :: "ethers \<Rightarrow> normal_factor_descriptor \<Rightarrow> string" where
  "factor_commitment_v2 E n \<equiv>
     commitment E (PHILCORE_V2_RECOVERY_DESCRIPTOR_TYPE FACTOR_DESCRIPTOR) descriptor_types (factor_descriptor_words n)"

lemma descriptor_commitment_iff:
  "computePhilCoreV2RecoveryDescriptorCommitment E i = Inr h \<longleftrightarrow>
     (\<exists>n. factor_descriptor E i n \<and> h = factor_commitment_v2 E n)"
  by (auto simp: computePhilCoreV2RecoveryDescriptorCommitment_def bnd_eq_Inr normalizedDescriptor_iff commitment_def
      commitment_preimage_def literal_hash_def PHILCORE_V2_RECOVERY_DESCRIPTOR_TYPEHASH_def)

lemma is_uint_abi:
  "is_uint nz 8 v n \<Longrightarrow> abi_fits E ''uint8'' (AbiUint n)" "is_uint nz 48 v n \<Longrightarrow> abi_fits E ''uint48'' (AbiUint n)"
  "is_uint nz 64 v n \<Longrightarrow> abi_fits E ''uint64'' (AbiUint n)" "is_uint nz 256 v n \<Longrightarrow> abi_fits E ''uint256'' (AbiUint n)"
  by (simp_all add: is_uint_def)

lemma factor_descriptor_fits:
  assumes "ethers_laws E" and "factor_descriptor E i n"
  shows "list_all2 (abi_fits E) descriptor_types (factor_descriptor_words n)"
proof -
  have "abi_fits E ''uint8'' (AbiUint (dn_descriptorVersion n))"
    using assms(2) by (simp add: factor_descriptor_def PHILCORE_V2_RECOVERY_DESCRIPTOR_VERSION_def uint_fits_def)
  with assms(2) show ?thesis
    unfolding factor_descriptor_def descriptor_types_def factor_descriptor_words_def list_all2_Cons list_all2_Nil
    by (elim conjE) (intro conjI; (rule refl | assumption | erule is_uint_abi | erule is_bytes32_abi [OF assms(1)]))
qed

lemma factor_descriptor_words_inject: "factor_descriptor_words n = factor_descriptor_words m \<Longrightarrow> n = m"
  by (cases n; cases m) (simp add: factor_descriptor_words_def)

text \<open>The inputs that are hashed for the commitment of a descriptor.\<close>

definition descriptor_inputs :: "ethers \<Rightarrow> PhilCoreV2RecoveryFactorDescriptorInput \<Rightarrow> bytes_like set" where
  "descriptor_inputs E i =
     (case normalizedDescriptor E i of Inl _ \<Rightarrow> {}
      | Inr n \<Rightarrow> commitment_inputs E (PHILCORE_V2_RECOVERY_DESCRIPTOR_TYPE FACTOR_DESCRIPTOR) descriptor_types
                  (factor_descriptor_words n))"

lemma factor_commitment_v2_inject:
  assumes "ethers_laws E" and "factor_descriptor E i n" and "factor_descriptor E j m"
    and "factor_commitment_v2 E n = factor_commitment_v2 E m"
    and "\<not> keccak_collision E (descriptor_inputs E i \<union> descriptor_inputs E j)"
  shows "n = m"
proof -
  have ins: "descriptor_inputs E i = commitment_inputs E (PHILCORE_V2_RECOVERY_DESCRIPTOR_TYPE FACTOR_DESCRIPTOR)
      descriptor_types (factor_descriptor_words n)"
    "descriptor_inputs E j = commitment_inputs E (PHILCORE_V2_RECOVERY_DESCRIPTOR_TYPE FACTOR_DESCRIPTOR)
      descriptor_types (factor_descriptor_words m)"
    using assms(2,3) by (simp_all add: descriptor_inputs_def normalizedDescriptor_iff [THEN iffD2])
  from commitment_binds [OF assms(1) factor_descriptor_fits [OF assms(1,2)] factor_descriptor_fits [OF assms(1,3)] assms(4)]
    assms(5) ins have "factor_descriptor_words n = factor_descriptor_words m" by simp
  then show ?thesis by (rule factor_descriptor_words_inject)
qed

section \<open>Commitments of the file\<close>

lemmas evidence_commitment_defs = commitment_def commitment_preimage_def literal_hash_def
  PHILCORE_V2_RECOVERY_DESCRIPTOR_TYPEHASH_def

lemma is_bytes32_lower: "is_bytes32 E az v t \<Longrightarrow> toLowerCase t = t"
  by (auto simp: is_bytes32_def)

abbreviation configuration_v2_words :: "string list \<Rightarrow> abi_value list" where
  "configuration_v2_words cs \<equiv>
     [AbiUint PHILCORE_V2_RECOVERY_CONFIGURATION_VERSION_V2, AbiUint PHILCORE_V2_RECOVERY_THRESHOLD] @ map AbiHex cs"

abbreviation configuration_v2_commitment :: "ethers \<Rightarrow> string list \<Rightarrow> string" where
  "configuration_v2_commitment E cs \<equiv>
     commitment E (PHILCORE_V2_RECOVERY_DESCRIPTOR_TYPE RECOVERY_CONFIGURATION_V2) configuration_types (configuration_v2_words cs)"

text \<open>The commitments \<open>cs\<close> that a configuration is accepted with.\<close>

definition configuration_content :: "ethers \<Rightarrow> PhilCoreV2RecoveryConfigurationV2Input \<Rightarrow> string list \<Rightarrow> bool" where
  "configuration_content E i cs \<longleftrightarrow>
     is_uint False 8 (cv_configurationVersion i) PHILCORE_V2_RECOVERY_CONFIGURATION_VERSION_V2 \<and>
     is_uint False 8 (cv_threshold i) PHILCORE_V2_RECOVERY_THRESHOLD \<and>
     list_all2 (is_bytes32 E False)
       [cv_primaryDeviceCommitment i, cv_hardwareSecurityKeyCommitment i, cv_recoveryFactorCommitment i] cs \<and> distinct cs"

lemma list_all2_three: "list_all2 P [a, b, c] zs \<longleftrightarrow> (\<exists>x y z. zs = [x, y, z] \<and> P a x \<and> P b y \<and> P c z)"
  by (auto simp: list_all2_Cons1)

lemma set_size_three: "set_size [a, b, c] = length [a, b, c] \<longleftrightarrow> distinct [a, b, c]"
  using set_size_3 [of "[a, b, c]"] by (simp add: numeral_3_eq_3)

lemma configuration_v2_iff:
  "computePhilCoreV2RecoveryConfigurationHashV2 E i = Inr h \<longleftrightarrow>
     (\<exists>cs. configuration_content E i cs \<and> h = configuration_v2_commitment E cs)"
  unfolding computePhilCoreV2RecoveryConfigurationHashV2_def configuration_content_def evidence_checks list_all2_three
    set_size_three evidence_commitment_defs sum.inject append.simps list.map
  by (intro iffI; elim exE conjE; hypsubst; (intro exI conjI, (assumption | rule refl TrueI | simp only: list.map)+))

lemma configuration_content_of:
  "configuration_content E (configuration_of a b c) cs \<longleftrightarrow> list_all2 (is_bytes32 E False) [a, b, c] cs \<and> distinct cs"
  by (simp add: configuration_content_def configuration_of_def is_uint_def uint_fits_def
      PHILCORE_V2_RECOVERY_CONFIGURATION_VERSION_V2_def PHILCORE_V2_RECOVERY_THRESHOLD_def)

lemma configuration_content_fits:
  assumes "ethers_laws E" and "configuration_content E i cs"
  shows "list_all2 (abi_fits E) configuration_types (configuration_v2_words cs)"
proof -
  from assms(2) obtain a b c where cs: "cs = [a, b, c]" and
    ok: "is_bytes32 E False (cv_primaryDeviceCommitment i) a" "is_bytes32 E False (cv_hardwareSecurityKeyCommitment i) b"
      "is_bytes32 E False (cv_recoveryFactorCommitment i) c" by (auto simp: configuration_content_def list_all2_three)
  show ?thesis
    unfolding cs configuration_types_def using ok [THEN is_bytes32_abi [OF assms(1)]]
    by (simp add: uint_fits_def PHILCORE_V2_RECOVERY_CONFIGURATION_VERSION_V2_def PHILCORE_V2_RECOVERY_THRESHOLD_def)
qed

interpretation configuration_v2: committing computePhilCoreV2RecoveryConfigurationHashV2
  "PHILCORE_V2_RECOVERY_DESCRIPTOR_TYPE RECOVERY_CONFIGURATION_V2" configuration_types
  "\<lambda>E i ws. \<exists>cs. configuration_content E i cs \<and> ws = configuration_v2_words cs"
  by unfold_locales (use configuration_v2_iff configuration_content_fits in blast)

interpretation descriptor_commitment_v2: committing computePhilCoreV2RecoveryDescriptorCommitment
  "PHILCORE_V2_RECOVERY_DESCRIPTOR_TYPE FACTOR_DESCRIPTOR" descriptor_types
  "\<lambda>E i ws. \<exists>n. factor_descriptor E i n \<and> ws = factor_descriptor_words n"
  by unfold_locales (use descriptor_commitment_iff factor_descriptor_fits in blast)

definition point_content :: "ethers \<Rightarrow> string \<times> string \<Rightarrow> abi_value list \<Rightarrow> bool" where
  "point_content E p ws \<longleftrightarrow>
     (\<exists>qx qy. is_bytes32 E False (fst p) qx \<and> is_bytes32 E False (snd p) qy \<and> qx \<noteq> qy \<and> ws = [AbiHex qx, AbiHex qy])"

interpretation public_point: committing
  "\<lambda>E p. computePhilCoreV2WebAuthnPublicMaterialHash E (fst p) (snd p)"
  "PHILCORE_V2_RECOVERY_DESCRIPTOR_TYPE WEBAUTHN_PUBLIC_MATERIAL" "[''bytes32'', ''bytes32'']" point_content
  by unfold_locales
     (fastforce simp: computePhilCoreV2WebAuthnPublicMaterialHash_def point_content_def evidence_checks evidence_commitment_defs
       simp del: abi_fits.simps intro: is_bytes32_abi)

definition binding_content :: "ethers \<Rightarrow> PhilCoreV2RecoveryIndependenceBindingInput \<Rightarrow> abi_value list \<Rightarrow> bool" where
  "binding_content E i ws \<longleftrightarrow>
     (\<exists>r credential enrollment attestation custody. is_uint False 8 (bi_role i) r \<and> r \<in> {0, 1, 2} \<and>
        is_uint False 8 (bi_bindingVersion i) 1 \<and>
        is_bytes32 E (r = 2) (bi_credentialIdHash i) credential \<and> (r \<noteq> 2 \<or> credential = ZERO_BYTES32) \<and>
        is_bytes32 E (r = 2) (bi_attestationEvidenceHash i) attestation \<and>
        is_bytes32 E False (bi_enrollmentCeremonyHash i) enrollment \<and> is_bytes32 E False (bi_custodyDomainId i) custody \<and>
        ws = [AbiUint 1, AbiUint r, AbiHex credential, AbiHex enrollment, AbiHex attestation, AbiHex custody])"

lemma independence_binding_v2:
  assumes "computePhilCoreV2RecoveryIndependenceBinding E i = Inr h"
  shows "\<exists>ws. binding_content E i ws \<and> h = commitment E (PHILCORE_V2_RECOVERY_DESCRIPTOR_TYPE INDEPENDENCE_BINDING) binding_types ws"
  using assms unfolding computePhilCoreV2RecoveryIndependenceBinding_def evidence_checks binding_content_def
    evidence_commitment_defs sum.inject PHILCORE_V2_RECOVERY_FACTOR_ROLE.simps de_Morgan_conj not_not
  by (elim exE conjE, hypsubst, intro exI conjI) (assumption | rule refl)+

lemma binding_content_fits:
  assumes "ethers_laws E" and "binding_content E i ws"
  shows "list_all2 (abi_fits E) binding_types ws"
  using assms(2) unfolding binding_content_def binding_types_def
  by (elim exE conjE) (simp add: is_bytes32_abi [OF assms(1)] is_uint_abi del: abi_fits.simps)

interpretation independence_binding_v2: committing computePhilCoreV2RecoveryIndependenceBinding
  "PHILCORE_V2_RECOVERY_DESCRIPTOR_TYPE INDEPENDENCE_BINDING" binding_types binding_content
  by unfold_locales (use independence_binding_v2 binding_content_fits in blast)

section \<open>Sets of descriptors\<close>

text \<open>The normal forms \<open>ns\<close> of the three descriptors of a configuration.\<close>

definition factor_set :: "ethers \<Rightarrow> PhilCoreV2RecoveryFactorDescriptorInput list \<Rightarrow> normal_factor_descriptor list \<Rightarrow> bool" where
  "factor_set E ds ns \<longleftrightarrow>
     list_all2 (factor_descriptor E) ds ns \<and> map dn_role ns = [0, 1, 2] \<and>
     distinct (map dn_publicVerificationMaterialHash ns) \<and> distinct (map dn_independenceBindingHash ns) \<and>
     dn_credentialIdHash (ns ! 0) \<noteq> dn_credentialIdHash (ns ! 1)"

lemma map_index_iff: "map_index (\<lambda>_. f) i xs = Inr ys \<longleftrightarrow> list_all2 (\<lambda>x y. f x = Inr y) xs ys"
  by (induction xs arbitrary: i ys) (auto simp: bnd_eq_Inr list_all2_Cons1)

lemma list_all2_right: "list_all2 P xs ys \<Longrightarrow> (\<And>x y. P x y \<Longrightarrow> Q y) \<Longrightarrow> \<forall>y \<in> set ys. Q y"
  by (induction rule: list_all2_induct) auto

lemma upt_three: "[0..<3] = [0, 1, 2 :: nat]"
  by (simp add: upt_rec numeral_3_eq_3)

lemma role_order:
  assumes "set_size (map f ns) = 3"
  shows "list_all2 (\<lambda>d index. dn_role d = int index) ns [0..<length ns] \<and> (\<forall>n \<in> set ns. dn_role n \<in> {0, 1, 2}) \<longleftrightarrow>
    map dn_role ns = [0, 1, 2]"
proof -
  have len: "3 \<le> length ns" using assms length_remdups_leq [of "map f ns"] by (simp add: set_size_def)
  show ?thesis
  proof
    assume a: "list_all2 (\<lambda>d index. dn_role d = int index) ns [0..<length ns] \<and> (\<forall>n \<in> set ns. dn_role n \<in> {0, 1, 2})"
    have "length ns = 3"
    proof (rule ccontr)
      assume "length ns \<noteq> 3"
      with len have four: "3 < length ns" by simp
      with a have "dn_role (ns ! 3) = 3" by (auto simp: list_all2_conv_all_nth)
      moreover have "ns ! 3 \<in> set ns" using four by simp
      ultimately show False using a by fastforce
    qed
    with a have "list_all2 (\<lambda>d index. dn_role d = int index) ns [0, 1, 2]" by (simp add: upt_three)
    then show "map dn_role ns = [0, 1, 2]" by (auto simp: list_all2_Cons2)
  next
    assume roles: "map dn_role ns = [0, 1, 2]"
    from arg_cong [OF roles, of length] have "[0..<length ns] = [0, 1, 2]" by (simp add: upt_three)
    with roles show "list_all2 (\<lambda>d index. dn_role d = int index) ns [0..<length ns] \<and> (\<forall>n \<in> set ns. dn_role n \<in> {0, 1, 2})"
      by (auto simp: Cons_eq_map_conv)
  qed
qed

lemma factor_descriptor_unique: "factor_descriptor E i n \<Longrightarrow> factor_descriptor E i m \<Longrightarrow> n = m"
  by (metis normalizedDescriptor_iff sum.inject(2))

lemma factor_set_three:
  assumes "factor_set E ds ns"
  obtains d0 d1 d2 n0 n1 n2 where "ds = [d0, d1, d2]" "ns = [n0, n1, n2]" "factor_descriptor E d0 n0"
    "factor_descriptor E d1 n1" "factor_descriptor E d2 n2" "dn_role n0 = 0" "dn_role n1 = 1" "dn_role n2 = 2"
  using assms by (auto simp: factor_set_def Cons_eq_map_conv list_all2_Cons2)

lemma descriptor_commitments:
  assumes "list_all2 (factor_descriptor E) ds ns"
  shows "list_all2 (\<lambda>i h. computePhilCoreV2RecoveryDescriptorCommitment E i = Inr h) ds cs \<longleftrightarrow>
    cs = map (factor_commitment_v2 E) ns"
  using assms
proof (induction arbitrary: cs rule: list_all2_induct)
  case Nil
  then show ?case by simp
next
  case (Cons d ds n ns)
  have "computePhilCoreV2RecoveryDescriptorCommitment E d = Inr h \<longleftrightarrow> h = factor_commitment_v2 E n" for h
    using Cons.hyps(1) factor_descriptor_unique unfolding descriptor_commitment_iff by blast
  with Cons.IH show ?case by (cases cs) auto
qed

lemma factor_set_checks:
  "factor_set E ds ns \<longleftrightarrow> list_all2 (factor_descriptor E) ds ns \<and>
     list_all2 (\<lambda>d index. dn_role d = int index) ns [0..<length ns] \<and>
     set_size (map dn_publicVerificationMaterialHash ns) = 3 \<and> set_size (map dn_independenceBindingHash ns) = 3 \<and>
     dn_credentialIdHash (ns ! 0) \<noteq> dn_credentialIdHash (ns ! 1)" (is "_ \<longleftrightarrow> ?L")
proof
  assume l: ?L
  have "dn_role n \<in> {0, 1, 2}" if "factor_descriptor E i n" for i n using that unfolding factor_descriptor_def by blast
  with l have "\<forall>n \<in> set ns. dn_role n \<in> {0, 1, 2}"
    using list_all2_right [of "factor_descriptor E" ds ns "\<lambda>n. dn_role n \<in> {0, 1, 2}"] by blast
  with l role_order [of dn_publicVerificationMaterialHash ns] have roles: "map dn_role ns = [0, 1, 2]" by blast
  from arg_cong [OF roles, of length] have "length ns = 3" by simp
  with l roles show "factor_set E ds ns" by (simp add: factor_set_def set_size_3)
next
  assume r: "factor_set E ds ns"
  then have roles: "map dn_role ns = [0, 1, 2]" by (simp add: factor_set_def)
  from arg_cong [OF roles, of length] have "length ns = 3" by simp
  with r role_order [of dn_publicVerificationMaterialHash ns] show ?L by (simp add: factor_set_def set_size_3)
qed

lemma descriptor_set_iff:
  "validatePhilCoreV2RecoveryDescriptorSet E ds = Inr s \<longleftrightarrow>
     (\<exists>ns. factor_set E ds ns \<and> ds_commitments s = map (factor_commitment_v2 E) ns \<and>
        computePhilCoreV2RecoveryConfigurationHashV2 E
          (configuration_of (ds_commitments s ! 0) (ds_commitments s ! 1) (ds_commitments s ! 2)) =
        Inr (ds_recoveryConfigHash s))"
  (is "_ = (\<exists>ns. ?R ns)")
proof
  assume "validatePhilCoreV2RecoveryDescriptorSet E ds = Inr s"
  then obtain ns cs h where "list_all2 (factor_descriptor E) ds ns"
    "list_all2 (\<lambda>d index. dn_role d = int index) ns [0..<length ns]"
    "set_size (map dn_publicVerificationMaterialHash ns) = 3" "set_size (map dn_independenceBindingHash ns) = 3"
    "dn_credentialIdHash (ns ! 0) \<noteq> dn_credentialIdHash (ns ! 1)"
    and cs: "list_all2 (\<lambda>i h. computePhilCoreV2RecoveryDescriptorCommitment E i = Inr h) ds cs"
    and h: "computePhilCoreV2RecoveryConfigurationHashV2 E (configuration_of (cs ! 0) (cs ! 1) (cs ! 2)) = Inr h"
    and s: "s = \<lparr>ds_commitments = cs, ds_recoveryConfigHash = h\<rparr>"
    unfolding validatePhilCoreV2RecoveryDescriptorSet_def bnd_eq_Inr ensure_eq_Inr map_index_iff normalizedDescriptor_iff
    by blast
  then have "factor_set E ds ns" unfolding factor_set_checks by blast
  moreover from this have "cs = map (factor_commitment_v2 E) ns"
    using descriptor_commitments cs unfolding factor_set_def by blast
  ultimately show "\<exists>ns. ?R ns" using h s by auto
next
  assume "\<exists>ns. ?R ns"
  then obtain ns where l: "factor_set E ds ns" and map: "ds_commitments s = map (factor_commitment_v2 E) ns"
    and h: "computePhilCoreV2RecoveryConfigurationHashV2 E
      (configuration_of (ds_commitments s ! 0) (ds_commitments s ! 1) (ds_commitments s ! 2)) = Inr (ds_recoveryConfigHash s)"
    by blast
  from l map have cs: "list_all2 (\<lambda>i h. computePhilCoreV2RecoveryDescriptorCommitment E i = Inr h) ds (ds_commitments s)"
    using descriptor_commitments unfolding factor_set_def by blast
  show "validatePhilCoreV2RecoveryDescriptorSet E ds = Inr s"
    unfolding validatePhilCoreV2RecoveryDescriptorSet_def bnd_eq_Inr ensure_eq_Inr map_index_iff normalizedDescriptor_iff
    by (intro exI [of _ ns] conjI exI [of _ "()"] exI [of _ "ds_commitments s"] exI [of _ "ds_recoveryConfigHash s"])
       (simp only: l [unfolded factor_set_checks] cs h simp_thms | simp)+
qed

section \<open>Rotation\<close>

lemma rotated_roles_iff:
  "rotated_roles cs cs' current proposed rs = Inr out \<longleftrightarrow>
     out = filter (\<lambda>r. cs ! r \<noteq> cs' ! r) rs \<and>
     (\<forall>r \<in> set out. rotated_descriptor r (current ! r) (proposed ! r) = Inr ())"
  by (induction rs arbitrary: out) (auto simp: bnd_eq_Inr)

text \<open>How the descriptor of a role is replaced.\<close>

definition replaced_descriptor :: "nat \<Rightarrow> normal_factor_descriptor \<Rightarrow> normal_factor_descriptor \<Rightarrow> bool" where
  "replaced_descriptor r n m \<longleftrightarrow>
     dn_credentialGeneration m = dn_credentialGeneration n + 1 \<and>
     dn_publicVerificationMaterialHash m \<noteq> dn_publicVerificationMaterialHash n \<and>
     dn_independenceBindingHash m \<noteq> dn_independenceBindingHash n \<and>
     (r \<noteq> 2 \<longrightarrow> dn_credentialIdHash m \<noteq> dn_credentialIdHash n)"

lemma rotated_descriptor_iff: "rotated_descriptor r n m = Inr () \<longleftrightarrow> replaced_descriptor r n m"
  by (auto simp: rotated_descriptor_def replaced_descriptor_def bnd_eq_Inr ensure_eq_Inr)

lemma descriptor_rotation_iff:
  "validatePhilCoreV2RecoveryRotation E i = Inr res \<longleftrightarrow>
     (\<exists>e s t ns ms. is_uint True 64 (ri_currentRecoveryEpoch i) e \<and> is_uint True 64 (ri_proposedRecoveryEpoch i) (e + 1) \<and>
        validatePhilCoreV2RecoveryDescriptorSet E (ri_currentDescriptors i) = Inr s \<and>
        validatePhilCoreV2RecoveryDescriptorSet E (ri_proposedDescriptors i) = Inr t \<and>
        list_all2 (factor_descriptor E) (ri_currentDescriptors i) ns \<and>
        list_all2 (factor_descriptor E) (ri_proposedDescriptors i) ms \<and>
        dr_changedRoles res = filter (\<lambda>r. ds_commitments s ! r \<noteq> ds_commitments t ! r) [0, 1, 2] \<and>
        (\<forall>r \<in> set (dr_changedRoles res). replaced_descriptor r (ns ! r) (ms ! r)) \<and> dr_changedRoles res \<noteq> [] \<and>
        dr_currentRecoveryConfigHash res = ds_recoveryConfigHash s \<and>
        dr_proposedRecoveryConfigHash res = ds_recoveryConfigHash t)"
  unfolding validatePhilCoreV2RecoveryRotation_def evidence_checks map_index_iff normalizedDescriptor_iff rotated_roles_iff
    rotated_descriptor_iff
  by (cases res) (auto, blast+)

end
