(* ===== verification/EvidenceContext.thy ===== *)
theory EvidenceContext
  imports RecoveryEvidence
begin

text \<open>
  The evidence context of a recovery action (\<open>v2RecoveryEvidence.ts\<close>, from
  \<open>normalizedEvidenceContext\<close> on) and its form for consumer configurations
  (\<open>v2ConsumerRecoveryEvidenceContext.ts\<close>).
\<close>

section \<open>The checks of a context\<close>

record normal_evidence_context =
  xn_envelopeVersion :: int
  xn_authorityKind :: int
  xn_actionType :: int
  xn_bitmap :: int
  xn_account :: string
  xn_chainId :: int
  xn_entryPoint :: string
  xn_authorizedIntentHash :: string
  xn_userOperationHash :: string
  xn_requestId :: string
  xn_currentRecoveryConfigHash :: string
  xn_validatorEpoch :: int
  xn_recoveryEpoch :: int
  xn_validAfter :: int
  xn_validUntil :: int
  xn_recoveryDelaySeconds :: int
  xn_recoveryExpirySeconds :: int
  xn_proposedValidatorCommitment :: string
  xn_proposedRecoveryConfigHash :: string
  xn_proposedRecoveryEpoch :: int
  xn_primaryDeviceCommitment :: string
  xn_hardwareSecurityKeyCommitment :: string
  xn_recoveryFactorCommitment :: string
  xn_firstFactorCommitment :: string
  xn_secondFactorCommitment :: string
  xn_roles :: "nat \<times> nat"

definition allowedActions :: "int list" where
  "allowedActions = map PHILCORE_V2_ACTION_TYPE
     [RECOVERY_REQUEST, RECOVERY_CANCEL, RECOVERY_CONFIG_ROTATION_REQUEST, RECOVERY_CONFIG_ROTATION_CANCEL]"

definition validatorRecovery :: "int \<Rightarrow> bool" where
  "validatorRecovery action \<longleftrightarrow>
     action = PHILCORE_V2_ACTION_TYPE RECOVERY_REQUEST \<or> action = PHILCORE_V2_ACTION_TYPE RECOVERY_CANCEL"

definition isRequest :: "int \<Rightarrow> bool" where
  "isRequest action \<longleftrightarrow>
     action = PHILCORE_V2_ACTION_TYPE RECOVERY_REQUEST \<or> action = PHILCORE_V2_ACTION_TYPE RECOVERY_CONFIG_ROTATION_REQUEST"

definition normalizedEvidenceContext ::
  "ethers \<Rightarrow> PhilCoreV2RecoveryEvidenceContextInput \<Rightarrow> normal_evidence_context result" where
  "normalizedEvidenceContext E input =
     bnd (exactUint8 (ec_envelopeVersion input) PHILCORE_V2_RECOVERY_EVIDENCE_VERSION ''recoveryEvidenceVersion'') (\<lambda>envelopeVersion.
     bnd (exactUint8 (ec_authorityKind input) PHILCORE_V2_RECOVERY_AUTHORITY_KIND ''recoveryAuthorityKind'') (\<lambda>authorityKind.
     bnd (evidence_uint (ec_actionType input) 8 ''actionType'' False) (\<lambda>action.
     bnd (ensure (action \<in> set allowedActions) ''recovery_evidence_action_invalid'') (\<lambda>_.
     bnd (evidence_factorBitmap (ec_factorBitmap input)) (\<lambda>bitmap.
     bnd (evidence_uint (ec_chainId input) 256 ''chainId'' True) (\<lambda>chainId.
     bnd (evidence_uint (ec_validatorEpoch input) 64 ''validatorEpoch'' True) (\<lambda>validatorEpoch.
     bnd (evidence_uint (ec_recoveryEpoch input) 64 ''recoveryEpoch'' True) (\<lambda>recoveryEpoch.
     bnd (evidence_uint (ec_validAfter input) 48 ''validAfter'' False) (\<lambda>validAfter.
     bnd (evidence_uint (ec_validUntil input) 48 ''validUntil'' True) (\<lambda>validUntil.
     bnd (ensure (\<not> validUntil \<le> validAfter) ''validity_window_invalid'') (\<lambda>_.
     bnd (evidence_uint (ec_recoveryDelaySeconds input) 64 ''recoveryDelaySeconds'' True) (\<lambda>delay.
     bnd (evidence_uint (ec_recoveryExpirySeconds input) 64 ''recoveryExpirySeconds'' True) (\<lambda>expiry.
     bnd (ensure (delay = EVIDENCE_RECOVERY_DELAY_SECONDS) ''recoveryDelaySeconds_invalid'') (\<lambda>_.
     bnd (ensure (expiry = EVIDENCE_RECOVERY_EXPIRY_SECONDS) ''recoveryExpirySeconds_invalid'') (\<lambda>_.
     bnd (evidence_bytes32 E (ec_primaryDeviceCommitment input) ''primaryDeviceCommitment'' False) (\<lambda>primary.
     bnd (evidence_bytes32 E (ec_hardwareSecurityKeyCommitment input) ''hardwareSecurityKeyCommitment'' False) (\<lambda>hardware.
     bnd (evidence_bytes32 E (ec_recoveryFactorCommitment input) ''recoveryFactorCommitment'' False) (\<lambda>recovery.
     bnd (evidence_bytes32 E (ec_currentRecoveryConfigHash input) ''currentRecoveryConfigHash'' False) (\<lambda>configHash.
     bnd (computePhilCoreV2RecoveryConfigurationHashV2 E (configuration_of primary hardware recovery)) (\<lambda>computedConfigHash.
     bnd (ensure (configHash = computedConfigHash) ''current_recovery_config_hash_mismatch'') (\<lambda>_.
     let roleCommitments = [primary, hardware, recovery]; roles = expectedRoles bitmap in
     bnd (evidence_bytes32 E (ec_firstFactorCommitment input) ''firstFactorCommitment'' False) (\<lambda>firstCommitment.
     bnd (evidence_bytes32 E (ec_secondFactorCommitment input) ''secondFactorCommitment'' False) (\<lambda>secondCommitment.
     bnd (ensure (\<not> (firstCommitment \<noteq> roleCommitments ! fst roles \<or> secondCommitment \<noteq> roleCommitments ! snd roles))
            ''factor_commitment_order_or_membership_invalid'') (\<lambda>_.
     bnd (evidence_bytes32 E (ec_proposedValidatorCommitment input) ''proposedValidatorCommitment'' True) (\<lambda>proposedValidator.
     bnd (evidence_bytes32 E (ec_proposedRecoveryConfigHash input) ''proposedRecoveryConfigHash'' True) (\<lambda>proposedConfig.
     bnd (evidence_uint (ec_proposedRecoveryEpoch input) 64 ''proposedRecoveryEpoch'' True) (\<lambda>proposedEpoch.
     bnd (ensure (proposedEpoch = recoveryEpoch + 1) ''proposedRecoveryEpoch_must_equal_current_plus_one'') (\<lambda>_.
     bnd (ensure (\<not> (validatorRecovery action \<and> (proposedValidator = ZERO_BYTES32 \<or> proposedConfig \<noteq> ZERO_BYTES32)))
            ''validator_recovery_action_context_invalid'') (\<lambda>_.
     bnd (ensure (\<not> (\<not> validatorRecovery action \<and> (proposedValidator \<noteq> ZERO_BYTES32 \<or> proposedConfig = ZERO_BYTES32)))
            ''config_rotation_action_context_invalid'') (\<lambda>_.
     bnd (evidence_bytes32 E (ec_authorizedIntentHash input) ''authorizedIntentHash'' False) (\<lambda>intentHash.
     bnd (evidence_bytes32 E (ec_requestId input) ''requestId'' False) (\<lambda>requestId.
     bnd (ensure (\<not> (isRequest action \<and> requestId \<noteq> intentHash)) ''recovery_request_id_must_equal_authorized_intent_hash'') (\<lambda>_.
     bnd (evidence_address E (ec_account input) ''account'') (\<lambda>account.
     bnd (evidence_address E (ec_entryPoint input) ''entryPoint'') (\<lambda>entryPoint.
     bnd (evidence_bytes32 E (ec_userOperationHash input) ''userOperationHash'' False) (\<lambda>userOperationHash.
     Inr \<lparr>xn_envelopeVersion = envelopeVersion, xn_authorityKind = authorityKind, xn_actionType = action, xn_bitmap = bitmap,
          xn_account = account, xn_chainId = chainId, xn_entryPoint = entryPoint, xn_authorizedIntentHash = intentHash,
          xn_userOperationHash = userOperationHash, xn_requestId = requestId, xn_currentRecoveryConfigHash = configHash,
          xn_validatorEpoch = validatorEpoch, xn_recoveryEpoch = recoveryEpoch, xn_validAfter = validAfter,
          xn_validUntil = validUntil, xn_recoveryDelaySeconds = delay, xn_recoveryExpirySeconds = expiry,
          xn_proposedValidatorCommitment = proposedValidator, xn_proposedRecoveryConfigHash = proposedConfig,
          xn_proposedRecoveryEpoch = proposedEpoch, xn_primaryDeviceCommitment = primary,
          xn_hardwareSecurityKeyCommitment = hardware, xn_recoveryFactorCommitment = recovery,
          xn_firstFactorCommitment = firstCommitment, xn_secondFactorCommitment = secondCommitment,
          xn_roles = roles\<rparr>))))))))))))))))))))))))))))))))))))"

definition context_types :: "string list" where
  "context_types = [''uint8'', ''uint8'', ''uint8'', ''uint8'', ''address'', ''uint256'', ''address'', ''bytes32'', ''bytes32'',
     ''bytes32'', ''bytes32'', ''uint64'', ''uint64'', ''uint48'', ''uint48'', ''uint64'', ''uint64'', ''bytes32'', ''bytes32'',
     ''uint64'', ''bytes32'', ''bytes32'', ''bytes32'', ''bytes32'', ''bytes32'']"

definition context_words :: "normal_evidence_context \<Rightarrow> abi_value list" where
  "context_words x =
     [AbiUint (xn_envelopeVersion x), AbiUint (xn_authorityKind x), AbiUint (xn_actionType x), AbiUint (xn_bitmap x),
      AbiHex (xn_account x), AbiUint (xn_chainId x), AbiHex (xn_entryPoint x), AbiHex (xn_authorizedIntentHash x),
      AbiHex (xn_userOperationHash x), AbiHex (xn_requestId x), AbiHex (xn_currentRecoveryConfigHash x),
      AbiUint (xn_validatorEpoch x), AbiUint (xn_recoveryEpoch x), AbiUint (xn_validAfter x), AbiUint (xn_validUntil x),
      AbiUint (xn_recoveryDelaySeconds x), AbiUint (xn_recoveryExpirySeconds x), AbiHex (xn_proposedValidatorCommitment x),
      AbiHex (xn_proposedRecoveryConfigHash x), AbiUint (xn_proposedRecoveryEpoch x), AbiHex (xn_primaryDeviceCommitment x),
      AbiHex (xn_hardwareSecurityKeyCommitment x), AbiHex (xn_recoveryFactorCommitment x),
      AbiHex (xn_firstFactorCommitment x), AbiHex (xn_secondFactorCommitment x)]"

definition computePhilCoreV2RecoveryEvidenceContextHash ::
  "ethers \<Rightarrow> PhilCoreV2RecoveryEvidenceContextInput \<Rightarrow> string result" where
  "computePhilCoreV2RecoveryEvidenceContextHash E input =
     bnd (normalizedEvidenceContext E input) (\<lambda>context.
     Inr (keccak256 E (HexData (abiEncode E (''bytes32'' # context_types)
       (AbiHex (PHILCORE_V2_RECOVERY_DESCRIPTOR_TYPEHASH E EVIDENCE_CONTEXT) # context_words context)))))"

section \<open>The context against the factors and the account\<close>

definition assertPhilCoreV2RecoveryEvidenceMembership ::
  "ethers \<Rightarrow> PhilCoreV2RecoveryEvidenceContextInput \<Rightarrow> PhilCoreV2RecoveryFactorDescriptorInput \<Rightarrow>
     PhilCoreV2RecoveryFactorDescriptorInput \<Rightarrow> unit result" where
  "assertPhilCoreV2RecoveryEvidenceMembership E input_context firstDescriptor secondDescriptor =
     bnd (normalizedEvidenceContext E input_context) (\<lambda>context.
     bnd (normalizedDescriptor E firstDescriptor) (\<lambda>first.
     bnd (normalizedDescriptor E secondDescriptor) (\<lambda>second.
     bnd (ensure (\<not> (dn_role first \<noteq> int (fst (xn_roles context)) \<or> dn_role second \<noteq> int (snd (xn_roles context))))
            ''factor_evidence_role_order_invalid'') (\<lambda>_.
     bnd (computePhilCoreV2RecoveryDescriptorCommitment E firstDescriptor) (\<lambda>firstCommitment.
     bnd (ensure (firstCommitment = xn_firstFactorCommitment context) ''factor_evidence_commitment_mismatch'') (\<lambda>_.
     bnd (computePhilCoreV2RecoveryDescriptorCommitment E secondDescriptor) (\<lambda>secondCommitment.
     ensure (secondCommitment = xn_secondFactorCommitment context) ''factor_evidence_commitment_mismatch'')))))))"

record evidence_state =
  es_expectedAccount :: string
  es_expectedChainId :: bignumberish
  es_expectedEntryPoint :: string
  es_currentValidatorEpoch :: bignumberish
  es_currentRecoveryEpoch :: bignumberish

definition assertPhilCoreV2RecoveryEvidenceState ::
  "ethers \<Rightarrow> PhilCoreV2RecoveryEvidenceContextInput \<Rightarrow> evidence_state \<Rightarrow> unit result" where
  "assertPhilCoreV2RecoveryEvidenceState E input_context input =
     bnd (normalizedEvidenceContext E input_context) (\<lambda>context.
     bnd (evidence_address E (es_expectedAccount input) ''expectedAccount'') (\<lambda>expectedAccount.
     bnd (ensure (xn_account context = expectedAccount) ''recovery_evidence_account_mismatch'') (\<lambda>_.
     bnd (evidence_uint (es_expectedChainId input) 256 ''expectedChainId'' True) (\<lambda>expectedChainId.
     bnd (ensure (xn_chainId context = expectedChainId) ''recovery_evidence_chain_mismatch'') (\<lambda>_.
     bnd (evidence_address E (es_expectedEntryPoint input) ''expectedEntryPoint'') (\<lambda>expectedEntryPoint.
     bnd (ensure (xn_entryPoint context = expectedEntryPoint) ''recovery_evidence_entryPoint_mismatch'') (\<lambda>_.
     bnd (evidence_uint (es_currentValidatorEpoch input) 64 ''currentValidatorEpoch'' True) (\<lambda>currentValidatorEpoch.
     bnd (ensure (\<not> xn_validatorEpoch context < currentValidatorEpoch) ''validator_epoch_stale'') (\<lambda>_.
     bnd (ensure (\<not> xn_validatorEpoch context > currentValidatorEpoch) ''validator_epoch_future'') (\<lambda>_.
     bnd (evidence_uint (es_currentRecoveryEpoch input) 64 ''currentRecoveryEpoch'' True) (\<lambda>currentRecoveryEpoch.
     bnd (ensure (\<not> xn_recoveryEpoch context < currentRecoveryEpoch) ''recovery_epoch_stale'') (\<lambda>_.
     ensure (\<not> xn_recoveryEpoch context > currentRecoveryEpoch) ''recovery_epoch_future''))))))))))))"

section \<open>Contexts of consumer configurations\<close>

text \<open>\<open>AbiCoder.encode\<close> on values that may not fit their types: it throws then.\<close>

definition encode_checked :: "ethers \<Rightarrow> string list \<Rightarrow> abi_value list \<Rightarrow> string result" where
  "encode_checked E types vs =
     (if list_all2 (abi_fits E) types vs then Inr (abiEncode E types vs) else Inl LibraryError)"

definition requireBytes32 :: "ethers \<Rightarrow> string \<Rightarrow> string \<Rightarrow> string result" where
  "requireBytes32 E v label = bnd (ensure (isHexString E v 32) (label @ ''_must_be_bytes32'')) (\<lambda>_. Inr (toLowerCase v))"

definition getAddress_thrown :: "ethers \<Rightarrow> string \<Rightarrow> string result" where
  "getAddress_thrown E v = (case getAddress E v of None \<Rightarrow> Inl LibraryError | Some a \<Rightarrow> Inr a)"

definition hashPhilCoreV2RecoveryEvidenceContextFields ::
  "ethers \<Rightarrow> PhilCoreV2RecoveryEvidenceContextInput \<Rightarrow> string result" where
  "hashPhilCoreV2RecoveryEvidenceContextFields E context =
     bnd (BigInt_of (ec_envelopeVersion context)) (\<lambda>envelopeVersion.
     bnd (BigInt_of (ec_authorityKind context)) (\<lambda>authorityKind.
     bnd (BigInt_of (ec_actionType context)) (\<lambda>action.
     bnd (BigInt_of (ec_factorBitmap context)) (\<lambda>bitmap.
     bnd (getAddress_thrown E (ec_account context)) (\<lambda>account.
     bnd (BigInt_of (ec_chainId context)) (\<lambda>chainId.
     bnd (getAddress_thrown E (ec_entryPoint context)) (\<lambda>entryPoint.
     bnd (requireBytes32 E (ec_authorizedIntentHash context) ''authorizedIntentHash'') (\<lambda>intentHash.
     bnd (requireBytes32 E (ec_userOperationHash context) ''userOperationHash'') (\<lambda>userOperationHash.
     bnd (requireBytes32 E (ec_requestId context) ''requestId'') (\<lambda>requestId.
     bnd (requireBytes32 E (ec_currentRecoveryConfigHash context) ''currentRecoveryConfigHash'') (\<lambda>configHash.
     bnd (BigInt_of (ec_validatorEpoch context)) (\<lambda>validatorEpoch.
     bnd (BigInt_of (ec_recoveryEpoch context)) (\<lambda>recoveryEpoch.
     bnd (BigInt_of (ec_validAfter context)) (\<lambda>validAfter.
     bnd (BigInt_of (ec_validUntil context)) (\<lambda>validUntil.
     bnd (BigInt_of (ec_recoveryDelaySeconds context)) (\<lambda>delay.
     bnd (BigInt_of (ec_recoveryExpirySeconds context)) (\<lambda>expiry.
     bnd (requireBytes32 E (ec_proposedValidatorCommitment context) ''proposedValidatorCommitment'') (\<lambda>proposedValidator.
     bnd (requireBytes32 E (ec_proposedRecoveryConfigHash context) ''proposedRecoveryConfigHash'') (\<lambda>proposedConfig.
     bnd (BigInt_of (ec_proposedRecoveryEpoch context)) (\<lambda>proposedEpoch.
     bnd (requireBytes32 E (ec_primaryDeviceCommitment context) ''primaryDeviceCommitment'') (\<lambda>primary.
     bnd (requireBytes32 E (ec_hardwareSecurityKeyCommitment context) ''hardwareSecurityKeyCommitment'') (\<lambda>hardware.
     bnd (requireBytes32 E (ec_recoveryFactorCommitment context) ''recoveryFactorCommitment'') (\<lambda>recovery.
     bnd (requireBytes32 E (ec_firstFactorCommitment context) ''firstFactorCommitment'') (\<lambda>firstCommitment.
     bnd (requireBytes32 E (ec_secondFactorCommitment context) ''secondFactorCommitment'') (\<lambda>secondCommitment.
     bnd (encode_checked E (''bytes32'' # context_types)
       [AbiHex (PHILCORE_V2_RECOVERY_DESCRIPTOR_TYPEHASH E EVIDENCE_CONTEXT), AbiUint envelopeVersion, AbiUint authorityKind,
        AbiUint action, AbiUint bitmap, AbiHex account, AbiUint chainId, AbiHex entryPoint, AbiHex intentHash,
        AbiHex userOperationHash, AbiHex requestId, AbiHex configHash, AbiUint validatorEpoch, AbiUint recoveryEpoch,
        AbiUint validAfter, AbiUint validUntil, AbiUint delay, AbiUint expiry, AbiHex proposedValidator, AbiHex proposedConfig,
        AbiUint proposedEpoch, AbiHex primary, AbiHex hardware, AbiHex recovery, AbiHex firstCommitment, AbiHex secondCommitment])
       (\<lambda>encoded. Inr (keccak256 E (HexData encoded))))))))))))))))))))))))))))"

definition computePhilCoreV2ConsumerRecoveryEvidenceContextHash ::
  "ethers \<Rightarrow> PhilCoreV2RecoveryEvidenceContextInput \<Rightarrow> string result" where
  "computePhilCoreV2ConsumerRecoveryEvidenceContextHash E input =
     bnd (requireBytes32 E (ec_primaryDeviceCommitment input) ''primaryDeviceCommitment'') (\<lambda>primary.
     bnd (requireBytes32 E (ec_hardwareSecurityKeyCommitment input) ''hardwareSecurityKeyCommitment'') (\<lambda>hardware.
     bnd (requireBytes32 E (ec_recoveryFactorCommitment input) ''recoveryFactorCommitment'') (\<lambda>recovery.
     bnd (requireBytes32 E (ec_currentRecoveryConfigHash input) ''currentRecoveryConfigHash'') (\<lambda>suppliedConfigHash.
     bnd (computePhilCoreV2ConsumerRecoveryConfigurationHash E [primary, hardware, recovery]) (\<lambda>expectedV3ConfigHash.
     bnd (ensure (suppliedConfigHash = expectedV3ConfigHash) ''current_recovery_config_hash_mismatch'') (\<lambda>_.
     bnd (computePhilCoreV2RecoveryConfigurationHashV2 E (configuration_of primary hardware recovery)) (\<lambda>legacyV2ConfigHash.
     bnd (computePhilCoreV2RecoveryEvidenceContextHash E (input\<lparr>ec_currentRecoveryConfigHash := legacyV2ConfigHash\<rparr>)) (\<lambda>_.
     hashPhilCoreV2RecoveryEvidenceContextFields E
       (input\<lparr>ec_currentRecoveryConfigHash := expectedV3ConfigHash, ec_primaryDeviceCommitment := primary,
          ec_hardwareSecurityKeyCommitment := hardware, ec_recoveryFactorCommitment := recovery\<rparr>)))))))))"

section \<open>The contexts that are accepted\<close>

text \<open>
  The context \<open>x\<close> that an input is accepted as, field by field; whether the hash of the current configuration
  may be zero is a parameter.
\<close>

definition evidence_fields :: "ethers \<Rightarrow> bool \<Rightarrow> PhilCoreV2RecoveryEvidenceContextInput \<Rightarrow> normal_evidence_context \<Rightarrow> bool" where
  "evidence_fields E az i x \<longleftrightarrow>
     is_uint False 8 (ec_envelopeVersion i) (xn_envelopeVersion x) \<and>
     is_uint False 8 (ec_authorityKind i) (xn_authorityKind x) \<and>
     is_uint False 8 (ec_actionType i) (xn_actionType x) \<and> is_uint False 8 (ec_factorBitmap i) (xn_bitmap x) \<and>
     is_address E False (ec_account i) (xn_account x) \<and> is_uint True 256 (ec_chainId i) (xn_chainId x) \<and>
     is_address E False (ec_entryPoint i) (xn_entryPoint x) \<and>
     is_bytes32 E False (ec_authorizedIntentHash i) (xn_authorizedIntentHash x) \<and>
     is_bytes32 E False (ec_userOperationHash i) (xn_userOperationHash x) \<and>
     is_bytes32 E False (ec_requestId i) (xn_requestId x) \<and>
     is_bytes32 E az (ec_currentRecoveryConfigHash i) (xn_currentRecoveryConfigHash x) \<and>
     is_uint True 64 (ec_validatorEpoch i) (xn_validatorEpoch x) \<and> is_uint True 64 (ec_recoveryEpoch i) (xn_recoveryEpoch x) \<and>
     is_uint False 48 (ec_validAfter i) (xn_validAfter x) \<and> is_uint True 48 (ec_validUntil i) (xn_validUntil x) \<and>
     is_uint True 64 (ec_recoveryDelaySeconds i) (xn_recoveryDelaySeconds x) \<and>
     is_uint True 64 (ec_recoveryExpirySeconds i) (xn_recoveryExpirySeconds x) \<and>
     is_bytes32 E True (ec_proposedValidatorCommitment i) (xn_proposedValidatorCommitment x) \<and>
     is_bytes32 E True (ec_proposedRecoveryConfigHash i) (xn_proposedRecoveryConfigHash x) \<and>
     is_uint True 64 (ec_proposedRecoveryEpoch i) (xn_proposedRecoveryEpoch x) \<and>
     is_bytes32 E False (ec_primaryDeviceCommitment i) (xn_primaryDeviceCommitment x) \<and>
     is_bytes32 E False (ec_hardwareSecurityKeyCommitment i) (xn_hardwareSecurityKeyCommitment x) \<and>
     is_bytes32 E False (ec_recoveryFactorCommitment i) (xn_recoveryFactorCommitment x) \<and>
     is_bytes32 E False (ec_firstFactorCommitment i) (xn_firstFactorCommitment x) \<and>
     is_bytes32 E False (ec_secondFactorCommitment i) (xn_secondFactorCommitment x)"

abbreviation context_commitments :: "normal_evidence_context \<Rightarrow> string list" where
  "context_commitments x \<equiv>
     [xn_primaryDeviceCommitment x, xn_hardwareSecurityKeyCommitment x, xn_recoveryFactorCommitment x]"

text \<open>
  The policy of a context: the versions, the four recovery actions, a window, the delay of 48 hours and the
  expiry of 7 days, the committed configuration of three factors of which the two named ones are those that
  the bitmap selects, the next recovery epoch, exactly the proposal that fits the action, and a request named
  by its intent.
\<close>

definition context_policy :: "ethers \<Rightarrow> normal_evidence_context \<Rightarrow> bool" where
  "context_policy E x \<longleftrightarrow>
     xn_envelopeVersion x = 2 \<and> xn_authorityKind x = 2 \<and> xn_actionType x \<in> {8, 9, 10, 11} \<and> xn_bitmap x \<in> {3, 5, 6} \<and>
     xn_validAfter x < xn_validUntil x \<and> xn_recoveryDelaySeconds x = 172800 \<and> xn_recoveryExpirySeconds x = 604800 \<and>
     distinct (context_commitments x) \<and>
     xn_currentRecoveryConfigHash x = configuration_v2_commitment E (context_commitments x) \<and>
     xn_roles x = expectedRoles (xn_bitmap x) \<and>
     xn_firstFactorCommitment x = context_commitments x ! fst (xn_roles x) \<and>
     xn_secondFactorCommitment x = context_commitments x ! snd (xn_roles x) \<and>
     xn_proposedRecoveryEpoch x = xn_recoveryEpoch x + 1 \<and>
     (if xn_actionType x \<in> {8, 9}
      then xn_proposedValidatorCommitment x \<noteq> ZERO_BYTES32 \<and> xn_proposedRecoveryConfigHash x = ZERO_BYTES32
      else xn_proposedValidatorCommitment x = ZERO_BYTES32 \<and> xn_proposedRecoveryConfigHash x \<noteq> ZERO_BYTES32) \<and>
     (xn_actionType x \<in> {8, 10} \<longrightarrow> xn_requestId x = xn_authorizedIntentHash x)"

definition evidence_context :: "ethers \<Rightarrow> PhilCoreV2RecoveryEvidenceContextInput \<Rightarrow> normal_evidence_context \<Rightarrow> bool" where
  "evidence_context E i x \<longleftrightarrow> evidence_fields E False i x \<and> context_policy E x"

lemma configuration_of_iff:
  assumes "ethers_laws E" and "is_bytes32 E False a' a" and "is_bytes32 E False b' b" and "is_bytes32 E False c' c"
  shows "computePhilCoreV2RecoveryConfigurationHashV2 E (configuration_of a b c) = Inr h \<longleftrightarrow>
    distinct [a, b, c] \<and> h = configuration_v2_commitment E [a, b, c]"
proof -
  have "is_bytes32 E False a x \<longleftrightarrow> x = a" "is_bytes32 E False b x \<longleftrightarrow> x = b" "is_bytes32 E False c x \<longleftrightarrow> x = c" for x
    using assms(2-4) [THEN is_bytes32_stable [OF assms(1)]] by (auto simp: is_bytes32_def)
  then have "configuration_content E (configuration_of a b c) cs \<longleftrightarrow> cs = [a, b, c] \<and> distinct [a, b, c]" for cs
    unfolding configuration_content_of list_all2_three by (simp only: ex_simps simp_thms) blast
  then show ?thesis unfolding configuration_v2_iff by (simp only: ex_simps simp_thms) blast
qed

lemmas context_constants = PHILCORE_V2_RECOVERY_EVIDENCE_VERSION_def PHILCORE_V2_RECOVERY_AUTHORITY_KIND_def
  EVIDENCE_RECOVERY_DELAY_SECONDS_def EVIDENCE_RECOVERY_EXPIRY_SECONDS_def allowedActions_def validatorRecovery_def
  isRequest_def

lemma normalizedEvidenceContext_iff:
  assumes "ethers_laws E"
  shows "normalizedEvidenceContext E i = Inr x \<longleftrightarrow> evidence_context E i x"
proof
  assume "normalizedEvidenceContext E i = Inr x"
  then show "evidence_context E i x"
    unfolding normalizedEvidenceContext_def Let_def evidence_checks sum.inject
    by (elim exE conjE, hypsubst)
       (simp add: evidence_context_def evidence_fields_def context_policy_def context_constants configuration_of_iff [OF assms],
        blast)
next
  assume "evidence_context E i x"
  then show "normalizedEvidenceContext E i = Inr x"
    unfolding normalizedEvidenceContext_def Let_def evidence_checks sum.inject evidence_context_def evidence_fields_def
      context_policy_def configuration_of_iff [OF assms]
    by (elim conjE, intro exI conjI)
       (assumption | rule refl | (rule configuration_of_iff [OF assms, THEN iffD2], assumption, assumption, assumption,
          rule conjI, assumption, rule refl) | (simp add: context_constants split: if_splits; fail) |
        (auto simp: isRequest_def; fail) |         (cases x, simp add: context_constants; fail))+
qed

section \<open>What the hashes of contexts commit to\<close>

lemma context_fits:
  assumes "ethers_laws E" and "evidence_fields E az i x"
  shows "list_all2 (abi_fits E) context_types (context_words x)"
  using assms(2) unfolding evidence_fields_def context_types_def context_words_def list_all2_Cons list_all2_Nil
  by (elim conjE, intro conjI)
     (rule refl | erule is_uint_abi | erule is_bytes32_abi [OF assms(1)] | erule is_address_abi [OF assms(1)])+

abbreviation evidence_commitment :: "ethers \<Rightarrow> normal_evidence_context \<Rightarrow> string" where
  "evidence_commitment E x \<equiv>
     commitment E (PHILCORE_V2_RECOVERY_DESCRIPTOR_TYPE EVIDENCE_CONTEXT) context_types (context_words x)"

lemma evidence_context_hash_iff:
  assumes "ethers_laws E"
  shows "computePhilCoreV2RecoveryEvidenceContextHash E i = Inr h \<longleftrightarrow>
    (\<exists>x. evidence_context E i x \<and> h = evidence_commitment E x)"
  unfolding computePhilCoreV2RecoveryEvidenceContextHash_def bnd_eq_Inr normalizedEvidenceContext_iff [OF assms]
    evidence_commitment_defs sum.inject by (simp only: eq_commute)

interpretation context_hash: committing computePhilCoreV2RecoveryEvidenceContextHash
  "PHILCORE_V2_RECOVERY_DESCRIPTOR_TYPE EVIDENCE_CONTEXT" context_types
  "\<lambda>E i ws. \<exists>x. evidence_context E i x \<and> ws = context_words x"
  by unfold_locales (auto simp: evidence_context_hash_iff evidence_context_def intro: context_fits)

lemma context_words_inject:
  assumes "context_words x = context_words y" and "xn_roles x = expectedRoles (xn_bitmap x)"
    and "xn_roles y = expectedRoles (xn_bitmap y)"
  shows "x = y"
proof -
  from assms(1) have "xn_bitmap x = xn_bitmap y" by (simp add: context_words_def)
  with assms(2,3) have "xn_roles x = xn_roles y" by simp
  with assms(1) show ?thesis by (cases x; cases y) (simp add: context_words_def)
qed

lemma evidence_context_unique:
  assumes "ethers_laws E" and "evidence_context E i x" and "evidence_context E i y"
  shows "x = y"
  using normalizedEvidenceContext_iff [OF assms(1), THEN iffD2, OF assms(2)]
    normalizedEvidenceContext_iff [OF assms(1), THEN iffD2, OF assms(3)] by simp

text \<open>The plain hash of the fields is the commitment, for fields that have the types of the encoding.\<close>

lemma hash_fields:
  assumes "ethers_laws E" and "evidence_fields E az i x"
  shows "hashPhilCoreV2RecoveryEvidenceContextFields E i = Inr (evidence_commitment E x)"
proof -
  have "hashPhilCoreV2RecoveryEvidenceContextFields E i =
      bnd (encode_checked E (''bytes32'' # context_types)
        (AbiHex (PHILCORE_V2_RECOVERY_DESCRIPTOR_TYPEHASH E EVIDENCE_CONTEXT) # context_words x)) (\<lambda>encoded. Inr (keccak256 E (HexData encoded)))"
    using assms(2) unfolding evidence_fields_def is_uint_def is_bytes32_def is_address_def
    by (simp add: hashPhilCoreV2RecoveryEvidenceContextFields_def requireBytes32_def getAddress_thrown_def context_words_def)
  moreover have "list_all2 (abi_fits E) (''bytes32'' # context_types)
      (AbiHex (PHILCORE_V2_RECOVERY_DESCRIPTOR_TYPEHASH E EVIDENCE_CONTEXT) # context_words x)"
    using context_fits [OF assms] keccak_abi [OF assms(1)]
    by (simp add: PHILCORE_V2_RECOVERY_DESCRIPTOR_TYPEHASH_def del: abi_fits.simps)
  ultimately show ?thesis by (simp add: encode_checked_def evidence_commitment_defs)
qed

section \<open>Consumer contexts\<close>

text \<open>
  A consumer context names the consumer configuration of its factors; with the configuration of version 2 in
  its place, it is a context of the frozen checks.
\<close>

definition consumer_context :: "ethers \<Rightarrow> PhilCoreV2RecoveryEvidenceContextInput \<Rightarrow> normal_evidence_context \<Rightarrow> bool" where
  "consumer_context E i x \<longleftrightarrow>
     evidence_fields E True i x \<and> xn_currentRecoveryConfigHash x = configuration_commitment E (context_commitments x) \<and>
     configuration_v2_commitment E (context_commitments x) \<noteq> ZERO_BYTES32 \<and>
     context_policy E (x\<lparr>xn_currentRecoveryConfigHash := configuration_v2_commitment E (context_commitments x)\<rparr>)"

lemma requireBytes32_iff: "requireBytes32 E v l = Inr s \<longleftrightarrow> is_bytes32 E True v s"
  by (auto simp: requireBytes32_def is_bytes32_def bnd_eq_Inr ensure_eq_Inr)

lemma consumer_configuration_iff:
  assumes "ethers_laws E" and "is_bytes32 E True a' a" and "is_bytes32 E True b' b" and "is_bytes32 E True c' c"
  shows "computePhilCoreV2ConsumerRecoveryConfigurationHash E [a, b, c] = Inr h \<longleftrightarrow>
    is_bytes32 E False a' a \<and> is_bytes32 E False b' b \<and> is_bytes32 E False c' c \<and> distinct [a, b, c] \<and>
    h = configuration_commitment E [a, b, c]"
proof -
  have "\<forall>c \<in> set [a, b, c]. toLowerCase c = c" using assms(2-4) by (simp add: is_bytes32_def)
  moreover have "is_bytes32 E False x x \<longleftrightarrow> is_bytes32 E False y x" if "is_bytes32 E True y x" for x y
    using that assms(1) by (auto simp: is_bytes32_def laws_isHexString hex_string_lower)
  ultimately show ?thesis using assms(2-4) by (subst configuration_hash_iff) auto
qed

text \<open>The input with its commitments in normal form is accepted as the same context.\<close>

lemma normalized_commitments:
  assumes "ethers_laws E" and "evidence_fields E True i x"
  shows "evidence_fields E True (i\<lparr>ec_currentRecoveryConfigHash := xn_currentRecoveryConfigHash x,
      ec_primaryDeviceCommitment := xn_primaryDeviceCommitment x,
      ec_hardwareSecurityKeyCommitment := xn_hardwareSecurityKeyCommitment x,
      ec_recoveryFactorCommitment := xn_recoveryFactorCommitment x\<rparr>) x"
  using assms(2) is_bytes32_stable [OF assms(1)] unfolding evidence_fields_def by auto

lemma consumer_fields: "consumer_context E i x \<Longrightarrow> evidence_fields E True i x"
  by (simp only: consumer_context_def)

lemma consumer_context_of:
  assumes laws: "ethers_laws E"
    and cs: "list_all2 (is_bytes32 E False)
      [ec_primaryDeviceCommitment i, ec_hardwareSecurityKeyCommitment i, ec_recoveryFactorCommitment i] cs"
    and s: "is_bytes32 E True (ec_currentRecoveryConfigHash i) s"
    and v3: "computePhilCoreV2ConsumerRecoveryConfigurationHash E cs = Inr s"
    and y: "evidence_context E (i\<lparr>ec_currentRecoveryConfigHash := configuration_v2_commitment E cs\<rparr>) y"
  shows "consumer_context E i (y\<lparr>xn_currentRecoveryConfigHash := s\<rparr>)"
proof -
  let ?x = "y\<lparr>xn_currentRecoveryConfigHash := s\<rparr>"
  from cs obtain a b c where abc: "cs = [a, b, c]" "is_bytes32 E False (ec_primaryDeviceCommitment i) a"
    "is_bytes32 E False (ec_hardwareSecurityKeyCommitment i) b" "is_bytes32 E False (ec_recoveryFactorCommitment i) c"
    unfolding list_all2_three by blast
  then have "is_bytes32 E True (ec_primaryDeviceCommitment i) a" "is_bytes32 E True (ec_hardwareSecurityKeyCommitment i) b"
    "is_bytes32 E True (ec_recoveryFactorCommitment i) c" by (simp_all add: is_bytes32_def)
  from consumer_configuration_iff [OF laws this] v3 abc(1) have sv: "s = configuration_commitment E cs" by blast
  from y have f: "evidence_fields E False (i\<lparr>ec_currentRecoveryConfigHash := configuration_v2_commitment E cs\<rparr>) y"
    and p: "context_policy E y" by (simp_all add: evidence_context_def)
  have x: "context_commitments ?x = cs" using f abc unfolding evidence_fields_def by (simp add: is_bytes32_def)
  have "is_bytes32 E False (configuration_v2_commitment E cs) (xn_currentRecoveryConfigHash y)"
    using f unfolding evidence_fields_def by simp
  then have cfg: "xn_currentRecoveryConfigHash y = configuration_v2_commitment E cs" "xn_currentRecoveryConfigHash y \<noteq> ZERO_BYTES32"
    using commitment_shape(2) [OF laws] unfolding is_bytes32_def by metis+
  have "evidence_fields E True i ?x" using f s unfolding evidence_fields_def by simp
  moreover have "y = ?x\<lparr>xn_currentRecoveryConfigHash := configuration_v2_commitment E (context_commitments ?x)\<rparr>"
    unfolding x cfg(1) [symmetric] by (cases y) simp
  moreover have "configuration_v2_commitment E (context_commitments ?x) \<noteq> ZERO_BYTES32"
    unfolding x cfg(1) [symmetric] by (rule cfg(2))
  moreover have "xn_currentRecoveryConfigHash ?x = configuration_commitment E (context_commitments ?x)"
    unfolding x sv [symmetric] by simp
  ultimately show ?thesis using p unfolding consumer_context_def by metis
qed

lemma consumer_gate:
  assumes laws: "ethers_laws E"
    and hash: "computePhilCoreV2ConsumerRecoveryEvidenceContextHash E i = Inr h"
  shows "\<exists>cs s h'. list_all2 (is_bytes32 E False)
      [ec_primaryDeviceCommitment i, ec_hardwareSecurityKeyCommitment i, ec_recoveryFactorCommitment i] cs \<and>
    is_bytes32 E True (ec_currentRecoveryConfigHash i) s \<and>
    computePhilCoreV2ConsumerRecoveryConfigurationHash E cs = Inr s \<and>
    computePhilCoreV2RecoveryEvidenceContextHash E (i\<lparr>ec_currentRecoveryConfigHash := configuration_v2_commitment E cs\<rparr>) = Inr h' \<and>
    hashPhilCoreV2RecoveryEvidenceContextFields E
      (i\<lparr>ec_currentRecoveryConfigHash := s, ec_primaryDeviceCommitment := cs ! 0,
         ec_hardwareSecurityKeyCommitment := cs ! 1, ec_recoveryFactorCommitment := cs ! 2\<rparr>) = Inr h"
proof -
  from hash obtain a b c s g h' where abc: "is_bytes32 E True (ec_primaryDeviceCommitment i) a"
    "is_bytes32 E True (ec_hardwareSecurityKeyCommitment i) b" "is_bytes32 E True (ec_recoveryFactorCommitment i) c"
    and s: "is_bytes32 E True (ec_currentRecoveryConfigHash i) s"
    and v3: "computePhilCoreV2ConsumerRecoveryConfigurationHash E [a, b, c] = Inr s"
    and v2: "computePhilCoreV2RecoveryConfigurationHashV2 E (configuration_of a b c) = Inr g"
    and frozen: "computePhilCoreV2RecoveryEvidenceContextHash E (i\<lparr>ec_currentRecoveryConfigHash := g\<rparr>) = Inr h'"
    and fields: "hashPhilCoreV2RecoveryEvidenceContextFields E
       (i\<lparr>ec_currentRecoveryConfigHash := s, ec_primaryDeviceCommitment := a,
          ec_hardwareSecurityKeyCommitment := b, ec_recoveryFactorCommitment := c\<rparr>) = Inr h"
    unfolding computePhilCoreV2ConsumerRecoveryEvidenceContextHash_def bnd_eq_Inr ensure_eq_Inr requireBytes32_iff by blast
  from v3 consumer_configuration_iff [OF laws abc] have nz: "is_bytes32 E False (ec_primaryDeviceCommitment i) a"
    "is_bytes32 E False (ec_hardwareSecurityKeyCommitment i) b" "is_bytes32 E False (ec_recoveryFactorCommitment i) c" by blast+
  from v2 configuration_of_iff [OF laws nz] have "g = configuration_v2_commitment E [a, b, c]" by blast
  with nz s v3 frozen fields show ?thesis by (intro exI [of _ "[a, b, c]"] exI [of _ s] exI [of _ h']) simp
qed

lemma consumer_context_accepted:
  assumes laws: "ethers_laws E"
    and hash: "computePhilCoreV2ConsumerRecoveryEvidenceContextHash E i = Inr h"
  shows "\<exists>x. consumer_context E i x \<and> h = evidence_commitment E x"
proof -
  from consumer_gate [OF assms] obtain cs s y where cs: "list_all2 (is_bytes32 E False)
      [ec_primaryDeviceCommitment i, ec_hardwareSecurityKeyCommitment i, ec_recoveryFactorCommitment i] cs"
    and s: "is_bytes32 E True (ec_currentRecoveryConfigHash i) s" "computePhilCoreV2ConsumerRecoveryConfigurationHash E cs = Inr s"
    and y: "evidence_context E (i\<lparr>ec_currentRecoveryConfigHash := configuration_v2_commitment E cs\<rparr>) y"
    and fields: "hashPhilCoreV2RecoveryEvidenceContextFields E
      (i\<lparr>ec_currentRecoveryConfigHash := s, ec_primaryDeviceCommitment := cs ! 0,
         ec_hardwareSecurityKeyCommitment := cs ! 1, ec_recoveryFactorCommitment := cs ! 2\<rparr>) = Inr h"
    unfolding evidence_context_hash_iff [OF laws] by blast
  let ?x = "y\<lparr>xn_currentRecoveryConfigHash := s\<rparr>"
  note x = consumer_context_of [OF laws cs s y]
  from y have "evidence_fields E False (i\<lparr>ec_currentRecoveryConfigHash := configuration_v2_commitment E cs\<rparr>) y"
    by (simp add: evidence_context_def)
  with cs have "cs = context_commitments ?x" unfolding evidence_fields_def list_all2_three by (auto simp: is_bytes32_def)
  with hash_fields [OF laws normalized_commitments [OF laws consumer_fields [OF x]]] fields
  have "h = evidence_commitment E ?x" by simp
  with x show ?thesis by blast
qed

lemma consumer_context_complete:
  assumes laws: "ethers_laws E" and x: "consumer_context E i x"
  shows "computePhilCoreV2ConsumerRecoveryEvidenceContextHash E i = Inr (evidence_commitment E x)"
proof -
  let ?c2 = "configuration_v2_commitment E (context_commitments x)"
  from x have fields: "evidence_fields E True i x" and config: "xn_currentRecoveryConfigHash x = configuration_commitment E (context_commitments x)" and nz: "?c2 \<noteq> ZERO_BYTES32"
    and policy: "context_policy E (x\<lparr>xn_currentRecoveryConfigHash := ?c2\<rparr>)"
    unfolding consumer_context_def by blast+
  from policy have distinct: "distinct (context_commitments x)" by (simp add: context_policy_def)
  from fields have abc: "is_bytes32 E False (ec_primaryDeviceCommitment i) (xn_primaryDeviceCommitment x)"
    "is_bytes32 E False (ec_hardwareSecurityKeyCommitment i) (xn_hardwareSecurityKeyCommitment x)"
    "is_bytes32 E False (ec_recoveryFactorCommitment i) (xn_recoveryFactorCommitment x)"
    and s: "is_bytes32 E True (ec_currentRecoveryConfigHash i) (xn_currentRecoveryConfigHash x)"
    by (simp_all add: evidence_fields_def)
  then have abc': "is_bytes32 E True (ec_primaryDeviceCommitment i) (xn_primaryDeviceCommitment x)"
    "is_bytes32 E True (ec_hardwareSecurityKeyCommitment i) (xn_hardwareSecurityKeyCommitment x)"
    "is_bytes32 E True (ec_recoveryFactorCommitment i) (xn_recoveryFactorCommitment x)" by (simp_all add: is_bytes32_def)
  note reads = requireBytes32_iff [THEN iffD2, OF abc'(1)] requireBytes32_iff [THEN iffD2, OF abc'(2)]
    requireBytes32_iff [THEN iffD2, OF abc'(3)] requireBytes32_iff [THEN iffD2, OF s]
  have v3: "computePhilCoreV2ConsumerRecoveryConfigurationHash E (context_commitments x) = Inr (xn_currentRecoveryConfigHash x)"
    using consumer_configuration_iff [OF laws abc'] abc distinct config by blast
  have v2: "computePhilCoreV2RecoveryConfigurationHashV2 E (configuration_of (xn_primaryDeviceCommitment x)
      (xn_hardwareSecurityKeyCommitment x) (xn_recoveryFactorCommitment x)) = Inr ?c2"
    using configuration_of_iff [OF laws abc] distinct by blast
  have "is_bytes32 E False ?c2 ?c2" using nz by (simp add: is_bytes32_def laws_isHexString [OF laws] commitment_shape [OF laws])
  with fields policy have "evidence_context E (i\<lparr>ec_currentRecoveryConfigHash := ?c2\<rparr>) (x\<lparr>xn_currentRecoveryConfigHash := ?c2\<rparr>)"
    by (simp add: evidence_context_def evidence_fields_def)
  then obtain h where "computePhilCoreV2RecoveryEvidenceContextHash E (i\<lparr>ec_currentRecoveryConfigHash := ?c2\<rparr>) = Inr h"
    unfolding evidence_context_hash_iff [OF laws] by blast
  with reads v3 v2 hash_fields [OF laws normalized_commitments [OF laws fields]] show ?thesis
    by (simp add: computePhilCoreV2ConsumerRecoveryEvidenceContextHash_def)
qed

lemma consumer_context_hash_iff:
  assumes "ethers_laws E"
  shows "computePhilCoreV2ConsumerRecoveryEvidenceContextHash E i = Inr h \<longleftrightarrow>
    (\<exists>x. consumer_context E i x \<and> h = evidence_commitment E x)"
  using consumer_context_accepted [OF assms] consumer_context_complete [OF assms] by blast

interpretation consumer_context_hash: committing computePhilCoreV2ConsumerRecoveryEvidenceContextHash
  "PHILCORE_V2_RECOVERY_DESCRIPTOR_TYPE EVIDENCE_CONTEXT" context_types
  "\<lambda>E i ws. \<exists>x. consumer_context E i x \<and> ws = context_words x"
  by unfold_locales (auto simp: consumer_context_hash_iff consumer_context_def intro: context_fits)

end
