(* ===== verification/EvidenceSystem.thy ===== *)
theory EvidenceSystem
  imports EvidenceContext AccountSystem
begin

text \<open>
  What recovery evidence shows: the properties of descriptors and contexts that span the factors, the
  configurations and the account.
\<close>

section \<open>Factors and configurations\<close>

text \<open>The inputs that are hashed for a configuration of version 2.\<close>

abbreviation configuration_v2_inputs :: "ethers \<Rightarrow> string list \<Rightarrow> bytes_like set" where
  "configuration_v2_inputs E cs \<equiv>
     commitment_inputs E (PHILCORE_V2_RECOVERY_DESCRIPTOR_TYPE RECOVERY_CONFIGURATION_V2) configuration_types (configuration_v2_words cs)"

lemma configuration_v2_words_inject: "configuration_v2_words cs = configuration_v2_words cs' \<Longrightarrow> cs = cs'"
  by (simp add: inj_map_eq_map inj_def)

lemma configuration_v2_inject:
  assumes "ethers_laws E" and "list_all2 (abi_fits E) configuration_types (configuration_v2_words cs)"
    and "list_all2 (abi_fits E) configuration_types (configuration_v2_words cs')"
    and "configuration_v2_commitment E cs = configuration_v2_commitment E cs'"
    and "\<not> keccak_collision E (configuration_v2_inputs E cs \<union> configuration_v2_inputs E cs')"
  shows "cs = cs'"
  using commitment_binds [OF assms] configuration_v2_words_inject by blast

lemma configuration_v2_hash:
  assumes "ethers_laws E" and "computePhilCoreV2RecoveryConfigurationHashV2 E (configuration_of a b c) = Inr h"
    and "toLowerCase a = a" and "toLowerCase b = b" and "toLowerCase c = c"
  shows "h = configuration_v2_commitment E [a, b, c] \<and>
    list_all2 (abi_fits E) configuration_types (configuration_v2_words [a, b, c])"
proof -
  from assms(2) obtain cs where cs: "configuration_content E (configuration_of a b c) cs" "h = configuration_v2_commitment E cs"
    unfolding configuration_v2_iff by blast
  from cs(1) assms(3-5) have "cs = [a, b, c]"
    unfolding configuration_content_of list_all2_three by (auto simp: is_bytes32_def)
  with cs configuration_content_fits [OF assms(1) cs(1)] show ?thesis by simp
qed

lemma descriptor_set_hash:
  assumes "ethers_laws E" and "validatePhilCoreV2RecoveryDescriptorSet E ds = Inr s"
  obtains ns where "factor_set E ds ns" "ds_commitments s = map (factor_commitment_v2 E) ns"
    "ds_recoveryConfigHash s = configuration_v2_commitment E (ds_commitments s)"
    "list_all2 (abi_fits E) configuration_types (configuration_v2_words (ds_commitments s))"
proof -
  from assms(2) obtain ns where ns: "factor_set E ds ns" "ds_commitments s = map (factor_commitment_v2 E) ns"
    and h: "computePhilCoreV2RecoveryConfigurationHashV2 E
      (configuration_of (ds_commitments s ! 0) (ds_commitments s ! 1) (ds_commitments s ! 2)) = Inr (ds_recoveryConfigHash s)"
    unfolding descriptor_set_iff by blast
  from ns(1) obtain n0 n1 n2 where n: "ns = [n0, n1, n2]" by (rule factor_set_three)
  then have cs: "ds_commitments s = [factor_commitment_v2 E n0, factor_commitment_v2 E n1, factor_commitment_v2 E n2]"
    using ns(2) by simp
  from configuration_v2_hash [OF assms(1) h] cs have
    "ds_recoveryConfigHash s = configuration_v2_commitment E (ds_commitments s)"
    "list_all2 (abi_fits E) configuration_types (configuration_v2_words (ds_commitments s))"
    by (simp_all add: commitment_shape [OF assms(1)])
  with ns show thesis by (rule that)
qed

lemma list_all2_same_left:
  assumes "\<And>x y z. P x y \<Longrightarrow> P x z \<Longrightarrow> y = z" and "list_all2 P xs ys" and "list_all2 P xs zs"
  shows "ys = zs"
  using assms(2,3)
proof (induction xs arbitrary: ys zs)
  case (Cons x xs)
  then show ?case using assms(1) [of x] by (auto simp: list_all2_Cons1)
qed simp

lemma factor_descriptors_unique:
  "list_all2 (factor_descriptor E) ds ns \<Longrightarrow> list_all2 (factor_descriptor E) ds ms \<Longrightarrow> ns = ms"
  using list_all2_same_left [of "factor_descriptor E"] factor_descriptor_unique by blast

text \<open>Two sets with the same commitment in a role have the same descriptor in it.\<close>

lemma unchanged_descriptor:
  assumes laws: "ethers_laws E" and ns: "factor_set E ds ns" and ms: "factor_set E es ms"
    and noc: "\<not> keccak_collision E (\<Union>d \<in> set ds \<union> set es. descriptor_inputs E d)" and r: "r < 3"
    and same: "map (factor_commitment_v2 E) ns ! r = map (factor_commitment_v2 E) ms ! r"
  shows "ns ! r = ms ! r"
proof -
  have len: "length ds = 3" "length ns = 3" "length es = 3" "length ms = 3" using ns ms by (auto elim: factor_set_three)
  have at: "factor_descriptor E (ds ! r) (ns ! r)" "factor_descriptor E (es ! r) (ms ! r)"
    using ns ms r len unfolding factor_set_def list_all2_conv_all_nth by simp_all
  have "ds ! r \<in> set ds" "es ! r \<in> set es" using r len by simp_all
  then have "descriptor_inputs E (ds ! r) \<union> descriptor_inputs E (es ! r) \<subseteq> (\<Union>d \<in> set ds \<union> set es. descriptor_inputs E d)" by blast
  with noc have "\<not> keccak_collision E (descriptor_inputs E (ds ! r) \<union> descriptor_inputs E (es ! r))"
    using keccak_collision_mono by blast
  with factor_commitment_v2_inject [OF laws at] same r len show ?thesis by simp
qed

section \<open>The quorum\<close>

lemma context_configuration_fits:
  assumes "ethers_laws E" and "evidence_fields E az c x"
  shows "list_all2 (abi_fits E) configuration_types (configuration_v2_words (context_commitments x))"
  using assms(2) unfolding evidence_fields_def configuration_types_def
  by (simp add: uint_fits_def PHILCORE_V2_RECOVERY_CONFIGURATION_VERSION_V2_def PHILCORE_V2_RECOVERY_THRESHOLD_def is_bytes32_def
      laws_isHexString [OF assms(1)] hex_string_lower)

lemma bitmap_roles:
  assumes "b \<in> {3, 5, 6}"
  shows "fst (expectedRoles b) < snd (expectedRoles b)" "snd (expectedRoles b) < 3"
    "b = 2 ^ fst (expectedRoles b) + 2 ^ snd (expectedRoles b)"
  using assms by (auto simp: expectedRoles_def PHILCORE_V2_RECOVERY_FACTOR_BITMAP_def)

lemma descriptor_commitment_of:
  "factor_descriptor E d n \<Longrightarrow> computePhilCoreV2RecoveryDescriptorCommitment E d = Inr (factor_commitment_v2 E n)"
  unfolding descriptor_commitment_iff by blast

lemma membership_iff:
  assumes "ethers_laws E"
  shows "assertPhilCoreV2RecoveryEvidenceMembership E c d d' = Inr () \<longleftrightarrow>
    (\<exists>x n m. evidence_context E c x \<and> factor_descriptor E d n \<and> factor_descriptor E d' m \<and>
       dn_role n = int (fst (xn_roles x)) \<and> dn_role m = int (snd (xn_roles x)) \<and>
       factor_commitment_v2 E n = xn_firstFactorCommitment x \<and> factor_commitment_v2 E m = xn_secondFactorCommitment x)"
  (is "?L \<longleftrightarrow> ?R")
proof
  assume ?L
  then obtain x n m where x: "evidence_context E c x" "factor_descriptor E d n" "factor_descriptor E d' m"
      "dn_role n = int (fst (xn_roles x))" "dn_role m = int (snd (xn_roles x))"
    and h: "computePhilCoreV2RecoveryDescriptorCommitment E d = Inr (xn_firstFactorCommitment x)"
      "computePhilCoreV2RecoveryDescriptorCommitment E d' = Inr (xn_secondFactorCommitment x)"
    unfolding assertPhilCoreV2RecoveryEvidenceMembership_def bnd_eq_Inr ensure_eq_Inr normalizedEvidenceContext_iff [OF assms]
      normalizedDescriptor_iff by blast
  from h have "factor_commitment_v2 E n = xn_firstFactorCommitment x" "factor_commitment_v2 E m = xn_secondFactorCommitment x"
    using descriptor_commitment_of [OF x(2)] descriptor_commitment_of [OF x(3)] by simp_all
  with x show ?R by blast
next
  assume ?R
  then show ?L
    unfolding normalizedEvidenceContext_iff [OF assms, symmetric] normalizedDescriptor_iff [symmetric]
    by (elim exE conjE) (simp add: assertPhilCoreV2RecoveryEvidenceMembership_def
      descriptor_commitment_of [unfolded normalizedDescriptor_iff [symmetric]])
qed

text \<open>A context that names the hash of a set of descriptors has the commitments of the set.\<close>

lemma context_of_descriptor_set:
  assumes laws: "ethers_laws E" and set: "validatePhilCoreV2RecoveryDescriptorSet E ds = Inr s"
    and x: "evidence_context E c x" and config: "xn_currentRecoveryConfigHash x = ds_recoveryConfigHash s"
    and noc: "\<not> keccak_collision E (configuration_v2_inputs E (ds_commitments s) \<union> configuration_v2_inputs E (context_commitments x))"
  obtains ns where "factor_set E ds ns" "map (factor_commitment_v2 E) ns = context_commitments x"
proof -
  obtain ns where ns: "factor_set E ds ns" "ds_commitments s = map (factor_commitment_v2 E) ns"
    "ds_recoveryConfigHash s = configuration_v2_commitment E (ds_commitments s)"
    "list_all2 (abi_fits E) configuration_types (configuration_v2_words (ds_commitments s))"
    by (rule descriptor_set_hash [OF laws set])
  from x have f: "evidence_fields E False c x"
    and p: "xn_currentRecoveryConfigHash x = configuration_v2_commitment E (context_commitments x)"
    by (auto simp: evidence_context_def context_policy_def)
  have "configuration_v2_commitment E (ds_commitments s) = configuration_v2_commitment E (context_commitments x)"
    using config ns(3) p by metis
  from configuration_v2_inject [OF laws ns(4) context_configuration_fits [OF laws f] this noc] ns(1,2) show thesis
    using that by metis
qed

text \<open>
  C27: a quorum of recovery evidence is two different enrolled factors. Let a set of three descriptors be
  accepted, and let the evidence name the hash of this set as the current configuration of the account. When
  the membership check accepts two descriptors for the context, they are the descriptors of the set in two
  different roles, in order, exactly the roles that the bitmap of the context selects, and they differ in
  their public key material and their independence binding; unless two of the hashed inputs collide.
\<close>

theorem evidence_quorum:
  assumes laws: "ethers_laws E" and set: "validatePhilCoreV2RecoveryDescriptorSet E ds = Inr s"
    and ctx: "normalizedEvidenceContext E c = Inr x" and config: "xn_currentRecoveryConfigHash x = ds_recoveryConfigHash s"
    and member: "assertPhilCoreV2RecoveryEvidenceMembership E c d d' = Inr ()"
  shows "(\<exists>i j n m. i < j \<and> j < length ds \<and> xn_bitmap x = 2 ^ i + 2 ^ j \<and>
      normalizedDescriptor E d = Inr n \<and> normalizedDescriptor E (ds ! i) = Inr n \<and>
      normalizedDescriptor E d' = Inr m \<and> normalizedDescriptor E (ds ! j) = Inr m \<and>
      dn_publicVerificationMaterialHash n \<noteq> dn_publicVerificationMaterialHash m \<and>
      dn_independenceBindingHash n \<noteq> dn_independenceBindingHash m) \<or>
    keccak_collision E (configuration_v2_inputs E (ds_commitments s) \<union> configuration_v2_inputs E (context_commitments x) \<union>
      (\<Union>f \<in> {d, d'} \<union> set ds. descriptor_inputs E f))"
proof (rule disjCI)
  let ?i = "fst (expectedRoles (xn_bitmap x))" and ?j = "snd (expectedRoles (xn_bitmap x))"
  assume "\<not> keccak_collision E (configuration_v2_inputs E (ds_commitments s) \<union>
      configuration_v2_inputs E (context_commitments x) \<union> (\<Union>f \<in> {d, d'} \<union> set ds. descriptor_inputs E f))"
  then have noc: "\<not> keccak_collision E (configuration_v2_inputs E (ds_commitments s) \<union> configuration_v2_inputs E (context_commitments x))"
    and nod: "\<not> keccak_collision E (\<Union>f \<in> {d, d'} \<union> set ds. descriptor_inputs E f)"
    using keccak_collision_mono by blast+
  from ctx have x: "evidence_context E c x" by (simp add: normalizedEvidenceContext_iff [OF laws])
  obtain ns where ns: "factor_set E ds ns" "map (factor_commitment_v2 E) ns = context_commitments x"
    by (rule context_of_descriptor_set [OF laws set x config noc])
  from member x obtain n m where nm: "factor_descriptor E d n" "factor_descriptor E d' m"
      "factor_commitment_v2 E n = xn_firstFactorCommitment x" "factor_commitment_v2 E m = xn_secondFactorCommitment x"
    using evidence_context_unique [OF laws] unfolding membership_iff [OF laws] by metis
  from x have p: "context_policy E x" by (simp add: evidence_context_def)
  then have b: "xn_bitmap x \<in> {3, 5, 6}" by (simp add: context_policy_def)
  note roles = bitmap_roles [OF b]
  have len: "length ds = 3" "length ns = 3" using ns(1) by (auto elim: factor_set_three)
  have at: "factor_descriptor E (ds ! k) (ns ! k)" if "k < 3" for k
    using ns(1) that len unfolding factor_set_def list_all2_conv_all_nth by simp
  have same: "v = ns ! k" if "factor_descriptor E f v" "factor_commitment_v2 E v = factor_commitment_v2 E (ns ! k)"
    "f \<in> {d, d'}" "k < 3" for f v k
  proof (rule factor_commitment_v2_inject [OF laws that(1) at [OF that(4)] that(2)])
    have "ds ! k \<in> set ds" using that(4) len by simp
    with that(3) have "descriptor_inputs E f \<union> descriptor_inputs E (ds ! k) \<subseteq> (\<Union>f \<in> {d, d'} \<union> set ds. descriptor_inputs E f)"
      by blast
    with nod show "\<not> keccak_collision E (descriptor_inputs E f \<union> descriptor_inputs E (ds ! k))"
      using keccak_collision_mono by blast
  qed
  have pair: "xn_firstFactorCommitment x = context_commitments x ! ?i" "xn_secondFactorCommitment x = context_commitments x ! ?j"
    using p unfolding context_policy_def by metis+
  have "factor_commitment_v2 E n = factor_commitment_v2 E (ns ! ?i)" "factor_commitment_v2 E m = factor_commitment_v2 E (ns ! ?j)"
    using nm(3,4) roles len unfolding pair ns(2) [symmetric] by simp_all
  then have eq: "n = ns ! ?i" "m = ns ! ?j" using same [OF nm(1)] same [OF nm(2)] roles by simp_all
  have "dn_publicVerificationMaterialHash n \<noteq> dn_publicVerificationMaterialHash m"
    "dn_independenceBindingHash n \<noteq> dn_independenceBindingHash m"
    using ns(1) roles len unfolding eq factor_set_def by (auto simp: distinct_conv_nth)
  then show "\<exists>i j n m. i < j \<and> j < length ds \<and> xn_bitmap x = 2 ^ i + 2 ^ j \<and>
      normalizedDescriptor E d = Inr n \<and> normalizedDescriptor E (ds ! i) = Inr n \<and>
      normalizedDescriptor E d' = Inr m \<and> normalizedDescriptor E (ds ! j) = Inr m \<and>
      dn_publicVerificationMaterialHash n \<noteq> dn_publicVerificationMaterialHash m \<and>
      dn_independenceBindingHash n \<noteq> dn_independenceBindingHash m"
    using nm(1,2) at [of ?i] at [of ?j] eq roles len
    by (intro exI [of _ ?i] exI [of _ ?j] exI [of _ n] exI [of _ m]) (simp add: normalizedDescriptor_iff)
qed

section \<open>Evidence and the state of the account\<close>

text \<open>What the state check is given for an account: its address, its chain, its entry point and its epochs.\<close>

definition account_view :: "PhilCoreV2AccountState \<Rightarrow> evidence_state" where
  "account_view s =
     \<lparr>es_expectedAccount = vs_account (as_validatorState s), es_expectedChainId = BigIntV (vs_chainId (as_validatorState s)),
      es_expectedEntryPoint = vs_entryPoint (as_validatorState s),
      es_currentValidatorEpoch = BigIntV (vs_validatorEpoch (as_validatorState s)),
      es_currentRecoveryEpoch = BigIntV (vs_recoveryEpoch (as_validatorState s))\<rparr>"

lemma evidence_state_at:
  assumes laws: "ethers_laws E" and s: "account_wf E s" and x: "evidence_context E c x"
  shows "assertPhilCoreV2RecoveryEvidenceState E c (account_view s) =
    (if xn_account x \<noteq> vs_account (as_validatorState s) then throw ''recovery_evidence_account_mismatch''
     else if xn_chainId x \<noteq> vs_chainId (as_validatorState s) then throw ''recovery_evidence_chain_mismatch''
     else if xn_entryPoint x \<noteq> vs_entryPoint (as_validatorState s) then throw ''recovery_evidence_entryPoint_mismatch''
     else if xn_validatorEpoch x < vs_validatorEpoch (as_validatorState s) then throw ''validator_epoch_stale''
     else if xn_validatorEpoch x > vs_validatorEpoch (as_validatorState s) then throw ''validator_epoch_future''
     else if xn_recoveryEpoch x < vs_recoveryEpoch (as_validatorState s) then throw ''recovery_epoch_stale''
     else if xn_recoveryEpoch x > vs_recoveryEpoch (as_validatorState s) then throw ''recovery_epoch_future''
     else Inr ())"
proof -
  let ?v = "as_validatorState s"
  have v: "validator_wf E ?v" using s by (simp add: account_wf_def)
  have "evidence_address E (vs_account ?v) l = Inr (vs_account ?v)" "evidence_address E (vs_entryPoint ?v) l = Inr (vs_entryPoint ?v)"
    "evidence_uint (BigIntV (vs_chainId ?v)) 256 l True = Inr (vs_chainId ?v)"
    "evidence_uint (BigIntV (vs_validatorEpoch ?v)) 64 l True = Inr (vs_validatorEpoch ?v)"
    "evidence_uint (BigIntV (vs_recoveryEpoch ?v)) 64 l True = Inr (vs_recoveryEpoch ?v)" for l
    using v by (simp_all add: validator_wf_def evidence_address_iff evidence_uint_iff)
  moreover have "normalizedEvidenceContext E c = Inr x" using x by (simp add: normalizedEvidenceContext_iff [OF laws])
  ultimately show ?thesis by (simp add: assertPhilCoreV2RecoveryEvidenceState_def account_view_def ensure_def)
qed

text \<open>
  C32: evidence is spent by the epochs of the account. Let the state check accept a context for a state of the
  account. After any sequence of validations, applications and recovery completions it accepts the context if
  and only if both epochs are the same, and otherwise refuses it as stale; and once a recovery has been
  completed, it refuses every context that it accepted before.
\<close>

theorem evidence_spent:
  assumes laws: "ethers_laws E" and inv: "account_inv E cs" and run: "(account_step E)\<^sup>*\<^sup>* cs (C, s)"
    and accepted: "assertPhilCoreV2RecoveryEvidenceState E c (account_view (snd cs)) = Inr ()"
  shows "assertPhilCoreV2RecoveryEvidenceState E c (account_view s) =
      (if vs_validatorEpoch (as_validatorState s) \<noteq> vs_validatorEpoch (as_validatorState (snd cs)) then throw ''validator_epoch_stale''
       else if vs_recoveryEpoch (as_validatorState s) \<noteq> vs_recoveryEpoch (as_validatorState (snd cs)) then throw ''recovery_epoch_stale''
       else Inr ()) \<and>
    (completePhilCoreV2RecoveryLocally E s rid time = Inr t \<longrightarrow>
      assertPhilCoreV2RecoveryEvidenceState E c (account_view t) = throw ''validator_epoch_stale'')"
proof -
  from accepted obtain x where x: "evidence_context E c x"
    unfolding assertPhilCoreV2RecoveryEvidenceState_def bnd_eq_Inr normalizedEvidenceContext_iff [OF laws] by blast
  have wf: "account_wf E (snd cs)" using inv by (simp add: account_inv_def)
  from accepted have at: "xn_account x = vs_account (as_validatorState (snd cs))" "xn_chainId x = vs_chainId (as_validatorState (snd cs))"
    "xn_entryPoint x = vs_entryPoint (as_validatorState (snd cs))" "xn_validatorEpoch x = vs_validatorEpoch (as_validatorState (snd cs))"
    "xn_recoveryEpoch x = vs_recoveryEpoch (as_validatorState (snd cs))"
    unfolding evidence_state_at [OF laws wf x] by (auto split: if_splits)
  have evolved: "account_wf E u \<and> vs_account (as_validatorState u) = xn_account x \<and> vs_chainId (as_validatorState u) = xn_chainId x \<and>
      vs_entryPoint (as_validatorState u) = xn_entryPoint x \<and> xn_validatorEpoch x \<le> vs_validatorEpoch (as_validatorState u) \<and>
      xn_recoveryEpoch x \<le> vs_recoveryEpoch (as_validatorState u)" if "(account_step E)\<^sup>*\<^sup>* cs (D, u)" for D u
    using account_reachable [OF laws inv that] at
    by (simp add: account_inv_def system_evolves_def account_evolves_def validator_evolves_def)
  have "assertPhilCoreV2RecoveryEvidenceState E c (account_view t) = throw ''validator_epoch_stale''"
    if comp: "completePhilCoreV2RecoveryLocally E s rid time = Inr t"
  proof -
    from comp have "vs_validatorEpoch (as_validatorState s) < vs_validatorEpoch (as_validatorState t)"
      unfolding complete_iff [OF laws evolved [OF run, THEN conjunct1]] by (auto simp: recovered_def rotated_def)
    moreover have "(account_step E)\<^sup>*\<^sup>* cs (C, t)" using run account_step.complete [OF comp] by (rule rtranclp.rtrancl_into_rtrancl)
    ultimately show ?thesis
      using evolved [of C t] evolved [OF run] by (simp add: evidence_state_at [OF laws _ x])
  qed
  then show ?thesis using evolved [OF run] at by (auto simp: evidence_state_at [OF laws _ x])
qed

section \<open>Digests of contexts\<close>

definition context_digest :: "ethers \<Rightarrow> bool \<Rightarrow> PhilCoreV2RecoveryEvidenceContextInput \<Rightarrow> string result" where
  "context_digest E consumer i =
     (if consumer then computePhilCoreV2ConsumerRecoveryEvidenceContextHash E i else computePhilCoreV2RecoveryEvidenceContextHash E i)"

definition digest_context :: "ethers \<Rightarrow> bool \<Rightarrow> PhilCoreV2RecoveryEvidenceContextInput \<Rightarrow> normal_evidence_context \<Rightarrow> bool" where
  "digest_context E consumer i x \<longleftrightarrow> (if consumer then consumer_context E i x else evidence_context E i x)"

definition digest_inputs :: "ethers \<Rightarrow> bool \<Rightarrow> normal_evidence_context \<Rightarrow> bytes_like set" where
  "digest_inputs E consumer x =
     commitment_inputs E (PHILCORE_V2_RECOVERY_DESCRIPTOR_TYPE EVIDENCE_CONTEXT) context_types (context_words x) \<union>
     (if consumer then commitment_inputs E RECOVERY_CONFIGURATION_TYPE configuration_types (configuration_words (context_commitments x))
      else configuration_v2_inputs E (context_commitments x))"

lemma digest_context_iff:
  "ethers_laws E \<Longrightarrow> context_digest E k i = Inr h \<longleftrightarrow> (\<exists>x. digest_context E k i x \<and> h = evidence_commitment E x)"
  by (simp add: context_digest_def digest_context_def consumer_context_hash_iff evidence_context_hash_iff)

lemma digest_context_fields:
  "digest_context E k i x \<Longrightarrow> evidence_fields E True i x"
  by (cases k) (auto simp: digest_context_def consumer_context_def evidence_context_def evidence_fields_def is_bytes32_def)

lemma digest_context_roles: "digest_context E k i x \<Longrightarrow> xn_roles x = expectedRoles (xn_bitmap x)"
  by (cases k) (simp_all add: digest_context_def consumer_context_def evidence_context_def context_policy_def)

text \<open>Contexts of the two kinds name configurations of different types.\<close>

lemma configuration_kinds:
  assumes laws: "ethers_laws E" and x: "consumer_context E i x" and y: "evidence_context E j x"
  shows "keccak_collision E (commitment_inputs E RECOVERY_CONFIGURATION_TYPE configuration_types (configuration_words (context_commitments x)) \<union>
    configuration_v2_inputs E (context_commitments x))"
proof (rule ccontr)
  assume noc: "\<not> ?thesis"
  from y have f: "evidence_fields E False j x" by (simp add: evidence_context_def)
  then have "\<forall>c \<in> set (context_commitments x). is_bytes32 E False c c"
    using is_bytes32_stable [OF laws] unfolding evidence_fields_def by auto
  then have fits: "list_all2 (abi_fits E) configuration_types (configuration_words (context_commitments x))"
    by (intro configuration_fits [OF laws]) simp_all
  have "configuration_commitment E (context_commitments x) = configuration_v2_commitment E (context_commitments x)"
    using x y unfolding consumer_context_def evidence_context_def context_policy_def by metis
  with commitment_binds [OF laws fits context_configuration_fits [OF laws f]] noc
  have "RECOVERY_CONFIGURATION_TYPE = PHILCORE_V2_RECOVERY_DESCRIPTOR_TYPE RECOVERY_CONFIGURATION_V2" by blast
  then show False by (simp add: RECOVERY_CONFIGURATION_TYPE_def PHILCORE_V2_RECOVERY_DESCRIPTOR_TYPE.simps)
qed

text \<open>
  C37: what a digest of evidence binds. Two contexts with the same digest, each accepted as a context of a
  configuration of version 2 or of a consumer configuration, are of the same kind and are the same context,
  field by field; unless two of the inputs hashed for the contexts and the configurations collide.
\<close>

theorem context_digest_binds:
  assumes laws: "ethers_laws E" and i: "context_digest E k i = Inr h" and j: "context_digest E l j = Inr h"
  shows "\<exists>x y. digest_context E k i x \<and> digest_context E l j y \<and>
    (k = l \<and> x = y \<or> keccak_collision E (digest_inputs E k x \<union> digest_inputs E l y))"
proof -
  from i j obtain x y where x: "digest_context E k i x" "h = evidence_commitment E x"
    and y: "digest_context E l j y" "h = evidence_commitment E y" unfolding digest_context_iff [OF laws] by blast
  have "k = l \<and> x = y" if noc: "\<not> keccak_collision E (digest_inputs E k x \<union> digest_inputs E l y)"
  proof -
    have inputs: "\<not> keccak_collision E (commitment_inputs E (PHILCORE_V2_RECOVERY_DESCRIPTOR_TYPE EVIDENCE_CONTEXT) context_types (context_words x) \<union>
        commitment_inputs E (PHILCORE_V2_RECOVERY_DESCRIPTOR_TYPE EVIDENCE_CONTEXT) context_types (context_words y))"
    proof
      assume "keccak_collision E (commitment_inputs E (PHILCORE_V2_RECOVERY_DESCRIPTOR_TYPE EVIDENCE_CONTEXT) context_types (context_words x) \<union>
        commitment_inputs E (PHILCORE_V2_RECOVERY_DESCRIPTOR_TYPE EVIDENCE_CONTEXT) context_types (context_words y))"
      from keccak_collision_mono [OF this, of "digest_inputs E k x \<union> digest_inputs E l y"] noc show False
        by (auto simp: digest_inputs_def)
    qed
    from x(2) y(2) have "evidence_commitment E x = evidence_commitment E y" by simp
    from commitment_binds [OF laws context_fits [OF laws digest_context_fields [OF x(1)]]
        context_fits [OF laws digest_context_fields [OF y(1)]] this inputs]
    have words: "context_words x = context_words y" by simp
    have eq: "x = y"
      using context_words_inject words digest_context_roles [OF x(1)] digest_context_roles [OF y(1)] by blast
    moreover have "k = l"
    proof (rule ccontr)
      assume "k \<noteq> l"
      then consider "k" "\<not> l" | "\<not> k" "l" by blast
      then have "keccak_collision E (digest_inputs E k x \<union> digest_inputs E l y)"
      proof cases
        case 1
        with configuration_kinds [OF laws, of i x j] x(1) y(1) eq show ?thesis
          unfolding digest_context_def digest_inputs_def by (auto elim!: keccak_collision_mono)
      next
        case 2
        with configuration_kinds [OF laws, of j x i] x(1) y(1) eq show ?thesis
          unfolding digest_context_def digest_inputs_def by (auto elim!: keccak_collision_mono)
      qed
      with noc show False ..
    qed
    ultimately show ?thesis by blast
  qed
  with x y show ?thesis by blast
qed

section \<open>Consumer contexts and the frozen checks\<close>

text \<open>
  the digest of a consumer context. The plain hash of the fields agrees with the frozen hasher on every
  context that the frozen checks accept. A consumer context has a digest exactly when the current configuration
  it names is the consumer configuration of its three factor commitments and the frozen checks accept it with
  the version 2 configuration of these commitments in its place, and the digest is the plain hash of the fields
  of the context as it was given.
\<close>

theorem consumer_context_gate:
  assumes laws: "ethers_laws E"
  shows "(\<forall>j h. computePhilCoreV2RecoveryEvidenceContextHash E j = Inr h \<longrightarrow> hashPhilCoreV2RecoveryEvidenceContextFields E j = Inr h) \<and>
    (computePhilCoreV2ConsumerRecoveryEvidenceContextHash E i = Inr h \<longleftrightarrow>
      (\<exists>cs s h'. list_all2 (is_bytes32 E False)
          [ec_primaryDeviceCommitment i, ec_hardwareSecurityKeyCommitment i, ec_recoveryFactorCommitment i] cs \<and>
        is_bytes32 E True (ec_currentRecoveryConfigHash i) s \<and>
        computePhilCoreV2ConsumerRecoveryConfigurationHash E cs = Inr s \<and>
        computePhilCoreV2RecoveryEvidenceContextHash E
          (i\<lparr>ec_currentRecoveryConfigHash := configuration_v2_commitment E cs\<rparr>) = Inr h' \<and>
        hashPhilCoreV2RecoveryEvidenceContextFields E i = Inr h))" (is "_ \<and> (_ \<longleftrightarrow> ?R h)")
proof (intro conjI iffI allI impI)
  show "hashPhilCoreV2RecoveryEvidenceContextFields E j = Inr h"
    if "computePhilCoreV2RecoveryEvidenceContextHash E j = Inr h" for j h
    using that hash_fields [OF laws] unfolding evidence_context_hash_iff [OF laws] evidence_context_def by blast
next
  assume h: "computePhilCoreV2ConsumerRecoveryEvidenceContextHash E i = Inr h"
  then obtain x where "consumer_context E i x" "h = evidence_commitment E x" unfolding consumer_context_hash_iff [OF laws] by blast
  then have "hashPhilCoreV2RecoveryEvidenceContextFields E i = Inr h" using hash_fields [OF laws consumer_fields] by blast
  with consumer_gate [OF laws h] show "?R h" by blast
next
  assume "?R h"
  then obtain x where x: "consumer_context E i x" and h: "hashPhilCoreV2RecoveryEvidenceContextFields E i = Inr h"
    using consumer_context_of [OF laws] unfolding evidence_context_hash_iff [OF laws] by blast
  from h have "h = evidence_commitment E x" using hash_fields [OF laws consumer_fields [OF x]] by simp
  with x show "computePhilCoreV2ConsumerRecoveryEvidenceContextHash E i = Inr h" unfolding consumer_context_hash_iff [OF laws] by blast
qed

text \<open>
  what the frozen checks accept. A context has a digest exactly when every field has its type and is not
  zero where it must not be, the policy of contexts holds, and the digest is the commitment to the fields.
\<close>

theorem evidence_acceptance:
  assumes "ethers_laws E"
  shows "computePhilCoreV2RecoveryEvidenceContextHash E i = Inr h \<longleftrightarrow>
    (\<exists>x. evidence_fields E False i x \<and> context_policy E x \<and> h = evidence_commitment E x)"
  unfolding evidence_context_hash_iff [OF assms] evidence_context_def by blast

section \<open>Rotation of descriptors\<close>

text \<open>
  C38: a rotation of descriptors. The recovery epoch is the next one. Both sets are accepted; at least one role
  changes. The descriptor of a changed role has the next generation, other public key material, another
  independence binding and, for an authenticator, another credential; the descriptor of every other role is the
  same in all its fields, and the two configurations have different hashes; unless two of the hashed inputs
  collide.
\<close>

theorem descriptor_rotation:
  assumes laws: "ethers_laws E" and rotation: "validatePhilCoreV2RecoveryRotation E i = Inr res"
  shows "\<exists>e ns ms. is_uint True 64 (ri_currentRecoveryEpoch i) e \<and> is_uint True 64 (ri_proposedRecoveryEpoch i) (e + 1) \<and>
    factor_set E (ri_currentDescriptors i) ns \<and> factor_set E (ri_proposedDescriptors i) ms \<and>
    dr_changedRoles res \<noteq> [] \<and> (\<forall>r \<in> set (dr_changedRoles res). r < 3 \<and> replaced_descriptor r (ns ! r) (ms ! r)) \<and>
    ((\<forall>r < 3. r \<notin> set (dr_changedRoles res) \<longrightarrow> ns ! r = ms ! r) \<and>
       dr_currentRecoveryConfigHash res \<noteq> dr_proposedRecoveryConfigHash res \<or>
     keccak_collision E ((\<Union>d \<in> set (ri_currentDescriptors i) \<union> set (ri_proposedDescriptors i). descriptor_inputs E d) \<union>
       configuration_v2_inputs E (map (factor_commitment_v2 E) ns) \<union> configuration_v2_inputs E (map (factor_commitment_v2 E) ms)))"
proof -
  from rotation obtain e s t ns' ms' where e: "is_uint True 64 (ri_currentRecoveryEpoch i) e"
      "is_uint True 64 (ri_proposedRecoveryEpoch i) (e + 1)"
    and s: "validatePhilCoreV2RecoveryDescriptorSet E (ri_currentDescriptors i) = Inr s"
    and t: "validatePhilCoreV2RecoveryDescriptorSet E (ri_proposedDescriptors i) = Inr t"
    and fs: "list_all2 (factor_descriptor E) (ri_currentDescriptors i) ns'" "list_all2 (factor_descriptor E) (ri_proposedDescriptors i) ms'"
    and changed: "dr_changedRoles res = filter (\<lambda>r. ds_commitments s ! r \<noteq> ds_commitments t ! r) [0, 1, 2]" "dr_changedRoles res \<noteq> []"
    and replaced: "\<forall>r \<in> set (dr_changedRoles res). replaced_descriptor r (ns' ! r) (ms' ! r)"
    and h: "dr_currentRecoveryConfigHash res = ds_recoveryConfigHash s" "dr_proposedRecoveryConfigHash res = ds_recoveryConfigHash t"
    unfolding descriptor_rotation_iff by blast
  obtain ns where ns: "factor_set E (ri_currentDescriptors i) ns" "ds_commitments s = map (factor_commitment_v2 E) ns"
    "ds_recoveryConfigHash s = configuration_v2_commitment E (ds_commitments s)"
    "list_all2 (abi_fits E) configuration_types (configuration_v2_words (ds_commitments s))"
    by (rule descriptor_set_hash [OF laws s])
  obtain ms where ms: "factor_set E (ri_proposedDescriptors i) ms" "ds_commitments t = map (factor_commitment_v2 E) ms"
    "ds_recoveryConfigHash t = configuration_v2_commitment E (ds_commitments t)"
    "list_all2 (abi_fits E) configuration_types (configuration_v2_words (ds_commitments t))"
    by (rule descriptor_set_hash [OF laws t])
  have eq: "ns' = ns" "ms' = ms" using fs ns(1) ms(1) factor_descriptors_unique unfolding factor_set_def by blast+
  let ?D = "\<Union>d \<in> set (ri_currentDescriptors i) \<union> set (ri_proposedDescriptors i). descriptor_inputs E d"
  let ?C = "configuration_v2_inputs E (map (factor_commitment_v2 E) ns) \<union> configuration_v2_inputs E (map (factor_commitment_v2 E) ms)"
  have same: "ns ! r = ms ! r" if "\<not> keccak_collision E ?D" "r < 3" "r \<notin> set (dr_changedRoles res)" for r
  proof (rule unchanged_descriptor [OF laws ns(1) ms(1) that(1,2)])
    have "r \<in> set [0, 1, 2]" using that(2) by auto
    with that(3) show "map (factor_commitment_v2 E) ns ! r = map (factor_commitment_v2 E) ms ! r"
      unfolding changed(1) ns(2) ms(2) set_filter by blast
  qed
  have hash: "ds_recoveryConfigHash s \<noteq> ds_recoveryConfigHash t" if "\<not> keccak_collision E ?C"
  proof
    assume "ds_recoveryConfigHash s = ds_recoveryConfigHash t"
    from this [unfolded ns(3) ms(3)] have "ds_commitments s = ds_commitments t"
      by (rule configuration_v2_inject [OF laws ns(4) ms(4)]) (simp only: ns(2) ms(2) that not_False_eq_True)
    with changed show False by simp
  qed
  have "\<not> keccak_collision E ?D \<and> \<not> keccak_collision E ?C" if "\<not> keccak_collision E (?D \<union> ?C)"
    using that keccak_collision_mono [of E ?D "?D \<union> ?C"] keccak_collision_mono [of E ?C "?D \<union> ?C"] by blast
  with same hash have "(\<forall>r < 3. r \<notin> set (dr_changedRoles res) \<longrightarrow> ns ! r = ms ! r) \<and>
       dr_currentRecoveryConfigHash res \<noteq> dr_proposedRecoveryConfigHash res \<or> keccak_collision E (?D \<union> ?C)"
    unfolding h by blast
  moreover have "\<forall>r \<in> set (dr_changedRoles res). r < 3 \<and> replaced_descriptor r (ns ! r) (ms ! r)"
    using replaced changed(1) unfolding eq by auto
  ultimately show ?thesis using e ns(1) ms(1) changed(2) by (intro exI [of _ e] exI [of _ ns] exI [of _ ms]) (simp add: Un_assoc)
qed

section \<open>A concrete context\<close>

text \<open>A request to replace the validator, signed by the first two factors.\<close>

definition sample_evidence :: "ethers \<Rightarrow> string \<Rightarrow> string \<Rightarrow> string \<Rightarrow> PhilCoreV2RecoveryEvidenceContextInput" where
  "sample_evidence E a b c =
     \<lparr>ec_envelopeVersion = BigIntV 2, ec_authorityKind = BigIntV 2, ec_actionType = BigIntV 8, ec_factorBitmap = BigIntV 3,
      ec_account = a20 (CHR ''a''), ec_chainId = BigIntV 1, ec_entryPoint = a20 (CHR ''e''), ec_authorizedIntentHash = h32 (CHR ''1''),
      ec_userOperationHash = h32 (CHR ''2''), ec_requestId = h32 (CHR ''1''),
      ec_currentRecoveryConfigHash = configuration_v2_commitment E [a, b, c], ec_validatorEpoch = BigIntV 1,
      ec_recoveryEpoch = BigIntV 1, ec_validAfter = BigIntV 0, ec_validUntil = BigIntV 100,
      ec_recoveryDelaySeconds = BigIntV 172800, ec_recoveryExpirySeconds = BigIntV 604800,
      ec_proposedValidatorCommitment = h32 (CHR ''3''), ec_proposedRecoveryConfigHash = ZERO_BYTES32,
      ec_proposedRecoveryEpoch = BigIntV 2, ec_primaryDeviceCommitment = a, ec_hardwareSecurityKeyCommitment = b,
      ec_recoveryFactorCommitment = c, ec_firstFactorCommitment = a, ec_secondFactorCommitment = b\<rparr>"

definition sample_evidence_context :: "ethers \<Rightarrow> string \<Rightarrow> string \<Rightarrow> string \<Rightarrow> normal_evidence_context" where
  "sample_evidence_context E a b c =
     \<lparr>xn_envelopeVersion = 2, xn_authorityKind = 2, xn_actionType = 8, xn_bitmap = 3,
      xn_account = a20 (CHR ''a''), xn_chainId = 1, xn_entryPoint = a20 (CHR ''e''), xn_authorizedIntentHash = h32 (CHR ''1''),
      xn_userOperationHash = h32 (CHR ''2''), xn_requestId = h32 (CHR ''1''),
      xn_currentRecoveryConfigHash = configuration_v2_commitment E [a, b, c], xn_validatorEpoch = 1,
      xn_recoveryEpoch = 1, xn_validAfter = 0, xn_validUntil = 100,
      xn_recoveryDelaySeconds = 172800, xn_recoveryExpirySeconds = 604800,
      xn_proposedValidatorCommitment = h32 (CHR ''3''), xn_proposedRecoveryConfigHash = ZERO_BYTES32,
      xn_proposedRecoveryEpoch = 2, xn_primaryDeviceCommitment = a, xn_hardwareSecurityKeyCommitment = b,
      xn_recoveryFactorCommitment = c, xn_firstFactorCommitment = a, xn_secondFactorCommitment = b, xn_roles = (0, 1)\<rparr>"

lemma laws_bytes32:
  assumes "ethers_laws E"
  shows "is_bytes32 E az v s \<longleftrightarrow> is_bytes32 sample_ethers az v s"
  by (simp add: is_bytes32_def laws_isHexString [OF assms] laws_isHexString [OF sample_ethers_laws])

lemma zero_h32: "ZERO_BYTES32 = h32 c \<longleftrightarrow> c = CHR ''0''"
  using h32_zero [of c] by metis

lemma zero_bytes32: "is_bytes32 sample_ethers True ZERO_BYTES32 ZERO_BYTES32"
proof -
  have zero: "h32 (CHR ''0'') = ZERO_BYTES32" by simp
  show ?thesis unfolding zero [symmetric] sample_is_bytes32 by (simp add: literal_simps)
qed

lemma sample_evidence_accepted:
  assumes laws: "ethers_laws E" and key: "\<And>x. keccak256 E x \<noteq> ZERO_BYTES32"
    and address: "is_address E False (a20 (CHR ''a'')) (a20 (CHR ''a''))" "is_address E False (a20 (CHR ''e'')) (a20 (CHR ''e''))"
    and abc: "is_bytes32 E False a a" "is_bytes32 E False b b" "is_bytes32 E False c c" "distinct [a, b, c]"
  shows "evidence_context E (sample_evidence E a b c) (sample_evidence_context E a b c)"
proof -
  have "is_bytes32 E False (configuration_v2_commitment E [a, b, c]) (configuration_v2_commitment E [a, b, c])"
    using key by (simp add: is_bytes32_def laws_isHexString [OF laws] commitment_shape [OF laws]) (simp add: commitment_def)
  with address abc show ?thesis
    by (simp add: evidence_context_def evidence_fields_def context_policy_def sample_evidence_def sample_evidence_context_def
        expectedRoles_def PHILCORE_V2_RECOVERY_FACTOR_BITMAP_def uint_fits_def)
       (simp add: laws_bytes32 [OF laws] zero_bytes32 literal_simps)
qed

text \<open>Three descriptors; the primary device has a generation.\<close>

definition evidence_factor :: "int \<Rightarrow> int \<Rightarrow> normal_factor_descriptor" where
  "evidence_factor r g =
     \<lparr>dn_descriptorVersion = 2, dn_accountVersionId = PHILCORE_V2_ACCOUNT_VERSION_ID profile_ethers,
      dn_securityModelId = PHILCORE_V2_SECURITY_MODEL_ID profile_ethers,
      dn_recoveryDomainId = PHILCORE_V2_RECOVERY_DOMAIN_ID profile_ethers, dn_role = r,
      dn_verifierKind = (if r = 2 then 2 else 1),
      dn_publicVerificationMaterialHash = h32 (if r = 2 then CHR ''c'' else if r = 1 then CHR ''b'' else if g = 1 then CHR ''a'' else CHR ''d''),
      dn_credentialIdHash = h32 (if r = 2 then CHR ''0'' else if r = 1 then CHR ''2'' else if g = 1 then CHR ''1'' else CHR ''3''),
      dn_rpIdHash = h32 (if r = 2 then CHR ''0'' else CHR ''e''), dn_originPolicyHash = h32 (if r = 2 then CHR ''0'' else CHR ''f''),
      dn_independenceBindingHash = h32 (if r = 2 then CHR ''c'' else if r = 1 then CHR ''b'' else if g = 1 then CHR ''a'' else CHR ''d''),
      dn_userVerificationPolicy = (if r = 2 then 0 else 2), dn_backupPolicy = (if r = 2 then 0 else 1),
      dn_authenticatorAttachmentPolicy = (if r = 2 then 0 else r + 1), dn_attestationPolicy = (if r = 2 then 0 else r + 1),
      dn_credentialGeneration = g\<rparr>"

definition descriptor_input :: "normal_factor_descriptor \<Rightarrow> PhilCoreV2RecoveryFactorDescriptorInput" where
  "descriptor_input n =
     \<lparr>df_descriptorVersion = BigIntV (dn_descriptorVersion n), df_accountVersionId = dn_accountVersionId n,
      df_securityModelId = dn_securityModelId n, df_recoveryDomainId = dn_recoveryDomainId n, df_role = BigIntV (dn_role n),
      df_verifierKind = BigIntV (dn_verifierKind n), df_publicVerificationMaterialHash = dn_publicVerificationMaterialHash n,
      df_credentialIdHash = dn_credentialIdHash n, df_rpIdHash = dn_rpIdHash n, df_originPolicyHash = dn_originPolicyHash n,
      df_independenceBindingHash = dn_independenceBindingHash n, df_userVerificationPolicy = BigIntV (dn_userVerificationPolicy n),
      df_backupPolicy = BigIntV (dn_backupPolicy n), df_authenticatorAttachmentPolicy = BigIntV (dn_authenticatorAttachmentPolicy n),
      df_attestationPolicy = BigIntV (dn_attestationPolicy n), df_credentialGeneration = BigIntV (dn_credentialGeneration n)\<rparr>"

lemma profile_keccak_is_bytes32:
  "is_bytes32 profile_ethers az (keccak256 profile_ethers x) s \<longleftrightarrow> s = keccak256 profile_ethers x"
  using profile_keccak_shape(3) [of x] laws_keccak256 [OF profile_ethers_laws, of x]
  by (auto simp: is_bytes32_def laws_isHexString [OF profile_ethers_laws]) (simp add: profile_ethers_def)

lemma evidence_factor_accepted:
  assumes "sample_role r g"
  shows "factor_descriptor profile_ethers (descriptor_input (evidence_factor r g)) (evidence_factor r g)"
  using assms
  by (elim conjE disjE; simp add: factor_descriptor_def descriptor_input_def evidence_factor_def sound_descriptor_def uint_fits_def
      PHILCORE_V2_RECOVERY_DESCRIPTOR_VERSION_def PHILCORE_V2_ACCOUNT_VERSION_ID_def PHILCORE_V2_SECURITY_MODEL_ID_def
      PHILCORE_V2_RECOVERY_DOMAIN_ID_def profile_keccak_is_bytes32 laws_keccak256 [OF profile_ethers_laws] zero_h32;
      simp add: laws_bytes32 [OF profile_ethers_laws] literal_simps)

lemma evidence_factor_commitment:
  assumes "sample_role r g"
  shows "factor_commitment_v2 profile_ethers (evidence_factor r g) = h32 (sample_digit ((nat r + 3 * nat g) mod 15 + 1))"
proof -
  let ?E = profile_ethers and ?n = "evidence_factor r g" and ?t = "PHILCORE_V2_RECOVERY_DESCRIPTOR_TYPE FACTOR_DESCRIPTOR"
  let ?ws = "map2 sample_abi_word (''bytes32'' # descriptor_types) (AbiHex (literal_hash ?E ?t) # factor_descriptor_words ?n)"
  note words = profile_words [OF factor_descriptor_fits [OF profile_ethers_laws evidence_factor_accepted [OF assms]], of ?t]
  have len: "length ?ws = 17" by (simp add: descriptor_types_def factor_descriptor_words_def)
  have role: "?ws ! 5 = sample_digits 64 (nat r)" and gen: "?ws ! 16 = sample_digits 64 (nat g)"
    by (simp_all add: descriptor_types_def factor_descriptor_words_def evidence_factor_def nth_Cons' del: sample_digits.simps)
  have "(''0x'' @ concat ?ws) ! 385 = sample_digit (nat r)" "(''0x'' @ concat ?ws) ! 1089 = sample_digit (nat g)"
    using nth_concat_words [OF words, of 5 63] nth_concat_words [OF words, of 16 63] assms
    unfolding role gen sample_digits_last len by (auto simp: nth_append)
  moreover have "length (''0x'' @ concat ?ws) = 1090"
    using length_concat_words [OF words] len by simp
  moreover have "digit_value (sample_digit (nat r)) = nat r" "digit_value (sample_digit (nat g)) = nat g"
    using assms by (auto simp: sample_digit_def digit_value_def)
  moreover have "factor_commitment_v2 ?E ?n = h32 (profile_digit (''0x'' @ concat ?ws))"
    by (simp add: commitment_def commitment_preimage_def profile_ethers_def sample_ethers_def)
  ultimately show ?thesis by (simp add: profile_digit_def)
qed

abbreviation evidence_factors :: "int \<Rightarrow> normal_factor_descriptor list" where
  "evidence_factors g \<equiv> [evidence_factor 0 g, evidence_factor 1 1, evidence_factor 2 1]"

lemma evidence_factor_set: "g = 1 \<or> g = 2 \<Longrightarrow> factor_set profile_ethers (map descriptor_input (evidence_factors g)) (evidence_factors g)"
  using evidence_factor_accepted [of 0 g] evidence_factor_accepted [of 1 1] evidence_factor_accepted [of 2 1]
  by (auto simp: factor_set_def evidence_factor_def)

abbreviation evidence_commitments :: "int \<Rightarrow> string list" where
  "evidence_commitments g \<equiv> map (factor_commitment_v2 profile_ethers) (evidence_factors g)"

definition evidence_set :: "int \<Rightarrow> descriptor_set" where
  "evidence_set g = \<lparr>ds_commitments = evidence_commitments g,
     ds_recoveryConfigHash = configuration_v2_commitment profile_ethers (evidence_commitments g)\<rparr>"

lemma evidence_commitment_bytes32:
  "is_bytes32 profile_ethers False (factor_commitment_v2 profile_ethers n) (factor_commitment_v2 profile_ethers n)"
  by (simp add: commitment_def profile_keccak_is_bytes32)

lemma evidence_commitments_distinct: "g = 1 \<or> g = 2 \<Longrightarrow> distinct (evidence_commitments g)"
  by (auto simp: evidence_factor_commitment sample_digit_neq)

lemma evidence_set_accepted:
  assumes "g = 1 \<or> g = 2"
  shows "validatePhilCoreV2RecoveryDescriptorSet profile_ethers (map descriptor_input (evidence_factors g)) = Inr (evidence_set g)"
  unfolding descriptor_set_iff
proof (intro exI [of _ "evidence_factors g"] conjI evidence_factor_set assms)
  show "computePhilCoreV2RecoveryConfigurationHashV2 profile_ethers (configuration_of (ds_commitments (evidence_set g) ! 0)
      (ds_commitments (evidence_set g) ! 1) (ds_commitments (evidence_set g) ! 2)) = Inr (ds_recoveryConfigHash (evidence_set g))"
    using evidence_commitments_distinct [OF assms]
    by (simp add: evidence_set_def configuration_of_iff [OF profile_ethers_laws evidence_commitment_bytes32
        evidence_commitment_bytes32 evidence_commitment_bytes32])
qed (simp add: evidence_set_def)

lemma profile_nonzero: "keccak256 profile_ethers x \<noteq> ZERO_BYTES32"
  using profile_keccak_shape(3) [of x] by (simp add: profile_ethers_def)

lemma profile_addresses: "is_address profile_ethers False (a20 (CHR ''a'')) (a20 (CHR ''a''))"
  "is_address profile_ethers False (a20 (CHR ''e'')) (a20 (CHR ''e''))"
  using sample_is_address [of False "CHR ''a''" "a20 (CHR ''a'')"] sample_is_address [of False "CHR ''e''" "a20 (CHR ''e'')"]
  by (simp_all add: is_address_def profile_ethers_def literal_simps)

abbreviation quorum_evidence :: PhilCoreV2RecoveryEvidenceContextInput where
  "quorum_evidence \<equiv> sample_evidence profile_ethers (evidence_commitments 1 ! 0) (evidence_commitments 1 ! 1) (evidence_commitments 1 ! 2)"

abbreviation quorum_context :: normal_evidence_context where
  "quorum_context \<equiv> sample_evidence_context profile_ethers (evidence_commitments 1 ! 0) (evidence_commitments 1 ! 1) (evidence_commitments 1 ! 2)"

lemma quorum_context_accepted: "evidence_context profile_ethers quorum_evidence quorum_context"
  using evidence_commitments_distinct [of 1]
  by (intro sample_evidence_accepted profile_ethers_laws profile_nonzero profile_addresses)
     (simp_all add: evidence_commitment_bytes32)

lemma quorum_member:
  "assertPhilCoreV2RecoveryEvidenceMembership profile_ethers quorum_evidence
     (descriptor_input (evidence_factor 0 1)) (descriptor_input (evidence_factor 1 1)) = Inr ()"
  unfolding membership_iff [OF profile_ethers_laws]
  by (intro exI conjI, rule quorum_context_accepted, rule evidence_factor_accepted, simp, rule evidence_factor_accepted)
     (simp_all add: sample_evidence_context_def evidence_factor_def)

theorem evidence_quorum_witness:
  "(\<exists>i j n m. i < j \<and> j < length (map descriptor_input (evidence_factors 1)) \<and> xn_bitmap quorum_context = 2 ^ i + 2 ^ j \<and>
      normalizedDescriptor profile_ethers (descriptor_input (evidence_factor 0 1)) = Inr n \<and>
      normalizedDescriptor profile_ethers (map descriptor_input (evidence_factors 1) ! i) = Inr n \<and>
      normalizedDescriptor profile_ethers (descriptor_input (evidence_factor 1 1)) = Inr m \<and>
      normalizedDescriptor profile_ethers (map descriptor_input (evidence_factors 1) ! j) = Inr m \<and>
      dn_publicVerificationMaterialHash n \<noteq> dn_publicVerificationMaterialHash m \<and>
      dn_independenceBindingHash n \<noteq> dn_independenceBindingHash m) \<or>
    keccak_collision profile_ethers (configuration_v2_inputs profile_ethers (ds_commitments (evidence_set 1)) \<union>
      configuration_v2_inputs profile_ethers (context_commitments quorum_context) \<union>
      (\<Union>f \<in> {descriptor_input (evidence_factor 0 1), descriptor_input (evidence_factor 1 1)} \<union>
        set (map descriptor_input (evidence_factors 1)). descriptor_inputs profile_ethers f))"
proof (rule evidence_quorum [OF profile_ethers_laws _ _ _ quorum_member])
  show "validatePhilCoreV2RecoveryDescriptorSet profile_ethers (map descriptor_input (evidence_factors 1)) = Inr (evidence_set 1)"
    by (rule evidence_set_accepted) simp
  show "normalizedEvidenceContext profile_ethers quorum_evidence = Inr quorum_context"
    using quorum_context_accepted by (simp only: normalizedEvidenceContext_iff [OF profile_ethers_laws])
  show "xn_currentRecoveryConfigHash quorum_context = ds_recoveryConfigHash (evidence_set 1)"
    by (simp add: sample_evidence_context_def evidence_set_def)
qed

abbreviation account_evidence :: PhilCoreV2RecoveryEvidenceContextInput where
  "account_evidence \<equiv> sample_evidence sample_ethers (h32 (CHR ''d'')) (h32 (CHR ''e'')) (h32 (CHR ''f''))"

abbreviation account_context :: normal_evidence_context where
  "account_context \<equiv> sample_evidence_context sample_ethers (h32 (CHR ''d'')) (h32 (CHR ''e'')) (h32 (CHR ''f''))"

lemma account_context_accepted: "evidence_context sample_ethers account_evidence account_context"
  by (rule sample_evidence_accepted [OF sample_ethers_laws sample_keccak_nonzero]) (simp_all add: literal_simps)

theorem evidence_spent_witness:
  "\<exists>s t rid. completePhilCoreV2RecoveryLocally sample_ethers s rid (BigIntV 200000) = Inr t \<and>
     assertPhilCoreV2RecoveryEvidenceState sample_ethers account_evidence (account_view sample_account) = Inr () \<and>
     assertPhilCoreV2RecoveryEvidenceState sample_ethers account_evidence (account_view t) = throw ''validator_epoch_stale''"
proof -
  have accepted: "assertPhilCoreV2RecoveryEvidenceState sample_ethers account_evidence (account_view (snd (no_contexts, sample_account))) = Inr ()"
    by (simp add: evidence_state_at [OF sample_ethers_laws sample_account_wf account_context_accepted])
       (simp add: sample_evidence_context_def sample_account_def sample_validator_state_def)
  obtain enc runtime intent digest where q: "quorum_hashes enc runtime intent digest" using quorum_hashes_exist by blast
  let ?x = "recovery_context (enc_intentCoreHash enc) runtime intent digest"
  obtain t where t: "completePhilCoreV2RecoveryLocally sample_ethers (requested_state ?x) intent (BigIntV 200000) = Inr t"
    using recovery_completed [OF q refl] by blast
  have "assertPhilCoreV2RecoveryEvidenceState sample_ethers account_evidence (account_view t) = throw ''validator_epoch_stale''"
    by (rule evidence_spent [OF sample_ethers_laws sample_inv recovery_requested [OF q refl] accepted, THEN conjunct2, THEN mp, OF t])
  with t accepted [unfolded snd_conv] show ?thesis by blast
qed

theorem context_digest_binds_witness:
  "\<exists>h x y. context_digest sample_ethers False account_evidence = Inr h \<and>
    digest_context sample_ethers False account_evidence x \<and> digest_context sample_ethers False account_evidence y \<and>
    (False = False \<and> x = y \<or> keccak_collision sample_ethers (digest_inputs sample_ethers False x \<union> digest_inputs sample_ethers False y))"
proof -
  obtain h where "context_digest sample_ethers False account_evidence = Inr h"
    using account_context_accepted digest_context_iff [OF sample_ethers_laws, of False account_evidence]
    by (auto simp: digest_context_def)
  with context_digest_binds [OF sample_ethers_laws this this] show ?thesis by blast
qed

theorem evidence_acceptance_witness:
  "computePhilCoreV2RecoveryEvidenceContextHash sample_ethers account_evidence = Inr (evidence_commitment sample_ethers account_context)"
  unfolding evidence_acceptance [OF sample_ethers_laws]
  using account_context_accepted unfolding evidence_context_def by blast

theorem consumer_context_gate_witness:
  "\<exists>h. computePhilCoreV2RecoveryEvidenceContextHash sample_ethers account_evidence = Inr h \<and>
     hashPhilCoreV2RecoveryEvidenceContextFields sample_ethers account_evidence = Inr h"
proof -
  obtain h where "computePhilCoreV2RecoveryEvidenceContextHash sample_ethers account_evidence = Inr h"
    using account_context_accepted unfolding evidence_context_hash_iff [OF sample_ethers_laws] by blast
  with consumer_context_gate [OF sample_ethers_laws, THEN conjunct1] show ?thesis by blast
qed

definition evidence_rotation :: PhilCoreV2RecoveryRotationInput where
  "evidence_rotation =
     \<lparr>ri_currentRecoveryEpoch = BigIntV 1, ri_proposedRecoveryEpoch = BigIntV 2,
      ri_currentDescriptors = map descriptor_input (evidence_factors 1),
      ri_proposedDescriptors = map descriptor_input (evidence_factors 2)\<rparr>"

definition evidence_rotated :: descriptor_rotation where
  "evidence_rotated =
     \<lparr>dr_changedRoles = [0], dr_currentRecoveryConfigHash = ds_recoveryConfigHash (evidence_set 1),
      dr_proposedRecoveryConfigHash = ds_recoveryConfigHash (evidence_set 2)\<rparr>"

lemma evidence_rotation_accepted: "validatePhilCoreV2RecoveryRotation profile_ethers evidence_rotation = Inr evidence_rotated"
  unfolding descriptor_rotation_iff
proof (intro exI conjI)
  show "validatePhilCoreV2RecoveryDescriptorSet profile_ethers (ri_currentDescriptors evidence_rotation) = Inr (evidence_set 1)"
    "validatePhilCoreV2RecoveryDescriptorSet profile_ethers (ri_proposedDescriptors evidence_rotation) = Inr (evidence_set 2)"
    by (simp_all only: evidence_rotation_def PhilCoreV2RecoveryRotationInput.simps evidence_set_accepted simp_thms)
  show "list_all2 (factor_descriptor profile_ethers) (ri_currentDescriptors evidence_rotation) (evidence_factors 1)"
    "list_all2 (factor_descriptor profile_ethers) (ri_proposedDescriptors evidence_rotation) (evidence_factors 2)"
    using evidence_factor_set [of 1] evidence_factor_set [of 2] by (simp_all add: factor_set_def evidence_rotation_def)
  show "dr_changedRoles evidence_rotated =
      filter (\<lambda>r. ds_commitments (evidence_set 1) ! r \<noteq> ds_commitments (evidence_set 2) ! r) [0, 1, 2]"
    by (simp add: evidence_rotated_def evidence_set_def evidence_factor_commitment sample_digit_neq)
  show "\<forall>r \<in> set (dr_changedRoles evidence_rotated). replaced_descriptor r (evidence_factors 1 ! r) (evidence_factors 2 ! r)"
    by (simp add: evidence_rotated_def replaced_descriptor_def evidence_factor_def)
  show "is_uint True 64 (ri_currentRecoveryEpoch evidence_rotation) 1" "is_uint True 64 (ri_proposedRecoveryEpoch evidence_rotation) (1 + 1)"
    by (simp_all add: evidence_rotation_def uint_fits_def)
qed (simp_all add: evidence_rotated_def)

theorem descriptor_rotation_witness:
  "\<exists>e ns ms. is_uint True 64 (ri_currentRecoveryEpoch evidence_rotation) e \<and>
    is_uint True 64 (ri_proposedRecoveryEpoch evidence_rotation) (e + 1) \<and>
    factor_set profile_ethers (ri_currentDescriptors evidence_rotation) ns \<and>
    factor_set profile_ethers (ri_proposedDescriptors evidence_rotation) ms \<and>
    (\<forall>r \<in> set (dr_changedRoles evidence_rotated). r < 3 \<and> replaced_descriptor r (ns ! r) (ms ! r))"
  using descriptor_rotation [OF profile_ethers_laws evidence_rotation_accepted] by blast

end
