(* ===== verification/Spec2Isabelle.thy ===== *)
theory Spec2Isabelle
  imports AccountSystem P256Wire GenesisSlot RecoveryHost GenesisProfile JournalSystem EvidenceSystem
begin

text \<open>
  The V2 account of PhilCore with its recovery ceremonies and its device signatures, as the device
  SDK (\<open>apps/phil-device-sdk/src\<close>) implements them in TypeScript.

  \<^bold>\<open>The program.\<close> An \<^emph>\<open>intent\<close> (\<open>v2Intent.ts\<close>) names an action of an account, with nonce, epochs and
  validity window, and is hashed by EIP-712. An \<^emph>\<open>authority\<close> (a signature of the validator, or a
  quorum of two of three recovery factors) is bound to an intent by a typed digest
  (\<open>v2Authorization.ts\<close>). The \<^emph>\<open>validator state\<close> (\<open>v2Validator.ts\<close>) holds who may authorise, the
  epochs, the recovery state and the ledgers of consumed digests and nonces. The \<^emph>\<open>engine\<close>
  (\<open>v2AuthorizationEngine.ts\<close>) checks an authorization package against a validator state and asks
  an authority verifier. The \<^emph>\<open>account core\<close> (\<open>v2AccountCore.ts\<close>) wraps the validator state in an
  account with nonce sequences and a pending recovery: a validation calls the engine and issues a
  context, an application consumes the context and moves the state, and a recovery is completed
  after its delay.
  The recovery configuration of an account consists of three factors. \<open>v2ConsumerRecovery.ts\<close> checks a
  factor against the policy of its role, a profile of three factors, and the rotation of one of them.
  The factors authorise a recovery action by \<^emph>\<open>evidence\<close> of two of them for a context
  (\<open>v2RecoveryEvidence.ts\<close>, and \<open>v2ConsumerRecoveryEvidenceContext.ts\<close> for consumer configurations), which
  names the account, its epochs, the intent and the committed factors.
  A factor is enrolled by a ceremony of limited lifetime: for a deployed account by the ceremony of
  \<open>v2ConsumerRecoveryCeremonyLifecycle.ts\<close>, bound to the account by \<open>v2LocalCeremonyProtocol.ts\<close> and kept
  by the desktop host (\<open>recovery-ceremony-host.cjs\<close>); before an account exists, by a \<^emph>\<open>genesis ceremony\<close>
  of each role (\<open>v2ConsumerRecoveryGenesisRoleCeremonyLifecycle.ts\<close>), bound to a deployment intent by the
  commitments of \<open>v2ConsumerRecoveryGenesisProtocol.ts\<close>, which also validates the genesis profile. While
  the ceremony of a deployed account is open, the public candidates of the three factors are staged in a
  \<^emph>\<open>journal\<close> that survives a restart (\<open>v2ConsumerRecoveryStagingJournal.ts\<close>). The
  signatures of devices are parsed, normalised and verified in \<open>p256SignatureWireV2.ts\<close>.

  \<^bold>\<open>Theories.\<close>
  \<^item> \<open>Prelude\<close>: the error monad (\<open>error + 'a\<close>, \<open>Inl\<close> is a thrown \<open>Error\<close>), conversions \<open>BigInt(x)\<close>,
    \<open>toLowerCase\<close>, the simplification collections, and the interfaces the components share:
    \<open>normaliser\<close> (a constructor whose results it accepts unchanged), \<open>one_shot_ledger\<close> (what was
    recorded is refused for ever) and \<open>invariant_system\<close> (a step relation with an invariant and a
    preorder on its states).
  \<^item> \<open>Ethers\<close>: the functions of the package \<open>ethers\<close> as a record of parameters, with their documented
    behaviour in \<open>ethers_laws\<close>; a concrete instance \<open>sample_ethers\<close> satisfies them. No injectivity of
    \<open>keccak256\<close> is assumed: statements about hashes conclude with an explicit collision among the
    listed inputs (\<open>keccak_collision\<close>).
  \<^item> \<open>Intent\<close>, \<open>Authorization\<close>, \<open>Validator\<close>, \<open>Engine\<close>: one per source file, with the declarations in
    the order of the file and under its names.
  \<^item> \<open>Json\<close> and \<open>Account\<close>: \<open>v2AccountCore.ts\<close>, with \<open>JSON.stringify\<close> for the state binding.
  \<^item> \<open>AccountSystem\<close>: the account as a machine, all interleavings of validations, applications and
    completions; the steps are the effects of the calls (\<open>account_after\<close>), which carry their arguments; \<open>Spec2Isabelle\<close>: properties that span the components.
  \<^item> \<open>Bytes\<close> and \<open>P256Wire\<close>: byte strings, and \<open>p256SignatureWireV2.ts\<close>; the interface \<open>signature_decoder\<close>
    is shared by the DER and the raw format.
  \<^item> \<open>JsValue\<close> and \<open>Commitment\<close>: values of type \<open>unknown\<close> with the guarded reading of their own properties, and
    typed commitments (\<open>committing\<close> is the interface of a function that computes one).
  \<^item> \<open>GenesisProtocol\<close>: the two commitments of \<open>v2ConsumerRecoveryGenesisProtocol.ts\<close>.
  \<^item> \<open>Ceremony\<close>: the abstract ceremony, its steps, and the interface \<open>ceremony\<close> of what implements it.
  \<^item> \<open>GenesisCeremony\<close> and \<open>GenesisSlot\<close>: \<open>v2ConsumerRecoveryGenesisRoleCeremonyLifecycle.ts\<close>, the operations
    on records, and the slot of a role as a state machine.
  \<^item> \<open>LocalCeremony\<close>, \<open>RecoveryCeremony\<close> and \<open>RecoveryHost\<close>: \<open>v2LocalCeremonyProtocol.ts\<close>,
    \<open>v2ConsumerRecoveryCeremonyLifecycle.ts\<close> and \<open>recovery-ceremony-host.cjs\<close>; the slot of the host is a second
    implementation of \<open>ceremony\<close>.
  \<^item> \<open>ConsumerRecovery\<close> and \<open>RecoveryProfile\<close>: \<open>v2ConsumerRecovery.ts\<close>, the commitments and the access to
    objects, then policy, profile and rotation.
  \<^item> \<open>GenesisProfile\<close>: the validation of a genesis profile, the rest of
    \<open>v2ConsumerRecoveryGenesisProtocol.ts\<close>.
  \<^item> \<open>HostValue\<close>, \<open>StagingJournal\<close>, \<open>JournalValidation\<close> and \<open>JournalSystem\<close>: values by their answers to
    the operations the journals use; \<open>v2ConsumerRecoveryStagingJournal.ts\<close>; what its validation accepts; its
    transitions as an implementation of an abstract staging, with two interpretations of \<open>invariant_system\<close>.
  \<^item> \<open>RecoveryEvidence\<close>, \<open>EvidenceContext\<close> and \<open>EvidenceSystem\<close>: descriptors, configurations and rotations of
    version 2; the evidence contexts, with those of consumer configurations; what they show together with the
    account.

  \<^bold>\<open>Correspondence.\<close> An interface is a record, its fields with a short prefix; a union of string
  literals is a datatype with a \<open>_name\<close> function, or a string where the code tests it at run time;
  \<open>bigint\<close> is \<open>int\<close> with the widths checked as the code checks them; a throwing function is a
  function into the error monad, with the checks in the order of evaluation; a call that is inside a
  \<open>try\<close> is \<open>attempt\<close> or \<open>guarded\<close>, one that is not is \<open>uncaught\<close> or \<open>unguarded\<close>. The two module level
  weak sets of contexts are the record \<open>validation_contexts\<close>, passed and returned; an accepted
  context has the identity \<open>ax_ref\<close> of the new object. The awaited verifier is a function from
  requests to a result that may raise. Strings are lists of characters. An argument of type \<open>unknown\<close>
  is a \<open>js_value\<close> (or a \<open>host_value\<close>, for the operations the journals use), whose objects may be proxies that answer each operation as they like; what an object in
  a numeric field answers to \<open>BigInt\<close> is a parameter for each pass over the fields.

  \<^bold>\<open>What is shown.\<close>
  \<^item> Intents and digests: what is accepted exactly, and that equal hashes have equal contents up to a
    collision of \<open>keccak256\<close>.
  \<^item> Validator: the exact effect of each transition; the invariant over all sequences of them;
    a digest or nonce is consumed once.
  \<^item> Engine: it always returns; an acceptance implies all bindings; who may authorise what; what a
    recovery freezes; no package is accepted again after its consumption.
  \<^item> Account: validation and application are characterised by equivalences; the invariant over all
    interleavings; time lock of a recovery; contexts are bound to a state and used once.
  \<^item> Signatures: DER parsing accepts exactly the canonical encodings; every accepted signature has a low \<open>s\<close>
    after normalisation, so that of two related signatures one is refused; the wire format round trips.
  \<^item> Genesis ceremonies: the slot refines the abstract ceremony, so that the end is final and time does not go
    back; the lifetime is bounded over all runs; each transition exactly, with its errors; what the
    commitment binds. The statements hold for every argument, hostile objects included.
  \<^item> Account-bound ceremonies: the host refines the same abstract ceremony; invariant over all runs of calls;
    the enrollment hash binds its fields and is never a hash of the other protocols; the recovery of a signer.
  \<^item> Factors, profiles and rotations: what an accepted factor of a role satisfies and what its commitment
    binds; the separation of the three factors; a rotation replaces one factor. A policy is checked on numbers
    that are converted again for the commitment, with a theorem that shows what this permits.
  \<^item> Genesis profiles: the chain of commitments from the configuration hash to the deployment intent.
  \<^item> Staging journals: validation accepts exactly the values that show a well-formed record, and what is written is
    read back; the transitions implement the abstract staging, whose runs keep the context, the order of times
    and the end; the checksum binds the record up to a collision of SHA-256; a candidate can be staged until the
    expiry, and a ceremony that was minted has a journal. The limit on the size of an entry is never the reason of a
    refusal of right fields (\<open>entry_bytes_bound\<close>).
  \<^item> Recovery evidence: two descriptors that pass the membership check are two different enrolled factors; a digest
    binds the whole context and its kind of configuration; the digest of a consumer context exactly; evidence that
    was accepted is refused as stale once an epoch of the account has moved, and so after a completed recovery; a
    rotation of descriptors.
  All functions are total and structurally recursive or not recursive, so that no fuel is used.

  \<^bold>\<open>Not modelled.\<close> The remaining files of the SDK (sessions, transports, the genesis staging journal and the
  shell under \<open>runtime\<close>) are mostly file system, IPC and platform key store calls around
  this core. The rest of the desktop host, the iOS companion, the contracts, the Starknet spikes and the
  proving scripts are other programs.
\<close>

section \<open>From the account to the engine\<close>

text \<open>The authority behind the context of a validator rotation and of a recovery request.\<close>

lemma context_authority:
  assumes laws: "ethers_laws E" and acc: "operation_accepted E rq s enc x"
  shows "(case ax_action x of
      DraftRecoveryRequest _ _ _ _ \<Rightarrow> aa_authorityKind (ax_authorization x) = ''recovery_threshold''
    | DraftRecoveryCancel _ \<Rightarrow> aa_authorityKind (ax_authorization x) = ''recovery_threshold''
    | _ \<Rightarrow> aa_authorityKind (ax_authorization x) = ''validator_signature'')"
proof -
  obtain au where a: "authorization_accepted E (engine_request s rq) (as_validatorState s) enc au
      (ax_authorization x)" using operation_engine [OF laws acc] by blast
  then have "aa_authorityKind (ax_authorization x) \<in> set (requiredAuthorityKinds (h_actionType (enc_header enc)))"
    by (simp add: authorization_accepted_def authority_bound_def)
  with typedAction_kind [OF operation_action(1) [OF laws acc]] operation_action(2) [OF laws acc]
  show ?thesis by (cases "ax_action x") auto
qed

text \<open>The digest the engine accepted is the one the package declares.\<close>

lemma verified_declared_digest:
  assumes "verify_steps E rq = Inr a"
  shows "\<exists>au. ap_authority (vq_authorizationPackage rq) = Some au \<and>
    toLowerCase (ai_declaredAuthorityDigest au) = aa_authorityDigest a"
proof -
  from assms obtain v ih au d where au: "ap_authority (vq_authorizationPackage rq) = Some au" and
    d: "verify_authority_digest E v (vq_authorizationPackage rq) ih au = Inr d" "aa_authorityDigest a = d"
    unfolding verify_steps_def Let_def bnd_eq_Inr case_prod_unfold present_iff by auto
  from d(1) have "toLowerCase (ai_declaredAuthorityDigest au) = d"
    by (simp add: verify_authority_digest_iff engine_bytes32_iff)
  with au d(2) show ?thesis by simp
qed

lemma accepted_declared_digest:
  assumes "operation_accepted E rq s enc x"
  shows "\<exists>au. ap_authority (ar_authorizationPackage rq) = Some au \<and>
    toLowerCase (ai_declaredAuthorityDigest au) = aa_authorityDigest (ax_authorization x)"
proof -
  from assms have "verify_steps E (engine_request s rq) = Inr (ax_authorization x)"
    unfolding operation_accepted_def Let_def verify_accepted_iff by blast
  from verified_declared_digest [OF this] show ?thesis by (simp add: engine_request_def)
qed

text \<open>What an application consumes.\<close>

lemma consumed_by_application:
  assumes "ethers_laws E" and "account_inv E (C, s)"
    and "applyPhilCoreV2AccountTransitionLocally E C s x time = (C', Inr r)"
  shows "ax_nonceKey x * 2 ^ 64 + ax_nonceSequence x \<in> set (vs_consumedNonces (as_validatorState (tr_state r)))"
    and "toLowerCase (aa_authorityDigest (ax_authorization x)) \<in>
      set (vs_consumedAuthorizationDigests (as_validatorState (tr_state r)))"
proof -
  from assms(2) have s: "account_wf E s" by (simp add: account_inv_def)
  from assms(3) obtain now ns where con: "consumable E s x"
    and adv: "advances (ax_nonceKey x) (as_nonceSequences s) ns"
    and eff: "action_effect E s x now ns (tr_state r)"
    unfolding apply_iff [OF assms(1) s] by blast
  from action_effect_sound [OF assms(1) s con adv eff]
  show "ax_nonceKey x * 2 ^ 64 + ax_nonceSequence x \<in> set (vs_consumedNonces (as_validatorState (tr_state r)))"
    and "toLowerCase (aa_authorityDigest (ax_authorization x)) \<in>
      set (vs_consumedAuthorizationDigests (as_validatorState (tr_state r)))"
    by (simp_all add: consumed_validator_def)
qed

text \<open>An application that changes the validator is that of a rotation.\<close>

lemma apply_changes_validator:
  assumes "action_effect E s x now ns t"
    and "vs_validator (as_validatorState t) \<noteq> vs_validator (as_validatorState s)"
  shows "\<exists>pv pb pe. ax_action x = DraftValidatorRotation pv pb pe \<and>
    is_address E False pv (vs_validator (as_validatorState t)) \<and>
    vs_validatorStatus (as_validatorState s) = Active \<and> vs_recoveryState (as_validatorState s) = Normal"
  using assms
  by (cases "ax_action x") (auto simp: action_effect_def Let_def consumed_validator_def rotated_def)

lemma completion_authorised:
  assumes "ethers_laws E" and inv: "account_inv E (C, s)" and "completePhilCoreV2RecoveryLocally E s rid time = Inr t"
  shows "\<exists>now p. is_uint False 48 time now \<and> as_pendingRecovery s = Some p \<and> is_bytes32 E False rid (pr_requestId p) \<and>
    pr_requestedAt p + 48 * 60 * 60 \<le> now \<and> now < pr_requestedAt p + 7 * 24 * 60 * 60 \<and>
    (\<exists>x \<in> set (consumedValidationContexts C). \<exists>rid' pv pb pe. ax_action x = DraftRecoveryRequest rid' pv pb pe \<and>
      aa_authorityKind (ax_authorization x) = ''recovery_threshold'' \<and> pr_requestId p = toLowerCase rid' \<and>
      is_address E False pv (vs_validator (as_validatorState t)))"
proof -
  from inv have s: "account_wf E s" and lock: "pending_locked s" and issued: "issued_accepted E C"
    and auth: "pending_authorised E C s" and sub: "contexts_wf C"
    by (simp_all add: account_inv_def)
  from assms(3) obtain now p where p: "is_uint False 48 time now" "as_pendingRecovery s = Some p" "is_bytes32 E False rid (pr_requestId p)"
    "pr_executableAfter p \<le> now" "now < pr_expiresAt p" "vs_validator (as_validatorState t) = pr_proposedValidator p"
    unfolding complete_iff [OF assms(1) s] by (auto simp: recovered_def rotated_def)
  from auth p(2) obtain x rid' pv pb pe where x: "x \<in> set (consumedValidationContexts C)"
    "ax_action x = DraftRecoveryRequest rid' pv pb pe" "pr_requestId p = toLowerCase rid'"
    "is_address E False pv (pr_proposedValidator p)"
    unfolding pending_authorised_def by blast
  from x(1) sub issued obtain rq s0 enc where "operation_accepted E rq s0 enc x"
    unfolding issued_accepted_def contexts_wf_def by blast
  with context_authority [OF assms(1) this] x(2)
  have "aa_authorityKind (ax_authorization x) = ''recovery_threshold''" by auto
  with x have "\<exists>x \<in> set (consumedValidationContexts C). \<exists>rid' pv pb pe.
      ax_action x = DraftRecoveryRequest rid' pv pb pe \<and>
      aa_authorityKind (ax_authorization x) = ''recovery_threshold'' \<and> pr_requestId p = toLowerCase rid' \<and>
      is_address E False pv (vs_validator (as_validatorState t))" unfolding p(6) by blast
  with p lock show ?thesis
    by (auto simp: pending_locked_def PHILCORE_V2_RECOVERY_DELAY_SECONDS_def PHILCORE_V2_RECOVERY_EXPIRY_SECONDS_def)
qed

text \<open>
  C1: who can change the validator. Let a call in any reachable state of the account change the
  validator address. Either it applies a context of a rotation that was accepted with a signature
  of the validator, which is active, and no recovery is under way, and the new validator is the
  one it proposes; or it completes the pending recovery under its request id, the time of the
  call is at least 48 hours and less than 7 days after the time of the request, an earlier context
  requested the recovery, accepted with a quorum of two recovery factors, and the new validator is
  the one that request proposed.
\<close>

theorem validator_change_authorised:
  assumes "ethers_laws E" and "account_inv E cs" and "(account_step E)\<^sup>*\<^sup>* cs (C, s)"
    and "account_after E call (C, s) = (C', t)"
    and "vs_validator (as_validatorState t) \<noteq> vs_validator (as_validatorState s)"
  shows "(\<exists>x time pv pb pe. call = ApplyCall x time \<and>
      x \<in> set (issuedValidationContexts C) - set (consumedValidationContexts C) \<and>
      ax_action x = DraftValidatorRotation pv pb pe \<and>
      aa_authorityKind (ax_authorization x) = ''validator_signature'' \<and>
      vs_validatorStatus (as_validatorState s) = Active \<and> as_pendingRecovery s = None \<and>
      is_address E False pv (vs_validator (as_validatorState t))) \<or>
    (\<exists>rid time now p. call = CompleteCall rid time \<and> is_uint False 48 time now \<and>
      as_pendingRecovery s = Some p \<and> is_bytes32 E False rid (pr_requestId p) \<and>
      pr_requestedAt p + 48 * 60 * 60 \<le> now \<and> now < pr_requestedAt p + 7 * 24 * 60 * 60 \<and>
      (\<exists>x \<in> set (consumedValidationContexts C). \<exists>rid' pv pb pe.
        ax_action x = DraftRecoveryRequest rid' pv pb pe \<and>
        aa_authorityKind (ax_authorization x) = ''recovery_threshold'' \<and>
        pr_requestId p = toLowerCase rid' \<and> is_address E False pv (vs_validator (as_validatorState t))))"
proof -
  have inv: "account_inv E (C, s)" using account_reachable [OF assms(1-3)] by blast
  then have s: "account_wf E s" and issued: "issued_accepted E C" by (simp_all add: account_inv_def)
  show ?thesis
  proof (cases call)
    case (ValidateCall rq)
    with assms(4,5) show ?thesis by simp
  next
    case (ApplyCall x time)
    with assms(4,5) obtain r where "applyPhilCoreV2AccountTransitionLocally E C s x time = (C', Inr r)" "t = tr_state r"
      by (auto split: prod.splits sum.splits)
    then obtain now ns where v: "context_valid E C s x" and eff: "action_effect E s x now ns t"
      unfolding apply_iff [OF assms(1) s] by blast
    from apply_changes_validator [OF eff assms(5)] obtain pv pb pe where
      act: "ax_action x = DraftValidatorRotation pv pb pe"
      "is_address E False pv (vs_validator (as_validatorState t))"
      "vs_validatorStatus (as_validatorState s) = Active" "vs_recoveryState (as_validatorState s) = Normal"
      by blast
    have x: "x \<in> set (issuedValidationContexts C) - set (consumedValidationContexts C)"
      using v by (simp add: context_valid_def)
    with issued obtain rq s0 enc where "operation_accepted E rq s0 enc x"
      by (auto simp: issued_accepted_def)
    from context_authority [OF assms(1) this] act account_wf_parts(5) [OF s] x ApplyCall show ?thesis by auto
  next
    case (CompleteCall rid time)
    with assms(4,5) have "completePhilCoreV2RecoveryLocally E s rid time = Inr t" by (auto split: sum.splits)
    from completion_authorised [OF assms(1) inv this] CompleteCall show ?thesis by blast
  qed
qed

theorem validator_change_authorised_witness:
  "\<exists>C s t rid p. (account_step sample_ethers)\<^sup>*\<^sup>* (no_contexts, sample_account) (C, s) \<and>
     account_after sample_ethers (CompleteCall rid (BigIntV 200000)) (C, s) = (C, t) \<and>
     vs_validator (as_validatorState t) \<noteq> vs_validator (as_validatorState s) \<and>
     as_pendingRecovery s = Some p \<and> pr_requestedAt p + 48 * 60 * 60 \<le> 200000 \<and> 200000 < pr_requestedAt p + 7 * 24 * 60 * 60"
proof -
  obtain enc runtime intent digest where q: "quorum_hashes enc runtime intent digest"
    using quorum_hashes_exist by blast
  let ?x = "recovery_context (enc_intentCoreHash enc) runtime intent digest"
  let ?s = "requested_state ?x" and ?C = "recovery_contexts ?x"
  note run = recovery_requested [OF q refl]
  obtain t where t: "completePhilCoreV2RecoveryLocally sample_ethers ?s intent (BigIntV 200000) = Inr t"
    using recovery_completed [OF q refl] by blast
  then have call: "account_after sample_ethers (CompleteCall intent (BigIntV 200000)) (?C, ?s) = (?C, t)" by simp
  have "account_wf sample_ethers ?s"
    using account_reachable [OF sample_ethers_laws sample_inv run] by (simp add: account_inv_def)
  with t have d: "vs_validator (as_validatorState t) \<noteq> vs_validator (as_validatorState ?s)"
    by (auto simp: complete_iff [OF sample_ethers_laws] requested_state_def requested_recovery_def
        pending_request_def recovered_def rotated_def consumed_validator_def sample_account_def
        sample_validator_state_def)
  from validator_change_authorised [OF sample_ethers_laws sample_inv run call d] obtain p where
    "as_pendingRecovery ?s = Some p" "pr_requestedAt p + 48 * 60 * 60 \<le> 200000" "200000 < pr_requestedAt p + 7 * 24 * 60 * 60"
    by (auto simp: is_uint_BigIntV)
  with run call d show ?thesis by blast
qed

text \<open>
  C2: no replay, end to end. Once a context was applied, every validation on any later state of
  the account rejects a request that carries the same keyed nonce, and one whose package declares
  the same authority digest, whatever else the request says and whatever verifier or time it is
  submitted with.
\<close>

theorem no_replay:
  assumes "ethers_laws E" and "account_inv E (C, s)"
    and "applyPhilCoreV2AccountTransitionLocally E C s x time = (C1, Inr r)"
    and "(account_step E)\<^sup>*\<^sup>* (C1, tr_state r) (C2, s2)" and "ar_state rq = s2"
    and "BigInt_of (ar_keyedNonce rq) = Inr (ax_nonceKey x * 2 ^ 64 + ax_nonceSequence x) \<or>
      (\<exists>au. ap_authority (ar_authorizationPackage rq) = Some au \<and>
        toLowerCase (ai_declaredAuthorityDigest au) = toLowerCase (aa_authorityDigest (ax_authorization x)))"
  shows "\<exists>code auth. validatePhilCoreV2AccountOperation E C2 rq = (C2, Inr (AccountRejected code auth))"
proof -
  let ?n = "ax_nonceKey x * 2 ^ 64 + ax_nonceSequence x"
  let ?d = "toLowerCase (aa_authorityDigest (ax_authorization x))"
  have inv: "account_inv E (C1, tr_state r)" using account_apply_inv [OF assms(1-3)] by blast
  from consumed_by_application [OF assms(1-3)] account_reachable [OF assms(1) inv assms(4)]
  have used: "?n \<in> set (vs_consumedNonces (as_validatorState s2))"
    "?d \<in> set (vs_consumedAuthorizationDigests (as_validatorState s2))" and s2: "account_wf E s2"
    by (auto simp: system_evolves_def account_evolves_def validator_evolves_def account_inv_def)
  have "\<not> operation_accepted E rq s' enc y" for s' enc y
  proof
    assume acc': "operation_accepted E rq s' enc y"
    then have "s' = s2"
      using create_account_wf [OF assms(1) s2] assms(5) by (auto simp: operation_accepted_def Let_def)
    with acc' have acc: "operation_accepted E rq s2 enc y" by simp
    obtain au where "authorization_accepted E (engine_request s2 rq) (as_validatorState s2) enc au
        (ax_authorization y)" using operation_engine [OF assms(1) acc] by blast
    with acc used have "BigInt_of (ar_keyedNonce rq) \<noteq> Inr ?n" "aa_authorityDigest (ax_authorization y) \<noteq> ?d"
      by (auto simp: authorization_accepted_def operation_accepted_def Let_def is_uint_def)
    with accepted_declared_digest [OF acc] assms(6) show False by auto
  qed
  then show ?thesis by (rule not_accepted_rejected [OF assms(1)])
qed

theorem no_replay_witness:
  "\<exists>code auth. validatePhilCoreV2AccountOperation sample_ethers sample_consumed
     (sample_operation\<lparr>ar_state := sample_result\<rparr>) = (sample_consumed, Inr (AccountRejected code auth))"
proof -
  have "account_inv sample_ethers (sample_issued, sample_account)"
    using account_step_sound [OF sample_ethers_laws sample_inv account_step.validate [OF sample_validated]]
    by blast
  from no_replay [OF sample_ethers_laws this sample_applied, of sample_consumed sample_result
      "sample_operation\<lparr>ar_state := sample_result\<rparr>"]
  show ?thesis by (simp add: sample_operation_def sample_context_def)
qed

end
